(* ===== verification/Prelude.thy ===== *)
theory Prelude
  imports Main "HOL-Library.Word" "HOL-Library.Finite_Map" "HOL-Library.Char_ord"
    "HOL-Library.List_Lexorder" "HOL-Library.Monad_Syntax" "HOL-Library.Code_Target_Nat"
begin

text \<open>
  Shared vocabulary of the development: the machine types of the Rust sources, results as sums,
  strings as byte lists with the operations of the Rust standard library that the sources call,
  saturating arithmetic, durations, and the generic lemmas on lists and finite maps that the
  component theories rest on.

  Conventions used everywhere:
  \<^item> a Rust \<open>String\<close> or \<open>&str\<close> is its UTF-8 byte sequence, an HOL \<^typ>\<open>string\<close> (a \<^typ>\<open>char\<close> is
    one byte), so \<open>len\<close> is \<^const>\<open>length\<close>;
  \<^item> \<open>Result<T, E>\<close> is \<open>'e + 't\<close>, with \<open>Err = Inl\<close> and \<open>Ok = Inr\<close>;
  \<^item> \<open>HashMap\<close> and \<open>BTreeMap\<close> are finite maps, \<open>VecDeque\<close> and \<open>Vec\<close> are lists;
  \<^item> \<open>Duration\<close> and \<open>Instant\<close> are natural numbers of nanoseconds, with the saturation of
    \<open>Duration::saturating_mul\<close> written out;
  \<^item> an operation that may loop forever or panic returns an \<^typ>\<open>'a option\<close>, \<^const>\<open>None\<close> being the
    run that does not return.
\<close>

section \<open>Collections of rules\<close>

named_theorems host_defs "definitions unfolded together by the host proofs"
named_theorems inv_intros "invariant preservation rules, one per operation"
named_theorems frame_simps "what an operation leaves unchanged"

section \<open>Machine types and results\<close>

type_synonym u8 = "8 word"
type_synonym u16 = "16 word"
type_synonym u32 = "32 word"
type_synonym u64 = "64 word"

abbreviation (input) Ok :: "'a \<Rightarrow> 'e + 'a" where "Ok \<equiv> Inr"
abbreviation (input) Err :: "'e \<Rightarrow> 'e + 'a" where "Err \<equiv> Inl"

definition saturating_add :: "'n::len word \<Rightarrow> 'n word \<Rightarrow> 'n word" where
  "saturating_add a b = (if unat a + unat b < 2 ^ LENGTH('n) then a + b else - 1)"

definition checked_sub :: "'n::len word \<Rightarrow> 'n word \<Rightarrow> 'n word option" where
  "checked_sub a b = (if b \<le> a then Some (a - b) else None)"

definition checked_add :: "'n::len word \<Rightarrow> 'n word \<Rightarrow> 'n word option" where
  "checked_add a b = (if unat a + unat b < 2 ^ LENGTH('n) then Some (a + b) else None)"

text \<open>Durations are counted in nanoseconds and saturate at \<open>Duration::MAX\<close>.\<close>

type_synonym duration = nat
type_synonym instant = nat

definition duration_max :: duration where
  "duration_max = (2 ^ 64 - 1) * 1000000000 + 999999999"

definition from_millis :: "nat \<Rightarrow> duration" where
  "from_millis ms = ms * 1000000"

definition from_secs :: "nat \<Rightarrow> duration" where
  "from_secs s = s * 1000000000"

definition saturating_mul :: "duration \<Rightarrow> nat \<Rightarrow> duration" where
  "saturating_mul d k = min (d * k) duration_max"

section \<open>Bytes and strings\<close>

definition byte :: "char \<Rightarrow> nat" where
  "byte c = of_char c"

definition is_ascii_digit :: "char \<Rightarrow> bool" where
  "is_ascii_digit c \<longleftrightarrow> 48 \<le> byte c \<and> byte c \<le> 57"

definition is_ascii_lowercase :: "char \<Rightarrow> bool" where
  "is_ascii_lowercase c \<longleftrightarrow> 97 \<le> byte c \<and> byte c \<le> 122"

definition is_ascii_uppercase :: "char \<Rightarrow> bool" where
  "is_ascii_uppercase c \<longleftrightarrow> 65 \<le> byte c \<and> byte c \<le> 90"

definition is_ascii_alphanumeric :: "char \<Rightarrow> bool" where
  "is_ascii_alphanumeric c \<longleftrightarrow> is_ascii_digit c \<or> is_ascii_lowercase c \<or> is_ascii_uppercase c"

definition is_ascii_hexdigit :: "char \<Rightarrow> bool" where
  "is_ascii_hexdigit c \<longleftrightarrow> is_ascii_digit c \<or> (97 \<le> byte c \<and> byte c \<le> 102) \<or>
     (65 \<le> byte c \<and> byte c \<le> 70)"

text \<open>The lowercase hexadecimal alphabet the digests use.\<close>

definition is_lower_hex :: "char \<Rightarrow> bool" where
  "is_lower_hex c \<longleftrightarrow> is_ascii_digit c \<or> (97 \<le> byte c \<and> byte c \<le> 102)"

text \<open>\<open>u8::is_ascii_whitespace\<close>: space, tab, line feed, form feed, carriage return.\<close>

definition is_ascii_whitespace :: "char \<Rightarrow> bool" where
  "is_ascii_whitespace c \<longleftrightarrow> byte c \<in> {32, 9, 10, 12, 13}"

definition to_ascii_lowercase :: "char \<Rightarrow> char" where
  "to_ascii_lowercase c = (if is_ascii_uppercase c then char_of (byte c + 32) else c)"

definition eq_ignore_ascii_case :: "string \<Rightarrow> string \<Rightarrow> bool" where
  "eq_ignore_ascii_case a b \<longleftrightarrow> map to_ascii_lowercase a = map to_ascii_lowercase b"

definition starts_with :: "string \<Rightarrow> string \<Rightarrow> bool" where
  "starts_with s p \<longleftrightarrow> take (length p) s = p"

definition ends_with :: "string \<Rightarrow> string \<Rightarrow> bool" where
  "ends_with s p \<longleftrightarrow> length p \<le> length s \<and> drop (length s - length p) s = p"

definition strip_prefix :: "string \<Rightarrow> string \<Rightarrow> string option" where
  "strip_prefix s p = (if starts_with s p then Some (drop (length p) s) else None)"

text \<open>\<open>str::rsplit_once\<close> on one byte: what precedes and follows the last occurrence.\<close>

definition rsplit_once :: "string \<Rightarrow> char \<Rightarrow> (string \<times> string) option" where
  "rsplit_once s c =
     (if c \<in> set s
      then Some (rev (drop 1 (dropWhile (\<lambda>x. x \<noteq> c) (rev s))), rev (takeWhile (\<lambda>x. x \<noteq> c) (rev s)))
      else None)"

text \<open>\<open>str::is_char_boundary\<close>: index 0, the end, or a byte that is not a UTF-8 continuation byte.\<close>

definition is_char_boundary :: "string \<Rightarrow> nat \<Rightarrow> bool" where
  "is_char_boundary s i \<longleftrightarrow>
     i = 0 \<or> i = length s \<or> (i < length s \<and> \<not> (128 \<le> byte (s ! i) \<and> byte (s ! i) < 192))"

text \<open>Decimal rendering (\<open>u64::to_string\<close> and the \<open>{}\<close> of \<open>format!\<close>).\<close>

fun show_nat :: "nat \<Rightarrow> string" where
  "show_nat n = (if n < 10 then [char_of (48 + n)] else show_nat (n div 10) @ [char_of (48 + n mod 10)])"

declare show_nat.simps [simp del]

definition show_word :: "'n::len word \<Rightarrow> string" where
  "show_word w = show_nat (unat w)"

section \<open>Generic lemmas\<close>

lemma starts_with_append [simp]: "starts_with (p @ s) p"
  by (simp add: starts_with_def)

lemma ends_with_append [simp]: "ends_with (s @ p) p"
  by (simp add: ends_with_def)

lemma starts_withE: "starts_with s p \<Longrightarrow> \<exists>t. s = p @ t"
  by (metis append_take_drop_id starts_with_def)

lemma ends_withE: "ends_with s p \<Longrightarrow> \<exists>t. s = t @ p"
  by (metis append_take_drop_id ends_with_def)

lemma strip_prefix_Some_iff: "strip_prefix s p = Some t \<longleftrightarrow> s = p @ t"
  by (auto simp: strip_prefix_def dest: starts_withE)

lemma unat_word_of_nat: "n < 2 ^ LENGTH('n) \<Longrightarrow> unat (word_of_nat n :: 'n::len word) = n"
  by (simp add: unsigned_of_nat take_bit_nat_eq_self)

lemma checked_sub_Some: "checked_sub a b = Some c \<Longrightarrow> unat c = unat a - unat b \<and> unat b \<le> unat a"
  by (auto simp: checked_sub_def unat_sub word_le_nat_alt split: if_splits)

lemma saturating_add_ge:
  fixes a b :: "'n::len word"
  shows "unat a \<le> unat (saturating_add a b)"
proof (cases "unat a + unat b < 2 ^ LENGTH('n)")
  case True
  then show ?thesis by (simp add: saturating_add_def unat_word_ariths)
next
  case False
  have "unat a \<le> unat (- 1 :: 'n word)"
    by (simp add: word_le_nat_alt [symmetric])
  with False show ?thesis by (simp add: saturating_add_def)
qed

lemma saturating_add_pos: "saturating_add a (1 :: u64) \<noteq> 0"
proof (cases "unat a + 1 < 2 ^ 64")
  case True
  then have "unat (a + 1) = unat a + 1"
    by (simp add: unat_word_ariths)
  then have "a + 1 \<noteq> 0" by force
  with True show ?thesis by (simp add: saturating_add_def)
next
  case False
  then show ?thesis by (simp add: saturating_add_def)
qed

text \<open>Finite maps as hash maps: \<open>len\<close> and how insertion and removal change it.\<close>

definition fmlen :: "('k, 'v) fmap \<Rightarrow> nat" where
  "fmlen m = fcard (fmdom m)"

lemma fmlen_empty [simp]: "fmlen fmempty = 0"
  by (simp add: fmlen_def)

lemma fmlen_upd [simp]:
  "fmlen (fmupd k v m) = (if k |\<in>| fmdom m then fmlen m else Suc (fmlen m))"
  by (auto simp: fmlen_def fcard_finsert_if finsert_absorb)

lemma fmlen_drop [simp]:
  "fmlen (fmdrop k m) = (if k |\<in>| fmdom m then fmlen m - 1 else fmlen m)"
proof -
  have "k |\<notin>| fmdom m \<Longrightarrow> fmdrop k m = m"
    by (rule fmap_ext) (auto simp: fmdom_notI fmdom_notD)
  then show ?thesis
    by (auto simp: fmlen_def fmdom_drop fcard_fminus_fsingleton)
qed

lemma fmlen_pos: "k |\<in>| fmdom m \<Longrightarrow> 0 < fmlen m"
  unfolding fmlen_def fcard.rep_eq by (rule card_gt_0_iff [THEN iffD2]) auto

lemma fmlen_eq_length:
  assumes "distinct ks" and "set ks = fset (fmdom m)"
  shows "fmlen m = length ks"
  using assms by (simp add: fmlen_def fcard.rep_eq distinct_card [symmetric])

lemma fmdom_fmfilter_subset: "fmdom (fmfilter P m) |\<subseteq>| fmdom m"
  by auto

lemma fmlen_filter_le: "fmlen (fmfilter P m) \<le> fmlen m"
  unfolding fmlen_def by (rule fcard_mono) (rule fmdom_fmfilter_subset)

text \<open>\<open>HashMap::retain\<close> with a predicate on the stored value.\<close>

definition fmretain :: "('v \<Rightarrow> bool) \<Rightarrow> ('k, 'v) fmap \<Rightarrow> ('k, 'v) fmap" where
  "fmretain P m = fmfilter (\<lambda>k. case fmlookup m k of None \<Rightarrow> False | Some v \<Rightarrow> P v) m"

lemma fmlookup_fmretain [simp]:
  "fmlookup (fmretain P m) k = (case fmlookup m k of None \<Rightarrow> None | Some v \<Rightarrow> if P v then Some v else None)"
  by (auto simp: fmretain_def split: option.splits)

lemma in_fmdom_fmretain:
  "k |\<in>| fmdom (fmretain P m) \<longleftrightarrow> (\<exists>v. fmlookup m k = Some v \<and> P v)"
  by (auto simp: fmlookup_dom_iff split: option.splits if_splits)

lemma fmlen_fmretain_le: "fmlen (fmretain P m) \<le> fmlen m"
  by (simp add: fmretain_def fmlen_filter_le)

text \<open>
  A map with its insertion queue: the queue lists every key once.  Two components keep such a
  pair (results and deferred targets), each with its own capacity.
\<close>

definition indexed :: "'k list \<Rightarrow> ('k, 'v) fmap \<Rightarrow> bool" where
  "indexed order m \<longleftrightarrow> distinct order \<and> set order = fset (fmdom m)"

lemma indexed_empty [simp]: "indexed [] fmempty"
  by (simp add: indexed_def)

lemma indexed_len: "indexed order m \<Longrightarrow> fmlen m = length order"
  by (simp add: indexed_def fmlen_eq_length)

lemma indexed_mem: "indexed order m \<Longrightarrow> k \<in> set order \<longleftrightarrow> k |\<in>| fmdom m"
  by (simp add: indexed_def)

lemma indexed_append: "indexed order m \<Longrightarrow> k |\<notin>| fmdom m \<Longrightarrow> indexed (order @ [k]) (fmupd k v m)"
  by (auto simp: indexed_def)

lemma indexed_upd: "indexed order m \<Longrightarrow> k |\<in>| fmdom m \<Longrightarrow> indexed order (fmupd k v m)"
  by (auto simp: indexed_def)

lemma indexed_drop: "indexed order m \<Longrightarrow> indexed (remove1 k order) (fmdrop k m)"
  by (auto simp: indexed_def)

lemma indexed_drop_hd: "indexed (k # order) m \<Longrightarrow> indexed order (fmdrop k m)"
  by (auto simp: indexed_def)

lemma indexed_requeue:
  "indexed order m \<Longrightarrow> k |\<in>| fmdom m \<Longrightarrow> indexed (filter (\<lambda>c. c \<noteq> k) order @ [k]) (fmupd k v m)"
  by (auto simp: indexed_def)

lemma indexed_retain:
  "indexed order m \<Longrightarrow> indexed (filter (\<lambda>k. k |\<in>| fmdom (fmretain P m)) order) (fmretain P m)"
  by (auto simp: indexed_def fmlookup_dom_iff split: option.splits if_splits)

section \<open>Machines that always step\<close>

text \<open>
  A component whose operations may fail to return is a machine: a command takes a state to an
  answer and a next state, or to \<^const>\<open>None\<close>.  \<open>run_steps\<close> runs a list of commands.
\<close>

fun run_steps :: "('c \<Rightarrow> 's \<Rightarrow> ('r \<times> 's) option) \<Rightarrow> 'c list \<Rightarrow> 's \<Rightarrow> ('r list \<times> 's) option" where
  "run_steps step [] s = Some ([], s)"
| "run_steps step (c # cs) s =
     do { (r, s) \<leftarrow> step c s; (rs, s) \<leftarrow> run_steps step cs s; Some (r # rs, s) }"

locale total_machine =
  fixes step :: "'c \<Rightarrow> 's \<Rightarrow> ('r \<times> 's) option"
    and invariant :: "'s \<Rightarrow> bool"
    and allowed :: "'c \<Rightarrow> bool"
  assumes step_total: "invariant s \<Longrightarrow> allowed c \<Longrightarrow> \<exists>r s'. step c s = Some (r, s') \<and> invariant s'"
begin

lemma run_total:
  "invariant s \<Longrightarrow> list_all allowed cs \<Longrightarrow>
     \<exists>rs s'. run_steps step cs s = Some (rs, s') \<and> invariant s' \<and> length rs = length cs"
proof (induction cs arbitrary: s)
  case Nil
  then show ?case by simp
next
  case (Cons c cs)
  then obtain r s1 where 1: "step c s = Some (r, s1)" "invariant s1"
    using step_total [of s c] by auto
  with Cons obtain rs s2 where "run_steps step cs s1 = Some (rs, s2)" "invariant s2"
    "length rs = length cs" by fastforce
  with 1 show ?case by simp
qed

end

end
