(* ===== verification/Health.thy ===== *)
theory Health
  imports Prelude
begin

text \<open>
  The versioned health contract (\<open>service-runtime/contract/src/health.rs\<close>): health states,
  component readiness, injection telemetry with its saturating success counters, structured
  errors, and the report validation every reader and publisher of health goes through.
\<close>

section \<open>Data\<close>

datatype health_state = HsUnknown | HsInitializing | HsReady | HsDegraded | HsFailed

datatype component_readiness = CrNotRequired | CrInitializing | CrReady | CrFailed

fun satisfies_ready :: "component_readiness \<Rightarrow> bool" where
  "satisfies_ready CrReady = True"
| "satisfies_ready _ = False"

record readiness_report =
  rr_profile :: component_readiness
  rr_observer :: component_readiness
  rr_injector32 :: component_readiness
  rr_injector64 :: component_readiness

datatype injection_architecture = IaX86 | IaX64

record injection_success =
  is_pid :: u32
  is_creation_time :: u64
  is_session_id :: u32
  is_runtime_generation_id :: string
  is_profile_digest :: string

record architecture_injection_telemetry =
  success_count :: u64
  last_success :: "injection_success option"

record injection_telemetry =
  tel_x86 :: architecture_injection_telemetry
  tel_x64 :: architecture_injection_telemetry

record structured_service_error =
  se_code :: string
  se_message :: string
  se_win32_error :: "u32 option"

record health_report =
  protocol_version :: u16
  service_version :: string
  health :: health_state
  active_profile_digest :: "string option"
  readiness :: readiness_report
  injection :: injection_telemetry
  last_error :: "structured_service_error option"

datatype health_contract_error = HealthContractError

definition HEALTH_PROTOCOL_VERSION :: u16 where "HEALTH_PROTOCOL_VERSION = 1"
definition MAX_ERROR_CODE_BYTES :: nat where "MAX_ERROR_CODE_BYTES = 128"
definition MAX_ERROR_MESSAGE_BYTES :: nat where "MAX_ERROR_MESSAGE_BYTES = 1024"

section \<open>Operations\<close>

definition not_required :: readiness_report where
  "not_required = \<lparr>rr_profile = CrNotRequired, rr_observer = CrNotRequired,
     rr_injector32 = CrNotRequired, rr_injector64 = CrNotRequired\<rparr>"

definition initializing :: readiness_report where
  "initializing = \<lparr>rr_profile = CrInitializing, rr_observer = CrInitializing,
     rr_injector32 = CrInitializing, rr_injector64 = CrInitializing\<rparr>"

definition ready_readiness :: readiness_report where
  "ready_readiness = \<lparr>rr_profile = CrReady, rr_observer = CrReady,
     rr_injector32 = CrReady, rr_injector64 = CrReady\<rparr>"

definition all_required_ready :: "readiness_report \<Rightarrow> bool" where
  "all_required_ready r \<longleftrightarrow> satisfies_ready (rr_profile r) \<and> satisfies_ready (rr_observer r)
     \<and> satisfies_ready (rr_injector32 r) \<and> satisfies_ready (rr_injector64 r)"

definition default_architecture_telemetry :: architecture_injection_telemetry where
  "default_architecture_telemetry = \<lparr>success_count = 0, last_success = None\<rparr>"

definition default_telemetry :: injection_telemetry where
  "default_telemetry =
     \<lparr>tel_x86 = default_architecture_telemetry, tel_x64 = default_architecture_telemetry\<rparr>"

definition record_architecture_success ::
  "injection_success \<Rightarrow> architecture_injection_telemetry \<Rightarrow> architecture_injection_telemetry" where
  "record_architecture_success success telemetry =
     telemetry\<lparr>success_count := saturating_add (success_count telemetry) 1,
               last_success := Some success\<rparr>"

fun record_success ::
  "injection_telemetry \<Rightarrow> injection_architecture \<Rightarrow> injection_success \<Rightarrow> injection_telemetry" where
  "record_success t IaX86 success = t\<lparr>tel_x86 := record_architecture_success success (tel_x86 t)\<rparr>"
| "record_success t IaX64 success = t\<lparr>tel_x64 := record_architecture_success success (tel_x64 t)\<rparr>"

definition canonical_generation_id :: "string \<Rightarrow> bool" where
  "canonical_generation_id value \<longleftrightarrow> length value = 64 \<and> list_all is_lower_hex value"

definition canonical_profile_digest :: "string \<Rightarrow> bool" where
  "canonical_profile_digest value \<longleftrightarrow> length value = 71 \<and> starts_with value ''sha256:''
     \<and> canonical_generation_id (drop 7 value)"

definition validate_architecture_telemetry :: "architecture_injection_telemetry \<Rightarrow> bool" where
  "validate_architecture_telemetry t =
     (case last_success t of
        None \<Rightarrow> success_count t = 0
      | Some success \<Rightarrow>
          success_count t \<noteq> 0 \<and> is_pid success \<noteq> 0 \<and> is_creation_time success \<noteq> 0
          \<and> is_session_id success \<noteq> 0
          \<and> canonical_generation_id (is_runtime_generation_id success)
          \<and> canonical_profile_digest (is_profile_digest success))"

definition validate_telemetry :: "injection_telemetry \<Rightarrow> bool" where
  "validate_telemetry t \<longleftrightarrow> list_all validate_architecture_telemetry [tel_x86 t, tel_x64 t]"

definition telemetry_verified_for_migration :: "injection_telemetry \<Rightarrow> string \<Rightarrow> string \<Rightarrow> bool" where
  "telemetry_verified_for_migration t generation_id profile_digest \<longleftrightarrow>
     list_all (\<lambda>a. 0 < success_count a \<and>
       (case last_success a of None \<Rightarrow> False
        | Some success \<Rightarrow> is_runtime_generation_id success = generation_id
            \<and> is_profile_digest success = profile_digest)) [tel_x86 t, tel_x64 t]"

definition ready_report :: "string \<Rightarrow> string option \<Rightarrow> health_report" where
  "ready_report version digest = \<lparr>protocol_version = HEALTH_PROTOCOL_VERSION,
     service_version = version, health = HsReady, active_profile_digest = digest,
     readiness = ready_readiness, injection = default_telemetry, last_error = None\<rparr>"

definition state_is_consistent :: "health_report \<Rightarrow> bool" where
  "state_is_consistent r =
     (case health r of
        HsReady \<Rightarrow> last_error r = None \<and> active_profile_digest r \<noteq> None
      | HsDegraded \<Rightarrow> last_error r \<noteq> None
      | HsFailed \<Rightarrow> last_error r \<noteq> None
      | HsInitializing \<Rightarrow> active_profile_digest r = None
      | HsUnknown \<Rightarrow> True)"

definition bounded_error :: "structured_service_error \<Rightarrow> bool" where
  "bounded_error e \<longleftrightarrow> se_code e \<noteq> [] \<and> length (se_code e) \<le> MAX_ERROR_CODE_BYTES
     \<and> se_message e \<noteq> [] \<and> length (se_message e) \<le> MAX_ERROR_MESSAGE_BYTES"

definition validate_report :: "health_report \<Rightarrow> health_contract_error + unit" where
  "validate_report r =
     (if protocol_version r \<noteq> HEALTH_PROTOCOL_VERSION
         \<or> service_version r = []
         \<or> 64 < length (service_version r)
         \<or> (health r = HsReady \<and> \<not> all_required_ready (readiness r))
         \<or> (\<exists>digest \<in> set_option (active_profile_digest r). \<not> canonical_profile_digest digest)
         \<or> \<not> state_is_consistent r
         \<or> \<not> validate_telemetry (injection r)
         \<or> (\<exists>e \<in> set_option (last_error r). \<not> bounded_error e)
      then Err HealthContractError else Ok ())"

definition is_active_for :: "health_report \<Rightarrow> string \<Rightarrow> bool" where
  "is_active_for r expected_digest \<longleftrightarrow> validate_report r = Ok () \<and> health r = HsReady
     \<and> all_required_ready (readiness r) \<and> active_profile_digest r = Some expected_digest"

definition report_verified_for_migration :: "health_report \<Rightarrow> string \<Rightarrow> string \<Rightarrow> bool" where
  "report_verified_for_migration r runtime_generation_id profile_digest \<longleftrightarrow>
     is_active_for r profile_digest
     \<and> telemetry_verified_for_migration (injection r) runtime_generation_id profile_digest"

section \<open>Lemmas\<close>

lemma validate_report_Ok_iff:
  "validate_report r = Ok () \<longleftrightarrow>
     protocol_version r = HEALTH_PROTOCOL_VERSION \<and> service_version r \<noteq> []
     \<and> length (service_version r) \<le> 64
     \<and> (health r = HsReady \<longrightarrow> all_required_ready (readiness r))
     \<and> (\<forall>d. active_profile_digest r = Some d \<longrightarrow> canonical_profile_digest d)
     \<and> state_is_consistent r \<and> validate_telemetry (injection r)
     \<and> (\<forall>e. last_error r = Some e \<longrightarrow> bounded_error e)"
  by (auto simp: validate_report_def)

lemma validate_report_cases: "validate_report r = Ok () \<or> validate_report r = Err HealthContractError"
  by (simp add: validate_report_def)

lemma satisfies_ready_iff: "satisfies_ready c \<longleftrightarrow> c = CrReady"
  by (cases c) auto

lemma all_required_ready_iff: "all_required_ready r \<longleftrightarrow> r = ready_readiness"
  by (cases r) (simp add: all_required_ready_def ready_readiness_def satisfies_ready_iff)

lemma validate_default_telemetry [simp]: "validate_telemetry default_telemetry"
  by (simp add: validate_telemetry_def default_telemetry_def default_architecture_telemetry_def
      validate_architecture_telemetry_def)

lemma record_architecture_success_valid:
  assumes "is_pid s \<noteq> 0" "is_creation_time s \<noteq> 0" "is_session_id s \<noteq> 0"
    and "canonical_generation_id (is_runtime_generation_id s)"
    and "canonical_profile_digest (is_profile_digest s)"
  shows "validate_architecture_telemetry (record_architecture_success s t)"
  using assms saturating_add_pos
  by (simp add: validate_architecture_telemetry_def record_architecture_success_def)

lemma record_success_valid:
  assumes t: "validate_telemetry t"
    and "is_pid s \<noteq> 0" "is_creation_time s \<noteq> 0" "is_session_id s \<noteq> 0"
    and "canonical_generation_id (is_runtime_generation_id s)"
    and "canonical_profile_digest (is_profile_digest s)"
  shows "validate_telemetry (record_success t a s)"
  using assms record_architecture_success_valid [of s]
  by (cases a) (auto simp: validate_telemetry_def)

lemma canonical_profile_digest_split:
  "canonical_profile_digest d \<longleftrightarrow> (\<exists>g. d = ''sha256:'' @ g \<and> canonical_generation_id g)"
proof
  assume d: "canonical_profile_digest d"
  then obtain g where g: "d = ''sha256:'' @ g"
    using starts_withE [of d] by (auto simp only: canonical_profile_digest_def)
  have "drop 7 d = g" by (simp add: g)
  with d g show "\<exists>g. d = ''sha256:'' @ g \<and> canonical_generation_id g"
    unfolding canonical_profile_digest_def by metis
next
  assume "\<exists>g. d = ''sha256:'' @ g \<and> canonical_generation_id g"
  then obtain g where g: "d = ''sha256:'' @ g" "canonical_generation_id g" by blast
  then have "length d = 71" "drop 7 d = g"
    by (simp_all add: canonical_generation_id_def)
  with g show "canonical_profile_digest d"
    by (simp only: canonical_profile_digest_def starts_with_append simp_thms)
qed

end
