(* ===== verification/Service_Status.thy ===== *)
theory Service_Status
  imports Health
begin

unbundle bit_operations_syntax

text \<open>
  What the service exchanges with the service control manager: status records
  (\<open>host/src/status.rs\<close>), controls (\<open>control.rs\<close>), and the start-up safety snapshot
  (\<open>startup_safety.rs\<close>).  An \<open>io::Error\<close> is its text and its OS error code.
\<close>

section \<open>I/O errors and service status\<close>

record io_error =
  io_message :: string
  raw_os_error :: "u32 option"

datatype scm_state = StartPending | Running | StopPending | Stopped

record service_status =
  st_state :: scm_state
  st_checkpoint :: u32
  st_wait_hint_ms :: u32
  st_win32_exit_code :: u32
  st_service_specific_exit_code :: u32

definition SERVICE_STOP_WAIT_HINT_MS :: u32 where "SERVICE_STOP_WAIT_HINT_MS = 25000"

definition pending_status :: "scm_state \<Rightarrow> u32 \<Rightarrow> u32 \<Rightarrow> service_status" where
  "pending_status state checkpoint wait_hint_ms =
     \<lparr>st_state = state, st_checkpoint = checkpoint, st_wait_hint_ms = wait_hint_ms,
      st_win32_exit_code = 0, st_service_specific_exit_code = 0\<rparr>"

definition settled_status :: "scm_state \<Rightarrow> u32 \<Rightarrow> u32 \<Rightarrow> service_status" where
  "settled_status state win32 service =
     \<lparr>st_state = state, st_checkpoint = 0, st_wait_hint_ms = 0,
      st_win32_exit_code = win32, st_service_specific_exit_code = service\<rparr>"

definition start_pending :: "u32 \<Rightarrow> u32 \<Rightarrow> service_status" where
  "start_pending checkpoint wait_hint_ms = pending_status StartPending checkpoint wait_hint_ms"

definition running_status :: service_status where
  "running_status = settled_status Running 0 0"

definition stop_pending :: "u32 \<Rightarrow> u32 \<Rightarrow> service_status" where
  "stop_pending checkpoint wait_hint_ms = pending_status StopPending checkpoint wait_hint_ms"

definition stopped_status :: service_status where
  "stopped_status = settled_status Stopped 0 0"

definition stopped_with_error :: "u32 \<Rightarrow> u32 \<Rightarrow> service_status" where
  "stopped_with_error win32_error service_error = settled_status Stopped win32_error service_error"

section \<open>Controls\<close>

definition SERVICE_CONTROL_STOP :: u32 where "SERVICE_CONTROL_STOP = 1"
definition SERVICE_CONTROL_SHUTDOWN :: u32 where "SERVICE_CONTROL_SHUTDOWN = 5"
definition SERVICE_CONTROL_SESSIONCHANGE :: u32 where "SERVICE_CONTROL_SESSIONCHANGE = 14"
definition ACCEPTED_CONTROL_MASK :: u32 where "ACCEPTED_CONTROL_MASK = 1 OR 4 OR 128"

datatype service_control = Stop | Shutdown | SessionChangeControl u32 u32

definition from_session_change :: "u32 \<Rightarrow> u32 \<Rightarrow> service_control" where
  "from_session_change event session = SessionChangeControl event session"

definition from_raw :: "u32 \<Rightarrow> u32 \<Rightarrow> service_control option" where
  "from_raw control event =
     (if control = SERVICE_CONTROL_STOP then Some Stop
      else if control = SERVICE_CONTROL_SHUTDOWN then Some Shutdown
      else if control = SERVICE_CONTROL_SESSIONCHANGE then Some (from_session_change event 0)
      else None)"

text \<open>The bit of the accepted mask that makes the control manager deliver a control.\<close>

fun accept_bit :: "service_control \<Rightarrow> nat" where
  "accept_bit Stop = 0"
| "accept_bit Shutdown = 2"
| "accept_bit (SessionChangeControl _ _) = 7"

lemma from_raw_accepted:
  "from_raw control event = Some c \<Longrightarrow> bit ACCEPTED_CONTROL_MASK (accept_bit c)"
  by (auto simp: from_raw_def from_session_change_def ACCEPTED_CONTROL_MASK_def bit_simps
      split: if_splits)

section \<open>Start-up safety\<close>

datatype legacy_service_state = LegacyAbsent | LegacyStopped | LegacyStartPending | LegacyRunning | LegacyUnknown

record startup_safety_snapshot =
  app_init32_enabled :: bool
  app_init64_enabled :: bool
  legacy_state :: legacy_service_state
  open_service_image_owned :: bool

definition safety_error :: "string \<Rightarrow> string \<Rightarrow> structured_service_error" where
  "safety_error code message = \<lparr>se_code = code, se_message = message, se_win32_error = None\<rparr>"

definition validate_startup :: "startup_safety_snapshot \<Rightarrow> structured_service_error + unit" where
  "validate_startup s =
     (if app_init32_enabled s \<or> app_init64_enabled s
      then Err (safety_error ''appinit-conflict''
             ''enabled AppInit injection conflicts with the open service'')
      else if legacy_state s \<notin> {LegacyAbsent, LegacyStopped}
      then Err (safety_error ''legacy-service-conflict''
             ''the legacy MacType service must be stopped before the open service becomes ready'')
      else if \<not> open_service_image_owned s
      then Err (safety_error ''open-service-ownership-conflict''
             ''the SCM service image is not the fixed active protected runtime'')
      else Ok ())"

lemma validate_startup_Ok_iff:
  "validate_startup s = Ok () \<longleftrightarrow> \<not> app_init32_enabled s \<and> \<not> app_init64_enabled s
     \<and> legacy_state s \<in> {LegacyAbsent, LegacyStopped} \<and> open_service_image_owned s"
  by (auto simp: validate_startup_def)

lemma validate_startup_bounded:
  "validate_startup s = Err e \<Longrightarrow> bounded_error e"
  by (auto simp: validate_startup_def safety_error_def bounded_error_def MAX_ERROR_CODE_BYTES_def
      MAX_ERROR_MESSAGE_BYTES_def split: if_splits)

end
