(* ===== verification/Host_Types.thy ===== *)
theory Host_Types
  imports Service_Status
begin

text \<open>
  The vocabulary of the service host: process identities and what an inspector says of a process
  (\<open>host/src/observer.rs\<close>), the policies, outcomes and records of the orchestrator
  (\<open>host/src/injection_orchestrator/model.rs\<close>), the host events
  (\<open>host/src/event_log.rs\<close>), and the collaborators an orchestrator is built with.

  The host reaches the machine through trait objects (\<open>ProcessInspector\<close>, \<open>InjectionBroker\<close>,
  \<open>RetryScheduler\<close>, \<open>HostEventSink\<close>).  Each trait method is a field of the record
  \<open>host_env\<close>: a function of the arguments and of an abstract world \<open>'w\<close> that returns the answer
  and the next world, so an answer may change from call to call in any way.  Every call is also
  appended to a trace, which is what the ordering properties are stated over.
\<close>

section \<open>Processes and collaborators' answers\<close>

datatype process_architecture = X86 | X64

record process_identity =
  pid :: u32
  creation_time :: u64
  session_id :: u32
  architecture :: process_architecture
  protected_process :: bool

record process_facts =
  critical_or_unknown :: bool
  prohibits_dynamic_code :: bool
  restricts_binary_signature :: bool
  image_name :: "string option"

record inspected_process =
  ip_identity :: process_identity
  ip_facts :: process_facts

datatype target_liveness = TlAlive | TlVanished | TlUnknown

datatype target_lifecycle = LcRunning | LcFrozen | LcExiting | LcUnknown

record injection_request =
  req_identity :: process_identity
  req_generation_id :: string

datatype broker_disposition =
    BdInjected | BdSkipped | BdRejected | BdRetryableFailure | BdLaunchFailed | BdTargetFrozen
  | BdCancelled

record broker_result =
  br_disposition :: broker_disposition
  br_code :: string
  br_win32_error :: "u32 option"

definition service_error :: "string \<Rightarrow> string \<Rightarrow> structured_service_error" where
  "service_error code message = \<lparr>se_code = code, se_message = message, se_win32_error = None\<rparr>"

section \<open>Orchestrator policies and records\<close>

definition MAX_DEFERRED_TARGETS :: nat where "MAX_DEFERRED_TARGETS = 512"
definition MAX_TRACKED_PROCESS_RESULTS :: nat where "MAX_TRACKED_PROCESS_RESULTS = 4096"

record retry_policy =
  max_attempts :: u8
  initial_delay :: duration
  max_delay :: duration

definition default_retry_policy :: retry_policy where
  "default_retry_policy =
     \<lparr>max_attempts = 3, initial_delay = from_millis 25, max_delay = from_millis 250\<rparr>"

record deferral_policy =
  frozen_recheck :: duration
  launch_initial_delay :: duration
  launch_max_delay :: duration
  launch_max_deferrals :: u8

definition default_deferral_policy :: deferral_policy where
  "default_deferral_policy = \<lparr>frozen_recheck = from_secs 2, launch_initial_delay = from_secs 2,
     launch_max_delay = from_secs 32, launch_max_deferrals = 5\<rparr>"

datatype deferral_reason = DrFrozen | DrHelperLaunchFailed

record deferred_target =
  dt_identity :: process_identity
  dt_reason :: deferral_reason
  dt_deferrals :: u8
  dt_not_before :: instant

datatype process_outcome =
    PoInjected | PoSkipped | PoDeferred | PoDuplicate | PoRejected | PoRetryExhausted | PoCancelled

record process_attempt_record =
  ar_identity :: process_identity
  ar_runtime_generation_id :: string
  ar_outcome :: process_outcome
  ar_attempts :: u8
  ar_code :: string
  ar_win32_error :: "u32 option"

record session_change =
  event_type :: u32
  sc_session_id :: u32

definition overflow_change :: session_change where
  "overflow_change = \<lparr>event_type = - 1, sc_session_id = 0\<rparr>"

definition is_overflow :: "session_change \<Rightarrow> bool" where
  "is_overflow change \<longleftrightarrow> event_type change = - 1"

section \<open>Host events\<close>

datatype live_observer = Etw | Wmi

datatype host_event =
    EvServiceStarted string
  | EvServiceStartSkipped structured_service_error
  | EvServiceStopped
  | EvHealthChanged health_state "structured_service_error option"
  | EvInjectionResult process_attempt_record string
  | EvInjectionSkipped string
  | EvInjectionPipelineSample u64 nat "u64 option"
  | EvLiveObserverSelected live_observer
  | EvFlushInjectionSummary
  | EvHelperBrokerFailed process_architecture string "string option"

section \<open>Collaborators and the trace of their calls\<close>

record 'w host_env =
  env_inspect :: "u32 \<Rightarrow> 'w \<Rightarrow> (structured_service_error + inspected_process) \<times> 'w"
  env_probe_target_lifecycle :: "process_identity \<Rightarrow> 'w \<Rightarrow> target_lifecycle \<times> 'w"
  env_probe_target_liveness :: "process_identity \<Rightarrow> 'w \<Rightarrow> target_liveness \<times> 'w"
  env_process_basename :: "process_identity \<Rightarrow> 'w \<Rightarrow> string option \<times> 'w"
  env_inject :: "injection_request \<Rightarrow> 'w \<Rightarrow> broker_result \<times> 'w"
  env_retry_wait :: "duration \<Rightarrow> 'w \<Rightarrow> bool \<times> 'w"
  env_sleep :: "duration \<Rightarrow> 'w \<Rightarrow> 'w"

datatype host_call =
    CallInspect u32
  | CallLifecycle process_identity
  | CallLiveness process_identity
  | CallBasename process_identity
  | CallInject injection_request
  | CallRetryWait duration
  | CallSleep duration
  | CallRecord host_event
  | CallStatus service_status
  | CallPublish health_report bool
  | CallInitialize
  | CallWait
  | CallWaitTimeout duration
  | CallStopRequested
  | CallTakeSessionChange
  | CallVerifyReady process_architecture
  | CallSubscribe string
  | CallSnapshotPids
  | CallNextPid duration
  | CallImageName u32

text \<open>A publication of health carries whether it succeeded.  An injection attempt in the trace:\<close>

fun is_inject :: "host_call \<Rightarrow> bool" where
  "is_inject (CallInject _) = True"
| "is_inject _ = False"

fun is_result_event :: "host_call \<Rightarrow> bool" where
  "is_result_event (CallRecord (EvInjectionResult _ _)) = True"
| "is_result_event _ = False"

text \<open>Calls only the lifecycle makes, and the publications a driver makes through its reporter.\<close>

fun lifecycle_call :: "host_call \<Rightarrow> bool" where
  "lifecycle_call (CallStatus _) = True"
| "lifecycle_call (CallPublish _ _) = True"
| "lifecycle_call CallInitialize = True"
| "lifecycle_call CallWait = True"
| "lifecycle_call _ = False"

type_synonym process_key = "u32 \<times> u64"

definition key_of :: "process_identity \<Rightarrow> process_key" where
  "key_of identity = (pid identity, creation_time identity)"

end
