(* ===== verification/Target_Validation.thy ===== *)
theory Target_Validation
  imports Host_Types
begin

text \<open>
  The process target validator (\<open>host/src/target_validation.rs\<close>): one observed PID is inspected
  and becomes an eligible identity, a deferred identity (frozen process), or an explicit skip;
  a PID mismatch and an inspector failure that is not scoped to the target stay structured
  errors.
\<close>

section \<open>Decisions\<close>

datatype skip_reason =
    SelfProcess | SessionZero | Protected | CriticalOrUnknown | DynamicCodeMitigation
  | BinarySignatureMitigation | ImportantWindowsProcess | InstallerControlProcess
  | ImageNameUnavailable | Exiting | InspectionFailed string

datatype process_target_decision =
    Eligible process_identity
  | Skipped skip_reason
  | Deferred process_identity deferral_reason

fun skip_code :: "skip_reason \<Rightarrow> string" where
  "skip_code SelfProcess = ''self-process''"
| "skip_code SessionZero = ''session-zero''"
| "skip_code Protected = ''protected''"
| "skip_code CriticalOrUnknown = ''critical-or-unknown''"
| "skip_code DynamicCodeMitigation = ''dynamic-code-mitigation''"
| "skip_code BinarySignatureMitigation = ''binary-signature-mitigation''"
| "skip_code ImportantWindowsProcess = ''important-windows-process''"
| "skip_code InstallerControlProcess = ''installer-control-process''"
| "skip_code ImageNameUnavailable = ''image-name-unavailable''"
| "skip_code Exiting = ''exiting''"
| "skip_code (InspectionFailed _) = ''inspection-failed''"

section \<open>Image names\<close>

definition is_relay_root :: "string \<Rightarrow> bool" where
  "is_relay_root name \<longleftrightarrow> name = ''explorer.exe''"

definition is_important_windows_process :: "string \<Rightarrow> bool" where
  "is_important_windows_process name \<longleftrightarrow>
     name \<in> {''smss.exe'', ''csrss.exe'', ''wininit.exe'', ''winlogon.exe'', ''services.exe'',
              ''lsass.exe'', ''fontdrvhost.exe''}"

definition is_inno_uninstaller :: "string \<Rightarrow> bool" where
  "is_inno_uninstaller name =
     (case rsplit_once name (CHR ''.'') of
        None \<Rightarrow> False
      | Some (stem, extension) \<Rightarrow>
          if extension \<noteq> ''exe'' \<and> extension \<noteq> ''tmp'' then False
          else let stem = (case strip_prefix stem ''_'' of None \<Rightarrow> stem | Some s \<Rightarrow> s)
               in (case strip_prefix stem ''unins'' of
                     None \<Rightarrow> False
                   | Some sequence \<Rightarrow> list_all is_ascii_digit sequence))"

definition is_installer_control_process :: "string \<Rightarrow> bool" where
  "is_installer_control_process name \<longleftrightarrow>
     name = ''mactype-service-setup.exe'' \<or> is_inno_uninstaller name"

definition target_scoped_inspection_failure :: "string \<Rightarrow> string option" where
  "target_scoped_inspection_failure code =
     (if code \<in> {''process-protected-or-inaccessible'', ''process-creation-time-unavailable'',
                  ''process-session-unavailable'', ''process-architecture-unavailable'',
                  ''process-architecture-unsupported''}
      then Some code else None)"

section \<open>Validation\<close>

text \<open>The checks between inspection and the lifecycle probe, in the order the code makes them.\<close>

definition static_skip :: "u32 \<Rightarrow> process_identity \<Rightarrow> process_facts \<Rightarrow> skip_reason option" where
  "static_skip service_pid identity facts =
     (if pid identity = service_pid then Some SelfProcess
      else if session_id identity = 0 then Some SessionZero
      else if protected_process identity then Some Protected
      else if critical_or_unknown facts then Some CriticalOrUnknown
      else if prohibits_dynamic_code facts then Some DynamicCodeMitigation
      else if restricts_binary_signature facts then Some BinarySignatureMitigation
      else (case image_name facts of
              None \<Rightarrow> Some ImageNameUnavailable
            | Some name \<Rightarrow>
                if is_important_windows_process name then Some ImportantWindowsProcess
                else if is_installer_control_process name then Some InstallerControlProcess
                else None))"

text \<open>
  \<open>ProcessTargetValidator::validate\<close>.  The world and the trace are threaded through: one
  inspection, then at most one lifecycle probe.
\<close>

definition validate_target ::
  "('w, 'x) host_env_scheme \<Rightarrow> u32 \<Rightarrow> u32 \<Rightarrow> 'w \<times> host_call list \<Rightarrow>
     (structured_service_error + process_target_decision) \<times> ('w \<times> host_call list)" where
  "validate_target env service_pid p io =
     (let (inspected, w1) = env_inspect env p (fst io);
          t1 = snd io @ [CallInspect p]
      in case inspected of
           Inl error \<Rightarrow>
             (case target_scoped_inspection_failure (se_code error) of
                Some code \<Rightarrow> Ok (Skipped (InspectionFailed code))
              | None \<Rightarrow> Err error, (w1, t1))
         | Inr inspected \<Rightarrow>
             (let identity = ip_identity inspected; facts = ip_facts inspected
              in if pid identity \<noteq> p
                 then (Err (service_error ''process-identity-mismatch''
                         ''the inspected process identity does not match the observed PID''), (w1, t1))
                 else (case static_skip service_pid identity facts of
                         Some reason \<Rightarrow> (Ok (Skipped reason), (w1, t1))
                       | None \<Rightarrow>
                           (let (lifecycle, w2) = env_probe_target_lifecycle env identity w1;
                                t2 = t1 @ [CallLifecycle identity]
                            in (Ok (case lifecycle of
                                      LcExiting \<Rightarrow> Skipped Exiting
                                    | LcFrozen \<Rightarrow> Deferred identity DrFrozen
                                    | LcRunning \<Rightarrow> Eligible identity
                                    | LcUnknown \<Rightarrow> Eligible identity), (w2, t2))))))"

section \<open>Properties of a decision\<close>

text \<open>What the validator guarantees of an identity it lets through.\<close>

definition admissible_target :: "u32 \<Rightarrow> process_identity \<Rightarrow> bool" where
  "admissible_target service_pid identity \<longleftrightarrow> pid identity \<noteq> service_pid \<and> session_id identity \<noteq> 0
     \<and> \<not> protected_process identity"

definition decision_identity :: "process_target_decision \<Rightarrow> process_identity option" where
  "decision_identity d = (case d of Eligible i \<Rightarrow> Some i | Deferred i _ \<Rightarrow> Some i | Skipped _ \<Rightarrow> None)"

lemma static_skip_None_iff:
  "static_skip service_pid identity facts = None \<longleftrightarrow>
     admissible_target service_pid identity \<and> \<not> critical_or_unknown facts
     \<and> \<not> prohibits_dynamic_code facts \<and> \<not> restricts_binary_signature facts
     \<and> (\<exists>name. image_name facts = Some name \<and> \<not> is_important_windows_process name
            \<and> \<not> is_installer_control_process name)"
  by (auto simp: static_skip_def admissible_target_def split: option.splits)

lemma validate_target_no_inject:
  assumes "validate_target env sp p io = (r, io')"
  shows "filter is_inject (snd io') = filter is_inject (snd io)"
  using assms
  by (auto simp: validate_target_def Let_def split: prod.splits sum.splits option.splits if_splits)

lemma validate_target_no_result:
  assumes "validate_target env sp p io = (r, io')"
  shows "filter is_result_event (snd io') = filter is_result_event (snd io)"
  using assms
  by (auto simp: validate_target_def Let_def split: prod.splits sum.splits option.splits if_splits)

lemma validate_target_identity:
  assumes "validate_target env sp p io = (Inr d, io')" and "decision_identity d = Some identity"
  shows "pid identity = p \<and> admissible_target sp identity"
  using assms
  by (auto simp: validate_target_def Let_def decision_identity_def static_skip_None_iff
      split: prod.splits sum.splits option.splits if_splits target_lifecycle.splits)

text \<open>
  The inspector, asked in world \<open>w\<close>, answers with exactly this identity, and no check of the
  validator rejects what it says of the process.
\<close>

definition cleared :: "('w, 'x) host_env_scheme \<Rightarrow> u32 \<Rightarrow> 'w \<Rightarrow> process_identity \<Rightarrow> bool" where
  "cleared env service_pid w i \<longleftrightarrow>
     (\<exists>facts w'. env_inspect env (pid i) w = (Inr \<lparr>ip_identity = i, ip_facts = facts\<rparr>, w')
        \<and> static_skip service_pid i facts = None)"

lemma cleared_admissible: "cleared env sp w i \<Longrightarrow> admissible_target sp i"
  by (auto simp: cleared_def static_skip_None_iff)

lemma validate_target_cleared:
  assumes "validate_target env sp p io = (Inr d, io')" and "decision_identity d = Some i"
  shows "pid i = p \<and> cleared env sp (fst io) i"
proof -
  obtain insp w where ins: "env_inspect env p (fst io) = (Inr insp, w)" "ip_identity insp = i" "pid i = p"
      "static_skip sp i (ip_facts insp) = None"
    using assms
    by (auto simp: validate_target_def Let_def decision_identity_def
        split: prod.splits sum.splits option.splits if_splits target_lifecycle.splits)
  have "insp = \<lparr>ip_identity = i, ip_facts = ip_facts insp\<rparr>" using ins(2) by simp
  then show ?thesis using ins by (metis cleared_def)
qed

lemma validate_target_deferred_frozen:
  "validate_target env sp p io = (Inr (Deferred i reason), io') \<Longrightarrow> reason = DrFrozen"
  by (auto simp: validate_target_def Let_def
      split: prod.splits sum.splits option.splits if_splits target_lifecycle.splits)

end
