(* ===== verification/Injection_Orchestrator.thy ===== *)
theory Injection_Orchestrator
  imports Target_Validation
begin

text \<open>
  The injection orchestrator (\<open>host/src/injection_orchestrator.rs\<close>): identity deduplication with
  a bounded result record, deferral of frozen and launch-failed targets with a bounded queue,
  bounded retry with doubling delays, reclassification of vanished targets, generation-bound
  telemetry, session-change invalidation and terminal health classification.

  The state is the struct's, with the world of the collaborators and the trace of the calls made
  to them.  An operation returns \<^const>\<open>None\<close> exactly where the code would spin in a loop or
  reach an \<open>expect\<close> or \<open>unreachable!\<close>; the lemmas at the end show that no well-formed state does.
\<close>

section \<open>State\<close>

record 'w orchestrator =
  service_pid :: u32
  generation_id :: string
  profile_digest :: "string option"
  processed :: "(process_key, process_attempt_record) fmap"
  process_order :: "process_key list"
  deferred :: "(process_key, deferred_target) fmap"
  deferred_order :: "process_key list"
  deferral_policy :: deferral_policy
  retry_policy :: retry_policy
  has_retry_scheduler :: bool
  last_handled_creation_time :: "u64 option"
  injection_telemetry :: injection_telemetry
  world :: 'w
  trace :: "host_call list"

definition TARGET_VANISHED_RESULT_CODE :: string where
  "TARGET_VANISHED_RESULT_CODE = ''injection-target-vanished''"

definition DEFERRAL_CAPACITY_EXHAUSTED_CODE :: string where
  "DEFERRAL_CAPACITY_EXHAUSTED_CODE = ''deferral-capacity-exhausted''"

definition build_orchestrator ::
  "u32 \<Rightarrow> string \<Rightarrow> retry_policy \<Rightarrow> bool \<Rightarrow> 'w \<Rightarrow> 'w orchestrator" where
  "build_orchestrator sp gid policy scheduler w =
     \<lparr>service_pid = sp, generation_id = gid, profile_digest = None, processed = fmempty,
      process_order = [], deferred = fmempty, deferred_order = [],
      deferral_policy = default_deferral_policy, retry_policy = policy,
      has_retry_scheduler = scheduler, last_handled_creation_time = None,
      injection_telemetry = default_telemetry, world = w, trace = []\<rparr>"

definition new_orchestrator :: "u32 \<Rightarrow> string \<Rightarrow> 'w \<Rightarrow> 'w orchestrator" where
  "new_orchestrator sp gid w = build_orchestrator sp gid default_retry_policy False w"

definition with_retry_policy :: "u32 \<Rightarrow> string \<Rightarrow> retry_policy \<Rightarrow> 'w \<Rightarrow> 'w orchestrator" where
  "with_retry_policy sp gid policy w = build_orchestrator sp gid policy True w"

definition with_runtime_context ::
  "u32 \<Rightarrow> string \<Rightarrow> string \<Rightarrow> retry_policy \<Rightarrow> 'w \<Rightarrow> 'w orchestrator" where
  "with_runtime_context sp gid digest policy w =
     (with_retry_policy sp gid policy w)\<lparr>profile_digest := Some digest\<rparr>"

section \<open>Calls to the collaborators\<close>

definition record_event :: "host_event \<Rightarrow> 'w orchestrator \<Rightarrow> 'w orchestrator" where
  "record_event e s = s\<lparr>trace := trace s @ [CallRecord e]\<rparr>"

definition call_lifecycle ::
  "('w, 'x) host_env_scheme \<Rightarrow> process_identity \<Rightarrow> 'w orchestrator \<Rightarrow> target_lifecycle \<times> 'w orchestrator" where
  "call_lifecycle env i s =
     (let (a, w) = env_probe_target_lifecycle env i (world s)
      in (a, s\<lparr>world := w, trace := trace s @ [CallLifecycle i]\<rparr>))"

definition call_liveness ::
  "('w, 'x) host_env_scheme \<Rightarrow> process_identity \<Rightarrow> 'w orchestrator \<Rightarrow> target_liveness \<times> 'w orchestrator" where
  "call_liveness env i s =
     (let (a, w) = env_probe_target_liveness env i (world s)
      in (a, s\<lparr>world := w, trace := trace s @ [CallLiveness i]\<rparr>))"

definition call_basename ::
  "('w, 'x) host_env_scheme \<Rightarrow> process_identity \<Rightarrow> 'w orchestrator \<Rightarrow> string option \<times> 'w orchestrator" where
  "call_basename env i s =
     (let (a, w) = env_process_basename env i (world s)
      in (a, s\<lparr>world := w, trace := trace s @ [CallBasename i]\<rparr>))"

definition call_inject ::
  "('w, 'x) host_env_scheme \<Rightarrow> injection_request \<Rightarrow> 'w orchestrator \<Rightarrow> broker_result \<times> 'w orchestrator" where
  "call_inject env r s =
     (let (a, w) = env_inject env r (world s)
      in (a, s\<lparr>world := w, trace := trace s @ [CallInject r]\<rparr>))"

definition call_validate ::
  "('w, 'x) host_env_scheme \<Rightarrow> u32 \<Rightarrow> 'w orchestrator \<Rightarrow>
     (structured_service_error + process_target_decision) \<times> 'w orchestrator" where
  "call_validate env p s =
     (let (a, w, t) = validate_target env (service_pid s) p (world s, trace s)
      in (a, s\<lparr>world := w, trace := t\<rparr>))"

text \<open>Waiting before a retry: the scheduler's answer, or a plain sleep when there is none.\<close>

definition call_retry_wait ::
  "('w, 'x) host_env_scheme \<Rightarrow> duration \<Rightarrow> 'w orchestrator \<Rightarrow> bool \<times> 'w orchestrator" where
  "call_retry_wait env delay s =
     (if has_retry_scheduler s
      then (let (a, w) = env_retry_wait env delay (world s)
            in (a, s\<lparr>world := w, trace := trace s @ [CallRetryWait delay]\<rparr>))
      else (True, s\<lparr>world := env_sleep env delay (world s), trace := trace s @ [CallSleep delay]\<rparr>))"

section \<open>Recording results and deferring targets\<close>

text \<open>
  \<open>while self.processed.len() >= MAX { if let Some(oldest) = pop_front() { remove } }\<close>: with an
  empty queue and a full map the loop would spin.
\<close>

fun evict_oldest_results ::
  "process_key list \<Rightarrow> (process_key, 'v) fmap \<Rightarrow> (process_key list \<times> (process_key, 'v) fmap) option" where
  "evict_oldest_results [] m = (if MAX_TRACKED_PROCESS_RESULTS \<le> fmlen m then None else Some ([], m))"
| "evict_oldest_results (k # ks) m =
     (if MAX_TRACKED_PROCESS_RESULTS \<le> fmlen m then evict_oldest_results ks (fmdrop k m)
      else Some (k # ks, m))"

definition process_label ::
  "('w, 'x) host_env_scheme \<Rightarrow> process_outcome \<Rightarrow> process_identity \<Rightarrow> 'w orchestrator \<Rightarrow> string \<times> 'w orchestrator" where
  "process_label env outcome identity s =
     (if outcome \<in> {PoRejected, PoRetryExhausted}
      then (let (name, s) = call_basename env identity s
            in (case name of Some n \<Rightarrow> n | None \<Rightarrow> ''pid-'' @ show_word (pid identity), s))
      else ('''', s))"

definition record_result ::
  "('w, 'x) host_env_scheme \<Rightarrow> process_identity \<Rightarrow> process_outcome \<Rightarrow> u8 \<Rightarrow> broker_result \<Rightarrow>
     'w orchestrator \<Rightarrow> 'w orchestrator option" where
  "record_result env identity outcome attempts result s =
     do {
       (order, m) \<leftarrow>
         (if key_of identity |\<in>| fmdom (processed s) then Some (process_order s, processed s)
          else do {
            (order, m) \<leftarrow> evict_oldest_results (process_order s) (processed s);
            Some (order @ [key_of identity], m)
          });
       let s = s\<lparr>process_order := order, processed := m\<rparr>;
       let attempt_record = \<lparr>ar_identity = identity, ar_runtime_generation_id = generation_id s,
             ar_outcome = outcome, ar_attempts = attempts, ar_code = br_code result,
             ar_win32_error = br_win32_error result\<rparr>;
       let (process, s) = process_label env outcome identity s;
       let s = record_event (EvInjectionResult attempt_record process) s;
       Some (s\<lparr>processed := fmupd (key_of identity) attempt_record (processed s)\<rparr>)
     }"

definition record_skip ::
  "('w, 'x) host_env_scheme \<Rightarrow> process_identity \<Rightarrow> string \<Rightarrow> u32 option \<Rightarrow> 'w orchestrator \<Rightarrow> 'w orchestrator option" where
  "record_skip env identity code win32 s =
     record_result env identity PoSkipped 0
       \<lparr>br_disposition = BdSkipped, br_code = code, br_win32_error = win32\<rparr> s"

text \<open>The eviction loop of \<open>insert_deferred\<close>, over the queue it pops.\<close>

fun make_deferral_room ::
  "('w, 'x) host_env_scheme \<Rightarrow> process_key list \<Rightarrow> 'w orchestrator \<Rightarrow> 'w orchestrator option" where
  "make_deferral_room env [] s = Some (s\<lparr>deferred_order := []\<rparr>)"
| "make_deferral_room env (oldest # rest) s =
     (if fmlen (deferred s) < MAX_DEFERRED_TARGETS then Some (s\<lparr>deferred_order := oldest # rest\<rparr>)
      else (case fmlookup (deferred s) oldest of
              None \<Rightarrow> make_deferral_room env rest s
            | Some evicted \<Rightarrow>
                record_skip env (dt_identity evicted) DEFERRAL_CAPACITY_EXHAUSTED_CODE None
                  (s\<lparr>deferred := fmdrop oldest (deferred s), deferred_order := rest\<rparr>)))"

definition insert_deferred ::
  "('w, 'x) host_env_scheme \<Rightarrow> deferred_target \<Rightarrow> 'w orchestrator \<Rightarrow> 'w orchestrator option" where
  "insert_deferred env target s =
     do {
       let key = key_of (dt_identity target);
       let s = s\<lparr>deferred_order := filter (\<lambda>candidate. candidate \<noteq> key) (deferred_order s)\<rparr>;
       s \<leftarrow> (if key |\<in>| fmdom (deferred s) then Some s
             else make_deferral_room env (deferred_order s) s);
       Some (s\<lparr>deferred := fmupd key target (deferred s), deferred_order := deferred_order s @ [key]\<rparr>)
     }"

definition contains_identity :: "'w orchestrator \<Rightarrow> process_identity \<Rightarrow> bool" where
  "contains_identity s identity \<longleftrightarrow>
     key_of identity |\<in>| fmdom (processed s) \<or> key_of identity |\<in>| fmdom (deferred s)"

section \<open>Injection attempts\<close>

fun terminal_outcome :: "broker_disposition \<Rightarrow> bool \<Rightarrow> process_outcome option" where
  "terminal_outcome BdLaunchFailed _ = None"
| "terminal_outcome BdTargetFrozen _ = None"
| "terminal_outcome BdCancelled _ = Some PoCancelled"
| "terminal_outcome BdInjected _ = Some PoInjected"
| "terminal_outcome BdSkipped _ = Some PoSkipped"
| "terminal_outcome BdRejected _ = Some PoRejected"
| "terminal_outcome BdRetryableFailure final_attempt =
     (if final_attempt then Some PoRetryExhausted else None)"

definition safe_to_retry_same_identity :: "string \<Rightarrow> bool" where
  "safe_to_retry_same_identity code \<longleftrightarrow>
     code \<in> {''session-unavailable'', ''identity-unavailable'', ''architecture-unavailable'',
              ''module-inventory-unavailable''}"

definition record_injection_success :: "process_identity \<Rightarrow> 'w orchestrator \<Rightarrow> 'w orchestrator" where
  "record_injection_success identity s =
     (case profile_digest s of
        None \<Rightarrow> s
      | Some digest \<Rightarrow>
          s\<lparr>injection_telemetry := record_success (injection_telemetry s)
              (case architecture identity of X86 \<Rightarrow> IaX86 | X64 \<Rightarrow> IaX64)
              \<lparr>is_pid = pid identity, is_creation_time = creation_time identity,
               is_session_id = session_id identity,
               is_runtime_generation_id = generation_id s, is_profile_digest = digest\<rparr>\<rparr>)"

definition reclassify_vanished_target ::
  "('w, 'x) host_env_scheme \<Rightarrow> process_identity \<Rightarrow> process_outcome \<Rightarrow> broker_result \<Rightarrow> 'w orchestrator \<Rightarrow>
     (process_outcome \<times> broker_result) \<times> 'w orchestrator" where
  "reclassify_vanished_target env identity outcome result s =
     (if outcome \<notin> {PoRejected, PoRetryExhausted} \<or> \<not> ends_with (br_code result) ''-cleanup-unknown''
      then ((outcome, result), s)
      else (let (liveness, s) = call_liveness env identity s
            in (case liveness of
                  TlVanished \<Rightarrow> (PoSkipped, result\<lparr>br_code := TARGET_VANISHED_RESULT_CODE\<rparr>)
                | TlAlive \<Rightarrow> (outcome, result)
                | TlUnknown \<Rightarrow> (outcome, result), s)))"

text \<open>\<open>1_u32.checked_shl(deferrals).unwrap_or(u32::MAX)\<close>.\<close>

definition launch_multiplier :: "u8 \<Rightarrow> nat" where
  "launch_multiplier deferrals = (if unat deferrals < 32 then 2 ^ unat deferrals else 2 ^ 32 - 1)"

definition launch_backoff :: "deferral_policy \<Rightarrow> u8 \<Rightarrow> duration" where
  "launch_backoff policy deferrals =
     min (saturating_mul (launch_initial_delay policy) (launch_multiplier deferrals))
         (launch_max_delay policy)"

definition handle_launch_failure ::
  "('w, 'x) host_env_scheme \<Rightarrow> process_identity \<Rightarrow> u8 \<Rightarrow> instant \<Rightarrow> broker_result \<Rightarrow> u8 \<Rightarrow> 'w orchestrator \<Rightarrow>
     (process_outcome \<times> 'w orchestrator) option" where
  "handle_launch_failure env identity deferrals now result attempt s =
     (let (liveness, s) = call_liveness env identity s
      in if liveness = TlVanished
         then do { s \<leftarrow> record_skip env identity TARGET_VANISHED_RESULT_CODE (br_win32_error result) s;
                   Some (PoSkipped, s) }
         else if launch_max_deferrals (deferral_policy s) \<le> deferrals
         then do { s \<leftarrow> record_result env identity PoRejected attempt result s;
                   Some (PoRejected, s) }
         else do { s \<leftarrow> insert_deferred env
                     \<lparr>dt_identity = identity, dt_reason = DrHelperLaunchFailed,
                      dt_deferrals = saturating_add deferrals 1,
                      dt_not_before = now + launch_backoff (deferral_policy s) deferrals\<rparr> s;
                   Some (PoDeferred, s) })"

text \<open>A failure that is not on the pre-injection allowlist is not retried.\<close>

definition normalize_result :: "broker_result \<Rightarrow> broker_result" where
  "normalize_result result =
     (if br_disposition result = BdRetryableFailure \<and> \<not> safe_to_retry_same_identity (br_code result)
      then result\<lparr>br_disposition := BdRejected\<rparr> else result)"

text \<open>
  The \<open>for attempt in 1..=attempts\<close> loop over the attempts still to make; falling out of it is the
  code's \<open>unreachable!\<close>.
\<close>

fun attempt_loop ::
  "('w, 'x) host_env_scheme \<Rightarrow> injection_request \<Rightarrow> u8 \<Rightarrow> instant \<Rightarrow> u8 \<Rightarrow> u8 list \<Rightarrow> duration \<Rightarrow> 'w orchestrator \<Rightarrow>
     (process_outcome \<times> 'w orchestrator) option" where
  "attempt_loop env request deferrals now attempts [] delay s = None"
| "attempt_loop env request deferrals now attempts (attempt # rest) delay s =
     (let identity = req_identity request;
          (answer, s) = call_inject env request s;
          result = normalize_result answer
      in case br_disposition result of
           BdLaunchFailed \<Rightarrow> handle_launch_failure env identity deferrals now result attempt s
         | BdTargetFrozen \<Rightarrow>
             do { s \<leftarrow> insert_deferred env
                    \<lparr>dt_identity = identity, dt_reason = DrFrozen, dt_deferrals = deferrals,
                     dt_not_before = now + frozen_recheck (deferral_policy s)\<rparr> s;
                  Some (PoDeferred, s) }
         | disposition \<Rightarrow>
             (case terminal_outcome disposition (attempt = attempts) of
                Some outcome \<Rightarrow>
                  (let s = (if outcome = PoInjected then record_injection_success identity s else s);
                       ((outcome, result), s) = reclassify_vanished_target env identity outcome result s
                   in do { s \<leftarrow> record_result env identity outcome attempt result s;
                           Some (outcome, s) })
              | None \<Rightarrow>
                  (let (continue, s) = call_retry_wait env delay s
                   in if \<not> continue
                      then do { s \<leftarrow> record_result env identity PoCancelled attempt result s;
                                Some (PoCancelled, s) }
                      else attempt_loop env request deferrals now attempts rest
                             (min (saturating_mul delay 2) (max_delay (retry_policy s))) s)))"

definition attempt_numbers :: "u8 \<Rightarrow> u8 list" where
  "attempt_numbers attempts = map word_of_nat [1..<Suc (unat attempts)]"

definition attempt_injection ::
  "('w, 'x) host_env_scheme \<Rightarrow> process_identity \<Rightarrow> u8 \<Rightarrow> instant \<Rightarrow> 'w orchestrator \<Rightarrow>
     (process_outcome \<times> 'w orchestrator) option" where
  "attempt_injection env identity deferrals now s =
     (let request = \<lparr>req_identity = identity, req_generation_id = generation_id s\<rparr>;
          attempts = max (max_attempts (retry_policy s)) 1
      in attempt_loop env request deferrals now attempts (attempt_numbers attempts)
           (initial_delay (retry_policy s)) s)"

section \<open>Handling one observed PID\<close>

definition handle_pid_at ::
  "('w, 'x) host_env_scheme \<Rightarrow> u32 \<Rightarrow> instant \<Rightarrow> 'w orchestrator \<Rightarrow>
     ((structured_service_error + process_outcome) \<times> 'w orchestrator) option" where
  "handle_pid_at env p now s =
     (let s = s\<lparr>last_handled_creation_time := None\<rparr>;
          (decision, s) = call_validate env p s
      in case decision of
           Inl error \<Rightarrow> Some (Err error, s)
         | Inr (Eligible identity) \<Rightarrow>
             (let s = s\<lparr>last_handled_creation_time := Some (creation_time identity)\<rparr>
              in if contains_identity s identity then Some (Ok PoDuplicate, s)
                 else do { (outcome, s) \<leftarrow> attempt_injection env identity 0 now s;
                           Some (Ok outcome, s) })
         | Inr (Deferred identity reason) \<Rightarrow>
             (let s = s\<lparr>last_handled_creation_time := Some (creation_time identity)\<rparr>
              in if contains_identity s identity then Some (Ok PoDuplicate, s)
                 else do { s \<leftarrow> insert_deferred env
                             \<lparr>dt_identity = identity, dt_reason = reason, dt_deferrals = 0,
                              dt_not_before = now + frozen_recheck (deferral_policy s)\<rparr> s;
                           Some (Ok PoDeferred, s) })
         | Inr (Skipped reason) \<Rightarrow>
             Some (Ok PoSkipped, record_event (EvInjectionSkipped (skip_code reason)) s))"

section \<open>Deferred targets\<close>

definition skip_target ::
  "('w, 'x) host_env_scheme \<Rightarrow> deferred_target \<Rightarrow> string \<Rightarrow> 'w orchestrator \<Rightarrow>
     ((structured_service_error + process_outcome) \<times> 'w orchestrator) option" where
  "skip_target env target code s =
     do { s \<leftarrow> record_skip env (dt_identity target) code None s; Some (Ok PoSkipped, s) }"

definition revalidate_deferred ::
  "('w, 'x) host_env_scheme \<Rightarrow> deferred_target \<Rightarrow> instant \<Rightarrow> 'w orchestrator \<Rightarrow>
     ((structured_service_error + process_outcome) \<times> 'w orchestrator) option" where
  "revalidate_deferred env target now s =
     (let (decision, s) = call_validate env (pid (dt_identity target)) s
      in case decision of
           Inl error \<Rightarrow> Some (Err error, s)
         | Inr (Eligible identity) \<Rightarrow>
             (if identity = dt_identity target
              then do { (outcome, s) \<leftarrow> attempt_injection env identity (dt_deferrals target) now s;
                        Some (Ok outcome, s) }
              else skip_target env target TARGET_VANISHED_RESULT_CODE s)
         | Inr (Deferred identity reason) \<Rightarrow>
             (if identity = dt_identity target
              then do { s \<leftarrow> insert_deferred env
                          \<lparr>dt_identity = identity, dt_reason = reason,
                           dt_deferrals = dt_deferrals target,
                           dt_not_before = now + frozen_recheck (deferral_policy s)\<rparr> s;
                        Some (Ok PoDeferred, s) }
              else skip_target env target TARGET_VANISHED_RESULT_CODE s)
         | Inr (Skipped _) \<Rightarrow> skip_target env target ''process-no-longer-eligible'' s)"

text \<open>The first key of the queue whose target is due.\<close>

definition due_key :: "instant \<Rightarrow> 'w orchestrator \<Rightarrow> process_key option" where
  "due_key now s =
     find (\<lambda>key. case fmlookup (deferred s) key of
                   None \<Rightarrow> False | Some target \<Rightarrow> dt_not_before target \<le> now) (deferred_order s)"

definition poll_deferred ::
  "('w, 'x) host_env_scheme \<Rightarrow> instant \<Rightarrow> 'w orchestrator \<Rightarrow>
     ((structured_service_error + process_outcome option) \<times> 'w orchestrator) option" where
  "poll_deferred env now s =
     (case due_key now s of
        None \<Rightarrow> Some (Ok None, s)
      | Some key \<Rightarrow>
          (let s = s\<lparr>deferred_order := remove1 key (deferred_order s)\<rparr>
           in case fmlookup (deferred s) key of
                None \<Rightarrow> Some (Ok None, s)
              | Some target \<Rightarrow>
                  (let s = s\<lparr>deferred := fmdrop key (deferred s)\<rparr>;
                       (lifecycle, s) = (if dt_reason target = DrFrozen
                                         then call_lifecycle env (dt_identity target) s
                                         else (LcRunning, s))
                   in case lifecycle of
                        LcExiting \<Rightarrow>
                          do { (r, s) \<leftarrow> skip_target env target ''process-exiting'' s;
                               Some (map_sum id Some r, s) }
                      | LcRunning \<Rightarrow>
                          do { (r, s) \<leftarrow> revalidate_deferred env target now s;
                               Some (map_sum id Some r, s) }
                      | _ \<Rightarrow>
                          do { s \<leftarrow> insert_deferred env
                                 (target\<lparr>dt_not_before := now + frozen_recheck (deferral_policy s)\<rparr>) s;
                               Some (Ok (Some PoDeferred), s) })))"

definition deferred_targets :: "'w orchestrator \<Rightarrow> deferred_target list" where
  "deferred_targets s = List.map_filter (fmlookup (deferred s)) (deferred_order s)"

section \<open>Session changes\<close>

definition handle_session_change :: "session_change \<Rightarrow> 'w orchestrator \<Rightarrow> 'w orchestrator" where
  "handle_session_change change s =
     (if is_overflow change
      then s\<lparr>processed := fmempty, process_order := [], deferred := fmempty, deferred_order := []\<rparr>
      else if event_type change \<in> {2, 4, 6, 11}
      then (let s = s\<lparr>processed := fmretain (\<lambda>r. session_id (ar_identity r) \<noteq> sc_session_id change) (processed s)\<rparr>;
                s = s\<lparr>process_order := filter (\<lambda>k. k |\<in>| fmdom (processed s)) (process_order s)\<rparr>;
                s = s\<lparr>deferred := fmretain (\<lambda>t. session_id (dt_identity t) \<noteq> sc_session_id change) (deferred s)\<rparr>
            in s\<lparr>deferred_order := filter (\<lambda>k. k |\<in>| fmdom (deferred s)) (deferred_order s)\<rparr>)
      else s)"

section \<open>Results and health\<close>

definition last_result :: "'w orchestrator \<Rightarrow> u32 \<Rightarrow> u64 \<Rightarrow> process_attempt_record option" where
  "last_result s p created = fmlookup (processed s) (p, created)"

definition tracked_process_count :: "'w orchestrator \<Rightarrow> nat" where
  "tracked_process_count s = fmlen (processed s)"

definition most_recent_result :: "'w orchestrator \<Rightarrow> process_attempt_record option" where
  "most_recent_result s =
     (if process_order s = [] then None else fmlookup (processed s) (last (process_order s)))"

definition untrustworthy_message :: "process_attempt_record \<Rightarrow> string" where
  "untrustworthy_message r =
     ''target result is not trustworthy: pid='' @ show_word (pid (ar_identity r))
     @ '' creation_time='' @ show_word (creation_time (ar_identity r))
     @ '' session_id='' @ show_word (session_id (ar_identity r))
     @ '' generation='' @ ar_runtime_generation_id r @ '' broker_code='' @ ar_code r"

definition generation_health_error :: "'w orchestrator \<Rightarrow> structured_service_error option" where
  "generation_health_error s =
     do {
       r \<leftarrow> most_recent_result s;
       code \<leftarrow> (if ends_with (ar_code r) ''-cleanup-unknown'' then Some ''injection-cleanup-unknown''
                else if ar_code r \<in> {''helper-response-invalid'', ''helper-response-too-large'',
                                      ''helper-exit-mismatch'', ''runtime-generation-mismatch''}
                then Some ''injection-helper-response-integrity-unknown''
                else None);
       Some \<lparr>se_code = code, se_message = untrustworthy_message r, se_win32_error = ar_win32_error r\<rparr>
     }"

end
