(* ===== verification/Orchestrator_Invariant.thy ===== *)
theory Orchestrator_Invariant
  imports Injection_Orchestrator
begin

text \<open>
  The invariant of the injection orchestrator and what one operation does: every operation of a
  well-formed state returns, keeps the state well formed, and files the target it handled under
  its exact outcome.
\<close>

section \<open>Well-formed states\<close>

definition wf_orchestrator :: "'w orchestrator \<Rightarrow> bool" where
  "wf_orchestrator s \<longleftrightarrow>
     indexed (process_order s) (processed s)
     \<and> fmlen (processed s) \<le> MAX_TRACKED_PROCESS_RESULTS
     \<and> indexed (deferred_order s) (deferred s)
     \<and> fmlen (deferred s) \<le> MAX_DEFERRED_TARGETS
     \<and> fmdom (processed s) |\<inter>| fmdom (deferred s) = {||}
     \<and> (\<forall>k r. fmlookup (processed s) k = Some r \<longrightarrow>
           key_of (ar_identity r) = k \<and> ar_runtime_generation_id r = generation_id s)
     \<and> (\<forall>k t. fmlookup (deferred s) k = Some t \<longrightarrow> key_of (dt_identity t) = k)"

definition same_config :: "'w orchestrator \<Rightarrow> 'w orchestrator \<Rightarrow> bool" where
  "same_config s s' \<longleftrightarrow> service_pid s' = service_pid s \<and> generation_id s' = generation_id s
     \<and> profile_digest s' = profile_digest s \<and> deferral_policy s' = deferral_policy s
     \<and> retry_policy s' = retry_policy s \<and> has_retry_scheduler s' = has_retry_scheduler s"

text \<open>
  The trace grows, the injection requests in what is added are \<open>injs\<close>, and nothing in it is a call
  of the service lifecycle.
\<close>

definition calls :: "host_call list \<Rightarrow> 'w orchestrator \<Rightarrow> 'w orchestrator \<Rightarrow> bool" where
  "calls injs s s' \<longleftrightarrow> same_config s s' \<and> (\<exists>t. trace s' = trace s @ t \<and> filter is_inject t = injs
     \<and> list_all (\<lambda>c. \<not> lifecycle_call c) t)"

abbreviation quiet :: "'w orchestrator \<Rightarrow> 'w orchestrator \<Rightarrow> bool" where
  "quiet \<equiv> calls []"

definition keeps_deferred :: "'w orchestrator \<Rightarrow> 'w orchestrator \<Rightarrow> bool" where
  "keeps_deferred s s' \<longleftrightarrow> fmdom (deferred s) |\<subseteq>| fmdom (deferred s') |\<union>| fmdom (processed s')"

text \<open>Where a target ends up, by outcome.\<close>

definition filed :: "process_identity \<Rightarrow> process_outcome \<Rightarrow> 'w orchestrator \<Rightarrow> bool" where
  "filed i outcome s \<longleftrightarrow>
     (if outcome = PoDeferred
      then \<exists>t. fmlookup (deferred s) (key_of i) = Some t \<and> dt_identity t = i
      else outcome \<noteq> PoDuplicate
        \<and> (\<exists>r. fmlookup (processed s) (key_of i) = Some r \<and> ar_identity r = i \<and> ar_outcome r = outcome)
        \<and> process_order s \<noteq> [] \<and> last (process_order s) = key_of i)"

definition unknown_key :: "process_identity \<Rightarrow> 'w orchestrator \<Rightarrow> bool" where
  "unknown_key i s \<longleftrightarrow> key_of i |\<notin>| fmdom (processed s) \<and> key_of i |\<notin>| fmdom (deferred s)"

lemma same_config_refl [simp]: "same_config s s"
  by (simp add: same_config_def)

lemma calls_refl [simp]: "quiet s s"
  by (simp add: calls_def)

lemma calls_trans: "calls a s s' \<Longrightarrow> calls b s' s'' \<Longrightarrow> calls (a @ b) s s''"
  by (fastforce simp: calls_def same_config_def)

lemma quiet_trans: "quiet s s' \<Longrightarrow> calls b s' s'' \<Longrightarrow> calls b s s''"
  using calls_trans by fastforce

lemma wf_built: "wf_orchestrator (build_orchestrator sp gid policy scheduler w)"
  by (simp add: wf_orchestrator_def build_orchestrator_def)

lemma wf_runtime_context: "wf_orchestrator (with_runtime_context sp gid digest policy w)"
  by (simp add: wf_orchestrator_def with_runtime_context_def with_retry_policy_def
      build_orchestrator_def)

text \<open>Changing only what the invariant does not read.\<close>

lemma wf_frame:
  assumes "wf_orchestrator s" "processed s' = processed s" "process_order s' = process_order s"
    "deferred s' = deferred s" "deferred_order s' = deferred_order s" "generation_id s' = generation_id s"
  shows "wf_orchestrator s'"
  using assms by (simp add: wf_orchestrator_def)

section \<open>Collaborator calls\<close>

definition same_books :: "'w orchestrator \<Rightarrow> 'w orchestrator \<Rightarrow> bool" where
  "same_books s s' \<longleftrightarrow> processed s' = processed s \<and> process_order s' = process_order s
     \<and> deferred s' = deferred s \<and> deferred_order s' = deferred_order s
     \<and> injection_telemetry s' = injection_telemetry s
     \<and> last_handled_creation_time s' = last_handled_creation_time s \<and> same_config s s'"

lemma call_lifecycle_frame:
  "call_lifecycle env i s = (a, s') \<Longrightarrow> same_books s s' \<and> quiet s s'"
  by (auto simp: call_lifecycle_def same_books_def calls_def same_config_def split: prod.splits)

lemma call_liveness_frame:
  "call_liveness env i s = (a, s') \<Longrightarrow> same_books s s' \<and> quiet s s'"
  by (auto simp: call_liveness_def same_books_def calls_def same_config_def split: prod.splits)

lemma process_label_frame:
  "process_label env outcome i s = (a, s') \<Longrightarrow> same_books s s' \<and> quiet s s'"
  by (auto simp: process_label_def call_basename_def same_books_def calls_def same_config_def Let_def
      split: prod.splits if_splits)

lemma call_inject_frame:
  "call_inject env r s = (a, s') \<Longrightarrow>
     same_books s s' \<and> calls [CallInject r] s s'"
  by (auto simp: call_inject_def same_books_def calls_def same_config_def split: prod.splits)

lemma call_retry_wait_frame:
  "call_retry_wait env d s = (a, s') \<Longrightarrow> same_books s s' \<and> quiet s s'"
  by (auto simp: call_retry_wait_def same_books_def calls_def same_config_def Let_def
      split: prod.splits if_splits)

lemma call_validate_frame:
  "call_validate env p s = (a, s') \<Longrightarrow> same_books s s' \<and> quiet s s'"
  by (auto simp: call_validate_def validate_target_def same_books_def calls_def same_config_def
      Let_def split: prod.splits sum.splits option.splits if_splits)

lemma call_validate_cleared:
  assumes "call_validate env p s = (Inr d, s')" and "decision_identity d = Some i"
  shows "pid i = p \<and> cleared env (service_pid s) (world s) i"
  using assms validate_target_cleared [of env "service_pid s" p "(world s, trace s)" d]
  by (auto simp: call_validate_def split: prod.splits)

lemmas call_frames =
  call_lifecycle_frame call_liveness_frame process_label_frame call_retry_wait_frame
  call_validate_frame

lemma same_books_wf: "same_books s s' \<Longrightarrow> wf_orchestrator s \<Longrightarrow> wf_orchestrator s'"
  by (rule wf_frame) (auto simp: same_books_def same_config_def)

lemma same_books_unknown: "same_books s s' \<Longrightarrow> unknown_key i s' = unknown_key i s"
  by (simp add: same_books_def unknown_key_def)

lemma same_books_keeps: "same_books s s' \<Longrightarrow> keeps_deferred s s'"
  by (auto simp: same_books_def keeps_deferred_def)

lemma keeps_same_books_left:
  "same_books s s' \<Longrightarrow> keeps_deferred s' s'' = keeps_deferred s s''"
  by (simp add: same_books_def keeps_deferred_def)

section \<open>Recording a result\<close>

lemma evict_oldest_results_eq:
  assumes "indexed ks m" "fmlen m \<le> MAX_TRACKED_PROCESS_RESULTS"
  shows "evict_oldest_results ks m =
     Some (if fmlen m < MAX_TRACKED_PROCESS_RESULTS then (ks, m) else (tl ks, fmdrop (hd ks) m))"
proof (cases ks)
  case Nil
  with assms indexed_len [OF assms(1)] show ?thesis
    by (simp add: MAX_TRACKED_PROCESS_RESULTS_def)
next
  case (Cons k rest)
  with assms have k: "k |\<in>| fmdom m" by (auto simp: indexed_def)
  then have "fmlen (fmdrop k m) < MAX_TRACKED_PROCESS_RESULTS"
    using assms(2) fmlen_pos [OF k] by simp
  then show ?thesis using Cons assms(2) by (cases rest) auto
qed

lemma record_result_spec:
  assumes wf: "wf_orchestrator s" and nd: "key_of i |\<notin>| fmdom (deferred s)"
  obtains s' r where "record_result env i outcome attempts result s = Some s'"
    and "wf_orchestrator s'" and "quiet s s'"
    and "fmlookup (processed s') (key_of i) = Some r"
    and "ar_identity r = i" "ar_outcome r = outcome" "ar_code r = br_code result"
    and "ar_win32_error r = br_win32_error result" "ar_attempts r = attempts"
    and "key_of i |\<notin>| fmdom (processed s) \<Longrightarrow>
       process_order s' \<noteq> [] \<and> last (process_order s') = key_of i"
    and "deferred s' = deferred s" "deferred_order s' = deferred_order s"
    and "fmdom (processed s') |\<subseteq>| finsert (key_of i) (fmdom (processed s))"
    and "injection_telemetry s' = injection_telemetry s"
    and "last_handled_creation_time s' = last_handled_creation_time s"
proof -
  let ?k = "key_of i"
  let ?order = "if ?k |\<in>| fmdom (processed s) then process_order s
     else if fmlen (processed s) < MAX_TRACKED_PROCESS_RESULTS then process_order s @ [?k]
     else tl (process_order s) @ [?k]"
  let ?m = "if ?k |\<in>| fmdom (processed s) \<or> fmlen (processed s) < MAX_TRACKED_PROCESS_RESULTS
     then processed s else fmdrop (hd (process_order s)) (processed s)"
  let ?s1 = "s\<lparr>process_order := ?order, processed := ?m\<rparr>"
  let ?r = "\<lparr>ar_identity = i, ar_runtime_generation_id = generation_id s, ar_outcome = outcome,
     ar_attempts = attempts, ar_code = br_code result, ar_win32_error = br_win32_error result\<rparr>"
  obtain label s2 where label: "process_label env outcome i ?s1 = (label, s2)" by force
  note fr = process_label_frame [OF label]
  let ?s3 = "(record_event (EvInjectionResult ?r label) s2)"
  let ?s' = "?s3\<lparr>processed := fmupd ?k ?r (processed ?s3)\<rparr>"
  have idx: "indexed (process_order s) (processed s)"
    and len: "fmlen (processed s) \<le> MAX_TRACKED_PROCESS_RESULTS"
    using wf by (auto simp: wf_orchestrator_def)
  have ev: "evict_oldest_results (process_order s) (processed s) =
     Some (if fmlen (processed s) < MAX_TRACKED_PROCESS_RESULTS then (process_order s, processed s)
           else (tl (process_order s), fmdrop (hd (process_order s)) (processed s)))"
    by (rule evict_oldest_results_eq [OF idx len])
  have run: "record_result env i outcome attempts result s = Some ?s'"
    using label by (auto simp: record_result_def ev Let_def)
  have books: "processed ?s' = fmupd ?k ?r ?m" "process_order ?s' = ?order"
    "deferred ?s' = deferred s" "deferred_order ?s' = deferred_order s"
    "generation_id ?s' = generation_id s" "injection_telemetry ?s' = injection_telemetry s"
    "last_handled_creation_time ?s' = last_handled_creation_time s"
    using fr by (auto simp: same_books_def same_config_def record_event_def)
  have idx': "indexed ?order (fmupd ?k ?r ?m) \<and> fmlen (fmupd ?k ?r ?m) \<le> MAX_TRACKED_PROCESS_RESULTS"
  proof (cases "?k |\<in>| fmdom (processed s) \<or> fmlen (processed s) < MAX_TRACKED_PROCESS_RESULTS")
    case True
    with idx len show ?thesis by (auto simp: indexed_upd indexed_append)
  next
    case False
    then have "process_order s \<noteq> []"
      using indexed_len [OF idx] by (auto simp: MAX_TRACKED_PROCESS_RESULTS_def)
    then obtain h t where ht: "process_order s = h # t" by (cases "process_order s") auto
    with idx have h: "h |\<in>| fmdom (processed s)" by (auto simp: indexed_def)
    have "indexed t (fmdrop h (processed s))" using idx ht by (auto intro: indexed_drop_hd)
    moreover have "?k |\<notin>| fmdom (fmdrop h (processed s))" using False by simp
    ultimately show ?thesis using False ht h len fmlen_pos [OF h]
      by (auto simp: indexed_append)
  qed
  have wf': "wf_orchestrator ?s'"
    using wf nd idx' unfolding wf_orchestrator_def books by (auto split: if_splits)
  have q: "quiet s ?s'"
    using fr by (auto simp: calls_def same_books_def same_config_def record_event_def)
  show thesis
    by (rule that [OF run wf' q]) (auto simp: books)
qed

lemma record_skip_spec:
  assumes "wf_orchestrator s" and "key_of i |\<notin>| fmdom (deferred s)"
    and "key_of i |\<notin>| fmdom (processed s)"
  obtains s' where "record_skip env i code e s = Some s'" "wf_orchestrator s'" "quiet s s'"
    "filed i PoSkipped s'" "deferred s' = deferred s" "deferred_order s' = deferred_order s"
    "fmdom (processed s') |\<subseteq>| finsert (key_of i) (fmdom (processed s))"
    "injection_telemetry s' = injection_telemetry s"
    "last_handled_creation_time s' = last_handled_creation_time s"
  unfolding record_skip_def
  by (rule record_result_spec [OF assms(1,2), of env PoSkipped 0
        "\<lparr>br_disposition = BdSkipped, br_code = code, br_win32_error = e\<rparr>"])
    (use assms(3) in \<open>auto simp: filed_def\<close>)

section \<open>Deferring a target\<close>

lemma make_deferral_room_spec:
  assumes wf: "wf_orchestrator s" and u: "unknown_key i s"
  obtains s' where "make_deferral_room env (deferred_order s) s = Some s'" "wf_orchestrator s'"
    "quiet s s'" "fmlen (deferred s') < MAX_DEFERRED_TARGETS" "unknown_key i s'" "keeps_deferred s s'"
    "injection_telemetry s' = injection_telemetry s"
    "last_handled_creation_time s' = last_handled_creation_time s"
proof (cases "fmlen (deferred s) < MAX_DEFERRED_TARGETS")
  case True
  have "make_deferral_room env (deferred_order s) s = Some s"
    using True by (cases "deferred_order s") (auto intro: orchestrator.equality)
  with True wf u that [of s] show thesis by (simp add: keeps_deferred_def)
next
  case False
  have idx: "indexed (deferred_order s) (deferred s)" and le: "fmlen (deferred s) \<le> MAX_DEFERRED_TARGETS"
    using wf by (auto simp: wf_orchestrator_def)
  with False have "deferred_order s \<noteq> []"
    using indexed_len [OF idx] by (auto simp: MAX_DEFERRED_TARGETS_def)
  then obtain h rest where ht: "deferred_order s = h # rest" by (cases "deferred_order s") auto
  with idx have h: "h |\<in>| fmdom (deferred s)" by (auto simp: indexed_def)
  then obtain evicted where ev: "fmlookup (deferred s) h = Some evicted" by (auto simp: fmlookup_dom_iff)
  with wf have key: "key_of (dt_identity evicted) = h" unfolding wf_orchestrator_def by blast
  let ?s1 = "s\<lparr>deferred := fmdrop h (deferred s), deferred_order := rest\<rparr>"
  have wf1: "wf_orchestrator ?s1"
    using wf idx ht indexed_drop_hd [of h rest "deferred s"] le
    unfolding wf_orchestrator_def by (auto split: if_splits)
  have nd: "key_of (dt_identity evicted) |\<notin>| fmdom (deferred ?s1)" by (simp add: key)
  have np: "key_of (dt_identity evicted) |\<notin>| fmdom (processed ?s1)"
    using wf h key unfolding wf_orchestrator_def by auto
  obtain s' where s': "record_skip env (dt_identity evicted) DEFERRAL_CAPACITY_EXHAUSTED_CODE None ?s1 = Some s'"
    "wf_orchestrator s'" "quiet ?s1 s'" "filed (dt_identity evicted) PoSkipped s'"
    "deferred s' = deferred ?s1" "deferred_order s' = deferred_order ?s1"
    "fmdom (processed s') |\<subseteq>| finsert (key_of (dt_identity evicted)) (fmdom (processed ?s1))"
    "injection_telemetry s' = injection_telemetry ?s1"
    "last_handled_creation_time s' = last_handled_creation_time ?s1"
    using record_skip_spec [OF wf1 nd np, of env DEFERRAL_CAPACITY_EXHAUSTED_CODE None] by blast
  show thesis
  proof (rule that [OF _ s'(2)])
    show "make_deferral_room env (deferred_order s) s = Some s'"
      using False ht ev s'(1) by simp
    show "quiet s s'" using s'(3) by (auto simp: calls_def same_config_def)
    show "fmlen (deferred s') < MAX_DEFERRED_TARGETS"
      using s'(5) h le fmlen_pos [OF h] by simp
    show "unknown_key i s'"
      using u h key s'(5,7) by (auto simp: unknown_key_def)
    have "h |\<in>| fmdom (processed s')"
      using s'(4) key by (auto simp: filed_def intro: fmdomI)
    then show "keeps_deferred s s'" using s'(5) by (auto simp: keeps_deferred_def)
    show "injection_telemetry s' = injection_telemetry s" using s'(8) by simp
    show "last_handled_creation_time s' = last_handled_creation_time s" using s'(9) by simp
  qed
qed

lemma insert_deferred_spec:
  assumes wf: "wf_orchestrator s" and u: "unknown_key (dt_identity target) s"
  obtains s' where "insert_deferred env target s = Some s'" "wf_orchestrator s'" "quiet s s'"
    "fmlookup (deferred s') (key_of (dt_identity target)) = Some target"
    "filed (dt_identity target) PoDeferred s'" "keeps_deferred s s'"
    "injection_telemetry s' = injection_telemetry s"
    "last_handled_creation_time s' = last_handled_creation_time s"
proof -
  let ?k = "key_of (dt_identity target)"
  have nk: "?k |\<notin>| fmdom (deferred s)" using u by (simp add: unknown_key_def)
  have idx: "indexed (deferred_order s) (deferred s)" using wf by (simp add: wf_orchestrator_def)
  with nk have "?k \<notin> set (deferred_order s)" by (simp add: indexed_mem)
  then have flt: "filter (\<lambda>c. c \<noteq> ?k) (deferred_order s) = deferred_order s"
    by (auto simp: filter_id_conv)
  have same: "s\<lparr>deferred_order := deferred_order s\<rparr> = s" by simp
  obtain s1 where s1: "make_deferral_room env (deferred_order s) s = Some s1" "wf_orchestrator s1"
    "quiet s s1" "fmlen (deferred s1) < MAX_DEFERRED_TARGETS" "unknown_key (dt_identity target) s1"
    "keeps_deferred s s1" "injection_telemetry s1 = injection_telemetry s"
    "last_handled_creation_time s1 = last_handled_creation_time s"
    using make_deferral_room_spec [OF wf u] by metis
  let ?s' = "s1\<lparr>deferred := fmupd ?k target (deferred s1), deferred_order := deferred_order s1 @ [?k]\<rparr>"
  have nk1: "?k |\<notin>| fmdom (deferred s1)" "?k |\<notin>| fmdom (processed s1)"
    using s1(5) by (auto simp: unknown_key_def)
  have idx1: "indexed (deferred_order s1) (deferred s1)" using s1(2) by (simp add: wf_orchestrator_def)
  have run: "insert_deferred env target s = Some ?s'"
    using nk s1(1) by (simp add: insert_deferred_def flt same Let_def)
  have wf': "wf_orchestrator ?s'"
    using s1(2,4) nk1 indexed_append [OF idx1 nk1(1)]
    unfolding wf_orchestrator_def by (auto split: if_splits)
  show thesis
    by (rule that [OF run wf'])
      (use s1 in \<open>auto simp: calls_def same_config_def filed_def keeps_deferred_def\<close>)
qed

section \<open>Attempting an injection\<close>

text \<open>
  What an attempt on a target guarantees.  \<open>injs\<close> are the requests it makes to the broker.
\<close>

definition attempt_post ::
  "process_identity \<Rightarrow> host_call list \<Rightarrow> 'w orchestrator \<Rightarrow> process_outcome \<times> 'w orchestrator \<Rightarrow> bool" where
  "attempt_post i injs s res \<longleftrightarrow> (case res of (outcome, s') \<Rightarrow>
     wf_orchestrator s' \<and> calls injs s s' \<and> filed i outcome s' \<and> keeps_deferred s s'
     \<and> last_handled_creation_time s' = last_handled_creation_time s
     \<and> injection_telemetry s' = injection_telemetry
         (if outcome = PoInjected then record_injection_success i s else s))"

text \<open>Running an attempt after a call that leaves the books alone.\<close>

lemma record_injection_success_cong:
  assumes "same_books s s1"
  shows "injection_telemetry (record_injection_success i s1) =
     injection_telemetry (record_injection_success i s)"
  using assms by (auto simp: record_injection_success_def same_books_def same_config_def split: option.splits)

lemma attempt_post_before:
  assumes "same_books s s1" "calls a s s1" "attempt_post i b s1 res"
  shows "attempt_post i (a @ b) s res"
proof -
  obtain outcome s' where res: "res = (outcome, s')" by force
  have tel: "injection_telemetry (if outcome = PoInjected then record_injection_success i s1 else s1)
     = injection_telemetry (if outcome = PoInjected then record_injection_success i s else s)"
    using record_injection_success_cong [OF assms(1)] assms(1) by (auto simp: same_books_def)
  have "keeps_deferred s1 s' = keeps_deferred s s'" using assms(1) by (rule keeps_same_books_left)
  moreover have "last_handled_creation_time s1 = last_handled_creation_time s"
    using assms(1) by (simp add: same_books_def)
  ultimately show ?thesis
    using assms(3) tel calls_trans [OF assms(2)] unfolding res attempt_post_def by simp
qed

lemma record_result_post:
  assumes "wf_orchestrator s" "unknown_key i s" "outcome \<notin> {PoDeferred, PoDuplicate, PoInjected}"
  shows "\<exists>s'. record_result env i outcome attempts result s = Some s' \<and> attempt_post i [] s (outcome, s')"
proof -
  have nd: "key_of i |\<notin>| fmdom (deferred s)" and np: "key_of i |\<notin>| fmdom (processed s)"
    using assms(2) by (auto simp: unknown_key_def)
  show ?thesis
    by (rule record_result_spec [OF assms(1) nd, of env outcome attempts result])
      (use assms(3) np in \<open>auto simp: attempt_post_def filed_def keeps_deferred_def\<close>)
qed

lemma insert_deferred_post:
  assumes "wf_orchestrator s" "unknown_key i s" "dt_identity target = i"
  shows "\<exists>s'. insert_deferred env target s = Some s' \<and> attempt_post i [] s (PoDeferred, s')"
  by (rule insert_deferred_spec [OF assms(1), of target env])
    (use assms(2,3) in \<open>auto simp: attempt_post_def\<close>)

lemma handle_launch_failure_post:
  assumes wf: "wf_orchestrator s" and u: "unknown_key i s"
  shows "\<exists>res. handle_launch_failure env i deferrals now result attempt s = Some res
     \<and> attempt_post i [] s res"
proof -
  obtain l s1 where l: "call_liveness env i s = (l, s1)" by force
  note fr = call_liveness_frame [OF l]
  then have wf1: "wf_orchestrator s1" and u1: "unknown_key i s1"
    using wf u same_books_wf same_books_unknown by blast+
  have post: "attempt_post i [] s1 res \<Longrightarrow> attempt_post i [] s res" for res
    using attempt_post_before [of s s1 "[]" i "[]" res] fr by simp
  show ?thesis
    using record_result_post [where s = s1 and env = env and outcome = PoSkipped and attempts = 0
        and result = "\<lparr>br_disposition = BdSkipped, br_code = TARGET_VANISHED_RESULT_CODE,
          br_win32_error = br_win32_error result\<rparr>", OF wf1 u1]
      record_result_post [where s = s1 and env = env and outcome = PoRejected
        and attempts = attempt and result = result, OF wf1 u1]
      insert_deferred_post [where s = s1 and env = env and
        target = "\<lparr>dt_identity = i, dt_reason = DrHelperLaunchFailed,
          dt_deferrals = saturating_add deferrals 1,
          dt_not_before = now + launch_backoff (deferral_policy s1) deferrals\<rparr>", OF wf1 u1]
    by (auto simp: handle_launch_failure_def l record_skip_def Let_def intro: post)
qed

text \<open>The end of an attempt with a terminal answer: telemetry, liveness check, record.\<close>

definition finish_attempt ::
  "('w, 'x) host_env_scheme \<Rightarrow> process_identity \<Rightarrow> process_outcome \<Rightarrow> u8 \<Rightarrow> broker_result \<Rightarrow> 'w orchestrator \<Rightarrow>
     (process_outcome \<times> 'w orchestrator) option" where
  "finish_attempt env i outcome attempt result s =
     (let s = (if outcome = PoInjected then record_injection_success i s else s);
          ((outcome, result), s) = reclassify_vanished_target env i outcome result s
      in do { s \<leftarrow> record_result env i outcome attempt result s; Some (outcome, s) })"

lemma reclassify_frame:
  assumes "reclassify_vanished_target env i outcome result s = ((outcome', result'), s')"
    and "outcome \<notin> {PoDeferred, PoDuplicate}"
  shows "same_books s s' \<and> quiet s s' \<and> outcome' \<notin> {PoDeferred, PoDuplicate}
     \<and> (outcome' = PoInjected \<longleftrightarrow> outcome = PoInjected)"
  using assms call_liveness_frame [of env i s]
  by (auto simp: reclassify_vanished_target_def same_books_def Let_def
      split: prod.splits if_splits target_liveness.splits)

lemma success_frame:
  "\<exists>t. (if c then record_injection_success i s else s) = s\<lparr>injection_telemetry := t\<rparr>"
  by (cases s) (auto simp: record_injection_success_def split: option.splits)

lemma finish_attempt_post:
  assumes wf: "wf_orchestrator s" and u: "unknown_key i s" and o: "outcome \<notin> {PoDeferred, PoDuplicate}"
  shows "\<exists>res. finish_attempt env i outcome attempt result s = Some res \<and> attempt_post i [] s res"
proof -
  let ?s1 = "if outcome = PoInjected then record_injection_success i s else s"
  obtain t where t: "?s1 = s\<lparr>injection_telemetry := t\<rparr>"
    using success_frame by blast
  obtain outcome' result' s2
    where rc: "reclassify_vanished_target env i outcome result ?s1 = ((outcome', result'), s2)"
    by (metis surj_pair)
  have fr: "same_books ?s1 s2" "quiet ?s1 s2" "outcome' \<notin> {PoDeferred, PoDuplicate}"
    "outcome' = PoInjected \<longleftrightarrow> outcome = PoInjected"
    using reclassify_frame [OF rc o] by blast+
  have wf1: "wf_orchestrator ?s1" "quiet s ?s1"
    using wf by (auto simp: t calls_def same_config_def intro: wf_frame)
  have u2: "unknown_key i s2" using u same_books_unknown [OF fr(1)] by (simp add: t unknown_key_def)
  have wf2: "wf_orchestrator s2" using fr(1) wf1(1) by (rule same_books_wf)
  have nd: "key_of i |\<notin>| fmdom (deferred s2)" and np: "key_of i |\<notin>| fmdom (processed s2)"
    using u2 by (auto simp: unknown_key_def)
  have q: "quiet s s2" using wf1(2) fr(2) by (rule quiet_trans)
  have dom: "deferred s2 = deferred s" "processed s2 = processed s"
    "last_handled_creation_time s2 = last_handled_creation_time s"
    "injection_telemetry s2 = injection_telemetry ?s1"
    using fr(1) by (auto simp: same_books_def t)
  show ?thesis
  proof (rule record_result_spec [OF wf2 nd, of env outcome' attempt result'])
    fix s' r
    assume run: "record_result env i outcome' attempt result' s2 = Some s'"
      and rest: "wf_orchestrator s'" "quiet s2 s'" "fmlookup (processed s') (key_of i) = Some r"
        "ar_identity r = i" "ar_outcome r = outcome'"
        "key_of i |\<notin>| fmdom (processed s2) \<Longrightarrow> process_order s' \<noteq> [] \<and> last (process_order s') = key_of i"
        "deferred s' = deferred s2"
        "injection_telemetry s' = injection_telemetry s2"
        "last_handled_creation_time s' = last_handled_creation_time s2"
    have "finish_attempt env i outcome attempt result s = Some (outcome', s')"
      by (simp add: finish_attempt_def Let_def rc run)
    moreover have "attempt_post i [] s (outcome', s')"
      using rest np fr(3,4) quiet_trans [OF q rest(2)] dom
      by (simp add: attempt_post_def filed_def keeps_deferred_def)
    ultimately show ?thesis by blast
  qed
qed

text \<open>One turn of the loop, with its terminal branches grouped.\<close>

lemma attempt_loop_Cons:
  "attempt_loop env request deferrals now attempts (attempt # rest) delay s =
     (let (answer, s) = call_inject env request s; result = normalize_result answer;
          disposition = br_disposition result; i = req_identity request
      in if disposition = BdLaunchFailed then handle_launch_failure env i deferrals now result attempt s
         else if disposition = BdTargetFrozen then
           do { s \<leftarrow> insert_deferred env
                    \<lparr>dt_identity = i, dt_reason = DrFrozen, dt_deferrals = deferrals,
                     dt_not_before = now + frozen_recheck (deferral_policy s)\<rparr> s;
                Some (PoDeferred, s) }
         else (case terminal_outcome disposition (attempt = attempts) of
             Some outcome \<Rightarrow> finish_attempt env i outcome attempt result s
           | None \<Rightarrow>
              (let (continue, s) = call_retry_wait env delay s
               in if \<not> continue
                  then do { s \<leftarrow> record_result env i PoCancelled attempt result s; Some (PoCancelled, s) }
                  else attempt_loop env request deferrals now attempts rest
                             (min (saturating_mul delay 2) (max_delay (retry_policy s))) s)))"
  by (auto simp: finish_attempt_def Let_def split: prod.split option.split broker_disposition.split)

lemma terminal_outcome_cases:
  assumes "terminal_outcome d final = Some outcome"
  shows "outcome \<notin> {PoDeferred, PoDuplicate}"
  using assms by (cases "(d, final)" rule: terminal_outcome.cases) (auto split: if_splits)

lemma terminal_outcome_None:
  assumes "terminal_outcome d final = None" "d \<noteq> BdLaunchFailed" "d \<noteq> BdTargetFrozen"
  shows "d = BdRetryableFailure \<and> \<not> final"
  using assms by (cases "(d, final)" rule: terminal_outcome.cases) (auto split: if_splits)

lemma attempt_loop_post:
  assumes "wf_orchestrator s" "unknown_key (req_identity request) s" "attempts_left \<noteq> []"
    "last attempts_left = attempts"
  shows "\<exists>res n. attempt_loop env request deferrals now attempts attempts_left delay s = Some res
     \<and> 1 \<le> n \<and> n \<le> length attempts_left
     \<and> attempt_post (req_identity request) (replicate n (CallInject request)) s res"
  using assms
proof (induction attempts_left arbitrary: delay s)
  case Nil
  then show ?case by simp
next
  case (Cons attempt rest)
  let ?i = "req_identity request"
  obtain answer s1 where inj: "call_inject env request s = (answer, s1)" by force
  let ?result = "normalize_result answer"
  let ?d = "br_disposition ?result"
  note fr = call_inject_frame [OF inj]
  have wf1: "wf_orchestrator s1" and u1: "unknown_key ?i s1"
    using fr Cons.prems(1,2) same_books_wf same_books_unknown by blast+
  have one: "attempt_post ?i b s1 res \<Longrightarrow> attempt_post ?i (CallInject request # b) s res" for b res
    using attempt_post_before [of s s1 "[CallInject request]" ?i b res] fr by simp
  have last_one: "attempt_loop env request deferrals now attempts (attempt # rest) delay s = Some res
      \<Longrightarrow> attempt_post ?i [] s1 res \<Longrightarrow> ?case" for res
    using one [of "[]" res] by (intro exI [of _ res] exI [of _ 1]) auto
  note unf = attempt_loop_Cons [of env request deferrals now attempts attempt rest delay s, unfolded inj]
  consider (launch) "?d = BdLaunchFailed" | (frozen) "?d = BdTargetFrozen"
    | (final) outcome where "?d \<noteq> BdLaunchFailed" "?d \<noteq> BdTargetFrozen"
        "terminal_outcome ?d (attempt = attempts) = Some outcome"
    | (retry) "?d \<noteq> BdLaunchFailed" "?d \<noteq> BdTargetFrozen"
        "terminal_outcome ?d (attempt = attempts) = None"
    by fastforce
  then show ?case
  proof cases
    case launch
    with handle_launch_failure_post [OF wf1 u1, of env deferrals now ?result attempt] unf last_one
    show ?thesis by (auto simp: Let_def)
  next
    case frozen
    with insert_deferred_post [OF wf1 u1, of "\<lparr>dt_identity = ?i, dt_reason = DrFrozen,
        dt_deferrals = deferrals, dt_not_before = now + frozen_recheck (deferral_policy s1)\<rparr>" env]
      unf last_one
    show ?thesis by (auto simp: Let_def)
  next
    case final
    have "outcome \<notin> {PoDeferred, PoDuplicate}" using final(3) by (rule terminal_outcome_cases)
    from finish_attempt_post [OF wf1 u1 this, of env attempt ?result] final unf last_one
    show ?thesis by (auto simp: Let_def)
  next
    case retry
    then have "attempt \<noteq> attempts" using terminal_outcome_None by blast
    with Cons.prems(4) have rest: "rest \<noteq> []" "last rest = attempts" by (auto split: if_splits)
    obtain cont s2 where wait: "call_retry_wait env delay s1 = (cont, s2)" by force
    note fr2 = call_retry_wait_frame [OF wait]
    have wf2: "wf_orchestrator s2" and u2: "unknown_key ?i s2"
      using fr2 wf1 u1 same_books_wf same_books_unknown by blast+
    have two: "attempt_post ?i b s2 res \<Longrightarrow> attempt_post ?i b s1 res" for b res
      using attempt_post_before [of s1 s2 "[]" ?i b res] fr2 by simp
    show ?thesis
    proof (cases cont)
      case False
      with record_result_post [OF wf2 u2, of PoCancelled env attempt ?result] retry unf wait last_one two
      show ?thesis by (auto simp: Let_def)
    next
      case True
      let ?delay = "min (saturating_mul delay 2) (max_delay (retry_policy s2))"
      obtain res n where IH: "attempt_loop env request deferrals now attempts rest ?delay s2 = Some res"
        "1 \<le> n" "n \<le> length rest" "attempt_post ?i (replicate n (CallInject request)) s2 res"
        using Cons.IH [OF wf2 u2 rest, of ?delay] by blast
      have "attempt_loop env request deferrals now attempts (attempt # rest) delay s = Some res"
        using unf retry wait True IH(1) by (simp add: Let_def)
      moreover have "attempt_post ?i (replicate (Suc n) (CallInject request)) s res"
        using one [OF two [OF IH(4)]] by simp
      ultimately show ?thesis using IH(2,3) by (intro exI [of _ res] exI [of _ "Suc n"]) simp
    qed
  qed
qed

end
