(* ===== verification/Orchestrator_Properties.thy ===== *)
theory Orchestrator_Properties
  imports Orchestrator_Invariant
begin

text \<open>
  The whole operations of the injection orchestrator: one observed PID, one poll of the deferred
  targets, one session change; the machine they make, and the properties of the component.
\<close>

section \<open>Attempts on an unknown target\<close>

definition attempt_limit :: "'w orchestrator \<Rightarrow> nat" where
  "attempt_limit s = max 1 (unat (max_attempts (retry_policy s)))"

definition request_for :: "process_identity \<Rightarrow> 'w orchestrator \<Rightarrow> injection_request" where
  "request_for i s = \<lparr>req_identity = i, req_generation_id = generation_id s\<rparr>"

lemma unat_max_one: "unat (max (w :: u8) 1) = max 1 (unat w)"
  by (auto simp: max_def word_le_nat_alt)

lemma attempt_injection_post:
  assumes "wf_orchestrator s" "unknown_key i s"
  shows "\<exists>res n. attempt_injection env i deferrals now s = Some res \<and> 1 \<le> n \<and> n \<le> attempt_limit s
     \<and> attempt_post i (replicate n (CallInject (request_for i s))) s res"
proof -
  let ?attempts = "max (max_attempts (retry_policy s)) 1"
  let ?ns = "attempt_numbers ?attempts"
  have pos: "1 \<le> unat ?attempts" by (simp add: unat_max_one)
  then have "?ns \<noteq> []" "last ?ns = ?attempts" "length ?ns = unat ?attempts"
    by (auto simp: attempt_numbers_def last_map)
  with attempt_loop_post [OF assms(1), of "request_for i s" ?ns ?attempts env deferrals now
      "initial_delay (retry_policy s)"] assms(2)
  show ?thesis
    unfolding attempt_injection_def Let_def request_for_def [symmetric] attempt_limit_def
    by (auto simp: request_for_def unat_max_one)
qed

section \<open>One observed PID\<close>

definition untouched :: "'w orchestrator \<Rightarrow> 'w orchestrator \<Rightarrow> bool" where
  "untouched s s' \<longleftrightarrow> processed s' = processed s \<and> process_order s' = process_order s
     \<and> deferred s' = deferred s \<and> deferred_order s' = deferred_order s
     \<and> injection_telemetry s' = injection_telemetry s \<and> quiet s s'"

definition tried ::
  "('w, 'x) host_env_scheme \<Rightarrow> 'w \<Rightarrow> process_identity \<Rightarrow> process_outcome \<Rightarrow> 'w orchestrator \<Rightarrow> 'w orchestrator \<Rightarrow> bool" where
  "tried env w i outcome s s' \<longleftrightarrow> (\<exists>n \<le> attempt_limit s.
     (0 < n \<longrightarrow> cleared env (service_pid s) w i)
     \<and> calls (replicate n (CallInject (request_for i s))) s s' \<and> filed i outcome s' \<and> keeps_deferred s s'
     \<and> injection_telemetry s' = injection_telemetry
         (if outcome = PoInjected then record_injection_success i s else s))"

lemma tried_of_post:
  assumes "attempt_post i (replicate n (CallInject (request_for i s))) s1 (outcome, s')"
    and "s1 = s\<lparr>last_handled_creation_time := l\<rparr>" and "n \<le> attempt_limit s"
    and "0 < n \<Longrightarrow> cleared env (service_pid s) w i"
  shows "tried env w i outcome s s' \<and> wf_orchestrator s' \<and> last_handled_creation_time s' = l"
proof -
  have "injection_telemetry (record_injection_success i s1) =
      injection_telemetry (record_injection_success i s)"
    by (simp add: assms(2) record_injection_success_def split: option.splits)
  moreover have "calls (replicate n (CallInject (request_for i s))) s s'"
    using assms(1) by (auto simp: attempt_post_def assms(2) calls_def same_config_def)
  ultimately show ?thesis using assms(1,3,4)
    by (auto simp: tried_def attempt_post_def assms(2) keeps_deferred_def)
qed

definition pid_post ::
  "('w, 'x) host_env_scheme \<Rightarrow> u32 \<Rightarrow> 'w orchestrator \<Rightarrow> (structured_service_error + process_outcome) \<Rightarrow> 'w orchestrator \<Rightarrow> bool" where
  "pid_post env p s r s' \<longleftrightarrow> wf_orchestrator s' \<and>
     (case r of
        Inl e \<Rightarrow> untouched s s' \<and> last_handled_creation_time s' = None
      | Inr outcome \<Rightarrow>
          (outcome = PoSkipped \<and> untouched s s' \<and> last_handled_creation_time s' = None)
          \<or> (\<exists>i. pid i = p \<and> cleared env (service_pid s) (world s) i
               \<and> last_handled_creation_time s' = Some (creation_time i)
               \<and> (if contains_identity s i then outcome = PoDuplicate \<and> untouched s s'
                  else tried env (world s) i outcome s s')))"

lemma not_contains: "\<not> contains_identity s i \<longleftrightarrow> unknown_key i s"
  by (auto simp: contains_identity_def unknown_key_def)

lemma handle_pid_at_post:
  assumes wf: "wf_orchestrator s"
  shows "\<exists>r s'. handle_pid_at env p now s = Some (r, s') \<and> pid_post env p s r s'"
proof -
  let ?s0 = "s\<lparr>last_handled_creation_time := None\<rparr>"
  obtain d s1 where v: "call_validate env p ?s0 = (d, s1)" by force
  note fr = call_validate_frame [OF v]
  have wf1: "wf_orchestrator s1"
    by (rule same_books_wf [of ?s0]) (use fr wf in \<open>auto intro: wf_frame\<close>)
  have un: "untouched s s1" and last: "last_handled_creation_time s1 = None"
    using fr by (auto simp: untouched_def same_books_def calls_def same_config_def)
  have cfg: "same_config s s1" using fr by (simp add: same_books_def same_config_def)
  have ctn: "contains_identity s1 i = contains_identity s i" for i
    using un by (simp add: contains_identity_def untouched_def)
  have ctn2: "contains_identity (s1\<lparr>last_handled_creation_time := l\<rparr>) i = contains_identity s i" for i l
    using ctn [of i] by (simp add: contains_identity_def)
  have adm: "decision_identity dec = Some i \<Longrightarrow> d = Inr dec \<Longrightarrow> pid i = p \<and> cleared env (service_pid s) (world s) i"
    for dec i using call_validate_cleared [of env p ?s0 dec s1 i] v by simp
  let ?s2 = "\<lambda>i. s1\<lparr>last_handled_creation_time := Some (creation_time i)\<rparr>"
  have wf2: "wf_orchestrator (?s2 i)" for i using wf1 by (auto intro: wf_frame)
  have dup: "pid_post env p s (Inr PoDuplicate) (?s2 i)"
    if "contains_identity s i" "decision_identity dec = Some i" "d = Inr dec" for i dec
    using that un wf2 [of i] adm [OF that(2,3)]
    by (auto simp: pid_post_def untouched_def calls_def same_config_def intro!: exI [of _ i])
  have req: "request_for i s1 = request_for i s" "attempt_limit s1 = attempt_limit s" for i
    using cfg by (auto simp: request_for_def attempt_limit_def same_config_def)
  have attempt: "pid_post env p s (Inr outcome) s'"
    if "\<not> contains_identity s i" "decision_identity dec = Some i" "d = Inr dec" "n \<le> attempt_limit s"
      "attempt_post i (replicate n (CallInject (request_for i s))) (?s2 i) (outcome, s')" for i dec n outcome s'
  proof -
    have t: "tried env (world s) i outcome s1 s' \<and> wf_orchestrator s'
        \<and> last_handled_creation_time s' = Some (creation_time i)"
      using tried_of_post [of i n s1 "?s2 i" outcome s' "Some (creation_time i)" env "world s"]
        that(4,5) adm [OF that(2,3)] cfg
      by (simp add: req same_config_def)
    moreover have "injection_telemetry (record_injection_success i s1) =
        injection_telemetry (record_injection_success i s)"
      using un cfg by (auto simp: record_injection_success_def untouched_def same_config_def
          split: option.splits)
    ultimately have "tried env (world s) i outcome s s'"
      using un cfg by (auto simp: tried_def req untouched_def keeps_deferred_def same_config_def intro: quiet_trans)
    with t that(1) adm [OF that(2,3)] show ?thesis
      by (auto simp: pid_post_def)
  qed
  consider (err) e where "d = Inl e" | (skip) reason where "d = Inr (Skipped reason)"
    | (eligible) i where "d = Inr (Eligible i)" | (frozen) i reason where "d = Inr (Deferred i reason)"
    by (metis process_target_decision.exhaust sum.exhaust)
  then show ?thesis
  proof cases
    case err
    then show ?thesis using v un last wf1 by (simp add: handle_pid_at_def pid_post_def)
  next
    case skip
    let ?s' = "record_event (EvInjectionSkipped (skip_code reason)) s1"
    have "untouched s ?s'" using un by (auto simp: untouched_def record_event_def calls_def same_config_def)
    moreover have "wf_orchestrator ?s'" using wf1 by (auto simp: record_event_def intro: wf_frame)
    moreover have "last_handled_creation_time ?s' = None" using last by (simp add: record_event_def)
    ultimately show ?thesis using skip v by (simp add: handle_pid_at_def pid_post_def)
  next
    case eligible
    show ?thesis
    proof (cases "contains_identity s i")
      case True
      then show ?thesis using eligible v dup [of i "Eligible i"]
        by (simp add: handle_pid_at_def decision_identity_def Let_def ctn2)
    next
      case False
      have un2: "unknown_key i (?s2 i)"
        using False ctn2 by (simp add: not_contains [symmetric])
      have lim: "attempt_limit (?s2 i) = attempt_limit s" "request_for i (?s2 i) = request_for i s"
        using req by (simp_all add: attempt_limit_def request_for_def)
      obtain outcome s' n where A: "attempt_injection env i 0 now (?s2 i) = Some (outcome, s')"
        "n \<le> attempt_limit s"
        "attempt_post i (replicate n (CallInject (request_for i s))) (?s2 i) (outcome, s')"
        using attempt_injection_post [OF wf2 un2, of env 0 now] unfolding lim by force
      have "handle_pid_at env p now s = Some (Inr outcome, s')"
        using eligible v A(1) un2 by (simp add: handle_pid_at_def not_contains [symmetric])
      with attempt [of i "Eligible i", OF False _ _ A(2,3)] eligible show ?thesis
        by (simp add: decision_identity_def)
    qed
  next
    case frozen
    show ?thesis
    proof (cases "contains_identity s i")
      case True
      then show ?thesis using frozen v dup [of i "Deferred i reason"]
        by (simp add: handle_pid_at_def decision_identity_def Let_def ctn2)
    next
      case False
      have un2: "unknown_key i (?s2 i)"
        using False ctn2 by (simp add: not_contains [symmetric])
      obtain s' where A: "insert_deferred env \<lparr>dt_identity = i, dt_reason = reason, dt_deferrals = 0,
          dt_not_before = now + frozen_recheck (deferral_policy (?s2 i))\<rparr> (?s2 i) = Some s'"
        "attempt_post i [] (?s2 i) (PoDeferred, s')"
        using insert_deferred_post [OF wf2 un2] by (metis deferred_target.select_convs(1))
      have "handle_pid_at env p now s = Some (Inr PoDeferred, s')"
        using frozen v A(1) un2 by (simp add: handle_pid_at_def not_contains [symmetric])
      with attempt [of i "Deferred i reason" 0 PoDeferred s', OF False] frozen A(2) show ?thesis
        by (simp add: decision_identity_def)
    qed
  qed
qed

section \<open>One poll of the deferred targets\<close>

definition retried ::
  "('w, 'x) host_env_scheme \<Rightarrow> 'w \<Rightarrow> process_identity \<Rightarrow> 'w orchestrator \<Rightarrow> (structured_service_error + process_outcome) \<Rightarrow> 'w orchestrator \<Rightarrow> bool" where
  "retried env w i s r s' \<longleftrightarrow> wf_orchestrator s'
     \<and> last_handled_creation_time s' = last_handled_creation_time s
     \<and> (case r of Inl _ \<Rightarrow> untouched s s' | Inr outcome \<Rightarrow> tried env w i outcome s s')"

lemma retried_of_post:
  assumes "attempt_post i (replicate n (CallInject (request_for i s))) s (outcome, s')"
    and "n \<le> attempt_limit s" and "0 < n \<Longrightarrow> cleared env (service_pid s) w i"
  shows "retried env w i s (Inr outcome) s'"
  using tried_of_post [where s = s and ?s1.0 = s, OF assms(1) _ assms(2,3), of "last_handled_creation_time s"]
  by (simp add: retried_def)

lemma retried_before:
  assumes "same_books s s1" "quiet s s1" "retried env w i s1 r s'"
  shows "retried env w i s r s'"
proof -
  have eq: "request_for i s1 = request_for i s" "attempt_limit s1 = attempt_limit s"
    using assms(1) by (auto simp: request_for_def attempt_limit_def same_books_def same_config_def)
  have tel: "injection_telemetry (if outcome = PoInjected then record_injection_success i s1 else s1)
     = injection_telemetry (if outcome = PoInjected then record_injection_success i s else s)" for outcome
    using record_injection_success_cong [OF assms(1)] assms(1) by (auto simp: same_books_def)
  show ?thesis
    using assms(3) keeps_same_books_left [OF assms(1), of s'] assms(1) quiet_trans [OF assms(2)]
    unfolding retried_def tried_def eq tel
    by (auto simp: untouched_def same_books_def same_config_def split: sum.splits)
qed

lemma skip_target_post:
  assumes "wf_orchestrator s" "unknown_key (dt_identity target) s"
  shows "\<exists>r s'. skip_target env target code s = Some (r, s') \<and> retried env w (dt_identity target) s r s'"
proof -
  obtain s' where "record_skip env (dt_identity target) code None s = Some s'"
    "attempt_post (dt_identity target) [] s (PoSkipped, s')"
    using record_result_post [OF assms, of PoSkipped env 0] by (auto simp: record_skip_def)
  then show ?thesis
    using retried_of_post [of "dt_identity target" 0 s PoSkipped s' env] by (simp add: skip_target_def)
qed

lemma revalidate_deferred_post:
  assumes wf: "wf_orchestrator s" and u: "unknown_key (dt_identity target) s"
  shows "\<exists>r s'. revalidate_deferred env target now s = Some (r, s')
     \<and> retried env (world s) (dt_identity target) s r s'"
proof -
  let ?i = "dt_identity target"
  obtain d s1 where v: "call_validate env (pid ?i) s = (d, s1)" by force
  note fr = call_validate_frame [OF v]
  have wf1: "wf_orchestrator s1" and u1: "unknown_key ?i s1"
    using fr wf u same_books_wf same_books_unknown by blast+
  have before: "retried env (world s) ?i s1 r s' \<Longrightarrow> retried env (world s) ?i s r s'" for r s'
    using retried_before [of s s1 env "world s" ?i r s'] fr by blast
  note vanish = skip_target_post [OF wf1 u1, of env _ "world s"]
  consider (err) e where "d = Inl e" | (skip) reason where "d = Inr (Skipped reason)"
    | (eligible) i where "d = Inr (Eligible i)" | (frozen) i reason where "d = Inr (Deferred i reason)"
    by (metis process_target_decision.exhaust sum.exhaust)
  then show ?thesis
  proof cases
    case err
    have "retried env (world s) ?i s (Inl e) s1"
      using fr wf1 by (auto simp: retried_def untouched_def same_books_def)
    then show ?thesis using v err by (simp add: revalidate_deferred_def)
  next
    case skip
    show ?thesis
      using v skip vanish [of "''process-no-longer-eligible''"] before
      by (fastforce simp: revalidate_deferred_def)
  next
    case eligible
    show ?thesis
    proof (cases "i = ?i")
      case True
      obtain outcome s' n
        where A: "attempt_injection env ?i (dt_deferrals target) now s1 = Some (outcome, s')"
        "n \<le> attempt_limit s1"
        "attempt_post ?i (replicate n (CallInject (request_for ?i s1))) s1 (outcome, s')"
        using attempt_injection_post [OF wf1 u1, of env "dt_deferrals target" now] by force
      from A(1) before [OF retried_of_post [OF A(3,2)]]
        call_validate_cleared [of env "pid ?i" s "Eligible i" s1 i] fr show ?thesis
        using True eligible v
        by (simp add: revalidate_deferred_def decision_identity_def same_books_def same_config_def)
    next
      case False
      then show ?thesis using eligible v vanish [of TARGET_VANISHED_RESULT_CODE] before by (fastforce simp: revalidate_deferred_def)
    qed
  next
    case frozen
    show ?thesis
    proof (cases "i = ?i")
      case True
      obtain s' where "insert_deferred env \<lparr>dt_identity = ?i, dt_reason = reason,
          dt_deferrals = dt_deferrals target,
          dt_not_before = now + frozen_recheck (deferral_policy s1)\<rparr> s1 = Some s'"
        "attempt_post ?i [] s1 (PoDeferred, s')"
        using insert_deferred_post [OF wf1 u1] by (metis deferred_target.select_convs(1))
      then show ?thesis using True frozen v
          before retried_of_post [of ?i 0 s1 PoDeferred s' env]
        by (simp add: revalidate_deferred_def)
    next
      case False
      then show ?thesis using frozen v vanish [of TARGET_VANISHED_RESULT_CODE] before by (fastforce simp: revalidate_deferred_def)
    qed
  qed
qed

text \<open>Taking a key out of the deferred map and its queue.\<close>

definition take_deferred :: "process_key \<Rightarrow> 'w orchestrator \<Rightarrow> 'w orchestrator" where
  "take_deferred key s =
     s\<lparr>deferred_order := remove1 key (deferred_order s), deferred := fmdrop key (deferred s)\<rparr>"

lemma take_deferred_wf:
  assumes wf: "wf_orchestrator s" and k: "fmlookup (deferred s) key = Some target"
  shows "wf_orchestrator (take_deferred key s) \<and> unknown_key (dt_identity target) (take_deferred key s)
     \<and> key_of (dt_identity target) = key"
proof -
  have key: "key_of (dt_identity target) = key"
    using wf k unfolding wf_orchestrator_def by blast
  have dom: "key |\<in>| fmdom (deferred s)" using k by (rule fmdomI)
  then have np: "key |\<notin>| fmdom (processed s)" using wf unfolding wf_orchestrator_def by blast
  have "wf_orchestrator (take_deferred key s)"
    using wf indexed_drop [of "deferred_order s" "deferred s" key] dom
    unfolding wf_orchestrator_def by (auto simp: take_deferred_def split: if_splits)
  with np key show ?thesis by (simp add: unknown_key_def take_deferred_def)
qed

definition poll_post ::
  "('w, 'x) host_env_scheme \<Rightarrow> instant \<Rightarrow> 'w orchestrator \<Rightarrow> (structured_service_error + process_outcome option) \<Rightarrow> 'w orchestrator \<Rightarrow> bool" where
  "poll_post env now s r s' \<longleftrightarrow> wf_orchestrator s'
     \<and> last_handled_creation_time s' = last_handled_creation_time s
     \<and> (case due_key now s of
          None \<Rightarrow> r = Inr None \<and> s' = s
        | Some key \<Rightarrow> (\<exists>target. fmlookup (deferred s) key = Some target
             \<and> key_of (dt_identity target) = key \<and> dt_not_before target \<le> now
             \<and> (case r of
                  Inl _ \<Rightarrow> untouched (take_deferred key s) s'
                | Inr None \<Rightarrow> False
                | Inr (Some outcome) \<Rightarrow>
                    tried env
                      (if dt_reason target = DrFrozen
                       then snd (env_probe_target_lifecycle env (dt_identity target) (world s)) else world s)
                      (dt_identity target) outcome (take_deferred key s) s')))"

lemma poll_post_due:
  assumes "poll_post env now s r s'" "due_key now s = Some key"
  obtains (failed) target e where "fmlookup (deferred s) key = Some target" "key_of (dt_identity target) = key"
      "dt_not_before target \<le> now" "r = Inl e" "untouched (take_deferred key s) s'"
    | (polled) target w outcome where "fmlookup (deferred s) key = Some target"
      "key_of (dt_identity target) = key" "dt_not_before target \<le> now" "r = Inr (Some outcome)"
      "tried env w (dt_identity target) outcome (take_deferred key s) s'"
proof (cases r)
  case (Inl e)
  with assms that(1) show thesis by (auto simp: poll_post_def)
next
  case (Inr answer)
  with assms that(2) show thesis by (cases answer) (auto simp: poll_post_def)
qed

lemma due_key_Some:
  "due_key now s = Some key \<Longrightarrow> key \<in> set (deferred_order s)
     \<and> (\<exists>target. fmlookup (deferred s) key = Some target \<and> dt_not_before target \<le> now)"
  by (auto simp: due_key_def find_Some_iff split: option.splits)

lemma poll_deferred_post:
  assumes wf: "wf_orchestrator s"
  shows "\<exists>r s'. poll_deferred env now s = Some (r, s') \<and> poll_post env now s r s'"
proof (cases "due_key now s")
  case None
  then show ?thesis using wf by (simp add: poll_deferred_def poll_post_def)
next
  case (Some key)
  then obtain target where t: "fmlookup (deferred s) key = Some target" "dt_not_before target \<le> now"
    using due_key_Some by blast
  let ?i = "dt_identity target" and ?s1 = "take_deferred key s"
  from take_deferred_wf [OF wf t(1)] have wf1: "wf_orchestrator ?s1" and u1: "unknown_key ?i ?s1"
    and key: "key_of ?i = key" by auto
  obtain lc s2 where lc: "(if dt_reason target = DrFrozen then call_lifecycle env ?i ?s1
      else (LcRunning, ?s1)) = (lc, s2)" by force
  then have fr: "same_books ?s1 s2" "quiet ?s1 s2"
    using call_lifecycle_frame [of env ?i ?s1] by (auto simp: same_books_def split: if_splits)
  have w2: "world s2 = (if dt_reason target = DrFrozen
      then snd (env_probe_target_lifecycle env ?i (world s)) else world s)"
    using lc by (auto simp: call_lifecycle_def take_deferred_def split: if_splits prod.splits)
  have wf2: "wf_orchestrator s2" and u2: "unknown_key ?i s2"
    using fr wf1 u1 same_books_wf same_books_unknown by blast+
  have upd: "s\<lparr>deferred_order := remove1 key (deferred_order s),
      deferred := fmdrop key (deferred s)\<rparr> = ?s1" by (simp add: take_deferred_def)
  have ok: "poll_post env now s (map_sum id Some r) s'" if "retried env (world s2) ?i s2 r s'" for r s'
    using retried_before [OF fr that] Some t key w2
    by (auto simp: poll_post_def retried_def take_deferred_def split: sum.splits)
  have unf: "poll_deferred env now s =
     (case lc of
        LcExiting \<Rightarrow>
          do { (r, s) \<leftarrow> skip_target env target ''process-exiting'' s2; Some (map_sum id Some r, s) }
      | LcRunning \<Rightarrow>
          do { (r, s) \<leftarrow> revalidate_deferred env target now s2; Some (map_sum id Some r, s) }
      | _ \<Rightarrow>
          do { s \<leftarrow> insert_deferred env
                 (target\<lparr>dt_not_before := now + frozen_recheck (deferral_policy s2)\<rparr>) s2;
               Some (Ok (Some PoDeferred), s) })"
    using lc unfolding poll_deferred_def Some Let_def
    by (simp add: t(1) upd cong: if_cong)
  consider "lc = LcExiting" | "lc = LcRunning" | "lc = LcFrozen \<or> lc = LcUnknown"
    by (cases lc) auto
  then show ?thesis
  proof cases
    case 1
    with skip_target_post [OF wf2 u2, of env "''process-exiting''"] unf ok show ?thesis by fastforce
  next
    case 2
    with revalidate_deferred_post [OF wf2 u2, of env now] unf ok show ?thesis by fastforce
  next
    case 3
    obtain s' where ins: "insert_deferred env
        (target\<lparr>dt_not_before := now + frozen_recheck (deferral_policy s2)\<rparr>) s2 = Some s'"
      "attempt_post ?i [] s2 (PoDeferred, s')"
      using insert_deferred_post [OF wf2 u2] by (metis deferred_target.select_convs(1)
          deferred_target.surjective deferred_target.update_convs(4))
    have "poll_post env now s (Inr (Some PoDeferred)) s'"
      using ok [OF retried_of_post [of ?i 0 s2 PoDeferred s' env]] ins(2) by simp
    with 3 ins(1) unf show ?thesis by auto
  qed
qed

section \<open>Session changes\<close>

definition session_post :: "session_change \<Rightarrow> 'w orchestrator \<Rightarrow> 'w orchestrator \<Rightarrow> bool" where
  "session_post change s s' \<longleftrightarrow> wf_orchestrator s' \<and> same_config s s' \<and> trace s' = trace s
     \<and> injection_telemetry s' = injection_telemetry s
     \<and> last_handled_creation_time s' = last_handled_creation_time s
     \<and> (\<forall>k. fmlookup (processed s') k =
          (case fmlookup (processed s) k of None \<Rightarrow> None
           | Some r \<Rightarrow> if is_overflow change
                \<or> (event_type change \<in> {2, 4, 6, 11} \<and> session_id (ar_identity r) = sc_session_id change)
              then None else Some r))
     \<and> (\<forall>k. fmlookup (deferred s') k =
          (case fmlookup (deferred s) k of None \<Rightarrow> None
           | Some t \<Rightarrow> if is_overflow change
                \<or> (event_type change \<in> {2, 4, 6, 11} \<and> session_id (dt_identity t) = sc_session_id change)
              then None else Some t))"

lemma wf_retain:
  assumes wf: "wf_orchestrator s"
    and "processed s' = fmretain P (processed s)" "deferred s' = fmretain Q (deferred s)"
    and "process_order s' = filter (\<lambda>k. k |\<in>| fmdom (processed s')) (process_order s)"
    and "deferred_order s' = filter (\<lambda>k. k |\<in>| fmdom (deferred s')) (deferred_order s)"
    and "generation_id s' = generation_id s"
  shows "wf_orchestrator s'"
proof -
  have sub: "fmdom (fmretain R m) |\<subseteq>| fmdom m" for R and m :: "('k, 'v) fmap"
    unfolding fmretain_def by (rule fmdom_fmfilter_subset)
  have keep: "fmlookup (fmretain R m) k = Some v \<Longrightarrow> fmlookup m k = Some v"
    for R k v and m :: "('k, 'v) fmap" by (simp split: option.splits if_splits)
  note w = wf [unfolded wf_orchestrator_def]
  have "indexed (process_order s') (processed s')" "indexed (deferred_order s') (deferred s')"
    using w assms(2-5) indexed_retain by auto
  moreover have "fmlen (processed s') \<le> MAX_TRACKED_PROCESS_RESULTS"
    "fmlen (deferred s') \<le> MAX_DEFERRED_TARGETS"
    using w fmlen_fmretain_le [of P "processed s"] fmlen_fmretain_le [of Q "deferred s"]
    unfolding assms(2,3) by linarith+
  moreover have "fmdom (processed s') |\<inter>| fmdom (deferred s') = {||}"
    using w sub [of P "processed s"] sub [of Q "deferred s"] unfolding assms(2,3) by blast
  moreover have "\<forall>k r. fmlookup (processed s') k = Some r \<longrightarrow>
      key_of (ar_identity r) = k \<and> ar_runtime_generation_id r = generation_id s'"
    using w unfolding assms(2,6) by (meson keep)
  moreover have "\<forall>k t. fmlookup (deferred s') k = Some t \<longrightarrow> key_of (dt_identity t) = k"
    using w unfolding assms(3) by (meson keep)
  ultimately show ?thesis unfolding wf_orchestrator_def by blast
qed

lemma handle_session_change_post:
  assumes wf: "wf_orchestrator s"
  shows "session_post change s (handle_session_change change s)"
proof -
  consider "is_overflow change" | "\<not> is_overflow change" "event_type change \<in> {2, 4, 6, 11}"
    | "\<not> is_overflow change" "event_type change \<notin> {2, 4, 6, 11}" by blast
  then show ?thesis
  proof cases
    case 1
    have "wf_orchestrator (handle_session_change change s)"
      using 1 by (simp add: handle_session_change_def wf_orchestrator_def)
    with 1 show ?thesis
      by (simp add: session_post_def handle_session_change_def same_config_def split: option.split)
  next
    case 2
    have "wf_orchestrator (handle_session_change change s)"
      by (rule wf_retain [OF wf, of _ "\<lambda>r. session_id (ar_identity r) \<noteq> sc_session_id change"
            "\<lambda>t. session_id (dt_identity t) \<noteq> sc_session_id change"])
        (use 2 in \<open>simp_all add: handle_session_change_def Let_def\<close>)
    with 2 show ?thesis
      by (simp add: session_post_def handle_session_change_def same_config_def Let_def
          split: option.split)
  next
    case 3
    with wf show ?thesis
      by (simp add: session_post_def handle_session_change_def split: option.split)
  qed
qed

section \<open>The orchestrator as a machine\<close>

text \<open>The three ways the driver calls the orchestrator.\<close>

datatype command = Observe u32 instant | PollDeferred instant | SessionChange session_change

fun orchestrator_step ::
  "('w, 'x) host_env_scheme \<Rightarrow> command \<Rightarrow> 'w orchestrator \<Rightarrow>
     ((structured_service_error + process_outcome option) \<times> 'w orchestrator) option" where
  "orchestrator_step env (Observe p now) s =
     map_option (\<lambda>(r, s). (map_sum id Some r, s)) (handle_pid_at env p now s)"
| "orchestrator_step env (PollDeferred now) s = poll_deferred env now s"
| "orchestrator_step env (SessionChange change) s = Some (Ok None, handle_session_change change s)"

lemma orchestrator_step_total:
  assumes "wf_orchestrator s"
  shows "\<exists>r s'. orchestrator_step env c s = Some (r, s') \<and> wf_orchestrator s'"
proof (cases c)
  case (Observe p now)
  then show ?thesis using handle_pid_at_post [OF assms, of env p now] by (auto simp: pid_post_def)
next
  case (PollDeferred now)
  then show ?thesis using poll_deferred_post [OF assms, of env now] by (auto simp: poll_post_def)
next
  case (SessionChange change)
  then show ?thesis using handle_session_change_post [OF assms, of change]
    by (simp add: session_post_def)
qed

interpretation orch: total_machine "orchestrator_step env" wf_orchestrator "\<lambda>_. True" for env
  by unfold_locales (rule orchestrator_step_total)

section \<open>A sample world\<close>

text \<open>
  Collaborators over the one-point world: every process is one notepad-like target in session 1,
  the lifecycle and broker answers are given.
\<close>

definition sample_identity :: "u32 \<Rightarrow> process_identity" where
  "sample_identity p =
     \<lparr>pid = p, creation_time = 7, session_id = 1, architecture = X64, protected_process = False\<rparr>"

definition sample_env :: "target_lifecycle \<Rightarrow> broker_result \<Rightarrow> unit host_env" where
  "sample_env lifecycle answer =
     \<lparr>env_inspect = \<lambda>p w. (Ok \<lparr>ip_identity = sample_identity p,
          ip_facts = \<lparr>critical_or_unknown = False, prohibits_dynamic_code = False,
            restricts_binary_signature = False, image_name = Some ''notepad.exe''\<rparr>\<rparr>, w),
      env_probe_target_lifecycle = \<lambda>i w. (lifecycle, w),
      env_probe_target_liveness = \<lambda>i w. (TlAlive, w),
      env_process_basename = \<lambda>i w. (None, w),
      env_inject = \<lambda>r w. (answer, w),
      env_retry_wait = \<lambda>d w. (True, w), env_sleep = \<lambda>d w. w\<rparr>"

definition sample_answer :: "broker_disposition \<Rightarrow> string \<Rightarrow> broker_result" where
  "sample_answer d code = \<lparr>br_disposition = d, br_code = code, br_win32_error = None\<rparr>"

definition sample_start :: "unit orchestrator" where
  "sample_start = with_runtime_context 1 ''gen'' ''sha256:00'' default_retry_policy ()"

definition sample_target :: deferred_target where
  "sample_target = \<lparr>dt_identity = sample_identity 9, dt_reason = DrFrozen, dt_deferrals = 0,
     dt_not_before = 5\<rparr>"

definition sample_waiting :: "unit orchestrator" where
  "sample_waiting = sample_start\<lparr>deferred := fmupd (9, 7) sample_target fmempty, deferred_order := [(9, 7)]\<rparr>"

definition sample_record :: process_attempt_record where
  "sample_record = \<lparr>ar_identity = sample_identity 9, ar_runtime_generation_id = ''gen'',
     ar_outcome = PoInjected, ar_attempts = 1, ar_code = ''ok'', ar_win32_error = None\<rparr>"

lemmas sample_defs = sample_identity_def sample_env_def sample_answer_def sample_start_def
  sample_target_def sample_waiting_def

lemma sample_start_wf: "wf_orchestrator sample_start"
  by (simp add: sample_start_def wf_runtime_context)

lemma sample_waiting_wf: "wf_orchestrator sample_waiting"
  by (simp add: wf_orchestrator_def sample_defs key_of_def with_runtime_context_def
      with_retry_policy_def build_orchestrator_def MAX_DEFERRED_TARGETS_def indexed_def)

lemma sample_static_skip: "static_skip 1 (sample_identity 9) \<lparr>critical_or_unknown = False,
     prohibits_dynamic_code = False, restricts_binary_signature = False,
     image_name = Some ''notepad.exe''\<rparr> = None"
  by code_simp

lemma sample_validate:
  "call_validate (sample_env LcRunning answer) 9 (sample_start\<lparr>last_handled_creation_time := l\<rparr>) =
     (Ok (Eligible (sample_identity 9)),
      sample_start\<lparr>last_handled_creation_time := l,
        trace := [CallInspect 9, CallLifecycle (sample_identity 9)]\<rparr>)"
  using sample_static_skip
  by (simp add: call_validate_def validate_target_def sample_env_def sample_start_def Let_def
      with_runtime_context_def with_retry_policy_def build_orchestrator_def sample_identity_def)

section \<open>Properties of the orchestrator\<close>

text \<open>
  C1.  From a freshly built orchestrator, any sequence of observed PIDs, polls and session changes
  runs to the end whatever the collaborators answer: no operation spins in an eviction loop or
  reaches an \<open>expect\<close> or \<open>unreachable!\<close>, and the invariant holds at the end (results within 4096
  and deferred targets within 512, each with exactly its queue, disjoint, every entry under its own
  key and every result bound to the running generation).
\<close>

theorem orchestrator_never_stuck:
  "\<exists>answers s. run_steps (orchestrator_step env) commands
       (with_runtime_context service generation digest policy w) = Some (answers, s)
     \<and> length answers = length commands \<and> wf_orchestrator s"
  using orch.run_total [of "with_runtime_context service generation digest policy w" commands env]
    wf_runtime_context [of service generation digest policy w]
  by (auto simp: list_all_iff)

text \<open>
  C2.  An observed PID causes injection requests only for the identity the inspector reported for
  that PID just before, which every check of the validator accepted, which is neither recorded nor
  deferred already; each request carries the running generation, and there are at most
  \<open>max(max_attempts, 1)\<close> of them.
\<close>

theorem observed_pid_injects_only_cleared_unknown_target:
  assumes "wf_orchestrator s" and "handle_pid_at env p now s = Some (r, s')"
  shows "\<exists>t n i. trace s' = trace s @ t \<and> filter is_inject t = replicate n (CallInject (request_for i s))
     \<and> n \<le> attempt_limit s
     \<and> (0 < n \<longrightarrow> pid i = p \<and> cleared env (service_pid s) (world s) i \<and> \<not> contains_identity s i)"
proof -
  have post: "pid_post env p s r s'"
    using handle_pid_at_post [OF assms(1), of env p now] assms(2) by simp
  then consider "untouched s s'" | i outcome where "pid i = p" "\<not> contains_identity s i"
    "tried env (world s) i outcome s s'"
    by (auto simp: pid_post_def split: sum.splits if_splits)
  then show ?thesis
  proof cases
    case 1
    then show ?thesis by (auto simp: untouched_def calls_def intro!: exI [of _ "0 :: nat"])
  next
    case 2
    then show ?thesis by (auto simp: tried_def calls_def)
  qed
qed

lemma sample_handled:
  "map_option fst (handle_pid_at (sample_env LcRunning (sample_answer BdInjected ''ok'')) 9 0 sample_start)
     = Some (Ok PoInjected)"
  by code_simp

lemma observed_pid_injects_only_cleared_unknown_target_witness:
  "\<exists>r s' t n i. handle_pid_at (sample_env LcRunning (sample_answer BdInjected ''ok'')) 9 0 sample_start
       = Some (r, s') \<and> trace s' = trace sample_start @ t
     \<and> filter is_inject t = replicate n (CallInject (request_for i sample_start))
     \<and> n \<le> attempt_limit sample_start"
proof -
  obtain r s' where run:
    "handle_pid_at (sample_env LcRunning (sample_answer BdInjected ''ok'')) 9 0 sample_start = Some (r, s')"
    using sample_handled by auto
  from observed_pid_injects_only_cleared_unknown_target [OF sample_start_wf run] run
  show ?thesis by blast
qed

text \<open>
  A target that already has a recorded result or already waits in the deferred queue is
  answered \<open>Duplicate\<close>: nothing is injected, recorded or deferred a second time.
\<close>

theorem known_target_is_duplicate:
  assumes "call_validate env p (s\<lparr>last_handled_creation_time := None\<rparr>) = (Ok d, s1)"
    and "decision_identity d = Some i" and "contains_identity s i"
  shows "\<exists>s'. handle_pid_at env p now s = Some (Ok PoDuplicate, s') \<and> untouched s s'
     \<and> last_handled_creation_time s' = Some (creation_time i)"
proof -
  note fr = call_validate_frame [OF assms(1)]
  let ?s' = "s1\<lparr>last_handled_creation_time := Some (creation_time i)\<rparr>"
  have "contains_identity ?s' i" using assms(3) fr by (simp add: contains_identity_def same_books_def)
  then have "handle_pid_at env p now s = Some (Ok PoDuplicate, ?s')"
    using assms(1,2)
    by (cases d) (simp_all add: handle_pid_at_def decision_identity_def Let_def)
  moreover have "untouched s ?s'"
    using fr by (auto simp: untouched_def same_books_def calls_def same_config_def)
  ultimately show ?thesis by simp
qed

lemma known_target_is_duplicate_witness:
  "\<exists>s'. handle_pid_at (sample_env LcRunning (sample_answer BdInjected ''ok'')) 9 0
      (sample_start\<lparr>processed := fmupd (9, 7) sample_record fmempty, process_order := [(9, 7)]\<rparr>)
      = Some (Ok PoDuplicate, s') \<and> process_order s' = [(9, 7)]"
proof -
  let ?s = "sample_start\<lparr>processed := fmupd (9, 7) sample_record fmempty, process_order := [(9, 7)]\<rparr>"
  have "contains_identity ?s (sample_identity 9)"
    by (simp add: contains_identity_def sample_identity_def key_of_def)
  moreover have "call_validate (sample_env LcRunning (sample_answer BdInjected ''ok'')) 9
      (?s\<lparr>last_handled_creation_time := None\<rparr>) =
     (Ok (Eligible (sample_identity 9)), ?s\<lparr>last_handled_creation_time := None,
        trace := [CallInspect 9, CallLifecycle (sample_identity 9)]\<rparr>)"
    using sample_static_skip
    by (simp add: call_validate_def validate_target_def sample_env_def sample_start_def Let_def
        with_runtime_context_def with_retry_policy_def build_orchestrator_def sample_identity_def)
  ultimately show ?thesis
    using known_target_is_duplicate [where s = ?s and now = 0] by (fastforce simp: decision_identity_def untouched_def)
qed

text \<open>
  C3.  A poll acts on the first due target of the queue and injects only into that very identity
  (process id, creation time, session, architecture), after a fresh inspection answered with exactly
  it and every check accepted it: a recycled PID is never injected into on behalf of the process
  that was deferred.
\<close>

theorem poll_injects_only_the_due_identity:
  assumes "wf_orchestrator s" and "poll_deferred env now s = Some (r, s')"
  shows "\<exists>t n. trace s' = trace s @ t
     \<and> (case due_key now s of
          None \<Rightarrow> filter is_inject t = [] \<and> r = Ok None
        | Some key \<Rightarrow> \<exists>target w. fmlookup (deferred s) key = Some target \<and> dt_not_before target \<le> now
            \<and> n \<le> attempt_limit s
            \<and> filter is_inject t = replicate n (CallInject (request_for (dt_identity target) s))
            \<and> (n = 0 \<or> cleared env (service_pid s) w (dt_identity target)))"
proof -
  have post: "poll_post env now s r s'"
    using poll_deferred_post [OF assms(1), of env now] assms(2) by simp
  have cfg: "request_for i (take_deferred key s) = request_for i s"
    "attempt_limit (take_deferred key s) = attempt_limit s"
    "service_pid (take_deferred key s) = service_pid s" "trace (take_deferred key s) = trace s" for i key
    by (simp_all add: take_deferred_def request_for_def attempt_limit_def)
  show ?thesis
  proof (cases "due_key now s")
    case None
    then show ?thesis using post by (simp add: poll_post_def)
  next
    case (Some key)
    with post obtain target where t: "fmlookup (deferred s) key = Some target" "dt_not_before target \<le> now"
      and "untouched (take_deferred key s) s'
        \<or> (\<exists>w outcome. tried env w (dt_identity target) outcome (take_deferred key s) s')"
      by (cases rule: poll_post_due) blast+
    then obtain n w where "n \<le> attempt_limit s" "n = 0 \<or> cleared env (service_pid s) w (dt_identity target)"
      "calls (replicate n (CallInject (request_for (dt_identity target) s))) (take_deferred key s) s'"
      unfolding untouched_def tried_def cfg by (metis gr0I le0 replicate_0)
    then show ?thesis using Some t by (auto simp: calls_def cfg)
  qed
qed

lemma sample_polled:
  "map_option fst (poll_deferred (sample_env LcRunning (sample_answer BdInjected ''ok'')) 5 sample_waiting)
     = Some (Ok (Some PoInjected))"
  by code_simp

lemma sample_due: "due_key 5 sample_waiting = Some (9, 7)"
  by (simp add: due_key_def sample_waiting_def sample_target_def)

lemma poll_injects_only_the_due_identity_witness:
  "\<exists>s' t n. poll_deferred (sample_env LcRunning (sample_answer BdInjected ''ok'')) 5 sample_waiting
       = Some (Ok (Some PoInjected), s') \<and> trace s' = trace sample_waiting @ t
     \<and> filter is_inject t = replicate n (CallInject (request_for (sample_identity 9) sample_waiting))
     \<and> n \<le> attempt_limit sample_waiting"
proof -
  obtain s' where run: "poll_deferred (sample_env LcRunning (sample_answer BdInjected ''ok'')) 5
      sample_waiting = Some (Ok (Some PoInjected), s')" using sample_polled by auto
  from poll_injects_only_the_due_identity [OF sample_waiting_wf run] run show ?thesis
    by (auto simp: sample_due) (auto simp: sample_waiting_def sample_target_def)
qed

text \<open>
  C4.  No deferred target is lost: after an observed PID, whatever it answers, and after a poll that
  answers \<open>Ok\<close>, every target that was deferred is deferred still or has a recorded result.
\<close>

theorem deferred_targets_are_accounted_for:
  assumes "wf_orchestrator s"
    and "handle_pid_at env p now s = Some (r, s')
       \<or> (\<exists>answer. poll_deferred env now s = Some (Ok answer, s'))"
    and "fmlookup (deferred s) key = Some target"
  shows "(\<exists>t. fmlookup (deferred s') key = Some t \<and> key_of (dt_identity t) = key)
     \<or> (\<exists>a. fmlookup (processed s') key = Some a \<and> key_of (ar_identity a) = key)"
proof -
  have "keeps_deferred s s' \<and> wf_orchestrator s'"
  proof (cases "handle_pid_at env p now s = Some (r, s')")
    case True
    then have "pid_post env p s r s'" using handle_pid_at_post [OF assms(1), of env p now] by simp
    then show ?thesis
      by (auto simp: pid_post_def untouched_def tried_def keeps_deferred_def split: sum.splits if_splits)
  next
    case False
    with assms(2) obtain answer where "poll_deferred env now s = Some (Ok answer, s')" by blast
    then have post: "poll_post env now s (Ok answer) s'"
      using poll_deferred_post [OF assms(1), of env now] by simp
    show ?thesis
    proof (cases "due_key now s")
      case None
      then show ?thesis using post assms(1) by (simp add: poll_post_def keeps_deferred_def)
    next
      case (Some k)
      have "wf_orchestrator s'" using post by (simp add: poll_post_def)
      moreover obtain i outcome w where "key_of i = k" "tried env w i outcome (take_deferred k s) s'"
        using post Some by (cases rule: poll_post_due) auto
      ultimately have "k |\<in>| fmdom (deferred s') |\<union>| fmdom (processed s')"
        and "keeps_deferred (take_deferred k s) s'" and "wf_orchestrator s'"
        by (auto simp: tried_def filed_def intro: fmdomI split: if_splits)
      then show ?thesis by (auto simp: keeps_deferred_def take_deferred_def)
    qed
  qed
  moreover have "key |\<in>| fmdom (deferred s)" using assms(3) by (rule fmdomI)
  ultimately have "key |\<in>| fmdom (deferred s') \<or> key |\<in>| fmdom (processed s')" and "wf_orchestrator s'"
    by (auto simp: keeps_deferred_def)
  then show ?thesis unfolding wf_orchestrator_def fmlookup_dom_iff by blast
qed

lemma deferred_targets_are_accounted_for_witness:
  "\<exists>s'. poll_deferred (sample_env LcRunning (sample_answer BdInjected ''ok'')) 5 sample_waiting
       = Some (Ok (Some PoInjected), s')
     \<and> ((9, 7) |\<in>| fmdom (deferred s') \<or> (9, 7) |\<in>| fmdom (processed s'))"
proof -
  obtain s' where run: "poll_deferred (sample_env LcRunning (sample_answer BdInjected ''ok'')) 5
      sample_waiting = Some (Ok (Some PoInjected), s')" using sample_polled by auto
  have "fmlookup (deferred sample_waiting) (9, 7) = Some sample_target"
    by (simp add: sample_waiting_def)
  from deferred_targets_are_accounted_for [OF sample_waiting_wf _ this] run show ?thesis
    by (blast intro: fmdomI)
qed

text \<open>An answer that is not a retryable failure ends the loop in that turn.\<close>

lemma attempt_loop_once:
  assumes wf: "wf_orchestrator s" and u: "unknown_key (req_identity request) s"
    and inj: "call_inject env request s = (answer, s1)"
    and once: "br_disposition (normalize_result answer) \<noteq> BdRetryableFailure"
    and run: "attempt_loop env request deferrals now attempts (attempt # rest) delay s = Some res"
  shows "attempt_post (req_identity request) [CallInject request] s res"
proof -
  let ?i = "req_identity request" and ?result = "normalize_result answer"
  note fr = call_inject_frame [OF inj]
  have wf1: "wf_orchestrator s1" and u1: "unknown_key ?i s1"
    using fr wf u same_books_wf same_books_unknown by blast+
  note unf = run [unfolded attempt_loop_Cons inj, simplified Let_def, simplified]
  have "attempt_post ?i [] s1 res"
  proof (cases "terminal_outcome (br_disposition ?result) (attempt = attempts)")
    case None
    then consider "br_disposition ?result = BdLaunchFailed" | "br_disposition ?result = BdTargetFrozen"
      using once terminal_outcome_None by blast
    then show ?thesis
    proof cases
      case 1
      then show ?thesis using unf handle_launch_failure_post [OF wf1 u1, of env deferrals now ?result attempt] by simp
    next
      case 2
      then show ?thesis
        using unf insert_deferred_post [OF wf1 u1, of "\<lparr>dt_identity = ?i, dt_reason = DrFrozen,
          dt_deferrals = deferrals, dt_not_before = now + frozen_recheck (deferral_policy s1)\<rparr>" env]
        by auto
    qed
  next
    case (Some outcome)
    then have "br_disposition ?result \<noteq> BdLaunchFailed" "br_disposition ?result \<noteq> BdTargetFrozen"
      by auto
    with Some unf have "finish_attempt env ?i outcome attempt ?result s1 = Some res" by simp
    then show ?thesis 
      using finish_attempt_post [OF wf1 u1 terminal_outcome_cases [OF Some], of env attempt ?result] by simp
  qed
  then show ?thesis using attempt_post_before [of s s1 "[CallInject request]" ?i "[]" res] fr by simp
qed

lemma attempt_injection_once:
  assumes "wf_orchestrator s" and "unknown_key i s"
    and "fst (env_inject env (request_for i s) (world s)) = answer"
    and "br_disposition answer \<noteq> BdRetryableFailure \<or> \<not> safe_to_retry_same_identity (br_code answer)"
    and "attempt_injection env i deferrals now s = Some (outcome, s')"
  shows "filter is_inject (trace s') = filter is_inject (trace s) @ [CallInject (request_for i s)]"
proof -
  obtain s1 where inj: "call_inject env (request_for i s) s = (answer, s1)"
    using assms(3) by (cases "env_inject env (request_for i s) (world s)") (auto simp: call_inject_def)
  let ?attempts = "max (max_attempts (retry_policy s)) 1"
  have "1 \<le> unat ?attempts" by (simp add: unat_max_one)
  then obtain a rest where "attempt_numbers ?attempts = a # rest"
    by (cases "attempt_numbers ?attempts") (auto simp: attempt_numbers_def)
  with assms(5) have run: "attempt_loop env (request_for i s) deferrals now ?attempts (a # rest)
      (initial_delay (retry_policy s)) s = Some (outcome, s')"
    by (simp add: attempt_injection_def Let_def request_for_def del: attempt_loop.simps)
  have "br_disposition (normalize_result answer) \<noteq> BdRetryableFailure"
    using assms(4) by (auto simp: normalize_result_def)
  from attempt_loop_once [OF assms(1) _ inj this run] assms(2)
  show ?thesis by (auto simp: attempt_post_def calls_def request_for_def)
qed

text \<open>
  A second injection of the same process is attempted only after a failure code of the
  pre-injection allowlist (session, identity, architecture or module inventory unavailable): after
  any other first answer the broker is called exactly once.
\<close>

theorem only_allowlisted_failures_are_retried:
  assumes "wf_orchestrator s" and "unknown_key i s"
    and "fst (env_inject env (request_for i s) (world s)) = answer"
    and "br_disposition answer \<noteq> BdRetryableFailure \<or> \<not> safe_to_retry_same_identity (br_code answer)"
    and "attempt_injection env i deferrals now s = Some (outcome, s')"
  shows "filter is_inject (trace s') = filter is_inject (trace s) @ [CallInject (request_for i s)]"
  using assms by (rule attempt_injection_once)

lemma only_allowlisted_failures_are_retried_witness:
  "\<exists>outcome s'. attempt_injection (sample_env LcRunning (sample_answer BdRetryableFailure ''remote-thread-failed''))
       (sample_identity 9) 0 0 sample_start = Some (outcome, s')
     \<and> filter is_inject (trace s') =
         filter is_inject (trace sample_start) @ [CallInject (request_for (sample_identity 9) sample_start)]"
proof -
  let ?env = "sample_env LcRunning (sample_answer BdRetryableFailure ''remote-thread-failed'')"
  have u: "unknown_key (sample_identity 9) sample_start"
    by (simp add: unknown_key_def sample_start_def with_runtime_context_def with_retry_policy_def
        build_orchestrator_def)
  obtain outcome s' where run:
    "attempt_injection ?env (sample_identity 9) 0 0 sample_start = Some (outcome, s')"
    using attempt_injection_post [OF sample_start_wf u, of ?env 0 0] by force
  from only_allowlisted_failures_are_retried [OF sample_start_wf u refl _ run] run show ?thesis
    by (simp add: sample_env_def sample_answer_def safe_to_retry_same_identity_def)
qed

text \<open>
  After an attempted injection (one observed PID or one poll) that answers anything but a
  deferral, the most recent result of the orchestrator, which the driver reads to report health,
  is the result of exactly that attempt, with the outcome that was answered.
\<close>

theorem most_recent_result_is_the_answered_one:
  assumes "wf_orchestrator s"
    and "poll_deferred env now s = Some (Ok (Some outcome), s')
       \<or> (handle_pid_at env p now s = Some (Ok outcome, s') \<and> outcome \<notin> {PoDuplicate, PoSkipped})"
    and "outcome \<noteq> PoDeferred"
  shows "\<exists>r. most_recent_result s' = Some r \<and> ar_outcome r = outcome
     \<and> ar_runtime_generation_id r = generation_id s"
proof -
  have "\<exists>i w s1. same_config s s1 \<and> tried env w i outcome s1 s' \<and> wf_orchestrator s'"
  proof (cases "poll_deferred env now s = Some (Ok (Some outcome), s')")
    case True
    then have post: "poll_post env now s (Ok (Some outcome)) s'"
      using poll_deferred_post [OF assms(1), of env now] by simp
    then obtain key where key: "due_key now s = Some key"
      by (auto simp: poll_post_def split: option.splits)
    have "same_config s (take_deferred key s)" by (simp add: take_deferred_def same_config_def)
    moreover have "wf_orchestrator s'" using post by (simp add: poll_post_def)
    moreover obtain i w where "tried env w i outcome (take_deferred key s) s'"
      using post key by (cases rule: poll_post_due) auto
    ultimately show ?thesis by blast
  next
    case False
    with assms(2) have "pid_post env p s (Ok outcome) s'" and "outcome \<notin> {PoDuplicate, PoSkipped}"
      using handle_pid_at_post [OF assms(1), of env p now] by auto
    then have "\<exists>i. tried env (world s) i outcome s s'" and "wf_orchestrator s'"
      by (auto simp: pid_post_def split: if_splits)
    then show ?thesis using same_config_refl by blast
  qed
  then obtain i w s1 where t: "same_config s s1" "tried env w i outcome s1 s'" "wf_orchestrator s'"
    by blast
  then obtain r where r: "fmlookup (processed s') (key_of i) = Some r" "ar_outcome r = outcome"
    "process_order s' \<noteq> []" "last (process_order s') = key_of i"
    using assms(3) by (auto simp: tried_def filed_def)
  have "ar_runtime_generation_id r = generation_id s'"
    using t(3) r(1) unfolding wf_orchestrator_def by blast
  with r t(1,2) show ?thesis
    by (auto simp: most_recent_result_def tried_def calls_def same_config_def)
qed

lemma most_recent_result_is_the_answered_one_witness:
  "\<exists>s' r. poll_deferred (sample_env LcRunning (sample_answer BdInjected ''ok'')) 5 sample_waiting
       = Some (Ok (Some PoInjected), s') \<and> most_recent_result s' = Some r \<and> ar_outcome r = PoInjected"
proof -
  obtain s' where run: "poll_deferred (sample_env LcRunning (sample_answer BdInjected ''ok'')) 5
      sample_waiting = Some (Ok (Some PoInjected), s')" using sample_polled by auto
  from most_recent_result_is_the_answered_one [OF sample_waiting_wf disjI1 [OF run]] run
  show ?thesis by blast
qed

text \<open>
  A failed helper launch: a vanished target is recorded as skipped and never as a failure; a
  target that used its deferral budget is rejected; any other is deferred with its budget counted
  up by one and due no later than the policy's maximal delay from now.
\<close>

theorem launch_failure_disposition:
  assumes "wf_orchestrator s" and "unknown_key i s"
    and "handle_launch_failure env i deferrals now result attempt s = Some (outcome, s')"
  shows "outcome = (if fst (env_probe_target_liveness env i (world s)) = TlVanished then PoSkipped
       else if launch_max_deferrals (deferral_policy s) \<le> deferrals then PoRejected else PoDeferred)
     \<and> filed i outcome s'
     \<and> (outcome \<noteq> PoDeferred \<or> (\<exists>t. fmlookup (deferred s') (key_of i) = Some t
          \<and> dt_reason t = DrHelperLaunchFailed \<and> unat (dt_deferrals t) = Suc (unat deferrals)
          \<and> now \<le> dt_not_before t
          \<and> dt_not_before t \<le> now + launch_max_delay (deferral_policy s)))"
proof -
  obtain l s1 where l: "call_liveness env i s = (l, s1)" by force
  note fr = call_liveness_frame [OF l]
  have wf1: "wf_orchestrator s1" and u1: "unknown_key i s1"
    using fr assms(1,2) same_books_wf same_books_unknown by blast+
  have l_eq: "fst (env_probe_target_liveness env i (world s)) = l"
    using l by (auto simp: call_liveness_def split: prod.splits)
  have pol: "deferral_policy s1 = deferral_policy s" using fr by (simp add: same_books_def same_config_def)
  have filed: "filed i outcome s'"
    using handle_launch_failure_post [OF assms(1,2), of env deferrals now result attempt] assms(3)
    by (simp add: attempt_post_def)
  note run = assms(3) [unfolded handle_launch_failure_def l, simplified Let_def, simplified]
  show ?thesis
  proof (cases "l = TlVanished \<or> launch_max_deferrals (deferral_policy s) \<le> deferrals")
    case True
    with run filed show ?thesis
      by (auto simp: l_eq pol bind_eq_Some_conv split: if_splits)
  next
    case False
    let ?t = "\<lparr>dt_identity = i, dt_reason = DrHelperLaunchFailed, dt_deferrals = saturating_add deferrals 1,
        dt_not_before = now + launch_backoff (deferral_policy s) deferrals\<rparr>"
    from False run have ins: "insert_deferred env ?t s1 = Some s'" and o: "outcome = PoDeferred"
      by (auto simp: pol bind_eq_Some_conv)
    from u1 have u2: "unknown_key (dt_identity ?t) s1" by simp
    have look: "fmlookup (deferred s') (key_of i) = Some ?t"
      by (rule insert_deferred_spec [OF wf1 u2, of env]) (use ins in simp)
    have "unat deferrals < unat (launch_max_deferrals (deferral_policy s))"
      using False by (simp add: word_le_nat_alt)
    moreover have "unat (launch_max_deferrals (deferral_policy s)) < 2 ^ 8"
      by (rule order_less_le_trans [OF unsigned_less]) simp
    ultimately have "unat deferrals + 1 < 2 ^ 8" by linarith
    then have "unat (saturating_add deferrals 1) = Suc (unat deferrals)"
      by (simp add: saturating_add_def unat_word_ariths)
    with look o filed False show ?thesis
      by (simp add: l_eq launch_backoff_def)
  qed
qed

lemma launch_failure_disposition_witness:
  "\<exists>s'. handle_launch_failure (sample_env LcRunning (sample_answer BdLaunchFailed ''helper-launch-failed''))
       (sample_identity 9) 4 0 (sample_answer BdLaunchFailed ''helper-launch-failed'') 1 sample_start
       = Some (PoDeferred, s') \<and> filed (sample_identity 9) PoDeferred s'"
proof -
  let ?env = "sample_env LcRunning (sample_answer BdLaunchFailed ''helper-launch-failed'')"
  let ?answer = "sample_answer BdLaunchFailed ''helper-launch-failed''"
  have u: "unknown_key (sample_identity 9) sample_start"
    by (simp add: unknown_key_def sample_start_def with_runtime_context_def with_retry_policy_def
        build_orchestrator_def)
  obtain outcome s' where run: "handle_launch_failure ?env (sample_identity 9) 4 0 ?answer 1 sample_start
      = Some (outcome, s')"
    using handle_launch_failure_post [OF sample_start_wf u, of ?env 4 0 ?answer 1] by force
  from launch_failure_disposition [OF sample_start_wf u run] run show ?thesis
    by (auto simp: sample_env_def sample_start_def with_runtime_context_def with_retry_policy_def
        build_orchestrator_def default_deferral_policy_def word_le_nat_alt)
qed

text \<open>
  C5.  A session change forgets, from the results and from the deferred queue, exactly the targets
  of that session when it ended or was replaced (console disconnect, remote disconnect, logoff,
  terminate), everything after a lost event, and nothing at all for any other event (lock, unlock,
  logon); the invariant survives, so both queues lose exactly the forgotten keys.
\<close>

theorem session_change_forgets_exactly_that_session:
  assumes "wf_orchestrator s" and "s' = handle_session_change change s"
  shows "wf_orchestrator s' \<and> trace s' = trace s \<and> injection_telemetry s' = injection_telemetry s
     \<and> fmlookup (processed s') k = (case fmlookup (processed s) k of None \<Rightarrow> None
         | Some r \<Rightarrow> if is_overflow change
             \<or> (event_type change \<in> {2, 4, 6, 11} \<and> session_id (ar_identity r) = sc_session_id change)
           then None else Some r)
     \<and> fmlookup (deferred s') k = (case fmlookup (deferred s) k of None \<Rightarrow> None
         | Some t \<Rightarrow> if is_overflow change
             \<or> (event_type change \<in> {2, 4, 6, 11} \<and> session_id (dt_identity t) = sc_session_id change)
           then None else Some t)"
  using handle_session_change_post [OF assms(1), of change] unfolding session_post_def assms(2) by blast

lemma session_change_forgets_exactly_that_session_witness:
  "fmlookup (deferred (handle_session_change \<lparr>event_type = 6, sc_session_id = 1\<rparr> sample_waiting)) (9, 7) = None
   \<and> fmlookup (deferred (handle_session_change \<lparr>event_type = 7, sc_session_id = 1\<rparr> sample_waiting)) (9, 7)
       = Some sample_target"
  using session_change_forgets_exactly_that_session [OF sample_waiting_wf refl,
      where change = "\<lparr>event_type = 6, sc_session_id = 1\<rparr>" and k = "(9, 7)"]
    session_change_forgets_exactly_that_session [OF sample_waiting_wf refl,
      where change = "\<lparr>event_type = 7, sc_session_id = 1\<rparr>" and k = "(9, 7)"]
  by (simp add: sample_waiting_def sample_target_def is_overflow_def sample_identity_def)

text \<open>
  The injection telemetry changes only when an attempt is answered \<open>Injected\<close>, and then by
  exactly one success for the architecture, identity, running generation and profile of the target;
  deferrals, rejections, retries, duplicates, errors and session changes leave it alone.
\<close>

theorem telemetry_counts_only_injections:
  assumes "wf_orchestrator s" and "orchestrator_step env c s = Some (r, s')"
  shows "if r = Ok (Some PoInjected)
     then \<exists>i :: process_identity. injection_telemetry s' = (case profile_digest s of
            None \<Rightarrow> injection_telemetry s
          | Some digest \<Rightarrow> record_success (injection_telemetry s)
              (case architecture i of X86 \<Rightarrow> IaX86 | X64 \<Rightarrow> IaX64)
              \<lparr>is_pid = pid i, is_creation_time = creation_time i, is_session_id = session_id i,
               is_runtime_generation_id = generation_id s, is_profile_digest = digest\<rparr>)
     else injection_telemetry s' = injection_telemetry s"
proof -
  have tried: "if outcome = PoInjected
     then injection_telemetry s' = injection_telemetry (record_injection_success i s)
     else injection_telemetry s' = injection_telemetry s"
    if "tried env w i outcome s1 s'" and "same_config s s1" "injection_telemetry s1 = injection_telemetry s"
    for w i outcome s1
    using that by (auto simp: tried_def record_injection_success_def same_config_def split: option.splits)
  have "if r = Ok (Some PoInjected)
     then \<exists>i. injection_telemetry s' = injection_telemetry (record_injection_success i s)
     else injection_telemetry s' = injection_telemetry s"
  proof (cases c)
    case (Observe p now)
    with assms(2) obtain r' where r': "handle_pid_at env p now s = Some (r', s')" "r = map_sum id Some r'"
      by auto
    then have "pid_post env p s r' s'" using handle_pid_at_post [OF assms(1), of env p now] by simp
    then consider "untouched s s'" "r' \<noteq> Ok PoInjected"
      | i outcome where "r' = Inr outcome" "tried env (world s) i outcome s s'"
      by (auto simp: pid_post_def split: sum.splits if_splits)
    then show ?thesis
      using r'(2) tried [OF _ same_config_refl refl]
      by cases (cases r', auto simp: untouched_def split: if_splits)+
  next
    case (PollDeferred now)
    with assms(2) have post: "poll_post env now s r s'"
      using poll_deferred_post [OF assms(1), of env now] by simp
    show ?thesis
    proof (cases "due_key now s")
      case None
      with post show ?thesis by (simp add: poll_post_def)
    next
      case (Some key)
      have take: "same_config s (take_deferred key s)"
        "injection_telemetry (take_deferred key s) = injection_telemetry s"
        by (simp_all add: take_deferred_def same_config_def)
      from post Some show ?thesis
      proof (cases rule: poll_post_due)
        case failed
        then show ?thesis using take by (simp add: untouched_def)
      next
        case (polled target w outcome)
        then show ?thesis using tried [OF polled(5) take] by auto
      qed
    qed
  next
    case (SessionChange change)
    with assms(2) show ?thesis
      using handle_session_change_post [OF assms(1), of change] by (auto simp: session_post_def)
  qed
  moreover have "injection_telemetry (record_injection_success i s) = (case profile_digest s of
            None \<Rightarrow> injection_telemetry s
          | Some digest \<Rightarrow> record_success (injection_telemetry s)
              (case architecture i of X86 \<Rightarrow> IaX86 | X64 \<Rightarrow> IaX64)
              \<lparr>is_pid = pid i, is_creation_time = creation_time i, is_session_id = session_id i,
               is_runtime_generation_id = generation_id s, is_profile_digest = digest\<rparr>)" for i
    by (simp add: record_injection_success_def split: option.split)
  ultimately show ?thesis by (cases "r = Ok (Some PoInjected)") simp_all
qed

lemma telemetry_counts_only_injections_witness:
  "\<exists>s' (i :: process_identity). orchestrator_step (sample_env LcRunning (sample_answer BdInjected ''ok'')) (PollDeferred 5) sample_waiting
       = Some (Ok (Some PoInjected), s')
     \<and> injection_telemetry s' = record_success default_telemetry
         (case architecture i of X86 \<Rightarrow> IaX86 | X64 \<Rightarrow> IaX64)
         \<lparr>is_pid = pid i, is_creation_time = creation_time i, is_session_id = session_id i,
          is_runtime_generation_id = ''gen'', is_profile_digest = ''sha256:00''\<rparr>"
proof -
  obtain s' where "poll_deferred (sample_env LcRunning (sample_answer BdInjected ''ok'')) 5
      sample_waiting = Some (Ok (Some PoInjected), s')" using sample_polled by auto
  then have run: "orchestrator_step (sample_env LcRunning (sample_answer BdInjected ''ok'')) (PollDeferred 5)
      sample_waiting = Some (Ok (Some PoInjected), s')" by simp
  from telemetry_counts_only_injections [OF sample_waiting_wf run] run show ?thesis
    by (simp add: sample_waiting_def sample_start_def with_runtime_context_def with_retry_policy_def
        build_orchestrator_def)
qed

text \<open>The world in which a due target is inspected: a frozen one is probed first.\<close>

definition inspection_world :: "('w, 'x) host_env_scheme \<Rightarrow> deferred_target \<Rightarrow> 'w orchestrator \<Rightarrow> 'w" where
  "inspection_world env target s =
     (if dt_reason target = DrFrozen
      then snd (env_probe_target_lifecycle env (dt_identity target) (world s)) else world s)"

lemma unscoped_failure_is_answered:
  assumes "env_inspect env p (world s) = (Inl e, w)" and "target_scoped_inspection_failure (se_code e) = None"
  shows "\<exists>s'. call_validate env p s = (Err e, s')"
  using assms by (simp add: call_validate_def validate_target_def)

lemma poll_answers_the_failure:
  assumes "due_key now s = Some key" and "fmlookup (deferred s) key = Some target"
    and "dt_reason target = DrFrozen
      \<longrightarrow> fst (env_probe_target_lifecycle env (dt_identity target) (world s)) = LcRunning"
    and "env_inspect env (pid (dt_identity target)) (inspection_world env target s) = (Inl e, w)"
    and "target_scoped_inspection_failure (se_code e) = None"
  shows "\<exists>s'. poll_deferred env now s = Some (Err e, s')"
proof -
  let ?s1 = "take_deferred key s"
  let ?polled = "if dt_reason target = DrFrozen then call_lifecycle env (dt_identity target) ?s1 else (LcRunning, ?s1)"
  obtain lc s2 where polled: "?polled = (lc, s2)" by fastforce
  then have state: "lc = LcRunning" "world s2 = inspection_world env target s"
    using assms(3) by (auto simp: call_lifecycle_def inspection_world_def take_deferred_def split: if_splits prod.splits)
  obtain s' where "call_validate env (pid (dt_identity target)) s2 = (Err e, s')"
    using unscoped_failure_is_answered [of env _ s2 e w] assms(4,5) state(2) by auto
  then have again: "revalidate_deferred env target now s2 = Some (Err e, s')" by (simp add: revalidate_deferred_def)
  have upd: "s\<lparr>deferred_order := remove1 key (deferred_order s), deferred := fmdrop key (deferred s)\<rparr> = ?s1"
    by (simp add: take_deferred_def)
  show ?thesis
    using assms(1,2) polled state(1) again
    by (cases "dt_reason target = DrFrozen") (simp_all add: poll_deferred_def upd)
qed

text \<open>
  C6.  What a failed poll does: when a deferred target is due, is not still frozen, and its inspection
  answers an error that is not scoped to the target, the poll answers exactly that error without any
  injection, and the target is in neither the queue nor the results any more, unlike after every other
  answer (C4).
\<close>

theorem failed_poll_forgets_the_target:
  assumes "wf_orchestrator s" and "due_key now s = Some key" and "fmlookup (deferred s) key = Some target"
    and "dt_reason target = DrFrozen
      \<longrightarrow> fst (env_probe_target_lifecycle env (dt_identity target) (world s)) = LcRunning"
    and "env_inspect env (pid (dt_identity target)) (inspection_world env target s) = (Inl e, w)"
    and "target_scoped_inspection_failure (se_code e) = None"
  shows "\<exists>s'. poll_deferred env now s = Some (Err e, s')
     \<and> key |\<notin>| fmdom (deferred s') \<and> key |\<notin>| fmdom (processed s')
     \<and> filter is_inject (trace s') = filter is_inject (trace s)"
proof -
  obtain s' where run: "poll_deferred env now s = Some (Err e, s')"
    using poll_answers_the_failure [OF assms(2-6)] by blast
  then have "poll_post env now s (Err e) s'" using poll_deferred_post [OF assms(1), of env now] by simp
  then have "untouched (take_deferred key s) s'" using assms(2) by (cases rule: poll_post_due) auto
  moreover have "key |\<notin>| fmdom (processed s)"
    using assms(1) fmdomI [OF assms(3)] unfolding wf_orchestrator_def by blast
  ultimately show ?thesis using run by (auto simp: untouched_def take_deferred_def calls_def)
qed

definition failing_env :: "unit host_env" where
  "failing_env = (sample_env LcRunning (sample_answer BdInjected ''ok''))
     \<lparr>env_inspect := \<lambda>p w. (Err (service_error ''process-identity-invalid'' ''''), w)\<rparr>"

lemma failed_poll_forgets_the_target_witness:
  "\<exists>s'. poll_deferred failing_env 5 sample_waiting = Some (Err (service_error ''process-identity-invalid'' ''''), s')
     \<and> (9, 7) |\<notin>| fmdom (deferred s') \<and> (9, 7) |\<notin>| fmdom (processed s')"
proof -
  have target: "fmlookup (deferred sample_waiting) (9, 7) = Some sample_target"
    by (simp add: sample_waiting_def)
  have "target_scoped_inspection_failure (se_code (service_error ''process-identity-invalid'' '''')) = None"
    by code_simp
  then show ?thesis
    using failed_poll_forgets_the_target [OF sample_waiting_wf sample_due target, of failing_env
        "service_error ''process-identity-invalid'' ''''"]
    by (auto simp: failing_env_def sample_env_def)
qed

end
