(* ===== verification/Service_Lifecycle.thy ===== *)
theory Service_Lifecycle
  imports Host_Types
begin

text \<open>
  The service lifecycle (\<open>host/src/runtime.rs\<close>, \<open>host/src/runtime/lifecycle.rs\<close>): from the
  start-pending status through initialization, readiness and the driver to the stopped status, with
  every failure path, and the health reporter the driver publishes through.

  The collaborators are fields of \<open>service_env\<close>; \<open>io\<close> is their abstract world with the trace of
  the calls.  A driver is any function that gets the health reporter; \<^const>\<open>None\<close> is a driver that
  does not return.
\<close>

section \<open>Collaborators\<close>

record 'w io =
  io_world :: 'w
  io_trace :: "host_call list"

text \<open>After a call: the next world, and the call in the trace.\<close>

definition called :: "host_call \<Rightarrow> 'w \<Rightarrow> 'w io \<Rightarrow> 'w io" where
  "called c w io = \<lparr>io_world = w, io_trace = io_trace io @ [c]\<rparr>"

type_synonym 'w health_reporter =
  "health_state \<Rightarrow> readiness_report \<Rightarrow> injection_telemetry \<Rightarrow> structured_service_error option \<Rightarrow>
     'w io \<Rightarrow> (structured_service_error + unit) \<times> 'w io"

type_synonym 'w runtime_driver =
  "'w health_reporter \<Rightarrow> 'w io \<Rightarrow> ((structured_service_error + unit) \<times> 'w io) option"

record 'w initialized_runtime =
  ir_active_profile_digest :: "string option"
  ir_readiness :: readiness_report
  ir_driver :: "'w runtime_driver option"

record 'w service_env =
  env_status :: "service_status \<Rightarrow> 'w \<Rightarrow> (io_error + unit) \<times> 'w"
  env_publish :: "health_report \<Rightarrow> 'w \<Rightarrow> (io_error + unit) \<times> 'w"
  env_initialize :: "'w \<Rightarrow> (structured_service_error + 'w initialized_runtime) \<times> 'w"
  env_wait :: "'w \<Rightarrow> (structured_service_error + unit) \<times> 'w"
  env_service_stop_requested :: "'w \<Rightarrow> bool \<times> 'w"

datatype host_error = HostIo io_error | HostRuntime structured_service_error

definition ERROR_SERVICE_SPECIFIC_ERROR :: u32 where "ERROR_SERVICE_SPECIFIC_ERROR = 1066"

definition is_supported_stopped_state :: "structured_service_error \<Rightarrow> bool" where
  "is_supported_stopped_state e \<longleftrightarrow> se_code e \<in> {''active-profile-absent'', ''runtime-profile-absent''}"

definition ready_runtime :: "string option \<Rightarrow> readiness_report \<Rightarrow> 'w initialized_runtime" where
  "ready_runtime digest r =
     \<lparr>ir_active_profile_digest = digest, ir_readiness = r, ir_driver = None\<rparr>"

definition driven_runtime ::
  "string option \<Rightarrow> readiness_report \<Rightarrow> 'w runtime_driver \<Rightarrow> 'w initialized_runtime" where
  "driven_runtime digest r driver =
     \<lparr>ir_active_profile_digest = digest, ir_readiness = r, ir_driver = Some driver\<rparr>"

section \<open>Calls\<close>

definition report_status ::
  "('w, 'x) service_env_scheme \<Rightarrow> service_status \<Rightarrow> 'w io \<Rightarrow> (io_error + unit) \<times> 'w io" where
  "report_status env status io =
     (let (r, w) = env_status env status (io_world io) in (r, called (CallStatus status) w io))"

definition publish ::
  "('w, 'x) service_env_scheme \<Rightarrow> health_report \<Rightarrow> 'w io \<Rightarrow> (io_error + unit) \<times> 'w io" where
  "publish env report io =
     (let (r, w) = env_publish env report (io_world io)
      in (r, called (CallPublish report (\<not> isl r)) w io))"

definition emit :: "host_event \<Rightarrow> 'w io \<Rightarrow> 'w io" where
  "emit e io = called (CallRecord e) (io_world io) io"

definition health_message ::
  "string \<Rightarrow> health_state \<Rightarrow> string option \<Rightarrow> readiness_report \<Rightarrow> structured_service_error option \<Rightarrow>
     health_report" where
  "health_message version state digest r e =
     \<lparr>protocol_version = HEALTH_PROTOCOL_VERSION, service_version = version, health = state,
      active_profile_digest = digest, readiness = r, injection = default_telemetry, last_error = e\<rparr>"

section \<open>The failure paths\<close>

definition report_failure ::
  "('w, 'x) service_env_scheme \<Rightarrow> string \<Rightarrow> structured_service_error \<Rightarrow> 'w io \<Rightarrow> 'w io" where
  "report_failure env version error io =
     (let (published, io) = publish env (health_message version HsFailed None initializing (Some error)) io;
          io = (case published of
                  Inr _ \<Rightarrow> emit (EvHealthChanged HsFailed (Some error)) io | Inl _ \<Rightarrow> io);
          (_, io) = report_status env (stopped_with_error ERROR_SERVICE_SPECIFIC_ERROR 1) io
      in io)"

definition structured_io_error :: "string \<Rightarrow> io_error \<Rightarrow> structured_service_error" where
  "structured_io_error code error =
     \<lparr>se_code = code, se_message = io_message error, se_win32_error = raw_os_error error\<rparr>"

definition report_io_failure ::
  "('w, 'x) service_env_scheme \<Rightarrow> string \<Rightarrow> string \<Rightarrow> io_error \<Rightarrow> 'w io \<Rightarrow> host_error \<times> 'w io" where
  "report_io_failure env version code error io =
     (HostIo error, report_failure env version (structured_io_error code error) io)"

text \<open>Reaching the stopped status, shared by an orderly stop and a start with nothing to do.\<close>

definition tell_stopped ::
  "('w, 'x) service_env_scheme \<Rightarrow> string \<Rightarrow> structured_service_error option \<Rightarrow> host_event \<Rightarrow> 'w io \<Rightarrow>
     (host_error + unit) \<times> 'w io" where
  "tell_stopped env version reason event io =
     (let (_, io) = publish env (health_message version HsUnknown None not_required reason) io;
          io = emit event io;
          (stopped, io) = report_status env stopped_status io
      in case stopped of
           Inl e \<Rightarrow> (let (err, io) = report_io_failure env version ''stopped-status-report-failed'' e io
                      in (Err err, io))
         | Inr _ \<Rightarrow> (Ok (), io))"

definition report_supported_stop ::
  "('w, 'x) service_env_scheme \<Rightarrow> string \<Rightarrow> structured_service_error \<Rightarrow> 'w io \<Rightarrow> (host_error + unit) \<times> 'w io" where
  "report_supported_stop env version error io =
     tell_stopped env version (Some error) (EvServiceStartSkipped error) io"

section \<open>The health reporter of a running driver\<close>

definition runtime_health_report ::
  "('w, 'x) service_env_scheme \<Rightarrow> string \<Rightarrow> string option \<Rightarrow> 'w health_reporter" where
  "runtime_health_report env version digest state r telemetry error io =
     (let report = \<lparr>protocol_version = HEALTH_PROTOCOL_VERSION, service_version = version,
            health = state, active_profile_digest = digest, readiness = r, injection = telemetry,
            last_error = error\<rparr>
      in case validate_report report of
           Inl _ \<Rightarrow> (Err (service_error ''runtime-health-invalid''
                      ''the runtime attempted to publish an invalid health report''), io)
         | Inr _ \<Rightarrow>
             (let (published, io) = publish env report io
              in case published of
                   Inl e \<Rightarrow> (Err (structured_io_error ''health-publish-failed'' e), io)
                 | Inr _ \<Rightarrow> (Ok (), emit (EvHealthChanged state error) io)))"

section \<open>The run\<close>

text \<open>The end of an orderly stop: health becomes unknown, the event is recorded, SCM is told.\<close>

definition finish_stop ::
  "('w, 'x) service_env_scheme \<Rightarrow> string \<Rightarrow> structured_service_error option \<Rightarrow> 'w io \<Rightarrow>
     (host_error + unit) \<times> 'w io" where
  "finish_stop env version terminal_error io =
     tell_stopped env version terminal_error EvServiceStopped io"

definition wait_for_stop ::
  "('w, 'x) service_env_scheme \<Rightarrow> string \<Rightarrow> 'w initialized_runtime \<Rightarrow> 'w io \<Rightarrow>
     ((structured_service_error + unit) \<times> 'w io) option" where
  "wait_for_stop env version initialized io =
     (case ir_driver initialized of
        Some driver \<Rightarrow>
          driver (runtime_health_report env version (ir_active_profile_digest initialized)) io
      | None \<Rightarrow> (let (r, w) = env_wait env (io_world io) in Some (r, called CallWait w io)))"

definition serve ::
  "('w, 'x) service_env_scheme \<Rightarrow> string \<Rightarrow> 'w initialized_runtime \<Rightarrow> 'w io \<Rightarrow>
     ((host_error + unit) \<times> 'w io) option" where
  "serve env version initialized io =
     do {
       (result, io) \<leftarrow> wait_for_stop env version initialized io;
       (case result of
          Inr _ \<Rightarrow> Some (finish_stop env version None io)
        | Inl error \<Rightarrow>
            (let (requested, w) = env_service_stop_requested env (io_world io);
                 io = called CallStopRequested w io
             in if requested then Some (finish_stop env version (Some error) io)
                else Some (Err (HostRuntime error), report_failure env version error io)))
     }"

definition become_ready ::
  "('w, 'x) service_env_scheme \<Rightarrow> string \<Rightarrow> 'w initialized_runtime \<Rightarrow> 'w io \<Rightarrow>
     ((host_error + unit) \<times> 'w io) option" where
  "become_ready env version initialized io =
     (let (running, io) = report_status env running_status io
      in case running of
           Inl e \<Rightarrow> (let (err, io) = report_io_failure env version ''running-status-report-failed'' e io
                      in Some (Err err, io))
         | Inr _ \<Rightarrow>
             (let ready = health_message version HsReady (ir_active_profile_digest initialized)
                            (ir_readiness initialized) None
              in case validate_report ready of
                   Inl _ \<Rightarrow>
                     (let error = service_error ''readiness-incomplete''
                            ''required runtime components are not ready''
                      in Some (Err (HostRuntime error), report_failure env version error io))
                 | Inr _ \<Rightarrow>
                     (let (published, io) = publish env ready io
                      in case published of
                           Inl e \<Rightarrow>
                             (let error = structured_io_error ''health-publish-failed'' e
                              in Some (Err (HostRuntime error), report_failure env version error io))
                         | Inr _ \<Rightarrow>
                             serve env version initialized (emit (EvServiceStarted version) io))))"

definition run_service ::
  "('w, 'x) service_env_scheme \<Rightarrow> string \<Rightarrow> 'w io \<Rightarrow> ((host_error + unit) \<times> 'w io) option" where
  "run_service env version io =
     (let (started, io) = report_status env (start_pending 1 10000) io
      in case started of
           Inl e \<Rightarrow> (let (err, io) = report_io_failure env version ''start-pending-report-failed'' e io
                      in Some (Err err, io))
         | Inr _ \<Rightarrow>
             (let (published, io) = publish env (health_message version HsInitializing None initializing None) io
              in case published of
                   Inl e \<Rightarrow> (let (err, io) = report_io_failure env version ''initializing-health-publish-failed'' e io
                              in Some (Err err, io))
                 | Inr _ \<Rightarrow>
                     (let (initialized, w) = env_initialize env (io_world io);
                          io = called CallInitialize w io
                      in case initialized of
                           Inl error \<Rightarrow>
                             if is_supported_stopped_state error
                             then Some (report_supported_stop env version error io)
                             else Some (Err (HostRuntime error), report_failure env version error io)
                         | Inr initialized \<Rightarrow> become_ready env version initialized io)))"

section \<open>What the run says to the control manager and to health readers\<close>

text \<open>The status reports of a trace, in order.\<close>

fun status_of :: "host_call \<Rightarrow> service_status list" where
  "status_of (CallStatus s) = [s]"
| "status_of _ = []"

definition statuses :: "'w io \<Rightarrow> service_status list" where
  "statuses io = concat (map status_of (io_trace io))"

definition grows :: "(host_call \<Rightarrow> bool) \<Rightarrow> 'w io \<Rightarrow> 'w io \<Rightarrow> bool" where
  "grows P io io' \<longleftrightarrow> (\<exists>t. io_trace io' = io_trace io @ t \<and> list_all P t)"

text \<open>The contract of a driver: whatever else it does, it publishes only through its reporter.\<close>

locale service_driver =
  fixes driver :: "'w runtime_driver"
  assumes driver_calls:
    "driver reporter io = Some (r, io') \<Longrightarrow>
     (\<And>st rr tel e a b c. reporter st rr tel e a = (c, b) \<Longrightarrow> grows P a b) \<Longrightarrow>
     (\<And>c. \<not> lifecycle_call c \<Longrightarrow> P c) \<Longrightarrow> grows P io io'"

lemma grows_refl [simp]: "grows P io io"
  by (simp add: grows_def)

lemma grows_trans: "grows P a b \<Longrightarrow> grows P b c \<Longrightarrow> grows P a c"
  by (auto simp: grows_def)

lemma grows_statuses:
  assumes "grows (\<lambda>c. status_of c = []) io io'"
  shows "statuses io' = statuses io"
proof -
  have "list_all (\<lambda>c. status_of c = []) t \<Longrightarrow> concat (map status_of t) = []" for t
    by (induction t) auto
  with assms show ?thesis by (auto simp: grows_def statuses_def)
qed

lemma called_simps [simp]:
  "io_world (called c w io) = w" "io_trace (called c w io) = io_trace io @ [c]"
  "statuses (called c w io) = statuses io @ status_of c"
  by (simp_all add: called_def statuses_def)

lemma report_status_calls:
  "report_status env s io = (r, io') \<Longrightarrow>
     statuses io' = statuses io @ [s] \<and> io_trace io' = io_trace io @ [CallStatus s]"
  by (auto simp: report_status_def split: prod.splits)

lemma publish_calls:
  "publish env report io = (r, io') \<Longrightarrow> statuses io' = statuses io
     \<and> io_trace io' = io_trace io @ [CallPublish report (\<not> isl r)]"
  by (auto simp: publish_def split: prod.splits)

lemma emit_calls: "statuses (emit e io) = statuses io \<and> io_trace (emit e io) = io_trace io @ [CallRecord e]"
  by (simp add: emit_def)

lemmas io_calls = report_status_calls publish_calls emit_calls

text \<open>What a reader of health may be shown.\<close>

definition showable :: "string \<Rightarrow> host_call \<Rightarrow> bool" where
  "showable version c = (case c of
     CallPublish r _ \<Rightarrow> service_version r = version
       \<and> (case health r of HsReady \<Rightarrow> validate_report r = Ok () \<and> readiness r = ready_readiness | _ \<Rightarrow> True)
       \<and> (validate_report r = Ok () \<or> (\<exists>e \<in> set_option (last_error r). \<not> bounded_error e))
   | _ \<Rightarrow> True)"

lemma ready_report_ready: "validate_report r = Ok () \<Longrightarrow> health r = HsReady \<Longrightarrow> readiness r = ready_readiness"
  by (auto simp: validate_report_Ok_iff all_required_ready_iff)

lemma health_message_valid:
  assumes "version \<noteq> []" "length version \<le> 64" "state \<in> {HsFailed, HsUnknown, HsInitializing}"
    "state = HsFailed \<Longrightarrow> e \<noteq> None"
  shows "showable version (CallPublish (health_message version state None rr e) b)"
proof -
  let ?r = "health_message version state None rr e"
  have "validate_report ?r = Ok () \<or> (\<exists>e \<in> set_option (last_error ?r). \<not> bounded_error e)"
    using assms by (auto simp: validate_report_Ok_iff health_message_def state_is_consistent_def
        split: health_state.splits)
  then show ?thesis using assms(3) by (auto simp: showable_def health_message_def)
qed

section \<open>Each path\<close>

lemma report_failure_calls:
  assumes "version \<noteq> []" "length version \<le> 64"
  shows "statuses (report_failure env version error io) =
      statuses io @ [stopped_with_error ERROR_SERVICE_SPECIFIC_ERROR 1]
    \<and> grows (showable version) io (report_failure env version error io)"
proof -
  obtain p io1 where p: "publish env (health_message version HsFailed None initializing (Some error)) io = (p, io1)"
    by force
  let ?io2 = "case p of Inr _ \<Rightarrow> emit (EvHealthChanged HsFailed (Some error)) io1 | Inl _ \<Rightarrow> io1"
  obtain q io3 where q: "report_status env (stopped_with_error ERROR_SERVICE_SPECIFIC_ERROR 1) ?io2 = (q, io3)"
    by force
  have "report_failure env version error io = io3" by (simp add: report_failure_def p q)
  moreover note publish_calls [OF p] report_status_calls [OF q]
    emit_calls [of "EvHealthChanged HsFailed (Some error)" io1]
    health_message_valid [OF assms, of HsFailed "Some error" initializing "\<not> isl p"]
  ultimately show ?thesis by (cases p) (auto simp: grows_def showable_def)
qed

lemma report_io_failure_calls:
  assumes "version \<noteq> []" "length version \<le> 64" "report_io_failure env version code error io = (err, io')"
  shows "statuses io' = statuses io @ [stopped_with_error ERROR_SERVICE_SPECIFIC_ERROR 1]
    \<and> grows (showable version) io io' \<and> err = HostIo error"
  using report_failure_calls [OF assms(1,2)] assms(3) by (auto simp: report_io_failure_def)

lemma tell_stopped_calls:
  assumes "version \<noteq> []" "length version \<le> 64" and run: "tell_stopped env version e ev io = (r, io')"
  shows "statuses io' = statuses io @ stopped_status #
      (case r of Inl _ \<Rightarrow> [stopped_with_error ERROR_SERVICE_SPECIFIC_ERROR 1] | Inr _ \<Rightarrow> [])
    \<and> grows (showable version) io io'"
proof -
  let ?report = "health_message version HsUnknown None not_required e"
  obtain p io1 where p: "publish env ?report io = (p, io1)" by force
  obtain stopped io2 where st: "report_status env stopped_status (emit ev io1) = (stopped, io2)" by force
  have "showable version (CallPublish ?report b)" for b
    by (rule health_message_valid [OF assms(1,2)]) auto
  then have g2: "grows (showable version) io io2" "statuses io2 = statuses io @ [stopped_status]"
    using publish_calls [OF p] report_status_calls [OF st] emit_calls [of ev io1]
    by (auto simp: grows_def showable_def)
  show ?thesis
  proof (cases stopped)
    case (Inl x)
    obtain err io3 where f: "report_io_failure env version ''stopped-status-report-failed'' x io2 = (err, io3)"
      by force
    with Inl run have "r = Inl err" "io' = io3" by (simp_all add: tell_stopped_def p st)
    with report_io_failure_calls [OF assms(1,2) f] g2 show ?thesis by (auto intro: grows_trans)
  next
    case (Inr u)
    with run g2 show ?thesis by (simp add: tell_stopped_def p st) auto
  qed
qed

lemma runtime_health_report_calls:
  assumes "runtime_health_report env version digest st rr tel e io = (r, io')"
  shows "grows (\<lambda>c. (\<exists>report ok. c = CallPublish report ok \<and> validate_report report = Ok ()
      \<and> service_version report = version) \<or> (\<exists>ev. c = CallRecord ev)) io io'"
proof -
  let ?report = "\<lparr>protocol_version = HEALTH_PROTOCOL_VERSION, service_version = version,
     health = st, active_profile_digest = digest, readiness = rr, injection = tel, last_error = e\<rparr>"
  obtain p io1 where p: "publish env ?report io = (p, io1)" by force
  show ?thesis
    using assms publish_calls [OF p] emit_calls [of "EvHealthChanged st e" io1]
    by (cases "validate_report ?report"; cases p) (auto simp: runtime_health_report_def grows_def p)
qed

lemma grows_mono: "grows P a b \<Longrightarrow> (\<And>c. P c \<Longrightarrow> Q c) \<Longrightarrow> grows Q a b"
  by (auto simp: grows_def list_all_iff)

lemma grows_called [simp]: "P c \<Longrightarrow> grows P io (called c w io)"
  by (simp add: grows_def)

text \<open>What the control manager hears at the end, by the result of the run.\<close>

definition ending :: "(host_error + unit) \<Rightarrow> service_status list \<Rightarrow> bool" where
  "ending r ss \<longleftrightarrow> (case r of
     Inr _ \<Rightarrow> ss = [stopped_status]
   | Inl _ \<Rightarrow> ss \<in> {[stopped_with_error ERROR_SERVICE_SPECIFIC_ERROR 1],
       [stopped_status, stopped_with_error ERROR_SERVICE_SPECIFIC_ERROR 1]})"

definition ends :: "string \<Rightarrow> 'w io \<Rightarrow> (host_error + unit) \<Rightarrow> 'w io \<Rightarrow> bool" where
  "ends version io r io' \<longleftrightarrow> (\<exists>ss. statuses io' = statuses io @ ss \<and> ending r ss)
     \<and> grows (showable version) io io'"

definition contracted :: "'w initialized_runtime \<Rightarrow> bool" where
  "contracted initialized \<longleftrightarrow> (case ir_driver initialized of None \<Rightarrow> True | Some d \<Rightarrow> service_driver d)"

lemma ends_after: "statuses io1 = statuses io \<Longrightarrow> grows (showable v) io io1 \<Longrightarrow> ends v io1 r io' \<Longrightarrow> ends v io r io'"
  by (auto simp: ends_def intro: grows_trans)

lemma finish_stop_ends:
  "version \<noteq> [] \<Longrightarrow> length version \<le> 64 \<Longrightarrow> finish_stop env version e io = (r, io') \<Longrightarrow> ends version io r io'"
  unfolding finish_stop_def by (drule (2) tell_stopped_calls) (auto simp: ends_def ending_def split: sum.splits)

lemma supported_stop_ends:
  "version \<noteq> [] \<Longrightarrow> length version \<le> 64 \<Longrightarrow> report_supported_stop env version e io = (r, io') \<Longrightarrow>
     ends version io r io'"
  unfolding report_supported_stop_def
  by (drule (2) tell_stopped_calls) (auto simp: ends_def ending_def split: sum.splits)

lemma failure_ends:
  "version \<noteq> [] \<Longrightarrow> length version \<le> 64 \<Longrightarrow> ends version io (Inl err) (report_failure env version e io)"
  using report_failure_calls [of version env e io] by (auto simp: ends_def ending_def)

lemma io_failure_ends:
  "version \<noteq> [] \<Longrightarrow> length version \<le> 64 \<Longrightarrow> report_io_failure env version code e io = (err, io') \<Longrightarrow>
     ends version io (Inl err) io'"
  using failure_ends by (auto simp: report_io_failure_def)

lemma showable_reported:
  assumes "(\<exists>report ok. c = CallPublish report ok \<and> validate_report report = Ok ()
      \<and> service_version report = version) \<or> (\<exists>ev. c = CallRecord ev)"
  shows "showable version c \<and> status_of c = []"
  using assms by (auto simp: showable_def ready_report_ready split: health_state.split)

lemma wait_for_stop_calls:
  assumes "contracted initialized" and run: "wait_for_stop env version initialized io = Some (r, io')"
  shows "grows (showable version) io io' \<and> statuses io' = statuses io"
proof (cases "ir_driver initialized")
  case None
  then show ?thesis using run
    by (auto simp: wait_for_stop_def showable_def split: prod.splits)
next
  case (Some driver)
  then have contract: "service_driver driver" using assms(1) by (simp add: contracted_def)
  let ?reporter = "runtime_health_report env version (ir_active_profile_digest initialized)"
  have go: "driver ?reporter io = Some (r, io')" using run Some by (simp add: wait_for_stop_def)
  have "grows (\<lambda>c. showable version c \<and> status_of c = []) io io'"
  proof (rule service_driver.driver_calls [OF contract go])
    show "?reporter st rr tel e a = (c, b) \<Longrightarrow> grows (\<lambda>c. showable version c \<and> status_of c = []) a b"
      for st rr tel e a b c
      by (rule grows_mono [OF runtime_health_report_calls], assumption) (rule showable_reported)
    show "\<not> lifecycle_call c \<Longrightarrow> showable version c \<and> status_of c = []" for c
      by (cases c) (auto simp: showable_def)
  qed
  then show ?thesis by (auto intro: grows_mono grows_statuses)
qed

lemma serve_ends:
  assumes v: "version \<noteq> []" "length version \<le> 64" and c: "contracted initialized"
    and run: "serve env version initialized io = Some (r, io')"
  shows "ends version io r io'"
proof -
  from run obtain result io1 where w: "wait_for_stop env version initialized io = Some (result, io1)"
    by (auto simp: serve_def bind_eq_Some_conv)
  note calm = wait_for_stop_calls [OF c w]
  show ?thesis
  proof (cases result)
    case (Inr u)
    then have "finish_stop env version None io1 = (r, io')" using run w by (simp add: serve_def)
    with finish_stop_ends [OF v] calm ends_after show ?thesis by blast
  next
    case (Inl error)
    obtain req w2 where q: "env_service_stop_requested env (io_world io1) = (req, w2)" by force
    let ?io2 = "called CallStopRequested w2 io1"
    have calm2: "statuses ?io2 = statuses io" "grows (showable version) io ?io2"
      using calm by (auto simp: showable_def intro: grows_trans grows_called)
    have "ends version ?io2 r io'"
    proof (cases req)
      case True
      then have "finish_stop env version (Some error) ?io2 = (r, io')"
        using run w Inl q by (simp add: serve_def Let_def)
      then show ?thesis by (rule finish_stop_ends [OF v])
    next
      case False
      then have "r = Inl (HostRuntime error)" "io' = report_failure env version error ?io2"
        using run w Inl q by (simp_all add: serve_def Let_def)
      then show ?thesis using failure_ends [OF v] by simp
    qed
    with calm2 show ?thesis by (rule ends_after)
  qed
qed

lemma become_ready_ends:
  assumes v: "version \<noteq> []" "length version \<le> 64" and c: "contracted initialized"
    and run: "become_ready env version initialized io = Some (r, io')"
  shows "\<exists>ss. statuses io' = statuses io @ running_status # ss \<and> ending r ss \<and> grows (showable version) io io'"
proof -
  obtain running io1 where s: "report_status env running_status io = (running, io1)" by force
  note told = report_status_calls [OF s]
  then have g1: "grows (showable version) io io1" by (auto simp: grows_def showable_def)
  let ?ready = "health_message version HsReady (ir_active_profile_digest initialized)
      (ir_readiness initialized) None"
  have "ends version io1 r io'"
  proof (cases running)
    case (Inl e)
    then show ?thesis using run s io_failure_ends [OF v]
      by (auto simp: become_ready_def split: prod.splits)
  next
    case (Inr u)
    show ?thesis
    proof (cases "validate_report ?ready")
      case Inl: (Inl e)
      then show ?thesis using run s Inr failure_ends [OF v] by (auto simp: become_ready_def Let_def)
    next
      case ok: (Inr u')
      obtain p io2 where p: "publish env ?ready io1 = (p, io2)" by force
      have "showable version (CallPublish ?ready b)" for b
        using ok ready_report_ready [of ?ready] by (simp add: showable_def health_message_def)
      then have g2: "grows (showable version) io1 io2" "statuses io2 = statuses io1"
        using publish_calls [OF p] by (auto simp: grows_def)
      show ?thesis
      proof (cases p)
        case (Inl e)
        then have "r = Inl (HostRuntime (structured_io_error ''health-publish-failed'' e))"
          "io' = report_failure env version (structured_io_error ''health-publish-failed'' e) io2"
          using run s Inr ok p by (simp_all add: become_ready_def Let_def)
        with failure_ends [OF v] g2 ends_after show ?thesis by blast
      next
        case p_ok: (Inr u'')
        let ?io3 = "emit (EvServiceStarted version) io2"
        have "serve env version initialized ?io3 = Some (r, io')"
          using run s Inr ok p p_ok by (simp add: become_ready_def Let_def)
        then have "ends version ?io3 r io'" by (rule serve_ends [OF v c])
        moreover have "grows (showable version) io1 ?io3" "statuses ?io3 = statuses io1"
          using g2 emit_calls [of "EvServiceStarted version" io2]
          by (auto simp: grows_def showable_def)
        ultimately show ?thesis using ends_after by blast
      qed
    qed
  qed
  with told g1 show ?thesis by (auto simp: ends_def intro: grows_trans)
qed

definition initializer_contract :: "('w, 'x) service_env_scheme \<Rightarrow> bool" where
  "initializer_contract env \<longleftrightarrow> (\<forall>w x w'. env_initialize env w = (Inr x, w') \<longrightarrow> contracted x)"

lemma run_service_calls:
  assumes v: "version \<noteq> []" "length version \<le> 64"
    and c: "initializer_contract env"
    and run: "run_service env version io = Some (r, io')"
  shows "\<exists>pre ss. statuses io' = statuses io @ start_pending 1 10000 # pre @ ss
     \<and> (pre = [] \<or> pre = [running_status]) \<and> ending r ss \<and> grows (showable version) io io'"
proof -
  obtain started io1 where s: "report_status env (start_pending 1 10000) io = (started, io1)" by force
  note told = report_status_calls [OF s]
  then have g1: "grows (showable version) io io1" by (auto simp: grows_def showable_def)
  have enough: "?thesis" if "ends version io1 r io'"
  proof -
    from that obtain ss where "statuses io' = statuses io1 @ ss" "ending r ss" "grows (showable version) io1 io'"
      by (auto simp: ends_def)
    with told g1 show ?thesis by (intro exI [of _ "[]"] exI [of _ ss]) (auto intro: grows_trans)
  qed
  let ?starting = "health_message version HsInitializing None initializing None"
  show ?thesis
  proof (cases started)
    case (Inl e)
    obtain err io3 where f: "report_io_failure env version ''start-pending-report-failed'' e io1 = (err, io3)"
      by force
    then have "r = Inl err" "io' = io3" using run s Inl by (simp_all add: run_service_def)
    with io_failure_ends [OF v f] enough show ?thesis by blast
  next
    case (Inr u)
    obtain p io2 where p: "publish env ?starting io1 = (p, io2)" by force
    have "showable version (CallPublish ?starting b)" for b
      by (rule health_message_valid [OF v]) auto
    then have g2: "grows (showable version) io1 io2" "statuses io2 = statuses io1"
      using publish_calls [OF p] by (auto simp: grows_def)
    show ?thesis
    proof (cases p)
      case (Inl e)
      obtain err io3 where f: "report_io_failure env version ''initializing-health-publish-failed'' e io2 = (err, io3)"
        by force
      then have "r = Inl err" "io' = io3" using run s Inr p Inl by (simp_all add: run_service_def)
      with io_failure_ends [OF v f] g2 ends_after enough show ?thesis by blast
    next
      case p_ok: (Inr u')
      obtain init w where i: "env_initialize env (io_world io2) = (init, w)" by force
      let ?io3 = "called CallInitialize w io2"
      have g3: "grows (showable version) io1 ?io3" "statuses ?io3 = statuses io1"
        using g2 by (auto simp: showable_def intro: grows_trans grows_called)
      show ?thesis
      proof (cases init)
        case (Inl error)
        have "ends version ?io3 r io'"
        proof (cases "is_supported_stopped_state error")
          case True
          then have "report_supported_stop env version error ?io3 = (r, io')"
            using run s Inr p p_ok i Inl by (simp add: run_service_def)
          then show ?thesis by (rule supported_stop_ends [OF v])
        next
          case False
          then have "r = Inl (HostRuntime error)" "io' = report_failure env version error ?io3"
            using run s Inr p p_ok i Inl by (simp_all add: run_service_def)
          then show ?thesis using failure_ends [OF v] by simp
        qed
        with g3 ends_after enough show ?thesis by blast
      next
        case init_ok: (Inr x)
        have "become_ready env version x ?io3 = Some (r, io')"
          using run s Inr p p_ok i init_ok by (simp add: run_service_def)
        moreover have "contracted x" using c i init_ok by (auto simp: initializer_contract_def)
        ultimately obtain ss where "statuses io' = statuses ?io3 @ running_status # ss" "ending r ss"
          "grows (showable version) ?io3 io'" using become_ready_ends [OF v] by blast
        with g3 g1 told show ?thesis
          by (intro exI [of _ "[running_status]"] exI [of _ ss]) (auto intro: grows_trans)
      qed
    qed
  qed
qed

section \<open>A sample service, over the one-point world\<close>

definition sample_digest :: string where
  "sample_digest = ''sha256:'' @ replicate 64 (CHR ''0'')"

definition sample_service :: "structured_service_error + unit initialized_runtime \<Rightarrow> unit service_env" where
  "sample_service initialized =
     \<lparr>env_status = \<lambda>s w. (Ok (), w), env_publish = \<lambda>r w. (Ok (), w),
      env_initialize = \<lambda>w. (initialized, w), env_wait = \<lambda>w. (Ok (), w),
      env_service_stop_requested = \<lambda>w. (True, w)\<rparr>"

definition sample_runtime :: "unit initialized_runtime" where
  "sample_runtime = ready_runtime (Some sample_digest) ready_readiness"

definition sample_io :: "unit io" where
  "sample_io = \<lparr>io_world = (), io_trace = []\<rparr>"

end
