(* ===== verification/Orchestration_Driver.thy ===== *)
theory Orchestration_Driver
  imports Orchestrator_Properties Service_Lifecycle
begin

text \<open>
  The process orchestration driver (\<open>host/src/orchestration_runtime.rs\<close>): initialization, the start-up
  backlog with relay roots first, the loop over session changes, deferred targets and observed PIDs,
  the recovery of a lost subscription with bounded doubling waits, the tolerated health failures,
  and the FILETIME ages.

  The driver's state is the orchestrator (whose world and trace are the driver's), the backlog and
  the count of consecutive health failures.  The loop is run with a bound on its turns and on the
  session changes drained in one turn; \<^const>\<open>None\<close> is a run that has not returned within it.
\<close>

section \<open>Collaborators and state\<close>

record 'w driver_env = "'w host_env" +
  env_verify_ready :: "process_architecture \<Rightarrow> 'w \<Rightarrow> (structured_service_error + unit) \<times> 'w"
  env_subscribe :: "string \<Rightarrow> 'w \<Rightarrow> (structured_service_error + unit) \<times> 'w"
  env_snapshot_pids :: "'w \<Rightarrow> (structured_service_error + u32 list) \<times> 'w"
  env_next_pid :: "duration \<Rightarrow> 'w \<Rightarrow> (structured_service_error + u32 option) \<times> 'w"
  env_image_name :: "u32 \<Rightarrow> 'w \<Rightarrow> string option \<times> 'w"
  env_wait_timeout :: "duration \<Rightarrow> 'w \<Rightarrow> (structured_service_error + bool) \<times> 'w"
  env_stop_requested :: "'w \<Rightarrow> bool \<times> 'w"
  env_take_session_change :: "'w \<Rightarrow> session_change option \<times> 'w"
  env_now :: "'w \<Rightarrow> instant \<times> 'w"
  env_since_unix_epoch :: "'w \<Rightarrow> duration option \<times> 'w"

definition MAX_TOLERATED_CONSECUTIVE_HEALTH_REPORT_FAILURES :: nat where
  "MAX_TOLERATED_CONSECUTIVE_HEALTH_REPORT_FAILURES = 20"

definition PROCESS_CREATION_QUERY :: string where
  "PROCESS_CREATION_QUERY = ''SELECT ProcessID FROM Win32_ProcessStartTrace''"

record observer_recovery_policy =
  or_initial_delay :: duration
  or_max_delay :: duration
  or_max_attempts :: u32

definition default_observer_recovery :: observer_recovery_policy where
  "default_observer_recovery =
     \<lparr>or_initial_delay = from_secs 1, or_max_delay = from_secs 30, or_max_attempts = 12\<rparr>"

record 'w driver =
  orch :: "'w orchestrator"
  backlog :: "u32 list"
  health_failures :: nat

datatype observer_recovery = Resubscribed | RecoveryStopped

datatype turn = Continue | Finished "structured_service_error + unit"

text \<open>One traced call to a collaborator, on the driver's world or on the orchestrator's.\<close>

definition ask :: "host_call \<Rightarrow> ('w \<Rightarrow> 'a \<times> 'w) \<Rightarrow> 'w io \<Rightarrow> 'a \<times> 'w io" where
  "ask c f io = (let (a, w) = f (io_world io) in (a, called c w io))"

definition orch_io :: "'w orchestrator \<Rightarrow> 'w io" where
  "orch_io s = \<lparr>io_world = world s, io_trace = trace s\<rparr>"

definition put_io :: "'w io \<Rightarrow> 'w orchestrator \<Rightarrow> 'w orchestrator" where
  "put_io io s = s\<lparr>world := io_world io, trace := io_trace io\<rparr>"

definition on_io :: "('w io \<Rightarrow> 'a \<times> 'w io) \<Rightarrow> 'w driver \<Rightarrow> 'a \<times> 'w driver" where
  "on_io f d = (let (a, io) = f (orch_io (orch d)) in (a, d\<lparr>orch := put_io io (orch d)\<rparr>))"

text \<open>A clock read: it changes the world and leaves no call.\<close>

definition clock :: "('w \<Rightarrow> 'a \<times> 'w) \<Rightarrow> 'w driver \<Rightarrow> 'a \<times> 'w driver" where
  "clock f d = (let (a, w) = f (world (orch d)) in (a, d\<lparr>orch := (orch d)\<lparr>world := w\<rparr>\<rparr>))"

text \<open>\<open>StopRetryScheduler\<close>: a retry goes on only when the stop signal answered "not yet".\<close>

definition stop_retry_wait ::
  "('w, 'x) driver_env_scheme \<Rightarrow> duration \<Rightarrow> 'w \<Rightarrow> bool \<times> 'w" where
  "stop_retry_wait env delay w =
     (let (r, w) = env_wait_timeout env delay w in (r = Inr False, w))"

definition scheduled :: "('w, 'x) driver_env_scheme \<Rightarrow> ('w, 'x) driver_env_scheme" where
  "scheduled env = env\<lparr>env_retry_wait := stop_retry_wait env\<rparr>"

section \<open>FILETIME\<close>

definition UNIX_EPOCH_FILETIME_TICKS :: nat where
  "UNIX_EPOCH_FILETIME_TICKS = 116444736000000000"

definition filetime_from_unix_epoch :: "duration \<Rightarrow> u64 option" where
  "filetime_from_unix_epoch since =
     (let ticks = since div 100 + UNIX_EPOCH_FILETIME_TICKS
      in if ticks < 2 ^ 64 then Some (word_of_nat ticks) else None)"

definition current_filetime :: "('w, 'x) driver_env_scheme \<Rightarrow> 'w \<Rightarrow> u64 option \<times> 'w" where
  "current_filetime env w =
     (let (since, w) = env_since_unix_epoch env w in (Option.bind since filetime_from_unix_epoch, w))"

definition filetime_age_millis :: "u64 \<Rightarrow> u64 \<Rightarrow> u64 option" where
  "filetime_age_millis now created = map_option (\<lambda>ticks. ticks div 10000) (checked_sub now created)"

definition elapsed_millis :: "instant \<Rightarrow> instant \<Rightarrow> u64" where
  "elapsed_millis started now = word_of_nat (min ((now - started) div 1000000) (2 ^ 64 - 1))"

section \<open>Backlog\<close>

definition names_relay_root :: "('w, 'x) driver_env_scheme \<Rightarrow> u32 \<Rightarrow> 'w io \<Rightarrow> bool \<times> 'w io" where
  "names_relay_root env p io =
     (let (name, io) = ask (CallImageName p) (env_image_name env p) io
      in (case name of None \<Rightarrow> False | Some n \<Rightarrow> is_relay_root n, io))"

fun partition_roots ::
  "('w, 'x) driver_env_scheme \<Rightarrow> u32 list \<Rightarrow> 'w io \<Rightarrow> (u32 list \<times> u32 list) \<times> 'w io" where
  "partition_roots env [] io = (([], []), io)"
| "partition_roots env (p # ps) io =
     (let (root, io) = names_relay_root env p io; ((roots, rest), io) = partition_roots env ps io
      in (if root then (p # roots, rest) else (roots, p # rest), io))"

definition relay_roots_first :: "('w, 'x) driver_env_scheme \<Rightarrow> u32 list \<Rightarrow> 'w io \<Rightarrow> u32 list \<times> 'w io" where
  "relay_roots_first env ps io = (let ((roots, rest), io) = partition_roots env ps io in (roots @ rest, io))"

fun merge_snapshot ::
  "('w, 'x) driver_env_scheme \<Rightarrow> u32 list \<Rightarrow> u32 list \<Rightarrow> 'w io \<Rightarrow> u32 list \<times> 'w io" where
  "merge_snapshot env [] known io = (known, io)"
| "merge_snapshot env (p # ps) known io =
     (if p \<in> set known then merge_snapshot env ps known io
      else (let (root, io) = names_relay_root env p io
            in merge_snapshot env ps (if root then p # known else known @ [p]) io))"

definition resubscribe ::
  "('w, 'x) driver_env_scheme \<Rightarrow> u32 list \<Rightarrow> 'w io \<Rightarrow> (structured_service_error + u32 list) \<times> 'w io" where
  "resubscribe env known io =
     (let (subscribed, io) = ask (CallSubscribe PROCESS_CREATION_QUERY) (env_subscribe env PROCESS_CREATION_QUERY) io
      in case subscribed of
           Inl e \<Rightarrow> (Err e, io)
         | Inr _ \<Rightarrow>
             (let (snapshot, io) = ask CallSnapshotPids (env_snapshot_pids env) io
              in case snapshot of
                   Inl e \<Rightarrow> (Err e, io)
                 | Inr ps \<Rightarrow> (let (known, io) = merge_snapshot env ps known io in (Ok known, io))))"

section \<open>Health reports of the driver\<close>

definition report_runtime_health ::
  "'w health_reporter \<Rightarrow> health_state \<Rightarrow> readiness_report \<Rightarrow> structured_service_error option \<Rightarrow> 'w driver \<Rightarrow>
     (structured_service_error + unit) \<times> 'w driver" where
  "report_runtime_health reporter state r error d =
     (let (result, d) = on_io (reporter state r (injection_telemetry (orch d)) error) d
      in case result of
           Inr _ \<Rightarrow> (Ok (), d\<lparr>health_failures := 0\<rparr>)
         | Inl e \<Rightarrow>
             (let d = d\<lparr>health_failures := health_failures d + 1\<rparr>
              in (if health_failures d > MAX_TOLERATED_CONSECUTIVE_HEALTH_REPORT_FAILURES then Err e else Ok (), d)))"

definition observer_failed :: readiness_report where
  "observer_failed = ready_readiness\<lparr>rr_observer := CrFailed\<rparr>"

section \<open>Recovering the observer\<close>

text \<open>The attempts still to make are counted down.\<close>

fun recover_attempts ::
  "('w, 'x) driver_env_scheme \<Rightarrow> 'w health_reporter \<Rightarrow> duration \<Rightarrow> nat \<Rightarrow> structured_service_error \<Rightarrow> duration \<Rightarrow>
     'w driver \<Rightarrow> (structured_service_error + observer_recovery) \<times> 'w driver" where
  "recover_attempts env reporter maximal 0 latest delay d =
     (let (reported, d) = report_runtime_health reporter HsFailed observer_failed (Some latest) d
      in case reported of Inl e \<Rightarrow> (Err e, d) | Inr _ \<Rightarrow> (Err latest, d))"
| "recover_attempts env reporter maximal (Suc n) latest delay d =
     (let (waited, d) = on_io (ask (CallWaitTimeout delay) (stop_retry_wait env delay)) d
      in if \<not> waited then (Ok RecoveryStopped, d)
         else (let (stop, d) = on_io (ask CallStopRequested (env_stop_requested env)) d
               in if stop then (Ok RecoveryStopped, d)
                  else (let (result, d) = on_io (resubscribe env (backlog d)) d
                        in case result of
                             Inr known \<Rightarrow>
                               (let d = d\<lparr>backlog := known\<rparr>;
                                    (reported, d) = report_runtime_health reporter HsReady ready_readiness None d
                                in case reported of Inl e \<Rightarrow> (Err e, d) | Inr _ \<Rightarrow> (Ok Resubscribed, d))
                           | Inl e \<Rightarrow>
                               recover_attempts env reporter maximal n e
                                 (min (saturating_mul delay 2) maximal) d)))"

definition recover_observer ::
  "('w, 'x) driver_env_scheme \<Rightarrow> observer_recovery_policy \<Rightarrow> 'w health_reporter \<Rightarrow> structured_service_error \<Rightarrow>
     'w driver \<Rightarrow> (structured_service_error + observer_recovery) \<times> 'w driver" where
  "recover_observer env recovery reporter error d =
     (let (reported, d) = report_runtime_health reporter HsDegraded observer_failed (Some error) d
      in case reported of
           Inl e \<Rightarrow> (Err e, d)
         | Inr _ \<Rightarrow> recover_attempts env reporter (or_max_delay recovery) (unat (or_max_attempts recovery))
                     error (or_initial_delay recovery) d)"

section \<open>The loop\<close>

text \<open>\<open>while let Some(change) = stop.take_session_change()\<close>, at most \<open>n\<close> changes.\<close>

fun drain_session_changes :: "('w, 'x) driver_env_scheme \<Rightarrow> nat \<Rightarrow> 'w driver \<Rightarrow> 'w driver option" where
  "drain_session_changes env 0 d = None"
| "drain_session_changes env (Suc n) d =
     (let (change, d) = on_io (ask CallTakeSessionChange (env_take_session_change env)) d
      in case change of
           None \<Rightarrow> Some d
         | Some c \<Rightarrow> drain_session_changes env n (d\<lparr>orch := handle_session_change c (orch d)\<rparr>))"

text \<open>What the loop does with the outcome of a poll or of an observed PID.\<close>

definition continue_unless :: "(structured_service_error + unit) \<times> 'w driver \<Rightarrow> turn \<times> 'w driver" where
  "continue_unless r = (case r of (Inl e, d) \<Rightarrow> (Finished (Err e), d) | (Inr _, d) \<Rightarrow> (Continue, d))"

definition handle_outcome ::
  "'w health_reporter \<Rightarrow> (structured_service_error + process_outcome) \<Rightarrow> 'w driver \<Rightarrow> turn \<times> 'w driver" where
  "handle_outcome reporter outcome d =
     (case outcome of
        Inl e \<Rightarrow> continue_unless (report_runtime_health reporter HsDegraded ready_readiness (Some e) d)
      | Inr PoInjected \<Rightarrow> continue_unless (report_runtime_health reporter HsReady ready_readiness None d)
      | Inr PoCancelled \<Rightarrow> (Finished (Ok ()), d)
      | Inr o' \<Rightarrow>
          if o' \<in> {PoRejected, PoRetryExhausted}
          then (case generation_health_error (orch d) of
                  None \<Rightarrow> (Continue, d)
                | Some e \<Rightarrow> continue_unless
                    (report_runtime_health reporter HsDegraded ready_readiness (Some e) d))
          else (Continue, d))"

definition on_orch ::
  "('w orchestrator \<Rightarrow> ('a \<times> 'w orchestrator) option) \<Rightarrow> 'w driver \<Rightarrow> ('a \<times> 'w driver) option" where
  "on_orch f d = map_option (\<lambda>(a, s). (a, d\<lparr>orch := s\<rparr>)) (f (orch d))"

text \<open>One observed PID, with the age of a process the live source announced.\<close>

definition handle_observed ::
  "('w, 'x) driver_env_scheme \<Rightarrow> 'w health_reporter \<Rightarrow> u32 \<Rightarrow> bool \<Rightarrow> 'w driver \<Rightarrow> (turn \<times> 'w driver) option" where
  "handle_observed env reporter p announced d =
     (let (started, d) = clock (env_now env) d;
          (began, d) = (if announced then clock (current_filetime env) d else (None, d));
          (now, d) = clock (env_now env) d
      in do {
           (outcome, d) \<leftarrow> on_orch (handle_pid_at (scheduled env) p now) d;
           let age = Option.bind began (\<lambda>b. Option.bind (last_handled_creation_time (orch d)) (filetime_age_millis b));
           let (finished, d) = clock (env_now env) d;
           let sample = EvInjectionPipelineSample (elapsed_millis started finished) (length (backlog d)) age;
           Some (handle_outcome reporter outcome (d\<lparr>orch := record_event sample (orch d)\<rparr>))
         })"

definition observe ::
  "('w, 'x) driver_env_scheme \<Rightarrow> observer_recovery_policy \<Rightarrow> 'w health_reporter \<Rightarrow> 'w driver \<Rightarrow>
     (turn \<times> 'w driver) option" where
  "observe env recovery reporter d =
     (let event_wait = (if backlog d = [] then from_millis 250 else 0);
          (next, d) = on_io (ask (CallNextPid event_wait) (env_next_pid env event_wait)) d
      in case next of
           Inr (Some p) \<Rightarrow> handle_observed env reporter p True d
         | Inr None \<Rightarrow>
             (case backlog d of
                [] \<Rightarrow> Some (Continue, d)
              | p # rest \<Rightarrow> handle_observed env reporter p False (d\<lparr>backlog := rest\<rparr>))
         | Inl e \<Rightarrow>
             (let (result, d) = recover_observer env recovery reporter e d
              in Some (case result of
                         Inr Resubscribed \<Rightarrow> (Continue, d)
                       | Inr RecoveryStopped \<Rightarrow> (Finished (Ok ()), d)
                       | Inl e \<Rightarrow> (Finished (Err e), d))))"

definition driver_turn ::
  "('w, 'x) driver_env_scheme \<Rightarrow> observer_recovery_policy \<Rightarrow> 'w health_reporter \<Rightarrow> nat \<Rightarrow> 'w driver \<Rightarrow>
     (turn \<times> 'w driver) option" where
  "driver_turn env recovery reporter drain_bound d =
     (let (stopped, d) = on_io (ask (CallWaitTimeout 0) (env_wait_timeout env 0)) d
      in case stopped of
           Inl e \<Rightarrow> Some (Finished (Err e), d)
         | Inr True \<Rightarrow> Some (Finished (Ok ()), d)
         | Inr False \<Rightarrow>
             do {
               d \<leftarrow> drain_session_changes env drain_bound d;
               let d = d\<lparr>orch := record_event EvFlushInjectionSummary (orch d)\<rparr>;
               let (now, d) = clock (env_now env) d;
               (polled, d) \<leftarrow> on_orch (poll_deferred (scheduled env) now) d;
               (case polled of
                  Inl e \<Rightarrow> Some (handle_outcome reporter (Err e) d)
                | Inr None \<Rightarrow> observe env recovery reporter d
                | Inr (Some outcome) \<Rightarrow>
                    if outcome = PoDeferred then observe env recovery reporter d
                    else Some (handle_outcome reporter (Ok outcome) d))
             })"

fun driver_loop ::
  "('w, 'x) driver_env_scheme \<Rightarrow> observer_recovery_policy \<Rightarrow> 'w health_reporter \<Rightarrow> nat \<Rightarrow> nat \<Rightarrow> 'w driver \<Rightarrow>
     ((structured_service_error + unit) \<times> 'w driver) option" where
  "driver_loop env recovery reporter drain_bound 0 d = None"
| "driver_loop env recovery reporter drain_bound (Suc turns) d =
     do {
       (t, d) \<leftarrow> driver_turn env recovery reporter drain_bound d;
       (case t of Finished r \<Rightarrow> Some (r, d) | Continue \<Rightarrow> driver_loop env recovery reporter drain_bound turns d)
     }"

section \<open>Running and initializing\<close>

text \<open>\<open>RuntimeDriver::run\<close>: a fresh orchestrator over the caller's world.\<close>

definition run_driver ::
  "('w, 'x) driver_env_scheme \<Rightarrow> observer_recovery_policy \<Rightarrow> u32 \<Rightarrow> string \<Rightarrow> string \<Rightarrow> u32 list \<Rightarrow> nat \<Rightarrow> nat \<Rightarrow>
     'w runtime_driver" where
  "run_driver env recovery service generation digest pids drain_bound turns reporter io =
     map_option (\<lambda>(r, d). (r, orch_io (orch d)))
       (driver_loop env recovery reporter drain_bound turns
         \<lparr>orch = put_io io (with_runtime_context service generation digest default_retry_policy (io_world io)),
          backlog = pids, health_failures = 0\<rparr>)"

definition initialize_process_orchestration ::
  "('w, 'x) driver_env_scheme \<Rightarrow> string option \<Rightarrow> observer_recovery_policy \<Rightarrow> u32 \<Rightarrow> string \<Rightarrow> nat \<Rightarrow> nat \<Rightarrow> 'w io \<Rightarrow>
     (structured_service_error + 'w initialized_runtime) \<times> 'w io" where
  "initialize_process_orchestration env active recovery service generation drain_bound turns io =
     (case active of
        None \<Rightarrow> (Err (service_error ''active-profile-unavailable''
                  ''process orchestration requires an active protected profile''), io)
      | Some digest \<Rightarrow>
          (let (v32, io) = ask (CallVerifyReady X86) (env_verify_ready env X86) io
           in case v32 of Inl e \<Rightarrow> (Err e, io) | Inr _ \<Rightarrow>
          (let (v64, io) = ask (CallVerifyReady X64) (env_verify_ready env X64) io
           in case v64 of Inl e \<Rightarrow> (Err e, io) | Inr _ \<Rightarrow>
          (let (subscribed, io) = ask (CallSubscribe PROCESS_CREATION_QUERY)
                 (env_subscribe env PROCESS_CREATION_QUERY) io
           in case subscribed of Inl e \<Rightarrow> (Err e, io) | Inr _ \<Rightarrow>
          (let (snapshot, io) = ask CallSnapshotPids (env_snapshot_pids env) io
           in case snapshot of Inl e \<Rightarrow> (Err e, io) | Inr ps \<Rightarrow>
          (let (pids, io) = relay_roots_first env ps io
           in (Ok (driven_runtime active ready_readiness
                     (run_driver env recovery service generation digest pids drain_bound turns)), io)))))))"

end
