(* ===== verification/Driver_Properties.thy ===== *)
theory Driver_Properties
  imports Orchestration_Driver "HOL-Library.Multiset"
begin

text \<open>
  What the driver does along any run: it keeps the orchestrator well formed, calls only what the
  trace predicate allows, satisfies the driver contract of the lifecycle, stops at once, recovers
  within its attempts and tolerates exactly twenty health failures in a row.
\<close>

section \<open>Trace predicates\<close>

text \<open>
  A predicate the driver's own calls satisfy: anything but a lifecycle call or an injection, and
  injections of an admissible target for the running generation.
\<close>

definition covers :: "(host_call \<Rightarrow> bool) \<Rightarrow> 'w orchestrator \<Rightarrow> bool" where
  "covers P s \<longleftrightarrow> (\<forall>c. \<not> lifecycle_call c \<longrightarrow> \<not> is_inject c \<longrightarrow> P c)
     \<and> (\<forall>i. admissible_target (service_pid s) i \<longrightarrow> P (CallInject (request_for i s)))"

definition moves :: "(host_call \<Rightarrow> bool) \<Rightarrow> 'w orchestrator \<Rightarrow> 'w orchestrator \<Rightarrow> bool" where
  "moves P s s' \<longleftrightarrow> wf_orchestrator s' \<and> same_config s s' \<and> grows P (orch_io s) (orch_io s')"

lemma covers_cong: "same_config s s' \<Longrightarrow> covers P s' = covers P s"
  by (simp add: covers_def same_config_def request_for_def)

lemma moves_trans: "moves P a b \<Longrightarrow> moves P b c \<Longrightarrow> moves P a c"
  by (auto simp: moves_def same_config_def intro: grows_trans)

lemma moves_refl: "wf_orchestrator s \<Longrightarrow> moves P s s"
  by (simp add: moves_def)

lemma calls_grows:
  assumes "calls (replicate n (CallInject (request_for i s))) s1 s'" and "covers P s"
    and "0 < n \<Longrightarrow> admissible_target (service_pid s) i"
  shows "grows P (orch_io s1) (orch_io s')"
proof -
  from assms(1) obtain t where t: "trace s' = trace s1 @ t"
    "filter is_inject t = replicate n (CallInject (request_for i s))" "list_all (\<lambda>c. \<not> lifecycle_call c) t"
    by (auto simp: calls_def)
  have "P c" if "c \<in> set t" for c
  proof (cases "is_inject c")
    case True
    with that have "c \<in> set (replicate n (CallInject (request_for i s)))" by (simp flip: t(2))
    with assms(2,3) show ?thesis by (auto simp: covers_def)
  next
    case False
    with that t(3) assms(2) show ?thesis by (auto simp: covers_def list_all_iff)
  qed
  with t(1) show ?thesis by (auto simp: grows_def orch_io_def list_all_iff)
qed

lemma quiet_grows: "quiet s s' \<Longrightarrow> covers P s \<Longrightarrow> grows P (orch_io s) (orch_io s')"
  using calls_grows [where n = 0] by fastforce

lemma untouched_moves: "wf_orchestrator s' \<Longrightarrow> untouched s s' \<Longrightarrow> covers P s \<Longrightarrow> moves P s s'"
  by (auto simp: moves_def untouched_def calls_def intro: quiet_grows [unfolded calls_def])

lemma tried_moves:
  assumes "wf_orchestrator s'" "tried env w i outcome s s'" "covers P s"
  shows "moves P s s'"
  using assms calls_grows [where s = s and ?s1.0 = s and P = P and i = i and s' = s']
  by (auto simp: moves_def tried_def calls_def dest: cleared_admissible)

lemma handle_pid_at_moves:
  assumes "wf_orchestrator s" "covers P s" "handle_pid_at env p now s = Some (r, s')"
  shows "moves P s s'"
proof -
  have "pid_post env p s r s'" using handle_pid_at_post [OF assms(1), of env p now] assms(3) by simp
  then show ?thesis using assms(2) untouched_moves tried_moves
    by (fastforce simp: pid_post_def split: sum.splits if_splits)
qed

lemma poll_deferred_moves:
  assumes "wf_orchestrator s" "covers P s" "poll_deferred env now s = Some (r, s')"
  shows "moves P s s'"
proof -
  have post: "poll_post env now s r s'" using poll_deferred_post [OF assms(1), of env now] assms(3) by simp
  then have wf': "wf_orchestrator s'" by (simp add: poll_post_def)
  show ?thesis
  proof (cases "due_key now s")
    case None
    with post assms(1) show ?thesis by (simp add: poll_post_def moves_refl)
  next
    case (Some key)
    let ?s1 = "take_deferred key s"
    have same: "same_config s ?s1" "orch_io ?s1 = orch_io s"
      by (simp_all add: take_deferred_def same_config_def orch_io_def)
    have "moves P ?s1 s'"
      using post Some
    proof (cases rule: poll_post_due)
      case failed
      then show ?thesis using untouched_moves [OF wf'] assms(2) covers_cong [OF same(1)] by blast
    next
      case polled
      then show ?thesis using tried_moves [OF wf'] assms(2) covers_cong [OF same(1)] by blast
    qed
    with same show ?thesis by (auto simp: moves_def same_config_def)
  qed
qed

lemma handle_session_change_moves: "wf_orchestrator s \<Longrightarrow> moves P s (handle_session_change c s)"
  using handle_session_change_post [of s c]
  by (auto simp: session_post_def moves_def grows_def orch_io_def)

lemma record_event_moves: "wf_orchestrator s \<Longrightarrow> covers P s \<Longrightarrow> moves P s (record_event e s)"
  by (auto simp: moves_def record_event_def same_config_def grows_def orch_io_def covers_def intro: wf_frame)

section \<open>The driver's pieces\<close>

lemma on_io_moves:
  assumes "wf_orchestrator (orch d)" "on_io f d = (a, d')"
    and "\<And>io a io'. f io = (a, io') \<Longrightarrow> grows P io io'"
  shows "moves P (orch d) (orch d') \<and> backlog d' = backlog d \<and> health_failures d' = health_failures d"
proof -
  obtain b io where f: "f (orch_io (orch d)) = (b, io)" by force
  have "wf_orchestrator (put_io io (orch d))" using assms(1) by (auto simp: put_io_def intro: wf_frame)
  moreover have "grows P (orch_io (orch d)) (orch_io (put_io io (orch d)))"
    using assms(3) [OF f] by (simp add: grows_def orch_io_def put_io_def)
  ultimately show ?thesis
    using assms(2) f by (auto simp: on_io_def moves_def put_io_def same_config_def)
qed

lemma ask_grows: "ask c f io = (a, io') \<Longrightarrow> P c \<Longrightarrow> grows P io io'"
  by (auto simp: ask_def split: prod.splits)

lemma clock_moves:
  "wf_orchestrator (orch d) \<Longrightarrow> clock f d = (a, d') \<Longrightarrow>
     moves P (orch d) (orch d') \<and> backlog d' = backlog d \<and> health_failures d' = health_failures d"
  by (auto simp: clock_def moves_def same_config_def grows_def orch_io_def intro: wf_frame split: prod.splits)

text \<open>A reporter that calls only what \<open>P\<close> allows.\<close>

definition reports :: "(host_call \<Rightarrow> bool) \<Rightarrow> 'w health_reporter \<Rightarrow> bool" where
  "reports P reporter \<longleftrightarrow>
     (\<forall>st rr tel e a b c. reporter st rr tel e a = (c, b) \<longrightarrow> grows P a b)"

lemma report_runtime_health_moves:
  assumes "wf_orchestrator (orch d)" "reports P reporter"
    and "report_runtime_health reporter st rr e d = (r, d')"
  shows "moves P (orch d) (orch d') \<and> backlog d' = backlog d"
proof -
  obtain x d1 where o: "on_io (reporter st rr (injection_telemetry (orch d)) e) d = (x, d1)" by force
  have "moves P (orch d) (orch d1) \<and> backlog d1 = backlog d"
    using on_io_moves [OF assms(1) o] assms(2) unfolding reports_def by blast
  then show ?thesis using assms(3) o
    by (auto simp: report_runtime_health_def Let_def split: sum.splits)
qed

lemma names_relay_root_grows:
  "names_relay_root env p io = (b, io') \<Longrightarrow> P (CallImageName p) \<Longrightarrow> grows P io io'"
  by (auto simp: names_relay_root_def intro: ask_grows split: prod.splits)

lemma partition_roots_grows:
  "partition_roots env ps io = (r, io') \<Longrightarrow> (\<And>p. P (CallImageName p)) \<Longrightarrow> grows P io io'"
proof (induction ps arbitrary: io r io')
  case (Cons p ps)
  then show ?case
    by (auto split: prod.splits) (meson grows_trans names_relay_root_grows)+
qed simp

lemma merge_snapshot_grows:
  "merge_snapshot env ps known io = (r, io') \<Longrightarrow> (\<And>p. P (CallImageName p)) \<Longrightarrow> grows P io io'"
proof (induction ps arbitrary: known io)
  case (Cons p ps)
  then show ?case
    by (auto split: prod.splits if_splits) (meson grows_trans names_relay_root_grows)+
qed simp

lemma resubscribe_grows:
  assumes "resubscribe env known io = (r, io')" "\<And>p. P (CallImageName p)"
    "P (CallSubscribe PROCESS_CREATION_QUERY)" "P CallSnapshotPids"
  shows "grows P io io'"
proof -
  obtain a io1 where a: "ask (CallSubscribe PROCESS_CREATION_QUERY)
      (env_subscribe env PROCESS_CREATION_QUERY) io = (a, io1)" by force
  obtain b io2 where b: "ask CallSnapshotPids (env_snapshot_pids env) io1 = (b, io2)" by force
  have g: "grows P io io1" "grows P io1 io2"
    using ask_grows [OF a] ask_grows [OF b] assms(3,4) by blast+
  then have g2: "grows P io io2" by (rule grows_trans)
  show ?thesis
  proof (cases a)
    case (Inl e)
    then show ?thesis using assms(1) a g by (simp add: resubscribe_def)
  next
    case ok: (Inr u)
    show ?thesis
    proof (cases b)
      case (Inl e)
      then show ?thesis using assms(1) a b ok g2 by (simp add: resubscribe_def)
    next
      case (Inr ps)
      obtain k io3 where m: "merge_snapshot env ps known io2 = (k, io3)" by force
      have "grows P io2 io3" using merge_snapshot_grows [OF m] assms(2) by blast
      then show ?thesis using assms(1) a b ok Inr m g2 by (auto simp: resubscribe_def intro: grows_trans)
    qed
  qed
qed

lemma moves_covers: "moves P s s' \<Longrightarrow> covers P s \<Longrightarrow> covers P s'"
  by (metis covers_cong moves_def)

lemma moves_wf: "moves P s s' \<Longrightarrow> wf_orchestrator s'"
  by (simp add: moves_def)

lemma on_io_ask_moves:
  assumes "wf_orchestrator (orch d)" "on_io (ask c f) d = (a, d')" "P c"
  shows "moves P (orch d) (orch d') \<and> backlog d' = backlog d \<and> health_failures d' = health_failures d"
  by (rule on_io_moves [OF assms(1,2)]) (rule ask_grows, assumption, rule assms(3))

lemma recover_attempts_moves:
  assumes "wf_orchestrator (orch d)" "reports P reporter" "covers P (orch d)"
    and "recover_attempts env reporter maximal n latest delay d = (r, d')"
  shows "moves P (orch d) (orch d')"
  using assms
proof (induction n arbitrary: latest delay d)
  case 0
  obtain a d1 where a: "report_runtime_health reporter HsFailed observer_failed (Some latest) d = (a, d1)"
    by force
  have "d' = d1" using 0(4) a by (cases a) auto
  then show ?case using report_runtime_health_moves [OF 0(1,2) a] by simp
next
  case (Suc n)
  have P: "P c" if "\<not> lifecycle_call c" "\<not> is_inject c" for c
    using Suc.prems(3) that by (simp add: covers_def)
  obtain w d1 where w: "on_io (ask (CallWaitTimeout delay) (stop_retry_wait env delay)) d = (w, d1)" by force
  have m1: "moves P (orch d) (orch d1)"
    using on_io_ask_moves [OF Suc.prems(1) w] P by simp
  obtain q d2 where q: "on_io (ask CallStopRequested (env_stop_requested env)) d1 = (q, d2)" by force
  have m2: "moves P (orch d1) (orch d2)"
    using on_io_ask_moves [OF moves_wf [OF m1] q] P by simp
  obtain x d3 where x: "on_io (resubscribe env (backlog d2)) d2 = (x, d3)" by force
  have m3: "moves P (orch d2) (orch d3)"
  proof -
    have "grows P io io'" if "resubscribe env (backlog d2) io = (a, io')" for io a io'
      by (rule resubscribe_grows [OF that]) (rule P; simp)+
    then show ?thesis using on_io_moves [OF moves_wf [OF m2] x] by blast
  qed
  note m13 = moves_trans [OF moves_trans [OF m1 m2] m3]
  consider "\<not> w" | "w" "q" | e where "w" "\<not> q" "x = Inl e" | known where "w" "\<not> q" "x = Inr known"
    by (cases x) auto
  then show ?case
  proof cases
    case 1
    then show ?thesis using Suc.prems(4) w m1 by simp
  next
    case 2
    then show ?thesis using Suc.prems(4) w q moves_trans [OF m1 m2] by simp
  next
    case (3 e)
    have "moves P (orch d3) (orch d')"
      using Suc.IH [OF moves_wf [OF m13] Suc.prems(2) moves_covers [OF m13 Suc.prems(3)]]
        Suc.prems(4) w q x 3 by simp
    with m13 show ?thesis by (rule moves_trans)
  next
    case (4 known)
    let ?d = "d3\<lparr>backlog := known\<rparr>"
    obtain a d4 where a: "report_runtime_health reporter HsReady ready_readiness None ?d = (a, d4)" by force
    have "d' = d4" using Suc.prems(4) w q x 4 a by (cases a) (auto simp: Let_def)
    moreover have "moves P (orch ?d) (orch d4)"
      using report_runtime_health_moves [OF _ Suc.prems(2) a] moves_wf [OF m13] by simp
    ultimately show ?thesis using moves_trans [OF m13] by simp
  qed
qed

lemma recover_observer_moves:
  assumes "wf_orchestrator (orch d)" "reports P reporter" "covers P (orch d)"
    and "recover_observer env recovery reporter e d = (r, d')"
  shows "moves P (orch d) (orch d')"
proof -
  obtain a d1 where a: "report_runtime_health reporter HsDegraded observer_failed (Some e) d = (a, d1)" by force
  have m: "moves P (orch d) (orch d1)" using report_runtime_health_moves [OF assms(1,2) a] by simp
  show ?thesis
  proof (cases a)
    case (Inl x)
    then show ?thesis using assms(4) a m by (simp add: recover_observer_def)
  next
    case (Inr u)
    then have "moves P (orch d1) (orch d')"
      using recover_attempts_moves [OF moves_wf [OF m] assms(2) moves_covers [OF m assms(3)]] assms(4) a
      by (simp add: recover_observer_def)
    with m show ?thesis by (rule moves_trans)
  qed
qed

lemma drain_moves:
  assumes "wf_orchestrator (orch d)" "covers P (orch d)" "drain_session_changes env n d = Some d'"
  shows "moves P (orch d) (orch d') \<and> backlog d' = backlog d \<and> health_failures d' = health_failures d"
  using assms
proof (induction n arbitrary: d)
  case 0
  then show ?case by simp
next
  case (Suc n)
  obtain a d1 where a: "on_io (ask CallTakeSessionChange (env_take_session_change env)) d = (a, d1)" by force
  have m: "moves P (orch d) (orch d1) \<and> backlog d1 = backlog d \<and> health_failures d1 = health_failures d"
    using on_io_ask_moves [OF Suc.prems(1) a] Suc.prems(2) by (simp add: covers_def)
  show ?case
  proof (cases a)
    case None
    then show ?thesis using Suc.prems(3) a m by simp
  next
    case (Some c)
    let ?d = "d1\<lparr>orch := handle_session_change c (orch d1)\<rparr>"
    have m2: "moves P (orch d) (orch ?d)"
      using m handle_session_change_moves [of "orch d1" P c] by (auto intro: moves_trans dest: moves_wf)
    have "moves P (orch ?d) (orch d') \<and> backlog d' = backlog ?d \<and> health_failures d' = health_failures ?d"
      by (rule Suc.IH [OF moves_wf [OF m2] moves_covers [OF m2 Suc.prems(2)]])
        (use Suc.prems(3) a Some in simp)
    with m m2 show ?thesis by (auto intro: moves_trans)
  qed
qed

lemma continue_unless_orch: "continue_unless (r, d) = (t, d') \<Longrightarrow> d' = d"
  by (auto simp: continue_unless_def split: sum.splits)

lemma report_continue_moves:
  assumes "wf_orchestrator (orch d)" "reports P reporter"
    and "continue_unless (report_runtime_health reporter st rr e d) = (t, d')"
  shows "moves P (orch d) (orch d')"
proof -
  obtain r d1 where r: "report_runtime_health reporter st rr e d = (r, d1)" by force
  with assms(3) have "d' = d1" by (auto dest: continue_unless_orch)
  then show ?thesis using report_runtime_health_moves [OF assms(1,2) r] by simp
qed

lemma handle_outcome_cases:
  assumes "handle_outcome reporter outcome d = (t, d')"
  shows "d' = d \<or> (\<exists>st rr e. continue_unless (report_runtime_health reporter st rr e d) = (t, d'))"
proof (cases outcome)
  case (Inl e)
  with assms show ?thesis by (auto simp: handle_outcome_def)
next
  case (Inr o')
  with assms show ?thesis
    by (cases o'; cases "generation_health_error (orch d)") (auto simp: handle_outcome_def)
qed

lemma handle_outcome_moves:
  assumes "wf_orchestrator (orch d)" "reports P reporter" "handle_outcome reporter outcome d = (t, d')"
  shows "moves P (orch d) (orch d')"
  using handle_outcome_cases [OF assms(3)] report_continue_moves [OF assms(1,2)] moves_refl [OF assms(1)]
  by blast

lemma record_event_driver:
  "wf_orchestrator (orch d) \<Longrightarrow> covers P (orch d) \<Longrightarrow> moves P (orch d) (orch (d\<lparr>orch := record_event e (orch d)\<rparr>))"
  using record_event_moves by simp

text \<open>One observed PID always answers, and moves.\<close>

lemma handle_observed_moves:
  assumes wf: "wf_orchestrator (orch d)" and P: "reports P reporter" "covers P (orch d)"
  shows "\<exists>t d'. handle_observed env reporter p announced d = Some (t, d') \<and> moves P (orch d) (orch d')"
proof -
  obtain started d1 where c1: "clock (env_now env) d = (started, d1)" by force
  have m1: "moves P (orch d) (orch d1)" using clock_moves [OF wf c1] by simp
  obtain began d2 where c2: "(if announced then clock (current_filetime env) d1 else (None, d1)) = (began, d2)"
    by force
  have m2: "moves P (orch d1) (orch d2)"
    using clock_moves [OF moves_wf [OF m1], of "current_filetime env"] moves_refl [OF moves_wf [OF m1]] c2
    by (auto split: if_splits)
  obtain now d3 where c3: "clock (env_now env) d2 = (now, d3)" by force
  have m3: "moves P (orch d2) (orch d3)" using clock_moves [OF moves_wf [OF m2] c3] by simp
  note m13 = moves_trans [OF moves_trans [OF m1 m2] m3]
  obtain r s where h: "handle_pid_at (scheduled env) p now (orch d3) = Some (r, s)"
    using handle_pid_at_post [OF moves_wf [OF m13]] by blast
  let ?d4 = "d3\<lparr>orch := s\<rparr>"
  have m4: "moves P (orch d3) (orch ?d4)"
    using handle_pid_at_moves [OF moves_wf [OF m13] moves_covers [OF m13 P(2)] h] by simp
  obtain finished d5 where c5: "clock (env_now env) ?d4 = (finished, d5)" by force
  have m5: "moves P (orch ?d4) (orch d5)" using clock_moves [OF moves_wf [OF m4] c5] by simp
  note m15 = moves_trans [OF m13 moves_trans [OF m4 m5]]
  let ?age = "Option.bind began (\<lambda>b. Option.bind (last_handled_creation_time s) (filetime_age_millis b))"
  let ?d6 = "d5\<lparr>orch := record_event (EvInjectionPipelineSample (elapsed_millis started finished)
      (length (backlog d5)) ?age) (orch d5)\<rparr>"
  have m6: "moves P (orch d) (orch ?d6)"
    by (rule moves_trans [OF m15 record_event_driver [OF moves_wf [OF m15] moves_covers [OF m15 P(2)]]])
  obtain t d7 where o: "handle_outcome reporter r ?d6 = (t, d7)" by force
  have m7: "moves P (orch d) (orch d7)"
    by (rule moves_trans [OF m6 handle_outcome_moves [OF moves_wf [OF m6] P(1) o]])
  have "handle_observed env reporter p announced d = Some (t, d7)"
    using c1 c2 c3 h c5 o by (simp add: handle_observed_def on_orch_def Let_def)
  with m7 show ?thesis by blast
qed

lemma observe_moves:
  assumes wf: "wf_orchestrator (orch d)" and P: "reports P reporter" "covers P (orch d)"
  shows "\<exists>t d'. observe env recovery reporter d = Some (t, d') \<and> moves P (orch d) (orch d')"
proof -
  let ?wait = "if backlog d = [] then from_millis 250 else 0"
  obtain x d1 where x: "on_io (ask (CallNextPid ?wait) (env_next_pid env ?wait)) d = (x, d1)" by force
  have m: "moves P (orch d) (orch d1)" using on_io_ask_moves [OF wf x] P(2) by (simp add: covers_def)
  note wf1 = moves_wf [OF m] and cov1 = moves_covers [OF m P(2)]
  note after = moves_trans [OF m]
  consider e where "x = Inl e" | p where "x = Inr (Some p)" | "x = Inr None" "backlog d1 = []"
    | p rest where "x = Inr None" "backlog d1 = p # rest"
    by (metis list.exhaust option.exhaust sum.exhaust)
  then show ?thesis
  proof cases
    case (1 e)
    obtain r d2 where r: "recover_observer env recovery reporter e d1 = (r, d2)" by force
    have "moves P (orch d) (orch d2)" by (rule after [OF recover_observer_moves [OF wf1 P(1) cov1 r]])
    then show ?thesis using 1 x r by (simp add: observe_def Let_def split: sum.split observer_recovery.split)
  next
    case (2 p)
    obtain t d2 where h: "handle_observed env reporter p True d1 = Some (t, d2)" "moves P (orch d1) (orch d2)"
      using handle_observed_moves [OF wf1 P(1) cov1] by blast
    then show ?thesis using 2 x after [OF h(2)] by (simp add: observe_def Let_def)
  next
    case 3
    then show ?thesis using x m by (simp add: observe_def Let_def)
  next
    case (4 p rest)
    obtain t d2 where h: "handle_observed env reporter p False (d1\<lparr>backlog := rest\<rparr>) = Some (t, d2)"
      "moves P (orch (d1\<lparr>backlog := rest\<rparr>)) (orch d2)"
      using handle_observed_moves [of "d1\<lparr>backlog := rest\<rparr>" P reporter env p False] wf1 P(1) cov1 by auto
    then show ?thesis using 4 x after [of "orch d2"] by (simp add: observe_def Let_def)
  qed
qed

lemma driver_turn_moves:
  assumes wf: "wf_orchestrator (orch d)" and P: "reports P reporter" "covers P (orch d)"
    and run: "driver_turn env recovery reporter bound d = Some (t, d')"
  shows "moves P (orch d) (orch d')"
proof -
  obtain x d1 where x: "on_io (ask (CallWaitTimeout 0) (env_wait_timeout env 0)) d = (x, d1)" by force
  have m1: "moves P (orch d) (orch d1)" using on_io_ask_moves [OF wf x] P(2) by (simp add: covers_def)
  show ?thesis
  proof (cases "x = Inr False")
    case False
    then have "d' = d1" using run x by (auto simp: driver_turn_def split: sum.splits bool.splits)
    with m1 show ?thesis by simp
  next
    case True
    then obtain d2 where dr: "drain_session_changes env bound d1 = Some d2"
      using run x by (auto simp: driver_turn_def bind_eq_Some_conv)
    have m2: "moves P (orch d) (orch d2)"
      using drain_moves [OF moves_wf [OF m1] moves_covers [OF m1 P(2)] dr] m1 by (blast intro: moves_trans)
    let ?d3 = "d2\<lparr>orch := record_event EvFlushInjectionSummary (orch d2)\<rparr>"
    have m3: "moves P (orch d) (orch ?d3)"
      by (rule moves_trans [OF m2 record_event_driver [OF moves_wf [OF m2] moves_covers [OF m2 P(2)]]])
    obtain now d4 where c: "clock (env_now env) ?d3 = (now, d4)" by force
    have m4: "moves P (orch d) (orch d4)"
      using moves_trans [OF m3] clock_moves [OF moves_wf [OF m3] c] by blast
    obtain a s where p: "poll_deferred (scheduled env) now (orch d4) = Some (a, s)"
      using poll_deferred_post [OF moves_wf [OF m4]] by blast
    let ?d5 = "d4\<lparr>orch := s\<rparr>"
    have m5: "moves P (orch d) (orch ?d5)"
      using moves_trans [OF m4 poll_deferred_moves [OF moves_wf [OF m4] moves_covers [OF m4 P(2)] p]] by simp
    have rest: "(case a of
                  Inl e \<Rightarrow> Some (handle_outcome reporter (Err e) ?d5)
                | Inr None \<Rightarrow> observe env recovery reporter ?d5
                | Inr (Some outcome) \<Rightarrow>
                    if outcome = PoDeferred then observe env recovery reporter ?d5
                    else Some (handle_outcome reporter (Ok outcome) ?d5)) = Some (t, d')"
      using run x True dr c p by (simp add: driver_turn_def on_orch_def Let_def)
    have "moves P (orch ?d5) (orch d')"
      using rest observe_moves [OF moves_wf [OF m5] P(1) moves_covers [OF m5 P(2)], of env recovery]
        handle_outcome_moves [OF moves_wf [OF m5] P(1)]
      by (auto split: sum.splits option.splits if_splits)
    with m5 show ?thesis by (rule moves_trans)
  qed
qed

lemma driver_loop_moves:
  assumes "wf_orchestrator (orch d)" "reports P reporter" "covers P (orch d)"
    and "driver_loop env recovery reporter bound turns d = Some (r, d')"
  shows "moves P (orch d) (orch d')"
  using assms
proof (induction turns arbitrary: d)
  case 0
  then show ?case by simp
next
  case (Suc turns)
  then obtain t d1 where t: "driver_turn env recovery reporter bound d = Some (t, d1)"
    by (auto simp: bind_eq_Some_conv)
  have m: "moves P (orch d) (orch d1)" using driver_turn_moves [OF Suc.prems(1-3) t] .
  show ?case
  proof (cases t)
    case (Finished x)
    then show ?thesis using Suc.prems(4) t m by simp
  next
    case Continue
    have "moves P (orch d1) (orch d')"
      by (rule Suc.IH [OF moves_wf [OF m] Suc.prems(2) moves_covers [OF m Suc.prems(3)]])
        (use Suc.prems(4) t Continue in simp)
    with m show ?thesis by (rule moves_trans)
  qed
qed

definition initial_driver :: "u32 \<Rightarrow> string \<Rightarrow> string \<Rightarrow> u32 list \<Rightarrow> 'w io \<Rightarrow> 'w driver" where
  "initial_driver service generation digest pids io =
     \<lparr>orch = put_io io (with_runtime_context service generation digest default_retry_policy (io_world io)),
      backlog = pids, health_failures = 0\<rparr>"

lemma initial_driver_facts:
  "wf_orchestrator (orch (initial_driver service generation digest pids io))"
  "orch_io (orch (initial_driver service generation digest pids io)) = io"
  "service_pid (orch (initial_driver service generation digest pids io)) = service"
  "generation_id (orch (initial_driver service generation digest pids io)) = generation"
  using wf_runtime_context [of service generation digest default_retry_policy "io_world io"]
  by (auto simp: initial_driver_def put_io_def orch_io_def with_runtime_context_def
      with_retry_policy_def build_orchestrator_def intro: wf_frame)

lemma run_driver_moves:
  assumes "run_driver env recovery service generation digest pids bound turns reporter io = Some (r, io')"
    and "reports P reporter" and "covers P (orch (initial_driver service generation digest pids io))"
  shows "grows P io io'"
proof -
  from assms(1) obtain d' where d: "driver_loop env recovery reporter bound turns
      (initial_driver service generation digest pids io) = Some (r, d')" "io' = orch_io (orch d')"
    by (auto simp: run_driver_def initial_driver_def)
  with driver_loop_moves [OF initial_driver_facts(1) assms(2,3) d(1)] show ?thesis
    by (auto simp: moves_def initial_driver_facts)
qed

text \<open>The driver keeps the contract of the lifecycle.\<close>

interpretation process_driver:
  service_driver "run_driver env recovery service generation digest pids bound turns"
  for env :: "('w, 'x) driver_env_scheme" and recovery service generation digest pids bound turns
proof (unfold_locales, goal_cases)
  case (1 reporter io r io' P)
  have "reports P reporter" unfolding reports_def using 1(2) by blast
  moreover have "covers P (orch (initial_driver service generation digest pids io))"
    unfolding covers_def using 1(3) by simp
  ultimately show ?case using run_driver_moves 1(1) by blast
qed

section \<open>The service around the process driver\<close>

definition orchestrated_service ::
  "('w, 'y) service_env_scheme \<Rightarrow> ('w, 'x) driver_env_scheme \<Rightarrow> string option \<Rightarrow> observer_recovery_policy \<Rightarrow>
     u32 \<Rightarrow> string \<Rightarrow> nat \<Rightarrow> nat \<Rightarrow> ('w, 'y) service_env_scheme" where
  "orchestrated_service senv env active recovery service generation bound turns =
     senv\<lparr>env_initialize := \<lambda>w.
       (let (r, io) = initialize_process_orchestration env active recovery service generation bound turns
              \<lparr>io_world = w, io_trace = []\<rparr>
        in (r, io_world io))\<rparr>"

lemma initialized_driver:
  assumes "initialize_process_orchestration env active recovery service generation bound turns io = (Inr x, io')"
  shows "\<exists>digest pids. active = Some digest
     \<and> x = driven_runtime active ready_readiness
          (run_driver env recovery service generation digest pids bound turns)"
  using assms
  by (auto simp: initialize_process_orchestration_def Let_def
      split: option.splits sum.splits prod.splits)

lemma orchestrated_contract:
  "initializer_contract (orchestrated_service senv env active recovery service generation bound turns)"
  unfolding initializer_contract_def
proof (intro allI impI)
  fix w x w'
  assume "env_initialize (orchestrated_service senv env active recovery service generation bound turns) w
      = (Inr x, w')"
  then obtain io' where "initialize_process_orchestration env active recovery service generation bound turns
      \<lparr>io_world = w, io_trace = []\<rparr> = (Inr x, io')"
    by (auto simp: orchestrated_service_def split: prod.splits)
  from initialized_driver [OF this] show "contracted x"
    using process_driver.service_driver_axioms by (auto simp: contracted_def driven_runtime_def)
qed

text \<open>A driver world that stops at the first look, and the service around it.\<close>

definition stopping_env :: "unit driver_env" where
  "stopping_env = host_env.extend (sample_env LcRunning (sample_answer BdInjected ''ok''))
     \<lparr>env_verify_ready = \<lambda>a w. (Ok (), w), env_subscribe = \<lambda>q w. (Ok (), w),
      env_snapshot_pids = \<lambda>w. (Ok [9], w), env_next_pid = \<lambda>d w. (Ok None, w),
      env_image_name = \<lambda>p w. (None, w), env_wait_timeout = \<lambda>d w. (Ok True, w),
      env_stop_requested = \<lambda>w. (True, w), env_take_session_change = \<lambda>w. (None, w),
      env_now = \<lambda>w. (0, w), env_since_unix_epoch = \<lambda>w. (None, w)\<rparr>"

definition sample_orchestrated :: "unit service_env" where
  "sample_orchestrated = orchestrated_service (sample_service (Inr sample_runtime)) stopping_env
     (Some sample_digest) default_observer_recovery 1 ''gen'' 65 5"

lemma sample_run_ok:
  "map_option fst (run_service sample_orchestrated ''1.0'' sample_io) = Some (Ok ())"
  by code_simp

lemma sample_contract: "initializer_contract sample_orchestrated"
  unfolding sample_orchestrated_def by (rule orchestrated_contract)

section \<open>Properties of the service lifecycle\<close>

text \<open>
  C9.  Whatever fails, the service control manager hears a complete and truthful sequence: start
  pending first, running at most once and only after it, and at the end stopped without an error
  exactly when the run succeeded, stopped with the service-specific error after every failure.
\<close>

theorem service_control_manager_hears_the_outcome:
  assumes "version \<noteq> []" and "length version \<le> 64"
    and "initializer_contract env" and "run_service env version io = Some (r, io')"
  shows "\<exists>pre ss. statuses io' = statuses io @ start_pending 1 10000 # pre @ ss
     \<and> (pre = [] \<or> pre = [running_status])
     \<and> (if isl r then ss \<in> {[stopped_with_error 1066 1], [stopped_status, stopped_with_error 1066 1]}
        else ss = [stopped_status])"
proof -
  obtain pre ss where "statuses io' = statuses io @ start_pending 1 10000 # pre @ ss"
    "pre = [] \<or> pre = [running_status]" "ending r ss" using run_service_calls [OF assms] by blast
  then show ?thesis
    by (intro exI [of _ pre] exI [of _ ss])
      (auto simp: ending_def ERROR_SERVICE_SPECIFIC_ERROR_def split: sum.splits)
qed

lemma service_control_manager_hears_the_outcome_witness:
  "\<exists>io' pre. run_service sample_orchestrated ''1.0'' sample_io = Some (Ok (), io')
     \<and> statuses io' = start_pending 1 10000 # pre @ [stopped_status]"
proof -
  obtain io' where run: "run_service sample_orchestrated ''1.0'' sample_io = Some (Ok (), io')"
    using sample_run_ok by auto
  have "statuses sample_io = []" by (simp add: statuses_def sample_io_def)
  with service_control_manager_hears_the_outcome [OF _ _ sample_contract run] run show ?thesis
    by fastforce
qed

text \<open>
  C10.  No reader of health is shown a false ready: every report published with state ready passes
  the contract's validation with all four components ready, and every other report passes it too
  unless the error it carries is itself outside the contract's bounds.
\<close>

theorem published_health_is_truthful:
  assumes "version \<noteq> []" and "length version \<le> 64"
    and "initializer_contract env" and "run_service env version io = Some (r, io')"
  shows "\<exists>t. io_trace io' = io_trace io @ t \<and>
     list_all (\<lambda>c. case c of
       CallPublish report _ \<Rightarrow>
         (if health report = HsReady
          then validate_report report = Ok () \<and> readiness report = ready_readiness
          else validate_report report = Ok () \<or> (\<exists>e \<in> set_option (last_error report). \<not> bounded_error e))
     | _ \<Rightarrow> True) t"
proof -
  obtain t where t: "io_trace io' = io_trace io @ t" "list_all (showable version) t"
    using run_service_calls [OF assms] by (auto simp: grows_def)
  have "showable version c \<Longrightarrow> case c of
       CallPublish report _ \<Rightarrow>
         (if health report = HsReady
          then validate_report report = Ok () \<and> readiness report = ready_readiness
          else validate_report report = Ok () \<or> (\<exists>e \<in> set_option (last_error report). \<not> bounded_error e))
     | _ \<Rightarrow> True" for c
    by (cases c) (auto simp: showable_def)
  with t show ?thesis by (auto simp: list_all_iff)
qed

lemma published_health_is_truthful_witness:
  "\<exists>io' t. run_service sample_orchestrated ''1.0'' sample_io = Some (Ok (), io')
     \<and> io_trace io' = io_trace sample_io @ t"
proof -
  obtain io' where run: "run_service sample_orchestrated ''1.0'' sample_io = Some (Ok (), io')"
    using sample_run_ok by auto
  from published_health_is_truthful [OF _ _ sample_contract run] run show ?thesis by auto
qed

section \<open>Properties of the driver\<close>

text \<open>
  C11.  Whatever the machine answers, every injection request the running driver makes carries the
  generation the service was started for and an admissible target: never the service itself, never
  a session 0 or protected process.
\<close>

theorem driver_requests_are_admissible:
  assumes "run_driver env recovery service generation digest pids bound turns
      (runtime_health_report senv version active) io = Some (r, io')"
  shows "\<exists>t. io_trace io' = io_trace io @ t \<and>
     list_all (\<lambda>c. case c of
       CallInject request \<Rightarrow> req_generation_id request = generation
         \<and> admissible_target service (req_identity request)
     | _ \<Rightarrow> True) t"
proof -
  let ?P = "\<lambda>c. case c of CallInject request \<Rightarrow> req_generation_id request = generation
         \<and> admissible_target service (req_identity request) | _ \<Rightarrow> True"
  have "reports ?P (runtime_health_report senv version active)"
    unfolding reports_def
    by (intro allI impI, rule grows_mono [OF runtime_health_report_calls], assumption) auto
  moreover have "covers ?P (orch (initial_driver service generation digest pids io))"
    unfolding covers_def
    by (auto simp: request_for_def initial_driver_facts split: host_call.split)
  ultimately show ?thesis using run_driver_moves [OF assms] by (auto simp: grows_def)
qed

definition one_turn_env :: "nat driver_env" where
  "one_turn_env =
     \<lparr>env_inspect = \<lambda>p w. (Ok \<lparr>ip_identity = sample_identity p,
          ip_facts = \<lparr>critical_or_unknown = False, prohibits_dynamic_code = False,
            restricts_binary_signature = False, image_name = Some ''notepad.exe''\<rparr>\<rparr>, w),
      env_probe_target_lifecycle = \<lambda>i w. (LcRunning, w),
      env_probe_target_liveness = \<lambda>i w. (TlAlive, w),
      env_process_basename = \<lambda>i w. (None, w),
      env_inject = \<lambda>r w. (sample_answer BdInjected ''ok'', w),
      env_retry_wait = \<lambda>d w. (True, w), env_sleep = \<lambda>d w. w,
      env_verify_ready = \<lambda>a w. (Ok (), w), env_subscribe = \<lambda>q w. (Ok (), w),
      env_snapshot_pids = \<lambda>w. (Ok [9], w), env_next_pid = \<lambda>d w. (Ok None, w),
      env_image_name = \<lambda>p w. (None, w), env_wait_timeout = \<lambda>d w. (Ok (0 < w), w + 1),
      env_stop_requested = \<lambda>w. (True, w), env_take_session_change = \<lambda>w. (None, w),
      env_now = \<lambda>w. (0, w), env_since_unix_epoch = \<lambda>w. (None, w)\<rparr>"

definition quiet_service :: "nat service_env" where
  "quiet_service =
     \<lparr>env_status = \<lambda>s w. (Ok (), w), env_publish = \<lambda>r w. (Ok (), w),
      env_initialize = \<lambda>w. (Err (service_error ''x'' ''x''), w), env_wait = \<lambda>w. (Ok (), w),
      env_service_stop_requested = \<lambda>w. (True, w)\<rparr>"

lemma one_turn_run:
  "map_option (\<lambda>(r, io). (r, filter is_inject (io_trace io)))
     (run_driver one_turn_env default_observer_recovery 1 ''gen'' sample_digest [9] 65 5
       (runtime_health_report quiet_service ''1.0'' (Some sample_digest)) \<lparr>io_world = 0, io_trace = []\<rparr>)
   = Some (Ok (), [CallInject \<lparr>req_identity = sample_identity 9, req_generation_id = ''gen''\<rparr>])"
  by code_simp

lemma driver_requests_are_admissible_witness:
  "\<exists>io' t. run_driver one_turn_env default_observer_recovery 1 ''gen'' sample_digest [9] 65 5
       (runtime_health_report quiet_service ''1.0'' (Some sample_digest)) \<lparr>io_world = 0, io_trace = []\<rparr>
       = Some (Ok (), io')
     \<and> io_trace io' = t \<and> filter is_inject t \<noteq> []
     \<and> list_all (\<lambda>c. case c of CallInject request \<Rightarrow> admissible_target 1 (req_identity request) | _ \<Rightarrow> True) t"
proof -
  obtain io' where run: "run_driver one_turn_env default_observer_recovery 1 ''gen'' sample_digest [9] 65 5
       (runtime_health_report quiet_service ''1.0'' (Some sample_digest)) \<lparr>io_world = 0, io_trace = []\<rparr>
       = Some (Ok (), io')" and inj: "filter is_inject (io_trace io') \<noteq> []"
    using one_turn_run by auto
  from driver_requests_are_admissible [OF run]
  have "list_all (\<lambda>c. case c of CallInject request \<Rightarrow> admissible_target 1 (req_identity request) | _ \<Rightarrow> True)
      (io_trace io')"
    by (auto simp: list_all_iff split: host_call.splits)
  with run inj show ?thesis by blast
qed

text \<open>The drain of the session changes ends when the pending ones run out.\<close>

lemma drain_answers:
  assumes "\<forall>w c w'. env_take_session_change env w = (Some c, w') \<longrightarrow> pending w' < pending w"
  shows "pending (world (orch d)) < n \<Longrightarrow> \<exists>d'. drain_session_changes env n d = Some d'"
proof (induction n arbitrary: d)
  case 0
  then show ?case by simp
next
  case (Suc n)
  obtain c w where t: "env_take_session_change env (world (orch d)) = (c, w)" by force
  show ?case
  proof (cases c)
    case None
    with t show ?thesis by (simp add: on_io_def ask_def orch_io_def)
  next
    case (Some change)
    have w: "world (handle_session_change change s) = world s" for s :: "'a orchestrator"
      by (simp add: handle_session_change_def Let_def)
    have "pending w < n" using assms t Some Suc.prems by fastforce
    with t Some Suc.IH show ?thesis
      by (simp add: on_io_def ask_def orch_io_def put_io_def w)
  qed
qed

lemma health_reporter_reports: "reports (\<lambda>c. True) (runtime_health_report senv version active)"
  unfolding reports_def
  by (intro allI impI, rule grows_mono [OF runtime_health_report_calls], assumption) auto

text \<open>
  C12.  A turn of the driver always answers, as long as the pending session changes are finitely
  many and fit the bound of one drain, and it leaves the orchestrator well formed: no answer of the
  machine makes it panic or spin.
\<close>

theorem driver_turn_answers:
  assumes "wf_orchestrator (orch d)"
    and "\<forall>w c w'. env_take_session_change env w = (Some c, w') \<longrightarrow> pending w' < pending w"
    and "\<forall>w. pending w < bound"
  shows "\<exists>t d'. driver_turn env recovery (runtime_health_report senv version active) bound d = Some (t, d')
     \<and> wf_orchestrator (orch d')"
proof -
  let ?r = "runtime_health_report senv version active"
  note rep = health_reporter_reports [of senv version active]
  have cov: "covers (\<lambda>c. True) s" for s :: "'a orchestrator" by (simp add: covers_def)
  obtain x d1 where x: "on_io (ask (CallWaitTimeout 0) (env_wait_timeout env 0)) d = (x, d1)" by force
  have m1: "moves (\<lambda>c. True) (orch d) (orch d1)" using on_io_ask_moves [OF assms(1) x] by simp
  have "\<exists>t d'. driver_turn env recovery ?r bound d = Some (t, d')"
  proof (cases "x = Inr False")
    case False
    then show ?thesis using x by (auto simp: driver_turn_def split: sum.split bool.split)
  next
    case True
    obtain d2 where dr: "drain_session_changes env bound d1 = Some d2"
      using drain_answers [OF assms(2), of d1 bound] assms(3) by blast
    have m2: "moves (\<lambda>c. True) (orch d1) (orch d2)" using drain_moves [OF moves_wf [OF m1] cov dr] by simp
    let ?d3 = "d2\<lparr>orch := record_event EvFlushInjectionSummary (orch d2)\<rparr>"
    have m3: "moves (\<lambda>c. True) (orch d2) (orch ?d3)" by (rule record_event_driver [OF moves_wf [OF m2] cov])
    obtain now d4 where c: "clock (env_now env) ?d3 = (now, d4)" by force
    have m4: "moves (\<lambda>c. True) (orch ?d3) (orch d4)" using clock_moves [OF moves_wf [OF m3] c] by simp
    obtain a s where p: "poll_deferred (scheduled env) now (orch d4) = Some (a, s)"
      using poll_deferred_post [OF moves_wf [OF m4]] by blast
    have m5: "moves (\<lambda>c. True) (orch d4) s"
      using poll_deferred_moves [OF moves_wf [OF m4] cov p] .
    obtain t d' where o: "observe env recovery ?r (d4\<lparr>orch := s\<rparr>) = Some (t, d')"
      using observe_moves [where env = env and recovery = recovery, of "d4\<lparr>orch := s\<rparr>", OF _ rep cov]
        moves_wf [OF m5] by auto
    show ?thesis using x True dr c p o
      by (auto simp: driver_turn_def on_orch_def Let_def split: sum.split option.split)
  qed
  then show ?thesis using driver_turn_moves [OF assms(1) rep cov] moves_wf by blast
qed

lemma driver_turn_answers_witness:
  "\<exists>t d'. driver_turn one_turn_env default_observer_recovery
       (runtime_health_report quiet_service ''1.0'' (Some sample_digest)) 65
       (initial_driver 1 ''gen'' sample_digest [9] \<lparr>io_world = 0, io_trace = []\<rparr>) = Some (t, d')
     \<and> wf_orchestrator (orch d')"
  by (rule driver_turn_answers [OF initial_driver_facts(1), where pending = "\<lambda>_. 0"])
    (simp_all add: one_turn_env_def)

text \<open>
  C13.  The stop signal is obeyed at the top of the next turn: the driver returns success without
  any further call, injection or health report.
\<close>

theorem stop_is_obeyed_at_once:
  assumes "env_wait_timeout env 0 (world (orch d)) = (Ok True, w)"
  shows "driver_loop env recovery reporter bound (Suc turns) d
     = Some (Ok (), d\<lparr>orch := (orch d)\<lparr>world := w, trace := trace (orch d) @ [CallWaitTimeout 0]\<rparr>\<rparr>)"
  using assms by (simp add: driver_turn_def on_io_def ask_def orch_io_def put_io_def called_def)

lemma stop_is_obeyed_at_once_witness:
  "\<exists>d. driver_loop stopping_env default_observer_recovery (runtime_health_report (sample_service (Inr sample_runtime)) ''1.0'' None)
       0 1 (initial_driver 1 ''gen'' sample_digest [9] sample_io) = Some (Ok (), d)"
  using stop_is_obeyed_at_once [of stopping_env "initial_driver 1 ''gen'' sample_digest [9] sample_io" "()",
      where turns = 0]
  by (simp add: stopping_env_def host_env.extend_def sample_env_def)

section \<open>Recovery, backlog and clocks\<close>

fun waits_of :: "host_call \<Rightarrow> duration list" where
  "waits_of (CallWaitTimeout t) = [t]"
| "waits_of _ = []"

definition waits :: "'w io \<Rightarrow> duration list" where
  "waits io = concat (map waits_of (io_trace io))"

text \<open>The delays of \<open>n\<close> attempts: doubling up to the maximum.\<close>

fun recovery_delays :: "duration \<Rightarrow> nat \<Rightarrow> duration \<Rightarrow> duration list" where
  "recovery_delays maximal 0 delay = []"
| "recovery_delays maximal (Suc n) delay =
     delay # recovery_delays maximal n (min (saturating_mul delay 2) maximal)"

lemma waits_grow: "grows (\<lambda>c. waits_of c = []) io io' \<Longrightarrow> waits io' = waits io"
proof -
  have "list_all (\<lambda>c. waits_of c = []) t \<Longrightarrow> concat (map waits_of t) = []" for t
    by (induction t) auto
  then show "grows (\<lambda>c. waits_of c = []) io io' \<Longrightarrow> waits io' = waits io"
    by (auto simp: grows_def waits_def)
qed

lemma on_io_waits:
  assumes "on_io f d = (a, d')" "\<And>io a io'. f io = (a, io') \<Longrightarrow> grows (\<lambda>c. waits_of c = []) io io'"
  shows "waits (orch_io (orch d')) = waits (orch_io (orch d)) \<and> backlog d' = backlog d"
proof -
  obtain b io where f: "f (orch_io (orch d)) = (b, io)" by force
  have "orch_io (put_io io s) = io" for s by (simp add: orch_io_def put_io_def)
  with assms f waits_grow show ?thesis by (fastforce simp: on_io_def)
qed

lemma report_waits:
  assumes "report_runtime_health reporter st rr e d = (r, d')" "reports (\<lambda>c. waits_of c = []) reporter"
  shows "waits (orch_io (orch d')) = waits (orch_io (orch d))"
proof -
  obtain x d1 where o: "on_io (reporter st rr (injection_telemetry (orch d)) e) d = (x, d1)" by force
  have "waits (orch_io (orch d1)) = waits (orch_io (orch d))"
    using on_io_waits [OF o] assms(2) unfolding reports_def by blast
  with assms(1) o show ?thesis by (auto simp: report_runtime_health_def Let_def split: sum.splits)
qed

lemma recover_attempts_waits:
  assumes "reports (\<lambda>c. waits_of c = []) reporter"
    and "recover_attempts env reporter maximal n latest delay d = (r, d')"
  shows "\<exists>k \<le> n. waits (orch_io (orch d')) = waits (orch_io (orch d)) @ take k (recovery_delays maximal n delay)"
  using assms(2)
proof (induction n arbitrary: latest delay d)
  case 0
  obtain a d1 where a: "report_runtime_health reporter HsFailed observer_failed (Some latest) d = (a, d1)"
    by force
  have "d' = d1" using 0 a by (cases a) auto
  then show ?case using report_waits [OF a assms(1)] by simp
next
  case (Suc n)
  obtain w d1 where w: "on_io (ask (CallWaitTimeout delay) (stop_retry_wait env delay)) d = (w, d1)" by force
  then have w1: "waits (orch_io (orch d1)) = waits (orch_io (orch d)) @ [delay]"
    by (auto simp: on_io_def ask_def orch_io_def put_io_def waits_def split: prod.splits)
  obtain q d2 where q: "on_io (ask CallStopRequested (env_stop_requested env)) d1 = (q, d2)" by force
  have w2: "waits (orch_io (orch d2)) = waits (orch_io (orch d)) @ [delay]"
    using on_io_waits [OF q] ask_grows [where P = "\<lambda>c. waits_of c = []"] w1 by fastforce
  obtain x d3 where x: "on_io (resubscribe env (backlog d2)) d2 = (x, d3)" by force
  have "grows (\<lambda>c. waits_of c = []) io io'" if "resubscribe env (backlog d2) io = (a, io')" for io a io'
    by (rule resubscribe_grows [OF that]) simp_all
  then have w3: "waits (orch_io (orch d3)) = waits (orch_io (orch d)) @ [delay]"
    using on_io_waits [OF x] w2 by metis
  consider "\<not> w" | "w" "q" | e where "w" "\<not> q" "x = Inl e" | known where "w" "\<not> q" "x = Inr known"
    by (cases x) auto
  then show ?case
  proof cases
    case 1
    then show ?thesis using Suc.prems w w1 by (intro exI [of _ 1]) simp
  next
    case 2
    then show ?thesis using Suc.prems w q w2 by (intro exI [of _ 1]) simp
  next
    case (3 e)
    then have "recover_attempts env reporter maximal n e (min (saturating_mul delay 2) maximal) d3 = (r, d')"
      using Suc.prems w q x by simp
    from Suc.IH [OF this] obtain k where k: "k \<le> n" "waits (orch_io (orch d')) =
        waits (orch_io (orch d3)) @ take k (recovery_delays maximal n (min (saturating_mul delay 2) maximal))"
      by blast
    then show ?thesis using w3 by (intro exI [of _ "Suc k"]) simp
  next
    case (4 known)
    let ?d = "d3\<lparr>backlog := known\<rparr>"
    obtain a d4 where a: "report_runtime_health reporter HsReady ready_readiness None ?d = (a, d4)" by force
    have "d' = d4" using Suc.prems w q x 4 a by (cases a) (auto simp: Let_def)
    with report_waits [OF a assms(1)] w3 show ?thesis by (intro exI [of _ 1]) simp
  qed
qed

lemma recovery_delays_bounded:
  "delay \<le> bound \<Longrightarrow> maximal \<le> bound \<Longrightarrow> x \<in> set (recovery_delays maximal n delay) \<Longrightarrow> x \<le> bound"
proof (induction n arbitrary: delay)
  case (Suc n)
  have "min (saturating_mul delay 2) maximal \<le> bound" using Suc.prems(2) by (simp add: min_le_iff_disj)
  from Suc.IH [OF this Suc.prems(2)] Suc.prems(1,3) show ?case by auto
qed simp

lemma recovery_delays_length: "length (recovery_delays maximal n delay) = n"
  by (induction n arbitrary: delay) auto

lemma health_reporter_waits: "reports (\<lambda>c. waits_of c = []) (runtime_health_report senv version active)"
  unfolding reports_def
  by (intro allI impI, rule grows_mono [OF runtime_health_report_calls], assumption) auto

text \<open>
  Recovering a lost subscription is bounded: the driver waits at most as often as the policy
  allows attempts (12), the waits are an initial part of the doubling sequence, and none is longer
  than the larger of the initial and the maximal delay (30 seconds by default).
\<close>

theorem observer_recovery_is_bounded:
  assumes "recover_observer env recovery (runtime_health_report senv version active) e d = (r, d')"
  shows "\<exists>ds. waits (orch_io (orch d')) = waits (orch_io (orch d)) @ ds
     \<and> length ds \<le> unat (or_max_attempts recovery)
     \<and> (\<exists>k. ds = take k (recovery_delays (or_max_delay recovery) (unat (or_max_attempts recovery))
            (or_initial_delay recovery)))
     \<and> list_all (\<lambda>x. x \<le> max (or_initial_delay recovery) (or_max_delay recovery)) ds"
proof -
  let ?r = "runtime_health_report senv version active"
  note calm = health_reporter_waits [of senv version active]
  obtain a d1 where a: "report_runtime_health ?r HsDegraded observer_failed (Some e) d = (a, d1)" by force
  note w1 = report_waits [OF a calm]
  show ?thesis
  proof (cases a)
    case (Inl x)
    then have "d' = d1" using assms a by (simp add: recover_observer_def)
    with w1 show ?thesis by (intro exI [of _ "[]"]) (auto intro: exI [of _ 0])
  next
    case (Inr u)
    then have "recover_attempts env ?r (or_max_delay recovery) (unat (or_max_attempts recovery)) e
        (or_initial_delay recovery) d1 = (r, d')" using assms a by (simp add: recover_observer_def)
    from recover_attempts_waits [OF calm this] w1
    obtain k where "waits (orch_io (orch d')) = waits (orch_io (orch d)) @
        take k (recovery_delays (or_max_delay recovery) (unat (or_max_attempts recovery)) (or_initial_delay recovery))"
      by auto
    moreover have "x \<le> max (or_initial_delay recovery) (or_max_delay recovery)"
      if "x \<in> set (take k (recovery_delays (or_max_delay recovery) (unat (or_max_attempts recovery))
            (or_initial_delay recovery)))" for x
      by (rule recovery_delays_bounded [OF _ _ in_set_takeD [OF that]]) simp_all
    ultimately show ?thesis
      by (intro exI [of _ "take k (recovery_delays (or_max_delay recovery) (unat (or_max_attempts recovery))
            (or_initial_delay recovery))"])
        (auto simp: recovery_delays_length list_all_iff)
  qed
qed

lemma observer_recovery_is_bounded_witness:
  "\<exists>r d' ds. recover_observer stopping_env default_observer_recovery
       (runtime_health_report (sample_service (Inr sample_runtime)) ''1.0'' None) (service_error ''x'' ''x'')
       (initial_driver 1 ''gen'' sample_digest [9] sample_io) = (r, d')
     \<and> waits (orch_io (orch d')) = waits sample_io @ ds \<and> length ds \<le> 12"
proof -
  obtain r d' where run: "recover_observer stopping_env default_observer_recovery
       (runtime_health_report (sample_service (Inr sample_runtime)) ''1.0'' None) (service_error ''x'' ''x'')
       (initial_driver 1 ''gen'' sample_digest [9] sample_io) = (r, d')" by force
  from observer_recovery_is_bounded [OF run] run show ?thesis
    by (auto simp: default_observer_recovery_def initial_driver_facts)
qed

lemma partition_roots_mset:
  "partition_roots env ps io = ((roots, rest), io') \<Longrightarrow> mset (roots @ rest) = mset ps
     \<and> length roots + length rest = length ps"
proof (induction ps arbitrary: io roots rest io')
  case (Cons p ps)
  obtain b io1 where b: "names_relay_root env p io = (b, io1)" by force
  obtain r1 r2 io2 where r: "partition_roots env ps io1 = ((r1, r2), io2)" by (metis surj_pair)
  from Cons.IH [OF r] Cons.prems b r show ?case by (auto split: if_splits)
qed simp

lemma merge_snapshot_spec:
  assumes "merge_snapshot env ps known io = (known', io')"
  shows "set known' = set known \<union> set ps \<and> (distinct known \<longrightarrow> distinct known')
     \<and> (\<exists>front rear. known' = front @ known @ rear)"
  using assms
proof (induction ps arbitrary: known io)
  case (Cons p ps)
  show ?case
  proof (cases "p \<in> set known")
    case True
    with Cons show ?thesis by auto
  next
    case False
    obtain b io1 where b: "names_relay_root env p io = (b, io1)" by force
    let ?known = "if b then p # known else known @ [p]"
    have "merge_snapshot env ps ?known io1 = (known', io')"
      using Cons.prems False b by simp
    from Cons.IH [OF this] obtain front rear where IH: "set known' = set ?known \<union> set ps"
      "distinct ?known \<longrightarrow> distinct known'" "known' = front @ ?known @ rear" by blast
    show ?thesis
    proof (intro conjI)
      show "set known' = set known \<union> set (p # ps)" using IH(1) by (auto split: if_splits)
      show "distinct known \<longrightarrow> distinct known'" using IH(2) False by (auto split: if_splits)
      show "\<exists>front rear. known' = front @ known @ rear"
      proof (cases b)
        case True
        with IH(3) have "known' = (front @ [p]) @ known @ rear" by simp
        then show ?thesis by blast
      next
        case False
        with IH(3) have "known' = front @ known @ (p # rear)" by simp
        then show ?thesis by blast
      qed
    qed
  qed
qed (auto intro: exI [of _ "[]"])

text \<open>
  A recovered subscription misses no process: the new backlog consists of exactly the old one
  and the snapshot, the old backlog keeps its order, and no PID waits twice when none did before.
\<close>

theorem recovered_backlog_is_complete:
  assumes "resubscribe env known io = (Ok known', io')"
  shows "\<exists>ps w front rear. fst (env_snapshot_pids env w) = Ok ps \<and> set known' = set known \<union> set ps
     \<and> known' = front @ known @ rear \<and> (\<not> distinct known \<or> distinct known')"
proof -
  obtain a io1 where a: "ask (CallSubscribe PROCESS_CREATION_QUERY)
      (env_subscribe env PROCESS_CREATION_QUERY) io = (a, io1)" by force
  obtain b io2 where b: "ask CallSnapshotPids (env_snapshot_pids env) io1 = (b, io2)" by force
  from assms a b obtain ps where ps: "b = Inr ps"
    by (auto simp: resubscribe_def split: sum.splits prod.splits)
  then have snap: "fst (env_snapshot_pids env (io_world io1)) = Inr ps"
    using b by (auto simp: ask_def split: prod.splits)
  obtain io3 where "merge_snapshot env ps known io2 = (known', io3)"
    using assms a b ps by (auto simp: resubscribe_def split: sum.splits prod.splits)
  from merge_snapshot_spec [OF this] snap show ?thesis by blast
qed

lemma recovered_backlog_is_complete_witness:
  "\<exists>known' io' front rear. resubscribe stopping_env [4] sample_io = (Ok known', io')
     \<and> known' = front @ [4] @ rear \<and> known' = [4, 9]"
proof -
  have run: "resubscribe stopping_env [4] sample_io = (Ok [4, 9], snd (resubscribe stopping_env [4] sample_io))"
    by (simp add: resubscribe_def ask_def names_relay_root_def stopping_env_def host_env.extend_def sample_env_def)
  from recovered_backlog_is_complete [OF run] run show ?thesis by blast
qed

text \<open>
  The start-up backlog is a stable reordering of the snapshot: every relay root (the shell)
  comes first, and both groups keep the order the snapshot gave them.
\<close>

theorem relay_roots_come_first:
  assumes "\<forall>p w. fst (env_image_name env p w) = names p"
    and "relay_roots_first env ps io = (pids, io')"
  shows "pids = filter (\<lambda>p. names p = Some ''explorer.exe'') ps @ filter (\<lambda>p. names p \<noteq> Some ''explorer.exe'') ps"
proof -
  have root: "fst (names_relay_root env p io) = (names p = Some ''explorer.exe'')" for p io
  proof -
    obtain n w where n: "env_image_name env p (io_world io) = (n, w)" by force
    with assms(1) have "n = names p" by (metis fst_conv)
    with n show ?thesis
      by (simp add: names_relay_root_def ask_def is_relay_root_def split: option.split)
  qed
  have "fst (partition_roots env ps io) =
      (filter (\<lambda>p. names p = Some ''explorer.exe'') ps, filter (\<lambda>p. names p \<noteq> Some ''explorer.exe'') ps)" for io
  proof (induction ps arbitrary: io)
    case (Cons p ps)
    obtain b io1 where b: "names_relay_root env p io = (b, io1)" by force
    obtain r1 r2 io2 where r: "partition_roots env ps io1 = ((r1, r2), io2)" by (metis surj_pair)
    from Cons [of io1] root [of p io] b r show ?case by auto
  qed simp
  from this [of io] show ?thesis using assms(2) by (auto simp: relay_roots_first_def split: prod.splits)
qed

definition shell_env :: "unit driver_env" where
  "shell_env = stopping_env\<lparr>env_image_name := \<lambda>p w. (if p = 7 then Some ''explorer.exe'' else None, w)\<rparr>"

lemma relay_roots_come_first_witness:
  "\<exists>io'. relay_roots_first shell_env [5, 7, 6] sample_io = ([7, 5, 6], io')"
proof -
  obtain pids io' where run: "relay_roots_first shell_env [5, 7, 6] sample_io = (pids, io')" by force
  from relay_roots_come_first [OF _ run, of "\<lambda>p. if p = 7 then Some ''explorer.exe'' else None"] run
  show ?thesis by (simp add: shell_env_def)
qed

text \<open>
  A failing health publisher stops the service only at the twenty-first failure in a row: a
  report that succeeds resets the count, and one that fails is passed on exactly when twenty
  failures immediately precede it.
\<close>

theorem twenty_health_failures_are_tolerated:
  assumes "reporter state rr (injection_telemetry (orch d)) error (orch_io (orch d)) = (answer, io)"
    and "report_runtime_health reporter state rr error d = (r, d')"
  shows "health_failures d' = (if isl answer then Suc (health_failures d) else 0)
     \<and> r = (if isl answer \<and> 20 \<le> health_failures d then answer else Ok ())"
  using assms
  by (cases answer)
    (auto simp: report_runtime_health_def on_io_def Let_def MAX_TOLERATED_CONSECUTIVE_HEALTH_REPORT_FAILURES_def)

definition failing_reporter :: "unit health_reporter" where
  "failing_reporter = (\<lambda>st rr tel e io. (Err (service_error ''health-publish-failed'' ''x''), io))"

lemma twenty_health_failures_are_tolerated_witness:
  "\<exists>d'. report_runtime_health failing_reporter HsReady ready_readiness None
       ((initial_driver 1 ''gen'' sample_digest [] sample_io)\<lparr>health_failures := 19\<rparr>) = (Ok (), d')
     \<and> health_failures d' = 20"
proof -
  let ?d = "(initial_driver 1 ''gen'' sample_digest [] sample_io)\<lparr>health_failures := 19\<rparr>"
  obtain r d' where run: "report_runtime_health failing_reporter HsReady ready_readiness None ?d = (r, d')"
    by force
  from twenty_health_failures_are_tolerated [OF _ run, of "Err (service_error ''health-publish-failed'' ''x'')"
      "orch_io (orch ?d)"] run
  show ?thesis by (simp add: failing_reporter_def)
qed

text \<open>
  The age of a process is the whole milliseconds between its creation and now, and is absent
  exactly when the creation lies in the future; the clock conversion is exact to the tick and
  strictly later instants never get an earlier tick.
\<close>

theorem filetime_ages:
  "(case filetime_age_millis now created of
      None \<Rightarrow> unat now < unat created
    | Some age \<Rightarrow> unat created \<le> unat now \<and> unat age = (unat now - unat created) div 10000)
   \<and> (case filetime_from_unix_epoch d of
      None \<Rightarrow> 2 ^ 64 \<le> d div 100 + 116444736000000000
    | Some ticks \<Rightarrow> unat ticks = d div 100 + 116444736000000000)"
proof
  show "case filetime_age_millis now created of
      None \<Rightarrow> unat now < unat created
    | Some age \<Rightarrow> unat created \<le> unat now \<and> unat age = (unat now - unat created) div 10000"
    by (auto simp: filetime_age_millis_def checked_sub_def word_le_nat_alt unat_sub unat_div)
  show "case filetime_from_unix_epoch d of
      None \<Rightarrow> 2 ^ 64 \<le> d div 100 + 116444736000000000
    | Some ticks \<Rightarrow> unat ticks = d div 100 + 116444736000000000"
    using unat_word_of_nat [of "d div 100 + 116444736000000000", where 'n = 64]
    by (auto simp: filetime_from_unix_epoch_def UNIX_EPOCH_FILETIME_TICKS_def Let_def)
qed

end
