(* ===== verification/Session_Queue.thy ===== *)
theory Session_Queue
  imports Host_Types "HOL-Library.Multiset"
begin

unbundle bit_operations_syntax

text \<open>
  The lock-free session-change queue (\<open>host/src/session_event_queue.rs\<close>): 64 atomic slots between
  the service control handler, which pushes, and the orchestration driver, which pops.  Each push
  and pop is first modelled as a whole; then as a sequence of its atomic accesses, interleaved in
  any order, one consumer and any number of producers.
\<close>

section \<open>The queue\<close>

definition SESSION_EVENT_QUEUE_CAPACITY :: nat where "SESSION_EVENT_QUEUE_CAPACITY = 64"

record session_queue =
  slots :: "u64 list"
  write_cursor :: u64
  read_cursor :: u64
  overflowed :: bool

definition new_queue :: session_queue where
  "new_queue = \<lparr>slots = replicate SESSION_EVENT_QUEUE_CAPACITY 0, write_cursor = 0, read_cursor = 0,
     overflowed = False\<rparr>"

definition encode_change :: "session_change \<Rightarrow> u64 option" where
  "encode_change change =
     checked_add (push_bit 32 (ucast (event_type change)) OR ucast (sc_session_id change)) 1"

definition decode_change :: "u64 \<Rightarrow> session_change" where
  "decode_change encoded = (let raw = encoded - 1
     in \<lparr>event_type = ucast (drop_bit 32 raw), sc_session_id = ucast raw\<rparr>)"

definition slot_index :: "u64 \<Rightarrow> nat \<Rightarrow> nat" where
  "slot_index start offset = unat (start + word_of_nat offset) mod SESSION_EVENT_QUEUE_CAPACITY"

fun push_scan :: "u64 \<Rightarrow> u64 \<Rightarrow> nat list \<Rightarrow> session_queue \<Rightarrow> bool \<times> session_queue" where
  "push_scan start encoded [] q = (False, q\<lparr>overflowed := True\<rparr>)"
| "push_scan start encoded (offset # rest) q =
     (let index = slot_index start offset
      in if slots q ! index = 0 then (True, q\<lparr>slots := (slots q)[index := encoded]\<rparr>)
         else push_scan start encoded rest q)"

definition push :: "session_change \<Rightarrow> session_queue \<Rightarrow> bool \<times> session_queue" where
  "push change q =
     (case encode_change change of
        None \<Rightarrow> (False, q\<lparr>overflowed := True\<rparr>)
      | Some encoded \<Rightarrow>
          push_scan (write_cursor q) encoded [0..<SESSION_EVENT_QUEUE_CAPACITY]
            (q\<lparr>write_cursor := write_cursor q + 1\<rparr>))"

fun pop_scan :: "u64 \<Rightarrow> nat list \<Rightarrow> session_queue \<Rightarrow> session_change option \<times> session_queue" where
  "pop_scan start [] q = (None, q)"
| "pop_scan start (offset # rest) q =
     (let index = slot_index start offset; encoded = slots q ! index;
          q = q\<lparr>slots := (slots q)[index := 0]\<rparr>
      in if encoded \<noteq> 0
         then (Some (decode_change encoded), q\<lparr>read_cursor := word_of_nat (index + 1)\<rparr>)
         else pop_scan start rest q)"

definition pop :: "session_queue \<Rightarrow> session_change option \<times> session_queue" where
  "pop q =
     (if overflowed q then (Some overflow_change, q\<lparr>overflowed := False\<rparr>)
      else pop_scan (read_cursor q) [0..<SESSION_EVENT_QUEUE_CAPACITY] q)"

section \<open>Encoding\<close>

definition raw_change :: "session_change \<Rightarrow> u64" where
  "raw_change c = push_bit 32 (ucast (event_type c)) OR ucast (sc_session_id c)"

lemma raw_change_fields:
  "(ucast (drop_bit 32 (raw_change c)) :: u32) = event_type c" "(ucast (raw_change c) :: u32) = sc_session_id c"
  unfolding raw_change_def
  by (rule bit_word_eqI; auto simp: bit_simps dest: bit_imp_le_length)+


lemma checked_succ: "checked_add (w :: u64) 1 = (if w = - 1 then None else Some (w + 1))"
proof -
  have top: "unat (- 1 :: u64) = 2 ^ 64 - 1"
    by (simp add: unsigned_minus_1_eq_mask mask_eq_exp_minus_1)
  have "unat w < 2 ^ 64" by (rule order_less_le_trans [OF unsigned_less]) simp
  moreover have "w = - 1 \<longleftrightarrow> unat w = 2 ^ 64 - 1"
    unfolding top [symmetric] by (simp only: word_unat_eq_iff)
  ultimately have "unat w + 1 < 2 ^ 64 \<longleftrightarrow> w \<noteq> - 1" by linarith
  then show ?thesis by (simp add: checked_add_def)
qed


lemma decode_encode: "encode_change c = Some e \<Longrightarrow> decode_change e = c \<and> e \<noteq> 0"
  using raw_change_fields [of c]
  by (auto simp: encode_change_def checked_succ decode_change_def Let_def eq_neg_iff_add_eq_0
      simp flip: raw_change_def split: if_splits)

lemma slot_index_eq: "slot_index start offset = (unat start + offset) mod 64"
proof -
  have "unat (start + word_of_nat offset) = (unat start + offset mod 2 ^ 64) mod 2 ^ 64"
    by (simp add: unat_word_ariths unat_of_nat)
  then show ?thesis
    by (simp add: slot_index_def SESSION_EVENT_QUEUE_CAPACITY_def mod_mod_cancel mod_add_right_eq
        flip: mod_add_right_eq [of _ "offset mod _" 64])
qed

section \<open>A bounded FIFO\<close>










lemma push_scan_free:
  "slots q ! slot_index start k = 0 \<Longrightarrow>
     push_scan start e (k # rest) q = (True, q\<lparr>slots := (slots q)[slot_index start k := e]\<rparr>)"
  by (simp add: Let_def)






section \<open>Interleaved accesses\<close>

text \<open>
  The same two operations as sequences of atomic accesses.  A producer between accesses remembers
  the cursor value it fetched, the next offset and the encoded event; the consumer remembers its
  scan, or the slot it took and must still store a cursor for.  \<open>accepted\<close> counts the events whose
  push answered true, \<open>delivered\<close> those a pop took out, \<open>refused\<close> the pushes that answered false
  since the last pop that answered the overflow event.
\<close>

datatype producer = Idle | Scanning u64 nat u64

datatype consumer = Waiting | Searching u64 nat | Took nat

record queue_system =
  shared :: session_queue
  producers :: "producer list"
  consuming :: consumer
  accepted :: "u64 multiset"
  delivered :: "u64 multiset"
  refused :: nat

definition start_system :: "nat \<Rightarrow> queue_system" where
  "start_system n = \<lparr>shared = new_queue, producers = replicate n Idle, consuming = Waiting,
     accepted = {#}, delivered = {#}, refused = 0\<rparr>"

inductive access :: "queue_system \<Rightarrow> queue_system \<Rightarrow> bool" where
  push_unencodable:
    "t < length (producers s) \<Longrightarrow> producers s ! t = Idle \<Longrightarrow> encode_change c = None \<Longrightarrow>
     access s (s\<lparr>shared := (shared s)\<lparr>overflowed := True\<rparr>, refused := refused s + 1\<rparr>)"
| push_fetch:
    "t < length (producers s) \<Longrightarrow> producers s ! t = Idle \<Longrightarrow> encode_change c = Some e \<Longrightarrow>
     access s (s\<lparr>shared := (shared s)\<lparr>write_cursor := write_cursor (shared s) + 1\<rparr>,
       producers := (producers s)[t := Scanning (write_cursor (shared s)) 0 e]\<rparr>)"
| push_exchange:
    "t < length (producers s) \<Longrightarrow> producers s ! t = Scanning start k e \<Longrightarrow> k < 64 \<Longrightarrow>
     slots (shared s) ! slot_index start k = 0 \<Longrightarrow>
     access s (s\<lparr>shared := (shared s)\<lparr>slots := (slots (shared s))[slot_index start k := e]\<rparr>,
       producers := (producers s)[t := Idle], accepted := add_mset e (accepted s)\<rparr>)"
| push_occupied:
    "t < length (producers s) \<Longrightarrow> producers s ! t = Scanning start k e \<Longrightarrow> k < 64 \<Longrightarrow>
     slots (shared s) ! slot_index start k \<noteq> 0 \<Longrightarrow>
     access s (s\<lparr>producers := (producers s)[t := Scanning start (k + 1) e]\<rparr>)"
| push_full:
    "t < length (producers s) \<Longrightarrow> producers s ! t = Scanning start 64 e \<Longrightarrow>
     access s (s\<lparr>shared := (shared s)\<lparr>overflowed := True\<rparr>, producers := (producers s)[t := Idle],
       refused := refused s + 1\<rparr>)"
| pop_overflow:
    "consuming s = Waiting \<Longrightarrow> overflowed (shared s) \<Longrightarrow>
     access s (s\<lparr>shared := (shared s)\<lparr>overflowed := False\<rparr>, refused := 0\<rparr>)"
| pop_load:
    "consuming s = Waiting \<Longrightarrow> \<not> overflowed (shared s) \<Longrightarrow>
     access s (s\<lparr>consuming := Searching (read_cursor (shared s)) 0\<rparr>)"
| pop_swap:
    "consuming s = Searching start k \<Longrightarrow> k < 64 \<Longrightarrow>
     slots (shared s) ! slot_index start k = e \<Longrightarrow> e \<noteq> 0 \<Longrightarrow>
     access s (s\<lparr>shared := (shared s)\<lparr>slots := (slots (shared s))[slot_index start k := 0]\<rparr>,
       consuming := Took (slot_index start k), delivered := add_mset e (delivered s)\<rparr>)"
| pop_free:
    "consuming s = Searching start k \<Longrightarrow> k < 64 \<Longrightarrow> slots (shared s) ! slot_index start k = 0 \<Longrightarrow>
     access s (s\<lparr>consuming := Searching start (k + 1)\<rparr>)"
| pop_none:
    "consuming s = Searching start 64 \<Longrightarrow> access s (s\<lparr>consuming := Waiting\<rparr>)"
| pop_store:
    "consuming s = Took i \<Longrightarrow>
     access s (s\<lparr>shared := (shared s)\<lparr>read_cursor := word_of_nat (i + 1)\<rparr>, consuming := Waiting\<rparr>)"

definition queued :: "session_queue \<Rightarrow> u64 multiset" where
  "queued q = {#e \<in># mset (slots q). e \<noteq> 0#}"

fun carries_event :: "producer \<Rightarrow> bool" where
  "carries_event Idle = True"
| "carries_event (Scanning _ _ e) = (e \<noteq> 0)"

definition accounted :: "queue_system \<Rightarrow> bool" where
  "accounted s \<longleftrightarrow> length (slots (shared s)) = 64
     \<and> accepted s = delivered s + queued (shared s)
     \<and> (refused s = 0 \<or> overflowed (shared s))
     \<and> list_all carries_event (producers s)"

lemma queued_store:
  assumes "i < length (slots q)" "slots q ! i = 0" "e \<noteq> 0"
  shows "queued (q\<lparr>slots := (slots q)[i := e]\<rparr>) = add_mset e (queued q)"
  using assms by (simp add: queued_def mset_update)

lemma queued_take:
  assumes "i < length (slots q)" "slots q ! i = e" "e \<noteq> 0"
  shows "queued q = add_mset e (queued (q\<lparr>slots := (slots q)[i := 0]\<rparr>))"
proof -
  have "e \<in># mset (slots q)" using assms by auto
  then show ?thesis using assms by (simp add: queued_def mset_update)
qed

lemma queued_frame [simp]:
  "queued (q\<lparr>overflowed := b\<rparr>) = queued q" "queued (q\<lparr>write_cursor := w\<rparr>) = queued q"
  "queued (q\<lparr>read_cursor := r\<rparr>) = queued q"
  by (simp_all add: queued_def)

lemma slot_index_bound: "slot_index start k < 64"
  by (simp add: slot_index_eq)

lemma list_all_update: "list_all P xs \<Longrightarrow> P y \<Longrightarrow> list_all P (xs[t := y])"
  using set_update_subset_insert [of xs t y] by (auto simp: list_all_iff)

lemma list_all_at: "list_all P xs \<Longrightarrow> t < length xs \<Longrightarrow> xs ! t = y \<Longrightarrow> P y"
  by (auto simp: list_all_length)

lemma access_accounted:
  assumes "access s s'" and "accounted s"
  shows "accounted s'"
  using assms
proof (induction rule: access.induct)
  case (push_fetch t s c e)
  then have "e \<noteq> 0" using decode_encode by blast
  with push_fetch show ?case by (auto simp: accounted_def intro: list_all_update)
next
  case (push_exchange t s start k e)
  then have "e \<noteq> 0" using list_all_at [of carries_event "producers s" t] by (auto simp: accounted_def)
  with push_exchange show ?case
    using queued_store [of "slot_index start k" "shared s" e] slot_index_bound
    by (auto simp: accounted_def intro: list_all_update)
next
  case (push_occupied t s start k e)
  then have "e \<noteq> 0" using list_all_at [of carries_event "producers s" t] by (auto simp: accounted_def)
  with push_occupied show ?case by (auto simp: accounted_def intro: list_all_update)
next
  case (pop_swap s start k e)
  then show ?case
    using queued_take [of "slot_index start k" "shared s" e] slot_index_bound
    by (auto simp: accounted_def)
qed (auto simp: accounted_def intro: list_all_update)

lemma start_accounted: "accounted (start_system n)"
  by (simp add: accounted_def start_system_def new_queue_def queued_def SESSION_EVENT_QUEUE_CAPACITY_def
      list_all_iff)

lemma reachable_accounted: "rtranclp access (start_system n) s \<Longrightarrow> accounted s"
  by (induction rule: rtranclp_induct) (auto intro: start_accounted access_accounted)

text \<open>Pushing and popping without interruption are runs of these accesses.\<close>

lemma one_access:
  "access s s1 \<Longrightarrow> shared s1 = q \<Longrightarrow> producers s1 = ps \<Longrightarrow> consuming s1 = c \<Longrightarrow>
     \<exists>s'. rtranclp access s s' \<and> shared s' = q \<and> producers s' = ps \<and> consuming s' = c"
  by (blast intro: r_into_rtranclp)

lemma push_scan_run:
  assumes "t < length (producers s)" "producers s ! t = Scanning start k e" "k \<le> 64"
    and "push_scan start e [k..<64] (shared s) = (b, q)"
  shows "\<exists>s'. rtranclp access s s' \<and> shared s' = q \<and> producers s' = (producers s)[t := Idle]
     \<and> consuming s' = consuming s"
  using assms
proof (induction "64 - k" arbitrary: k s)
  case 0
  then have k: "k = 64" by simp
  with 0 have "access s (s\<lparr>shared := (shared s)\<lparr>overflowed := True\<rparr>,
      producers := (producers s)[t := Idle], refused := refused s + 1\<rparr>)"
    using push_full [of t s start e] by simp
  then show ?case by (rule one_access) (use 0(5) k in auto)
next
  case (Suc m)
  then have k: "k < 64" "[k..<64] = k # [Suc k..<64]" by (auto simp: upt_rec)
  show ?case
  proof (cases "slots (shared s) ! slot_index start k = 0")
    case True
    show ?thesis
      by (rule one_access [OF push_exchange [of t s start k e]]) (use Suc k True in \<open>auto simp: Let_def\<close>)
  next
    case False
    let ?s1 = "s\<lparr>producers := (producers s)[t := Scanning start (k + 1) e]\<rparr>"
    have step: "access s ?s1" using push_occupied [of t s start k e] Suc k False by simp
    have "\<exists>s'. rtranclp access ?s1 s' \<and> shared s' = q \<and> producers s' = (producers ?s1)[t := Idle]
        \<and> consuming s' = consuming ?s1"
      by (rule Suc(1) [of "k + 1"]) (use Suc k False in \<open>auto simp: Let_def\<close>)
    with step show ?thesis by (auto intro: converse_rtranclp_into_rtranclp)
  qed
qed

lemma push_run:
  assumes "t < length (producers s)" "producers s ! t = Idle" "push c (shared s) = (b, q)"
  shows "\<exists>s'. rtranclp access s s' \<and> shared s' = q \<and> producers s' = producers s
     \<and> consuming s' = consuming s"
proof (cases "encode_change c")
  case None
  show ?thesis
    by (rule one_access [OF push_unencodable [of t s c]]) (use assms None in \<open>auto simp: push_def\<close>)
next
  case (Some e)
  let ?s1 = "s\<lparr>shared := (shared s)\<lparr>write_cursor := write_cursor (shared s) + 1\<rparr>,
       producers := (producers s)[t := Scanning (write_cursor (shared s)) 0 e]\<rparr>"
  have step: "access s ?s1" using push_fetch [of t s c e] assms(1,2) Some by simp
  have "\<exists>s'. rtranclp access ?s1 s' \<and> shared s' = q \<and> producers s' = (producers ?s1)[t := Idle]
      \<and> consuming s' = consuming ?s1"
    by (rule push_scan_run) (use assms Some in \<open>auto simp: push_def SESSION_EVENT_QUEUE_CAPACITY_def\<close>)
  moreover have "(producers s)[t := Idle] = producers s" using assms(2) by (metis list_update_id)
  ultimately show ?thesis using step by (auto intro: converse_rtranclp_into_rtranclp)
qed

lemma pop_scan_run:
  assumes "consuming s = Searching start k" "k \<le> 64" "pop_scan start [k..<64] (shared s) = (a, q)"
    and "length (slots (shared s)) = 64"
  shows "\<exists>s'. rtranclp access s s' \<and> shared s' = q \<and> producers s' = producers s \<and> consuming s' = Waiting"
  using assms
proof (induction "64 - k" arbitrary: k s)
  case 0
  then have "k = 64" by simp
  with 0 show ?case by (intro one_access [OF pop_none [of s start]]) auto
next
  case (Suc m)
  then have k: "k < 64" "[k..<64] = k # [Suc k..<64]" by (auto simp: upt_rec)
  let ?i = "slot_index start k"
  show ?case
  proof (cases "slots (shared s) ! ?i = 0")
    case False
    let ?s1 = "s\<lparr>shared := (shared s)\<lparr>slots := (slots (shared s))[?i := 0]\<rparr>,
       consuming := Took ?i, delivered := add_mset (slots (shared s) ! ?i) (delivered s)\<rparr>"
    have "access s ?s1" using pop_swap [of s start k] Suc k False by blast
    moreover have "access ?s1 (?s1\<lparr>shared := (shared ?s1)\<lparr>read_cursor := word_of_nat (?i + 1)\<rparr>,
        consuming := Waiting\<rparr>)" by (rule pop_store) simp
    ultimately have "rtranclp access s (?s1\<lparr>shared := (shared ?s1)\<lparr>read_cursor := word_of_nat (?i + 1)\<rparr>,
        consuming := Waiting\<rparr>)" by (meson converse_rtranclp_into_rtranclp r_into_rtranclp)
    with Suc k False show ?thesis by (fastforce simp: Let_def)
  next
    case True
    then have same: "(shared s)\<lparr>slots := (slots (shared s))[?i := 0]\<rparr> = shared s"
      by (metis list_update_id session_queue.surjective session_queue.update_convs(1))
    let ?s1 = "s\<lparr>consuming := Searching start (k + 1)\<rparr>"
    have step: "access s ?s1" using pop_free [of s start k] Suc k True by simp
    have "\<exists>s'. rtranclp access ?s1 s' \<and> shared s' = q \<and> producers s' = producers ?s1
        \<and> consuming s' = Waiting"
      by (rule Suc(1) [of "k + 1"]) (use Suc k True same in \<open>auto simp: Let_def\<close>)
    with step show ?thesis by (auto intro: converse_rtranclp_into_rtranclp)
  qed
qed

lemma pop_run:
  assumes "consuming s = Waiting" "pop (shared s) = (a, q)" "length (slots (shared s)) = 64"
  shows "\<exists>s'. rtranclp access s s' \<and> shared s' = q \<and> producers s' = producers s \<and> consuming s' = Waiting"
proof (cases "overflowed (shared s)")
  case True
  show ?thesis by (rule one_access [OF pop_overflow [of s]]) (use assms True in \<open>auto simp: pop_def\<close>)
next
  case False
  let ?s1 = "s\<lparr>consuming := Searching (read_cursor (shared s)) 0\<rparr>"
  have step: "access s ?s1" using pop_load [of s] assms(1) False by simp
  have "\<exists>s'. rtranclp access ?s1 s' \<and> shared s' = q \<and> producers s' = producers ?s1
      \<and> consuming s' = Waiting"
    by (rule pop_scan_run) (use assms False in \<open>auto simp: pop_def SESSION_EVENT_QUEUE_CAPACITY_def\<close>)
  with step show ?thesis by (auto intro: converse_rtranclp_into_rtranclp)
qed

section \<open>Properties of the session queue\<close>





text \<open>
  C8.  With any number of producers and one consumer interleaved access by access, no session
  change is lost or duplicated: at every moment the events whose push answered true are exactly
  those popped plus those still in the slots, at most 64 of them wait, and if any push was refused
  since the last overflow answer, the overflow flag is raised, so a later pop reports it.
\<close>

theorem session_changes_never_lost_or_duplicated:
  assumes "rtranclp access (start_system n) s"
  shows "accepted s = delivered s + queued (shared s) \<and> size (queued (shared s)) \<le> 64
     \<and> (refused s = 0 \<or> overflowed (shared s))"
proof -
  have a: "accounted s" using assms by (rule reachable_accounted)
  have "size (queued (shared s)) \<le> size (mset (slots (shared s)))"
    unfolding queued_def by (rule size_mset_mono) simp
  with a show ?thesis by (simp add: accounted_def)
qed

lemma session_changes_never_lost_or_duplicated_witness:
  "\<exists>s. rtranclp access (start_system 1) s
     \<and> fst (push \<lparr>event_type = 6, sc_session_id = 1\<rparr> new_queue)
     \<and> shared s = snd (push \<lparr>event_type = 6, sc_session_id = 1\<rparr> new_queue)
     \<and> accepted s = delivered s + queued (shared s)"
proof -
  let ?c = "\<lparr>event_type = 6, sc_session_id = 1\<rparr> :: session_change"
  have shared: "shared (start_system 1) = new_queue" by (simp add: start_system_def)
  obtain b q where p: "push ?c new_queue = (b, q)" by force
  obtain s where s: "rtranclp access (start_system 1) s" "shared s = q"
    using push_run [of 0 "start_system 1" ?c b q] p shared by (auto simp: start_system_def)
  have "fst (push ?c new_queue)" by code_simp
  with s p session_changes_never_lost_or_duplicated [OF s(1)] show ?thesis by auto
qed

end
