(* ===== verification/Ordered_Map.thy ===== *)
theory Ordered_Map
  imports Prelude
begin

text \<open>
  \<open>BTreeMap\<close> with string keys as the list of its entries in key order, with insertion, collection
  from an iterator (the last of equal keys wins) and the lemmas its users share.
\<close>

text \<open>A \<open>BTreeMap\<close> with string keys is its list of entries in key order.\<close>

type_synonym 'v btree_map = "(string \<times> 'v) list"

fun bt_insert :: "string \<Rightarrow> 'v \<Rightarrow> 'v btree_map \<Rightarrow> 'v btree_map" where
  "bt_insert k v [] = [(k, v)]"
| "bt_insert k v ((k', v') # m) =
     (if k < k' then (k, v) # (k', v') # m
      else if k = k' then (k, v) # m
      else (k', v') # bt_insert k v m)"

text \<open>A \<open>BTreeSet\<close> of strings is the sorted list of its elements.\<close>

definition set_insert :: "string \<Rightarrow> string list \<Rightarrow> string list" where
  "set_insert name names = map fst (bt_insert name () (map (\<lambda>n. (n, ())) names))"

definition bt_collect :: "(string \<times> 'v) list \<Rightarrow> 'v btree_map" where
  "bt_collect kvs = fold (\<lambda>(k, v). bt_insert k v) kvs []"

definition bt_sorted :: "'v btree_map \<Rightarrow> bool" where
  "bt_sorted m \<longleftrightarrow> sorted_wrt (<) (map fst m)"

lemma bt_insert_keys: "fst ` set (bt_insert k v m) = insert k (fst ` set m)"
  by (induction k v m rule: bt_insert.induct) auto

lemma bt_insert_sorted: "bt_sorted m \<Longrightarrow> bt_sorted (bt_insert k v m)"
proof (induction k v m rule: bt_insert.induct)
  case (2 k v k' v' m)
  show ?case
  proof (cases "k < k' \<or> k = k'")
    case True
    then show ?thesis using 2 by (auto simp: bt_sorted_def)
  next
    case False
    then have lt: "k' < k" "\<not> k < k'" "k \<noteq> k'" by auto
    have "\<forall>y\<in>fst ` set (bt_insert k v m). k' < y"
      using 2(2) lt(1) by (simp add: bt_insert_keys bt_sorted_def)
    moreover have "bt_sorted (bt_insert k v m)"
      using 2 lt by (simp add: bt_sorted_def)
    ultimately show ?thesis using lt by (simp add: bt_sorted_def)
  qed
qed (simp add: bt_sorted_def)

lemma bt_insert_length: "length (bt_insert k v m) \<le> Suc (length m)"
  by (induction k v m rule: bt_insert.induct) auto

lemma bt_insert_set: "set (bt_insert k v m) \<subseteq> insert (k, v) (set m)"
  by (induction k v m rule: bt_insert.induct) auto

lemma map_of_bt_insert: "map_of (bt_insert k v m) = (map_of m)(k \<mapsto> v)"
  by (induction k v m rule: bt_insert.induct) auto

lemma bt_fold_props:
  "bt_sorted m \<Longrightarrow> bt_sorted (fold (\<lambda>(k, v). bt_insert k v) kvs m)
     \<and> length (fold (\<lambda>(k, v). bt_insert k v) kvs m) \<le> length m + length kvs
     \<and> set (fold (\<lambda>(k, v). bt_insert k v) kvs m) \<subseteq> set m \<union> set kvs"
proof (induction kvs arbitrary: m)
  case Nil
  then show ?case by simp
next
  case (Cons kv kvs)
  obtain k v where [simp]: "kv = (k, v)" by fastforce
  show ?case
    using Cons.IH [OF bt_insert_sorted [OF Cons.prems], of k v] bt_insert_length [of k v m]
      bt_insert_set [of k v m] by auto
qed

lemma bt_collect_props:
  "bt_sorted (bt_collect kvs)" "length (bt_collect kvs) \<le> length kvs" "set (bt_collect kvs) \<subseteq> set kvs"
  using bt_fold_props [of "[]" kvs] by (auto simp: bt_collect_def bt_sorted_def)

lemma bt_insert_last:
  "bt_sorted (m @ [(k, v)]) \<Longrightarrow> bt_insert k v m = m @ [(k, v)]"
proof (induction k v m rule: bt_insert.induct)
  case (2 k v k' v' m)
  then have "k' < k" by (simp add: bt_sorted_def sorted_wrt_append)
  with 2 show ?case by (auto simp: bt_sorted_def)
qed simp

lemma bt_collect_sorted: "bt_sorted m \<Longrightarrow> bt_collect m = m"
proof (induction m rule: rev_induct)
  case (snoc kv m)
  obtain k v where [simp]: "kv = (k, v)" by fastforce
  have "bt_sorted m" using snoc.prems by (simp add: bt_sorted_def sorted_wrt_append)
  with snoc bt_insert_last [of m k v] show ?case by (simp add: bt_collect_def)
qed (simp add: bt_collect_def)

end
