(* ===== verification/Json.thy ===== *)
theory Json
  imports Ordered_Map "HOL-Library.AList"
begin

text \<open>
  JSON values and what the derived \<open>Deserialize\<close> of the sources accepts.  The text parser and
  printer (\<open>serde_json\<close>) are parameters wherever they are used; this theory models the step from a
  value to a struct: objects by field name, with missing \<open>Option\<close> fields read as \<open>None\<close>, unknown and
  repeated fields rejected (\<open>deny_unknown_fields\<close>), and arrays by position.
\<close>

datatype json =
    JNull
  | JBool bool
  | JNat nat
  | JOtherNumber string
  | JString string
  | JArray "json list"
  | JObject "(string \<times> json) list"

text \<open>The fields of a struct with the given names, each missing or present.\<close>

definition struct_fields :: "string list \<Rightarrow> json \<Rightarrow> (string \<Rightarrow> json option) option" where
  "struct_fields names v =
     (case v of
        JObject kvs \<Rightarrow>
          if distinct (map fst kvs) \<and> list_all (\<lambda>kv. fst kv \<in> set names) kvs then Some (map_of kvs) else None
      | JArray vs \<Rightarrow> if length vs = length names then Some (map_of (zip names vs)) else None
      | _ \<Rightarrow> None)"

definition de_word :: "json option \<Rightarrow> 'n::len word option" where
  "de_word v = (case v of Some (JNat n) \<Rightarrow> if n < 2 ^ LENGTH('n) then Some (word_of_nat n) else None | _ \<Rightarrow> None)"

definition de_string :: "json option \<Rightarrow> string option" where
  "de_string v = (case v of Some (JString s) \<Rightarrow> Some s | _ \<Rightarrow> None)"

text \<open>An \<open>Option<T>\<close> field: missing and null are \<open>None\<close>.\<close>

definition de_option :: "(json option \<Rightarrow> 'a option) \<Rightarrow> json option \<Rightarrow> 'a option option" where
  "de_option de v = (case v of None \<Rightarrow> Some None | Some JNull \<Rightarrow> Some None | _ \<Rightarrow> map_option Some (de v))"

definition ser_option :: "('a \<Rightarrow> json) \<Rightarrow> 'a option \<Rightarrow> json" where
  "ser_option ser x = (case x of None \<Rightarrow> JNull | Some y \<Rightarrow> ser y)"

text \<open>\<open>Value\<close> keeps the last of repeated keys, \<open>get\<close> and the \<open>as_\<close> readers look into it.\<close>

primrec to_value :: "json \<Rightarrow> json" where
  "to_value JNull = JNull"
| "to_value (JBool b) = JBool b"
| "to_value (JNat n) = JNat n"
| "to_value (JOtherNumber s) = JOtherNumber s"
| "to_value (JString s) = JString s"
| "to_value (JArray vs) = JArray (map to_value vs)"
| "to_value (JObject kvs) =
     JObject (fold (\<lambda>(k, v). AList.update k v) (map (map_prod id to_value) kvs) [])"

definition as_object :: "json \<Rightarrow> (string \<times> json) list option" where
  "as_object v = (case v of JObject kvs \<Rightarrow> Some kvs | _ \<Rightarrow> None)"

definition as_str :: "json \<Rightarrow> string option" where
  "as_str v = (case v of JString s \<Rightarrow> Some s | _ \<Rightarrow> None)"

definition as_bool :: "json \<Rightarrow> bool option" where
  "as_bool v = (case v of JBool b \<Rightarrow> Some b | _ \<Rightarrow> None)"

definition value_get :: "string \<Rightarrow> json \<Rightarrow> json option" where
  "value_get k v = (case v of JObject kvs \<Rightarrow> map_of kvs k | _ \<Rightarrow> None)"

definition as_u64 :: "json \<Rightarrow> nat option" where
  "as_u64 v = (case v of JNat n \<Rightarrow> if n < 2 ^ 64 then Some n else None | _ \<Rightarrow> None)"

text \<open>
  A unit variant is read from its name, or from an object with that name as the only key and null as
  its value.
\<close>

definition de_variant :: "(string \<times> 'a) list \<Rightarrow> json option \<Rightarrow> 'a option" where
  "de_variant names v =
     (case v of
        Some (JString s) \<Rightarrow> map_of names s
      | Some (JObject [(s, JNull)]) \<Rightarrow> map_of names s
      | _ \<Rightarrow> None)"

definition variant_name :: "(string \<times> 'a) list \<Rightarrow> 'a \<Rightarrow> string" where
  "variant_name names x = (case find (\<lambda>(s, y). y = x) names of None \<Rightarrow> [] | Some (s, _) \<Rightarrow> s)"

lemma de_word_nat [simp]: "de_word (Some (JNat (unat (w :: 'n::len word)))) = Some w"
  by (simp add: de_word_def unsigned_less)

text \<open>\<open>BTreeMap<String, String>\<close>: repeated keys keep the last value.\<close>

definition de_string_map :: "json \<Rightarrow> string btree_map option" where
  "de_string_map v =
     (case v of
        JObject kvs \<Rightarrow>
          (if list_all (\<lambda>(k, w). as_str w \<noteq> None) kvs
           then Some (bt_collect (map (\<lambda>(k, w). (k, the (as_str w))) kvs)) else None)
      | _ \<Rightarrow> None)"

lemma de_string_map_params:
  assumes "bt_sorted ps"
  shows "de_string_map (JObject (map (\<lambda>(k, v). (k, JString v)) ps)) = Some ps"
proof -
  have "map (\<lambda>(k, w). (k, the (as_str w))) (map (\<lambda>(k, v). (k, JString v)) ps) = ps"
    by (induction ps) (auto simp: as_str_def)
  moreover have "list_all (\<lambda>(k, w). as_str w \<noteq> None) (map (\<lambda>(k, v). (k, JString v)) ps)"
    by (auto simp: list_all_iff as_str_def)
  ultimately show ?thesis using bt_collect_sorted [OF assms] by (simp add: de_string_map_def)
qed

end
