(* ===== verification/Paths.thy ===== *)
theory Paths
  imports Prelude
begin

text \<open>
  Windows paths as \<open>std::path::Path\<close> compares them: by components.  The sources only join single
  file and directory names to protected roots and ask for parents and file names, so a path is its
  component list.  The kinds of I/O errors the sources tell apart and the \<open>?\<close> operator on
  state-passing steps are here too.
\<close>

section \<open>I/O results\<close>

datatype io_kind = IoNotFound | IoInvalidData | IoInvalidInput | IoOther

text \<open>The \<open>?\<close> operator on a state-passing step.\<close>

definition and_then ::
  "('e + 'a) \<times> 's \<Rightarrow> ('a \<Rightarrow> 's \<Rightarrow> ('e + 'b) \<times> 's) \<Rightarrow> ('e + 'b) \<times> 's" where
  "and_then m k = (case fst m of Inl e \<Rightarrow> (Err e, snd m) | Inr x \<Rightarrow> k x (snd m))"

lemma and_then_Ok: "and_then m k = (Inr y, s') \<longleftrightarrow> (\<exists>x s. m = (Inr x, s) \<and> k x s = (Inr y, s'))"
  by (cases m) (auto simp: and_then_def split: sum.splits)

section \<open>Paths\<close>

datatype path_component = Prefix string | RootDir | CurDir | ParentDir | Normal string

type_synonym path = "path_component list"

definition path_join :: "path \<Rightarrow> string \<Rightarrow> path" where
  "path_join p name = p @ [Normal name]"

text \<open>\<open>Path::parent\<close> and \<open>Path::file_name\<close>: a path that ends in its root has neither.\<close>

definition path_parent :: "path \<Rightarrow> path option" where
  "path_parent p =
     (if p = [] then None
      else case last p of Prefix _ \<Rightarrow> None | RootDir \<Rightarrow> None | _ \<Rightarrow> Some (butlast p))"

definition path_file_name :: "path \<Rightarrow> string option" where
  "path_file_name p = (if p = [] then None else case last p of Normal n \<Rightarrow> Some n | _ \<Rightarrow> None)"

text \<open>\<open>Path::display\<close>: components with the separator between them.\<close>

fun component_display :: "path_component \<Rightarrow> string" where
  "component_display (Prefix s) = s"
| "component_display RootDir = [char_of (92 :: nat)]"
| "component_display CurDir = ''.''"
| "component_display ParentDir = ''..''"
| "component_display (Normal s) = s"

fun path_display :: "path \<Rightarrow> string" where
  "path_display [] = []"
| "path_display [c] = component_display c"
| "path_display (Prefix s # rest) = s @ path_display rest"
| "path_display (RootDir # rest) = component_display RootDir @ path_display rest"
| "path_display (c # rest) = component_display c @ [char_of (92 :: nat)] @ path_display rest"

lemma path_parent_join [simp]: "path_parent (path_join p name) = Some p"
  by (simp add: path_parent_def path_join_def)

lemma path_file_name_join [simp]: "path_file_name (path_join p name) = Some name"
  by (simp add: path_file_name_def path_join_def)

lemma path_join_eq_iff [simp]: "path_join p a = path_join q b \<longleftrightarrow> p = q \<and> a = b"
  by (simp add: path_join_def)

end
