(* ===== verification/Helper_Broker.thy ===== *)
theory Helper_Broker
  imports Host_Types Json Paths
begin

text \<open>
  The fixed helper broker (\<open>host/src/helper_broker.rs\<close>): it launches the injector of the protected
  runtime on one target, reads the bounded JSON answer, and turns answer, exit code and launch error
  into the broker result the orchestrator acts on.  The launcher, the module probe, the file query
  and the JSON parser are fields of the record \<open>broker_env\<close>; every call is appended to a trace.
  The verbs of the setup broker (\<open>contract/src/broker.rs\<close>) close the theory.
\<close>

section \<open>Assets and invocations\<close>

definition REQUIRED_RUNTIME_FILES :: "string list" where
  "REQUIRED_RUNTIME_FILES =
     [''mactype-service.exe'', ''mactype-injector32.exe'', ''mactype-injector64.exe'',
      ''MacType.dll'', ''MacType64.dll'', ''MacType.ini'']"

record protected_runtime_assets =
  ra_root :: path
  ra_injector32 :: path
  ra_injector64 :: path
  ra_generation_id :: string

text \<open>What \<open>load_from_generation\<close> builds once the files of a generation root are verified.\<close>

definition assets_of :: "path \<Rightarrow> string \<Rightarrow> protected_runtime_assets" where
  "assets_of root generation_id =
     \<lparr>ra_root = root, ra_injector32 = path_join root ''mactype-injector32.exe'',
      ra_injector64 = path_join root ''mactype-injector64.exe'', ra_generation_id = generation_id\<rparr>"

definition HELPER_TIMEOUT :: duration where "HELPER_TIMEOUT = from_secs 20"
definition MAX_HELPER_OUTPUT_BYTES :: nat where "MAX_HELPER_OUTPUT_BYTES = 1024"
definition MODULE_ALREADY_LOADED_CODE :: string where
  "MODULE_ALREADY_LOADED_CODE = ''module-already-loaded''"

record helper_invocation =
  hi_executable :: path
  hi_target :: process_identity
  hi_generation_id :: string
  hi_timeout :: duration

definition arguments_for_process_handle :: "helper_invocation \<Rightarrow> u64 \<Rightarrow> string list" where
  "arguments_for_process_handle h process_handle =
     [''--process-handle'', show_word process_handle,
      ''--pid'', show_word (pid (hi_target h)),
      ''--creation-time'', show_word (creation_time (hi_target h)),
      ''--session-id'', show_word (session_id (hi_target h)),
      ''--generation-id'', hi_generation_id h]"

text \<open>The exit code is an \<open>i32\<close>, kept as its 32 bits.\<close>

record helper_output =
  ho_exit_code :: "32 word"
  ho_stdout :: string

datatype helper_launch_stage = BeforeResume | AfterResume

datatype error_kind = KindInterrupted | KindTimedOut | KindOther

record helper_launch_error =
  hle_stage :: helper_launch_stage
  hle_kind :: error_kind
  hle_raw_os_error :: "u32 option"

datatype fixed_module_state = FmLoaded | FmAbsent | FmUnknown

record 'w broker_env =
  be_assets :: protected_runtime_assets
  be_parse_json :: "string \<Rightarrow> json option"
  be_launch :: "helper_invocation \<Rightarrow> 'w \<Rightarrow> (helper_launch_error + helper_output) \<times> 'w"
  be_fixed_module_state :: "process_identity \<Rightarrow> path \<Rightarrow> 'w \<Rightarrow> fixed_module_state \<times> 'w"
  be_is_file :: "path \<Rightarrow> 'w \<Rightarrow> bool \<times> 'w"

datatype broker_call =
    BcProbe process_identity path
  | BcLaunch helper_invocation
  | BcIsFile path
  | BcRecord host_event

type_synonym 'w broker_io = "'w \<times> broker_call list"

definition helper_for :: "protected_runtime_assets \<Rightarrow> process_architecture \<Rightarrow> path" where
  "helper_for assets a = (case a of X86 \<Rightarrow> ra_injector32 assets | X64 \<Rightarrow> ra_injector64 assets)"

definition renderer_name :: "process_architecture \<Rightarrow> string" where
  "renderer_name a = (case a of X86 \<Rightarrow> ''MacType.dll'' | X64 \<Rightarrow> ''MacType64.dll'')"

definition invocation :: "protected_runtime_assets \<Rightarrow> injection_request \<Rightarrow> helper_invocation" where
  "invocation assets request =
     \<lparr>hi_executable = helper_for assets (architecture (req_identity request)),
      hi_target = req_identity request, hi_generation_id = req_generation_id request,
      hi_timeout = HELPER_TIMEOUT\<rparr>"

definition fixed_module :: "protected_runtime_assets \<Rightarrow> process_architecture \<Rightarrow> path" where
  "fixed_module assets a = path_join (ra_root assets) (renderer_name a)"

section \<open>Reading the helper's answer\<close>

definition invalid_response :: "string \<Rightarrow> broker_result" where
  "invalid_response code =
     \<lparr>br_disposition = BdRetryableFailure, br_code = code, br_win32_error = None\<rparr>"

definition status_disposition :: "string option \<Rightarrow> string \<Rightarrow> (broker_disposition \<times> 32 word) option" where
  "status_disposition status code =
     (if status = Some ''injected'' then Some (BdInjected, 0)
      else if status = Some ''skipped'' \<and> code = ''process-frozen'' then Some (BdTargetFrozen, 0)
      else if status = Some ''skipped'' then Some (BdSkipped, 0)
      else if status = Some ''rejected'' then Some (BdRejected, 2)
      else if status = Some ''failed'' then Some (BdRetryableFailure, 3)
      else if status = Some ''timeout'' then Some (BdRetryableFailure, 4)
      else None)"

text \<open>The members that must agree with the request, in the order of the code's condition.\<close>

definition answer_disagrees :: "injection_request \<Rightarrow> json \<Rightarrow> bool" where
  "answer_disagrees request value \<longleftrightarrow>
     (let identity = req_identity request
      in Option.bind (value_get ''schemaVersion'' value) as_u64 \<noteq> Some 1
         \<or> Option.bind (value_get ''pid'' value) as_u64 \<noteq> Some (unat (pid identity))
         \<or> Option.bind (value_get ''sessionId'' value) as_u64 \<noteq> Some (unat (session_id identity))
         \<or> Option.bind (value_get ''generationId'' value) as_str \<noteq> Some (req_generation_id request)
         \<or> Option.bind (value_get ''module'' value) as_str
              \<noteq> Some (renderer_name (architecture identity))
         \<or> (case Option.bind (value_get ''windowsError'' value) as_u64 of
              None \<Rightarrow> True | Some e \<Rightarrow> 2 ^ 32 - 1 < e)
         \<or> Option.bind (value_get ''cleanupComplete'' value) as_bool = None)"

text \<open>The result of an answer that agrees with the request.\<close>

definition stated_result :: "helper_output \<Rightarrow> json \<Rightarrow> string \<Rightarrow> broker_result" where
  "stated_result out value code =
     (let cleanup = Option.bind (value_get ''cleanupComplete'' value) as_bool
      in case status_disposition (Option.bind (value_get ''status'' value) as_str) code of
           None \<Rightarrow> invalid_response ''helper-response-invalid''
         | Some (disposition, expected_exit) \<Rightarrow>
             if ho_exit_code out \<noteq> expected_exit then invalid_response ''helper-exit-mismatch''
             else \<lparr>br_disposition = (if cleanup = Some False then BdRejected else disposition),
                   br_code = (if cleanup = Some False
                              then (if ends_with code ''-cleanup-unknown'' then code
                                    else ''helper-reported-cleanup-unknown'')
                              else code),
                   br_win32_error =
                     (case Option.bind (value_get ''windowsError'' value) as_u64 of
                        None \<Rightarrow> None
                      | Some e \<Rightarrow> if e = 0 then None else Some (word_of_nat e))\<rparr>)"

definition parse_output ::
  "(string \<Rightarrow> json option) \<Rightarrow> injection_request \<Rightarrow> helper_output \<Rightarrow> broker_result" where
  "parse_output parse_json request out =
     (if MAX_HELPER_OUTPUT_BYTES < length (ho_stdout out)
      then invalid_response ''helper-response-too-large''
      else case parse_json (ho_stdout out) of
        None \<Rightarrow> invalid_response ''helper-response-invalid''
      | Some tree \<Rightarrow>
        (case as_object (to_value tree) of
           None \<Rightarrow> invalid_response ''helper-response-invalid''
         | Some members \<Rightarrow>
             if length members \<noteq> 9 then invalid_response ''helper-response-invalid''
             else (case Option.bind (value_get ''code'' (to_value tree)) as_str of
                     None \<Rightarrow> invalid_response ''helper-response-invalid''
                   | Some code \<Rightarrow>
                       if code = [] then invalid_response ''helper-response-invalid''
                       else if answer_disagrees request (to_value tree)
                       then invalid_response ''helper-response-invalid''
                       else stated_result out (to_value tree) code)))"

section \<open>The broker\<close>

definition show_win32 :: "u32 option \<Rightarrow> string" where
  "show_win32 e = (case e of None \<Rightarrow> ''None'' | Some code \<Rightarrow> ''Some('' @ show_word code @ '')'')"

definition verify_ready ::
  "('w, 'x) broker_env_scheme \<Rightarrow> process_architecture \<Rightarrow> 'w broker_io \<Rightarrow>
     (structured_service_error + unit) \<times> 'w broker_io" where
  "verify_ready env a io =
     (let assets = be_assets env; helper = helper_for assets a;
          (is_file, w) = be_is_file env helper (fst io); t = snd io @ [BcIsFile helper]
      in if is_file \<and> path_parent helper = Some (ra_root assets) then (Ok (), (w, t))
         else (Err (service_error ''runtime-helper-unavailable''
                      ''the fixed helper is not ready in the protected runtime generation''),
               (w, t @ [BcRecord (EvHelperBrokerFailed a ''runtime-helper-unavailable''
                                    (Some (''helper='' @ path_display helper)))])))"

definition launch_error_result :: "helper_launch_error \<Rightarrow> broker_result" where
  "launch_error_result e =
     (if hle_stage e = BeforeResume \<and> hle_kind e = KindInterrupted
      then \<lparr>br_disposition = BdCancelled, br_code = ''helper-cancelled-service-stop'',
            br_win32_error = hle_raw_os_error e\<rparr>
      else \<lparr>br_disposition = (if hle_stage e = BeforeResume then BdLaunchFailed else BdRejected),
            br_code = (if hle_stage e = BeforeResume then ''helper-launch-failed-before-resume''
                       else if hle_kind e = KindInterrupted then ''helper-service-stop-cleanup-unknown''
                       else if hle_kind e = KindTimedOut then ''helper-absolute-timeout-cleanup-unknown''
                       else ''helper-launch-failed-cleanup-unknown''),
            br_win32_error = hle_raw_os_error e\<rparr>)"

definition reported_code :: "string \<Rightarrow> bool" where
  "reported_code code \<longleftrightarrow> ends_with code ''-cleanup-unknown''
     \<or> code \<in> {''helper-response-invalid'', ''helper-response-too-large'', ''helper-exit-mismatch''}"

definition failure_event :: "injection_request \<Rightarrow> broker_result \<Rightarrow> host_event" where
  "failure_event request result =
     EvHelperBrokerFailed (architecture (req_identity request)) (br_code result)
       (Some (''pid='' @ show_word (pid (req_identity request)) @ '' creation_time=''
              @ show_word (creation_time (req_identity request)) @ '' win32=''
              @ show_win32 (br_win32_error result)))"

definition broker_inject ::
  "('w, 'x) broker_env_scheme \<Rightarrow> injection_request \<Rightarrow> 'w broker_io \<Rightarrow> broker_result \<times> 'w broker_io" where
  "broker_inject env request io =
     (let assets = be_assets env; identity = req_identity request
      in if req_generation_id request \<noteq> ra_generation_id assets
         then (invalid_response ''runtime-generation-mismatch'', io)
         else
           (let m = fixed_module assets (architecture identity);
                (state, w1) = be_fixed_module_state env identity m (fst io);
                t1 = snd io @ [BcProbe identity m]
            in if state = FmLoaded
               then (\<lparr>br_disposition = BdSkipped, br_code = MODULE_ALREADY_LOADED_CODE,
                      br_win32_error = None\<rparr>, (w1, t1))
               else
                 (let inv = invocation assets request;
                      (launched, w2) = be_launch env inv w1;
                      t2 = t1 @ [BcLaunch inv];
                      result = (case launched of
                                  Inr out \<Rightarrow> parse_output (be_parse_json env) request out
                                | Inl e \<Rightarrow> launch_error_result e)
                  in (result,
                      (w2, t2 @ (if reported_code (br_code result)
                                 then [BcRecord (failure_event request result)] else []))))))"

section \<open>The verbs of the setup broker\<close>

datatype broker_command =
    Install | Upgrade | Repair | Remove | Start | StopCommand | PublishProfile | MigrateFromLegacy
  | Rollback | RestoreRuntime

definition BROKER_COMMANDS :: "(broker_command \<times> string) list" where
  "BROKER_COMMANDS =
     [(Install, ''install''), (Upgrade, ''upgrade''), (Repair, ''repair''), (Remove, ''remove''),
      (Start, ''start''), (StopCommand, ''stop''), (PublishProfile, ''publish-profile''),
      (MigrateFromLegacy, ''migrate-from-legacy''), (Rollback, ''rollback''),
      (RestoreRuntime, ''restore-runtime'')]"

text \<open>\<open>self as usize\<close> is the position of the constructor.\<close>

fun discriminant :: "broker_command \<Rightarrow> nat" where
  "discriminant Install = 0"
| "discriminant Upgrade = 1"
| "discriminant Repair = 2"
| "discriminant Remove = 3"
| "discriminant Start = 4"
| "discriminant StopCommand = 5"
| "discriminant PublishProfile = 6"
| "discriminant MigrateFromLegacy = 7"
| "discriminant Rollback = 8"
| "discriminant RestoreRuntime = 9"

definition verb :: "broker_command \<Rightarrow> string" where
  "verb c = snd (BROKER_COMMANDS ! discriminant c)"

definition parse_verb :: "string \<Rightarrow> broker_command option" where
  "parse_verb v = map_option fst (find (\<lambda>(command, fixed_verb). fixed_verb = v) BROKER_COMMANDS)"

definition parse_broker_command :: "string list \<Rightarrow> unit + broker_command" where
  "parse_broker_command arguments =
     (case arguments of
        [] \<Rightarrow> Err ()
      | [v] \<Rightarrow> (case parse_verb v of None \<Rightarrow> Err () | Some c \<Rightarrow> Ok c)
      | _ \<Rightarrow> Err ())"

end
