(* ===== verification/Broker_Properties.thy ===== *)
theory Broker_Properties
  imports Helper_Broker Orchestrator_Properties
begin

text \<open>
  What the orchestrator may rely on when the fixed helper broker answers it: an injection is
  reported only for a helper that confirmed the exact target, an answer that leaves the state of the
  target unknown is never retried, and every unusable answer is recorded.
\<close>

section \<open>What a helper states\<close>

text \<open>
  The specification of a usable answer: bounded, nine members, and each member that identifies the
  target and the runtime generation equal to the request's.
\<close>

definition helper_states ::
  "(string \<Rightarrow> json option) \<Rightarrow> injection_request \<Rightarrow> helper_output \<Rightarrow> string \<Rightarrow> string \<Rightarrow> bool \<Rightarrow> bool" where
  "helper_states parse_json request out status code cleanup \<longleftrightarrow>
     length (ho_stdout out) \<le> MAX_HELPER_OUTPUT_BYTES \<and> code \<noteq> []
     \<and> (\<exists>tree members e. parse_json (ho_stdout out) = Some tree \<and> to_value tree = JObject members
          \<and> length members = 9
          \<and> map_of members ''schemaVersion'' = Some (JNat 1)
          \<and> map_of members ''pid'' = Some (JNat (unat (pid (req_identity request))))
          \<and> map_of members ''sessionId'' = Some (JNat (unat (session_id (req_identity request))))
          \<and> map_of members ''generationId'' = Some (JString (req_generation_id request))
          \<and> map_of members ''module'' =
              Some (JString (renderer_name (architecture (req_identity request))))
          \<and> map_of members ''windowsError'' = Some (JNat e) \<and> e < 2 ^ 32
          \<and> map_of members ''status'' = Some (JString status)
          \<and> map_of members ''code'' = Some (JString code)
          \<and> map_of members ''cleanupComplete'' = Some (JBool cleanup))"

lemma as_object_Some: "as_object v = Some members \<longleftrightarrow> v = JObject members"
  by (cases v) (auto simp: as_object_def)

lemma as_str_Some: "as_str v = Some s \<longleftrightarrow> v = JString s"
  by (cases v) (auto simp: as_str_def)

lemma as_bool_Some: "as_bool v = Some b \<longleftrightarrow> v = JBool b"
  by (cases v) (auto simp: as_bool_def)

lemma as_u64_Some: "as_u64 v = Some n \<longleftrightarrow> v = JNat n \<and> n < 2 ^ 64"
  by (cases v) (auto simp: as_u64_def)

lemma value_get_object [simp]: "value_get k (JObject members) = map_of members k"
  by (simp add: value_get_def)

lemma member_Some: "Option.bind (m k) reader = Some x \<longleftrightarrow> (\<exists>v. m k = Some v \<and> reader v = Some x)"
  by (cases "m k") auto

lemmas json_readers = as_object_Some as_str_Some as_bool_Some as_u64_Some bind_eq_Some_conv

definition statement_result :: "broker_disposition \<Rightarrow> string \<Rightarrow> bool \<Rightarrow> broker_result \<Rightarrow> bool" where
  "statement_result d code cleanup r \<longleftrightarrow>
     br_disposition r = (if cleanup then d else BdRejected)
     \<and> br_code r = (if cleanup \<or> ends_with code ''-cleanup-unknown'' then code
                    else ''helper-reported-cleanup-unknown'')"

definition unusable_codes :: "string set" where
  "unusable_codes = {''helper-response-invalid'', ''helper-response-too-large'', ''helper-exit-mismatch''}"


lemma status_disposition_status: "status_disposition x code = Some y \<Longrightarrow> \<exists>s. x = Some s"
  by (cases x) (simp_all add: status_disposition_def)

lemma parse_output_cases:
  assumes "parse_output parse_json request out = r"
  obtains (unusable) c where "r = invalid_response c" and "c \<in> unusable_codes"
  | (stated) status code cleanup d where "helper_states parse_json request out status code cleanup"
      and "status_disposition (Some status) code = Some (d, ho_exit_code out)"
      and "statement_result d code cleanup r"
proof -
  show thesis
  proof (cases "r = invalid_response ''helper-response-too-large'' \<or> r = invalid_response ''helper-response-invalid''
      \<or> r = invalid_response ''helper-exit-mismatch''")
    case True
    then show thesis using unusable by (auto simp: unusable_codes_def)
  next
    case usable: False
    have len: "length (ho_stdout out) \<le> MAX_HELPER_OUTPUT_BYTES"
      using usable assms by (auto simp: parse_output_def split: if_splits)
    obtain tree where tree: "parse_json (ho_stdout out) = Some tree"
      using usable assms by (cases "parse_json (ho_stdout out)") (auto simp: parse_output_def split: if_splits)
    obtain members where members: "to_value tree = JObject members" "length members = 9"
      using usable assms len tree by (cases "as_object (to_value tree)")
        (auto simp: parse_output_def as_object_Some split: if_splits)
    obtain code where code: "map_of members ''code'' = Some (JString code)" "code \<noteq> []"
      using usable assms len tree members
      by (cases "Option.bind (map_of members ''code'') as_str")
        (auto simp: parse_output_def as_object_def json_readers split: if_splits)
    have r: "r = stated_result out (JObject members) code" "\<not> answer_disagrees request (JObject members)"
      using usable assms len tree members code
      by (auto simp: parse_output_def as_object_def as_str_def split: if_splits)
    obtain d where sd:
        "status_disposition (Option.bind (map_of members ''status'') as_str) code = Some (d, ho_exit_code out)"
      using r(1) usable
      by (cases "status_disposition (Option.bind (map_of members ''status'') as_str) code")
        (auto simp: stated_result_def Let_def split: if_splits)
    then obtain status where status: "map_of members ''status'' = Some (JString status)"
      by (auto simp: json_readers dest: status_disposition_status)
    with sd have d: "map_of members ''status'' = Some (JString status)"
        "status_disposition (Some status) code = Some (d, ho_exit_code out)"
      by (auto simp: as_str_def)
    obtain cleanup e where agrees: "helper_states parse_json request out status code cleanup"
        "map_of members ''cleanupComplete'' = Some (JBool cleanup)"
      using r(2) len tree members code d(1)
      by (auto simp: answer_disagrees_def helper_states_def Let_def json_readers not_less
          split: option.splits)
    have "statement_result d code cleanup r"
      using r(1) d agrees(2)
      by (auto simp: stated_result_def statement_result_def as_str_def as_bool_def)
    then show thesis using stated agrees(1) d(2) by blast
  qed
qed

section \<open>One injection\<close>

text \<open>The helper runs for a request, in the world the module probe left.\<close>

definition helper_runs ::
  "('w, 'x) broker_env_scheme \<Rightarrow> injection_request \<Rightarrow> 'w \<Rightarrow> (helper_launch_error + helper_output) \<Rightarrow> 'w \<Rightarrow> bool" where
  "helper_runs env request w answer w' \<longleftrightarrow>
     req_generation_id request = ra_generation_id (be_assets env)
     \<and> (let m = fixed_module (be_assets env) (architecture (req_identity request));
            (state, w1) = be_fixed_module_state env (req_identity request) m w
        in state \<noteq> FmLoaded \<and> be_launch env (invocation (be_assets env) request) w1 = (answer, w'))"

definition probe_and_launch :: "protected_runtime_assets \<Rightarrow> injection_request \<Rightarrow> broker_call list" where
  "probe_and_launch assets request =
     [BcProbe (req_identity request) (fixed_module assets (architecture (req_identity request))),
      BcLaunch (invocation assets request)]"

lemma broker_inject_cases:
  assumes "broker_inject env request (w, t) = (r, w', t')"
  obtains (mismatch) "r = invalid_response ''runtime-generation-mismatch''" and "w' = w" and "t' = t"
      and "req_generation_id request \<noteq> ra_generation_id (be_assets env)"
  | (loaded) "r = \<lparr>br_disposition = BdSkipped, br_code = MODULE_ALREADY_LOADED_CODE, br_win32_error = None\<rparr>"
  | (answered) out where "helper_runs env request w (Inr out) w'"
      and "r = parse_output (be_parse_json env) request out"
      and "t' = t @ probe_and_launch (be_assets env) request
             @ (if reported_code (br_code r) then [BcRecord (failure_event request r)] else [])"
  | (failed) e where "helper_runs env request w (Inl e) w'" and "r = launch_error_result e"
      and "t' = t @ probe_and_launch (be_assets env) request
             @ (if reported_code (br_code r) then [BcRecord (failure_event request r)] else [])"
proof (cases "req_generation_id request \<noteq> ra_generation_id (be_assets env)")
  case True
  then show thesis using assms mismatch by (simp add: broker_inject_def)
next
  case same: False
  let ?m = "fixed_module (be_assets env) (architecture (req_identity request))"
  obtain state w1 where probe: "be_fixed_module_state env (req_identity request) ?m w = (state, w1)"
    by fastforce
  obtain launched w2 where launch: "be_launch env (invocation (be_assets env) request) w1 = (launched, w2)"
    by fastforce
  show thesis
  proof (cases "state = FmLoaded")
    case True
    then show thesis using assms same probe by (auto simp: broker_inject_def Let_def intro: loaded)
  next
    case False
    then have "helper_runs env request w launched w2"
      using same probe launch by (simp add: helper_runs_def)
    then show thesis
      using assms same probe launch False answered failed
      by (cases launched) (auto simp: broker_inject_def probe_and_launch_def Let_def)
  qed
qed




lemma invalid_response_simps [simp]:
  "br_disposition (invalid_response c) = BdRetryableFailure" "br_code (invalid_response c) = c"
  "br_win32_error (invalid_response c) = None"
  by (simp_all add: invalid_response_def)

lemma launch_error_not_injected: "br_disposition (launch_error_result e) \<in> {BdCancelled, BdLaunchFailed, BdRejected}"
  by (simp add: launch_error_result_def)

lemma status_disposition_injected:
  "status_disposition (Some status) code = Some (BdInjected, x) \<longleftrightarrow> status = ''injected'' \<and> x = 0"
  by (auto simp: status_disposition_def)

lemma status_disposition_retryable:
  "status_disposition (Some status) code = Some (BdRetryableFailure, x) \<Longrightarrow>
     (status = ''failed'' \<and> x = 3) \<or> (status = ''timeout'' \<and> x = 4)"
  by (auto simp: status_disposition_def split: if_splits)

section \<open>Properties\<close>

text \<open>
  C14.  The broker reports an injection only when the helper of the request's own runtime generation
  was launched on exactly the requested process and confirmed it: exit code 0, a bounded answer of
  nine members whose identity members equal the request's, status \<open>injected\<close>, and a completed
  clean-up; nothing is recorded as a failure then.
\<close>

theorem injected_means_the_helper_confirmed_it:
  assumes "broker_inject env request (w, t) = (r, w', t')" and "br_disposition r = BdInjected"
  shows "\<exists>out code. helper_runs env request w (Inr out) w' \<and> ho_exit_code out = 0
           \<and> helper_states (be_parse_json env) request out ''injected'' code True
           \<and> br_code r = code"
  using assms(1)
proof (cases rule: broker_inject_cases)
  case (answered out)
  from answered(2) [symmetric] show ?thesis
  proof (cases rule: parse_output_cases)
    case (unusable c)
    then show ?thesis using assms(2) by simp
  next
    case (stated status code cleanup d)
    then have "cleanup" "d = BdInjected"
      using assms(2) by (auto simp: statement_result_def split: if_splits)
    then show ?thesis
      using stated answered(1) status_disposition_injected [of status code "ho_exit_code out"]
      by (auto simp: statement_result_def)
  qed
next
  case (failed e)
  then show ?thesis using assms(2) launch_error_not_injected [of e] by auto
qed (use assms(2) in simp_all)


text \<open>
  An orchestrator whose broker is the fixed helper broker: \<open>env_inject\<close> is \<open>broker_inject\<close> on the
  same world.
\<close>

definition with_fixed_broker :: "('w, 'y) broker_env_scheme \<Rightarrow> ('w, 'x) host_env_scheme \<Rightarrow> ('w, 'x) host_env_scheme" where
  "with_fixed_broker broker env =
     env\<lparr>env_inject := \<lambda>request w.
       (let (r, (w', t)) = broker_inject broker request (w, []) in (r, w'))\<rparr>"

lemma not_retryable_codes:
  "c \<in> unusable_codes \<Longrightarrow> \<not> safe_to_retry_same_identity c"
  "\<not> safe_to_retry_same_identity ''runtime-generation-mismatch''"
  by (auto simp: unusable_codes_def safe_to_retry_same_identity_def)

lemma retryable_needs_statement:
  assumes "broker_inject env request (w, t) = (r, w', t')"
    and "br_disposition r = BdRetryableFailure" and "safe_to_retry_same_identity (br_code r)"
  shows "\<exists>out status code. helper_runs env request w (Inr out) w' \<and> status \<in> {''failed'', ''timeout''}
           \<and> helper_states (be_parse_json env) request out status code True
           \<and> safe_to_retry_same_identity code"
  using assms(1)
proof (cases rule: broker_inject_cases)
  case (answered out)
  from answered(2) [symmetric] show ?thesis
  proof (cases rule: parse_output_cases)
    case (unusable c)
    then show ?thesis using assms(3) not_retryable_codes by auto
  next
    case (stated status code cleanup d)
    then have "cleanup" "d = BdRetryableFailure" "safe_to_retry_same_identity code"
      using assms(2,3) by (auto simp: statement_result_def split: if_splits)
    moreover have "status \<in> {''failed'', ''timeout''}"
      using stated(2) \<open>d = BdRetryableFailure\<close> by (auto dest: status_disposition_retryable)
    ultimately show ?thesis using stated(1) answered(1) by (intro exI conjI) auto
  qed
next
  case (failed e)
  then show ?thesis using assms(2) launch_error_not_injected [of e] by auto
qed (use assms(2,3) not_retryable_codes in auto)

text \<open>
  C16.  One injection attempt of an orchestrator that injects through the fixed helper broker launches a
  second helper for its process only after a first helper that ran to its end stated, in an answer that
  identifies exactly this target and generation, a completed clean-up and one of the pre-injection codes.
  After every other first answer (launch errors, time-outs, unreadable, oversized, foreign or
  contradictory answers, unknown clean-up, a frozen target) the attempt asks the broker no second time;
  a target it defers may be attempted again by a later poll.
\<close>

theorem attempt_relaunches_only_after_a_clean_preinjection_failure:
  assumes "wf_orchestrator s" and "unknown_key i s"
    and "attempt_injection (with_fixed_broker broker env) i deferrals now s = Some (outcome, s')"
    and "filter is_inject (trace s') \<noteq> filter is_inject (trace s) @ [CallInject (request_for i s)]"
  shows "\<exists>out status code w. helper_runs broker (request_for i s) (world s) (Inr out) w
           \<and> status \<in> {''failed'', ''timeout''}
           \<and> helper_states (be_parse_json broker) (request_for i s) out status code True
           \<and> safe_to_retry_same_identity code"
proof -
  obtain r w t where run: "broker_inject broker (request_for i s) (world s, []) = (r, w, t)"
    by (metis prod_cases3)
  then have "fst (env_inject (with_fixed_broker broker env) (request_for i s) (world s)) = r"
    by (simp add: with_fixed_broker_def)
  then have "br_disposition r = BdRetryableFailure \<and> safe_to_retry_same_identity (br_code r)"
    using attempt_injection_once [OF assms(1,2) _ _ assms(3)] assms(4) by blast
  with retryable_needs_statement [OF run] show ?thesis by blast
qed

lemma parse_verb_verb: "parse_verb (verb c) = Some c"
  by (induction c) code_simp+

lemma verb_listed: "(c, v) \<in> set BROKER_COMMANDS \<Longrightarrow> v = verb c"
  by (auto simp: BROKER_COMMANDS_def verb_def)

lemma parse_verb_Some_iff: "parse_verb v = Some c \<longleftrightarrow> v = verb c"
proof
  assume "parse_verb v = Some c"
  then have "(c, v) \<in> set BROKER_COMMANDS"
    unfolding parse_verb_def find_Some_iff map_option_eq_Some
    by (metis (mono_tags, lifting) case_prod_conv nth_mem prod.collapse fst_conv)
  then show "v = verb c" by (rule verb_listed)
qed (simp add: parse_verb_verb)

lemma verb_inject [simp]: "verb a = verb b \<longleftrightarrow> a = b"
  by (metis parse_verb_verb option.inject)

text \<open>
  The setup broker accepts exactly one argument, one of its ten verbs, and parsing inverts
  printing.
\<close>

theorem broker_verbs_round_trip:
  "parse_broker_command arguments = Ok c \<longleftrightarrow> arguments = [verb c]"
  by (auto simp: parse_broker_command_def parse_verb_Some_iff parse_verb_verb split: list.splits option.splits)

section \<open>Sample runs\<close>

text \<open>
  A broker whose helper exits with the given code and states the given status, code and clean-up
  about process 9; one whose launch fails after the helper was resumed.
\<close>

definition sample_statement :: "string \<Rightarrow> string \<Rightarrow> bool \<Rightarrow> json" where
  "sample_statement status code cleanup =
     JObject [(''schemaVersion'', JNat 1), (''status'', JString status), (''code'', JString code),
       (''pid'', JNat 9), (''sessionId'', JNat 1), (''generationId'', JString ''gen''),
       (''module'', JString ''MacType64.dll''), (''windowsError'', JNat 0),
       (''cleanupComplete'', JBool cleanup)]"

definition sample_broker :: "helper_launch_error + helper_output \<Rightarrow> json \<Rightarrow> unit broker_env" where
  "sample_broker launched statement =
     \<lparr>be_assets = assets_of [Prefix ''C:'', RootDir, Normal ''runtime''] ''gen'',
      be_parse_json = \<lambda>s. Some statement, be_launch = \<lambda>h w. (launched, w),
      be_fixed_module_state = \<lambda>i m w. (FmAbsent, w), be_is_file = \<lambda>p w. (True, w)\<rparr>"

definition sample_request :: injection_request where
  "sample_request = \<lparr>req_identity = sample_identity 9, req_generation_id = ''gen''\<rparr>"

definition sample_output :: "32 word \<Rightarrow> helper_output" where
  "sample_output exit_code = \<lparr>ho_exit_code = exit_code, ho_stdout = ''{}''\<rparr>"



lemma injected_means_the_helper_confirmed_it_witness:
  "\<exists>out code. helper_runs (sample_broker (Inr (sample_output 0)) (sample_statement ''injected'' ''ok'' True))
       sample_request () (Inr out) () \<and> ho_exit_code out = 0
     \<and> helper_states (be_parse_json (sample_broker (Inr (sample_output 0)) (sample_statement ''injected'' ''ok'' True)))
         sample_request out ''injected'' code True \<and> code = ''ok''"
proof -
  let ?b = "sample_broker (Inr (sample_output 0)) (sample_statement ''injected'' ''ok'' True)"
  have run: "broker_inject ?b sample_request ((), [])
      = (\<lparr>br_disposition = BdInjected, br_code = ''ok'', br_win32_error = None\<rparr>, (),
         snd (snd (broker_inject ?b sample_request ((), []))))"
    by code_simp
  from injected_means_the_helper_confirmed_it [OF run] show ?thesis by auto
qed


text \<open>A helper that keeps failing before the injection is launched three times.\<close>

definition retrying_broker :: "unit broker_env" where
  "retrying_broker =
     sample_broker (Inr (sample_output 3)) (sample_statement ''failed'' ''session-unavailable'' True)"

lemma attempt_relaunches_only_after_a_clean_preinjection_failure_witness:
  "\<exists>out status code w. helper_runs retrying_broker (request_for (sample_identity 9) sample_start)
         (world sample_start) (Inr out) w
     \<and> status \<in> {''failed'', ''timeout''}
     \<and> helper_states (be_parse_json retrying_broker) (request_for (sample_identity 9) sample_start)
         out status code True
     \<and> safe_to_retry_same_identity code"
proof -
  let ?env = "with_fixed_broker retrying_broker (sample_env LcRunning (sample_answer BdInjected ''ok''))"
  let ?run = "attempt_injection ?env (sample_identity 9) 0 0 sample_start"
  have u: "unknown_key (sample_identity 9) sample_start"
    by (simp add: unknown_key_def sample_start_def with_runtime_context_def with_retry_policy_def
        build_orchestrator_def)
  have three: "map_option (\<lambda>(outcome, s). length (filter is_inject (trace s))) ?run = Some 3"
    by code_simp
  then obtain outcome s' where run: "?run = Some (outcome, s')"
      and n: "length (filter is_inject (trace s')) = 3"
    by auto
  have "length (filter is_inject (trace sample_start) @ [CallInject (request_for (sample_identity 9) sample_start)]) = 1"
    by code_simp
  with n have "filter is_inject (trace s')
      \<noteq> filter is_inject (trace sample_start) @ [CallInject (request_for (sample_identity 9) sample_start)]"
    by auto
  from attempt_relaunches_only_after_a_clean_preinjection_failure [OF sample_start_wf u run this]
  show ?thesis .
qed

end
