(* ===== verification/Event_Log.thy ===== *)
theory Event_Log
  imports Json Paths
begin

text \<open>
  The event log of the contract crate (\<open>contract/src/event_log.rs\<close>): records and their validity, the
  sanitizer (line breaks, secrets, nonce candidates, bounded length), the writer with its rotation
  over numbered backups, the reader that merges the files, and the throttle.

  The file system is a map from paths to contents with a script of faults, one entry per system
  call: \<^term>\<open>None\<close> lets the call succeed, \<^term>\<open>Some n\<close> makes it fail with an error other than
  \<open>NotFound\<close> (a failing write leaves its first \<open>n\<close> bytes behind).  The JSON text format is a pair of
  parameters, a printer and a parser of \<^typ>\<open>json\<close> values.
\<close>

section \<open>Records\<close>

definition EVENT_LOG_SCHEMA_VERSION :: u16 where "EVENT_LOG_SCHEMA_VERSION = 1"
definition MAX_EVENT_LOG_BYTES :: nat where "MAX_EVENT_LOG_BYTES = 512 * 1024"
definition EVENT_LOG_BACKUPS :: nat where "EVENT_LOG_BACKUPS = 4"
definition MAX_EVENT_CODE_BYTES :: nat where "MAX_EVENT_CODE_BYTES = 64"
definition MAX_EVENT_PARAMS :: nat where "MAX_EVENT_PARAMS = 8"
definition MAX_EVENT_PARAM_BYTES :: nat where "MAX_EVENT_PARAM_BYTES = 260"
definition MAX_EVENT_DETAIL_BYTES :: nat where "MAX_EVENT_DETAIL_BYTES = 24 * 1024"

datatype event_severity = SevInfo | SevNotice | SevWarning | SevError

datatype event_area =
    AreaService | AreaSetup | AreaProfile | AreaPreview | AreaInjection | AreaControlCenter | AreaTray

datatype event_source = SrcServiceHost | SrcServiceSetup | SrcControlCenter

record event_record =
  er_v :: u16
  er_ts :: u64
  er_severity :: event_severity
  er_area :: event_area
  er_code :: string
  er_params :: "string btree_map"
  er_detail :: "string option"
  er_source :: event_source

definition new_event_record ::
  "u64 \<Rightarrow> event_severity \<Rightarrow> event_area \<Rightarrow> string \<Rightarrow> string btree_map \<Rightarrow> string option \<Rightarrow> event_source \<Rightarrow>
     event_record" where
  "new_event_record ts severity area code params detail source =
     \<lparr>er_v = EVENT_LOG_SCHEMA_VERSION, er_ts = ts, er_severity = severity, er_area = area,
      er_code = code, er_params = params, er_detail = detail, er_source = source\<rparr>"

definition valid_code :: "string \<Rightarrow> bool" where
  "valid_code code \<longleftrightarrow> code \<noteq> [] \<and> length code \<le> MAX_EVENT_CODE_BYTES
     \<and> list_all (\<lambda>c. is_ascii_lowercase c \<or> is_ascii_digit c \<or> c = CHR ''-'') code"

definition valid_record :: "event_record \<Rightarrow> bool" where
  "valid_record r \<longleftrightarrow> er_v r = EVENT_LOG_SCHEMA_VERSION \<and> valid_code (er_code r)
     \<and> length (er_params r) \<le> MAX_EVENT_PARAMS
     \<and> list_all (\<lambda>(k, v). length k \<le> MAX_EVENT_PARAM_BYTES \<and> length v \<le> MAX_EVENT_PARAM_BYTES)
         (er_params r)
     \<and> (case er_detail r of None \<Rightarrow> True | Some d \<Rightarrow> length d \<le> MAX_EVENT_DETAIL_BYTES)"

section \<open>Sanitizing text\<close>

definition replace_line_breaks :: "string \<Rightarrow> string" where
  "replace_line_breaks s = map (\<lambda>c. if byte c = 13 \<or> byte c = 10 then CHR '' '' else c) s"

text \<open>\<open>str::replace\<close> with a non-empty pattern: non-overlapping matches from the left.\<close>

function replace_all :: "string \<Rightarrow> string \<Rightarrow> string \<Rightarrow> string" where
  "replace_all pattern new [] = []"
| "replace_all pattern new (c # s) =
     (if pattern \<noteq> [] \<and> starts_with (c # s) pattern
      then new @ replace_all pattern new (drop (length pattern) (c # s))
      else c # replace_all pattern new s)"
  by pat_completeness auto
termination by (relation "measure (\<lambda>(_, _, s). length s)") (auto simp: length_greater_0_conv [symmetric] simp del: length_greater_0_conv)

text \<open>Runs of exactly 32 hexadecimal digits are redacted; other bytes are copied.\<close>

function redact_nonce_candidates :: "string \<Rightarrow> string" where
  "redact_nonce_candidates s =
     (case s of
        [] \<Rightarrow> []
      | c # rest \<Rightarrow>
          if is_ascii_hexdigit c
          then (let run = takeWhile is_ascii_hexdigit s
                in (if length run = 32 then ''[redacted-nonce]'' else run)
                   @ redact_nonce_candidates (dropWhile is_ascii_hexdigit s))
          else c # redact_nonce_candidates rest)"
  by pat_completeness auto
termination
  by (relation "measure length") (auto simp: length_dropWhile_le le_imp_less_Suc)

declare redact_nonce_candidates.simps [simp del]

fun floor_char_boundary :: "string \<Rightarrow> nat \<Rightarrow> nat" where
  "floor_char_boundary s 0 = 0"
| "floor_char_boundary s (Suc n) =
     (if is_char_boundary s (Suc n) then Suc n else floor_char_boundary s n)"

definition bounded_text :: "string \<Rightarrow> nat \<Rightarrow> string" where
  "bounded_text value maximum_bytes =
     (if length value \<le> maximum_bytes then value
      else let suffix = '' [truncated]''
           in if maximum_bytes \<le> length suffix then take maximum_bytes suffix
              else take (floor_char_boundary value (maximum_bytes - length suffix)) value @ suffix)"

definition sanitize_text :: "string \<Rightarrow> string list \<Rightarrow> nat \<Rightarrow> string" where
  "sanitize_text value redactions maximum_bytes =
     (let sanitized =
        fold (\<lambda>secret text. replace_all (replace_line_breaks secret) ''[redacted-profile]'' text)
             (filter (\<lambda>secret. secret \<noteq> []) redactions) (replace_line_breaks value)
      in bounded_text (redact_nonce_candidates sanitized) maximum_bytes)"

text \<open>\<open>value.rsplit(['\\', '/']).next()\<close>: what follows the last separator.\<close>

definition profile_file_name :: "string \<Rightarrow> string" where
  "profile_file_name value =
     sanitize_text (rev (takeWhile (\<lambda>c. byte c \<noteq> 92 \<and> byte c \<noteq> 47) (rev value))) [] MAX_EVENT_PARAM_BYTES"

section \<open>Records as JSON\<close>

definition severity_names :: "(string \<times> event_severity) list" where
  "severity_names =
     [(''info'', SevInfo), (''notice'', SevNotice), (''warning'', SevWarning), (''error'', SevError)]"

definition area_names :: "(string \<times> event_area) list" where
  "area_names =
     [(''service'', AreaService), (''setup'', AreaSetup), (''profile'', AreaProfile),
      (''preview'', AreaPreview), (''injection'', AreaInjection),
      (''control-center'', AreaControlCenter), (''tray'', AreaTray)]"

definition source_names :: "(string \<times> event_source) list" where
  "source_names =
     [(''service-host'', SrcServiceHost), (''service-setup'', SrcServiceSetup),
      (''control-center'', SrcControlCenter)]"

definition event_fields :: "string list" where
  "event_fields =
     [''v'', ''ts'', ''severity'', ''area'', ''code'', ''params'', ''detail'', ''source'']"

definition event_to_json :: "event_record \<Rightarrow> json" where
  "event_to_json r =
     JObject ([(''v'', JNat (unat (er_v r))), (''ts'', JNat (unat (er_ts r))),
               (''severity'', JString (variant_name severity_names (er_severity r))),
               (''area'', JString (variant_name area_names (er_area r))),
               (''code'', JString (er_code r))]
              @ (if er_params r = [] then []
                 else [(''params'', JObject (map (\<lambda>(k, v). (k, JString v)) (er_params r)))])
              @ (case er_detail r of None \<Rightarrow> [] | Some d \<Rightarrow> [(''detail'', JString d)])
              @ [(''source'', JString (variant_name source_names (er_source r)))])"

definition event_of_json :: "json \<Rightarrow> event_record option" where
  "event_of_json v =
     do { m \<leftarrow> struct_fields event_fields v;
          version \<leftarrow> de_word (m ''v'');
          ts \<leftarrow> de_word (m ''ts'');
          severity \<leftarrow> de_variant severity_names (m ''severity'');
          area \<leftarrow> de_variant area_names (m ''area'');
          code \<leftarrow> de_string (m ''code'');
          params \<leftarrow> (case m ''params'' of None \<Rightarrow> Some [] | Some p \<Rightarrow> de_string_map p);
          detail \<leftarrow> de_option de_string (m ''detail'');
          source \<leftarrow> de_variant source_names (m ''source'');
          Some \<lparr>er_v = version, er_ts = ts, er_severity = severity, er_area = area, er_code = code,
                er_params = params, er_detail = detail, er_source = source\<rparr> }"

section \<open>The disk\<close>

record log_disk =
  files :: "(string, string) fmap"
  faults :: "nat option list"

definition next_fault :: "log_disk \<Rightarrow> nat option \<times> log_disk" where
  "next_fault d = (case faults d of [] \<Rightarrow> (None, d) | f # fs \<Rightarrow> (f, d\<lparr>faults := fs\<rparr>))"

definition disk_metadata_len :: "string \<Rightarrow> log_disk \<Rightarrow> (io_kind + nat) \<times> log_disk" where
  "disk_metadata_len path d =
     (let (f, d) = next_fault d
      in case f of Some _ \<Rightarrow> (Err IoOther, d)
         | None \<Rightarrow> (case fmlookup (files d) path of
                      None \<Rightarrow> (Err IoNotFound, d) | Some bytes \<Rightarrow> (Ok (length bytes), d)))"

text \<open>\<open>Path::exists\<close> answers false when it cannot tell.\<close>

definition disk_exists :: "string \<Rightarrow> log_disk \<Rightarrow> bool \<times> log_disk" where
  "disk_exists path d =
     (let (f, d) = next_fault d in (f = None \<and> path |\<in>| fmdom (files d), d))"

definition disk_remove_file :: "string \<Rightarrow> log_disk \<Rightarrow> (io_kind + unit) \<times> log_disk" where
  "disk_remove_file path d =
     (let (f, d) = next_fault d
      in case f of Some _ \<Rightarrow> (Err IoOther, d)
         | None \<Rightarrow> if path |\<in>| fmdom (files d) then (Ok (), d\<lparr>files := fmdrop path (files d)\<rparr>)
                   else (Err IoNotFound, d))"

definition disk_rename :: "string \<Rightarrow> string \<Rightarrow> log_disk \<Rightarrow> (io_kind + unit) \<times> log_disk" where
  "disk_rename source destination d =
     (let (f, d) = next_fault d
      in case f of Some _ \<Rightarrow> (Err IoOther, d)
         | None \<Rightarrow> (case fmlookup (files d) source of
                      None \<Rightarrow> (Err IoNotFound, d)
                    | Some bytes \<Rightarrow>
                        (Ok (), d\<lparr>files := fmupd destination bytes (fmdrop source (files d))\<rparr>)))"

definition disk_create_dir_all :: "log_disk \<Rightarrow> (io_kind + unit) \<times> log_disk" where
  "disk_create_dir_all d =
     (let (f, d) = next_fault d in (case f of Some _ \<Rightarrow> Err IoOther | None \<Rightarrow> Ok (), d))"

definition disk_open_append :: "string \<Rightarrow> log_disk \<Rightarrow> (io_kind + unit) \<times> log_disk" where
  "disk_open_append path d =
     (let (f, d) = next_fault d
      in case f of Some _ \<Rightarrow> (Err IoOther, d)
         | None \<Rightarrow> (Ok (), if path |\<in>| fmdom (files d) then d
                          else d\<lparr>files := fmupd path [] (files d)\<rparr>))"

definition append_bytes :: "string \<Rightarrow> string \<Rightarrow> log_disk \<Rightarrow> log_disk" where
  "append_bytes path bytes d =
     (case fmlookup (files d) path of
        None \<Rightarrow> d | Some old \<Rightarrow> d\<lparr>files := fmupd path (old @ bytes) (files d)\<rparr>)"

definition disk_write_all :: "string \<Rightarrow> string \<Rightarrow> log_disk \<Rightarrow> (io_kind + unit) \<times> log_disk" where
  "disk_write_all path bytes d =
     (let (f, d) = next_fault d
      in case f of Some n \<Rightarrow> (Err IoOther, append_bytes path (take n bytes) d)
         | None \<Rightarrow> (Ok (), append_bytes path bytes d))"

definition disk_flush :: "log_disk \<Rightarrow> (io_kind + unit) \<times> log_disk" where
  "disk_flush d = (let (f, d) = next_fault d in (case f of Some _ \<Rightarrow> Err IoOther | None \<Rightarrow> Ok (), d))"

section \<open>The writer\<close>

definition backup_path :: "string \<Rightarrow> nat \<Rightarrow> string" where
  "backup_path path index = path @ ''.'' @ show_nat index"

definition absent_is_fine :: "io_kind + unit \<Rightarrow> io_kind + unit" where
  "absent_is_fine result = (if result = Inl IoNotFound then Ok () else result)"

text \<open>One round of the loop \<open>for index in (1..=EVENT_LOG_BACKUPS).rev()\<close>, and the loop.\<close>

definition shift_backup :: "string \<Rightarrow> nat \<Rightarrow> log_disk \<Rightarrow> (io_kind + unit) \<times> log_disk" where
  "shift_backup path index d =
     (let destination = backup_path path index;
          (exists_there, d) = disk_exists destination d
      in and_then (if exists_there then disk_remove_file destination d else (Ok (), d))
           (\<lambda>_ d. let source = (if index = 1 then path else backup_path path (index - 1));
                      (renamed, d) = disk_rename source destination d
                  in (absent_is_fine renamed, d)))"

fun shift_backups :: "string \<Rightarrow> nat \<Rightarrow> log_disk \<Rightarrow> (io_kind + unit) \<times> log_disk" where
  "shift_backups path 0 d = (Ok (), d)"
| "shift_backups path (Suc n) d =
     and_then (shift_backup path (Suc n) d) (\<lambda>_ d. shift_backups path n d)"

definition rotate_if_needed :: "string \<Rightarrow> nat \<Rightarrow> log_disk \<Rightarrow> (io_kind + unit) \<times> log_disk" where
  "rotate_if_needed path incoming d =
     (let (len, d) = disk_metadata_len path d
      in and_then (case len of Inr n \<Rightarrow> (Ok n, d) | Inl IoNotFound \<Rightarrow> (Ok 0, d) | Inl e \<Rightarrow> (Err e, d))
           (\<lambda>current_len d.
              if current_len + incoming \<le> MAX_EVENT_LOG_BYTES then (Ok (), d)
              else shift_backups path EVENT_LOG_BACKUPS d))"

text \<open>
  \<open>Path::parent\<close> is there unless the path is empty, a root, or a bare drive.
\<close>

definition path_has_parent :: "string \<Rightarrow> bool" where
  "path_has_parent path =
     (let trimmed = rev (dropWhile (\<lambda>c. byte c = 92 \<or> byte c = 47) (rev path))
      in trimmed \<noteq> [] \<and> \<not> (length trimmed = 2 \<and> trimmed ! 1 = CHR '':''))"

text \<open>\<open>EventLogWriter::append\<close>.\<close>

definition append_record ::
  "(json \<Rightarrow> string) \<Rightarrow> string \<Rightarrow> event_record \<Rightarrow> log_disk \<Rightarrow> (io_kind + unit) \<times> log_disk" where
  "append_record print path r d =
     (let line = print (event_to_json r) @ [char_of (10 :: nat)]
      in if MAX_EVENT_LOG_BYTES < length line then (Err IoInvalidData, d)
         else if \<not> path_has_parent path then (Err IoInvalidInput, d)
         else and_then (disk_create_dir_all d)
                (\<lambda>_ d. and_then (rotate_if_needed path (length line) d)
                (\<lambda>_ d. and_then (disk_open_append path d)
                (\<lambda>_ d. and_then (disk_write_all path line d)
                (\<lambda>_ d. disk_flush d)))))"

text \<open>
  \<open>unix_time_ms\<close> of a clock that reads the given milliseconds after the epoch (a negative number
  before it).
\<close>

definition unix_time_ms :: "int \<Rightarrow> io_kind + u64" where
  "unix_time_ms now = (if now < 0 \<or> 2 ^ 64 \<le> now then Err IoInvalidData else Ok (word_of_int now))"

definition build_record ::
  "u64 \<Rightarrow> event_source \<Rightarrow> event_severity \<Rightarrow> event_area \<Rightarrow> string \<Rightarrow> (string \<times> string) list \<Rightarrow>
     string option \<Rightarrow> string list \<Rightarrow> event_record" where
  "build_record ts source severity area code params detail redactions =
     (let r = new_event_record ts severity area code
                (bt_collect (map (\<lambda>(k, v). (sanitize_text k redactions MAX_EVENT_PARAM_BYTES,
                                            sanitize_text v redactions MAX_EVENT_PARAM_BYTES))
                                 (take MAX_EVENT_PARAMS params)))
                (map_option (\<lambda>v. sanitize_text v redactions MAX_EVENT_DETAIL_BYTES) detail) source
      in r\<lparr>er_code := (if valid_code (er_code r) then er_code r else ''invalid-code'')\<rparr>)"

definition record_event ::
  "(json \<Rightarrow> string) \<Rightarrow> string \<Rightarrow> int \<Rightarrow> event_source \<Rightarrow> event_severity \<Rightarrow> event_area \<Rightarrow> string \<Rightarrow>
     (string \<times> string) list \<Rightarrow> string option \<Rightarrow> string list \<Rightarrow> log_disk \<Rightarrow> (io_kind + unit) \<times> log_disk" where
  "record_event print path now source severity area code params detail redactions d =
     and_then (unix_time_ms now, d)
       (\<lambda>ts d. append_record print path (build_record ts source severity area code params detail redactions) d)"

section \<open>The reader\<close>

text \<open>\<open>bytes.split(|b| b == '\\n')\<close>: one piece more than there are separators.\<close>

fun split_lines :: "string \<Rightarrow> string list" where
  "split_lines [] = [[]]"
| "split_lines (c # s) =
     (if byte c = 10 then [] # split_lines s
      else (case split_lines s of [] \<Rightarrow> [[c]] | l # ls \<Rightarrow> (c # l) # ls))"

text \<open>\<open>fs::read\<close> of a file that is present; an absent or oversized file is skipped.\<close>

definition read_file :: "log_disk \<Rightarrow> string \<Rightarrow> string option" where
  "read_file d path =
     (case fmlookup (files d) path of
        Some bytes \<Rightarrow> if length bytes \<le> MAX_EVENT_LOG_BYTES then Some bytes else None
      | None \<Rightarrow> None)"

definition log_paths :: "string \<Rightarrow> string list" where
  "log_paths base = map (backup_path base) (rev [1..<Suc EVENT_LOG_BACKUPS]) @ [base]"

definition line_record :: "(string \<Rightarrow> json option) \<Rightarrow> string \<Rightarrow> event_record option" where
  "line_record parse line = Option.bind (parse line) event_of_json"

text \<open>The entries in file order; every line counts, readable or not.\<close>

definition numbered_entries ::
  "(string \<Rightarrow> json option) \<Rightarrow> log_disk \<Rightarrow> string list \<Rightarrow> (event_record \<times> nat) list" where
  "numbered_entries parse d bases =
     (let lines = concat (map (\<lambda>path. case read_file d path of
                                        None \<Rightarrow> [] | Some bytes \<Rightarrow> split_lines bytes)
                              (concat (map log_paths bases)))
      in List.map_filter (\<lambda>(line, order). case line_record parse line of
             Some r \<Rightarrow> if valid_record r then Some (r, order) else None | None \<Rightarrow> None)
           (zip lines [0..<length lines]))"

definition read_events ::
  "(string \<Rightarrow> json option) \<Rightarrow> log_disk \<Rightarrow> string list \<Rightarrow> nat \<Rightarrow> event_record list" where
  "read_events parse d bases limit =
     (if limit = 0 then []
      else let entries = sort_key (\<lambda>(r, order). unat (er_ts r)) (numbered_entries parse d bases)
           in map fst (drop (length entries - limit) entries))"

section \<open>The throttle\<close>

text \<open>
  The entries of the throttle are kept in the iteration order of the hash map at that moment, which
  the caller of the model chooses: \<open>arrange\<close> permutes the entries before the minimum is looked for.
\<close>

type_synonym throttle = "(string \<times> instant) list"

definition min_entry :: "(string \<times> instant) list \<Rightarrow> string option" where
  "min_entry es =
     (case es of [] \<Rightarrow> None
      | e # rest \<Rightarrow> Some (fst (fold (\<lambda>x best. if snd x < snd best then x else best) rest e)))"

definition throttle_allow ::
  "(throttle \<Rightarrow> throttle) \<Rightarrow> string \<Rightarrow> instant \<Rightarrow> duration \<Rightarrow> throttle \<Rightarrow> bool \<times> throttle" where
  "throttle_allow arrange key now window entries =
     (if (case map_of entries key of None \<Rightarrow> False | Some previous \<Rightarrow> now - previous < window)
      then (False, entries)
      else (let entries =
                  (if key \<notin> fst ` set entries \<and> 256 \<le> length entries
                   then (case min_entry (arrange entries) of
                           None \<Rightarrow> entries | Some oldest \<Rightarrow> AList.delete oldest entries)
                   else entries)
            in (True, AList.update key now entries)))"

end
