(* ===== verification/Event_Log_Properties.thy ===== *)
theory Event_Log_Properties
  imports Event_Log
begin

text \<open>
  Correctness of the event log: the round trip of a record through
  its JSON form, the bound on every file under any faults, what the reader sees after a write on a
  healthy disk, and what the sanitizer guarantees.
\<close>

section \<open>Records and their JSON form\<close>

lemma variant_severity: "de_variant severity_names (Some (JString (variant_name severity_names x))) = Some x"
  by (cases x) (simp_all add: de_variant_def variant_name_def severity_names_def)

lemma variant_area: "de_variant area_names (Some (JString (variant_name area_names x))) = Some x"
  by (cases x) (simp_all add: de_variant_def variant_name_def area_names_def)

lemma variant_source: "de_variant source_names (Some (JString (variant_name source_names x))) = Some x"
  by (cases x) (simp_all add: de_variant_def variant_name_def source_names_def)

lemma event_json_round_trip:
  assumes "bt_sorted (er_params r)"
  shows "event_of_json (event_to_json r) = Some r"
proof -
  note vs = variant_severity variant_area variant_source de_word_nat de_string_map_params [OF assms]
  show ?thesis
  proof (cases "er_detail r")
    case None
    then show ?thesis
      by (cases "er_params r = []")
        (simp_all add: event_of_json_def event_to_json_def struct_fields_def event_fields_def vs
          de_string_def de_option_def)
  next
    case (Some d)
    then show ?thesis
      by (cases "er_params r = []")
        (simp_all add: event_of_json_def event_to_json_def struct_fields_def event_fields_def vs
          de_string_def de_option_def)
  qed
qed

section \<open>The files stay bounded\<close>

definition log_bounded :: "string \<Rightarrow> log_disk \<Rightarrow> bool" where
  "log_bounded base d \<longleftrightarrow>
     (\<forall>p\<in>set (log_paths base). \<forall>b. fmlookup (files d) p = Some b \<longrightarrow> length b \<le> MAX_EVENT_LOG_BYTES)"

lemma files_next_fault [simp]: "files (snd (next_fault d)) = files d"
  by (auto simp: next_fault_def split: list.splits)

lemmas disk_op_defs = disk_exists_def disk_metadata_len_def disk_remove_file_def disk_rename_def
  disk_create_dir_all_def disk_open_append_def disk_write_all_def disk_flush_def
  Let_def case_prod_beta

lemma log_paths_set: "set (log_paths base) = insert base (backup_path base ` {1..EVENT_LOG_BACKUPS})"
  by (auto simp: log_paths_def)

lemma backup_path_neq [simp]: "backup_path base i \<noteq> base" "base \<noteq> backup_path base i"
  by (simp_all add: backup_path_def)

lemma log_bounded_cong: "files d' = files d \<Longrightarrow> log_bounded base d' = log_bounded base d"
  by (simp add: log_bounded_def)

lemma disk_query_files [simp]:
  "files (snd (disk_exists p d)) = files d" "files (snd (disk_metadata_len p d)) = files d"
  "files (snd (disk_create_dir_all d)) = files d" "files (snd (disk_flush d)) = files d"
  by (auto simp: disk_op_defs split: option.splits)

lemma disk_metadata_cases:
  "(case fst (disk_metadata_len p d) of
      Inr n \<Rightarrow> \<exists>b. fmlookup (files d) p = Some b \<and> n = length b
    | Inl e \<Rightarrow> e = IoNotFound \<longrightarrow> fmlookup (files d) p = None)"
  by (auto simp: disk_op_defs split: option.splits)

lemma disk_remove_bounded: "log_bounded base d \<Longrightarrow> log_bounded base (snd (disk_remove_file p d))"
  by (auto simp: disk_op_defs log_bounded_def split: option.splits if_splits)

lemma disk_rename_cases:
  obtains (failed) e where "fst (disk_rename source destination d) = Inl e"
      and "files (snd (disk_rename source destination d)) = files d"
      and "e = IoNotFound \<Longrightarrow> fmlookup (files d) source = None"
  | (renamed) b where "fst (disk_rename source destination d) = Inr ()"
      and "fmlookup (files d) source = Some b"
      and "files (snd (disk_rename source destination d)) = fmupd destination b (fmdrop source (files d))"
proof (cases "fst (next_fault d)")
  case None
  then show thesis
  proof (cases "fmlookup (files d) source")
    case None
    with \<open>fst (next_fault d) = None\<close> show thesis by (intro failed [of IoNotFound]) (simp_all add: disk_op_defs)
  next
    case (Some b)
    with \<open>fst (next_fault d) = None\<close> show thesis by (intro renamed [of b]) (simp_all add: disk_op_defs)
  qed
next
  case (Some n)
  then show thesis by (intro failed [of IoOther]) (simp_all add: disk_op_defs)
qed

lemma disk_rename_bounded:
  assumes "log_bounded base d" and "source \<in> set (log_paths base)"
  shows "log_bounded base (snd (disk_rename source destination d))"
  using assms by (cases rule: disk_rename_cases [of source destination d]) (auto simp: log_bounded_def)

lemma and_then_bounded:
  "log_bounded base (snd m) \<Longrightarrow> (\<And>x s. log_bounded base s \<Longrightarrow> log_bounded base (snd (k x s))) \<Longrightarrow>
     log_bounded base (snd (and_then m k))"
  by (auto simp: and_then_def split: sum.splits)

lemma shift_backup_bounded:
  assumes "log_bounded base d" and "1 \<le> i" "i \<le> EVENT_LOG_BACKUPS"
  shows "log_bounded base (snd (shift_backup base i d))"
proof -
  have "i = 1 \<or> i - 1 \<in> {1..EVENT_LOG_BACKUPS}" using assms(2,3) by auto
  then have src: "(if i = 1 then base else backup_path base (i - 1)) \<in> set (log_paths base)"
    by (auto simp: log_paths_set)
  have "log_bounded base (snd (disk_exists p d))" for p
    using assms(1) log_bounded_cong [of "snd (disk_exists p d)" d base] by simp
  then have "log_bounded base (snd (if x then disk_remove_file q (snd (disk_exists p d)) else (Inr (), snd (disk_exists p d))))"
    for p q x by (simp add: disk_remove_bounded)
  note start = this
  have "log_bounded base (snd (disk_rename (if i = 1 then base else backup_path base (i - 1)) q s))"
    if "log_bounded base s" for q s using that src by (rule disk_rename_bounded)
  then show ?thesis
    unfolding shift_backup_def Let_def case_prod_beta
    by (intro and_then_bounded [OF start]) simp
qed

lemma shift_backups_bounded:
  "log_bounded base d \<Longrightarrow> n \<le> EVENT_LOG_BACKUPS \<Longrightarrow> log_bounded base (snd (shift_backups base n d))"
  by (induction n arbitrary: d) (simp_all add: and_then_bounded shift_backup_bounded)

lemma absent_is_fine_Ok: "absent_is_fine x = Inr () \<longleftrightarrow> x = Inr () \<or> x = Inl IoNotFound"
  by (simp add: absent_is_fine_def)

lemma renamed_away:
  "fst (disk_rename base destination s) = Inr () \<or> fst (disk_rename base destination s) = Inl IoNotFound \<Longrightarrow>
     destination \<noteq> base \<Longrightarrow> fmlookup (files (snd (disk_rename base destination s))) base = None"
  by (cases rule: disk_rename_cases [of base destination s]) auto

lemma shift_backup_last: "shift_backup base 1 d = (Inr (), d') \<Longrightarrow> fmlookup (files d') base = None"
  using renamed_away [of base "backup_path base 1"]
  by (auto simp: shift_backup_def Let_def case_prod_beta and_then_Ok absent_is_fine_Ok)

lemma shift_backups_last:
  "shift_backups base (Suc n) d = (Inr (), d') \<Longrightarrow> fmlookup (files d') base = None"
proof (induction n arbitrary: d)
  case 0
  then show ?case using shift_backup_last by (auto simp: and_then_Ok)
next
  case (Suc n)
  then show ?case by (subst (asm) shift_backups.simps) (auto simp: and_then_Ok)
qed

lemma rotate_bounded:
  assumes "log_bounded base d"
  shows "log_bounded base (snd (rotate_if_needed base incoming d))"
proof -
  have "log_bounded base (snd (disk_metadata_len base d))"
    using assms log_bounded_cong [of "snd (disk_metadata_len base d)" d base] by simp
  then show ?thesis
    unfolding rotate_if_needed_def Let_def case_prod_beta
    by (intro and_then_bounded) (auto simp: shift_backups_bounded split: sum.splits io_kind.splits)
qed

definition fits :: "string \<Rightarrow> nat \<Rightarrow> log_disk \<Rightarrow> bool" where
  "fits base n d \<longleftrightarrow>
     (case fmlookup (files d) base of None \<Rightarrow> n \<le> MAX_EVENT_LOG_BYTES
      | Some b \<Rightarrow> length b + n \<le> MAX_EVENT_LOG_BYTES)"

lemma rotate_Ok:
  assumes "rotate_if_needed base incoming d = (Inr (), d')" and "incoming \<le> MAX_EVENT_LOG_BYTES"
  shows "fits base incoming d'"
proof -
  obtain len d1 where md: "disk_metadata_len base d = (len, d1)" by fastforce
  have "files (snd (disk_metadata_len base d)) = files d" by simp
  then have f1: "files d1 = files d" using md by simp
  show ?thesis
  proof (cases "shift_backups base EVENT_LOG_BACKUPS d1 = (Inr (), d')")
    case True
    then show ?thesis
      using shift_backups_last [of base 3 d1 d'] assms(2) by (simp add: EVENT_LOG_BACKUPS_def fits_def)
  next
    case False
    then show ?thesis
      using assms md f1 disk_metadata_cases [where p = base and d = d]
      by (cases len) (auto simp: rotate_if_needed_def and_then_Ok fits_def split: io_kind.splits if_splits)
  qed
qed

lemma append_bytes_bounded:
  "log_bounded base d \<Longrightarrow> fits base (length bytes) d \<Longrightarrow> log_bounded base (append_bytes base bytes d)"
  by (auto simp: append_bytes_def log_bounded_def fits_def split: option.splits)

lemma fits_mono: "fits base n d \<Longrightarrow> m \<le> n \<Longrightarrow> fits base m d"
  by (auto simp: fits_def split: option.splits)

lemma fits_cong: "files d' = files d \<Longrightarrow> fits base n d' = fits base n d"
  by (simp add: fits_def)

lemma and_then_bounded_post:
  "log_bounded base (snd m) \<Longrightarrow> (\<And>x s. m = (Inr x, s) \<Longrightarrow> log_bounded base (snd (k x s))) \<Longrightarrow>
     log_bounded base (snd (and_then m k))"
  by (cases m) (auto simp: and_then_def split: sum.splits)

lemma write_bounded:
  assumes "log_bounded base s" and "fits base (length line) s"
  shows "log_bounded base (snd (disk_write_all base line s))"
proof -
  let ?s = "snd (next_fault s)"
  have "log_bounded base ?s" "fits base (length line) ?s"
    using assms log_bounded_cong [of ?s s base] fits_cong [of ?s s base] by simp_all
  then have "log_bounded base (append_bytes base (take n line) ?s)" "log_bounded base (append_bytes base line ?s)" for n
    using fits_mono [of base "length line" ?s "length (take n line)"]
    by (simp_all add: append_bytes_bounded)
  then show ?thesis by (simp add: disk_write_all_def Let_def case_prod_beta split: option.splits)
qed

lemma open_bounded:
  "log_bounded base s \<Longrightarrow> fits base n s \<Longrightarrow>
     log_bounded base (snd (disk_open_append base s)) \<and> fits base n (snd (disk_open_append base s))"
  by (auto simp: disk_op_defs log_bounded_def fits_def split: option.splits)

lemma append_record_bounded:
  assumes "log_bounded base d"
  shows "log_bounded base (snd (append_record print base r d))"
proof -
  define line where "line = print (event_to_json r) @ [char_of (10 :: nat)]"
  have flush: "log_bounded base (snd (disk_flush s))" if "log_bounded base s" for s
    using that log_bounded_cong [of "snd (disk_flush s)" s] by simp
  have tail: "log_bounded base (snd (and_then (disk_open_append base s)
      (\<lambda>_ d. and_then (disk_write_all base line d) (\<lambda>_ d. disk_flush d))))"
    if b: "log_bounded base s" and f: "fits base (length line) s" for s
  proof (rule and_then_bounded_post)
    fix x s1 assume "disk_open_append base s = (Inr x, s1)"
    then have "log_bounded base s1 \<and> fits base (length line) s1"
      using open_bounded [OF b f] by simp
    then have "log_bounded base (snd (disk_write_all base line s1))" by (simp add: write_bounded)
    then show "log_bounded base (snd (and_then (disk_write_all base line s1) (\<lambda>_ d. disk_flush d)))"
      by (rule and_then_bounded) (rule flush)
  qed (use open_bounded [OF b f] in simp)
  show ?thesis
  proof (cases "MAX_EVENT_LOG_BYTES < length line \<or> \<not> path_has_parent base")
    case True
    then show ?thesis using assms by (auto simp: append_record_def line_def Let_def)
  next
    case False
    have "log_bounded base (snd (and_then (disk_create_dir_all d)
        (\<lambda>_ d. and_then (rotate_if_needed base (length line) d)
        (\<lambda>_ d. and_then (disk_open_append base d)
        (\<lambda>_ d. and_then (disk_write_all base line d) (\<lambda>_ d. disk_flush d))))))"
    proof (rule and_then_bounded)
      show "log_bounded base (snd (disk_create_dir_all d))"
        using assms log_bounded_cong [of "snd (disk_create_dir_all d)" d] by simp
    next
      fix x s assume b: "log_bounded base s"
      show "log_bounded base (snd (and_then (rotate_if_needed base (length line) s)
          (\<lambda>_ d. and_then (disk_open_append base d)
          (\<lambda>_ d. and_then (disk_write_all base line d) (\<lambda>_ d. disk_flush d)))))"
      proof (rule and_then_bounded_post)
        fix y s2 assume rot: "rotate_if_needed base (length line) s = (Inr y, s2)"
        then have "fits base (length line) s2" using False by (auto intro: rotate_Ok)
        moreover have "log_bounded base s2" using rotate_bounded [OF b, of "length line"] rot by simp
        ultimately show "log_bounded base (snd (and_then (disk_open_append base s2)
            (\<lambda>_ d. and_then (disk_write_all base line d) (\<lambda>_ d. disk_flush d))))"
          by (intro tail)
      qed (rule rotate_bounded [OF b])
    qed
    then show ?thesis using False by (simp add: append_record_def line_def Let_def)
  qed
qed

section \<open>Reading back what was written\<close>

lemma healthy_next [simp]: "faults d = [] \<Longrightarrow> next_fault d = (None, d)"
  by (simp add: next_fault_def)

lemma healthy_ops:
  assumes "faults d = []"
  shows "disk_exists p d = (p |\<in>| fmdom (files d), d)"
    and "disk_create_dir_all d = (Inr (), d)"
    and "disk_flush d = (Inr (), d)"
    and "disk_metadata_len p d =
      (case fmlookup (files d) p of None \<Rightarrow> Inl IoNotFound | Some b \<Rightarrow> Inr (length b), d)"
    and "disk_open_append p d =
      (Inr (), if p |\<in>| fmdom (files d) then d else d\<lparr>files := fmupd p [] (files d)\<rparr>)"
    and "disk_write_all p b d = (Inr (), append_bytes p b d)"
  using assms by (auto simp: disk_op_defs split: option.splits)

definition move_over :: "string \<Rightarrow> string \<Rightarrow> (string, string) fmap \<Rightarrow> (string, string) fmap" where
  "move_over source destination m =
     (case fmlookup m source of
        None \<Rightarrow> fmdrop destination m
      | Some b \<Rightarrow> fmupd destination b (fmdrop source (fmdrop destination m)))"

lemma fmlookup_move_over:
  "source \<noteq> destination \<Longrightarrow> fmlookup (move_over source destination m) p =
     (if p = destination then fmlookup m source else if p = source then None else fmlookup m p)"
  by (auto simp: move_over_def split: option.splits)

lemma fmdrop_absent: "fmlookup m k = None \<Longrightarrow> fmdrop k m = m"
  by (rule fmap_ext) auto

lemma backup_path_inject [simp]: "backup_path base i = backup_path base j \<longleftrightarrow> show_nat i = show_nat j"
  by (simp add: backup_path_def)

lemma show_nat_small: "n < 10 \<Longrightarrow> show_nat n = [char_of (48 + n)]"
  by (subst show_nat.simps) simp

lemma show_nat_1_to_4:
  "show_nat 1 = ''1''" "show_nat (Suc 0) = ''1''" "show_nat 2 = ''2''" "show_nat 3 = ''3''" "show_nat 4 = ''4''"
  by code_simp+

lemma shift_backup_healthy:
  assumes "faults d = []" and "(if i = 1 then base else backup_path base (i - 1)) \<noteq> backup_path base i"
  shows "shift_backup base i d = (Inr (), d\<lparr>files :=
    move_over (if i = 1 then base else backup_path base (i - 1)) (backup_path base i) (files d)\<rparr>)"
proof -
  let ?source = "if i = 1 then base else backup_path base (i - 1)" and ?dest = "backup_path base i"
  have "(if ?dest |\<in>| fmdom (files d) then disk_remove_file ?dest d else (Inr (), d))
      = (Inr (), d\<lparr>files := fmdrop ?dest (files d)\<rparr>)"
    using assms(1) by (auto simp: disk_op_defs fmdrop_absent fmdom_notD)
  then show ?thesis
    using assms
    by (auto simp: shift_backup_def healthy_ops and_then_def absent_is_fine_def move_over_def
        disk_rename_def Let_def split: option.splits)
qed

lemma shift_backups_unfold:
  "0 < n \<Longrightarrow> shift_backups base n d = and_then (shift_backup base n d) (\<lambda>_ d. shift_backups base (n - 1) d)"
  by (cases n) auto

lemma shift_backups_healthy:
  assumes "faults d = []"
  shows "\<exists>d'. shift_backups base EVENT_LOG_BACKUPS d = (Inr (), d') \<and> faults d' = []
    \<and> fmlookup (files d') base = None
    \<and> fmlookup (files d') (backup_path base 1) = fmlookup (files d) base
    \<and> fmlookup (files d') (backup_path base 2) = fmlookup (files d) (backup_path base 1)
    \<and> fmlookup (files d') (backup_path base 3) = fmlookup (files d) (backup_path base 2)
    \<and> fmlookup (files d') (backup_path base 4) = fmlookup (files d) (backup_path base 3)"
proof -
  let ?b = "backup_path base"
  define d4 where "d4 = d\<lparr>files := move_over (?b 3) (?b 4) (files d)\<rparr>"
  define d3 where "d3 = d4\<lparr>files := move_over (?b 2) (?b 3) (files d4)\<rparr>"
  define d2 where "d2 = d3\<lparr>files := move_over (?b 1) (?b 2) (files d3)\<rparr>"
  define d1 where "d1 = d2\<lparr>files := move_over base (?b 1) (files d2)\<rparr>"
  have no_faults: "faults d4 = []" "faults d3 = []" "faults d2 = []" "faults d1 = []"
    using assms by (simp_all add: d4_def d3_def d2_def d1_def)
  have steps: "shift_backup base 4 d = (Inr (), d4)" "shift_backup base 3 d4 = (Inr (), d3)"
      "shift_backup base 2 d3 = (Inr (), d2)" "shift_backup base 1 d2 = (Inr (), d1)"
    using shift_backup_healthy [of d 4 base] shift_backup_healthy [of d4 3 base]
      shift_backup_healthy [of d3 2 base] shift_backup_healthy [of d2 1 base] assms no_faults
    by (simp_all add: d4_def d3_def d2_def d1_def show_nat_1_to_4)
  have run: "shift_backups base EVENT_LOG_BACKUPS d = (Inr (), d1)"
    using steps by (simp add: EVENT_LOG_BACKUPS_def shift_backups_unfold and_then_def)
  have l4: "fmlookup (files d4) p = (if p = ?b 4 then fmlookup (files d) (?b 3) else if p = ?b 3 then None else fmlookup (files d) p)" for p
    by (simp add: d4_def fmlookup_move_over show_nat_1_to_4)
  have l3: "fmlookup (files d3) p = (if p = ?b 3 then fmlookup (files d4) (?b 2) else if p = ?b 2 then None else fmlookup (files d4) p)" for p
    by (simp add: d3_def fmlookup_move_over show_nat_1_to_4)
  have l2: "fmlookup (files d2) p = (if p = ?b 2 then fmlookup (files d3) (?b 1) else if p = ?b 1 then None else fmlookup (files d3) p)" for p
    by (simp add: d2_def fmlookup_move_over show_nat_1_to_4)
  have l1: "fmlookup (files d1) p = (if p = ?b 1 then fmlookup (files d2) base else if p = base then None else fmlookup (files d2) p)" for p
    by (simp add: d1_def fmlookup_move_over)
  show ?thesis
    by (intro exI [of _ d1] conjI run no_faults) (simp_all add: l1 l2 l3 l4 show_nat_1_to_4)
qed

section \<open>Lines and entries\<close>

lemma split_lines_nonempty [simp]: "split_lines s \<noteq> []"
  by (induction s) (auto split: list.splits)

lemma split_lines_newline:
  "byte c = 10 \<Longrightarrow> split_lines (a @ c # b) = split_lines a @ split_lines b"
  by (induction a) (auto split: list.splits simp: append_eq_Cons_conv)

lemma split_lines_single: "\<forall>c\<in>set s. byte c \<noteq> 10 \<Longrightarrow> split_lines s = [s]"
  by (induction s) auto

definition usable_line :: "(string \<Rightarrow> json option) \<Rightarrow> string \<Rightarrow> event_record option" where
  "usable_line parse line =
     (case line_record parse line of Some r \<Rightarrow> if valid_record r then Some r else None | None \<Rightarrow> None)"

definition file_records :: "(string \<Rightarrow> json option) \<Rightarrow> string option \<Rightarrow> event_record list" where
  "file_records parse content =
     (case content of None \<Rightarrow> [] | Some bytes \<Rightarrow> List.map_filter (usable_line parse) (split_lines bytes))"

definition log_entries :: "(string \<Rightarrow> json option) \<Rightarrow> log_disk \<Rightarrow> string \<Rightarrow> event_record list" where
  "log_entries parse d base = map fst (numbered_entries parse d [base])"

lemma map_filter_append: "List.map_filter f (xs @ ys) = List.map_filter f xs @ List.map_filter f ys"
  by (simp add: List.map_filter_def)

lemma map_filter_concat: "List.map_filter f (concat xss) = concat (map (List.map_filter f) xss)"
  by (induction xss) (simp_all add: map_filter_append List.map_filter_simps)

lemma map_filter_zip:
  "length ls = length ns \<Longrightarrow>
     map fst (List.map_filter (\<lambda>(line, order). case line_record parse line of
        Some r \<Rightarrow> if valid_record r then Some (r, order) else None | None \<Rightarrow> None) (zip ls ns))
     = List.map_filter (usable_line parse) ls"
proof (induction ls arbitrary: ns)
  case (Cons l ls)
  then obtain n ns' where [simp]: "ns = n # ns'" by (cases ns) auto
  show ?case using Cons by (auto simp: List.map_filter_simps usable_line_def split: option.splits)
qed (simp add: List.map_filter_simps)

lemma log_entries_files:
  "log_entries parse d base = concat (map (\<lambda>p. file_records parse (read_file d p)) (log_paths base))"
proof -
  let ?lines = "\<lambda>p. case read_file d p of None \<Rightarrow> [] | Some bytes \<Rightarrow> split_lines bytes"
  have "log_entries parse d base = List.map_filter (usable_line parse) (concat (map ?lines (log_paths base)))"
    by (simp add: log_entries_def numbered_entries_def Let_def map_filter_zip)
  also have "\<dots> = concat (map (\<lambda>p. List.map_filter (usable_line parse) (?lines p)) (log_paths base))"
    by (simp add: map_filter_concat comp_def)
  also have "(\<lambda>p. List.map_filter (usable_line parse) (?lines p)) = (\<lambda>p. file_records parse (read_file d p))"
    by (auto simp: fun_eq_iff file_records_def List.map_filter_simps split: option.splits)
  finally show ?thesis .
qed

lemma log_paths_five:
  "log_paths base = [backup_path base 4, backup_path base 3, backup_path base 2, backup_path base 1, base]"
  by (simp add: log_paths_def EVENT_LOG_BACKUPS_def upt_rec eval_nat_numeral)

text \<open>A file made of whole lines: empty, or ending in a line break.\<close>

definition whole_lines :: "string option \<Rightarrow> bool" where
  "whole_lines content = (case content of None \<Rightarrow> True | Some b \<Rightarrow> b = [] \<or> byte (last b) = 10)"

lemma file_records_append:
  assumes "whole_lines (Some old)" and "\<forall>c\<in>set l. byte c \<noteq> 10" and "usable_line parse [] = None"
  shows "file_records parse (Some (old @ l @ [char_of (10 :: nat)]))
    = file_records parse (Some old) @ (case usable_line parse l of None \<Rightarrow> [] | Some r \<Rightarrow> [r])"
proof -
  have nl: "byte (char_of (10 :: nat)) = 10" by (simp add: byte_def)
  have tail: "split_lines (l @ [char_of (10 :: nat)]) = [l, []]"
    using split_lines_newline [OF nl, of l "[]"] split_lines_single [OF assms(2)] by simp
  show ?thesis
  proof (cases "old = []")
    case True
    then show ?thesis using tail assms(3)
      by (simp add: file_records_def List.map_filter_simps split: option.splits)
  next
    case False
    then obtain a c where old: "old = a @ [c]" by (metis rev_exhaust)
    then have c: "byte c = 10" using assms(1) by (simp add: whole_lines_def)
    show ?thesis
      using tail assms(3) split_lines_newline [OF c, of a] 
      by (simp add: old file_records_def map_filter_append List.map_filter_simps split: option.splits)
  qed
qed

section \<open>Sanitized text\<close>

lemma floor_char_boundary_le: "floor_char_boundary s n \<le> n"
  by (induction s n rule: floor_char_boundary.induct) auto

lemma bounded_text_length: "length (bounded_text s n) \<le> n"
  using floor_char_boundary_le [of s "n - length '' [truncated]''"]
  by (auto simp: bounded_text_def Let_def min_def)

lemma sanitize_text_length: "length (sanitize_text s redactions n) \<le> n"
  by (simp add: sanitize_text_def Let_def bounded_text_length)

definition no_line_break :: "string \<Rightarrow> bool" where
  "no_line_break s \<longleftrightarrow> (\<forall>c\<in>set s. byte c \<noteq> 10 \<and> byte c \<noteq> 13)"

lemma no_line_break_simps [simp]:
  "no_line_break []" "no_line_break (c # s) \<longleftrightarrow> byte c \<noteq> 10 \<and> byte c \<noteq> 13 \<and> no_line_break s"
  "no_line_break (a @ b) \<longleftrightarrow> no_line_break a \<and> no_line_break b"
  by (auto simp: no_line_break_def)

lemma no_line_break_sub: "no_line_break s \<Longrightarrow> set t \<subseteq> set s \<Longrightarrow> no_line_break t"
  by (auto simp: no_line_break_def)

lemma replace_line_breaks_clean: "no_line_break (replace_line_breaks s)"
  by (induction s) (auto simp: replace_line_breaks_def byte_def)

lemma replace_all_clean:
  "no_line_break new \<Longrightarrow> no_line_break s \<Longrightarrow> no_line_break (replace_all pattern new s)"
proof (induction pattern new s rule: replace_all.induct)
  case (2 pattern new c s)
  have "no_line_break (drop (length pattern) (c # s))"
    using 2(4) by (rule no_line_break_sub) (rule set_drop_subset)
  with 2 show ?case by auto
qed simp

lemma redact_clean: "no_line_break s \<Longrightarrow> no_line_break (redact_nonce_candidates s)"
proof (induction s rule: redact_nonce_candidates.induct)
  case (1 s)
  have tw: "no_line_break (takeWhile is_ascii_hexdigit s)" "no_line_break (dropWhile is_ascii_hexdigit s)"
    using 1(3) by (auto intro: no_line_break_sub dest: set_takeWhileD set_dropWhileD)
  have lit: "no_line_break ''[redacted-nonce]''" by code_simp
  show ?case
    using 1 tw lit by (subst redact_nonce_candidates.simps) (auto split: list.splits simp: Let_def)
qed

lemma redactions_clean:
  "no_line_break s \<Longrightarrow>
     no_line_break (fold (\<lambda>secret text. replace_all (replace_line_breaks secret) ''[redacted-profile]'' text) secrets s)"
proof (induction secrets arbitrary: s)
  case (Cons x secrets)
  have "no_line_break ''[redacted-profile]''" by code_simp
  with Cons show ?case by (simp add: replace_all_clean)
qed simp

lemma no_line_break_take: "no_line_break s \<Longrightarrow> no_line_break (take n s)"
  by (rule no_line_break_sub) (auto dest: in_set_takeD)

lemma bounded_text_clean: "no_line_break s \<Longrightarrow> no_line_break (bounded_text s n)"
proof -
  assume s: "no_line_break s"
  define suffix where "suffix = '' [truncated]''"
  have "no_line_break suffix" unfolding suffix_def by code_simp
  then show ?thesis
    using s no_line_break_take unfolding bounded_text_def suffix_def [symmetric] by (simp add: Let_def)
qed

lemma sanitize_text_clean: "no_line_break (sanitize_text s redactions n)"
  by (simp add: sanitize_text_def Let_def bounded_text_clean redact_clean redactions_clean replace_line_breaks_clean)

text \<open>The maximal runs of hexadecimal digits of a text, with the empty ones between other bytes.\<close>

fun hex_runs :: "string \<Rightarrow> string list" where
  "hex_runs [] = [[]]"
| "hex_runs (c # s) =
     (if is_ascii_hexdigit c then (c # hd (hex_runs s)) # tl (hex_runs s) else [] # hex_runs s)"

lemma hex_runs_nonempty [simp]: "hex_runs s \<noteq> []"
  by (cases s) auto

lemma hex_runs_split: "\<not> is_ascii_hexdigit c \<Longrightarrow> hex_runs (a @ c # b) = hex_runs a @ hex_runs b"
  by (induction a) auto

lemma hex_runs_all: "\<forall>c\<in>set r. is_ascii_hexdigit c \<Longrightarrow> hex_runs r = [r]"
  by (induction r) auto

lemma redacted_nonce_runs:
  "hex_runs (''[redacted-nonce]'' @ s) = hex_runs ''[redacted-nonce'' @ hex_runs s"
  using hex_runs_split [of "CHR '']''" "''[redacted-nonce''" s] by (simp add: is_ascii_hexdigit_def is_ascii_digit_def byte_def)

lemma redact_Nil: "redact_nonce_candidates [] = []"
  by (simp add: redact_nonce_candidates.simps)

lemma redact_nonce_no_run: "\<forall>run\<in>set (hex_runs (redact_nonce_candidates s)). length run \<noteq> 32"
proof (induction s rule: redact_nonce_candidates.induct)
  case (1 s)
  show ?case
  proof (cases s)
    case Nil
    then show ?thesis by (simp add: redact_nonce_candidates.simps)
  next
    case (Cons c rest)
    show ?thesis
    proof (cases "is_ascii_hexdigit c")
      case False
      then show ?thesis using 1(2) [OF Cons False] Cons by (subst redact_nonce_candidates.simps) simp
    next
      case True
      define r t where "r = takeWhile is_ascii_hexdigit s" and "t = redact_nonce_candidates (dropWhile is_ascii_hexdigit s)"
      have ih: "\<forall>run\<in>set (hex_runs t). length run \<noteq> 32" using 1(1) [OF Cons True refl] by (simp add: t_def)
      have red: "redact_nonce_candidates s = (if length r = 32 then ''[redacted-nonce]'' else r) @ t"
        using Cons True by (subst redact_nonce_candidates.simps) (simp add: r_def t_def Let_def)
      show ?thesis
      proof (cases "length r = 32")
        case long: True
        have lit: "\<forall>run\<in>set (hex_runs ''[redacted-nonce''). length run \<noteq> 32" by code_simp
        have "hex_runs (redact_nonce_candidates s) = hex_runs ''[redacted-nonce'' @ hex_runs t"
          by (simp only: red long if_True simp_thms redacted_nonce_runs)
        then show ?thesis using lit ih by (simp only: set_append ball_Un simp_thms)
      next
        case short: False
        have all: "\<forall>c\<in>set r. is_ascii_hexdigit c" by (auto simp: r_def dest: set_takeWhileD)
        show ?thesis
        proof (cases "dropWhile is_ascii_hexdigit s")
          case Nil
          then have "t = []" by (simp only: t_def redact_Nil)
          then show ?thesis using red short hex_runs_all [OF all] by simp
        next
          case (Cons c' rest')
          then have c': "\<not> is_ascii_hexdigit c'" using dropWhile_eq_Cons_conv [of is_ascii_hexdigit s] by auto
          then have t: "t = c' # redact_nonce_candidates rest'"
            using Cons by (simp add: t_def redact_nonce_candidates.simps [of "c' # rest'"])
          have "hex_runs (r @ t) = r # hex_runs (redact_nonce_candidates rest')"
            using hex_runs_split [OF c', of r] hex_runs_all [OF all] t by simp
          then show ?thesis using red short ih t c' by auto
        qed
      qed
    qed
  qed
qed

section \<open>Recorded events\<close>

lemma build_record_params:
  "bt_sorted (er_params (build_record ts source severity area code params detail redactions))"
  by (simp add: build_record_def new_event_record_def Let_def bt_collect_props(1))

lemma build_record_valid: "valid_record (build_record ts source severity area code params detail redactions)"
proof -
  let ?kvs = "map (\<lambda>(k, v). (sanitize_text k redactions MAX_EVENT_PARAM_BYTES,
      sanitize_text v redactions MAX_EVENT_PARAM_BYTES)) (take MAX_EVENT_PARAMS params)"
  have len: "length (bt_collect ?kvs) \<le> MAX_EVENT_PARAMS"
    using bt_collect_props(2) [of ?kvs] by simp
  have each: "list_all (\<lambda>(k, v). length k \<le> MAX_EVENT_PARAM_BYTES \<and> length v \<le> MAX_EVENT_PARAM_BYTES) (bt_collect ?kvs)"
    using bt_collect_props(3) [of ?kvs] by (auto simp: list_all_iff sanitize_text_length)
  have "valid_code ''invalid-code''" by code_simp
  with len each show ?thesis
    by (auto simp: valid_record_def build_record_def new_event_record_def Let_def sanitize_text_length split: option.splits)
qed

text \<open>The JSON text of one record: printed on one line, and parsed back.\<close>

definition text_of_record :: "(json \<Rightarrow> string) \<Rightarrow> (string \<Rightarrow> json option) \<Rightarrow> event_record \<Rightarrow> bool" where
  "text_of_record print parse r \<longleftrightarrow>
     parse (print (event_to_json r)) = Some (event_to_json r) \<and> no_line_break (print (event_to_json r))
     \<and> parse [] = None"

definition record_line :: "(json \<Rightarrow> string) \<Rightarrow> event_record \<Rightarrow> string" where
  "record_line print r = print (event_to_json r) @ [char_of (10 :: nat)]"

lemma usable_line_print:
  "text_of_record print parse r \<Longrightarrow> bt_sorted (er_params r) \<Longrightarrow> valid_record r \<Longrightarrow>
     usable_line parse (print (event_to_json r)) = Some r"
  by (simp add: usable_line_def line_record_def text_of_record_def event_json_round_trip)

lemma append_bytes_absent_or_present:
  "files (append_bytes p b (if p |\<in>| fmdom (files d) then d else d\<lparr>files := fmupd p [] (files d)\<rparr>))
     = fmupd p ((case fmlookup (files d) p of None \<Rightarrow> [] | Some old \<Rightarrow> old) @ b) (files d)"
  by (auto simp: append_bytes_def fmlookup_dom_iff split: option.splits intro!: fmap_ext)

lemma append_record_healthy:
  assumes "faults d = []" and "length (record_line print r) \<le> MAX_EVENT_LOG_BYTES"
    and "path_has_parent base"
  shows "\<exists>d1 d'. rotate_if_needed base (length (record_line print r)) d = (Inr (), d1)
    \<and> (if fits base (length (record_line print r)) d then d1 = d
       else shift_backups base EVENT_LOG_BACKUPS d = (Inr (), d1))
    \<and> append_record print base r d = (Inr (), d')
    \<and> files d' = fmupd base ((case fmlookup (files d1) base of None \<Rightarrow> [] | Some old \<Rightarrow> old) @ record_line print r) (files d1)"
proof -
  let ?line = "record_line print r"
  obtain s where shift: "shift_backups base EVENT_LOG_BACKUPS d = (Inr (), s)" "faults s = []"
    using shift_backups_healthy [OF assms(1), of base] by blast
  define d1 where "d1 = (if fits base (length ?line) d then d else s)"
  have rot: "rotate_if_needed base (length ?line) d = (Inr (), d1)"
    using shift assms(2) by (auto simp: rotate_if_needed_def healthy_ops [OF assms(1)] and_then_def fits_def d1_def split: option.splits)
  have d1: "faults d1 = []" using assms(1) shift(2) by (simp add: d1_def)
  let ?open = "if base |\<in>| fmdom (files d1) then d1 else d1\<lparr>files := fmupd base [] (files d1)\<rparr>"
  have "faults ?open = []" "faults (append_bytes base ?line ?open) = []"
    using d1 by (auto simp: append_bytes_def split: option.splits)
  then have "append_record print base r d = (Inr (), append_bytes base ?line ?open)"
    using assms rot by (simp add: append_record_def record_line_def [symmetric] Let_def and_then_def healthy_ops d1)
  then show ?thesis
    using rot shift(1) append_bytes_absent_or_present [of base ?line d1]
    by (intro exI [of _ d1] exI [of _ "append_bytes base ?line ?open"]) (simp add: d1_def)
qed

lemma read_file_upd: "read_file (d\<lparr>files := m\<rparr>) p = (case fmlookup m p of None \<Rightarrow> None | Some b \<Rightarrow> if length b \<le> MAX_EVENT_LOG_BYTES then Some b else None)"
  by (auto simp: read_file_def split: option.splits)

lemma read_file_cong: "fmlookup (files d') p = fmlookup (files d) q \<Longrightarrow> read_file d' p = read_file d q"
  by (simp add: read_file_def)

definition backup_records :: "(string \<Rightarrow> json option) \<Rightarrow> log_disk \<Rightarrow> string \<Rightarrow> nat \<Rightarrow> event_record list" where
  "backup_records parse d base i = file_records parse (read_file d (backup_path base i))"

lemma append_record_entries:
  assumes d: "faults d = []" and whole: "whole_lines (fmlookup (files d) base)"
    and fmt: "text_of_record print parse r" and r: "bt_sorted (er_params r)" "valid_record r"
    and size: "length (record_line print r) \<le> MAX_EVENT_LOG_BYTES" and parent: "path_has_parent base"
  shows "\<exists>d'. append_record print base r d = (Inr (), d')
    \<and> log_entries parse d' base =
        (if fits base (length (record_line print r)) d then log_entries parse d base
         else drop (length (backup_records parse d base 4)) (log_entries parse d base)) @ [r]"
proof -
  let ?line = "record_line print r" and ?nl = "char_of (10 :: nat)"
  obtain d1 d' where run: "append_record print base r d = (Inr (), d')"
      and d1: "if fits base (length ?line) d then d1 = d else shift_backups base EVENT_LOG_BACKUPS d = (Inr (), d1)"
      and d': "files d' = fmupd base ((case fmlookup (files d1) base of None \<Rightarrow> [] | Some old \<Rightarrow> old) @ ?line) (files d1)"
    using append_record_healthy [OF d size parent] by blast
  have usable: "usable_line parse (print (event_to_json r)) = Some r"
    using fmt r by (rule usable_line_print)
  have empty: "usable_line parse [] = None"
    using fmt by (simp add: usable_line_def line_record_def text_of_record_def)
  have nobreak: "\<forall>c\<in>set (print (event_to_json r)). byte c \<noteq> 10"
    using fmt by (auto simp: text_of_record_def no_line_break_def)
  have appended: "file_records parse (Some (old @ ?line)) = file_records parse (Some old) @ [r]"
    if "whole_lines (Some old)" for old
    using file_records_append [OF that nobreak empty] usable by (simp add: record_line_def)
  have blank: "file_records parse (Some ?line) = [r]"
    using appended [of "[]"] empty by (simp add: whole_lines_def file_records_def List.map_filter_simps)
  have others: "read_file d' (backup_path base i) = read_file d1 (backup_path base i)" for i
    by (rule read_file_cong) (simp add: d')
  have entries: "log_entries parse d' base = concat (map (backup_records parse d1 base) [4, 3, 2, 1])
      @ file_records parse (read_file d' base)"
    by (simp add: log_entries_files log_paths_five others backup_records_def)
  show ?thesis
  proof (cases "fits base (length ?line) d")
    case True
    then have [simp]: "d1 = d" using d1 by simp
    have "file_records parse (read_file d' base) = file_records parse (read_file d base) @ [r]"
    proof (cases "fmlookup (files d) base")
      case None
      then show ?thesis using blank size d' by (simp add: read_file_def file_records_def)
    next
      case (Some old)
      then have "length (old @ ?line) \<le> MAX_EVENT_LOG_BYTES" using True by (simp add: fits_def)
      then show ?thesis using Some whole appended [of old] d' by (simp add: read_file_def)
    qed
    then show ?thesis
      using run True entries by (simp add: log_entries_files log_paths_five backup_records_def)
  next
    case False
    then have shift: "shift_backups base EVENT_LOG_BACKUPS d = (Inr (), d1)" using d1 by simp
    then have l: "fmlookup (files d1) base = None"
        "read_file d1 (backup_path base 1) = read_file d base"
        "read_file d1 (backup_path base 2) = read_file d (backup_path base 1)"
        "read_file d1 (backup_path base 3) = read_file d (backup_path base 2)"
        "read_file d1 (backup_path base 4) = read_file d (backup_path base 3)"
      using shift_backups_healthy [OF d, of base] by (auto simp: read_file_def)
    have "file_records parse (read_file d' base) = [r]"
      using blank size d' l(1) by (simp add: read_file_def)
    then have "log_entries parse d' base = concat (map (backup_records parse d base) [3, 2, 1])
        @ file_records parse (read_file d base) @ [r]"
      using entries l by (simp add: backup_records_def)
    moreover have "drop (length (backup_records parse d base 4)) (log_entries parse d base)
        = concat (map (backup_records parse d base) [3, 2, 1]) @ file_records parse (read_file d base)"
      by (simp add: log_entries_files log_paths_five backup_records_def)
    ultimately show ?thesis using run False by simp
  qed
qed

section \<open>Properties\<close>

text \<open>
  C17.  Whatever calls to the file system fail, and however much of a failing write reaches the disk,
  recording an event keeps the log and each of its four backups within 512 KiB.
\<close>

theorem log_files_stay_bounded:
  assumes "log_bounded base d"
  shows "log_bounded base
    (snd (record_event print base now source severity area code params detail redactions d))"
  using assms append_record_bounded
  by (auto simp: record_event_def and_then_def unix_time_ms_def)

lemma map_fst_insort:
  "map fst (insort_key (\<lambda>x. f (fst x)) a xs) = insort_key f (fst a) (map fst xs)"
  by (induction xs) auto

lemma map_fst_sort: "map fst (sort_key (\<lambda>x. f (fst x)) xs) = sort_key f (map fst xs)"
  by (induction xs) (simp_all add: map_fst_insort)

lemma insort_key_snoc: "f a \<le> f x \<Longrightarrow> insort_key f a (ys @ [x]) = insort_key f a ys @ [x]"
  by (induction ys) auto

lemma sort_key_snoc:
  assumes "\<forall>y\<in>set xs. f y \<le> f x"
  shows "sort_key f (xs @ [x]) = sort_key f xs @ [x]"
  using assms by (induction xs) (simp_all add: insort_key_snoc)

text \<open>What a reader with a limit sees of records in the order of the files: the newest by their time.\<close>

definition newest_records :: "nat \<Rightarrow> event_record list \<Rightarrow> event_record list" where
  "newest_records limit rs = drop (length rs - limit) (sort_key (\<lambda>r. unat (er_ts r)) rs)"

lemma read_events_newest:
  "read_events parse d [base] limit = newest_records limit (log_entries parse d base)"
proof (cases "limit = 0")
  case True
  then show ?thesis by (simp add: read_events_def newest_records_def)
next
  case False
  have "(\<lambda>(r, n). unat (er_ts r)) = (\<lambda>x :: event_record \<times> nat. unat (er_ts (fst x)))"
    by (simp add: split_def)
  then have "map fst (sort_key (\<lambda>(r, order). unat (er_ts r)) (numbered_entries parse d [base]))
      = sort_key (\<lambda>r. unat (er_ts r)) (log_entries parse d base)"
    by (simp add: map_fst_sort [where f = "\<lambda>r. unat (er_ts r)"] log_entries_def)
  then show ?thesis
    using False by (simp add: read_events_def newest_records_def drop_map [symmetric] log_entries_def)
qed

lemma newest_is_last:
  assumes "limit \<noteq> 0" and "\<forall>y\<in>set rs. er_ts y \<le> er_ts r"
  shows "last (newest_records limit (rs @ [r])) = r"
proof -
  have "\<forall>y\<in>set rs. unat (er_ts y) \<le> unat (er_ts r)" using assms(2) by (simp add: word_le_nat_alt)
  from sort_key_snoc [OF this] show ?thesis using assms(1) by (simp add: newest_records_def)
qed

text \<open>What a healthy log keeps when a line of a length is added.\<close>

definition kept_entries ::
  "(string \<Rightarrow> json option) \<Rightarrow> log_disk \<Rightarrow> string \<Rightarrow> nat \<Rightarrow> event_record list" where
  "kept_entries parse d base incoming =
     (if fits base incoming d then log_entries parse d base
      else drop (length (backup_records parse d base 4)) (log_entries parse d base))"

text \<open>
  C18.  On a disk without faults, in a log that is missing, empty or ends with a line break, an event
  whose line fits the log is recorded and its record is valid whatever the caller passed.  A reader with
  a limit is then given the newest by their time of this record and the records that were there before,
  except those of the oldest backup when the log had to rotate; the new record is the last it is given
  when no other claims a later time.
\<close>

theorem recorded_event_is_read_back:
  assumes "faults d = []" and "whole_lines (fmlookup (files d) base)"
    and "0 \<le> now" and "now < 2 ^ 64"
    and "r = build_record (word_of_int now) source severity area code params detail redactions"
    and "text_of_record print parse r" and "length (record_line print r) \<le> MAX_EVENT_LOG_BYTES"
    and "path_has_parent base"
  shows "\<exists>d'. record_event print base now source severity area code params detail redactions d = (Ok (), d')
    \<and> valid_record r
    \<and> read_events parse d' [base] limit
      = newest_records limit (kept_entries parse d base (length (record_line print r)) @ [r])
    \<and> (limit \<noteq> 0 \<and> (\<forall>y\<in>set (kept_entries parse d base (length (record_line print r))). er_ts y \<le> er_ts r)
       \<longrightarrow> last (read_events parse d' [base] limit) = r)"
proof -
  have valid: "valid_record r" and sorted: "bt_sorted (er_params r)"
    using build_record_valid build_record_params assms(5) by auto
  have "record_event print base now source severity area code params detail redactions d
      = append_record print base r d"
    using assms(3-5) by (simp add: record_event_def unix_time_ms_def and_then_def)
  then obtain d' where d': "record_event print base now source severity area code params detail redactions d = (Ok (), d')"
      "log_entries parse d' base = kept_entries parse d base (length (record_line print r)) @ [r]"
    using append_record_entries [OF assms(1,2,6) sorted valid assms(7,8)] by (auto simp: kept_entries_def)
  then show ?thesis
    using valid newest_is_last [of limit "kept_entries parse d base (length (record_line print r))" r]
    by (auto simp: read_events_newest)
qed

text \<open>
  Sanitized text is within its bound and on one line, and no run of exactly 32 hexadecimal
  digits, the form of a nonce, survives the redaction.
\<close>

theorem sanitized_text_is_safe:
  "length (sanitize_text s redactions n) \<le> n \<and> no_line_break (sanitize_text s redactions n)
     \<and> list_all (\<lambda>run. length run \<noteq> 32) (hex_runs (redact_nonce_candidates s))"
  by (simp add: sanitize_text_length sanitize_text_clean redact_nonce_no_run list_all_iff)

section \<open>Sample runs\<close>

definition sample_event :: event_record where
  "sample_event = build_record (word_of_int 5) SrcServiceHost SevInfo AreaService ''service-started''
     [(''version'', ''1.0'')] None []"

definition sample_disk :: log_disk where
  "sample_disk = \<lparr>files = fmap_of_list [(''log'', [])], faults = []\<rparr>"

lemma log_files_stay_bounded_witness:
  "log_bounded ''log'' (snd (record_event (\<lambda>j. ''x'') ''log'' 5 SrcServiceHost SevInfo AreaService
      ''service-started'' [] None [] (sample_disk\<lparr>faults := [None, None, None, Some 1]\<rparr>)))"
  by (rule log_files_stay_bounded) (simp add: log_bounded_def sample_disk_def fmlookup_of_list)

lemma recorded_event_is_read_back_witness:
  "\<exists>d'. record_event (\<lambda>j. ''x'') ''log'' 5 SrcServiceHost SevInfo AreaService ''service-started''
        [(''version'', ''1.0'')] None [] sample_disk = (Ok (), d')
    \<and> read_events (\<lambda>s. if s = ''x'' then Some (event_to_json sample_event) else None) d' [''log''] 10 = [sample_event]"
proof -
  let ?parse = "\<lambda>s. if s = ''x'' then Some (event_to_json sample_event) else None"
  have old: "log_entries ?parse sample_disk ''log'' = []" by code_simp
  have fit: "fits ''log'' (length (record_line (\<lambda>j. ''x'') sample_event)) sample_disk" by code_simp
  have a: "faults sample_disk = []" "whole_lines (fmlookup (files sample_disk) ''log'')"
    by (simp_all add: sample_disk_def whole_lines_def fmlookup_of_list)
  have b: "text_of_record (\<lambda>j. ''x'') ?parse sample_event"
    by (simp add: text_of_record_def byte_def)
  have c: "length (record_line (\<lambda>j. ''x'') sample_event) \<le> MAX_EVENT_LOG_BYTES"
    by (simp add: record_line_def MAX_EVENT_LOG_BYTES_def)
  have "path_has_parent ''log''" by code_simp
  from recorded_event_is_read_back [OF a _ _ sample_event_def b c this, of 10] old fit
  show ?thesis by (auto simp: kept_entries_def newest_records_def)
qed

end
