(* ===== verification/Host_Event_Log.thy ===== *)
theory Host_Event_Log
  imports Event_Log Helper_Broker
begin

text \<open>
  The event logger of the service host (\<open>host/src/event_log.rs\<close>): it turns host events into records
  of the event log, counts injections and skips into a summary per window of one minute, and writes
  one failure per process and reason, and one broker failure per architecture, in ten minutes.

  Every call of \<open>EventLogWriter::record\<close> is appended to a trace of requests, and to a trace of
  recorded requests when the writer answers success; the calls also run against the disk of
  \<open>Event_Log\<close>.  The wall clock of the record time stamps is a
  function from the number of the request to milliseconds.
\<close>

section \<open>State\<close>

definition SUMMARY_WINDOW :: duration where "SUMMARY_WINDOW = from_secs 60"
definition DEDUPE_WINDOW :: duration where "DEDUPE_WINDOW = from_secs (10 * 60)"

fun observer_name :: "live_observer \<Rightarrow> string" where
  "observer_name Etw = ''etw''"
| "observer_name Wmi = ''wmi''"

record injection_counts =
  ic_injected :: u64
  ic_failed :: u64
  ic_skipped :: u64

definition default_counts :: injection_counts where
  "default_counts = \<lparr>ic_injected = 0, ic_failed = 0, ic_skipped = 0\<rparr>"

record pipeline_samples =
  ps_count :: u64
  ps_millis_sum :: u64
  ps_millis_max :: u64
  ps_backlog_max :: nat
  ps_age_count :: u64
  ps_age_sum :: u64
  ps_age_max :: u64

definition default_pipeline :: pipeline_samples where
  "default_pipeline = \<lparr>ps_count = 0, ps_millis_sum = 0, ps_millis_max = 0, ps_backlog_max = 0,
     ps_age_count = 0, ps_age_sum = 0, ps_age_max = 0\<rparr>"

record injection_summary =
  su_window_start :: instant
  su_counts :: injection_counts
  su_skip_reasons :: "u64 btree_map"
  su_pipeline :: pipeline_samples

text \<open>A call of \<open>EventLogWriter::record\<close>; the source is always the service host, without redactions.\<close>

record log_request =
  lr_severity :: event_severity
  lr_area :: event_area
  lr_code :: string
  lr_params :: "string btree_map"
  lr_detail :: "string option"

record host_logger =
  hl_disk :: log_disk
  hl_requests :: "log_request list"
  hl_recorded :: "log_request list"
  hl_write_error_reported :: bool
  hl_health :: "health_state option"
  hl_observer :: "live_observer option"
  hl_summary :: injection_summary
  hl_injection_throttle :: throttle
  hl_helper_throttle :: throttle

record log_env =
  le_print :: "json \<Rightarrow> string"
  le_path :: string
  le_clock :: "nat \<Rightarrow> int"
  le_arrange :: "throttle \<Rightarrow> throttle"

definition new_logger :: "log_disk \<Rightarrow> instant \<Rightarrow> host_logger" where
  "new_logger disk now =
     \<lparr>hl_disk = disk, hl_requests = [], hl_recorded = [], hl_write_error_reported = False, hl_health = None,
      hl_observer = None,
      hl_summary = \<lparr>su_window_start = now, su_counts = default_counts, su_skip_reasons = [],
        su_pipeline = default_pipeline\<rparr>,
      hl_injection_throttle = [], hl_helper_throttle = []\<rparr>"

section \<open>Pipeline samples\<close>

definition pipeline_record :: "u64 \<Rightarrow> nat \<Rightarrow> u64 option \<Rightarrow> pipeline_samples \<Rightarrow> pipeline_samples" where
  "pipeline_record millis backlog age_millis p =
     (let p = p\<lparr>ps_count := ps_count p + 1,
                ps_millis_sum := saturating_add (ps_millis_sum p) millis,
                ps_millis_max := max (ps_millis_max p) millis,
                ps_backlog_max := max (ps_backlog_max p) backlog\<rparr>
      in case age_millis of
           None \<Rightarrow> p
         | Some age \<Rightarrow>
             p\<lparr>ps_age_count := ps_age_count p + 1, ps_age_sum := saturating_add (ps_age_sum p) age,
               ps_age_max := max (ps_age_max p) age\<rparr>)"

text \<open>\<open>checked_div(count).unwrap_or(0)\<close>.\<close>

definition average_millis :: "pipeline_samples \<Rightarrow> u64" where
  "average_millis p = (if ps_count p = 0 then 0 else ps_millis_sum p div ps_count p)"

definition average_age_millis :: "pipeline_samples \<Rightarrow> u64" where
  "average_age_millis p = (if ps_age_count p = 0 then 0 else ps_age_sum p div ps_age_count p)"

section \<open>Details\<close>

text \<open>The reasons by falling count, equal counts by name.\<close>

fun ranks_before :: "string \<times> u64 \<Rightarrow> string \<times> u64 \<Rightarrow> bool" where
  "ranks_before (n1, c1) (n2, c2) \<longleftrightarrow> c2 < c1 \<or> (c1 = c2 \<and> n1 \<le> n2)"

fun rank_insert :: "string \<times> u64 \<Rightarrow> (string \<times> u64) list \<Rightarrow> (string \<times> u64) list" where
  "rank_insert x [] = [x]"
| "rank_insert x (y # ys) = (if ranks_before x y then x # y # ys else y # rank_insert x ys)"

definition ranked_reasons :: "u64 btree_map \<Rightarrow> (string \<times> u64) list" where
  "ranked_reasons reasons = foldr rank_insert reasons []"

definition summary_text :: "u64 btree_map \<Rightarrow> pipeline_samples \<Rightarrow> live_observer option \<Rightarrow> string" where
  "summary_text reasons pipeline observer =
     (let detail =
            (if ps_count pipeline > 0
             then ''handle_avg_ms='' @ show_word (average_millis pipeline) @ '' handle_max_ms=''
                  @ show_word (ps_millis_max pipeline)
                  @ (if ps_age_count pipeline > 0
                     then '' age_avg_ms='' @ show_word (average_age_millis pipeline) @ '' age_max_ms=''
                          @ show_word (ps_age_max pipeline)
                     else [])
                  @ '' backlog_max='' @ show_nat (ps_backlog_max pipeline) @ '' n=''
                  @ show_word (ps_count pipeline)
             else []);
          detail =
            (case observer of
               None \<Rightarrow> detail
             | Some o' \<Rightarrow>
                 detail @ (if detail \<noteq> [] then '' '' else []) @ ''observer='' @ observer_name o')
      in if reasons = [] then detail
         else detail @ (if detail \<noteq> [] then '' | '' else []) @ ''skip:''
              @ concat (map (\<lambda>(reason, n). '' '' @ reason @ ''='' @ show_word n) (ranked_reasons reasons)))"

definition summary_detail ::
  "u64 btree_map \<Rightarrow> pipeline_samples \<Rightarrow> live_observer option \<Rightarrow> string option" where
  "summary_detail reasons pipeline observer =
     (let detail = summary_text reasons pipeline observer
      in if detail = [] then None
         else if MAX_EVENT_DETAIL_BYTES < length detail
         then Some (take (floor_char_boundary detail (MAX_EVENT_DETAIL_BYTES - 3)) detail @ ''...'')
         else Some detail)"

text \<open>The \<open>Debug\<close> names of the outcomes.\<close>

fun show_outcome :: "process_outcome \<Rightarrow> string" where
  "show_outcome PoInjected = ''Injected''"
| "show_outcome PoSkipped = ''Skipped''"
| "show_outcome PoDeferred = ''Deferred''"
| "show_outcome PoDuplicate = ''Duplicate''"
| "show_outcome PoRejected = ''Rejected''"
| "show_outcome PoRetryExhausted = ''RetryExhausted''"
| "show_outcome PoCancelled = ''Cancelled''"

definition diagnostic_detail :: "process_attempt_record \<Rightarrow> string" where
  "diagnostic_detail r =
     sanitize_text
       (''pid='' @ show_word (pid (ar_identity r)) @ '' creation_time=''
        @ show_word (creation_time (ar_identity r)) @ '' session_id=''
        @ show_word (session_id (ar_identity r)) @ '' disposition='' @ show_outcome (ar_outcome r)
        @ '' attempts='' @ show_word (ar_attempts r) @ '' reason='' @ ar_code r @ '' win32=''
        @ show_win32 (ar_win32_error r))
       [] MAX_EVENT_DETAIL_BYTES"

fun health_name :: "health_state \<Rightarrow> string" where
  "health_name HsUnknown = ''unknown''"
| "health_name HsInitializing = ''initializing''"
| "health_name HsReady = ''ready''"
| "health_name HsDegraded = ''degraded''"
| "health_name HsFailed = ''failed''"

section \<open>The logger\<close>

definition write_event ::
  "log_env \<Rightarrow> event_severity \<Rightarrow> event_area \<Rightarrow> string \<Rightarrow> string btree_map \<Rightarrow> string option \<Rightarrow>
     host_logger \<Rightarrow> host_logger" where
  "write_event env severity area code params detail l =
     (let (written, d) = record_event (le_print env) (le_path env) (le_clock env (length (hl_requests l)))
                           SrcServiceHost severity area code params detail [] (hl_disk l);
          request = \<lparr>lr_severity = severity, lr_area = area, lr_code = code, lr_params = params,
                     lr_detail = detail\<rparr>
      in l\<lparr>hl_disk := d,
           hl_requests := hl_requests l @ [request],
           hl_recorded := hl_recorded l @ (case written of Inl _ \<Rightarrow> [] | Inr _ \<Rightarrow> [request]),
           hl_write_error_reported :=
             (hl_write_error_reported l \<or> (case written of Inl _ \<Rightarrow> True | Inr _ \<Rightarrow> False))\<rparr>)"

definition service_started :: "log_env \<Rightarrow> string \<Rightarrow> host_logger \<Rightarrow> host_logger" where
  "service_started env version l =
     (write_event env SevInfo AreaService ''service-started'' [(''version'', version)] None l)
       \<lparr>hl_health := Some HsReady\<rparr>"

definition service_start_skipped :: "log_env \<Rightarrow> structured_service_error \<Rightarrow> host_logger \<Rightarrow> host_logger" where
  "service_start_skipped env error l =
     write_event env SevInfo AreaService ''service-start-skipped''
       [(''message'', se_message error), (''reason'', se_code error)] None l"

definition health_changed ::
  "log_env \<Rightarrow> health_state \<Rightarrow> structured_service_error option \<Rightarrow> host_logger \<Rightarrow> host_logger" where
  "health_changed env state error l =
     (if hl_health l = Some state then l
      else
        (let recovered = (state = HsReady \<and> hl_health l \<in> {Some HsDegraded, Some HsFailed});
             l = l\<lparr>hl_health := Some state\<rparr>
         in if state \<notin> {HsDegraded, HsFailed} \<and> \<not> recovered then l
            else
              (let params = bt_insert ''state'' (health_name state) [];
                   params = (case error of
                               None \<Rightarrow> params
                             | Some e \<Rightarrow> bt_insert ''message'' (se_message e) (bt_insert ''code'' (se_code e) params))
               in case state of
                    HsDegraded \<Rightarrow> write_event env SevNotice AreaService ''service-health-changed'' params None l
                  | HsFailed \<Rightarrow> write_event env SevError AreaService ''service-health-changed'' params None l
                  | HsReady \<Rightarrow> write_event env SevInfo AreaService ''service-health-changed'' params None l
                  | _ \<Rightarrow> l)))"

definition flush_summary :: "log_env \<Rightarrow> instant \<Rightarrow> host_logger \<Rightarrow> host_logger" where
  "flush_summary env now l =
     (let counts = su_counts (hl_summary l);
          reasons = su_skip_reasons (hl_summary l);
          pipeline = su_pipeline (hl_summary l);
          l = l\<lparr>hl_summary := \<lparr>su_window_start = now, su_counts = default_counts, su_skip_reasons = [],
                               su_pipeline = default_pipeline\<rparr>\<rparr>
      in if ic_injected counts = 0 \<and> ic_failed counts = 0 \<and> ic_skipped counts = 0 then l
         else write_event env SevInfo AreaInjection ''injection-summary''
                (bt_collect [(''injected'', show_word (ic_injected counts)),
                             (''failed'', show_word (ic_failed counts)),
                             (''skipped'', show_word (ic_skipped counts))])
                (summary_detail reasons pipeline (hl_observer l)) l)"

definition flush_elapsed_summary :: "log_env \<Rightarrow> instant \<Rightarrow> host_logger \<Rightarrow> host_logger" where
  "flush_elapsed_summary env now l =
     (if SUMMARY_WINDOW \<le> now - su_window_start (hl_summary l) then flush_summary env now l else l)"

text \<open>\<open>*skip_reasons.entry(reason).or_default() += 1\<close>.\<close>

definition count_reason :: "string \<Rightarrow> u64 btree_map \<Rightarrow> u64 btree_map" where
  "count_reason reason m = bt_insert reason ((case map_of m reason of None \<Rightarrow> 0 | Some n \<Rightarrow> n) + 1) m"

definition count_skip :: "string \<Rightarrow> host_logger \<Rightarrow> host_logger" where
  "count_skip reason l =
     (let s = hl_summary l; c = su_counts s
      in l\<lparr>hl_summary := s\<lparr>su_counts := c\<lparr>ic_skipped := ic_skipped c + 1\<rparr>,
                            su_skip_reasons := count_reason reason (su_skip_reasons s)\<rparr>\<rparr>)"

definition log_injection_skipped :: "log_env \<Rightarrow> string \<Rightarrow> instant \<Rightarrow> host_logger \<Rightarrow> host_logger" where
  "log_injection_skipped env reason now l = count_skip reason (flush_elapsed_summary env now l)"

definition injection_pipeline_sample :: "u64 \<Rightarrow> nat \<Rightarrow> u64 option \<Rightarrow> host_logger \<Rightarrow> host_logger" where
  "injection_pipeline_sample millis backlog age_millis l =
     l\<lparr>hl_summary := (hl_summary l)
        \<lparr>su_pipeline := pipeline_record millis backlog age_millis (su_pipeline (hl_summary l))\<rparr>\<rparr>"

definition injection_result ::
  "log_env \<Rightarrow> process_attempt_record \<Rightarrow> string \<Rightarrow> string \<Rightarrow> instant \<Rightarrow> host_logger \<Rightarrow> host_logger" where
  "injection_result env r process detail now l =
     (let l = flush_elapsed_summary env now l; s = hl_summary l; c = su_counts s
      in case ar_outcome r of
           PoInjected \<Rightarrow> l\<lparr>hl_summary := s\<lparr>su_counts := c\<lparr>ic_injected := ic_injected c + 1\<rparr>\<rparr>\<rparr>
         | PoSkipped \<Rightarrow> count_skip (ar_code r) l
         | PoDeferred \<Rightarrow> l
         | PoDuplicate \<Rightarrow> l
         | PoCancelled \<Rightarrow> l
         | _ \<Rightarrow>
             (let l = l\<lparr>hl_summary := s\<lparr>su_counts := c\<lparr>ic_failed := ic_failed c + 1\<rparr>\<rparr>\<rparr>;
                  (allowed, t) = throttle_allow (le_arrange env) (process @ ''|'' @ ar_code r) now
                                   DEDUPE_WINDOW (hl_injection_throttle l);
                  l = l\<lparr>hl_injection_throttle := t\<rparr>
              in if allowed
                 then write_event env SevWarning AreaInjection ''injection-failed''
                        [(''process'', process), (''reason'', ar_code r)] (Some detail) l
                 else l))"

definition architecture_name :: "process_architecture \<Rightarrow> string" where
  "architecture_name a = (case a of X86 \<Rightarrow> ''x86'' | X64 \<Rightarrow> ''x64'')"

definition log_helper_broker_failed ::
  "log_env \<Rightarrow> process_architecture \<Rightarrow> string \<Rightarrow> string option \<Rightarrow> instant \<Rightarrow> host_logger \<Rightarrow> host_logger" where
  "log_helper_broker_failed env a code detail now l =
     (let (allowed, t) = throttle_allow (le_arrange env) (architecture_name a) now DEDUPE_WINDOW
                           (hl_helper_throttle l);
          l = l\<lparr>hl_helper_throttle := t\<rparr>
      in if allowed
         then write_event env SevError AreaInjection ''helper-broker-failed''
                [(''architecture'', architecture_name a), (''code'', code)] detail l
         else l)"

text \<open>\<open>HostEventLogger::record_at\<close>: one event under the lock of the logger.\<close>

fun record_at :: "log_env \<Rightarrow> host_event \<Rightarrow> instant \<Rightarrow> host_logger \<Rightarrow> host_logger" where
  "record_at env (EvServiceStarted version) now l = service_started env version l"
| "record_at env (EvServiceStartSkipped error) now l = service_start_skipped env error l"
| "record_at env EvServiceStopped now l =
     write_event env SevInfo AreaService ''service-stopped'' [] None (flush_summary env now l)"
| "record_at env (EvHealthChanged state error) now l = health_changed env state error l"
| "record_at env (EvInjectionResult r process) now l =
     injection_result env r process
       (if ar_outcome r \<in> {PoRejected, PoRetryExhausted} then diagnostic_detail r else []) now l"
| "record_at env (EvInjectionSkipped reason) now l = log_injection_skipped env reason now l"
| "record_at env (EvInjectionPipelineSample millis backlog age) now l =
     injection_pipeline_sample millis backlog age l"
| "record_at env (EvLiveObserverSelected o') now l = l\<lparr>hl_observer := Some o'\<rparr>"
| "record_at env EvFlushInjectionSummary now l = flush_elapsed_summary env now l"
| "record_at env (EvHelperBrokerFailed a code detail) now l =
     log_helper_broker_failed env a code detail now l"

fun record_all :: "log_env \<Rightarrow> (host_event \<times> instant) list \<Rightarrow> host_logger \<Rightarrow> host_logger" where
  "record_all env [] l = l"
| "record_all env ((event, now) # rest) l = record_all env rest (record_at env event now l)"

end
