(* ===== verification/Host_Log_Properties.thy ===== *)
theory Host_Log_Properties
  imports Host_Event_Log Event_Log_Properties
begin

text \<open>
  What the host's log says is complete and not repetitive: the summaries account for every injection
  event, and the throttle lets one event per key through in each window.
\<close>

section \<open>The summaries account for every event\<close>

definition add_counts :: "injection_counts \<Rightarrow> injection_counts \<Rightarrow> injection_counts" where
  "add_counts a b = \<lparr>ic_injected = ic_injected a + ic_injected b, ic_failed = ic_failed a + ic_failed b,
     ic_skipped = ic_skipped a + ic_skipped b\<rparr>"

definition sum_counts :: "injection_counts list \<Rightarrow> injection_counts" where
  "sum_counts cs = foldr add_counts cs default_counts"

text \<open>What one host event adds.\<close>

fun event_counts :: "host_event \<Rightarrow> injection_counts" where
  "event_counts (EvInjectionResult r _) =
     (case ar_outcome r of
        PoInjected \<Rightarrow> default_counts\<lparr>ic_injected := 1\<rparr>
      | PoSkipped \<Rightarrow> default_counts\<lparr>ic_skipped := 1\<rparr>
      | PoRejected \<Rightarrow> default_counts\<lparr>ic_failed := 1\<rparr>
      | PoRetryExhausted \<Rightarrow> default_counts\<lparr>ic_failed := 1\<rparr>
      | _ \<Rightarrow> default_counts)"
| "event_counts (EvInjectionSkipped _) = default_counts\<lparr>ic_skipped := 1\<rparr>"
| "event_counts _ = default_counts"

definition summary_params :: "injection_counts \<Rightarrow> string btree_map" where
  "summary_params c =
     bt_collect [(''injected'', show_word (ic_injected c)), (''failed'', show_word (ic_failed c)),
                 (''skipped'', show_word (ic_skipped c))]"

definition requested_summaries :: "host_logger \<Rightarrow> string btree_map list" where
  "requested_summaries l = map lr_params (filter (\<lambda>r. lr_code r = ''injection-summary'') (hl_requests l))"

text \<open>
  The summaries handed to the writer so far and the pending one add up to the given counts, and the
  pending skip reasons add up to the pending skips.
\<close>

definition accounted :: "injection_counts \<Rightarrow> host_logger \<Rightarrow> bool" where
  "accounted n l \<longleftrightarrow>
     (\<exists>cs. requested_summaries l = map summary_params cs
         \<and> sum_counts (cs @ [su_counts (hl_summary l)]) = n)
     \<and> sum_list (map snd (su_skip_reasons (hl_summary l))) = ic_skipped (su_counts (hl_summary l))
     \<and> bt_sorted (su_skip_reasons (hl_summary l))"

lemma add_counts_simps [simp]:
  "ic_injected (add_counts a b) = ic_injected a + ic_injected b"
  "ic_failed (add_counts a b) = ic_failed a + ic_failed b"
  "ic_skipped (add_counts a b) = ic_skipped a + ic_skipped b"
  "add_counts a default_counts = a" "add_counts default_counts a = a"
  by (simp_all add: add_counts_def default_counts_def)

lemma add_counts_assoc: "add_counts (add_counts a b) c = add_counts a (add_counts b c)"
  by (simp add: add_counts_def add.assoc)

lemma add_counts_commute: "add_counts a b = add_counts b a"
  by (simp add: add_counts_def add.commute)

lemma sum_counts_simps [simp]: "sum_counts [] = default_counts" "sum_counts (c # cs) = add_counts c (sum_counts cs)"
  by (simp_all add: sum_counts_def)

lemma sum_counts_append [simp]: "sum_counts (cs @ ds) = add_counts (sum_counts cs) (sum_counts ds)"
  by (induction cs) (simp_all add: add_counts_assoc)

lemma default_counts_simps [simp]:
  "ic_injected default_counts = 0" "ic_failed default_counts = 0" "ic_skipped default_counts = 0"
  by (simp_all add: default_counts_def)

lemma write_event_simps [simp]:
  "hl_summary (write_event env s a code ps d l) = hl_summary l"
  "hl_requests (write_event env s a code ps d l) = hl_requests l @
     [\<lparr>lr_severity = s, lr_area = a, lr_code = code, lr_params = ps, lr_detail = d\<rparr>]"
  "hl_injection_throttle (write_event env s a code ps d l) = hl_injection_throttle l"
  "hl_helper_throttle (write_event env s a code ps d l) = hl_helper_throttle l"
  by (simp_all add: write_event_def Let_def split: prod.splits)

lemma accounted_write:
  "code \<noteq> ''injection-summary'' \<Longrightarrow> accounted n (write_event env s a code ps d l) = accounted n l"
  by (simp add: accounted_def requested_summaries_def)

lemma accounted_updates [simp]:
  "accounted n (l\<lparr>hl_health := h\<rparr>) = accounted n l" "accounted n (l\<lparr>hl_observer := ob\<rparr>) = accounted n l"
  "accounted n (l\<lparr>hl_helper_throttle := t\<rparr>) = accounted n l"
  "accounted n (injection_pipeline_sample m b a l) = accounted n l"
  by (simp_all add: accounted_def requested_summaries_def injection_pipeline_sample_def)

lemma accounted_flush: "accounted n l \<Longrightarrow> accounted n (flush_summary env now l)"
proof -
  assume a: "accounted n l"
  let ?c = "su_counts (hl_summary l)"
  from a obtain cs where cs: "requested_summaries l = map summary_params cs" "sum_counts (cs @ [?c]) = n"
    by (auto simp: accounted_def)
  show ?thesis
  proof (cases "ic_injected ?c = 0 \<and> ic_failed ?c = 0 \<and> ic_skipped ?c = 0")
    case True
    then have "?c = default_counts" by (simp add: default_counts_def)
    with cs True show ?thesis
      by (auto simp: accounted_def requested_summaries_def flush_summary_def Let_def bt_sorted_def)
  next
    case False
    then show ?thesis
      using cs unfolding accounted_def
      by (intro conjI exI [of _ "cs @ [?c]"])
        (auto simp: requested_summaries_def flush_summary_def Let_def summary_params_def bt_sorted_def)
  qed
qed

lemma accounted_flush_elapsed: "accounted n l \<Longrightarrow> accounted n (flush_elapsed_summary env now l)"
  by (simp add: flush_elapsed_summary_def accounted_flush)

lemma accounted_add:
  assumes "accounted n l" and "hl_requests l' = hl_requests l"
    and "su_counts (hl_summary l') = add_counts (su_counts (hl_summary l)) c"
    and "sum_list (map snd (su_skip_reasons (hl_summary l')))
       = sum_list (map snd (su_skip_reasons (hl_summary l))) + ic_skipped c"
    and "bt_sorted (su_skip_reasons (hl_summary l'))"
  shows "accounted (add_counts n c) l'"
  using assms by (auto simp: accounted_def requested_summaries_def add_counts_assoc)

lemma sum_bt_insert:
  "sum_list (map snd (bt_insert k (v :: u64) m)) =
     (case map_of m k of None \<Rightarrow> v + sum_list (map snd m) | Some w \<Rightarrow> sum_list (map snd m) - w + v)"
  if "bt_sorted m"
  using that unfolding bt_sorted_def
proof (induction k v m rule: bt_insert.induct)
  case (2 k v k' v' m)
  have "map_of m k = None" if "k < k'"
    using that 2(2) by (auto simp: map_of_eq_None_iff)
  then show ?case using 2 by (auto split: option.splits)
qed simp

lemma count_reason_sum:
  "bt_sorted m \<Longrightarrow> sum_list (map snd (count_reason r m)) = sum_list (map snd m) + 1 \<and> bt_sorted (count_reason r m)"
  using sum_bt_insert [of m r] by (auto simp: count_reason_def bt_insert_sorted split: option.splits)

lemma accounted_count_skip:
  "accounted n l \<Longrightarrow> accounted (add_counts n (default_counts\<lparr>ic_skipped := 1\<rparr>)) (count_skip reason l)"
  using count_reason_sum [of "su_skip_reasons (hl_summary l)" reason]
  by (intro accounted_add [of n l])
    (auto simp: count_skip_def Let_def add_counts_def default_counts_def accounted_def)

lemma accounted_injected:
  "accounted n l \<Longrightarrow> accounted (add_counts n (default_counts\<lparr>ic_injected := 1\<rparr>))
     (l\<lparr>hl_summary := (hl_summary l)\<lparr>su_counts := (su_counts (hl_summary l))
        \<lparr>ic_injected := ic_injected (su_counts (hl_summary l)) + 1\<rparr>\<rparr>\<rparr>)"
  by (intro accounted_add [of n l]) (auto simp: add_counts_def default_counts_def accounted_def)

lemma accounted_failed:
  "accounted n l \<Longrightarrow> accounted (add_counts n (default_counts\<lparr>ic_failed := 1\<rparr>))
     (l\<lparr>hl_summary := (hl_summary l)\<lparr>su_counts := (su_counts (hl_summary l))
        \<lparr>ic_failed := ic_failed (su_counts (hl_summary l)) + 1\<rparr>\<rparr>, hl_injection_throttle := t\<rparr>)"
  by (intro accounted_add [of n l]) (auto simp: add_counts_def default_counts_def accounted_def)

lemma accounted_injection_result:
  assumes "accounted n l"
  shows "accounted (add_counts n (event_counts (EvInjectionResult r p))) (injection_result env r p detail now l)"
proof -
  have f: "accounted n (flush_elapsed_summary env now l)" using assms by (rule accounted_flush_elapsed)
  note steps = accounted_injected [OF f] accounted_failed [OF f] accounted_count_skip [OF f] f
  show ?thesis
    using steps
    by (cases "ar_outcome r") (auto simp: injection_result_def Let_def accounted_write split: prod.splits)
qed

lemma accounted_record:
  assumes "accounted n l"
  shows "accounted (add_counts n (event_counts event)) (record_at env event now l)"
proof (cases event)
  case (EvServiceStarted v)
  then show ?thesis using assms by (simp add: service_started_def accounted_write)
next
  case (EvServiceStartSkipped e)
  then show ?thesis using assms by (simp add: service_start_skipped_def accounted_write)
next
  case EvServiceStopped
  then show ?thesis using assms by (simp add: accounted_write accounted_flush)
next
  case (EvHealthChanged st e)
  then show ?thesis using assms by (cases st) (auto simp: health_changed_def Let_def accounted_write)
next
  case (EvInjectionResult r p)
  then show ?thesis using accounted_injection_result [OF assms] by simp
next
  case (EvInjectionSkipped x)
  then show ?thesis
    using accounted_count_skip [OF accounted_flush_elapsed [OF assms]] by (simp add: log_injection_skipped_def)
next
  case EvFlushInjectionSummary
  then show ?thesis using assms by (simp add: accounted_flush_elapsed)
next
  case (EvHelperBrokerFailed a c d)
  then show ?thesis using assms
    by (simp add: log_helper_broker_failed_def Let_def accounted_write split: prod.splits)
qed (use assms in simp_all)

lemma accounted_run:
  "accounted n l \<Longrightarrow> accounted (add_counts n (sum_counts (map (\<lambda>e. event_counts (fst e)) events)))
     (record_all env events l)"
proof (induction events arbitrary: n l)
  case (Cons e events)
  obtain ev now where [simp]: "e = (ev, now)" by fastforce
  show ?case
    using Cons.IH [OF accounted_record [OF Cons.prems, of ev env now]] by (simp add: add_counts_assoc)
qed simp

text \<open>Until a write fails the writer acknowledges every request.\<close>

definition acknowledged :: "host_logger \<Rightarrow> bool" where
  "acknowledged l \<longleftrightarrow> hl_write_error_reported l \<or> hl_recorded l = hl_requests l"

lemma acknowledged_write [simp]: "acknowledged l \<Longrightarrow> acknowledged (write_event env s a code ps d l)"
  by (auto simp: acknowledged_def write_event_def Let_def split: prod.splits sum.splits)

lemma acknowledged_updates [simp]:
  "acknowledged (l\<lparr>hl_health := h\<rparr>) = acknowledged l" "acknowledged (l\<lparr>hl_observer := ob\<rparr>) = acknowledged l"
  "acknowledged (l\<lparr>hl_helper_throttle := t\<rparr>) = acknowledged l"
  "acknowledged (l\<lparr>hl_injection_throttle := t\<rparr>) = acknowledged l"
  "acknowledged (l\<lparr>hl_summary := su\<rparr>) = acknowledged l"
  by (simp_all add: acknowledged_def)

lemma acknowledged_flush [simp]:
  "acknowledged l \<Longrightarrow> acknowledged (flush_summary env now l)"
  "acknowledged l \<Longrightarrow> acknowledged (flush_elapsed_summary env now l)"
  by (simp_all add: flush_elapsed_summary_def flush_summary_def Let_def)

lemma acknowledged_count_skip [simp]: "acknowledged (count_skip reason l) = acknowledged l"
  by (simp add: count_skip_def Let_def)

lemma acknowledged_injection_result:
  assumes "acknowledged l"
  shows "acknowledged (injection_result env r p detail now l)"
  using assms by (cases "ar_outcome r") (auto simp: injection_result_def Let_def split: prod.splits)

lemma acknowledged_record: "acknowledged l \<Longrightarrow> acknowledged (record_at env event now l)"
proof (cases event)
  case (EvHealthChanged st e)
  then show "acknowledged l \<Longrightarrow> ?thesis" by (cases st) (auto simp: health_changed_def Let_def)
qed (auto simp: service_started_def service_start_skipped_def acknowledged_injection_result
  log_injection_skipped_def injection_pipeline_sample_def log_helper_broker_failed_def Let_def split: prod.splits)

lemma acknowledged_run: "acknowledged l \<Longrightarrow> acknowledged (record_all env events l)"
proof (induction events arbitrary: l)
  case (Cons e events)
  then show ?case by (cases e) (simp add: acknowledged_record)
qed simp

section \<open>The throttle\<close>

fun throttle_run ::
  "(throttle \<Rightarrow> throttle) \<Rightarrow> duration \<Rightarrow> (string \<times> instant) list \<Rightarrow> throttle \<Rightarrow> bool list" where
  "throttle_run arrange window [] t = []"
| "throttle_run arrange window ((key, now) # calls) t =
     (let (allowed, t) = throttle_allow arrange key now window t
      in allowed # throttle_run arrange window calls t)"

text \<open>The last time a key was let through, among the first \<open>n\<close> calls.\<close>

fun last_allowed :: "(string \<times> instant) list \<Rightarrow> bool list \<Rightarrow> string \<Rightarrow> instant option" where
  "last_allowed ((k, now) # calls) (a # answers) key =
     (case last_allowed calls answers key of
        Some t \<Rightarrow> Some t
      | None \<Rightarrow> if a \<and> k = key then Some now else None)"
| "last_allowed _ _ key = None"

lemma throttle_allow_no_eviction:
  assumes "key \<in> fst ` set t \<or> length t < 256"
  shows "throttle_allow arrange key now window t =
    (if (case map_of t key of None \<Rightarrow> False | Some p \<Rightarrow> now - p < window) then (False, t)
     else (True, AList.update key now t))"
  using assms by (auto simp: throttle_allow_def Let_def)

lemma throttle_step:
  assumes "distinct (map fst t)" and "fst ` set t \<subseteq> K" and "finite K" and "card K \<le> 256" and "k \<in> K"
    and "throttle_allow arrange k now window t = (a, t')"
  shows "distinct (map fst t') \<and> fst ` set t' \<subseteq> K
     \<and> (a \<longleftrightarrow> (case map_of t k of None \<Rightarrow> True | Some p \<Rightarrow> window \<le> now - p))
     \<and> (\<forall>key. map_of t' key = (if a \<and> k = key then Some now else map_of t key))"
proof -
  have len: "length t = card (fst ` set t)" using assms(1) by (metis distinct_card length_map set_map)
  have room: "k \<in> fst ` set t \<or> length t < 256"
  proof (cases "k \<in> fst ` set t")
    case False
    then have "fst ` set t \<subset> K" using assms(2,5) by blast
    then have "card (fst ` set t) < card K" using assms(3) by (simp add: psubset_card_mono)
    with len assms(4) show ?thesis by simp
  qed simp
  have keys: "fst ` set (AList.update k now t) = insert k (fst ` set t)"
    using dom_update [of k now t] by (simp add: dom_map_of_conv_image_fst)
  show ?thesis
    using assms(6) throttle_allow_no_eviction [OF room, of arrange now window] assms(1,2,5) keys
      distinct_update [OF assms(1), of k now] update_conv' [of k now t]
    by (cases "map_of t k") (auto simp: not_less simp del: map_of_eq_Some_iff split: if_splits)
qed

lemma throttle_run_characterised:
  assumes "distinct (map fst t)" and "fst ` set t \<subseteq> K" and "finite K" and "card K \<le> 256"
    and "fst ` set calls \<subseteq> K" and "n < length calls" and "calls ! n = (key, now)"
  shows "throttle_run arrange window calls t ! n \<longleftrightarrow>
    (case (case last_allowed (take n calls) (throttle_run arrange window (take n calls) t) key of
             Some x \<Rightarrow> Some x | None \<Rightarrow> map_of t key) of
       None \<Rightarrow> True | Some p \<Rightarrow> window \<le> now - p)"
  using assms
proof (induction calls arbitrary: t n)
  case (Cons call calls)
  obtain k t0 where [simp]: "call = (k, t0)" by fastforce
  obtain a t' where step: "throttle_allow arrange k t0 window t = (a, t')" by fastforce
  have k: "k \<in> K" using Cons.prems by simp
  note post = throttle_step [OF Cons.prems(1-4) k step]
  show ?case
  proof (cases n)
    case 0
    then have "k = key" "t0 = now" using Cons.prems(7) by simp_all
    then show ?thesis using post step 0 by (simp split: option.splits)
  next
    case (Suc m)
    have ih: "throttle_run arrange window calls t' ! m \<longleftrightarrow>
        (case (case last_allowed (take m calls) (throttle_run arrange window (take m calls) t') key of
                 Some x \<Rightarrow> Some x | None \<Rightarrow> map_of t' key) of
           None \<Rightarrow> True | Some p \<Rightarrow> window \<le> now - p)"
      by (rule Cons.IH) (use post Cons.prems Suc in auto)
    have "map_of t' key = (if a \<and> k = key then Some t0 else map_of t key)" using post by blast
    then show ?thesis
      using ih step by (simp add: Suc split: option.splits)
  qed
qed simp

section \<open>Properties\<close>

text \<open>
  C19.  After any sequence of host events the injection summaries handed to the log writer and the pending
  one add up, field by field in 64-bit arithmetic, to exactly one injection, failure or skip per event of
  that kind, and the pending skip reasons add up to the pending skips.  The writer has recorded all of
  them, unless a write failed; the counts of a summary whose write fails are lost, and the logger then
  has reported a write error.
\<close>

theorem summaries_account_for_every_event:
  "accounted (sum_counts (map (\<lambda>e. event_counts (fst e)) events))
       (record_all env events (new_logger disk now))
     \<and> acknowledged (record_all env events (new_logger disk now))"
proof -
  have "accounted default_counts (new_logger disk now)" "acknowledged (new_logger disk now)"
    by (simp_all add: accounted_def acknowledged_def new_logger_def requested_summaries_def bt_sorted_def)
  then show ?thesis
    using accounted_run [of default_counts "new_logger disk now" events env] acknowledged_run by simp
qed

text \<open>
  Among calls with at most 256 different keys the throttle lets an event through exactly when
  the last event with the same key that it let through is at least a window old, or there is none.
\<close>

theorem throttle_lets_one_event_per_window:
  assumes "card (fst ` set calls) \<le> 256" and "n < length calls" and "calls ! n = (key, now)"
  shows "throttle_run arrange window calls [] ! n \<longleftrightarrow>
    (case last_allowed (take n calls) (throttle_run arrange window (take n calls) []) key of
       None \<Rightarrow> True | Some t \<Rightarrow> window \<le> now - t)"
  using throttle_run_characterised [of "[]" "fst ` set calls" calls n key now arrange window] assms
  by (simp split: option.splits)

lemma throttle_lets_one_event_per_window_witness:
  "throttle_run (\<lambda>t. t) 10 [(''a'', 0), (''b'', 5), (''a'', 9), (''a'', 12)] [] ! 3"
proof -
  let ?calls = "[(''a'', 0), (''b'', 5), (''a'', 9), (''a'', 12 :: nat)]"
  have "last_allowed (take 3 ?calls) (throttle_run (\<lambda>t. t) 10 (take 3 ?calls) []) ''a'' = Some 0"
    by code_simp
  moreover have "card (fst ` set ?calls) \<le> 256"
    using card_length [of "map fst ?calls"] by simp
  ultimately show ?thesis
    using throttle_lets_one_event_per_window [of ?calls 3 "''a''" 12 "\<lambda>t. t" 10] by simp
qed

end
