(* ===== verification/Manifest.thy ===== *)
theory Manifest
  imports Json
begin

text \<open>
  The runtime manifest (\<open>contract/src/manifest.rs\<close>): the fixed set of immutable runtime files,
  digests, the identity of a runtime generation, and the verification of a package against its
  manifest.  SHA-256 is a parameter that maps bytes to 32 digest bytes; the JSON parser is a parameter.
\<close>

section \<open>Constants and errors\<close>

definition RUNTIME_MANIFEST_SCHEMA :: u32 where "RUNTIME_MANIFEST_SCHEMA = 1"
definition MAX_RUNTIME_FILE_BYTES :: nat where "MAX_RUNTIME_FILE_BYTES = 32 * 1024 * 1024"

definition IMMUTABLE_RUNTIME_FILES :: "string list" where
  "IMMUTABLE_RUNTIME_FILES =
     [''mactype-service.exe'', ''mactype-injector32.exe'', ''mactype-injector64.exe'',
      ''MacType.dll'', ''MacType64.dll'']"

datatype manifest_error =
    InvalidJson | UnsupportedSchema | InvalidVersion | InvalidFileSet | InvalidHash | HashMismatch
  | FileEmpty | FileTooLarge

record runtime_manifest =
  rm_schema :: u32
  rm_version :: string
  rm_files :: "string btree_map"

record verified_runtime_manifest =
  vm_version :: string
  vm_files :: "string list"

section \<open>Digests and identities\<close>

definition hex_digit :: "nat \<Rightarrow> char" where
  "hex_digit n = char_of (if n < 10 then 48 + n else 87 + n)"

text \<open>\<open>sha256:\<close> and two lowercase digits per byte (\<open>{byte:02x}\<close>).\<close>

definition sha256_digest :: "(string \<Rightarrow> string) \<Rightarrow> string \<Rightarrow> string" where
  "sha256_digest sha bytes =
     ''sha256:'' @ concat (map (\<lambda>c. [hex_digit (byte c div 16), hex_digit (byte c mod 16)]) (sha bytes))"

definition is_allowed_name :: "string \<Rightarrow> bool" where
  "is_allowed_name name \<longleftrightarrow> name \<in> set IMMUTABLE_RUNTIME_FILES"

definition contains_key :: "'v btree_map \<Rightarrow> string \<Rightarrow> bool" where
  "contains_key m k \<longleftrightarrow> map_of m k \<noteq> None"

definition exact_runtime_file_set :: "'v btree_map \<Rightarrow> bool" where
  "exact_runtime_file_set files \<longleftrightarrow>
     length files = length IMMUTABLE_RUNTIME_FILES
     \<and> list_all (contains_key files) IMMUTABLE_RUNTIME_FILES
     \<and> list_all is_allowed_name (map fst files)"

definition canonical_sha256 :: "string \<Rightarrow> bool" where
  "canonical_sha256 value \<longleftrightarrow> length value = 71 \<and> starts_with value ''sha256:''
     \<and> list_all (\<lambda>c. is_ascii_digit c \<or> 97 \<le> byte c \<and> byte c \<le> 102) (drop 7 value)"

definition checked_file :: "string \<Rightarrow> manifest_error + string" where
  "checked_file bytes =
     (if bytes = [] then Err FileEmpty
      else if MAX_RUNTIME_FILE_BYTES < length bytes then Err FileTooLarge else Ok bytes)"

text \<open>The loop that collects names and digests of the files, in the fixed order.\<close>

fun identity_material ::
  "(string \<Rightarrow> string) \<Rightarrow> string btree_map \<Rightarrow> string list \<Rightarrow> manifest_error + string" where
  "identity_material sha files [] = Ok []"
| "identity_material sha files (name # names) =
     (case map_of files name of
        None \<Rightarrow> Err InvalidFileSet
      | Some bytes \<Rightarrow>
          (case checked_file bytes of
             Inl e \<Rightarrow> Err e
           | Inr _ \<Rightarrow>
               (case identity_material sha files names of
                  Inl e \<Rightarrow> Err e
                | Inr rest \<Rightarrow> Ok (name @ sha256_digest sha bytes @ rest))))"

definition runtime_generation_id :: "(string \<Rightarrow> string) \<Rightarrow> string btree_map \<Rightarrow> manifest_error + string" where
  "runtime_generation_id sha files =
     (if \<not> exact_runtime_file_set files then Err InvalidFileSet
      else case identity_material sha files IMMUTABLE_RUNTIME_FILES of
             Inl e \<Rightarrow> Err e
           | Inr material \<Rightarrow> Ok (drop 7 (sha256_digest sha material)))"

section \<open>Versions\<close>

text \<open>\<open>str::split\<close> on one byte: one piece more than there are separators.\<close>

fun split_on :: "char \<Rightarrow> string \<Rightarrow> string list" where
  "split_on sep [] = [[]]"
| "split_on sep (c # s) =
     (if c = sep then [] # split_on sep s
      else (case split_on sep s of [] \<Rightarrow> [[c]] | p # ps \<Rightarrow> (c # p) # ps))"

definition valid_version :: "string \<Rightarrow> bool" where
  "valid_version version =
     (if version = [] \<or> 64 < length version
         \<or> \<not> list_all (\<lambda>c. is_ascii_alphanumeric c \<or> c \<in> {CHR ''.'', CHR ''-'', CHR ''+''}) version
      then False
      else (let core = takeWhile (\<lambda>c. c \<notin> {CHR ''-'', CHR ''+''}) version;
                components = split_on (CHR ''.'') core
            in length components = 3
               \<and> list_all (\<lambda>component. component \<noteq> [] \<and> list_all is_ascii_digit component) components))"

section \<open>Verification\<close>

definition manifest_of_json :: "json \<Rightarrow> runtime_manifest option" where
  "manifest_of_json v =
     do { m \<leftarrow> struct_fields [''schema'', ''version'', ''files''] v;
          schema \<leftarrow> de_word (m ''schema'');
          version \<leftarrow> de_string (m ''version'');
          files \<leftarrow> Option.bind (m ''files'') de_string_map;
          Some \<lparr>rm_schema = schema, rm_version = version, rm_files = files\<rparr> }"

fun verify_files ::
  "(string \<Rightarrow> string) \<Rightarrow> string btree_map \<Rightarrow> string btree_map \<Rightarrow> manifest_error + unit" where
  "verify_files sha package [] = Ok ()"
| "verify_files sha package ((name, expected_hash) # files) =
     (if \<not> canonical_sha256 expected_hash then Err InvalidHash
      else case map_of package name of
        None \<Rightarrow> Err InvalidFileSet
      | Some bytes \<Rightarrow>
          (case checked_file bytes of
             Inl e \<Rightarrow> Err e
           | Inr _ \<Rightarrow> if sha256_digest sha bytes \<noteq> expected_hash then Err HashMismatch
                      else verify_files sha package files))"

definition verify_runtime_manifest ::
  "(string \<Rightarrow> string) \<Rightarrow> (string \<Rightarrow> json option) \<Rightarrow> string \<Rightarrow> string btree_map \<Rightarrow>
     manifest_error + verified_runtime_manifest" where
  "verify_runtime_manifest sha parse manifest_json package =
     (case Option.bind (parse manifest_json) manifest_of_json of
        None \<Rightarrow> Err InvalidJson
      | Some manifest \<Rightarrow>
          if rm_schema manifest \<noteq> RUNTIME_MANIFEST_SCHEMA then Err UnsupportedSchema
          else if \<not> valid_version (rm_version manifest) then Err InvalidVersion
          else if length (rm_files manifest) \<noteq> length IMMUTABLE_RUNTIME_FILES
                  \<or> list_ex (\<lambda>name. \<not> contains_key (rm_files manifest) name) IMMUTABLE_RUNTIME_FILES
                  \<or> list_ex (\<lambda>name. \<not> is_allowed_name name) (map fst (rm_files manifest))
                  \<or> length package \<noteq> length (rm_files manifest)
                  \<or> list_ex (\<lambda>name. \<not> contains_key (rm_files manifest) name) (map fst package)
          then Err InvalidFileSet
          else (case verify_files sha package (rm_files manifest) of
                  Inl e \<Rightarrow> Err e
                | Inr _ \<Rightarrow> Ok \<lparr>vm_version = rm_version manifest, vm_files = map fst (rm_files manifest)\<rparr>))"

section \<open>Migration pins\<close>

text \<open>The pins of \<open>contract/src/migration_pin.rs\<close> that keep runtimes alive over a migration.\<close>

definition MIGRATION_RUNTIME_PIN_SCHEMA :: u32 where "MIGRATION_RUNTIME_PIN_SCHEMA = 1"
definition MAX_PINNED_RUNTIMES :: nat where "MAX_PINNED_RUNTIMES = 64"

record migration_pinned_runtime =
  mp_version :: string
  mp_files :: "string btree_map"
  mp_generated_profile :: "string option"

record migration_runtime_pin =
  pin_schema :: u32
  pin_nonce :: string
  pin_runtimes :: "migration_pinned_runtime list"

definition validate_pinned_runtime :: "migration_pinned_runtime \<Rightarrow> bool" where
  "validate_pinned_runtime r \<longleftrightarrow>
     \<not> (\<not> valid_version (mp_version r) \<or> \<not> exact_runtime_file_set (mp_files r)
        \<or> list_ex (\<lambda>d. \<not> canonical_sha256 d) (map snd (mp_files r))
        \<or> (case mp_generated_profile r of None \<Rightarrow> False | Some d \<Rightarrow> \<not> canonical_sha256 d))"

definition new_pinned_runtime ::
  "string \<Rightarrow> string btree_map \<Rightarrow> string option \<Rightarrow> unit + migration_pinned_runtime" where
  "new_pinned_runtime version files generated_profile =
     (let r = \<lparr>mp_version = version, mp_files = files, mp_generated_profile = generated_profile\<rparr>
      in if validate_pinned_runtime r then Ok r else Err ())"

text \<open>A set of versions as large as the list: no version twice.\<close>

definition validate_pin :: "migration_runtime_pin \<Rightarrow> bool" where
  "validate_pin pin \<longleftrightarrow>
     \<not> (pin_schema pin \<noteq> MIGRATION_RUNTIME_PIN_SCHEMA \<or> length (pin_nonce pin) \<noteq> 32
        \<or> \<not> list_all (\<lambda>c. is_ascii_digit c \<or> 97 \<le> byte c \<and> byte c \<le> 102) (pin_nonce pin)
        \<or> pin_runtimes pin = [] \<or> MAX_PINNED_RUNTIMES < length (pin_runtimes pin)
        \<or> list_ex (\<lambda>r. \<not> validate_pinned_runtime r) (pin_runtimes pin))
     \<and> length (remdups (map mp_version (pin_runtimes pin))) = length (pin_runtimes pin)"

definition new_pin :: "string \<Rightarrow> migration_pinned_runtime list \<Rightarrow> unit + migration_runtime_pin" where
  "new_pin nonce runtimes =
     (let pin = \<lparr>pin_schema = MIGRATION_RUNTIME_PIN_SCHEMA, pin_nonce = nonce, pin_runtimes = runtimes\<rparr>
      in if validate_pin pin then Ok pin else Err ())"

end
