(* ===== verification/Profile_Catalog.thy ===== *)
theory Profile_Catalog
  imports Manifest
begin

text \<open>
  Profile generations (\<open>contract/src/profile.rs\<close>): content-addressed generations, the pointer to the
  active one, the catalog with publication, activation and rollback, and the validation of profile
  bytes (size, encoding, INI structure).  SHA-256 is a parameter.
\<close>

section \<open>Data\<close>

definition MAX_PROFILE_BYTES :: nat where "MAX_PROFILE_BYTES = 4 * 1024 * 1024"
definition MAX_PROFILE_POINTER_BYTES :: nat where "MAX_PROFILE_POINTER_BYTES = 64 * 1024"
definition PROFILE_POINTER_SCHEMA :: u32 where "PROFILE_POINTER_SCHEMA = 1"

text \<open>A \<open>GenerationId\<close> is its digest text.\<close>

type_synonym profile_generation_id = string

datatype profile_error =
    InvalidSize | InvalidIni | InvalidGenerationId | UnknownGeneration | NoPreviousGeneration

record source_metadata =
  display_name :: string

record published_profile =
  pp_bytes :: string
  pp_source :: source_metadata

record profile_catalog =
  generations :: "(profile_generation_id, published_profile) fmap"
  active_generation :: "profile_generation_id option"
  previous_generation :: "profile_generation_id option"

definition empty_catalog :: profile_catalog where
  "empty_catalog = \<lparr>generations = fmempty, active_generation = None, previous_generation = None\<rparr>"

section \<open>Generation identities and pointers\<close>

definition canonical_digest :: "string \<Rightarrow> bool" where
  "canonical_digest value \<longleftrightarrow> length value = 71 \<and> starts_with value ''sha256:''
     \<and> list_all (\<lambda>c. is_ascii_digit c \<or> 97 \<le> byte c \<and> byte c \<le> 102) (drop 7 value)"

definition from_profile_bytes :: "(string \<Rightarrow> string) \<Rightarrow> string \<Rightarrow> profile_generation_id" where
  "from_profile_bytes sha bytes = sha256_digest sha bytes"

definition parse_generation_id :: "string \<Rightarrow> profile_error + profile_generation_id" where
  "parse_generation_id value = (if canonical_digest value then Ok value else Err InvalidGenerationId)"

definition directory_name :: "profile_generation_id \<Rightarrow> string" where
  "directory_name g = drop 7 g"

definition generation_pointer_to_json :: "profile_generation_id \<Rightarrow> json" where
  "generation_pointer_to_json g =
     JObject [(''schema'', JNat (unat PROFILE_POINTER_SCHEMA)), (''generation'', JString g)]"

definition generation_pointer_of_json :: "json \<Rightarrow> profile_generation_id option" where
  "generation_pointer_of_json v =
     do { m \<leftarrow> struct_fields [''schema'', ''generation''] v;
          schema \<leftarrow> de_word (m ''schema'');
          text \<leftarrow> de_string (m ''generation'');
          generation \<leftarrow> (case parse_generation_id text of Inl _ \<Rightarrow> None | Inr g \<Rightarrow> Some g);
          if (schema :: u32) \<noteq> PROFILE_POINTER_SCHEMA then None else Some generation }"

section \<open>INI structure\<close>

definition trim_ascii :: "string \<Rightarrow> string" where
  "trim_ascii s = rev (dropWhile is_ascii_whitespace (rev (dropWhile is_ascii_whitespace s)))"

definition is_mactype_list_section :: "string \<Rightarrow> bool" where
  "is_mactype_list_section line =
     list_ex (eq_ignore_ascii_case (butlast (tl line)))
       [''Exclude'', ''Include'', ''ExcludeModule'', ''IncludeModule'', ''UnloadDLL'', ''ExcludeSub'']"

definition is_section_line :: "string \<Rightarrow> bool" where
  "is_section_line line \<longleftrightarrow> 3 \<le> length line \<and> hd line = CHR ''['' \<and> last line = CHR '']''"

definition is_blank_or_comment :: "string \<Rightarrow> bool" where
  "is_blank_or_comment line \<longleftrightarrow> line = [] \<or> hd line = CHR '';'' \<or> hd line = CHR ''#''"

record ini_scan =
  saw_section :: bool
  saw_assignment :: bool
  accepts_bare_entries :: bool

text \<open>One round of the loop over the lines, and the loop.\<close>

definition ini_line :: "string \<Rightarrow> ini_scan \<Rightarrow> profile_error + ini_scan" where
  "ini_line raw_line s =
     (let line = trim_ascii raw_line
      in if is_blank_or_comment line then Ok s
         else if is_section_line line
         then Ok (s\<lparr>saw_section := True, accepts_bare_entries := is_mactype_list_section line\<rparr>)
         else if CHR ''='' \<notin> set line
         then (if saw_section s \<and> accepts_bare_entries s then Ok s else Err InvalidIni)
         else if \<not> saw_section s \<or> trim_ascii (takeWhile (\<lambda>c. c \<noteq> CHR ''='') line) = []
         then Err InvalidIni
         else Ok (s\<lparr>saw_assignment := True\<rparr>))"

fun ini_lines :: "string list \<Rightarrow> ini_scan \<Rightarrow> profile_error + ini_scan" where
  "ini_lines [] s = Ok s"
| "ini_lines (l # ls) s = (case ini_line l s of Inl e \<Rightarrow> Err e | Inr s \<Rightarrow> ini_lines ls s)"

definition validate_ini_structure :: "string \<Rightarrow> profile_error + unit" where
  "validate_ini_structure bytes =
     (case ini_lines (split_on (char_of (10 :: nat)) bytes)
             \<lparr>saw_section = False, saw_assignment = False, accepts_bare_entries = False\<rparr> of
        Inl e \<Rightarrow> Err e
      | Inr s \<Rightarrow> if saw_section s \<and> saw_assignment s then Ok () else Err InvalidIni)"

section \<open>Encodings\<close>

definition unit_le :: "char \<Rightarrow> char \<Rightarrow> nat" where "unit_le a b = byte a + 256 * byte b"
definition unit_be :: "char \<Rightarrow> char \<Rightarrow> nat" where "unit_be a b = 256 * byte a + byte b"

fun pair_units :: "(char \<Rightarrow> char \<Rightarrow> nat) \<Rightarrow> string \<Rightarrow> nat list" where
  "pair_units f (a # b # s) = f a b # pair_units f s"
| "pair_units f _ = []"

text \<open>\<open>String::from_utf16\<close>: code points, or nothing when a surrogate is unpaired.\<close>

fun decode_utf16 :: "nat list \<Rightarrow> nat list option" where
  "decode_utf16 [] = Some []"
| "decode_utf16 [u] = (if 0xD800 \<le> u \<and> u < 0xE000 then None else Some [u])"
| "decode_utf16 (u # v # us) =
     (if u < 0xD800 \<or> 0xE000 \<le> u then map_option ((#) u) (decode_utf16 (v # us))
      else if u < 0xDC00 \<and> 0xDC00 \<le> v \<and> v < 0xE000
      then map_option ((#) (0x10000 + (u - 0xD800) * 0x400 + (v - 0xDC00))) (decode_utf16 us)
      else None)"

definition encode_utf8 :: "nat \<Rightarrow> string" where
  "encode_utf8 n =
     map char_of
       (if n < 0x80 then [n]
        else if n < 0x800 then [0xC0 + n div 0x40, 0x80 + n mod 0x40]
        else if n < 0x10000 then [0xE0 + n div 0x1000, 0x80 + n div 0x40 mod 0x40, 0x80 + n mod 0x40]
        else [0xF0 + n div 0x40000, 0x80 + n div 0x1000 mod 0x40, 0x80 + n div 0x40 mod 0x40, 0x80 + n mod 0x40])"

definition bytes_of :: "nat list \<Rightarrow> string" where
  "bytes_of ns = map char_of ns"

definition validate_profile :: "string \<Rightarrow> profile_error + unit" where
  "validate_profile bytes =
     (if bytes = [] \<or> MAX_PROFILE_BYTES < length bytes then Err InvalidSize
      else if starts_with bytes (bytes_of [0xFF, 0xFE]) \<or> starts_with bytes (bytes_of [0xFE, 0xFF])
      then (let little_endian = starts_with bytes (bytes_of [0xFF, 0xFE]); body = drop 2 bytes
            in if length body mod 2 \<noteq> 0 then Err InvalidIni
               else (case decode_utf16 (pair_units (if little_endian then unit_le else unit_be) body) of
                       None \<Rightarrow> Err InvalidIni
                     | Some decoded \<Rightarrow> validate_ini_structure (concat (map encode_utf8 decoded))))
      else (let structure_bytes =
                  (case strip_prefix bytes (bytes_of [0xEF, 0xBB, 0xBF]) of None \<Rightarrow> bytes | Some s \<Rightarrow> s)
            in if char_of (0 :: nat) \<in> set structure_bytes then Err InvalidIni
               else validate_ini_structure structure_bytes))"

section \<open>The catalog\<close>

definition publish_machine_profile ::
  "(string \<Rightarrow> string) \<Rightarrow> string \<Rightarrow> source_metadata \<Rightarrow> profile_catalog \<Rightarrow>
     (profile_error + profile_generation_id) \<times> profile_catalog" where
  "publish_machine_profile sha bytes source c =
     (case validate_profile bytes of
        Inl e \<Rightarrow> (Err e, c)
      | Inr _ \<Rightarrow>
          (let g = from_profile_bytes sha bytes
           in (Ok g, if g |\<in>| fmdom (generations c) then c
                     else c\<lparr>generations := fmupd g \<lparr>pp_bytes = bytes, pp_source = source\<rparr> (generations c)\<rparr>)))"

definition activate_machine_generation ::
  "profile_generation_id \<Rightarrow> profile_catalog \<Rightarrow> (profile_error + unit) \<times> profile_catalog" where
  "activate_machine_generation g c =
     (if g |\<notin>| fmdom (generations c) then (Err UnknownGeneration, c)
      else if active_generation c = Some g then (Ok (), c)
      else (Ok (), c\<lparr>previous_generation := active_generation c, active_generation := Some g\<rparr>))"

definition rollback_machine_generation ::
  "profile_catalog \<Rightarrow> (profile_error + profile_generation_id) \<times> profile_catalog" where
  "rollback_machine_generation c =
     (case previous_generation c of
        None \<Rightarrow> (Err NoPreviousGeneration, c)
      | Some previous \<Rightarrow>
          (Ok previous, c\<lparr>active_generation := Some previous, previous_generation := active_generation c\<rparr>))"

definition profile_bytes :: "profile_generation_id \<Rightarrow> profile_catalog \<Rightarrow> string option" where
  "profile_bytes g c = map_option pp_bytes (fmlookup (generations c) g)"

definition catalog_source_metadata :: "profile_generation_id \<Rightarrow> profile_catalog \<Rightarrow> source_metadata option" where
  "catalog_source_metadata g c = map_option pp_source (fmlookup (generations c) g)"

section \<open>White space\<close>

text \<open>\<open>str::trim\<close> on UTF-8: the encodings of the white space characters at either end.\<close>

definition whitespace_encodings :: "string list" where
  "whitespace_encodings =
     map encode_utf8 ([9, 10, 11, 12, 13, 32, 0x85, 0xA0, 0x1680] @ [0x2000..<0x200B]
       @ [0x2028, 0x2029, 0x202F, 0x205F, 0x3000])"

fun trim_start :: "nat \<Rightarrow> string \<Rightarrow> string" where
  "trim_start 0 s = s"
| "trim_start (Suc n) s =
     (case find (starts_with s) whitespace_encodings of None \<Rightarrow> s | Some e \<Rightarrow> trim_start n (drop (length e) s))"

fun trim_end :: "nat \<Rightarrow> string \<Rightarrow> string" where
  "trim_end 0 s = s"
| "trim_end (Suc n) s =
     (case find (ends_with s) whitespace_encodings of
        None \<Rightarrow> s | Some e \<Rightarrow> trim_end n (take (length s - length e) s))"

definition trim_text :: "string \<Rightarrow> string" where
  "trim_text s = trim_end (length s) (trim_start (length s) s)"

end
