(* ===== verification/Runtime_Activation.thy ===== *)
theory Runtime_Activation
  imports Json
begin

text \<open>
  The activation contract of the protected runtime (\<open>contract/src/runtime_activation.rs\<close>): pointers
  to a runtime generation, activation receipts with their phase, and the parser that accepts the
  three schemas ever written.  JSON text is a printer and a parser parameter.
\<close>

section \<open>Data\<close>

definition RUNTIME_POINTER_SCHEMA :: u32 where "RUNTIME_POINTER_SCHEMA = 1"
definition LEGACY_RUNTIME_ACTIVATION_SCHEMA :: u32 where "LEGACY_RUNTIME_ACTIVATION_SCHEMA = 1"
definition UNCOMMITTED_RUNTIME_ACTIVATION_SCHEMA :: u32 where "UNCOMMITTED_RUNTIME_ACTIVATION_SCHEMA = 2"
definition RUNTIME_ACTIVATION_SCHEMA :: u32 where "RUNTIME_ACTIVATION_SCHEMA = 3"
definition MAX_RUNTIME_ACTIVATION_RECEIPT_BYTES :: nat where "MAX_RUNTIME_ACTIVATION_RECEIPT_BYTES = 16 * 1024"
definition MAX_RUNTIME_POINTER_BYTES :: nat where "MAX_RUNTIME_POINTER_BYTES = 64 * 1024"

record runtime_generation_pointer =
  rp_schema :: u32
  rp_version :: string

datatype runtime_activation_phase = Candidate | Committed | RollbackRequired

record runtime_activation_receipt =
  rc_schema :: u32
  rc_phase :: runtime_activation_phase
  rc_previous :: "runtime_generation_pointer option"
  rc_activated :: runtime_generation_pointer

datatype parsed_runtime_activation_receipt =
    LegacyReceipt "runtime_generation_pointer option"
  | UncommittedReceipt "runtime_generation_pointer option" runtime_generation_pointer
  | CurrentReceipt runtime_activation_receipt

fun parsed_previous :: "parsed_runtime_activation_receipt \<Rightarrow> runtime_generation_pointer option" where
  "parsed_previous (LegacyReceipt previous) = previous"
| "parsed_previous (UncommittedReceipt previous _) = previous"
| "parsed_previous (CurrentReceipt r) = rc_previous r"

fun parsed_activated :: "parsed_runtime_activation_receipt \<Rightarrow> runtime_generation_pointer option" where
  "parsed_activated (LegacyReceipt _) = None"
| "parsed_activated (UncommittedReceipt _ activated) = Some activated"
| "parsed_activated (CurrentReceipt r) = Some (rc_activated r)"

fun parsed_phase :: "parsed_runtime_activation_receipt \<Rightarrow> runtime_activation_phase option" where
  "parsed_phase (CurrentReceipt r) = Some (rc_phase r)"
| "parsed_phase _ = None"

section \<open>Pointers\<close>

definition valid_runtime_version_component :: "string \<Rightarrow> bool" where
  "valid_runtime_version_component version \<longleftrightarrow>
     version \<noteq> [] \<and> length version \<le> 64
     \<and> list_all (\<lambda>c. is_ascii_alphanumeric c \<or> c \<in> {CHR ''.'', CHR ''-'', CHR ''+''}) version
     \<and> version \<notin> {''.'', ''..''}"

definition validate_pointer :: "runtime_generation_pointer \<Rightarrow> bool" where
  "validate_pointer p \<longleftrightarrow> \<not> (rp_schema p \<noteq> RUNTIME_POINTER_SCHEMA
     \<or> \<not> valid_runtime_version_component (rp_version p))"

definition new_pointer :: "string \<Rightarrow> unit + runtime_generation_pointer" where
  "new_pointer version =
     (let pointer = \<lparr>rp_schema = RUNTIME_POINTER_SCHEMA, rp_version = version\<rparr>
      in if validate_pointer pointer then Ok pointer else Err ())"

definition pointer_to_json :: "runtime_generation_pointer \<Rightarrow> json" where
  "pointer_to_json p = JObject [(''schema'', JNat (unat (rp_schema p))), (''version'', JString (rp_version p))]"

definition pointer_of_json :: "json \<Rightarrow> runtime_generation_pointer option" where
  "pointer_of_json v =
     do { m \<leftarrow> struct_fields [''schema'', ''version''] v;
          schema \<leftarrow> de_word (m ''schema'');
          version \<leftarrow> de_string (m ''version'');
          Some \<lparr>rp_schema = schema, rp_version = version\<rparr> }"

definition parse_pointer :: "(string \<Rightarrow> json option) \<Rightarrow> string \<Rightarrow> unit + runtime_generation_pointer" where
  "parse_pointer parse bytes =
     (if bytes = [] \<or> MAX_RUNTIME_POINTER_BYTES < length bytes then Err ()
      else case Option.bind (parse bytes) pointer_of_json of
             None \<Rightarrow> Err ()
           | Some pointer \<Rightarrow> if validate_pointer pointer then Ok pointer else Err ())"

section \<open>Receipts\<close>

definition candidate_receipt ::
  "runtime_generation_pointer option \<Rightarrow> runtime_generation_pointer \<Rightarrow> runtime_activation_receipt" where
  "candidate_receipt previous activated =
     \<lparr>rc_schema = RUNTIME_ACTIVATION_SCHEMA, rc_phase = Candidate, rc_previous = previous,
      rc_activated = activated\<rparr>"

definition with_phase :: "runtime_activation_phase \<Rightarrow> runtime_activation_receipt \<Rightarrow> runtime_activation_receipt" where
  "with_phase phase r =
     \<lparr>rc_schema = RUNTIME_ACTIVATION_SCHEMA, rc_phase = phase, rc_previous = rc_previous r,
      rc_activated = rc_activated r\<rparr>"

definition optional_pointer_valid :: "runtime_generation_pointer option \<Rightarrow> bool" where
  "optional_pointer_valid p = (case p of None \<Rightarrow> True | Some p \<Rightarrow> validate_pointer p)"

definition validate_receipt :: "runtime_activation_receipt \<Rightarrow> bool" where
  "validate_receipt r \<longleftrightarrow> rc_schema r = RUNTIME_ACTIVATION_SCHEMA \<and> validate_pointer (rc_activated r)
     \<and> optional_pointer_valid (rc_previous r)"

definition phase_names :: "(string \<times> runtime_activation_phase) list" where
  "phase_names =
     [(''candidate'', Candidate), (''committed'', Committed), (''rollback-required'', RollbackRequired)]"

definition receipt_to_json :: "runtime_activation_receipt \<Rightarrow> json" where
  "receipt_to_json r =
     JObject [(''schema'', JNat (unat (rc_schema r))),
              (''phase'', JString (variant_name phase_names (rc_phase r))),
              (''previous'', ser_option pointer_to_json (rc_previous r)),
              (''activated'', pointer_to_json (rc_activated r))]"

definition de_pointer :: "json option \<Rightarrow> runtime_generation_pointer option" where
  "de_pointer v = Option.bind v pointer_of_json"

definition receipt_of_json :: "json \<Rightarrow> runtime_activation_receipt option" where
  "receipt_of_json v =
     do { m \<leftarrow> struct_fields [''schema'', ''phase'', ''previous'', ''activated''] v;
          schema \<leftarrow> de_word (m ''schema'');
          phase \<leftarrow> de_variant phase_names (m ''phase'');
          previous \<leftarrow> de_option de_pointer (m ''previous'');
          activated \<leftarrow> de_pointer (m ''activated'');
          Some \<lparr>rc_schema = schema, rc_phase = phase, rc_previous = previous, rc_activated = activated\<rparr> }"

definition uncommitted_of_json ::
  "json \<Rightarrow> (u32 \<times> runtime_generation_pointer option \<times> runtime_generation_pointer) option" where
  "uncommitted_of_json v =
     do { m \<leftarrow> struct_fields [''schema'', ''previous'', ''activated''] v;
          schema \<leftarrow> de_word (m ''schema'');
          previous \<leftarrow> de_option de_pointer (m ''previous'');
          activated \<leftarrow> de_pointer (m ''activated'');
          Some (schema, previous, activated) }"

definition legacy_of_json :: "json \<Rightarrow> (u32 \<times> runtime_generation_pointer option) option" where
  "legacy_of_json v =
     do { m \<leftarrow> struct_fields [''schema'', ''previous''] v;
          schema \<leftarrow> de_word (m ''schema'');
          previous \<leftarrow> de_option de_pointer (m ''previous'');
          Some (schema, previous) }"

text \<open>\<open>match schema as u32\<close> truncates; each arm compares the full number again.\<close>

definition parse_runtime_activation_receipt ::
  "(string \<Rightarrow> json option) \<Rightarrow> string \<Rightarrow> unit + parsed_runtime_activation_receipt" where
  "parse_runtime_activation_receipt parse bytes =
     (if bytes = [] \<or> MAX_RUNTIME_ACTIVATION_RECEIPT_BYTES < length bytes then Err ()
      else case parse bytes of
        None \<Rightarrow> Err ()
      | Some tree \<Rightarrow>
          (let value = to_value tree
           in case Option.bind (value_get ''schema'' value) as_u64 of
                None \<Rightarrow> Err ()
              | Some schema \<Rightarrow>
                  (let tag = (word_of_nat schema :: u32)
                   in if tag = RUNTIME_ACTIVATION_SCHEMA \<and> schema = unat RUNTIME_ACTIVATION_SCHEMA
                      then (case receipt_of_json value of
                              None \<Rightarrow> Err ()
                            | Some r \<Rightarrow> if validate_receipt r then Ok (CurrentReceipt r) else Err ())
                      else if tag = UNCOMMITTED_RUNTIME_ACTIVATION_SCHEMA
                              \<and> schema = unat UNCOMMITTED_RUNTIME_ACTIVATION_SCHEMA
                      then (case uncommitted_of_json value of
                              None \<Rightarrow> Err ()
                            | Some (s, previous, activated) \<Rightarrow>
                                if s \<noteq> UNCOMMITTED_RUNTIME_ACTIVATION_SCHEMA
                                   \<or> \<not> validate_pointer activated \<or> \<not> optional_pointer_valid previous
                                then Err () else Ok (UncommittedReceipt previous activated))
                      else if tag = LEGACY_RUNTIME_ACTIVATION_SCHEMA
                              \<and> schema = unat LEGACY_RUNTIME_ACTIVATION_SCHEMA
                      then (case legacy_of_json value of
                              None \<Rightarrow> Err ()
                            | Some (s, previous) \<Rightarrow>
                                if s \<noteq> LEGACY_RUNTIME_ACTIVATION_SCHEMA \<or> \<not> optional_pointer_valid previous
                                then Err () else Ok (LegacyReceipt previous))
                      else Err ())))"

section \<open>Round trips\<close>

lemma pointer_json_round_trip: "pointer_of_json (pointer_to_json p) = Some p"
  by (simp add: pointer_of_json_def pointer_to_json_def struct_fields_def de_string_def)

lemma to_value_pointer [simp]: "to_value (pointer_to_json p) = pointer_to_json p"
  by (simp add: pointer_to_json_def)

lemma to_value_optional_pointer [simp]:
  "to_value (ser_option pointer_to_json p) = ser_option pointer_to_json p"
  by (cases p) (simp_all add: ser_option_def)

lemma to_value_receipt: "to_value (receipt_to_json r) = receipt_to_json r"
  by (simp add: receipt_to_json_def)

lemma variant_phase: "de_variant phase_names (Some (JString (variant_name phase_names x))) = Some x"
  by (cases x) (simp_all add: de_variant_def variant_name_def phase_names_def)

lemma de_option_pointer: "de_option de_pointer (Some (ser_option pointer_to_json p)) = Some p"
  using pointer_json_round_trip
  by (cases p) (auto simp: de_option_def ser_option_def de_pointer_def pointer_to_json_def)

lemma receipt_json_round_trip: "receipt_of_json (receipt_to_json r) = Some r"
  using variant_phase [of "rc_phase r"] de_option_pointer [of "rc_previous r"]
  by (simp add: receipt_of_json_def receipt_to_json_def struct_fields_def
      de_pointer_def pointer_json_round_trip)

end
