(* ===== verification/Contract_Properties.thy ===== *)
theory Contract_Properties
  imports Manifest Profile_Catalog Runtime_Activation
begin

text \<open>
  What the contracts of the protected runtime promise: a manifest and a generation identity bind the
  runtime files, receipts survive being written and read, the profile catalog stays consistent under
  every sequence of its operations, and the scanner of profiles accepts exactly the well-formed INI
  files.
\<close>

section \<open>Hexadecimal digests\<close>

lemma byte_less: "byte c < 256"
  by (simp add: byte_def)

lemma byte_char_of: "n < 256 \<Longrightarrow> byte (char_of n) = n"
  unfolding byte_def of_char_of by simp

lemma byte_hex_digit: "n < 16 \<Longrightarrow> byte (hex_digit n) = (if n < 10 then 48 + n else 87 + n)"
  unfolding hex_digit_def by (rule byte_char_of) simp

lemma hex_digit_inj:
  assumes "a < 16" and "b < 16" and "hex_digit a = hex_digit b"
  shows "a = b"
proof -
  have "(if a < 10 then 48 + a else 87 + a) = (if b < 10 then 48 + b else 87 + b)"
    using byte_hex_digit [OF assms(1)] byte_hex_digit [OF assms(2)] assms(3) by simp
  then show ?thesis by (cases "a < 10"; cases "b < 10") simp_all
qed

lemma byte_inj: "byte a = byte b \<longleftrightarrow> a = b"
  by (simp add: byte_def)

lemma hex_pair_inj:
  assumes "hex_digit (byte a div 16) = hex_digit (byte b div 16)"
    and "hex_digit (byte a mod 16) = hex_digit (byte b mod 16)"
  shows "a = b"
proof -
  have "byte a div 16 < 16" "byte b div 16 < 16" using byte_less [of a] byte_less [of b] by auto
  then have "byte a div 16 = byte b div 16" using hex_digit_inj assms(1) by blast
  moreover have "byte a mod 16 = byte b mod 16" using hex_digit_inj assms(2) by simp
  ultimately have "byte a = byte b" by (metis div_mult_mod_eq)
  then show ?thesis by (simp add: byte_inj)
qed

lemma hex_inj:
  "concat (map (\<lambda>c. [hex_digit (byte c div 16), hex_digit (byte c mod 16)]) s)
     = concat (map (\<lambda>c. [hex_digit (byte c div 16), hex_digit (byte c mod 16)]) t) \<Longrightarrow> s = t"
proof (induction s arbitrary: t)
  case Nil
  then show ?case by (cases t) auto
next
  case (Cons a s)
  then show ?case by (cases t) (auto dest: hex_pair_inj)
qed

lemma sha256_digest_eq_iff: "sha256_digest sha a = sha256_digest sha b \<longleftrightarrow> sha a = sha b"
  by (auto simp: sha256_digest_def dest: hex_inj)

lemma drop_digest_eq_iff: "drop 7 (sha256_digest sha a) = drop 7 (sha256_digest sha b) \<longleftrightarrow> sha a = sha b"
  by (auto simp: sha256_digest_def dest: hex_inj)

lemma sha256_digest_length: "length (sha256_digest sha a) = 7 + 2 * length (sha a)"
  by (simp add: sha256_digest_def length_concat comp_def sum_list_triv)

section \<open>Generation identities\<close>

lemma identity_material_Ok:
  assumes "identity_material sha files names = Inr m" and "name \<in> set names"
  shows "\<exists>bytes. map_of files name = Some bytes \<and> bytes \<noteq> [] \<and> length bytes \<le> MAX_RUNTIME_FILE_BYTES"
  using assms
proof (induction names arbitrary: m)
  case (Cons n names)
  then show ?case by (auto simp: checked_file_def split: option.splits sum.splits if_splits)
qed simp

lemma identity_material_binds:
  assumes size: "\<And>b. length (sha b) = 32"
    and "identity_material sha files names = Inr m" and "identity_material sha files' names = Inr m"
    and "name \<in> set names"
  shows "sha (the (map_of files name)) = sha (the (map_of files' name))"
  using assms(2-)
proof (induction names arbitrary: m)
  case (Cons n names)
  from Cons.prems(1) obtain b rest where 1: "map_of files n = Some b" "identity_material sha files names = Inr rest"
      "m = n @ sha256_digest sha b @ rest"
    by (auto split: option.splits sum.splits)
  from Cons.prems(2) obtain b' rest' where 2: "map_of files' n = Some b'" "identity_material sha files' names = Inr rest'"
      "m = n @ sha256_digest sha b' @ rest'"
    by (auto split: option.splits sum.splits)
  from 1(3) 2(3) have "sha256_digest sha b = sha256_digest sha b' \<and> rest = rest'"
    using append_eq_append_conv [of "sha256_digest sha b" "sha256_digest sha b'" rest rest']
    by (simp add: sha256_digest_length size)
  then have "sha b = sha b'" "rest = rest'" by (auto simp: sha256_digest_eq_iff)
  with Cons 1 2 show ?case by auto
qed simp

lemma exact_keys:
  assumes "exact_runtime_file_set files"
  shows "dom (map_of files) = set IMMUTABLE_RUNTIME_FILES"
proof
  show "dom (map_of files) \<subseteq> set IMMUTABLE_RUNTIME_FILES"
    using assms by (auto simp: exact_runtime_file_set_def list_all_iff is_allowed_name_def dest!: map_of_SomeD bspec)
  show "set IMMUTABLE_RUNTIME_FILES \<subseteq> dom (map_of files)"
    using assms by (auto simp: exact_runtime_file_set_def list_all_iff contains_key_def)
qed

text \<open>Two runtimes whose identities agree: the ways SHA-256 would have to collide for them to differ.\<close>

definition identity_collision ::
  "(string \<Rightarrow> string) \<Rightarrow> string btree_map \<Rightarrow> string btree_map \<Rightarrow> bool" where
  "identity_collision sha files files' \<longleftrightarrow>
     list_ex (\<lambda>name. map_of files name \<noteq> map_of files' name
         \<and> sha (the (map_of files name)) = sha (the (map_of files' name))) IMMUTABLE_RUNTIME_FILES
     \<or> (case (identity_material sha files IMMUTABLE_RUNTIME_FILES,
              identity_material sha files' IMMUTABLE_RUNTIME_FILES) of
          (Inr m, Inr m') \<Rightarrow> m \<noteq> m' \<and> sha m = sha m' | _ \<Rightarrow> False)"


lemma identity_binds:
  assumes size: "\<And>b. length (sha b) = 32"
    and "runtime_generation_id sha files = Inr g" and "runtime_generation_id sha files' = Inr g"
    and "\<not> identity_collision sha files files'"
  shows "map_of files = map_of files'"
proof -
  from assms(2) obtain m where m: "identity_material sha files IMMUTABLE_RUNTIME_FILES = Inr m"
      "exact_runtime_file_set files" "g = drop 7 (sha256_digest sha m)"
    by (auto simp: runtime_generation_id_def split: if_splits sum.splits)
  from assms(3) obtain m' where m': "identity_material sha files' IMMUTABLE_RUNTIME_FILES = Inr m'"
      "exact_runtime_file_set files'" "g = drop 7 (sha256_digest sha m')"
    by (auto simp: runtime_generation_id_def split: if_splits sum.splits)
  have "m = m'" using assms(4) m m' by (auto simp: identity_collision_def drop_digest_eq_iff)
  have same: "map_of files name = map_of files' name" if "name \<in> set IMMUTABLE_RUNTIME_FILES" for name
    using assms(4) that identity_material_binds [OF size m(1) m'(1) [folded \<open>m = m'\<close>] that]
    by (auto simp: identity_collision_def list_ex_iff)
  show ?thesis
  proof
    fix name
    show "map_of files name = map_of files' name"
      using same exact_keys [OF m(2)] exact_keys [OF m'(2)] by (metis domIff)
  qed
qed

section \<open>Manifests\<close>

lemma bt_sorted_distinct: "bt_sorted m \<Longrightarrow> distinct (map fst m)"
  unfolding bt_sorted_def by (induction m) (auto simp: image_iff)

lemma verify_files_Ok_iff:
  "verify_files sha package files = Inr () \<longleftrightarrow>
     list_all (\<lambda>(name, expected). canonical_sha256 expected
        \<and> (\<exists>bytes. map_of package name = Some bytes \<and> bytes \<noteq> [] \<and> length bytes \<le> MAX_RUNTIME_FILE_BYTES
             \<and> expected = sha256_digest sha bytes)) files"
proof (induction files)
  case (Cons f files)
  obtain name expected where [simp]: "f = (name, expected)" by fastforce
  show ?case
    using Cons.IH
    by (cases "canonical_sha256 expected"; cases "map_of package name") (auto simp: checked_file_def)
qed simp

lemma subset_same_length:
  assumes "distinct xs" and "distinct ys" and "set xs \<subseteq> set ys" and "length xs = length ys"
  shows "set xs = set ys"
  using assms by (metis card_subset_eq distinct_card finite_set)

lemma de_string_map_sorted: "de_string_map v = Some m \<Longrightarrow> bt_sorted m"
  by (auto simp: de_string_map_def bt_collect_props split: json.splits if_splits)

lemma manifest_sorted: "manifest_of_json v = Some m \<Longrightarrow> bt_sorted (rm_files m)"
  by (auto simp: manifest_of_json_def de_string_map_sorted split: bind_splits)

text \<open>What a manifest promises of a package, file by file.\<close>

definition package_matches ::
  "(string \<Rightarrow> string) \<Rightarrow> runtime_manifest \<Rightarrow> string btree_map \<Rightarrow> bool" where
  "package_matches sha manifest package \<longleftrightarrow>
     fst ` set (rm_files manifest) = set IMMUTABLE_RUNTIME_FILES
     \<and> fst ` set package = set IMMUTABLE_RUNTIME_FILES
     \<and> list_all (\<lambda>name. \<exists>bytes. map_of package name = Some bytes \<and> bytes \<noteq> []
          \<and> length bytes \<le> MAX_RUNTIME_FILE_BYTES
          \<and> map_of (rm_files manifest) name = Some (sha256_digest sha bytes)) IMMUTABLE_RUNTIME_FILES"


lemma manifest_files_iff:
  assumes "bt_sorted (rm_files m)" and "bt_sorted package"
  shows "\<not> (length (rm_files m) \<noteq> length IMMUTABLE_RUNTIME_FILES
            \<or> list_ex (\<lambda>name. \<not> contains_key (rm_files m) name) IMMUTABLE_RUNTIME_FILES
            \<or> list_ex (\<lambda>name. \<not> is_allowed_name name) (map fst (rm_files m))
            \<or> length package \<noteq> length (rm_files m)
            \<or> list_ex (\<lambda>name. \<not> contains_key (rm_files m) name) (map fst package))
    \<longleftrightarrow> fst ` set (rm_files m) = set IMMUTABLE_RUNTIME_FILES
       \<and> fst ` set package = set IMMUTABLE_RUNTIME_FILES" (is "?code \<longleftrightarrow> ?spec")
proof
  have d: "distinct (map fst (rm_files m))" "distinct (map fst package)" "distinct IMMUTABLE_RUNTIME_FILES"
    using assms bt_sorted_distinct by (auto simp: IMMUTABLE_RUNTIME_FILES_def)
  have key: "contains_key (rm_files m) k \<longleftrightarrow> k \<in> fst ` set (rm_files m)" for k
    by (auto simp: contains_key_def map_of_eq_None_iff)
  assume ?spec
  then have "length (rm_files m) = length IMMUTABLE_RUNTIME_FILES" "length package = length IMMUTABLE_RUNTIME_FILES"
    using distinct_card [OF d(1)] distinct_card [OF d(2)] distinct_card [OF d(3)] by auto
  with \<open>?spec\<close> show ?code by (auto simp: list_ex_iff key is_allowed_name_def)
next
  have d: "distinct (map fst (rm_files m))" "distinct (map fst package)"
    using assms bt_sorted_distinct by auto
  have key: "contains_key (rm_files m) k \<longleftrightarrow> k \<in> fst ` set (rm_files m)" for k
    by (auto simp: contains_key_def map_of_eq_None_iff)
  assume c: ?code
  then have "set IMMUTABLE_RUNTIME_FILES \<subseteq> fst ` set (rm_files m)" "fst ` set (rm_files m) \<subseteq> set IMMUTABLE_RUNTIME_FILES"
    by (auto simp: list_ex_iff key is_allowed_name_def)
  then have eq: "fst ` set (rm_files m) = set IMMUTABLE_RUNTIME_FILES" by blast
  have "set (map fst package) \<subseteq> set (map fst (rm_files m))" "length (map fst package) = length (map fst (rm_files m))"
    using c by (auto simp: list_ex_iff key)
  from subset_same_length [OF d(2) d(1) this] eq show ?spec by simp
qed

lemma package_matches_iff:
  assumes "bt_sorted (rm_files m)"
    and "fst ` set (rm_files m) = set IMMUTABLE_RUNTIME_FILES" and "\<And>b. length (sha b) = 32"
    and canonical: "\<And>b. canonical_sha256 (sha256_digest sha b)"
  shows "verify_files sha package (rm_files m) = Inr () \<longleftrightarrow>
     list_all (\<lambda>name. \<exists>bytes. map_of package name = Some bytes \<and> bytes \<noteq> []
          \<and> length bytes \<le> MAX_RUNTIME_FILE_BYTES
          \<and> map_of (rm_files m) name = Some (sha256_digest sha bytes)) IMMUTABLE_RUNTIME_FILES"
    (is "_ \<longleftrightarrow> list_all ?P _")
proof -
  have entry: "(name, e) \<in> set (rm_files m) \<longleftrightarrow> map_of (rm_files m) name = Some e" for name e
    using bt_sorted_distinct [OF assms(1)] by simp
  have "verify_files sha package (rm_files m) = Inr () \<longleftrightarrow> (\<forall>(name, e) \<in> set (rm_files m). ?P name)"
    unfolding verify_files_Ok_iff list_all_iff
    by (rule ball_cong [OF refl]) (auto simp: entry canonical)
  also have "\<dots> \<longleftrightarrow> (\<forall>name \<in> fst ` set (rm_files m). ?P name)" by auto
  finally show ?thesis by (simp only: list_all_iff assms(2))
qed

lemma lower_hex_digit: "n < 16 \<Longrightarrow> is_ascii_digit (hex_digit n) \<or> 97 \<le> byte (hex_digit n) \<and> byte (hex_digit n) \<le> 102"
  unfolding is_ascii_digit_def by (simp add: byte_hex_digit)

lemma digest_canonical:
  assumes "length (sha b) = 32"
  shows "canonical_sha256 (sha256_digest sha b)"
proof -
  have "byte c div 16 < 16" for c using byte_less [of c] by simp
  then have "list_all (\<lambda>c. is_ascii_digit c \<or> 97 \<le> byte c \<and> byte c \<le> 102)
      (concat (map (\<lambda>c. [hex_digit (byte c div 16), hex_digit (byte c mod 16)]) s))" for s
    using lower_hex_digit by (induction s) auto
  then show ?thesis
    using assms sha256_digest_length [of sha b]
    by (simp add: canonical_sha256_def sha256_digest_def starts_with_def)
qed

lemma verify_manifest_Ok_iff:
  assumes "\<And>b. length (sha b) = 32" and "bt_sorted package"
  shows "verify_runtime_manifest sha parse bytes package = Inr v \<longleftrightarrow>
     (\<exists>m. Option.bind (parse bytes) manifest_of_json = Some m
        \<and> rm_schema m = RUNTIME_MANIFEST_SCHEMA \<and> valid_version (rm_version m)
        \<and> package_matches sha m package
        \<and> v = \<lparr>vm_version = rm_version m, vm_files = map fst (rm_files m)\<rparr>)"
proof (cases "Option.bind (parse bytes) manifest_of_json")
  case None
  then show ?thesis by (simp add: verify_runtime_manifest_def)
next
  case (Some m)
  then have sorted: "bt_sorted (rm_files m)" by (auto intro: manifest_sorted split: bind_splits)
  define bad where "bad \<longleftrightarrow> length (rm_files m) \<noteq> length IMMUTABLE_RUNTIME_FILES
      \<or> list_ex (\<lambda>name. \<not> contains_key (rm_files m) name) IMMUTABLE_RUNTIME_FILES
      \<or> list_ex (\<lambda>name. \<not> is_allowed_name name) (map fst (rm_files m))
      \<or> length package \<noteq> length (rm_files m)
      \<or> list_ex (\<lambda>name. \<not> contains_key (rm_files m) name) (map fst package)"
  note files = manifest_files_iff [OF sorted assms(2), folded bad_def]
  note digests = package_matches_iff [OF sorted _ assms(1) digest_canonical [of sha, OF assms(1)], of package]
  have match: "package_matches sha m package \<longleftrightarrow> \<not> bad \<and> verify_files sha package (rm_files m) = Inr ()"
    using digests files unfolding package_matches_def by blast
  show ?thesis
    unfolding verify_runtime_manifest_def Some option.case bad_def [symmetric]
    by (cases "verify_files sha package (rm_files m)") (auto simp: match)
qed

section \<open>Receipts\<close>

lemma parsed_receipt_valid:
  assumes "parse_runtime_activation_receipt parse bytes = Inr r"
  shows "optional_pointer_valid (parsed_previous r) \<and> optional_pointer_valid (parsed_activated r)
    \<and> (case r of CurrentReceipt c \<Rightarrow> validate_receipt c | _ \<Rightarrow> True)"
  using assms
  by (auto simp: parse_runtime_activation_receipt_def Let_def optional_pointer_valid_def validate_receipt_def
      split: if_splits option.splits)

lemma receipt_round_trip:
  assumes "validate_receipt r" and "parse bytes = Some (receipt_to_json r)"
    and "bytes \<noteq> []" and "length bytes \<le> MAX_RUNTIME_ACTIVATION_RECEIPT_BYTES"
  shows "parse_runtime_activation_receipt parse bytes = Inr (CurrentReceipt r)"
proof -
  have schema: "rc_schema r = RUNTIME_ACTIVATION_SCHEMA" using assms(1) by (simp add: validate_receipt_def)
  have tag: "Option.bind (value_get ''schema'' (receipt_to_json r)) as_u64 = Some (unat RUNTIME_ACTIVATION_SCHEMA)"
    by (simp add: receipt_to_json_def value_get_def as_u64_def schema RUNTIME_ACTIVATION_SCHEMA_def)
  show ?thesis
    using assms unfolding parse_runtime_activation_receipt_def
    by (simp add: Let_def to_value_receipt tag receipt_json_round_trip RUNTIME_ACTIVATION_SCHEMA_def)
qed

section \<open>The profile catalog\<close>

datatype catalog_command = Publish string source_metadata | Activate profile_generation_id | Rollback

fun catalog_step :: "(string \<Rightarrow> string) \<Rightarrow> catalog_command \<Rightarrow> profile_catalog \<Rightarrow> profile_catalog" where
  "catalog_step sha (Publish bytes src) c = snd (publish_machine_profile sha bytes src c)"
| "catalog_step sha (Activate g) c = snd (activate_machine_generation g c)"
| "catalog_step sha Rollback c = snd (rollback_machine_generation c)"

definition catalog_after :: "(string \<Rightarrow> string) \<Rightarrow> catalog_command list \<Rightarrow> profile_catalog" where
  "catalog_after sha commands = fold (catalog_step sha) commands empty_catalog"

text \<open>
  Every stored generation is named by the digest of its bytes, which are a valid profile; the active
  and the previous one are stored and differ, and there is no previous one without an active one.
\<close>

definition catalog_ok :: "(string \<Rightarrow> string) \<Rightarrow> profile_catalog \<Rightarrow> bool" where
  "catalog_ok sha c \<longleftrightarrow>
     fmpred (\<lambda>g p. g = sha256_digest sha (pp_bytes p) \<and> validate_profile (pp_bytes p) = Ok ()) (generations c)
     \<and> set_option (active_generation c) \<union> set_option (previous_generation c) \<subseteq> fset (fmdom (generations c))
     \<and> (previous_generation c = None \<or> active_generation c \<noteq> None \<and> active_generation c \<noteq> previous_generation c)"

lemma catalog_empty [inv_intros]: "catalog_ok sha empty_catalog"
  by (simp add: catalog_ok_def empty_catalog_def)

lemma catalog_step_ok [inv_intros]: "catalog_ok sha c \<Longrightarrow> catalog_ok sha (catalog_step sha x c)"
proof (cases x)
  case (Publish bytes src)
  assume "catalog_ok sha c"
  then show ?thesis unfolding Publish catalog_step.simps publish_machine_profile_def
    by (cases "validate_profile bytes") (auto simp: catalog_ok_def Let_def from_profile_bytes_def fmpred_upd)
next
  case (Activate g)
  assume "catalog_ok sha c"
  then show ?thesis unfolding Activate
    by (auto simp: catalog_ok_def activate_machine_generation_def)
next
  case Rollback
  assume "catalog_ok sha c"
  then show ?thesis unfolding Rollback
    by (cases "previous_generation c"; cases "active_generation c")
      (auto simp: catalog_ok_def rollback_machine_generation_def)
qed

lemma catalog_fold_ok: "catalog_ok sha c \<Longrightarrow> catalog_ok sha (fold (catalog_step sha) xs c)"
  by (induction xs arbitrary: c) (auto intro: inv_intros)

lemma catalog_after_ok: "catalog_ok sha (catalog_after sha commands)"
  unfolding catalog_after_def by (intro catalog_fold_ok inv_intros)

lemma rollback_twice:
  assumes "catalog_ok sha c"
  shows "snd (rollback_machine_generation (snd (rollback_machine_generation c))) = c"
  using assms
  by (cases "previous_generation c"; cases "active_generation c")
    (auto simp: catalog_ok_def rollback_machine_generation_def)

section \<open>INI structure\<close>

text \<open>
  A well-formed profile, line by line: a line is blank, a comment or a section header, or it stands
  below some header and is an assignment with a key, or has no equals sign below one of the headers
  whose sections list names.  There is a header and an assignment.
\<close>

definition sections_of :: "string list \<Rightarrow> string list" where
  "sections_of lines = filter is_section_line lines"

definition is_assignment :: "string \<Rightarrow> bool" where
  "is_assignment line \<longleftrightarrow> \<not> is_blank_or_comment line \<and> \<not> is_section_line line \<and> CHR ''='' \<in> set line"

definition entry_ok :: "string list \<Rightarrow> string \<Rightarrow> bool" where
  "entry_ok pre line \<longleftrightarrow> is_blank_or_comment line \<or> is_section_line line
     \<or> (sections_of pre \<noteq> []
        \<and> (if CHR ''='' \<in> set line then trim_ascii (takeWhile (\<lambda>c. c \<noteq> CHR ''='') line) \<noteq> []
           else is_mactype_list_section (last (sections_of pre))))"

definition well_formed_ini :: "string \<Rightarrow> bool" where
  "well_formed_ini bytes \<longleftrightarrow>
     (let lines = map trim_ascii (split_on (char_of (10 :: nat)) bytes)
      in list_all (\<lambda>i. entry_ok (take i lines) (lines ! i)) [0..<length lines]
         \<and> sections_of lines \<noteq> [] \<and> list_ex is_assignment lines)"

definition scan_of :: "string list \<Rightarrow> ini_scan" where
  "scan_of pre =
     \<lparr>saw_section = sections_of pre \<noteq> [], saw_assignment = list_ex is_assignment pre,
      accepts_bare_entries = (sections_of pre \<noteq> [] \<and> is_mactype_list_section (last (sections_of pre)))\<rparr>"

lemma section_not_blank: "is_section_line l \<Longrightarrow> \<not> is_blank_or_comment l"
  by (auto simp: is_section_line_def is_blank_or_comment_def)

lemma ini_line_scan:
  "ini_line l (scan_of pre) =
     (if entry_ok pre (trim_ascii l) then Inr (scan_of (pre @ [trim_ascii l])) else Inl InvalidIni)"
  by (auto simp: ini_line_def scan_of_def entry_ok_def sections_of_def is_assignment_def Let_def
      dest: section_not_blank)

lemma ini_lines_scan:
  "ini_lines ls (scan_of pre) =
     (if list_all (\<lambda>i. entry_ok (pre @ take i (map trim_ascii ls)) (map trim_ascii ls ! i)) [0..<length ls]
      then Inr (scan_of (pre @ map trim_ascii ls)) else Inl InvalidIni)"
proof (induction ls arbitrary: pre)
  case (Cons l ls)
  have all: "list_all P [0..<n] \<longleftrightarrow> (\<forall>i<n. P i)" for P n
    by (auto simp: list_all_iff)
  have split: "list_all P [0..<length (l # ls)] \<longleftrightarrow> P 0 \<and> list_all (\<lambda>i. P (Suc i)) [0..<length ls]" for P
    unfolding all by (simp add: All_less_Suc2)
  show ?case unfolding split by (simp add: ini_line_scan Cons.IH)
qed simp

lemma validate_ini_iff: "validate_ini_structure bytes = Inr () \<longleftrightarrow> well_formed_ini bytes"
proof -
  have start: "\<lparr>saw_section = False, saw_assignment = False, accepts_bare_entries = False\<rparr> = scan_of []"
    by (simp add: scan_of_def sections_of_def)
  show ?thesis
    unfolding validate_ini_structure_def start ini_lines_scan well_formed_ini_def Let_def
    by (simp add: scan_of_def)
qed


section \<open>Properties\<close>

text \<open>A digest that is always 32 zero bytes, for the concrete instances.\<close>

definition zero_sha :: "string \<Rightarrow> string" where
  "zero_sha bytes = replicate 32 (char_of (0 :: nat))"

lemma zero_sha_length: "length (zero_sha b) = 32"
  by (simp add: zero_sha_def)

definition one_byte_package :: "string btree_map" where
  "one_byte_package = bt_collect (map (\<lambda>name. (name, ''x'')) IMMUTABLE_RUNTIME_FILES)"

definition one_byte_manifest :: json where
  "one_byte_manifest = JObject [(''schema'', JNat 1), (''version'', JString ''1.2.3''),
     (''files'', JObject (map (\<lambda>name. (name, JString (sha256_digest zero_sha ''x''))) IMMUTABLE_RUNTIME_FILES))]"

lemma one_byte_package_sorted: "bt_sorted one_byte_package"
  by (simp add: one_byte_package_def bt_collect_props)

text \<open>
  C21.  The identity of a runtime generation binds its files: two file sets with the same identity
  are the same map from names to bytes, unless SHA-256 collides on the contents of a file or on the
  two strings of names and digests the identities were computed from.
\<close>

theorem generation_identity_binds_the_files:
  assumes "\<And>b. length (sha b) = 32"
    and "runtime_generation_id sha files = Ok g" and "runtime_generation_id sha files' = Ok g"
  shows "map_of files = map_of files' \<or> identity_collision sha files files'"
  using identity_binds [OF assms] by blast

theorem generation_identity_binds_the_files_witness:
  "runtime_generation_id zero_sha one_byte_package = Ok (drop 7 (sha256_digest zero_sha []))
   \<and> (map_of one_byte_package = map_of one_byte_package
      \<or> identity_collision zero_sha one_byte_package one_byte_package)"
proof -
  have id: "runtime_generation_id zero_sha one_byte_package = Ok (drop 7 (sha256_digest zero_sha []))"
    by code_simp
  from generation_identity_binds_the_files [where sha = zero_sha, OF zero_sha_length id id] id
  show ?thesis by blast
qed

text \<open>
  C22.  A manifest verifies a package exactly when the manifest parses with the supported schema and
  a valid version, names exactly the fixed immutable files, the package holds exactly those files,
  each present, non-empty, within the size limit and with the digest the manifest states.
\<close>

theorem manifest_verifies_exact_packages:
  assumes "\<And>b. length (sha b) = 32" and "bt_sorted package"
  shows "verify_runtime_manifest sha parse bytes package = Ok v \<longleftrightarrow>
     (\<exists>m. Option.bind (parse bytes) manifest_of_json = Some m
        \<and> rm_schema m = RUNTIME_MANIFEST_SCHEMA \<and> valid_version (rm_version m)
        \<and> package_matches sha m package
        \<and> v = \<lparr>vm_version = rm_version m, vm_files = map fst (rm_files m)\<rparr>)"
  using assms by (rule verify_manifest_Ok_iff)

theorem manifest_verifies_exact_packages_witness:
  "\<exists>v. verify_runtime_manifest zero_sha (\<lambda>b. Some one_byte_manifest) [] one_byte_package = Ok v
     \<and> (\<exists>m. Option.bind (Some one_byte_manifest) manifest_of_json = Some m
        \<and> rm_schema m = RUNTIME_MANIFEST_SCHEMA \<and> valid_version (rm_version m)
        \<and> package_matches zero_sha m one_byte_package
        \<and> v = \<lparr>vm_version = rm_version m, vm_files = map fst (rm_files m)\<rparr>)"
proof -
  have "\<not> isl (verify_runtime_manifest zero_sha (\<lambda>b. Some one_byte_manifest) [] one_byte_package)"
    by code_simp
  then obtain v where ok: "verify_runtime_manifest zero_sha (\<lambda>b. Some one_byte_manifest) [] one_byte_package = Ok v"
    by (cases "verify_runtime_manifest zero_sha (\<lambda>b. Some one_byte_manifest) [] one_byte_package") auto
  with manifest_verifies_exact_packages
    [where sha = zero_sha and parse = "\<lambda>b. Some one_byte_manifest" and bytes = "[]" and v = v,
     OF zero_sha_length one_byte_package_sorted]
  show ?thesis by blast
qed

text \<open>
  C23.  An activation receipt survives the disk: a receipt written in any phase over valid pointers is
  read back as a current receipt with the same phase and pointers, whatever JSON printer and parser
  agree on its text; and no text at all yields a receipt with an invalid pointer.
\<close>

theorem receipts_survive_the_disk:
  assumes "validate_pointer activated" and "optional_pointer_valid previous"
    and "parse bytes = Some (receipt_to_json (with_phase phase (candidate_receipt previous activated)))"
    and "bytes \<noteq> []" and "length bytes \<le> MAX_RUNTIME_ACTIVATION_RECEIPT_BYTES"
  shows "(\<exists>r. parse_runtime_activation_receipt parse bytes = Ok (CurrentReceipt r)
            \<and> rc_phase r = phase \<and> rc_previous r = previous \<and> rc_activated r = activated)
    \<and> (case parse_runtime_activation_receipt parse other of Inl _ \<Rightarrow> True
       | Inr r \<Rightarrow> optional_pointer_valid (parsed_previous r) \<and> optional_pointer_valid (parsed_activated r))"
proof -
  have "validate_receipt (with_phase phase (candidate_receipt previous activated))"
    using assms by (simp add: validate_receipt_def with_phase_def candidate_receipt_def)
  from receipt_round_trip [where parse = parse and bytes = bytes, OF this assms(3-5)] show ?thesis
    using parsed_receipt_valid [of parse other]
    by (auto simp: with_phase_def candidate_receipt_def split: sum.splits)
qed

definition sample_pointer :: runtime_generation_pointer where
  "sample_pointer = \<lparr>rp_schema = 1, rp_version = ''1.2.3''\<rparr>"

definition sample_receipt :: json where
  "sample_receipt = receipt_to_json (with_phase Committed (candidate_receipt None sample_pointer))"

theorem receipts_survive_the_disk_witness:
  "\<exists>r. parse_runtime_activation_receipt (\<lambda>b. Some sample_receipt) ''x'' = Ok (CurrentReceipt r)
     \<and> rc_phase r = Committed \<and> rc_previous r = None \<and> rc_activated r = sample_pointer"
  by (rule receipts_survive_the_disk [where phase = Committed and previous = None
        and activated = sample_pointer and parse = "\<lambda>b. Some sample_receipt" and bytes = "''x''", THEN conjunct1])
    (code_simp, code_simp, simp add: sample_receipt_def, simp, simp add: MAX_RUNTIME_ACTIVATION_RECEIPT_BYTES_def)

text \<open>
  C24.  After any sequence of publications, activations and rollbacks the catalog is consistent: every
  generation is named by the digest of its bytes, which are a valid profile; the active and previous
  generations are stored and differ, with no previous one unless one is active; and rolling back
  twice changes nothing.
\<close>

theorem catalog_stays_consistent:
  "catalog_ok sha (catalog_after sha commands)
   \<and> snd (rollback_machine_generation (snd (rollback_machine_generation (catalog_after sha commands))))
       = catalog_after sha commands"
  using catalog_after_ok rollback_twice by blast

text \<open>
  C25.  The scanner accepts exactly the well-formed profiles: the single pass over the lines with its
  three flags decides the declarative description, in which each line is judged by the header nearest
  above it.
\<close>

theorem scanner_accepts_well_formed_profiles:
  "validate_ini_structure bytes = Ok () \<longleftrightarrow> well_formed_ini bytes"
  by (rule validate_ini_iff)

end
