(* ===== verification/Protected_Startup.thy ===== *)
theory Protected_Startup
  imports Helper_Broker Runtime_Activation Profile_Catalog Service_Status
begin

text \<open>
  What the service verifies before it injects anything: the machine paths
  (\<open>contract/src/paths.rs\<close>), bounded reads and the ban on reparse points
  (\<open>host/src/protected_path.rs\<close>), the active runtime generation (\<open>active_generation.rs\<close>), the active
  profile and the activation journals (\<open>profile_runtime.rs\<close>), the runtime files and their identity
  (\<open>runtime_assets.rs\<close>), and the order in which the initializer asks for them
  (\<open>windows_runtime.rs\<close>, \<open>windows_startup_safety.rs\<close>).

  The file system is the record \<open>fs_env\<close> of functions of an abstract world, so a file may change
  between any two calls.
\<close>

section \<open>Machine paths\<close>

record machine_paths =
  service_root :: path
  runtime_versions :: path
  runtime_pointer :: path
  runtime_activation_journal :: path
  profile_generations :: path
  active_profile :: path
  previous_profile :: path
  profile_activation_journal :: path
  event_log_dir :: path
  service_host_event_log :: path
  service_setup_event_log :: path

definition path_is_absolute :: "path \<Rightarrow> bool" where
  "path_is_absolute p = (case p of Prefix _ # RootDir # _ \<Rightarrow> True | _ \<Rightarrow> False)"

definition contains_text :: "string \<Rightarrow> string \<Rightarrow> bool" where
  "contains_text s t = list_ex (\<lambda>i. starts_with (drop i s) t) [0..<Suc (length s)]"

definition between_separators :: "string \<Rightarrow> string" where
  "between_separators s = [char_of (92 :: nat)] @ s @ [char_of (92 :: nat)]"

text \<open>
  \<open>to_lowercase\<close> acts as its ASCII part here: no other character has a lower case among the letters
  looked for.
\<close>

definition validate_protected_root :: "path \<Rightarrow> bool" where
  "validate_protected_root p =
     (if \<not> path_is_absolute p \<or> list_ex (\<lambda>c. c = ParentDir \<or> c = CurDir) p then False
      else (let normalized = map to_ascii_lowercase
                  (map (\<lambda>c. if byte c = 47 then char_of (92 :: nat) else c) (path_display p))
            in \<not> (contains_text normalized (between_separators ''users'')
                  \<or> contains_text normalized (between_separators ''appdata'')
                  \<or> contains_text normalized (between_separators ''localappdata''))))"

definition from_trusted_os_roots :: "path \<Rightarrow> path \<Rightarrow> unit + machine_paths" where
  "from_trusted_os_roots program_files program_data =
     (if \<not> validate_protected_root program_files then Err ()
      else if \<not> validate_protected_root program_data then Err ()
      else (let root = path_join (path_join program_files ''MacType Control Center'') ''Service'';
                data_root = path_join (path_join program_data ''MacType'') ''ControlCenter'';
                logs = path_join data_root ''logs''
            in Ok \<lparr>service_root = root, runtime_versions = path_join root ''bin'',
                   runtime_pointer = path_join root ''current.json'',
                   runtime_activation_journal = path_join root ''runtime-activation.json'',
                   profile_generations = path_join data_root ''generations'',
                   active_profile = path_join data_root ''active.json'',
                   previous_profile = path_join data_root ''previous.json'',
                   profile_activation_journal = path_join data_root ''profile-activation.json'',
                   event_log_dir = logs,
                   service_host_event_log = path_join logs ''service-host.log'',
                   service_setup_event_log = path_join logs ''service-setup.log''\<rparr>))"

section \<open>Protected reads\<close>

record io_failure =
  iof_kind :: io_kind
  iof_raw :: "u32 option"

text \<open>An open file: its metadata (regular file, length) and what reading it to the end gives.\<close>

record file_view =
  fv_metadata :: "io_failure + (bool \<times> nat)"
  fv_contents :: "io_failure + string"

record 'w fs_env =
  fs_exists :: "path \<Rightarrow> 'w \<Rightarrow> bool \<times> 'w"
  fs_is_reparse_point :: "path \<Rightarrow> 'w \<Rightarrow> (io_failure + bool) \<times> 'w"
  fs_open :: "path \<Rightarrow> 'w \<Rightarrow> (io_failure + file_view) \<times> 'w"
  fs_is_dir :: "path \<Rightarrow> 'w \<Rightarrow> bool \<times> 'w"
  fs_read_dir :: "path \<Rightarrow> 'w \<Rightarrow> (io_failure + (io_failure + string option) list) \<times> 'w"

definition invalid_data :: io_failure where
  "invalid_data = \<lparr>iof_kind = IoInvalidData, iof_raw = None\<rparr>"

definition map_err :: "('e \<Rightarrow> 'f) \<Rightarrow> ('e + 'a) \<times> 'w \<Rightarrow> ('f + 'a) \<times> 'w" where
  "map_err f m = (case fst m of Inl e \<Rightarrow> Err (f e) | Inr x \<Rightarrow> Ok x, snd m)"

definition read_bounded_contents :: "io_failure + string \<Rightarrow> nat \<Rightarrow> io_failure + string" where
  "read_bounded_contents contents maximum_bytes =
     (case contents of
        Inl e \<Rightarrow> Err e
      | Inr all \<Rightarrow>
          (let bytes = take (maximum_bytes + 1) all
           in if bytes = [] \<or> maximum_bytes < length bytes then Err invalid_data else Ok bytes))"

definition read_bounded_regular_file ::
  "('w, 'x) fs_env_scheme \<Rightarrow> path \<Rightarrow> nat \<Rightarrow> 'w \<Rightarrow> (io_failure + string) \<times> 'w" where
  "read_bounded_regular_file env p maximum_bytes w =
     and_then (fs_open env p w)
       (\<lambda>file w. case fv_metadata file of
           Inl e \<Rightarrow> (Err e, w)
         | Inr (is_file, len) \<Rightarrow>
             if \<not> is_file \<or> len = 0 \<or> maximum_bytes < len then (Err invalid_data, w)
             else (read_bounded_contents (fv_contents file) maximum_bytes, w))"

text \<open>\<open>Path::ancestors\<close>: the path, its parent and so on.\<close>

function path_ancestors :: "path \<Rightarrow> path list" where
  "path_ancestors p = (case path_parent p of None \<Rightarrow> [p] | Some q \<Rightarrow> p # path_ancestors q)"
  by pat_completeness auto
termination
  by (relation "measure length") (auto simp: path_parent_def split: if_splits path_component.splits)

declare path_ancestors.simps [simp del]

text \<open>The loop over the ancestors that exist.\<close>

fun any_reparse :: "('w, 'x) fs_env_scheme \<Rightarrow> path list \<Rightarrow> 'w \<Rightarrow> (io_failure + bool) \<times> 'w" where
  "any_reparse env [] w = (Ok False, w)"
| "any_reparse env (p # ps) w =
     (let (there, w) = fs_exists env p w
      in if \<not> there then any_reparse env ps w
         else and_then (fs_is_reparse_point env p w)
                (\<lambda>reparse w. if reparse then (Ok True, w) else any_reparse env ps w))"

definition has_reparse_ancestor :: "('w, 'x) fs_env_scheme \<Rightarrow> path \<Rightarrow> 'w \<Rightarrow> (io_failure + bool) \<times> 'w" where
  "has_reparse_ancestor env p w = any_reparse env (path_ancestors p) w"

type_synonym ('a, 'w) checked = "(structured_service_error + 'a) \<times> 'w"

definition service_error_raw :: "string \<Rightarrow> string \<Rightarrow> io_failure \<Rightarrow> structured_service_error" where
  "service_error_raw code message e =
     \<lparr>se_code = code, se_message = message, se_win32_error = iof_raw e\<rparr>"

definition reject_if ::
  "structured_service_error \<Rightarrow> (structured_service_error + bool) \<times> 'w \<Rightarrow> (unit, 'w) checked" where
  "reject_if error m = and_then m (\<lambda>found w. if found then (Err error, w) else (Ok (), w))"

definition reject_runtime_reparse :: "('w, 'x) fs_env_scheme \<Rightarrow> path \<Rightarrow> 'w \<Rightarrow> (unit, 'w) checked" where
  "reject_runtime_reparse env p w =
     reject_if (service_error ''active-runtime-reparse''
                  ''reparse points are forbidden in the protected runtime path'')
       (map_err (service_error_raw ''active-runtime-inaccessible''
                   ''the protected runtime path could not be inspected'')
          (has_reparse_ancestor env p w))"

definition reject_profile_reparse :: "('w, 'x) fs_env_scheme \<Rightarrow> path \<Rightarrow> 'w \<Rightarrow> (unit, 'w) checked" where
  "reject_profile_reparse env p w =
     reject_if (service_error ''active-profile-reparse''
                  ''reparse points are forbidden in the protected profile path'')
       (map_err (\<lambda>_. service_error ''active-profile-inaccessible''
                   ''the protected profile path could not be inspected'')
          (has_reparse_ancestor env p w))"

section \<open>The active runtime generation\<close>

record active_runtime_generation =
  ag_root :: path
  ag_version :: string
  ag_pointer :: runtime_generation_pointer

definition active_runtime_invalid :: structured_service_error where
  "active_runtime_invalid = service_error ''active-runtime-invalid''
     ''the protected active runtime pointer has an unsupported value''"

definition resolve_active_runtime ::
  "('w, 'x) fs_env_scheme \<Rightarrow> (string \<Rightarrow> json option) \<Rightarrow> machine_paths \<Rightarrow> 'w \<Rightarrow>
     (active_runtime_generation, 'w) checked" where
  "resolve_active_runtime env parse paths w =
     and_then (reject_runtime_reparse env (runtime_pointer paths) w) (\<lambda>_ w.
     and_then (map_err (\<lambda>e.
         if iof_kind e = IoInvalidData
         then service_error_raw ''active-runtime-invalid''
                ''the protected active runtime pointer is not a bounded regular file'' e
         else service_error_raw ''active-runtime-unavailable''
                ''the protected active runtime pointer could not be read'' e)
       (read_bounded_regular_file env (runtime_pointer paths) MAX_RUNTIME_POINTER_BYTES w)) (\<lambda>bytes w.
     case parse_pointer parse bytes of
       Inl _ \<Rightarrow> (Err active_runtime_invalid, w)
     | Inr pointer \<Rightarrow>
         (let version = rp_version pointer; root = path_join (runtime_versions paths) version
          in if \<not> valid_runtime_version_component version then (Err active_runtime_invalid, w)
             else and_then (reject_runtime_reparse env root w) (\<lambda>_ w.
                  let (there, w) = fs_is_dir env root w
                  in if \<not> there
                     then (Err (service_error ''active-runtime-unavailable''
                                  ''the protected active runtime generation is missing''), w)
                     else (Ok \<lparr>ag_root = root, ag_version = version, ag_pointer = pointer\<rparr>, w)))))"

section \<open>The active profile\<close>

record verified_profile =
  vp_bytes :: string
  vp_generation :: profile_generation_id

definition ACTIVE_PROFILE_ABSENT_CODE :: string where
  "ACTIVE_PROFILE_ABSENT_CODE = ''active-profile-absent''"

definition read_bounded_protected_file ::
  "('w, 'x) fs_env_scheme \<Rightarrow> path \<Rightarrow> nat \<Rightarrow> structured_service_error \<Rightarrow> structured_service_error \<Rightarrow> 'w \<Rightarrow>
     (string, 'w) checked" where
  "read_bounded_protected_file env p maximum_bytes unavailable invalid w =
     and_then (reject_profile_reparse env p w) (\<lambda>_ w.
     map_err (\<lambda>e. if iof_kind e = IoInvalidData then invalid else unavailable)
       (read_bounded_regular_file env p maximum_bytes w))"

definition verify_active_profile ::
  "('w, 'x) fs_env_scheme \<Rightarrow> (string \<Rightarrow> string) \<Rightarrow> (string \<Rightarrow> json option) \<Rightarrow> machine_paths \<Rightarrow> 'w \<Rightarrow>
     (verified_profile, 'w) checked" where
  "verify_active_profile env sha parse paths w =
     and_then (reject_profile_reparse env (active_profile paths) w) (\<lambda>_ w.
     and_then (map_err (\<lambda>e.
         if iof_kind e = IoNotFound
         then service_error ACTIVE_PROFILE_ABSENT_CODE
                ''no profile has been published yet, so the service stays stopped until setup publishes one''
         else if iof_kind e = IoInvalidData
         then service_error ''active-profile-invalid''
                ''the protected active profile pointer is not a bounded regular file''
         else service_error ''active-profile-unavailable''
                ''the protected active profile pointer could not be read'')
       (read_bounded_regular_file env (active_profile paths) MAX_RUNTIME_POINTER_BYTES w)) (\<lambda>pointer_bytes w.
     case Option.bind (parse pointer_bytes) generation_pointer_of_json of
       None \<Rightarrow> (Err (service_error ''active-profile-invalid''
                      ''the protected active profile pointer is invalid''), w)
     | Some generation \<Rightarrow>
         (let profile_path = path_join (path_join (profile_generations paths) (directory_name generation))
                               ''profile.ini''
          in and_then (read_bounded_protected_file env profile_path MAX_PROFILE_BYTES
                 (service_error ''active-profile-unavailable''
                    ''the protected profile generation could not be read'')
                 (service_error ''active-profile-invalid''
                    ''the protected profile generation is not a bounded regular file'') w) (\<lambda>bytes w.
             case fst (publish_machine_profile sha bytes \<lparr>display_name = ''service verification''\<rparr>
                         empty_catalog) of
               Inl _ \<Rightarrow> (Err (service_error ''active-profile-invalid''
                              ''the protected profile is not a valid INI''), w)
             | Inr calculated \<Rightarrow>
                 if calculated \<noteq> generation
                 then (Err (service_error ''active-profile-tampered''
                              ''the protected profile digest does not match its generation''), w)
                 else (Ok \<lparr>vp_bytes = bytes, vp_generation = calculated\<rparr>, w)))))"

section \<open>Activation journals\<close>

definition activation_recovery_required :: structured_service_error where
  "activation_recovery_required = service_error ''activation-recovery-required''
     ''a protected activation journal requires setup recovery before start unless it durably commits and exactly owns the active runtime candidate''"

definition read_bounded_activation_receipt ::
  "('w, 'x) fs_env_scheme \<Rightarrow> path \<Rightarrow> 'w \<Rightarrow> (string, 'w) checked" where
  "read_bounded_activation_receipt env p w =
     and_then (reject_if activation_recovery_required
                 (map_err (\<lambda>_. activation_recovery_required) (has_reparse_ancestor env p w))) (\<lambda>_ w.
     map_err (\<lambda>e.
         if iof_kind e = IoInvalidData
         then service_error ''activation-recovery-required''
                ''the runtime activation receipt is not a bounded regular file''
         else service_error ''activation-recovery-required''
                ''the runtime activation receipt could not be read'')
       (read_bounded_regular_file env p MAX_RUNTIME_ACTIVATION_RECEIPT_BYTES w))"

definition committed_runtime_activation ::
  "('w, 'x) fs_env_scheme \<Rightarrow> (string \<Rightarrow> json option) \<Rightarrow> machine_paths \<Rightarrow> 'w \<Rightarrow>
     (runtime_generation_pointer option, 'w) checked" where
  "committed_runtime_activation env parse paths w =
     (let (there, w) = fs_exists env (runtime_activation_journal paths) w
      in if \<not> there then (Ok None, w)
         else and_then (read_bounded_activation_receipt env (runtime_activation_journal paths) w) (\<lambda>bytes w.
              case parse_runtime_activation_receipt parse bytes of
                Inr (CurrentReceipt receipt) \<Rightarrow>
                  if rc_phase receipt \<noteq> Committed then (Err activation_recovery_required, w)
                  else (Ok (Some (rc_activated receipt)), w)
              | _ \<Rightarrow> (Err activation_recovery_required, w)))"

record prepared_profile =
  pr_committed_runtime :: "runtime_generation_pointer option"
  pr_verified_profile :: "verified_profile option"

definition prepare_profile ::
  "('w, 'x) fs_env_scheme \<Rightarrow> (string \<Rightarrow> string) \<Rightarrow> (string \<Rightarrow> json option) \<Rightarrow> machine_paths \<Rightarrow> 'w \<Rightarrow>
     (prepared_profile, 'w) checked" where
  "prepare_profile env sha parse paths w =
     (let (journal, w) = fs_exists env (profile_activation_journal paths) w
      in if journal
         then and_then (reject_profile_reparse env (profile_activation_journal paths) w)
                (\<lambda>_ w. (Err activation_recovery_required, w))
         else and_then (committed_runtime_activation env parse paths w) (\<lambda>committed w.
              if committed = None
              then and_then (verify_active_profile env sha parse paths w) (\<lambda>profile w.
                     (Ok \<lparr>pr_committed_runtime = committed, pr_verified_profile = Some profile\<rparr>, w))
              else (Ok \<lparr>pr_committed_runtime = committed, pr_verified_profile = None\<rparr>, w)))"

definition resolve_generation ::
  "('w, 'x) fs_env_scheme \<Rightarrow> (string \<Rightarrow> json option) \<Rightarrow> machine_paths \<Rightarrow> prepared_profile \<Rightarrow> 'w \<Rightarrow>
     (active_runtime_generation, 'w) checked" where
  "resolve_generation env parse paths prepared w =
     map_err (\<lambda>e. if pr_committed_runtime prepared \<noteq> None then activation_recovery_required else e)
       (resolve_active_runtime env parse paths w)"

section \<open>The runtime files\<close>

definition RUNTIME_PROFILE_ABSENT_CODE :: string where
  "RUNTIME_PROFILE_ABSENT_CODE = ''runtime-profile-absent''"

text \<open>The loop over at most one name more than there are required files: their number and their set.\<close>

fun collect_names ::
  "(structured_service_error + string option) list \<Rightarrow> string list \<Rightarrow> structured_service_error + string list" where
  "collect_names [] seen = Ok seen"
| "collect_names (Inl e # names) seen = Err e"
| "collect_names (Inr None # names) seen =
     Err (service_error ''runtime-file-set-invalid''
            ''the protected runtime contains a non-Unicode file name'')"
| "collect_names (Inr (Some n) # names) seen = collect_names names (seen @ [n])"

definition validate_runtime_file_names ::
  "(structured_service_error + string option) list \<Rightarrow> structured_service_error + unit" where
  "validate_runtime_file_names names =
     (case collect_names (take (Suc (length REQUIRED_RUNTIME_FILES)) names) [] of
        Inl e \<Rightarrow> Err e
      | Inr seen \<Rightarrow>
          (let count = length seen; actual = remdups seen
           in if count = length REQUIRED_RUNTIME_FILES - 1 \<and> length actual = length REQUIRED_RUNTIME_FILES - 1
                 \<and> list_all (\<lambda>n. n \<in> set actual) (filter (\<lambda>n. n \<noteq> ''MacType.ini'') REQUIRED_RUNTIME_FILES)
              then Err (service_error RUNTIME_PROFILE_ABSENT_CODE
                     ''the protected runtime has no generated profile, so the service stays stopped until setup publishes one'')
              else if count \<noteq> length REQUIRED_RUNTIME_FILES \<or> length actual \<noteq> length REQUIRED_RUNTIME_FILES
                      \<or> list_ex (\<lambda>n. n \<notin> set actual) REQUIRED_RUNTIME_FILES
              then Err (service_error ''runtime-file-set-invalid''
                     ''the protected runtime must contain exactly the fixed service, helpers, DLLs, and generated profile'')
              else Ok ()))"

definition enumeration_error :: "io_failure \<Rightarrow> structured_service_error" where
  "enumeration_error =
     service_error_raw ''runtime-file-set-invalid'' ''the protected runtime file set could not be enumerated''"

definition validate_runtime_file_set :: "('w, 'x) fs_env_scheme \<Rightarrow> path \<Rightarrow> 'w \<Rightarrow> (unit, 'w) checked" where
  "validate_runtime_file_set env root w =
     and_then (map_err enumeration_error (fs_read_dir env root w)) (\<lambda>entries w.
       (validate_runtime_file_names
          (map (\<lambda>entry. case entry of Inl e \<Rightarrow> Err (enumeration_error e) | Inr name \<Rightarrow> Ok name) entries), w))"

text \<open>The loop over the required files; only the immutable ones are kept.\<close>

definition component_error :: "io_failure \<Rightarrow> structured_service_error" where
  "component_error e =
     (case iof_kind e of
        IoNotFound \<Rightarrow> service_error_raw ''runtime-component-missing''
          ''a required protected runtime component is missing'' e
      | IoInvalidData \<Rightarrow> service_error_raw ''runtime-component-invalid''
          ''a required protected runtime component is not a bounded regular non-empty file'' e
      | _ \<Rightarrow> service_error_raw ''runtime-component-inaccessible''
          ''a required protected runtime component could not be read'' e)"

fun load_files ::
  "('w, 'x) fs_env_scheme \<Rightarrow> path \<Rightarrow> string list \<Rightarrow> string btree_map \<Rightarrow> 'w \<Rightarrow> (string btree_map, 'w) checked" where
  "load_files env root [] files w = (Ok files, w)"
| "load_files env root (name # names) files w =
     (let file = path_join root name
      in and_then (reject_runtime_reparse env file w) (\<lambda>_ w.
         and_then (map_err component_error
             (read_bounded_regular_file env file
                (if name = ''MacType.ini'' then MAX_PROFILE_BYTES else MAX_RUNTIME_FILE_BYTES) w)) (\<lambda>bytes w.
         load_files env root names
           (if name \<in> set IMMUTABLE_RUNTIME_FILES then bt_insert name bytes files else files) w)))"

definition load_from_generation ::
  "('w, 'x) fs_env_scheme \<Rightarrow> (string \<Rightarrow> string) \<Rightarrow> active_runtime_generation \<Rightarrow> 'w \<Rightarrow>
     (protected_runtime_assets, 'w) checked" where
  "load_from_generation env sha generation w =
     (let root = ag_root generation
      in and_then (validate_runtime_file_set env root w) (\<lambda>_ w.
         and_then (load_files env root REQUIRED_RUNTIME_FILES [] w) (\<lambda>files w.
         case runtime_generation_id sha files of
           Inl _ \<Rightarrow> (Err (service_error ''runtime-generation-invalid''
                          ''the protected runtime generation identity could not be calculated''), w)
         | Inr id' \<Rightarrow> (Ok (assets_of root id'), w))))"

section \<open>Initialization\<close>

definition read_bounded_runtime_profile :: "('w, 'x) fs_env_scheme \<Rightarrow> path \<Rightarrow> 'w \<Rightarrow> (string, 'w) checked" where
  "read_bounded_runtime_profile env p w =
     and_then (reject_runtime_reparse env p w) (\<lambda>_ w.
     map_err (\<lambda>e.
         if iof_kind e = IoInvalidData
         then service_error ''runtime-profile-invalid''
                ''the DLL-adjacent generated MacType.ini is not a bounded regular file''
         else service_error ''runtime-profile-unavailable''
                ''the DLL-adjacent generated MacType.ini could not be read'')
       (read_bounded_regular_file env p MAX_PROFILE_BYTES w))"

definition profile_readiness :: readiness_report where
  "profile_readiness = \<lparr>rr_profile = CrReady, rr_observer = CrNotRequired, rr_injector32 = CrNotRequired,
     rr_injector64 = CrNotRequired\<rparr>"

definition compare_runtime_profile ::
  "('w, 'x) fs_env_scheme \<Rightarrow> (string \<Rightarrow> string) \<Rightarrow> verified_profile \<Rightarrow> path \<Rightarrow> 'w \<Rightarrow>
     (string \<times> readiness_report, 'w) checked" where
  "compare_runtime_profile env sha profile root w =
     and_then (read_bounded_runtime_profile env (path_join root ''MacType.ini'') w) (\<lambda>runtime_bytes w.
       if runtime_bytes \<noteq> vp_bytes profile \<or> from_profile_bytes sha runtime_bytes \<noteq> vp_generation profile
       then (Err (service_error ''runtime-profile-mismatch''
                    ''the DLL-adjacent generated MacType.ini does not match the active profile''), w)
       else (Ok (vp_generation profile, profile_readiness), w))"

text \<open>The initialized runtime is its profile digest and readiness; it has no driver yet.\<close>

definition initialize_with_generation ::
  "('w, 'x) fs_env_scheme \<Rightarrow> (string \<Rightarrow> string) \<Rightarrow> (string \<Rightarrow> json option) \<Rightarrow> machine_paths \<Rightarrow>
     prepared_profile \<Rightarrow> active_runtime_generation \<Rightarrow> 'w \<Rightarrow> (string \<times> readiness_report, 'w) checked" where
  "initialize_with_generation env sha parse paths prepared generation w =
     (if (case pr_committed_runtime prepared of None \<Rightarrow> False | Some p \<Rightarrow> p \<noteq> ag_pointer generation)
      then (Err activation_recovery_required, w)
      else
        and_then (case pr_verified_profile prepared of
                    Some profile \<Rightarrow> (Ok profile, w)
                  | None \<Rightarrow> verify_active_profile env sha parse paths w) (\<lambda>profile w.
        let (file_set, w) = validate_runtime_file_set env (ag_root generation) w
        in case file_set of
             Inl e \<Rightarrow>
               if se_code e = RUNTIME_PROFILE_ABSENT_CODE then (Err e, w)
               else compare_runtime_profile env sha profile (ag_root generation) w
           | Inr _ \<Rightarrow> compare_runtime_profile env sha profile (ag_root generation) w))"

end
