(* ===== verification/Startup_Safety.thy ===== *)
theory Startup_Safety
  imports Protected_Startup Orchestration_Driver
begin

text \<open>
  The start-up safety snapshot (\<open>host/src/windows_startup_safety.rs\<close> and its \<open>appinit.rs\<close>,
  \<open>service_registry.rs\<close>; \<open>contract/src/appinit.rs\<close>) and the whole initializer of the service
  (\<open>windows_runtime.rs\<close>).  The registry, the service control manager, the executable path and path
  canonicalisation are fields of \<open>safety_env\<close>.
\<close>

section \<open>AppInit values\<close>

text \<open>\<open>char::is_whitespace\<close> on code points.\<close>

definition is_whitespace :: "nat \<Rightarrow> bool" where
  "is_whitespace c \<longleftrightarrow> c \<in> {9, 10, 11, 12, 13, 32, 0x85, 0xA0, 0x1680, 0x2028, 0x2029, 0x202F, 0x205F, 0x3000}
     \<or> (0x2000 \<le> c \<and> c \<le> 0x200A)"

definition code_points :: "string \<Rightarrow> nat list" where
  "code_points s = map byte s"

definition to_lower_point :: "nat \<Rightarrow> nat" where
  "to_lower_point c = (if 65 \<le> c \<and> c \<le> 90 then c + 32 else c)"

text \<open>\<open>str::split\<close> with a predicate.\<close>

fun split_where :: "('a \<Rightarrow> bool) \<Rightarrow> 'a list \<Rightarrow> 'a list list" where
  "split_where P [] = [[]]"
| "split_where P (c # s) =
     (if P c then [] # split_where P s
      else (case split_where P s of [] \<Rightarrow> [[c]] | p # ps \<Rightarrow> (c # p) # ps))"

definition names_mactype_dll :: "nat list \<Rightarrow> bool" where
  "names_mactype_dll token =
     (let basename = map to_lower_point (rev (takeWhile (\<lambda>c. c \<noteq> 92 \<and> c \<noteq> 47) (rev token)));
          prefix = code_points ''mactype''; suffix = code_points ''.dll''
      in take (length prefix) basename = prefix
         \<and> length suffix \<le> length basename \<and> drop (length basename - length suffix) basename = suffix)"

definition appinit_mactype_conflict :: "bool \<Rightarrow> u16 list option \<Rightarrow> unit + bool" where
  "appinit_mactype_conflict enabled value =
     (if \<not> enabled then Ok False
      else case value of
        None \<Rightarrow> Ok False
      | Some units \<Rightarrow>
          if units = [] \<or> last units \<noteq> 0 then Err ()
          else (let content = butlast units
                in if 0 \<in> set content then Err ()
                   else case decode_utf16 (map unat content) of
                     None \<Rightarrow> Err ()
                   | Some decoded \<Rightarrow>
                       Ok (list_ex names_mactype_dll
                             (filter (\<lambda>t. t \<noteq> [])
                                (split_where (\<lambda>c. is_whitespace c \<or> c \<in> {44, 59, 34, 39}) decoded)))))"

section \<open>The machine\<close>

datatype registry_view = Native32 | Native64

text \<open>
  Opening a registry key or a service answers \<^term>\<open>None\<close> when it is absent.  A key answers its
  DWORD and string values, a service its image path and whether it has one of the states below.
\<close>

datatype service_run_state = SrStopped | SrStartPending | SrRunning | SrOther

record 'w safety_env = "'w fs_env" +
  se_open_appinit_key :: "registry_view \<Rightarrow> 'w \<Rightarrow> (io_failure + bool) \<times> 'w"
  se_read_enabled :: "registry_view \<Rightarrow> 'w \<Rightarrow> (io_failure + u32 option) \<times> 'w"
  se_read_dlls :: "registry_view \<Rightarrow> 'w \<Rightarrow> (io_failure + u16 list option) \<times> 'w"
  se_connect_scm :: "'w \<Rightarrow> (io_failure + unit) \<times> 'w"
  se_open_service :: "string \<Rightarrow> 'w \<Rightarrow> (io_failure + bool) \<times> 'w"
  se_service_image :: "string \<Rightarrow> 'w \<Rightarrow> (io_failure + string) \<times> 'w"
  se_service_state :: "string \<Rightarrow> 'w \<Rightarrow> (io_failure + service_run_state) \<times> 'w"
  se_current_exe :: "'w \<Rightarrow> (io_failure + path) \<times> 'w"
  se_canonicalize :: "path \<Rightarrow> 'w \<Rightarrow> (io_failure + path) \<times> 'w"
  se_start_etw :: "'w \<Rightarrow> bool \<times> 'w"
  se_connect_wmi :: "'w \<Rightarrow> (structured_service_error + unit) \<times> 'w"

definition SERVICE_NAME :: string where "SERVICE_NAME = ''MacTypeControlCenter''"
definition LEGACY_SERVICE_NAME :: string where "LEGACY_SERVICE_NAME = ''MacType''"

text \<open>\<open>registry_status\<close>: the Win32 code, or success when there is none.\<close>

definition appinit_error :: "string \<Rightarrow> io_failure \<Rightarrow> structured_service_error" where
  "appinit_error message e =
     \<lparr>se_code = ''appinit-inspection-failed'', se_message = message,
      se_win32_error = Some (case iof_raw e of None \<Rightarrow> 0 | Some code \<Rightarrow> code)\<rparr>"

definition mactype_enabled :: "('w, 'x) safety_env_scheme \<Rightarrow> registry_view \<Rightarrow> 'w \<Rightarrow> (bool, 'w) checked" where
  "mactype_enabled env view w =
     and_then (map_err (appinit_error ''an AppInit registry view could not be opened'')
                 (se_open_appinit_key env view w)) (\<lambda>there w.
     if \<not> there
     then (Err \<lparr>se_code = ''appinit-inspection-failed'',
                se_message = ''an AppInit registry view could not be opened'', se_win32_error = Some 2\<rparr>, w)
     else
     and_then (map_err (appinit_error ''the AppInit enable flag could not be read as a DWORD'')
                 (se_read_enabled env view w)) (\<lambda>flag w.
     if (case flag of None \<Rightarrow> True | Some v \<Rightarrow> v = 0) then (Ok False, w)
     else
     and_then (map_err (appinit_error ''the enabled AppInit_DLLs value type or size is invalid'')
                 (se_read_dlls env view w)) (\<lambda>value w.
     case appinit_mactype_conflict True value of
       Inl _ \<Rightarrow> (Err (service_error ''appinit-inspection-failed''
                      ''the enabled AppInit_DLLs value is malformed''), w)
     | Inr conflict \<Rightarrow> (Ok conflict, w))))"

definition service_image :: "('w, 'x) safety_env_scheme \<Rightarrow> string \<Rightarrow> 'w \<Rightarrow> (string, 'w) checked" where
  "service_image env name w =
     and_then (map_err (service_error_raw ''open-service-config-unavailable''
                          ''the fixed open service registration could not be opened'')
                 (se_open_service env name w)) (\<lambda>there w.
     if \<not> there
     then (Err \<lparr>se_code = ''open-service-config-unavailable'',
                se_message = ''the fixed open service registration could not be opened'',
                se_win32_error = Some 1060\<rparr>, w)
     else
     and_then (map_err (service_error_raw ''open-service-config-unavailable''
                          ''the open service ImagePath could not be read'')
                 (se_service_image env name w)) (\<lambda>image w.
     if image = [] then (Err (service_error ''open-service-config-invalid''
                                ''the open service ImagePath is empty or invalid''), w)
     else (Ok image, w)))"

definition inspect_legacy_state :: "('w, 'x) safety_env_scheme \<Rightarrow> 'w \<Rightarrow> (legacy_service_state, 'w) checked" where
  "inspect_legacy_state env w =
     and_then (map_err (service_error_raw ''legacy-service-inspection-failed''
                          ''the legacy service state could not be inspected'')
                 (se_open_service env LEGACY_SERVICE_NAME w)) (\<lambda>there w.
     if \<not> there then (Ok LegacyAbsent, w)
     else
     and_then (map_err (service_error_raw ''legacy-service-inspection-failed''
                          ''the legacy service state could not be read'')
                 (se_service_state env LEGACY_SERVICE_NAME w)) (\<lambda>st w.
     (Ok (case st of SrStopped \<Rightarrow> LegacyStopped | SrStartPending \<Rightarrow> LegacyStartPending
                   | SrRunning \<Rightarrow> LegacyRunning | SrOther \<Rightarrow> LegacyUnknown), w)))"

section \<open>The snapshot\<close>

definition same_windows_path :: "('w, 'x) safety_env_scheme \<Rightarrow> path \<Rightarrow> path \<Rightarrow> 'w \<Rightarrow> (bool, 'w) checked" where
  "same_windows_path env left right w =
     and_then (map_err (service_error_raw ''open-service-identity-unavailable''
                          ''the running service path could not be canonicalized'')
                 (se_canonicalize env left w)) (\<lambda>left w.
     and_then (map_err (service_error_raw ''open-service-identity-unavailable''
                          ''the expected protected service path could not be canonicalized'')
                 (se_canonicalize env right w)) (\<lambda>right w.
     (Ok (let normalize = (\<lambda>p. map (\<lambda>c. if byte c = 47 then char_of (92 :: nat) else c) (path_display p))
          in eq_ignore_ascii_case (normalize left) (normalize right)), w)))"

definition expected_service_image :: "path \<Rightarrow> string" where
  "expected_service_image binary = ''\"'' @ path_display binary @ ''\" --service''"

definition inspect_startup ::
  "('w, 'x) safety_env_scheme \<Rightarrow> path \<Rightarrow> 'w \<Rightarrow> (startup_safety_snapshot, 'w) checked" where
  "inspect_startup env service_binary w =
     and_then (map_err (service_error_raw ''scm-inspection-unavailable''
                          ''the Service Control Manager could not be opened for inspection'')
                 (se_connect_scm env w)) (\<lambda>_ w.
     and_then (service_image env SERVICE_NAME w) (\<lambda>configured_image w.
     and_then (map_err (service_error_raw ''open-service-identity-unavailable''
                          ''the running service executable path could not be read'')
                 (se_current_exe env w)) (\<lambda>current w.
     and_then (same_windows_path env current service_binary w) (\<lambda>current_owned w.
     and_then (mactype_enabled env Native32 w) (\<lambda>app32 w.
     and_then (mactype_enabled env Native64 w) (\<lambda>app64 w.
     and_then (inspect_legacy_state env w) (\<lambda>legacy w.
     (Ok \<lparr>app_init32_enabled = app32, app_init64_enabled = app64, legacy_state = legacy,
          open_service_image_owned =
            (current_owned \<and> eq_ignore_ascii_case (trim_text configured_image)
                               (expected_service_image service_binary))\<rparr>, w))))))))"

definition verify_startup :: "('w, 'x) safety_env_scheme \<Rightarrow> path \<Rightarrow> 'w \<Rightarrow> (unit, 'w) checked" where
  "verify_startup env service_binary w =
     and_then (inspect_startup env service_binary w) (\<lambda>snapshot w. (validate_startup snapshot, w))"

section \<open>The initializer\<close>

text \<open>\<open>ProtectedProfileInitializer::initialize\<close>.\<close>

definition initialize_profile ::
  "('w, 'x) fs_env_scheme \<Rightarrow> (string \<Rightarrow> string) \<Rightarrow> (string \<Rightarrow> json option) \<Rightarrow> machine_paths \<Rightarrow> 'w \<Rightarrow>
     (string \<times> readiness_report, 'w) checked" where
  "initialize_profile env sha parse paths w =
     and_then (prepare_profile env sha parse paths w) (\<lambda>prepared w.
     and_then (resolve_generation env parse paths prepared w) (\<lambda>generation w.
     initialize_with_generation env sha parse paths prepared generation w))"

text \<open>
  \<open>WindowsOpenServiceInitializer::initialize\<close> up to the choice of the observer: the verified profile
  digest and the assets the helper broker is built with.
\<close>

definition verified_runtime ::
  "('w, 'x) safety_env_scheme \<Rightarrow> (string \<Rightarrow> string) \<Rightarrow> (string \<Rightarrow> json option) \<Rightarrow> machine_paths \<Rightarrow> 'w \<Rightarrow>
     (string \<times> protected_runtime_assets, 'w) checked" where
  "verified_runtime env sha parse paths w =
     and_then (prepare_profile env sha parse paths w) (\<lambda>prepared w.
     and_then (resolve_generation env parse paths prepared w) (\<lambda>generation w.
     and_then (initialize_with_generation env sha parse paths prepared generation w) (\<lambda>profile w.
     and_then (load_from_generation env sha generation w) (\<lambda>assets w.
     and_then (verify_startup env (path_join (ra_root assets) ''mactype-service.exe'') w) (\<lambda>_ w.
     (Ok (fst profile, assets), w))))))"

definition live_process_event_source :: "('w, 'x) safety_env_scheme \<Rightarrow> 'w \<Rightarrow> (live_observer, 'w) checked" where
  "live_process_event_source env w =
     (let (etw, w) = se_start_etw env w
      in if etw then (Ok Etw, w) else and_then (se_connect_wmi env w) (\<lambda>_ w. (Ok Wmi, w)))"

text \<open>The driver's environment with the fixed helper broker of the verified assets.\<close>

definition with_helper_broker ::
  "('w, 'y) broker_env_scheme \<Rightarrow> ('w, 'x) driver_env_scheme \<Rightarrow> ('w, 'x) driver_env_scheme" where
  "with_helper_broker broker env =
     env\<lparr>env_inject := \<lambda>request w. (let (r, (w', t)) = broker_inject broker request (w, []) in (r, w')),
         env_verify_ready := \<lambda>a w. (let (r, (w', t)) = verify_ready broker a (w, []) in (r, w'))\<rparr>"

definition open_service_initialize ::
  "('w, 'x) safety_env_scheme \<Rightarrow> ('w, 'y) broker_env_scheme \<Rightarrow> (live_observer \<Rightarrow> ('w, 'z) driver_env_scheme) \<Rightarrow>
     (string \<Rightarrow> string) \<Rightarrow> (string \<Rightarrow> json option) \<Rightarrow> machine_paths \<Rightarrow> u32 \<Rightarrow> nat \<Rightarrow> nat \<Rightarrow> 'w io \<Rightarrow>
     (structured_service_error + 'w initialized_runtime) \<times> 'w io" where
  "open_service_initialize env broker driver_env sha parse paths own_pid drain_bound turns io =
     (case verified_runtime env sha parse paths (io_world io) of
        (Inl e, w) \<Rightarrow> (Err e, io\<lparr>io_world := w\<rparr>)
      | (Inr (digest, assets), w) \<Rightarrow>
          (case live_process_event_source env w of
             (Inl e, w) \<Rightarrow> (Err e, io\<lparr>io_world := w\<rparr>)
           | (Inr observer, w) \<Rightarrow>
               initialize_process_orchestration
                 (with_helper_broker (broker\<lparr>be_assets := assets\<rparr>) (driver_env observer))
                 (Some digest) default_observer_recovery own_pid (ra_generation_id assets) drain_bound turns
                 (called (CallRecord (EvLiveObserverSelected observer)) w io)))"

end
