(* ===== verification/Startup_Properties.thy ===== *)
theory Startup_Properties
  imports Startup_Safety Driver_Properties Contract_Properties
begin

text \<open>
  What holds when the service comes up: every byte it will use was read from the protected runtime
  and profile, is what its identities say, and belongs to no half-finished activation; and the
  identity of a runtime generation binds its files.
\<close>

section \<open>Single steps\<close>

lemma map_err_Ok [simp]: "map_err f m = (Inr x, w) \<longleftrightarrow> m = (Inr x, w)"
  by (cases m) (auto simp: map_err_def split: sum.splits)

lemma case_sum_Ok [simp]:
  "(case x of Inl e \<Rightarrow> (Inl (f e), g e) | Inr y \<Rightarrow> k y) = (Inr z, w) \<longleftrightarrow> (\<exists>y. x = Inr y \<and> k y = (Inr z, w))"
  by (cases x) auto

lemma case_option_Ok [simp]:
  "(case x of None \<Rightarrow> (Inl e, v) | Some y \<Rightarrow> k y) = (Inr z, w) \<longleftrightarrow> (\<exists>y. x = Some y \<and> k y = (Inr z, w))"
  by (cases x) auto

lemma if_Ok [simp]:
  "(if b then (Inl e, v) else m) = (Inr z, w) \<longleftrightarrow> \<not> b \<and> m = (Inr z, w)"
  by auto

lemma case_current_Ok:
  "(case y of CurrentReceipt r \<Rightarrow> k r | _ \<Rightarrow> (Inl d, v)) = (Inr z, w) \<longleftrightarrow>
     (\<exists>r. y = CurrentReceipt r \<and> k r = (Inr z, w))"
  by (cases y) auto

lemma tolerated_Ok:
  "(case r of Inl e \<Rightarrow> if P e then (Inl e, v) else m | Inr _ \<Rightarrow> m) = (Inr z, w) \<Longrightarrow> m = (Inr z, w)"
  by (cases r) (auto split: if_splits)

lemma and_then_OkE:
  assumes "and_then m k = (Inr y, s')"
  obtains x s where "m = (Inr x, s)" "k x s = (Inr y, s')"
  using assms by (auto simp: and_then_Ok)

lemmas startup_steps = and_then_Ok Let_def case_prod_beta

section \<open>The worlds a start passes through\<close>

text \<open>
  The files may change while the service starts, so every fact about a file names the world it was
  read in: one that the start reaches from its first by file-system calls.
\<close>

inductive fs_reach :: "('w, 'x) fs_env_scheme \<Rightarrow> 'w \<Rightarrow> 'w \<Rightarrow> bool" for env v where
  reach_start: "fs_reach env v v"
| reach_exists: "fs_reach env v w \<Longrightarrow> fs_reach env v (snd (fs_exists env p w))"
| reach_reparse: "fs_reach env v w \<Longrightarrow> fs_reach env v (snd (fs_is_reparse_point env p w))"
| reach_open: "fs_reach env v w \<Longrightarrow> fs_reach env v (snd (fs_open env p w))"
| reach_is_dir: "fs_reach env v w \<Longrightarrow> fs_reach env v (snd (fs_is_dir env p w))"
| reach_read_dir: "fs_reach env v w \<Longrightarrow> fs_reach env v (snd (fs_read_dir env p w))"

named_theorems reach_intros "the worlds an operation reaches"

lemmas [reach_intros] = reach_exists reach_reparse reach_open reach_is_dir reach_read_dir

lemma reach_map_err [simp]: "snd (map_err f m) = snd m"
  by (simp add: map_err_def)

lemma reach_and_then:
  assumes "fs_reach env v (snd m)"
    and "\<And>x s. m = (Inr x, s) \<Longrightarrow> fs_reach env v s \<Longrightarrow> fs_reach env v (snd (k x s))"
  shows "fs_reach env v (snd (and_then m k))"
  using assms by (cases m) (auto simp: and_then_def split: sum.splits)

lemma reach_any_reparse [reach_intros]:
  "fs_reach env v w \<Longrightarrow> fs_reach env v (snd (any_reparse env ps w))"
  by (induction ps arbitrary: w) (auto simp: Let_def case_prod_beta intro!: reach_and_then reach_intros)

lemma reach_has_reparse [reach_intros]:
  "fs_reach env v w \<Longrightarrow> fs_reach env v (snd (has_reparse_ancestor env p w))"
  by (simp add: has_reparse_ancestor_def reach_intros)

lemma reach_read [reach_intros]:
  "fs_reach env v w \<Longrightarrow> fs_reach env v (snd (read_bounded_regular_file env p n w))"
  unfolding read_bounded_regular_file_def
  by (rule reach_and_then) (auto intro: reach_intros split: sum.splits)

lemma reach_reject [reach_intros]:
  "fs_reach env v (snd m) \<Longrightarrow> fs_reach env v (snd (reject_if e m))"
  by (auto simp: reject_if_def intro: reach_and_then)

lemma reach_runtime_reparse [reach_intros]:
  "fs_reach env v w \<Longrightarrow> fs_reach env v (snd (reject_runtime_reparse env p w))"
  by (simp add: reject_runtime_reparse_def reach_intros)

lemma reach_profile_reparse [reach_intros]:
  "fs_reach env v w \<Longrightarrow> fs_reach env v (snd (reject_profile_reparse env p w))"
  by (simp add: reject_profile_reparse_def reach_intros)

lemma reach_resolve [reach_intros]:
  "fs_reach env v w \<Longrightarrow> fs_reach env v (snd (resolve_generation env parse paths p w))"
  unfolding resolve_generation_def resolve_active_runtime_def
  by (auto simp: Let_def case_prod_beta intro!: reach_and_then reach_intros split: sum.splits)

lemma reach_verify_profile [reach_intros]:
  "fs_reach env v w \<Longrightarrow> fs_reach env v (snd (verify_active_profile env sha parse paths w))"
  unfolding verify_active_profile_def read_bounded_protected_file_def
  by (auto simp: Let_def intro!: reach_and_then reach_intros split: sum.splits option.splits)

lemma reach_committed [reach_intros]:
  "fs_reach env v w \<Longrightarrow> fs_reach env v (snd (committed_runtime_activation env parse paths w))"
  unfolding committed_runtime_activation_def read_bounded_activation_receipt_def
  by (auto simp: Let_def case_prod_beta intro!: reach_and_then reach_intros
      split: sum.splits parsed_runtime_activation_receipt.splits)

lemma reach_prepare [reach_intros]:
  "fs_reach env v w \<Longrightarrow> fs_reach env v (snd (prepare_profile env sha parse paths w))"
  unfolding prepare_profile_def
  by (auto simp: Let_def case_prod_beta intro!: reach_and_then reach_intros)

lemma reach_file_set [reach_intros]:
  "fs_reach env v w \<Longrightarrow> fs_reach env v (snd (validate_runtime_file_set env root w))"
  unfolding validate_runtime_file_set_def by (auto intro!: reach_and_then reach_intros)

lemma reach_load_files [reach_intros]:
  "fs_reach env v w \<Longrightarrow> fs_reach env v (snd (load_files env root names files w))"
  by (induction names arbitrary: files w) (auto simp: Let_def intro!: reach_and_then reach_intros)

lemma reach_compare [reach_intros]:
  "fs_reach env v w \<Longrightarrow> fs_reach env v (snd (compare_runtime_profile env sha profile root w))"
  unfolding compare_runtime_profile_def read_bounded_runtime_profile_def
  by (auto intro!: reach_and_then reach_intros)

lemma reach_initialize [reach_intros]:
  "fs_reach env v w \<Longrightarrow> fs_reach env v (snd (initialize_with_generation env sha parse paths p g w))"
  unfolding initialize_with_generation_def
  by (auto simp: Let_def case_prod_beta intro!: reach_and_then reach_intros split: sum.splits option.splits)

lemma reach_load [reach_intros]:
  "fs_reach env v w \<Longrightarrow> fs_reach env v (snd (load_from_generation env sha g w))"
  unfolding load_from_generation_def
  by (auto simp: Let_def intro!: reach_and_then reach_intros split: sum.splits)

lemma reach_of: "m = (r, s) \<Longrightarrow> fs_reach env v (snd m) \<Longrightarrow> fs_reach env v s"
  by simp

text \<open>A read of a path none of whose ancestors is a reparse point, checked immediately before.\<close>

definition read_protected :: "('w, 'x) fs_env_scheme \<Rightarrow> 'w \<Rightarrow> path \<Rightarrow> nat \<Rightarrow> string \<Rightarrow> bool" where
  "read_protected env v p maximum bytes \<longleftrightarrow>
     (\<exists>w0 w1 w2. fs_reach env v w0 \<and> has_reparse_ancestor env p w0 = (Ok False, w1)
        \<and> read_bounded_regular_file env p maximum w1 = (Ok bytes, w2))"

lemma read_protectedI:
  "reject_if e (map_err f (has_reparse_ancestor env p w)) = (Inr u, s)
    \<Longrightarrow> read_bounded_regular_file env p n s = (Inr bytes, s') \<Longrightarrow> fs_reach env v w
    \<Longrightarrow> read_protected env v p n bytes"
  unfolding read_protected_def reject_if_def and_then_Ok map_err_Ok
  by (auto split: if_splits)

lemma read_protected_runtimeI:
  "reject_runtime_reparse env p w = (Inr u, s) \<Longrightarrow> read_bounded_regular_file env p n s = (Inr bytes, s')
    \<Longrightarrow> fs_reach env v w \<Longrightarrow> read_protected env v p n bytes"
  unfolding reject_runtime_reparse_def by (rule read_protectedI)

lemma read_protected_profileI:
  "reject_profile_reparse env p w = (Inr u, s) \<Longrightarrow> read_bounded_regular_file env p n s = (Inr bytes, s')
    \<Longrightarrow> fs_reach env v w \<Longrightarrow> read_protected env v p n bytes"
  unfolding reject_profile_reparse_def by (rule read_protectedI)

lemma resolve_active_runtime_Ok:
  assumes "resolve_active_runtime env parse paths w = (Inr g, w')" and "fs_reach env v w"
  shows "ag_root g = path_join (runtime_versions paths) (rp_version (ag_pointer g))
     \<and> valid_runtime_version_component (rp_version (ag_pointer g))
     \<and> (\<exists>bytes. read_protected env v (runtime_pointer paths) MAX_RUNTIME_POINTER_BYTES bytes
          \<and> parse_pointer parse bytes = Ok (ag_pointer g))"
proof -
  from assms(1) obtain u bytes s s' where
      check: "reject_runtime_reparse env (runtime_pointer paths) w = (Inr u, s)"
      and read: "read_bounded_regular_file env (runtime_pointer paths) MAX_RUNTIME_POINTER_BYTES s = (Inr bytes, s')"
      and rest: "parse_pointer parse bytes = Ok (ag_pointer g)"
        "ag_root g = path_join (runtime_versions paths) (rp_version (ag_pointer g))"
        "valid_runtime_version_component (rp_version (ag_pointer g))"
    by (auto simp: resolve_active_runtime_def startup_steps)
  from read_protected_runtimeI [OF check read assms(2)] rest show ?thesis by blast
qed

lemma published_generation:
  "fst (publish_machine_profile sha b src c) = Inr g \<longleftrightarrow> validate_profile b = Inr () \<and> g = sha256_digest sha b"
  by (cases "validate_profile b") (auto simp: publish_machine_profile_def from_profile_bytes_def Let_def)

text \<open>
  The active profile: the pointer and the generation file it names, both read from protected paths,
  and the file has the digest the pointer names.
\<close>

definition profile_file :: "machine_paths \<Rightarrow> profile_generation_id \<Rightarrow> path" where
  "profile_file paths generation =
     path_join (path_join (profile_generations paths) (directory_name generation)) ''profile.ini''"

definition active_profile_read ::
  "('w, 'x) fs_env_scheme \<Rightarrow> (string \<Rightarrow> string) \<Rightarrow> (string \<Rightarrow> json option) \<Rightarrow> machine_paths \<Rightarrow> 'w \<Rightarrow>
     profile_generation_id \<Rightarrow> string \<Rightarrow> bool" where
  "active_profile_read env sha parse paths v generation profile \<longleftrightarrow>
     (\<exists>bytes. read_protected env v (active_profile paths) MAX_RUNTIME_POINTER_BYTES bytes
        \<and> Option.bind (parse bytes) generation_pointer_of_json = Some generation)
     \<and> read_protected env v (profile_file paths generation) MAX_PROFILE_BYTES profile
     \<and> validate_profile profile = Ok () \<and> generation = sha256_digest sha profile"

lemma verify_active_profile_Ok:
  assumes "verify_active_profile env sha parse paths w = (Inr p, w')" and "fs_reach env v w"
  shows "active_profile_read env sha parse paths v (vp_generation p) (vp_bytes p)"
proof -
  from assms(1) obtain u pointer s s1 u' s2 s3 where
      check: "reject_profile_reparse env (active_profile paths) w = (Inr u, s)"
      and read: "read_bounded_regular_file env (active_profile paths) MAX_RUNTIME_POINTER_BYTES s = (Inr pointer, s1)"
      and pointer: "Option.bind (parse pointer) generation_pointer_of_json = Some (vp_generation p)"
      and check': "reject_profile_reparse env (profile_file paths (vp_generation p)) s1 = (Inr u', s2)"
      and read': "read_bounded_regular_file env (profile_file paths (vp_generation p)) MAX_PROFILE_BYTES s2
          = (Inr (vp_bytes p), s3)"
      and valid: "vp_generation p = sha256_digest sha (vp_bytes p)" "validate_profile (vp_bytes p) = Inr ()"
    by (auto simp: verify_active_profile_def read_bounded_protected_file_def startup_steps
        published_generation profile_file_def)
  have "fs_reach env v s" by (rule reach_of [OF check]) (rule reach_intros assms)+
  then have "fs_reach env v s1" by (rule reach_of [OF read reach_read])
  from read_protected_profileI [OF check read assms(2)] read_protected_profileI [OF check' read' this]
    pointer valid
  show ?thesis unfolding active_profile_read_def by blast
qed

section \<open>The steps of a start\<close>

lemma compare_runtime_profile_Ok:
  assumes "compare_runtime_profile env sha profile root w = (Inr x, w')"
    and "fs_reach env v w"
  shows "fst x = vp_generation profile
     \<and> read_protected env v (path_join root ''MacType.ini'') MAX_PROFILE_BYTES (vp_bytes profile)"
  using assms
  by (auto simp: compare_runtime_profile_def read_bounded_runtime_profile_def startup_steps
      intro: read_protected_runtimeI)

lemma committed_runtime_activation_Ok:
  assumes "committed_runtime_activation env parse paths w = (Inr c, w')"
    and "fs_reach env v w"
  shows "case c of None \<Rightarrow> \<not> fst (fs_exists env (runtime_activation_journal paths) w)
    | Some p \<Rightarrow> \<exists>receipt bytes. read_protected env v (runtime_activation_journal paths) MAX_RUNTIME_ACTIVATION_RECEIPT_BYTES bytes
        \<and> parse_runtime_activation_receipt parse bytes = Ok (CurrentReceipt receipt)
        \<and> rc_phase receipt = Committed \<and> p = rc_activated receipt"
proof (cases "fst (fs_exists env (runtime_activation_journal paths) w)")
  case False
  then show ?thesis using assms by (auto simp: committed_runtime_activation_def Let_def case_prod_beta)
next
  case True
  with assms obtain bytes receipt s' where
      "read_bounded_activation_receipt env (runtime_activation_journal paths)
         (snd (fs_exists env (runtime_activation_journal paths) w)) = (Inr bytes, s')"
      "parse_runtime_activation_receipt parse bytes = Inr (CurrentReceipt receipt)"
      "rc_phase receipt = Committed" "c = Some (rc_activated receipt)"
    by (auto simp: committed_runtime_activation_def startup_steps case_current_Ok split: if_splits)
  then show ?thesis
    by (auto simp: read_bounded_activation_receipt_def and_then_Ok intro: read_protectedI [OF _ _ reach_exists [OF assms(2)]])
qed

lemma load_files_Ok:
  assumes "load_files env root names files w = (Inr files', w')" and "fs_reach env v w"
  shows "(name \<notin> set names \<longrightarrow> map_of files' name = map_of files name)
    \<and> (name \<in> set names \<and> name \<in> set IMMUTABLE_RUNTIME_FILES \<and> name \<noteq> ''MacType.ini'' \<longrightarrow>
         (\<exists>bytes. map_of files' name = Some bytes \<and> read_protected env v (path_join root name) MAX_RUNTIME_FILE_BYTES bytes))"
  using assms
proof (induction names arbitrary: files w)
  case (Cons n names)
  let ?max = "if n = ''MacType.ini'' then MAX_PROFILE_BYTES else MAX_RUNTIME_FILE_BYTES"
  from Cons.prems(1) obtain u bytes w1 w2 where
      check: "reject_runtime_reparse env (path_join root n) w = (Inr u, w1)"
      and read: "read_bounded_regular_file env (path_join root n) ?max w1 = (Inr bytes, w2)"
      and rest: "load_files env root names
        (if n \<in> set IMMUTABLE_RUNTIME_FILES then bt_insert n bytes files else files) w2 = (Inr files', w')"
    unfolding load_files.simps Let_def by (auto elim!: and_then_OkE)
  have w1: "fs_reach env v w1" by (rule reach_of [OF check]) (rule reach_intros Cons.prems)+
  have "fs_reach env v w2" by (rule reach_of [OF read]) (rule reach_intros w1)+
  note ih = Cons.IH [OF rest this]
  have "read_protected env v (path_join root n) ?max bytes"
    by (rule read_protected_runtimeI [OF check read Cons.prems(2)])
  then show ?case
    using ih by (cases "name \<in> set names") (auto simp: map_of_bt_insert)
qed simp

lemma load_from_generation_Ok:
  assumes "load_from_generation env sha g w = (Inr assets, w')" and "fs_reach env v w"
  shows "\<exists>files. assets = assets_of (ag_root g) (ra_generation_id assets)
    \<and> runtime_generation_id sha files = Ok (ra_generation_id assets)
    \<and> list_all (\<lambda>name. \<exists>bytes. map_of files name = Some bytes
          \<and> read_protected env v (path_join (ag_root g) name) MAX_RUNTIME_FILE_BYTES bytes) IMMUTABLE_RUNTIME_FILES"
proof -
  from assms(1) obtain u files w1 w2 where set: "validate_runtime_file_set env (ag_root g) w = (Inr u, w1)"
      and load: "load_files env (ag_root g) REQUIRED_RUNTIME_FILES [] w1 = (Inr files, w2)"
      and id: "runtime_generation_id sha files = Ok (ra_generation_id assets)"
      and a: "assets = assets_of (ag_root g) (ra_generation_id assets)"
    unfolding load_from_generation_def Let_def
    by (auto elim!: and_then_OkE simp: assets_of_def)
  have "set IMMUTABLE_RUNTIME_FILES \<subseteq> set REQUIRED_RUNTIME_FILES - {''MacType.ini''}"
    by (simp add: IMMUTABLE_RUNTIME_FILES_def REQUIRED_RUNTIME_FILES_def)
  moreover have "fs_reach env v w1" by (rule reach_of [OF set]) (rule reach_intros assms)+
  ultimately show ?thesis using load_files_Ok [OF load] id a
    by (intro exI [of _ files]) (auto simp: list_all_iff)
qed

section \<open>The whole start\<close>

text \<open>
  The runtime and profile a service runs.  The protected runtime pointer names the version directory,
  and the immutable files read there have the identity of the runtime; the protected profile pointer
  names the digest, the profile generation it points at has that digest, and the DLL-adjacent profile
  has the same bytes; no activation is left open and nothing conflicts.
\<close>

definition verified_start ::
  "('w, 'x) safety_env_scheme \<Rightarrow> (string \<Rightarrow> string) \<Rightarrow> (string \<Rightarrow> json option) \<Rightarrow> machine_paths \<Rightarrow> 'w \<Rightarrow>
     string \<Rightarrow> protected_runtime_assets \<Rightarrow> bool" where
  "verified_start env sha parse paths w digest assets \<longleftrightarrow>
     (\<exists>pointer pointer_bytes profile files snapshot s s'.
        read_protected env w (runtime_pointer paths) MAX_RUNTIME_POINTER_BYTES pointer_bytes
        \<and> parse_pointer parse pointer_bytes = Ok pointer
        \<and> valid_runtime_version_component (rp_version pointer)
        \<and> assets = assets_of (path_join (runtime_versions paths) (rp_version pointer)) (ra_generation_id assets)
        \<and> runtime_generation_id sha files = Ok (ra_generation_id assets)
        \<and> list_all (\<lambda>name. \<exists>bytes. map_of files name = Some bytes
              \<and> read_protected env w (path_join (ra_root assets) name) MAX_RUNTIME_FILE_BYTES bytes)
            IMMUTABLE_RUNTIME_FILES
        \<and> active_profile_read env sha parse paths w digest profile
        \<and> read_protected env w (path_join (ra_root assets) ''MacType.ini'') MAX_PROFILE_BYTES profile
        \<and> \<not> fst (fs_exists env (profile_activation_journal paths) w)
        \<and> (\<not> fst (fs_exists env (runtime_activation_journal paths)
                   (snd (fs_exists env (profile_activation_journal paths) w)))
           \<or> (\<exists>receipt bytes.
                read_protected env w (runtime_activation_journal paths) MAX_RUNTIME_ACTIVATION_RECEIPT_BYTES bytes
                \<and> parse_runtime_activation_receipt parse bytes = Ok (CurrentReceipt receipt)
                \<and> rc_phase receipt = Committed \<and> rc_activated receipt = pointer))
        \<and> inspect_startup env (path_join (ra_root assets) ''mactype-service.exe'') s = (Ok snapshot, s')
        \<and> fs_reach env w s \<and> \<not> app_init32_enabled snapshot \<and> \<not> app_init64_enabled snapshot
        \<and> legacy_state snapshot \<in> {LegacyAbsent, LegacyStopped} \<and> open_service_image_owned snapshot)"

lemma prepare_profile_Ok:
  assumes "prepare_profile env sha parse paths w = (Inr p, w')" and "fs_reach env v w"
  shows "\<not> fst (fs_exists env (profile_activation_journal paths) w)
    \<and> (\<exists>w2. committed_runtime_activation env parse paths (snd (fs_exists env (profile_activation_journal paths) w))
              = (Inr (pr_committed_runtime p), w2))
    \<and> (case pr_verified_profile p of None \<Rightarrow> True
       | Some profile \<Rightarrow> active_profile_read env sha parse paths v (vp_generation profile) (vp_bytes profile))"
proof -
  let ?w = "snd (fs_exists env (profile_activation_journal paths) w)"
  from assms(1) have none: "\<not> fst (fs_exists env (profile_activation_journal paths) w)"
    by (auto simp: prepare_profile_def startup_steps split: if_splits)
  with assms(1) obtain committed w2 where
      c: "committed_runtime_activation env parse paths ?w = (Inr committed, w2)"
      and rest: "p = \<lparr>pr_committed_runtime = committed, pr_verified_profile = None\<rparr>
        \<or> (\<exists>profile w3. verify_active_profile env sha parse paths w2 = (Inr profile, w3)
             \<and> p = \<lparr>pr_committed_runtime = committed, pr_verified_profile = Some profile\<rparr>)"
    by (auto simp: prepare_profile_def startup_steps split: if_splits)
  have "fs_reach env v w2" by (rule reach_of [OF c]) (rule reach_intros assms)+
  with none c rest show ?thesis by (auto dest!: verify_active_profile_Ok)
qed

lemma initialize_with_generation_Ok:
  assumes "initialize_with_generation env sha parse paths p g w = (Inr x, w')"
    and "case pr_verified_profile p of None \<Rightarrow> True
       | Some profile \<Rightarrow> active_profile_read env sha parse paths v (vp_generation profile) (vp_bytes profile)"
    and "fs_reach env v w"
  shows "(case pr_committed_runtime p of None \<Rightarrow> True | Some q \<Rightarrow> q = ag_pointer g)
    \<and> (\<exists>bytes. active_profile_read env sha parse paths v (fst x) bytes
         \<and> read_protected env v (path_join (ag_root g) ''MacType.ini'') MAX_PROFILE_BYTES bytes)"
proof -
  from assms(1) have own: "case pr_committed_runtime p of None \<Rightarrow> True | Some q \<Rightarrow> q = ag_pointer g"
    by (auto simp: initialize_with_generation_def split: option.splits if_splits)
  let ?start = "case pr_verified_profile p of Some profile \<Rightarrow> (Ok profile, w)
                | None \<Rightarrow> verify_active_profile env sha parse paths w"
  from assms(1) own obtain profile s where start: "?start = (Inr profile, s)"
      and c: "compare_runtime_profile env sha profile (ag_root g)
         (snd (validate_runtime_file_set env (ag_root g) s)) = (Inr x, w')"
    by (auto simp: initialize_with_generation_def Let_def case_prod_beta
        split: option.splits if_splits elim!: and_then_OkE dest!: tolerated_Ok)
  have ok: "active_profile_read env sha parse paths v (vp_generation profile) (vp_bytes profile)"
    using start assms(2) verify_active_profile_Ok [OF _ assms(3)] by (cases "pr_verified_profile p") auto
  have "fs_reach env v s"
    by (rule reach_of [OF start]) (auto intro: reach_intros assms split: option.splits)
  then have "fs_reach env v (snd (validate_runtime_file_set env (ag_root g) s))" by (rule reach_intros)
  from ok compare_runtime_profile_Ok [OF c this] own show ?thesis
    by (intro conjI exI [of _ "vp_bytes profile"]) simp_all
qed

lemma verified_runtime_Ok:
  assumes "verified_runtime env sha parse paths w = (Inr (digest, assets), w')"
  shows "verified_start env sha parse paths w digest assets"
proof -
  from assms obtain p g x u w1 w2 w3 w4 where
      prep: "prepare_profile env sha parse paths w = (Inr p, w1)"
      and res: "resolve_generation env parse paths p w1 = (Inr g, w2)"
      and init: "initialize_with_generation env sha parse paths p g w2 = (Inr x, w3)"
      and load: "load_from_generation env sha g w3 = (Inr assets, w4)" and digest: "digest = fst x"
      and safe: "verify_startup env (path_join (ra_root assets) ''mactype-service.exe'') w4 = (Inr u, w')"
    unfolding verified_runtime_def by (auto elim!: and_then_OkE)
  have r1: "fs_reach env w w1" by (rule reach_of [OF prep]) (rule reach_intros reach_start)+
  have r2: "fs_reach env w w2" by (rule reach_of [OF res]) (rule reach_intros r1)+
  have r3: "fs_reach env w w3" by (rule reach_of [OF init]) (rule reach_intros r2)+
  have r4: "fs_reach env w w4" by (rule reach_of [OF load]) (rule reach_intros r3)+
  note prepared = prepare_profile_Ok [OF prep reach_start]
  note initialized = initialize_with_generation_Ok [OF init conjunct2 [OF conjunct2 [OF prepared]] r2]
  have root: "ag_root g = path_join (runtime_versions paths) (rp_version (ag_pointer g))"
      "valid_runtime_version_component (rp_version (ag_pointer g))"
    and pointer: "\<exists>bytes. read_protected env w (runtime_pointer paths) MAX_RUNTIME_POINTER_BYTES bytes
          \<and> parse_pointer parse bytes = Ok (ag_pointer g)"
    using res resolve_active_runtime_Ok [OF _ r1, of parse paths g w2] by (auto simp: resolve_generation_def)
  obtain pointer_bytes where pointer: "read_protected env w (runtime_pointer paths) MAX_RUNTIME_POINTER_BYTES pointer_bytes"
      "parse_pointer parse pointer_bytes = Ok (ag_pointer g)"
    using pointer by (elim exE conjE) (rule that)
  obtain files where files: "assets = assets_of (ag_root g) (ra_generation_id assets)"
      "runtime_generation_id sha files = Ok (ra_generation_id assets)"
      "list_all (\<lambda>name. \<exists>bytes. map_of files name = Some bytes
          \<and> read_protected env w (path_join (ag_root g) name) MAX_RUNTIME_FILE_BYTES bytes) IMMUTABLE_RUNTIME_FILES"
    using load_from_generation_Ok [OF load r3] by (elim exE conjE) (rule that)
  have ra: "ra_root assets = ag_root g" using arg_cong [OF files(1), of ra_root] by (simp add: assets_of_def)
  obtain snapshot s' where snapshot:
      "inspect_startup env (path_join (ra_root assets) ''mactype-service.exe'') w4 = (Inr snapshot, s')"
      "validate_startup snapshot = Inr ()"
    using safe unfolding verify_startup_def by (auto elim!: and_then_OkE)
  let ?journal = "snd (fs_exists env (profile_activation_journal paths) w)"
  obtain w5 where c: "committed_runtime_activation env parse paths ?journal = (Inr (pr_committed_runtime p), w5)"
    using conjunct1 [OF conjunct2 [OF prepared]] by (elim exE) (rule that)
  have "fs_reach env w ?journal" by (rule reach_intros reach_start)+
  note committed = committed_runtime_activation_Ok [OF c this]
  obtain bytes where bytes: "active_profile_read env sha parse paths w digest bytes"
      "read_protected env w (path_join (ag_root g) ''MacType.ini'') MAX_PROFILE_BYTES bytes"
    using conjunct2 [OF initialized] by (elim exE conjE) (rule that, simp_all only: digest)
  have journal: "\<not> fst (fs_exists env (runtime_activation_journal paths) ?journal)
      \<or> (\<exists>receipt bytes.
           read_protected env w (runtime_activation_journal paths) MAX_RUNTIME_ACTIVATION_RECEIPT_BYTES bytes
           \<and> parse_runtime_activation_receipt parse bytes = Ok (CurrentReceipt receipt)
           \<and> rc_phase receipt = Committed \<and> rc_activated receipt = ag_pointer g)"
  proof (cases "pr_committed_runtime p")
    case None
    then show ?thesis using committed by simp
  next
    case (Some q)
    then have "q = ag_pointer g" using conjunct1 [OF initialized] by simp
    with Some show ?thesis using committed by (simp only: option.case) metis
  qed
  show ?thesis
    unfolding verified_start_def
    using root pointer files ra bytes journal conjunct1 [OF prepared] snapshot(1) r4
      snapshot(2) [unfolded validate_startup_Ok_iff]
    by (intro exI [of _ "ag_pointer g"] exI [of _ pointer_bytes] exI [of _ bytes] exI [of _ files] exI [of _ snapshot]
        exI [of _ w4] exI [of _ s'] conjI) simp_all
qed


section \<open>A machine that starts\<close>

text \<open>
  A world without changes: version 1.2.3 is active, with a one-line profile, and no activation is
  open.  Every digest is the same 32 zero bytes.
\<close>

definition sample_paths :: machine_paths where
  "sample_paths =
     (let at = path_join [Prefix ''C:'', RootDir]
      in \<lparr>service_root = at ''service'', runtime_versions = path_join (at ''service'') ''bin'',
          runtime_pointer = at ''r.json'', runtime_activation_journal = at ''ra.json'',
          profile_generations = at ''generations'', active_profile = at ''p.json'',
          previous_profile = at ''pp.json'', profile_activation_journal = at ''pa.json'',
          event_log_dir = at ''logs'', service_host_event_log = at ''h.log'',
          service_setup_event_log = at ''s.log''\<rparr>)"

definition sample_profile :: string where
  "sample_profile = ''[General]'' @ [char_of (10 :: nat)] @ ''a=1''"

definition sample_parse :: "string \<Rightarrow> json option" where
  "sample_parse bytes =
     (if bytes = ''runtime'' then Some (pointer_to_json \<lparr>rp_schema = 1, rp_version = ''1.2.3''\<rparr>)
      else if bytes = ''profile'' then Some (generation_pointer_to_json (sha256_digest zero_sha []))
      else None)"

definition sample_contents :: "path \<Rightarrow> string" where
  "sample_contents p =
     (if p = runtime_pointer sample_paths then ''runtime''
      else if p = active_profile sample_paths then ''profile'' else sample_profile)"

definition sample_root :: path where
  "sample_root = path_join (runtime_versions sample_paths) ''1.2.3''"

definition sample_machine :: "unit safety_env" where
  "sample_machine =
     \<lparr>fs_exists = \<lambda>p w. (p \<noteq> profile_activation_journal sample_paths
                          \<and> p \<noteq> runtime_activation_journal sample_paths, w),
      fs_is_reparse_point = \<lambda>p w. (Ok False, w),
      fs_open = \<lambda>p w. (Ok \<lparr>fv_metadata = Ok (True, length (sample_contents p)),
                            fv_contents = Ok (sample_contents p)\<rparr>, w),
      fs_is_dir = \<lambda>p w. (True, w),
      fs_read_dir = \<lambda>p w. (Ok (map (\<lambda>n. Ok (Some n)) REQUIRED_RUNTIME_FILES), w),
      se_open_appinit_key = \<lambda>v w. (Ok True, w), se_read_enabled = \<lambda>v w. (Ok None, w),
      se_read_dlls = \<lambda>v w. (Ok None, w), se_connect_scm = \<lambda>w. (Ok (), w),
      se_open_service = \<lambda>s w. (Ok (s = SERVICE_NAME), w),
      se_service_image = \<lambda>s w. (Ok (expected_service_image (path_join sample_root ''mactype-service.exe'')), w),
      se_service_state = \<lambda>s w. (Ok SrStopped, w),
      se_current_exe = \<lambda>w. (Ok (path_join sample_root ''mactype-service.exe''), w),
      se_canonicalize = \<lambda>p w. (Ok p, w), se_start_etw = \<lambda>w. (True, w), se_connect_wmi = \<lambda>w. (Ok (), w)\<rparr>"

definition sample_broker :: "unit broker_env" where
  "sample_broker =
     \<lparr>be_assets = assets_of [] [], be_parse_json = \<lambda>s. None,
      be_launch = \<lambda>i w. (Err \<lparr>hle_stage = BeforeResume, hle_kind = KindOther, hle_raw_os_error = None\<rparr>, w),
      be_fixed_module_state = \<lambda>i p w. (FmAbsent, w), be_is_file = \<lambda>p w. (True, w)\<rparr>"

lemma driver_of_initialize:
  assumes "initialize_process_orchestration env (Some digest) recovery own generation bound turns io = (Ok r, io')"
  shows "\<exists>pids. r = driven_runtime (Some digest) ready_readiness
           (run_driver env recovery own generation digest pids bound turns)"
  using assms by (auto simp: initialize_process_orchestration_def Let_def case_prod_beta split: sum.splits)

section \<open>Properties of the start\<close>

text \<open>
  C20.  The service comes up only on files it has verified, and drives exactly those.  When the
  initializer returns a runtime, the protected runtime pointer was read and names the version
  directory its assets are in; every immutable file was read there, and the generation identity is
  the digest of what was read.  The protected profile pointer was read and names the profile digest
  the runtime runs under; the profile generation in the directory of that digest was read, is a valid
  INI and has that digest; the DLL-adjacent profile was read and has the same bytes.  Each of these
  reads is bounded and of a path just found free of reparse points.  No profile activation is open; a
  runtime activation is absent or is committed and activated exactly the pointer read; AppInit
  injection is off, the legacy service is absent or stopped and the registered image is the service
  of this runtime.
\<close>

theorem service_starts_only_on_verified_files:
  assumes "open_service_initialize env broker driver_env sha parse paths own_pid drain_bound turns io
             = (Ok r, io')"
  shows "\<exists>digest assets observer pids.
      verified_start env sha parse paths (io_world io) digest assets
    \<and> r = driven_runtime (Some digest) ready_readiness
        (run_driver (with_helper_broker (broker\<lparr>be_assets := assets\<rparr>) (driver_env observer))
           default_observer_recovery own_pid (ra_generation_id assets) digest pids drain_bound turns)"
proof -
  obtain v w where v: "verified_runtime env sha parse paths (io_world io) = (v, w)" by fastforce
  obtain live w' where live: "live_process_event_source env w = (live, w')" by fastforce
  from assms obtain digest assets observer where
      ok: "v = Inr (digest, assets)"
      and start: "initialize_process_orchestration
          (with_helper_broker (broker\<lparr>be_assets := assets\<rparr>) (driver_env observer))
          (Some digest) default_observer_recovery own_pid (ra_generation_id assets) drain_bound turns
          (called (CallRecord (EvLiveObserverSelected observer)) w' io) = (Ok r, io')"
    unfolding open_service_initialize_def v prod.case
    by (cases v; cases live) (auto simp: live)
  from verified_runtime_Ok [OF v [unfolded ok]] driver_of_initialize [OF start] show ?thesis by blast
qed

lemma initialize_succeeds:
  assumes "\<And>a w. fst (env_verify_ready env a w) = Ok ()" and "\<And>q w. fst (env_subscribe env q w) = Ok ()"
    and "\<And>w. \<exists>ps. fst (env_snapshot_pids env w) = Ok ps"
  shows "\<exists>r io'. initialize_process_orchestration env (Some digest) recovery own generation bound turns io
      = (Ok r, io')"
proof -
  have verify: "fst (ask c (env_verify_ready env a) io) = Ok ()" for c a and io :: "'a io"
    using assms(1) by (simp add: ask_def Let_def case_prod_beta)
  have subscribe: "fst (ask c (env_subscribe env q) io) = Ok ()" for c q and io :: "'a io"
    using assms(2) by (simp add: ask_def Let_def case_prod_beta)
  have snapshot: "\<exists>ps. fst (ask c (env_snapshot_pids env) io) = Ok ps" for c and io :: "'a io"
    using assms(3) by (simp add: ask_def Let_def case_prod_beta)
  show ?thesis
    unfolding initialize_process_orchestration_def Let_def case_prod_beta option.case verify subscribe sum.case
    using snapshot by (auto split: sum.splits)
qed

definition sample_generation :: active_runtime_generation where
  "sample_generation = \<lparr>ag_root = sample_root, ag_version = ''1.2.3'',
     ag_pointer = \<lparr>rp_schema = 1, rp_version = ''1.2.3''\<rparr>\<rparr>"

definition sample_prepared :: prepared_profile where
  "sample_prepared = \<lparr>pr_committed_runtime = None,
     pr_verified_profile = Some \<lparr>vp_bytes = sample_profile, vp_generation = sha256_digest zero_sha []\<rparr>\<rparr>"

definition sample_assets :: protected_runtime_assets where
  "sample_assets = assets_of sample_root (drop 7 (sha256_digest zero_sha []))"

lemma sample_prepare:
  "prepare_profile sample_machine zero_sha sample_parse sample_paths () = (Inr sample_prepared, ())"
  by code_simp

lemma sample_resolve:
  "resolve_generation sample_machine sample_parse sample_paths sample_prepared () = (Inr sample_generation, ())"
  by code_simp

lemma sample_initialize:
  "initialize_with_generation sample_machine zero_sha sample_parse sample_paths sample_prepared sample_generation ()
     = (Inr (sha256_digest zero_sha [], profile_readiness), ())"
  by code_simp

lemma sample_load:
  "load_from_generation sample_machine zero_sha sample_generation () = (Inr sample_assets, ())"
  by code_simp

lemma sample_verify:
  "verify_startup sample_machine (path_join (ra_root sample_assets) ''mactype-service.exe'') () = (Inr (), ())"
  by code_simp

lemma sample_verified:
  "verified_runtime sample_machine zero_sha sample_parse sample_paths () =
     (Inr (sha256_digest zero_sha [], sample_assets), ())"
  unfolding verified_runtime_def and_then_Ok
  using sample_prepare sample_resolve sample_initialize sample_load sample_verify by (metis fst_conv)

lemma sample_start:
  "\<exists>r io'. open_service_initialize sample_machine sample_broker (\<lambda>_. stopping_env) zero_sha sample_parse
     sample_paths 7 65 5 sample_io = (Ok r, io')"
proof -
  have sample_world: "io_world sample_io = ()" by simp
  have live: "se_start_etw sample_machine w = (True, w)" for w by (simp add: sample_machine_def)
  let ?driver = "with_helper_broker (sample_broker\<lparr>be_assets := sample_assets\<rparr>) stopping_env"
  have ready: "fst (env_verify_ready ?driver a w) = Ok ()" for a w
    by (cases a) (simp_all add: with_helper_broker_def verify_ready_def sample_broker_def sample_assets_def
        assets_of_def helper_for_def Let_def case_prod_beta)
  have subscribe: "fst (env_subscribe ?driver q w) = Ok ()" for q w
    by (simp add: with_helper_broker_def stopping_env_def host_env.extend_def sample_env_def)
  have snapshot: "\<exists>ps. fst (env_snapshot_pids ?driver w) = Ok ps" for w
    by (simp add: with_helper_broker_def stopping_env_def host_env.extend_def sample_env_def)
  show ?thesis
    unfolding open_service_initialize_def sample_world sample_verified live_process_event_source_def live
    using initialize_succeeds [where env = ?driver, OF ready subscribe snapshot] by simp
qed

theorem service_starts_only_on_verified_files_witness:
  "\<exists>digest assets observer pids r io'.
     open_service_initialize sample_machine sample_broker (\<lambda>_. stopping_env) zero_sha sample_parse
       sample_paths 7 65 5 sample_io = (Ok r, io')
   \<and> verified_start sample_machine zero_sha sample_parse sample_paths (io_world sample_io) digest assets
   \<and> r = driven_runtime (Some digest) ready_readiness
        (run_driver (with_helper_broker (sample_broker\<lparr>be_assets := assets\<rparr>) stopping_env)
           default_observer_recovery 7 (ra_generation_id assets) digest pids 65 5)"
proof -
  obtain r io' where start: "open_service_initialize sample_machine sample_broker (\<lambda>_. stopping_env) zero_sha
     sample_parse sample_paths 7 65 5 sample_io = (Ok r, io')"
    using sample_start by blast
  from service_starts_only_on_verified_files [OF start] start show ?thesis by blast
qed

end
