(* ===== verification/Setup_Storage.thy ===== *)
theory Setup_Storage
  imports Protected_Startup
begin

text \<open>
  The machine storage of the setup program (\<open>setup/src/storage.rs\<close>): a disk of files and directories
  on which every operation may fail or be the last one before the machine stops, and the protected
  directory, bounded read and atomic write built from those operations.

  An operation is a function of the disk; the answer is a value, an error, or the halt of the machine.
  The disk carries the script of its faults, one entry per operation, so a statement over every disk
  is a statement over every place where an error or a crash can happen.  What a finished operation
  has changed survives the crash: writes are synced before they are relied on, and the replacement
  of a file is atomic (\<open>MoveFileExW\<close> with write-through).
\<close>

section \<open>Errors\<close>

text \<open>Texts built by \<open>format!\<close> are kept as the pattern and the errors it embeds.\<close>

datatype setup_error =
    SetupIo io_kind
  | MachineOperation string path setup_error
  | InvalidProfile profile_error
  | InvalidMetadata
  | InvalidPointer
  | TamperedGeneration
  | ReparsePoint path
  | NoPreviousSetupGeneration
  | CleanupUnknown string "setup_error list"
  | RollbackFailed string string "setup_error list"
  | SetupManifest string "setup_error list"
  | SetupRuntime string "setup_error list"

datatype stop = Halted | Raised setup_error

section \<open>The disk\<close>

datatype disk_node = FileNode string | DirNode

text \<open>
  A fault makes its operation fail or halts the machine; the number says how much of the operation
  had taken effect where it can be partial.  \<open>Path::exists\<close> and \<open>is_dir\<close> answer false when the
  metadata cannot be read: that is the script \<open>sd_blind\<close>.  \<open>sd_deferred\<close> lists what Windows
  deletes at the next start of the machine; \<open>sd_service_image\<close> is the image the service control
  manager starts the service from, which only the callers of this layer read and change;
  \<open>sd_published\<close> is the variable that the closure of the installer transaction sets.
\<close>

datatype fault = Fine | Fails nat | Halts nat

record setup_disk =
  sd_nodes :: "(path \<times> disk_node) list"
  sd_reparse :: "path \<Rightarrow> bool"
  sd_faults :: "fault list"
  sd_blind :: "bool list"
  sd_pid :: nat
  sd_time :: "nat \<Rightarrow> nat"
  sd_sequence :: nat
  sd_deferred :: "path list"
  sd_service_image :: "path option"
  sd_published :: bool

type_synonym 'a setup_op = "setup_disk \<Rightarrow> (stop + 'a) \<times> setup_disk"

definition sret :: "'a \<Rightarrow> 'a setup_op" where
  "sret x d = (Inr x, d)"

definition sraise :: "setup_error \<Rightarrow> 'a setup_op" where
  "sraise e d = (Inl (Raised e), d)"

definition sbind :: "'a setup_op \<Rightarrow> ('a \<Rightarrow> 'b setup_op) \<Rightarrow> 'b setup_op" where
  "sbind m k d = (case m d of (Inl s, d) \<Rightarrow> (Inl s, d) | (Inr x, d) \<Rightarrow> k x d)"

text \<open>The result of a step as a value; a halt stays a halt.\<close>

definition attempt :: "'a setup_op \<Rightarrow> (setup_error + 'a) setup_op" where
  "attempt m d = (case m d of
      (Inl Halted, d) \<Rightarrow> (Inl Halted, d)
    | (Inl (Raised e), d) \<Rightarrow> (Inr (Inl e), d)
    | (Inr x, d) \<Rightarrow> (Inr (Inr x), d))"

definition map_error :: "(setup_error \<Rightarrow> setup_error) \<Rightarrow> 'a setup_op \<Rightarrow> 'a setup_op" where
  "map_error f m = sbind (attempt m) (\<lambda>r. case r of Inl e \<Rightarrow> sraise (f e) | Inr x \<Rightarrow> sret x)"

text \<open>A result that is already there.\<close>

definition slift :: "setup_error + 'a \<Rightarrow> 'a setup_op" where
  "slift r = (case r of Inl e \<Rightarrow> sraise e | Inr x \<Rightarrow> sret x)"

fun sfor :: "'a list \<Rightarrow> ('a \<Rightarrow> unit setup_op) \<Rightarrow> unit setup_op" where
  "sfor [] f = sret ()"
| "sfor (x # xs) f = sbind (f x) (\<lambda>_. sfor xs f)"

definition swhen :: "bool \<Rightarrow> unit setup_op \<Rightarrow> unit setup_op" where
  "swhen b m = (if b then m else sret ())"

definition node_at :: "setup_disk \<Rightarrow> path \<Rightarrow> disk_node option" where
  "node_at d p = map_of (sd_nodes d) p"

definition set_node :: "path \<Rightarrow> disk_node \<Rightarrow> setup_disk \<Rightarrow> setup_disk" where
  "set_node p n d = d\<lparr>sd_nodes := AList.update p n (sd_nodes d)\<rparr>"

definition drop_node :: "path \<Rightarrow> setup_disk \<Rightarrow> setup_disk" where
  "drop_node p d = d\<lparr>sd_nodes := AList.delete p (sd_nodes d)\<rparr>"

section \<open>Operations of the file system\<close>

definition take_fault :: "setup_disk \<Rightarrow> fault \<times> setup_disk" where
  "take_fault d = (case sd_faults d of [] \<Rightarrow> (Fine, d) | f # fs \<Rightarrow> (f, d\<lparr>sd_faults := fs\<rparr>))"

definition io_op ::
  "(setup_disk \<Rightarrow> (io_kind + 'a) \<times> setup_disk) \<Rightarrow> (nat \<Rightarrow> setup_disk \<Rightarrow> setup_disk) \<Rightarrow> 'a setup_op" where
  "io_op run torn d =
     (let (f, d) = take_fault d
      in case f of
           Fine \<Rightarrow> (let (r, d) = run d in (map_sum (\<lambda>k. Raised (SetupIo k)) id r, d))
         | Fails n \<Rightarrow> (Inl (Raised (SetupIo IoOther)), torn n d)
         | Halts n \<Rightarrow> (Inl Halted, torn n d))"

text \<open>An operation that only looks.\<close>

definition io_read :: "(setup_disk \<Rightarrow> io_kind + 'a) \<Rightarrow> 'a setup_op" where
  "io_read look = io_op (\<lambda>d. (look d, d)) (\<lambda>_ d. d)"

definition io_write :: "(setup_disk \<Rightarrow> (io_kind + unit) \<times> setup_disk) \<Rightarrow> unit setup_op" where
  "io_write run = io_op run (\<lambda>_ d. d)"

definition seen :: "(setup_disk \<Rightarrow> bool) \<Rightarrow> bool setup_op" where
  "seen look d =
     (case sd_blind d of
        [] \<Rightarrow> (Inr (look d), d)
      | blind # bs \<Rightarrow> (Inr (\<not> blind \<and> look d), d\<lparr>sd_blind := bs\<rparr>))"

definition path_exists :: "path \<Rightarrow> bool setup_op" where
  "path_exists p = seen (\<lambda>d. node_at d p \<noteq> None)"

definition path_is_dir :: "path \<Rightarrow> bool setup_op" where
  "path_is_dir p = seen (\<lambda>d. node_at d p = Some DirNode)"

definition fs_is_reparse :: "path \<Rightarrow> bool setup_op" where
  "fs_is_reparse p = io_read (\<lambda>d. Ok (sd_reparse d p))"

definition fs_metadata :: "path \<Rightarrow> disk_node setup_op" where
  "fs_metadata p = io_read (\<lambda>d. case node_at d p of None \<Rightarrow> Err IoNotFound | Some n \<Rightarrow> Ok n)"

definition path_is_file :: "path \<Rightarrow> bool setup_op" where
  "path_is_file p = seen (\<lambda>d. case node_at d p of Some (FileNode _) \<Rightarrow> True | _ \<Rightarrow> False)"

text \<open>The metadata of an open file: is it a reparse point?\<close>

definition fs_handle_is_reparse :: "path \<Rightarrow> bool setup_op" where
  "fs_handle_is_reparse p = io_read (\<lambda>d. Ok (sd_reparse d p))"

text \<open>Both readings of one metadata call on an open file.\<close>

definition fs_handle_metadata :: "path \<Rightarrow> (bool \<times> disk_node) setup_op" where
  "fs_handle_metadata p = io_read (\<lambda>d. case node_at d p of
       None \<Rightarrow> Err IoNotFound | Some n \<Rightarrow> Ok (sd_reparse d p, n))"

text \<open>\<open>symlink_metadata(..).file_type().is_file()\<close>\<close>

definition fs_is_regular :: "path \<Rightarrow> bool setup_op" where
  "fs_is_regular p = io_read (\<lambda>d. case node_at d p of
       None \<Rightarrow> Err IoNotFound | Some n \<Rightarrow> Ok (\<not> sd_reparse d p \<and> n \<noteq> DirNode))"

definition fs_open_read :: "path \<Rightarrow> unit setup_op" where
  "fs_open_read p = io_read (\<lambda>d. case node_at d p of
       None \<Rightarrow> Err IoNotFound | Some DirNode \<Rightarrow> Err IoOther | Some (FileNode _) \<Rightarrow> Ok ())"

definition fs_read_limited :: "path \<Rightarrow> nat \<Rightarrow> string setup_op" where
  "fs_read_limited p limit = io_read (\<lambda>d. case node_at d p of
       Some (FileNode c) \<Rightarrow> Ok (take limit c) | _ \<Rightarrow> Err IoOther)"

definition fs_names :: "path \<Rightarrow> string list setup_op" where
  "fs_names p = io_read (\<lambda>d. if node_at d p = Some DirNode
       then Ok (List.map_filter (\<lambda>(q, _). if path_parent q = Some p then path_file_name q else None) (sd_nodes d))
       else Err IoOther)"

definition fs_next_entry :: "unit setup_op" where
  "fs_next_entry = io_read (\<lambda>d. Ok ())"

definition missing_dirs :: "setup_disk \<Rightarrow> path \<Rightarrow> path list" where
  "missing_dirs d p = filter (\<lambda>q. node_at d q = None) (rev (path_ancestors p))"

definition make_dirs :: "path list \<Rightarrow> setup_disk \<Rightarrow> setup_disk" where
  "make_dirs ps d = fold (\<lambda>q. set_node q DirNode) ps d"

definition fs_create_dir_all :: "path \<Rightarrow> unit setup_op" where
  "fs_create_dir_all p =
     io_op (\<lambda>d. if list_ex (\<lambda>q. node_at d q \<noteq> None \<and> node_at d q \<noteq> Some DirNode) (path_ancestors p)
                then (Err IoOther, d) else (Ok (), make_dirs (missing_dirs d p) d))
       (\<lambda>n d. make_dirs (take n (missing_dirs d p)) d)"

definition parent_is_dir :: "setup_disk \<Rightarrow> path \<Rightarrow> bool" where
  "parent_is_dir d p = (case path_parent p of None \<Rightarrow> False | Some q \<Rightarrow> node_at d q = Some DirNode)"

definition fs_create_new :: "path \<Rightarrow> unit setup_op" where
  "fs_create_new p = io_write (\<lambda>d.
     if node_at d p \<noteq> None then (Err IoOther, d)
     else if \<not> parent_is_dir d p then (Err IoNotFound, d)
     else (Ok (), set_node p (FileNode []) d))"

definition append_to :: "path \<Rightarrow> string \<Rightarrow> setup_disk \<Rightarrow> setup_disk" where
  "append_to p bytes d = (case node_at d p of
      Some (FileNode c) \<Rightarrow> set_node p (FileNode (c @ bytes)) d | _ \<Rightarrow> d)"

definition fs_write_all :: "path \<Rightarrow> string \<Rightarrow> unit setup_op" where
  "fs_write_all p bytes = io_op (\<lambda>d. (Ok (), append_to p bytes d)) (\<lambda>n. append_to p (take n bytes))"

definition fs_sync_all :: "path \<Rightarrow> unit setup_op" where
  "fs_sync_all p = io_read (\<lambda>d. Ok ())"

definition fs_remove_file :: "path \<Rightarrow> unit setup_op" where
  "fs_remove_file p = io_write (\<lambda>d. case node_at d p of
      None \<Rightarrow> (Err IoNotFound, d) | Some DirNode \<Rightarrow> (Err IoOther, d)
    | Some (FileNode _) \<Rightarrow> (Ok (), drop_node p d))"

text \<open>Marking an open file for deletion: when the call fails the file may be gone or not.\<close>

definition fs_mark_for_deletion :: "path \<Rightarrow> unit setup_op" where
  "fs_mark_for_deletion p = io_op (\<lambda>d. (Ok (), drop_node p d)) (\<lambda>n d. if n = 0 then d else drop_node p d)"

definition below :: "path \<Rightarrow> path \<Rightarrow> bool" where
  "below ancestor p \<longleftrightarrow> take (length ancestor) p = ancestor"

definition fs_remove_dir :: "path \<Rightarrow> unit setup_op" where
  "fs_remove_dir p = io_write (\<lambda>d.
     if node_at d p \<noteq> Some DirNode then (Err IoOther, d)
     else if list_ex (\<lambda>(q, _). q \<noteq> p \<and> below p q) (sd_nodes d) then (Err IoOther, d)
     else (Ok (), drop_node p d))"

definition fs_remove_dir_all :: "path \<Rightarrow> unit setup_op" where
  "fs_remove_dir_all p =
     io_op (\<lambda>d. if node_at d p = None then (Err IoNotFound, d)
                else (Ok (), d\<lparr>sd_nodes := filter (\<lambda>(q, _). \<not> below p q) (sd_nodes d)\<rparr>))
       (\<lambda>n d. fold drop_node (take n (filter (\<lambda>q. q \<noteq> p \<and> below p q) (map fst (sd_nodes d)))) d)"

definition fs_rename_dir :: "path \<Rightarrow> path \<Rightarrow> unit setup_op" where
  "fs_rename_dir source destination = io_write (\<lambda>d.
     if node_at d source \<noteq> Some DirNode then (Err IoNotFound, d)
     else if node_at d destination \<noteq> None then (Err IoOther, d)
     else (Ok (), d\<lparr>sd_nodes := map (\<lambda>(q, n). (if below source q then destination @ drop (length source) q else q, n))
                                  (sd_nodes d)\<rparr>))"

definition fs_delay_delete :: "path \<Rightarrow> unit setup_op" where
  "fs_delay_delete p = io_write (\<lambda>d. (Ok (), d\<lparr>sd_deferred := sd_deferred d @ [p]\<rparr>))"

text \<open>The replacement of a file by another, retries included.\<close>

definition replace_file :: "path \<Rightarrow> path \<Rightarrow> unit setup_op" where
  "replace_file source destination = io_write (\<lambda>d. case node_at d source of
      Some (FileNode c) \<Rightarrow>
        if node_at d destination = Some DirNode then (Err IoOther, d)
        else (Ok (), drop_node source (set_node destination (FileNode c) d))
    | _ \<Rightarrow> (Err IoNotFound, d))"

section \<open>Protected storage\<close>

fun reject_reparse_list :: "path list \<Rightarrow> unit setup_op" where
  "reject_reparse_list [] = sret ()"
| "reject_reparse_list (p # ps) =
     sbind (path_exists p) (\<lambda>there.
     if \<not> there then reject_reparse_list ps
     else sbind (fs_is_reparse p) (\<lambda>reparse.
          if reparse then sraise (ReparsePoint p) else reject_reparse_list ps))"

definition reject_reparse_ancestors :: "path \<Rightarrow> unit setup_op" where
  "reject_reparse_ancestors p = reject_reparse_list (path_ancestors p)"

definition create_protected_directory :: "path \<Rightarrow> unit setup_op" where
  "create_protected_directory p =
     sbind (reject_reparse_ancestors p) (\<lambda>_.
     sbind (fs_create_dir_all p) (\<lambda>_. reject_reparse_ancestors p))"

definition dash :: string where "dash = ''-''"

text \<open>\<open>temporary_nonce\<close>: process, time and a sequence number, all in decimal.\<close>

definition temporary_nonce :: "string setup_op" where
  "temporary_nonce d =
     (Inr (show_nat (sd_pid d) @ dash @ show_nat (sd_time d (sd_sequence d)) @ dash @ show_nat (sd_sequence d)),
      d\<lparr>sd_sequence := sd_sequence d + 1\<rparr>)"

definition temporary_name :: "string \<Rightarrow> string \<Rightarrow> string" where
  "temporary_name name nonce = ''.'' @ name @ ''.new-'' @ nonce"

definition write_and_replace :: "path \<Rightarrow> path \<Rightarrow> string \<Rightarrow> unit setup_op" where
  "write_and_replace temporary p bytes =
     sbind (fs_create_new temporary) (\<lambda>_.
     sbind (fs_write_all temporary bytes) (\<lambda>_.
     sbind (fs_sync_all temporary) (\<lambda>_. replace_file temporary p)))"

definition atomic_write :: "path \<Rightarrow> string \<Rightarrow> unit setup_op" where
  "atomic_write p bytes =
     (case path_parent p of
        None \<Rightarrow> sraise (SetupRuntime ''destination has no parent'' [])
      | Some parent \<Rightarrow>
          sbind (create_protected_directory parent) (\<lambda>_.
          sbind (reject_reparse_ancestors p) (\<lambda>_.
          sbind temporary_nonce (\<lambda>nonce.
          let temporary = path_join parent
                (temporary_name (case path_file_name p of None \<Rightarrow> ''pointer'' | Some n \<Rightarrow> n) nonce)
          in sbind (attempt (write_and_replace temporary p bytes)) (\<lambda>result.
             case result of
               Inl e \<Rightarrow> sbind (attempt (fs_remove_file temporary)) (\<lambda>_. sraise e)
             | Inr _ \<Rightarrow> sret ())))))"

definition unbounded_file :: "string \<Rightarrow> setup_error" where
  "unbounded_file description = SetupRuntime (description @ '' is not a bounded regular file'') []"

definition at_machine_path :: "string \<Rightarrow> path \<Rightarrow> 'a setup_op \<Rightarrow> 'a setup_op" where
  "at_machine_path operation p m = map_error (MachineOperation operation p) m"

definition node_length :: "disk_node \<Rightarrow> nat option" where
  "node_length n = (case n of FileNode c \<Rightarrow> Some (length c) | DirNode \<Rightarrow> None)"

definition setup_read_file :: "path \<Rightarrow> nat \<Rightarrow> string \<Rightarrow> string setup_op" where
  "setup_read_file p maximum_bytes description =
     sbind (reject_reparse_ancestors p) (\<lambda>_.
     sbind (fs_metadata p) (\<lambda>metadata.
     if (case node_length metadata of None \<Rightarrow> True | Some n \<Rightarrow> n = 0 \<or> maximum_bytes < n)
     then sraise (unbounded_file description)
     else sbind (fs_open_read p) (\<lambda>_.
          sbind (fs_read_limited p (maximum_bytes + 1)) (\<lambda>bytes.
          if bytes = [] \<or> maximum_bytes < length bytes then sraise (unbounded_file description)
          else sret bytes))))"

fun collect_entries :: "nat \<Rightarrow> string \<Rightarrow> string list \<Rightarrow> string list \<Rightarrow> string list setup_op" where
  "collect_entries maximum_entries description [] entries = sret entries"
| "collect_entries maximum_entries description (n # ns) entries =
     (if length entries = maximum_entries
      then sraise (SetupRuntime (description @ '' exceeds the fixed limit'') [])
      else sbind fs_next_entry (\<lambda>_. collect_entries maximum_entries description ns (entries @ [n])))"

definition read_bounded_directory :: "path \<Rightarrow> nat \<Rightarrow> string \<Rightarrow> string list setup_op" where
  "read_bounded_directory p maximum_entries description =
     sbind (reject_reparse_ancestors p) (\<lambda>_.
     sbind (fs_metadata p) (\<lambda>metadata.
     if metadata \<noteq> DirNode
     then sraise (SetupRuntime (description @ '' is not a regular directory'') [])
     else sbind (fs_names p) (\<lambda>names. collect_entries maximum_entries description names [])))"

end
