(* ===== verification/Profile_Store.thy ===== *)
theory Profile_Store
  imports Setup_Storage
begin

text \<open>
  The profile store of the setup program (\<open>setup/src/profile_store.rs\<close> and its modules) and the
  bridge that copies the active profile next to the renderer (\<open>setup/src/profile_bridge.rs\<close> and its
  modules): publication of generations, activation and rollback under an activation journal, and the
  recovery that a restart runs.
\<close>

section \<open>Environment and data\<close>

record setup_env =
  en_paths :: machine_paths
  en_sha :: "string \<Rightarrow> string"
  en_print :: "json \<Rightarrow> string"
  en_parse :: "string \<Rightarrow> json option"

definition PROFILE_ACTIVATION_SCHEMA :: u32 where "PROFILE_ACTIVATION_SCHEMA = 2"
definition LEGACY_PROFILE_ACTIVATION_SCHEMA :: u32 where "LEGACY_PROFILE_ACTIVATION_SCHEMA = 1"
definition MAX_ACTIVATION_JOURNAL_BYTES :: nat where "MAX_ACTIVATION_JOURNAL_BYTES = 16 * 1024"
definition GENERATED_PROFILE_NAME :: string where "GENERATED_PROFILE_NAME = ''MacType.ini''"
definition GENERATED_PROFILE_TEMP_PREFIX :: string where
  "GENERATED_PROFILE_TEMP_PREFIX = ''.MacType.ini.new-''"

datatype profile_activation_phase =
    PointerTransition | FirstRollbackDeletePending | FirstRollbackDeleteConfirmed

record profile_activation_journal =
  pj_phase :: profile_activation_phase
  pj_active_before :: "profile_generation_id option"
  pj_previous_before :: "profile_generation_id option"

definition activation_phase_names :: "(string \<times> profile_activation_phase) list" where
  "activation_phase_names =
     [(''pointer-transition'', PointerTransition),
      (''first-rollback-delete-pending'', FirstRollbackDeletePending),
      (''first-rollback-delete-confirmed'', FirstRollbackDeleteConfirmed)]"

definition profile_journal_to_json :: "profile_activation_journal \<Rightarrow> json" where
  "profile_journal_to_json j =
     JObject [(''schema'', JNat (unat PROFILE_ACTIVATION_SCHEMA)),
              (''phase'', JString (variant_name activation_phase_names (pj_phase j))),
              (''active_before'', ser_option generation_pointer_to_json (pj_active_before j)),
              (''previous_before'', ser_option generation_pointer_to_json (pj_previous_before j))]"

definition de_generation_pointer :: "json option \<Rightarrow> profile_generation_id option" where
  "de_generation_pointer v = Option.bind v generation_pointer_of_json"

definition profile_journal_of_json :: "json \<Rightarrow> profile_activation_journal option" where
  "profile_journal_of_json v =
     do { m \<leftarrow> struct_fields [''schema'', ''phase'', ''active_before'', ''previous_before''] v;
          schema \<leftarrow> (de_word (m ''schema'') :: u32 option);
          phase \<leftarrow> de_variant activation_phase_names (m ''phase'');
          active \<leftarrow> de_option de_generation_pointer (m ''active_before'');
          previous \<leftarrow> de_option de_generation_pointer (m ''previous_before'');
          Some \<lparr>pj_phase = phase, pj_active_before = active, pj_previous_before = previous\<rparr> }"

definition legacy_profile_journal_of_json ::
  "json \<Rightarrow> (u32 \<times> profile_generation_id option \<times> profile_generation_id option) option" where
  "legacy_profile_journal_of_json v =
     do { m \<leftarrow> struct_fields [''schema'', ''active_before'', ''previous_before''] v;
          schema \<leftarrow> de_word (m ''schema'');
          active \<leftarrow> de_option de_generation_pointer (m ''active_before'');
          previous \<leftarrow> de_option de_generation_pointer (m ''previous_before'');
          Some (schema, active, previous) }"

definition invalid_journal :: setup_error where
  "invalid_journal = SetupRuntime ''profile activation journal is invalid'' []"

definition unsupported_journal :: setup_error where
  "unsupported_journal = SetupRuntime ''profile activation journal has an unsupported schema'' []"

definition parse_activation_journal ::
  "(string \<Rightarrow> json option) \<Rightarrow> string \<Rightarrow> setup_error + profile_activation_journal" where
  "parse_activation_journal parse bytes =
     (case parse bytes of
        None \<Rightarrow> Err invalid_journal
      | Some tree \<Rightarrow>
          (let value = to_value tree
           in case Option.bind (value_get ''schema'' value) as_u64 of
                None \<Rightarrow> Err invalid_journal
              | Some schema \<Rightarrow>
                  if schema = unat PROFILE_ACTIVATION_SCHEMA
                  then (case profile_journal_of_json value of None \<Rightarrow> Err invalid_journal | Some j \<Rightarrow> Ok j)
                  else if schema = unat LEGACY_PROFILE_ACTIVATION_SCHEMA
                  then (case legacy_profile_journal_of_json value of
                          None \<Rightarrow> Err invalid_journal
                        | Some (s, active, previous) \<Rightarrow>
                            if s \<noteq> LEGACY_PROFILE_ACTIVATION_SCHEMA then Err unsupported_journal
                            else Ok \<lparr>pj_phase = PointerTransition, pj_active_before = active,
                                     pj_previous_before = previous\<rparr>)
                  else Err unsupported_journal))"

section \<open>The runtime bridge\<close>

definition invalid_runtime_pointer :: setup_error where
  "invalid_runtime_pointer = SetupRuntime ''active runtime pointer is invalid'' []"

definition active_runtime_root :: "setup_env \<Rightarrow> path option setup_op" where
  "active_runtime_root env =
     (let pointer_path = runtime_pointer (en_paths env)
      in sbind (path_exists pointer_path) (\<lambda>there.
         if \<not> there then sret None
         else sbind (reject_reparse_ancestors pointer_path) (\<lambda>_.
              sbind (setup_read_file pointer_path MAX_RUNTIME_POINTER_BYTES ''active runtime pointer'') (\<lambda>bytes.
              case Option.bind (en_parse env bytes) pointer_of_json of
                None \<Rightarrow> sraise invalid_runtime_pointer
              | Some pointer \<Rightarrow>
                  if rp_schema pointer \<noteq> 1 \<or> \<not> valid_runtime_version_component (rp_version pointer)
                  then sraise (SetupRuntime ''active runtime pointer has an unsupported value'' [])
                  else (let root = path_join (runtime_versions (en_paths env)) (rp_version pointer)
                        in sbind (reject_reparse_ancestors root) (\<lambda>_.
                           sbind (path_is_dir root) (\<lambda>is_dir.
                           if \<not> is_dir
                           then sraise (SetupRuntime ''active runtime generation is unavailable'' [])
                           else sret (Some root))))))))"

definition generation_directory :: "setup_env \<Rightarrow> profile_generation_id \<Rightarrow> path" where
  "generation_directory env g = path_join (profile_generations (en_paths env)) (directory_name g)"

definition calculated_generation :: "setup_env \<Rightarrow> string \<Rightarrow> string \<Rightarrow> setup_error + profile_generation_id" where
  "calculated_generation env bytes name =
     (case fst (publish_machine_profile (en_sha env) bytes \<lparr>display_name = name\<rparr> empty_catalog) of
        Inl e \<Rightarrow> Err (InvalidProfile e) | Inr g \<Rightarrow> Ok g)"

definition verified_generation_bytes :: "setup_env \<Rightarrow> profile_generation_id \<Rightarrow> string setup_op" where
  "verified_generation_bytes env g =
     (let profile_path = path_join (generation_directory env g) ''profile.ini''
      in sbind (reject_reparse_ancestors profile_path) (\<lambda>_.
         sbind (map_error (\<lambda>_. TamperedGeneration)
                  (setup_read_file profile_path MAX_PROFILE_BYTES ''profile generation'')) (\<lambda>bytes.
         sbind (slift (calculated_generation env bytes ''runtime materialization verification'')) (\<lambda>calculated.
         if calculated \<noteq> g then sraise TamperedGeneration else sret bytes))))"

definition owned_temporary_suffix :: "string \<Rightarrow> bool" where
  "owned_temporary_suffix suffix \<longleftrightarrow>
     (let components = split_on (CHR ''-'') suffix
      in length components \<in> {2, 3}
         \<and> list_all (\<lambda>c. c \<noteq> [] \<and> list_all is_ascii_digit c) components)"

definition remove_interrupted_write :: "path \<Rightarrow> string \<Rightarrow> unit setup_op" where
  "remove_interrupted_write root name =
     (case strip_prefix name GENERATED_PROFILE_TEMP_PREFIX of
        None \<Rightarrow> sret ()
      | Some suffix \<Rightarrow>
          if \<not> owned_temporary_suffix suffix
          then sraise (SetupRuntime ''generated runtime profile temporary entry is not owned by setup'' [])
          else (let p = path_join root name
                in sbind (reject_reparse_ancestors p) (\<lambda>_.
                   sbind (fs_metadata p) (\<lambda>metadata.
                   if metadata = DirNode
                   then sraise (SetupRuntime
                          ''generated runtime profile temporary path is not a regular file'' [])
                   else fs_remove_file p))))"

definition remove_interrupted_generated_profile_writes :: "path \<Rightarrow> unit setup_op" where
  "remove_interrupted_generated_profile_writes root =
     sbind (read_bounded_directory root 16 ''runtime profile recovery entry count'') (\<lambda>names.
     sfor names (remove_interrupted_write root))"

definition materialize_generation :: "setup_env \<Rightarrow> profile_generation_id \<Rightarrow> bool setup_op" where
  "materialize_generation env g =
     sbind (active_runtime_root env) (\<lambda>runtime_root.
     case runtime_root of
       None \<Rightarrow> sret False
     | Some root \<Rightarrow>
         sbind (remove_interrupted_generated_profile_writes root) (\<lambda>_.
         sbind (verified_generation_bytes env g) (\<lambda>bytes.
         let destination = path_join root GENERATED_PROFILE_NAME;
             write = sbind (atomic_write destination bytes) (\<lambda>_. sret True)
         in sbind (path_exists destination) (\<lambda>there.
            if \<not> there then write
            else sbind (reject_reparse_ancestors destination) (\<lambda>_.
                 sbind (setup_read_file destination MAX_PROFILE_BYTES ''generated runtime profile'') (\<lambda>current.
                 if current = bytes then sret True else write))))))"

datatype materialized_profile_clear_error = ClearUnchanged setup_error | ClearUnknown setup_error

fun into_setup_error :: "materialized_profile_clear_error \<Rightarrow> setup_error" where
  "into_setup_error (ClearUnchanged e) = e"
| "into_setup_error (ClearUnknown e) = e"

datatype materialized_profile_observation = ObservedAbsent | ExactGeneration

type_synonym 'a clear_op = "(materialized_profile_clear_error + 'a) setup_op"

definition unchanged :: "'a setup_op \<Rightarrow> 'a clear_op" where
  "unchanged m = sbind (attempt m) (\<lambda>r. sret (map_sum ClearUnchanged id r))"

definition clear_then :: "'a clear_op \<Rightarrow> ('a \<Rightarrow> 'b clear_op) \<Rightarrow> 'b clear_op" where
  "clear_then m k = sbind m (\<lambda>r. case r of Inl e \<Rightarrow> sret (Inl e) | Inr x \<Rightarrow> k x)"

definition cleanup_unknown_io :: "setup_error \<Rightarrow> setup_error" where
  "cleanup_unknown_io e =
     CleanupUnknown ''generated runtime profile could not be exclusively inspected: {error}'' [e]"

definition read_materialized_profile :: "path \<Rightarrow> string setup_op" where
  "read_materialized_profile p =
     sbind (map_error cleanup_unknown_io (fs_metadata p)) (\<lambda>metadata.
     if (case node_length metadata of None \<Rightarrow> True | Some n \<Rightarrow> n = 0 \<or> MAX_PROFILE_BYTES < n)
     then sraise (CleanupUnknown ''generated runtime profile is not a bounded regular file'' [])
     else sbind (map_error cleanup_unknown_io (fs_read_limited p (MAX_PROFILE_BYTES + 1))) (\<lambda>bytes.
          if bytes = [] \<or> MAX_PROFILE_BYTES < length bytes
          then sraise (CleanupUnknown ''generated runtime profile changed while it was inspected'' [])
          else sret bytes))"

text \<open>The handle is opened without write or delete sharing; the path stands for it.\<close>

definition remove_exact_materialized_profile :: "path \<Rightarrow> string \<Rightarrow> unit clear_op" where
  "remove_exact_materialized_profile p expected =
     clear_then (unchanged (map_error cleanup_unknown_io (fs_open_read p))) (\<lambda>_.
     clear_then (unchanged (map_error cleanup_unknown_io (fs_handle_is_reparse p))) (\<lambda>reparse.
     if reparse
     then sret (Inl (ClearUnchanged
            (CleanupUnknown ''generated runtime profile became a reparse point'' [])))
     else clear_then (unchanged (read_materialized_profile p)) (\<lambda>actual.
          if actual \<noteq> expected
          then sret (Inl (ClearUnchanged
                 (CleanupUnknown ''generated runtime profile differs from the active generation'' [])))
          else sbind (attempt (fs_mark_for_deletion p)) (\<lambda>r. case r of
               Inl e \<Rightarrow> sret (Inl (ClearUnknown (cleanup_unknown_io e)))
             | Inr _ \<Rightarrow> sret (Inr ())))))"

definition clear_materialized_generation :: "setup_env \<Rightarrow> profile_generation_id \<Rightarrow> bool clear_op" where
  "clear_materialized_generation env g =
     clear_then (unchanged (active_runtime_root env)) (\<lambda>runtime_root.
     case runtime_root of
       None \<Rightarrow> sret (Inr False)
     | Some root \<Rightarrow>
         (let p = path_join root GENERATED_PROFILE_NAME
          in sbind (attempt (fs_metadata p)) (\<lambda>metadata. case metadata of
               Inl e \<Rightarrow> if e = SetupIo IoNotFound then sret (Inr False)
                        else sret (Inl (ClearUnchanged (cleanup_unknown_io e)))
             | Inr _ \<Rightarrow>
                 clear_then (unchanged (reject_reparse_ancestors p)) (\<lambda>_.
                 clear_then (unchanged (verified_generation_bytes env g)) (\<lambda>expected.
                 clear_then (remove_exact_materialized_profile p expected) (\<lambda>_. sret (Inr True)))))))"

definition ensure_materialized_profile_absent :: "setup_env \<Rightarrow> unit setup_op" where
  "ensure_materialized_profile_absent env =
     sbind (active_runtime_root env) (\<lambda>runtime_root.
     case runtime_root of
       None \<Rightarrow> sret ()
     | Some root \<Rightarrow>
         sbind (attempt (fs_metadata (path_join root GENERATED_PROFILE_NAME))) (\<lambda>metadata. case metadata of
           Inl e \<Rightarrow> if e = SetupIo IoNotFound then sret ()
                    else sraise (CleanupUnknown ''generated runtime profile could not be inspected: {error}'' [e])
         | Inr _ \<Rightarrow> sraise (CleanupUnknown
               ''generated runtime profile exists without a verified generation identity'' [])))"

text \<open>What two functions do at a destination that exists: regular, safe and with the expected bytes.\<close>

definition exact_destination ::
  "path \<Rightarrow> string \<Rightarrow> disk_node \<Rightarrow> string \<Rightarrow> string \<Rightarrow> string \<Rightarrow> string \<Rightarrow> string \<Rightarrow> unit setup_op" where
  "exact_destination p expected metadata not_regular unsafe unverified foreign description =
     (if metadata = DirNode then sraise (CleanupUnknown not_regular [])
      else sbind (map_error (\<lambda>e. CleanupUnknown unsafe [e]) (reject_reparse_ancestors p)) (\<lambda>_.
           sbind (map_error (\<lambda>e. CleanupUnknown unverified [e])
                    (setup_read_file p MAX_PROFILE_BYTES description)) (\<lambda>actual.
           if actual \<noteq> expected then sraise (CleanupUnknown foreign []) else sret ())))"

definition observe_materialized_generation ::
  "setup_env \<Rightarrow> profile_generation_id \<Rightarrow> materialized_profile_observation setup_op" where
  "observe_materialized_generation env g =
     sbind (active_runtime_root env) (\<lambda>runtime_root.
     case runtime_root of
       None \<Rightarrow> sret ObservedAbsent
     | Some root \<Rightarrow>
         sbind (verified_generation_bytes env g) (\<lambda>expected.
         let p = path_join root GENERATED_PROFILE_NAME
         in sbind (attempt (fs_metadata p)) (\<lambda>metadata. case metadata of
              Inl e \<Rightarrow> if e = SetupIo IoNotFound then sret ObservedAbsent
                       else sraise (CleanupUnknown
                              ''uncertain profile cleanup could not inspect its destination: {error}'' [e])
            | Inr metadata \<Rightarrow>
                sbind (exact_destination p expected metadata
                    ''uncertain profile cleanup found a non-regular destination''
                    ''uncertain profile cleanup found an unsafe destination: {error}''
                    ''uncertain profile cleanup could not verify its destination: {error}''
                    ''uncertain profile cleanup found foreign destination bytes''
                    ''uncertain generated runtime profile'') (\<lambda>_.
                sret ExactGeneration))))"

definition restore_generation_after_confirmed_clear :: "setup_env \<Rightarrow> profile_generation_id \<Rightarrow> bool setup_op" where
  "restore_generation_after_confirmed_clear env g =
     sbind (active_runtime_root env) (\<lambda>runtime_root.
     case runtime_root of
       None \<Rightarrow> sret False
     | Some root \<Rightarrow>
         sbind (verified_generation_bytes env g) (\<lambda>expected.
         let p = path_join root GENERATED_PROFILE_NAME
         in sbind (attempt (fs_metadata p)) (\<lambda>metadata. case metadata of
              Inl e \<Rightarrow>
                if e = SetupIo IoNotFound
                then sbind (map_error (\<lambda>e. CleanupUnknown
                       ''confirmed profile restoration could not exclusively create its destination: {error}'' [e])
                       (fs_create_new p)) (\<lambda>_.
                     sbind (map_error (\<lambda>e. CleanupUnknown
                       ''confirmed profile restoration did not write exact bytes: {error}'' [e])
                       (fs_write_all p expected)) (\<lambda>_.
                     sbind (map_error (\<lambda>e. CleanupUnknown
                       ''confirmed profile restoration could not persist exact bytes: {error}'' [e])
                       (fs_sync_all p)) (\<lambda>_. sret True)))
                else sraise (CleanupUnknown
                       ''confirmed profile restoration could not inspect its destination: {error}'' [e])
            | Inr metadata \<Rightarrow>
                sbind (exact_destination p expected metadata
                    ''confirmed profile restoration found a non-regular destination''
                    ''confirmed profile restoration found an unsafe destination: {error}''
                    ''confirmed profile restoration could not verify its destination: {error}''
                    ''confirmed profile restoration found foreign destination bytes''
                    ''confirmed generated runtime profile'') (\<lambda>_.
                sret True))))"

section \<open>Pointers\<close>

definition read_optional_pointer :: "setup_env \<Rightarrow> path \<Rightarrow> profile_generation_id option setup_op" where
  "read_optional_pointer env p =
     sbind (path_exists p) (\<lambda>there.
     if \<not> there then sret None
     else sbind (setup_read_file p MAX_PROFILE_POINTER_BYTES ''profile pointer'') (\<lambda>bytes.
          case Option.bind (en_parse env bytes) generation_pointer_of_json of
            None \<Rightarrow> sraise InvalidPointer
          | Some g \<Rightarrow> sret (Some g)))"

definition write_pointer :: "setup_env \<Rightarrow> path \<Rightarrow> profile_generation_id \<Rightarrow> unit setup_op" where
  "write_pointer env p g = atomic_write p (en_print env (generation_pointer_to_json g))"

definition remove_protected_file :: "path \<Rightarrow> unit setup_op" where
  "remove_protected_file p =
     sbind (path_exists p) (\<lambda>there.
     swhen there (sbind (reject_reparse_ancestors p) (\<lambda>_. fs_remove_file p)))"

definition restore_pointer :: "setup_env \<Rightarrow> path \<Rightarrow> profile_generation_id option \<Rightarrow> unit setup_op" where
  "restore_pointer env p pointer =
     (case pointer of Some g \<Rightarrow> write_pointer env p g | None \<Rightarrow> remove_protected_file p)"

definition materialize_active :: "setup_env \<Rightarrow> profile_generation_id option setup_op" where
  "materialize_active env =
     (let pointer_path = active_profile (en_paths env)
      in sbind (path_exists pointer_path) (\<lambda>there.
         if \<not> there then sret None
         else sbind (setup_read_file pointer_path MAX_PROFILE_POINTER_BYTES ''active profile pointer'') (\<lambda>bytes.
              case Option.bind (en_parse env bytes) generation_pointer_of_json of
                None \<Rightarrow> sraise InvalidPointer
              | Some g \<Rightarrow> sbind (materialize_generation env g) (\<lambda>_. sret (Some g)))))"

section \<open>Generations\<close>

definition verify_generation :: "setup_env \<Rightarrow> profile_generation_id \<Rightarrow> unit setup_op" where
  "verify_generation env g =
     (let directory = generation_directory env g
      in sbind (reject_reparse_ancestors directory) (\<lambda>_.
         sbind (map_error (\<lambda>_. TamperedGeneration)
                  (setup_read_file (path_join directory ''profile.ini'') MAX_PROFILE_BYTES ''profile generation''))
           (\<lambda>bytes.
         sbind (slift (calculated_generation env bytes ''verification'')) (\<lambda>calculated.
         if calculated \<noteq> g then sraise TamperedGeneration else sret ()))))"

definition write_synced :: "path \<Rightarrow> string \<Rightarrow> unit setup_op" where
  "write_synced p bytes =
     sbind (fs_create_new p) (\<lambda>_. sbind (fs_write_all p bytes) (\<lambda>_. fs_sync_all p))"

definition staging_name :: "profile_generation_id \<Rightarrow> string \<Rightarrow> string" where
  "staging_name g suffix = ''.staging-'' @ directory_name g @ dash @ suffix"

definition check_staging_entry :: "path \<Rightarrow> string \<Rightarrow> unit setup_op" where
  "check_staging_entry staging name =
     (if name \<noteq> ''profile.ini'' \<and> name \<noteq> ''metadata.json''
      then sraise (SetupRuntime ''profile staging collision contains an unexpected entry'' [])
      else sbind (reject_reparse_ancestors (path_join staging name)) (\<lambda>_.
           sbind (fs_metadata (path_join staging name)) (\<lambda>metadata.
           if metadata = DirNode
           then sraise (SetupRuntime ''profile staging collision contains a non-regular entry'' [])
           else sret ())))"

definition remove_legacy_staging_collision :: "path \<Rightarrow> profile_generation_id \<Rightarrow> unit setup_op" where
  "remove_legacy_staging_collision root g d =
     (let staging = path_join root (staging_name g (show_nat (sd_pid d)))
      in sbind (path_exists staging) (\<lambda>there.
         if \<not> there then sret ()
         else sbind (reject_reparse_ancestors staging) (\<lambda>_.
              sbind (fs_metadata staging) (\<lambda>metadata.
              if metadata \<noteq> DirNode
              then sraise (SetupRuntime ''profile staging collision is not a protected directory'' [])
              else sbind (read_bounded_directory staging 2 ''profile staging entry count'') (\<lambda>names.
                   sbind (sfor names (check_staging_entry staging)) (\<lambda>_.
                   sbind (sfor names (\<lambda>name. fs_remove_file (path_join staging name))) (\<lambda>_.
                   fs_remove_dir staging)))))) d)"

definition stored_metadata_to_json :: "source_metadata \<Rightarrow> json" where
  "stored_metadata_to_json source =
     JObject [(''schema'', JNat 1), (''source'', JObject [(''displayName'', JString (display_name source))])]"

definition publish_generation ::
  "setup_env \<Rightarrow> profile_generation_id \<Rightarrow> string \<Rightarrow> source_metadata \<Rightarrow> unit setup_op" where
  "publish_generation env g contents source =
     (let root = profile_generations (en_paths env); destination = path_join root (directory_name g)
      in sbind (create_protected_directory root) (\<lambda>_.
         sbind (remove_legacy_staging_collision root g) (\<lambda>_.
         sbind (path_exists destination) (\<lambda>there.
         if there
         then sbind (verify_generation env g) (\<lambda>_.
              sbind (setup_read_file (path_join destination ''profile.ini'') MAX_PROFILE_BYTES
                       ''profile generation'') (\<lambda>bytes.
              if bytes \<noteq> contents then sraise TamperedGeneration else sret ()))
         else sbind temporary_nonce (\<lambda>nonce.
              let staging = path_join root (staging_name g nonce)
              in sbind (path_exists staging) (\<lambda>there.
                 if there then sraise (SetupRuntime ''profile staging directory already exists'' [])
                 else sbind (create_protected_directory staging) (\<lambda>_.
                      sbind (attempt (
                          sbind (write_synced (path_join staging ''profile.ini'') contents) (\<lambda>_.
                          sbind (write_synced (path_join staging ''metadata.json'')
                                   (en_print env (stored_metadata_to_json source))) (\<lambda>_.
                          sbind (fs_rename_dir staging destination) (\<lambda>_.
                          verify_generation env g))))) (\<lambda>result.
                      case result of
                        Inr _ \<Rightarrow> sret ()
                      | Inl e \<Rightarrow>
                          sbind (path_exists staging) (\<lambda>there.
                          sbind (swhen there (sbind (attempt (fs_remove_dir_all staging)) (\<lambda>_. sret ()))) (\<lambda>_.
                          sraise e))))))))))"

section \<open>The activation journal\<close>

definition activation_journal_path :: "setup_env \<Rightarrow> path" where
  "activation_journal_path env = profile_activation_journal (en_paths env)"

definition write_activation_journal ::
  "setup_env \<Rightarrow> profile_activation_phase \<Rightarrow> profile_generation_id option \<Rightarrow> profile_generation_id option \<Rightarrow>
     unit setup_op" where
  "write_activation_journal env phase active_before previous_before =
     atomic_write (activation_journal_path env)
       (en_print env (profile_journal_to_json
          \<lparr>pj_phase = phase, pj_active_before = active_before, pj_previous_before = previous_before\<rparr>))"

definition remove_activation_journal :: "setup_env \<Rightarrow> unit setup_op" where
  "remove_activation_journal env = remove_protected_file (activation_journal_path env)"

definition verify_optional :: "setup_env \<Rightarrow> profile_generation_id option \<Rightarrow> unit setup_op" where
  "verify_optional env g = (case g of None \<Rightarrow> sret () | Some g \<Rightarrow> verify_generation env g)"

text \<open>The arms of the phases that come before the pointers are restored.\<close>

definition recover_pending_delete :: "setup_env \<Rightarrow> profile_activation_journal \<Rightarrow> bool setup_op" where
  "recover_pending_delete env journal =
     (case pj_active_before journal of
        None \<Rightarrow> sraise (CleanupUnknown
           ''uncertain first-profile rollback journal has no active generation'' [])
      | Some active_before \<Rightarrow>
          sbind (read_optional_pointer env (active_profile (en_paths env))) (\<lambda>active_now.
          sbind (read_optional_pointer env (previous_profile (en_paths env))) (\<lambda>previous_now.
          if active_now \<noteq> Some active_before \<or> previous_now \<noteq> pj_previous_before journal
          then sraise (CleanupUnknown
                 ''profile pointers changed while first-profile deletion was uncertain'' [])
          else sbind (observe_materialized_generation env active_before) (\<lambda>observed.
               sbind (case observed of
                        ExactGeneration \<Rightarrow> sret True
                      | ObservedAbsent \<Rightarrow> restore_generation_after_confirmed_clear env active_before) (\<lambda>_.
               sbind (remove_activation_journal env) (\<lambda>_. sret True))))))"

definition recover_pointer_transition :: "setup_env \<Rightarrow> profile_activation_journal \<Rightarrow> unit setup_op" where
  "recover_pointer_transition env journal =
     sbind (read_optional_pointer env (active_profile (en_paths env))) (\<lambda>active_after.
     sbind (verify_optional env active_after) (\<lambda>_.
     if pj_active_before journal = None
     then (case active_after of
             Some active_after \<Rightarrow>
               sbind (clear_materialized_generation env active_after) (\<lambda>r.
               case r of Inl e \<Rightarrow> sraise (into_setup_error e) | Inr _ \<Rightarrow> sret ())
           | None \<Rightarrow> ensure_materialized_profile_absent env)
     else sret ()))"

definition restore_journaled_state :: "setup_env \<Rightarrow> profile_activation_journal \<Rightarrow> bool setup_op" where
  "restore_journaled_state env journal =
     sbind (restore_pointer env (active_profile (en_paths env)) (pj_active_before journal)) (\<lambda>_.
     sbind (restore_pointer env (previous_profile (en_paths env)) (pj_previous_before journal)) (\<lambda>_.
     sbind (case pj_active_before journal of
              None \<Rightarrow> sret True
            | Some active \<Rightarrow>
                if pj_phase journal = FirstRollbackDeleteConfirmed
                then restore_generation_after_confirmed_clear env active
                else materialize_generation env active) (\<lambda>_.
     sbind (remove_activation_journal env) (\<lambda>_. sret True))))"

definition recover_interrupted_activation :: "setup_env \<Rightarrow> bool setup_op" where
  "recover_interrupted_activation env =
     sbind (path_exists (activation_journal_path env)) (\<lambda>there.
     if \<not> there then sret False
     else sbind (setup_read_file (activation_journal_path env) MAX_ACTIVATION_JOURNAL_BYTES
                   ''profile activation journal'') (\<lambda>bytes.
          sbind (slift (parse_activation_journal (en_parse env) bytes)) (\<lambda>journal.
          sbind (verify_optional env (pj_active_before journal)) (\<lambda>_.
          sbind (verify_optional env (pj_previous_before journal)) (\<lambda>_.
          case pj_phase journal of
            FirstRollbackDeletePending \<Rightarrow> recover_pending_delete env journal
          | PointerTransition \<Rightarrow>
              sbind (recover_pointer_transition env journal) (\<lambda>_. restore_journaled_state env journal)
          | FirstRollbackDeleteConfirmed \<Rightarrow> restore_journaled_state env journal)))))"

definition finish_activation_transaction :: "setup_env \<Rightarrow> setup_error + unit \<Rightarrow> unit setup_op" where
  "finish_activation_transaction env transition =
     (case transition of
        Inr _ \<Rightarrow> remove_activation_journal env
      | Inl e \<Rightarrow>
          sbind (attempt (recover_interrupted_activation env)) (\<lambda>recovered.
          case recovered of
            Inr _ \<Rightarrow> sraise e
          | Inl recovery_error \<Rightarrow> sraise (SetupRuntime
              ''profile transition failed ({error}) and journal recovery failed ({recovery_error})''
              [e, recovery_error])))"

section \<open>Operations of the store\<close>

definition activation_transition ::
  "setup_env \<Rightarrow> profile_generation_id option \<Rightarrow> profile_generation_id \<Rightarrow> unit setup_op" where
  "activation_transition env active g =
     sbind (case active of
              None \<Rightarrow> sret ()
            | Some active \<Rightarrow>
                sbind (verify_generation env active) (\<lambda>_.
                write_pointer env (previous_profile (en_paths env)) active)) (\<lambda>_.
     sbind (write_pointer env (active_profile (en_paths env)) g) (\<lambda>_.
     sbind (materialize_generation env g) (\<lambda>_. sret ())))"

definition activate :: "setup_env \<Rightarrow> profile_generation_id \<Rightarrow> unit setup_op" where
  "activate env g =
     sbind (recover_interrupted_activation env) (\<lambda>_.
     sbind (verify_generation env g) (\<lambda>_.
     sbind (read_optional_pointer env (active_profile (en_paths env))) (\<lambda>active.
     if active = Some g
     then sbind (materialize_generation env g) (\<lambda>_. sret ())
     else sbind (read_optional_pointer env (previous_profile (en_paths env))) (\<lambda>previous_before.
          sbind (write_activation_journal env PointerTransition active previous_before) (\<lambda>_.
          sbind (attempt (activation_transition env active g)) (\<lambda>transition.
          finish_activation_transaction env transition))))))"

definition publish_and_activate ::
  "setup_env \<Rightarrow> string \<Rightarrow> source_metadata \<Rightarrow> profile_generation_id setup_op" where
  "publish_and_activate env contents source =
     sbind (recover_interrupted_activation env) (\<lambda>_.
     if trim_text (display_name source) = [] \<or> 256 < length (display_name source)
     then sraise InvalidMetadata
     else sbind (slift (calculated_generation env contents (display_name source))) (\<lambda>g.
          sbind (publish_generation env g contents source) (\<lambda>_.
          sbind (activate env g) (\<lambda>_. sret g))))"

definition rollback_transition ::
  "setup_env \<Rightarrow> profile_generation_id \<Rightarrow> profile_generation_id option \<Rightarrow> unit setup_op" where
  "rollback_transition env active previous =
     (case previous of
        Some previous \<Rightarrow>
          sbind (write_pointer env (previous_profile (en_paths env)) active) (\<lambda>_.
          sbind (write_pointer env (active_profile (en_paths env)) previous) (\<lambda>_.
          sbind (materialize_generation env previous) (\<lambda>_. sret ())))
      | None \<Rightarrow>
          sbind (restore_pointer env (active_profile (en_paths env)) None) (\<lambda>_.
          restore_pointer env (previous_profile (en_paths env)) None))"

definition clear_first_profile :: "setup_env \<Rightarrow> profile_generation_id \<Rightarrow> unit setup_op" where
  "clear_first_profile env active =
     sbind (clear_materialized_generation env active) (\<lambda>cleared.
     sbind (case cleared of
              Inr _ \<Rightarrow> sret ()
            | Inl (ClearUnchanged e) \<Rightarrow>
                sbind (map_error (\<lambda>journal_error. CleanupUnknown
                    ''profile was unchanged after cleanup rejection ({error}), but the activation journal could not be removed ({journal_error})''
                    [e, journal_error]) (remove_activation_journal env)) (\<lambda>_. sraise e)
            | Inl (ClearUnknown e) \<Rightarrow> sraise e) (\<lambda>_.
     sbind (ensure_materialized_profile_absent env) (\<lambda>_.
     map_error (\<lambda>e. CleanupUnknown
         ''generated profile was deleted, but its confirmed rollback phase could not be persisted: {error}'' [e])
       (write_activation_journal env FirstRollbackDeleteConfirmed (Some active) None))))"

definition rollback :: "setup_env \<Rightarrow> profile_generation_id option setup_op" where
  "rollback env =
     sbind (recover_interrupted_activation env) (\<lambda>_.
     sbind (read_optional_pointer env (active_profile (en_paths env))) (\<lambda>active.
     case active of
       None \<Rightarrow> sraise InvalidPointer
     | Some active \<Rightarrow>
         sbind (read_optional_pointer env (previous_profile (en_paths env))) (\<lambda>previous.
         sbind (verify_generation env active) (\<lambda>_.
         sbind (verify_optional env previous) (\<lambda>_.
         sbind (write_activation_journal env
                  (if previous = None then FirstRollbackDeletePending else PointerTransition)
                  (Some active) previous) (\<lambda>_.
         sbind (swhen (previous = None) (clear_first_profile env active)) (\<lambda>_.
         sbind (attempt (rollback_transition env active previous)) (\<lambda>transition.
         sbind (finish_activation_transaction env transition) (\<lambda>_. sret previous)))))))))"

definition active_generation_verified :: "setup_env \<Rightarrow> profile_generation_id option setup_op" where
  "active_generation_verified env =
     sbind (recover_interrupted_activation env) (\<lambda>_.
     sbind (read_optional_pointer env (active_profile (en_paths env))) (\<lambda>pointer.
     sbind (verify_optional env pointer) (\<lambda>_. sret pointer)))"

definition transaction_pending :: setup_error where
  "transaction_pending = SetupRuntime ''a profile transaction is pending'' []"

definition inspect_active_generation_stable :: "setup_env \<Rightarrow> profile_generation_id option setup_op" where
  "inspect_active_generation_stable env =
     (let journal = activation_journal_path env
      in sbind (path_exists journal) (\<lambda>pending.
         if pending then sbind (reject_reparse_ancestors journal) (\<lambda>_. sraise transaction_pending)
         else sbind (read_optional_pointer env (active_profile (en_paths env))) (\<lambda>pointer.
              sbind (path_exists journal) (\<lambda>pending.
              if pending then sraise transaction_pending
              else sbind (verify_optional env pointer) (\<lambda>_. sret pointer)))))"

definition synchronize_active_runtime :: "setup_env \<Rightarrow> profile_generation_id setup_op" where
  "synchronize_active_runtime env =
     sbind (active_generation_verified env) (\<lambda>active. case active of
       None \<Rightarrow> sraise (SetupRuntime ''no active machine profile exists'' [])
     | Some g \<Rightarrow>
         sbind (materialize_generation env g) (\<lambda>materialized.
         if \<not> materialized then sraise (SetupRuntime ''no active protected runtime is installed'' [])
         else sret g))"

end
