(* ===== verification/Setup_Logic.thy ===== *)
theory Setup_Logic
  imports Setup_Storage
begin

text \<open>
  Reasoning about setup operations that may fail or halt at every step.  A triple says what holds of
  the nodes of the disk after an operation that succeeded, and what holds after one that failed or
  halted; in healthy mode (\<open>h\<close>) there are no faults and the operation must succeed, so that one proof
  shows both that an operation is crash safe and that it succeeds on a sound machine.
\<close>

type_synonym nodes = "path \<Rightarrow> disk_node option"

text \<open>\<open>exists\<close> is truthful, there are no reparse points, and every path has one node.\<close>

definition calm :: "setup_disk \<Rightarrow> bool" where
  "calm d \<longleftrightarrow> sd_blind d = [] \<and> sd_reparse d = (\<lambda>_. False) \<and> distinct (map fst (sd_nodes d))"

definition nonce_at :: "setup_disk \<Rightarrow> nat \<Rightarrow> string" where
  "nonce_at d n = show_nat (sd_pid d) @ dash @ show_nat (sd_time d n) @ dash @ show_nat n"

text \<open>No fault ahead, and no file has one of the temporary names still to be drawn.\<close>

definition healthy :: "setup_disk \<Rightarrow> bool" where
  "healthy d \<longleftrightarrow> sd_faults d = []
     \<and> (\<forall>q name n. sd_sequence d \<le> n \<longrightarrow> node_at d (path_join q (temporary_name name (nonce_at d n))) = None)"

definition starts :: "bool \<Rightarrow> (nodes \<Rightarrow> bool) \<Rightarrow> setup_disk \<Rightarrow> bool" where
  "starts h P d \<longleftrightarrow> calm d \<and> (h \<longrightarrow> healthy d) \<and> P (node_at d)"

fun ends ::
  "bool \<Rightarrow> ('a \<Rightarrow> nodes \<Rightarrow> bool) \<Rightarrow> (nodes \<Rightarrow> bool) \<Rightarrow> (stop + 'a) \<times> setup_disk \<Rightarrow> bool" where
  "ends h Q C (Inr x, d) \<longleftrightarrow> starts h (Q x) d"
| "ends h Q C (Inl s, d) \<longleftrightarrow> \<not> h \<and> starts h C d"

definition triple ::
  "bool \<Rightarrow> (nodes \<Rightarrow> bool) \<Rightarrow> 'a setup_op \<Rightarrow> ('a \<Rightarrow> nodes \<Rightarrow> bool) \<Rightarrow> (nodes \<Rightarrow> bool) \<Rightarrow> bool" where
  "triple h P m Q C \<longleftrightarrow> (\<forall>d. starts h P d \<longrightarrow> ends h Q C (m d))"

lemma tripleI: "(\<And>d. starts h P d \<Longrightarrow> ends h Q C (m d)) \<Longrightarrow> triple h P m Q C"
  by (simp add: triple_def)

lemma tripleD: "triple h P m Q C \<Longrightarrow> starts h P d \<Longrightarrow> ends h Q C (m d)"
  by (simp add: triple_def)

section \<open>Structural rules\<close>

lemma sbind_assoc: "sbind (sbind m f) g = sbind m (\<lambda>x. sbind (f x) g)"
  by (auto simp: sbind_def fun_eq_iff split: prod.splits sum.splits)

lemma sbind_ret [simp]: "sbind (sret x) k = k x"
  by (simp add: sbind_def sret_def fun_eq_iff)

lemma sbind_raise [simp]: "sbind (sraise e) k = sraise e"
  by (simp add: sbind_def sraise_def fun_eq_iff)

lemma starts_mono: "starts h P d \<Longrightarrow> (\<And>N. P N \<Longrightarrow> Q N) \<Longrightarrow> starts h Q d"
  by (simp add: starts_def)

lemma ends_mono:
  "ends h Q C r \<Longrightarrow> (\<And>x N. Q x N \<Longrightarrow> Q' x N) \<Longrightarrow> (\<And>N. C N \<Longrightarrow> C' N) \<Longrightarrow> ends h Q' C' r"
  by (cases r; cases "fst r") (auto simp: starts_def)

lemma triple_conseq:
  assumes "triple h P m Q C"
    and "\<And>N. P' N \<Longrightarrow> P N" and "\<And>x N. Q x N \<Longrightarrow> Q' x N" and "\<And>N. C N \<Longrightarrow> C' N"
  shows "triple h P' m Q' C'"
proof (rule tripleI)
  fix d assume "starts h P' d"
  then have "starts h P d" using assms(2) by (rule starts_mono)
  from tripleD [OF assms(1) this] show "ends h Q' C' (m d)" by (rule ends_mono) (fact assms(3), fact assms(4))
qed

lemma triple_post:
  assumes "triple h P m Q C" and "\<And>x N. Q x N \<Longrightarrow> Q' x N"
  shows "triple h P m Q' C"
  using assms(1) _ assms(2) by (rule triple_conseq)

lemma triple_pre:
  assumes "triple h P m Q C" and "\<And>N. P' N \<Longrightarrow> P N"
  shows "triple h P' m Q C"
  using assms by (rule triple_conseq)

lemma triple_ret: "(\<And>N. P N \<Longrightarrow> Q x N) \<Longrightarrow> triple h P (sret x) Q C"
  by (rule tripleI) (auto simp: sret_def elim: starts_mono)

lemma triple_raise: "(\<And>N. P N \<Longrightarrow> \<not> h \<and> C N) \<Longrightarrow> triple h P (sraise e) Q C"
  by (rule tripleI) (auto simp: sraise_def starts_def)

lemma triple_bind:
  assumes "triple h P m R C" and "\<And>x. triple h (R x) (k x) Q C"
  shows "triple h P (sbind m k) Q C"
proof (rule tripleI)
  fix d assume "starts h P d"
  then have 1: "ends h R C (m d)" by (rule tripleD [OF assms(1)])
  obtain r d1 where m: "m d = (r, d1)" by fastforce
  show "ends h Q C (sbind m k d)"
    using 1 tripleD [OF assms(2)] by (cases r) (auto simp: sbind_def m)
qed

lemma triple_attempt:
  assumes "triple h P m Q C"
  shows "triple h P (attempt m) (\<lambda>r N. case r of Inr x \<Rightarrow> Q x N | Inl _ \<Rightarrow> \<not> h \<and> C N) C"
proof (rule tripleI)
  fix d assume "starts h P d"
  then have 1: "ends h Q C (m d)" by (rule tripleD [OF assms])
  obtain r d1 where m: "m d = (r, d1)" by fastforce
  show "ends h (\<lambda>r N. case r of Inr x \<Rightarrow> Q x N | Inl _ \<Rightarrow> \<not> h \<and> C N) C (attempt m d)"
    using 1 by (cases r rule: sum.exhaust; cases "projl r") (auto simp: attempt_def m starts_def)
qed

lemma triple_map_error:
  assumes "triple h P m Q C"
  shows "triple h P (map_error f m) Q C"
  unfolding map_error_def
  by (rule triple_bind [OF triple_attempt [OF assms]])
    (auto intro!: triple_ret triple_raise split: sum.splits)

lemma triple_if:
  "(b \<Longrightarrow> triple h P m Q C) \<Longrightarrow> (\<not> b \<Longrightarrow> triple h P m' Q C) \<Longrightarrow> triple h P (if b then m else m') Q C"
  by simp

lemma triple_fact:
  assumes "\<And>N. P N \<Longrightarrow> F" and "F \<Longrightarrow> triple h P m Q C"
  shows "triple h P m Q C"
  using assms unfolding triple_def starts_def by blast

lemma triple_at:
  assumes "\<And>N. P N \<Longrightarrow> triple h (\<lambda>N'. N' = N) m Q C"
  shows "triple h P m Q C"
  using assms unfolding triple_def starts_def by blast

text \<open>A step whose answer is known.\<close>

lemma triple_bind_eq:
  assumes "triple h P m (\<lambda>x N. P N \<and> x = c) C" and "triple h P (k c) Q C"
  shows "triple h P (sbind m k) Q C"
proof (rule triple_bind [OF assms(1)])
  show "triple h (\<lambda>N. P N \<and> x = c) (k x) Q C" for x
    by (rule triple_fact [where F = "x = c"]) (auto intro: triple_pre [OF assms(2)])
qed

lemma triple_ex:
  assumes "\<And>x. triple h (P x) m Q C"
  shows "triple h (\<lambda>N. \<exists>x. P x N) m Q C"
  using assms unfolding triple_def starts_def by blast

section \<open>Operations that only look\<close>

lemma calm_update [simp]:
  "calm (d\<lparr>sd_faults := fs\<rparr>) = calm d" "calm (d\<lparr>sd_sequence := n\<rparr>) = calm d"
  by (simp_all add: calm_def)

lemma node_at_update [simp]:
  "node_at (d\<lparr>sd_faults := fs\<rparr>) = node_at d" "node_at (d\<lparr>sd_sequence := n\<rparr>) = node_at d"
  by (simp_all add: node_at_def fun_eq_iff)

lemma node_at_set [simp]: "node_at (set_node p n d) = (node_at d)(p \<mapsto> n)"
  by (simp add: node_at_def set_node_def update_conv' fun_eq_iff)

lemma node_at_drop [simp]: "node_at (drop_node p d) = (node_at d)(p := None)"
  by (simp add: node_at_def drop_node_def delete_conv' fun_eq_iff)

lemma calm_set [simp]: "calm d \<Longrightarrow> calm (set_node p n d)" "calm d \<Longrightarrow> calm (drop_node p d)"
  by (auto simp: calm_def set_node_def drop_node_def distinct_update distinct_delete)

lemma starts_faults: "starts False P (d\<lparr>sd_faults := fs\<rparr>) = starts False P d"
  by (simp add: starts_def)

text \<open>An operation draws a fault, unless the mode is healthy.\<close>

lemma ends_io_op:
  assumes "starts h P d"
    and "\<And>d. starts h P d \<Longrightarrow> ends h Q C (let (r, d) = run d in (map_sum (\<lambda>k. Raised (SetupIo k)) id r, d))"
    and "\<And>d n. \<not> h \<Longrightarrow> starts h P d \<Longrightarrow> starts h C (torn n d)"
  shows "ends h Q C (io_op run torn d)"
proof (cases "sd_faults d")
  case Nil
  then show ?thesis using assms(1,2) by (simp add: io_op_def take_fault_def)
next
  case (Cons f fs)
  then have "\<not> h" using assms(1) by (auto simp: starts_def healthy_def)
  then have "starts h P (d\<lparr>sd_faults := fs\<rparr>)" using assms(1) by (simp add: starts_def)
  with Cons \<open>\<not> h\<close> assms(2,3) show ?thesis by (cases f) (auto simp: io_op_def take_fault_def)
qed

lemma triple_io_op:
  assumes "\<And>d. starts h P d \<Longrightarrow> ends h Q C (let (r, d) = run d in (map_sum (\<lambda>k. Raised (SetupIo k)) id r, d))"
    and "\<And>d n. \<not> h \<Longrightarrow> starts h P d \<Longrightarrow> starts h C (torn n d)"
  shows "triple h P (io_op run torn) Q C"
  using assms by (intro tripleI ends_io_op)

lemma triple_io_read:
  assumes "\<And>d. starts h P d \<Longrightarrow>
      case look d of Inr x \<Rightarrow> Q x (node_at d) | Inl _ \<Rightarrow> \<not> h \<and> C (node_at d)"
    and "\<And>N. P N \<Longrightarrow> C N"
  shows "triple h P (io_read look) Q C"
  unfolding io_read_def
proof (rule triple_io_op)
  fix d assume d: "starts h P d"
  then show "ends h Q C (let (r, d) = (look d, d) in (map_sum (\<lambda>k. Raised (SetupIo k)) id r, d))"
    using assms(1) [OF d] by (cases "look d") (auto simp: starts_def)
qed (auto elim: starts_mono intro: assms(2))

lemma triple_seen:
  assumes "\<And>d. look d = f (node_at d)"
  shows "triple h P (seen look) (\<lambda>x N. P N \<and> x = f N) C"
  by (rule tripleI) (auto simp: seen_def starts_def calm_def assms)

lemma triple_exists: "triple h P (path_exists p) (\<lambda>x N. P N \<and> x = (N p \<noteq> None)) C"
  unfolding path_exists_def by (rule triple_seen) simp

lemma triple_is_dir: "triple h P (path_is_dir p) (\<lambda>x N. P N \<and> x = (N p = Some DirNode)) C"
  unfolding path_is_dir_def by (rule triple_seen) simp

lemma triple_fs_is_reparse:
  "(\<And>N. P N \<Longrightarrow> C N) \<Longrightarrow> triple h P (fs_is_reparse p) (\<lambda>x N. P N \<and> \<not> x) C"
  unfolding fs_is_reparse_def by (rule triple_io_read) (auto simp: starts_def calm_def)

lemma triple_handle_is_reparse:
  "(\<And>N. P N \<Longrightarrow> C N) \<Longrightarrow> triple h P (fs_handle_is_reparse p) (\<lambda>x N. P N \<and> \<not> x) C"
  unfolding fs_handle_is_reparse_def by (rule triple_io_read) (auto simp: starts_def calm_def)

lemma triple_metadata:
  assumes "\<And>N. P N \<Longrightarrow> C N" and "\<And>N. P N \<Longrightarrow> h \<Longrightarrow> N p \<noteq> None"
  shows "triple h P (fs_metadata p) (\<lambda>x N. P N \<and> N p = Some x) C"
  unfolding fs_metadata_def
proof (rule triple_io_read)
  fix d assume "starts h P d"
  then show "case (case node_at d p of None \<Rightarrow> Inl IoNotFound | Some n \<Rightarrow> Inr n) of
      Inl _ \<Rightarrow> \<not> h \<and> C (node_at d) | Inr x \<Rightarrow> P (node_at d) \<and> node_at d p = Some x"
    using assms(1,2) [of "node_at d"] by (cases "node_at d p") (auto simp: starts_def)
qed (rule assms(1))

text \<open>A failed look at the metadata is told apart from an absent file.\<close>

lemma triple_try_metadata:
  assumes "\<And>N. P N \<Longrightarrow> C N"
  shows "triple h P (attempt (fs_metadata p))
    (\<lambda>r N. P N \<and> (case r of Inr n \<Rightarrow> N p = Some n
       | Inl e \<Rightarrow> (e = SetupIo IoNotFound \<and> N p = None) \<or> (\<not> h \<and> e \<noteq> SetupIo IoNotFound))) C"
proof (rule tripleI)
  fix d assume d: "starts h P d"
  show "ends h (\<lambda>r N. P N \<and> (case r of Inr n \<Rightarrow> N p = Some n
       | Inl e \<Rightarrow> (e = SetupIo IoNotFound \<and> N p = None) \<or> (\<not> h \<and> e \<noteq> SetupIo IoNotFound))) C
      (attempt (fs_metadata p) d)"
  proof (cases "sd_faults d")
    case Nil
    then show ?thesis using d
      by (cases "node_at d p")
        (auto simp: attempt_def fs_metadata_def io_read_def io_op_def take_fault_def starts_def)
  next
    case (Cons f fs)
    then have "\<not> h" using d by (auto simp: starts_def healthy_def)
    with Cons d assms show ?thesis
      by (cases f; cases "node_at d p")
        (auto simp: attempt_def fs_metadata_def io_read_def io_op_def take_fault_def starts_def)
  qed
qed

lemma triple_open_read:
  assumes "\<And>N. P N \<Longrightarrow> C N" and "\<And>N. P N \<Longrightarrow> h \<Longrightarrow> \<exists>c. N p = Some (FileNode c)"
  shows "triple h P (fs_open_read p) (\<lambda>x N. P N \<and> (\<exists>c. N p = Some (FileNode c))) C"
  unfolding fs_open_read_def
proof (rule triple_io_read)
  fix d assume "starts h P d"
  then have "P (node_at d)" by (simp add: starts_def)
  with assms(1,2) [of "node_at d"] show "case (case node_at d p of
        None \<Rightarrow> Inl IoNotFound | Some (FileNode _) \<Rightarrow> Inr () | Some DirNode \<Rightarrow> Inl IoOther) of
      Inl _ \<Rightarrow> \<not> h \<and> C (node_at d) | Inr x \<Rightarrow> P (node_at d) \<and> (\<exists>c. node_at d p = Some (FileNode c))"
    by (auto split: option.splits disk_node.splits)
qed (rule assms(1))

lemma triple_read_limited:
  assumes "\<And>N. P N \<Longrightarrow> C N" and "\<And>N. P N \<Longrightarrow> h \<Longrightarrow> \<exists>c. N p = Some (FileNode c)"
  shows "triple h P (fs_read_limited p n) (\<lambda>x N. P N \<and> (\<exists>c. N p = Some (FileNode c) \<and> x = take n c)) C"
  unfolding fs_read_limited_def
proof (rule triple_io_read)
  fix d assume "starts h P d"
  then have "P (node_at d)" by (simp add: starts_def)
  with assms(1,2) [of "node_at d"] show "case (case node_at d p of
        Some (FileNode c) \<Rightarrow> Inr (take n c) | _ \<Rightarrow> Inl IoOther) of
      Inl _ \<Rightarrow> \<not> h \<and> C (node_at d)
    | Inr x \<Rightarrow> P (node_at d) \<and> (\<exists>c. node_at d p = Some (FileNode c) \<and> x = take n c)"
    by (auto split: option.splits disk_node.splits)
qed (rule assms(1))

lemma triple_sync_all: "(\<And>N. P N \<Longrightarrow> C N) \<Longrightarrow> triple h P (fs_sync_all p) (\<lambda>_. P) C"
  unfolding fs_sync_all_def by (rule triple_io_read) (auto simp: starts_def)

lemma triple_next_entry: "(\<And>N. P N \<Longrightarrow> C N) \<Longrightarrow> triple h P fs_next_entry (\<lambda>_. P) C"
  unfolding fs_next_entry_def by (rule triple_io_read) (auto simp: starts_def)

lemma triple_reject_list:
  assumes "\<And>N. P N \<Longrightarrow> C N"
  shows "triple h P (reject_reparse_list ps) (\<lambda>_. P) C"
proof (induction ps)
  case Nil
  then show ?case by (simp add: triple_ret)
next
  case (Cons p ps)
  have step: "triple h P (sbind (fs_is_reparse p)
      (\<lambda>reparse. if reparse then sraise (ReparsePoint p) else reject_reparse_list ps)) (\<lambda>_. P) C"
    by (rule triple_bind [OF triple_fs_is_reparse [OF assms]])
      (auto intro!: triple_if triple_raise triple_pre [OF Cons])
  show ?case unfolding reject_reparse_list.simps
    by (rule triple_bind [OF triple_exists]) (auto intro!: triple_if triple_pre [OF step] triple_pre [OF Cons])
qed

lemma triple_reject: "(\<And>N. P N \<Longrightarrow> C N) \<Longrightarrow> triple h P (reject_reparse_ancestors p) (\<lambda>_. P) C"
  unfolding reject_reparse_ancestors_def by (rule triple_reject_list)

lemma map_of_Some_iff: "distinct (map fst xs) \<Longrightarrow> map_of xs p \<noteq> None \<longleftrightarrow> p \<in> fst ` set xs"
  by (simp add: map_of_eq_None_iff)

lemma path_child_iff:
  "path_parent q = Some p \<and> path_file_name q = Some n \<longleftrightarrow> q = path_join p n"
  by (cases q rule: rev_cases)
    (auto simp: path_parent_def path_file_name_def path_join_def split: path_component.splits)

definition entries_at :: "path \<Rightarrow> nodes \<Rightarrow> string set" where
  "entries_at p N = {n. N (path_join p n) \<noteq> None}"

lemma names_of_nodes:
  assumes "distinct (map fst xs)"
  shows "distinct (List.map_filter
      (\<lambda>(q, _). if path_parent q = Some p then path_file_name q else None) xs)"
    and "set (List.map_filter (\<lambda>(q, _). if path_parent q = Some p then path_file_name q else None) xs)
      = {n. map_of xs (path_join p n) \<noteq> None}"
proof -
  have hit: "(if path_parent q = Some p then path_file_name q else None) = Some n \<longleftrightarrow> q = path_join p n" for q n
    using path_child_iff [of q p n] by auto
  have set_eq: "set (List.map_filter
      (\<lambda>(q, _). if path_parent q = Some p then path_file_name q else None) ys) = {n. path_join p n \<in> fst ` set ys}" for ys :: "(path \<times> 'a) list"
  proof (induction ys)
    case (Cons y ys)
    then show ?case using hit [of "fst y"]
      by (cases y; cases "if path_parent (fst y) = Some p then path_file_name (fst y) else None")
        (auto simp: List.map_filter_simps split: if_splits)
  qed (simp add: List.map_filter_simps)
  from this [of xs] show "set (List.map_filter
      (\<lambda>(q, _). if path_parent q = Some p then path_file_name q else None) xs) = {n. map_of xs (path_join p n) \<noteq> None}" unfolding map_of_Some_iff [OF assms] .
  show "distinct (List.map_filter (\<lambda>(q, _). if path_parent q = Some p then path_file_name q else None) xs)"
    using assms
  proof (induction xs)
    case (Cons x xs)
    then show ?case using hit [of "fst x"] set_eq [of xs]
      by (cases x; cases "if path_parent (fst x) = Some p then path_file_name (fst x) else None")
        (auto simp: List.map_filter_simps split: if_splits)
  qed (simp add: List.map_filter_simps)
qed

lemma triple_names:
  assumes "\<And>N. P N \<Longrightarrow> C N" and "\<And>N. P N \<Longrightarrow> N p = Some DirNode"
  shows "triple h P (fs_names p) (\<lambda>x N. P N \<and> distinct x \<and> set x = entries_at p N) C"
  unfolding fs_names_def
proof (rule triple_io_read)
  fix d assume "starts h P d"
  then have "node_at d p = Some DirNode" "P (node_at d)" "distinct (map fst (sd_nodes d))"
    using assms(2) by (auto simp: starts_def calm_def)
  then show "case (if node_at d p = Some DirNode
        then Inr (List.map_filter (\<lambda>(q, _). if path_parent q = Some p then path_file_name q else None) (sd_nodes d))
        else Inl IoOther) of
      Inl _ \<Rightarrow> \<not> h \<and> C (node_at d)
    | Inr x \<Rightarrow> P (node_at d) \<and> distinct x \<and> set x = entries_at p (node_at d)"
    using names_of_nodes [of "sd_nodes d" p] by (simp add: entries_at_def node_at_def)
qed (rule assms(1))

lemma triple_collect_entries:
  assumes "\<And>N. P N \<Longrightarrow> C N" and "length es + length ns \<le> n"
  shows "triple h P (collect_entries n desc ns es) (\<lambda>x N. P N \<and> x = es @ ns) C"
  using assms(2)
proof (induction ns arbitrary: es)
  case Nil
  then show ?case by (simp add: triple_ret)
next
  case (Cons m ns)
  from Cons.prems have "length (es @ [m]) + length ns \<le> n" "length es \<noteq> n" by auto
  then show ?case
    using Cons.IH [of "es @ [m]"] by (auto intro: triple_bind [OF triple_next_entry [OF assms(1)]])
qed

text \<open>A bounded listing gives the entries once each.\<close>

lemma triple_read_bounded_directory:
  assumes C: "\<And>N. P N \<Longrightarrow> C N" and dir: "\<And>N. P N \<Longrightarrow> N p = Some DirNode"
    and few: "\<And>N. P N \<Longrightarrow> card (entries_at p N) \<le> n"
  shows "triple h P (read_bounded_directory p n desc)
    (\<lambda>x N. P N \<and> distinct x \<and> set x = entries_at p N) C"
proof -
  have list: "triple h (\<lambda>N. P N \<and> distinct x \<and> set x = entries_at p N) (collect_entries n desc x [])
      (\<lambda>y N. P N \<and> distinct y \<and> set y = entries_at p N) C" for x
  proof (rule triple_fact [where F = "length x \<le> n"])
    show "length x \<le> n" if "P N \<and> distinct x \<and> set x = entries_at p N" for N
      using that few [of N] by (metis distinct_card)
    assume "length x \<le> n"
    then show "triple h (\<lambda>N. P N \<and> distinct x \<and> set x = entries_at p N) (collect_entries n desc x [])
      (\<lambda>y N. P N \<and> distinct y \<and> set y = entries_at p N) C"
      by (intro triple_post [OF triple_collect_entries]) (auto intro: C)
  qed
  have look: "triple h P (fs_metadata p) (\<lambda>x N. P N \<and> x = DirNode) C"
    by (rule triple_post [OF triple_metadata]) (auto intro: C dest: dir)
  show ?thesis
    unfolding read_bounded_directory_def
  proof (rule triple_bind [OF triple_reject [OF C]], assumption, rule triple_bind [OF look], rule triple_if)
    show "triple h (\<lambda>N. P N \<and> x = DirNode)
        (sraise (SetupRuntime (desc @ '' is not a regular directory'') [])) Q C" if "x \<noteq> DirNode" for x Q
      using that by (auto intro: triple_raise)
    show "triple h (\<lambda>N. P N \<and> x = DirNode) (sbind (fs_names p) (\<lambda>names. collect_entries n desc names []))
        (\<lambda>x N. P N \<and> distinct x \<and> set x = entries_at p N) C" for x
    proof (rule triple_pre [OF triple_bind])
      show "triple h P (fs_names p) (\<lambda>x N. P N \<and> distinct x \<and> set x = entries_at p N) C"
        by (rule triple_names) (fact C, fact dir)
    qed (rule list, simp)
  qed
qed

text \<open>Reading a file that is there gives its bytes.\<close>

lemma triple_setup_read_file:
  assumes "\<And>N. P N \<Longrightarrow> C N"
    and "\<And>N. P N \<Longrightarrow> N p = Some (FileNode c)" and "c \<noteq> []" and "length c \<le> n"
  shows "triple h P (setup_read_file p n desc) (\<lambda>x N. P N \<and> x = c) C"
proof -
  have look: "triple h P (fs_metadata p) (\<lambda>x N. P N \<and> x = FileNode c) C"
    by (rule triple_post [OF triple_metadata]) (auto intro: assms(1) dest: assms(2))
  have open_it: "triple h P (fs_open_read p) (\<lambda>_. P) C"
    by (rule triple_post [OF triple_open_read]) (auto intro: assms(1) dest: assms(2))
  have take_it: "triple h P (fs_read_limited p (n + 1)) (\<lambda>x N. P N \<and> x = c) C"
    by (rule triple_post [OF triple_read_limited]) (use assms(4) in \<open>auto intro: assms(1) dest: assms(2)\<close>)
  have rest: "triple h P (sbind (fs_open_read p) (\<lambda>_. sbind (fs_read_limited p (n + 1)) (\<lambda>bytes.
      if bytes = [] \<or> n < length bytes then sraise (unbounded_file desc) else sret bytes)))
      (\<lambda>x N. P N \<and> x = c) C"
    by (rule triple_bind [OF open_it], rule triple_bind_eq [OF take_it]) (use assms(3,4) in \<open>simp add: triple_ret\<close>)
  show ?thesis
    unfolding setup_read_file_def
    by (rule triple_bind [OF triple_reject [OF assms(1)]], assumption, rule triple_bind_eq [OF look])
      (use assms(3,4) rest in \<open>simp add: node_length_def\<close>)
qed

section \<open>Operations that write\<close>

lemma io_op_fine:
  "sd_faults d = [] \<Longrightarrow> io_op run torn d = (let (r, d) = run d in (map_sum (\<lambda>k. Raised (SetupIo k)) id r, d))"
  by (simp add: io_op_def take_fault_def)

lemma sd_faults_set [simp]:
  "sd_faults (set_node p n d) = sd_faults d" "sd_faults (drop_node p d) = sd_faults d"
  "sd_sequence (set_node p n d) = sd_sequence d" "sd_sequence (drop_node p d) = sd_sequence d"
  "nonce_at (set_node p n d) = nonce_at d" "nonce_at (drop_node p d) = nonce_at d"
  by (simp_all add: set_node_def drop_node_def nonce_at_def fun_eq_iff)

text \<open>Removing a node keeps the names still to be drawn free, and so does writing a plain one.\<close>

lemma healthy_drop: "healthy d \<Longrightarrow> healthy (drop_node p d)"
  by (simp add: healthy_def)

definition plain_name :: "path \<Rightarrow> bool" where
  "plain_name p \<longleftrightarrow> (case path_file_name p of Some (c # _) \<Rightarrow> c \<noteq> CHR ''.'' | _ \<Rightarrow> True)"

lemma plain_not_temporary: "plain_name p \<Longrightarrow> p \<noteq> path_join q (temporary_name name nonce)"
  by (auto simp: plain_name_def temporary_name_def)

lemma healthy_set: "healthy d \<Longrightarrow> plain_name p \<Longrightarrow> healthy (set_node p n d)"
  by (auto simp: healthy_def dest: plain_not_temporary)

lemma triple_remove_file:
  assumes "\<And>N. P N \<Longrightarrow> C N" and "\<And>N. P N \<Longrightarrow> h \<Longrightarrow> \<exists>c. N p = Some (FileNode c)"
    and "\<And>N c. P N \<Longrightarrow> N p = Some (FileNode c) \<Longrightarrow> Q (N(p := None))"
  shows "triple h P (fs_remove_file p) (\<lambda>_. Q) C"
  unfolding fs_remove_file_def io_write_def
proof (rule triple_io_op)
  fix d assume d: "starts h P d"
  then have p: "P (node_at d)" by (simp add: starts_def)
  show "ends h (\<lambda>_. Q) C
     (let (r, d) = (case node_at d p of None \<Rightarrow> (Inl IoNotFound, d) | Some (FileNode _) \<Rightarrow> (Inr (), drop_node p d)
         | Some DirNode \<Rightarrow> (Inl IoOther, d))
      in (map_sum (\<lambda>k. Raised (SetupIo k)) id r, d))"
    using d assms(1,2) [OF p] assms(3) [OF p]
    by (auto simp: starts_def healthy_drop split: option.splits disk_node.splits)
qed (auto elim: starts_mono intro: assms(1))

lemma triple_mark_for_deletion:
  assumes "\<And>N. P N \<Longrightarrow> C N" and "\<And>N. P N \<Longrightarrow> C (N(p := None))"
    and "\<And>N. P N \<Longrightarrow> Q (N(p := None))"
  shows "triple h P (fs_mark_for_deletion p) (\<lambda>_. Q) C"
  unfolding fs_mark_for_deletion_def
  by (rule triple_io_op) (auto simp: starts_def healthy_drop assms)

section \<open>Atomic writes\<close>

text \<open>All directories of a path are there.\<close>

definition dirs_ok :: "nodes \<Rightarrow> path \<Rightarrow> bool" where
  "dirs_ok N p \<longleftrightarrow> list_all (\<lambda>q. N q = Some DirNode) (path_ancestors p)"

lemma triple_create_dir_all:
  assumes "\<And>N. P N \<Longrightarrow> C N" and "\<And>N. P N \<Longrightarrow> dirs_ok N p"
  shows "triple h P (fs_create_dir_all p) (\<lambda>_. P) C"
proof -
  have none: "missing_dirs d p = []"
    "\<not> list_ex (\<lambda>q. (\<exists>n. node_at d q = Some n) \<and> node_at d q \<noteq> Some DirNode) (path_ancestors p)"
    if "starts h P d" for d
    using assms(2) [of "node_at d"] that
    by (auto simp: dirs_ok_def missing_dirs_def starts_def list_all_iff list_ex_iff)
  show ?thesis
    unfolding fs_create_dir_all_def
    by (rule triple_io_op) (auto simp: none make_dirs_def elim: starts_mono intro: assms(1))
qed

lemma triple_create_protected_directory:
  assumes "\<And>N. P N \<Longrightarrow> C N" and "\<And>N. P N \<Longrightarrow> dirs_ok N p"
  shows "triple h P (create_protected_directory p) (\<lambda>_. P) C"
  unfolding create_protected_directory_def
  by (intro triple_bind [where R = "\<lambda>_. P"] triple_reject triple_create_dir_all assms)

definition is_nonce :: "string \<Rightarrow> bool" where
  "is_nonce s \<longleftrightarrow> (\<exists>a b c. s = show_nat a @ dash @ show_nat b @ dash @ show_nat c)"

text \<open>A temporary file an interrupted write may leave behind.\<close>

definition left_over :: "path \<Rightarrow> string \<Rightarrow> nodes \<Rightarrow> nodes \<Rightarrow> bool" where
  "left_over q name N N' \<longleftrightarrow> N' = N
     \<or> (\<exists>nonce. is_nonce nonce
          \<and> (N' = N(path_join q (temporary_name name nonce) := None)
             \<or> N (path_join q (temporary_name name nonce)) = None
               \<and> (\<exists>c. N' = N(path_join q (temporary_name name nonce) \<mapsto> FileNode c))))"

lemma triple_create_new:
  "triple False (\<lambda>N'. N' = N) (fs_create_new t) (\<lambda>_ N'. N t = None \<and> N' = N(t \<mapsto> FileNode [])) (\<lambda>N'. N' = N)"
  unfolding fs_create_new_def io_write_def
  by (rule triple_io_op) (auto simp: starts_def)

lemma triple_write_all:
  "triple False (\<lambda>N'. N' = N(t \<mapsto> FileNode c)) (fs_write_all t bytes)
     (\<lambda>_ N'. N' = N(t \<mapsto> FileNode (c @ bytes))) (\<lambda>N'. \<exists>c. N' = N(t \<mapsto> FileNode c))"
  unfolding fs_write_all_def
  by (rule triple_io_op) (auto simp: starts_def append_to_def)

lemma triple_replace:
  assumes "t \<noteq> p" and "N t = None"
  shows "triple False (\<lambda>N'. N' = N(t \<mapsto> FileNode c)) (replace_file t p)
     (\<lambda>_ N'. N' = N(p \<mapsto> FileNode c)) (\<lambda>N'. \<exists>c. N' = N(t \<mapsto> FileNode c))"
  unfolding replace_file_def io_write_def
  by (rule triple_io_op) (auto simp: starts_def assms fun_upd_twist fun_upd_idem)

lemma triple_write_and_replace:
  assumes "t \<noteq> p"
  shows "triple False (\<lambda>N'. N' = N) (write_and_replace t p bytes) (\<lambda>_ N'. N' = N(p \<mapsto> FileNode bytes))
     (\<lambda>N'. N' = N \<or> N t = None \<and> (\<exists>c. N' = N(t \<mapsto> FileNode c)))"
proof (cases "N t = None")
  case True
  let ?C = "\<lambda>N'. N' = N \<or> N t = None \<and> (\<exists>c. N' = N(t \<mapsto> FileNode c))"
  have create: "triple False (\<lambda>N'. N' = N) (fs_create_new t) (\<lambda>_ N'. N' = N(t \<mapsto> FileNode [])) ?C"
    by (rule triple_conseq [OF triple_create_new]) auto
  have fill: "triple False (\<lambda>N'. N' = N(t \<mapsto> FileNode [])) (fs_write_all t bytes)
      (\<lambda>_ N'. N' = N(t \<mapsto> FileNode bytes)) ?C"
    by (rule triple_conseq [OF triple_write_all [where c = "[]"]]) (auto simp: True)
  have sync: "triple False (\<lambda>N'. N' = N(t \<mapsto> FileNode bytes)) (fs_sync_all t)
      (\<lambda>_ N'. N' = N(t \<mapsto> FileNode bytes)) ?C"
    by (rule triple_sync_all) (auto simp: True)
  have replace: "triple False (\<lambda>N'. N' = N(t \<mapsto> FileNode bytes)) (replace_file t p)
      (\<lambda>_ N'. N' = N(p \<mapsto> FileNode bytes)) ?C"
    by (rule triple_conseq [OF triple_replace [where N = N, OF assms True]]) (auto simp: True)
  show ?thesis
    unfolding write_and_replace_def by (rule triple_bind create fill sync replace)+
next
  case False
  have "triple False (\<lambda>N'. N' = N) (fs_create_new t) (\<lambda>_ _. False) (\<lambda>N'. N' = N)"
    by (rule triple_conseq [OF triple_create_new]) (use False in auto)
  moreover have "triple False (\<lambda>_. False) m Q C" for m :: "'a setup_op" and Q C
    by (simp add: triple_def starts_def)
  ultimately show ?thesis
    unfolding write_and_replace_def using False
    by (intro triple_bind [where R = "\<lambda>_ _. False"]) (auto elim: triple_conseq)
qed

lemma is_nonce_at: "is_nonce (nonce_at d n)"
  by (auto simp: is_nonce_def nonce_at_def)

lemma temporary_nonce_eq:
  "temporary_nonce d = (Inr (nonce_at d (sd_sequence d)), d\<lparr>sd_sequence := sd_sequence d + 1\<rparr>)"
  by (simp add: temporary_nonce_def nonce_at_def)

lemma triple_temporary_nonce:
  "triple False P temporary_nonce (\<lambda>s N. P N \<and> is_nonce s) C"
  by (rule tripleI) (simp add: temporary_nonce_eq starts_def is_nonce_at)

definition replace_with_temporary :: "path \<Rightarrow> string \<Rightarrow> path \<Rightarrow> string \<Rightarrow> unit setup_op" where
  "replace_with_temporary q name p bytes =
     sbind temporary_nonce (\<lambda>nonce.
     let temporary = path_join q (temporary_name name nonce)
     in sbind (attempt (write_and_replace temporary p bytes)) (\<lambda>result.
        case result of
          Inl e \<Rightarrow> sbind (attempt (fs_remove_file temporary)) (\<lambda>_. sraise e)
        | Inr _ \<Rightarrow> sret ()))"

lemma triple_replace_with_temporary:
  assumes "plain_name p"
  shows "triple False (\<lambda>N'. N' = N) (replace_with_temporary q name p bytes)
     (\<lambda>_ N'. N' = N(p \<mapsto> FileNode bytes)) (left_over q name N)"
  unfolding replace_with_temporary_def Let_def
proof (rule triple_bind [OF triple_temporary_nonce])
  fix nonce
  let ?t = "path_join q (temporary_name name nonce)"
  let ?C = "\<lambda>N'. N' = N \<or> N ?t = None \<and> (\<exists>c. N' = N(?t \<mapsto> FileNode c))"
  show "triple False (\<lambda>N'. N' = N \<and> is_nonce nonce)
      (sbind (attempt (write_and_replace ?t p bytes)) (\<lambda>result.
         case result of Inl e \<Rightarrow> sbind (attempt (fs_remove_file ?t)) (\<lambda>_. sraise e) | Inr _ \<Rightarrow> sret ()))
      (\<lambda>_ N'. N' = N(p \<mapsto> FileNode bytes)) (left_over q name N)"
  proof (rule triple_fact [where F = "is_nonce nonce"])
    assume nonce: "is_nonce nonce"
    then have left: "?C N' \<Longrightarrow> left_over q name N N'" for N' by (auto simp: left_over_def)
    have block: "triple False (\<lambda>N'. N' = N \<and> is_nonce nonce) (attempt (write_and_replace ?t p bytes))
        (\<lambda>r N'. case r of Inr _ \<Rightarrow> N' = N(p \<mapsto> FileNode bytes) | Inl _ \<Rightarrow> ?C N') (left_over q name N)"
      by (rule triple_conseq [OF triple_attempt [OF triple_write_and_replace [OF plain_not_temporary [OF assms, symmetric]]]])
        (auto split: sum.splits intro: left)
    have cleaned: "left_over q name N (N'(?t := None))" if "?C N'" for N'
    proof (cases "N' = N")
      case True
      then show ?thesis using nonce by (auto simp only: left_over_def)
    next
      case False
      with that have "N'(?t := None) = N" by (auto simp: fun_upd_idem)
      then show ?thesis by (simp only: left_over_def) simp
    qed
    have remove: "triple False ?C (attempt (fs_remove_file ?t)) (\<lambda>_. left_over q name N) (left_over q name N)"
    proof (rule triple_post [OF triple_attempt [OF triple_remove_file
            [where Q = "left_over q name N" and C = "left_over q name N"]]])
      show "left_over q name N N'" if "?C N'" for N' using that by (rule left)
      show "left_over q name N (N'(?t := None))" if "?C N'" for N' c using that by (rule cleaned)
    qed (simp split: sum.splits)+
    show ?thesis
    proof (rule triple_bind [OF block])
      fix r :: "setup_error + unit"
      show "triple False (\<lambda>N'. case r of Inr _ \<Rightarrow> N' = N(p \<mapsto> FileNode bytes) | Inl _ \<Rightarrow> ?C N')
          (case r of Inl e \<Rightarrow> sbind (attempt (fs_remove_file ?t)) (\<lambda>_. sraise e) | Inr _ \<Rightarrow> sret ())
          (\<lambda>_ N'. N' = N(p \<mapsto> FileNode bytes)) (left_over q name N)"
        by (cases r) (auto intro: triple_ret triple_bind [OF remove] triple_raise)
    qed
  qed simp
qed

lemma replace_with_temporary_healthy:
  assumes "plain_name p" and "starts True (\<lambda>N'. N' = N) d" and "N q = Some DirNode" and "N p \<noteq> Some DirNode"
  shows "ends True (\<lambda>_ N'. N' = N(p \<mapsto> FileNode bytes)) C (replace_with_temporary q name p bytes d)"
proof -
  let ?d = "d\<lparr>sd_sequence := sd_sequence d + 1\<rparr>"
  let ?t = "path_join q (temporary_name name (nonce_at d (sd_sequence d)))"
  have N: "node_at ?d = N" "node_at d = N" using assms(2) by (simp_all add: starts_def)
  have free: "N ?t = None" and fine: "sd_faults d = []"
    using assms(2) by (auto simp: starts_def healthy_def)
  have healthy: "healthy ?d"
    using assms(2) by (auto simp: starts_def healthy_def nonce_at_def)
  have neq: "?t \<noteq> p" using plain_not_temporary [OF assms(1)] by metis
  have run: "write_and_replace ?t p bytes ?d
      = (Inr (), drop_node ?t (set_node p (FileNode bytes)
           (set_node ?t (FileNode bytes) (set_node ?t (FileNode []) ?d))))"
    using neq assms(3,4)
    by (simp add: write_and_replace_def sbind_def fs_create_new_def fs_write_all_def fs_sync_all_def
        replace_file_def io_read_def io_write_def io_op_fine fine N free parent_is_dir_def append_to_def)
  have "node_at (snd (write_and_replace ?t p bytes ?d)) = N(p \<mapsto> FileNode bytes)"
    unfolding run using neq free by (simp add: N fun_eq_iff)
  moreover have "healthy (snd (write_and_replace ?t p bytes ?d))"
    unfolding healthy_def
  proof (intro conjI allI impI)
    show "sd_faults (snd (write_and_replace ?t p bytes ?d)) = []" unfolding run by (simp add: fine)
    fix r nm n
    assume "sd_sequence (snd (write_and_replace ?t p bytes ?d)) \<le> n"
    then have "N (path_join r (temporary_name nm (nonce_at d n))) = None"
      using healthy unfolding run by (simp add: healthy_def N nonce_at_def)
    moreover have "nonce_at (snd (write_and_replace ?t p bytes ?d)) n = nonce_at d n"
      unfolding run by (simp add: nonce_at_def)
    ultimately show "node_at (snd (write_and_replace ?t p bytes ?d))
        (path_join r (temporary_name nm (nonce_at (snd (write_and_replace ?t p bytes ?d)) n))) = None"
      unfolding \<open>node_at (snd (write_and_replace ?t p bytes ?d)) = N(p \<mapsto> FileNode bytes)\<close>
      using plain_not_temporary [OF assms(1), of r nm "nonce_at d n"] by simp
  qed
  moreover have "calm (snd (write_and_replace ?t p bytes ?d))"
    unfolding run using assms(2) by (simp add: starts_def)
  ultimately have "starts True (\<lambda>N'. N' = N(p \<mapsto> FileNode bytes)) (snd (write_and_replace ?t p bytes ?d))"
    by (simp add: starts_def)
  then show ?thesis
    unfolding replace_with_temporary_def sbind_def temporary_nonce_eq Let_def attempt_def prod.case sum.case run
    by (simp only: prod.case sum.case sret_def snd_conv ends.simps)
qed

lemma triple_atomic_write:
  assumes p: "p = path_join q name" "plain_name p"
    and dirs: "\<And>N. P N \<Longrightarrow> dirs_ok N q" and dest: "\<And>N. P N \<Longrightarrow> N p \<noteq> Some DirNode"
    and Q: "\<And>N. P N \<Longrightarrow> Q (N(p \<mapsto> FileNode bytes))"
    and C: "\<And>N N'. P N \<Longrightarrow> left_over q name N N' \<Longrightarrow> C N'"
  shows "triple h P (atomic_write p bytes) (\<lambda>_. Q) C"
proof (rule triple_at)
  fix N assume N: "P N"
  have here: "N q = Some DirNode"
    using dirs [OF N] by (simp add: dirs_ok_def path_ancestors.simps [of q] split: option.splits)
  have last: "triple h (\<lambda>N'. N' = N) (replace_with_temporary q name p bytes) (\<lambda>_. Q) C"
  proof (cases h)
    case False
    have "triple False (\<lambda>N'. N' = N) (replace_with_temporary q name p bytes) (\<lambda>_. Q) C"
      by (rule triple_conseq [OF triple_replace_with_temporary [OF p(2)]]) (auto intro: Q C N)
    with False show ?thesis by simp
  next
    case True
    have "triple True (\<lambda>N'. N' = N) (replace_with_temporary q name p bytes) (\<lambda>_. Q) C"
      by (intro tripleI ends_mono [OF replace_with_temporary_healthy [where C = C, OF p(2) _ here dest [OF N]]])
        (auto intro: Q N)
    with True show ?thesis by simp
  qed
  have shape: "atomic_write p bytes =
      sbind (create_protected_directory q) (\<lambda>_. sbind (reject_reparse_ancestors p) (\<lambda>_.
        replace_with_temporary q name p bytes))"
    by (simp add: atomic_write_def replace_with_temporary_def p(1))
  have still: "C N" using C [OF N, of N] by (simp add: left_over_def)
  show "triple h (\<lambda>N'. N' = N) (atomic_write p bytes) (\<lambda>_. Q) C"
    unfolding shape
    by (rule triple_bind [where R = "\<lambda>_ N'. N' = N"], rule triple_create_protected_directory)
      (auto intro: triple_bind [OF triple_reject last] simp: dirs [OF N] still)
qed

end
