(* ===== verification/Profile_Store_Logic.thy ===== *)
theory Profile_Store_Logic
  imports Profile_Store Setup_Logic "HOL-Library.Sublist"
begin

text \<open>
  The profile store under faults: which nodes its operations touch, a view of the nodes that the
  state of an activation consists of, and for every operation a triple over that view.
\<close>

section \<open>Where the store writes\<close>

definition laid_out :: "setup_env \<Rightarrow> path \<Rightarrow> path \<Rightarrow> bool" where
  "laid_out env sd root \<longleftrightarrow>
     (\<exists>pf pd version. from_trusted_os_roots pf pd = Inr (en_paths env) \<and> \<not> prefix pf pd \<and> \<not> prefix pd pf
        \<and> sd = path_join (path_join pd ''MacType'') ''ControlCenter''
        \<and> root = path_join (runtime_versions (en_paths env)) version)"

definition state_names :: "string set" where
  "state_names = {''active.json'', ''previous.json'', ''profile-activation.json''}"

text \<open>The files the store writes, and the temporary files next to them.\<close>

definition own_path :: "path \<Rightarrow> path \<Rightarrow> path \<Rightarrow> bool" where
  "own_path sd root p \<longleftrightarrow>
     (\<exists>nm\<in>state_names. p = path_join sd nm) \<or> p = path_join root GENERATED_PROFILE_NAME
     \<or> path_parent p \<in> {Some sd, Some root} \<and> \<not> plain_name p"

definition same_elsewhere :: "path \<Rightarrow> path \<Rightarrow> nodes \<Rightarrow> nodes \<Rightarrow> bool" where
  "same_elsewhere sd root N0 N \<longleftrightarrow> (\<forall>p. \<not> own_path sd root p \<longrightarrow> N p = N0 p)"

lemma laid_outE:
  assumes "laid_out env sd root"
  obtains pf pd version where "\<not> prefix pf pd" "\<not> prefix pd pf"
    "sd = pd @ [Normal ''MacType'', Normal ''ControlCenter'']"
    "root = pf @ [Normal ''MacType Control Center'', Normal ''Service'', Normal ''bin'', Normal version]"
    "active_profile (en_paths env) = path_join sd ''active.json''"
    "previous_profile (en_paths env) = path_join sd ''previous.json''"
    "profile_activation_journal (en_paths env) = path_join sd ''profile-activation.json''"
    "profile_generations (en_paths env) = path_join sd ''generations''"
    "runtime_pointer (en_paths env) =
       pf @ [Normal ''MacType Control Center'', Normal ''Service'', Normal ''current.json'']"
proof -
  from assms obtain pf pd version where 1: "from_trusted_os_roots pf pd = Inr (en_paths env)"
    "\<not> prefix pf pd" "\<not> prefix pd pf" "sd = path_join (path_join pd ''MacType'') ''ControlCenter''"
    "root = path_join (runtime_versions (en_paths env)) version" by (auto simp: laid_out_def)
  from 1(1) have "en_paths env = projr (from_trusted_os_roots pf pd)" by simp
  moreover from 1(1) have "validate_protected_root pf" "validate_protected_root pd"
    by (auto simp: from_trusted_os_roots_def split: if_splits)
  ultimately show ?thesis
    using 1(2-5) by (intro that [of pf pd version]) (simp_all add: from_trusted_os_roots_def Let_def path_join_def)
qed

lemma laid_out_apart:
  assumes "laid_out env sd root"
  shows "\<not> prefix sd root" "\<not> prefix root sd"
proof -
  obtain pf pd version where "\<not> prefix pf pd" "\<not> prefix pd pf"
    "sd = pd @ [Normal ''MacType'', Normal ''ControlCenter'']"
    "root = pf @ [Normal ''MacType Control Center'', Normal ''Service'', Normal ''bin'', Normal version]"
    by (rule laid_outE [OF assms])
  moreover from this have "prefix pd sd" "prefix pf root" by simp_all
  ultimately show "\<not> prefix sd root" "\<not> prefix root sd"
    by (meson prefix_order.trans prefix_same_cases)+
qed

lemma laid_out_paths:
  assumes "laid_out env sd root"
  shows "active_profile (en_paths env) = path_join sd ''active.json''"
    and "previous_profile (en_paths env) = path_join sd ''previous.json''"
    and "profile_activation_journal (en_paths env) = path_join sd ''profile-activation.json''"
    and "profile_generations (en_paths env) = path_join sd ''generations''"
    and "sd \<noteq> root"
    and "\<not> own_path sd root (runtime_pointer (en_paths env))"
    and "\<not> own_path sd root (path_join (path_join (path_join sd ''generations'') g) nm)"
proof -
  obtain pf pd version where sd: "sd = pd @ [Normal ''MacType'', Normal ''ControlCenter'']"
    and root: "root = pf @ [Normal ''MacType Control Center'', Normal ''Service'', Normal ''bin'', Normal version]"
    and rp: "runtime_pointer (en_paths env) =
       pf @ [Normal ''MacType Control Center'', Normal ''Service'', Normal ''current.json'']"
    by (rule laid_outE [OF assms])
  show "sd \<noteq> root" using laid_out_apart [OF assms] by auto
  have up: "path_parent (p @ [Normal a]) = Some p" for p a using path_parent_join [of p a] by (simp add: path_join_def)
  show "\<not> own_path sd root (runtime_pointer (en_paths env))"
    using up [of "pf @ [Normal ''MacType Control Center'', Normal ''Service'']" "''current.json''"]
    unfolding own_path_def rp by (auto simp: sd root path_join_def)
  show "\<not> own_path sd root (path_join (path_join (path_join sd ''generations'') g) nm)"
    unfolding own_path_def path_parent_join by (auto simp: sd root path_join_def)
qed (rule laid_outE [OF assms], assumption)+

lemma ancestor_prefix: "q \<in> set (path_ancestors p) \<Longrightarrow> prefix q p"
proof (induction p rule: path_ancestors.induct)
  case (1 p)
  then show ?case
    by (auto simp: path_ancestors.simps [of p] path_parent_def prefixeq_butlast
        split: option.splits if_splits path_component.splits intro: prefix_order.trans)
qed

lemma own_prefix: "own_path sd root p \<Longrightarrow> prefix sd p \<and> p \<noteq> sd \<or> prefix root p \<and> p \<noteq> root"
  by (auto simp: own_path_def path_join_def path_parent_def prefixeq_butlast split: if_splits path_component.splits)
    (metis append_butlast_last_id append_self_conv list.distinct(1) prefixeq_butlast)+

lemma ancestors_not_own:
  assumes "laid_out env sd root" and "q \<in> set (path_ancestors sd) \<union> set (path_ancestors root)"
  shows "\<not> own_path sd root q"
proof
  assume "own_path sd root q"
  from own_prefix [OF this] assms(2) laid_out_apart [OF assms(1)] show False
    by (metis UnE ancestor_prefix prefix_order.antisym prefix_order.trans)
qed

section \<open>The view\<close>

definition temps_at :: "path \<Rightarrow> nodes \<Rightarrow> string set" where
  "temps_at root N = {n \<in> entries_at root N. starts_with n GENERATED_PROFILE_TEMP_PREFIX}"

definition kept_at :: "path \<Rightarrow> nodes \<Rightarrow> string set" where
  "kept_at root N = insert GENERATED_PROFILE_NAME (entries_at root N - temps_at root N)"

text \<open>
  At most \<open>k\<close> temporary files of interrupted writes lie next to the renderer, all of them the store's
  own, and the directory has room for one.
\<close>

definition tidy :: "nat \<Rightarrow> path \<Rightarrow> nodes \<Rightarrow> bool" where
  "tidy k root N \<longleftrightarrow> finite (entries_at root N) \<and> card (kept_at root N) \<le> 15 \<and> card (temps_at root N) \<le> k
     \<and> (\<forall>n\<in>temps_at root N. owned_temporary_suffix (drop (length GENERATED_PROFILE_TEMP_PREFIX) n) \<and> (\<exists>c. N (path_join root n) = Some (FileNode c)))"

type_synonym state_nodes = "string \<Rightarrow> disk_node option"

definition state_of :: "disk_node option \<Rightarrow> disk_node option \<Rightarrow> disk_node option \<Rightarrow> state_nodes" where
  "state_of a v j nm =
     (if nm = ''active.json'' then a else if nm = ''previous.json'' then v
      else if nm = ''profile-activation.json'' then j else None)"

lemma state_of_simps [simp]:
  "state_of a v j ''active.json'' = a" "state_of a v j ''previous.json'' = v"
  "state_of a v j ''profile-activation.json'' = j"
  "(state_of a v j)(''active.json'' := x) = state_of x v j"
  "(state_of a v j)(''previous.json'' := x) = state_of a x j"
  "(state_of a v j)(''profile-activation.json'' := x) = state_of a v x"
  by (auto simp: state_of_def fun_eq_iff)

definition view_n :: "nat \<Rightarrow> path \<Rightarrow> path \<Rightarrow> nodes \<Rightarrow> state_nodes \<Rightarrow> disk_node option \<Rightarrow> nodes \<Rightarrow> bool" where
  "view_n k sd root N0 s m N \<longleftrightarrow> same_elsewhere sd root N0 N \<and> tidy k root N
     \<and> (\<forall>nm\<in>state_names. N (path_join sd nm) = s nm) \<and> N (path_join root GENERATED_PROFILE_NAME) = m"

abbreviation "view \<equiv> view_n 1"
abbreviation "clean_view \<equiv> view_n 0"

lemma view_weaken: "clean_view sd root N0 s m N \<Longrightarrow> view sd root N0 s m N"
  by (simp add: view_n_def tidy_def)

lemma state_names_plain: "nm \<in> state_names \<Longrightarrow> plain_name (path_join sd nm)"
  by (auto simp: state_names_def plain_name_def)

lemma generated_plain: "plain_name (path_join root GENERATED_PROFILE_NAME)"
  by (simp add: plain_name_def GENERATED_PROFILE_NAME_def)

lemma temporary_not_plain: "\<not> plain_name (path_join q (temporary_name nm nonce))"
  by (simp add: plain_name_def temporary_name_def)

lemma generated_not_temp: "\<not> starts_with GENERATED_PROFILE_NAME GENERATED_PROFILE_TEMP_PREFIX"
  by (simp add: starts_with_def GENERATED_PROFILE_NAME_def GENERATED_PROFILE_TEMP_PREFIX_def)

lemma temporary_generated:
  "temporary_name GENERATED_PROFILE_NAME nonce = GENERATED_PROFILE_TEMP_PREFIX @ nonce"
  by (simp add: temporary_name_def GENERATED_PROFILE_NAME_def GENERATED_PROFILE_TEMP_PREFIX_def)

lemma tidy_cong:
  assumes "tidy k root N" and "\<And>n. N' (path_join root n) = N (path_join root n)"
  shows "tidy k root N'"
  using assms(1) by (simp add: tidy_def kept_at_def temps_at_def entries_at_def assms(2))

text \<open>Writing a node of the view, and what a write that was cut short leaves.\<close>

lemma view_set_state:
  assumes "view_n k sd root N0 s m N" and "nm \<in> state_names" and "sd \<noteq> root"
  shows "view_n k sd root N0 (s(nm := x)) m (N(path_join sd nm := x))"
proof -
  have "same_elsewhere sd root N0 (N(path_join sd nm := x))"
    using assms(1,2) by (auto simp: view_n_def same_elsewhere_def own_path_def)
  moreover have "tidy k root (N(path_join sd nm := x))"
    using assms by (auto simp: view_n_def intro: tidy_cong)
  ultimately show ?thesis using assms by (auto simp: view_n_def)
qed

lemma view_set_generated:
  assumes "view_n k sd root N0 s m N" and "sd \<noteq> root"
  shows "view_n k sd root N0 s x (N(path_join root GENERATED_PROFILE_NAME := x))"
proof -
  let ?N = "N(path_join root GENERATED_PROFILE_NAME := x)"
  have temps: "temps_at root ?N = temps_at root N"
    using generated_not_temp by (auto simp: temps_at_def entries_at_def)
  have "kept_at root ?N = kept_at root N" unfolding kept_at_def temps by (auto simp: entries_at_def)
  moreover have "entries_at root ?N \<subseteq> insert GENERATED_PROFILE_NAME (entries_at root N)"
    by (auto simp: entries_at_def)
  moreover have "n \<noteq> GENERATED_PROFILE_NAME" if "n \<in> temps_at root N" for n
    using that generated_not_temp by (auto simp: temps_at_def)
  ultimately have "tidy k root ?N"
    using assms(1) unfolding view_n_def tidy_def temps by (auto intro: finite_subset)
  moreover have "same_elsewhere sd root N0 ?N"
    using assms(1) by (auto simp: view_n_def same_elsewhere_def own_path_def)
  ultimately show ?thesis using assms by (auto simp: view_n_def)
qed

lemma view_left_over_state:
  assumes "view_n k sd root N0 s m N" and "left_over sd nm N N'" and "sd \<noteq> root"
  shows "view_n k sd root N0 s m N'"
proof -
  from assms(2) obtain nonce x where N': "N' = N \<or> N' = N(path_join sd (temporary_name nm nonce) := x)"
    by (auto simp: left_over_def)
  let ?N = "N(path_join sd (temporary_name nm nonce) := x)"
  have "same_elsewhere sd root N0 ?N"
    using assms(1) temporary_not_plain by (auto simp: view_n_def same_elsewhere_def own_path_def)
  moreover have "tidy k root ?N" using assms by (auto simp: view_n_def intro: tidy_cong)
  moreover have "temporary_name nm nonce \<notin> state_names" by (auto simp: state_names_def temporary_name_def)
  ultimately have "view_n k sd root N0 s m ?N" using assms by (auto simp: view_n_def)
  with N' assms(1) show ?thesis by auto
qed

section \<open>Temporary names\<close>

lemma show_nat_digits: "show_nat n \<noteq> [] \<and> list_all is_ascii_digit (show_nat n)"
proof (induction n rule: show_nat.induct)
  case (1 n)
  have "is_ascii_digit (char_of (48 + m) :: char)" if "m < 10" for m :: nat
    using that by (simp add: is_ascii_digit_def byte_def)
  then show ?case using 1 by (auto simp: show_nat.simps [of n])
qed

lemma digits_no_dash: "list_all is_ascii_digit s \<Longrightarrow> CHR ''-'' \<notin> set s"
  by (auto simp: list_all_iff is_ascii_digit_def byte_def)

lemma split_on_none: "c \<notin> set s \<Longrightarrow> split_on c s = [s]"
  by (induction s) auto

lemma split_on_append: "c \<notin> set s \<Longrightarrow> split_on c (s @ c # t) = s # split_on c t"
  by (induction s) auto

lemma nonce_owned:
  assumes "is_nonce nonce"
  shows "owned_temporary_suffix nonce"
proof -
  obtain a b c where nonce: "nonce = show_nat a @ dash @ show_nat b @ dash @ show_nat c"
    using assms by (auto simp: is_nonce_def)
  have "split_on (CHR ''-'') nonce = [show_nat a, show_nat b, show_nat c]"
    unfolding nonce dash_def using show_nat_digits digits_no_dash by (simp add: split_on_append split_on_none)
  then show ?thesis using show_nat_digits by (simp add: owned_temporary_suffix_def)
qed

lemma temps_empty: "clean_view sd root N0 s m N \<Longrightarrow> temps_at root N = {}"
  by (auto simp: view_n_def tidy_def temps_at_def)

lemma view_left_over_generated:
  assumes "clean_view sd root N0 s m N" and "left_over root GENERATED_PROFILE_NAME N N'" and "sd \<noteq> root"
  shows "view sd root N0 s m N'"
proof -
  obtain nonce where cases: "N' = N \<or> is_nonce nonce \<and>
      (N' = N(path_join root (GENERATED_PROFILE_TEMP_PREFIX @ nonce) := None)
       \<or> (\<exists>c. N' = N(path_join root (GENERATED_PROFILE_TEMP_PREFIX @ nonce) \<mapsto> FileNode c)))"
    using assms(2) unfolding left_over_def temporary_generated by blast
  let ?n = "GENERATED_PROFILE_TEMP_PREFIX @ nonce"
  have temp: "starts_with ?n GENERATED_PROFILE_TEMP_PREFIX" by (simp add: starts_with_def)
  have plain: "\<not> plain_name (path_join root ?n)"
    using temporary_not_plain [of root GENERATED_PROFILE_NAME nonce] by (simp add: temporary_generated)
  have name: "?n \<noteq> GENERATED_PROFILE_NAME" using temp generated_not_temp by metis
  have here: "same_elsewhere sd root N0 (N(path_join root ?n := x))
      \<and> (\<forall>nm\<in>state_names. (N(path_join root ?n := x)) (path_join sd nm) = s nm)
      \<and> (N(path_join root ?n := x)) (path_join root GENERATED_PROFILE_NAME) = m" for x
    using assms(1,3) plain name by (auto simp: view_n_def same_elsewhere_def own_path_def)
  have none: "temps_at root N = {}" using assms(1) by (rule temps_empty)
  consider "N' = N" | "N' = N(path_join root ?n := None)"
    | c where "is_nonce nonce" "N' = N(path_join root ?n \<mapsto> FileNode c)" using cases by blast
  then show ?thesis
  proof cases
    case 1
    then show ?thesis using view_weaken [OF assms(1)] by simp
  next
    case 2
    have "entries_at root N' \<subseteq> entries_at root N" by (auto simp: 2 entries_at_def)
    moreover from this have "temps_at root N' = {}" using none by (auto simp: temps_at_def)
    moreover from calculation have "kept_at root N' \<subseteq> kept_at root N" using none by (auto simp: kept_at_def)
    moreover from calculation have "card (kept_at root N') \<le> card (kept_at root N)"
      using assms(1) by (intro card_mono) (auto simp: kept_at_def view_n_def tidy_def)
    ultimately have "tidy 1 root N'"
      using assms(1) unfolding view_n_def tidy_def by (auto intro: finite_subset)
    with here [of None] show ?thesis by (simp add: view_n_def 2)
  next
    case (3 c)
    have E: "entries_at root N' = insert ?n (entries_at root N)" by (auto simp: 3 entries_at_def)
    have T: "temps_at root N' = {?n}" using none temp by (auto simp: temps_at_def E)
    have "kept_at root N' = kept_at root N - {?n}" using none name by (auto simp: kept_at_def E T)
    then have "card (kept_at root N') \<le> card (kept_at root N)"
      by (simp add: card_Diff1_le)
    then have "tidy 1 root N'"
      using assms(1) nonce_owned [OF 3(1)] unfolding view_n_def tidy_def E T
      by (auto simp: 3 GENERATED_PROFILE_TEMP_PREFIX_def)
    with here show ?thesis by (simp add: view_n_def 3)
  qed
qed

lemma view_drop_temp:
  assumes "view_n k sd root N0 s m N" and "nm \<in> temps_at root N" and "sd \<noteq> root"
  shows "view_n k sd root N0 s m (N(path_join root nm := None))"
    and "temps_at root (N(path_join root nm := None)) = temps_at root N - {nm}"
proof -
  let ?N = "N(path_join root nm := None)"
  show T: "temps_at root ?N = temps_at root N - {nm}" by (auto simp: temps_at_def entries_at_def)
  obtain r where nm: "nm = GENERATED_PROFILE_TEMP_PREFIX @ r"
    using assms(2) by (auto simp: temps_at_def starts_with_def) (metis append_take_drop_id)
  have plain: "\<not> plain_name (path_join root nm)"
    using temporary_not_plain [of root GENERATED_PROFILE_NAME r] by (simp add: temporary_generated nm)
  have name: "nm \<noteq> GENERATED_PROFILE_NAME"
    using assms(2) generated_not_temp by (auto simp: temps_at_def)
  have E: "entries_at root ?N = entries_at root N - {nm}" by (auto simp: entries_at_def)
  have "kept_at root ?N = kept_at root N" using assms(2) unfolding kept_at_def E T by auto
  moreover have "card (temps_at root N - {nm}) \<le> card (temps_at root N)" by (rule card_Diff1_le)
  ultimately have "tidy k root ?N"
    using assms(1) unfolding view_n_def tidy_def E T by auto
  moreover have "same_elsewhere sd root N0 ?N"
    using assms(1) plain by (auto simp: view_n_def same_elsewhere_def own_path_def)
  ultimately show "view_n k sd root N0 s m ?N" using assms(1,3) name by (auto simp: view_n_def)
qed

section \<open>The machine around the store\<close>

text \<open>An installed runtime, its directory and the state directory.\<close>

definition sound_machine :: "setup_env \<Rightarrow> path \<Rightarrow> path \<Rightarrow> nodes \<Rightarrow> bool" where
  "sound_machine env sd root N \<longleftrightarrow> laid_out env sd root \<and> dirs_ok N sd \<and> dirs_ok N root
     \<and> (\<exists>b p. N (runtime_pointer (en_paths env)) = Some (FileNode b) \<and> b \<noteq> []
          \<and> length b \<le> MAX_RUNTIME_POINTER_BYTES \<and> Option.bind (en_parse env b) pointer_of_json = Some p
          \<and> rp_schema p = 1 \<and> valid_runtime_version_component (rp_version p)
          \<and> root = path_join (runtime_versions (en_paths env)) (rp_version p))"

definition profile_file :: "setup_env \<Rightarrow> profile_generation_id \<Rightarrow> path" where
  "profile_file env g = path_join (generation_directory env g) ''profile.ini''"

definition generation_ok :: "setup_env \<Rightarrow> nodes \<Rightarrow> profile_generation_id \<Rightarrow> bool" where
  "generation_ok env N g \<longleftrightarrow> canonical_digest g
     \<and> (\<exists>c. N (profile_file env g) = Some (FileNode c) \<and> validate_profile c = Inr ()
          \<and> from_profile_bytes (en_sha env) c = g)"

text \<open>What the printer and parser of the pointers and journals guarantee.\<close>

definition reads_back :: "setup_env \<Rightarrow> json \<Rightarrow> nat \<Rightarrow> bool" where
  "reads_back env v n \<longleftrightarrow> en_parse env (en_print env v) = Some v \<and> en_print env v \<noteq> []
     \<and> length (en_print env v) \<le> n"

definition store_codec :: "setup_env \<Rightarrow> bool" where
  "store_codec env \<longleftrightarrow>
     (\<forall>g. canonical_digest g \<longrightarrow> reads_back env (generation_pointer_to_json g) MAX_PROFILE_POINTER_BYTES)
     \<and> (\<forall>j. pred_option canonical_digest (pj_active_before j) \<longrightarrow> pred_option canonical_digest (pj_previous_before j)
           \<longrightarrow> reads_back env (profile_journal_to_json j) MAX_ACTIVATION_JOURNAL_BYTES)"

definition pointer_node :: "setup_env \<Rightarrow> profile_generation_id option \<Rightarrow> disk_node option" where
  "pointer_node env x = map_option (\<lambda>g. FileNode (en_print env (generation_pointer_to_json g))) x"

definition journal_node ::
  "setup_env \<Rightarrow> profile_generation_id option \<Rightarrow> profile_generation_id option \<Rightarrow> disk_node option" where
  "journal_node env a v = Some (FileNode (en_print env (profile_journal_to_json
     \<lparr>pj_phase = PointerTransition, pj_active_before = a, pj_previous_before = v\<rparr>)))"

definition stored_profile :: "setup_env \<Rightarrow> nodes \<Rightarrow> profile_generation_id option \<Rightarrow> disk_node option" where
  "stored_profile env N x = Option.bind x (\<lambda>g. N (profile_file env g))"

lemma pointer_reads_back:
  assumes "canonical_digest g"
  shows "generation_pointer_of_json (generation_pointer_to_json g) = Some g"
  using assms de_word_nat [of PROFILE_POINTER_SCHEMA]
  by (simp add: generation_pointer_of_json_def generation_pointer_to_json_def struct_fields_def de_string_def
      parse_generation_id_def)

lemma pointer_value: "to_value (generation_pointer_to_json g) = generation_pointer_to_json g"
  by (simp add: generation_pointer_to_json_def)

lemma de_option_pointer_reads:
  assumes "pred_option canonical_digest x"
  shows "de_option de_generation_pointer (Some (ser_option generation_pointer_to_json x)) = Some x"
  using assms pointer_reads_back
  by (cases x) (simp_all add: de_option_def ser_option_def de_generation_pointer_def generation_pointer_to_json_def)

lemma ser_option_value:
  "to_value (ser_option generation_pointer_to_json x) = ser_option generation_pointer_to_json x"
  by (cases x) (simp_all add: ser_option_def pointer_value)

lemma journal_of_json:
  assumes "pred_option canonical_digest (pj_active_before j)" "pred_option canonical_digest (pj_previous_before j)"
  shows "profile_journal_of_json (profile_journal_to_json j) = Some j"
  using de_option_pointer_reads [OF assms(1)] de_option_pointer_reads [OF assms(2)]
  by (cases "pj_phase j")
    (simp_all add: profile_journal_of_json_def profile_journal_to_json_def struct_fields_def
      PROFILE_ACTIVATION_SCHEMA_def de_word_def de_variant_def activation_phase_names_def variant_name_def)

text \<open>A written journal is read back, phase and pointers.\<close>

lemma journal_reads_back:
  assumes "pred_option canonical_digest (pj_active_before j)" "pred_option canonical_digest (pj_previous_before j)"
    and "en_parse env b = Some (profile_journal_to_json j)"
  shows "parse_activation_journal (en_parse env) b = Inr j"
proof -
  have schema: "unat PROFILE_ACTIVATION_SCHEMA = 2" by (simp add: PROFILE_ACTIVATION_SCHEMA_def)
  have same: "to_value (profile_journal_to_json j) = profile_journal_to_json j"
    by (simp add: profile_journal_to_json_def ser_option_value)
  have "value_get ''schema'' (profile_journal_to_json j) = Some (JNat 2)"
    by (simp add: profile_journal_to_json_def value_get_def schema)
  with journal_of_json [OF assms(1,2)] show ?thesis
    by (simp add: parse_activation_journal_def assms(3) same as_u64_def schema)
qed

lemma profile_not_empty: "validate_profile c = Inr () \<Longrightarrow> c \<noteq> [] \<and> length c \<le> MAX_PROFILE_BYTES"
  by (auto simp: validate_profile_def split: if_splits)

lemma calculated_ok:
  "validate_profile c = Inr () \<Longrightarrow> calculated_generation env c nm = Inr (from_profile_bytes (en_sha env) c)"
  by (simp add: calculated_generation_def publish_machine_profile_def Let_def)

end
