(* ===== verification/Profile_Store_Triples.thy ===== *)
theory Profile_Store_Triples
  imports Profile_Store_Logic
begin

text \<open>
  Triples for the operations of the profile store over the view of its nodes: reads answer what the
  view holds, writes change one node of it, and whatever fails or halts leaves the view of before or
  after the one write it was in.
\<close>

section \<open>Facts of the view\<close>

lemma triple_bind_reject:
  assumes "\<And>N. P N \<Longrightarrow> C N" and "triple h P m Q C"
  shows "triple h P (sbind (reject_reparse_ancestors p) (\<lambda>_. m)) Q C"
  by (rule triple_bind [OF triple_reject]) (auto intro: assms)

lemma view_dirs:
  assumes "sound_machine env sd root N0" and "view_n k sd root N0 s m N"
  shows "dirs_ok N sd" "dirs_ok N root"
  using assms ancestors_not_own [of env sd root]
  by (auto simp: sound_machine_def dirs_ok_def list_all_iff view_n_def same_elsewhere_def)

lemma view_root:
  assumes "sound_machine env sd root N0" and "view_n k sd root N0 s m N"
  shows "N root = Some DirNode"
  using view_dirs(2) [OF assms] by (simp add: dirs_ok_def path_ancestors.simps [of root] split: option.splits)

lemma view_profile_file:
  assumes "laid_out env sd root" and "view_n k sd root N0 s m N"
  shows "N (profile_file env g) = N0 (profile_file env g)"
  using assms laid_out_paths(4,7) [OF assms(1)]
  by (simp add: view_n_def same_elsewhere_def profile_file_def generation_directory_def)

lemma sound_laid_out: "sound_machine env sd root N0 \<Longrightarrow> laid_out env sd root"
  by (simp add: sound_machine_def)

lemma sound_apart: "sound_machine env sd root N0 \<Longrightarrow> sd \<noteq> root"
  using laid_out_paths(5) sound_laid_out by blast

section \<open>Writing the state\<close>

lemma triple_write_state:
  assumes W: "sound_machine env sd root N0" and nm: "nm \<in> state_names" and s: "s nm \<noteq> Some DirNode"
    and C: "\<And>N. view_n k sd root N0 s m N \<Longrightarrow> C N"
  shows "triple h (view_n k sd root N0 s m) (atomic_write (path_join sd nm) bytes)
    (\<lambda>_. view_n k sd root N0 (s(nm \<mapsto> FileNode bytes)) m) C"
proof (rule triple_atomic_write [OF refl state_names_plain [OF nm]])
  fix N assume N: "view_n k sd root N0 s m N"
  show "dirs_ok N sd" by (rule view_dirs(1) [OF W N])
  show "N (path_join sd nm) \<noteq> Some DirNode" using N nm s by (simp add: view_n_def)
  show "view_n k sd root N0 (s(nm \<mapsto> FileNode bytes)) m (N(path_join sd nm \<mapsto> FileNode bytes))"
    by (rule view_set_state [OF N nm sound_apart [OF W]])
  show "C N'" if "left_over sd nm N N'" for N'
    by (rule C, rule view_left_over_state [OF N that sound_apart [OF W]])
qed

lemma triple_remove_state:
  assumes W: "sound_machine env sd root N0" and nm: "nm \<in> state_names" and s: "s nm \<noteq> Some DirNode"
    and C: "\<And>N. view_n k sd root N0 s m N \<Longrightarrow> C N"
  shows "triple h (view_n k sd root N0 s m) (remove_protected_file (path_join sd nm))
    (\<lambda>_. view_n k sd root N0 (s(nm := None)) m) C"
proof -
  let ?V = "view_n k sd root N0 s m"
  have gone: "view_n k sd root N0 (s(nm := None)) m (N(path_join sd nm := None))" if "?V N" for N
    by (rule view_set_state [OF that nm sound_apart [OF W]])
  have at: "N (path_join sd nm) = s nm" if "?V N" for N using that nm by (simp add: view_n_def)
  show ?thesis
    unfolding remove_protected_file_def
  proof (rule triple_bind_eq [where c = "s nm \<noteq> None"])
    show "triple h ?V (path_exists (path_join sd nm)) (\<lambda>x N. ?V N \<and> x = (s nm \<noteq> None)) C"
      by (rule triple_post [OF triple_exists]) (simp add: at)
    show "triple h ?V (swhen (s nm \<noteq> None) (sbind (reject_reparse_ancestors (path_join sd nm))
        (\<lambda>_. fs_remove_file (path_join sd nm)))) (\<lambda>_. view_n k sd root N0 (s(nm := None)) m) C"
    proof (cases "s nm")
      case None
      then have "s(nm := None) = s" by (simp add: fun_upd_idem)
      then show ?thesis by (simp add: swhen_def None triple_ret)
    next
      case (Some x)
      then obtain c where c: "s nm = Some (FileNode c)" using s by (cases x) auto
      have "triple h ?V (fs_remove_file (path_join sd nm)) (\<lambda>_. view_n k sd root N0 (s(nm := None)) m) C"
        by (rule triple_remove_file) (auto intro: C gone simp: at c)
      then show ?thesis by (auto simp: swhen_def c intro: triple_bind [OF triple_reject [OF C]])
    qed
  qed
qed

lemma triple_write_generated:
  assumes W: "sound_machine env sd root N0" and m: "m \<noteq> Some DirNode"
    and C: "\<And>N. view sd root N0 s m N \<Longrightarrow> C N"
  shows "triple h (clean_view sd root N0 s m) (atomic_write (path_join root GENERATED_PROFILE_NAME) bytes)
    (\<lambda>_. view sd root N0 s (Some (FileNode bytes))) C"
proof (rule triple_atomic_write [OF refl generated_plain])
  fix N assume N: "clean_view sd root N0 s m N"
  show "dirs_ok N root" by (rule view_dirs(2) [OF W N])
  show "N (path_join root GENERATED_PROFILE_NAME) \<noteq> Some DirNode" using N m by (simp add: view_n_def)
  show "view sd root N0 s (Some (FileNode bytes)) (N(path_join root GENERATED_PROFILE_NAME \<mapsto> FileNode bytes))"
    by (rule view_weaken, rule view_set_generated [OF N sound_apart [OF W]])
  show "C N'" if "left_over root GENERATED_PROFILE_NAME N N'" for N'
    by (rule C, rule view_left_over_generated [OF N that sound_apart [OF W]])
qed

section \<open>Reading\<close>

lemma triple_active_root:
  assumes W: "sound_machine env sd root N0" and C: "\<And>N. view_n k sd root N0 s m N \<Longrightarrow> C N"
  shows "triple h (view_n k sd root N0 s m) (active_runtime_root env)
    (\<lambda>x N. view_n k sd root N0 s m N \<and> x = Some root) C"
proof -
  let ?V = "view_n k sd root N0 s m" and ?p = "runtime_pointer (en_paths env)"
  obtain b p where b: "N0 ?p = Some (FileNode b)" "b \<noteq> []" "length b \<le> MAX_RUNTIME_POINTER_BYTES"
    "Option.bind (en_parse env b) pointer_of_json = Some p" "rp_schema p = 1"
    "valid_runtime_version_component (rp_version p)"
    "path_join (runtime_versions (en_paths env)) (rp_version p) = root"
    using W by (auto simp: sound_machine_def)
  have at: "N ?p = Some (FileNode b)" if "?V N" for N
    using that b(1) laid_out_paths(6) [OF sound_laid_out [OF W]] by (simp add: view_n_def same_elsewhere_def)
  have there: "triple h ?V (path_exists ?p) (\<lambda>x N. ?V N \<and> x = True) C"
    by (rule triple_post [OF triple_exists]) (simp add: at)
  have dir: "triple h ?V (path_is_dir root) (\<lambda>x N. ?V N \<and> x = True) C"
    by (rule triple_post [OF triple_is_dir]) (simp add: view_root [OF W])
  have bytes: "triple h ?V (setup_read_file ?p MAX_RUNTIME_POINTER_BYTES ''active runtime pointer'')
      (\<lambda>x N. ?V N \<and> x = b) C"
    by (rule triple_setup_read_file) (auto intro: C simp: at b)
  have final: "triple h ?V (sbind (path_is_dir root) (\<lambda>is_dir. if \<not> is_dir
      then sraise (SetupRuntime ''active runtime generation is unavailable'' []) else sret (Some root)))
      (\<lambda>x N. ?V N \<and> x = Some root) C"
    by (rule triple_bind_eq [OF dir]) (simp add: triple_ret)
  show ?thesis
    unfolding active_runtime_root_def Let_def
    by (rule triple_bind_eq [OF there], simp only: not_True_eq_False if_False, rule triple_bind_reject, erule C,
        rule triple_bind_eq [OF bytes], simp add: b, rule triple_bind_reject, erule C,
        unfold b(7), rule final)
qed

lemma generation_okE:
  assumes "generation_ok env N0 g"
  obtains c where "N0 (profile_file env g) = Some (FileNode c)" "c \<noteq> []" "length c \<le> MAX_PROFILE_BYTES"
    "\<forall>nm. calculated_generation env c nm = Inr g" "canonical_digest g" "stored_profile env N0 (Some g) = Some (FileNode c)"
proof -
  from assms obtain c where "N0 (profile_file env g) = Some (FileNode c)" "validate_profile c = Inr ()"
    "from_profile_bytes (en_sha env) c = g" "canonical_digest g" by (auto simp: generation_ok_def)
  then show ?thesis
    using profile_not_empty [of c] calculated_ok [of c env] by (intro that [of c]) (auto simp: stored_profile_def)
qed

lemma triple_read_generation:
  assumes W: "sound_machine env sd root N0" and C: "\<And>N. view_n k sd root N0 s m N \<Longrightarrow> C N"
    and c: "N0 (profile_file env g) = Some (FileNode c)" "c \<noteq> []" "length c \<le> MAX_PROFILE_BYTES"
  shows "triple h (view_n k sd root N0 s m)
    (map_error f (setup_read_file (profile_file env g) MAX_PROFILE_BYTES desc))
    (\<lambda>x N. view_n k sd root N0 s m N \<and> x = c) C"
  by (rule triple_map_error, rule triple_setup_read_file)
    (auto intro: C simp: view_profile_file [OF sound_laid_out [OF W]] c)

lemma triple_verified_bytes:
  assumes W: "sound_machine env sd root N0" and g: "generation_ok env N0 g"
    and b: "stored_profile env N0 (Some g) = Some (FileNode b)"
    and C: "\<And>N. view_n k sd root N0 s m N \<Longrightarrow> C N"
  shows "triple h (view_n k sd root N0 s m) (verified_generation_bytes env g)
    (\<lambda>x N. view_n k sd root N0 s m N \<and> x = b) C"
proof -
  obtain c where c: "N0 (profile_file env g) = Some (FileNode c)" "c \<noteq> []" "length c \<le> MAX_PROFILE_BYTES"
    "\<forall>nm. calculated_generation env c nm = Inr g" "stored_profile env N0 (Some g) = Some (FileNode c)"
    by (rule generation_okE [OF g])
  then have "c = b" using b by simp
  show ?thesis
    unfolding verified_generation_bytes_def Let_def profile_file_def [symmetric]
    by (rule triple_bind_reject, erule C, rule triple_bind_eq, rule triple_read_generation [OF W C c(1-3)])
      (simp_all add: c(4) [unfolded \<open>c = b\<close>] slift_def triple_ret \<open>c = b\<close>)
qed

lemma triple_verify_generation:
  assumes W: "sound_machine env sd root N0" and C: "\<And>N. view_n k sd root N0 s m N \<Longrightarrow> C N"
    and g: "generation_ok env N0 g"
  shows "triple h (view_n k sd root N0 s m) (verify_generation env g) (\<lambda>_. view_n k sd root N0 s m) C"
proof -
  obtain c where c: "N0 (profile_file env g) = Some (FileNode c)" "c \<noteq> []" "length c \<le> MAX_PROFILE_BYTES"
    "\<forall>nm. calculated_generation env c nm = Inr g" "stored_profile env N0 (Some g) = Some (FileNode c)"
    by (rule generation_okE [OF g])
  show ?thesis
    unfolding verify_generation_def Let_def profile_file_def [symmetric]
    by (rule triple_bind_reject, erule C, rule triple_bind_eq, rule triple_read_generation [OF W C c(1-3)])
      (simp_all add: c slift_def triple_ret)
qed

lemma triple_verify_optional:
  assumes W: "sound_machine env sd root N0" and C: "\<And>N. view_n k sd root N0 s m N \<Longrightarrow> C N"
    and g: "pred_option (generation_ok env N0) x"
  shows "triple h (view_n k sd root N0 s m) (verify_optional env x) (\<lambda>_. view_n k sd root N0 s m) C"
  using g triple_verify_generation [OF W C] by (cases x) (auto simp: verify_optional_def triple_ret)

lemma generation_canonical: "pred_option (generation_ok env N0) x \<Longrightarrow> pred_option canonical_digest x"
  by (cases x) (simp_all add: generation_ok_def)

lemma triple_read_pointer:
  assumes codec: "store_codec env" and x: "pred_option canonical_digest x" and nm: "nm \<in> state_names"
    and s: "s nm = pointer_node env x" and C: "\<And>N. view_n k sd root N0 s m N \<Longrightarrow> C N"
  shows "triple h (view_n k sd root N0 s m) (read_optional_pointer env (path_join sd nm))
    (\<lambda>y N. view_n k sd root N0 s m N \<and> y = x) C"
proof -
  let ?V = "view_n k sd root N0 s m"
  have at: "N (path_join sd nm) = pointer_node env x" if "?V N" for N
    using that nm s by (simp add: view_n_def)
  have there: "triple h ?V (path_exists (path_join sd nm)) (\<lambda>y N. ?V N \<and> y = (x \<noteq> None)) C"
    by (rule triple_post [OF triple_exists]) (auto simp: at pointer_node_def)
  show ?thesis
  proof (cases x)
    case None
    then show ?thesis
      unfolding read_optional_pointer_def by (intro triple_bind_eq [OF there]) (simp add: triple_ret)
  next
    case (Some g)
    let ?b = "en_print env (generation_pointer_to_json g)"
    have g: "canonical_digest g" using x Some by simp
    then have rb: "reads_back env (generation_pointer_to_json g) MAX_PROFILE_POINTER_BYTES"
      using codec by (simp add: store_codec_def)
    have bytes: "triple h ?V (setup_read_file (path_join sd nm) MAX_PROFILE_POINTER_BYTES ''profile pointer'')
        (\<lambda>y N. ?V N \<and> y = ?b) C"
      by (rule triple_setup_read_file) (use rb in \<open>auto intro: C simp: at pointer_node_def Some reads_back_def\<close>)
    show ?thesis
      unfolding read_optional_pointer_def
      by (rule triple_bind_eq [OF there], simp add: Some, rule triple_bind_eq [OF bytes])
        (use rb in \<open>simp add: reads_back_def pointer_reads_back [OF g] triple_ret\<close>)
  qed
qed

section \<open>Interrupted writes next to the renderer\<close>

lemma few_entries:
  assumes "view_n k sd root N0 s m N" and "k \<le> 1"
  shows "card (entries_at root N) \<le> 16"
proof -
  have "finite (kept_at root N)" "finite (temps_at root N)"
    "entries_at root N \<subseteq> kept_at root N \<union> temps_at root N"
    using assms(1) by (auto simp: kept_at_def temps_at_def view_n_def tidy_def)
  then have "card (entries_at root N) \<le> card (kept_at root N) + card (temps_at root N)"
    by (meson card_Un_le card_mono finite_UnI order_trans)
  then show ?thesis using assms by (auto simp: view_n_def tidy_def)
qed

lemma temp_owned:
  assumes "view_n k sd root N0 s m N" and "n \<in> temps_at root N"
  shows "owned_temporary_suffix (drop (length GENERATED_PROFILE_TEMP_PREFIX) n) \<and> (\<exists>c. N (path_join root n) = Some (FileNode c))"
  using assms by (simp add: view_n_def tidy_def)

lemma triple_remove_interrupted:
  assumes W: "sound_machine env sd root N0" and k: "k \<le> 1" and C: "\<And>N. view_n k sd root N0 s m N \<Longrightarrow> C N"
  shows "triple h (view_n k sd root N0 s m) (remove_interrupted_generated_profile_writes root)
    (\<lambda>_. clean_view sd root N0 s m) C"
proof -
  let ?V = "view_n k sd root N0 s m"
  let ?T = "\<lambda>ns. {n \<in> set ns. starts_with n GENERATED_PROFILE_TEMP_PREFIX}"
  have step: "triple h (\<lambda>N. ?V N \<and> distinct (n # ns) \<and> temps_at root N = ?T (n # ns)) (remove_interrupted_write root n)
      (\<lambda>_ N. ?V N \<and> distinct ns \<and> temps_at root N = ?T ns) C" for n ns
  proof (cases "starts_with n GENERATED_PROFILE_TEMP_PREFIX")
    case False
    then have "remove_interrupted_write root n = sret ()"
      by (simp add: remove_interrupted_write_def strip_prefix_def)
    moreover have "?T (n # ns) = ?T ns" using False by auto
    ultimately show ?thesis by (simp only:) (rule triple_ret, simp)
  next
    case True
    let ?P = "\<lambda>N. ?V N \<and> distinct (n # ns) \<and> temps_at root N = ?T (n # ns)"
    have temp: "n \<in> temps_at root N" if "?P N" for N using that True by auto
    have owned: "owned_temporary_suffix (drop (length GENERATED_PROFILE_TEMP_PREFIX) n)" "\<exists>c. N (path_join root n) = Some (FileNode c)"
      if "?P N" for N using temp_owned [OF conjunct1 [OF that] temp [OF that]] by simp_all
    have gone: "?V (N(path_join root n := None)) \<and> distinct ns
        \<and> temps_at root (N(path_join root n := None)) = ?T ns" if "?P N" for N
      using that view_drop_temp [OF _ temp [OF that] sound_apart [OF W]] by auto
    have shape: "remove_interrupted_write root n =
        sbind (reject_reparse_ancestors (path_join root n)) (\<lambda>_. sbind (fs_metadata (path_join root n)) (\<lambda>metadata.
          if metadata = DirNode then sraise (SetupRuntime ''generated runtime profile temporary path is not a regular file'' [])
          else fs_remove_file (path_join root n)))" if "?P N" for N
      using owned(1) [OF that] True by (simp add: remove_interrupted_write_def strip_prefix_def Let_def)
    have remove: "triple h ?P (fs_remove_file (path_join root n))
        (\<lambda>_ N. ?V N \<and> distinct ns \<and> temps_at root N = ?T ns) C"
      by (rule triple_remove_file) (use C owned(2) gone in blast)+
    have look: "triple h ?P (fs_metadata (path_join root n)) (\<lambda>x N. ?P N \<and> x \<noteq> DirNode) C"
      by (rule triple_post [OF triple_metadata]) (use C owned(2) in \<open>fastforce+\<close>)
    have all: "triple h ?P (sbind (reject_reparse_ancestors (path_join root n)) (\<lambda>_. sbind (fs_metadata (path_join root n)) (\<lambda>metadata.
          if metadata = DirNode then sraise (SetupRuntime ''generated runtime profile temporary path is not a regular file'' [])
          else fs_remove_file (path_join root n)))) (\<lambda>_ N. ?V N \<and> distinct ns \<and> temps_at root N = ?T ns) C"
      by (rule triple_bind_reject, use C in blast, rule triple_bind [OF look], rule triple_if)
        (auto intro: triple_raise triple_pre [OF remove])
    show ?thesis
      by (rule triple_at, subst shape, assumption, rule triple_pre [OF all], simp)
  qed
  have loop: "triple h (\<lambda>N. ?V N \<and> distinct ns \<and> temps_at root N = ?T ns) (sfor ns (remove_interrupted_write root))
      (\<lambda>_ N. ?V N \<and> temps_at root N = {}) C" for ns
  proof (induction ns)
    case (Cons n ns)
    show ?case unfolding sfor.simps by (rule triple_bind [OF step Cons])
  qed (simp add: triple_ret)
  show ?thesis
    unfolding remove_interrupted_generated_profile_writes_def
  proof (rule triple_bind)
    show "triple h ?V (read_bounded_directory root 16 ''runtime profile recovery entry count'')
        (\<lambda>ns N. ?V N \<and> distinct ns \<and> set ns = entries_at root N) C"
    proof (rule triple_read_bounded_directory)
      fix N assume N: "?V N"
      show "N root = Some DirNode" by (rule view_root [OF W N])
      show "card (entries_at root N) \<le> 16" by (rule few_entries [OF N k])
    qed (rule C)
    show "triple h (\<lambda>N. ?V N \<and> distinct ns \<and> set ns = entries_at root N) (sfor ns (remove_interrupted_write root))
        (\<lambda>_. clean_view sd root N0 s m) C" for ns
      by (rule triple_conseq [OF loop]) (auto simp: temps_at_def view_n_def tidy_def)
  qed
qed

section \<open>The profile next to the renderer\<close>

definition profile_node :: "disk_node option \<Rightarrow> bool" where
  "profile_node m \<longleftrightarrow> (case m of None \<Rightarrow> True | Some DirNode \<Rightarrow> False
     | Some (FileNode c) \<Rightarrow> c \<noteq> [] \<and> length c \<le> MAX_PROFILE_BYTES)"

lemma profile_node_None [simp]: "profile_node None"
  by (simp add: profile_node_def)

lemma stored_profile_node: "pred_option (generation_ok env N0) x \<Longrightarrow> profile_node (stored_profile env N0 x)"
  by (cases x) (auto simp: stored_profile_def profile_node_def elim: generation_okE)

lemma triple_materialize:
  assumes W: "sound_machine env sd root N0" and g: "generation_ok env N0 g" and m: "profile_node m"
    and k: "k \<le> 1" and C: "\<And>N. view sd root N0 s m N \<Longrightarrow> C N"
  shows "triple h (view_n k sd root N0 s m) (materialize_generation env g)
    (\<lambda>_. view sd root N0 s (stored_profile env N0 (Some g))) C"
proof -
  let ?K = "clean_view sd root N0 s m" and ?p = "path_join root GENERATED_PROFILE_NAME"
    and ?done = "view sd root N0 s (stored_profile env N0 (Some g))"
  have Ck: "C N" if "view_n k sd root N0 s m N" for N
    by (rule C) (use that k in \<open>auto simp: view_n_def tidy_def\<close>)
  have C0: "C N" if "?K N" for N by (rule C, rule view_weaken, rule that)
  obtain c where c: "c \<noteq> []" "length c \<le> MAX_PROFILE_BYTES"
    "stored_profile env N0 (Some g) = Some (FileNode c)" by (rule generation_okE [OF g])
  have at: "N ?p = m" if "?K N" for N using that by (simp add: view_n_def)
  have write_it: "triple h ?K (sbind (atomic_write ?p c) (\<lambda>_. sret True)) (\<lambda>_. ?done) C"
  proof (rule triple_bind)
    show "triple h ?K (atomic_write ?p c) (\<lambda>_. ?done) C"
      unfolding c(3) by (rule triple_write_generated [OF W]) (use m C in \<open>auto simp: profile_node_def\<close>)
  qed (rule triple_ret)
  have there: "triple h ?K (path_exists ?p) (\<lambda>x N. ?K N \<and> x = (m \<noteq> None)) C"
    by (rule triple_post [OF triple_exists]) (simp add: at)
  have last: "triple h ?K (sbind (path_exists ?p) (\<lambda>there.
      if \<not> there then sbind (atomic_write ?p c) (\<lambda>_. sret True)
      else sbind (reject_reparse_ancestors ?p) (\<lambda>_.
           sbind (setup_read_file ?p MAX_PROFILE_BYTES ''generated runtime profile'') (\<lambda>current.
           if current = c then sret True else sbind (atomic_write ?p c) (\<lambda>_. sret True)))))
      (\<lambda>_. ?done) C"
  proof (rule triple_bind_eq [OF there], rule triple_if)
    assume "\<not> \<not> m \<noteq> None"
    then obtain e where e: "m = Some (FileNode e)" "e \<noteq> []" "length e \<le> MAX_PROFILE_BYTES"
      using m by (cases m rule: option.exhaust; cases "the m") (auto simp: profile_node_def)
    have bytes: "triple h ?K (setup_read_file ?p MAX_PROFILE_BYTES ''generated runtime profile'')
        (\<lambda>x N. ?K N \<and> x = e) C"
      by (rule triple_setup_read_file) (use e in \<open>auto intro: C0 simp: at\<close>)
    show "triple h ?K (sbind (reject_reparse_ancestors ?p) (\<lambda>_.
           sbind (setup_read_file ?p MAX_PROFILE_BYTES ''generated runtime profile'') (\<lambda>current.
           if current = c then sret True else sbind (atomic_write ?p c) (\<lambda>_. sret True)))) (\<lambda>_. ?done) C"
      by (rule triple_bind_reject, erule C0, rule triple_bind_eq [OF bytes], rule triple_if, rule triple_ret)
        (use c e write_it view_weaken in \<open>auto\<close>)
  qed (rule write_it)
  show ?thesis
    unfolding materialize_generation_def Let_def
    by (rule triple_bind_eq, rule triple_active_root [OF W Ck], assumption, simp only: option.case,
        rule triple_bind [OF triple_remove_interrupted [OF W k Ck]], assumption,
        rule triple_bind_eq, rule triple_verified_bytes [OF W g c(3)], erule C0, rule last)
qed

text \<open>Removing what a first activation put there, and checking that nothing is there.\<close>

lemma unchanged_bind:
  "clear_then (unchanged m) k = sbind (attempt m) (\<lambda>r. case r of Inl e \<Rightarrow> sret (Inl (ClearUnchanged e)) | Inr x \<Rightarrow> k x)"
proof
  fix d
  obtain r d1 where "m d = (r, d1)" by fastforce
  then show "clear_then (unchanged m) k d = sbind (attempt m)
      (\<lambda>r. case r of Inl e \<Rightarrow> sret (Inl (ClearUnchanged e)) | Inr x \<Rightarrow> k x) d"
    by (cases r rule: sum.exhaust; cases "projl r")
      (auto simp: clear_then_def unchanged_def sbind_def attempt_def sret_def)
qed

lemma triple_clear_step:
  assumes "triple h P m (\<lambda>x N. P N \<and> x = c) P'" and "triple h P (k c) Q C"
    and "\<And>N. P' N \<Longrightarrow> C N" and "\<And>e N. \<not> h \<Longrightarrow> P' N \<Longrightarrow> Q (Inl (ClearUnchanged e)) N"
  shows "triple h P (clear_then (unchanged m) k) Q C"
  unfolding unchanged_bind
proof (rule triple_bind)
  show "triple h P (attempt m) (\<lambda>r N. case r of Inr x \<Rightarrow> P N \<and> x = c | Inl _ \<Rightarrow> \<not> h \<and> P' N) C"
    by (rule triple_conseq [OF triple_attempt [OF assms(1)]]) (auto intro: assms(3))
  show "triple h (\<lambda>N. case r of Inr x \<Rightarrow> P N \<and> x = c | Inl _ \<Rightarrow> \<not> h \<and> P' N)
      (case r of Inl e \<Rightarrow> sret (Inl (ClearUnchanged e)) | Inr x \<Rightarrow> k x) Q C" for r
  proof (cases r)
    case (Inl e)
    then show ?thesis by (auto intro!: triple_ret assms(4))
  next
    case (Inr x)
    then show ?thesis by (auto intro!: triple_fact [where F = "x = c"] triple_pre [OF assms(2)])
  qed
qed

lemma triple_clear_reject:
  assumes "triple h P m Q C" and "\<And>N. P N \<Longrightarrow> C N" and "\<And>e N. \<not> h \<Longrightarrow> P N \<Longrightarrow> Q (Inl (ClearUnchanged e)) N"
  shows "triple h P (clear_then (unchanged (reject_reparse_ancestors p)) (\<lambda>_. m)) Q C"
  by (rule triple_clear_step [where c = "()" and P' = P]) (use assms in \<open>auto intro: triple_reject\<close>)

lemma triple_clear_then:
  assumes "triple h P m (\<lambda>r N. case r of Inr x \<Rightarrow> R x N | Inl e \<Rightarrow> E e N) C"
    and "\<And>x. triple h (R x) (k x) Q C" and "\<And>e N. E e N \<Longrightarrow> Q (Inl e) N"
  shows "triple h P (clear_then m k) Q C"
  unfolding clear_then_def
proof (rule triple_bind [OF assms(1)])
  show "triple h (\<lambda>N. case r of Inr x \<Rightarrow> R x N | Inl e \<Rightarrow> E e N)
      (case r of Inl e \<Rightarrow> sret (Inl e) | Inr x \<Rightarrow> k x) Q C" for r
    by (cases r) (auto intro: triple_ret assms(2,3))
qed

lemma triple_remove_exact:
  assumes W: "sound_machine env sd root N0" and m: "m = Some (FileNode c)" and c: "c \<noteq> []" "length c \<le> MAX_PROFILE_BYTES"
    and C: "\<And>N. view_n k sd root N0 s m N \<Longrightarrow> C N" and C': "\<And>N. view_n k sd root N0 s None N \<Longrightarrow> C N"
  shows "triple h (view_n k sd root N0 s m) (remove_exact_materialized_profile (path_join root GENERATED_PROFILE_NAME) c)
    (\<lambda>r N. case r of Inr _ \<Rightarrow> view_n k sd root N0 s None N
       | Inl _ \<Rightarrow> \<not> h \<and> (view_n k sd root N0 s m N \<or> view_n k sd root N0 s None N)) C"
    (is "triple h ?V (remove_exact_materialized_profile ?p c) ?Q C")
proof -
  have at: "N ?p = Some (FileNode c)" if "?V N" for N using that m by (simp add: view_n_def)
  have gone: "view_n k sd root N0 s None (N(?p := None))" if "?V N" for N
    by (rule view_set_generated [OF that sound_apart [OF W]])
  have look: "triple h ?V (map_error cleanup_unknown_io (fs_metadata ?p)) (\<lambda>x N. ?V N \<and> x = FileNode c) ?V"
    by (rule triple_map_error, rule triple_post [OF triple_metadata]) (auto simp: at)
  have take_it: "triple h ?V (map_error cleanup_unknown_io (fs_read_limited ?p (MAX_PROFILE_BYTES + 1)))
      (\<lambda>x N. ?V N \<and> x = c) ?V"
    by (rule triple_map_error, rule triple_post [OF triple_read_limited]) (use c in \<open>auto simp: at\<close>)
  have bytes: "triple h ?V (read_materialized_profile ?p) (\<lambda>x N. ?V N \<and> x = c) ?V"
    unfolding read_materialized_profile_def
    by (rule triple_bind_eq [OF look], rule triple_if, use c in \<open>simp add: node_length_def\<close>,
        rule triple_bind_eq [OF take_it]) (use c in \<open>simp add: triple_ret\<close>)
  have open_it: "triple h ?V (map_error cleanup_unknown_io (fs_open_read ?p)) (\<lambda>x N. ?V N \<and> x = ()) ?V"
    by (rule triple_map_error, rule triple_post [OF triple_open_read]) (auto simp: at)
  have handle: "triple h ?V (map_error cleanup_unknown_io (fs_handle_is_reparse ?p)) (\<lambda>x N. ?V N \<and> x = False) ?V"
    by (rule triple_map_error, rule triple_post [OF triple_handle_is_reparse]) auto
  have mark: "triple h ?V (attempt (fs_mark_for_deletion ?p))
      (\<lambda>r N. case r of Inr _ \<Rightarrow> view_n k sd root N0 s None N
         | Inl _ \<Rightarrow> \<not> h \<and> (view_n k sd root N0 s m N \<or> view_n k sd root N0 s None N)) C"
  proof (rule triple_conseq [OF triple_attempt [OF triple_mark_for_deletion]])
    show "?V N \<Longrightarrow> ?V N \<or> view_n k sd root N0 s None N" for N by simp
    show "?V N \<Longrightarrow> view_n k sd root N0 s m (N(?p := None)) \<or> view_n k sd root N0 s None (N(?p := None))" for N
      using gone by simp
    show "?V N \<Longrightarrow> view_n k sd root N0 s None (N(?p := None))" for N by (rule gone)
  qed (auto intro: C C' split: sum.splits)
  have last: "triple h ?V (sbind (attempt (fs_mark_for_deletion ?p)) (\<lambda>r. case r of
      Inl e \<Rightarrow> sret (Inl (ClearUnknown (cleanup_unknown_io e))) | Inr _ \<Rightarrow> sret (Inr ()))) ?Q C"
  proof (rule triple_bind [OF mark])
    fix r :: "setup_error + unit"
    show "triple h (\<lambda>N. case r of Inr _ \<Rightarrow> view_n k sd root N0 s None N
         | Inl _ \<Rightarrow> \<not> h \<and> (view_n k sd root N0 s m N \<or> view_n k sd root N0 s None N))
       (case r of Inl e \<Rightarrow> sret (Inl (ClearUnknown (cleanup_unknown_io e))) | Inr _ \<Rightarrow> sret (Inr ())) ?Q C"
      by (cases r) (auto intro: triple_ret)
  qed
  show ?thesis
    unfolding remove_exact_materialized_profile_def
    by (rule triple_clear_step [OF open_it], rule triple_clear_step [OF handle], simp only: if_False,
        rule triple_clear_step [OF bytes], simp only: not_True_eq_False if_False simp_thms, rule last)
      (auto intro: C)
qed

lemma triple_clear_materialized:
  assumes W: "sound_machine env sd root N0" and g: "generation_ok env N0 g"
    and m: "m = None \<or> m = stored_profile env N0 (Some g)"
    and C: "\<And>N. view_n k sd root N0 s m N \<Longrightarrow> C N" and C': "\<And>N. view_n k sd root N0 s None N \<Longrightarrow> C N"
  shows "triple h (view_n k sd root N0 s m) (clear_materialized_generation env g)
    (\<lambda>r N. case r of Inr _ \<Rightarrow> view_n k sd root N0 s None N
       | Inl _ \<Rightarrow> \<not> h \<and> (view_n k sd root N0 s m N \<or> view_n k sd root N0 s None N)) C"
    (is "triple h ?V ?op ?Q C")
proof -
  let ?p = "path_join root GENERATED_PROFILE_NAME"
  obtain c where c: "c \<noteq> []" "length c \<le> MAX_PROFILE_BYTES"
    "stored_profile env N0 (Some g) = Some (FileNode c)" by (rule generation_okE [OF g])
  have at: "N ?p = m" if "?V N" for N using that by (simp add: view_n_def)
  have un: "\<not> h \<Longrightarrow> ?V N \<Longrightarrow> ?Q (Inl e) N" for e N by simp
  show ?thesis
    unfolding clear_materialized_generation_def Let_def
  proof (rule triple_clear_step [OF triple_active_root [OF W]], assumption, simp only: option.case, rule triple_bind)
    show "triple h ?V (attempt (fs_metadata ?p)) (\<lambda>r N. ?V N \<and> (case r of Inr n \<Rightarrow> N ?p = Some n
       | Inl e \<Rightarrow> (e = SetupIo IoNotFound \<and> N ?p = None) \<or> (\<not> h \<and> e \<noteq> SetupIo IoNotFound))) C"
      by (rule triple_try_metadata) (rule C)
    fix r
    show "triple h (\<lambda>N. ?V N \<and> (case r of Inr n \<Rightarrow> N ?p = Some n
       | Inl e \<Rightarrow> (e = SetupIo IoNotFound \<and> N ?p = None) \<or> (\<not> h \<and> e \<noteq> SetupIo IoNotFound)))
      (case r of
         Inl e \<Rightarrow> if e = SetupIo IoNotFound then sret (Inr False) else sret (Inl (ClearUnchanged (cleanup_unknown_io e)))
       | Inr _ \<Rightarrow> clear_then (unchanged (reject_reparse_ancestors ?p)) (\<lambda>_.
           clear_then (unchanged (verified_generation_bytes env g)) (\<lambda>expected.
           clear_then (remove_exact_materialized_profile ?p expected) (\<lambda>_. sret (Inr True))))) ?Q C"
    proof (cases r)
      case (Inl e)
      have "view_n k sd root N0 s None N" if "?V N" "N ?p = None" for N using that at by metis
      with Inl show ?thesis by (auto intro!: triple_ret)
    next
      case (Inr n)
      then have m': "m = Some (FileNode c)" if "?V N \<and> (case r of Inr n \<Rightarrow> N ?p = Some n
       | Inl e \<Rightarrow> (e = SetupIo IoNotFound \<and> N ?p = None) \<or> (\<not> h \<and> e \<noteq> SetupIo IoNotFound))" for N
        using that m at [of N] c by auto
      have rest: "triple h ?V (clear_then (unchanged (reject_reparse_ancestors ?p)) (\<lambda>_.
           clear_then (unchanged (verified_generation_bytes env g)) (\<lambda>expected.
           clear_then (remove_exact_materialized_profile ?p expected) (\<lambda>_. sret (Inr True))))) ?Q C"
        if "m = Some (FileNode c)"
      proof (rule triple_clear_reject, rule triple_clear_step)
        show "triple h ?V (verified_generation_bytes env g) (\<lambda>x N. ?V N \<and> x = c) ?V"
          by (rule triple_verified_bytes [OF W g c(3)])
        show "triple h ?V (clear_then (remove_exact_materialized_profile ?p c) (\<lambda>_. sret (Inr True))) ?Q C"
        proof (rule triple_clear_then)
          show "triple h ?V (remove_exact_materialized_profile ?p c)
              (\<lambda>r N. case r of Inr _ \<Rightarrow> view_n k sd root N0 s None N
                 | Inl _ \<Rightarrow> \<not> h \<and> (view_n k sd root N0 s m N \<or> view_n k sd root N0 s None N)) C"
            by (rule triple_remove_exact [OF W that c(1,2)]) (auto intro: C C')
        qed (auto intro: triple_ret)
      qed (auto intro: C)
      show ?thesis
      proof (rule triple_fact [where F = "m = Some (FileNode c)"], rule m', assumption)
        assume "m = Some (FileNode c)"
        from rest [OF this] show ?thesis unfolding Inr sum.case by (rule triple_pre) simp
      qed
    qed
  qed (auto intro: C)
qed

lemma triple_ensure_absent:
  assumes W: "sound_machine env sd root N0" and C: "\<And>N. view_n k sd root N0 s None N \<Longrightarrow> C N"
  shows "triple h (view_n k sd root N0 s None) (ensure_materialized_profile_absent env)
    (\<lambda>_. view_n k sd root N0 s None) C"
proof -
  let ?V = "view_n k sd root N0 s None" and ?p = "path_join root GENERATED_PROFILE_NAME"
  let ?L = "\<lambda>r N. ?V N \<and> (case r of Inr n \<Rightarrow> N ?p = Some n
       | Inl e \<Rightarrow> (e = SetupIo IoNotFound \<and> N ?p = None) \<or> (\<not> h \<and> e \<noteq> SetupIo IoNotFound))"
  have absent: "N ?p = None" if "?V N" for N using that by (simp add: view_n_def)
  show ?thesis
    unfolding ensure_materialized_profile_absent_def
  proof (rule triple_bind_eq, rule triple_active_root [OF W], erule C, simp only: option.case, rule triple_bind)
    show "triple h ?V (attempt (fs_metadata ?p)) ?L C"
      by (rule triple_try_metadata) (rule C)
    fix r
    show "triple h (?L r) (case r of
         Inl e \<Rightarrow> if e = SetupIo IoNotFound then sret ()
                 else sraise (CleanupUnknown ''generated runtime profile could not be inspected: {error}'' [e])
       | Inr _ \<Rightarrow> sraise (CleanupUnknown ''generated runtime profile exists without a verified generation identity'' []))
      (\<lambda>_. ?V) C"
      by (cases r) (auto intro!: triple_ret triple_raise C dest: absent)
  qed
qed

section \<open>Settled and journaled states\<close>

text \<open>No journal, and the active profile's bytes next to the renderer.\<close>

definition settled ::
  "setup_env \<Rightarrow> path \<Rightarrow> path \<Rightarrow> nodes \<Rightarrow> profile_generation_id option \<Rightarrow> profile_generation_id option \<Rightarrow> nodes \<Rightarrow> bool" where
  "settled env sd root N0 a v =
     view sd root N0 (state_of (pointer_node env a) (pointer_node env v) None) (stored_profile env N0 a)"

text \<open>
  A journal names the pointers before a transition to \<open>g\<close>: each pointer is the one of before or of
  after, and so are the bytes next to the renderer, which follow the active pointer when there was
  no active profile before.
\<close>

definition transition_nodes ::
  "setup_env \<Rightarrow> nodes \<Rightarrow> profile_generation_id option \<Rightarrow> profile_generation_id option \<Rightarrow> profile_generation_id \<Rightarrow>
     profile_generation_id option \<Rightarrow> profile_generation_id option \<Rightarrow> disk_node option \<Rightarrow> bool" where
  "transition_nodes env N0 a v g x y m \<longleftrightarrow> x \<in> {a, Some g} \<and> y \<in> {v, a}
     \<and> (if a = None then m = None \<or> x = Some g \<and> m = stored_profile env N0 x
        else m \<in> {stored_profile env N0 a, stored_profile env N0 (Some g)})"

definition journaled ::
  "setup_env \<Rightarrow> path \<Rightarrow> path \<Rightarrow> nodes \<Rightarrow> profile_generation_id option \<Rightarrow> profile_generation_id option \<Rightarrow>
     profile_generation_id \<Rightarrow> nodes \<Rightarrow> bool" where
  "journaled env sd root N0 a v g N \<longleftrightarrow>
     (\<exists>x y m. transition_nodes env N0 a v g x y m
        \<and> view sd root N0 (state_of (pointer_node env x) (pointer_node env y) (journal_node env a v)) m N)"

lemma pointer_not_dir [simp]: "pointer_node env x \<noteq> Some DirNode"
  by (cases x) (simp_all add: pointer_node_def)

lemma state_names_in [simp]:
  "''active.json'' \<in> state_names" "''previous.json'' \<in> state_names" "''profile-activation.json'' \<in> state_names"
  by (simp_all add: state_names_def)

lemma triple_write_pointer:
  assumes "sound_machine env sd root N0" and "nm \<in> state_names" and "s nm \<noteq> Some DirNode"
    and "\<And>N. view_n k sd root N0 s m N \<Longrightarrow> C N"
  shows "triple h (view_n k sd root N0 s m) (write_pointer env (path_join sd nm) g)
    (\<lambda>_. view_n k sd root N0 (s(nm := pointer_node env (Some g))) m) C"
  using triple_write_state [where s = s and m = m and k = k and C = C, OF assms] by (simp add: write_pointer_def pointer_node_def)

lemma triple_restore_pointer:
  assumes "sound_machine env sd root N0" and "nm \<in> state_names" and "s nm \<noteq> Some DirNode"
    and "\<And>N. view_n k sd root N0 s m N \<Longrightarrow> C N"
  shows "triple h (view_n k sd root N0 s m) (restore_pointer env (path_join sd nm) x)
    (\<lambda>_. view_n k sd root N0 (s(nm := pointer_node env x)) m) C"
  using triple_write_pointer [where s = s and m = m and k = k and C = C, OF assms]
    triple_remove_state [where s = s and m = m and k = k and C = C, OF assms]
  by (cases x) (simp_all add: restore_pointer_def pointer_node_def)

section \<open>Recovery\<close>

text \<open>Before the pointers are restored, what a first activation put next to the renderer is removed.\<close>

lemma triple_recover_pointer_transition:
  assumes W: "sound_machine env sd root N0" and codec: "store_codec env"
    and a: "pred_option (generation_ok env N0) a" and g: "generation_ok env N0 g"
    and tr: "transition_nodes env N0 a v g x y m"
    and J: "pj_active_before journal = a" "s ''active.json'' = pointer_node env x"
    and C: "\<And>m N. transition_nodes env N0 a v g x y m \<Longrightarrow> view sd root N0 s m N \<Longrightarrow> C N"
  shows "triple h (view sd root N0 s m) (recover_pointer_transition env journal)
    (\<lambda>_. view sd root N0 s (if a = None then None else m)) C"
proof -
  have x: "pred_option (generation_ok env N0) x" using tr a g by (auto simp: transition_nodes_def)
  have Cm: "C N" if "view sd root N0 s m N" for N using C [OF tr that] .
  have rest: "triple h (view sd root N0 s m)
      (if a = None
       then (case x of
               Some g \<Rightarrow> sbind (clear_materialized_generation env g)
                 (\<lambda>r. case r of Inl e \<Rightarrow> sraise (into_setup_error e) | Inr _ \<Rightarrow> sret ())
             | None \<Rightarrow> ensure_materialized_profile_absent env)
       else sret ()) (\<lambda>_. view sd root N0 s (if a = None then None else m)) C"
  proof (cases a)
    case (Some a0)
    then show ?thesis by (simp add: triple_ret)
  next
    case None
    have trN: "transition_nodes env N0 a v g x y None" using tr None by (auto simp: transition_nodes_def)
    show ?thesis
    proof (cases x)
      case None
      then have "m = None" using tr \<open>a = None\<close> by (auto simp: transition_nodes_def)
      with None \<open>a = None\<close> Cm show ?thesis by (simp add: triple_ensure_absent [OF W])
    next
      case (Some x0)
      then have x0: "x0 = g" and m: "m = None \<or> m = stored_profile env N0 (Some g)"
        using tr None by (auto simp: transition_nodes_def)
      have clear: "triple h (view sd root N0 s m) (clear_materialized_generation env g)
        (\<lambda>r N. case r of Inr _ \<Rightarrow> view sd root N0 s None N
           | Inl _ \<Rightarrow> \<not> h \<and> (view sd root N0 s m N \<or> view sd root N0 s None N)) C"
        by (rule triple_clear_materialized [OF W g m]) (auto intro: Cm C [OF trN])
      have "triple h (view sd root N0 s m) (sbind (clear_materialized_generation env g)
          (\<lambda>r. case r of Inl e \<Rightarrow> sraise (into_setup_error e) | Inr _ \<Rightarrow> sret ())) (\<lambda>_. view sd root N0 s None) C"
      proof (rule triple_bind [OF clear])
        fix r :: "materialized_profile_clear_error + bool"
        show "triple h (\<lambda>N. case r of Inr _ \<Rightarrow> view sd root N0 s None N
             | Inl _ \<Rightarrow> \<not> h \<and> (view sd root N0 s m N \<or> view sd root N0 s None N))
           (case r of Inl e \<Rightarrow> sraise (into_setup_error e) | Inr _ \<Rightarrow> sret ()) (\<lambda>_. view sd root N0 s None) C"
        proof (cases r)
          case (Inl e)
          then show ?thesis by (simp only: sum.case) (rule triple_raise, use Cm C [OF trN] in blast)
        qed (simp add: triple_ret)
      qed
      with None Some x0 show ?thesis by simp
    qed
  qed
  show ?thesis
    unfolding recover_pointer_transition_def laid_out_paths [OF sound_laid_out [OF W]] J(1)
    by (rule triple_bind_eq,
        rule triple_read_pointer [where x = x and s = s, OF codec generation_canonical [OF x] state_names_in(1) J(2)], erule Cm,
        rule triple_bind, rule triple_verify_optional [OF W _ x], erule Cm, rule rest)
qed

lemma triple_restore_journaled:
  assumes W: "sound_machine env sd root N0"
    and a: "pred_option (generation_ok env N0) a" and g: "generation_ok env N0 g"
    and tr: "transition_nodes env N0 a v g x y m" and m: "a = None \<Longrightarrow> m = None"
    and J: "pj_active_before journal = a" "pj_previous_before journal = v" "pj_phase journal = PointerTransition"
    and C: "\<And>x y m N. transition_nodes env N0 a v g x y m \<Longrightarrow>
        view sd root N0 (state_of (pointer_node env x) (pointer_node env y) (journal_node env a v)) m N \<Longrightarrow> C N"
  shows "triple h (view sd root N0 (state_of (pointer_node env x) (pointer_node env y) (journal_node env a v)) m)
    (restore_journaled_state env journal) (\<lambda>_. settled env sd root N0 a v) C"
proof -
  let ?S = "\<lambda>x y. state_of (pointer_node env x) (pointer_node env y) (journal_node env a v)"
  have y: "transition_nodes env N0 a v g a y m" and v: "transition_nodes env N0 a v g a v m"
    and d: "transition_nodes env N0 a v g a v (stored_profile env N0 a)"
    using tr m by (auto simp: transition_nodes_def stored_profile_def split: if_splits)
  have nodir: "journal_node env a v \<noteq> Some DirNode" by (simp add: journal_node_def)
  have pm: "profile_node m"
    using tr m stored_profile_node [OF a] stored_profile_node [of env N0 "Some g"] g
    by (auto simp: transition_nodes_def split: if_splits)
  have phase: "(if pj_phase journal = FirstRollbackDeleteConfirmed then A else B) = B" for A B :: "bool setup_op"
    by (simp add: J(3))
  have 1: "triple h (view sd root N0 (?S x y) m) (restore_pointer env (path_join sd ''active.json'') a)
      (\<lambda>_. view sd root N0 (?S a y) m) C"
    using triple_restore_pointer [OF W state_names_in(1), where s = "?S x y" and C = C and x = a and m = m and k = 1] C [OF tr] by simp
  have 2: "triple h (view sd root N0 (?S a y) m) (restore_pointer env (path_join sd ''previous.json'') v)
      (\<lambda>_. view sd root N0 (?S a v) m) C"
    using triple_restore_pointer [OF W state_names_in(2), where s = "?S a y" and C = C and x = v and m = m and k = 1] C [OF y] by simp
  have 3: "triple h (view sd root N0 (?S a v) m)
      (case a of None \<Rightarrow> sret True | Some active \<Rightarrow> materialize_generation env active)
      (\<lambda>_. view sd root N0 (?S a v) (stored_profile env N0 a)) C"
    using triple_materialize [OF W _ pm, where k = 1 and C = C and s = "?S a v"] C [OF v] a m
    by (cases a) (auto simp: triple_ret stored_profile_def)
  have 4: "triple h (view sd root N0 (?S a v) (stored_profile env N0 a)) (remove_activation_journal env)
      (\<lambda>_. settled env sd root N0 a v) C"
    using triple_remove_state [OF W state_names_in(3), where s = "?S a v" and C = C and k = 1 and m = "stored_profile env N0 a"]
      C [OF d] nodir
    by (simp add: remove_activation_journal_def activation_journal_path_def settled_def
        laid_out_paths [OF sound_laid_out [OF W]])
  show ?thesis
    unfolding restore_journaled_state_def laid_out_paths [OF sound_laid_out [OF W]] J(1,2) phase
    by (rule triple_bind [OF 1], rule triple_bind [OF 2], rule triple_bind [OF 3], rule triple_bind [OF 4],
        rule triple_ret)
qed

text \<open>Recovery keeps the journaled state until it has the state of before, journal gone.\<close>

lemma triple_recover_journaled:
  assumes W: "sound_machine env sd root N0" and codec: "store_codec env"
    and a: "pred_option (generation_ok env N0) a" and v: "pred_option (generation_ok env N0) v"
    and g: "generation_ok env N0 g"
    and C: "\<And>N. journaled env sd root N0 a v g N \<Longrightarrow> C N" and C': "\<And>N. settled env sd root N0 a v N \<Longrightarrow> C N"
  shows "triple h (journaled env sd root N0 a v g) (recover_interrupted_activation env)
    (\<lambda>_. settled env sd root N0 a v) C"
  unfolding journaled_def
proof (intro triple_ex)
  fix x y m
  let ?S = "state_of (pointer_node env x) (pointer_node env y) (journal_node env a v)"
  let ?j = "\<lparr>pj_phase = PointerTransition, pj_active_before = a, pj_previous_before = v\<rparr>"
  let ?b = "en_print env (profile_journal_to_json ?j)" and ?p = "path_join sd ''profile-activation.json''"
  have CV: "C N" if "transition_nodes env N0 a v g x y m"
      "view sd root N0 (state_of (pointer_node env x) (pointer_node env y) (journal_node env a v)) m N" for x y m N
    by (rule C) (use that in \<open>auto simp: journaled_def\<close>)
  have rb: "reads_back env (profile_journal_to_json ?j) MAX_ACTIVATION_JOURNAL_BYTES"
    using codec generation_canonical [OF a] generation_canonical [OF v] by (simp add: store_codec_def)
  have parsed: "parse_activation_journal (en_parse env) ?b = Inr ?j"
    using rb generation_canonical [OF a] generation_canonical [OF v] by (intro journal_reads_back) (simp_all add: reads_back_def)
  show "triple h (\<lambda>N. transition_nodes env N0 a v g x y m \<and> view sd root N0 ?S m N)
      (recover_interrupted_activation env) (\<lambda>_. settled env sd root N0 a v) C"
  proof (rule triple_fact [where F = "transition_nodes env N0 a v g x y m"], simp)
    assume tr: "transition_nodes env N0 a v g x y m"
    let ?V = "view sd root N0 ?S m"
    have CV': "C N" if "?V N" for N by (rule CV [OF tr that])
    have trN: "transition_nodes env N0 a v g x y (if a = None then None else m)"
      using tr by (auto simp: transition_nodes_def)
    have at: "N ?p = Some (FileNode ?b)" if "?V N" for N
      using that state_names_in(3) by (simp add: view_n_def journal_node_def)
    have there: "triple h ?V (path_exists ?p) (\<lambda>x N. ?V N \<and> x = True) C"
      by (rule triple_post [OF triple_exists]) (simp add: at)
    have bytes: "triple h ?V (setup_read_file ?p MAX_ACTIVATION_JOURNAL_BYTES ''profile activation journal'')
        (\<lambda>x N. ?V N \<and> x = ?b) C"
      by (rule triple_setup_read_file) (use rb in \<open>auto intro: CV' simp: at reads_back_def\<close>)
    have transition: "triple h ?V (recover_pointer_transition env ?j)
        (\<lambda>_. view sd root N0 ?S (if a = None then None else m)) C"
      by (rule triple_recover_pointer_transition [OF W codec a g tr]) (auto intro: CV)
    have restore: "triple h (view sd root N0 ?S (if a = None then None else m)) (restore_journaled_state env ?j)
        (\<lambda>_. settled env sd root N0 a v) C"
      by (rule triple_restore_journaled [OF W a g trN]) (auto intro: CV)
    have arms: "triple h ?V (sbind (recover_pointer_transition env ?j) (\<lambda>_. restore_journaled_state env ?j))
        (\<lambda>_. settled env sd root N0 a v) C"
      by (rule triple_bind [OF transition restore])
    have "triple h ?V (recover_interrupted_activation env) (\<lambda>_. settled env sd root N0 a v) C"
      unfolding recover_interrupted_activation_def activation_journal_path_def laid_out_paths [OF sound_laid_out [OF W]]
      by (rule triple_bind_eq [OF there], simp only: not_True_eq_False if_False, rule triple_bind_eq [OF bytes],
          simp only: parsed slift_def sum.case sbind_ret profile_activation_journal.simps profile_activation_phase.case,
          rule triple_bind, rule triple_verify_optional [OF W _ a], erule CV',
          rule triple_bind, rule triple_verify_optional [OF W _ v], erule CV', rule arms)
    then show "triple h (\<lambda>N. transition_nodes env N0 a v g x y m \<and> view sd root N0 ?S m N)
      (recover_interrupted_activation env) (\<lambda>_. settled env sd root N0 a v) C"
      by (rule triple_pre) simp
  qed
qed

text \<open>Without a journal it does nothing.\<close>

lemma triple_recover_settled:
  assumes W: "sound_machine env sd root N0" and C: "\<And>N. settled env sd root N0 a v N \<Longrightarrow> C N"
  shows "triple h (settled env sd root N0 a v) (recover_interrupted_activation env)
    (\<lambda>_. settled env sd root N0 a v) C"
proof -
  let ?p = "path_join sd ''profile-activation.json''"
  have absent: "N ?p = None" if "settled env sd root N0 a v N" for N
    using that state_names_in(3) by (simp add: settled_def view_n_def)
  have there: "triple h (settled env sd root N0 a v) (path_exists ?p)
      (\<lambda>x N. settled env sd root N0 a v N \<and> x = False) C"
    by (rule triple_post [OF triple_exists]) (simp add: absent)
  show ?thesis
    unfolding recover_interrupted_activation_def activation_journal_path_def laid_out_paths [OF sound_laid_out [OF W]]
    by (rule triple_bind_eq [OF there]) (simp add: triple_ret)
qed

section \<open>Transitions under a journal\<close>

text \<open>The pointers are moved, then the bytes: every node on the way is one of a journaled state.\<close>

lemma triple_move_pointers:
  assumes W: "sound_machine env sd root N0"
    and a: "pred_option (generation_ok env N0) a" and g: "generation_ok env N0 g"
    and C: "\<And>N. journaled env sd root N0 a v g N \<Longrightarrow> C N"
  shows "triple h
      (view sd root N0 (state_of (pointer_node env a) (pointer_node env v) (journal_node env a v)) (stored_profile env N0 a))
      (sbind (case a of None \<Rightarrow> sret () | Some a0 \<Rightarrow> write_pointer env (path_join sd ''previous.json'') a0) (\<lambda>_.
       sbind (write_pointer env (path_join sd ''active.json'') g) (\<lambda>_.
       sbind (materialize_generation env g) (\<lambda>_. sret ()))))
      (\<lambda>_. view sd root N0 (state_of (pointer_node env (Some g)) (pointer_node env (if a = None then v else a))
           (journal_node env a v)) (stored_profile env N0 (Some g))) C"
proof -
  let ?S = "\<lambda>x y. state_of (pointer_node env x) (pointer_node env y) (journal_node env a v)"
  let ?v = "if a = None then v else a" and ?m = "stored_profile env N0 a"
  have CV: "C N" if "transition_nodes env N0 a v g x y m" "view sd root N0 (?S x y) m N" for x y m N
    by (rule C) (use that in \<open>auto simp: journaled_def\<close>)
  have start: "transition_nodes env N0 a v g a v ?m"
    by (auto simp: transition_nodes_def stored_profile_def)
  have moved: "transition_nodes env N0 a v g a ?v ?m" and active: "transition_nodes env N0 a v g (Some g) ?v ?m"
    by (auto simp: transition_nodes_def stored_profile_def)
  have 1: "triple h (view sd root N0 (?S a v) ?m)
      (case a of None \<Rightarrow> sret () | Some a0 \<Rightarrow> write_pointer env (path_join sd ''previous.json'') a0)
      (\<lambda>_. view sd root N0 (?S a ?v) ?m) C"
  proof (cases a)
    case (Some a0)
    then show ?thesis
      using triple_write_pointer [OF W state_names_in(2), where s = "?S a v" and C = C and m = ?m and k = 1] CV [OF start]
      by simp
  qed (simp add: triple_ret)
  have 2: "triple h (view sd root N0 (?S a ?v) ?m) (write_pointer env (path_join sd ''active.json'') g)
      (\<lambda>_. view sd root N0 (?S (Some g) ?v) ?m) C"
    using triple_write_pointer [OF W state_names_in(1), where s = "?S a ?v" and C = C and m = ?m and k = 1] CV [OF moved]
    by simp
  have 3: "triple h (view sd root N0 (?S (Some g) ?v) ?m) (materialize_generation env g)
      (\<lambda>_. view sd root N0 (?S (Some g) ?v) (stored_profile env N0 (Some g))) C"
    by (rule triple_materialize [OF W g stored_profile_node [OF a]]) (auto intro: CV [OF active])
  show ?thesis
    by (rule triple_bind [OF 1], rule triple_bind [OF 2], rule triple_bind [OF 3], rule triple_ret)
qed

text \<open>The journal is removed after a transition that succeeded, and rolled back after one that failed.\<close>

lemma triple_finish:
  assumes W: "sound_machine env sd root N0" and codec: "store_codec env"
    and a: "pred_option (generation_ok env N0) a" and v: "pred_option (generation_ok env N0) v"
    and g: "generation_ok env N0 g"
    and move: "triple h (view sd root N0 (state_of (pointer_node env a) (pointer_node env v) (journal_node env a v))
        (stored_profile env N0 a)) m
      (\<lambda>_. view sd root N0 (state_of (pointer_node env (Some g)) (pointer_node env (if a = None then v else a))
         (journal_node env a v)) (stored_profile env N0 (Some g))) (journaled env sd root N0 a v g)"
    and C: "\<And>N. journaled env sd root N0 a v g N \<Longrightarrow> C N" and C': "\<And>N. settled env sd root N0 a v N \<Longrightarrow> C N"
  shows "triple h (view sd root N0 (state_of (pointer_node env a) (pointer_node env v) (journal_node env a v))
      (stored_profile env N0 a))
    (sbind (attempt m) (finish_activation_transaction env))
    (\<lambda>_. settled env sd root N0 (Some g) (if a = None then v else a)) C"
proof -
  let ?v = "if a = None then v else a" and ?S = "\<lambda>x y. state_of (pointer_node env x) (pointer_node env y) (journal_node env a v)"
  let ?moved = "view sd root N0 (?S (Some g) ?v) (stored_profile env N0 (Some g))"
  have done_it: "transition_nodes env N0 a v g (Some g) ?v (stored_profile env N0 (Some g))"
    by (auto simp: transition_nodes_def)
  have CV: "C N" if "?moved N" for N
    by (rule C) (use that done_it in \<open>auto simp: journaled_def simp del: if_split intro!: exI\<close>)
  show ?thesis
  proof (rule triple_bind)
    show "triple h (view sd root N0 (?S a v) (stored_profile env N0 a)) (attempt m)
        (\<lambda>r N. case r of Inr _ \<Rightarrow> ?moved N | Inl _ \<Rightarrow> \<not> h \<and> journaled env sd root N0 a v g N) C"
      by (rule triple_conseq [OF triple_attempt [OF move]]) (auto intro: C)
    fix r :: "setup_error + unit"
    show "triple h (\<lambda>N. case r of Inr _ \<Rightarrow> ?moved N | Inl _ \<Rightarrow> \<not> h \<and> journaled env sd root N0 a v g N)
        (finish_activation_transaction env r) (\<lambda>_. settled env sd root N0 (Some g) ?v) C"
    proof (cases r)
      case (Inr u)
      have "triple h ?moved (remove_activation_journal env) (\<lambda>_. settled env sd root N0 (Some g) ?v) C"
        using triple_remove_state [OF W state_names_in(3), where s = "?S (Some g) ?v" and C = C and k = 1
            and m = "stored_profile env N0 (Some g)"] CV
        by (simp add: remove_activation_journal_def activation_journal_path_def settled_def journal_node_def
            laid_out_paths [OF sound_laid_out [OF W]])
      then show ?thesis by (simp add: Inr finish_activation_transaction_def)
    next
      case (Inl e)
      have again: "triple h (journaled env sd root N0 a v g) (attempt (recover_interrupted_activation env))
          (\<lambda>r N. case r of Inr _ \<Rightarrow> settled env sd root N0 a v N
             | Inl _ \<Rightarrow> \<not> h \<and> (journaled env sd root N0 a v g N \<or> settled env sd root N0 a v N)) C"
        by (rule triple_conseq [OF triple_attempt [OF triple_recover_journaled [OF W codec a v g,
              where C = "\<lambda>N. journaled env sd root N0 a v g N \<or> settled env sd root N0 a v N"]]])
          (auto intro: C C')
      have fail: "triple h (journaled env sd root N0 a v g) (finish_activation_transaction env (Inl e))
          (\<lambda>_. settled env sd root N0 (Some g) ?v) C" if "\<not> h"
        unfolding finish_activation_transaction_def sum.case
      proof (rule triple_bind [OF again])
        fix r :: "setup_error + bool"
        show "triple h (\<lambda>N. case r of Inr _ \<Rightarrow> settled env sd root N0 a v N
             | Inl _ \<Rightarrow> \<not> h \<and> (journaled env sd root N0 a v g N \<or> settled env sd root N0 a v N))
           (case r of Inr _ \<Rightarrow> sraise e | Inl recovery_error \<Rightarrow> sraise (SetupRuntime
              ''profile transition failed ({error}) and journal recovery failed ({recovery_error})''
              [e, recovery_error])) (\<lambda>_. settled env sd root N0 (Some g) ?v) C"
          using that by (cases r) (auto intro!: triple_raise intro: C C')
      qed
      show ?thesis
      proof (cases h)
        case True
        then show ?thesis by (simp add: Inl triple_def starts_def)
      next
        case False
        from fail [OF False] show ?thesis unfolding Inl by (rule triple_pre) simp
      qed
    qed
  qed
qed

section \<open>Activation and rollback\<close>

lemma triple_write_journal:
  assumes W: "sound_machine env sd root N0" and C: "\<And>N. settled env sd root N0 a v N \<Longrightarrow> C N"
  shows "triple h (settled env sd root N0 a v) (write_activation_journal env PointerTransition a v)
    (\<lambda>_. view sd root N0 (state_of (pointer_node env a) (pointer_node env v) (journal_node env a v))
       (stored_profile env N0 a)) C"
  using triple_write_state [OF W state_names_in(3), where s = "state_of (pointer_node env a) (pointer_node env v) None"
      and C = C and k = 1 and m = "stored_profile env N0 a"] C
  by (simp add: write_activation_journal_def activation_journal_path_def journal_node_def settled_def
      laid_out_paths [OF sound_laid_out [OF W]])

lemma triple_read_settled:
  assumes W: "sound_machine env sd root N0" and codec: "store_codec env"
    and a: "pred_option (generation_ok env N0) a" and v: "pred_option (generation_ok env N0) v"
    and C: "\<And>N. settled env sd root N0 a v N \<Longrightarrow> C N"
  shows "triple h (settled env sd root N0 a v) (read_optional_pointer env (path_join sd ''active.json''))
      (\<lambda>x N. settled env sd root N0 a v N \<and> x = a) C"
    and "triple h (settled env sd root N0 a v) (read_optional_pointer env (path_join sd ''previous.json''))
      (\<lambda>x N. settled env sd root N0 a v N \<and> x = v) C"
  unfolding settled_def
  by (rule triple_read_pointer [OF codec]; use C generation_canonical [OF a] generation_canonical [OF v] in
      \<open>simp add: settled_def\<close>)+

lemma triple_activate:
  assumes W: "sound_machine env sd root N0" and codec: "store_codec env"
    and a: "pred_option (generation_ok env N0) a" and v: "pred_option (generation_ok env N0) v"
    and g: "generation_ok env N0 g"
  shows "triple h (settled env sd root N0 a v) (activate env g)
    (\<lambda>_. settled env sd root N0 (Some g) (if a = None \<or> a = Some g then v else a))
    (\<lambda>N. settled env sd root N0 a v N \<or> journaled env sd root N0 a v g N)"
proof -
  let ?V = "settled env sd root N0 a v"
  let ?C = "\<lambda>N. ?V N \<or> journaled env sd root N0 a v g N"
  let ?Q = "\<lambda>_ :: unit. settled env sd root N0 (Some g) (if a = None \<or> a = Some g then v else a)"
  have V: "?C N" if "?V N" for N using that ..
  have verify: "triple h ?V (verify_generation env g) (\<lambda>_. ?V) ?C"
    using triple_verify_generation [OF W _ g] V by (simp add: settled_def)
  have same: "triple h ?V (sbind (materialize_generation env g) (\<lambda>_. sret ())) ?Q ?C" if "a = Some g"
  proof (rule triple_bind)
    show "triple h ?V (materialize_generation env g) (\<lambda>_. ?V) ?C"
      using triple_materialize [OF W g stored_profile_node [OF a], where k = 1 and C = ?C] V that
      by (simp add: settled_def)
  qed (simp add: that triple_ret)
  have move: "triple h (view sd root N0 (state_of (pointer_node env a) (pointer_node env v) (journal_node env a v))
        (stored_profile env N0 a)) (activation_transition env a g)
      (\<lambda>_. view sd root N0 (state_of (pointer_node env (Some g)) (pointer_node env (if a = None then v else a))
         (journal_node env a v)) (stored_profile env N0 (Some g))) (journaled env sd root N0 a v g)"
  proof (cases a)
    case None
    then show ?thesis
      using triple_move_pointers [OF W a g, where C = "journaled env sd root N0 a v g" and v = v]
      by (simp add: activation_transition_def laid_out_paths [OF sound_laid_out [OF W]])
  next
    case (Some a0)
    let ?P = "view sd root N0 (state_of (pointer_node env a) (pointer_node env v) (journal_node env a v)) (stored_profile env N0 a)"
    have J: "journaled env sd root N0 a v g N" if "?P N" for N
      unfolding journaled_def
      by (rule exI [of _ a], rule exI [of _ v], rule exI [of _ "stored_profile env N0 a"])
        (use that in \<open>auto simp: transition_nodes_def stored_profile_def\<close>)
    have verified: "triple h ?P (verify_generation env a0) (\<lambda>_. ?P) (journaled env sd root N0 a v g)"
      by (rule triple_verify_generation [OF W]) (use a Some J in auto)
    have shape: "activation_transition env a g = sbind (verify_generation env a0) (\<lambda>_.
        sbind (case a of None \<Rightarrow> sret () | Some a0 \<Rightarrow> write_pointer env (path_join sd ''previous.json'') a0) (\<lambda>_.
        sbind (write_pointer env (path_join sd ''active.json'') g) (\<lambda>_.
        sbind (materialize_generation env g) (\<lambda>_. sret ()))))"
      by (simp add: activation_transition_def laid_out_paths [OF sound_laid_out [OF W]] Some sbind_assoc)
    show ?thesis
      unfolding shape by (rule triple_bind [OF verified], rule triple_move_pointers [OF W a g])
  qed
  have other: "triple h ?V (sbind (read_optional_pointer env (path_join sd ''previous.json'')) (\<lambda>previous_before.
      sbind (write_activation_journal env PointerTransition a previous_before) (\<lambda>_.
      sbind (attempt (activation_transition env a g)) (\<lambda>transition.
      finish_activation_transaction env transition)))) ?Q ?C" if "a \<noteq> Some g"
  proof (rule triple_bind_eq [OF triple_read_settled(2) [OF W codec a v V]], assumption, rule triple_bind)
    show "triple h ?V (write_activation_journal env PointerTransition a v)
      (\<lambda>_. view sd root N0 (state_of (pointer_node env a) (pointer_node env v) (journal_node env a v))
       (stored_profile env N0 a)) ?C" by (rule triple_write_journal [OF W]) (rule V)
    show "triple h (view sd root N0 (state_of (pointer_node env a) (pointer_node env v) (journal_node env a v))
       (stored_profile env N0 a)) (sbind (attempt (activation_transition env a g))
          (\<lambda>transition. finish_activation_transaction env transition)) ?Q ?C"
      by (rule triple_post [OF triple_finish [OF W codec a v g move]]) (use that in auto)
  qed
  show ?thesis
    unfolding activate_def laid_out_paths [OF sound_laid_out [OF W]]
    by (rule triple_bind, rule triple_recover_settled [OF W], erule V, rule triple_bind [OF verify],
        rule triple_bind_eq, rule triple_read_settled(1) [OF W codec a v], erule V, rule triple_if)
      (use same other in auto)
qed

lemma triple_rollback:
  assumes W: "sound_machine env sd root N0" and codec: "store_codec env"
    and a: "generation_ok env N0 a" and p: "generation_ok env N0 p"
  shows "triple h (settled env sd root N0 (Some a) (Some p)) (rollback env)
    (\<lambda>r N. r = Some p \<and> settled env sd root N0 (Some p) (Some a) N)
    (\<lambda>N. settled env sd root N0 (Some a) (Some p) N \<or> journaled env sd root N0 (Some a) (Some p) p N)"
proof -
  let ?V = "settled env sd root N0 (Some a) (Some p)"
  let ?C = "\<lambda>N. ?V N \<or> journaled env sd root N0 (Some a) (Some p) p N"
  let ?Q = "\<lambda>r N. r = Some p \<and> settled env sd root N0 (Some p) (Some a) N"
  have V: "?C N" if "?V N" for N using that ..
  have oa: "pred_option (generation_ok env N0) (Some a)" and op: "pred_option (generation_ok env N0) (Some p)"
    using a p by simp_all
  have verify: "triple h ?V (verify_generation env a) (\<lambda>_. ?V) ?C"
    using triple_verify_generation [OF W _ a] V by (simp add: settled_def)
  have verify_p: "triple h ?V (verify_optional env (Some p)) (\<lambda>_. ?V) ?C"
    using triple_verify_optional [OF W _ op] V by (simp add: settled_def)
  have shape: "rollback_transition env a (Some p) =
      sbind (case Some a of None \<Rightarrow> sret () | Some a0 \<Rightarrow> write_pointer env (path_join sd ''previous.json'') a0) (\<lambda>_.
      sbind (write_pointer env (path_join sd ''active.json'') p) (\<lambda>_.
      sbind (materialize_generation env p) (\<lambda>_. sret ())))"
    by (simp add: rollback_transition_def laid_out_paths [OF sound_laid_out [OF W]])
  have finish: "triple h (view sd root N0 (state_of (pointer_node env (Some a)) (pointer_node env (Some p))
        (journal_node env (Some a) (Some p))) (stored_profile env N0 (Some a)))
      (sbind (attempt (rollback_transition env a (Some p))) (\<lambda>transition.
        sbind (finish_activation_transaction env transition) (\<lambda>_. sret (Some p)))) ?Q ?C"
    unfolding sbind_assoc [symmetric]
  proof (rule triple_bind)
    show "triple h (view sd root N0 (state_of (pointer_node env (Some a)) (pointer_node env (Some p))
        (journal_node env (Some a) (Some p))) (stored_profile env N0 (Some a)))
      (sbind (attempt (rollback_transition env a (Some p))) (finish_activation_transaction env))
      (\<lambda>_. settled env sd root N0 (Some p) (Some a)) ?C"
      using triple_finish [OF W codec oa op p, where C = ?C and m = "rollback_transition env a (Some p)"]
        triple_move_pointers [OF W oa p, where v = "Some p" and C = "journaled env sd root N0 (Some a) (Some p) p"]
      by (simp add: shape)
  qed (rule triple_ret, simp)
  have journal: "triple h ?V (write_activation_journal env PointerTransition (Some a) (Some p))
      (\<lambda>_. view sd root N0 (state_of (pointer_node env (Some a)) (pointer_node env (Some p))
         (journal_node env (Some a) (Some p))) (stored_profile env N0 (Some a))) ?C"
    by (rule triple_write_journal [OF W]) (rule V)
  show ?thesis
    unfolding rollback_def laid_out_paths [OF sound_laid_out [OF W]]
    by (rule triple_bind, rule triple_recover_settled [OF W], erule V,
        rule triple_bind_eq, rule triple_read_settled(1) [OF W codec oa op], erule V, simp only: option.case,
        rule triple_bind_eq, rule triple_read_settled(2) [OF W codec oa op], erule V,
        rule triple_bind [OF verify], rule triple_bind [OF verify_p])
      (use triple_bind [OF journal finish] in \<open>simp add: swhen_def\<close>)
qed

end
