(* ===== verification/Profile_Store_Properties.thy ===== *)
theory Profile_Store_Properties
  imports Profile_Store_Triples Contract_Properties
begin

text \<open>
  What the journal of the profile store is for: an activation or a rollback that is interrupted at any
  operation, by an error or by a halt of the machine, and any number of interrupted recoveries after
  it, leave a disk from which a recovery on a sound machine reaches exactly the state of before or the
  state of after.
\<close>

section \<open>Restarts\<close>

text \<open>A restart: a new process at another time, with its own faults ahead; the files stay.\<close>

record boot =
  bt_pid :: nat
  bt_time :: "nat \<Rightarrow> nat"
  bt_faults :: "fault list"

definition reboot :: "boot \<Rightarrow> setup_disk \<Rightarrow> setup_disk" where
  "reboot b d = d\<lparr>sd_faults := bt_faults b, sd_pid := bt_pid b, sd_time := bt_time b, sd_sequence := 0\<rparr>"

fun recoveries :: "setup_env \<Rightarrow> boot list \<Rightarrow> setup_disk \<Rightarrow> setup_disk" where
  "recoveries env [] d = d"
| "recoveries env (b # bs) d = recoveries env bs (snd (recover_interrupted_activation env (reboot b d)))"

lemma reboot_nodes [simp]: "node_at (reboot b d) = node_at d"
  by (simp add: reboot_def node_at_def fun_eq_iff)

lemma starts_reboot: "starts False P d \<Longrightarrow> starts False P (reboot b d)"
  by (simp add: starts_def calm_def) (simp add: reboot_def)

lemma ends_starts: "ends h (\<lambda>_. P) P r \<Longrightarrow> starts h P (snd r)"
  by (cases r; cases "fst r") auto

lemma recoveries_keep:
  assumes "triple False P (recover_interrupted_activation env) (\<lambda>_. P) P" and "starts False P d"
  shows "starts False P (recoveries env bs d)"
  using assms(2)
proof (induction bs arbitrary: d)
  case (Cons b bs)
  have "starts False P (snd (recover_interrupted_activation env (reboot b d)))"
    by (rule ends_starts, rule tripleD [OF assms(1)], rule starts_reboot, rule Cons.prems)
  then show ?case by (simp add: Cons.IH)
qed simp

lemma triple_disj:
  assumes "triple h P m Q C" and "triple h P' m Q C"
  shows "triple h (\<lambda>N. P N \<or> P' N) m Q C"
  using assms unfolding triple_def starts_def by blast

text \<open>Between the state of before, the journaled states and the state of after.\<close>

definition transition_reach ::
  "setup_env \<Rightarrow> path \<Rightarrow> path \<Rightarrow> nodes \<Rightarrow> profile_generation_id option \<Rightarrow> profile_generation_id option \<Rightarrow>
     profile_generation_id \<Rightarrow> nodes \<Rightarrow> bool" where
  "transition_reach env sd root N0 a v g N \<longleftrightarrow>
     settled env sd root N0 a v N \<or> journaled env sd root N0 a v g N"

lemma triple_recover_reach:
  assumes W: "sound_machine env sd root N0" and codec: "store_codec env"
    and a: "pred_option (generation_ok env N0) a" and v: "pred_option (generation_ok env N0) v"
    and g: "generation_ok env N0 g"
  shows "triple h (transition_reach env sd root N0 a v g) (recover_interrupted_activation env)
    (\<lambda>_. settled env sd root N0 a v) (transition_reach env sd root N0 a v g)"
  unfolding transition_reach_def
  by (rule triple_disj, rule triple_recover_settled [OF W], simp, rule triple_recover_journaled [OF W codec a v g])
    simp_all

lemma recovers_after:
  assumes W: "sound_machine env sd root N0" and codec: "store_codec env"
    and a: "pred_option (generation_ok env N0) a" and v: "pred_option (generation_ok env N0) v"
    and g: "generation_ok env N0 g"
    and run: "ends False (\<lambda>_. settled env sd root N0 a' v') (transition_reach env sd root N0 a v g) r"
    and fresh: "healthy (reboot b (recoveries env boots (snd r)))"
  shows "\<exists>x d'. recover_interrupted_activation env (reboot b (recoveries env boots (snd r))) = (Inr x, d')
    \<and> (case fst r of Inr _ \<Rightarrow> settled env sd root N0 a' v' (node_at d')
         | Inl _ \<Rightarrow> settled env sd root N0 a v (node_at d'))"
proof -
  let ?R = "transition_reach env sd root N0 a v g" and ?d = "reboot b (recoveries env boots (snd r))"
  have up: "starts True P ?d" if "starts False P (recoveries env boots (snd r))" for P
    using starts_reboot [OF that, of b] fresh by (simp add: starts_def)
  have final: "\<exists>x d'. recover_interrupted_activation env ?d = (Inr x, d') \<and> Q (node_at d')"
    if "ends True (\<lambda>_. Q) C (recover_interrupted_activation env ?d)" for Q C
    using that by (cases "recover_interrupted_activation env ?d"; cases "fst (recover_interrupted_activation env ?d)")
      (auto simp: starts_def)
  show ?thesis
  proof (cases "fst r")
    case (Inr u)
    let ?S = "settled env sd root N0 a' v'"
    have keep: "triple h ?S (recover_interrupted_activation env) (\<lambda>_. ?S) ?S" for h
      by (rule triple_recover_settled [OF W])
    have "starts False ?S (snd r)" using run Inr by (cases r) simp
    from up [OF recoveries_keep [OF keep this]] have "ends True (\<lambda>_. ?S) ?S (recover_interrupted_activation env ?d)"
      by (rule tripleD [OF keep])
    from final [OF this] show ?thesis by (simp add: Inr)
  next
    case (Inl e)
    have reach: "triple h ?R (recover_interrupted_activation env) (\<lambda>_. settled env sd root N0 a v) ?R" for h
      by (rule triple_recover_reach [OF W codec a v g])
    have keep: "triple False ?R (recover_interrupted_activation env) (\<lambda>_. ?R) ?R"
      by (rule triple_post [OF reach]) (simp add: transition_reach_def)
    have "starts False ?R (snd r)" using run Inl by (cases r) simp
    from up [OF recoveries_keep [OF keep this]]
    have "ends True (\<lambda>_. settled env sd root N0 a v) ?R (recover_interrupted_activation env ?d)"
      by (rule tripleD [OF reach])
    from final [OF this] show ?thesis by (simp add: Inl)
  qed
qed

section \<open>A concrete machine\<close>

text \<open>
  A printer and parser for what the store writes, and a machine with one runtime and one published
  profile, for the concrete instances.
\<close>

definition print_optional :: "string option \<Rightarrow> string" where
  "print_optional x = (case x of None \<Rightarrow> ''n'' | Some g \<Rightarrow> ''s'' @ g)"

definition take_optional :: "string \<Rightarrow> string option \<times> string" where
  "take_optional s = (if take 1 s = ''s'' then (Some (take 71 (drop 1 s)), drop 72 s) else (None, drop 1 s))"

definition sample_print :: "json \<Rightarrow> string" where
  "sample_print v =
     (case generation_pointer_of_json v of
        Some g \<Rightarrow> ''P'' @ g
      | None \<Rightarrow>
          (case profile_journal_of_json v of
             Some j \<Rightarrow> ''J'' @ take 25 (variant_name activation_phase_names (pj_phase j) @ replicate 25 (CHR ''.''))
                         @ print_optional (pj_active_before j) @ print_optional (pj_previous_before j)
           | None \<Rightarrow> []))"

definition sample_phase :: "string \<Rightarrow> profile_activation_phase" where
  "sample_phase s = (if take 1 s = ''p'' then PointerTransition
     else if take 25 s = ''first-rollback-delete-pen'' then FirstRollbackDeletePending
     else FirstRollbackDeleteConfirmed)"

definition sample_parse :: "string \<Rightarrow> json option" where
  "sample_parse s =
     (if take 1 s = ''P'' then Some (generation_pointer_to_json (drop 1 s))
      else if take 1 s = ''R'' then Some (pointer_to_json \<lparr>rp_schema = 1, rp_version = drop 1 s\<rparr>)
      else if take 1 s = ''J''
      then (let (a, rest) = take_optional (drop 26 s); (v, _) = take_optional rest
            in Some (profile_journal_to_json
                 \<lparr>pj_phase = sample_phase (drop 1 s), pj_active_before = a, pj_previous_before = v\<rparr>))
      else None)"

definition sample_program_files :: path where
  "sample_program_files = [Prefix ''C:'', RootDir, Normal ''Program Files'']"

definition sample_program_data :: path where
  "sample_program_data = [Prefix ''C:'', RootDir, Normal ''ProgramData'']"

definition sample_profile :: string where
  "sample_profile = ''[General]'' @ [char_of (10 :: nat)] @ ''Name=x''"

definition other_profile :: string where
  "other_profile = ''[General]'' @ [char_of (10 :: nat)] @ ''Name=y''"

definition sample_sha :: "string \<Rightarrow> string" where
  "sample_sha bytes = replicate 32 (char_of (if bytes = other_profile then 1 else 0 :: nat))"

definition sample_service :: path where
  "sample_service = sample_program_files @ [Normal ''MacType Control Center'', Normal ''Service'']"

definition sample_state_dir :: path where
  "sample_state_dir = sample_program_data @ [Normal ''MacType'', Normal ''ControlCenter'']"

definition sample_paths :: machine_paths where
  "sample_paths = (let logs = path_join sample_state_dir ''logs'' in
     \<lparr>service_root = sample_service, runtime_versions = path_join sample_service ''bin'',
      runtime_pointer = path_join sample_service ''current.json'',
      runtime_activation_journal = path_join sample_service ''runtime-activation.json'',
      profile_generations = path_join sample_state_dir ''generations'',
      active_profile = path_join sample_state_dir ''active.json'',
      previous_profile = path_join sample_state_dir ''previous.json'',
      profile_activation_journal = path_join sample_state_dir ''profile-activation.json'',
      event_log_dir = logs, service_host_event_log = path_join logs ''service-host.log'',
      service_setup_event_log = path_join logs ''service-setup.log''\<rparr>)"

definition sample_env :: setup_env where
  "sample_env = \<lparr>en_paths = sample_paths,
     en_sha = sample_sha, en_print = sample_print, en_parse = sample_parse\<rparr>"

definition sample_runtime :: path where
  "sample_runtime = path_join (path_join sample_service ''bin'') ''1.2.3''"

definition sample_generation :: profile_generation_id where
  "sample_generation = ''sha256:'' @ replicate 64 (CHR ''0'')"

definition other_generation :: profile_generation_id where
  "other_generation = ''sha256:'' @ concat (replicate 32 ''01'')"

text \<open>The machine with no active profile, and with the two profiles active and previous.\<close>

definition sample_disk :: "(path \<times> disk_node) list \<Rightarrow> fault list \<Rightarrow> setup_disk" where
  "sample_disk state faults =
     \<lparr>sd_nodes = map (\<lambda>p. (p, DirNode)) (remdups (path_ancestors sample_state_dir @ path_ancestors sample_runtime))
         @ [(runtime_pointer (en_paths sample_env), FileNode ''R1.2.3''),
            (profile_file sample_env sample_generation, FileNode sample_profile),
            (profile_file sample_env other_generation, FileNode other_profile)]
         @ state,
      sd_reparse = (\<lambda>_. False), sd_faults = faults, sd_blind = [], sd_pid = 7, sd_time = (\<lambda>n. n), sd_sequence = 0,
      sd_deferred = [], sd_service_image = None, sd_published = False\<rparr>"

lemma sample_codec: "store_codec sample_env"
  unfolding store_codec_def
proof (intro conjI allI impI)
  fix g assume "canonical_digest g"
  then have "sample_print (generation_pointer_to_json g) = ''P'' @ g" "length g = 71"
    by (simp_all add: sample_print_def pointer_reads_back canonical_digest_def)
  then show "reads_back sample_env (generation_pointer_to_json g) MAX_PROFILE_POINTER_BYTES"
    by (simp add: reads_back_def sample_env_def sample_parse_def MAX_PROFILE_POINTER_BYTES_def)
next
  fix j :: profile_activation_journal
  assume a: "pred_option canonical_digest (pj_active_before j)" and v: "pred_option canonical_digest (pj_previous_before j)"
  have "generation_pointer_of_json (profile_journal_to_json j) = None"
    by (simp add: generation_pointer_of_json_def profile_journal_to_json_def struct_fields_def)
  then have printed: "sample_print (profile_journal_to_json j) =
      ''J'' @ take 25 (variant_name activation_phase_names (pj_phase j) @ replicate 25 (CHR ''.''))
        @ print_optional (pj_active_before j) @ print_optional (pj_previous_before j)"
    using journal_of_json [OF a v] by (simp add: sample_print_def)
  have phase: "length (take 25 (variant_name activation_phase_names (pj_phase j) @ replicate 25 (CHR ''.''))) = 25"
    by simp
  have phase': "sample_phase (take 25 (variant_name activation_phase_names (pj_phase j) @ replicate 25 (CHR ''.'')) @ s) = pj_phase j" for s
    by (cases "pj_phase j") (simp_all add: sample_phase_def variant_name_def activation_phase_names_def)
  have optional: "take_optional (print_optional x @ s) = (x, s)" if "pred_option canonical_digest x" for x s
    using that by (cases x) (simp_all add: take_optional_def print_optional_def canonical_digest_def)
  have short: "length (print_optional x) \<le> 72" if "pred_option canonical_digest x" for x
    using that by (cases x) (simp_all add: print_optional_def canonical_digest_def)
  have "sample_parse (sample_print (profile_journal_to_json j)) = Some (profile_journal_to_json j)"
    using optional [OF a] optional [OF v, of "[]"] phase' unfolding printed
    by (cases j) (simp add: sample_parse_def)
  then show "reads_back sample_env (profile_journal_to_json j) MAX_ACTIVATION_JOURNAL_BYTES"
    using short [OF a] short [OF v] 
    by (simp add: reads_back_def sample_env_def printed MAX_ACTIVATION_JOURNAL_BYTES_def)
qed

lemma healthy_plain:
  assumes "sd_faults d = []" and "list_all (\<lambda>(p, _). plain_name p) (sd_nodes d)"
  shows "healthy d"
  unfolding healthy_def node_at_def
  using assms temporary_not_plain by (fastforce simp: list_all_iff map_of_eq_None_iff)

definition active_state :: "(path \<times> disk_node) list" where
  "active_state =
     [(path_join sample_state_dir ''active.json'', FileNode (sample_print (generation_pointer_to_json sample_generation))),
      (path_join sample_state_dir ''previous.json'', FileNode (sample_print (generation_pointer_to_json other_generation))),
      (path_join sample_runtime ''MacType.ini'', FileNode sample_profile)]"

lemma sample_nodes: "node_at (sample_disk state fs) = node_at (sample_disk state [])"
  by (simp add: node_at_def sample_disk_def fun_eq_iff)

lemma sample_calm: "calm (sample_disk [] fs)" "calm (sample_disk active_state fs)"
proof -
  have "distinct (map fst (sd_nodes (sample_disk [] [])))" "distinct (map fst (sd_nodes (sample_disk active_state [])))"
    by code_simp+
  then show "calm (sample_disk [] fs)" "calm (sample_disk active_state fs)"
    by (simp_all add: calm_def sample_disk_def)
qed

lemma sample_generations:
  "generation_ok sample_env (node_at (sample_disk [] [])) sample_generation"
  "generation_ok sample_env (node_at (sample_disk active_state [])) sample_generation"
  "generation_ok sample_env (node_at (sample_disk active_state [])) other_generation"
proof -
  have at: "node_at (sample_disk [] []) (profile_file sample_env sample_generation) = Some (FileNode sample_profile)"
    "node_at (sample_disk active_state []) (profile_file sample_env sample_generation) = Some (FileNode sample_profile)"
    "node_at (sample_disk active_state []) (profile_file sample_env other_generation) = Some (FileNode other_profile)"
    by code_simp+
  have fine: "validate_profile sample_profile = Inr ()" "validate_profile other_profile = Inr ()"
    "canonical_digest sample_generation" "canonical_digest other_generation" by code_simp+
  have "from_profile_bytes (en_sha sample_env) sample_profile = sample_generation"
    "from_profile_bytes (en_sha sample_env) other_profile = other_generation" by code_simp+
  with at fine show "generation_ok sample_env (node_at (sample_disk [] [])) sample_generation"
    "generation_ok sample_env (node_at (sample_disk active_state [])) sample_generation"
    "generation_ok sample_env (node_at (sample_disk active_state [])) other_generation"
    by (simp_all add: generation_ok_def)
qed

lemma sample_sound:
  "sound_machine sample_env sample_state_dir sample_runtime (node_at (sample_disk [] []))"
  "sound_machine sample_env sample_state_dir sample_runtime (node_at (sample_disk active_state []))"
proof -
  let ?p = "\<lparr>rp_schema = 1, rp_version = ''1.2.3''\<rparr> :: runtime_generation_pointer"
  have paths: "from_trusted_os_roots sample_program_files sample_program_data = Inr (en_paths sample_env)"
    "\<not> prefix sample_program_files sample_program_data" "\<not> prefix sample_program_data sample_program_files"
    "sample_state_dir = path_join (path_join sample_program_data ''MacType'') ''ControlCenter''"
    "sample_runtime = path_join (runtime_versions (en_paths sample_env)) ''1.2.3''" by code_simp+
  then have laid: "laid_out sample_env sample_state_dir sample_runtime"
    unfolding laid_out_def by blast
  have dirs: "dirs_ok (node_at (sample_disk [] [])) sample_state_dir" "dirs_ok (node_at (sample_disk [] [])) sample_runtime"
    "dirs_ok (node_at (sample_disk active_state [])) sample_state_dir"
    "dirs_ok (node_at (sample_disk active_state [])) sample_runtime" by code_simp+
  have at: "node_at (sample_disk [] []) (runtime_pointer (en_paths sample_env)) = Some (FileNode ''R1.2.3'')"
    "node_at (sample_disk active_state []) (runtime_pointer (en_paths sample_env)) = Some (FileNode ''R1.2.3'')"
    by code_simp+
  have pointer: "''R1.2.3'' \<noteq> []" "length ''R1.2.3'' \<le> MAX_RUNTIME_POINTER_BYTES"
    "Option.bind (en_parse sample_env ''R1.2.3'') pointer_of_json = Some ?p"
    "rp_schema ?p = 1" "valid_runtime_version_component (rp_version ?p)"
    "sample_runtime = path_join (runtime_versions (en_paths sample_env)) (rp_version ?p)"
    by code_simp+
  show "sound_machine sample_env sample_state_dir sample_runtime (node_at (sample_disk [] []))"
    "sound_machine sample_env sample_state_dir sample_runtime (node_at (sample_disk active_state []))"
    unfolding sound_machine_def using laid dirs at pointer by blast+
qed

lemma sample_view:
  assumes "list_all (\<lambda>(p, _). path_parent p = Some sample_runtime \<longrightarrow> path_file_name p = Some GENERATED_PROFILE_NAME)
      (sd_nodes (sample_disk state []))"
  shows "tidy 1 sample_runtime (node_at (sample_disk state fs))"
proof -
  have only: "entries_at sample_runtime (node_at (sample_disk state fs)) \<subseteq> {GENERATED_PROFILE_NAME}"
  proof
    fix n assume "n \<in> entries_at sample_runtime (node_at (sample_disk state fs))"
    then have "path_join sample_runtime n \<in> fst ` set (sd_nodes (sample_disk state []))"
      unfolding sample_nodes [of state fs] by (auto simp: entries_at_def node_at_def dest: map_of_SomeD intro: rev_image_eqI)
    with assms show "n \<in> {GENERATED_PROFILE_NAME}" by (fastforce simp: list_all_iff)
  qed
  then have "temps_at sample_runtime (node_at (sample_disk state fs)) = {}"
    using generated_not_temp by (auto simp: temps_at_def)
  moreover from only have "kept_at sample_runtime (node_at (sample_disk state fs)) = {GENERATED_PROFILE_NAME}"
    by (auto simp: kept_at_def)
  ultimately show ?thesis using only by (auto simp: tidy_def intro: finite_subset)
qed

lemma sample_settled:
  "settled sample_env sample_state_dir sample_runtime (node_at (sample_disk [] [])) None None (node_at (sample_disk [] fs))"
proof -
  have "list_all (\<lambda>(p, _). path_parent p = Some sample_runtime \<longrightarrow> path_file_name p = Some GENERATED_PROFILE_NAME)
      (sd_nodes (sample_disk [] []))" by code_simp
  from sample_view [OF this, of fs] have "tidy 1 sample_runtime (node_at (sample_disk [] fs))" .
  moreover have "node_at (sample_disk [] []) (path_join sample_state_dir ''active.json'') = None"
    "node_at (sample_disk [] []) (path_join sample_state_dir ''previous.json'') = None"
    "node_at (sample_disk [] []) (path_join sample_state_dir ''profile-activation.json'') = None"
    "node_at (sample_disk [] []) (path_join sample_runtime GENERATED_PROFILE_NAME) = None" by code_simp+
  ultimately show ?thesis
    by (auto simp: settled_def view_n_def same_elsewhere_def state_names_def pointer_node_def stored_profile_def
        sample_nodes [of _ fs])
qed

lemma active_settled:
  "settled sample_env sample_state_dir sample_runtime (node_at (sample_disk active_state []))
     (Some sample_generation) (Some other_generation) (node_at (sample_disk active_state fs))"
proof -
  have "list_all (\<lambda>(p, _). path_parent p = Some sample_runtime \<longrightarrow> path_file_name p = Some GENERATED_PROFILE_NAME)
      (sd_nodes (sample_disk active_state []))" by code_simp
  from sample_view [OF this, of fs] have "tidy 1 sample_runtime (node_at (sample_disk active_state fs))" .
  moreover have "node_at (sample_disk active_state []) (path_join sample_state_dir ''active.json'')
      = pointer_node sample_env (Some sample_generation)"
    "node_at (sample_disk active_state []) (path_join sample_state_dir ''previous.json'')
      = pointer_node sample_env (Some other_generation)"
    "node_at (sample_disk active_state []) (path_join sample_state_dir ''profile-activation.json'') = None"
    "node_at (sample_disk active_state []) (path_join sample_runtime GENERATED_PROFILE_NAME)
      = node_at (sample_disk active_state []) (profile_file sample_env sample_generation)" by code_simp+
  ultimately show ?thesis
    by (auto simp: settled_def view_n_def same_elsewhere_def state_names_def stored_profile_def
        sample_nodes [of _ fs])
qed

definition sample_boot :: "nat \<Rightarrow> fault list \<Rightarrow> boot" where
  "sample_boot n faults = \<lparr>bt_pid = n, bt_time = (\<lambda>n. n), bt_faults = faults\<rparr>"

text \<open>
  The machine halts after the active pointer is written, then a first recovery fails while it removes
  the renderer's profile.
\<close>

definition halted_activation :: setup_disk where
  "halted_activation =
     snd (activate sample_env sample_generation (sample_disk [] (replicate 50 Fine @ [Halts 0])))"

lemma halted_activation_recovers:
  "list_all (\<lambda>(p, _). plain_name p)
     (sd_nodes (recoveries sample_env [sample_boot 8 (replicate 20 Fine @ [Fails 0])] halted_activation))"
  by code_simp

section \<open>Properties\<close>

text \<open>
  C26.  An activation survives interruption: on a disk whose store is settled with active profile
  \<open>a\<close> and previous profile \<open>v\<close>, run the activation of \<open>g\<close> with any script of failures and a halt, then
  any number of restarts whose recoveries are themselves interrupted by any script; a recovery on a
  sound machine then succeeds and leaves the journal gone, and pointers and renderer profile exactly as
  the activation of \<open>g\<close> makes them when it returned successfully, and exactly as they were when it
  failed or was halted.
\<close>

theorem activation_survives_interruption:
  assumes "sound_machine env sd root N0" and "store_codec env"
    and "pred_option (generation_ok env N0) a" and "pred_option (generation_ok env N0) v"
    and "generation_ok env N0 g"
    and "calm d" and "settled env sd root N0 a v (node_at d)"
    and "healthy (reboot b (recoveries env boots (snd (activate env g d))))"
  shows "\<exists>x d'. recover_interrupted_activation env (reboot b (recoveries env boots (snd (activate env g d)))) = (Inr x, d')
    \<and> (case fst (activate env g d) of
           Inr _ \<Rightarrow> settled env sd root N0 (Some g) (if a = None \<or> a = Some g then v else a) (node_at d')
         | Inl _ \<Rightarrow> settled env sd root N0 a v (node_at d'))"
proof (rule recovers_after [OF assms(1-5) _ assms(8)])
  have "starts False (settled env sd root N0 a v) d" using assms(6,7) by (simp add: starts_def)
  from tripleD [OF triple_activate [OF assms(1-5)] this]
  show "ends False (\<lambda>_. settled env sd root N0 (Some g) (if a = None \<or> a = Some g then v else a))
      (transition_reach env sd root N0 a v g) (activate env g d)"
    by (rule ends_mono) (auto simp: transition_reach_def)
qed

theorem activation_survives_interruption_witness:
  "fst (activate sample_env sample_generation (sample_disk [] (replicate 50 Fine @ [Halts 0]))) = Inl Halted
   \<and> (\<exists>x d'. recover_interrupted_activation sample_env
         (reboot (sample_boot 9 []) (recoveries sample_env [sample_boot 8 (replicate 20 Fine @ [Fails 0])] halted_activation))
         = (Inr x, d')
       \<and> settled sample_env sample_state_dir sample_runtime (node_at (sample_disk [] [])) None None (node_at d'))"
proof -
  have halted: "fst (activate sample_env sample_generation (sample_disk [] (replicate 50 Fine @ [Halts 0]))) = Inl Halted"
    by code_simp
  have "healthy (reboot (sample_boot 9 [])
      (recoveries sample_env [sample_boot 8 (replicate 20 Fine @ [Fails 0])] halted_activation))"
    using halted_activation_recovers by (intro healthy_plain) (simp_all add: reboot_def sample_boot_def)
  from activation_survives_interruption [OF sample_sound(1) sample_codec _ _ sample_generations(1) sample_calm(1)
      sample_settled this [unfolded halted_activation_def]]
  show ?thesis using halted by (simp add: halted_activation_def)
qed

text \<open>
  C27.  So does a rollback to the previous profile: a recovery on a sound machine leaves the two profiles
  exchanged when the rollback returned successfully, and as they were when it failed or was halted.
\<close>

theorem rollback_survives_interruption:
  assumes "sound_machine env sd root N0" and "store_codec env"
    and "generation_ok env N0 a" and "generation_ok env N0 p"
    and "calm d" and "settled env sd root N0 (Some a) (Some p) (node_at d)"
    and "healthy (reboot b (recoveries env boots (snd (rollback env d))))"
  shows "\<exists>x d'. recover_interrupted_activation env (reboot b (recoveries env boots (snd (rollback env d)))) = (Inr x, d')
    \<and> (case fst (rollback env d) of
           Inr _ \<Rightarrow> settled env sd root N0 (Some p) (Some a) (node_at d')
         | Inl _ \<Rightarrow> settled env sd root N0 (Some a) (Some p) (node_at d'))"
proof (rule recovers_after [OF assms(1,2) _ _ assms(4) _ assms(7)])
  have "starts False (settled env sd root N0 (Some a) (Some p)) d" using assms(5,6) by (simp add: starts_def)
  from tripleD [OF triple_rollback [OF assms(1-4)] this]
  show "ends False (\<lambda>_. settled env sd root N0 (Some p) (Some a))
      (transition_reach env sd root N0 (Some a) (Some p) p) (rollback env d)"
    by (rule ends_mono) (auto simp: transition_reach_def)
qed (use assms(3,4) in simp_all)

theorem rollback_survives_interruption_witness:
  "fst (rollback sample_env (sample_disk active_state (replicate 57 Fine @ [Halts 0]))) = Inl Halted
   \<and> (\<exists>x d'. recover_interrupted_activation sample_env
         (reboot (sample_boot 9 []) (snd (rollback sample_env (sample_disk active_state (replicate 57 Fine @ [Halts 0])))))
         = (Inr x, d')
       \<and> settled sample_env sample_state_dir sample_runtime (node_at (sample_disk active_state []))
           (Some sample_generation) (Some other_generation) (node_at d'))"
proof -
  have run: "fst (rollback sample_env (sample_disk active_state (replicate 57 Fine @ [Halts 0]))) = Inl Halted
      \<and> list_all (\<lambda>(p, _). plain_name p)
          (sd_nodes (snd (rollback sample_env (sample_disk active_state (replicate 57 Fine @ [Halts 0])))))"
    by code_simp
  then have "healthy (reboot (sample_boot 9 [])
      (recoveries sample_env [] (snd (rollback sample_env (sample_disk active_state (replicate 57 Fine @ [Halts 0]))))))"
    by (intro healthy_plain) (simp_all add: reboot_def sample_boot_def)
  from rollback_survives_interruption [OF sample_sound(2) sample_codec sample_generations(2,3) sample_calm(2)
      active_settled this]
  show ?thesis using run by simp
qed

end
