(* ===== verification/Setup_Frame.thy ===== *)
theory Setup_Frame
  imports Setup_Logic
begin

text \<open>
  What an operation leaves alone: a frame names the paths whose nodes it may change and the paths it may
  hand to Windows for deletion.  Unlike the triples of \<open>Setup_Logic\<close> a frame says nothing of the outcome,
  so it holds on every disk and under every script of faults, and composes along the program text.
\<close>

named_theorems frame \<open>what the operations of the setup program leave alone\<close>

definition keeps :: "(path \<Rightarrow> bool) \<Rightarrow> (path \<Rightarrow> bool) \<Rightarrow> setup_disk \<Rightarrow> setup_disk \<Rightarrow> bool" where
  "keeps A B d d' \<longleftrightarrow>
     (\<forall>q. \<not> A q \<longrightarrow> node_at d' q = node_at d q)
     \<and> sd_service_image d' = sd_service_image d \<and> sd_reparse d' = sd_reparse d
     \<and> (sd_blind d = [] \<longrightarrow> sd_blind d' = [])
     \<and> (\<exists>ps. sd_deferred d' = sd_deferred d @ ps \<and> list_all B ps)"

definition confined :: "(path \<Rightarrow> bool) \<Rightarrow> (path \<Rightarrow> bool) \<Rightarrow> 'a setup_op \<Rightarrow> bool" where
  "confined A B m \<longleftrightarrow> (\<forall>d. keeps A B d (snd (m d)))"

text \<open>An operation that changes nothing but the draws from the scripts and the sequence of nonces.\<close>

abbreviation untouched :: "'a setup_op \<Rightarrow> bool" where
  "untouched m \<equiv> confined (\<lambda>_. False) (\<lambda>_. False) m"

lemma keeps_refl [simp]: "keeps A B d d"
  by (auto simp: keeps_def)

lemma keeps_trans:
  assumes "keeps A B d d'" and "keeps A B d' d''"
  shows "keeps A B d d''"
proof -
  obtain ps qs where "sd_deferred d' = sd_deferred d @ ps" "list_all B ps"
    "sd_deferred d'' = sd_deferred d' @ qs" "list_all B qs"
    using assms by (auto simp: keeps_def)
  then have "sd_deferred d'' = sd_deferred d @ (ps @ qs) \<and> list_all B (ps @ qs)" by simp
  then show ?thesis using assms by (fastforce simp: keeps_def)
qed

lemma keeps_mono:
  assumes "keeps A B d d'" and "\<And>q. A q \<Longrightarrow> A' q" and "\<And>q. B q \<Longrightarrow> B' q"
  shows "keeps A' B' d d'"
  using assms by (fastforce simp: keeps_def list_all_iff)

lemma confinedI: "(\<And>d. keeps A B d (snd (m d))) \<Longrightarrow> confined A B m"
  by (simp add: confined_def)

lemma confinedD: "confined A B m \<Longrightarrow> m d = (r, d') \<Longrightarrow> keeps A B d d'"
  by (metis confined_def snd_conv)

lemma confined_mono:
  "confined A B m \<Longrightarrow> (\<And>q. A q \<Longrightarrow> A' q) \<Longrightarrow> (\<And>q. B q \<Longrightarrow> B' q) \<Longrightarrow> confined A' B' m"
  unfolding confined_def by (blast intro: keeps_mono)

lemma confined_untouched: "untouched m \<Longrightarrow> confined A B m"
  by (erule confined_mono) simp_all

section \<open>Composition\<close>

lemma confined_ret [frame]: "confined A B (sret x)"
  by (rule confinedI) (simp add: sret_def)

lemma confined_raise [frame]: "confined A B (sraise e)"
  by (rule confinedI) (simp add: sraise_def)

lemma confined_bind [frame]:
  assumes "confined A B m" and "\<And>x. confined A B (k x)"
  shows "confined A B (sbind m k)"
proof (rule confinedI)
  fix d
  obtain r d1 where m: "m d = (r, d1)" by fastforce
  show "keeps A B d (snd (sbind m k d))"
    using confinedD [OF assms(1) m] confinedD [OF assms(2), of _ d1]
    by (cases r) (auto simp: sbind_def m intro: keeps_trans [OF _ confinedD [OF assms(2) surjective_pairing]])
qed

lemma confined_attempt [frame]:
  assumes "confined A B m"
  shows "confined A B (attempt m)"
proof (rule confinedI)
  fix d
  obtain r d1 where m: "m d = (r, d1)" by fastforce
  show "keeps A B d (snd (attempt m d))"
    using confinedD [OF assms m] by (cases r rule: sum.exhaust; cases "projl r") (auto simp: attempt_def m)
qed

lemma confined_map_error [frame]: "confined A B m \<Longrightarrow> confined A B (map_error f m)"
  unfolding map_error_def by (auto intro!: frame split: sum.split)

lemma confined_at_machine_path [frame]: "confined A B m \<Longrightarrow> confined A B (at_machine_path operation p m)"
  unfolding at_machine_path_def by (rule frame)

lemma confined_if [frame]:
  "(b \<Longrightarrow> confined A B m) \<Longrightarrow> (\<not> b \<Longrightarrow> confined A B m') \<Longrightarrow> confined A B (if b then m else m')"
  by simp

lemma confined_option [frame]:
  "(x = None \<Longrightarrow> confined A B m) \<Longrightarrow> (\<And>y. x = Some y \<Longrightarrow> confined A B (k y)) \<Longrightarrow>
     confined A B (case x of None \<Rightarrow> m | Some y \<Rightarrow> k y)"
  by (cases x) simp_all

lemma confined_sum [frame]:
  "(\<And>y. x = Inl y \<Longrightarrow> confined A B (m y)) \<Longrightarrow> (\<And>y. x = Inr y \<Longrightarrow> confined A B (k y)) \<Longrightarrow>
     confined A B (case x of Inl y \<Rightarrow> m y | Inr y \<Rightarrow> k y)"
  by (cases x) simp_all

lemma confined_prod [frame]:
  "(\<And>y z. x = (y, z) \<Longrightarrow> confined A B (k y z)) \<Longrightarrow> confined A B (case x of (y, z) \<Rightarrow> k y z)"
  by (cases x) simp

lemma confined_lift [frame]: "confined A B (slift r)"
  unfolding slift_def by (auto intro!: frame)

lemma confined_when [frame]: "(b \<Longrightarrow> confined A B m) \<Longrightarrow> confined A B (swhen b m)"
  unfolding swhen_def by (auto intro!: frame)

lemma confined_for [frame]: "(\<And>x. x \<in> set xs \<Longrightarrow> confined A B (f x)) \<Longrightarrow> confined A B (sfor xs f)"
  by (induction xs) (auto intro!: frame)

section \<open>Operations of the file system\<close>

lemma keeps_scripts [simp]:
  "keeps A B d (d\<lparr>sd_faults := fs\<rparr>)" "keeps A B d (d\<lparr>sd_sequence := n\<rparr>)"
  by (auto simp: keeps_def node_at_def)

lemma keeps_set: "A p \<Longrightarrow> keeps A B d (set_node p n d)"
  by (auto simp: keeps_def node_at_def set_node_def update_conv')

lemma keeps_drop: "A p \<Longrightarrow> keeps A B d (drop_node p d)"
  by (auto simp: keeps_def node_at_def drop_node_def delete_conv')

lemma keeps_fold:
  "(\<And>p d. p \<in> set ps \<Longrightarrow> keeps A B d (f p d)) \<Longrightarrow> keeps A B d (fold f ps d)"
proof (induction ps arbitrary: d)
  case (Cons p ps)
  have "keeps A B d (f p d)" by (rule Cons.prems) simp
  moreover have "keeps A B (f p d) (fold f ps (f p d))" by (rule Cons.IH) (simp add: Cons.prems)
  ultimately show ?case by (simp add: keeps_trans)
qed simp

lemma confined_io_op:
  assumes "\<And>d. keeps A B d (snd (run d))" and "\<And>n d. keeps A B d (torn n d)"
  shows "confined A B (io_op run torn)"
proof (rule confinedI)
  fix d
  obtain f d1 where f: "take_fault d = (f, d1)" by fastforce
  then have 1: "keeps A B d d1" by (auto simp: take_fault_def split: list.splits)
  have "snd (io_op run torn d) \<in> {snd (run d1)} \<union> range (\<lambda>n. torn n d1)"
    by (cases f) (auto simp: io_op_def f split: prod.splits)
  then show "keeps A B d (snd (io_op run torn d))"
    using keeps_trans [OF 1 assms(1)] keeps_trans [OF 1 assms(2)] by auto
qed

lemma confined_io_read [frame]: "confined A B (io_read look)"
  unfolding io_read_def by (rule confined_io_op) simp_all

lemma confined_io_write: "(\<And>d. keeps A B d (snd (run d))) \<Longrightarrow> confined A B (io_write run)"
  unfolding io_write_def by (rule confined_io_op) simp_all

lemma confined_seen [frame]: "confined A B (seen look)"
  by (rule confinedI) (auto simp: seen_def keeps_def node_at_def split: list.splits)

lemmas reading_defs = path_exists_def path_is_dir_def path_is_file_def fs_is_reparse_def fs_metadata_def
  fs_handle_is_reparse_def fs_handle_metadata_def fs_is_regular_def fs_open_read_def fs_read_limited_def
  fs_names_def fs_next_entry_def fs_sync_all_def

lemma confined_reading [frame]:
  "confined A B (path_exists p)" "confined A B (path_is_dir p)" "confined A B (path_is_file p)"
  "confined A B (fs_is_reparse p)" "confined A B (fs_metadata p)" "confined A B (fs_handle_is_reparse p)"
  "confined A B (fs_handle_metadata p)" "confined A B (fs_is_regular p)" "confined A B (fs_open_read p)"
  "confined A B (fs_read_limited p n)" "confined A B (fs_names p)" "confined A B fs_next_entry"
  "confined A B (fs_sync_all p)"
  unfolding reading_defs by (rule frame)+

lemma confined_nonce [frame]: "confined A B temporary_nonce"
  by (rule confinedI) (simp add: temporary_nonce_def)

lemma confined_create_new [frame]: "A p \<Longrightarrow> confined A B (fs_create_new p)"
  unfolding fs_create_new_def by (rule confined_io_write) (simp add: keeps_set)

lemma keeps_append: "A p \<Longrightarrow> keeps A B d (append_to p bytes d)"
  by (auto simp: append_to_def keeps_set split: option.split disk_node.split)

lemma confined_write_all [frame]: "A p \<Longrightarrow> confined A B (fs_write_all p bytes)"
  unfolding fs_write_all_def by (rule confined_io_op) (simp_all add: keeps_append)

lemma confined_remove_file [frame]: "A p \<Longrightarrow> confined A B (fs_remove_file p)"
  unfolding fs_remove_file_def
  by (rule confined_io_write) (auto simp: keeps_drop split: option.split disk_node.split)

lemma confined_mark [frame]: "A p \<Longrightarrow> confined A B (fs_mark_for_deletion p)"
  unfolding fs_mark_for_deletion_def by (rule confined_io_op) (simp_all add: keeps_drop)

lemma confined_remove_dir [frame]: "A p \<Longrightarrow> confined A B (fs_remove_dir p)"
  unfolding fs_remove_dir_def by (rule confined_io_write) (simp add: keeps_drop)

lemma confined_delay_delete [frame]: "B p \<Longrightarrow> confined A B (fs_delay_delete p)"
  unfolding fs_delay_delete_def by (rule confined_io_write) (auto simp: keeps_def node_at_def)

lemma map_of_filter_key: "P p \<Longrightarrow> map_of (filter (\<lambda>(q, _). P q) kvs) p = map_of kvs p"
  by (induction kvs) auto

lemma confined_remove_dir_all [frame]:
  assumes "\<And>q. below p q \<Longrightarrow> A q"
  shows "confined A B (fs_remove_dir_all p)"
  unfolding fs_remove_dir_all_def
proof (rule confined_io_op)
  fix d
  have "node_at (d\<lparr>sd_nodes := filter (\<lambda>(q, _). \<not> below p q) (sd_nodes d)\<rparr>) q = node_at d q" if "\<not> A q" for q
    using assms that map_of_filter_key [where P = "\<lambda>q. \<not> below p q"] by (auto simp: node_at_def)
  then show "keeps A B d (snd (if node_at d p = None then (Inl IoNotFound, d)
      else (Inr (), d\<lparr>sd_nodes := filter (\<lambda>(q, _). \<not> below p q) (sd_nodes d)\<rparr>)))"
    by (auto simp: keeps_def)
next
  fix n d
  show "keeps A B d (fold drop_node
      (take n (filter (\<lambda>q. q \<noteq> p \<and> below p q) (map fst (sd_nodes d)))) d)"
    by (rule keeps_fold) (auto dest!: in_set_takeD intro!: keeps_drop assms)
qed

lemma confined_replace_file [frame]: "A source \<Longrightarrow> A destination \<Longrightarrow> confined A B (replace_file source destination)"
  unfolding replace_file_def
  by (rule confined_io_write)
    (auto intro: keeps_trans [OF keeps_set keeps_drop] split: option.split disk_node.split)

lemma missing_dirs_below:
  assumes "q \<in> set (missing_dirs d p)"
  shows "q \<in> set (path_ancestors p) \<and> node_at d q = None"
  using assms by (auto simp: missing_dirs_def)

lemma confined_create_dir_all [frame]:
  assumes "\<And>q. q \<in> set (path_ancestors p) \<Longrightarrow> A q"
  shows "confined A B (fs_create_dir_all p)"
  unfolding fs_create_dir_all_def make_dirs_def
  by (rule confined_io_op)
    (auto intro!: keeps_fold keeps_set assms dest!: in_set_takeD dest: missing_dirs_below)

section \<open>Protected storage\<close>

lemma confined_reject_list: "confined A B (reject_reparse_list ps)"
  by (induction ps) (auto intro!: frame)

lemma confined_reject [frame]: "confined A B (reject_reparse_ancestors p)"
  unfolding reject_reparse_ancestors_def by (rule confined_reject_list)

lemma confined_protected_directory [frame]:
  "(\<And>q. q \<in> set (path_ancestors p) \<Longrightarrow> A q) \<Longrightarrow> confined A B (create_protected_directory p)"
  unfolding create_protected_directory_def by (auto intro!: frame)

lemma confined_read_file [frame]: "confined A B (setup_read_file p n description)"
  unfolding setup_read_file_def by (auto intro!: frame)

lemma confined_collect: "confined A B (collect_entries n description names entries)"
  by (induction names arbitrary: entries) (auto intro!: frame)

lemma confined_read_directory [frame]: "confined A B (read_bounded_directory p n description)"
  unfolding read_bounded_directory_def by (auto intro!: frame confined_collect)

text \<open>A file of a directory is replaced over a temporary file in that directory.\<close>

lemma confined_atomic_write:
  assumes "A (path_join q name)" and "\<And>nonce. A (path_join q (temporary_name name nonce))"
    and "\<And>a. a \<in> set (path_ancestors q) \<Longrightarrow> A a"
  shows "confined A B (atomic_write (path_join q name) bytes)"
  using assms unfolding atomic_write_def write_and_replace_def Let_def
  by (auto intro!: frame)

section \<open>Successful answers\<close>

named_theorems answers \<open>how a step that answers Ok came about\<close>

lemma sret_Inr [answers]: "sret x d = (Inr y, d') \<longleftrightarrow> y = x \<and> d' = d"
  by (auto simp: sret_def)

lemma sraise_Inr [answers]: "sraise e d = (Inr y, d') \<longleftrightarrow> False"
  by (simp add: sraise_def)

lemma sbind_Inr [answers]:
  "sbind m k d = (Inr y, d') \<longleftrightarrow> (\<exists>x d1. m d = (Inr x, d1) \<and> k x d1 = (Inr y, d'))"
  by (auto simp: sbind_def split: prod.splits sum.splits)

lemma sbind_known: "m d = (Inr x, d1) \<Longrightarrow> sbind m k d = k x d1"
  by (simp add: sbind_def)

lemma attempt_Inr [answers]:
  "attempt m d = (Inr r, d') \<longleftrightarrow>
     (\<exists>x. r = Inr x \<and> m d = (Inr x, d')) \<or> (\<exists>e. r = Inl e \<and> m d = (Inl (Raised e), d'))"
  by (auto simp: attempt_def split: prod.splits sum.splits stop.splits)

lemma map_error_Inr [answers]: "map_error f m d = (Inr x, d') \<longleftrightarrow> m d = (Inr x, d')"
proof -
  obtain r d1 where m: "m d = (r, d1)" by fastforce
  show ?thesis
    by (cases r rule: sum.exhaust; cases "projl r")
      (auto simp: map_error_def sbind_def attempt_def sret_def sraise_def m)
qed

lemma at_machine_path_Inr [answers]: "at_machine_path operation p m d = (Inr x, d') \<longleftrightarrow> m d = (Inr x, d')"
  by (simp add: at_machine_path_def answers)

lemma slift_Inr [answers]: "slift r d = (Inr x, d') \<longleftrightarrow> r = Inr x \<and> d' = d"
  by (cases r) (auto simp: slift_def answers)

lemma io_op_Inr:
  "io_op run torn d = (Inr x, d') \<longleftrightarrow>
     (\<exists>fs. (sd_faults d = [] \<and> fs = [] \<or> sd_faults d = Fine # fs) \<and> run (d\<lparr>sd_faults := fs\<rparr>) = (Inr x, d'))"
proof -
  have done_with: "(case run d1 of (r, d) \<Rightarrow> (map_sum (\<lambda>k. Raised (SetupIo k)) id r, d)) = (Inr x, d')
      \<longleftrightarrow> run d1 = (Inr x, d')" for d1
    by (cases "run d1"; cases "fst (run d1)") auto
  show ?thesis
  proof (cases "sd_faults d")
    case Nil
    then have same: "d\<lparr>sd_faults := []\<rparr> = d" by simp
    from Nil show ?thesis by (simp add: io_op_def take_fault_def done_with) (simp only: same)
  next
    case (Cons f fs)
    then show ?thesis by (cases f) (simp_all add: io_op_def take_fault_def done_with)
  qed
qed

text \<open>What a look answers.\<close>

lemma io_read_Inr:
  assumes "io_read look d = (Inr x, d')"
  obtains fs where "look (d\<lparr>sd_faults := fs\<rparr>) = Inr x"
  using assms by (auto simp: io_read_def io_op_Inr)

lemma seen_Inr:
  assumes "seen look d = (Inr x, d')" and "sd_blind d = []"
  shows "x = look d"
  using assms by (auto simp: seen_def)

text \<open>An answer an operation can give.\<close>

definition returns :: "'a setup_op \<Rightarrow> 'a \<Rightarrow> bool" where
  "returns m x \<longleftrightarrow> (\<exists>d d'. m d = (Inr x, d'))"

lemma confined_bind_returns:
  assumes "confined A B m" and "\<And>x. returns m x \<Longrightarrow> confined A B (k x)"
  shows "confined A B (sbind m k)"
proof (rule confinedI)
  fix d
  obtain r d1 where m: "m d = (r, d1)" by fastforce
  show "keeps A B d (snd (sbind m k d))"
  proof (cases r)
    case (Inl a)
    then show ?thesis using confinedD [OF assms(1) m] by (simp add: sbind_def m)
  next
    case (Inr x)
    then have "returns m x" using m by (auto simp: returns_def)
    from assms(2) [OF this] have "keeps A B d1 (snd (k x d1))" by (simp add: confined_def)
    then show ?thesis using confinedD [OF assms(1) m] Inr by (simp add: sbind_def m keeps_trans)
  qed
qed

end
