(* ===== verification/Runtime_Storage.thy ===== *)
theory Runtime_Storage
  imports Profile_Store Health
begin

text \<open>
  The generation store of the runtime installer (\<open>setup/src/runtime_installer\<close>: deployment, deferred
  deletion, receipts, migration pins and retention): loading and staging a payload, verifying a
  generation against its receipt, and removing the generations nothing keeps.
\<close>

section \<open>Data\<close>

definition MAX_MANIFEST_BYTES :: nat where "MAX_MANIFEST_BYTES = 64 * 1024"
definition MAX_MIGRATION_RUNTIME_PIN_BYTES :: nat where "MAX_MIGRATION_RUNTIME_PIN_BYTES = 64 * 1024"
definition RUNTIME_RECEIPT_SCHEMA :: u32 where "RUNTIME_RECEIPT_SCHEMA = 1"
definition MAX_RUNTIME_RECEIPT_BYTES :: nat where "MAX_RUNTIME_RECEIPT_BYTES = 16 * 1024"
definition MIGRATION_RUNTIME_PINS_DIRECTORY :: string where
  "MIGRATION_RUNTIME_PINS_DIRECTORY = ''migration-runtime-pins''"

record loaded_payload =
  lp_verified :: verified_runtime_manifest
  lp_files :: "string btree_map"

record runtime_receipt =
  rr_schema :: u32
  rr_version :: string
  rr_files :: "string btree_map"

definition string_map_to_json :: "string btree_map \<Rightarrow> json" where
  "string_map_to_json m = JObject (map (\<lambda>(k, v). (k, JString v)) m)"

definition runtime_receipt_to_json :: "runtime_receipt \<Rightarrow> json" where
  "runtime_receipt_to_json r =
     JObject [(''schema'', JNat (unat (rr_schema r))), (''version'', JString (rr_version r)),
              (''files'', string_map_to_json (rr_files r))]"

definition runtime_receipt_of_json :: "json \<Rightarrow> runtime_receipt option" where
  "runtime_receipt_of_json v =
     do { m \<leftarrow> struct_fields [''schema'', ''version'', ''files''] v;
          schema \<leftarrow> de_word (m ''schema'');
          version \<leftarrow> de_string (m ''version'');
          files \<leftarrow> Option.bind (m ''files'') de_string_map;
          Some \<lparr>rr_schema = schema, rr_version = version, rr_files = files\<rparr> }"

definition pinned_runtime_of_json :: "json \<Rightarrow> migration_pinned_runtime option" where
  "pinned_runtime_of_json v =
     do { m \<leftarrow> struct_fields [''version'', ''files'', ''generated_profile''] v;
          version \<leftarrow> de_string (m ''version'');
          files \<leftarrow> Option.bind (m ''files'') de_string_map;
          generated \<leftarrow> de_option de_string (m ''generated_profile'');
          Some \<lparr>mp_version = version, mp_files = files, mp_generated_profile = generated\<rparr> }"

definition migration_pin_of_json :: "json \<Rightarrow> migration_runtime_pin option" where
  "migration_pin_of_json v =
     do { m \<leftarrow> struct_fields [''schema'', ''nonce'', ''runtimes''] v;
          schema \<leftarrow> de_word (m ''schema'');
          nonce \<leftarrow> de_string (m ''nonce'');
          runtimes \<leftarrow> (case m ''runtimes'' of
              Some (JArray vs) \<Rightarrow> those (map pinned_runtime_of_json vs) | _ \<Rightarrow> None);
          Some \<lparr>pin_schema = schema, pin_nonce = nonce, pin_runtimes = runtimes\<rparr> }"

definition contract_digest :: "string \<Rightarrow> bool" where
  "contract_digest digest \<longleftrightarrow> length digest = 71 \<and> starts_with digest ''sha256:''
     \<and> list_all (\<lambda>c. is_ascii_digit c \<or> 97 \<le> byte c \<and> byte c \<le> 102) (drop 7 digest)"

definition receipt_is_valid_for :: "runtime_receipt \<Rightarrow> string \<Rightarrow> bool" where
  "receipt_is_valid_for r version \<longleftrightarrow>
     rr_schema r = RUNTIME_RECEIPT_SCHEMA \<and> rr_version r = version
     \<and> valid_runtime_version_component (rr_version r)
     \<and> length (rr_files r) = length IMMUTABLE_RUNTIME_FILES
     \<and> list_all (contains_key (rr_files r)) IMMUTABLE_RUNTIME_FILES
     \<and> list_all (\<lambda>(name, digest). is_allowed_name name \<and> contract_digest digest) (rr_files r)"

definition manifest_error_name :: "manifest_error \<Rightarrow> string" where
  "manifest_error_name e =
     (case e of InvalidJson \<Rightarrow> ''InvalidJson'' | UnsupportedSchema \<Rightarrow> ''UnsupportedSchema''
      | InvalidVersion \<Rightarrow> ''InvalidVersion'' | InvalidFileSet \<Rightarrow> ''InvalidFileSet''
      | InvalidHash \<Rightarrow> ''InvalidHash'' | HashMismatch \<Rightarrow> ''HashMismatch''
      | FileEmpty \<Rightarrow> ''FileEmpty'' | FileTooLarge \<Rightarrow> ''FileTooLarge'')"

definition manifest_error_display :: "manifest_error \<Rightarrow> string" where
  "manifest_error_display e = ''runtime manifest verification failed: '' @ manifest_error_name e"

definition runtime_error :: "string \<Rightarrow> 'a setup_op" where
  "runtime_error message = sraise (SetupRuntime message [])"

section \<open>Paths of the store\<close>

definition versions_root :: "setup_env \<Rightarrow> path" where
  "versions_root env = runtime_versions (en_paths env)"

definition runtime_receipts_root :: "setup_env \<Rightarrow> path" where
  "runtime_receipts_root env = path_join (service_root (en_paths env)) ''runtime-receipts''"

definition runtime_receipt_path :: "setup_env \<Rightarrow> string \<Rightarrow> path" where
  "runtime_receipt_path env version = path_join (runtime_receipts_root env) (version @ ''.json'')"

definition previous_runtime_pointer_path :: "setup_env \<Rightarrow> path" where
  "previous_runtime_pointer_path env = path_join (service_root (en_paths env)) ''previous-runtime.json''"

definition migration_runtime_pins_root :: "setup_env \<Rightarrow> path" where
  "migration_runtime_pins_root env = path_join (service_root (en_paths env)) MIGRATION_RUNTIME_PINS_DIRECTORY"

section \<open>Deployment\<close>

fun load_payload_files :: "path \<Rightarrow> string list \<Rightarrow> string btree_map \<Rightarrow> string btree_map setup_op" where
  "load_payload_files root [] files = sret files"
| "load_payload_files root (name # names) files =
     (let p = path_join root name
      in sbind (reject_reparse_ancestors p) (\<lambda>_.
         sbind (fs_metadata p) (\<lambda>metadata.
         if (case node_length metadata of None \<Rightarrow> True | Some n \<Rightarrow> MAX_RUNTIME_FILE_BYTES < n)
         then sraise (SetupManifest ''payload entry is not a bounded regular file'' [])
         else sbind (fs_open_read p) (\<lambda>_.
              sbind (fs_read_limited p (MAX_RUNTIME_FILE_BYTES + 1)) (\<lambda>bytes.
              if MAX_RUNTIME_FILE_BYTES < length bytes
              then sraise (SetupManifest ''payload file is too large'' [])
              else load_payload_files root names (bt_insert name bytes files))))))"

definition load_payload :: "setup_env \<Rightarrow> path \<Rightarrow> loaded_payload setup_op" where
  "load_payload env root =
     (let manifest_path = path_join root ''manifest.json''; files_root = path_join root ''files''
      in sbind (reject_reparse_ancestors root) (\<lambda>_.
         sbind (reject_reparse_ancestors manifest_path) (\<lambda>_.
         sbind (reject_reparse_ancestors files_root) (\<lambda>_.
         sbind (map_error (\<lambda>e. SetupManifest ''{error}'' [e])
                  (setup_read_file manifest_path MAX_MANIFEST_BYTES ''runtime manifest'')) (\<lambda>manifest.
         sbind (read_bounded_directory files_root (length IMMUTABLE_RUNTIME_FILES) ''payload entry count'') (\<lambda>names.
         sbind (load_payload_files files_root names []) (\<lambda>files.
         case verify_runtime_manifest (en_sha env) (en_parse env) manifest files of
           Inl e \<Rightarrow> sraise (SetupManifest (manifest_error_display e) [])
         | Inr verified \<Rightarrow> sret \<lparr>lp_verified = verified, lp_files = files\<rparr>)))))))"

definition payload_version :: "loaded_payload \<Rightarrow> string" where
  "payload_version payload = vm_version (lp_verified payload)"

text \<open>The checks of the entries of a colliding staging directory of an older setup.\<close>

fun check_staging_files :: "path \<Rightarrow> string btree_map \<Rightarrow> string list \<Rightarrow> unit setup_op" where
  "check_staging_files staging expected [] = sret ()"
| "check_staging_files staging expected (name # names) =
     (if \<not> contains_key expected name
      then runtime_error ''runtime staging collision contains an unexpected entry''
      else (let p = path_join staging name
            in sbind (reject_reparse_ancestors p) (\<lambda>_.
               sbind (fs_metadata p) (\<lambda>metadata.
               if (case node_length metadata of None \<Rightarrow> True | Some n \<Rightarrow> MAX_RUNTIME_FILE_BYTES < n)
               then runtime_error ''runtime staging collision contains a non-regular entry''
               else check_staging_files staging expected names))))"

definition remove_runtime_staging_collision :: "path \<Rightarrow> string \<Rightarrow> string btree_map \<Rightarrow> unit setup_op" where
  "remove_runtime_staging_collision root version expected d =
     (let staging = path_join root (''.staging-'' @ version @ dash @ show_nat (sd_pid d))
      in sbind (path_exists staging) (\<lambda>there.
         if \<not> there then sret ()
         else sbind (reject_reparse_ancestors staging) (\<lambda>_.
              sbind (fs_metadata staging) (\<lambda>metadata.
              if metadata \<noteq> DirNode
              then runtime_error ''runtime staging collision is not a protected directory''
              else sbind (read_bounded_directory staging (length expected) ''runtime staging entry count'') (\<lambda>names.
                   sbind (check_staging_files staging expected names) (\<lambda>_.
                   sbind (sfor names (\<lambda>name. fs_remove_file (path_join staging name))) (\<lambda>_.
                   fs_remove_dir staging)))))) d)"

definition bounded_profile_entry :: "disk_node \<Rightarrow> bool" where
  "bounded_profile_entry metadata \<longleftrightarrow>
     (case node_length metadata of None \<Rightarrow> False | Some n \<Rightarrow> n \<noteq> 0 \<and> n \<le> MAX_PROFILE_BYTES)"

text \<open>The loop over the entries; the number of manifest files seen is its answer.\<close>

fun verify_payload_entries :: "path \<Rightarrow> string btree_map \<Rightarrow> string list \<Rightarrow> nat \<Rightarrow> nat setup_op" where
  "verify_payload_entries directory expected [] verified = sret verified"
| "verify_payload_entries directory expected (name # names) verified =
     (let p = path_join directory name
      in sbind (reject_reparse_ancestors p) (\<lambda>_.
         if name = GENERATED_PROFILE_NAME
         then sbind (fs_metadata p) (\<lambda>metadata.
              if \<not> bounded_profile_entry metadata
              then runtime_error ''generated runtime profile is not a bounded regular file''
              else verify_payload_entries directory expected names verified)
         else (case map_of expected name of
                 None \<Rightarrow> runtime_error ''runtime contains an unsigned file''
               | Some bytes \<Rightarrow>
                   sbind (setup_read_file p MAX_RUNTIME_FILE_BYTES ''installed runtime file'') (\<lambda>actual.
                   if actual \<noteq> bytes then runtime_error ''installed runtime hash verification failed''
                   else verify_payload_entries directory expected names (verified + 1)))))"

definition verify_existing_payload :: "path \<Rightarrow> string btree_map \<Rightarrow> unit setup_op" where
  "verify_existing_payload directory expected =
     sbind (reject_reparse_ancestors directory) (\<lambda>_.
     sbind (read_bounded_directory directory (length expected + 1) ''installed runtime entry count'') (\<lambda>names.
     if length names < length expected
     then runtime_error ''installed runtime contains an unexpected file set''
     else sbind (verify_payload_entries directory expected names 0) (\<lambda>verified.
          if verified \<noteq> length expected
          then runtime_error ''installed runtime is missing a manifest file'' else sret ())))"

definition write_payload_files :: "path \<Rightarrow> string btree_map \<Rightarrow> unit setup_op" where
  "write_payload_files directory files =
     sfor files (\<lambda>(name, bytes). write_synced (path_join directory name) bytes)"

definition runtime_staging_name :: "string \<Rightarrow> string \<Rightarrow> string" where
  "runtime_staging_name version nonce = ''.staging-'' @ version @ dash @ nonce"

definition stage_payload ::
  "setup_env \<Rightarrow> (path \<Rightarrow> loaded_payload \<Rightarrow> unit setup_op) \<Rightarrow> loaded_payload \<Rightarrow> path \<Rightarrow> bool \<Rightarrow> unit setup_op" where
  "stage_payload env replace_invalid_payload payload destination replace_invalid =
     sbind (create_protected_directory (versions_root env)) (\<lambda>_.
     sbind (remove_runtime_staging_collision (versions_root env) (payload_version payload) (lp_files payload)) (\<lambda>_.
     sbind (path_exists destination) (\<lambda>there.
     if there
     then sbind (reject_reparse_ancestors destination) (\<lambda>_.
          sbind (attempt (verify_existing_payload destination (lp_files payload))) (\<lambda>verified.
          case verified of
            Inr _ \<Rightarrow> sret ()
          | Inl e \<Rightarrow> if \<not> replace_invalid then sraise e else replace_invalid_payload destination payload))
     else sbind temporary_nonce (\<lambda>nonce.
          let staging = path_join (versions_root env) (runtime_staging_name (payload_version payload) nonce)
          in sbind (path_exists staging) (\<lambda>there.
             if there then runtime_error ''runtime staging directory already exists''
             else sbind (create_protected_directory staging) (\<lambda>_.
                  sbind (attempt (
                      sbind (write_payload_files staging (lp_files payload)) (\<lambda>_.
                      sbind (fs_rename_dir staging destination) (\<lambda>_.
                      verify_existing_payload destination (lp_files payload))))) (\<lambda>result.
                  case result of
                    Inr _ \<Rightarrow> sret ()
                  | Inl e \<Rightarrow>
                      sbind (path_exists staging) (\<lambda>there.
                      sbind (swhen there (sbind (attempt (fs_remove_dir_all staging)) (\<lambda>_. sret ()))) (\<lambda>_.
                      sraise e)))))))))"

section \<open>Receipts of generations\<close>

text \<open>
  The loop of \<open>verify\<close>; its answer is the set of verified names (as a list without repetitions), whose
  size is compared with the number of immutable files.
\<close>

fun verify_receipted_entries ::
  "setup_env \<Rightarrow> path \<Rightarrow> runtime_receipt \<Rightarrow> string list \<Rightarrow> string list \<Rightarrow> string list setup_op" where
  "verify_receipted_entries env directory receipt [] verified = sret verified"
| "verify_receipted_entries env directory receipt (name # names) verified =
     (let p = path_join directory name
      in sbind (reject_reparse_ancestors p) (\<lambda>_.
         if name = GENERATED_PROFILE_NAME
         then sbind (fs_metadata p) (\<lambda>metadata.
              if \<not> bounded_profile_entry metadata
              then runtime_error ''generated profile is not a bounded regular file''
              else verify_receipted_entries env directory receipt names verified)
         else (case map_of (rr_files receipt) name of
                 None \<Rightarrow> runtime_error ''runtime generation contains an unsigned file''
               | Some expected \<Rightarrow>
                   sbind (setup_read_file p MAX_RUNTIME_FILE_BYTES ''runtime generation file'') (\<lambda>bytes.
                   if sha256_digest (en_sha env) bytes \<noteq> expected
                   then runtime_error ''runtime generation file differs from its receipt''
                   else verify_receipted_entries env directory receipt names (List.insert name verified)))))"

definition verify_runtime_generation :: "setup_env \<Rightarrow> string \<Rightarrow> path \<Rightarrow> unit setup_op" where
  "verify_runtime_generation env version directory =
     sbind (reject_reparse_ancestors directory) (\<lambda>_.
     sbind (fs_metadata directory) (\<lambda>metadata.
     if metadata \<noteq> DirNode then runtime_error ''runtime generation is not a regular directory''
     else sbind (setup_read_file (runtime_receipt_path env version) MAX_RUNTIME_RECEIPT_BYTES
                   ''runtime generation receipt'') (\<lambda>receipt_bytes.
          case Option.bind (en_parse env receipt_bytes) runtime_receipt_of_json of
            None \<Rightarrow> runtime_error ''runtime generation receipt is invalid''
          | Some receipt \<Rightarrow>
              if \<not> receipt_is_valid_for receipt version
              then runtime_error ''runtime generation receipt violates the fixed manifest contract''
              else sbind (read_bounded_directory directory (length IMMUTABLE_RUNTIME_FILES + 1)
                            ''runtime generation entry count'') (\<lambda>names.
                   if length names < length IMMUTABLE_RUNTIME_FILES
                   then runtime_error ''runtime generation contains an unexpected file set''
                   else sbind (verify_receipted_entries env directory receipt names []) (\<lambda>verified.
                        if length verified \<noteq> length IMMUTABLE_RUNTIME_FILES
                        then runtime_error ''runtime generation is missing a receipt file''
                        else sret ())))))"

definition payload_receipt :: "setup_env \<Rightarrow> loaded_payload \<Rightarrow> runtime_receipt" where
  "payload_receipt env payload =
     \<lparr>rr_schema = RUNTIME_RECEIPT_SCHEMA, rr_version = payload_version payload,
      rr_files = map (\<lambda>(name, bytes). (name, sha256_digest (en_sha env) bytes)) (lp_files payload)\<rparr>"

definition write_runtime_receipt :: "setup_env \<Rightarrow> loaded_payload \<Rightarrow> unit setup_op" where
  "write_runtime_receipt env payload =
     sbind (create_protected_directory (runtime_receipts_root env)) (\<lambda>_.
     atomic_write (runtime_receipt_path env (payload_version payload))
       (en_print env (runtime_receipt_to_json (payload_receipt env payload))))"

definition stage ::
  "setup_env \<Rightarrow> (path \<Rightarrow> loaded_payload \<Rightarrow> unit setup_op) \<Rightarrow> loaded_payload \<Rightarrow> bool \<Rightarrow> path setup_op" where
  "stage env replace_invalid_payload payload replace_invalid =
     (let destination = path_join (versions_root env) (payload_version payload);
          receipt_path = runtime_receipt_path env (payload_version payload)
      in sbind (at_machine_path ''stage verified runtime payload'' destination
                  (stage_payload env replace_invalid_payload payload destination replace_invalid)) (\<lambda>_.
         sbind (at_machine_path ''write runtime generation receipt'' receipt_path
                  (write_runtime_receipt env payload)) (\<lambda>_. sret destination)))"

section \<open>Deferred deletion\<close>

definition remove_or_defer :: "string \<Rightarrow> path \<Rightarrow> bool \<Rightarrow> unit setup_op" where
  "remove_or_defer failure p directory =
     sbind (attempt (if directory then fs_remove_dir p else fs_remove_file p)) (\<lambda>removal.
     case removal of
       Inr _ \<Rightarrow> sret ()
     | Inl removal_error \<Rightarrow>
         map_error (\<lambda>defer_error. CleanupUnknown failure [removal_error, defer_error]) (fs_delay_delete p))"

definition removal_failure :: string where
  "removal_failure =
     ''verified runtime removal failed ({removal_error}) and could not be deferred until reboot ({defer_error})''"

definition remove_file_or_defer :: "path \<Rightarrow> string \<Rightarrow> unit setup_op" where
  "remove_file_or_defer p operation = at_machine_path operation p (remove_or_defer removal_failure p False)"

definition remove_directory_or_defer :: "path \<Rightarrow> string \<Rightarrow> unit setup_op" where
  "remove_directory_or_defer p operation = at_machine_path operation p (remove_or_defer removal_failure p True)"

definition defer_directory :: "path \<Rightarrow> string \<Rightarrow> unit setup_op" where
  "defer_directory p operation = at_machine_path operation p (fs_delay_delete p)"

section \<open>Migration pins\<close>

fun verify_pinned_files :: "setup_env \<Rightarrow> path \<Rightarrow> string btree_map \<Rightarrow> unit setup_op" where
  "verify_pinned_files env root [] = sret ()"
| "verify_pinned_files env root ((name, expected) # files) =
     sbind (setup_read_file (path_join root name) MAX_RUNTIME_FILE_BYTES ''pinned runtime file'') (\<lambda>bytes.
     if sha256_digest (en_sha env) bytes \<noteq> expected
     then runtime_error ''pinned runtime file differs from its migration hash''
     else verify_pinned_files env root files)"

definition verify_pinned_runtime :: "setup_env \<Rightarrow> migration_pinned_runtime \<Rightarrow> unit setup_op" where
  "verify_pinned_runtime env runtime =
     (if \<not> validate_pinned_runtime runtime then runtime_error ''migration runtime pin is invalid: {error}''
      else (let root = path_join (versions_root env) (mp_version runtime);
                expected_count = length IMMUTABLE_RUNTIME_FILES + (if mp_generated_profile runtime = None then 0 else 1)
            in sbind (reject_reparse_ancestors root) (\<lambda>_.
               sbind (fs_metadata root) (\<lambda>metadata.
               if metadata \<noteq> DirNode then runtime_error ''pinned runtime generation is unavailable''
               else sbind (read_bounded_directory root expected_count ''pinned runtime entry count'') (\<lambda>names.
                    if length names \<noteq> expected_count
                    then runtime_error ''pinned runtime contains an unexpected file set''
                    else sbind (verify_pinned_files env root (mp_files runtime)) (\<lambda>_.
                         case mp_generated_profile runtime of
                           None \<Rightarrow> sret ()
                         | Some expected \<Rightarrow>
                             sbind (setup_read_file (path_join root GENERATED_PROFILE_NAME) MAX_PROFILE_BYTES
                                      ''pinned generated profile'') (\<lambda>bytes.
                             if sha256_digest (en_sha env) bytes \<noteq> expected
                             then runtime_error ''pinned generated profile differs from its migration hash''
                             else sret ())))))))"

fun add_pinned_runtimes ::
  "setup_env \<Rightarrow> migration_pinned_runtime list \<Rightarrow> migration_pinned_runtime btree_map \<Rightarrow>
     migration_pinned_runtime btree_map setup_op" where
  "add_pinned_runtimes env [] pinned = sret pinned"
| "add_pinned_runtimes env (runtime # runtimes) pinned =
     sbind (verify_pinned_runtime env runtime) (\<lambda>_.
     case map_of pinned (mp_version runtime) of
       Some existing \<Rightarrow>
         if existing \<noteq> runtime then runtime_error ''migration pins disagree about a runtime generation''
         else add_pinned_runtimes env runtimes pinned
     | None \<Rightarrow>
         (let pinned = bt_insert (mp_version runtime) runtime pinned
          in if MAX_PINNED_RUNTIMES < length pinned
             then runtime_error ''migration pinned runtime count exceeds the fixed limit''
             else add_pinned_runtimes env runtimes pinned))"

definition strip_suffix :: "string \<Rightarrow> string \<Rightarrow> string option" where
  "strip_suffix s suffix = (if ends_with s suffix then Some (take (length s - length suffix) s) else None)"

definition canonical_pin_nonce :: "string \<Rightarrow> bool" where
  "canonical_pin_nonce nonce \<longleftrightarrow> length nonce = 32
     \<and> list_all (\<lambda>c. is_ascii_digit c \<or> 97 \<le> byte c \<and> byte c \<le> 102) nonce"

fun load_pins ::
  "setup_env \<Rightarrow> path \<Rightarrow> string list \<Rightarrow> migration_pinned_runtime btree_map \<Rightarrow>
     migration_pinned_runtime btree_map setup_op" where
  "load_pins env root [] pinned = sret pinned"
| "load_pins env root (name # names) pinned =
     (case strip_suffix name ''.json'' of
        None \<Rightarrow> runtime_error ''migration pin filename is not canonical''
      | Some nonce \<Rightarrow>
          if \<not> canonical_pin_nonce nonce then runtime_error ''migration pin filename is not canonical''
          else sbind (setup_read_file (path_join root name) MAX_MIGRATION_RUNTIME_PIN_BYTES ''migration runtime pin'') (\<lambda>bytes.
               case Option.bind (en_parse env bytes) migration_pin_of_json of
                 None \<Rightarrow> runtime_error ''migration runtime pin is invalid''
               | Some pin \<Rightarrow>
                   if \<not> validate_pin pin then runtime_error ''migration runtime pin is invalid: {error}''
                   else if pin_nonce pin \<noteq> nonce
                   then runtime_error ''migration runtime pin nonce does not match its filename''
                   else sbind (add_pinned_runtimes env (pin_runtimes pin) pinned) (load_pins env root names)))"

definition load_verified_migration_pins :: "setup_env \<Rightarrow> migration_pinned_runtime btree_map setup_op" where
  "load_verified_migration_pins env =
     (let root = migration_runtime_pins_root env
      in sbind (path_exists root) (\<lambda>there.
         if \<not> there then sret []
         else sbind (reject_reparse_ancestors root) (\<lambda>_.
              sbind (fs_metadata root) (\<lambda>metadata.
              if metadata \<noteq> DirNode then runtime_error ''migration runtime pin root is not a directory''
              else sbind (read_bounded_directory root MAX_PINNED_RUNTIMES ''migration runtime pin count'') (\<lambda>names.
                   load_pins env root names [])))))"

definition verify_pinned :: "setup_env \<Rightarrow> string \<Rightarrow> bool setup_op" where
  "verify_pinned env version =
     sbind (load_verified_migration_pins env) (\<lambda>pins. sret (contains_key pins version))"

section \<open>Removal and retention\<close>

text \<open>The checks of the entries to remove; the answer is the set of immutable names.\<close>

fun check_removable :: "path \<Rightarrow> string list \<Rightarrow> string list \<Rightarrow> string list setup_op" where
  "check_removable directory [] immutable_names = sret immutable_names"
| "check_removable directory (name # names) immutable_names =
     (if name \<noteq> GENERATED_PROFILE_NAME \<and> name \<notin> set IMMUTABLE_RUNTIME_FILES
      then runtime_error ''runtime removal found an unsigned file after verification''
      else (let p = path_join directory name
            in sbind (reject_reparse_ancestors p) (\<lambda>_.
               sbind (fs_metadata p) (\<lambda>metadata.
               if metadata = DirNode
               then runtime_error ''runtime removal found a non-regular file after verification''
               else check_removable directory names
                      (if name \<noteq> GENERATED_PROFILE_NAME then List.insert name immutable_names
                       else immutable_names)))))"

definition remove_generation_entry :: "bool \<Rightarrow> string \<Rightarrow> string \<Rightarrow> path \<Rightarrow> unit setup_op" where
  "remove_generation_entry defer_locked_files deferred stale p =
     (if defer_locked_files then remove_file_or_defer p deferred
      else at_machine_path stale p (fs_remove_file p))"

definition remove_manifest_verified_generation :: "setup_env \<Rightarrow> string \<Rightarrow> path \<Rightarrow> bool \<Rightarrow> unit setup_op" where
  "remove_manifest_verified_generation env version directory defer_locked_files =
     sbind (verify_runtime_generation env version directory) (\<lambda>_.
     sbind (read_bounded_directory directory (length IMMUTABLE_RUNTIME_FILES + 1) ''runtime removal entry count'') (\<lambda>names.
     sbind (check_removable directory names []) (\<lambda>immutable_names.
     if length immutable_names \<noteq> length IMMUTABLE_RUNTIME_FILES
     then runtime_error ''runtime removal file set changed after verification''
     else sbind (sfor names (\<lambda>name. remove_generation_entry defer_locked_files ''remove verified runtime file''
                   ''remove stale runtime file'' (path_join directory name))) (\<lambda>_.
          sbind (if defer_locked_files
                 then remove_directory_or_defer directory ''remove verified runtime generation''
                 else at_machine_path ''remove stale runtime generation'' directory (fs_remove_dir directory)) (\<lambda>_.
          remove_generation_entry defer_locked_files ''remove verified runtime receipt''
            ''remove stale runtime receipt'' (runtime_receipt_path env version))))))"

fun cleanup_stale :: "setup_env \<Rightarrow> string set \<Rightarrow> string list \<Rightarrow> unit setup_op" where
  "cleanup_stale env retained [] = sret ()"
| "cleanup_stale env retained (version # versions) =
     (if version \<in> retained \<or> \<not> valid_runtime_version_component version
      then cleanup_stale env retained versions
      else sbind (attempt (remove_manifest_verified_generation env version
                    (path_join (versions_root env) version) False)) (\<lambda>_.
           cleanup_stale env retained versions))"

definition cleanup_stale_generations :: "setup_env \<Rightarrow> string set \<Rightarrow> unit setup_op" where
  "cleanup_stale_generations env retained =
     sbind (path_is_dir (versions_root env)) (\<lambda>is_dir.
     if \<not> is_dir then sret ()
     else sbind (reject_reparse_ancestors (versions_root env)) (\<lambda>_.
          sbind (read_bounded_directory (versions_root env) (MAX_PINNED_RUNTIMES + 2)
                   ''runtime retention generation count'') (\<lambda>versions.
          cleanup_stale env retained versions)))"

section \<open>Pointers and receipts on the disk\<close>

definition validate_runtime_pointer :: "setup_env \<Rightarrow> string \<Rightarrow> runtime_generation_pointer setup_op" where
  "validate_runtime_pointer env bytes =
     (case parse_pointer (en_parse env) bytes of
        Inl _ \<Rightarrow> runtime_error ''active runtime pointer is invalid'' | Inr p \<Rightarrow> sret p)"

text \<open>\<open>to_bytes\<close> of a pointer and of an activation receipt: serde prints such values without fail.\<close>

definition pointer_to_bytes :: "setup_env \<Rightarrow> runtime_generation_pointer \<Rightarrow> string" where
  "pointer_to_bytes env p = en_print env (pointer_to_json p)"

definition receipt_to_bytes :: "setup_env \<Rightarrow> runtime_activation_receipt \<Rightarrow> string" where
  "receipt_to_bytes env r = en_print env (receipt_to_json r)"

definition retain ::
  "setup_env \<Rightarrow> runtime_generation_pointer option \<Rightarrow> string \<Rightarrow> unit setup_op" where
  "retain env old_pointer current_version =
     (let path = previous_runtime_pointer_path env;
          read_previous = sbind (path_exists path) (\<lambda>there.
            if there
            then sbind (setup_read_file path MAX_RUNTIME_POINTER_BYTES ''previous runtime pointer'') (\<lambda>bytes.
                 sbind (validate_runtime_pointer env bytes) (\<lambda>p. sret (Some p)))
            else sret None)
      in sbind (case old_pointer of
                  None \<Rightarrow> read_previous
                | Some previous \<Rightarrow>
                    if rp_version previous = current_version then read_previous
                    else sbind (atomic_write path (pointer_to_bytes env previous)) (\<lambda>_.
                         sret (Some previous))) (\<lambda>previous.
         sbind (load_verified_migration_pins env) (\<lambda>pins.
         cleanup_stale_generations env
           ({current_version} \<union> (case previous of None \<Rightarrow> {} | Some p \<Rightarrow> {rp_version p}) \<union> fst ` set pins))))"

end
