(* ===== verification/Runtime_Repair.thy ===== *)
theory Runtime_Repair
  imports Runtime_Storage
begin

text \<open>
  The repair of an installed generation (\<open>setup/src/runtime_installer/journal/repair.rs\<close> and its
  modules): the new payload is staged beside the old directory, the two are exchanged by renames under
  a journal of four phases that carries the digests of both, and an interrupted repair is undone or
  finished from the journal.
\<close>

section \<open>The journal\<close>

definition RUNTIME_REPAIR_SCHEMA :: u32 where "RUNTIME_REPAIR_SCHEMA = 2"
definition MAX_REPAIR_JOURNAL_BYTES :: nat where "MAX_REPAIR_JOURNAL_BYTES = 16 * 1024"

datatype runtime_repair_phase = Prepared | OldMoved | NewPlacedUnverified | NewVerified

text \<open>The digests of the files of a directory.\<close>

type_synonym runtime_directory_receipt = "string btree_map"

record runtime_repair_journal =
  rj_schema :: u32
  rj_version :: string
  rj_staging :: string
  rj_backup :: string
  rj_phase :: runtime_repair_phase
  rj_old_receipt :: runtime_directory_receipt
  rj_new_receipt :: runtime_directory_receipt

definition repair_phase_names :: "(string \<times> runtime_repair_phase) list" where
  "repair_phase_names = [(''prepared'', Prepared), (''old-moved'', OldMoved),
     (''new-placed-unverified'', NewPlacedUnverified), (''new-verified'', NewVerified)]"

definition directory_receipt_to_json :: "runtime_directory_receipt \<Rightarrow> json" where
  "directory_receipt_to_json r = JObject [(''files'', string_map_to_json r)]"

definition directory_receipt_of_json :: "json \<Rightarrow> runtime_directory_receipt option" where
  "directory_receipt_of_json v =
     do { m \<leftarrow> struct_fields [''files''] v; Option.bind (m ''files'') de_string_map }"

definition repair_fields :: "string list" where
  "repair_fields = [''schema'', ''version'', ''staging'', ''backup'', ''phase'', ''old_receipt'', ''new_receipt'']"

definition repair_journal_to_json :: "runtime_repair_journal \<Rightarrow> json" where
  "repair_journal_to_json j =
     JObject [(''schema'', JNat (unat (rj_schema j))), (''version'', JString (rj_version j)),
              (''staging'', JString (rj_staging j)), (''backup'', JString (rj_backup j)),
              (''phase'', JString (variant_name repair_phase_names (rj_phase j))),
              (''old_receipt'', directory_receipt_to_json (rj_old_receipt j)),
              (''new_receipt'', directory_receipt_to_json (rj_new_receipt j))]"

definition repair_journal_of_json :: "json \<Rightarrow> runtime_repair_journal option" where
  "repair_journal_of_json v =
     do { m \<leftarrow> struct_fields repair_fields v;
          schema \<leftarrow> de_word (m ''schema'');
          version \<leftarrow> de_string (m ''version'');
          staging \<leftarrow> de_string (m ''staging'');
          backup \<leftarrow> de_string (m ''backup'');
          phase \<leftarrow> de_variant repair_phase_names (m ''phase'');
          old_receipt \<leftarrow> Option.bind (m ''old_receipt'') directory_receipt_of_json;
          new_receipt \<leftarrow> Option.bind (m ''new_receipt'') directory_receipt_of_json;
          Some \<lparr>rj_schema = schema, rj_version = version, rj_staging = staging, rj_backup = backup,
                rj_phase = phase, rj_old_receipt = old_receipt, rj_new_receipt = new_receipt\<rparr> }"

definition repair_journal_path :: "setup_env \<Rightarrow> path" where
  "repair_journal_path env = path_join (service_root (en_paths env)) ''runtime-repair.json''"

definition write_repair_journal :: "setup_env \<Rightarrow> runtime_repair_journal \<Rightarrow> unit setup_op" where
  "write_repair_journal env journal =
     atomic_write (repair_journal_path env) (en_print env (repair_journal_to_json journal))"

definition safe_repair_entry :: "string \<Rightarrow> string \<Rightarrow> string \<Rightarrow> bool" where
  "safe_repair_entry entry prefix version \<longleftrightarrow>
     (let expected = prefix @ version @ dash
      in starts_with entry expected \<and> length expected < length entry \<and> length entry \<le> 192
         \<and> list_all (\<lambda>c. is_ascii_alphanumeric c \<or> c \<in> {CHR ''.'', CHR ''-'', CHR ''+''}) entry)"

section \<open>Receipts of directories\<close>

definition repair_name :: "string \<Rightarrow> bool" where
  "repair_name name \<longleftrightarrow> name \<in> set IMMUTABLE_RUNTIME_FILES \<or> name = GENERATED_PROFILE_NAME"

definition repair_maximum :: "string \<Rightarrow> nat" where
  "repair_maximum name = (if name = GENERATED_PROFILE_NAME then MAX_PROFILE_BYTES else MAX_RUNTIME_FILE_BYTES)"

definition valid_runtime_directory_receipt :: "runtime_directory_receipt \<Rightarrow> bool" where
  "valid_runtime_directory_receipt receipt \<longleftrightarrow>
     receipt \<noteq> [] \<and> length receipt \<le> length IMMUTABLE_RUNTIME_FILES + 1
     \<and> list_all (\<lambda>(name, digest). repair_name name \<and> contract_digest digest) receipt"

fun read_receipt_entries ::
  "setup_env \<Rightarrow> path \<Rightarrow> string list \<Rightarrow> runtime_directory_receipt \<Rightarrow> runtime_directory_receipt setup_op" where
  "read_receipt_entries env directory [] files = sret files"
| "read_receipt_entries env directory (name # names) files =
     (if \<not> repair_name name then sraise (CleanupUnknown ''runtime receipt found an unexpected entry'' [])
      else (let p = path_join directory name
            in sbind (reject_reparse_ancestors p) (\<lambda>_.
               sbind (setup_read_file p (repair_maximum name) ''runtime receipt entry'') (\<lambda>bytes.
               read_receipt_entries env directory names (bt_insert name (sha256_digest (en_sha env) bytes) files)))))"

definition read_runtime_directory_receipt :: "setup_env \<Rightarrow> path \<Rightarrow> runtime_directory_receipt setup_op" where
  "read_runtime_directory_receipt env directory =
     sbind (reject_reparse_ancestors directory) (\<lambda>_.
     sbind (read_bounded_directory directory (length IMMUTABLE_RUNTIME_FILES + 1)
              ''runtime repair receipt entry count'') (\<lambda>names.
     sbind (read_receipt_entries env directory names []) (\<lambda>receipt.
     if \<not> valid_runtime_directory_receipt receipt
     then sraise (CleanupUnknown ''runtime directory does not have a valid bounded receipt'' [])
     else sret receipt)))"

definition verify_runtime_directory_receipt ::
  "setup_env \<Rightarrow> path \<Rightarrow> runtime_directory_receipt \<Rightarrow> unit setup_op" where
  "verify_runtime_directory_receipt env directory expected =
     sbind (map_error (\<lambda>e. CleanupUnknown ''runtime directory receipt could not be verified: {error}'' [e])
              (read_runtime_directory_receipt env directory)) (\<lambda>actual.
     if actual \<noteq> expected
     then sraise (CleanupUnknown ''runtime directory no longer matches its transaction receipt'' [])
     else sret ())"

definition runtime_directory_matches ::
  "setup_env \<Rightarrow> path \<Rightarrow> runtime_directory_receipt \<Rightarrow> bool setup_op" where
  "runtime_directory_matches env directory expected =
     sbind (read_runtime_directory_receipt env directory) (\<lambda>actual. sret (actual = expected))"

text \<open>The checks before a staging directory is emptied.\<close>

fun check_repair_entries :: "path \<Rightarrow> string list \<Rightarrow> unit setup_op" where
  "check_repair_entries directory [] = sret ()"
| "check_repair_entries directory (name # names) =
     (if \<not> repair_name name then runtime_error ''runtime repair found an unexpected entry''
      else (let p = path_join directory name
            in sbind (reject_reparse_ancestors p) (\<lambda>_.
               sbind (fs_metadata p) (\<lambda>metadata.
               if (case node_length metadata of None \<Rightarrow> True | Some n \<Rightarrow> repair_maximum name < n)
               then runtime_error ''runtime repair found a non-regular or oversized entry''
               else check_repair_entries directory names))))"

definition remove_repair_directory :: "path \<Rightarrow> unit setup_op" where
  "remove_repair_directory directory =
     sbind (reject_reparse_ancestors directory) (\<lambda>_.
     sbind (read_bounded_directory directory (length IMMUTABLE_RUNTIME_FILES + 1)
              ''runtime repair removal entry count'') (\<lambda>names.
     sbind (check_repair_entries directory names) (\<lambda>_.
     sbind (sfor names (\<lambda>name. fs_remove_file (path_join directory name))) (\<lambda>_.
     fs_remove_dir directory))))"

definition remove_receipted_runtime_directory ::
  "setup_env \<Rightarrow> path \<Rightarrow> runtime_directory_receipt \<Rightarrow> unit setup_op" where
  "remove_receipted_runtime_directory env directory expected =
     sbind (verify_runtime_directory_receipt env directory expected) (\<lambda>_. remove_repair_directory directory)"

fun check_backup_entries :: "setup_env \<Rightarrow> path \<Rightarrow> runtime_directory_receipt \<Rightarrow> string list \<Rightarrow> unit setup_op" where
  "check_backup_entries env directory expected [] = sret ()"
| "check_backup_entries env directory expected (name # names) =
     (case map_of expected name of
        None \<Rightarrow> sraise (CleanupUnknown ''verified runtime repair backup contains an unexpected entry'' [])
      | Some expected_hash \<Rightarrow>
          (let p = path_join directory name
           in sbind (reject_reparse_ancestors p) (\<lambda>_.
              sbind (setup_read_file p (repair_maximum name) ''verified runtime repair backup entry'') (\<lambda>bytes.
              if sha256_digest (en_sha env) bytes \<noteq> expected_hash
              then sraise (CleanupUnknown
                     ''verified runtime repair backup entry no longer matches its receipt'' [])
              else check_backup_entries env directory expected names))))"

definition backup_failure :: string where
  "backup_failure =
     ''verified runtime repair cleanup failed ({removal_error}) and could not be deferred until reboot ({defer_error})''"

definition remove_verified_backup_directory ::
  "setup_env \<Rightarrow> path \<Rightarrow> runtime_directory_receipt \<Rightarrow> unit setup_op" where
  "remove_verified_backup_directory env directory expected =
     sbind (reject_reparse_ancestors directory) (\<lambda>_.
     sbind (read_bounded_directory directory (length IMMUTABLE_RUNTIME_FILES + 1)
              ''verified runtime repair backup entry count'') (\<lambda>names.
     sbind (check_backup_entries env directory expected names) (\<lambda>_.
     sbind (sfor names (\<lambda>name. remove_or_defer backup_failure (path_join directory name) False)) (\<lambda>_.
     remove_or_defer backup_failure directory True))))"


section \<open>Recovery\<close>

text \<open>The three recoveries of \<open>journal/repair/recovery.rs\<close>, by the phase the journal has reached.\<close>

definition remove_receipted_if_present ::
  "setup_env \<Rightarrow> path \<Rightarrow> runtime_directory_receipt \<Rightarrow> unit setup_op" where
  "remove_receipted_if_present env staging new_receipt =
     sbind (path_exists staging) (\<lambda>there.
     if there then remove_receipted_runtime_directory env staging new_receipt else sret ())"

definition recover_prepared_repair ::
  "setup_env \<Rightarrow> path \<Rightarrow> path \<Rightarrow> path \<Rightarrow> runtime_directory_receipt \<Rightarrow> runtime_directory_receipt \<Rightarrow> unit setup_op" where
  "recover_prepared_repair env destination staging backup old_receipt new_receipt =
     sbind (path_exists backup) (\<lambda>backup_there.
     sbind (if backup_there
            then sbind (verify_runtime_directory_receipt env backup old_receipt) (\<lambda>_.
                 sbind (path_exists destination) (\<lambda>there.
                 if there then sraise (CleanupUnknown ''prepared repair has both destination and backup'' [])
                 else fs_rename_dir backup destination))
            else sret ()) (\<lambda>_.
     sbind (verify_runtime_directory_receipt env destination old_receipt) (\<lambda>_.
     remove_receipted_if_present env staging new_receipt)))"

definition recover_unverified_repair ::
  "setup_env \<Rightarrow> path \<Rightarrow> path \<Rightarrow> path \<Rightarrow> runtime_directory_receipt \<Rightarrow> runtime_directory_receipt \<Rightarrow> unit setup_op" where
  "recover_unverified_repair env destination staging backup old_receipt new_receipt =
     sbind (path_exists destination) (\<lambda>destination_there.
     if \<not> destination_there
     then sbind (verify_runtime_directory_receipt env backup old_receipt) (\<lambda>_.
          sbind (fs_rename_dir backup destination) (\<lambda>_.
          sbind (verify_runtime_directory_receipt env destination old_receipt) (\<lambda>_.
          remove_receipted_if_present env staging new_receipt)))
     else sbind (runtime_directory_matches env destination old_receipt) (\<lambda>is_old.
          if is_old
          then sbind (path_exists backup) (\<lambda>backup_there.
               if backup_there
               then sraise (CleanupUnknown ''unverified repair has duplicate old destination and backup'' [])
               else remove_receipted_if_present env staging new_receipt)
          else sbind (runtime_directory_matches env destination new_receipt) (\<lambda>is_new.
               if \<not> is_new
               then sraise (CleanupUnknown
                      ''unverified repair destination matches neither old nor new receipt'' [])
               else sbind (path_exists backup) (\<lambda>backup_there.
                    sbind (if \<not> backup_there then sret True else path_exists staging) (\<lambda>unsafe.
                    if unsafe
                    then sraise (CleanupUnknown
                           ''unverified repair cannot safely restore its verified backup'' [])
                    else sbind (verify_runtime_directory_receipt env backup old_receipt) (\<lambda>_.
                         sbind (fs_rename_dir destination staging) (\<lambda>_.
                         sbind (verify_runtime_directory_receipt env staging new_receipt) (\<lambda>_.
                         sbind (map_error (\<lambda>e. CleanupUnknown
                                  ''verified repair backup could not be restored after quarantining new payload: {error}'' [e])
                                  (fs_rename_dir backup destination)) (\<lambda>_.
                         sbind (verify_runtime_directory_receipt env destination old_receipt) (\<lambda>_.
                         remove_receipted_runtime_directory env staging new_receipt))))))))))"

definition recover_verified_repair ::
  "setup_env \<Rightarrow> path \<Rightarrow> path \<Rightarrow> path \<Rightarrow> runtime_directory_receipt \<Rightarrow> runtime_directory_receipt \<Rightarrow> unit setup_op" where
  "recover_verified_repair env destination staging backup old_receipt new_receipt =
     sbind (path_exists staging) (\<lambda>staging_there.
     if staging_there
     then sraise (CleanupUnknown ''verified repair unexpectedly retained a staging directory'' [])
     else sbind (verify_runtime_directory_receipt env destination new_receipt) (\<lambda>_.
          sbind (path_exists backup) (\<lambda>backup_there.
          if backup_there then remove_verified_backup_directory env backup old_receipt else sret ())))"

definition repair_journal_supported :: "runtime_repair_journal \<Rightarrow> bool" where
  "repair_journal_supported j \<longleftrightarrow>
     \<not> (rj_schema j \<noteq> RUNTIME_REPAIR_SCHEMA
        \<or> \<not> valid_runtime_version_component (rj_version j)
        \<or> \<not> safe_repair_entry (rj_staging j) ''.repair-new-'' (rj_version j)
        \<or> \<not> safe_repair_entry (rj_backup j) ''.repair-old-'' (rj_version j)
        \<or> rj_staging j = rj_backup j
        \<or> \<not> valid_runtime_directory_receipt (rj_old_receipt j)
        \<or> \<not> valid_runtime_directory_receipt (rj_new_receipt j))"

definition reject_reparse_if_present :: "path \<Rightarrow> unit setup_op" where
  "reject_reparse_if_present p =
     sbind (path_exists p) (\<lambda>there. swhen there (reject_reparse_ancestors p))"

definition recover_repair_phase :: "setup_env \<Rightarrow> runtime_repair_journal \<Rightarrow> unit setup_op" where
  "recover_repair_phase env journal =
     (let destination = path_join (versions_root env) (rj_version journal);
          staging = path_join (versions_root env) (rj_staging journal);
          backup = path_join (versions_root env) (rj_backup journal);
          recover = (case rj_phase journal of
              Prepared \<Rightarrow> recover_prepared_repair | OldMoved \<Rightarrow> recover_unverified_repair
            | NewPlacedUnverified \<Rightarrow> recover_unverified_repair | NewVerified \<Rightarrow> recover_verified_repair)
      in sbind (sfor [destination, staging, backup] reject_reparse_if_present) (\<lambda>_.
         recover env destination staging backup (rj_old_receipt journal) (rj_new_receipt journal)))"

definition remove_repair_journal :: "setup_env \<Rightarrow> unit setup_op" where
  "remove_repair_journal env =
     sbind (reject_reparse_ancestors (repair_journal_path env)) (\<lambda>_. fs_remove_file (repair_journal_path env))"

definition recover_interrupted_repair :: "setup_env \<Rightarrow> unit setup_op" where
  "recover_interrupted_repair env =
     sbind (path_exists (repair_journal_path env)) (\<lambda>there.
     if \<not> there then sret ()
     else sbind (setup_read_file (repair_journal_path env) MAX_REPAIR_JOURNAL_BYTES
                   ''runtime repair journal'') (\<lambda>bytes.
          case Option.bind (en_parse env bytes) repair_journal_of_json of
            None \<Rightarrow> runtime_error ''runtime repair journal is invalid''
          | Some journal \<Rightarrow>
              if \<not> repair_journal_supported journal
              then runtime_error ''runtime repair journal has an unsupported value''
              else sbind (recover_repair_phase env journal) (\<lambda>_. remove_repair_journal env)))"

section \<open>Repair\<close>

definition fail_repair_and_recover :: "setup_env \<Rightarrow> setup_error \<Rightarrow> unit setup_op" where
  "fail_repair_and_recover env operation =
     sbind (attempt (recover_interrupted_repair env)) (\<lambda>recovery.
     case recovery of
       Inr _ \<Rightarrow> sraise operation
     | Inl recovery \<Rightarrow> sraise (CleanupUnknown
         ''runtime repair failed ({operation}) and rollback remained incomplete ({recovery}); the repair journal and verified backup were preserved''
         [operation, recovery]))"

text \<open>A step of the exchange whose error starts the recovery.\<close>

definition or_recover :: "setup_env \<Rightarrow> unit setup_op \<Rightarrow> unit setup_op \<Rightarrow> unit setup_op" where
  "or_recover env step continue =
     sbind (attempt step) (\<lambda>r. case r of Inl e \<Rightarrow> fail_repair_and_recover env e | Inr _ \<Rightarrow> continue)"

definition repair_staging_name :: "string \<Rightarrow> string \<Rightarrow> string" where
  "repair_staging_name version nonce = ''.repair-new-'' @ version @ dash @ nonce"

definition repair_backup_name :: "string \<Rightarrow> string \<Rightarrow> string" where
  "repair_backup_name version nonce = ''.repair-old-'' @ version @ dash @ nonce"

definition payload_digests :: "setup_env \<Rightarrow> loaded_payload \<Rightarrow> runtime_directory_receipt" where
  "payload_digests env payload = map (\<lambda>(name, bytes). (name, sha256_digest (en_sha env) bytes)) (lp_files payload)"

definition exchange_runtime_payload ::
  "setup_env \<Rightarrow> path \<Rightarrow> path \<Rightarrow> path \<Rightarrow> loaded_payload \<Rightarrow> runtime_repair_journal \<Rightarrow> unit setup_op" where
  "exchange_runtime_payload env destination staging backup payload journal =
     sbind (write_repair_journal env journal) (\<lambda>_.
     or_recover env (fs_rename_dir destination backup)
     (or_recover env (write_repair_journal env (journal\<lparr>rj_phase := OldMoved\<rparr>))
     (or_recover env (fs_rename_dir staging destination)
     (or_recover env (write_repair_journal env (journal\<lparr>rj_phase := NewPlacedUnverified\<rparr>))
     (or_recover env (verify_existing_payload destination (lp_files payload))
     (or_recover env (write_repair_journal env (journal\<lparr>rj_phase := NewVerified\<rparr>))
     (sbind (verify_runtime_directory_receipt env backup (rj_old_receipt journal)) (\<lambda>_.
      sbind (remove_verified_backup_directory env backup (rj_old_receipt journal)) (\<lambda>_.
      remove_repair_journal env)))))))))"

text \<open>The names are built from a valid version, so the checks of \<open>file_name\<close> and \<open>to_str\<close> pass.\<close>

definition replace_runtime_payload :: "setup_env \<Rightarrow> path \<Rightarrow> loaded_payload \<Rightarrow> unit setup_op" where
  "replace_runtime_payload env destination payload =
     sbind temporary_nonce (\<lambda>nonce.
     let staging_name = repair_staging_name (payload_version payload) nonce;
         backup_name = repair_backup_name (payload_version payload) nonce;
         staging = path_join (versions_root env) staging_name;
         backup = path_join (versions_root env) backup_name
     in sbind (path_exists staging) (\<lambda>staging_there.
        sbind (if staging_there then sret True else path_exists backup) (\<lambda>collision.
        if collision then runtime_error ''runtime repair staging collision''
        else sbind (create_protected_directory staging) (\<lambda>_.
             sbind (attempt (sbind (write_payload_files staging (lp_files payload)) (\<lambda>_.
                             verify_existing_payload staging (lp_files payload)))) (\<lambda>staged.
             case staged of
               Inl e \<Rightarrow> sbind (attempt (remove_repair_directory staging)) (\<lambda>_. sraise e)
             | Inr _ \<Rightarrow>
                 sbind (read_runtime_directory_receipt env destination) (\<lambda>old_receipt.
                 exchange_runtime_payload env destination staging backup payload
                   \<lparr>rj_schema = RUNTIME_REPAIR_SCHEMA, rj_version = payload_version payload,
                    rj_staging = staging_name, rj_backup = backup_name, rj_phase = Prepared,
                    rj_old_receipt = old_receipt, rj_new_receipt = payload_digests env payload\<rparr>))))))"

end
