(* ===== verification/Runtime_Installer.thy ===== *)
theory Runtime_Installer
  imports Runtime_Repair
begin

text \<open>
  The runtime installer (\<open>setup/src/runtime_installer.rs\<close>, its activation transaction and the
  activation journal): deploying and repairing a runtime generation, switching the active pointer under
  a journal of three phases, and the recoveries that finish or undo an interrupted switch.

  What the callers pass in (registering the service, waiting for its health, reading and restoring the
  binding of the service) are arguments: operations of the machine of any answer type.  Messages that
  are only printed are not modelled.
\<close>

record installed_runtime =
  ir_version :: string
  ir_service_binary :: path

datatype runtime_service_binding = BindingCandidate | BindingPrevious | BindingAbsent

record 'p activated_runtime =
  ar_previous :: "runtime_generation_pointer option"
  ar_activated :: runtime_generation_pointer
  ar_prepared :: 'p

definition SERVICE_BINARY :: string where "SERVICE_BINARY = ''mactype-service.exe''"

definition with_file_name :: "path \<Rightarrow> string \<Rightarrow> path" where
  "with_file_name p name = (case path_parent p of None \<Rightarrow> p | Some parent \<Rightarrow> path_join parent name)"

section \<open>Phases of the activation journal\<close>

definition runtime_activation_path :: "setup_env \<Rightarrow> path" where
  "runtime_activation_path env = runtime_activation_journal (en_paths env)"

definition read_activation_bytes :: "setup_env \<Rightarrow> string setup_op" where
  "read_activation_bytes env =
     setup_read_file (runtime_activation_path env) MAX_RUNTIME_ACTIVATION_RECEIPT_BYTES
       ''runtime activation journal''"

definition read_runtime_pointer :: "setup_env \<Rightarrow> runtime_generation_pointer setup_op" where
  "read_runtime_pointer env =
     sbind (setup_read_file (runtime_pointer (en_paths env)) MAX_RUNTIME_POINTER_BYTES
              ''active runtime pointer'') (validate_runtime_pointer env)"

definition write_runtime_activation_journal ::
  "setup_env \<Rightarrow> runtime_generation_pointer option \<Rightarrow> runtime_generation_pointer \<Rightarrow> unit setup_op" where
  "write_runtime_activation_journal env previous activated =
     atomic_write (runtime_activation_path env) (receipt_to_bytes env (candidate_receipt previous activated))"

definition phase_debug :: "runtime_activation_phase \<Rightarrow> string" where
  "phase_debug phase = (case phase of Candidate \<Rightarrow> ''Candidate'' | Committed \<Rightarrow> ''Committed''
     | RollbackRequired \<Rightarrow> ''RollbackRequired'')"

definition verify_exact_activation_receipt ::
  "setup_env \<Rightarrow> string \<Rightarrow> runtime_activation_phase \<Rightarrow> unit setup_op" where
  "verify_exact_activation_receipt env expected phase =
     sbind (read_activation_bytes env) (\<lambda>actual.
     if actual \<noteq> expected
     then sraise (CleanupUnknown (''runtime activation receipt changed before the '' @ phase_debug phase
                                  @ '' phase could transition'') [])
     else sret ())"

definition persist_activation_phase ::
  "setup_env \<Rightarrow> runtime_activation_receipt \<Rightarrow> runtime_activation_phase \<Rightarrow> unit setup_op" where
  "persist_activation_phase env receipt phase =
     (let transitioned = receipt_to_bytes env (with_phase phase receipt)
      in sbind (atomic_write (runtime_activation_path env) transitioned) (\<lambda>_.
         sbind (read_activation_bytes env) (\<lambda>persisted.
         if persisted \<noteq> transitioned
         then sraise (CleanupUnknown (''the '' @ phase_debug phase
                @ '' runtime activation receipt could not be verified'') [])
         else sret ())))"

definition commit_activation_journal ::
  "setup_env \<Rightarrow> runtime_generation_pointer option \<Rightarrow> runtime_generation_pointer \<Rightarrow> unit setup_op" where
  "commit_activation_journal env previous activated =
     (let receipt = candidate_receipt previous activated
      in sbind (verify_exact_activation_receipt env (receipt_to_bytes env receipt) Candidate) (\<lambda>_.
         sbind (read_runtime_pointer env) (\<lambda>pointer.
         if pointer \<noteq> activated
         then sraise (CleanupUnknown
                ''active runtime pointer changed before the candidate phase could commit'' [])
         else persist_activation_phase env receipt Committed)))"

definition require_activation_rollback ::
  "setup_env \<Rightarrow> runtime_generation_pointer option \<Rightarrow> runtime_generation_pointer \<Rightarrow> unit setup_op" where
  "require_activation_rollback env previous activated =
     (let receipt = candidate_receipt previous activated;
          candidate = receipt_to_bytes env receipt;
          committed = receipt_to_bytes env (with_phase Committed receipt);
          rollback = receipt_to_bytes env (with_phase RollbackRequired receipt)
      in sbind (read_activation_bytes env) (\<lambda>actual.
         if actual = rollback then sret ()
         else if actual \<noteq> candidate \<and> actual \<noteq> committed
         then sraise (CleanupUnknown
                ''runtime activation receipt changed before rollback could be required'' [])
         else persist_activation_phase env receipt RollbackRequired))"

definition remove_runtime_activation_journal :: "setup_env \<Rightarrow> unit setup_op" where
  "remove_runtime_activation_journal env = remove_protected_file (runtime_activation_path env)"

definition finalize_committed_activation ::
  "setup_env \<Rightarrow> runtime_generation_pointer option \<Rightarrow> runtime_generation_pointer \<Rightarrow> bool setup_op" where
  "finalize_committed_activation env previous activated =
     (let committed = receipt_to_bytes env (with_phase Committed (candidate_receipt previous activated))
      in sbind (verify_exact_activation_receipt env committed Committed) (\<lambda>_.
         sbind (attempt (remove_runtime_activation_journal env)) (\<lambda>removal.
         case removal of
           Inr _ \<Rightarrow> sret True
         | Inl removal \<Rightarrow>
             sbind (map_error (\<lambda>verification. CleanupUnknown
                 ''Ready activation receipt cleanup failed ({removal}) and the committed receipt could not be reverified ({verification})''
                 [removal, verification])
               (verify_exact_activation_receipt env committed Committed)) (\<lambda>_. sret False))))"

section \<open>The current runtime\<close>

definition current_runtime :: "setup_env \<Rightarrow> installed_runtime option setup_op" where
  "current_runtime env =
     sbind (path_exists (runtime_pointer (en_paths env))) (\<lambda>there.
     if \<not> there then sret None
     else sbind (read_runtime_pointer env) (\<lambda>pointer.
          let service_binary = path_join (path_join (versions_root env) (rp_version pointer)) SERVICE_BINARY
          in sbind (reject_reparse_ancestors service_binary) (\<lambda>_.
             sbind (path_is_file service_binary) (\<lambda>is_file.
             if \<not> is_file then runtime_error ''active service binary is missing''
             else sret (Some \<lparr>ir_version = rp_version pointer, ir_service_binary = service_binary\<rparr>)))))"

text \<open>The pointer as recovery needs it: a failure to read it is an unknown state, not an absence.\<close>

definition current_pointer_for_committed_recovery ::
  "setup_env \<Rightarrow> runtime_generation_pointer option setup_op" where
  "current_pointer_for_committed_recovery env =
     (let p = runtime_pointer (en_paths env)
      in sbind (attempt (fs_is_regular p)) (\<lambda>metadata. case metadata of
           Inl e \<Rightarrow>
             if e = SetupIo IoNotFound then sret None
             else sraise (CleanupUnknown
                    ''active runtime pointer could not be inspected during committed recovery: {error}'' [e])
         | Inr regular \<Rightarrow>
             if \<not> regular
             then sraise (CleanupUnknown
                    ''active runtime pointer became non-regular during committed recovery'' [])
             else sbind (map_error (\<lambda>e. CleanupUnknown
                      ''active runtime pointer could not be read during committed recovery: {error}'' [e])
                    (setup_read_file p MAX_RUNTIME_POINTER_BYTES ''active runtime pointer'')) (\<lambda>bytes.
                  map_error (\<lambda>e. CleanupUnknown
                      ''active runtime pointer is invalid during committed recovery: {error}'' [e])
                    (sbind (validate_runtime_pointer env bytes) (\<lambda>pointer. sret (Some pointer))))))"

section \<open>Restoring the pointer\<close>

text \<open>
  The handle is opened for reading and deletion without sharing either; the path stands for it.
\<close>

definition remove_exact_runtime_pointer :: "path \<Rightarrow> string \<Rightarrow> unit setup_op" where
  "remove_exact_runtime_pointer p expected =
     sbind (map_error (\<lambda>e. CleanupUnknown
         ''owned runtime pointer could not be opened for exact deletion: {error}'' [e]) (fs_open_read p)) (\<lambda>_.
     sbind (map_error (\<lambda>e. CleanupUnknown
         ''owned runtime pointer metadata could not be verified: {error}'' [e])
         (fs_handle_metadata p)) (\<lambda>(reparse, metadata).
     if reparse \<or> (case node_length metadata of None \<Rightarrow> True
                    | Some n \<Rightarrow> n = 0 \<or> MAX_RUNTIME_POINTER_BYTES < n)
     then sraise (CleanupUnknown
            ''owned runtime pointer became non-regular, reparse, empty, or oversized'' [])
     else sbind (map_error (\<lambda>e. CleanupUnknown
              ''owned runtime pointer bytes could not be verified: {error}'' [e])
              (fs_read_limited p (MAX_RUNTIME_POINTER_BYTES + 1))) (\<lambda>actual.
          if actual \<noteq> expected
          then sraise (CleanupUnknown ''owned runtime pointer changed before exact deletion'' [])
          else map_error (\<lambda>e. CleanupUnknown
                 ''owned runtime pointer exact deletion result is unknown: {error}'' [e])
                 (fs_mark_for_deletion p))))"

definition foreign_runtime_pointer :: setup_error where
  "foreign_runtime_pointer =
     CleanupUnknown ''active runtime pointer no longer matches the activation transaction receipt'' []"

definition observed_pointer_bytes :: "setup_env \<Rightarrow> string option setup_op" where
  "observed_pointer_bytes env =
     (let p = runtime_pointer (en_paths env)
      in sbind (attempt (fs_is_regular p)) (\<lambda>metadata. case metadata of
           Inl e \<Rightarrow>
             if e = SetupIo IoNotFound then sret None
             else sraise (CleanupUnknown
                    ''active runtime pointer could not be inspected during rollback: {error}'' [e])
         | Inr regular \<Rightarrow>
             if \<not> regular
             then sraise (CleanupUnknown
                    ''active runtime pointer became a non-regular path during rollback'' [])
             else sbind (map_error (\<lambda>e. CleanupUnknown
                      ''active runtime pointer could not be verified during rollback: {error}'' [e])
                    (setup_read_file p MAX_RUNTIME_POINTER_BYTES ''active runtime pointer'')) (\<lambda>bytes.
                  sret (Some bytes))))"

definition restore_runtime_pointer ::
  "setup_env \<Rightarrow> runtime_generation_pointer option \<Rightarrow> runtime_generation_pointer option \<Rightarrow> unit setup_op" where
  "restore_runtime_pointer env previous activated =
     sbind (observed_pointer_bytes env) (\<lambda>actual.
     let p = runtime_pointer (en_paths env);
         previous_bytes = map_option (pointer_to_bytes env) previous;
         activated_bytes = map_option (pointer_to_bytes env) activated
     in case actual of
          None \<Rightarrow> (case previous_bytes of Some previous \<Rightarrow> atomic_write p previous | None \<Rightarrow> sret ())
        | Some actual \<Rightarrow>
            if previous_bytes = Some actual then sret ()
            else if activated_bytes = Some actual
            then (case previous_bytes of
                    Some previous \<Rightarrow> atomic_write p previous
                  | None \<Rightarrow> remove_exact_runtime_pointer p actual)
            else sraise foreign_runtime_pointer)"


section \<open>The activation transaction\<close>

definition activate_prepared ::
  "setup_env \<Rightarrow> path \<Rightarrow> (path \<Rightarrow> 'p setup_op) \<Rightarrow> (path \<Rightarrow> 'p \<Rightarrow> unit setup_op) \<Rightarrow>
     runtime_generation_pointer option \<Rightarrow> runtime_generation_pointer \<Rightarrow> 'p setup_op" where
  "activate_prepared env service_binary prepare health_check old_pointer activated_pointer =
     (let runtime_profile = with_file_name service_binary GENERATED_PROFILE_NAME
      in sbind (at_machine_path ''materialize active runtime profile'' runtime_profile
                  (materialize_active env)) (\<lambda>_.
         sbind (at_machine_path ''prepare runtime activation'' service_binary (prepare service_binary)) (\<lambda>prepared.
         sbind (at_machine_path ''commit runtime activation receipt'' (runtime_activation_path env)
                  (commit_activation_journal env old_pointer activated_pointer)) (\<lambda>_.
         sbind (at_machine_path ''run runtime activation health check'' service_binary
                  (health_check service_binary prepared)) (\<lambda>_.
         sret prepared)))))"

text \<open>The failures of a rollback, each with the error in its message.\<close>

type_synonym rollback_failures = "(string \<times> setup_error list) list"

fun join_with :: "string \<Rightarrow> string list \<Rightarrow> string" where
  "join_with separator [] = []"
| "join_with separator [s] = s"
| "join_with separator (s # ss) = s @ separator @ join_with separator ss"

definition rollback_failed_error :: "setup_error \<Rightarrow> rollback_failures \<Rightarrow> setup_error" where
  "rollback_failed_error e failures =
     RollbackFailed ''runtime activation failed ({error})''
       (''rollback remained incomplete: '' @ join_with ''; '' (map fst failures)
        @ ''. The activation journal was retained'')
       (e # concat (map snd failures))"

definition restore_pointer_and_profile ::
  "setup_env \<Rightarrow> runtime_generation_pointer option \<Rightarrow> runtime_generation_pointer \<Rightarrow> rollback_failures setup_op" where
  "restore_pointer_and_profile env old_pointer activated_pointer =
     sbind (attempt (restore_runtime_pointer env old_pointer (Some activated_pointer))) (\<lambda>restored.
     case restored of
       Inl e \<Rightarrow> sret [(''pointer restoration failed: {rollback_error}'', [e]),
           (''profile rematerialization was skipped because pointer ownership was unknown'', [])]
     | Inr _ \<Rightarrow>
         sbind (attempt (materialize_active env)) (\<lambda>materialized.
         case materialized of
           Inl e \<Rightarrow> sret [(''profile rematerialization failed: {rollback_error}'', [e])]
         | Inr _ \<Rightarrow> sret []))"

definition roll_back_activation ::
  "setup_env \<Rightarrow> runtime_generation_pointer option \<Rightarrow> runtime_generation_pointer \<Rightarrow> bool \<Rightarrow> setup_error \<Rightarrow>
     'a setup_op" where
  "roll_back_activation env old_pointer activated_pointer defer_external_rollback e =
     sbind (map_error (\<lambda>rollback_receipt_error. CleanupUnknown
         ''runtime activation failed ({error}); rollback was not attempted because its fail-closed receipt could not be persisted ({rollback_receipt_error})''
         [e, rollback_receipt_error])
       (require_activation_rollback env old_pointer activated_pointer)) (\<lambda>_.
     if defer_external_rollback then sraise e
     else sbind (restore_pointer_and_profile env old_pointer activated_pointer) (\<lambda>failures.
          if failures \<noteq> [] then sraise (rollback_failed_error e failures)
          else sbind (attempt (remove_runtime_activation_journal env)) (\<lambda>removed.
               case removed of
                 Inl rollback_error \<Rightarrow> sraise (rollback_failed_error e
                     [(''activation journal cleanup failed: {rollback_error}'', [rollback_error])])
               | Inr _ \<Rightarrow> sraise e)))"

definition old_runtime_pointer :: "setup_env \<Rightarrow> runtime_generation_pointer option setup_op" where
  "old_runtime_pointer env =
     sbind (path_exists (runtime_pointer (en_paths env))) (\<lambda>there.
     if there then sbind (read_runtime_pointer env) (\<lambda>p. sret (Some p)) else sret None)"

definition activate_runtime ::
  "setup_env \<Rightarrow> string \<Rightarrow> path \<Rightarrow> (path \<Rightarrow> 'p setup_op) \<Rightarrow> (path \<Rightarrow> 'p \<Rightarrow> unit setup_op) \<Rightarrow> bool \<Rightarrow>
     'p activated_runtime setup_op" where
  "activate_runtime env version service_binary prepare health_check defer_external_rollback =
     sbind (old_runtime_pointer env) (\<lambda>old_pointer.
     case new_pointer version of
       Inl _ \<Rightarrow> runtime_error ''verified runtime version cannot form a pointer''
     | Inr activated_pointer \<Rightarrow>
         sbind (at_machine_path ''write candidate runtime activation receipt'' (runtime_activation_path env)
                  (write_runtime_activation_journal env old_pointer activated_pointer)) (\<lambda>_.
         sbind (at_machine_path ''switch active runtime pointer'' (runtime_pointer (en_paths env))
                  (atomic_write (runtime_pointer (en_paths env)) (pointer_to_bytes env activated_pointer))) (\<lambda>_.
         sbind (attempt (activate_prepared env service_binary prepare health_check old_pointer
                           activated_pointer)) (\<lambda>activation.
         case activation of
           Inr prepared \<Rightarrow> sret \<lparr>ar_previous = old_pointer, ar_activated = activated_pointer, ar_prepared = prepared\<rparr>
         | Inl e \<Rightarrow> roll_back_activation env old_pointer activated_pointer defer_external_rollback e))))"

definition finalize_runtime :: "setup_env \<Rightarrow> 'p activated_runtime \<Rightarrow> 'p setup_op" where
  "finalize_runtime env activation =
     sbind (finalize_committed_activation env (ar_previous activation) (ar_activated activation)) (\<lambda>receipt_removed.
     sbind (if receipt_removed
            then sbind (attempt (retain env (ar_previous activation) (rp_version (ar_activated activation)))) (\<lambda>_.
                 sret ())
            else sret ()) (\<lambda>_.
     sret (ar_prepared activation)))"

section \<open>Recovery of an interrupted activation\<close>

definition verified_activation_service_binary ::
  "setup_env \<Rightarrow> runtime_generation_pointer \<Rightarrow> string \<Rightarrow> path setup_op" where
  "verified_activation_service_binary env pointer role =
     (let directory = path_join (versions_root env) (rp_version pointer)
      in sbind (map_error (\<lambda>e. CleanupUnknown (''runtime activation '' @ role
                  @ '' generation could not be verified for SCM recovery: {error}'') [e])
                (verify_runtime_generation env (rp_version pointer) directory)) (\<lambda>_.
         sret (path_join directory SERVICE_BINARY)))"

definition derive_legacy_candidate ::
  "setup_env \<Rightarrow> parsed_runtime_activation_receipt \<Rightarrow> runtime_generation_pointer option setup_op" where
  "derive_legacy_candidate env journal =
     sbind (current_pointer_for_committed_recovery env) (\<lambda>active.
     case (active, parsed_previous journal) of
       (Some active, Some previous) \<Rightarrow> sret (if active = previous then None else Some active)
     | (Some active, None) \<Rightarrow> sret (Some active)
     | (None, None) \<Rightarrow> sret None
     | (None, Some _) \<Rightarrow> sraise (CleanupUnknown
         ''legacy runtime activation lost its active pointer after a possible switch'' []))"

definition require_activation_pointer :: "setup_env \<Rightarrow> runtime_generation_pointer \<Rightarrow> string \<Rightarrow> unit setup_op" where
  "require_activation_pointer env expected role =
     sbind (current_pointer_for_committed_recovery env) (\<lambda>actual.
     if actual = Some expected then sret ()
     else sraise (CleanupUnknown (''runtime activation pointer does not match the '' @ role) []))"

definition rollback_activation_pointer_and_profile ::
  "setup_env \<Rightarrow> runtime_generation_pointer option \<Rightarrow> runtime_generation_pointer option \<Rightarrow> unit setup_op" where
  "rollback_activation_pointer_and_profile env previous activated =
     sbind (restore_runtime_pointer env previous activated) (\<lambda>_.
     if previous \<noteq> None then sbind (materialize_active env) (\<lambda>_. sret ()) else sret ())"

definition verify_and_materialize_committed_runtime :: "setup_env \<Rightarrow> string \<Rightarrow> unit setup_op" where
  "verify_and_materialize_committed_runtime env role =
     sbind (current_runtime env) (\<lambda>current. case current of
       None \<Rightarrow> sraise (CleanupUnknown
         (''committed runtime activation '' @ role @ '' disappeared during recovery'') [])
     | Some current \<Rightarrow> (case path_parent (ir_service_binary current) of
         None \<Rightarrow> sraise (CleanupUnknown
           (''committed runtime activation '' @ role @ '' has no generation directory'') [])
       | Some directory \<Rightarrow>
           sbind (map_error (\<lambda>e. CleanupUnknown
                    (''committed runtime activation '' @ role @ '' could not be verified: {error}'') [e])
                  (verify_runtime_generation env (ir_version current) directory)) (\<lambda>_.
           sbind (materialize_active env) (\<lambda>_. sret ()))))"

definition finish_committed_activation_recovery ::
  "setup_env \<Rightarrow> parsed_runtime_activation_receipt \<Rightarrow> unit setup_op" where
  "finish_committed_activation_recovery env journal =
     (case parsed_activated journal of
        None \<Rightarrow> sraise (CleanupUnknown
          ''committed runtime activation receipt has no candidate pointer'' [])
      | Some activated \<Rightarrow>
          sbind (current_pointer_for_committed_recovery env) (\<lambda>actual.
          if actual = Some activated then verify_and_materialize_committed_runtime env ''candidate''
          else if actual = parsed_previous journal
          then (if parsed_previous journal \<noteq> None
                then verify_and_materialize_committed_runtime env ''previous generation'' else sret ())
          else sraise (CleanupUnknown
            ''active runtime pointer matches neither side of the committed activation receipt'' [])))"

definition parse_activation_bytes :: "setup_env \<Rightarrow> string \<Rightarrow> parsed_runtime_activation_receipt setup_op" where
  "parse_activation_bytes env bytes =
     (case parse_runtime_activation_receipt (en_parse env) bytes of
        Inl _ \<Rightarrow> runtime_error ''runtime activation journal is invalid'' | Inr journal \<Rightarrow> sret journal)"

definition finish_recovery :: "setup_env \<Rightarrow> installed_runtime option setup_op" where
  "finish_recovery env =
     sbind (current_runtime env) (\<lambda>recovered.
     sbind (remove_runtime_activation_journal env) (\<lambda>_. sret recovered))"

definition recover_activation :: "setup_env \<Rightarrow> installed_runtime option setup_op" where
  "recover_activation env =
     sbind (path_exists (runtime_activation_path env)) (\<lambda>there.
     if \<not> there then current_runtime env
     else sbind (read_activation_bytes env) (\<lambda>bytes.
          sbind (parse_activation_bytes env bytes) (\<lambda>journal.
          sbind (if parsed_phase journal = Some Committed then finish_committed_activation_recovery env journal
                 else rollback_activation_pointer_and_profile env (parsed_previous journal)
                        (parsed_activated journal)) (\<lambda>_.
          finish_recovery env))))"


section \<open>Recovery with the binding of the service\<close>

type_synonym binding_inspector = "path option \<Rightarrow> path option \<Rightarrow> runtime_service_binding setup_op"
type_synonym binding_restorer = "path \<Rightarrow> path option \<Rightarrow> unit setup_op"

definition optional_service_binary ::
  "setup_env \<Rightarrow> runtime_generation_pointer option \<Rightarrow> string \<Rightarrow> path option setup_op" where
  "optional_service_binary env pointer role =
     (case pointer of
        None \<Rightarrow> sret None
      | Some pointer \<Rightarrow> sbind (verified_activation_service_binary env pointer role) (\<lambda>p. sret (Some p)))"

text \<open>An activation that was not committed: the binding first, then the pointer and the profile.\<close>

definition recover_uncommitted_binding ::
  "binding_inspector \<Rightarrow> binding_restorer \<Rightarrow> path option \<Rightarrow> path option \<Rightarrow> runtime_service_binding \<Rightarrow>
     runtime_service_binding setup_op" where
  "recover_uncommitted_binding inspect_binding restore_binding candidate_binary previous_binary binding =
     (let binding = (if binding = BindingCandidate \<and> candidate_binary \<noteq> None \<and> candidate_binary = previous_binary
                     then BindingPrevious else binding)
      in if binding = BindingCandidate
         then (case candidate_binary of
                 None \<Rightarrow> sraise (CleanupUnknown
                   ''uncommitted runtime activation has a candidate service binding but no candidate pointer'' [])
               | Some candidate \<Rightarrow>
                   sbind (map_error (\<lambda>e. CleanupUnknown
                       ''SCM rollback did not complete before pointer recovery: {error}'' [e])
                     (restore_binding candidate previous_binary)) (\<lambda>_.
                   map_error (\<lambda>e. CleanupUnknown ''SCM rollback result could not be verified: {error}'' [e])
                     (inspect_binding (Some candidate) previous_binary)))
         else sret binding)"

definition recover_uncommitted ::
  "setup_env \<Rightarrow> binding_inspector \<Rightarrow> binding_restorer \<Rightarrow> parsed_runtime_activation_receipt \<Rightarrow>
     runtime_generation_pointer option \<Rightarrow> path option \<Rightarrow> path option \<Rightarrow> runtime_service_binding \<Rightarrow> unit setup_op" where
  "recover_uncommitted env inspect_binding restore_binding journal activated candidate_binary previous_binary binding =
     sbind (recover_uncommitted_binding inspect_binding restore_binding candidate_binary previous_binary binding)
       (\<lambda>binding.
     if \<not> (binding = BindingPrevious \<and> previous_binary \<noteq> None \<or> binding = BindingAbsent \<and> previous_binary = None)
     then sraise (CleanupUnknown
            ''uncommitted runtime activation did not reach the exact previous SCM binding'' [])
     else rollback_activation_pointer_and_profile env (parsed_previous journal) activated)"

definition recover_committed ::
  "setup_env \<Rightarrow> parsed_runtime_activation_receipt \<Rightarrow> runtime_generation_pointer option \<Rightarrow>
     runtime_service_binding \<Rightarrow> unit setup_op" where
  "recover_committed env journal activated binding =
     (case activated of
        None \<Rightarrow> sraise (CleanupUnknown ''committed runtime activation has no candidate pointer'' [])
      | Some activated \<Rightarrow>
          sbind (require_activation_pointer env activated ''committed candidate'') (\<lambda>_.
          if binding \<noteq> BindingCandidate
          then sraise (CleanupUnknown
                 ''committed runtime activation is not bound to the candidate SCM image'' [])
          else finish_committed_activation_recovery env journal))"

definition recover_with_service_binding ::
  "setup_env \<Rightarrow> binding_inspector \<Rightarrow> binding_restorer \<Rightarrow> installed_runtime option setup_op" where
  "recover_with_service_binding env inspect_binding restore_binding =
     sbind (path_exists (runtime_activation_path env)) (\<lambda>there.
     if \<not> there then current_runtime env
     else sbind (read_activation_bytes env) (\<lambda>bytes.
          sbind (parse_activation_bytes env bytes) (\<lambda>journal.
          sbind (case parsed_activated journal of
                   Some activated \<Rightarrow> sret (Some activated)
                 | None \<Rightarrow> derive_legacy_candidate env journal) (\<lambda>activated.
          sbind (optional_service_binary env activated ''candidate'') (\<lambda>candidate_binary.
          sbind (optional_service_binary env (parsed_previous journal) ''previous'') (\<lambda>previous_binary.
          sbind (map_error (\<lambda>e. CleanupUnknown
                   ''SCM binding could not be classified during runtime recovery: {error}'' [e])
                 (inspect_binding candidate_binary previous_binary)) (\<lambda>binding.
          sbind (if parsed_phase journal = Some Committed then recover_committed env journal activated binding
                 else recover_uncommitted env inspect_binding restore_binding journal activated
                        candidate_binary previous_binary binding) (\<lambda>_.
          finish_recovery env))))))))"

section \<open>The installer\<close>

definition recover_interrupted_runtime :: "setup_env \<Rightarrow> installed_runtime option setup_op" where
  "recover_interrupted_runtime env = sbind (recover_interrupted_repair env) (\<lambda>_. recover_activation env)"

definition recover_interrupted_runtime_with_service_binding ::
  "setup_env \<Rightarrow> binding_inspector \<Rightarrow> binding_restorer \<Rightarrow> installed_runtime option setup_op" where
  "recover_interrupted_runtime_with_service_binding env inspect_binding restore_binding =
     sbind (recover_interrupted_repair env) (\<lambda>_. recover_with_service_binding env inspect_binding restore_binding)"

fun reject_pending :: "(path \<times> string) list \<Rightarrow> unit setup_op" where
  "reject_pending [] = sret ()"
| "reject_pending ((p, label) # rest) =
     sbind (attempt (fs_metadata p)) (\<lambda>metadata. case metadata of
       Inr _ \<Rightarrow> runtime_error (''a pending runtime '' @ label
                  @ '' transaction requires exact service-binding recovery'')
     | Inl e \<Rightarrow>
         if e = SetupIo IoNotFound then reject_pending rest
         else sraise (CleanupUnknown (''pending runtime '' @ label
                @ '' transaction could not be inspected at {path}: {error}'') [e]))"

definition reject_pending_runtime_transaction :: "setup_env \<Rightarrow> unit setup_op" where
  "reject_pending_runtime_transaction env =
     reject_pending [(runtime_activation_path env, ''activation''), (repair_journal_path env, ''repair'')]"

definition no_active_runtime :: "'a setup_op" where
  "no_active_runtime = runtime_error ''no active protected runtime is installed''"

definition validate_repair_payload :: "setup_env \<Rightarrow> path \<Rightarrow> bool \<Rightarrow> unit setup_op" where
  "validate_repair_payload env payload allow_generic_recovery =
     sbind (if allow_generic_recovery then recover_interrupted_runtime env
            else sbind (reject_pending_runtime_transaction env) (\<lambda>_. current_runtime env)) (\<lambda>current.
     case current of
       None \<Rightarrow> no_active_runtime
     | Some current \<Rightarrow>
         sbind (load_payload env payload) (\<lambda>loaded.
         if ir_version current \<noteq> payload_version loaded
         then runtime_error ''repair cannot replace an outdated runtime; use upgrade''
         else sret ()))"

definition deploy ::
  "setup_env \<Rightarrow> path \<Rightarrow> (path \<Rightarrow> 'p setup_op) \<Rightarrow> (path \<Rightarrow> 'p \<Rightarrow> unit setup_op) \<Rightarrow> bool \<Rightarrow> bool \<Rightarrow>
     (installed_runtime \<times> 'p) setup_op" where
  "deploy env payload prepare health_check replace_invalid defer_external_rollback =
     sbind (if defer_external_rollback then reject_pending_runtime_transaction env
            else sbind (recover_interrupted_runtime env) (\<lambda>_. sret ())) (\<lambda>_.
     sbind (load_payload env payload) (\<lambda>loaded.
     sbind (stage env (replace_runtime_payload env) loaded replace_invalid) (\<lambda>destination.
     let service_binary = path_join destination SERVICE_BINARY
     in sbind (activate_runtime env (payload_version loaded) service_binary prepare health_check
                 defer_external_rollback) (\<lambda>activation.
        sbind (finalize_runtime env activation) (\<lambda>prepared.
        sret (\<lparr>ir_version = payload_version loaded, ir_service_binary = service_binary\<rparr>, prepared))))))"

definition deploy_with_health_check ::
  "setup_env \<Rightarrow> path \<Rightarrow> (path \<Rightarrow> unit setup_op) \<Rightarrow> installed_runtime setup_op" where
  "deploy_with_health_check env payload health_check =
     sbind (deploy env payload (\<lambda>_. sret ()) (\<lambda>binary _. health_check binary) False False) (\<lambda>r. sret (fst r))"

definition deploy_with_prepare_and_health_check ::
  "setup_env \<Rightarrow> path \<Rightarrow> (path \<Rightarrow> 'p setup_op) \<Rightarrow> (path \<Rightarrow> 'p \<Rightarrow> unit setup_op) \<Rightarrow>
     (installed_runtime \<times> 'p) setup_op" where
  "deploy_with_prepare_and_health_check env payload prepare health_check =
     deploy env payload prepare health_check False True"

definition repair_current_with_health_check ::
  "setup_env \<Rightarrow> path \<Rightarrow> (path \<Rightarrow> unit setup_op) \<Rightarrow> installed_runtime setup_op" where
  "repair_current_with_health_check env payload health_check =
     sbind (validate_repair_payload env payload True) (\<lambda>_.
     sbind (deploy env payload (\<lambda>_. sret ()) (\<lambda>binary _. health_check binary) True False) (\<lambda>r. sret (fst r)))"

definition repair_current_with_prepare_and_health_check ::
  "setup_env \<Rightarrow> path \<Rightarrow> (path \<Rightarrow> 'p setup_op) \<Rightarrow> (path \<Rightarrow> 'p \<Rightarrow> unit setup_op) \<Rightarrow>
     (installed_runtime \<times> 'p) setup_op" where
  "repair_current_with_prepare_and_health_check env payload prepare health_check =
     sbind (validate_repair_payload env payload False) (\<lambda>_.
     deploy env payload prepare health_check True True)"

definition restore_pinned_current_with_health_check ::
  "setup_env \<Rightarrow> (path \<Rightarrow> unit setup_op) \<Rightarrow> installed_runtime setup_op" where
  "restore_pinned_current_with_health_check env health_check =
     sbind (recover_interrupted_runtime env) (\<lambda>_.
     sbind (current_runtime env) (\<lambda>current. case current of
       None \<Rightarrow> no_active_runtime
     | Some current \<Rightarrow>
         sbind (verify_pinned env (ir_version current)) (\<lambda>pinned.
         if \<not> pinned then runtime_error ''the active runtime is not protected by a migration pin''
         else sbind (health_check (ir_service_binary current)) (\<lambda>_. sret current))))"

definition runtime_transaction_pending :: "setup_env \<Rightarrow> unit setup_op" where
  "runtime_transaction_pending env =
     sbind (path_exists (runtime_activation_path env)) (\<lambda>activation.
     sbind (if activation then sret True else path_exists (repair_journal_path env)) (\<lambda>pending.
     if pending then runtime_error ''a runtime transaction is pending'' else sret ()))"

definition inspect_current_stable :: "setup_env \<Rightarrow> installed_runtime option setup_op" where
  "inspect_current_stable env =
     sbind (runtime_transaction_pending env) (\<lambda>_.
     sbind (current_runtime env) (\<lambda>current.
     sbind (case current of
              None \<Rightarrow> sret ()
            | Some current \<Rightarrow> (case path_parent (ir_service_binary current) of
                None \<Rightarrow> runtime_error ''active runtime has no generation directory''
              | Some directory \<Rightarrow> verify_runtime_generation env (ir_version current) directory)) (\<lambda>_.
     sbind (runtime_transaction_pending env) (\<lambda>_.
     sret current))))"

end
