(* ===== verification/Health_Json.thy ===== *)
theory Health_Json
  imports Health Json
begin

text \<open>
  The JSON form of the health contract: what the derived \<open>Serialize\<close> of
  \<open>service-runtime/contract/src/health.rs\<close> writes and what its \<open>Deserialize\<close> accepts.
\<close>

definition health_state_names :: "(string \<times> health_state) list" where
  "health_state_names = [(''unknown'', HsUnknown), (''initializing'', HsInitializing), (''ready'', HsReady),
     (''degraded'', HsDegraded), (''failed'', HsFailed)]"

definition component_readiness_names :: "(string \<times> component_readiness) list" where
  "component_readiness_names = [(''not_required'', CrNotRequired), (''initializing'', CrInitializing),
     (''ready'', CrReady), (''failed'', CrFailed)]"

definition readiness_to_json :: "readiness_report \<Rightarrow> json" where
  "readiness_to_json r =
     (let component = (\<lambda>c. JString (variant_name component_readiness_names c))
      in JObject [(''profile'', component (rr_profile r)), (''observer'', component (rr_observer r)),
                  (''injector32'', component (rr_injector32 r)), (''injector64'', component (rr_injector64 r))])"

definition readiness_of_json :: "json \<Rightarrow> readiness_report option" where
  "readiness_of_json v =
     do { m \<leftarrow> struct_fields [''profile'', ''observer'', ''injector32'', ''injector64''] v;
          profile \<leftarrow> de_variant component_readiness_names (m ''profile'');
          observer \<leftarrow> de_variant component_readiness_names (m ''observer'');
          injector32 \<leftarrow> de_variant component_readiness_names (m ''injector32'');
          injector64 \<leftarrow> de_variant component_readiness_names (m ''injector64'');
          Some \<lparr>rr_profile = profile, rr_observer = observer,
                rr_injector32 = injector32, rr_injector64 = injector64\<rparr> }"

definition success_fields :: "string list" where
  "success_fields = [''pid'', ''creationTime'', ''sessionId'', ''runtimeGenerationId'', ''profileDigest'']"

definition success_to_json :: "injection_success \<Rightarrow> json" where
  "success_to_json s =
     JObject [(''pid'', JNat (unat (is_pid s))), (''creationTime'', JNat (unat (is_creation_time s))),
              (''sessionId'', JNat (unat (is_session_id s))),
              (''runtimeGenerationId'', JString (is_runtime_generation_id s)),
              (''profileDigest'', JString (is_profile_digest s))]"

definition success_of_json :: "json \<Rightarrow> injection_success option" where
  "success_of_json v =
     do { m \<leftarrow> struct_fields success_fields v;
          pid \<leftarrow> de_word (m ''pid'');
          creation_time \<leftarrow> de_word (m ''creationTime'');
          session_id \<leftarrow> de_word (m ''sessionId'');
          generation \<leftarrow> de_string (m ''runtimeGenerationId'');
          digest \<leftarrow> de_string (m ''profileDigest'');
          Some \<lparr>is_pid = pid, is_creation_time = creation_time, is_session_id = session_id,
                is_runtime_generation_id = generation, is_profile_digest = digest\<rparr> }"

definition architecture_to_json :: "architecture_injection_telemetry \<Rightarrow> json" where
  "architecture_to_json t =
     JObject [(''successCount'', JNat (unat (success_count t))),
              (''lastSuccess'', ser_option success_to_json (last_success t))]"

definition architecture_of_json :: "json \<Rightarrow> architecture_injection_telemetry option" where
  "architecture_of_json v =
     do { m \<leftarrow> struct_fields [''successCount'', ''lastSuccess''] v;
          count \<leftarrow> de_word (m ''successCount'');
          latest \<leftarrow> de_option (\<lambda>v. Option.bind v success_of_json) (m ''lastSuccess'');
          Some \<lparr>success_count = count, last_success = latest\<rparr> }"

definition telemetry_to_json :: "injection_telemetry \<Rightarrow> json" where
  "telemetry_to_json t =
     JObject [(''x86'', architecture_to_json (tel_x86 t)), (''x64'', architecture_to_json (tel_x64 t))]"

definition telemetry_of_json :: "json \<Rightarrow> injection_telemetry option" where
  "telemetry_of_json v =
     do { m \<leftarrow> struct_fields [''x86'', ''x64''] v;
          x86 \<leftarrow> Option.bind (m ''x86'') architecture_of_json;
          x64 \<leftarrow> Option.bind (m ''x64'') architecture_of_json;
          Some \<lparr>tel_x86 = x86, tel_x64 = x64\<rparr> }"

definition service_error_to_json :: "structured_service_error \<Rightarrow> json" where
  "service_error_to_json e =
     JObject [(''code'', JString (se_code e)), (''message'', JString (se_message e)),
              (''win32_error'', ser_option (\<lambda>w. JNat (unat w)) (se_win32_error e))]"

definition service_error_of_json :: "json \<Rightarrow> structured_service_error option" where
  "service_error_of_json v =
     do { m \<leftarrow> struct_fields [''code'', ''message'', ''win32_error''] v;
          code \<leftarrow> de_string (m ''code'');
          message \<leftarrow> de_string (m ''message'');
          win32_error \<leftarrow> de_option de_word (m ''win32_error'');
          Some \<lparr>se_code = code, se_message = message, se_win32_error = win32_error\<rparr> }"

definition report_fields :: "string list" where
  "report_fields = [''protocolVersion'', ''serviceVersion'', ''health'', ''activeProfileDigest'', ''readiness'',
     ''injection'', ''lastError'']"

definition report_to_json :: "health_report \<Rightarrow> json" where
  "report_to_json r =
     JObject [(''protocolVersion'', JNat (unat (protocol_version r))),
              (''serviceVersion'', JString (service_version r)),
              (''health'', JString (variant_name health_state_names (health r))),
              (''activeProfileDigest'', ser_option JString (active_profile_digest r)),
              (''readiness'', readiness_to_json (readiness r)),
              (''injection'', telemetry_to_json (injection r)),
              (''lastError'', ser_option service_error_to_json (last_error r))]"

text \<open>A report without the \<open>injection\<close> field, as older services wrote it, has empty telemetry.\<close>

definition report_of_json :: "json \<Rightarrow> health_report option" where
  "report_of_json v =
     do { m \<leftarrow> struct_fields report_fields v;
          protocol \<leftarrow> de_word (m ''protocolVersion'');
          version \<leftarrow> de_string (m ''serviceVersion'');
          state \<leftarrow> de_variant health_state_names (m ''health'');
          digest \<leftarrow> de_option de_string (m ''activeProfileDigest'');
          components \<leftarrow> Option.bind (m ''readiness'') readiness_of_json;
          telemetry \<leftarrow> (case m ''injection'' of None \<Rightarrow> Some default_telemetry | Some v \<Rightarrow> telemetry_of_json v);
          e \<leftarrow> de_option (\<lambda>v. Option.bind v service_error_of_json) (m ''lastError'');
          Some \<lparr>protocol_version = protocol, service_version = version, health = state,
                active_profile_digest = digest, readiness = components, injection = telemetry,
                last_error = e\<rparr> }"

section \<open>Round trips\<close>

lemma de_option_ser:
  assumes "\<And>x. de (Some (ser x)) = Some x" and "\<And>x. ser x \<noteq> JNull"
  shows "de_option de (Some (ser_option ser x)) = Some x"
proof (cases x)
  case (Some y)
  then show ?thesis
    using assms(1) [of y] assms(2) [of y]
    by (cases "ser y") (simp_all add: de_option_def ser_option_def)
qed (simp add: de_option_def ser_option_def)

lemma variant_component:
  "de_variant component_readiness_names (Some (JString (variant_name component_readiness_names c))) = Some c"
  by (cases c) (simp_all add: de_variant_def variant_name_def component_readiness_names_def)

lemma variant_state:
  "de_variant health_state_names (Some (JString (variant_name health_state_names s))) = Some s"
  by (cases s) (simp_all add: de_variant_def variant_name_def health_state_names_def)

lemma readiness_json: "readiness_of_json (readiness_to_json r) = Some r"
  by (simp add: readiness_of_json_def readiness_to_json_def struct_fields_def Let_def variant_component)

lemma success_json: "success_of_json (success_to_json s) = Some s"
  by (simp add: success_of_json_def success_to_json_def struct_fields_def success_fields_def de_string_def)

lemma architecture_json: "architecture_of_json (architecture_to_json t) = Some t"
proof -
  have "de_option (\<lambda>v. Option.bind v success_of_json) (Some (ser_option success_to_json (last_success t)))
          = Some (last_success t)"
    by (rule de_option_ser) (simp_all add: success_json, simp add: success_to_json_def)
  then show ?thesis
    by (simp add: architecture_of_json_def architecture_to_json_def struct_fields_def)
qed

lemma telemetry_json: "telemetry_of_json (telemetry_to_json t) = Some t"
  by (simp add: telemetry_of_json_def telemetry_to_json_def struct_fields_def architecture_json)

lemma service_error_json: "service_error_of_json (service_error_to_json e) = Some e"
proof -
  have "de_option de_word (Some (ser_option (\<lambda>w. JNat (unat w)) (se_win32_error e))) = Some (se_win32_error e)"
    by (rule de_option_ser) simp_all
  then show ?thesis
    by (simp add: service_error_of_json_def service_error_to_json_def struct_fields_def de_string_def)
qed

lemma report_json: "report_of_json (report_to_json r) = Some r"
proof -
  have digest: "de_option de_string (Some (ser_option JString (active_profile_digest r)))
      = Some (active_profile_digest r)"
    by (rule de_option_ser) (simp_all add: de_string_def)
  have e: "de_option (\<lambda>v. Option.bind v service_error_of_json)
      (Some (ser_option service_error_to_json (last_error r))) = Some (last_error r)"
    by (rule de_option_ser) (simp_all add: service_error_json, simp add: service_error_to_json_def)
  show ?thesis
    by (simp add: report_of_json_def report_to_json_def struct_fields_def report_fields_def
        variant_state readiness_json telemetry_json digest e)
      (simp add: de_string_def)
qed

end
