(* ===== verification/Runtime_Uninstall.thy ===== *)
theory Runtime_Uninstall
  imports Runtime_Installer Health_Json
begin

text \<open>
  Removing an installation (\<open>setup/src/runtime_installer/uninstall.rs\<close>): a plan is made by verifying
  every entry of the service directory, made again after the service was stopped, and only an
  unchanged plan is carried out.
\<close>

definition MAX_REMOVAL_HEALTH_BYTES :: nat where "MAX_REMOVAL_HEALTH_BYTES = 16 * 1024"
definition MAX_RUNTIME_GENERATIONS :: nat where "MAX_RUNTIME_GENERATIONS = MAX_PINNED_RUNTIMES + 2"
definition MAX_SERVICE_RUNTIME_ROOT_ENTRIES :: nat where "MAX_SERVICE_RUNTIME_ROOT_ENTRIES = 8"

text \<open>The set of versions and the sorted paths are sorted lists; a path to a pin is its name.\<close>

record owned_removal_plan =
  pl_root_exists :: bool
  pl_versions :: "string list"
  pl_migration_pins :: "string list"
  pl_remove_current :: bool
  pl_remove_previous :: bool
  pl_remove_health :: bool
  pl_remove_versions_root :: bool
  pl_remove_receipts_root :: bool
  pl_remove_migration_pins_root :: bool

definition default_plan :: owned_removal_plan where
  "default_plan = \<lparr>pl_root_exists = False, pl_versions = [], pl_migration_pins = [],
     pl_remove_current = False, pl_remove_previous = False, pl_remove_health = False,
     pl_remove_versions_root = False, pl_remove_receipts_root = False,
     pl_remove_migration_pins_root = False\<rparr>"

definition plan_entry :: "string \<Rightarrow> owned_removal_plan \<Rightarrow> setup_error + owned_removal_plan" where
  "plan_entry name plan =
     (if name = ''bin'' then Ok (plan\<lparr>pl_remove_versions_root := True\<rparr>)
      else if name = ''runtime-receipts'' then Ok (plan\<lparr>pl_remove_receipts_root := True\<rparr>)
      else if name = ''current.json'' then Ok (plan\<lparr>pl_remove_current := True\<rparr>)
      else if name = ''previous-runtime.json'' then Ok (plan\<lparr>pl_remove_previous := True\<rparr>)
      else if name = ''health.json'' then Ok (plan\<lparr>pl_remove_health := True\<rparr>)
      else if name = ''migration-runtime-pins'' then Ok (plan\<lparr>pl_remove_migration_pins_root := True\<rparr>)
      else if name \<in> {''runtime-activation.json'', ''runtime-repair.json''}
      then Err (SetupRuntime ''a runtime transaction is pending during uninstall'' [])
      else Err (SetupRuntime (''unexpected service runtime entry blocks uninstall: '' @ name) []))"

fun plan_entries :: "path \<Rightarrow> string list \<Rightarrow> owned_removal_plan \<Rightarrow> owned_removal_plan setup_op" where
  "plan_entries root [] plan = sret plan"
| "plan_entries root (name # names) plan =
     sbind (reject_reparse_ancestors (path_join root name)) (\<lambda>_.
     sbind (slift (plan_entry name plan)) (plan_entries root names))"

fun removable_versions :: "setup_env \<Rightarrow> string list \<Rightarrow> string list \<Rightarrow> string list setup_op" where
  "removable_versions env [] versions = sret versions"
| "removable_versions env (version # names) versions =
     (if \<not> valid_runtime_version_component version
      then runtime_error ''runtime generation name is not canonical''
      else sbind (verify_runtime_generation env version (path_join (versions_root env) version)) (\<lambda>_.
           removable_versions env names (set_insert version versions)))"

fun removable_receipts :: "setup_env \<Rightarrow> string list \<Rightarrow> string list \<Rightarrow> string list setup_op" where
  "removable_receipts env [] receipts = sret receipts"
| "removable_receipts env (name # names) receipts =
     sbind (reject_reparse_ancestors (path_join (runtime_receipts_root env) name)) (\<lambda>_.
     case strip_suffix name ''.json'' of
       None \<Rightarrow> runtime_error ''runtime receipt name is not canonical''
     | Some version \<Rightarrow>
         if \<not> valid_runtime_version_component version
         then runtime_error ''runtime receipt name is not canonical''
         else removable_receipts env names (set_insert version receipts))"

definition verify_removable_generations :: "setup_env \<Rightarrow> owned_removal_plan \<Rightarrow> string list setup_op" where
  "verify_removable_generations env plan =
     (if pl_remove_versions_root plan \<noteq> pl_remove_receipts_root plan
      then runtime_error ''runtime generations and receipts are not a complete owned pair''
      else if \<not> pl_remove_versions_root plan then sret []
      else sbind (reject_reparse_ancestors (versions_root env)) (\<lambda>_.
           sbind (fs_metadata (versions_root env)) (\<lambda>versions_metadata.
           sbind (if versions_metadata \<noteq> DirNode then sret True
                  else sbind (fs_metadata (runtime_receipts_root env)) (\<lambda>m. sret (m \<noteq> DirNode))) (\<lambda>irregular.
           if irregular then runtime_error ''runtime generation storage is not a regular directory''
           else sbind (read_bounded_directory (versions_root env) MAX_RUNTIME_GENERATIONS
                         ''runtime generation count'') (\<lambda>names.
                sbind (removable_versions env names []) (\<lambda>versions.
                sbind (read_bounded_directory (runtime_receipts_root env) MAX_RUNTIME_GENERATIONS
                         ''runtime receipt count'') (\<lambda>receipt_names.
                sbind (removable_receipts env receipt_names []) (\<lambda>receipts.
                if receipts \<noteq> versions
                then runtime_error ''runtime receipt set does not exactly match installed generations''
                else sret versions))))))))"

definition verify_runtime_pointer_for_removal ::
  "setup_env \<Rightarrow> path \<Rightarrow> string \<Rightarrow> bool \<Rightarrow> string list \<Rightarrow> unit setup_op" where
  "verify_runtime_pointer_for_removal env p description there versions =
     (if \<not> there then sret ()
      else sbind (setup_read_file p MAX_RUNTIME_POINTER_BYTES description) (\<lambda>bytes.
           sbind (validate_runtime_pointer env bytes) (\<lambda>pointer.
           if rp_version pointer \<notin> set versions
           then runtime_error (description @ '' does not name a receipted runtime generation'')
           else sret ())))"

definition removal_health_path :: "setup_env \<Rightarrow> path" where
  "removal_health_path env = path_join (service_root (en_paths env)) ''health.json''"

definition verify_health_for_removal :: "setup_env \<Rightarrow> bool \<Rightarrow> unit setup_op" where
  "verify_health_for_removal env there =
     (if \<not> there then sret ()
      else sbind (setup_read_file (removal_health_path env) MAX_REMOVAL_HEALTH_BYTES
                    ''persisted service health'') (\<lambda>bytes.
           case Option.bind (en_parse env bytes) report_of_json of
             None \<Rightarrow> runtime_error ''persisted service health is invalid''
           | Some report \<Rightarrow> (case validate_report report of
               Inl _ \<Rightarrow> runtime_error ''persisted service health is invalid'' | Inr _ \<Rightarrow> sret ())))"

definition verify_migration_pins_for_removal :: "setup_env \<Rightarrow> owned_removal_plan \<Rightarrow> string list setup_op" where
  "verify_migration_pins_for_removal env plan =
     (if \<not> pl_remove_migration_pins_root plan then sret []
      else sbind (load_verified_migration_pins env) (\<lambda>_.
           sbind (read_bounded_directory (migration_runtime_pins_root env) MAX_PINNED_RUNTIMES
                    ''migration runtime pin count'') (\<lambda>names.
           sbind (sfor names (\<lambda>name.
                    reject_reparse_ancestors (path_join (migration_runtime_pins_root env) name))) (\<lambda>_.
           sret (sort names)))))"

definition prepare_owned_removal :: "setup_env \<Rightarrow> owned_removal_plan setup_op" where
  "prepare_owned_removal env =
     (let root = service_root (en_paths env)
      in sbind (path_exists root) (\<lambda>there.
         if \<not> there then sret default_plan
         else sbind (reject_reparse_ancestors root) (\<lambda>_.
              sbind (fs_metadata root) (\<lambda>metadata.
              if metadata \<noteq> DirNode then runtime_error ''service runtime root is not a regular directory''
              else sbind (read_bounded_directory root MAX_SERVICE_RUNTIME_ROOT_ENTRIES
                            ''service runtime root entry count'') (\<lambda>names.
                   sbind (plan_entries root names (default_plan\<lparr>pl_root_exists := True\<rparr>)) (\<lambda>plan.
                   sbind (verify_removable_generations env plan) (\<lambda>versions.
                   sbind (verify_runtime_pointer_for_removal env (runtime_pointer (en_paths env))
                            ''active runtime pointer'' (pl_remove_current plan) versions) (\<lambda>_.
                   sbind (verify_runtime_pointer_for_removal env (previous_runtime_pointer_path env)
                            ''previous runtime pointer'' (pl_remove_previous plan) versions) (\<lambda>_.
                   sbind (verify_health_for_removal env (pl_remove_health plan)) (\<lambda>_.
                   sbind (verify_migration_pins_for_removal env plan) (\<lambda>pins.
                   sret (plan\<lparr>pl_migration_pins := pins, pl_versions := versions\<rparr>))))))))))))"

definition remove_state_file :: "bool \<times> path \<Rightarrow> unit setup_op" where
  "remove_state_file = (\<lambda>(remove, p).
     swhen remove (remove_file_or_defer p ''remove verified runtime state file''))"

definition defer_application_root :: "setup_env \<Rightarrow> unit setup_op" where
  "defer_application_root env =
     sbind (path_exists (service_root (en_paths env))) (\<lambda>there.
     if \<not> there then sret ()
     else (case path_parent (service_root (en_paths env)) of
             None \<Rightarrow> sraise (CleanupUnknown ''fixed service runtime directory has no application parent'' [])
           | Some application_root \<Rightarrow>
               defer_directory application_root ''defer empty application directory cleanup until reboot''))"

definition execute_owned_removal :: "setup_env \<Rightarrow> owned_removal_plan \<Rightarrow> bool setup_op" where
  "execute_owned_removal env plan =
     (if \<not> pl_root_exists plan then sret False
      else sbind (sfor (pl_versions plan) (\<lambda>version. remove_manifest_verified_generation env version
                    (path_join (versions_root env) version) True)) (\<lambda>_.
           sbind (swhen (pl_remove_versions_root plan) (remove_directory_or_defer (versions_root env)
                    ''remove verified runtime versions directory'')) (\<lambda>_.
           sbind (swhen (pl_remove_receipts_root plan) (remove_directory_or_defer (runtime_receipts_root env)
                    ''remove verified runtime receipts directory'')) (\<lambda>_.
           sbind (sfor (pl_migration_pins plan) (\<lambda>name. remove_file_or_defer
                    (path_join (migration_runtime_pins_root env) name)
                    ''remove verified migration runtime pin'')) (\<lambda>_.
           sbind (swhen (pl_remove_migration_pins_root plan)
                    (remove_directory_or_defer (migration_runtime_pins_root env)
                       ''remove verified migration runtime pins directory'')) (\<lambda>_.
           sbind (sfor [(pl_remove_current plan, runtime_pointer (en_paths env)),
                        (pl_remove_previous plan, previous_runtime_pointer_path env),
                        (pl_remove_health plan, removal_health_path env)] remove_state_file) (\<lambda>_.
           sbind (remove_directory_or_defer (service_root (en_paths env))
                    ''remove verified service runtime directory'') (\<lambda>_.
           sbind (defer_application_root env) (\<lambda>_. sret True)))))))))"

definition remove_owned :: "setup_env \<Rightarrow> unit setup_op \<Rightarrow> bool setup_op" where
  "remove_owned env before_cleanup =
     sbind (prepare_owned_removal env) (\<lambda>before.
     sbind before_cleanup (\<lambda>_.
     sbind (prepare_owned_removal env) (\<lambda>rear.
     if before \<noteq> rear
     then sraise (CleanupUnknown
            ''service runtime changed while uninstalling; no runtime files were removed'' [])
     else execute_owned_removal env rear)))"

definition remove_receipted_installation :: "setup_env \<Rightarrow> bool setup_op" where
  "remove_receipted_installation env = remove_owned env (sret ())"

end
