(* ===== verification/Setup_Broker.thy ===== *)
theory Setup_Broker
  imports Runtime_Uninstall Helper_Broker
begin

text \<open>
  The commands of the setup program (\<open>setup/src/install_bootstrap.rs\<close>, \<open>setup/src/windows/broker.rs\<close>,
  \<open>installer.rs\<close>, \<open>runtime_recovery.rs\<close> and their modules): every command recovers the runtime and the
  profile store first, and composes the runtime installer, the profile store and the service manager.

  The service manager, access control lists, the machine lock and the detection of older programs
  are operations of a record: what they answer and change is up to the machine.
\<close>

section \<open>The machine\<close>

datatype open_service_observation = ServiceAbsent | OwnedStopped | OwnedRunning | ForeignService | UnknownService

datatype conflict_observation = ConflictClear | ConflictDetected | ConflictUnknown

record setup_machine =
  sm_observe :: "open_service_observation setup_op"
  sm_points_to :: "path \<Rightarrow> bool setup_op"
  sm_install :: "path \<Rightarrow> unit setup_op"
  sm_reconfigure :: "path \<Rightarrow> unit setup_op"
  sm_remove :: "unit setup_op"
  sm_stop :: "unit setup_op"
  sm_is_running :: "bool setup_op"
  sm_start_and_wait_ready :: "unit setup_op"
  sm_start_and_wait_ready_for_profile :: "profile_generation_id \<Rightarrow> unit setup_op"
  sm_harden :: "path \<Rightarrow> unit setup_op"
  sm_enter :: "unit setup_op"
  sm_connect :: "unit setup_op"
  sm_validate_root :: "unit setup_op"
  sm_payload :: "path setup_op"
  sm_default_profile :: string
  sm_legacy_service :: "conflict_observation setup_op"
  sm_legacy_tray :: "conflict_observation setup_op"
  sm_appinit :: "conflict_observation setup_op"

text \<open>
  \<open>sm_enter\<close> acquires the machine lock and finds the known folders, \<open>sm_validate_root\<close> checks the place
  of the executable and hardens its root, \<open>sm_payload\<close> is \<open>FixedPayload::beside_setup_executable\<close>.
\<close>

section \<open>The binding of the service\<close>

definition candidate_changed :: "'a setup_op" where
  "candidate_changed =
     sraise (CleanupUnknown ''candidate service binding changed before exact runtime rollback'' [])"

definition points_to_optional :: "setup_machine \<Rightarrow> path option \<Rightarrow> bool setup_op" where
  "points_to_optional sm p = (case p of None \<Rightarrow> sret False | Some p \<Rightarrow> sm_points_to sm p)"

definition inspect_binding :: "setup_machine \<Rightarrow> binding_inspector" where
  "inspect_binding sm candidate previous =
     sbind (sm_observe sm) (\<lambda>observation.
     if observation = ServiceAbsent then sret BindingAbsent
     else if observation \<in> {OwnedStopped, OwnedRunning}
     then sbind (points_to_optional sm candidate) (\<lambda>is_candidate.
          if is_candidate then sret BindingCandidate
          else sbind (points_to_optional sm previous) (\<lambda>is_previous.
               if is_previous then sret BindingPrevious
               else sraise (CleanupUnknown
                      ''owned service image matches neither side of the runtime activation receipt'' [])))
     else if observation = ForeignService
     then sraise (CleanupUnknown
            ''fixed service name became foreign during runtime activation recovery'' [])
     else sraise (CleanupUnknown
            ''fixed service state is unknown during runtime activation recovery'' []))"

definition restore_previous_binding :: "setup_machine \<Rightarrow> binding_restorer" where
  "restore_previous_binding sm candidate previous =
     sbind (sm_observe sm) (\<lambda>observation.
     sbind (if observation \<in> {OwnedRunning, OwnedStopped}
            then sbind (sm_points_to sm candidate) (\<lambda>still.
                 if \<not> still then candidate_changed
                 else swhen (observation = OwnedRunning) (sm_stop sm))
            else candidate_changed) (\<lambda>_.
     case previous of Some previous \<Rightarrow> sm_reconfigure sm previous | None \<Rightarrow> sm_remove sm))"

definition recover_runtime :: "setup_env \<Rightarrow> setup_machine \<Rightarrow> installed_runtime option setup_op" where
  "recover_runtime env sm =
     recover_interrupted_runtime_with_service_binding env (inspect_binding sm) (restore_previous_binding sm)"

section \<open>Verbs of the broker\<close>

definition answer :: "string \<Rightarrow> string \<Rightarrow> string" where
  "answer v rest = ''{\"ok\":true,\"verb\":\"'' @ v @ ''\"'' @ rest @ ''}''"

definition version_result :: "string \<Rightarrow> string \<Rightarrow> string" where
  "version_result v version = answer v ('',\"version\":\"'' @ version @ ''\"'')"

definition combine_operation_and_restore_error :: "setup_error \<Rightarrow> setup_error \<Rightarrow> setup_error" where
  "combine_operation_and_restore_error operation restoration =
     SetupRuntime ''{operation}; additionally failed to restore the caller's service state: {restoration}''
       [operation, restoration]"

definition service_root_of :: "setup_env \<Rightarrow> path" where
  "service_root_of env = service_root (en_paths env)"

text \<open>Recovery after a failed operation: its failure is added to the error, else the operation fails.\<close>

definition restore_or_combine :: "setup_error \<Rightarrow> unit setup_op \<Rightarrow> 'a setup_op" where
  "restore_or_combine operation restore =
     sbind (map_error (combine_operation_and_restore_error operation) restore) (\<lambda>_. sraise operation)"

definition broker_install :: "setup_env \<Rightarrow> setup_machine \<Rightarrow> string setup_op" where
  "broker_install env sm =
     sbind (create_protected_directory (service_root_of env)) (\<lambda>_.
     sbind (sm_harden sm (service_root_of env)) (\<lambda>_.
     sbind (sm_payload sm) (\<lambda>payload.
     sbind (attempt (deploy_with_prepare_and_health_check env payload (sm_install sm) (\<lambda>_ _. sret ()))) (\<lambda>installed.
     case installed of
       Inl operation \<Rightarrow>
         restore_or_combine operation (sbind (recover_runtime env sm) (\<lambda>_. sret ()))
     | Inr (installed, _) \<Rightarrow>
         sbind (sm_harden sm (service_root_of env)) (\<lambda>_.
         sret (version_result ''install'' (ir_version installed)))))))"

definition restore_upgrade_state :: "setup_env \<Rightarrow> setup_machine \<Rightarrow> installed_runtime \<Rightarrow> bool \<Rightarrow> unit setup_op" where
  "restore_upgrade_state env sm previous was_running =
     sbind (recover_runtime env sm) (\<lambda>recovered.
     if recovered \<noteq> Some previous
     then sraise (CleanupUnknown
            ''failed upgrade did not recover the exact previous runtime; refusing to infer a service restart'' [])
     else swhen was_running (sm_start_and_wait_ready sm))"

definition broker_upgrade :: "setup_env \<Rightarrow> setup_machine \<Rightarrow> string setup_op" where
  "broker_upgrade env sm =
     sbind (sm_is_running sm) (\<lambda>was_running.
     sbind (swhen was_running (sm_stop sm)) (\<lambda>_.
     sbind (sm_payload sm) (\<lambda>payload.
     sbind (inspect_current_stable env) (\<lambda>previous. case previous of
       None \<Rightarrow> runtime_error ''no active protected runtime exists before upgrade''
     | Some previous \<Rightarrow>
         sbind (attempt (deploy_with_prepare_and_health_check env payload (sm_reconfigure sm)
                  (\<lambda>_ _. swhen was_running (sm_start_and_wait_ready sm)))) (\<lambda>installed.
         case installed of
           Inl operation \<Rightarrow> restore_or_combine operation (restore_upgrade_state env sm previous was_running)
         | Inr (installed, _) \<Rightarrow>
             sbind (sm_harden sm (service_root_of env)) (\<lambda>_.
             sret (version_result ''upgrade'' (ir_version installed))))))))"

definition repair_and_restart :: "setup_env \<Rightarrow> setup_machine \<Rightarrow> bool \<Rightarrow> unit setup_op" where
  "repair_and_restart env sm was_running =
     sbind (at_machine_path ''locate fixed repair payload'' (service_root_of env) (sm_payload sm)) (\<lambda>payload.
     sbind (at_machine_path ''repair protected runtime transaction'' (service_root_of env)
              (repair_current_with_prepare_and_health_check env payload (sm_reconfigure sm)
                 (\<lambda>_ _. sret ()))) (\<lambda>_.
     sbind (at_machine_path ''synchronize active profile after repair'' (active_profile (en_paths env))
              (synchronize_active_runtime env)) (\<lambda>_.
     sbind (sm_harden sm (service_root_of env)) (\<lambda>_.
     swhen was_running (at_machine_path ''restart service after repair'' (service_root_of env)
       (sm_start_and_wait_ready sm))))))"

definition broker_repair :: "setup_env \<Rightarrow> setup_machine \<Rightarrow> string setup_op" where
  "broker_repair env sm =
     sbind (at_machine_path ''inspect service state before repair'' (service_root_of env)
              (sm_is_running sm)) (\<lambda>was_running.
     sbind (swhen was_running (at_machine_path ''stop service before repair'' (service_root_of env)
              (sm_stop sm))) (\<lambda>_.
     sbind (attempt (repair_and_restart env sm was_running)) (\<lambda>repaired. case repaired of
       Inl operation \<Rightarrow>
         restore_or_combine operation
           (sbind (recover_runtime env sm) (\<lambda>_. swhen was_running (sm_start_and_wait_ready sm)))
     | Inr _ \<Rightarrow> sret (answer ''repair'' []))))"

definition broker_remove :: "setup_machine \<Rightarrow> string setup_op" where
  "broker_remove sm = sbind (sm_remove sm) (\<lambda>_. sret (answer ''remove'' []))"

definition broker_start :: "setup_env \<Rightarrow> setup_machine \<Rightarrow> string setup_op" where
  "broker_start env sm =
     sbind (current_runtime env) (\<lambda>current. case current of
       None \<Rightarrow> no_active_runtime
     | Some current \<Rightarrow>
         sbind (synchronize_active_runtime env) (\<lambda>_.
         sbind (sm_harden sm (service_root_of env)) (\<lambda>_.
         sbind (sm_reconfigure sm (ir_service_binary current)) (\<lambda>_.
         sbind (sm_start_and_wait_ready sm) (\<lambda>_.
         sret (answer ''start'' '',\"health\":\"ready\"''))))))"

definition broker_stop :: "setup_machine \<Rightarrow> string setup_op" where
  "broker_stop sm = sbind (sm_stop sm) (\<lambda>_. sret (answer ''stop'' []))"

definition broker_restore_runtime :: "setup_env \<Rightarrow> setup_machine \<Rightarrow> string setup_op" where
  "broker_restore_runtime env sm =
     sbind (sm_is_running sm) (\<lambda>running.
     sbind (swhen running (sm_stop sm)) (\<lambda>_.
     sbind (restore_pinned_current_with_health_check env (sm_reconfigure sm)) (\<lambda>restored.
     sbind (sm_harden sm (service_root_of env)) (\<lambda>_.
     sret (version_result ''restore-runtime'' (ir_version restored))))))"

definition harden_runtime_if_installed :: "setup_env \<Rightarrow> setup_machine \<Rightarrow> unit setup_op" where
  "harden_runtime_if_installed env sm =
     sbind (path_is_file (runtime_pointer (en_paths env))) (\<lambda>there.
     swhen there (sm_harden sm (service_root_of env)))"

definition profile_data_root :: "setup_env \<Rightarrow> string \<Rightarrow> path setup_op" where
  "profile_data_root env message =
     (case path_parent (active_profile (en_paths env)) of
        None \<Rightarrow> runtime_error message | Some data_root \<Rightarrow> sret data_root)"

definition broker_publish :: "setup_env \<Rightarrow> setup_machine \<Rightarrow> string option \<Rightarrow> string setup_op" where
  "broker_publish env sm profile_input =
     (case profile_input of
        None \<Rightarrow> runtime_error ''publish-profile requires stdin bytes''
      | Some input \<Rightarrow>
          sbind (profile_data_root env ''profile root is unavailable'') (\<lambda>data_root.
          sbind (create_protected_directory data_root) (\<lambda>_.
          sbind (sm_harden sm data_root) (\<lambda>_.
          sbind (publish_and_activate env input \<lparr>display_name = ''MacType Control Center''\<rparr>) (\<lambda>g.
          sbind (sm_harden sm data_root) (\<lambda>_.
          sbind (harden_runtime_if_installed env sm) (\<lambda>_.
          sret (answer ''publish-profile'' ('',\"generation\":\"'' @ g @ ''\"'')))))))))"

definition broker_rollback :: "setup_env \<Rightarrow> setup_machine \<Rightarrow> string setup_op" where
  "broker_rollback env sm =
     sbind (rollback env) (\<lambda>generation.
     sbind (harden_runtime_if_installed env sm) (\<lambda>_.
     sret (case generation of
             Some g \<Rightarrow> answer ''rollback'' ('',\"generation\":\"'' @ g @ ''\"'')
           | None \<Rightarrow> answer ''rollback'' '',\"generation\":null'')))"

definition prepare_event_log_directory :: "setup_env \<Rightarrow> setup_machine \<Rightarrow> unit setup_op" where
  "prepare_event_log_directory env sm =
     (case path_parent (event_log_dir (en_paths env)) of
        None \<Rightarrow> runtime_error ''protected event-log root is unavailable''
      | Some data_root \<Rightarrow>
          sbind (create_protected_directory data_root) (\<lambda>_.
          sbind (sm_harden sm data_root) (\<lambda>_.
          sbind (create_protected_directory (event_log_dir (en_paths env))) (\<lambda>_.
          sm_harden sm data_root))))"

definition broker_run :: "setup_env \<Rightarrow> setup_machine \<Rightarrow> broker_command \<Rightarrow> string option \<Rightarrow> string setup_op" where
  "broker_run env sm command profile_input =
     sbind (sm_enter sm) (\<lambda>_.
     sbind (prepare_event_log_directory env sm) (\<lambda>_.
     sbind (swhen (command = Repair) (sm_harden sm (service_root_of env))) (\<lambda>_.
     sbind (at_machine_path ''connect to Service Control Manager'' (service_root_of env) (sm_connect sm)) (\<lambda>_.
     sbind (at_machine_path ''recover protected runtime state'' (service_root_of env)
              (recover_runtime env sm)) (\<lambda>_.
     sbind (at_machine_path ''recover protected profile state'' (active_profile (en_paths env))
              (recover_interrupted_activation env)) (\<lambda>_.
     case command of
       Install \<Rightarrow> broker_install env sm
     | Upgrade \<Rightarrow> broker_upgrade env sm
     | Repair \<Rightarrow> broker_repair env sm
     | Remove \<Rightarrow> broker_remove sm
     | Start \<Rightarrow> broker_start env sm
     | StopCommand \<Rightarrow> broker_stop sm
     | RestoreRuntime \<Rightarrow> broker_restore_runtime env sm
     | PublishProfile \<Rightarrow> broker_publish env sm profile_input
     | Rollback \<Rightarrow> broker_rollback env sm
     | MigrateFromLegacy \<Rightarrow> runtime_error
         ''legacy migration requires the separately verified migration workflow''))))))"

end
