(* ===== verification/Setup_Installer.thy ===== *)
theory Setup_Installer
  imports Setup_Broker
begin

text \<open>
  The installer of the setup program (\<open>setup/src/install_bootstrap.rs\<close>, \<open>setup/src/windows/installer.rs\<close>,
  its preflight, its transaction and its output): the plan made from a snapshot of the machine, the
  transaction that carries it out only while the snapshot still holds, and the owned uninstall.
\<close>

section \<open>Data\<close>

datatype bootstrap_start_policy = EnsureRunning | PreserveObservedState

datatype setup_command =
    BrokerVerb broker_command
  | BootstrapInstall bootstrap_start_policy
  | UninstallOwned

datatype protected_profile_observation = ProfileAbsent | ProfileActive string | ProfileUnknown

datatype protected_runtime_observation = RuntimeAbsent | RuntimeActive | RuntimeUnknown

record bootstrap_preflight =
  bp_open_service :: open_service_observation
  bp_protected_profile :: protected_profile_observation
  bp_protected_runtime :: protected_runtime_observation
  bp_legacy_service :: conflict_observation
  bp_legacy_tray :: conflict_observation
  bp_appinit :: conflict_observation

datatype bootstrap_profile_mode = PublishBundledDefault | PreserveExisting string | LeaveUnpublished

record bootstrap_plan =
  plan_profile :: bootstrap_profile_mode
  plan_start_service :: bool

datatype bootstrap_blocker =
    LegacyService | LegacyTrayMode | AppInit | ForeignOpenService | UnknownMachineState
  | InconsistentOwnedState

datatype bootstrap_outcome =
    Applied "string option" bool bool
  | SkippedBlocked bootstrap_blocker

datatype uninstall_outcome = Removed | AlreadyAbsent | UninstallBlocked bootstrap_blocker

section \<open>Command line\<close>

definition policy_verb :: "bootstrap_start_policy \<Rightarrow> string" where
  "policy_verb policy =
     (case policy of EnsureRunning \<Rightarrow> ''bootstrap-install''
      | PreserveObservedState \<Rightarrow> ''bootstrap-install-preserve-run-state'')"

definition parse_setup_command :: "string list \<Rightarrow> unit + setup_command" where
  "parse_setup_command arguments =
     (case arguments of
        [v] \<Rightarrow>
          if v = policy_verb EnsureRunning then Ok (BootstrapInstall EnsureRunning)
          else if v = policy_verb PreserveObservedState then Ok (BootstrapInstall PreserveObservedState)
          else if v = ''uninstall-owned'' then Ok UninstallOwned
          else map_sum id BrokerVerb (parse_broker_command [v])
      | _ \<Rightarrow> Err ())"

section \<open>The plan\<close>

definition owned_service :: "open_service_observation \<Rightarrow> bool" where
  "owned_service observation \<longleftrightarrow> observation \<in> {OwnedStopped, OwnedRunning}"

definition blocked_by :: "bootstrap_preflight \<Rightarrow> bootstrap_blocker option" where
  "blocked_by p =
     (if bp_legacy_service p = ConflictDetected then Some LegacyService
      else if bp_legacy_tray p = ConflictDetected then Some LegacyTrayMode
      else if bp_appinit p = ConflictDetected then Some AppInit
      else if bp_open_service p = ForeignService then Some ForeignOpenService
      else if bp_open_service p = UnknownService \<or> bp_protected_profile p = ProfileUnknown
              \<or> bp_protected_runtime p = RuntimeUnknown \<or> bp_legacy_service p = ConflictUnknown
              \<or> bp_legacy_tray p = ConflictUnknown \<or> bp_appinit p = ConflictUnknown
      then Some UnknownMachineState
      else if owned_service (bp_open_service p) \<and> bp_protected_runtime p = RuntimeAbsent
              \<or> bp_open_service p = OwnedRunning \<and> bp_protected_profile p = ProfileAbsent
      then Some InconsistentOwnedState
      else None)"

definition plan_for :: "bootstrap_start_policy \<Rightarrow> bootstrap_preflight \<Rightarrow> bootstrap_plan \<times> bool" where
  "plan_for policy p =
     (let start_service = (case policy of EnsureRunning \<Rightarrow> True
                           | PreserveObservedState \<Rightarrow> bp_open_service p = OwnedRunning);
          (profile, preserved_existing_profile) =
            (case bp_protected_profile p of
               ProfileActive generation \<Rightarrow> (PreserveExisting generation, True)
             | _ \<Rightarrow> (if start_service then PublishBundledDefault else LeaveUnpublished, False))
      in (\<lparr>plan_profile = profile, plan_start_service = start_service\<rparr>, preserved_existing_profile))"

definition checked_digest :: "bootstrap_profile_mode \<Rightarrow> string option \<Rightarrow> setup_error + string option" where
  "checked_digest profile digest =
     (case (profile, digest) of
        (PreserveExisting generation, Some digest) \<Rightarrow>
          if digest \<noteq> ''sha256:'' @ generation
          then Err (SetupRuntime (''Ready profile digest mismatch: expected sha256:'' @ generation
                      @ '', received '' @ digest) [])
          else Ok (Some digest)
      | (PublishBundledDefault, Some digest) \<Rightarrow> Ok (Some digest)
      | (LeaveUnpublished, None) \<Rightarrow> Ok None
      | (LeaveUnpublished, Some digest) \<Rightarrow>
          Err (SetupRuntime (''bootstrap left the profile unpublished but reported digest '' @ digest) [])
      | _ \<Rightarrow> Err (SetupRuntime ''bootstrap published a profile but reported no Ready digest'' []))"

text \<open>The backend as its two methods.\<close>

definition run_install_bootstrap_with ::
  "bootstrap_preflight setup_op \<Rightarrow> (bootstrap_preflight \<Rightarrow> bootstrap_plan \<Rightarrow> string option setup_op) \<Rightarrow>
     bootstrap_start_policy \<Rightarrow> bootstrap_outcome setup_op" where
  "run_install_bootstrap_with inspect apply policy =
     sbind inspect (\<lambda>preflight.
     case blocked_by preflight of
       Some reason \<Rightarrow> sret (SkippedBlocked reason)
     | None \<Rightarrow>
         (let (plan, preserved_existing_profile) = plan_for policy preflight
          in sbind (apply preflight plan) (\<lambda>digest.
             sbind (slift (checked_digest (plan_profile plan) digest)) (\<lambda>active_profile_digest.
             sret (Applied active_profile_digest preserved_existing_profile (plan_start_service plan))))))"

definition run_uninstall_owned_with ::
  "open_service_observation setup_op \<Rightarrow> (open_service_observation \<Rightarrow> bool setup_op) \<Rightarrow>
     uninstall_outcome setup_op" where
  "run_uninstall_owned_with inspect remove =
     sbind inspect (\<lambda>observation.
     if observation \<in> {ServiceAbsent, OwnedStopped, OwnedRunning}
     then sbind (map_error (\<lambda>e. SetupRuntime ''owned installation removal failed: {error}'' [e])
                  (remove observation)) (\<lambda>runtime_removed.
          sret (if observation = ServiceAbsent \<and> \<not> runtime_removed then AlreadyAbsent else Removed))
     else if observation = ForeignService then sret (UninstallBlocked ForeignOpenService)
     else sret (UninstallBlocked UnknownMachineState))"

section \<open>Preflight\<close>

definition inspect_snapshot :: "setup_env \<Rightarrow> setup_machine \<Rightarrow> bootstrap_preflight setup_op" where
  "inspect_snapshot env sm =
     sbind (attempt (inspect_current_stable env)) (\<lambda>current.
     sbind (attempt (inspect_active_generation_stable env)) (\<lambda>profile.
     sbind (sm_observe sm) (\<lambda>observed.
     sbind (if \<not> owned_service observed then sret observed
            else (case current of
                    Inr (Some current) \<Rightarrow>
                      sbind (attempt (sm_points_to sm (ir_service_binary current))) (\<lambda>points_to.
                      sret (if points_to = Inr True then observed else UnknownService))
                  | _ \<Rightarrow> sret UnknownService)) (\<lambda>open_service.
     sbind (sm_legacy_service sm) (\<lambda>legacy_service.
     sbind (sm_legacy_tray sm) (\<lambda>legacy_tray.
     sbind (sm_appinit sm) (\<lambda>appinit.
     sret \<lparr>bp_open_service = open_service,
           bp_protected_profile = (case profile of Inr (Some g) \<Rightarrow> ProfileActive (directory_name g)
             | Inr None \<Rightarrow> ProfileAbsent | Inl _ \<Rightarrow> ProfileUnknown),
           bp_protected_runtime = (case current of Inr (Some _) \<Rightarrow> RuntimeActive
             | Inr None \<Rightarrow> RuntimeAbsent | Inl _ \<Rightarrow> RuntimeUnknown),
           bp_legacy_service = legacy_service, bp_legacy_tray = legacy_tray, bp_appinit = appinit\<rparr>)))))))"

definition validate_mode_matches_profile ::
  "bootstrap_profile_mode \<Rightarrow> profile_generation_id option \<Rightarrow> unit setup_op" where
  "validate_mode_matches_profile mode active =
     (if (case (mode, active) of
            (PublishBundledDefault, None) \<Rightarrow> True
          | (LeaveUnpublished, None) \<Rightarrow> True
          | (PreserveExisting generation, Some active) \<Rightarrow> directory_name active = generation
          | _ \<Rightarrow> False)
      then sret ()
      else runtime_error ''bootstrap mode no longer matches the protected active profile'')"

section \<open>The transaction\<close>

definition set_published :: "bool \<Rightarrow> unit setup_op" where
  "set_published b d = (Inr (), d\<lparr>sd_published := b\<rparr>)"

definition published_default :: "bool setup_op" where
  "published_default d = (Inr (sd_published d), d)"

definition profile_root_unavailable :: string where
  "profile_root_unavailable = ''protected profile root is unavailable''"

definition prepare_profile_for ::
  "setup_env \<Rightarrow> setup_machine \<Rightarrow> bootstrap_profile_mode \<Rightarrow> profile_generation_id option setup_op" where
  "prepare_profile_for env sm mode =
     (case mode of
        PublishBundledDefault \<Rightarrow>
          sbind (inspect_active_generation_stable env) (\<lambda>active.
          if active \<noteq> None then runtime_error ''an active profile appeared after fresh-install preflight''
          else sbind (profile_data_root env profile_root_unavailable) (\<lambda>data_root.
               sbind (create_protected_directory data_root) (\<lambda>_.
               sbind (sm_harden sm data_root) (\<lambda>_.
               sbind (publish_and_activate env (sm_default_profile sm)
                        \<lparr>display_name = ''MacType Control Center bundled default''\<rparr>) (\<lambda>generation.
               sbind (set_published True) (\<lambda>_. sret (Some generation)))))))
      | PreserveExisting directory \<Rightarrow>
          sbind (slift (map_sum InvalidProfile id (parse_generation_id (''sha256:'' @ directory)))) (\<lambda>generation.
          sbind (inspect_active_generation_stable env) (\<lambda>active.
          if active \<noteq> Some generation then runtime_error ''protected active profile changed after preflight''
          else sbind (synchronize_active_runtime env) (\<lambda>_. sret (Some generation))))
      | LeaveUnpublished \<Rightarrow>
          sbind (inspect_active_generation_stable env) (\<lambda>active.
          if active \<noteq> None
          then runtime_error ''a protected profile appeared after fresh-install preflight''
          else sret None))"

definition prepare_bootstrap ::
  "setup_env \<Rightarrow> setup_machine \<Rightarrow> bootstrap_preflight \<Rightarrow> bootstrap_plan \<Rightarrow> path \<Rightarrow>
     profile_generation_id option setup_op" where
  "prepare_bootstrap env sm snapshot plan binary =
     sbind (prepare_profile_for env sm (plan_profile plan)) (\<lambda>generation.
     sbind (swhen (generation \<noteq> None)
              (sbind (profile_data_root env profile_root_unavailable) (sm_harden sm))) (\<lambda>_.
     sbind (sm_harden sm (service_root_of env)) (\<lambda>_.
     sbind (if bp_open_service snapshot = ServiceAbsent then sm_install sm binary
            else if owned_service (bp_open_service snapshot) then sm_reconfigure sm binary
            else runtime_error ''bootstrap service identity changed after preflight'') (\<lambda>_.
     sret generation))))"

definition check_bootstrap ::
  "setup_machine \<Rightarrow> bootstrap_plan \<Rightarrow> path \<Rightarrow> profile_generation_id option \<Rightarrow> unit setup_op" where
  "check_bootstrap sm plan binary generation =
     (if \<not> plan_start_service plan then sret ()
      else (case generation of
              None \<Rightarrow> runtime_error ''bootstrap cannot start the service without a published profile''
            | Some generation \<Rightarrow> sm_start_and_wait_ready_for_profile sm generation))"

text \<open>The failures of the restoration, each with the error in its message.\<close>

definition failure_if :: "string \<Rightarrow> setup_error + 'a \<Rightarrow> rollback_failures" where
  "failure_if message r = (case r of Inl e \<Rightarrow> [(message, [e])] | Inr _ \<Rightarrow> [])"

definition restart_prior_service ::
  "setup_env \<Rightarrow> setup_machine \<Rightarrow> profile_generation_id option \<Rightarrow> rollback_failures setup_op" where
  "restart_prior_service env sm prior_profile =
     (case prior_profile of
        None \<Rightarrow> sret [(''running service snapshot had no protected profile'', [])]
      | Some generation \<Rightarrow>
          sbind (attempt (synchronize_active_runtime env)) (\<lambda>synchronized.
          case synchronized of
            Inl e \<Rightarrow> sret [(''restore runtime profile: {error}'', [e])]
          | Inr _ \<Rightarrow> sbind (attempt (sm_start_and_wait_ready_for_profile sm generation)) (\<lambda>started.
              sret (failure_if ''restart prior service: {error}'' started))))"

definition restore_after_failure ::
  "setup_env \<Rightarrow> setup_machine \<Rightarrow> bootstrap_preflight \<Rightarrow> installed_runtime option \<Rightarrow>
     profile_generation_id option \<Rightarrow> unit setup_op" where
  "restore_after_failure env sm snapshot prior_runtime prior_profile =
     sbind published_default (\<lambda>published.
     sbind (map_error (\<lambda>e. CleanupUnknown ''recover exact service and runtime binding: {error}'' [e])
              (recover_runtime env sm)) (\<lambda>recovered.
     if recovered \<noteq> prior_runtime
     then sraise (CleanupUnknown
            ''bootstrap failure did not recover the exact previous runtime; refusing to infer profile or service state'' [])
     else sbind (if published
                 then sbind (attempt (rollback env)) (\<lambda>r. sret (failure_if ''restore profile: {error}'' r))
                 else sret []) (\<lambda>profile_failures.
          sbind (if bp_open_service snapshot \<in> {ServiceAbsent, OwnedStopped} then sret []
                 else if bp_open_service snapshot = OwnedRunning
                 then restart_prior_service env sm prior_profile
                 else sret [(''service identity changed during rollback'', [])]) (\<lambda>service_failures.
          let failures = profile_failures @ service_failures
          in if failures = [] then sret ()
             else sraise (CleanupUnknown (join_with ''; '' (map fst failures)) (concat (map snd failures)))))))"

definition apply_transaction ::
  "setup_env \<Rightarrow> setup_machine \<Rightarrow> bootstrap_preflight \<Rightarrow> bootstrap_plan \<Rightarrow> string option setup_op" where
  "apply_transaction env sm snapshot plan =
     sbind (inspect_current_stable env) (\<lambda>prior_runtime.
     sbind (inspect_active_generation_stable env) (\<lambda>prior_profile.
     sbind (validate_mode_matches_profile (plan_profile plan) prior_profile) (\<lambda>_.
     sbind (create_protected_directory (service_root_of env)) (\<lambda>_.
     sbind (sm_harden sm (service_root_of env)) (\<lambda>_.
     sbind (swhen (bp_open_service snapshot = OwnedRunning) (sm_stop sm)) (\<lambda>_.
     sbind (sm_payload sm) (\<lambda>payload.
     sbind (set_published False) (\<lambda>_.
     sbind (attempt (deploy_with_prepare_and_health_check env payload
              (prepare_bootstrap env sm snapshot plan) (check_bootstrap sm plan))) (\<lambda>activation.
     case activation of
       Inr (_, generation) \<Rightarrow> sret generation
     | Inl operation \<Rightarrow>
         sbind (map_error (\<lambda>restoration. RollbackFailed ''bootstrap failed ({operation})''
                    ''rollback failed ({restoration})'' [operation, restoration])
                  (restore_after_failure env sm snapshot prior_runtime prior_profile)) (\<lambda>_.
         sraise operation))))))))))"

definition apply_atomically ::
  "setup_env \<Rightarrow> setup_machine \<Rightarrow> bootstrap_preflight \<Rightarrow> bootstrap_plan \<Rightarrow> string option setup_op" where
  "apply_atomically env sm expected plan =
     sbind (inspect_snapshot env sm) (\<lambda>actual.
     if actual \<noteq> expected
     then runtime_error ''machine integration state changed after bootstrap preflight''
     else apply_transaction env sm actual plan)"

section \<open>Entry points\<close>

definition run_bootstrap :: "setup_env \<Rightarrow> setup_machine \<Rightarrow> bootstrap_start_policy \<Rightarrow> bootstrap_outcome setup_op" where
  "run_bootstrap env sm policy =
     sbind (sm_enter sm) (\<lambda>_.
     sbind (sm_validate_root sm) (\<lambda>_.
     sbind (sm_connect sm) (\<lambda>_.
     sbind (recover_runtime env sm) (\<lambda>_.
     run_install_bootstrap_with (inspect_snapshot env sm) (apply_atomically env sm) policy))))"

definition stop_before_removal :: "setup_machine \<Rightarrow> open_service_observation \<Rightarrow> unit setup_op" where
  "stop_before_removal sm observed =
     sbind (sm_observe sm) (\<lambda>actual.
     if observed = ServiceAbsent \<and> actual = ServiceAbsent then sret ()
     else if owned_service observed \<and> actual = ServiceAbsent then sret ()
     else if owned_service observed \<and> owned_service actual then sm_remove sm
     else runtime_error ''open service identity changed during uninstall'')"

definition remove_owned_installation ::
  "setup_env \<Rightarrow> setup_machine \<Rightarrow> open_service_observation \<Rightarrow> bool setup_op" where
  "remove_owned_installation env sm observed = remove_owned env (stop_before_removal sm observed)"

definition run_uninstall :: "setup_env \<Rightarrow> setup_machine \<Rightarrow> uninstall_outcome setup_op" where
  "run_uninstall env sm =
     sbind (sm_enter sm) (\<lambda>_.
     sbind (sm_validate_root sm) (\<lambda>_.
     sbind (sm_connect sm) (\<lambda>_.
     sbind (recover_runtime env sm) (\<lambda>_.
     run_uninstall_owned_with (sm_observe sm) (remove_owned_installation env sm)))))"

section \<open>What the commands print and answer\<close>

definition blocker_code :: "bootstrap_blocker \<Rightarrow> string" where
  "blocker_code reason =
     (case reason of LegacyService \<Rightarrow> ''legacy-service'' | LegacyTrayMode \<Rightarrow> ''legacy-tray-mode''
      | AppInit \<Rightarrow> ''appinit'' | ForeignOpenService \<Rightarrow> ''foreign-open-service''
      | UnknownMachineState \<Rightarrow> ''unknown-machine-state''
      | InconsistentOwnedState \<Rightarrow> ''inconsistent-owned-state'')"

definition quoted :: "string \<Rightarrow> string" where
  "quoted s = ''\"'' @ s @ ''\"''"

definition bool_text :: "bool \<Rightarrow> string" where
  "bool_text b = (if b then ''true'' else ''false'')"

definition bootstrap_outcome_json :: "string \<Rightarrow> bootstrap_outcome \<Rightarrow> string" where
  "bootstrap_outcome_json v outcome =
     (case outcome of
        Applied digest preserved started \<Rightarrow>
          answer v ('',\"outcome\":\"applied\",\"activeProfileDigest\":''
            @ (case digest of None \<Rightarrow> ''null'' | Some digest \<Rightarrow> quoted digest)
            @ '',\"preservedExistingProfile\":'' @ bool_text preserved
            @ '',\"serviceStarted\":'' @ bool_text started)
      | SkippedBlocked reason \<Rightarrow>
          answer v ('',\"outcome\":\"skipped-blocked\",\"reason\":'' @ quoted (blocker_code reason)))"

definition uninstall_outcome_json :: "uninstall_outcome \<Rightarrow> string" where
  "uninstall_outcome_json outcome =
     answer ''uninstall-owned''
       (case outcome of
          Removed \<Rightarrow> '',\"outcome\":\"removed\"''
        | AlreadyAbsent \<Rightarrow> '',\"outcome\":\"already-absent\"''
        | UninstallBlocked reason \<Rightarrow>
            '',\"outcome\":\"skipped-blocked\",\"reason\":'' @ quoted (blocker_code reason))"

definition run_setup_command ::
  "setup_env \<Rightarrow> setup_machine \<Rightarrow> setup_command \<Rightarrow> string option \<Rightarrow> string setup_op" where
  "run_setup_command env sm command profile_input =
     (case command of
        BrokerVerb c \<Rightarrow> broker_run env sm c profile_input
      | BootstrapInstall policy \<Rightarrow>
          sbind (run_bootstrap env sm policy) (\<lambda>outcome. sret (bootstrap_outcome_json (policy_verb policy) outcome))
      | UninstallOwned \<Rightarrow>
          sbind (run_uninstall env sm) (\<lambda>outcome. sret (uninstall_outcome_json outcome)))"

primrec exit_code_for :: "setup_error \<Rightarrow> nat" where
  "exit_code_for (SetupIo k) = 1"
| "exit_code_for (MachineOperation operation p source) = exit_code_for source"
| "exit_code_for (InvalidProfile e) = 1"
| "exit_code_for InvalidMetadata = 1"
| "exit_code_for InvalidPointer = 1"
| "exit_code_for TamperedGeneration = 1"
| "exit_code_for (ReparsePoint p) = 1"
| "exit_code_for NoPreviousSetupGeneration = 1"
| "exit_code_for (CleanupUnknown message es) = 1"
| "exit_code_for (RollbackFailed operation restoration es) = 3"
| "exit_code_for (SetupManifest message es) = 1"
| "exit_code_for (SetupRuntime message es) = 1"

end
