(* ===== verification/Runtime_Frame.thy ===== *)
theory Runtime_Frame
  imports Setup_Frame Setup_Installer "HOL-Library.Sublist"
begin

text \<open>
  Where the operations of the runtime installer write: the generated profile inside the generations,
  one generation, the pointer and its journal, the receipts.  The frames hold on every disk and under
  every script of faults.
\<close>

section \<open>The layout of the service directory\<close>

definition service_layout :: "setup_env \<Rightarrow> bool" where
  "service_layout env \<longleftrightarrow> (\<exists>pf pd. from_trusted_os_roots pf pd = Inr (en_paths env))"

lemma layout_paths:
  assumes "service_layout env"
  shows "versions_root env = path_join (service_root (en_paths env)) ''bin''"
    and "runtime_pointer (en_paths env) = path_join (service_root (en_paths env)) ''current.json''"
    and "runtime_activation_path env = path_join (service_root (en_paths env)) ''runtime-activation.json''"
    and "\<exists>app. service_root (en_paths env) = path_join app ''Service''"
proof -
  obtain pf pd where "from_trusted_os_roots pf pd = Inr (en_paths env)"
    using assms by (auto simp: service_layout_def)
  moreover from this have "validate_protected_root pf" "validate_protected_root pd"
    by (auto simp: from_trusted_os_roots_def split: if_splits)
  ultimately have "Inr (en_paths env) = from_trusted_os_roots pf pd" "validate_protected_root pf"
    "validate_protected_root pd" by simp_all
  then show "versions_root env = path_join (service_root (en_paths env)) ''bin''"
    and "runtime_pointer (en_paths env) = path_join (service_root (en_paths env)) ''current.json''"
    and "runtime_activation_path env = path_join (service_root (en_paths env)) ''runtime-activation.json''"
    and "\<exists>app. service_root (en_paths env) = path_join app ''Service''"
    by (auto simp: from_trusted_os_roots_def Let_def versions_root_def runtime_activation_path_def)
qed

lemma ancestor_of: "q \<in> set (path_ancestors p) \<Longrightarrow> prefix q p"
proof (induction p rule: path_ancestors.induct)
  case (1 p)
  then show ?case
    by (auto simp: path_ancestors.simps [of p] path_parent_def prefixeq_butlast
        split: option.splits if_splits path_component.splits intro: prefix_order.trans)
qed

lemma prefix_join: "prefix (path_join p n) q \<Longrightarrow> prefix p q"
  by (auto simp: path_join_def prefix_def)

lemma prefix_join_iff [simp]: "prefix q (path_join p n) \<longleftrightarrow> q = path_join p n \<or> prefix q p"
  by (simp add: path_join_def)

lemma sibling [simp]: "prefix (path_join p a) (path_join p b) \<longleftrightarrow> a = b"
  by (auto simp: path_join_def prefix_def)

lemma not_below_parent [simp]: "\<not> prefix (path_join p a) p"
  by (auto simp: path_join_def prefix_def)

lemma path_join_neq [simp]:
  "p \<noteq> path_join p a" "path_join p a \<noteq> p"
  "p \<noteq> path_join (path_join p a) b" "path_join (path_join p a) b \<noteq> p"
  by (simp_all add: path_join_def)

lemma below_prefix: "below p q \<longleftrightarrow> prefix p q"
  by (auto simp: below_def prefix_def) (metis append_take_drop_id)

section \<open>Materializing the profile\<close>

text \<open>The generated profile, its temporary files, and the directories on the way.\<close>

definition generated_name :: "string \<Rightarrow> bool" where
  "generated_name name \<longleftrightarrow> name = GENERATED_PROFILE_NAME \<or> starts_with name GENERATED_PROFILE_TEMP_PREFIX"

definition generated_region :: "setup_env \<Rightarrow> path \<Rightarrow> bool" where
  "generated_region env q \<longleftrightarrow> prefix q (versions_root env)
     \<or> (\<exists>version. q = path_join (versions_root env) version
          \<or> (\<exists>name. generated_name name \<and> q = path_join (path_join (versions_root env) version) name))"

lemma active_root_shape:
  assumes "returns (active_runtime_root env) (Some root)"
  obtains version where "root = path_join (versions_root env) version"
  using assms
  by (auto simp: returns_def active_runtime_root_def answers Let_def versions_root_def
      split: if_splits option.splits)

lemma starts_with_append_temp: "generated_name (temporary_name GENERATED_PROFILE_NAME nonce)"
  by (simp add: generated_name_def temporary_name_def GENERATED_PROFILE_NAME_def
      GENERATED_PROFILE_TEMP_PREFIX_def starts_with_def)

lemma generated_intros:
  "generated_region env (path_join (versions_root env) version)"
  "generated_name name \<Longrightarrow> generated_region env (path_join (path_join (versions_root env) version) name)"
  "a \<in> set (path_ancestors (path_join (versions_root env) version)) \<Longrightarrow> generated_region env a"
  by (auto simp: generated_region_def dest: ancestor_of)

lemma confined_remove_interrupted:
  "confined (generated_region env) B
     (remove_interrupted_generated_profile_writes (path_join (versions_root env) version))"
proof -
  have "confined (generated_region env) B (remove_interrupted_write (path_join (versions_root env) version) name)" for name
    unfolding remove_interrupted_write_def Let_def
    by (auto intro!: frame generated_intros(2) simp: strip_prefix_Some_iff generated_name_def starts_with_append)
  then show ?thesis
    unfolding remove_interrupted_generated_profile_writes_def by (auto intro!: frame)
qed

lemma confined_active_root: "confined A B (active_runtime_root env)"
  unfolding active_runtime_root_def Let_def by (auto intro!: frame)

lemma confined_generation_bytes: "confined A B (verified_generation_bytes env g)"
  unfolding verified_generation_bytes_def Let_def by (auto intro!: frame)

lemma confined_write_profile:
  "confined (generated_region env) B
     (atomic_write (path_join (path_join (versions_root env) version) GENERATED_PROFILE_NAME) bytes)"
  by (rule confined_atomic_write)
    (auto intro: generated_intros starts_with_append_temp simp: generated_name_def)

lemma confined_materialize_generation: "confined (generated_region env) B (materialize_generation env g)"
  unfolding materialize_generation_def
proof (rule confined_bind_returns [OF confined_active_root])
  fix root assume "returns (active_runtime_root env) root"
  then show "confined (generated_region env) B
      (case root of None \<Rightarrow> sret False
       | Some root \<Rightarrow> sbind (remove_interrupted_generated_profile_writes root)
            (\<lambda>_. sbind (verified_generation_bytes env g)
              (\<lambda>bytes. let destination = path_join root GENERATED_PROFILE_NAME;
                   write = sbind (atomic_write destination bytes) (\<lambda>_. sret True)
                 in sbind (path_exists destination)
                      (\<lambda>there. if \<not> there then write
                        else sbind (reject_reparse_ancestors destination)
                          (\<lambda>_. sbind (setup_read_file destination MAX_PROFILE_BYTES ''generated runtime profile'')
                            (\<lambda>current. if current = bytes then sret True else write))))))"
    by (auto intro!: frame confined_remove_interrupted confined_generation_bytes confined_write_profile
        simp: Let_def elim!: active_root_shape split: option.split)
qed

lemma confined_materialize_active: "confined (generated_region env) B (materialize_active env)"
  unfolding materialize_active_def Let_def
  by (auto intro!: frame confined_materialize_generation)

section \<open>Successful reads and writes\<close>

lemma keeps_nodes: "keeps (\<lambda>_. False) B d d' \<Longrightarrow> node_at d' = node_at d"
  by (auto simp: keeps_def)

lemma keepsD:
  assumes "keeps A B d d'"
  shows "\<not> A q \<Longrightarrow> node_at d' q = node_at d q" and "sd_service_image d' = sd_service_image d"
    and "sd_blind d = [] \<Longrightarrow> sd_blind d' = []"
  using assms by (auto simp: keeps_def)

lemma exists_Inr:
  assumes "path_exists p d = (Inr x, d')" and "sd_blind d = []"
  shows "x \<longleftrightarrow> node_at d p \<noteq> None"
  using seen_Inr [OF assms(1) [unfolded path_exists_def] assms(2)] .

lemma metadata_Inr:
  assumes "fs_metadata p d = (Inr x, d')"
  shows "node_at d p = Some x"
  by (rule io_read_Inr [OF assms [unfolded fs_metadata_def]]) (auto split: option.splits)

lemma regular_Inr:
  assumes "fs_is_regular p d = (Inr x, d')"
  shows "\<exists>n. node_at d p = Some n \<and> (x \<longrightarrow> (\<exists>c. n = FileNode c))"
  by (rule io_read_Inr [OF assms [unfolded fs_is_regular_def]])
    (auto split: option.splits, metis disk_node.exhaust)

text \<open>Only an absent file answers that it is not found.\<close>

lemma regular_absent:
  assumes "fs_is_regular p d = (Inl (Raised (SetupIo IoNotFound)), d')"
  shows "node_at d p = None"
  using assms
  by (auto simp: fs_is_regular_def io_read_def io_op_def take_fault_def
      split: list.splits fault.splits option.splits)

lemma limited_Inr:
  assumes "fs_read_limited p n d = (Inr x, d')"
  shows "\<exists>c. node_at d p = Some (FileNode c) \<and> x = take n c"
  by (rule io_read_Inr [OF assms [unfolded fs_read_limited_def]]) (auto split: option.splits disk_node.splits)

lemma read_file_Inr:
  assumes "setup_read_file p n description d = (Inr bytes, d')"
  shows "node_at d p = Some (FileNode bytes)" and "bytes \<noteq> []" and "length bytes \<le> n"
proof -
  obtain d1 d2 d3 m where "reject_reparse_ancestors p d = (Inr (), d1)" "fs_metadata p d1 = (Inr m, d2)"
    "fs_open_read p d2 = (Inr (), d3)" and last: "fs_read_limited p (n + 1) d3 = (Inr bytes, d')"
    and bounds: "bytes \<noteq> []" "length bytes \<le> n"
    using assms by (auto simp: setup_read_file_def answers split: if_splits)
  then have "node_at d3 = node_at d"
    using confinedD [OF confined_reject [where A = "\<lambda>_. False" and B = "\<lambda>_. False"]]
      confinedD [OF confined_reading(5) [where A = "\<lambda>_. False" and B = "\<lambda>_. False"]]
      confinedD [OF confined_reading(9) [where A = "\<lambda>_. False" and B = "\<lambda>_. False"]] keeps_nodes by metis
  with limited_Inr [OF last] bounds show "node_at d p = Some (FileNode bytes)" by auto
  show "bytes \<noteq> []" "length bytes \<le> n" by fact+
qed

lemma temporary_not_target: "temporary_name name nonce \<noteq> name"
  by (simp add: temporary_name_def)

lemma write_and_replace_Inr:
  assumes "write_and_replace t p bytes d = (Inr (), d')" and "t \<noteq> p"
  shows "node_at d' p = Some (FileNode bytes)"
proof -
  obtain d1 d2 d3 where 1: "fs_create_new t d = (Inr (), d1)" and 2: "fs_write_all t bytes d1 = (Inr (), d2)"
    and 3: "fs_sync_all t d2 = (Inr (), d3)" and 4: "replace_file t p d3 = (Inr (), d')"
    using assms(1) by (auto simp: write_and_replace_def answers)
  have 11: "node_at d1 t = Some (FileNode [])"
    using 1 by (auto simp: fs_create_new_def io_write_def io_op_Inr split: if_splits)
  have 12: "node_at d2 t = Some (FileNode bytes)"
    using 2 11 by (auto simp: fs_write_all_def io_op_Inr append_to_def)
  have "node_at d3 = node_at d2"
    using confinedD [OF confined_reading(13) [where A = "\<lambda>_. False" and B = "\<lambda>_. False"] 3] by (rule keeps_nodes)
  with 12 have "node_at d3 t = Some (FileNode bytes)" by simp
  then show ?thesis
    using 4 assms(2) by (auto simp: replace_file_def io_write_def io_op_Inr split: if_splits)
qed

lemma atomic_write_Inr:
  assumes "atomic_write (path_join q name) bytes d = (Inr (), d')"
  shows "node_at d' (path_join q name) = Some (FileNode bytes)"
proof -
  obtain nonce d1 where
    "write_and_replace (path_join q (temporary_name name nonce)) (path_join q name) bytes d1 = (Inr (), d')"
    using assms by (auto simp: atomic_write_def answers Let_def split: sum.splits) (metis sumE old.unit.exhaust)
  then show ?thesis by (rule write_and_replace_Inr) (simp add: temporary_not_target)
qed

section \<open>The active pointer\<close>

definition pointer_is :: "setup_env \<Rightarrow> setup_disk \<Rightarrow> runtime_generation_pointer option \<Rightarrow> bool" where
  "pointer_is env d v \<longleftrightarrow>
     (case v of
        None \<Rightarrow> node_at d (runtime_pointer (en_paths env)) = None
      | Some p \<Rightarrow> \<exists>c. node_at d (runtime_pointer (en_paths env)) = Some (FileNode c)
                     \<and> parse_pointer (en_parse env) c = Inr p)"

lemma pointer_is_unique: "pointer_is env d v \<Longrightarrow> pointer_is env d w \<Longrightarrow> v = w"
  by (auto simp: pointer_is_def split: option.splits)

lemma pointer_is_cong:
  "node_at d' (runtime_pointer (en_paths env)) = node_at d (runtime_pointer (en_paths env)) \<Longrightarrow>
     pointer_is env d' v = pointer_is env d v"
  by (cases v) (simp_all add: pointer_is_def)

definition installed :: "setup_env \<Rightarrow> runtime_generation_pointer \<Rightarrow> installed_runtime" where
  "installed env p = \<lparr>ir_version = rp_version p,
     ir_service_binary = path_join (path_join (versions_root env) (rp_version p)) SERVICE_BINARY\<rparr>"

text \<open>JSON text of a pointer is read back as the value that was printed.\<close>

definition pointer_codec :: "setup_env \<Rightarrow> bool" where
  "pointer_codec env \<longleftrightarrow> (\<forall>p. en_parse env (en_print env (pointer_to_json p)) = Some (pointer_to_json p))"

lemma parse_printed_pointer:
  assumes "pointer_codec env" and "parse_pointer (en_parse env) (pointer_to_bytes env p) = Inr x"
  shows "x = p"
  using assms by (auto simp: pointer_codec_def parse_pointer_def pointer_to_bytes_def
      pointer_json_round_trip split: if_splits)

lemma validate_pointer_Inr [answers]:
  "validate_runtime_pointer env bytes d = (Inr p, d') \<longleftrightarrow> parse_pointer (en_parse env) bytes = Inr p \<and> d' = d"
  by (cases "parse_pointer (en_parse env) bytes")
    (auto simp: validate_runtime_pointer_def runtime_error_def sret_Inr sraise_Inr)

lemma read_pointer_Inr:
  assumes "read_runtime_pointer env d = (Inr p, d')"
  shows "pointer_is env d (Some p)"
proof -
  obtain bytes d1 where 1: "setup_read_file (runtime_pointer (en_paths env)) MAX_RUNTIME_POINTER_BYTES
      ''active runtime pointer'' d = (Inr bytes, d1)" and 2: "validate_runtime_pointer env bytes d1 = (Inr p, d')"
    using assms by (auto simp: read_runtime_pointer_def answers)
  from 2 have "parse_pointer (en_parse env) bytes = Inr p" by (simp add: answers)
  then show ?thesis using read_file_Inr(1) [OF 1] by (simp add: pointer_is_def)
qed

lemma confined_read_pointer [frame]: "confined A B (read_runtime_pointer env)"
  unfolding read_runtime_pointer_def validate_runtime_pointer_def runtime_error_def
  by (auto intro!: frame)

lemma confined_current_runtime [frame]: "confined A B (current_runtime env)"
  unfolding current_runtime_def Let_def runtime_error_def by (auto intro!: frame)

lemma confined_committed_pointer [frame]: "confined A B (current_pointer_for_committed_recovery env)"
  unfolding current_pointer_for_committed_recovery_def validate_runtime_pointer_def runtime_error_def Let_def
  by (auto intro!: frame)

lemma confined_verify_receipted: "confined A B (verify_receipted_entries env directory receipt names verified)"
  by (induction names arbitrary: verified) (auto intro!: frame simp: Let_def runtime_error_def)

lemma confined_verify_generation [frame]: "confined A B (verify_runtime_generation env version directory)"
  unfolding verify_runtime_generation_def runtime_error_def
  by (auto intro!: frame confined_verify_receipted)

lemma untouched_same: "confined (\<lambda>_. False) (\<lambda>_. False) m \<Longrightarrow> m d = (r, d') \<Longrightarrow> node_at d' = node_at d"
  by (rule keeps_nodes) (erule confinedD)

lemma current_runtime_Inr:
  assumes "current_runtime env d = (Inr r, d')" and "sd_blind d = []"
  shows "\<exists>v. pointer_is env d v \<and> r = map_option (installed env) v"
proof -
  obtain there d1 where 1: "path_exists (runtime_pointer (en_paths env)) d = (Inr there, d1)"
    using assms(1) by (auto simp: current_runtime_def answers)
  have there: "there \<longleftrightarrow> node_at d (runtime_pointer (en_paths env)) \<noteq> None" by (rule exists_Inr [OF 1 assms(2)])
  have same: "node_at d1 = node_at d" by (rule untouched_same [OF confined_reading(1) 1])
  show ?thesis
  proof (cases there)
    case False
    then have "r = None"
      using assms(1) unfolding current_runtime_def sbind_known [where m = "path_exists _", OF 1] by (simp add: answers)
    with False there show ?thesis by (intro exI [of _ None]) (simp add: pointer_is_def)
  next
    case True
    then obtain p d2 where "read_runtime_pointer env d1 = (Inr p, d2)" and "r = Some (installed env p)"
      using assms(1) unfolding current_runtime_def sbind_known [where m = "path_exists _", OF 1]
      by (auto simp: answers Let_def installed_def runtime_error_def split: if_splits)
    then have "pointer_is env d (Some p)" using read_pointer_Inr pointer_is_cong same by metis
    with \<open>r = Some (installed env p)\<close> show ?thesis by (intro exI [of _ "Some p"]) simp
  qed
qed

lemma committed_pointer_Inr:
  assumes "current_pointer_for_committed_recovery env d = (Inr v, d')"
  shows "pointer_is env d v"
proof -
  let ?p = "runtime_pointer (en_paths env)"
  obtain m d1 where 1: "attempt (fs_is_regular ?p) d = (Inr m, d1)"
    using assms by (auto simp: current_pointer_for_committed_recovery_def answers Let_def)
  have same: "node_at d1 = node_at d"
    by (rule untouched_same [OF confined_attempt [OF confined_reading(8)] 1])
  show ?thesis
  proof (cases m)
    case (Inl e)
    then have "e = SetupIo IoNotFound \<and> v = None"
      using assms 1 by (auto simp: current_pointer_for_committed_recovery_def answers Let_def split: if_splits)
    moreover from Inl 1 have "fs_is_regular ?p d = (Inl (Raised e), d1)" by (auto simp: answers)
    ultimately show ?thesis using regular_absent by (simp add: pointer_is_def)
  next
    case (Inr regular)
    then obtain bytes d2 where "setup_read_file ?p MAX_RUNTIME_POINTER_BYTES ''active runtime pointer'' d1 = (Inr bytes, d2)"
      and "\<exists>p. parse_pointer (en_parse env) bytes = Inr p \<and> v = Some p"
      using assms 1
      by (auto simp: current_pointer_for_committed_recovery_def answers Let_def split: if_splits)
    then show ?thesis using read_file_Inr(1) same by (fastforce simp: pointer_is_def)
  qed
qed

text \<open>What a restoration that succeeded leaves at the pointer.\<close>

definition pointer_restored :: "setup_env \<Rightarrow> setup_disk \<Rightarrow> runtime_generation_pointer option \<Rightarrow> bool" where
  "pointer_restored env d previous \<longleftrightarrow>
     node_at d (runtime_pointer (en_paths env)) = map_option (\<lambda>p. FileNode (pointer_to_bytes env p)) previous"

lemma pointer_restored_is:
  assumes "pointer_restored env d previous" and "pointer_is env d v" and "pointer_codec env"
  shows "v = previous"
  using assms parse_printed_pointer [OF assms(3)]
  by (cases v; cases previous) (auto simp: pointer_restored_def pointer_is_def)

lemma observed_Inr:
  assumes "observed_pointer_bytes env d = (Inr v, d')"
  shows "node_at d (runtime_pointer (en_paths env)) = map_option FileNode v \<and> node_at d' = node_at d"
proof -
  let ?p = "runtime_pointer (en_paths env)"
  obtain m d1 where 1: "attempt (fs_is_regular ?p) d = (Inr m, d1)"
    using assms by (auto simp: observed_pointer_bytes_def answers Let_def)
  have same: "node_at d1 = node_at d"
    by (rule untouched_same [OF confined_attempt [OF confined_reading(8)] 1])
  show ?thesis
  proof (cases m)
    case (Inl e)
    then have "e = SetupIo IoNotFound \<and> v = None \<and> d' = d1"
      using assms 1 by (auto simp: observed_pointer_bytes_def answers Let_def split: if_splits)
    moreover from Inl 1 have "fs_is_regular ?p d = (Inl (Raised e), d1)" by (auto simp: answers)
    ultimately show ?thesis using regular_absent same by simp
  next
    case (Inr regular)
    then obtain bytes where 2: "setup_read_file ?p MAX_RUNTIME_POINTER_BYTES ''active runtime pointer'' d1 = (Inr bytes, d')"
      and "v = Some bytes"
      using assms 1 by (auto simp: observed_pointer_bytes_def answers Let_def split: if_splits)
    moreover have "node_at d' = node_at d1" by (rule untouched_same [OF confined_read_file 2])
    ultimately show ?thesis using read_file_Inr(1) [OF 2] same by simp
  qed
qed

lemma mark_Inr: "fs_mark_for_deletion p d = (Inr (), d') \<Longrightarrow> node_at d' p = None"
  by (auto simp: fs_mark_for_deletion_def io_op_Inr)

lemma restore_pointer_Inr:
  assumes "restore_runtime_pointer env previous activated d = (Inr (), d')" and "service_layout env"
  shows "pointer_restored env d' previous"
proof -
  let ?p = "runtime_pointer (en_paths env)"
  obtain actual d1 where 1: "observed_pointer_bytes env d = (Inr actual, d1)"
    using assms(1) by (auto simp: restore_runtime_pointer_def answers)
  have obs: "node_at d1 ?p = map_option FileNode actual" using observed_Inr [OF 1] by simp
  have written: "atomic_write ?p bytes d1 = (Inr (), d') \<Longrightarrow> node_at d' ?p = Some (FileNode bytes)" for bytes
    using atomic_write_Inr layout_paths(2) [OF assms(2)] by metis
  have removed: "remove_exact_runtime_pointer ?p bytes d1 = (Inr (), d') \<Longrightarrow> node_at d' ?p = None" for bytes
    by (auto simp: remove_exact_runtime_pointer_def answers split: if_splits prod.splits dest: mark_Inr)
  show ?thesis
    using assms(1) 1 obs written removed
    by (cases actual; cases previous)
      (auto simp: restore_runtime_pointer_def answers Let_def pointer_restored_def foreign_runtime_pointer_def
        split: if_splits)
qed

section \<open>Repairs stay inside the generations\<close>

lemma map_of_rekeyed:
  assumes "\<And>k. f k = q \<longleftrightarrow> k = q"
  shows "map_of (map (\<lambda>(k, n). (f k, n)) xs) q = map_of xs q"
proof (induction xs)
  case (Cons x xs)
  then show ?case using assms [of "fst x"] by (cases x; cases "fst x = q") auto
qed simp

lemma confined_rename_dir [frame]:
  assumes "\<And>q. prefix source q \<Longrightarrow> A q" and "\<And>q. prefix destination q \<Longrightarrow> A q"
  shows "confined A B (fs_rename_dir source destination)"
  unfolding fs_rename_dir_def
proof (rule confined_io_write)
  fix d :: setup_disk
  let ?f = "\<lambda>q. if below source q then destination @ drop (length source) q else q"
  let ?d = "d\<lparr>sd_nodes := map (\<lambda>(q, n). (?f q, n)) (sd_nodes d)\<rparr>"
  have "node_at ?d q = node_at d q" if "\<not> A q" for q
  proof -
    have "?f k = q \<longleftrightarrow> k = q" for k
      using that assms by (auto simp: below_prefix)
    then show ?thesis by (simp add: node_at_def map_of_rekeyed)
  qed
  then have "keeps A B d ?d" by (auto simp: keeps_def)
  then show "keeps A B d (snd (if node_at d source \<noteq> Some DirNode then (Inl IoNotFound, d)
      else if node_at d destination \<noteq> None then (Inl IoOther, d) else (Inr (), ?d)))" by simp
qed

definition repair_region :: "setup_env \<Rightarrow> path \<Rightarrow> bool" where
  "repair_region env q \<longleftrightarrow> prefix (versions_root env) q \<or> q = repair_journal_path env"

definition generation_region :: "setup_env \<Rightarrow> path \<Rightarrow> bool" where
  "generation_region env q \<longleftrightarrow> prefix (versions_root env) q"

lemma repair_region_join:
  "generation_region env p \<Longrightarrow> generation_region env (path_join p name)"
  "generation_region env (path_join (versions_root env) name)"
  "generation_region env p \<Longrightarrow> prefix p q \<Longrightarrow> repair_region env q"
  "generation_region env p \<Longrightarrow> repair_region env p"
  by (auto simp: generation_region_def repair_region_def intro: prefix_order.trans)

lemma confined_receipt_entries: "confined A B (read_receipt_entries env directory names files)"
  by (induction names arbitrary: files) (auto intro!: frame simp: Let_def)

lemma confined_read_receipt [frame]: "confined A B (read_runtime_directory_receipt env directory)"
  unfolding read_runtime_directory_receipt_def by (auto intro!: frame confined_receipt_entries)

lemma confined_verify_receipt [frame]: "confined A B (verify_runtime_directory_receipt env directory expected)"
  unfolding verify_runtime_directory_receipt_def by (auto intro!: frame)

lemma confined_matches [frame]: "confined A B (runtime_directory_matches env directory expected)"
  unfolding runtime_directory_matches_def by (auto intro!: frame)

lemma confined_check_repair: "confined A B (check_repair_entries directory names)"
  by (induction names) (auto intro!: frame simp: Let_def runtime_error_def)

lemma confined_check_backup: "confined A B (check_backup_entries env directory expected names)"
  by (induction names) (auto intro!: frame simp: Let_def split: option.split)

lemma confined_remove_repair_directory:
  assumes "generation_region env directory"
  shows "confined (repair_region env) B (remove_repair_directory directory)"
  unfolding remove_repair_directory_def
  using assms by (auto intro!: frame confined_check_repair repair_region_join)

lemma confined_remove_or_defer:
  assumes "A p" and "B p"
  shows "confined A B (remove_or_defer failure p directory)"
  unfolding remove_or_defer_def using assms by (auto intro!: frame)

lemma confined_remove_backup:
  assumes "generation_region env directory"
  shows "confined (repair_region env) (generation_region env) (remove_verified_backup_directory env directory expected)"
  unfolding remove_verified_backup_directory_def
  using assms by (auto intro!: frame confined_check_backup confined_remove_or_defer repair_region_join)

lemma confined_remove_receipted:
  assumes "generation_region env directory"
  shows "confined (repair_region env) B (remove_receipted_runtime_directory env directory expected)"
    and "confined (repair_region env) B (remove_receipted_if_present env directory expected)"
  unfolding remove_receipted_if_present_def remove_receipted_runtime_directory_def
  using assms by (auto intro!: frame confined_remove_repair_directory)

lemma confined_recover_repair_cases:
  assumes "generation_region env destination" "generation_region env staging" "generation_region env backup"
  shows "confined (repair_region env) (generation_region env) (recover_prepared_repair env destination staging backup old new)"
    and "confined (repair_region env) (generation_region env) (recover_unverified_repair env destination staging backup old new)"
    and "confined (repair_region env) (generation_region env) (recover_verified_repair env destination staging backup old new)"
  unfolding recover_prepared_repair_def recover_unverified_repair_def recover_verified_repair_def
  using assms
  by (auto intro!: frame confined_remove_receipted confined_remove_backup intro: repair_region_join)

lemma confined_recover_repair:
  "confined (repair_region env) (generation_region env) (recover_interrupted_repair env)"
proof -
  have "confined (repair_region env) (generation_region env) (recover_repair_phase env journal)" for journal
    unfolding recover_repair_phase_def reject_reparse_if_present_def
    by (cases "rj_phase journal")
      (auto intro!: frame confined_recover_repair_cases repair_region_join simp: Let_def)
  then show ?thesis
    unfolding recover_interrupted_repair_def remove_repair_journal_def runtime_error_def
    by (auto intro!: frame simp: repair_region_def)
qed

lemma repair_journal_layout: "repair_journal_path env = path_join (service_root (en_paths env)) ''runtime-repair.json''"
  by (simp add: repair_journal_path_def)

lemma not_repaired:
  assumes "service_layout env"
  shows "\<not> repair_region env (runtime_pointer (en_paths env))" and "\<not> repair_region env (runtime_activation_path env)"
  using layout_paths [OF assms] by (simp_all add: repair_region_def repair_journal_layout)

end
