(* ===== verification/Runtime_Binding.thy ===== *)
theory Runtime_Binding
  imports Runtime_Frame
begin

text \<open>
  The recovery of the runtime against a service manager that tells the truth: what it returns is the
  runtime the service is bound to and the one the active pointer names.
\<close>

section \<open>Service managers\<close>

text \<open>An operation of the service manager: it may change the service, not the files.\<close>

definition manages :: "'a setup_op \<Rightarrow> bool" where
  "manages m \<longleftrightarrow> (\<forall>d. node_at (snd (m d)) = node_at d \<and> (sd_blind d = [] \<longrightarrow> sd_blind (snd (m d)) = []))"

text \<open>Observations change nothing and are true of the image; the rest leaves the files alone.\<close>

definition exact_manager :: "setup_machine \<Rightarrow> bool" where
  "exact_manager sm \<longleftrightarrow>
     untouched (sm_observe sm) \<and> (\<forall>p. untouched (sm_points_to sm p))
     \<and> (\<forall>d d'. sm_observe sm d = (Inr ServiceAbsent, d') \<longrightarrow> sd_service_image d = None)
     \<and> (\<forall>p d d'. sm_points_to sm p d = (Inr True, d') \<longrightarrow> sd_service_image d = Some p)
     \<and> manages (sm_stop sm) \<and> manages (sm_remove sm) \<and> (\<forall>p. manages (sm_reconfigure sm p))"

lemma managesD: "manages m \<Longrightarrow> m d = (r, d') \<Longrightarrow> node_at d' = node_at d \<and> (sd_blind d = [] \<longrightarrow> sd_blind d' = [])"
  by (metis manages_def snd_conv)

lemma manages_untouched: "untouched m \<Longrightarrow> manages m"
  by (auto simp: manages_def confined_def keeps_def)

lemma manages_raise: "manages (sraise e)"
  by (simp add: manages_def sraise_def)

lemma manages_ret: "manages (sret x)"
  by (simp add: manages_def sret_def)

lemma manages_bind: "manages m \<Longrightarrow> (\<And>x. manages (k x)) \<Longrightarrow> manages (sbind m k)"
  unfolding manages_def sbind_def by (auto split: prod.split sum.split) (metis snd_conv)+

lemma manages_attempt: "manages m \<Longrightarrow> manages (attempt m)"
  unfolding manages_def attempt_def by (auto split: prod.split sum.split stop.split) (metis snd_conv)+

lemma manages_map_error: "manages m \<Longrightarrow> manages (map_error f m)"
  unfolding map_error_def
  by (intro manages_bind manages_attempt) (auto intro: manages_raise manages_ret split: sum.split)

section \<open>The binding\<close>

lemma confined_manager:
  assumes "exact_manager sm"
  shows "confined A B (sm_observe sm)" and "confined A B (sm_points_to sm p)"
  using assms by (auto simp: exact_manager_def intro: confined_untouched)

lemma confined_points_to_optional:
  assumes "exact_manager sm"
  shows "confined A B (points_to_optional sm p)"
  using confined_manager(2) [OF assms] by (cases p) (simp_all add: points_to_optional_def confined_ret)

lemma confined_inspect_binding:
  assumes "exact_manager sm"
  shows "confined A B (inspect_binding sm candidate previous)"
  unfolding inspect_binding_def
  by (auto intro!: frame confined_points_to_optional [OF assms] confined_manager [OF assms])

lemma keeps_image: "keeps A B d d' \<Longrightarrow> sd_service_image d' = sd_service_image d"
  by (simp add: keeps_def)

text \<open>The side the service is bound to, as its image says it.\<close>

definition bound_to :: "path option \<Rightarrow> path option \<Rightarrow> runtime_service_binding \<Rightarrow> setup_disk \<Rightarrow> bool" where
  "bound_to candidate previous binding d \<longleftrightarrow>
     (case binding of
        BindingCandidate \<Rightarrow> candidate \<noteq> None \<and> sd_service_image d = candidate
      | BindingPrevious \<Rightarrow> previous \<noteq> None \<and> sd_service_image d = previous
      | BindingAbsent \<Rightarrow> sd_service_image d = None)"

lemma points_to_optional_Inr:
  assumes "exact_manager sm" and "points_to_optional sm p d = (Inr True, d')"
  shows "p \<noteq> None \<and> sd_service_image d = p"
  using assms by (cases p) (auto simp: points_to_optional_def answers exact_manager_def)

lemma inspect_binding_Inr:
  assumes "exact_manager sm" and "inspect_binding sm candidate previous d = (Inr binding, d')"
  shows "bound_to candidate previous binding d'"
proof -
  have image: "sd_service_image d' = sd_service_image d"
    by (rule keeps_image [OF confinedD [OF confined_inspect_binding [OF assms(1)] assms(2)]])
  obtain obs d1 where 1: "sm_observe sm d = (Inr obs, d1)"
    using assms(2) by (auto simp: inspect_binding_def answers)
  have i1: "sd_service_image d1 = sd_service_image d"
    by (rule keeps_image [OF confinedD [OF confined_manager(1) [OF assms(1)] 1]])
  show ?thesis
  proof (cases "obs = ServiceAbsent")
    case True
    then have "sd_service_image d = None" using 1 assms(1) by (auto simp: exact_manager_def)
    moreover have "binding = BindingAbsent"
      using assms(2) True unfolding inspect_binding_def sbind_known [where m = "sm_observe sm", OF 1]
      by (simp add: answers)
    ultimately show ?thesis by (simp add: bound_to_def image)
  next
    case False
    then obtain c d2 where 2: "points_to_optional sm candidate d1 = (Inr c, d2)"
      and rest: "if c then binding = BindingCandidate
        else (\<exists>d3. points_to_optional sm previous d2 = (Inr True, d3) \<and> binding = BindingPrevious)"
      using assms(2) unfolding inspect_binding_def sbind_known [where m = "sm_observe sm", OF 1]
      by (auto simp: answers split: if_splits)
    have i2: "sd_service_image d2 = sd_service_image d1"
      by (rule keeps_image [OF confinedD [OF confined_points_to_optional [OF assms(1)] 2]])
    from rest show ?thesis
      using points_to_optional_Inr [OF assms(1)] 2 i1 i2 image
      by (auto simp: bound_to_def split: if_splits)
  qed
qed

lemma manages_restore_binding:
  assumes "exact_manager sm"
  shows "manages (restore_previous_binding sm candidate previous)"
proof -
  have "manages (sm_observe sm)" "manages (sm_points_to sm p)" for p
    using assms by (auto simp: exact_manager_def manages_untouched)
  then show ?thesis
    using assms unfolding restore_previous_binding_def
    by (auto intro!: manages_bind manages_ret simp: exact_manager_def swhen_def candidate_changed_def manages_raise
        split: option.split)
qed

section \<open>Recovery of the runtime\<close>

definition service_binary_of :: "setup_env \<Rightarrow> runtime_generation_pointer option \<Rightarrow> path option" where
  "service_binary_of env pointer =
     map_option (\<lambda>p. path_join (path_join (versions_root env) (rp_version p)) SERVICE_BINARY) pointer"

lemma service_binary_of_installed:
  "service_binary_of env v = map_option ir_service_binary (map_option (installed env) v)"
  by (cases v) (simp_all add: service_binary_of_def installed_def)

lemma optional_binary_Inr:
  assumes "optional_service_binary env pointer role d = (Inr b, d')"
  shows "b = service_binary_of env pointer"
  using assms
  by (auto simp: optional_service_binary_def service_binary_of_def verified_activation_service_binary_def
      answers Let_def split: option.splits)

section \<open>The generation on the disk\<close>

text \<open>
  A generation that passes its verification, told of the disk alone: its receipt is valid for the
  version, and every immutable file is there with the digest the receipt gives it.
\<close>

definition generation_file :: "setup_env \<Rightarrow> string \<Rightarrow> string \<Rightarrow> path" where
  "generation_file env version name = path_join (path_join (versions_root env) version) name"

definition generation_holds :: "setup_env \<Rightarrow> setup_disk \<Rightarrow> string \<Rightarrow> bool" where
  "generation_holds env d version \<longleftrightarrow>
     (\<exists>receipt_bytes receipt.
        node_at d (runtime_receipt_path env version) = Some (FileNode receipt_bytes)
        \<and> Option.bind (en_parse env receipt_bytes) runtime_receipt_of_json = Some receipt
        \<and> receipt_is_valid_for receipt version
        \<and> list_all (\<lambda>name. \<exists>bytes. node_at d (generation_file env version name) = Some (FileNode bytes)
              \<and> map_of (rr_files receipt) name = Some (sha256_digest (en_sha env) bytes)) IMMUTABLE_RUNTIME_FILES)"

lemma verify_receipted_Inr:
  assumes "verify_receipted_entries env directory receipt names verified d = (Inr v, d')" and "distinct verified"
  shows "distinct v \<and> (\<forall>n \<in> set v - set verified. \<exists>bytes. node_at d (path_join directory n) = Some (FileNode bytes)
     \<and> map_of (rr_files receipt) n = Some (sha256_digest (en_sha env) bytes))"
  using assms
proof (induction names arbitrary: verified d)
  case (Cons n names)
  let ?p = "path_join directory n"
  show ?case
  proof (cases "n = GENERATED_PROFILE_NAME")
    case True
    with Cons.prems(1) obtain d1 m d2 where 1: "reject_reparse_ancestors ?p d = (Inr (), d1)"
      and 2: "fs_metadata ?p d1 = (Inr m, d2)"
      and rest: "verify_receipted_entries env directory receipt names verified d2 = (Inr v, d')"
      by (auto simp: Let_def runtime_error_def answers split: if_splits)
    have "node_at d2 = node_at d"
      using untouched_same [OF confined_reading(5) 2] untouched_same [OF confined_reject 1] by simp
    then show ?thesis using Cons.IH [OF rest Cons.prems(2)] by simp
  next
    case False
    with Cons.prems(1) obtain d1 bytes d2 where 1: "reject_reparse_ancestors ?p d = (Inr (), d1)"
      and 2: "setup_read_file ?p MAX_RUNTIME_FILE_BYTES ''runtime generation file'' d1 = (Inr bytes, d2)"
      and digest: "map_of (rr_files receipt) n = Some (sha256_digest (en_sha env) bytes)"
      and rest: "verify_receipted_entries env directory receipt names (List.insert n verified) d2 = (Inr v, d')"
      by (auto simp: Let_def runtime_error_def answers split: if_splits option.splits)
    have same: "node_at d1 = node_at d" "node_at d2 = node_at d"
      using untouched_same [OF confined_read_file 2] untouched_same [OF confined_reject 1] by simp_all
    have "node_at d ?p = Some (FileNode bytes)" using read_file_Inr(1) [OF 2] same by simp
    have "distinct (List.insert n verified)" using Cons.prems(2) by simp
    from Cons.IH [OF rest this] \<open>node_at d ?p = _\<close> digest show ?thesis
      unfolding same set_insert Diff_iff Ball_def insert_iff by metis
  qed
qed (simp add: answers)

lemma receipt_names:
  assumes "receipt_is_valid_for receipt version"
  shows "fst ` set (rr_files receipt) = set IMMUTABLE_RUNTIME_FILES"
proof (rule card_subset_eq [symmetric])
  have "card (fst ` set (rr_files receipt)) \<le> card (set (rr_files receipt))" by (rule card_image_le) simp
  also have "\<dots> \<le> length (rr_files receipt)" by (rule card_length)
  finally have "card (fst ` set (rr_files receipt)) \<le> 5"
    using assms by (simp add: receipt_is_valid_for_def IMMUTABLE_RUNTIME_FILES_def)
  moreover show sub: "set IMMUTABLE_RUNTIME_FILES \<subseteq> fst ` set (rr_files receipt)"
    using assms by (auto simp: receipt_is_valid_for_def list_all_iff contains_key_def map_of_eq_None_iff)
  moreover have "card (set IMMUTABLE_RUNTIME_FILES) = 5" by (simp add: IMMUTABLE_RUNTIME_FILES_def)
  ultimately show "card (set IMMUTABLE_RUNTIME_FILES) = card (fst ` set (rr_files receipt))"
    using card_mono [OF _ sub] by simp
qed simp

lemma verified_generation_holds:
  assumes "verify_runtime_generation env version (path_join (versions_root env) version) d = (Inr (), d')"
  shows "generation_holds env d version"
proof -
  let ?dir = "path_join (versions_root env) version"
  obtain d1 m d2 bytes d3 receipt names d4 v where
      1: "reject_reparse_ancestors ?dir d = (Inr (), d1)" and 2: "fs_metadata ?dir d1 = (Inr m, d2)"
    and 3: "setup_read_file (runtime_receipt_path env version) MAX_RUNTIME_RECEIPT_BYTES
        ''runtime generation receipt'' d2 = (Inr bytes, d3)"
    and receipt: "Option.bind (en_parse env bytes) runtime_receipt_of_json = Some receipt"
      "receipt_is_valid_for receipt version"
    and 4: "read_bounded_directory ?dir (length IMMUTABLE_RUNTIME_FILES + 1)
        ''runtime generation entry count'' d3 = (Inr names, d4)"
    and 5: "verify_receipted_entries env ?dir receipt names [] d4 = (Inr v, d')"
    and count: "length v = length IMMUTABLE_RUNTIME_FILES"
    using assms
    by (auto simp: verify_runtime_generation_def runtime_error_def answers split: if_splits option.splits)
  have same: "node_at d2 = node_at d" "node_at d4 = node_at d"
    using untouched_same [OF confined_reject 1] untouched_same [OF confined_reading(5) 2]
      untouched_same [OF confined_read_file 3] untouched_same [OF confined_read_directory 4] by simp_all
  note files = verify_receipted_Inr [OF 5 distinct.simps(1) [THEN iffD2, OF TrueI], unfolded same]
  have "set v \<subseteq> set IMMUTABLE_RUNTIME_FILES"
    using files receipt_names [OF receipt(2)] by (force dest: map_of_SomeD)
  moreover have "card (set v) = card (set IMMUTABLE_RUNTIME_FILES)"
    using files count distinct_card [of v] by (simp add: IMMUTABLE_RUNTIME_FILES_def)
  ultimately have "set v = set IMMUTABLE_RUNTIME_FILES" using card_subset_eq [OF finite_set] by blast
  with files read_file_Inr(1) [OF 3] same receipt show ?thesis
    unfolding generation_holds_def generation_file_def list_all_iff
    by (intro exI [of _ bytes] exI [of _ receipt]) auto
qed

text \<open>The files a generation is verified by, and the places the recovery writes to.\<close>

definition generation_part :: "setup_env \<Rightarrow> path \<Rightarrow> bool" where
  "generation_part env q \<longleftrightarrow>
     (\<exists>version. q = runtime_receipt_path env version
        \<or> (\<exists>name \<in> set IMMUTABLE_RUNTIME_FILES. q = generation_file env version name))"

lemma generation_holds_kept:
  assumes "generation_holds env d version" and "\<And>q. generation_part env q \<Longrightarrow> node_at d' q = node_at d q"
  shows "generation_holds env d' version"
proof -
  have "node_at d' (runtime_receipt_path env version) = node_at d (runtime_receipt_path env version)"
    "\<And>name. name \<in> set IMMUTABLE_RUNTIME_FILES \<Longrightarrow>
       node_at d' (generation_file env version name) = node_at d (generation_file env version name)"
    using assms(2) by (auto simp: generation_part_def)
  with assms(1) show ?thesis unfolding generation_holds_def list_all_iff by metis
qed

definition service_file :: "setup_env \<Rightarrow> path \<Rightarrow> bool" where
  "service_file env q \<longleftrightarrow> prefix q (service_root (en_paths env)) \<or> (\<exists>name. q = path_join (service_root (en_paths env)) name)"

lemma not_service_file: "service_layout env \<Longrightarrow> generation_part env q \<Longrightarrow> \<not> service_file env q"
  by (auto simp: generation_part_def service_file_def generation_file_def runtime_receipt_path_def
      runtime_receipts_root_def layout_paths(1) path_join_def prefix_def)

lemma not_generated_part: "service_layout env \<Longrightarrow> generation_part env q \<Longrightarrow> \<not> generated_region env q"
  by (auto simp: generation_part_def generated_region_def generated_name_def generation_file_def
      runtime_receipt_path_def runtime_receipts_root_def layout_paths(1) path_join_def prefix_def
      IMMUTABLE_RUNTIME_FILES_def GENERATED_PROFILE_NAME_def GENERATED_PROFILE_TEMP_PREFIX_def starts_with_def)

lemma not_journal_part: "service_layout env \<Longrightarrow> generation_part env q \<Longrightarrow> q \<noteq> runtime_activation_path env"
  using not_service_file [of env q] layout_paths(3) [of env] by (auto simp: service_file_def)

lemma part_kept:
  "confined A B m \<Longrightarrow> m d = (r, d') \<Longrightarrow> (\<And>q. generation_part env q \<Longrightarrow> \<not> A q) \<Longrightarrow> generation_holds env d version
     \<Longrightarrow> generation_holds env d' version"
  using generation_holds_kept confinedD keepsD(1) by metis

lemma optional_binary_holds:
  assumes "optional_service_binary env pointer role d = (Inr b, d')" and "pointer = Some p"
  shows "generation_holds env d (rp_version p)"
  using assms verified_generation_holds
  by (auto simp: optional_service_binary_def verified_activation_service_binary_def answers Let_def)

lemma confined_optional_binary [frame]: "confined A B (optional_service_binary env pointer role)"
  unfolding optional_service_binary_def verified_activation_service_binary_def Let_def by (auto intro!: frame)

lemma pointer_not_generated:
  "service_layout env \<Longrightarrow> \<not> generated_region env (runtime_pointer (en_paths env))"
  by (auto simp: generated_region_def layout_paths(1,2))

lemma journal_not_generated:
  "service_layout env \<Longrightarrow> \<not> generated_region env (runtime_activation_path env)"
  by (auto simp: generated_region_def layout_paths(1,3))

lemma blind_step: "confined A B m \<Longrightarrow> m d = (r, d') \<Longrightarrow> sd_blind d = [] \<Longrightarrow> sd_blind d' = []"
  using confinedD keepsD(3) by blast

lemma image_step: "confined A B m \<Longrightarrow> m d = (r, d') \<Longrightarrow> sd_service_image d' = sd_service_image d"
  using confinedD keepsD(2) by blast

lemma node_step: "confined A B m \<Longrightarrow> m d = (r, d') \<Longrightarrow> \<not> A q \<Longrightarrow> node_at d' q = node_at d q"
  using confinedD keepsD(1) by blast

lemma confined_remove_protected [frame]: "A p \<Longrightarrow> confined A B (remove_protected_file p)"
  unfolding remove_protected_file_def by (auto intro!: frame)

lemma remove_file_Inr:
  assumes "fs_remove_file p d = (Inr (), d')"
  shows "node_at d' p = None"
  using assms
  by (cases "node_at d p"; cases "the (node_at d p)") (auto simp: fs_remove_file_def io_write_def io_op_Inr)

lemma remove_protected_Inr:
  assumes "remove_protected_file p d = (Inr (), d')" and "sd_blind d = []"
  shows "node_at d' p = None"
proof -
  obtain there d1 where 1: "path_exists p d = (Inr there, d1)"
    and 2: "swhen there (sbind (reject_reparse_ancestors p) (\<lambda>_. fs_remove_file p)) d1 = (Inr (), d')"
    using assms(1) by (auto simp: remove_protected_file_def answers)
  show ?thesis
  proof (cases there)
    case True
    then obtain d2 where "fs_remove_file p d2 = (Inr (), d')" using 2 by (auto simp: swhen_def answers)
    then show ?thesis by (rule remove_file_Inr)
  next
    case False
    then show ?thesis
      using exists_Inr [OF 1 assms(2)] 2 untouched_same [OF confined_reading(1) 1] by (simp add: swhen_def answers)
  qed
qed

lemma finish_recovery_Inr:
  assumes "finish_recovery env d = (Inr r, d')" and "sd_blind d = []" and "service_layout env"
  shows "node_at d' (runtime_activation_path env) = None" and "sd_service_image d' = sd_service_image d"
    and "\<exists>v. pointer_is env d v \<and> pointer_is env d' v \<and> r = map_option (installed env) v"
    and "generation_holds env d version \<Longrightarrow> generation_holds env d' version"
proof -
  obtain d1 where 1: "current_runtime env d = (Inr r, d1)"
    and 2: "remove_runtime_activation_journal env d1 = (Inr (), d')"
    using assms(1) by (auto simp: finish_recovery_def answers)
  have removal: "confined (\<lambda>q. q = runtime_activation_path env) B (remove_runtime_activation_journal env)" for B
    unfolding remove_runtime_activation_journal_def by (auto intro!: frame)
  show "node_at d' (runtime_activation_path env) = None"
    using 2 blind_step [OF confined_current_runtime 1 assms(2)] unfolding remove_runtime_activation_journal_def
    by (rule remove_protected_Inr)
  show "sd_service_image d' = sd_service_image d"
    using image_step [OF confined_current_runtime 1] image_step [OF removal 2] by simp
  obtain v where v: "pointer_is env d v" "r = map_option (installed env) v"
    using current_runtime_Inr [OF 1 assms(2)] by auto
  have "runtime_pointer (en_paths env) \<noteq> runtime_activation_path env"
    using layout_paths(2,3) [OF assms(3)] by simp
  then have "node_at d' (runtime_pointer (en_paths env)) = node_at d (runtime_pointer (en_paths env))"
    using node_step [OF removal 2] untouched_same [OF confined_current_runtime 1] by simp
  then show "\<exists>v. pointer_is env d v \<and> pointer_is env d' v \<and> r = map_option (installed env) v"
    using v pointer_is_cong by blast
  have same: "node_at d1 = node_at d" by (rule untouched_same [OF confined_current_runtime 1])
  assume "generation_holds env d version"
  then have "generation_holds env d1 version" by (rule generation_holds_kept) (simp add: same)
  then show "generation_holds env d' version"
    by (rule part_kept [OF removal 2, rotated]) (rule not_journal_part [OF assms(3)])
qed

lemma confined_verify_and_materialize:
  "confined (generated_region env) B (verify_and_materialize_committed_runtime env role)"
  unfolding verify_and_materialize_committed_runtime_def
  by (auto intro!: frame confined_materialize_active)

lemma confined_finish_committed:
  "confined (generated_region env) B (finish_committed_activation_recovery env journal)"
  unfolding finish_committed_activation_recovery_def
  by (auto intro!: frame confined_verify_and_materialize)

lemma confined_recover_committed:
  "confined (generated_region env) B (recover_committed env journal activated binding)"
  unfolding recover_committed_def require_activation_pointer_def
  by (auto intro!: frame confined_finish_committed)

lemma recover_committed_Inr:
  assumes "recover_committed env journal activated binding d = (Inr (), d')" and "service_layout env"
    and "bound_to (service_binary_of env activated) previous binding d"
  shows "pointer_is env d' activated" and "sd_service_image d' = service_binary_of env activated"
proof -
  obtain a where a: "activated = Some a"
    using assms(1) by (auto simp: recover_committed_def answers split: option.splits)
  then obtain d1 where 1: "current_pointer_for_committed_recovery env d = (Inr (Some a), d1)"
    and binding: "binding = BindingCandidate"
    and 2: "finish_committed_activation_recovery env journal d1 = (Inr (), d')"
    using assms(1) by (auto simp: recover_committed_def require_activation_pointer_def answers split: if_splits)
  have "node_at d' (runtime_pointer (en_paths env)) = node_at d (runtime_pointer (en_paths env))"
    using node_step [OF confined_finish_committed 2 pointer_not_generated [OF assms(2)]]
      untouched_same [OF confined_committed_pointer 1] by simp
  then show "pointer_is env d' activated" using committed_pointer_Inr [OF 1] a pointer_is_cong by metis
  show "sd_service_image d' = service_binary_of env activated"
    using assms(3) binding image_step [OF confined_finish_committed 2] image_step [OF confined_committed_pointer 1]
    by (simp add: bound_to_def)
qed

lemma recover_uncommitted_binding_Inr:
  assumes "exact_manager sm" and "bound_to candidate previous binding d"
    and "recover_uncommitted_binding (inspect_binding sm) (restore_previous_binding sm) candidate previous binding d
           = (Inr binding', d')"
  shows "bound_to candidate previous binding' d'"
proof (cases "binding = BindingCandidate \<and> candidate \<noteq> previous")
  case True
  then obtain c d1 where "candidate = Some c" "inspect_binding sm (Some c) previous d1 = (Inr binding', d')"
    using assms(3) by (auto simp: recover_uncommitted_binding_def answers Let_def split: option.splits if_splits)
  then show ?thesis using inspect_binding_Inr [OF assms(1)] by metis
next
  case False
  then show ?thesis
    using assms(2,3)
    by (cases candidate) (auto simp: recover_uncommitted_binding_def bound_to_def answers Let_def split: if_splits)
qed

lemma manages_uncommitted_binding:
  assumes "exact_manager sm"
  shows "manages (recover_uncommitted_binding (inspect_binding sm) (restore_previous_binding sm) candidate previous binding)"
  unfolding recover_uncommitted_binding_def Let_def
  by (auto intro!: manages_bind manages_map_error manages_restore_binding [OF assms] manages_ret manages_raise
      manages_untouched [OF confined_inspect_binding [OF assms]] split: option.split)

lemma confined_restore_pointer:
  assumes "service_layout env"
  shows "confined (service_file env) B (restore_runtime_pointer env previous activated)"
proof -
  let ?p = "path_join (service_root (en_paths env)) ''current.json''"
  have at: "service_file env (path_join (service_root (en_paths env)) name)" for name
    by (auto simp: service_file_def)
  have "confined (service_file env) B (atomic_write ?p bytes)" for bytes
    by (rule confined_atomic_write) (auto simp: service_file_def dest: ancestor_of)
  moreover have "confined (service_file env) B (observed_pointer_bytes env)"
    unfolding observed_pointer_bytes_def Let_def by (auto intro!: frame)
  ultimately show ?thesis
    unfolding restore_runtime_pointer_def remove_exact_runtime_pointer_def foreign_runtime_pointer_def Let_def
      layout_paths(2) [OF assms]
    by (auto intro!: frame at split: option.split)
qed

lemma recover_uncommitted_Inr:
  assumes "recover_uncommitted env (inspect_binding sm) (restore_previous_binding sm) journal activated
      candidate (service_binary_of env (parsed_previous journal)) binding d = (Inr (), d')"
    and "exact_manager sm" and "service_layout env"
    and "bound_to candidate (service_binary_of env (parsed_previous journal)) binding d" and "sd_blind d = []"
  shows "pointer_restored env d' (parsed_previous journal)"
    and "sd_service_image d' = service_binary_of env (parsed_previous journal)" and "sd_blind d' = []"
    and "generation_holds env d version \<Longrightarrow> generation_holds env d' version"
proof -
  let ?previous = "parsed_previous journal"
  obtain binding' d1 where 1: "recover_uncommitted_binding (inspect_binding sm) (restore_previous_binding sm) candidate
      (service_binary_of env ?previous) binding d = (Inr binding', d1)"
    and exact: "binding' = BindingPrevious \<and> service_binary_of env ?previous \<noteq> None
      \<or> binding' = BindingAbsent \<and> service_binary_of env ?previous = None"
    and 2: "rollback_activation_pointer_and_profile env ?previous activated d1 = (Inr (), d')"
    using assms(1) by (auto simp: recover_uncommitted_def answers split: if_splits)
  have image: "sd_service_image d1 = service_binary_of env ?previous"
    using recover_uncommitted_binding_Inr [OF assms(2,4) 1] exact by (auto simp: bound_to_def)
  have b1: "sd_blind d1 = []" using managesD [OF manages_uncommitted_binding [OF assms(2)] 1] assms(5) by simp
  obtain d2 where 3: "restore_runtime_pointer env ?previous activated d1 = (Inr (), d2)"
    and 4: "(if ?previous \<noteq> None then sbind (materialize_active env) (\<lambda>_. sret ()) else sret ()) d2 = (Inr (), d')"
    using 2 by (auto simp: rollback_activation_pointer_and_profile_def answers)
  have last: "confined (generated_region env) B
      (if ?previous \<noteq> None then sbind (materialize_active env) (\<lambda>_. sret ()) else sret ())" for B
    by (auto intro!: frame confined_materialize_active)
  show "pointer_restored env d' ?previous"
    using restore_pointer_Inr [OF 3 assms(3)] node_step [OF last 4 pointer_not_generated [OF assms(3)]]
    by (simp add: pointer_restored_def)
  show "sd_service_image d' = service_binary_of env ?previous"
    using image image_step [OF confined_restore_pointer [OF assms(3)] 3] image_step [OF last 4] by simp
  show "sd_blind d' = []"
    using b1 blind_step [OF confined_restore_pointer [OF assms(3)] 3] blind_step [OF last 4] by simp
  assume "generation_holds env d version"
  then have "generation_holds env d1 version"
    by (rule generation_holds_kept) (simp add: managesD [OF manages_uncommitted_binding [OF assms(2)] 1])
  then have "generation_holds env d2 version"
    by (rule part_kept [OF confined_restore_pointer [OF assms(3)] 3, rotated]) (rule not_service_file [OF assms(3)])
  then show "generation_holds env d' version"
    by (rule part_kept [OF last 4, rotated]) (rule not_generated_part [OF assms(3)])
qed

lemma confined_read_activation [frame]: "confined A B (read_activation_bytes env)"
  unfolding read_activation_bytes_def by (auto intro!: frame)

lemma confined_parse_activation [frame]: "confined A B (parse_activation_bytes env bytes)"
  unfolding parse_activation_bytes_def runtime_error_def by (auto intro!: frame)

lemma confined_derive_legacy [frame]: "confined A B (derive_legacy_candidate env journal)"
  unfolding derive_legacy_candidate_def by (auto intro!: frame)

definition activated_of ::
  "setup_env \<Rightarrow> parsed_runtime_activation_receipt \<Rightarrow> runtime_generation_pointer option setup_op" where
  "activated_of env journal =
     (case parsed_activated journal of
        Some activated \<Rightarrow> sret (Some activated) | None \<Rightarrow> derive_legacy_candidate env journal)"

lemma confined_activated_of [frame]: "confined A B (activated_of env journal)"
  unfolding activated_of_def by (auto intro!: frame)

text \<open>The recovery with a pending journal, when it succeeds.\<close>

lemma recover_with_binding_Inr:
  assumes "recover_with_service_binding env (inspect_binding sm) (restore_previous_binding sm) d = (Inr r, d')"
    and "service_layout env" and "pointer_codec env" and "exact_manager sm" and "sd_blind d = []"
    and "node_at d (runtime_activation_path env) \<noteq> None"
  shows "sd_service_image d' = map_option ir_service_binary r"
    and "\<exists>v. pointer_is env d' v \<and> r = map_option (installed env) v"
    and "node_at d' (runtime_activation_path env) = None"
    and "\<And>x. r = Some x \<Longrightarrow> generation_holds env d' (ir_version x)"
proof -
  obtain there d1 where 1: "path_exists (runtime_activation_path env) d = (Inr there, d1)"
    using assms(1) by (auto simp: recover_with_service_binding_def answers)
  have there using exists_Inr [OF 1 assms(5)] assms(6) by simp
  then obtain bytes d2 journal d3 activated d4 candidate d5 previous d6 binding d7 d8 where
      2: "read_activation_bytes env d1 = (Inr bytes, d2)"
    and 3: "parse_activation_bytes env bytes d2 = (Inr journal, d3)"
    and 4: "activated_of env journal d3 = (Inr activated, d4)"
    and 5: "optional_service_binary env activated ''candidate'' d4 = (Inr candidate, d5)"
    and 6: "optional_service_binary env (parsed_previous journal) ''previous'' d5 = (Inr previous, d6)"
    and 7: "inspect_binding sm candidate previous d6 = (Inr binding, d7)"
    and 8: "(if parsed_phase journal = Some Committed then recover_committed env journal activated binding
             else recover_uncommitted env (inspect_binding sm) (restore_previous_binding sm) journal activated
                    candidate previous binding) d7 = (Inr (), d8)"
    and 9: "finish_recovery env d8 = (Inr r, d')"
    using assms(1) unfolding recover_with_service_binding_def sbind_known [where m = "path_exists _", OF 1]
      activated_of_def [symmetric]
    by (auto simp: answers)
  have side: "candidate = service_binary_of env activated" "previous = service_binary_of env (parsed_previous journal)"
    using optional_binary_Inr 5 6 by blast+
  have bound: "bound_to candidate previous binding d7" by (rule inspect_binding_Inr [OF assms(4) 7])
  have b7: "sd_blind d7 = []"
    using blind_step [OF confined_reading(1) 1 assms(5)] blind_step [OF confined_read_activation 2]
      blind_step [OF confined_parse_activation 3] blind_step [OF confined_activated_of 4]
      blind_step [OF confined_optional_binary 5] blind_step [OF confined_optional_binary 6]
      blind_step [OF confined_inspect_binding [OF assms(4)] 7] by blast
  have held: "generation_holds env d7 (rp_version p)" if "p \<in> set_option activated \<union> set_option (parsed_previous journal)" for p
  proof -
    have same: "node_at d5 = node_at d4" "node_at d7 = node_at d5"
      using untouched_same [OF confined_optional_binary 5] untouched_same [OF confined_optional_binary 6]
        untouched_same [OF confined_inspect_binding [OF assms(4)] 7] by simp_all
    from that have "generation_holds env d4 (rp_version p) \<or> generation_holds env d5 (rp_version p)"
      using optional_binary_holds [OF 5] optional_binary_holds [OF 6] by auto
    then show ?thesis using generation_holds_kept same by metis
  qed
  have "sd_blind d8 = [] \<and> (\<exists>v. sd_service_image d8 = service_binary_of env v
      \<and> (\<forall>w. pointer_is env d8 w \<longrightarrow> w = v)
      \<and> (\<forall>p. v = Some p \<longrightarrow> generation_holds env d8 (rp_version p)))"
  proof (cases "parsed_phase journal = Some Committed")
    case True
    with 8 have 80: "recover_committed env journal activated binding d7 = (Inr (), d8)" by simp
    note done1 = recover_committed_Inr [OF 80 assms(2) bound [unfolded side(1)]]
    have "generation_holds env d8 (rp_version p)" if "activated = Some p" for p
      by (rule part_kept [OF confined_recover_committed 80 not_generated_part [OF assms(2)]])
        (simp_all add: held that)
    then show ?thesis
      using done1(2) pointer_is_unique [OF _ done1(1)] blind_step [OF confined_recover_committed 80 b7]
      by (intro conjI exI [of _ activated]) simp_all
  next
    case False
    with 8 side(2) have 80: "recover_uncommitted env (inspect_binding sm) (restore_previous_binding sm) journal activated
        candidate (service_binary_of env (parsed_previous journal)) binding d7 = (Inr (), d8)" by simp
    note done2 = recover_uncommitted_Inr [OF 80 assms(4,2) bound [unfolded side(2)] b7]
    show ?thesis
      using done2(2,3) pointer_restored_is [OF done2(1) _ assms(3)] done2(4) held
      by (intro conjI exI [of _ "parsed_previous journal"]) simp_all
  qed
  then obtain v where b8: "sd_blind d8 = []" and v: "sd_service_image d8 = service_binary_of env v"
    and only: "\<And>w. pointer_is env d8 w \<Longrightarrow> w = v"
    and holds: "\<And>p. v = Some p \<Longrightarrow> generation_holds env d8 (rp_version p)" by blast
  obtain w where w: "pointer_is env d8 w" "pointer_is env d' w" "r = map_option (installed env) w"
    using finish_recovery_Inr(3) [OF 9 b8 assms(2)] by blast
  then have "w = v" using only by blast
  then show "sd_service_image d' = map_option ir_service_binary r"
    using finish_recovery_Inr(2) [OF 9 b8 assms(2)] v w(3) by (simp add: service_binary_of_installed)
  show "\<exists>v. pointer_is env d' v \<and> r = map_option (installed env) v" using w by blast
  show "generation_holds env d' (ir_version x)" if "r = Some x" for x
    using finish_recovery_Inr(4) [OF 9 b8 assms(2)] holds that w(3) \<open>w = v\<close> by (auto simp: installed_def)
  show "node_at d' (runtime_activation_path env) = None" by (rule finish_recovery_Inr(1) [OF 9 b8 assms(2)])
qed

end
