(* ===== verification/Runtime_Deploy.thy ===== *)
theory Runtime_Deploy
  imports Runtime_Binding
begin

text \<open>
  A deployment and its two ends: one that succeeded leaves the pointer and the service at the new
  generation; one that failed either had not written its journal, and then changed neither pointer nor
  service, or leaves the journal for the recovery.
\<close>

section \<open>Files that stay\<close>

definition stays :: "path \<Rightarrow> 'a setup_op \<Rightarrow> bool" where
  "stays p m \<longleftrightarrow> (\<forall>d. node_at d p \<noteq> None \<longrightarrow> node_at (snd (m d)) p \<noteq> None)"

lemma staysD: "stays p m \<Longrightarrow> m d = (r, d') \<Longrightarrow> node_at d p \<noteq> None \<Longrightarrow> node_at d' p \<noteq> None"
  by (metis stays_def snd_conv)

lemma stays_confined: "confined A B m \<Longrightarrow> \<not> A p \<Longrightarrow> stays p m"
  unfolding stays_def confined_def keeps_def by metis

lemma stays_manages: "manages m \<Longrightarrow> stays p m"
  by (simp add: stays_def manages_def)

lemma stays_ret: "stays p (sret x)" by (simp add: stays_def sret_def)

lemma stays_raise: "stays p (sraise e)" by (simp add: stays_def sraise_def)

lemma stays_bind: "stays p m \<Longrightarrow> (\<And>x. stays p (k x)) \<Longrightarrow> stays p (sbind m k)"
  unfolding stays_def sbind_def by (auto split: prod.split sum.split)+

lemma stays_attempt: "stays p m \<Longrightarrow> stays p (attempt m)"
  unfolding stays_def attempt_def by (auto split: prod.split sum.split stop.split)+

lemma stays_map_error: "stays p m \<Longrightarrow> stays p (map_error f m)"
  unfolding map_error_def
  by (intro stays_bind stays_attempt) (auto intro: stays_raise stays_ret split: sum.split)

lemma stays_at_machine_path: "stays p m \<Longrightarrow> stays p (at_machine_path operation q m)"
  unfolding at_machine_path_def by (rule stays_map_error)

lemmas stays_rules = stays_bind stays_attempt stays_map_error stays_at_machine_path stays_ret stays_raise

lemma replace_file_stays: "stays p (replace_file source p)" if "source \<noteq> p"
  unfolding stays_def replace_file_def io_write_def io_op_def take_fault_def using that
  by (auto split: prod.split fault.split option.split disk_node.split list.split)

lemma stays_atomic_write: "stays (path_join q name) (atomic_write (path_join q name) bytes)"
proof -
  let ?p = "path_join q name"
  have others: "stays ?p m" if "confined (\<lambda>a. a \<noteq> ?p) (\<lambda>_. True) m" for m :: "'a setup_op"
    using that by (rule stays_confined) simp
  have t: "path_join q (temporary_name name nonce) \<noteq> ?p" for nonce
    by (simp add: temporary_not_target)
  note names = temporary_not_target
  have up: "a \<in> set (path_ancestors q) \<Longrightarrow> a \<noteq> ?p" for a using ancestor_of by fastforce
  have replaced: "stays ?p (write_and_replace (path_join q (temporary_name name nonce)) ?p bytes)" for nonce
    unfolding write_and_replace_def
    by (intro stays_bind others [OF confined_create_new] others [OF confined_write_all]
        others [OF confined_reading(13)] replace_file_stays) (simp_all add: names)
  have removed: "stays ?p (fs_remove_file (path_join q (temporary_name name nonce)))" for nonce
    by (rule others [OF confined_remove_file]) (simp add: names)
  have begins: "stays ?p (create_protected_directory q)" "stays ?p (reject_reparse_ancestors ?p)" "stays ?p temporary_nonce"
    by (rule others, auto intro!: frame dest: up)+
  show ?thesis
    unfolding atomic_write_def Let_def
    by (auto intro!: stays_rules replaced removed begins split: option.split sum.split)
qed

section \<open>Writes that fail\<close>

text \<open>A replacement that fails has not replaced.\<close>

definition fails_keep :: "path \<Rightarrow> 'a setup_op \<Rightarrow> bool" where
  "fails_keep p m \<longleftrightarrow> (\<forall>d e d'. m d = (Inl (Raised e), d') \<longrightarrow> node_at d' p = node_at d p)"

lemma fails_keep_confined: "confined A B m \<Longrightarrow> \<not> A p \<Longrightarrow> fails_keep p m"
  unfolding fails_keep_def using node_step by blast

lemma sbind_Inl:
  "sbind m k d = (Inl s, d') \<longleftrightarrow>
     m d = (Inl s, d') \<or> (\<exists>x d1. m d = (Inr x, d1) \<and> k x d1 = (Inl s, d'))"
  by (auto simp: sbind_def split: prod.splits sum.splits)

lemma attempt_Inl: "attempt m d = (Inl s, d') \<longleftrightarrow> s = Halted \<and> m d = (Inl Halted, d')"
  by (auto simp: attempt_def split: prod.splits sum.splits stop.splits)

lemma sret_Inl: "sret x d = (Inl s, d') \<longleftrightarrow> False"
  by (simp add: sret_def)

lemma sraise_Inl: "sraise e d = (Inl s, d') \<longleftrightarrow> s = Raised e \<and> d' = d"
  by (auto simp: sraise_def)

lemma map_error_raises:
  "map_error f m d = (Inl (Raised e'), d') \<longleftrightarrow> (\<exists>e. e' = f e \<and> m d = (Inl (Raised e), d'))"
proof -
  obtain r d1 where m: "m d = (r, d1)" by fastforce
  show ?thesis
    by (cases r rule: sum.exhaust; cases "projl r")
      (auto simp: map_error_def sbind_def attempt_def sret_def sraise_def m)
qed

lemma at_machine_path_raises:
  "at_machine_path operation p m d = (Inl (Raised e'), d') \<longleftrightarrow>
     (\<exists>e. e' = MachineOperation operation p e \<and> m d = (Inl (Raised e), d'))"
  by (simp add: at_machine_path_def map_error_raises)

lemmas raised = sbind_Inl attempt_Inl sret_Inl sraise_Inl map_error_raises at_machine_path_raises

lemma fails_keep_bind:
  assumes "confined A B m" and "\<not> A p" and "\<And>x. fails_keep p (k x)"
  shows "fails_keep p (sbind m k)"
  using assms node_step [OF assms(1) _ assms(2)] by (auto simp: fails_keep_def sbind_Inl)

lemma fails_keep_attempt:
  assumes "fails_keep p m" and "\<And>e. confined A B (h e)" and "\<not> A p"
  shows "fails_keep p (sbind (attempt m) (\<lambda>r. case r of Inl e \<Rightarrow> h e | Inr x \<Rightarrow> sret (f x)))"
  using assms(1) node_step [OF assms(2) _ assms(3)]
  by (auto simp: fails_keep_def sbind_Inl attempt_Inl attempt_Inr sret_Inl split: sum.splits) (metis sumE)

lemma replace_file_fails_keep: "fails_keep p (replace_file source destination)"
  unfolding fails_keep_def replace_file_def io_write_def io_op_def take_fault_def
  by (auto split: prod.splits fault.splits option.splits disk_node.splits list.splits if_splits)

lemma atomic_write_fails_keep: "fails_keep (path_join q name) (atomic_write (path_join q name) bytes)"
proof -
  let ?p = "path_join q name"
  let ?A = "\<lambda>a. a \<noteq> ?p"
  note names = temporary_not_target
  have up: "a \<in> set (path_ancestors q) \<Longrightarrow> a \<noteq> ?p" for a using ancestor_of by fastforce
  have replaced: "fails_keep ?p (write_and_replace (path_join q (temporary_name name nonce)) ?p bytes)" for nonce
    unfolding write_and_replace_def
    by (rule fails_keep_bind [where A = ?A and B = "\<lambda>_. True"],
        auto intro!: frame fails_keep_bind [where A = ?A and B = "\<lambda>_. True"] replace_file_fails_keep simp: names)
  have cleanup: "confined ?A (\<lambda>_. True)
      (sbind (attempt (fs_remove_file (path_join q (temporary_name name nonce)))) (\<lambda>_. sraise e))" for nonce e
    by (auto intro!: frame simp: names)
  show ?thesis
    unfolding atomic_write_def Let_def
    by (auto intro!: fails_keep_bind [where A = ?A and B = "\<lambda>_. True"] frame
        fails_keep_attempt [where A = ?A and B = "\<lambda>_. True", OF replaced cleanup] dest: up)
qed

end
