(* ===== verification/Setup_Properties.thy ===== *)
theory Setup_Properties
  imports Runtime_Deploy
begin

text \<open>
  Properties of the setup program as a whole: what its recovery promises about the service, and what
  its commands leave alone.  The machine of the witnesses is one on which the first installation of
  the runtime was interrupted between the switch of the pointer and the commit of its journal.
\<close>

section \<open>An interrupted installation\<close>

text \<open>A printer and a parser of JSON that know the pointer, two journals and one receipt.\<close>

definition setup_print :: "json \<Rightarrow> string" where
  "setup_print v = (case pointer_of_json v of
     Some p \<Rightarrow> replicate (unat (rp_schema p)) (CHR ''s'') @ ''P'' @ rp_version p
   | None \<Rightarrow> [])"

definition interrupted_journal :: json where
  "interrupted_journal =
     JObject [(''schema'', JNat 2), (''previous'', JNull),
              (''activated'', pointer_to_json \<lparr>rp_schema = 1, rp_version = ''1.2.3''\<rparr>)]"

definition committed_journal :: json where
  "committed_journal = receipt_to_json \<lparr>rc_schema = 3, rc_phase = Committed, rc_previous = None,
     rc_activated = \<lparr>rp_schema = 1, rp_version = ''1.2.3''\<rparr>\<rparr>"

definition sample_receipt :: json where
  "sample_receipt =
     JObject [(''schema'', JNat 1), (''version'', JString ''1.2.3''),
              (''files'', JObject (map (\<lambda>name. (name, JString (''sha256:'' @ replicate 64 (CHR ''0''))))
                            [''MacType.dll'', ''MacType64.dll'', ''mactype-injector32.exe'',
                             ''mactype-injector64.exe'', ''mactype-service.exe'']))]"

definition setup_parse :: "string \<Rightarrow> json option" where
  "setup_parse s =
     (let n = length (takeWhile (\<lambda>c. c = CHR ''s'') s)
      in if take 1 (drop n s) = ''P''
         then Some (pointer_to_json \<lparr>rp_schema = word_of_nat n, rp_version = drop (Suc n) s\<rparr>)
         else if s = ''J'' then Some interrupted_journal
         else if s = ''C'' then Some committed_journal
         else if s = ''R'' then Some sample_receipt
         else None)"

definition setup_service :: path where
  "setup_service = [Prefix ''C:'', RootDir, Normal ''Program Files'', Normal ''MacType Control Center'', Normal ''Service'']"

definition setup_data :: path where
  "setup_data = [Prefix ''C:'', RootDir, Normal ''ProgramData'', Normal ''MacType'', Normal ''ControlCenter'']"

definition setup_paths :: machine_paths where
  "setup_paths =
     \<lparr>service_root = setup_service, runtime_versions = setup_service @ [Normal ''bin''],
      runtime_pointer = setup_service @ [Normal ''current.json''],
      runtime_activation_journal = setup_service @ [Normal ''runtime-activation.json''],
      profile_generations = setup_data @ [Normal ''generations''],
      active_profile = setup_data @ [Normal ''active.json''],
      previous_profile = setup_data @ [Normal ''previous.json''],
      profile_activation_journal = setup_data @ [Normal ''profile-activation.json''],
      event_log_dir = setup_data @ [Normal ''logs''],
      service_host_event_log = setup_data @ [Normal ''logs'', Normal ''service-host.log''],
      service_setup_event_log = setup_data @ [Normal ''logs'', Normal ''service-setup.log'']\<rparr>"

definition machine_env :: setup_env where
  "machine_env = \<lparr>en_paths = setup_paths, en_sha = (\<lambda>_. replicate 32 (char_of (0 :: nat))),
     en_print = setup_print, en_parse = setup_parse\<rparr>"

definition sample_binary :: path where
  "sample_binary = setup_service @ [Normal ''bin'', Normal ''1.2.3'', Normal ''mactype-service.exe'']"

definition pending_disk :: "string \<Rightarrow> setup_disk" where
  "pending_disk journal =
     \<lparr>sd_nodes =
        [(setup_service @ [Normal ''bin'', Normal ''1.2.3''], DirNode), (setup_service, DirNode),
         (setup_service @ [Normal ''bin'', Normal ''1.2.3'', Normal ''mactype-service.exe''], FileNode ''a''),
         (setup_service @ [Normal ''bin'', Normal ''1.2.3'', Normal ''mactype-injector32.exe''], FileNode ''b''),
         (setup_service @ [Normal ''bin'', Normal ''1.2.3'', Normal ''mactype-injector64.exe''], FileNode ''c''),
         (setup_service @ [Normal ''bin'', Normal ''1.2.3'', Normal ''MacType.dll''], FileNode ''d''),
         (setup_service @ [Normal ''bin'', Normal ''1.2.3'', Normal ''MacType64.dll''], FileNode ''e''),
         (setup_service @ [Normal ''runtime-receipts'', Normal ''1.2.3.json''], FileNode ''R''),
         (setup_service @ [Normal ''current.json''], FileNode ''sP1.2.3''),
         (setup_service @ [Normal ''runtime-activation.json''], FileNode journal)],
      sd_reparse = (\<lambda>_. False), sd_faults = [], sd_blind = [], sd_pid = 7, sd_time = (\<lambda>n. n), sd_sequence = 0,
      sd_deferred = [], sd_service_image = Some sample_binary, sd_published = False\<rparr>"

text \<open>A service control manager over the image of the service.\<close>

definition sample_manager :: setup_machine where
  "sample_manager =
     \<lparr>sm_observe = (\<lambda>d. (Inr (if sd_service_image d = None then ServiceAbsent else OwnedStopped), d)),
      sm_points_to = (\<lambda>p d. (Inr (sd_service_image d = Some p), d)),
      sm_install = (\<lambda>p d. (Inr (), d\<lparr>sd_service_image := Some p\<rparr>)),
      sm_reconfigure = (\<lambda>p d. (Inr (), d\<lparr>sd_service_image := Some p\<rparr>)),
      sm_remove = (\<lambda>d. (Inr (), d\<lparr>sd_service_image := None\<rparr>)),
      sm_stop = sret (), sm_is_running = sret False, sm_start_and_wait_ready = sret (),
      sm_start_and_wait_ready_for_profile = (\<lambda>_. sret ()), sm_harden = (\<lambda>_. sret ()), sm_enter = sret (),
      sm_connect = sret (), sm_validate_root = sret (), sm_payload = sret [], sm_default_profile = [],
      sm_legacy_service = sret ConflictClear, sm_legacy_tray = sret ConflictClear,
      sm_appinit = sret ConflictClear\<rparr>"

lemma sample_layout: "service_layout machine_env"
  unfolding service_layout_def
  by (intro exI [of _ "[Prefix ''C:'', RootDir, Normal ''Program Files'']"]
      exI [of _ "[Prefix ''C:'', RootDir, Normal ''ProgramData'']"]) code_simp

lemma sample_pointer_codec: "pointer_codec machine_env"
proof -
  have print: "setup_print (pointer_to_json p) = replicate (unat (rp_schema p)) (CHR ''s'') @ ''P'' @ rp_version p" for p
    by (simp add: setup_print_def pointer_json_round_trip)
  have "setup_parse (replicate n (CHR ''s'') @ ''P'' @ v)
      = Some (pointer_to_json \<lparr>rp_schema = word_of_nat n, rp_version = v\<rparr>)" for n v
  proof -
    have "takeWhile (\<lambda>c. c = CHR ''s'') (replicate n (CHR ''s'') @ CHR ''P'' # v) = replicate n (CHR ''s'')"
      by (induction n) simp_all
    then show ?thesis by (simp add: setup_parse_def Let_def)
  qed
  then have "setup_parse (setup_print (pointer_to_json p)) = Some (pointer_to_json p)" for p
    by (cases p) (simp add: print)
  then show ?thesis by (simp add: pointer_codec_def machine_env_def)
qed

lemma sample_manager_exact: "exact_manager sample_manager"
  by (auto simp: exact_manager_def sample_manager_def manages_def confined_def sret_def keeps_def node_at_def
      split: if_splits)

section \<open>The recovered runtime\<close>

text \<open>
  C28.  A recovery of an interrupted activation that succeeds leaves no disagreement: the service starts
  the returned runtime, the active pointer names it, its generation is on the disk, with a receipt that
  is valid for its version and every immutable file with the digest the receipt gives, and the journal
  is gone; when nothing is returned there is neither a pointer nor a service.  This holds against a
  service manager that answers truly whether there is a service and which image it starts and whose
  operations leave the files alone (\<open>exact_manager\<close>), with a JSON library that reads a printed
  pointer back (\<open>pointer_codec\<close>), under the layout of the trusted roots, and when no existence check of
  a path fails.
\<close>
theorem recovered_runtime_is_bound:
  assumes "service_layout env" and "pointer_codec env" and "exact_manager sm"
    and "sd_blind d = []" and "node_at d (runtime_activation_path env) \<noteq> None"
    and "recover_runtime env sm d = (Inr r, d')"
  shows "sd_service_image d' = map_option ir_service_binary r
     \<and> (\<exists>v. pointer_is env d' v \<and> r = map_option (installed env) v)
     \<and> (case r of None \<Rightarrow> True | Some runtime \<Rightarrow> generation_holds env d' (ir_version runtime))
     \<and> node_at d' (runtime_activation_path env) = None"
proof -
  obtain x d1 where 1: "recover_interrupted_repair env d = (Inr x, d1)"
    and 2: "recover_with_service_binding env (inspect_binding sm) (restore_previous_binding sm) d1 = (Inr r, d')"
    using assms(6) by (auto simp: recover_runtime_def recover_interrupted_runtime_with_service_binding_def answers)
  have "node_at d1 (runtime_activation_path env) \<noteq> None"
    using assms(5) node_step [OF confined_recover_repair 1 not_repaired(2) [OF assms(1)]] by simp
  from recover_with_binding_Inr [OF 2 assms(1-3) blind_step [OF confined_recover_repair 1 assms(4)] this]
  show ?thesis by (auto split: option.split)
qed

lemma interrupted_recovers:
  "fst (recover_runtime machine_env sample_manager (pending_disk ''J'')) = Inr None"
  by code_simp

lemma committed_recovers:
  "fst (recover_runtime machine_env sample_manager (pending_disk ''C'')) =
     Inr (Some \<lparr>ir_version = ''1.2.3'', ir_service_binary = sample_binary\<rparr>)"
  by code_simp

text \<open>
  One recovery of the installation that was not committed, and one of the same installation behind
  its commit.
\<close>

lemma recovered_runtime_is_bound_witness:
  "(\<exists>d'. recover_runtime machine_env sample_manager (pending_disk ''J'') = (Inr None, d')
     \<and> sd_service_image (pending_disk ''J'') = Some sample_binary \<and> sd_service_image d' = None
     \<and> pointer_is machine_env d' None)
   \<and> (\<exists>d' r. recover_runtime machine_env sample_manager (pending_disk ''C'') = (Inr (Some r), d')
     \<and> sd_service_image d' = Some sample_binary \<and> generation_holds machine_env d' ''1.2.3'')"
proof
  have blind: "sd_blind (pending_disk j) = []" for j by (simp add: pending_disk_def)
  have pending: "node_at (pending_disk ''J'') (runtime_activation_path machine_env) \<noteq> None"
    "node_at (pending_disk ''C'') (runtime_activation_path machine_env) \<noteq> None" by code_simp+
  note bound = recovered_runtime_is_bound [OF sample_layout sample_pointer_codec sample_manager_exact blind]
  obtain d' where run: "recover_runtime machine_env sample_manager (pending_disk ''J'') = (Inr None, d')"
    using interrupted_recovers by (metis prod.collapse)
  from bound [OF pending(1) run] run
  show "\<exists>d'. recover_runtime machine_env sample_manager (pending_disk ''J'') = (Inr None, d')
     \<and> sd_service_image (pending_disk ''J'') = Some sample_binary \<and> sd_service_image d' = None
     \<and> pointer_is machine_env d' None" by (auto simp: pending_disk_def)
  obtain d' where run: "recover_runtime machine_env sample_manager (pending_disk ''C'')
      = (Inr (Some \<lparr>ir_version = ''1.2.3'', ir_service_binary = sample_binary\<rparr>), d')"
    using committed_recovers by (metis prod.collapse)
  from bound [OF pending(2) run] run
  show "\<exists>d' r. recover_runtime machine_env sample_manager (pending_disk ''C'') = (Inr (Some r), d')
     \<and> sd_service_image d' = Some sample_binary \<and> generation_holds machine_env d' ''1.2.3''" by auto
qed

end
