(* ===== verification/File_Health.thy ===== *)
theory File_Health
  imports Setup_Storage Health_Json
begin

text \<open>
  The persisted health snapshot of the service host (\<open>host/src/file_health.rs\<close>): a validated report is
  written beside its file and replaces it, after the remains of interrupted writers were removed; the
  reader accepts only a bounded, well-formed and valid report.  The disk is the one of the setup
  program with its faults; an error is the kind of the \<open>io::Error\<close>.
\<close>

definition MAX_HEALTH_SNAPSHOT_BYTES :: nat where "MAX_HEALTH_SNAPSHOT_BYTES = 16 * 1024"
definition MAX_SERVICE_ROOT_ENTRIES :: nat where "MAX_SERVICE_ROOT_ENTRIES = 4096"
definition HEALTH_TEMP_PREFIX :: string where "HEALTH_TEMP_PREFIX = ''.health.json.new-''"

definition invalid_snapshot :: "'a setup_op" where
  "invalid_snapshot = sraise (SetupIo IoInvalidData)"

text \<open>The reparse check of the host answers with invalid data where the setup names the path.\<close>

definition reject_health_reparse :: "path \<Rightarrow> unit setup_op" where
  "reject_health_reparse p =
     map_error (\<lambda>e. case e of ReparsePoint _ \<Rightarrow> SetupIo IoInvalidData | _ \<Rightarrow> e) (reject_reparse_ancestors p)"

definition read_bounded_snapshot :: "path \<Rightarrow> string setup_op" where
  "read_bounded_snapshot p =
     sbind (fs_read_limited p (MAX_HEALTH_SNAPSHOT_BYTES + 1)) (\<lambda>bytes.
     if bytes = [] \<or> MAX_HEALTH_SNAPSHOT_BYTES < length bytes then invalid_snapshot else sret bytes)"

definition read_health :: "(string \<Rightarrow> json option) \<Rightarrow> path \<Rightarrow> health_report setup_op" where
  "read_health parse p =
     sbind (reject_health_reparse p) (\<lambda>_.
     sbind (fs_open_read p) (\<lambda>_.
     sbind (fs_handle_metadata p) (\<lambda>(reparse, metadata).
     if reparse \<or> (case node_length metadata of None \<Rightarrow> True
                    | Some n \<Rightarrow> n = 0 \<or> MAX_HEALTH_SNAPSHOT_BYTES < n)
     then invalid_snapshot
     else sbind (read_bounded_snapshot p) (\<lambda>bytes.
          case Option.bind (parse bytes) report_of_json of
            None \<Rightarrow> invalid_snapshot
          | Some report \<Rightarrow> (case validate_report report of
              Inl _ \<Rightarrow> invalid_snapshot | Inr _ \<Rightarrow> sret report)))))"

section \<open>Publishing\<close>

fun collect_root_entries :: "string list \<Rightarrow> string list \<Rightarrow> string list setup_op" where
  "collect_root_entries [] entries = sret entries"
| "collect_root_entries (name # names) entries =
     (if length entries = MAX_SERVICE_ROOT_ENTRIES then invalid_snapshot
      else sbind fs_next_entry (\<lambda>_. collect_root_entries names (entries @ [name])))"

definition owned_health_residue :: "string \<Rightarrow> bool" where
  "owned_health_residue name \<longleftrightarrow>
     (case strip_prefix name HEALTH_TEMP_PREFIX of
        None \<Rightarrow> False
      | Some suffix \<Rightarrow>
          (let parts = split_on (CHR ''-'') suffix
           in length parts = 3 \<and> list_all (\<lambda>part. part \<noteq> [] \<and> list_all is_ascii_digit part) parts))"

fun removable_residue :: "path \<Rightarrow> string list \<Rightarrow> path list \<Rightarrow> path list setup_op" where
  "removable_residue parent [] removable = sret removable"
| "removable_residue parent (name # names) removable =
     (if \<not> owned_health_residue name then removable_residue parent names removable
      else (let p = path_join parent name
            in sbind (reject_health_reparse p) (\<lambda>_.
               sbind (fs_metadata p) (\<lambda>metadata.
               if (case node_length metadata of None \<Rightarrow> True | Some n \<Rightarrow> MAX_HEALTH_SNAPSHOT_BYTES < n)
               then invalid_snapshot
               else removable_residue parent names (removable @ [p])))))"

definition cleanup_owned_staging :: "path \<Rightarrow> unit setup_op" where
  "cleanup_owned_staging parent =
     sbind (fs_names parent) (\<lambda>names.
     sbind (collect_root_entries names []) (\<lambda>entries.
     sbind (removable_residue parent entries []) (\<lambda>removable.
     sfor removable fs_remove_file)))"

definition health_temporary_name :: "string \<Rightarrow> string" where
  "health_temporary_name nonce = HEALTH_TEMP_PREFIX @ nonce"

definition health_bytes :: "(json \<Rightarrow> string) \<Rightarrow> health_report \<Rightarrow> string" where
  "health_bytes print report = print (report_to_json report) @ [char_of (10 :: nat)]"

definition publish_health :: "(json \<Rightarrow> string) \<Rightarrow> path \<Rightarrow> health_report \<Rightarrow> unit setup_op" where
  "publish_health print p report =
     (case validate_report report of
        Inl _ \<Rightarrow> invalid_snapshot
      | Inr _ \<Rightarrow>
          (let bytes = health_bytes print report
           in if MAX_HEALTH_SNAPSHOT_BYTES < length bytes then invalid_snapshot
              else (case path_parent p of
                      None \<Rightarrow> sraise (SetupIo IoInvalidInput)
                    | Some parent \<Rightarrow>
                        sbind (reject_health_reparse parent) (\<lambda>_.
                        sbind (fs_create_dir_all parent) (\<lambda>_.
                        sbind (reject_health_reparse p) (\<lambda>_.
                        sbind (cleanup_owned_staging parent) (\<lambda>_.
                        sbind temporary_nonce (\<lambda>nonce.
                        let temporary = path_join parent (health_temporary_name nonce)
                        in sbind (attempt (write_and_replace temporary p bytes)) (\<lambda>result.
                           case result of
                             Inl e \<Rightarrow> sbind (attempt (fs_remove_file temporary)) (\<lambda>_. sraise e)
                           | Inr _ \<Rightarrow> sret ())))))))))"

text \<open>The persisted snapshot first, then the live status.\<close>

type_synonym health_publisher = "health_report \<Rightarrow> unit setup_op"

definition composite_publish :: "health_publisher \<Rightarrow> health_publisher \<Rightarrow> health_publisher" where
  "composite_publish live persisted report = sbind (persisted report) (\<lambda>_. live report)"

end
