(* ===== verification/Unicode_Text.thy ===== *)
theory Unicode_Text
  imports Prelude
begin

text \<open>
  Text as the profile editor of the desktop application sees it: a Rust \<open>str\<close> as the list of its
  Unicode scalar values, with the operations of the standard library the sources call, and its two
  encodings.  Bytes stay HOL strings as everywhere else.
\<close>

type_synonym utext = "nat list"

text \<open>A text literal of the sources.\<close>

definition chars :: "string \<Rightarrow> utext" where
  "chars = map of_char"

section \<open>Characters and slices\<close>

definition is_scalar :: "nat \<Rightarrow> bool" where
  "is_scalar c \<longleftrightarrow> c < 0xD800 \<or> 0xE000 \<le> c \<and> c < 0x110000"

text \<open>The property \<open>White_Space\<close> of Unicode (\<open>char::is_whitespace\<close>).\<close>

definition is_white_space :: "nat \<Rightarrow> bool" where
  "is_white_space c \<longleftrightarrow> 9 \<le> c \<and> c \<le> 13 \<or> c \<in> {0x20, 0x85, 0xA0, 0x1680, 0x2028, 0x2029, 0x202F, 0x205F, 0x3000}
     \<or> 0x2000 \<le> c \<and> c \<le> 0x200A"

text \<open>\<open>char::is_control\<close>: the general category Cc.\<close>

definition is_control :: "nat \<Rightarrow> bool" where
  "is_control c \<longleftrightarrow> c < 0x20 \<or> 0x7F \<le> c \<and> c < 0xA0"

definition text_trim_start :: "utext \<Rightarrow> utext" where
  "text_trim_start = dropWhile is_white_space"

definition trim_end_matches :: "(nat \<Rightarrow> bool) \<Rightarrow> utext \<Rightarrow> utext" where
  "trim_end_matches P s = rev (dropWhile P (rev s))"

definition text_trim_end :: "utext \<Rightarrow> utext" where
  "text_trim_end = trim_end_matches is_white_space"

definition text_trim :: "utext \<Rightarrow> utext" where
  "text_trim s = text_trim_end (text_trim_start s)"

definition trim_matches :: "(nat \<Rightarrow> bool) \<Rightarrow> utext \<Rightarrow> utext" where
  "trim_matches P s = trim_end_matches P (dropWhile P s)"

definition ascii_lower :: "nat \<Rightarrow> nat" where
  "ascii_lower c = (if 65 \<le> c \<and> c \<le> 90 then c + 32 else c)"

definition same_ignoring_case :: "utext \<Rightarrow> utext \<Rightarrow> bool" where
  "same_ignoring_case s t \<longleftrightarrow> map ascii_lower s = map ascii_lower t"

text \<open>\<open>str::split\<close> on a predicate over characters: one piece more than there are separators.\<close>

fun split_pieces :: "(nat \<Rightarrow> bool) \<Rightarrow> utext \<Rightarrow> utext list" where
  "split_pieces P [] = [[]]"
| "split_pieces P (c # cs) =
     (if P c then [] # split_pieces P cs
      else case split_pieces P cs of [] \<Rightarrow> [[c]] | piece # pieces \<Rightarrow> (c # piece) # pieces)"

text \<open>\<open>str::lines\<close>: what lies between line feeds, without a carriage return before one.\<close>

definition strip_cr :: "utext \<Rightarrow> utext" where
  "strip_cr s = (if s \<noteq> [] \<and> List.last s = 13 then butlast s else s)"

definition text_lines :: "utext \<Rightarrow> utext list" where
  "text_lines s =
     (let pieces = split_pieces (\<lambda>c. c = 10) s;
          rear = List.last pieces
      in map strip_cr (butlast pieces) @ (if rear = [] then [] else [rear]))"

section \<open>Integers in text\<close>

definition digit_value :: "nat \<Rightarrow> nat \<Rightarrow> nat option" where
  "digit_value radix c =
     (let v = (if 48 \<le> c \<and> c \<le> 57 then c - 48
               else if 97 \<le> c \<and> c \<le> 122 then c - 87
               else if 65 \<le> c \<and> c \<le> 90 then c - 55 else radix)
      in if v < radix then Some v else None)"

fun digits_value :: "nat \<Rightarrow> nat \<Rightarrow> utext \<Rightarrow> nat option" where
  "digits_value radix acc [] = Some acc"
| "digits_value radix acc (c # cs) =
     (case digit_value radix c of None \<Rightarrow> None | Some v \<Rightarrow> digits_value radix (acc * radix + v) cs)"

definition some_digits :: "nat \<Rightarrow> utext \<Rightarrow> nat option" where
  "some_digits radix s = (if s = [] then None else digits_value radix 0 s)"

text \<open>\<open>str::parse::<i32>\<close> and \<open>u32::from_str_radix\<close>.\<close>

definition parse_i32 :: "utext \<Rightarrow> int option" where
  "parse_i32 s =
     (case s of
        [] \<Rightarrow> None
      | c # cs \<Rightarrow>
          (let (negative, ds) = (if c = 45 then (True, cs) else if c = 43 then (False, cs) else (False, s))
           in case some_digits 10 ds of
                None \<Rightarrow> None
              | Some n \<Rightarrow>
                  (let v = (if negative then - int n else int n)
                   in if - 2147483648 \<le> v \<and> v \<le> 2147483647 then Some v else None)))"

definition parse_u32_radix :: "nat \<Rightarrow> utext \<Rightarrow> nat option" where
  "parse_u32_radix radix s =
     (case s of
        [] \<Rightarrow> None
      | c # cs \<Rightarrow>
          (case some_digits radix (if c = 43 then cs else s) of
             None \<Rightarrow> None | Some n \<Rightarrow> if n < 2 ^ 32 then Some n else None))"

definition show_int :: "int \<Rightarrow> utext" where
  "show_int i = (if i < 0 then 45 # chars (show_nat (nat (- i))) else chars (show_nat (nat i)))"

text \<open>The format \<open>{:06X}\<close>.\<close>

fun upper_hex :: "nat \<Rightarrow> utext" where
  "upper_hex n =
     (let digit = (\<lambda>d. if d < 10 then 48 + d else 55 + d)
      in if n < 16 then [digit n] else upper_hex (n div 16) @ [digit (n mod 16)])"

declare upper_hex.simps [simp del]

definition show_hex6 :: "nat \<Rightarrow> utext" where
  "show_hex6 n = (let s = upper_hex n in replicate (6 - length s) 48 @ s)"

text \<open>\<open>[String]::join\<close>.\<close>

fun join_text :: "utext \<Rightarrow> utext list \<Rightarrow> utext" where
  "join_text separator [] = []"
| "join_text separator [s] = s"
| "join_text separator (s # t # ss) = s @ separator @ join_text separator (t # ss)"

section \<open>UTF-8\<close>

definition byte_values :: "string \<Rightarrow> nat list" where
  "byte_values = map of_char"

definition string_of :: "nat list \<Rightarrow> string" where
  "string_of = map char_of"

definition utf8_scalar :: "nat \<Rightarrow> nat list" where
  "utf8_scalar c =
     (if c < 0x80 then [c]
      else if c < 0x800 then [0xC0 + c div 64, 0x80 + c mod 64]
      else if c < 0x10000 then [0xE0 + c div 4096, 0x80 + c div 64 mod 64, 0x80 + c mod 64]
      else [0xF0 + c div 262144, 0x80 + c div 4096 mod 64, 0x80 + c div 64 mod 64, 0x80 + c mod 64])"

definition utf8_encode :: "utext \<Rightarrow> string" where
  "utf8_encode s = string_of (concat (map utf8_scalar s))"

definition is_continuation :: "nat \<Rightarrow> bool" where
  "is_continuation b \<longleftrightarrow> 0x80 \<le> b \<and> b < 0xC0"

text \<open>A sequence of more than one byte: the scalar, which must need all of them.\<close>

definition utf8_multi :: "nat \<Rightarrow> nat list \<Rightarrow> nat option" where
  "utf8_multi lead bs =
     (if \<not> list_all is_continuation bs then None
      else (let c = foldl (\<lambda>c b. c * 64 + b mod 64) lead bs
            in if is_scalar c \<and> (if length bs = 1 then 0x80 \<le> c else if length bs = 2 then 0x800 \<le> c
                                 else 0x10000 \<le> c)
               then Some c else None))"

fun utf8_decode_bytes :: "nat list \<Rightarrow> utext option" where
  "utf8_decode_bytes [] = Some []"
| "utf8_decode_bytes (b # bs) =
     (if b < 0x80 then map_option (Cons b) (utf8_decode_bytes bs)
      else (let (lead, n) = (if 0xC0 \<le> b \<and> b < 0xE0 then (b mod 32, 1)
                             else if 0xE0 \<le> b \<and> b < 0xF0 then (b mod 16, 2)
                             else if 0xF0 \<le> b \<and> b < 0xF8 then (b mod 8, 3) else (0, 0))
            in if n = 0 \<or> length bs < n then None
               else case utf8_multi lead (take n bs) of
                      None \<Rightarrow> None
                    | Some c \<Rightarrow> map_option (Cons c) (utf8_decode_bytes (drop n bs))))"

text \<open>\<open>String::from_utf8\<close>.\<close>

definition from_utf8 :: "string \<Rightarrow> utext option" where
  "from_utf8 bytes = utf8_decode_bytes (byte_values bytes)"

section \<open>UTF-16\<close>

definition utf16_scalar :: "nat \<Rightarrow> nat list" where
  "utf16_scalar c =
     (if c < 0x10000 then [c] else [0xD800 + (c - 0x10000) div 0x400, 0xDC00 + (c - 0x10000) mod 0x400])"

definition encode_utf16 :: "utext \<Rightarrow> nat list" where
  "encode_utf16 s = concat (map utf16_scalar s)"

text \<open>\<open>String::from_utf16\<close>: a surrogate that is not the first of a pair is an error.\<close>

fun from_utf16 :: "nat list \<Rightarrow> utext option" where
  "from_utf16 [] = Some []"
| "from_utf16 (u # us) =
     (if u < 0xD800 \<or> 0xE000 \<le> u then map_option (Cons u) (from_utf16 us)
      else if 0xDC00 \<le> u then None
      else (case us of
              [] \<Rightarrow> None
            | v # vs \<Rightarrow>
                if 0xDC00 \<le> v \<and> v < 0xE000
                then map_option (Cons (0x10000 + (u - 0xD800) * 0x400 + (v - 0xDC00))) (from_utf16 vs)
                else None))"

text \<open>\<open>u16::from_le_bytes\<close> and \<open>from_be_bytes\<close> over chunks of two, and back.\<close>

fun units_of :: "bool \<Rightarrow> nat list \<Rightarrow> nat list" where
  "units_of little (a # b # bs) = (if little then a + 256 * b else 256 * a + b) # units_of little bs"
| "units_of little bs = []"

definition unit_bytes :: "bool \<Rightarrow> nat \<Rightarrow> nat list" where
  "unit_bytes little u = (if little then [u mod 256, u div 256] else [u div 256, u mod 256])"

section \<open>Round trips of the encodings\<close>

lemma bytes_of_string_of: "list_all (\<lambda>b. b < 256) bs \<Longrightarrow> byte_values (string_of bs) = bs"
  by (induction bs) (simp_all add: byte_values_def string_of_def)

lemma string_of_bytes_of [simp]: "string_of (byte_values s) = s"
  by (induction s) (simp_all add: byte_values_def string_of_def)

lemma bytes_of_bounded: "list_all (\<lambda>b. b < 256) (byte_values s)"
  by (induction s) (simp_all add: byte_values_def)

lemma utf8_scalar_bounded: "is_scalar c \<Longrightarrow> list_all (\<lambda>b. b < 256) (utf8_scalar c)"
  by (auto simp: utf8_scalar_def is_scalar_def)

text \<open>The three lengths of a sequence, each with its scalar.\<close>

lemma utf8_multi_1:
  "utf8_multi lead [b] = (let c = lead * 64 + b mod 64 in
     if is_continuation b \<and> is_scalar c \<and> 0x80 \<le> c then Some c else None)"
  by (simp add: utf8_multi_def Let_def)

lemma utf8_multi_2:
  "utf8_multi lead [b, b'] = (let c = (lead * 64 + b mod 64) * 64 + b' mod 64 in
     if is_continuation b \<and> is_continuation b' \<and> is_scalar c \<and> 0x800 \<le> c then Some c else None)"
  by (simp add: utf8_multi_def Let_def)

lemma utf8_multi_3:
  "utf8_multi lead [b, b', b''] = (let c = ((lead * 64 + b mod 64) * 64 + b' mod 64) * 64 + b'' mod 64 in
     if is_continuation b \<and> is_continuation b' \<and> is_continuation b'' \<and> is_scalar c \<and> 0x10000 \<le> c
     then Some c else None)"
  by (simp add: utf8_multi_def Let_def)

lemma continuation_byte: "is_continuation (0x80 + x mod 64)" "(0x80 + x mod 64) mod 64 = x mod (64 :: nat)"
  by (simp_all add: is_continuation_def mod_add_eq [of 128, symmetric])

lemma split_scalar:
  fixes c :: nat
  shows "c div 64 * 64 + c mod 64 = c" and "c div 4096 * 64 + c div 64 mod 64 = c div 64"
    and "c div 262144 * 64 + c div 4096 mod 64 = c div 4096"
  using div_mult_mod_eq [of c 64] div_mult_mod_eq [of "c div 64" 64] div_mult_mod_eq [of "c div 4096" 64]
  by (simp_all add: div_mult2_eq [symmetric])

lemma lead_byte:
  "x < 32 \<Longrightarrow> (0xC0 + x) mod 32 = (x :: nat)" "x < 16 \<Longrightarrow> (0xE0 + x) mod 16 = (x :: nat)"
  "x < 8 \<Longrightarrow> (0xF0 + x) mod 8 = (x :: nat)"
  using mod_mult_self3 [of 6 32 x] mod_mult_self3 [of 14 16 x] mod_mult_self3 [of 30 8 x] by simp_all

lemma utf8_decode_1:
  "0xC0 \<le> b \<Longrightarrow> b < 0xE0 \<Longrightarrow> utf8_decode_bytes (b # b1 # bs)
     = (case utf8_multi (b mod 32) [b1] of None \<Rightarrow> None | Some c \<Rightarrow> map_option (Cons c) (utf8_decode_bytes bs))"
  by (simp split: option.split)

lemma utf8_decode_2:
  "0xE0 \<le> b \<Longrightarrow> b < 0xF0 \<Longrightarrow> utf8_decode_bytes (b # b1 # b2 # bs)
     = (case utf8_multi (b mod 16) [b1, b2] of None \<Rightarrow> None | Some c \<Rightarrow> map_option (Cons c) (utf8_decode_bytes bs))"
  by (simp add: numeral_2_eq_2 split: option.split)

lemma utf8_decode_3:
  "0xF0 \<le> b \<Longrightarrow> b < 0xF8 \<Longrightarrow> utf8_decode_bytes (b # b1 # b2 # b3 # bs)
     = (case utf8_multi (b mod 8) [b1, b2, b3] of None \<Rightarrow> None | Some c \<Rightarrow> map_option (Cons c) (utf8_decode_bytes bs))"
  by (simp add: numeral_3_eq_3 split: option.split)

lemma utf8_decode_scalar:
  assumes "is_scalar c"
  shows "utf8_decode_bytes (utf8_scalar c @ bs) = map_option (Cons c) (utf8_decode_bytes bs)"
proof -
  consider "c < 0x80" | "0x80 \<le> c" "c < 0x800" | "0x800 \<le> c" "c < 0x10000" | "0x10000 \<le> c" by linarith
  then show ?thesis
  proof cases
    case 2
    then have lead: "c div 64 < 32" by auto
    have "utf8_scalar c @ bs = (0xC0 + c div 64) # (0x80 + c mod 64) # bs" using 2 by (simp add: utf8_scalar_def)
    moreover have "utf8_multi (c div 64) [0x80 + c mod 64] = Some c"
      using 2 assms by (simp only: utf8_multi_1 continuation_byte split_scalar Let_def) simp
    ultimately show ?thesis using lead by (simp only: utf8_decode_1 lead_byte) simp
  next
    case 3
    then have lead: "c div 4096 < 16" by auto
    have "utf8_scalar c @ bs = (0xE0 + c div 4096) # (0x80 + c div 64 mod 64) # (0x80 + c mod 64) # bs"
      using 3 by (simp add: utf8_scalar_def)
    moreover have "utf8_multi (c div 4096) [0x80 + c div 64 mod 64, 0x80 + c mod 64] = Some c"
      using 3 assms by (simp only: utf8_multi_2 continuation_byte split_scalar Let_def) simp
    ultimately show ?thesis using lead by (simp only: utf8_decode_2 lead_byte) simp
  next
    case 4
    then have lead: "c div 262144 < 8" using assms by (auto simp: is_scalar_def)
    have "utf8_scalar c @ bs
        = (0xF0 + c div 262144) # (0x80 + c div 4096 mod 64) # (0x80 + c div 64 mod 64) # (0x80 + c mod 64) # bs"
      using 4 by (simp add: utf8_scalar_def)
    moreover have "utf8_multi (c div 262144) [0x80 + c div 4096 mod 64, 0x80 + c div 64 mod 64, 0x80 + c mod 64] = Some c"
      using 4 assms by (simp only: utf8_multi_3 continuation_byte split_scalar Let_def) simp
    ultimately show ?thesis using lead by (simp only: utf8_decode_3 lead_byte) simp
  qed (simp add: utf8_scalar_def)
qed

lemma utf8_decode_encode: "list_all is_scalar s \<Longrightarrow> utf8_decode_bytes (concat (map utf8_scalar s)) = Some s"
  by (induction s) (simp_all add: utf8_decode_scalar)

text \<open>The converse: only the shortest encoding of a scalar is accepted.\<close>

lemma continuation_split:
  assumes "is_continuation b"
  shows "\<exists>y < 64. b = 0x80 + y \<and> b mod 64 = y"
  using assms mod_mult_self3 [of 2 64 "b - 0x80"]
  by (intro exI [of _ "b - 0x80"]) (auto simp: is_continuation_def)

lemma base64: "z < 64 \<Longrightarrow> (a * 64 + z) div 64 = a \<and> (a * 64 + z) mod 64 = (z :: nat)"
  by simp

lemma utf8_unmulti_1:
  assumes "0xC0 \<le> b" "b < 0xE0" and "utf8_multi (b mod 32) [b1] = Some c"
  shows "utf8_scalar c = [b, b1] \<and> is_scalar c"
proof -
  obtain x where b: "b = 0xC0 + x" "x < 32" using le_Suc_ex [OF assms(1)] assms(2) by auto
  have c: "is_continuation b1" "c = x * 64 + b1 mod 64" "0x80 \<le> c" "is_scalar c"
    using assms(3) b by (auto simp: utf8_multi_1 lead_byte Let_def split: if_splits)
  obtain y where y: "y < 64" "b1 = 0x80 + y" "b1 mod 64 = y" using continuation_split [OF c(1)] by blast
  have "c div 64 = x" "c mod 64 = y" "c < 0x800" using c(2) y b(2) by auto
  then show ?thesis using c b y by (simp add: utf8_scalar_def)
qed

lemma utf8_unmulti_2:
  assumes "0xE0 \<le> b" "b < 0xF0" and "utf8_multi (b mod 16) [b1, b2] = Some c"
  shows "utf8_scalar c = [b, b1, b2] \<and> is_scalar c"
proof -
  obtain x where b: "b = 0xE0 + x" "x < 16" using le_Suc_ex [OF assms(1)] assms(2) by auto
  have c: "is_continuation b1" "is_continuation b2" "c = (x * 64 + b1 mod 64) * 64 + b2 mod 64" "0x800 \<le> c" "is_scalar c"
    using assms(3) b by (auto simp: utf8_multi_2 lead_byte Let_def split: if_splits)
  obtain y where y: "y < 64" "b1 = 0x80 + y" "b1 mod 64 = y" using continuation_split [OF c(1)] by blast
  obtain z where z: "z < 64" "b2 = 0x80 + z" "b2 mod 64 = z" using continuation_split [OF c(2)] by blast
  have e: "c = (x * 64 + y) * 64 + z" using c(3) y(3) z(3) by simp
  have 1: "c div 64 = x * 64 + y" "c mod 64 = z" unfolding e using base64 [OF z(1)] by blast+
  moreover have "c < 0x10000" using e y(1) z(1) b(2) by simp
  moreover have "c div 4096 = x" "c div 64 mod 64 = y"
    using base64 [OF y(1)] 1(1) div_mult2_eq [of c 64 64] by simp_all
  ultimately show ?thesis using c b y z by (simp add: utf8_scalar_def)
qed

lemma utf8_unmulti_3:
  assumes "0xF0 \<le> b" "b < 0xF8" and "utf8_multi (b mod 8) [b1, b2, b3] = Some c"
  shows "utf8_scalar c = [b, b1, b2, b3] \<and> is_scalar c"
proof -
  obtain x where b: "b = 0xF0 + x" "x < 8" using le_Suc_ex [OF assms(1)] assms(2) by auto
  have c: "is_continuation b1" "is_continuation b2" "is_continuation b3"
    "c = ((x * 64 + b1 mod 64) * 64 + b2 mod 64) * 64 + b3 mod 64" "0x10000 \<le> c" "is_scalar c"
    using assms(3) b by (auto simp: utf8_multi_3 lead_byte Let_def split: if_splits)
  obtain y where y: "y < 64" "b1 = 0x80 + y" "b1 mod 64 = y" using continuation_split [OF c(1)] by blast
  obtain z where z: "z < 64" "b2 = 0x80 + z" "b2 mod 64 = z" using continuation_split [OF c(2)] by blast
  obtain w where w: "w < 64" "b3 = 0x80 + w" "b3 mod 64 = w" using continuation_split [OF c(3)] by blast
  have e: "c = ((x * 64 + y) * 64 + z) * 64 + w" using c(4) y(3) z(3) w(3) by simp
  have 1: "c div 64 = (x * 64 + y) * 64 + z" "c mod 64 = w" unfolding e using base64 [OF w(1)] by blast+
  have 2: "c div 4096 = x * 64 + y" "c div 64 mod 64 = z"
    using base64 [OF z(1), of "x * 64 + y"] 1(1) div_mult2_eq [of c 64 64] by simp_all
  have "c div 262144 = x" "c div 4096 mod 64 = y"
    using base64 [OF y(1), of x] 2(1) div_mult2_eq [of c 4096 64] by simp_all
  with 1 2 show ?thesis using c b y z w by (simp add: utf8_scalar_def)
qed

lemma utf8_encode_decode:
  assumes "utf8_decode_bytes bs = Some s"
  shows "concat (map utf8_scalar s) = bs \<and> list_all is_scalar s"
  using assms
proof (induction bs arbitrary: s rule: utf8_decode_bytes.induct)
  case (2 b bs)
  show ?case
  proof (cases "b < 0x80")
    case True
    then obtain t where "utf8_decode_bytes bs = Some t" "s = b # t" using "2.prems" by auto
    with True 2(1) show ?thesis by (simp add: utf8_scalar_def is_scalar_def)
  next
    case False
    obtain lead n :: nat where n: "(lead, n) = (if 0xC0 \<le> b \<and> b < 0xE0 then (b mod 32, 1)
          else if 0xE0 \<le> b \<and> b < 0xF0 then (b mod 16, 2) else if 0xF0 \<le> b \<and> b < 0xF8 then (b mod 8, 3) else (0, 0))"
      by (rule that [OF prod.collapse])
    then obtain c t where len: "n \<noteq> 0" "n \<le> length bs" and c: "utf8_multi lead (take n bs) = Some c"
      and t: "utf8_decode_bytes (drop n bs) = Some t" "s = c # t"
      using "2.prems" False unfolding utf8_decode_bytes.simps n [symmetric]
      by (auto split: if_splits option.splits)
    have IH: "concat (map utf8_scalar t) = drop n bs \<and> list_all is_scalar t"
      using 2(2) [OF False n refl _ c t(1)] len by auto
    have "utf8_scalar c = b # take n bs \<and> is_scalar c"
    proof -
      have "(n = 1 \<and> 0xC0 \<le> b \<and> b < 0xE0 \<and> lead = b mod 32) \<or> (n = 2 \<and> 0xE0 \<le> b \<and> b < 0xF0 \<and> lead = b mod 16)
          \<or> (n = 3 \<and> 0xF0 \<le> b \<and> b < 0xF8 \<and> lead = b mod 8)"
        using n len(1) by (auto split: if_splits)
      then consider "n = 1" "0xC0 \<le> b" "b < 0xE0" "lead = b mod 32" | "n = 2" "0xE0 \<le> b" "b < 0xF0" "lead = b mod 16"
        | "n = 3" "0xF0 \<le> b" "b < 0xF8" "lead = b mod 8" by blast
      then show ?thesis
      proof cases
        case 1
        then obtain b1 where "take n bs = [b1]" using len(2) by (cases bs) auto
        then show ?thesis using utf8_unmulti_1 1 c by simp
      next
        case 2
        then obtain b1 b2 where "take n bs = [b1, b2]"
          using len(2) by (cases bs; cases "tl bs") (auto simp: numeral_2_eq_2)
        then show ?thesis using utf8_unmulti_2 2 c by simp
      next
        case 3
        then obtain b1 b2 b3 where "take n bs = [b1, b2, b3]"
          using len(2) by (cases bs; cases "tl bs"; cases "tl (tl bs)") (auto simp: numeral_3_eq_3)
        then show ?thesis using utf8_unmulti_3 3 c by simp
      qed
    qed
    with IH t show ?thesis by simp
  qed
qed simp

lemma from_utf8_encode: "list_all is_scalar s \<Longrightarrow> from_utf8 (utf8_encode s) = Some s"
proof -
  assume s: "list_all is_scalar s"
  have "list_all (\<lambda>b. b < 256) (concat (map utf8_scalar s))"
    using s utf8_scalar_bounded by (induction s) simp_all
  then show ?thesis by (simp add: from_utf8_def utf8_encode_def bytes_of_string_of utf8_decode_encode [OF s])
qed

lemma utf8_encode_from: "from_utf8 bytes = Some s \<Longrightarrow> utf8_encode s = bytes \<and> list_all is_scalar s"
  by (auto simp: from_utf8_def utf8_encode_def dest!: utf8_encode_decode)

lemma pair_split:
  assumes "y < 0x400"
  shows "(x * 0x400 + y) div 0x400 = x" and "(x * 0x400 + y) mod 0x400 = (y :: nat)"
  using assms by simp_all

lemma encode_utf16_from:
  assumes "from_utf16 us = Some s" and "list_all (\<lambda>u. u < 0x10000) us"
  shows "encode_utf16 s = us \<and> list_all is_scalar s"
  using assms
proof (induction us arbitrary: s rule: from_utf16.induct)
  case (2 u us)
  show ?case
  proof (cases "u < 0xD800 \<or> 0xE000 \<le> u")
    case True
    then show ?thesis using 2 by (auto simp: encode_utf16_def utf16_scalar_def is_scalar_def)
  next
    case False
    then obtain v vs t where v: "us = v # vs" "0xDC00 \<le> v" "v < 0xE000" "u < 0xDC00"
      and t: "from_utf16 vs = Some t" "s = (0x10000 + (u - 0xD800) * 0x400 + (v - 0xDC00)) # t"
      using "2.prems" by (auto split: if_splits list.splits)
    then have IH: "encode_utf16 t = vs \<and> list_all is_scalar t" using 2 False by auto
    obtain x where x: "u = 0xD800 + x" "x < 0x400" using False v(4) le_Suc_ex [of "0xD800" u] by auto
    obtain y where y: "v = 0xDC00 + y" "y < 0x400" using v le_Suc_ex [of "0xDC00" v] by auto
    have "utf16_scalar (0x10000 + x * 0x400 + y) = [u, v]"
      using x y pair_split [OF y(2), of x] by (simp add: utf16_scalar_def add.assoc del: mod_mult_self3 mod_mult_self1 div_mult_self1 div_mult_self3)
    moreover have "is_scalar (0x10000 + x * 0x400 + y)" using x y by (simp add: is_scalar_def)
    ultimately show ?thesis using IH t v x y by (simp add: encode_utf16_def)
  qed
qed (simp add: encode_utf16_def)

lemma from_utf16_encode:
  assumes "list_all is_scalar s"
  shows "from_utf16 (encode_utf16 s) = Some s"
  using assms
proof (induction s)
  case (Cons c s)
  show ?case
  proof (cases "c < 0x10000")
    case True
    then show ?thesis using Cons by (auto simp: encode_utf16_def utf16_scalar_def is_scalar_def)
  next
    case False
    then obtain d where d: "c = 0x10000 + d" "d < 0x100000"
      using Cons.prems le_Suc_ex [of "0x10000" c] by (auto simp: is_scalar_def)
    have "d div 0x400 < 0x400" using d(2) by auto
    moreover have "d div 0x400 * 0x400 + d mod 0x400 = d" by simp
    ultimately show ?thesis
      using Cons d by (simp add: encode_utf16_def utf16_scalar_def is_scalar_def)
  qed
qed (simp add: encode_utf16_def)

lemma encode_utf16_bounded: "list_all is_scalar s \<Longrightarrow> list_all (\<lambda>u. u < 0x10000) (encode_utf16 s)"
proof (induction s)
  case (Cons c s)
  have "list_all (\<lambda>u. u < 0x10000) (utf16_scalar c)"
    using Cons.prems by (auto simp: utf16_scalar_def is_scalar_def)
  then show ?case using Cons by (simp add: encode_utf16_def)
qed (simp add: encode_utf16_def)

lemma units_of_bytes:
  assumes "even (length bs)" and "list_all (\<lambda>b. b < 256) bs"
  shows "concat (map (unit_bytes little) (units_of little bs)) = bs
     \<and> list_all (\<lambda>u. u < 0x10000) (units_of little bs)"
  using assms
proof (induction little bs rule: units_of.induct)
  case (1 little a b bs)
  have "(256 * a + b) div 256 = a" "(256 * a + b) mod 256 = b" "(a + 256 * b) div 256 = b" "(a + 256 * b) mod 256 = a"
    using 1(3) by simp_all
  moreover have "256 * a + b < 0x10000" "a + 256 * b < 0x10000" using 1(3) by auto
  ultimately show ?case using 1 by (cases little) (simp_all add: unit_bytes_def)
qed simp_all

lemma bytes_of_units:
  assumes "list_all (\<lambda>u. u < 0x10000) us"
  shows "units_of little (concat (map (unit_bytes little) us)) = us
     \<and> even (length (concat (map (unit_bytes little) us)))
     \<and> list_all (\<lambda>b. b < 256) (concat (map (unit_bytes little) us))"
  using assms
proof (induction us)
  case (Cons u us)
  have "256 * (u div 256) + u mod 256 = u" by simp
  moreover have "u div 256 < 256" using Cons.prems by auto
  ultimately show ?case using Cons by (cases little) (simp_all add: unit_bytes_def)
qed simp

end
