(* ===== verification/Profile_Codec.thy ===== *)
theory Profile_Codec
  imports Unicode_Text
begin

text \<open>
  The encodings of a profile (\<open>control-center/src-tauri/src/profile/codec.rs\<close>): detecting and decoding,
  the score that decides between the legacy encodings, encoding, lines, and the encoding that keeps the
  bytes of unchanged legacy lines.

  The legacy codecs are those of the crate \<open>encoding_rs\<close>: parameters, without any assumption.  The
  Unicode encodings are those of the standard library.
\<close>

datatype text_encoding = Utf8 | Utf16Le | Utf16Be | EucKr | Gb18030 | Big5 | ShiftJis | Windows1252

datatype bom_kind = NoBom | BomUtf8 | BomUtf16Le | BomUtf16Be

datatype line_ending = CrLf | Lf | Cr

text \<open>
  The codecs of \<open>encoding_rs\<close>: decoding without replacement, encoding with whether it lost characters.
  The lowercase mapping of Unicode is a table of the standard library, kept as a function.
\<close>

record text_env =
  te_decode :: "text_encoding \<Rightarrow> string \<Rightarrow> utext option"
  te_encode :: "text_encoding \<Rightarrow> utext \<Rightarrow> string \<times> bool"
  te_lowercase :: "utext \<Rightarrow> utext"

section \<open>Decoding\<close>

definition is_legacy :: "text_encoding \<Rightarrow> bool" where
  "is_legacy encoding \<longleftrightarrow> encoding \<notin> {Utf8, Utf16Le, Utf16Be}"

definition SIMPLIFIED :: utext where
  "SIMPLIFIED =
     [31616, 20307, 27721, 35821, 37197, 32622, 35774, 32622, 40664, 35748, 21551, 29992, 20851,
      38381, 23383, 20307, 36827, 31243, 32531, 23384, 35797, 39564, 26435, 37325, 36807, 28388,
      38452, 24433]"

definition TRADITIONAL :: utext where
  "TRADITIONAL =
     [31777, 39636, 28450, 35486, 35373, 23450, 38928, 35373, 21855, 29992, 38364, 38281, 23383,
      22411, 31243, 24207, 24555, 21462, 35430, 39511, 27402, 37325, 36942, 28670, 38512, 24433]"

definition GB18030_AMBIGUITY_BIAS :: int where "GB18030_AMBIGUITY_BIAS = 75"

definition count_chars :: "(nat \<Rightarrow> bool) \<Rightarrow> utext \<Rightarrow> int" where
  "count_chars P s = int (length (filter P s))"

definition is_hangul :: "nat \<Rightarrow> bool" where "is_hangul c \<longleftrightarrow> 0xAC00 \<le> c \<and> c \<le> 0xD7AF"
definition is_kana :: "nat \<Rightarrow> bool" where "is_kana c \<longleftrightarrow> 0x3040 \<le> c \<and> c \<le> 0x30FF"
definition is_han :: "nat \<Rightarrow> bool" where "is_han c \<longleftrightarrow> 0x3400 \<le> c \<and> c \<le> 0x9FFF"

definition scored_section_line :: "utext \<Rightarrow> bool" where
  "scored_section_line line \<longleftrightarrow>
     (let line = text_trim line in line \<noteq> [] \<and> hd line = 91 \<and> List.last line = 93)"

definition legacy_score :: "utext \<Rightarrow> text_encoding \<Rightarrow> int" where
  "legacy_score s encoding =
     (let sections = int (length (filter scored_section_line (text_lines s)));
          assignments = int (length (filter (\<lambda>line. 61 \<in> set line) (text_lines s)));
          hangul = count_chars is_hangul s;
          kana = count_chars is_kana s;
          han = count_chars is_han s;
          non_ascii = count_chars (\<lambda>c. 128 \<le> c) s;
          controls = count_chars (\<lambda>c. is_control c \<and> c \<notin> {13, 10, 9}) s;
          simplified = count_chars (\<lambda>c. c \<in> set SIMPLIFIED) s;
          traditional = count_chars (\<lambda>c. c \<in> set TRADITIONAL) s;
          flag = (\<lambda>b. if b then 10 else 0);
          structure = sections * 100 + assignments * 12 - controls * 200
      in structure
         + (case encoding of
              Gb18030 \<Rightarrow> han * 3 + simplified * 18 - traditional * 3 - hangul * 12 - kana * 12
                + flag (0 < han) + GB18030_AMBIGUITY_BIAS
            | Big5 \<Rightarrow> han * 3 + traditional * 18 - simplified * 3 - hangul * 12 - kana * 12 + flag (0 < han)
            | ShiftJis \<Rightarrow> kana * 20 + han * 2 - hangul * 12 + flag (0 < kana)
            | EucKr \<Rightarrow> hangul * 20 + han - kana * 12 + flag (0 < hangul)
            | Windows1252 \<Rightarrow> - non_ascii * 8 - (hangul + kana + han) * 8
            | _ \<Rightarrow> 0))"

text \<open>A candidate must decode and give its bytes back.\<close>

definition legacy_candidate :: "text_env \<Rightarrow> string \<Rightarrow> text_encoding \<Rightarrow> (int \<times> utext \<times> text_encoding) option" where
  "legacy_candidate te bytes encoding =
     (case te_decode te encoding bytes of
        None \<Rightarrow> None
      | Some s \<Rightarrow>
          (let (round_trip, encode_errors) = te_encode te encoding s
           in if encode_errors \<or> round_trip \<noteq> bytes then None
              else Some (legacy_score s encoding, s, encoding)))"

definition legacy_candidates :: "text_encoding list" where
  "legacy_candidates = [Gb18030, Big5, ShiftJis, EucKr, Windows1252]"

text \<open>\<open>Iterator::max_by_key\<close>: the last of the largest.\<close>

fun max_by_score :: "(int \<times> 'a) list \<Rightarrow> (int \<times> 'a) option" where
  "max_by_score [] = None"
| "max_by_score (x # xs) =
     (case max_by_score xs of None \<Rightarrow> Some x | Some y \<Rightarrow> if fst x \<le> fst y then Some y else Some x)"

definition decode_legacy :: "text_env \<Rightarrow> string \<Rightarrow> (utext \<times> text_encoding) option" where
  "decode_legacy te bytes =
     map_option snd (max_by_score (List.map_filter (legacy_candidate te bytes) legacy_candidates))"

definition decode_units :: "bool \<Rightarrow> string \<Rightarrow> utext option" where
  "decode_units little body =
     (if odd (length body) then None else from_utf16 (units_of little (byte_values body)))"

definition decode :: "text_env \<Rightarrow> string \<Rightarrow> unit + utext \<times> text_encoding \<times> bom_kind" where
  "decode te bytes =
     (let found = (\<lambda>encoding bom decoded.
            case decoded of None \<Rightarrow> Err () | Some s \<Rightarrow> Ok (s, encoding, bom))
      in case strip_prefix bytes (string_of [0xEF, 0xBB, 0xBF]) of
           Some body \<Rightarrow> found Utf8 BomUtf8 (from_utf8 body)
         | None \<Rightarrow> (case strip_prefix bytes (string_of [0xFF, 0xFE]) of
             Some body \<Rightarrow> found Utf16Le BomUtf16Le (decode_units True body)
           | None \<Rightarrow> (case strip_prefix bytes (string_of [0xFE, 0xFF]) of
               Some body \<Rightarrow> found Utf16Be BomUtf16Be (decode_units False body)
             | None \<Rightarrow> (case from_utf8 bytes of
                 Some s \<Rightarrow> Ok (s, Utf8, NoBom)
               | None \<Rightarrow> (case decode_legacy te bytes of
                   None \<Rightarrow> Err () | Some (s, encoding) \<Rightarrow> Ok (s, encoding, NoBom))))))"

section \<open>Encoding\<close>

definition encode_bytes_16 :: "bool \<Rightarrow> utext \<Rightarrow> string" where
  "encode_bytes_16 little s = string_of (concat (map (unit_bytes little) (encode_utf16 s)))"

definition encode :: "text_env \<Rightarrow> utext \<Rightarrow> text_encoding \<Rightarrow> bom_kind \<Rightarrow> unit + string" where
  "encode te s encoding bom =
     (case encoding of
        Utf8 \<Rightarrow> Ok ((if bom = BomUtf8 then string_of [0xEF, 0xBB, 0xBF] else []) @ utf8_encode s)
      | Utf16Le \<Rightarrow> Ok ((if bom = BomUtf16Le then string_of [0xFF, 0xFE]
                       else if bom = BomUtf16Be then string_of [0xFE, 0xFF] else []) @ encode_bytes_16 True s)
      | Utf16Be \<Rightarrow> Ok ((if bom = BomUtf16Le then string_of [0xFF, 0xFE]
                       else if bom = BomUtf16Be then string_of [0xFE, 0xFF] else []) @ encode_bytes_16 False s)
      | _ \<Rightarrow> (let (encoded, had_errors) = te_encode te encoding s in if had_errors then Err () else Ok encoded))"

section \<open>Lines\<close>

definition contains_crlf :: "utext \<Rightarrow> bool" where
  "contains_crlf s \<longleftrightarrow> (13, 10) \<in> set (zip s (drop 1 s))"

definition detect_line_ending :: "utext \<Rightarrow> line_ending" where
  "detect_line_ending s = (if contains_crlf s then CrLf else if 10 \<in> set s then Lf else Cr)"

text \<open>
  The loop of \<open>split_lines\<close> with the line begun so far: a line ends after a line feed and after a
  carriage return that no line feed follows.
\<close>

fun split_lines_from :: "nat list \<Rightarrow> nat list \<Rightarrow> nat list list" where
  "split_lines_from line [] = (if line = [] then [] else [line])"
| "split_lines_from line (c # cs) =
     (if c = 10 \<or> c = 13 \<and> (cs = [] \<or> hd cs \<noteq> 10) then (line @ [c]) # split_lines_from [] cs
      else split_lines_from (line @ [c]) cs)"

definition split_text_lines :: "utext \<Rightarrow> utext list" where
  "split_text_lines s = split_lines_from [] s"

text \<open>The loop of \<open>split_byte_lines\<close>, which takes the line feed with its carriage return.\<close>

fun split_byte_lines_from :: "string \<Rightarrow> string \<Rightarrow> string list" where
  "split_byte_lines_from line [] = (if line = [] then [] else [line])"
| "split_byte_lines_from line (b # bs) =
     (if byte b = 13
      then (case bs of
              b' # bs' \<Rightarrow> if byte b' = 10 then (line @ [b, b']) # split_byte_lines_from [] bs'
                         else (line @ [b]) # split_byte_lines_from [] bs
            | [] \<Rightarrow> [line @ [b]])
      else if byte b = 10 then (line @ [b]) # split_byte_lines_from [] bs
      else split_byte_lines_from (line @ [b]) bs)"

definition split_byte_lines :: "string \<Rightarrow> string list" where
  "split_byte_lines bytes = split_byte_lines_from [] bytes"

type_synonym legacy_lines = "(utext \<times> string) list"

definition original_legacy_lines :: "string \<Rightarrow> utext \<Rightarrow> text_encoding \<Rightarrow> legacy_lines option" where
  "original_legacy_lines bytes s encoding =
     (if \<not> is_legacy encoding then None
      else (let text_ls = split_text_lines s; byte_ls = split_byte_lines bytes
            in if length text_ls = length byte_ls then Some (zip text_ls byte_ls) else None))"

text \<open>The first original line not used yet that has the text, and the rest with it marked as used.\<close>

fun take_line :: "utext \<Rightarrow> (bool \<times> utext \<times> string) list \<Rightarrow> (string \<times> (bool \<times> utext \<times> string) list) option" where
  "take_line raw [] = None"
| "take_line raw ((used, line, bytes) # rest) =
     (if \<not> used \<and> line = raw then Some (bytes, (True, line, bytes) # rest)
      else map_option (\<lambda>(found, rest). (found, (used, line, bytes) # rest)) (take_line raw rest))"

fun encode_lines :: "text_env \<Rightarrow> text_encoding \<Rightarrow> (bool \<times> utext \<times> string) list \<Rightarrow> utext list \<Rightarrow> unit + string" where
  "encode_lines te encoding originals [] = Ok []"
| "encode_lines te encoding originals (raw # raws) =
     (case take_line raw originals of
        Some (bytes, originals) \<Rightarrow>
          (case encode_lines te encoding originals raws of Inl e \<Rightarrow> Err e | Inr rest \<Rightarrow> Ok (bytes @ rest))
      | None \<Rightarrow>
          (let (encoded, had_errors) = te_encode te encoding raw
           in if had_errors then Err ()
              else (case encode_lines te encoding originals raws of
                      Inl e \<Rightarrow> Err e | Inr rest \<Rightarrow> Ok (encoded @ rest))))"

definition encode_preserving_legacy_lines ::
  "text_env \<Rightarrow> utext list \<Rightarrow> legacy_lines \<Rightarrow> text_encoding \<Rightarrow> unit + string" where
  "encode_preserving_legacy_lines te raws original_lines encoding =
     encode_lines te encoding (map (Pair False) original_lines) raws"

section \<open>Nothing is lost\<close>

lemma concat_split_lines_from: "concat (split_lines_from line s) = line @ s"
  by (induction line s rule: split_lines_from.induct) auto

lemma concat_split_lines [simp]: "concat (split_text_lines s) = s"
  by (simp add: split_text_lines_def concat_split_lines_from)

lemma concat_split_byte_lines_from: "concat (split_byte_lines_from line bytes) = line @ bytes"
  by (induction line bytes rule: split_byte_lines_from.induct) (auto split: list.split)

lemma concat_split_byte_lines [simp]: "concat (split_byte_lines bytes) = bytes"
  by (simp add: split_byte_lines_def concat_split_byte_lines_from)

lemma max_by_score_in: "max_by_score xs = Some x \<Longrightarrow> x \<in> set xs"
  by (induction xs arbitrary: x) (auto split: option.splits if_splits)

lemma decode_legacy_encodes:
  assumes "decode_legacy te bytes = Some (s, encoding)"
  shows "te_encode te encoding s = (bytes, False)" and "is_legacy encoding"
proof -
  obtain score where "(score, s, encoding) \<in> set (List.map_filter (legacy_candidate te bytes) legacy_candidates)"
    using assms max_by_score_in by (fastforce simp: decode_legacy_def)
  then obtain e where e: "e \<in> set legacy_candidates" "legacy_candidate te bytes e = Some (score, s, encoding)"
    by (auto simp: List.map_filter_def)
  then show "te_encode te encoding s = (bytes, False)"
    by (auto simp: legacy_candidate_def Let_def split: option.splits prod.splits if_splits)
  have "encoding = e"
    using e(2) by (auto simp: legacy_candidate_def Let_def split: option.splits prod.splits if_splits)
  then show "is_legacy encoding" using e(1) by (auto simp: legacy_candidates_def is_legacy_def)
qed

lemma decode_utf16_encodes:
  assumes "decode_units little body = Some s"
  shows "encode_bytes_16 little s = body \<and> list_all is_scalar s"
proof -
  have even: "even (length (byte_values body))" and us: "from_utf16 (units_of little (byte_values body)) = Some s"
    using assms by (auto simp: decode_units_def byte_values_def split: if_splits)
  note restored = units_of_bytes [OF even bytes_of_bounded, of little]
  from encode_utf16_from [OF us] restored show ?thesis by (simp add: encode_bytes_16_def)
qed

lemma encodes_utf16_decode:
  assumes "list_all is_scalar s"
  shows "decode_units little (encode_bytes_16 little s) = Some s"
proof -
  note restored = bytes_of_units [OF encode_utf16_bounded [OF assms], of little]
  have "length (encode_bytes_16 little s) = length (concat (map (unit_bytes little) (encode_utf16 s)))"
    by (simp add: encode_bytes_16_def string_of_def)
  with restored show ?thesis
    by (simp add: decode_units_def encode_bytes_16_def bytes_of_string_of from_utf16_encode [OF assms])
qed

text \<open>The encoding that was detected gives the bytes back, whatever the legacy codecs do.\<close>

lemma decode_encodes:
  assumes "decode te bytes = Ok (s, encoding, bom)"
  shows "encode te s encoding bom = Ok bytes"
proof (cases "is_legacy encoding")
  case True
  then have "te_encode te encoding s = (bytes, False)"
    using assms decode_legacy_encodes(1)
    by (auto simp: decode_def Let_def is_legacy_def split: option.splits)
  with True show ?thesis by (cases encoding) (simp_all add: encode_def is_legacy_def)
next
  case False
  then show ?thesis
    using assms decode_legacy_encodes(2) utf8_encode_from decode_utf16_encodes
    by (auto simp: decode_def Let_def encode_def strip_prefix_Some_iff split: option.splits)
qed

text \<open>Lines that were not changed come back as they were, in their order.\<close>

lemma take_line_used: "list_all fst used \<Longrightarrow> take_line raw (used @ rest)
     = map_option (\<lambda>(found, rest). (found, used @ rest)) (take_line raw rest)"
  by (cases "take_line raw rest") (induction used, auto)+

lemma encode_lines_unchanged:
  "list_all fst used \<Longrightarrow>
     encode_lines te encoding (used @ map (Pair False) originals) (map fst originals) = Ok (concat (map snd originals))"
proof (induction originals arbitrary: used)
  case (Cons x originals)
  obtain line bytes where x: "x = (line, bytes)" by fastforce
  from Cons.IH [of "used @ [(True, line, bytes)]"] Cons.prems
  show ?case by (simp add: x take_line_used)
qed simp

lemma original_lines_encode:
  assumes "original_legacy_lines bytes s encoding = Some originals"
  shows "encode_preserving_legacy_lines te (split_text_lines s) originals encoding = Ok bytes"
proof -
  have "length (split_text_lines s) = length (split_byte_lines bytes)"
    and "originals = zip (split_text_lines s) (split_byte_lines bytes)"
    using assms by (auto simp: original_legacy_lines_def Let_def split: if_splits)
  then have "map fst originals = split_text_lines s" "map snd originals = split_byte_lines bytes" by simp_all
  then show ?thesis
    using encode_lines_unchanged [where used = "[]", of te encoding originals]
    by (simp add: encode_preserving_legacy_lines_def)
qed

end
