(* ===== verification/Float64.thy ===== *)
theory Float64
  imports Unicode_Text
begin

text \<open>
  The binary floating point numbers of 64 bits as far as the profile editor uses them: literals,
  comparisons, the conversion to an integer, the format with six decimals, and \<open>str::parse\<close>.
  A finite number is a sign, a significand and the exponent of its unit.
\<close>

datatype f64 = Finite bool nat int | Infinite bool | NotANumber

text \<open>The representation that IEEE 754 gives a finite number.\<close>

definition is_normalized :: "f64 \<Rightarrow> bool" where
  "is_normalized x =
     (case x of
        Finite s m e \<Rightarrow> (2 ^ 52 \<le> m \<and> m < 2 ^ 53 \<and> - 1074 \<le> e \<and> e \<le> 971) \<or> (m < 2 ^ 52 \<and> e = - 1074)
      | _ \<Rightarrow> True)"

section \<open>Rounding\<close>

text \<open>The quotient to the nearest integer, to the even one of two nearest.\<close>

definition div_round :: "nat \<Rightarrow> nat \<Rightarrow> nat" where
  "div_round p q = (let d = p div q; r = p mod q
     in if 2 * r < q then d else if q < 2 * r then d + 1 else if even d then d else d + 1)"

fun bit_length :: "nat \<Rightarrow> nat" where
  "bit_length n = (if n = 0 then 0 else Suc (bit_length (n div 2)))"

declare bit_length.simps [simp del]

text \<open>\<open>p / q\<close> in units of \<open>2 ^ e\<close>.\<close>

definition in_units :: "nat \<Rightarrow> nat \<Rightarrow> int \<Rightarrow> nat" where
  "in_units p q e = (if 0 \<le> e then div_round p (q * 2 ^ nat e) else div_round (p * 2 ^ nat (- e)) q)"

definition at_least_units :: "nat \<Rightarrow> nat \<Rightarrow> int \<Rightarrow> nat \<Rightarrow> bool" where
  "at_least_units p q e n \<longleftrightarrow> (if 0 \<le> e then n * (q * 2 ^ nat e) \<le> p else n * q \<le> p * 2 ^ nat (- e))"

definition unit_exponent :: "nat \<Rightarrow> nat \<Rightarrow> int" where
  "unit_exponent p q =
     (let e = int (bit_length p) - int (bit_length q) - 53
      in max (- 1074) (if at_least_units p q e (2 ^ 53) then e + 1 else e))"

text \<open>The number nearest to the quotient \<open>p / q\<close>, and infinity beyond the largest.\<close>

definition nearest :: "bool \<Rightarrow> nat \<Rightarrow> nat \<Rightarrow> f64" where
  "nearest s p q =
     (if p = 0 then Finite s 0 (- 1074)
      else (let e = unit_exponent p q; m = in_units p q e;
                (m, e) = (if m = 2 ^ 53 then (2 ^ 52, e + 1) else (m, e))
            in if 971 < e then Infinite s else Finite s m e))"

definition f64_literal :: "int \<Rightarrow> nat \<Rightarrow> f64" where
  "f64_literal p q = nearest (p < 0) (nat (abs p)) q"

section \<open>Comparisons\<close>

definition is_finite :: "f64 \<Rightarrow> bool" where
  "is_finite x = (case x of Finite _ _ _ \<Rightarrow> True | _ \<Rightarrow> False)"

definition scaled :: "bool \<Rightarrow> nat \<Rightarrow> int \<Rightarrow> int \<Rightarrow> int" where
  "scaled s m e f = (if s then - 1 else 1) * int m * 2 ^ nat (e - f)"

text \<open>The unit two numbers are compared in; zero has none of its own.\<close>

definition common_unit :: "nat \<Rightarrow> int \<Rightarrow> nat \<Rightarrow> int \<Rightarrow> int" where
  "common_unit m e m' e' = (if m = 0 then e' else if m' = 0 then e else min e e')"

definition f64_less :: "f64 \<Rightarrow> f64 \<Rightarrow> bool" where
  "f64_less x y =
     (case (x, y) of
        (Finite s m e, Finite s' m' e') \<Rightarrow>
          scaled s m e (common_unit m e m' e') < scaled s' m' e' (common_unit m e m' e')
      | (Finite _ _ _, Infinite s) \<Rightarrow> \<not> s
      | (Infinite s, Finite _ _ _) \<Rightarrow> s
      | (Infinite s, Infinite s') \<Rightarrow> s \<and> \<not> s'
      | _ \<Rightarrow> False)"

definition f64_eq :: "f64 \<Rightarrow> f64 \<Rightarrow> bool" where
  "f64_eq x y =
     (case (x, y) of
        (Finite s m e, Finite s' m' e') \<Rightarrow>
          scaled s m e (common_unit m e m' e') = scaled s' m' e' (common_unit m e m' e')
      | (Infinite s, Infinite s') \<Rightarrow> s = s'
      | _ \<Rightarrow> False)"

section \<open>Conversions\<close>

text \<open>\<open>fract() != 0.0\<close> of a finite number.\<close>

definition has_fraction :: "f64 \<Rightarrow> bool" where
  "has_fraction x = (case x of Finite s m e \<Rightarrow> e < 0 \<and> m mod 2 ^ nat (- e) \<noteq> 0 | _ \<Rightarrow> True)"

text \<open>\<open>as i64\<close>: towards zero, saturating.\<close>

definition to_i64 :: "f64 \<Rightarrow> int" where
  "to_i64 x =
     (case x of
        Finite s m e \<Rightarrow>
          (let n = int (if 0 \<le> e then m * 2 ^ nat e else m div 2 ^ nat (- e))
           in if s then max (- 9223372036854775808) (- n) else min 9223372036854775807 n)
      | Infinite s \<Rightarrow> if s then - 9223372036854775808 else 9223372036854775807
      | NotANumber \<Rightarrow> 0)"

text \<open>The format \<open>{:.6}\<close>.\<close>

definition pad_zeros :: "nat \<Rightarrow> utext \<Rightarrow> utext" where
  "pad_zeros n s = replicate (n - length s) 48 @ s"

definition format_6 :: "f64 \<Rightarrow> utext" where
  "format_6 x =
     (case x of
        Finite s m e \<Rightarrow>
          (let n = (if 0 \<le> e then m * 2 ^ nat e * 1000000 else div_round (m * 1000000) (2 ^ nat (- e)))
           in (if s then [45] else []) @ chars (show_nat (n div 1000000)) @ [46]
              @ pad_zeros 6 (chars (show_nat (n mod 1000000))))
      | Infinite s \<Rightarrow> if s then chars ''-inf'' else chars ''inf''
      | NotANumber \<Rightarrow> chars ''NaN'')"

text \<open>\<open>str::parse::<f64>\<close>: digits with an optional point and exponent, or a name.\<close>

definition is_digit :: "nat \<Rightarrow> bool" where
  "is_digit c \<longleftrightarrow> 48 \<le> c \<and> c \<le> 57"

definition digits_number :: "utext \<Rightarrow> nat" where
  "digits_number ds = foldl (\<lambda>n c. n * 10 + (c - 48)) 0 ds"

definition parse_exponent :: "utext \<Rightarrow> int option" where
  "parse_exponent s =
     (case s of
        [] \<Rightarrow> Some 0
      | c # cs \<Rightarrow>
          if c \<noteq> 101 \<and> c \<noteq> 69 then None
          else (let (negative, ds) = (case cs of
                      d # ds \<Rightarrow> if d = 45 then (True, ds) else if d = 43 then (False, ds) else (False, cs)
                    | [] \<Rightarrow> (False, []))
                in if ds = [] \<or> \<not> list_all is_digit ds then None
                   else Some (if negative then - int (digits_number ds) else int (digits_number ds))))"

definition parse_number :: "bool \<Rightarrow> utext \<Rightarrow> f64 option" where
  "parse_number s text =
     (let whole = takeWhile is_digit text;
          rest = dropWhile is_digit text;
          (fraction, exponent) =
            (case rest of c # cs \<Rightarrow> if c = 46 then (takeWhile is_digit cs, dropWhile is_digit cs) else ([], rest)
             | [] \<Rightarrow> ([], []))
      in if whole = [] \<and> fraction = [] then None
         else case parse_exponent exponent of
                None \<Rightarrow> None
              | Some k \<Rightarrow>
                  (let n = digits_number (whole @ fraction); k = k - int (length fraction)
                   in Some (if 0 \<le> k then nearest s (n * 10 ^ nat k) 1 else nearest s n (10 ^ nat (- k)))))"

definition parse_f64 :: "utext \<Rightarrow> f64 option" where
  "parse_f64 text =
     (case text of
        [] \<Rightarrow> None
      | c # cs \<Rightarrow>
          (let (s, body) = (if c = 45 then (True, cs) else if c = 43 then (False, cs) else (False, text))
           in if same_ignoring_case body (chars ''nan'') then Some NotANumber
              else if same_ignoring_case body (chars ''inf'') \<or> same_ignoring_case body (chars ''infinity'')
              then Some (Infinite s)
              else parse_number s body))"

section \<open>Integers\<close>

text \<open>A number that is an integer, without regard to its representation.\<close>

definition denotes :: "f64 \<Rightarrow> int \<Rightarrow> bool" where
  "denotes x i \<longleftrightarrow>
     (case x of
        Finite s m e \<Rightarrow>
          (if 0 \<le> e then i = (if s then - 1 else 1) * int m * 2 ^ nat e
           else i * 2 ^ nat (- e) = (if s then - 1 else 1) * int m)
      | _ \<Rightarrow> False)"

lemma scaled_integer:
  assumes "denotes (Finite s m e) i" and "f \<le> e" and "f \<le> 0"
  shows "scaled s m e f = i * 2 ^ nat (- f)"
proof (cases "0 \<le> e")
  case True
  then have "nat (e - f) = nat e + nat (- f)" using assms by simp
  then show ?thesis using assms(1) True by (simp add: denotes_def scaled_def power_add)
next
  case False
  have "nat (- f) = nat (- e) + nat (e - f)" using assms False by simp
  moreover have "i * 2 ^ nat (- e) = (if s then - 1 else 1) * int m" using assms(1) False by (simp add: denotes_def)
  ultimately show ?thesis by (simp add: scaled_def power_add mult.assoc [symmetric])
qed

lemma scaled_positive_unit:
  assumes "denotes (Finite s m e) i" and "0 \<le> f" and "f \<le> e"
  shows "i = scaled s m e f * 2 ^ nat f"
proof -
  have "nat e = nat (e - f) + nat f" using assms by simp
  then show ?thesis using assms by (simp add: denotes_def scaled_def power_add mult.assoc)
qed

lemma denotes_zero: "denotes (Finite s 0 e) i \<longleftrightarrow> i = 0"
  by (auto simp: denotes_def)

lemma scaled_zero [simp]: "scaled s 0 e f = 0"
  by (simp add: scaled_def)

lemma denotes_sign: "denotes (Finite s m e) i \<Longrightarrow> sgn i = (if s then - 1 else 1) * sgn (int m)"
proof (cases "0 \<le> e")
  case True
  assume "denotes (Finite s m e) i"
  then show ?thesis using True by (simp add: denotes_def sgn_mult)
next
  case False
  assume "denotes (Finite s m e) i"
  then have "sgn (i * 2 ^ nat (- e)) = sgn ((if s then - 1 else 1) * int m)" using False by (simp add: denotes_def)
  then show ?thesis by (simp add: sgn_mult)
qed

text \<open>Comparing numbers that are integers is comparing the integers.\<close>

lemma compare_integers:
  assumes "denotes x i" and "denotes y j"
  shows "f64_less x y \<longleftrightarrow> i < j" and "f64_eq x y \<longleftrightarrow> i = j"
proof -
  obtain s m e where x: "x = Finite s m e" using assms(1) by (cases x) (auto simp: denotes_def)
  obtain s' m' e' where y: "y = Finite s' m' e'" using assms(2) by (cases y) (auto simp: denotes_def)
  let ?f = "common_unit m e m' e'"
  have "(scaled s m e ?f < scaled s' m' e' ?f \<longleftrightarrow> i < j) \<and> (scaled s m e ?f = scaled s' m' e' ?f \<longleftrightarrow> i = j)"
  proof (cases "m = 0 \<or> m' = 0")
    case True
    then have sc: "sgn (scaled s m e ?f) = sgn i" "sgn (scaled s' m' e' ?f) = sgn j"
      using denotes_sign [OF assms(1) [unfolded x]] denotes_sign [OF assms(2) [unfolded y]]
      by (auto simp: scaled_def common_unit_def sgn_mult)
    from True have "i = 0 \<or> j = 0" "i = 0 \<longleftrightarrow> m = 0" "j = 0 \<longleftrightarrow> m' = 0"
      using denotes_sign [OF assms(1) [unfolded x]] denotes_sign [OF assms(2) [unfolded y]]
      by (auto simp: sgn_0_0 split: if_splits)
    with True sc show ?thesis
      by (auto simp: sgn_if split: if_splits)
  next
    case False
    then have f: "?f = min e e'" by (simp add: common_unit_def)
    show ?thesis
    proof (cases "?f \<le> 0")
      case True
      have "scaled s m e ?f = i * 2 ^ nat (- ?f)" "scaled s' m' e' ?f = j * 2 ^ nat (- ?f)"
        using scaled_integer assms x y True f by simp_all
      then show ?thesis by simp
    next
      case False
      then have "i = scaled s m e ?f * 2 ^ nat ?f" "j = scaled s' m' e' ?f * 2 ^ nat ?f"
        using scaled_positive_unit [OF assms(1) [unfolded x], of ?f] scaled_positive_unit [OF assms(2) [unfolded y], of ?f] f
        by simp_all
      then show ?thesis by simp
    qed
  qed
  then show "f64_less x y \<longleftrightarrow> i < j" "f64_eq x y \<longleftrightarrow> i = j"
    by (simp_all add: x y f64_less_def f64_eq_def)
qed

lemma bit_length_bounds:
  "0 < n \<Longrightarrow> 2 ^ (bit_length n - 1) \<le> n \<and> n < 2 ^ bit_length n \<and> 0 < bit_length n"
proof (induction n rule: bit_length.induct)
  case (1 n)
  show ?case
  proof (cases "n div 2 = 0")
    case True
    then have "n = 1" using 1(2) by auto
    then show ?thesis by (simp add: bit_length.simps)
  next
    case False
    then have IH: "2 ^ (bit_length (n div 2) - 1) \<le> n div 2" "n div 2 < 2 ^ bit_length (n div 2)"
      "0 < bit_length (n div 2)"
      using 1 by auto
    have n: "bit_length n = Suc (bit_length (n div 2))" using 1(2) by (subst bit_length.simps) simp
    have "(2 :: nat) ^ bit_length (n div 2) = 2 * 2 ^ (bit_length (n div 2) - 1)"
      using IH(3) by (cases "bit_length (n div 2)") simp_all
    then have "2 ^ bit_length (n div 2) \<le> n" using IH(1) by linarith
    moreover have "n < 2 * 2 ^ bit_length (n div 2)" using IH(2) by linarith
    ultimately show ?thesis by (simp add: n)
  qed
qed

lemma div_round_1 [simp]: "div_round p (Suc 0) = p"
  by (simp add: div_round_def)

text \<open>Integers of at most 53 bits have an exact representation.\<close>

lemma nearest_integer:
  assumes "n < 2 ^ 53"
  shows "denotes (nearest s n 1) ((if s then - 1 else 1) * int n)"
proof (cases "n = 0")
  case True
  then show ?thesis by (simp add: nearest_def denotes_def)
next
  case False
  define b where "b = bit_length n"
  have b: "2 ^ (b - 1) \<le> n" "n < 2 ^ b" "0 < b" using bit_length_bounds [of n] False by (simp_all add: b_def)
  have "b \<le> 53"
  proof (rule ccontr)
    assume "\<not> b \<le> 53"
    then have "(2 :: nat) ^ 53 \<le> 2 ^ (b - 1)" by (intro power_increasing) auto
    with b(1) assms show False by linarith
  qed
  have one: "bit_length 1 = 1" by (simp add: bit_length.simps)
  have "(2 :: nat) ^ 53 = 2 ^ (b - 1) * 2 ^ (54 - b)"
    using \<open>b \<le> 53\<close> b(3) by (simp flip: power_add)
  then have "2 ^ 53 \<le> n * 2 ^ (54 - b)" using mult_le_mono1 [OF b(1), of "2 ^ (54 - b)"] by (simp only:)
  then have "at_least_units n 1 (int b - 54) (2 ^ 53)"
    using \<open>b \<le> 53\<close> by (simp add: at_least_units_def nat_diff_distrib')
  then have e: "unit_exponent n 1 = int b - 53"
    using \<open>b \<le> 53\<close> one by (simp add: unit_exponent_def b_def [symmetric] Let_def algebra_simps)
  have m: "in_units n 1 (int b - 53) = n * 2 ^ (53 - b)"
    using \<open>b \<le> 53\<close> by (cases "b = 53") (auto simp: in_units_def nat_diff_distrib')
  have "n * 2 ^ (53 - b) < 2 ^ b * 2 ^ (53 - b)" using b(2) by simp
  also have "\<dots> = (2 :: nat) ^ 53" using \<open>b \<le> 53\<close> by (simp flip: power_add)
  finally have "n * 2 ^ (53 - b) \<noteq> 2 ^ 53" by simp
  then have "nearest s n 1 = Finite s (n * 2 ^ (53 - b)) (int b - 53)"
    using False e m \<open>b \<le> 53\<close> by (simp add: nearest_def Let_def)
  then show ?thesis using \<open>b \<le> 53\<close>
    by (cases "b = 53") (auto simp: denotes_def nat_diff_distrib' of_nat_diff)
qed

lemma literal_integer: "abs p < 2 ^ 53 \<Longrightarrow> denotes (f64_literal p 1) p"
proof -
  assume p: "abs p < 2 ^ 53"
  then have "nat (abs p) < 2 ^ 53" by (simp add: nat_less_iff)
  from nearest_integer [OF this, of "p < 0"] show ?thesis by (auto simp: f64_literal_def split: if_splits)
qed

lemma to_i64_denotes:
  assumes "is_finite v" and "\<not> has_fraction v" and "denotes v i" and "abs i < 2 ^ 53"
  shows "to_i64 v = i"
proof -
  obtain s m e where v: "v = Finite s m e" using assms(1) by (cases v) (auto simp: is_finite_def)
  have "int (if 0 \<le> e then m * 2 ^ nat e else m div 2 ^ nat (- e)) = abs i"
  proof (cases "0 \<le> e")
    case True
    then show ?thesis using assms(3) v by (auto simp: denotes_def abs_mult)
  next
    case False
    then have "abs (i * 2 ^ nat (- e)) = int m" using assms(3) v by (auto simp: denotes_def)
    then have "int m = abs i * 2 ^ nat (- e)" by (simp add: abs_mult)
    then have "int m div 2 ^ nat (- e) = abs i" by simp
    then show ?thesis using False by (simp add: zdiv_int)
  qed
  moreover have "s \<Longrightarrow> i \<le> 0" "\<not> s \<Longrightarrow> 0 \<le> i"
    using denotes_sign [OF assms(3) [unfolded v]] by (auto simp: sgn_if split: if_splits)
  ultimately show ?thesis using assms(4) by (auto simp: v to_i64_def Let_def)
qed

lemma integer_denotes:
  assumes "is_finite v" and "\<not> has_fraction v"
  shows "\<exists>i. denotes v i"
proof -
  obtain s m e where v: "v = Finite s m e" using assms(1) by (cases v) (auto simp: is_finite_def)
  show ?thesis
  proof (cases "0 \<le> e")
    case True
    then show ?thesis by (auto simp: v denotes_def)
  next
    case False
    then have "m mod 2 ^ nat (- e) = 0" using assms(2) v by (auto simp: has_fraction_def)
    then obtain k where k: "m = 2 ^ nat (- e) * k" by blast
    then have "denotes v ((if s then - 1 else 1) * int k)" using False by (simp add: v denotes_def)
    then show ?thesis by blast
  qed
qed

section \<open>Printing and parsing integers\<close>

lemma digit_char: "d < 10 \<Longrightarrow> of_char (char_of (48 + d)) = (48 + d :: nat)"
  by simp

lemma shown_digits: "list_all is_digit (chars (show_nat n)) \<and> chars (show_nat n) \<noteq> []"
proof (induction n rule: show_nat.induct)
  case (1 n)
  show ?case
  proof (cases "n < 10")
    case True
    then show ?thesis by (subst (1 2) show_nat.simps) (simp add: chars_def is_digit_def)
  next
    case False
    have "is_digit (48 + n mod 10)" by (auto simp: is_digit_def)
    with 1 False show ?thesis
      by (subst (1 2) show_nat.simps) (simp add: chars_def)
  qed
qed

lemma digits_number_append: "digits_number (ds @ [c]) = digits_number ds * 10 + (c - 48)"
  by (simp add: digits_number_def)

lemma digits_number_show: "digits_number (chars (show_nat n)) = n"
proof (induction n rule: show_nat.induct)
  case (1 n)
  show ?case
  proof (cases "n < 10")
    case True
    then show ?thesis by (subst show_nat.simps) (simp add: chars_def digits_number_def)
  next
    case False
    have "digits_number (chars (show_nat n)) = digits_number (chars (show_nat (n div 10)) @ [48 + n mod 10])"
      using False by (subst show_nat.simps) (simp add: chars_def)
    also have "\<dots> = n" using 1 False by (simp add: digits_number_append)
    finally show ?thesis .
  qed
qed

lemma parse_number_digits:
  assumes "list_all is_digit ds" and "ds \<noteq> []"
  shows "parse_number s ds = Some (nearest s (digits_number ds) 1)"
proof -
  have "takeWhile is_digit ds = ds" "dropWhile is_digit ds = []"
    using assms(1) by (simp_all add: takeWhile_eq_all_conv dropWhile_eq_Nil_conv list_all_iff)
  then show ?thesis
    unfolding parse_number_def Let_def using assms(2)
    by (simp only: list.case prod.case) (simp add: parse_exponent_def)
qed

lemma digits_not_named:
  assumes "list_all is_digit ds" and "ds \<noteq> []"
  shows "\<not> same_ignoring_case ds (chars ''nan'')" "\<not> same_ignoring_case ds (chars ''inf'')"
    "\<not> same_ignoring_case ds (chars ''infinity'')"
  using assms by (cases ds; auto simp: same_ignoring_case_def chars_def ascii_lower_def is_digit_def)+

lemma parse_show_int:
  "parse_f64 (show_int i) = Some (nearest (i < 0) (nat (abs i)) 1)"
proof -
  have d: "list_all is_digit (chars (show_nat n)) \<and> chars (show_nat n) \<noteq> []" for n by (rule shown_digits)
  show ?thesis
  proof (cases "i < 0")
    case True
    then show ?thesis
      using d [of "nat (- i)"]
      by (simp add: show_int_def parse_f64_def Let_def digits_not_named parse_number_digits digits_number_show)
  next
    case False
    obtain c cs where c: "chars (show_nat (nat i)) = c # cs" using d by (metis neq_Nil_conv)
    have "is_digit c" using d [of "nat i"] c by simp
    then have "c \<noteq> 45" "c \<noteq> 43" by (auto simp: is_digit_def)
    then show ?thesis
      using False d [of "nat i"] c digits_not_named [of "c # cs"] parse_number_digits [of "c # cs" False] digits_number_show [of "nat i"]
      by (simp add: show_int_def parse_f64_def Let_def)
  qed
qed

lemma parse_show_denotes: "abs i < 2 ^ 53 \<Longrightarrow> \<exists>x. parse_f64 (show_int i) = Some x \<and> denotes x i"
proof -
  assume i: "abs i < 2 ^ 53"
  then have "nat (abs i) < 2 ^ 53" by (simp add: nat_less_iff)
  from nearest_integer [OF this, of "i < 0"] show ?thesis by (auto simp: parse_show_int split: if_splits)
qed

end
