(* ===== verification/Profile_Document.thy ===== *)
theory Profile_Document
  imports Profile_Codec Float64 Ordered_Map Paths
begin

text \<open>
  A profile as the editor holds it (\<open>control-center/src-tauri/src/profile.rs\<close>, \<open>profile/document.rs\<close>) and
  the table of its settings (\<open>generated_settings.rs\<close>): the lines of the file as nodes that keep their
  text, and what is read from them.
\<close>

section \<open>Settings\<close>

datatype setting_value_type = IntegerValue | FloatValue

text \<open>A literal of the table as a fraction, and the number it stands for.\<close>

datatype literal = Literal int nat

primrec literal_value :: "literal \<Rightarrow> f64" where
  "literal_value (Literal p q) = f64_literal p q"

record setting_definition =
  st_id :: string
  st_section :: string
  st_key :: string
  st_value_type :: setting_value_type
  st_min :: literal
  st_max :: literal
  st_default :: literal
  st_factory :: literal
  st_previewable :: bool
  st_ordinal :: int

definition setting_row ::
  "string \<Rightarrow> string \<Rightarrow> string \<Rightarrow> setting_value_type \<Rightarrow> literal \<Rightarrow> literal \<Rightarrow> literal \<Rightarrow> literal \<Rightarrow> bool \<Rightarrow> int \<Rightarrow>
     setting_definition" where
  "setting_row i sec k ty mn mx df fa pv od =
     \<lparr>st_id = i, st_section = sec, st_key = k, st_value_type = ty, st_min = mn, st_max = mx,
      st_default = df, st_factory = fa, st_previewable = pv, st_ordinal = od\<rparr>"

definition SETTINGS :: "setting_definition list" where
  "SETTINGS =
     [
      setting_row ''hinting_mode'' ''General'' ''HintingMode'' IntegerValue (Literal 0 1) (Literal 2 1)
        (Literal 0 1) (Literal 1 1) True 0,
      setting_row ''enable_kerning'' ''General'' ''EnableKerning'' IntegerValue (Literal 0 1) (Literal 1 1)
        (Literal 0 1) (Literal 0 1) True 5,
      setting_row ''font_loader'' ''General'' ''FontLoader'' IntegerValue (Literal 0 1) (Literal 1 1)
        (Literal 0 1) (Literal 0 1) True 21,
      setting_row ''font_link'' ''General'' ''FontLink'' IntegerValue (Literal 0 1) (Literal 2 1)
        (Literal 0 1) (Literal 2 1) True 18,
      setting_row ''load_on_demand'' ''General'' ''LoadOnDemand'' IntegerValue (Literal 0 1) (Literal 1 1)
        (Literal 0 1) (Literal 1 1) False 20,
      setting_row ''direct_write'' ''General'' ''DirectWrite'' IntegerValue (Literal 0 1) (Literal 1 1)
        (Literal 0 1) (Literal 1 1) False 26,
      setting_row ''normal_weight'' ''General'' ''NormalWeight'' IntegerValue (Literal (- 64) 1) (Literal 64 1)
        (Literal 0 1) (Literal 16 1) True 2,
      setting_row ''bold_weight'' ''General'' ''BoldWeight'' IntegerValue (Literal (- 32) 1) (Literal 32 1)
        (Literal 0 1) (Literal 2 1) True 3,
      setting_row ''italic_slant'' ''General'' ''ItalicSlant'' IntegerValue (Literal (- 32) 1) (Literal 32 1)
        (Literal 0 1) (Literal 0 1) True 4,
      setting_row ''bolder_mode'' ''General'' ''BolderMode'' IntegerValue (Literal 0 1) (Literal 2 1)
        (Literal 0 1) (Literal 0 1) True 8,
      setting_row ''gamma_mode'' ''General'' ''GammaMode'' IntegerValue (Literal (- 1) 1) (Literal 2 1)
        (Literal (- 1) 1) (Literal 0 1) True 6,
      setting_row ''gamma_value'' ''General'' ''GammaValue'' FloatValue (Literal 625 10000) (Literal 20 1)
        (Literal 1 1) (Literal 15 10) True 13,
      setting_row ''contrast'' ''General'' ''Contrast'' FloatValue (Literal 625 10000) (Literal 10 1)
        (Literal 1 1) (Literal 17 10) True 14,
      setting_row ''render_weight'' ''General'' ''RenderWeight'' FloatValue (Literal 625 10000) (Literal 10 1)
        (Literal 1 1) (Literal 14 10) True 15,
      setting_row ''anti_alias_mode'' ''General'' ''AntiAliasMode'' IntegerValue (Literal (- 1) 1) (Literal 6 1)
        (Literal 0 1) (Literal 4 1) True 1,
      setting_row ''lcd_filter'' ''General'' ''LcdFilter'' IntegerValue (Literal 0 1) (Literal 16 1)
        (Literal 0 1) (Literal 2 1) True 7,
      setting_row ''text_tuning'' ''General'' ''TextTuning'' IntegerValue (Literal (- 12) 1) (Literal 12 1)
        (Literal 0 1) (Literal 0 1) True 9,
      setting_row ''text_tuning_r'' ''General'' ''TextTuningR'' IntegerValue (Literal (- 12) 1) (Literal 12 1)
        (Literal 0 1) (Literal 4 1) True 10,
      setting_row ''text_tuning_g'' ''General'' ''TextTuningG'' IntegerValue (Literal (- 12) 1) (Literal 12 1)
        (Literal 0 1) (Literal 4 1) True 11,
      setting_row ''text_tuning_b'' ''General'' ''TextTuningB'' IntegerValue (Literal (- 12) 1) (Literal 12 1)
        (Literal 0 1) (Literal 4 1) True 12,
      setting_row ''hint_small_font'' ''General'' ''HintSmallFont'' IntegerValue (Literal 0 1) (Literal 1 1)
        (Literal 0 1) (Literal 0 1) True 27,
      setting_row ''max_bitmap'' ''General'' ''MaxBitmap'' IntegerValue (Literal 0 1) (Literal 255 1)
        (Literal 0 1) (Literal 0 1) True 25,
      setting_row ''max_height'' ''General'' ''MaxHeight'' IntegerValue (Literal 0 1) (Literal 4095 1)
        (Literal 0 1) (Literal 0 1) False (- 1),
      setting_row ''min_height'' ''General'' ''MinHeight'' IntegerValue (Literal 0 1) (Literal 4095 1)
        (Literal 0 1) (Literal 0 1) False (- 1),
      setting_row ''hook_child_processes'' ''General'' ''HookChildProcesses'' IntegerValue (Literal 0 1) (Literal 1 1)
        (Literal 0 1) (Literal 1 1) False 19,
      setting_row ''use_mapping'' ''General'' ''UseMapping'' IntegerValue (Literal 0 1) (Literal 1 1)
        (Literal 0 1) (Literal 0 1) False (- 1),
      setting_row ''use_include'' ''General'' ''UseInclude'' IntegerValue (Literal 0 1) (Literal 1 1)
        (Literal 0 1) (Literal 0 1) False (- 1),
      setting_row ''font_substitutes'' ''General'' ''FontSubstitutes'' IntegerValue (Literal 0 1) (Literal 2 1)
        (Literal 0 1) (Literal 0 1) False 22,
      setting_row ''cache_max_faces'' ''General'' ''CacheMaxFaces'' IntegerValue (Literal 64 1) (Literal 4096 1)
        (Literal 64 1) (Literal 256 1) False (- 1),
      setting_row ''cache_max_sizes'' ''General'' ''CacheMaxSizes'' IntegerValue (Literal 1 1) (Literal 100000 1)
        (Literal 1200 1) (Literal 6140 1) False (- 1),
      setting_row ''cache_max_bytes'' ''General'' ''CacheMaxBytes'' IntegerValue (Literal 1048576 1) (Literal 1073741824 1)
        (Literal 10485760 1) (Literal 20485760 1) False (- 1),
      setting_row ''dw_gamma_value'' ''DirectWrite'' ''GammaValue'' FloatValue (Literal 0 1) (Literal 20 1)
        (Literal 7 10) (Literal 15 10) False (- 1),
      setting_row ''dw_contrast'' ''DirectWrite'' ''Contrast'' FloatValue (Literal 625 10000) (Literal 10 1)
        (Literal 1 1) (Literal 1 1) False (- 1),
      setting_row ''dw_rendering_mode'' ''DirectWrite'' ''RenderingMode'' IntegerValue (Literal 0 1) (Literal 6 1)
        (Literal 5 1) (Literal 6 1) False (- 1),
      setting_row ''dw_cleartype_level'' ''DirectWrite'' ''ClearTypeLevel'' FloatValue (Literal 0 1) (Literal 1 1)
        (Literal 1 1) (Literal 1 1) False (- 1),
      setting_row ''experimental_clip_box_fix'' ''Experimental'' ''ClipBoxFix'' IntegerValue (Literal 0 1) (Literal 1 1)
        (Literal 1 1) (Literal 1 1) False (- 1),
      setting_row ''experimental_color_font'' ''Experimental'' ''ColorFont'' IntegerValue (Literal 0 1) (Literal 1 1)
        (Literal 0 1) (Literal 0 1) False (- 1),
      setting_row ''experimental_invert_color'' ''Experimental'' ''InvertColor'' IntegerValue (Literal 0 1) (Literal 1 1)
        (Literal 0 1) (Literal 0 1) False (- 1)]"

section \<open>Nodes and documents\<close>

text \<open>\<open>KeyValue\<close> has section, key, value, prefix, separator, suffix and the whole line, in this order.\<close>

datatype ini_node =
    Blank utext
  | Comment utext
  | Section utext utext
  | KeyValue utext utext utext utext utext utext utext
  | Unknown utext utext

primrec node_raw :: "ini_node \<Rightarrow> utext" where
  "node_raw (Blank raw) = raw"
| "node_raw (Comment raw) = raw"
| "node_raw (Section name raw) = raw"
| "node_raw (KeyValue sec key v pre sep suf raw) = raw"
| "node_raw (Unknown sec raw) = raw"

record profile_revision =
  pr_nodes :: "ini_node list"
  pr_dirty_keys :: "string list"

record profile_document =
  pd_path :: path
  pd_encoding :: text_encoding
  pd_bom :: bom_kind
  pd_line_ending :: line_ending
  pd_nodes :: "ini_node list"
  pd_original_hash :: string
  pd_original_legacy_lines :: "legacy_lines option"
  pd_saved_values :: "f64 btree_map"
  pd_dirty_keys :: "string list"
  pd_undo :: "profile_revision list"
  pd_redo :: "profile_revision list"

record individual_setting =
  is_font_face :: utext
  is_values :: "int option list"

record shadow_setting =
  sh_offset_x :: int
  sh_offset_y :: int
  sh_dark_alpha :: int
  sh_dark_color :: nat
  sh_light_alpha :: int
  sh_light_color :: nat

record advanced_profile =
  ap_shadow :: "shadow_setting option"
  ap_lcd_filter_weight :: "int list option"
  ap_pixel_layout :: "int list option"
  ap_font_substitutes :: "utext list"

record profile_lists =
  pl_exclude_fonts :: "utext list"
  pl_include_fonts :: "utext list"
  pl_exclude_modules :: "utext list"
  pl_include_modules :: "utext list"
  pl_unload_dlls :: "utext list"
  pl_exclude_substitution_modules :: "utext list"

datatype profile_location = Installation | Personal | External

record profile_identity =
  pi_display_path :: string
  pi_location :: profile_location
  pi_can_save :: bool

record profile_snapshot =
  ps_path :: path
  ps_identity :: profile_identity
  ps_encoding :: text_encoding
  ps_bom :: bom_kind
  ps_line_ending :: line_ending
  ps_original_hash :: string
  ps_values :: "f64 btree_map"
  ps_saved_values :: "f64 btree_map"
  ps_dirty_keys :: "string list"
  ps_can_undo :: bool
  ps_can_redo :: bool
  ps_individuals :: "individual_setting list"
  ps_lists :: profile_lists
  ps_advanced :: advanced_profile

section \<open>Parsing\<close>

definition is_newline :: "nat \<Rightarrow> bool" where
  "is_newline c \<longleftrightarrow> c = 13 \<or> c = 10"

definition parse_assignment :: "utext \<Rightarrow> utext \<Rightarrow> utext \<Rightarrow> ini_node" where
  "parse_assignment sec line body =
     (if 61 \<notin> set body then Unknown sec line
      else (let before = takeWhile (\<lambda>c. c \<noteq> 61) body;
                key = text_trim before;
                after_separator = drop (Suc (length before)) body;
                leading = length after_separator - length (text_trim_start after_separator);
                value_with_suffix = drop leading after_separator;
                trailing = length value_with_suffix - length (text_trim_end value_with_suffix);
                value_end = length value_with_suffix - trailing;
                newline = drop (length body) line
            in if key = [] then Unknown sec line
               else KeyValue sec key (take value_end value_with_suffix) before
                      (61 # take leading after_separator) (drop value_end value_with_suffix @ newline) line))"

text \<open>One line in the section so far: its node and the section after it.\<close>

definition parse_line :: "utext \<Rightarrow> utext \<Rightarrow> ini_node \<times> utext" where
  "parse_line sec line =
     (let body = trim_end_matches is_newline line;
          trimmed = text_trim body
      in if trimmed = [] then (Blank line, sec)
         else if hd trimmed = 59 \<or> hd trimmed = 35 then (Comment line, sec)
         else if hd trimmed = 91 \<and> List.last trimmed = 93
         then (let name = text_trim (butlast (tl trimmed)) in (Section name line, name))
         else (parse_assignment sec line body, sec))"

fun parse_lines :: "utext \<Rightarrow> utext list \<Rightarrow> ini_node list" where
  "parse_lines sec [] = []"
| "parse_lines sec (line # ls) = (let (node, sec) = parse_line sec line in node # parse_lines sec ls)"

definition parse_nodes :: "utext \<Rightarrow> ini_node list" where
  "parse_nodes s = parse_lines [] (split_text_lines s)"

definition validate_entry :: "utext \<Rightarrow> string \<Rightarrow> string + unit" where
  "validate_entry v label =
     (if text_trim v = [] \<or> list_ex is_newline v \<or> (v \<noteq> [] \<and> hd v \<in> {91, 59, 35})
      then Err (label @ '' is empty or contains an unsupported character'') else Ok ())"

section \<open>Reading\<close>

text \<open>The sections a setting is looked up in.\<close>

definition lookup_sections :: "utext \<Rightarrow> utext list" where
  "lookup_sections name =
     (if same_ignoring_case name (chars ''General'') then [chars ''FreeType'', chars ''General''] else [name])"

definition assigns :: "utext \<Rightarrow> utext \<Rightarrow> ini_node \<Rightarrow> bool" where
  "assigns target key_name node =
     (case node of
        KeyValue sec key v pre sep suf raw \<Rightarrow> same_ignoring_case sec target \<and> same_ignoring_case key key_name
      | _ \<Rightarrow> False)"

definition node_value :: "ini_node \<Rightarrow> utext" where
  "node_value node = (case node of KeyValue sec key v pre sep suf raw \<Rightarrow> v | _ \<Rightarrow> [])"

text \<open>\<open>find_map\<close> over the sections, in each over the nodes from the rear.\<close>

fun lookup_in :: "ini_node list \<Rightarrow> utext \<Rightarrow> utext list \<Rightarrow> utext option" where
  "lookup_in nodes key_name [] = None"
| "lookup_in nodes key_name (target # targets) =
     (case List.find (assigns target key_name) (rev nodes) of
        Some node \<Rightarrow> Some (node_value node) | None \<Rightarrow> lookup_in nodes key_name targets)"

definition raw_value :: "profile_document \<Rightarrow> utext \<Rightarrow> utext \<Rightarrow> utext option" where
  "raw_value d section_name key_name = lookup_in (pd_nodes d) key_name (lookup_sections section_name)"

definition setting_value :: "profile_document \<Rightarrow> setting_definition \<Rightarrow> f64" where
  "setting_value d s =
     (case raw_value d (chars (st_section s)) (chars (st_key s)) of
        None \<Rightarrow> literal_value (st_default s)
      | Some v \<Rightarrow> (case parse_f64 v of None \<Rightarrow> literal_value (st_default s) | Some x \<Rightarrow> x))"

definition setting_values :: "profile_document \<Rightarrow> f64 btree_map" where
  "setting_values d = bt_collect (map (\<lambda>s. (st_id s, setting_value d s)) SETTINGS)"

definition list_parts :: "utext \<Rightarrow> utext list" where
  "list_parts raw = filter (\<lambda>part. part \<noteq> []) (split_pieces (\<lambda>c. c = 44 \<or> is_white_space c) raw)"

text \<open>Collecting options: all of them or none.\<close>

fun all_some :: "'a option list \<Rightarrow> 'a list option" where
  "all_some [] = Some []"
| "all_some (None # xs) = None"
| "all_some (Some x # xs) = map_option (Cons x) (all_some xs)"

definition parse_vector :: "profile_document \<Rightarrow> utext \<Rightarrow> utext \<Rightarrow> nat \<Rightarrow> int list option" where
  "parse_vector d sec key n =
     (case raw_value d sec key of
        None \<Rightarrow> None
      | Some raw \<Rightarrow>
          (case all_some (map (\<lambda>part. parse_i32 (text_trim part)) (list_parts raw)) of
             None \<Rightarrow> None | Some values \<Rightarrow> if length values = n then Some values else None))"

text \<open>\<open>trim_start_matches\<close> with a text removes it as often as it stands at the start.\<close>

fun trim_hex_prefix :: "utext \<Rightarrow> utext" where
  "trim_hex_prefix (c # c' # cs) = (if c = 48 \<and> c' = 120 then trim_hex_prefix cs else c # c' # cs)"
| "trim_hex_prefix s = s"

definition part_at :: "utext list \<Rightarrow> nat \<Rightarrow> utext option" where
  "part_at parts i = (if i < length parts then Some (parts ! i) else None)"

definition color_at :: "utext list \<Rightarrow> nat \<Rightarrow> nat" where
  "color_at parts i =
     (case Option.bind (part_at parts i) (\<lambda>v. parse_u32_radix 16 (trim_hex_prefix v)) of
        Some c \<Rightarrow> c | None \<Rightarrow> 0)"

definition shadow_of :: "profile_document \<Rightarrow> shadow_setting option" where
  "shadow_of d =
     (case raw_value d (chars ''General'') (chars ''Shadow'') of
        None \<Rightarrow> None
      | Some raw \<Rightarrow>
          (let parts = list_parts raw
           in if length parts < 3 then None
              else (case (parse_i32 (parts ! 2), parse_i32 (parts ! 0), parse_i32 (parts ! 1)) of
                      (Some dark_alpha, Some x, Some y) \<Rightarrow>
                        Some \<lparr>sh_offset_x = x, sh_offset_y = y, sh_dark_alpha = dark_alpha,
                              sh_dark_color = color_at parts 3,
                              sh_light_alpha = (case Option.bind (part_at parts 4) parse_i32 of
                                  Some v \<Rightarrow> v | None \<Rightarrow> dark_alpha),
                              sh_light_color = color_at parts 5\<rparr>
                    | _ \<Rightarrow> None)))"

definition individual_of :: "ini_node \<Rightarrow> individual_setting option" where
  "individual_of node =
     (case node of
        KeyValue sec key v pre sep suf raw \<Rightarrow>
          if same_ignoring_case sec (chars ''Individual'')
          then Some \<lparr>is_font_face = key,
                 is_values = take 6 (map (\<lambda>part. if text_trim part = [] then None else parse_i32 (text_trim part))
                                       (take 6 (split_pieces (\<lambda>c. c = 44) v)) @ replicate 6 None)\<rparr>
          else None
      | _ \<Rightarrow> None)"

definition individuals_of :: "profile_document \<Rightarrow> individual_setting list" where
  "individuals_of d = List.map_filter individual_of (pd_nodes d)"

definition list_entry_of :: "utext \<Rightarrow> ini_node \<Rightarrow> utext option" where
  "list_entry_of target node =
     (case node of
        Unknown sec raw \<Rightarrow>
          if same_ignoring_case sec target \<and> text_trim raw \<noteq> [] then Some (text_trim raw) else None
      | KeyValue sec key v pre sep suf raw \<Rightarrow>
          if same_ignoring_case sec target then Some (key @ [61] @ v) else None
      | _ \<Rightarrow> None)"

definition list_entries :: "profile_document \<Rightarrow> utext \<Rightarrow> utext list" where
  "list_entries d target = List.map_filter (list_entry_of target) (pd_nodes d)"

definition advanced_of :: "profile_document \<Rightarrow> advanced_profile" where
  "advanced_of d =
     \<lparr>ap_shadow = shadow_of d,
      ap_lcd_filter_weight = parse_vector d (chars ''General'') (chars ''LcdFilterWeight'') 5,
      ap_pixel_layout = parse_vector d (chars ''General'') (chars ''PixelLayout'') 6,
      ap_font_substitutes = list_entries d (chars ''FontSubstitutes'')\<rparr>"

definition document_ending :: "profile_document \<Rightarrow> utext" where
  "document_ending d = (case pd_line_ending d of CrLf \<Rightarrow> [13, 10] | Lf \<Rightarrow> [10] | Cr \<Rightarrow> [13])"

definition is_dirty :: "profile_document \<Rightarrow> bool" where
  "is_dirty d \<longleftrightarrow> pd_dirty_keys d \<noteq> []"

section \<open>Opening\<close>

text \<open>The hash of the file is SHA-256, a parameter.\<close>

definition from_bytes :: "text_env \<Rightarrow> (string \<Rightarrow> string) \<Rightarrow> path \<Rightarrow> string \<Rightarrow> unit + profile_document" where
  "from_bytes te sha p bytes =
     (case decode te bytes of
        Inl e \<Rightarrow> Err e
      | Inr (s, encoding, bom) \<Rightarrow>
          (let d = \<lparr>pd_path = p, pd_encoding = encoding, pd_bom = bom, pd_line_ending = detect_line_ending s,
                    pd_nodes = parse_nodes s, pd_original_hash = sha bytes,
                    pd_original_legacy_lines = original_legacy_lines bytes s encoding,
                    pd_saved_values = [], pd_dirty_keys = [], pd_undo = [], pd_redo = []\<rparr>
           in Ok (d\<lparr>pd_saved_values := setting_values d\<rparr>)))"

definition snapshot_of :: "profile_identity \<Rightarrow> profile_document \<Rightarrow> profile_snapshot" where
  "snapshot_of identity d =
     \<lparr>ps_path = pd_path d, ps_identity = identity, ps_encoding = pd_encoding d, ps_bom = pd_bom d,
      ps_line_ending = pd_line_ending d, ps_original_hash = pd_original_hash d, ps_values = setting_values d,
      ps_saved_values = pd_saved_values d, ps_dirty_keys = pd_dirty_keys d, ps_can_undo = (pd_undo d \<noteq> []),
      ps_can_redo = (pd_redo d \<noteq> []), ps_individuals = individuals_of d,
      ps_lists = \<lparr>pl_exclude_fonts = list_entries d (chars ''Exclude''),
        pl_include_fonts = list_entries d (chars ''Include''),
        pl_exclude_modules = list_entries d (chars ''ExcludeModule''),
        pl_include_modules = list_entries d (chars ''IncludeModule''),
        pl_unload_dlls = list_entries d (chars ''UnloadDLL''),
        pl_exclude_substitution_modules = list_entries d (chars ''ExcludeSub'')\<rparr>,
      ps_advanced = advanced_of d\<rparr>"

definition document_text :: "profile_document \<Rightarrow> utext" where
  "document_text d = concat (map node_raw (pd_nodes d))"

end
