(* ===== verification/Profile_Mutation.thy ===== *)
theory Profile_Mutation
  imports Profile_Document
begin

text \<open>
  Editing a profile (\<open>control-center/src-tauri/src/profile/mutation.rs\<close> and
  \<open>mutation/validated_input.rs\<close>): rendering and checking what the user entered, changing the nodes, and
  the history of revisions.  A method on \<open>&mut self\<close> answers its result and the document after it.
\<close>

type_synonym 'a edit = "profile_document \<Rightarrow> (string + 'a) \<times> profile_document"

text \<open>The operator \<open>?\<close> on results without state.\<close>

definition ok_then :: "'e + 'a \<Rightarrow> ('a \<Rightarrow> 'e + 'b) \<Rightarrow> 'e + 'b" where
  "ok_then r k = (case r of Inl e \<Rightarrow> Inl e | Inr x \<Rightarrow> k x)"

lemma ok_then_simps [simp]: "ok_then (Inl e) k = Inl e" "ok_then (Inr x) k = k x"
  by (simp_all add: ok_then_def)

lemma ok_then_Inr: "ok_then r k = Inr y \<longleftrightarrow> (\<exists>x. r = Inr x \<and> k x = Inr y)"
  by (cases r) simp_all

section \<open>Validated input\<close>

record rendered_setting_value =
  rs_section :: string
  rs_key :: string
  rs_value :: utext

record rendered_advanced_profile =
  ra_shadow :: "utext option"
  ra_lcd_filter_weight :: "utext option"
  ra_pixel_layout :: "utext option"
  ra_font_substitutes :: "utext list"

definition schema :: "string \<Rightarrow> string + setting_definition" where
  "schema setting_id =
     (case List.find (\<lambda>item. st_id item = setting_id) SETTINGS of
        None \<Rightarrow> Err (''unknown setting_row id: '' @ setting_id) | Some item \<Rightarrow> Ok item)"

text \<open>The trailing zeros of a number with a point, and the point itself.\<close>

definition render_float :: "f64 \<Rightarrow> utext" where
  "render_float x =
     (let s = format_6 x;
          s = (if 46 \<in> set s then rev (dropWhile (\<lambda>c. c = 48) (rev s)) else s)
      in if s \<noteq> [] \<and> List.last s = 46 then s @ [48] else s)"

definition render_setting_value :: "string \<Rightarrow> f64 \<Rightarrow> string + rendered_setting_value" where
  "render_setting_value setting_id v =
     ok_then (schema setting_id) (\<lambda>s.
     if \<not> is_finite v \<or> f64_less v (literal_value (st_min s)) \<or> f64_less (literal_value (st_max s)) v
     then Err (setting_id @ '' must be between {min} and {max}'')
     else ok_then (if st_value_type s = IntegerValue
                    then (if has_fraction v then Err (setting_id @ '' requires an integer'')
                          else Ok (show_int (to_i64 v)))
                    else Ok (render_float v)) (\<lambda>text_value.
          Ok \<lparr>rs_section = st_section s, rs_key = st_key s, rs_value = text_value\<rparr>))"

definition render_vector :: "int list \<Rightarrow> nat \<Rightarrow> int \<Rightarrow> int \<Rightarrow> string \<Rightarrow> utext \<Rightarrow> string + utext" where
  "render_vector values n minimum maximum name separator =
     (if length values \<noteq> n \<or> list_ex (\<lambda>v. v < minimum \<or> maximum < v) values
      then Err (name @ '' requires {length} values between {minimum} and {maximum}'')
      else Ok (join_text separator (map show_int values)))"

definition render_shadow :: "shadow_setting \<Rightarrow> string + utext" where
  "render_shadow v =
     (if \<not> (0 \<le> sh_dark_alpha v \<and> sh_dark_alpha v \<le> 255) \<or> \<not> (0 \<le> sh_light_alpha v \<and> sh_light_alpha v \<le> 255)
         \<or> 0xFFFFFF < sh_dark_color v \<or> 0xFFFFFF < sh_light_color v
      then Err ''shadow alpha or color is outside its supported range''
      else Ok (join_text [44]
             [show_int (sh_offset_x v), show_int (sh_offset_y v), show_int (sh_dark_alpha v),
              show_hex6 (sh_dark_color v), show_int (sh_light_alpha v), show_hex6 (sh_light_color v)]))"

text \<open>The loop of \<open>normalize_list_entries\<close> with the entries kept and the lowercase texts seen so far.\<close>

fun normalize_from :: "text_env \<Rightarrow> utext list \<Rightarrow> utext list \<Rightarrow> utext list \<Rightarrow> string + utext list" where
  "normalize_from te [] normalized seen = Ok normalized"
| "normalize_from te (entry # entries) normalized seen =
     (let entry = text_trim entry
      in ok_then (validate_entry entry ''list entry'') (\<lambda>_.
         if te_lowercase te entry \<in> set seen then normalize_from te entries normalized seen
         else normalize_from te entries (normalized @ [entry]) (te_lowercase te entry # seen)))"

definition normalize_list_entries :: "text_env \<Rightarrow> utext list \<Rightarrow> string + utext list" where
  "normalize_list_entries te entries = normalize_from te entries [] []"

fun validate_font_substitutions :: "utext list \<Rightarrow> string + unit" where
  "validate_font_substitutions [] = Ok ()"
| "validate_font_substitutions (mapping # mappings) =
     (if 61 \<notin> set mapping then Err ''font substitutions must use Source font=Replacement font''
      else (let source = takeWhile (\<lambda>c. c \<noteq> 61) mapping;
                replacement = drop (Suc (length source)) mapping
            in if text_trim source = [] \<or> text_trim replacement = []
               then Err ''font substitutions require both source and replacement fonts''
               else validate_font_substitutions mappings))"

text \<open>\<open>Option::map\<close> and \<open>transpose\<close>.\<close>

definition render_option :: "('a \<Rightarrow> string + utext) \<Rightarrow> 'a option \<Rightarrow> string + utext option" where
  "render_option f x = (case x of None \<Rightarrow> Ok None | Some v \<Rightarrow> ok_then (f v) (\<lambda>t. Ok (Some t)))"

definition render_advanced_profile :: "text_env \<Rightarrow> advanced_profile \<Rightarrow> string + rendered_advanced_profile" where
  "render_advanced_profile te profile =
     ok_then (render_option render_shadow (ap_shadow profile)) (\<lambda>shadow_text.
     ok_then (render_option (\<lambda>vs. render_vector vs 5 0 255 ''LCD filter weight'' [44])
                 (ap_lcd_filter_weight profile)) (\<lambda>weights.
     ok_then (render_option (\<lambda>vs. render_vector vs 6 (- 128) 127 ''pixel layout'' [44])
                 (ap_pixel_layout profile)) (\<lambda>layout.
     ok_then (normalize_list_entries te (ap_font_substitutes profile)) (\<lambda>substitutes.
     ok_then (validate_font_substitutions substitutes) (\<lambda>_.
     Ok \<lparr>ra_shadow = shadow_text, ra_lcd_filter_weight = weights, ra_pixel_layout = layout,
         ra_font_substitutes = substitutes\<rparr>)))))"

definition individual_bounds :: "(int \<times> int) list" where
  "individual_bounds = [(0, 2), (- 1, 6), (- 64, 64), (- 32, 32), (- 32, 32), (0, 1)]"

definition individual_in_bounds :: "int option list \<Rightarrow> bool" where
  "individual_in_bounds values \<longleftrightarrow>
     list_all2 (\<lambda>v (minimum, maximum). case v of None \<Rightarrow> True | Some v \<Rightarrow> minimum \<le> v \<and> v \<le> maximum)
       values individual_bounds"

fun validate_individuals_from :: "text_env \<Rightarrow> individual_setting list \<Rightarrow> utext list \<Rightarrow> string + unit" where
  "validate_individuals_from te [] seen = Ok ()"
| "validate_individuals_from te (entry # entries) seen =
     ok_then (validate_entry (is_font_face entry) ''font face'') (\<lambda>_.
     if 61 \<in> set (is_font_face entry) then Err (''font face cannot contain '' @ [CHR 0x27, CHR ''='', CHR 0x27])
     else if te_lowercase te (is_font_face entry) \<in> set seen then Err ''duplicate font face: {font_face}''
     else if length (is_values entry) \<noteq> 6
     then Err ''individual font settings require exactly six values''
     else if \<not> individual_in_bounds (is_values entry)
     then Err ''{font_face} value {index} must be between {minimum} and {maximum}''
     else validate_individuals_from te entries (te_lowercase te (is_font_face entry) # seen))"

definition validate_individuals :: "text_env \<Rightarrow> individual_setting list \<Rightarrow> string + unit" where
  "validate_individuals te entries = validate_individuals_from te entries []"

section \<open>Changing nodes\<close>

definition mark_dirty :: "string \<Rightarrow> profile_document \<Rightarrow> profile_document" where
  "mark_dirty key d = d\<lparr>pd_dirty_keys := set_insert key (pd_dirty_keys d)\<rparr>"

text \<open>The last element with a property is changed, if there is one.\<close>

fun update_last :: "('a \<Rightarrow> bool) \<Rightarrow> ('a \<Rightarrow> 'a) \<Rightarrow> 'a list \<Rightarrow> 'a list" where
  "update_last P f [] = []"
| "update_last P f (x # xs) =
     (if list_ex P xs then x # update_last P f xs else if P x then f x # xs else x # xs)"

text \<open>\<open>rposition\<close>, as the index behind the last element with the property.\<close>

definition index_behind_last :: "('a \<Rightarrow> bool) \<Rightarrow> 'a list \<Rightarrow> nat" where
  "index_behind_last P xs =
     (if list_ex P xs then length (dropWhile (\<lambda>x. \<not> P x) (rev xs)) else length xs)"

definition insert_at :: "nat \<Rightarrow> 'a list \<Rightarrow> 'a list \<Rightarrow> 'a list" where
  "insert_at i new xs = take i xs @ new @ drop i xs"

definition names_section :: "utext \<Rightarrow> ini_node \<Rightarrow> bool" where
  "names_section target node = (case node of Section name raw \<Rightarrow> same_ignoring_case name target | _ \<Rightarrow> False)"

definition belongs_to :: "utext \<Rightarrow> ini_node \<Rightarrow> bool" where
  "belongs_to target node =
     (case node of
        Section name raw \<Rightarrow> same_ignoring_case name target
      | KeyValue sec key v pre sep suf raw \<Rightarrow> same_ignoring_case sec target
      | Unknown sec raw \<Rightarrow> same_ignoring_case sec target
      | _ \<Rightarrow> False)"

definition rewrite_value :: "utext \<Rightarrow> ini_node \<Rightarrow> ini_node" where
  "rewrite_value rendered node =
     (case node of
        KeyValue sec key v pre sep suf raw \<Rightarrow>
          KeyValue sec key rendered pre sep suf (pre @ sep @ rendered @ suf)
      | _ \<Rightarrow> node)"

definition section_header :: "utext \<Rightarrow> utext \<Rightarrow> ini_node" where
  "section_header name line_end = Section name ([91] @ name @ [93] @ line_end)"

definition new_assignment :: "utext \<Rightarrow> utext \<Rightarrow> utext \<Rightarrow> utext \<Rightarrow> ini_node" where
  "new_assignment sec key rendered line_end =
     KeyValue sec key rendered key [61] line_end (key @ [61] @ rendered @ line_end)"

definition ensure_section :: "utext \<Rightarrow> utext \<Rightarrow> ini_node list \<Rightarrow> ini_node list" where
  "ensure_section target line_end nodes =
     (if list_ex (names_section target) nodes then nodes else nodes @ [section_header target line_end])"

text \<open>The section a key is written to: the first that assigns it, else the one asked for.\<close>

definition target_section :: "ini_node list \<Rightarrow> utext \<Rightarrow> utext \<Rightarrow> utext" where
  "target_section nodes section_name key_name =
     (case List.find (\<lambda>target. list_ex (assigns target key_name) nodes) (lookup_sections section_name) of
        Some target \<Rightarrow> target | None \<Rightarrow> section_name)"

definition set_raw_value :: "utext \<Rightarrow> utext \<Rightarrow> utext option \<Rightarrow> string \<Rightarrow> profile_document \<Rightarrow> profile_document" where
  "set_raw_value section_name key_name v dirty_key d =
     mark_dirty dirty_key
       (case v of
          None \<Rightarrow> d\<lparr>pd_nodes := filter (\<lambda>node. \<not> list_ex (\<lambda>target. assigns target key_name node)
                                              (lookup_sections section_name)) (pd_nodes d)\<rparr>
        | Some rendered \<Rightarrow>
            (let target = target_section (pd_nodes d) section_name key_name
             in if list_ex (assigns target key_name) (pd_nodes d)
                then d\<lparr>pd_nodes := update_last (assigns target key_name) (rewrite_value rendered) (pd_nodes d)\<rparr>
                else (let nodes = ensure_section target (document_ending d) (pd_nodes d)
                      in d\<lparr>pd_nodes := insert_at (index_behind_last (belongs_to target) nodes)
                             [new_assignment target key_name rendered (document_ending d)] nodes\<rparr>)))"

definition set_value :: "string \<Rightarrow> f64 \<Rightarrow> unit edit" where
  "set_value setting_id v d =
     (case render_setting_value setting_id v of
        Inl e \<Rightarrow> (Err e, d)
      | Inr rendered \<Rightarrow> (Ok (), set_raw_value (chars (rs_section rendered)) (chars (rs_key rendered))
                              (Some (rs_value rendered)) setting_id d))"

text \<open>
  \<open>section_range\<close>: the document with the section, and the nodes before, in and behind its first
  occurrence (the header belongs to the first part).
\<close>

definition is_section :: "ini_node \<Rightarrow> bool" where
  "is_section node = (case node of Section name raw \<Rightarrow> True | _ \<Rightarrow> False)"

definition section_range :: "utext \<Rightarrow> profile_document \<Rightarrow> ini_node list \<times> ini_node list \<times> ini_node list" where
  "section_range name d =
     (let nodes = ensure_section name (document_ending d) (pd_nodes d);
          before = takeWhile (\<lambda>node. \<not> names_section name node) nodes;
          rest = drop (length before) nodes;
          inside = takeWhile (\<lambda>node. \<not> is_section node) (tl rest)
      in (before @ [hd rest], inside, drop (length inside) (tl rest)))"

definition replace_section ::
  "utext \<Rightarrow> (ini_node \<Rightarrow> bool) \<Rightarrow> ini_node list \<Rightarrow> string \<Rightarrow> profile_document \<Rightarrow> profile_document" where
  "replace_section name kept new dirty_key d =
     (let (before, inside, behind) = section_range name d
      in mark_dirty dirty_key (d\<lparr>pd_nodes := before @ filter kept inside @ new @ behind\<rparr>))"

definition individual_node :: "utext \<Rightarrow> individual_setting \<Rightarrow> ini_node" where
  "individual_node line_end entry =
     new_assignment (chars ''Individual'') (is_font_face entry)
       (join_text [44] (map (\<lambda>v. case v of None \<Rightarrow> [] | Some v \<Rightarrow> show_int v) (is_values entry))) line_end"

definition set_individuals :: "text_env \<Rightarrow> individual_setting list \<Rightarrow> unit edit" where
  "set_individuals te entries d =
     (case validate_individuals te entries of
        Inl e \<Rightarrow> (Err e, d)
      | Inr _ \<Rightarrow>
          (Ok (), replace_section (chars ''Individual'')
             (\<lambda>node. case node of KeyValue sec key v pre sep suf raw \<Rightarrow> \<not> same_ignoring_case sec (chars ''Individual'')
                     | _ \<Rightarrow> True)
             (map (individual_node (document_ending d)) entries) ''section:Individual'' d))"

definition replace_list_section :: "string \<Rightarrow> utext list \<Rightarrow> profile_document \<Rightarrow> profile_document" where
  "replace_list_section sec normalized d =
     replace_section (chars sec)
       (\<lambda>node. case node of
          Unknown item_section raw \<Rightarrow> \<not> same_ignoring_case item_section (chars sec)
        | KeyValue item_section key v pre sep suf raw \<Rightarrow> \<not> same_ignoring_case item_section (chars sec)
        | _ \<Rightarrow> True)
       (map (\<lambda>entry. Unknown (chars sec) (entry @ document_ending d)) normalized) (''section:'' @ sec) d"

definition list_section :: "string \<Rightarrow> string option" where
  "list_section kind = map_of
     [(''excludeFonts'', ''Exclude''), (''includeFonts'', ''Include''), (''excludeModules'', ''ExcludeModule''),
      (''includeModules'', ''IncludeModule''), (''unloadDlls'', ''UnloadDLL''),
      (''excludeSubstitutionModules'', ''ExcludeSub''), (''fontSubstitutes'', ''FontSubstitutes'')] kind"

definition set_list :: "text_env \<Rightarrow> string \<Rightarrow> utext list \<Rightarrow> unit edit" where
  "set_list te kind entries d =
     (case list_section kind of
        None \<Rightarrow> (Err (''unknown profile list: '' @ kind), d)
      | Some sec \<Rightarrow>
          (case normalize_list_entries te entries of
             Inl e \<Rightarrow> (Err e, d)
           | Inr normalized \<Rightarrow> (Ok (), replace_list_section sec normalized d)))"

definition set_advanced :: "text_env \<Rightarrow> advanced_profile \<Rightarrow> unit edit" where
  "set_advanced te profile d =
     (case render_advanced_profile te profile of
        Inl e \<Rightarrow> (Err e, d)
      | Inr rendered \<Rightarrow>
          (let general = chars ''General'';
               d = set_raw_value general (chars ''Shadow'') (ra_shadow rendered) ''advanced:shadow'' d;
               d = set_raw_value general (chars ''LcdFilterWeight'') (ra_lcd_filter_weight rendered)
                     ''advanced:lcdFilterWeight'' d;
               d = set_raw_value general (chars ''PixelLayout'') (ra_pixel_layout rendered)
                     ''advanced:pixelLayout'' d
           in (Ok (), replace_list_section ''FontSubstitutes'' (ra_font_substitutes rendered) d)))"

text \<open>One setting of \<open>reset_settings_to_defaults\<close>.\<close>

definition reset_setting :: "setting_definition \<Rightarrow> unit edit" where
  "reset_setting s d =
     (case render_setting_value (st_id s) (literal_value (st_factory s)) of
        Inl e \<Rightarrow> (Err e, d)
      | Inr rendered \<Rightarrow>
          (let unchanged = (case raw_value d (chars (rs_section rendered)) (chars (rs_key rendered)) of
                              Some v \<Rightarrow> v = rs_value rendered
                            | None \<Rightarrow> f64_eq (literal_value (st_factory s)) (literal_value (st_default s)))
           in (Ok (), if unchanged then d
                 else set_raw_value (chars (rs_section rendered)) (chars (rs_key rendered))
                        (Some (rs_value rendered)) (st_id s) d)))"

fun reset_settings :: "setting_definition list \<Rightarrow> unit edit" where
  "reset_settings [] d = (Ok (), d)"
| "reset_settings (s # ss) d =
     (case reset_setting s d of (Inl e, d) \<Rightarrow> (Err e, d) | (Inr _, d) \<Rightarrow> reset_settings ss d)"

section \<open>The history\<close>

definition HISTORY_LIMIT :: nat where "HISTORY_LIMIT = 100"

definition revision_of :: "profile_document \<Rightarrow> profile_revision" where
  "revision_of d = \<lparr>pr_nodes = pd_nodes d, pr_dirty_keys = pd_dirty_keys d\<rparr>"

definition restore_revision :: "profile_revision \<Rightarrow> profile_document \<Rightarrow> profile_document" where
  "restore_revision r d = d\<lparr>pd_nodes := pr_nodes r, pd_dirty_keys := pr_dirty_keys r\<rparr>"

definition record_edit :: "unit edit \<Rightarrow> unit edit" where
  "record_edit edit d =
     (case edit d of
        (Inl e, d') \<Rightarrow> (Err e, d')
      | (Inr _, d') \<Rightarrow>
          if revision_of d' = revision_of d then (Ok (), d')
          else (let history = (if length (pd_undo d') = HISTORY_LIMIT then tl (pd_undo d') else pd_undo d')
                in (Ok (), d'\<lparr>pd_undo := history @ [revision_of d], pd_redo := []\<rparr>)))"

definition update_value :: "string \<Rightarrow> f64 \<Rightarrow> unit edit" where
  "update_value setting_id v = record_edit (set_value setting_id v)"

definition update_individuals :: "text_env \<Rightarrow> individual_setting list \<Rightarrow> unit edit" where
  "update_individuals te entries = record_edit (set_individuals te entries)"

definition update_list :: "text_env \<Rightarrow> string \<Rightarrow> utext list \<Rightarrow> unit edit" where
  "update_list te kind entries = record_edit (set_list te kind entries)"

definition update_advanced :: "text_env \<Rightarrow> advanced_profile \<Rightarrow> unit edit" where
  "update_advanced te profile = record_edit (set_advanced te profile)"

definition reset_settings_to_defaults :: "unit edit" where
  "reset_settings_to_defaults = record_edit (reset_settings SETTINGS)"

definition undo_edit :: "profile_document \<Rightarrow> bool \<times> profile_document" where
  "undo_edit d =
     (if pd_undo d = [] then (False, d)
      else (True, restore_revision (List.last (pd_undo d))
              (d\<lparr>pd_undo := butlast (pd_undo d), pd_redo := pd_redo d @ [revision_of d]\<rparr>)))"

definition redo_edit :: "profile_document \<Rightarrow> bool \<times> profile_document" where
  "redo_edit d =
     (if pd_redo d = [] then (False, d)
      else (True, restore_revision (List.last (pd_redo d))
              (d\<lparr>pd_redo := butlast (pd_redo d), pd_undo := pd_undo d @ [revision_of d]\<rparr>)))"

end
