(* ===== verification/Profile_Files.thy ===== *)
theory Profile_Files
  imports Profile_Mutation Setup_Storage
begin

text \<open>
  The profile editor and its files (\<open>control-center/src-tauri/src/profile/storage.rs\<close>, \<open>identity.rs\<close>,
  \<open>legacy.rs\<close>, \<open>state.rs\<close>, \<open>commands.rs\<close> and \<open>bounded_io.rs\<close>), on the disk of the setup model: saving,
  copying, importing and exporting a profile, finding profiles, and the commands of the user interface
  over the open document.

  Texts of errors are patterns with the errors they embed.  The conversion of user text to a path, the
  resolution of links and the environment are parameters.
\<close>

record editor_env =
  ee_text :: text_env
  ee_sha :: "string \<Rightarrow> string"
  ee_pid :: nat
  ee_installation :: "path option"
  ee_personal :: "path option"
  ee_canonical :: "path \<Rightarrow> path option"
  ee_read_only :: "path \<Rightarrow> bool"
  ee_path_of :: "utext \<Rightarrow> path"
  ee_lowercase_name :: "string \<Rightarrow> string"

definition user_error :: "string \<Rightarrow> 'a setup_op" where
  "user_error message = sraise (SetupRuntime message [])"

definition from_result :: "string \<Rightarrow> unit + 'a \<Rightarrow> 'a setup_op" where
  "from_result message r = (case r of Inl _ \<Rightarrow> user_error message | Inr x \<Rightarrow> sret x)"

definition from_checked :: "string + 'a \<Rightarrow> 'a setup_op" where
  "from_checked r = (case r of Inl e \<Rightarrow> user_error e | Inr x \<Rightarrow> sret x)"

section \<open>File names\<close>

text \<open>\<open>Path::file_stem\<close> and \<open>Path::extension\<close>: what precedes and follows the last dot but the first character.\<close>

definition stem_and_extension :: "string \<Rightarrow> string \<times> string option" where
  "stem_and_extension name =
     (case rsplit_once name (CHR ''.'') of
        Some (before, behind) \<Rightarrow> if before = [] then (name, None) else (before, Some behind)
      | None \<Rightarrow> (name, None))"

definition path_stem :: "path \<Rightarrow> string option" where
  "path_stem p = map_option (\<lambda>name. fst (stem_and_extension name)) (path_file_name p)"

definition is_ini :: "path \<Rightarrow> bool" where
  "is_ini p =
     (case Option.bind (path_file_name p) (\<lambda>name. snd (stem_and_extension name)) of
        None \<Rightarrow> False | Some extension \<Rightarrow> eq_ignore_ascii_case extension ''ini'')"

text \<open>A file name as text; a name that is not Unicode keeps its bytes.\<close>

definition name_text :: "string \<Rightarrow> utext" where
  "name_text name = (case from_utf8 name of Some s \<Rightarrow> s | None \<Rightarrow> chars name)"

definition with_name :: "path \<Rightarrow> string \<Rightarrow> path" where
  "with_name p name = path_join (case path_parent p of None \<Rightarrow> [] | Some parent \<Rightarrow> parent) name"

definition with_extension :: "path \<Rightarrow> string \<Rightarrow> path" where
  "with_extension p extension =
     (case path_stem p of None \<Rightarrow> p | Some stem \<Rightarrow> with_name p (stem @ ''.'' @ extension))"

section \<open>Files\<close>

definition read_bounded_file :: "path \<Rightarrow> nat \<Rightarrow> string \<Rightarrow> string setup_op" where
  "read_bounded_file p maximum_bytes description =
     sbind (fs_open_read p) (\<lambda>_.
     sbind (fs_metadata p) (\<lambda>metadata.
     case node_length metadata of
       None \<Rightarrow> user_error (description @ '' is not a regular file'')
     | Some n \<Rightarrow>
         if maximum_bytes < n then user_error (description @ '' exceeds its {maximum_bytes}-byte limit'')
         else sbind (fs_read_limited p (maximum_bytes + 1)) (\<lambda>bytes.
              if maximum_bytes < length bytes
              then user_error (description @ '' exceeds its {maximum_bytes}-byte limit'')
              else sret bytes)))"

text \<open>\<open>File::create\<close>: an empty file, whatever was there.\<close>

definition fs_create_truncate :: "path \<Rightarrow> unit setup_op" where
  "fs_create_truncate p = io_write (\<lambda>d.
     if node_at d p = Some DirNode then (Err IoOther, d)
     else if \<not> parent_is_dir d p then (Err IoNotFound, d)
     else (Ok (), set_node p (FileNode []) d))"

text \<open>\<open>create_new\<close> with the kind \<open>AlreadyExists\<close> told apart: false when the file exists.\<close>

definition fs_try_create_new :: "path \<Rightarrow> bool setup_op" where
  "fs_try_create_new p = io_op (\<lambda>d.
     if node_at d p \<noteq> None then (Ok False, d)
     else if \<not> parent_is_dir d p then (Err IoNotFound, d)
     else (Ok True, set_node p (FileNode []) d)) (\<lambda>_ d. d)"

text \<open>
  \<open>ReplaceFileW\<close> with a backup.  When it fails, the replaced file has its name or, in one documented
  case, the name of the backup already.
\<close>

definition move_file :: "path \<Rightarrow> path \<Rightarrow> setup_disk \<Rightarrow> setup_disk" where
  "move_file source destination d =
     (case node_at d source of
        Some (FileNode c) \<Rightarrow> drop_node source (set_node destination (FileNode c) d) | _ \<Rightarrow> d)"

definition replace_with_backup :: "path \<Rightarrow> path \<Rightarrow> path \<Rightarrow> unit setup_op" where
  "replace_with_backup destination replacement backup =
     io_op (\<lambda>d. case (node_at d destination, node_at d replacement) of
              (Some (FileNode _), Some (FileNode _)) \<Rightarrow>
                (Ok (), move_file replacement destination (move_file destination backup d))
            | _ \<Rightarrow> (Err IoNotFound, d))
       (\<lambda>n d. case (node_at d destination, node_at d replacement) of
              (Some (FileNode _), Some (FileNode _)) \<Rightarrow>
                if n = 0 then d else if n = 1 then move_file destination backup d
                else move_file replacement destination (move_file destination backup d)
            | _ \<Rightarrow> d)"

section \<open>Documents and files\<close>

definition document_from :: "editor_env \<Rightarrow> path \<Rightarrow> string \<Rightarrow> profile_document setup_op" where
  "document_from ee p bytes =
     from_result ''profile encoding is not supported'' (from_bytes (ee_text ee) (ee_sha ee) p bytes)"

definition open_document :: "editor_env \<Rightarrow> path \<Rightarrow> profile_document setup_op" where
  "open_document ee p =
     sbind (read_bounded_file p MAX_PROFILE_BYTES ''profile'') (document_from ee p)"

definition encoded :: "text_env \<Rightarrow> profile_document \<Rightarrow> string + string" where
  "encoded te d =
     (case (case pd_original_legacy_lines d of
              Some original_lines \<Rightarrow>
                encode_preserving_legacy_lines te (map node_raw (pd_nodes d)) original_lines (pd_encoding d)
            | None \<Rightarrow> encode te (document_text d) (pd_encoding d) (pd_bom d)) of
        Inl _ \<Rightarrow> Err ''profile contains text that cannot be represented in its original encoding''
      | Inr bytes \<Rightarrow>
          if MAX_PROFILE_BYTES < length bytes then Err ''profile exceeds its {limit}-byte limit'' else Ok bytes)"

text \<open>The name of a copy as the user typed it: without the extension, which may be typed more than once.\<close>

function trim_ini_suffix :: "utext \<Rightarrow> utext" where
  "trim_ini_suffix s =
     (if 4 \<le> length s \<and> drop (length s - 4) s = chars ''.ini''
      then trim_ini_suffix (take (length s - 4) s) else s)"
  by auto
termination by (relation "measure length") auto

declare trim_ini_suffix.simps [simp del]

definition reserved_characters :: utext where
  "reserved_characters = [60, 62, 58, 34, 47, 92, 124, 63, 42]"

definition duplicate_in :: "editor_env \<Rightarrow> path \<Rightarrow> utext \<Rightarrow> profile_document \<Rightarrow> profile_document setup_op" where
  "duplicate_in ee directory name d =
     (let stem = trim_ini_suffix (text_trim name)
      in sbind (from_checked (validate_entry stem ''profile name'')) (\<lambda>_.
         if list_ex (\<lambda>c. c \<in> set reserved_characters) stem
         then user_error ''profile name contains a Windows-reserved character''
         else sbind (fs_create_dir_all directory) (\<lambda>_.
              let destination = path_join directory (utf8_encode stem @ ''.ini'')
              in sbind (path_exists destination) (\<lambda>there.
                 if there then user_error ''a profile with that name already exists''
                 else sbind (from_checked (encoded (ee_text ee) d)) (\<lambda>bytes.
                      sbind (fs_create_new destination) (\<lambda>_.
                      sbind (fs_write_all destination bytes) (\<lambda>_.
                      sbind (fs_sync_all destination) (\<lambda>_. open_document ee destination))))))))"

definition export_to :: "editor_env \<Rightarrow> path \<Rightarrow> profile_document \<Rightarrow> unit setup_op" where
  "export_to ee destination d =
     (case path_parent destination of
        None \<Rightarrow> user_error ''export destination directory does not exist''
      | Some parent \<Rightarrow>
          sbind (path_is_dir parent) (\<lambda>is_dir.
          if \<not> is_dir then user_error ''export destination directory does not exist''
          else if path_file_name destination = None then user_error ''export destination must be an INI file''
          else sbind (from_checked (encoded (ee_text ee) d)) (\<lambda>bytes.
               sbind (fs_create_truncate destination) (\<lambda>_.
               sbind (fs_write_all destination bytes) (\<lambda>_. fs_sync_all destination)))))"

definition temporary_path :: "editor_env \<Rightarrow> path \<Rightarrow> path" where
  "temporary_path ee p =
     with_name p (''.'' @ (case path_file_name p of None \<Rightarrow> ''profile.ini'' | Some name \<Rightarrow> name)
                  @ ''.mactype-'' @ show_nat (ee_pid ee) @ ''.tmp'')"

definition backup_path :: "path \<Rightarrow> path" where
  "backup_path p = with_extension p ''ini.bak''"

text \<open>The document after a save that succeeded.\<close>

definition saved_document :: "editor_env \<Rightarrow> string \<Rightarrow> profile_document \<Rightarrow> profile_document" where
  "saved_document ee bytes d =
     d\<lparr>pd_original_hash := ee_sha ee bytes,
       pd_original_legacy_lines := original_legacy_lines bytes (document_text d) (pd_encoding d),
       pd_saved_values := setting_values d, pd_dirty_keys := [], pd_undo := [], pd_redo := []\<rparr>"

definition save :: "editor_env \<Rightarrow> profile_document \<Rightarrow> profile_document setup_op" where
  "save ee d =
     (let p = pd_path d; temporary = temporary_path ee p
      in sbind (read_bounded_file p MAX_PROFILE_BYTES ''profile on disk'') (\<lambda>disk_bytes.
         if ee_sha ee disk_bytes \<noteq> pd_original_hash d
         then user_error ''profile changed on disk; reload before saving''
         else sbind (from_checked (encoded (ee_text ee) d)) (\<lambda>bytes.
              sbind (fs_create_truncate temporary) (\<lambda>_.
              sbind (fs_write_all temporary bytes) (\<lambda>_.
              sbind (fs_sync_all temporary) (\<lambda>_.
              sbind (attempt (replace_with_backup p temporary (backup_path p))) (\<lambda>replaced.
              case replaced of
                Inl e \<Rightarrow> sbind (attempt (fs_remove_file temporary)) (\<lambda>_. sraise e)
              | Inr _ \<Rightarrow> sret (saved_document ee bytes d))))))))"

section \<open>The identity of a profile\<close>

definition relative_suffix :: "path \<Rightarrow> path \<Rightarrow> path option" where
  "relative_suffix p root =
     (if take (length root) p = root
         \<and> list_all (\<lambda>c. case c of Normal _ \<Rightarrow> True | CurDir \<Rightarrow> True | _ \<Rightarrow> False) (drop (length root) p)
      then Some (drop (length root) p) else None)"

definition relative_to :: "editor_env \<Rightarrow> path \<Rightarrow> path \<Rightarrow> path option" where
  "relative_to ee p root =
     (case relative_suffix p root of
        Some relative \<Rightarrow> Some relative
      | None \<Rightarrow> (case (ee_canonical ee p, ee_canonical ee root) of
          (Some p, Some root) \<Rightarrow> relative_suffix p root | _ \<Rightarrow> None))"

definition windows_relative :: "path \<Rightarrow> string" where
  "windows_relative p =
     path_display (filter (\<lambda>c. case c of Normal _ \<Rightarrow> True | _ \<Rightarrow> False) p)"

definition profile_reference_at :: "editor_env \<Rightarrow> path \<Rightarrow> string \<times> profile_location" where
  "profile_reference_at ee p =
     (case Option.bind (ee_installation ee) (relative_to ee p) of
        Some relative \<Rightarrow> (windows_relative relative, Installation)
      | None \<Rightarrow> (case Option.bind (ee_personal ee) (relative_to ee p) of
          Some relative \<Rightarrow>
            (if windows_relative relative = [] then ''Profiles''
             else ''Profiles'' @ [char_of (92 :: nat)] @ windows_relative relative, Personal)
        | None \<Rightarrow> (path_display p, External)))"

text \<open>Opening for writing is one more operation that can fail.\<close>

definition fs_open_write :: "path \<Rightarrow> unit setup_op" where
  "fs_open_write p = io_read (\<lambda>d. case node_at d p of Some (FileNode _) \<Rightarrow> Ok () | _ \<Rightarrow> Err IoOther)"

definition can_write_file :: "editor_env \<Rightarrow> path \<Rightarrow> bool setup_op" where
  "can_write_file ee p =
     sbind (attempt (fs_metadata p)) (\<lambda>metadata.
     case metadata of
       Inr (FileNode _) \<Rightarrow>
         if ee_read_only ee p then sret False
         else sbind (attempt (fs_open_write p)) (\<lambda>opened. sret (case opened of Inr _ \<Rightarrow> True | Inl _ \<Rightarrow> False))
     | _ \<Rightarrow> sret False)"

definition identify_profile :: "editor_env \<Rightarrow> path \<Rightarrow> profile_identity setup_op" where
  "identify_profile ee p =
     (let (display_path, location) = profile_reference_at ee p
      in if location = External
         then sret \<lparr>pi_display_path = display_path, pi_location = location, pi_can_save = False\<rparr>
         else sbind (can_write_file ee p) (\<lambda>writable.
              sret \<lparr>pi_display_path = display_path, pi_location = location, pi_can_save = writable\<rparr>))"

section \<open>Finding and importing profiles\<close>

record legacy_candidate =
  lc_name :: string
  lc_path :: path
  lc_source :: string

definition is_quote :: "nat \<Rightarrow> bool" where "is_quote c \<longleftrightarrow> c = 34"

definition unquoted :: "utext \<Rightarrow> utext" where
  "unquoted v = trim_matches is_quote (text_trim v)"

definition stem_or_default :: "path \<Rightarrow> string" where
  "stem_or_default p = (case path_stem p of Some stem \<Rightarrow> stem | None \<Rightarrow> ''MacType profile'')"

definition managed_source_name :: "editor_env \<Rightarrow> profile_document \<Rightarrow> path \<Rightarrow> string option" where
  "managed_source_name ee document candidate =
     (case path_file_name candidate of
        None \<Rightarrow> None
      | Some name \<Rightarrow>
          if \<not> eq_ignore_ascii_case name ''ControlCenter.ini'' then None
          else Option.bind (raw_value document (chars ''General'') (chars ''ControlCenterSourceProfile''))
                 (\<lambda>source. path_stem (ee_path_of ee (unquoted source))))"

definition discover_legacy_profile_at :: "editor_env \<Rightarrow> path \<Rightarrow> legacy_candidate option setup_op" where
  "discover_legacy_profile_at ee root =
     (let configuration = path_join root ''MacType.ini'';
          primary = \<lparr>lc_name = stem_or_default configuration, lc_path = configuration, lc_source = ''primary-file''\<rparr>
      in sbind (path_is_file configuration) (\<lambda>there.
         if \<not> there then sret None
         else sbind (open_document ee configuration) (\<lambda>document.
         case raw_value document (chars ''General'') (chars ''AlternativeFile'') of
           None \<Rightarrow> sret (Some primary)
         | Some alternative \<Rightarrow>
             if unquoted alternative = [] then sret (Some primary)
             else (let candidate = ee_path_of ee (unquoted alternative);
                       candidate = (if path_is_absolute candidate then candidate else root @ candidate)
                   in sbind (path_is_file candidate) (\<lambda>is_file.
                      if \<not> is_file \<or> \<not> is_ini candidate then sret None
                      else sret (Some \<lparr>lc_name = (case managed_source_name ee document candidate of
                                          Some name \<Rightarrow> name | None \<Rightarrow> stem_or_default candidate),
                                   lc_path = candidate, lc_source = ''alternative-file''\<rparr>))))))"

definition legacy_alternative_file_bytes :: "editor_env \<Rightarrow> string \<Rightarrow> unit + path option" where
  "legacy_alternative_file_bytes ee bytes =
     (case from_bytes (ee_text ee) (ee_sha ee) [] bytes of
        Inl e \<Rightarrow> Err e
      | Inr document \<Rightarrow>
          Ok (case raw_value document (chars ''General'') (chars ''AlternativeFile'') of
                None \<Rightarrow> None
              | Some v \<Rightarrow> if unquoted v = [] then None else Some (ee_path_of ee (unquoted v))))"

definition imported_name :: "string \<Rightarrow> nat \<Rightarrow> string" where
  "imported_name stem suffix =
     (if suffix = 1 then stem @ ''.ini'' else stem @ '' ('' @ show_nat suffix @ '').ini'')"

fun import_as :: "editor_env \<Rightarrow> path \<Rightarrow> string \<Rightarrow> string \<Rightarrow> nat list \<Rightarrow> profile_document setup_op" where
  "import_as ee directory stem bytes [] = user_error ''too many profiles have the same name''"
| "import_as ee directory stem bytes (suffix # suffixes) =
     (let destination = path_join directory (imported_name stem suffix)
      in sbind (fs_try_create_new destination) (\<lambda>created.
         if \<not> created then import_as ee directory stem bytes suffixes
         else sbind (attempt (sbind (fs_write_all destination bytes) (\<lambda>_. fs_sync_all destination))) (\<lambda>written.
              case written of
                Inl e \<Rightarrow> sbind (attempt (fs_remove_file destination)) (\<lambda>_. sraise e)
              | Inr _ \<Rightarrow> open_document ee destination)))"

definition import_profile_to :: "editor_env \<Rightarrow> path \<Rightarrow> path \<Rightarrow> profile_document setup_op" where
  "import_profile_to ee source directory =
     sbind (path_is_file source) (\<lambda>is_file.
     if \<not> is_file \<or> \<not> is_ini source then user_error ''select an existing INI profile''
     else (case ee_canonical ee source of
             None \<Rightarrow> user_error ''{error}''
           | Some source \<Rightarrow>
               sbind (read_bounded_file source MAX_PROFILE_BYTES ''imported profile'') (\<lambda>bytes.
               sbind (document_from ee source bytes) (\<lambda>_.
               case path_stem source of
                 None \<Rightarrow> user_error ''profile has no file name''
               | Some stem \<Rightarrow>
                   sbind (from_checked (validate_entry (name_text stem) ''profile name'')) (\<lambda>_.
                   sbind (fs_create_dir_all directory) (\<lambda>_.
                   import_as ee directory stem bytes [1..<1000]))))))"

definition MAX_PROFILE_DIRECTORY_ENTRIES :: nat where "MAX_PROFILE_DIRECTORY_ENTRIES = 512"

text \<open>An entry that cannot be read is passed over, but counted by its position.\<close>

fun ini_entries :: "path \<Rightarrow> string list \<Rightarrow> nat \<Rightarrow> path list \<Rightarrow> path list setup_op" where
  "ini_entries root [] index candidates = sret candidates"
| "ini_entries root (name # names) index candidates =
     (if index = MAX_PROFILE_DIRECTORY_ENTRIES
      then user_error ''profile directory contains more than {limit} entries''
      else sbind (attempt fs_next_entry) (\<lambda>entry. case entry of
             Inl _ \<Rightarrow> ini_entries root names (Suc index) candidates
           | Inr _ \<Rightarrow> ini_entries root names (Suc index)
               (if is_ini (path_join root name) then candidates @ [path_join root name] else candidates)))"

definition name_key :: "editor_env \<Rightarrow> path \<Rightarrow> string" where
  "name_key ee p = (case path_file_name p of None \<Rightarrow> [] | Some name \<Rightarrow> ee_lowercase_name ee name)"

definition first_by_name :: "editor_env \<Rightarrow> path list \<Rightarrow> path option" where
  "first_by_name ee candidates =
     (case candidates of [] \<Rightarrow> None
      | p # ps \<Rightarrow> Some (fold (\<lambda>q best. if name_key ee q < name_key ee best then q else best) ps p))"

definition find_default_profile_at :: "editor_env \<Rightarrow> path \<Rightarrow> path option setup_op" where
  "find_default_profile_at ee root =
     (let profile_root = path_join root ''ini''; default = path_join profile_root ''Default.ini''
      in sbind (path_is_file default) (\<lambda>there.
         if there then sret (Some default)
         else sbind (attempt (fs_names profile_root)) (\<lambda>names.
              sbind (case names of Inl _ \<Rightarrow> sret [] | Inr names \<Rightarrow> ini_entries profile_root names 0 []) (\<lambda>candidates.
              case first_by_name ee candidates of
                Some p \<Rightarrow> sret (Some p)
              | None \<Rightarrow> sbind (path_is_file (path_join root ''MacType.ini'')) (\<lambda>is_file.
                  sret (if is_file then Some (path_join root ''MacType.ini'') else None))))))"

definition bundled_default_profile_at :: "editor_env \<Rightarrow> path \<Rightarrow> (path \<times> string) option setup_op" where
  "bundled_default_profile_at ee installation =
     (let p = path_join (path_join installation ''ini'') ''Default.ini''
      in sbind (path_is_file p) (\<lambda>there.
         if \<not> there then sret None
         else sbind (read_bounded_file p MAX_PROFILE_BYTES ''default profile'') (\<lambda>bytes.
              sbind (document_from ee p bytes) (\<lambda>_. sret (Some (p, bytes))))))"

fun append_entries :: "path \<Rightarrow> string list \<Rightarrow> path list \<times> nat \<Rightarrow> (path list \<times> nat) setup_op" where
  "append_entries directory [] (paths, entry_count) = sret (paths, entry_count)"
| "append_entries directory (name # names) (paths, entry_count) =
     sbind (attempt fs_next_entry) (\<lambda>entry. case entry of
       Inl _ \<Rightarrow> append_entries directory names (paths, entry_count)
     | Inr _ \<Rightarrow>
         if MAX_PROFILE_DIRECTORY_ENTRIES < entry_count + 1
         then user_error ''profile directories contain more than {limit} entries''
         else append_entries directory names (paths @ [path_join directory name], entry_count + 1))"

definition append_profile_directory :: "path \<Rightarrow> path list \<times> nat \<Rightarrow> (path list \<times> nat) setup_op" where
  "append_profile_directory directory found =
     sbind (attempt (fs_names directory)) (\<lambda>names. case names of
       Inl _ \<Rightarrow> sret found | Inr names \<Rightarrow> append_entries directory names found)"

definition list_profile_paths_from :: "path \<Rightarrow> path option \<Rightarrow> path list setup_op" where
  "list_profile_paths_from installation user_root =
     sbind (append_profile_directory (path_join installation ''ini'') ([], 0)) (\<lambda>(paths, entry_count).
     let root_profile = path_join installation ''MacType.ini''
     in sbind (if paths = [] then path_is_file root_profile else sret False) (\<lambda>only_root.
        let paths = (if only_root then [root_profile] else paths)
        in case user_root of
             None \<Rightarrow> sret paths
           | Some user_root \<Rightarrow>
               sbind (append_profile_directory user_root (paths, entry_count)) (\<lambda>(paths, _). sret paths)))"

record profile_entry =
  pe_name :: string
  pe_path :: path
  pe_display_path :: string

definition profile_entry_of :: "editor_env \<Rightarrow> path \<Rightarrow> profile_entry" where
  "profile_entry_of ee p =
     \<lparr>pe_name = (case path_stem p of Some name \<Rightarrow> name | None \<Rightarrow> []), pe_path = p,
      pe_display_path = fst (profile_reference_at ee p)\<rparr>"

definition list_profiles :: "editor_env \<Rightarrow> profile_entry list setup_op" where
  "list_profiles ee =
     (case ee_installation ee of
        None \<Rightarrow> user_error ''MacType installation was not found''
      | Some root \<Rightarrow>
          sbind (list_profile_paths_from root (ee_personal ee)) (\<lambda>paths.
          sret (sort_key (\<lambda>entry. ee_lowercase_name ee (pe_name entry))
                  (map (profile_entry_of ee) (filter is_ini paths)))))"

definition discover_legacy_profile :: "editor_env \<Rightarrow> legacy_candidate option setup_op" where
  "discover_legacy_profile ee =
     (case ee_installation ee of None \<Rightarrow> sret None | Some root \<Rightarrow> discover_legacy_profile_at ee root)"

section \<open>The open document and the commands\<close>

text \<open>A command works on the document under its lock and on the disk.\<close>

type_synonym 'a command = "profile_document option \<Rightarrow> setup_disk \<Rightarrow> (stop + 'a) \<times> profile_document option \<times> setup_disk"

definition no_profile :: stop where
  "no_profile = Raised (SetupRuntime ''no profile is open'' [])"

text \<open>\<open>ProfileState::read\<close>, \<open>edit\<close> and \<open>replace_from\<close>.\<close>

definition read_document :: "(profile_document \<Rightarrow> 'a setup_op) \<Rightarrow> 'a command" where
  "read_document operation state d =
     (case state of
        None \<Rightarrow> (Inl no_profile, None, d)
      | Some document \<Rightarrow> (case operation document d of (r, d) \<Rightarrow> (r, Some document, d)))"

definition edit_document :: "(profile_document \<Rightarrow> setup_disk \<Rightarrow> (stop + 'a) \<times> profile_document \<times> setup_disk) \<Rightarrow> 'a command" where
  "edit_document operation state d =
     (case state of
        None \<Rightarrow> (Inl no_profile, None, d)
      | Some document \<Rightarrow> (case operation document d of (r, document, d) \<Rightarrow> (r, Some document, d)))"

definition replace_document :: "(profile_document \<Rightarrow> (profile_document \<times> 'a) setup_op) \<Rightarrow> 'a command" where
  "replace_document operation state d =
     (case state of
        None \<Rightarrow> (Inl no_profile, None, d)
      | Some document \<Rightarrow>
          (case operation document d of
             (Inl e, d) \<Rightarrow> (Inl e, Some document, d)
           | (Inr (replacement, x), d) \<Rightarrow> (Inr x, Some replacement, d)))"

text \<open>\<open>ProfileState::set\<close> with the document of an operation that does not look at the state.\<close>

definition set_document :: "(profile_document \<times> 'a) setup_op \<Rightarrow> 'a command" where
  "set_document operation state d =
     (case operation d of
        (Inl e, d) \<Rightarrow> (Inl e, state, d) | (Inr (document, x), d) \<Rightarrow> (Inr x, Some document, d))"

definition snapshot :: "editor_env \<Rightarrow> profile_document \<Rightarrow> profile_snapshot setup_op" where
  "snapshot ee document =
     sbind (identify_profile ee (pd_path document)) (\<lambda>identity. sret (snapshot_of identity document))"

definition with_snapshot :: "editor_env \<Rightarrow> profile_document setup_op \<Rightarrow> (profile_document \<times> profile_snapshot) setup_op" where
  "with_snapshot ee operation = sbind operation (\<lambda>document. sbind (snapshot ee document) (\<lambda>s. sret (document, s)))"

text \<open>An edit in memory, then the snapshot of what it left.\<close>

definition edited :: "editor_env \<Rightarrow> unit edit \<Rightarrow> profile_document \<Rightarrow> setup_disk \<Rightarrow>
    (stop + profile_snapshot) \<times> profile_document \<times> setup_disk" where
  "edited ee edit document d =
     (case edit document of
        (Inl e, document) \<Rightarrow> (Inl (Raised (SetupRuntime e [])), document, d)
      | (Inr _, document) \<Rightarrow> (case snapshot ee document d of (r, d) \<Rightarrow> (r, document, d)))"

definition active_payload :: "editor_env \<Rightarrow> (path \<times> string) command" where
  "active_payload ee = read_document (\<lambda>document.
     if is_dirty document then user_error ''save profile changes before applying them to MacType''
     else sbind (from_checked (encoded (ee_text ee) document)) (\<lambda>bytes. sret (pd_path document, bytes)))"

definition open_profile :: "editor_env \<Rightarrow> path \<Rightarrow> profile_snapshot command" where
  "open_profile ee p = set_document (with_snapshot ee (open_document ee p))"

definition open_default_profile :: "editor_env \<Rightarrow> profile_snapshot option command" where
  "open_default_profile ee state d =
     (case (case ee_installation ee of None \<Rightarrow> sret None | Some root \<Rightarrow> find_default_profile_at ee root) d of
        (Inl e, d) \<Rightarrow> (Inl e, state, d)
      | (Inr None, d) \<Rightarrow> (Inr None, state, d)
      | (Inr (Some p), d) \<Rightarrow> (case open_profile ee p state d of
            (Inl e, s) \<Rightarrow> (Inl e, s) | (Inr x, s) \<Rightarrow> (Inr (Some x), s)))"

definition current_profile :: "editor_env \<Rightarrow> profile_snapshot option command" where
  "current_profile ee state d =
     (case state of
        None \<Rightarrow> (Inr None, None, d)
      | Some document \<Rightarrow> (case sbind (snapshot ee document) (\<lambda>s. sret (Some s)) d of (r, d) \<Rightarrow> (r, state, d)))"

definition import_profile :: "editor_env \<Rightarrow> path \<Rightarrow> profile_snapshot command" where
  "import_profile ee p = set_document (with_snapshot ee
     (case ee_personal ee of
        None \<Rightarrow> user_error ''LOCALAPPDATA is not available''
      | Some directory \<Rightarrow> import_profile_to ee p directory))"

definition update_profile_setting :: "editor_env \<Rightarrow> string \<Rightarrow> f64 \<Rightarrow> profile_snapshot command" where
  "update_profile_setting ee setting_id v = edit_document (edited ee (update_value setting_id v))"

definition update_profile_individuals :: "editor_env \<Rightarrow> individual_setting list \<Rightarrow> profile_snapshot command" where
  "update_profile_individuals ee entries = edit_document (edited ee (update_individuals (ee_text ee) entries))"

definition update_profile_list :: "editor_env \<Rightarrow> string \<Rightarrow> utext list \<Rightarrow> profile_snapshot command" where
  "update_profile_list ee kind entries = edit_document (edited ee (update_list (ee_text ee) kind entries))"

definition update_profile_advanced :: "editor_env \<Rightarrow> advanced_profile \<Rightarrow> profile_snapshot command" where
  "update_profile_advanced ee profile = edit_document (edited ee (update_advanced (ee_text ee) profile))"

definition reset_profile_defaults :: "editor_env \<Rightarrow> profile_snapshot command" where
  "reset_profile_defaults ee = edit_document (edited ee reset_settings_to_defaults)"

definition undo_profile :: "editor_env \<Rightarrow> profile_snapshot command" where
  "undo_profile ee = edit_document (edited ee (\<lambda>document. (Ok (), snd (undo_edit document))))"

definition redo_profile :: "editor_env \<Rightarrow> profile_snapshot command" where
  "redo_profile ee = edit_document (edited ee (\<lambda>document. (Ok (), snd (redo_edit document))))"

definition duplicate_profile :: "editor_env \<Rightarrow> utext \<Rightarrow> profile_snapshot command" where
  "duplicate_profile ee name state d =
     (case ee_personal ee of
        None \<Rightarrow> (Inl (Raised (SetupRuntime ''LOCALAPPDATA is not available'' [])), state, d)
      | Some directory \<Rightarrow>
          replace_document (\<lambda>document. with_snapshot ee (duplicate_in ee directory name document)) state d)"

definition discard_profile_changes :: "editor_env \<Rightarrow> profile_snapshot command" where
  "discard_profile_changes ee = replace_document (\<lambda>document. with_snapshot ee (open_document ee (pd_path document)))"

definition save_profile :: "editor_env \<Rightarrow> profile_snapshot command" where
  "save_profile ee = edit_document (\<lambda>document d.
     case sbind (identify_profile ee (pd_path document)) (\<lambda>identity.
            if \<not> pi_can_save identity
            then user_error (if pi_location identity = External
              then ''external profiles must be imported or saved as a managed profile before saving''
              else ''the original profile is read-only; use Save As before saving changes'')
            else save ee document) d of
       (Inl e, d) \<Rightarrow> (Inl e, document, d)
     | (Inr document, d) \<Rightarrow> (case snapshot ee document d of (r, d) \<Rightarrow> (r, document, d)))"

definition export_profile :: "editor_env \<Rightarrow> path \<Rightarrow> unit command" where
  "export_profile ee destination = read_document (export_to ee destination)"

end
