(* ===== verification/Profile_Editor_Properties.thy ===== *)
theory Profile_Editor_Properties
  imports Profile_Files
begin

text \<open>
  Properties of the profile editor: nothing of a file is lost that was not edited, edits do what they say
  and are undone exactly, and saving survives interruption.
\<close>

section \<open>Files that were not edited\<close>

lemma node_raw_parsed [simp]: "node_raw (fst (parse_line sec line)) = line"
  by (simp add: parse_line_def parse_assignment_def Let_def)

lemma parsed_lines [simp]: "map node_raw (parse_lines sec ls) = ls"
proof (induction ls arbitrary: sec)
  case (Cons line ls)
  then show ?case using node_raw_parsed [of sec line] by (cases "parse_line sec line") simp
qed simp

lemma parsed_raws [simp]: "map node_raw (parse_nodes s) = split_text_lines s"
  by (simp add: parse_nodes_def)

lemma from_bytes_Ok:
  assumes "from_bytes te sha p bytes = Ok d"
  obtains s encoding bom where "decode te bytes = Ok (s, encoding, bom)" and "pd_nodes d = parse_nodes s"
    and "pd_encoding d = encoding" and "pd_bom d = bom" and "pd_line_ending d = detect_line_ending s"
    and "pd_original_legacy_lines d = original_legacy_lines bytes s encoding"
    and "pd_dirty_keys d = []" and "pd_undo d = []" and "pd_redo d = []" and "pd_original_hash d = sha bytes"
    and "pd_path d = p" and "pd_saved_values d = setting_values d"
  using assms
  by (auto simp: from_bytes_def Let_def setting_values_def setting_value_def raw_value_def
      split: sum.splits prod.splits)

text \<open>The bytes depend on the nodes only.\<close>

lemma encoded_nodes:
  assumes "pd_nodes d' = pd_nodes d" and "pd_encoding d' = pd_encoding d" and "pd_bom d' = pd_bom d"
    and "pd_original_legacy_lines d' = pd_original_legacy_lines d"
  shows "encoded te d' = encoded te d"
  unfolding encoded_def document_text_def assms by (rule refl)

lemma opened_is_encoded:
  assumes "from_bytes te sha p bytes = Ok d" and "length bytes \<le> MAX_PROFILE_BYTES"
  shows "encoded te d = Ok bytes"
proof -
  obtain s encoding bom where d: "decode te bytes = Ok (s, encoding, bom)" "pd_nodes d = parse_nodes s"
    "pd_encoding d = encoding" "pd_bom d = bom" "pd_original_legacy_lines d = original_legacy_lines bytes s encoding"
    using from_bytes_Ok [OF assms(1)] by metis
  have "(case original_legacy_lines bytes s encoding of
      Some originals \<Rightarrow> encode_preserving_legacy_lines te (split_text_lines s) originals encoding
    | None \<Rightarrow> encode te s encoding bom) = Ok bytes"
    using decode_encodes [OF d(1)] original_lines_encode by (auto split: option.split)
  then show ?thesis
    using assms(2) d(2-) by (auto simp: encoded_def document_text_def split: option.splits)
qed

section \<open>The history\<close>

text \<open>Every revision that can be reached, oldest first, the current one among them.\<close>

definition timeline :: "profile_document \<Rightarrow> profile_revision list" where
  "timeline d = pd_undo d @ [revision_of d] @ rev (pd_redo d)"

lemma revision_restored [simp]: "revision_of (restore_revision r d) = r"
  by (simp add: revision_of_def restore_revision_def)

lemma undo_timeline:
  assumes "pd_undo d \<noteq> []"
  shows "timeline (snd (undo_edit d)) = timeline d" and "length (pd_undo (snd (undo_edit d))) = length (pd_undo d) - 1"
proof -
  obtain us u where u: "pd_undo d = us @ [u]" using assms rev_exhaust by blast
  show "timeline (snd (undo_edit d)) = timeline d"
    by (simp add: undo_edit_def timeline_def u revision_of_def restore_revision_def)
  show "length (pd_undo (snd (undo_edit d))) = length (pd_undo d) - 1"
    by (simp add: undo_edit_def u restore_revision_def)
qed

lemma redo_timeline:
  assumes "pd_redo d \<noteq> []"
  shows "timeline (snd (redo_edit d)) = timeline d" and "length (pd_undo (snd (redo_edit d))) = length (pd_undo d) + 1"
proof -
  obtain us u where u: "pd_redo d = us @ [u]" using assms rev_exhaust by blast
  show "timeline (snd (redo_edit d)) = timeline d"
    by (simp add: redo_edit_def timeline_def u revision_of_def restore_revision_def)
  show "length (pd_undo (snd (redo_edit d))) = length (pd_undo d) + 1"
    by (simp add: redo_edit_def u restore_revision_def)
qed

lemma current_on_timeline: "revision_of d = timeline d ! length (pd_undo d)"
  by (simp add: timeline_def nth_append)

primrec undo_times :: "nat \<Rightarrow> profile_document \<Rightarrow> profile_document" where
  "undo_times 0 d = d"
| "undo_times (Suc n) d = snd (undo_edit (undo_times n d))"

primrec redo_times :: "nat \<Rightarrow> profile_document \<Rightarrow> profile_document" where
  "redo_times 0 d = d"
| "redo_times (Suc n) d = snd (redo_edit (redo_times n d))"

lemma undo_many:
  "k \<le> length (pd_undo d) \<Longrightarrow>
     timeline (undo_times k d) = timeline d
     \<and> length (pd_undo (undo_times k d)) = length (pd_undo d) - k"
proof (induction k)
  case (Suc k)
  let ?d = "undo_times k d"
  have IH: "timeline ?d = timeline d" "length (pd_undo ?d) = length (pd_undo d) - k" using Suc by auto
  then have "pd_undo ?d \<noteq> []" using Suc.prems by auto
  from undo_timeline [OF this] IH show ?case by simp
qed simp

lemma redo_many:
  "length (pd_undo d) + k < length (timeline d) \<Longrightarrow>
     timeline (redo_times k d) = timeline d
     \<and> length (pd_undo (redo_times k d)) = length (pd_undo d) + k"
proof (induction k)
  case (Suc k)
  let ?d = "redo_times k d"
  have IH: "timeline ?d = timeline d" "length (pd_undo ?d) = length (pd_undo d) + k" using Suc by auto
  have "length (timeline ?d) = length (pd_undo ?d) + 1 + length (pd_redo ?d)" by (simp add: timeline_def)
  then have "pd_redo ?d \<noteq> []" using Suc.prems IH by auto
  from redo_timeline [OF this] IH show ?case by simp
qed simp

text \<open>What the user can ask for.\<close>

datatype edit_request =
    SetValue string f64
  | SetIndividuals "individual_setting list"
  | SetList string "utext list"
  | SetAdvanced advanced_profile
  | ResetSettings

primrec request_edit :: "text_env \<Rightarrow> edit_request \<Rightarrow> unit edit" where
  "request_edit te (SetValue i v) = set_value i v"
| "request_edit te (SetIndividuals entries) = set_individuals te entries"
| "request_edit te (SetList kind entries) = set_list te kind entries"
| "request_edit te (SetAdvanced profile) = set_advanced te profile"
| "request_edit te ResetSettings = reset_settings SETTINGS"

definition perform :: "text_env \<Rightarrow> edit_request \<Rightarrow> profile_document \<Rightarrow> profile_document" where
  "perform te request d = snd (record_edit (request_edit te request) d)"

text \<open>The parts of a document that no edit changes.\<close>

definition same_file :: "profile_document \<Rightarrow> profile_document \<Rightarrow> bool" where
  "same_file d d' \<longleftrightarrow> pd_path d' = pd_path d \<and> pd_encoding d' = pd_encoding d \<and> pd_bom d' = pd_bom d
     \<and> pd_line_ending d' = pd_line_ending d \<and> pd_original_hash d' = pd_original_hash d
     \<and> pd_original_legacy_lines d' = pd_original_legacy_lines d \<and> pd_saved_values d' = pd_saved_values d"

definition same_history :: "profile_document \<Rightarrow> profile_document \<Rightarrow> bool" where
  "same_history d d' \<longleftrightarrow> same_file d d' \<and> pd_undo d' = pd_undo d \<and> pd_redo d' = pd_redo d"

lemma same_history_refl [simp]: "same_history d d"
  by (simp add: same_history_def same_file_def)

lemma same_history_trans: "same_history d d' \<Longrightarrow> same_history d' d'' \<Longrightarrow> same_history d d''"
  by (simp add: same_history_def same_file_def)

lemma same_history_set_raw [simp]: "same_history d (set_raw_value sec key v dirty d)"
  by (auto simp: set_raw_value_def mark_dirty_def same_history_def same_file_def Let_def split: option.split)

lemma same_history_replace [simp]: "same_history d (replace_section name kept new dirty d)"
  by (auto simp: replace_section_def mark_dirty_def same_history_def same_file_def split: prod.split)

lemma same_history_replace_list [simp]: "same_history d (replace_list_section sec entries d)"
  by (simp add: replace_list_section_def)

lemma reset_settings_history: "same_history d (snd (reset_settings ss d))"
proof (induction ss arbitrary: d)
  case (Cons s ss)
  have 1: "same_history d (snd (reset_setting s d))"
    by (auto simp: reset_setting_def Let_def split: sum.split)
  obtain r d' where r: "reset_setting s d = (r, d')" by fastforce
  with 1 Cons.IH [of d'] show ?case by (cases r) (auto intro: same_history_trans)
qed simp

lemma set_advanced_history: "same_history d (snd (set_advanced te profile d))"
  unfolding set_advanced_def Let_def
  by (auto split: sum.split) (meson same_history_set_raw same_history_replace_list same_history_trans)

lemma request_history: "same_history d (snd (request_edit te request d))"
  by (cases request)
    (auto simp: set_value_def set_individuals_def set_list_def set_advanced_history reset_settings_history
      split: sum.split option.split)

text \<open>Every factory value of the table can be written.\<close>

lemma literal_values:
  "f64_literal (- 64) 1 = Finite True 4503599627370496 (- 46)"
  "f64_literal (- 32) 1 = Finite True 4503599627370496 (- 47)"
  "f64_literal (- 12) 1 = Finite True 6755399441055744 (- 49)"
  "f64_literal (- 1) 1 = Finite True 4503599627370496 (- 52)"
  "f64_literal 0 1 = Finite False 0 (- 1074)"
  "f64_literal 1 1 = Finite False 4503599627370496 (- 52)"
  "f64_literal 2 1 = Finite False 4503599627370496 (- 51)"
  "f64_literal 4 1 = Finite False 4503599627370496 (- 50)"
  "f64_literal 5 1 = Finite False 5629499534213120 (- 50)"
  "f64_literal 6 1 = Finite False 6755399441055744 (- 50)"
  "f64_literal 7 10 = Finite False 6305039478318694 (- 53)"
  "f64_literal 10 1 = Finite False 5629499534213120 (- 49)"
  "f64_literal 12 1 = Finite False 6755399441055744 (- 49)"
  "f64_literal 14 10 = Finite False 6305039478318694 (- 52)"
  "f64_literal 15 10 = Finite False 6755399441055744 (- 52)"
  "f64_literal 16 1 = Finite False 4503599627370496 (- 48)"
  "f64_literal 17 10 = Finite False 7656119366529843 (- 52)"
  "f64_literal 20 1 = Finite False 5629499534213120 (- 48)"
  "f64_literal 32 1 = Finite False 4503599627370496 (- 47)"
  "f64_literal 64 1 = Finite False 4503599627370496 (- 46)"
  "f64_literal 255 1 = Finite False 8972014882652160 (- 45)"
  "f64_literal 256 1 = Finite False 4503599627370496 (- 44)"
  "f64_literal 625 10000 = Finite False 4503599627370496 (- 56)"
  "f64_literal 1200 1 = Finite False 5277655813324800 (- 42)"
  "f64_literal 4095 1 = Finite False 9005000231485440 (- 41)"
  "f64_literal 4096 1 = Finite False 4503599627370496 (- 40)"
  "f64_literal 6140 1 = Finite False 6751001394544640 (- 40)"
  "f64_literal 100000 1 = Finite False 6871947673600000 (- 36)"
  "f64_literal 1048576 1 = Finite False 4503599627370496 (- 32)"
  "f64_literal 10485760 1 = Finite False 5629499534213120 (- 29)"
  "f64_literal 20485760 1 = Finite False 5499104327106560 (- 28)"
  "f64_literal 1073741824 1 = Finite False 4503599627370496 (- 22)"
  by code_simp+

lemma settings_distinct: "distinct (map st_id SETTINGS)"
  by code_simp

lemma find_distinct:
  "distinct (map f xs) \<Longrightarrow> x \<in> set xs \<Longrightarrow> List.find (\<lambda>y. f y = f x) xs = Some x"
  by (induction xs) auto

lemma schema_of: "s \<in> set SETTINGS \<Longrightarrow> schema (st_id s) = Ok s"
  by (simp add: schema_def find_distinct [OF settings_distinct])

text \<open>A factory value is in the range of its setting, and an integer where one is required.\<close>

definition renders :: "setting_definition \<Rightarrow> bool" where
  "renders s \<longleftrightarrow> (let v = literal_value (st_factory s) in
     is_finite v \<and> \<not> f64_less v (literal_value (st_min s)) \<and> \<not> f64_less (literal_value (st_max s)) v
     \<and> (st_value_type s = IntegerValue \<longrightarrow> \<not> has_fraction v))"

lemma renders_row:
  "renders (setting_row i sec k ty (Literal a b) (Literal c d) df (Literal p q) pv od) \<longleftrightarrow>
     is_finite (f64_literal p q) \<and> \<not> f64_less (f64_literal p q) (f64_literal a b)
     \<and> \<not> f64_less (f64_literal c d) (f64_literal p q) \<and> (ty = IntegerValue \<longrightarrow> \<not> has_fraction (f64_literal p q))"
  by (simp add: renders_def setting_row_def Let_def)

lemma factory_values_render: "list_all renders SETTINGS"
  unfolding SETTINGS_def list.pred_inject renders_row literal_values
  by (simp add: is_finite_def f64_less_def scaled_def common_unit_def has_fraction_def)

lemma render_factory:
  assumes "s \<in> set SETTINGS"
  shows "\<exists>t. render_setting_value (st_id s) (literal_value (st_factory s))
     = Ok \<lparr>rs_section = st_section s, rs_key = st_key s, rs_value = t\<rparr>"
proof -
  have "renders s" using factory_values_render assms by (simp add: list_all_iff)
  then show ?thesis
    using schema_of [OF assms] by (auto simp: render_setting_value_def renders_def Let_def)
qed

lemma reset_settings_succeeds: "set ss \<subseteq> set SETTINGS \<Longrightarrow> fst (reset_settings ss d) = Inr ()"
proof (induction ss arbitrary: d)
  case (Cons s ss)
  then show ?case
    using render_factory [of s] by (auto simp: reset_setting_def Let_def split: sum.splits)
qed simp

lemma failed_request:
  assumes "request_edit te request d = (Inl e, d')"
  shows "d' = d"
  using assms reset_settings_succeeds [OF subset_refl, of d]
  by (cases request)
    (auto simp: set_value_def set_individuals_def set_list_def set_advanced_def Let_def split: sum.splits option.splits)

text \<open>One edit extends the timeline by at most the revision it leaves.\<close>

lemma perform_cases:
  assumes "pd_redo d = []" and "length (pd_undo d) < HISTORY_LIMIT"
  shows "same_file d (perform te request d) \<and> pd_redo (perform te request d) = []
     \<and> (pd_undo (perform te request d) = pd_undo d \<and> revision_of (perform te request d) = revision_of d
        \<or> pd_undo (perform te request d) = pd_undo d @ [revision_of d])"
proof -
  obtain r d' where run: "request_edit te request d = (r, d')" by fastforce
  have history: "same_history d d'" using request_history [of d te request] run by simp
  show ?thesis
  proof (cases r)
    case (Inl e)
    then have "d' = d" using failed_request run by blast
    with Inl show ?thesis using run assms(1) by (simp add: perform_def record_edit_def same_file_def)
  next
    case (Inr x)
    then show ?thesis
      using history assms run
      by (auto simp: perform_def record_edit_def same_history_def same_file_def revision_of_def Let_def)
  qed
qed

fun perform_all :: "text_env \<Rightarrow> edit_request list \<Rightarrow> profile_document \<Rightarrow> profile_document" where
  "perform_all te [] d = d"
| "perform_all te (request # requests) d = perform_all te requests (perform te request d)"

lemma perform_all_timeline:
  assumes "pd_redo d = []" and "length (pd_undo d) + length requests \<le> HISTORY_LIMIT"
  shows "same_file d (perform_all te requests d) \<and> pd_redo (perform_all te requests d) = []
     \<and> length (pd_undo d) \<le> length (pd_undo (perform_all te requests d))
     \<and> take (length (timeline d)) (timeline (perform_all te requests d)) = timeline d"
  using assms
proof (induction requests arbitrary: d)
  case (Cons request requests)
  let ?d = "perform te request d"
  have step: "same_file d ?d" "pd_redo ?d = []"
    "pd_undo ?d = pd_undo d \<and> revision_of ?d = revision_of d \<or> pd_undo ?d = pd_undo d @ [revision_of d]"
    using perform_cases [of d te request] Cons.prems by auto
  then have "length (pd_undo ?d) + length requests \<le> HISTORY_LIMIT" using Cons.prems by auto
  note IH = Cons.IH [OF step(2) this]
  have "take (length (timeline d)) (timeline ?d) = timeline d" "length (timeline d) \<le> length (timeline ?d)"
    using step(2,3) Cons.prems(1) by (auto simp: timeline_def)
  then have "take (length (timeline d)) (timeline (perform_all te requests ?d)) = timeline d"
    using IH by (metis min.absorb1 take_take)
  then show ?case using IH step by (auto simp: same_file_def)
qed (simp add: same_file_def)

lemma undo_times_same_file: "same_file d (undo_times k d)"
  by (induction k) (auto simp: same_file_def undo_edit_def restore_revision_def)

text \<open>
  C29.  Edits are undone exactly: after opening a file and any edits, up to a hundred of which the history
  remembers, undoing all of them gives a document that is written back as the bytes of the file, whatever
  its encoding, and redoing them gives the edited nodes and dirty keys again.
\<close>
theorem edits_are_undone_exactly:
  assumes "from_bytes te sha p bytes = Ok d" and "length bytes \<le> MAX_PROFILE_BYTES"
    and "length requests \<le> HISTORY_LIMIT"
  shows "let d' = perform_all te requests d; k = length (pd_undo d') in
     encoded te (undo_times k d') = Ok bytes \<and> \<not> is_dirty (undo_times k d')
     \<and> revision_of (redo_times k (undo_times k d')) = revision_of d'"
proof -
  have d: "pd_undo d = []" "pd_redo d = []" "pd_dirty_keys d = []" using from_bytes_Ok [OF assms(1)] by metis+
  define d' where "d' = perform_all te requests d"
  define k where "k = length (pd_undo d')"
  have d': "same_file d d'" "pd_redo d' = []" "take 1 (timeline d') = timeline d"
    using perform_all_timeline [of d requests te] d assms(3) by (auto simp: d'_def timeline_def)
  let ?u = "undo_times k d'"
  have u: "timeline ?u = timeline d'" "pd_undo ?u = []"
    using undo_many [of k d'] by (auto simp: k_def)
  have "revision_of ?u = timeline d' ! 0" using current_on_timeline [of ?u] u by simp
  also have "\<dots> = revision_of d"
    using d'(3) nth_take [of 0 1 "timeline d'"] d by (simp add: timeline_def del: take_append)
  finally have first: "revision_of ?u = revision_of d" .
  then have nodes: "pd_nodes ?u = pd_nodes d" "pd_dirty_keys ?u = []" using d(3) by (simp_all add: revision_of_def)
  have "same_file d' ?u" by (rule undo_times_same_file)
  then have "encoded te ?u = encoded te d"
    using d'(1) nodes by (intro encoded_nodes) (simp_all add: same_file_def)
  then have bytes: "encoded te ?u = Ok bytes" using opened_is_encoded [OF assms(1,2)] by simp
  have "length (timeline ?u) = k + 1" using u(1) d'(2) by (simp add: timeline_def k_def)
  then have r: "timeline (redo_times k ?u) = timeline d'" "length (pd_undo (redo_times k ?u)) = k"
    using redo_many [of ?u k] u by auto
  have "revision_of (redo_times k ?u) = revision_of d'"
    using current_on_timeline [of "redo_times k ?u"] current_on_timeline [of d'] r by (simp add: k_def)
  with bytes nodes show ?thesis by (simp add: d'_def [symmetric] k_def [symmetric] is_dirty_def)
qed

section \<open>A sample\<close>

definition sample_text_env :: text_env where
  "sample_text_env = \<lparr>te_decode = (\<lambda>_ _. None), te_encode = (\<lambda>_ _. ([], True)), te_lowercase = map ascii_lower\<rparr>"

definition sample_profile :: string where
  "sample_profile = ''[General]'' @ [CHR 0x0D, CHR 0x0A] @ ''HintingMode=1'' @ [CHR 0x0D, CHR 0x0A]"

definition sample_fields :: profile_document where
  "sample_fields =
     \<lparr>pd_path = path_join [Prefix ''C:'', RootDir] ''a.ini'', pd_encoding = Utf8, pd_bom = NoBom,
      pd_line_ending = CrLf,
      pd_nodes =
        [Section (chars ''General'') (chars ''[General]'' @ [13, 10]),
         KeyValue (chars ''General'') (chars ''HintingMode'') (chars ''1'') (chars ''HintingMode'') [61] [13, 10]
           (chars ''HintingMode=1'' @ [13, 10])],
      pd_original_hash = sample_profile, pd_original_legacy_lines = None, pd_saved_values = [],
      pd_dirty_keys = [], pd_undo = [], pd_redo = []\<rparr>"

definition sample_document :: profile_document where
  "sample_document = sample_fields\<lparr>pd_saved_values := setting_values sample_fields\<rparr>"

lemma sample_decoded:
  "decode sample_text_env sample_profile
     = Ok (chars ''[General]'' @ [13, 10] @ chars ''HintingMode=1'' @ [13, 10], Utf8, NoBom)"
  by code_simp

lemma sample_parsed:
  "parse_nodes (chars ''[General]'' @ [13, 10] @ chars ''HintingMode=1'' @ [13, 10]) = pd_nodes sample_fields"
  by code_simp

lemma sample_ending: "detect_line_ending (chars ''[General]'' @ [13, 10] @ chars ''HintingMode=1'' @ [13, 10]) = CrLf"
  by code_simp

lemma sample_opens:
  "from_bytes sample_text_env (\<lambda>s. s) (path_join [Prefix ''C:'', RootDir] ''a.ini'') sample_profile = Ok sample_document"
  unfolding from_bytes_def sample_decoded sum.case prod.case sample_parsed sample_ending
  by (simp add: sample_document_def sample_fields_def original_legacy_lines_def is_legacy_def Let_def)

lemma sample_size: "length sample_profile \<le> MAX_PROFILE_BYTES"
  by code_simp

lemma edits_are_undone_exactly_witness:
  "let requests = [SetValue ''bold_weight'' (f64_literal 3 1), SetList ''excludeFonts'' [chars ''Arial''], ResetSettings];
       d' = perform_all sample_text_env requests sample_document; k = length (pd_undo d')
   in encoded sample_text_env (undo_times k d') = Ok sample_profile \<and> \<not> is_dirty (undo_times k d')
      \<and> revision_of (redo_times k (undo_times k d')) = revision_of d'"
proof -
  have few: "length [SetValue ''bold_weight'' (f64_literal 3 1), SetList ''excludeFonts'' [chars ''Arial''], ResetSettings]
      \<le> HISTORY_LIMIT"
    by (simp add: HISTORY_LIMIT_def)
  show ?thesis
    unfolding Let_def by (rule edits_are_undone_exactly [OF sample_opens sample_size few, unfolded Let_def])
qed

end
