(* ===== verification/Profile_Saving.thy ===== *)
theory Profile_Saving
  imports Profile_Editor_Properties Setup_Logic
begin

text \<open>
  Saving a profile over every place where it may fail or the machine may stop, and what a save writes.
\<close>

section \<open>Saving survives interruption\<close>

lemma rsplit_once_Some: "rsplit_once s c = Some (a, b) \<Longrightarrow> s = a @ c # b \<and> c \<notin> set b"
proof -
  assume split: "rsplit_once s c = Some (a, b)"
  then have c: "c \<in> set s" and ab: "a = rev (drop 1 (dropWhile (\<lambda>x. x \<noteq> c) (rev s)))"
    "b = rev (takeWhile (\<lambda>x. x \<noteq> c) (rev s))"
    by (auto simp: rsplit_once_def split: if_splits)
  obtain ys zs where "rev s = ys @ c # zs" "c \<notin> set ys" using c split_list_first [of c "rev s"] by auto
  then have "takeWhile (\<lambda>x. x \<noteq> c) (rev s) = ys" "dropWhile (\<lambda>x. x \<noteq> c) (rev s) = c # zs" "s = rev zs @ c # rev ys"
    by (auto simp: takeWhile_append dropWhile_append rev_swap)
  then show ?thesis using \<open>c \<notin> set ys\<close> ab by simp
qed

lemma sibling_paths:
  assumes "path_file_name p = Some name"
  shows "temporary_path ee p \<noteq> p" and "backup_path p \<noteq> p" and "temporary_path ee p \<noteq> backup_path p"
proof -
  have p: "p \<noteq> []" "List.last p = Normal name"
    using assms by (auto simp: path_file_name_def split: if_splits path_component.splits)
  then have parent: "path_parent p = Some (butlast p)" "p = butlast p @ [Normal name]"
    by (auto simp: path_parent_def) (metis append_butlast_last_id)
  let ?temporary = "''.'' @ name @ ''.mactype-'' @ show_nat (ee_pid ee) @ ''.tmp''"
  have t: "temporary_path ee p = butlast p @ [Normal ?temporary]"
    using assms parent by (simp add: temporary_path_def with_name_def path_join_def)
  have "length ?temporary > length name" by simp
  then have "?temporary \<noteq> name" by (metis less_irrefl)
  then show "temporary_path ee p \<noteq> p" using t parent(2) by (metis append1_eq_conv path_component.inject(2))
  obtain stem where stem: "path_stem p = Some stem" "stem = fst (stem_and_extension name)"
    using assms by (simp add: path_stem_def)
  then have b: "backup_path p = butlast p @ [Normal (stem @ ''.ini.bak'')]"
    using parent by (simp add: backup_path_def with_extension_def with_name_def path_join_def)
  have "stem @ ''.ini.bak'' \<noteq> name"
  proof (cases "rsplit_once name (CHR ''.'')")
    case None
    then have "stem = name" using stem by (simp add: stem_and_extension_def)
    then show ?thesis by simp
  next
    case (Some ab)
    then obtain a b where ab: "rsplit_once name (CHR ''.'') = Some (a, b)" by (cases ab) auto
    then have "name = a @ CHR ''.'' # b" "CHR ''.'' \<notin> set b" using rsplit_once_Some by auto
    moreover have "stem = name \<or> stem = a" using ab stem by (auto simp: stem_and_extension_def)
    ultimately show ?thesis by auto
  qed
  then show "backup_path p \<noteq> p" using b parent(2) by (metis append1_eq_conv path_component.inject(2))
  have "List.last ?temporary \<noteq> List.last (stem @ ''.ini.bak'')" by simp
  then have "?temporary \<noteq> stem @ ''.ini.bak''" by metis
  then show "temporary_path ee p \<noteq> backup_path p" using t b by simp
qed

lemma triple_read_bounded:
  assumes "\<And>N. P N \<Longrightarrow> C N" and "\<And>N. P N \<Longrightarrow> N p = Some (FileNode c)"
  shows "triple False P (read_bounded_file p n desc) (\<lambda>x N. P N \<and> x = c) C"
proof -
  have look: "triple False P (fs_metadata p) (\<lambda>x N. P N \<and> x = FileNode c) C"
    by (rule triple_post [OF triple_metadata]) (auto intro: assms(1) dest: assms(2))
  have open_it: "triple False P (fs_open_read p) (\<lambda>_. P) C"
    by (rule triple_post [OF triple_open_read]) (auto intro: assms(1))
  have take_it: "triple False P (fs_read_limited p (n + 1)) (\<lambda>x N. P N \<and> x = take (n + 1) c) C"
    by (rule triple_post [OF triple_read_limited]) (auto intro: assms(1) dest: assms(2))
  have bytes: "triple False P (sbind (fs_read_limited p (n + 1)) (\<lambda>bytes.
      if n < length bytes then user_error (desc @ '' exceeds its {maximum_bytes}-byte limit'') else sret bytes))
      (\<lambda>x N. P N \<and> x = c) C"
    by (rule triple_bind_eq [OF take_it]) (auto simp: user_error_def intro!: triple_raise triple_ret assms(1))
  show ?thesis
    unfolding read_bounded_file_def
    by (rule triple_bind [OF open_it], rule triple_bind_eq [OF look])
      (use bytes in \<open>auto simp: node_length_def user_error_def intro!: triple_raise assms(1)\<close>)
qed

text \<open>The nodes an interrupted save may leave, from those before it and the bytes it writes.\<close>

definition save_stages :: "path \<Rightarrow> path \<Rightarrow> path \<Rightarrow> string \<Rightarrow> nodes \<Rightarrow> nodes \<Rightarrow> bool" where
  "save_stages p t b bytes N N' \<longleftrightarrow>
     (\<exists>x. N' = N(t := x) \<or> N' = N(t := x, b := N p, p := None)
        \<or> N' = N(t := x, b := N p, p \<mapsto> FileNode bytes))"

lemma triple_create_truncate:
  "triple False (\<lambda>N'. N' = N) (fs_create_truncate t) (\<lambda>_ N'. N' = N(t \<mapsto> FileNode [])) (\<lambda>N'. N' = N)"
  unfolding fs_create_truncate_def io_write_def
  by (rule triple_io_op) (auto simp: starts_def)

lemma triple_replace_with_backup:
  assumes "N p = Some (FileNode old)" and "t \<noteq> p" and "b \<noteq> p" and "t \<noteq> b"
  shows "triple False (\<lambda>N'. N' = N(t \<mapsto> FileNode bytes)) (replace_with_backup p t b)
     (\<lambda>_ N'. N' = N(t := None, b := N p, p \<mapsto> FileNode bytes)) (save_stages p t b bytes N)"
proof -
  have moved: "node_at (move_file p b d) = N(t \<mapsto> FileNode bytes, b := N p, p := None)"
    "node_at (move_file t p (move_file p b d)) = N(t := None, b := N p, p \<mapsto> FileNode bytes)"
    if "node_at d = N(t \<mapsto> FileNode bytes)" for d
    using that assms by (auto simp: move_file_def fun_eq_iff)
  have calm: "calm (move_file p b d)" "calm (move_file t p (move_file p b d))" if "calm d" for d
    using that by (auto simp: move_file_def split: option.split disk_node.split)
  show ?thesis
    unfolding replace_with_backup_def
  proof (rule triple_io_op)
    fix d assume d: "starts False (\<lambda>N'. N' = N(t \<mapsto> FileNode bytes)) d"
    then have "node_at d = N(t \<mapsto> FileNode bytes)" "calm d" by (simp_all add: starts_def)
    then show "ends False (\<lambda>_ N'. N' = N(t := None, b := N p, p \<mapsto> FileNode bytes)) (save_stages p t b bytes N)
       (let (r, d) = case (node_at d p, node_at d t) of
              (Some (FileNode _), Some (FileNode _)) \<Rightarrow> (Ok (), move_file t p (move_file p b d))
            | _ \<Rightarrow> (Err IoNotFound, d)
        in (map_sum (\<lambda>k. Raised (SetupIo k)) id r, d))"
      using assms moved calm by (simp add: starts_def)
  next
    fix d n assume d: "starts False (\<lambda>N'. N' = N(t \<mapsto> FileNode bytes)) d"
    then have "node_at d = N(t \<mapsto> FileNode bytes)" "calm d" by (simp_all add: starts_def)
    then show "starts False (save_stages p t b bytes N)
       (case (node_at d p, node_at d t) of
          (Some (FileNode _), Some (FileNode _)) \<Rightarrow>
            if n = 0 then d else if n = 1 then move_file p b d else move_file t p (move_file p b d)
        | _ \<Rightarrow> d)"
      using assms moved calm by (auto simp: starts_def save_stages_def)
  qed
qed

lemma triple_remove_temporary:
  assumes "\<And>N' x. P N' \<Longrightarrow> P (N'(t := x))"
  shows "triple False P (attempt (fs_remove_file t)) (\<lambda>_. P) P"
  by (rule triple_post [OF triple_attempt [OF triple_remove_file [where Q = P]]])
    (auto intro: assms split: sum.splits)

lemma stages_left:
  assumes "save_stages p t b bytes N N'" and "N p = Some (FileNode old)" and "t \<noteq> p" and "b \<noteq> p" and "t \<noteq> b"
  shows "N'(t := None) = N(t := None) \<or> N'(t := None) = N(t := None, b \<mapsto> FileNode old, p := None)
      \<or> N'(t := None) = N(t := None, b \<mapsto> FileNode old, p \<mapsto> FileNode bytes)"
  using assms by (auto simp: save_stages_def fun_upd_twist)

definition written :: "editor_env \<Rightarrow> path \<Rightarrow> string \<Rightarrow> unit setup_op" where
  "written ee p bytes =
     (let temporary = temporary_path ee p
      in sbind (fs_create_truncate temporary) (\<lambda>_.
         sbind (fs_write_all temporary bytes) (\<lambda>_.
         sbind (fs_sync_all temporary) (\<lambda>_.
         sbind (attempt (replace_with_backup p temporary (backup_path p))) (\<lambda>replaced.
         case replaced of
           Inl e \<Rightarrow> sbind (attempt (fs_remove_file temporary)) (\<lambda>_. sraise e)
         | Inr _ \<Rightarrow> sret ())))))"

lemma triple_written:
  assumes "N p = Some (FileNode old)" and "path_file_name p = Some name"
  shows "triple False (\<lambda>N'. N' = N) (written ee p bytes)
     (\<lambda>_ N'. N' = N(temporary_path ee p := None, backup_path p := N p, p \<mapsto> FileNode bytes))
     (save_stages p (temporary_path ee p) (backup_path p) bytes N)"
proof -
  let ?t = "temporary_path ee p" and ?b = "backup_path p"
  let ?C = "save_stages p ?t ?b bytes N"
  note distinct = sibling_paths(1) [OF assms(2), of ee] sibling_paths(2) [OF assms(2)] sibling_paths(3) [OF assms(2), of ee]
  have stage: "?C (N(?t := x))" for x by (auto simp: save_stages_def)
  have unchanged: "?C N" using stage [of "N ?t"] by simp
  have create: "triple False (\<lambda>N'. N' = N) (fs_create_truncate ?t) (\<lambda>_ N'. N' = N(?t \<mapsto> FileNode [])) ?C"
    by (rule triple_conseq [OF triple_create_truncate]) (auto simp: unchanged)
  have fill: "triple False (\<lambda>N'. N' = N(?t \<mapsto> FileNode [])) (fs_write_all ?t bytes)
      (\<lambda>_ N'. N' = N(?t \<mapsto> FileNode bytes)) ?C"
    by (rule triple_conseq [OF triple_write_all [where c = "[]"]]) (auto simp: stage)
  have sync: "triple False (\<lambda>N'. N' = N(?t \<mapsto> FileNode bytes)) (fs_sync_all ?t)
      (\<lambda>_ N'. N' = N(?t \<mapsto> FileNode bytes)) ?C"
    by (rule triple_sync_all) (auto simp: stage)
  note replace = triple_attempt [OF triple_replace_with_backup [where bytes = bytes and N = N and old = old and t = ?t
        and p = p and b = ?b, OF assms(1) distinct]]
  have keep: "?C (N'(?t := x))" if "?C N'" for N' x
    using that distinct by (auto simp: save_stages_def fun_upd_twist)
  have remove: "triple False ?C (sbind (attempt (fs_remove_file ?t)) (\<lambda>_. sraise e)) Q ?C"
    for e and Q :: "unit \<Rightarrow> nodes \<Rightarrow> bool"
    by (rule triple_bind [OF triple_remove_temporary]) (auto intro: keep triple_raise)
  show ?thesis
    unfolding written_def Let_def
    by (rule triple_bind [OF create] triple_bind [OF fill] triple_bind [OF sync] triple_bind [OF replace])+
      (auto intro!: triple_ret triple_pre [OF remove] split: sum.split)
qed

lemma save_written:
  "save ee d =
     sbind (read_bounded_file (pd_path d) MAX_PROFILE_BYTES ''profile on disk'') (\<lambda>disk_bytes.
     if ee_sha ee disk_bytes \<noteq> pd_original_hash d
     then user_error ''profile changed on disk; reload before saving''
     else sbind (from_checked (encoded (ee_text ee) d)) (\<lambda>bytes.
          sbind (written ee (pd_path d) bytes) (\<lambda>_. sret (saved_document ee bytes d))))"
proof -
  have handled: "sbind (case replaced of Inl e \<Rightarrow> sbind m (\<lambda>_. sraise e) | Inr _ \<Rightarrow> sret ()) (\<lambda>_. sret x)
      = (case replaced of Inl e \<Rightarrow> sbind m (\<lambda>_. sraise e) | Inr _ \<Rightarrow> sret x)"
    for replaced :: "setup_error + unit" and m :: "(setup_error + unit) setup_op" and x :: profile_document
    by (rule ext) (auto simp: sbind_def sret_def sraise_def split: sum.splits prod.splits)
  show ?thesis unfolding save_def written_def Let_def sbind_assoc handled by (rule refl)
qed

text \<open>What a save may leave on the disk: only the file, its backup and the temporary file change.\<close>

definition save_leaves ::
  "editor_env \<Rightarrow> profile_document \<Rightarrow> string \<Rightarrow> nodes \<Rightarrow> stop + profile_document \<Rightarrow> nodes \<Rightarrow> bool" where
  "save_leaves ee document old N r N' \<longleftrightarrow>
     (let p = pd_path document; t = temporary_path ee p; b = backup_path p
      in case r of
           Inr document' \<Rightarrow>
             (case encoded (ee_text ee) document of
                Inr bytes \<Rightarrow> document' = saved_document ee bytes document
                  \<and> ee_sha ee old = pd_original_hash document
                  \<and> N' = N(t := None, b \<mapsto> FileNode old, p \<mapsto> FileNode bytes)
              | Inl _ \<Rightarrow> False)
         | Inl _ \<Rightarrow>
             N'(t := None) = N(t := None)
             \<or> N'(t := None) = N(t := None, b \<mapsto> FileNode old, p := None)
             \<or> (case encoded (ee_text ee) document of
                  Inr bytes \<Rightarrow> N'(t := None) = N(t := None, b \<mapsto> FileNode old, p \<mapsto> FileNode bytes)
                | Inl _ \<Rightarrow> False))"

lemma save_ends:
  assumes "calm d" and "node_at d (pd_path document) = Some (FileNode old)"
    and "path_file_name (pd_path document) = Some name"
  shows "ends False (\<lambda>document' N'. ee_sha ee old = pd_original_hash document \<and> (\<exists>bytes. encoded (ee_text ee) document = Inr bytes
      \<and> document' = saved_document ee bytes document
      \<and> N' = (node_at d)(temporary_path ee (pd_path document) := None, backup_path (pd_path document) \<mapsto> FileNode old,
               pd_path document \<mapsto> FileNode bytes)))
    (\<lambda>N'. N' = node_at d \<or> (\<exists>bytes. encoded (ee_text ee) document = Inr bytes
      \<and> save_stages (pd_path document) (temporary_path ee (pd_path document)) (backup_path (pd_path document)) bytes (node_at d) N'))
    (save ee document d)"
    (is "ends False ?Q ?C _")
proof -
  let ?p = "pd_path document" and ?N = "node_at d" and ?e = "encoded (ee_text ee) document"
  let ?t = "temporary_path ee ?p" and ?b = "backup_path ?p"
  have read: "triple False (\<lambda>N'. N' = ?N) (read_bounded_file ?p MAX_PROFILE_BYTES ''profile on disk'')
      (\<lambda>x N'. N' = ?N \<and> x = old) ?C"
    by (rule triple_read_bounded) (simp_all add: assms(2))
  have writing: "triple False (\<lambda>N'. N' = ?N)
      (sbind (written ee ?p bytes) (\<lambda>_. sret (saved_document ee bytes document))) ?Q ?C"
    if "?e = Inr bytes" "ee_sha ee old = pd_original_hash document" for bytes
  proof (rule triple_bind)
    show "triple False (\<lambda>N'. N' = ?N) (written ee ?p bytes)
        (\<lambda>_ N'. N' = ?N(?t := None, ?b := ?N ?p, ?p \<mapsto> FileNode bytes)) ?C"
      by (rule triple_conseq [OF triple_written [where N = ?N, OF assms(2,3)]]) (auto simp: that)
  qed (rule triple_ret, use that assms(2) in auto)
  have "triple False (\<lambda>N'. N' = ?N) (save ee document) ?Q ?C"
    unfolding save_written
  proof (rule triple_bind_eq [OF read], cases "ee_sha ee old = pd_original_hash document")
    case True
    show "triple False (\<lambda>N'. N' = ?N) (if ee_sha ee old \<noteq> pd_original_hash document
        then user_error ''profile changed on disk; reload before saving''
        else sbind (from_checked ?e) (\<lambda>bytes. sbind (written ee ?p bytes) (\<lambda>_. sret (saved_document ee bytes document)))) ?Q ?C"
      using writing [OF _ True]
      by (cases ?e) (simp_all add: True from_checked_def user_error_def triple_raise)
  qed (simp add: user_error_def triple_raise)
  then show ?thesis
    by (rule tripleD) (simp add: starts_def assms(1))
qed

text \<open>A save that succeeds leaves the encoded document in the file.\<close>

lemma saved_bytes:
  assumes "calm d" and "node_at d (pd_path document) = Some (FileNode old)"
    and "path_file_name (pd_path document) = Some name" and "save ee document d = (Inr document', d')"
  shows "\<exists>bytes. encoded (ee_text ee) document = Inr bytes \<and> node_at d' (pd_path document) = Some (FileNode bytes)"
  using save_ends [OF assms(1-3), of ee] assms(4) by (auto simp: starts_def)

text \<open>
  C31.  A save is crash safe, wherever an operation fails or the machine stops: the file then has the bytes
  it had or the new ones, or, at the one documented point inside the replacement, it is missing and the
  backup has the bytes it had; no file but the profile, its backup and the temporary file changes.  A save
  that succeeds leaves the new bytes, the old ones as the backup and no temporary file, and it started
  from the bytes the document was opened with.
\<close>
theorem interrupted_save_keeps_a_version:
  assumes "calm d" and "node_at d (pd_path document) = Some (FileNode old)"
    and "path_file_name (pd_path document) = Some name" and "save ee document d = (r, d')"
  shows "save_leaves ee document old (node_at d) r (node_at d')"
proof -
  let ?p = "pd_path document" and ?N = "node_at d" and ?e = "encoded (ee_text ee) document"
  note distinct = sibling_paths(1) [OF assms(3), of ee] sibling_paths(2) [OF assms(3)] sibling_paths(3) [OF assms(3), of ee]
  note ends = save_ends [OF assms(1-3), of ee]
  show ?thesis
  proof (cases r)
    case (Inr document')
    then show ?thesis using ends assms(4) by (auto simp: save_leaves_def starts_def)
  next
    case (Inl s)
    then have "node_at d' = ?N \<or> (\<exists>bytes. ?e = Inr bytes
        \<and> save_stages ?p (temporary_path ee ?p) (backup_path ?p) bytes ?N (node_at d'))" using ends assms(4) by (auto simp: starts_def)
    then show ?thesis
    proof (elim disjE exE conjE)
      fix bytes
      assume "?e = Inr bytes" and "save_stages ?p (temporary_path ee ?p) (backup_path ?p) bytes ?N (node_at d')"
      with stages_left [OF this(2) assms(2) distinct] show ?thesis by (simp only: save_leaves_def Let_def Inl sum.case)
    qed (simp add: save_leaves_def Inl)
  qed
qed

definition sample_editor :: editor_env where
  "sample_editor =
     \<lparr>ee_text = sample_text_env, ee_sha = (\<lambda>s. s), ee_pid = 7, ee_installation = None, ee_personal = None,
      ee_canonical = (\<lambda>_. None), ee_read_only = (\<lambda>_. False), ee_path_of = (\<lambda>_. []), ee_lowercase_name = (\<lambda>s. s)\<rparr>"

text \<open>A disk whose machine stops in the middle of the replacement.\<close>

definition sample_save_disk :: setup_disk where
  "sample_save_disk =
     \<lparr>sd_nodes = [([Prefix ''C:'', RootDir], DirNode), (path_join [Prefix ''C:'', RootDir] ''a.ini'', FileNode sample_profile)],
      sd_reparse = (\<lambda>_. False), sd_faults = [Fine, Fine, Fine, Fine, Fine, Fine, Halts 1], sd_blind = [],
      sd_pid = 7, sd_time = (\<lambda>_. 0), sd_sequence = 0, sd_deferred = [], sd_service_image = None, sd_published = False\<rparr>"

lemma interrupted_save_keeps_a_version_witness:
  "save_leaves sample_editor sample_document sample_profile (node_at sample_save_disk)
     (fst (save sample_editor sample_document sample_save_disk))
     (node_at (snd (save sample_editor sample_document sample_save_disk)))"
proof (rule interrupted_save_keeps_a_version)
  show "calm sample_save_disk" by (simp add: calm_def sample_save_disk_def path_join_def)
  show "node_at sample_save_disk (pd_path sample_document) = Some (FileNode sample_profile)"
    by (simp add: node_at_def sample_save_disk_def sample_document_def sample_fields_def path_join_def)
  show "path_file_name (pd_path sample_document) = Some ''a.ini''"
    by (simp add: sample_document_def sample_fields_def)
qed simp

end
