(* ===== verification/Profile_Setting_Properties.thy ===== *)
theory Profile_Setting_Properties
  imports Profile_Editor_Properties "HOL-Library.Sublist"
begin

text \<open>
  What an update of one setting does to the lines of a profile: the value is read back, every other setting
  reads as before, and every other line stays.
\<close>

section \<open>Reading depends on the assignments of a key only\<close>

lemma find_filter: "(\<And>x. P x \<Longrightarrow> Q x) \<Longrightarrow> List.find P (filter Q xs) = List.find P xs"
  by (induction xs) auto

lemma find_append: "List.find P (xs @ ys) = (case List.find P xs of None \<Rightarrow> List.find P ys | Some x \<Rightarrow> Some x)"
  by (induction xs) auto

lemma find_None: "List.find P xs = None \<longleftrightarrow> \<not> list_ex P xs"
  by (induction xs) auto

lemma lookup_in_filter:
  assumes "\<And>t n. t \<in> set ts \<Longrightarrow> assigns t key n \<Longrightarrow> Q n"
  shows "lookup_in (filter Q nodes) key ts = lookup_in nodes key ts"
  using assms
proof (induction ts)
  case (Cons t ts)
  have "List.find (assigns t key) (rev (filter Q nodes)) = List.find (assigns t key) (rev nodes)"
    unfolding rev_filter by (rule find_filter) (auto intro: Cons.prems)
  moreover have "lookup_in (filter Q nodes) key ts = lookup_in nodes key ts"
    by (rule Cons.IH) (auto intro: Cons.prems)
  ultimately show ?case by (simp split: option.split)
qed simp

lemma lookup_in_skip:
  "(\<And>t. t \<in> set before \<Longrightarrow> \<not> list_ex (assigns t key) nodes) \<Longrightarrow>
     lookup_in nodes key (before @ ts) = lookup_in nodes key ts"
proof (induction before)
  case (Cons t before)
  have "\<not> list_ex (assigns t key) (rev nodes)" using Cons.prems [of t] by (simp add: list_ex_iff)
  then have "List.find (assigns t key) (rev nodes) = None" by (simp add: find_None)
  with Cons show ?case by simp
qed simp

definition setting_node :: "setting_definition \<Rightarrow> ini_node \<Rightarrow> bool" where
  "setting_node s node \<longleftrightarrow>
     list_ex (\<lambda>t. assigns t (chars (st_key s)) node) (lookup_sections (chars (st_section s)))"

lemma raw_value_cong:
  assumes "filter (setting_node s) (pd_nodes d') = filter (setting_node s) (pd_nodes d)"
  shows "raw_value d' (chars (st_section s)) (chars (st_key s)) = raw_value d (chars (st_section s)) (chars (st_key s))"
proof -
  have "lookup_in (filter (setting_node s) nodes) (chars (st_key s)) (lookup_sections (chars (st_section s)))
      = lookup_in nodes (chars (st_key s)) (lookup_sections (chars (st_section s)))" for nodes
    by (rule lookup_in_filter) (auto simp: setting_node_def list_ex_iff)
  from this [of "pd_nodes d"] this [of "pd_nodes d'"] assms show ?thesis by (simp add: raw_value_def)
qed

section \<open>The settings do not overlap\<close>

lemma settings_sections: "list_all (\<lambda>s. st_section s \<in> {''General'', ''DirectWrite'', ''Experimental''}) SETTINGS"
  by code_simp

lemma settings_keys_distinct: "distinct (map (\<lambda>s. (st_section s, map ascii_lower (chars (st_key s)))) SETTINGS)"
  by code_simp

lemma lookup_sections_of:
  "lookup_sections (chars ''General'') = [chars ''FreeType'', chars ''General'']"
  "lookup_sections (chars ''DirectWrite'') = [chars ''DirectWrite'']"
  "lookup_sections (chars ''Experimental'') = [chars ''Experimental'']"
  by code_simp+

lemma sections_differ:
  "\<not> same_ignoring_case (chars ''General'') (chars ''DirectWrite'')"
  "\<not> same_ignoring_case (chars ''General'') (chars ''Experimental'')"
  "\<not> same_ignoring_case (chars ''General'') (chars ''FreeType'')"
  "\<not> same_ignoring_case (chars ''DirectWrite'') (chars ''Experimental'')"
  "\<not> same_ignoring_case (chars ''FreeType'') (chars ''DirectWrite'')"
  "\<not> same_ignoring_case (chars ''FreeType'') (chars ''Experimental'')"
  by code_simp+

lemma same_ignoring_case_refl [simp]: "same_ignoring_case s s"
  by (simp add: same_ignoring_case_def)

lemma same_ignoring_case_sym: "same_ignoring_case s t \<Longrightarrow> same_ignoring_case t s"
  by (simp add: same_ignoring_case_def)

lemma same_ignoring_case_trans: "same_ignoring_case s t \<Longrightarrow> same_ignoring_case t u \<Longrightarrow> same_ignoring_case s u"
  by (simp add: same_ignoring_case_def)

lemma section_cases:
  assumes "s \<in> set SETTINGS"
  obtains "st_section s = ''General''" | "st_section s = ''DirectWrite''" | "st_section s = ''Experimental''"
  using assms settings_sections by (auto simp: list_all_iff)

lemma lookup_sections_disjoint:
  assumes "s \<in> set SETTINGS" and "s' \<in> set SETTINGS" and "st_section s \<noteq> st_section s'"
    and "t \<in> set (lookup_sections (chars (st_section s)))" and "t' \<in> set (lookup_sections (chars (st_section s')))"
  shows "\<not> same_ignoring_case t t'"
  using assms(3-5) sections_differ sections_differ [THEN contrapos_nn, OF same_ignoring_case_sym]
  by (rule_tac section_cases [OF assms(1)]; rule_tac section_cases [OF assms(2)])
    (auto simp: lookup_sections_of)

lemma settings_disjoint:
  assumes "s \<in> set SETTINGS" and "s' \<in> set SETTINGS" and "s \<noteq> s'" and "setting_node s node"
  shows "\<not> setting_node s' node"
proof
  assume "setting_node s' node"
  with assms(4) obtain t t' where t: "t \<in> set (lookup_sections (chars (st_section s)))"
    "t' \<in> set (lookup_sections (chars (st_section s')))" "assigns t (chars (st_key s)) node"
    "assigns t' (chars (st_key s')) node"
    by (auto simp: setting_node_def list_ex_iff)
  then have same: "same_ignoring_case t t'" "map ascii_lower (chars (st_key s)) = map ascii_lower (chars (st_key s'))"
    by (auto simp: assigns_def same_ignoring_case_def split: ini_node.splits)
  then have "st_section s = st_section s'" using lookup_sections_disjoint assms(1,2) t by blast
  with same have "s = s'"
    using settings_keys_distinct assms(1,2) by (auto simp: distinct_map dest: inj_onD)
  with assms(3) show False by simp
qed

section \<open>Changing one assignment\<close>

lemma filter_update_last:
  "(\<And>x. P x \<Longrightarrow> \<not> Q x \<and> \<not> Q (f x)) \<Longrightarrow> filter Q (update_last P f xs) = filter Q xs"
  by (induction xs) auto

lemma list_ex_update_last: "(\<And>x. Q (f x) = Q x) \<Longrightarrow> list_ex Q (update_last P f xs) = list_ex Q xs"
  by (induction xs) auto

lemma length_update_last [simp]: "length (update_last P f xs) = length xs"
  by (induction xs) auto

lemma find_update_last:
  assumes "list_ex P xs" and "\<And>x. P (f x) = P x"
  shows "\<exists>x. P x \<and> List.find P (rev (update_last P f xs)) = Some (f x)"
  using assms(1)
proof (induction xs)
  case (Cons x xs)
  then show ?case
  proof (cases "list_ex P xs")
    case False
    then have "List.find P (rev xs) = None" by (simp add: find_None list_ex_iff)
    then show ?thesis using Cons False assms(2) by (auto simp: find_append)
  qed (auto simp: find_append)
qed simp

lemma filter_insert_at: "filter Q (insert_at i new xs) = filter Q (take i xs) @ filter Q new @ filter Q (drop i xs)"
  by (simp add: insert_at_def)

lemma filter_insert_at_other: "filter Q new = [] \<Longrightarrow> filter Q (insert_at i new xs) = filter Q xs"
  by (metis filter_insert_at append_Nil append_take_drop_id filter_append)

lemma subseq_insert_at: "subseq xs (insert_at i new xs)"
proof -
  have "subseq (take i xs @ [] @ drop i xs) (take i xs @ new @ drop i xs)"
    by (intro list_emb_append_mono) auto
  then show ?thesis by (simp add: insert_at_def)
qed

lemma find_insert_at:
  assumes "\<not> list_ex P xs" and "P x"
  shows "List.find P (rev (insert_at i [x] xs)) = Some x"
proof -
  have "\<not> list_ex P (rev (drop i xs))" using assms(1) by (auto simp: list_ex_iff dest: in_set_dropD)
  then have "List.find P (rev (drop i xs)) = None" by (simp only: find_None not_False_eq_True)
  then show ?thesis using assms(2) by (simp add: insert_at_def find_append)
qed

lemma assigns_rewrite [simp]: "assigns t key (rewrite_value r node) = assigns t key node"
  by (cases node) (simp_all add: assigns_def rewrite_value_def)

lemma assigns_header [simp]: "\<not> assigns t key (section_header name e)"
  by (simp add: assigns_def section_header_def)

lemma assigns_new [simp]:
  "assigns t key (new_assignment sec k r e) \<longleftrightarrow> same_ignoring_case sec t \<and> same_ignoring_case k key"
  by (simp add: assigns_def new_assignment_def)

lemma value_rewritten: "assigns t key node \<Longrightarrow> node_value (rewrite_value r node) = r"
  by (cases node) (simp_all add: assigns_def rewrite_value_def node_value_def)

lemma value_new [simp]: "node_value (new_assignment sec k r e) = r"
  by (simp add: node_value_def new_assignment_def)

lemma filter_ensure: "(\<And>e. \<not> Q (section_header target e)) \<Longrightarrow> filter Q (ensure_section target e nodes) = filter Q nodes"
  by (simp add: ensure_section_def)

lemma list_ex_ensure:
  "(\<And>e. \<not> Q (section_header target e)) \<Longrightarrow> list_ex Q (ensure_section target e nodes) = list_ex Q nodes"
  by (simp add: ensure_section_def)


section \<open>Updating a setting\<close>

lemma setting_node_rewrite [simp]: "setting_node s (rewrite_value r node) = setting_node s node"
  by (simp add: setting_node_def)

lemma setting_node_header [simp]: "\<not> setting_node s (section_header name e)"
  by (simp add: setting_node_def list_ex_iff)

lemma section_looked_up:
  "s \<in> set SETTINGS \<Longrightarrow> chars (st_section s) \<in> set (lookup_sections (chars (st_section s)))"
  by (rule section_cases [of s]) (auto simp: lookup_sections_of)

lemma new_is_setting_node:
  assumes "s \<in> set SETTINGS"
  shows "setting_node s (new_assignment (chars (st_section s)) (chars (st_key s)) r e)"
  using section_looked_up [OF assms] same_ignoring_case_refl by (force simp: setting_node_def list_ex_iff)

lemma update_last_subseq:
  assumes "\<And>x. P x \<Longrightarrow> \<not> Q x"
  shows "subseq (filter Q xs) (update_last P f xs)"
proof (induction xs)
  case (Cons x xs)
  have "subseq (filter Q xs) xs" by simp
  with Cons assms show ?case by (auto intro: list_emb_Cons)
qed simp

text \<open>The lines of a document and of one that was updated with a value for a setting.\<close>

definition updated_nodes :: "setting_definition \<Rightarrow> utext \<Rightarrow> utext \<Rightarrow> ini_node list \<Rightarrow> ini_node list" where
  "updated_nodes s r line_end nodes =
     (let target = target_section nodes (chars (st_section s)) (chars (st_key s))
      in if list_ex (assigns target (chars (st_key s))) nodes
         then update_last (assigns target (chars (st_key s))) (rewrite_value r) nodes
         else (let nodes = ensure_section target line_end nodes
               in insert_at (index_behind_last (belongs_to target) nodes)
                    [new_assignment target (chars (st_key s)) r line_end] nodes))"

lemma set_raw_value_nodes:
  "pd_nodes (set_raw_value (chars (st_section s)) (chars (st_key s)) (Some r) dirty d)
     = updated_nodes s r (document_ending d) (pd_nodes d)"
  by (simp add: set_raw_value_def updated_nodes_def mark_dirty_def Let_def)

lemma target_section_cases:
  obtains (assigned) before t behind where "lookup_sections sec = before @ t # behind"
      "\<And>u. u \<in> set before \<Longrightarrow> \<not> list_ex (assigns u key) nodes" "list_ex (assigns t key) nodes"
      "target_section nodes sec key = t"
  | (unassigned) "\<And>u. u \<in> set (lookup_sections sec) \<Longrightarrow> \<not> list_ex (assigns u key) nodes"
      "target_section nodes sec key = sec"
proof (cases "List.find (\<lambda>t. list_ex (assigns t key) nodes) (lookup_sections sec)")
  case None
  then have "target_section nodes sec key = sec" by (simp add: target_section_def)
  moreover have "\<not> list_ex (assigns u key) nodes" if "u \<in> set (lookup_sections sec)" for u
    using None that by (auto simp: find_None list_ex_iff)
  ultimately show ?thesis using unassigned by blast
next
  case (Some t)
  then obtain i where i: "i < length (lookup_sections sec)" "list_ex (assigns t key) nodes" "t = lookup_sections sec ! i"
    "\<forall>j<i. \<not> list_ex (assigns (lookup_sections sec ! j) key) nodes"
    by (auto simp: find_Some_iff)
  have "lookup_sections sec = take i (lookup_sections sec) @ t # drop (Suc i) (lookup_sections sec)"
    using i(1,3) by (simp add: id_take_nth_drop)
  moreover have "\<not> list_ex (assigns u key) nodes" if "u \<in> set (take i (lookup_sections sec))" for u
    using that i(1,4) by (auto simp: in_set_conv_nth)
  ultimately show ?thesis using assigned i(2) Some by (simp add: target_section_def)
qed

lemma updated_value_looked_up:
  assumes "s \<in> set SETTINGS"
  shows "lookup_in (updated_nodes s r e nodes) (chars (st_key s)) (lookup_sections (chars (st_section s))) = Some r"
proof (cases rule: target_section_cases [of "chars (st_section s)" "chars (st_key s)" nodes])
  case (assigned before t behind)
  let ?P = "assigns t (chars (st_key s))" and ?new = "updated_nodes s r e nodes"
  have new: "?new = update_last ?P (rewrite_value r) nodes" using assigned by (simp add: updated_nodes_def)
  obtain x where "?P x" "List.find ?P (rev ?new) = Some (rewrite_value r x)"
    using find_update_last [of ?P nodes "rewrite_value r"] assigned(3) new by auto
  moreover have "\<not> list_ex (assigns u (chars (st_key s))) ?new" if "u \<in> set before" for u
    using assigned(2) [OF that] by (simp add: new list_ex_update_last)
  ultimately show ?thesis
    by (simp add: assigned(1) lookup_in_skip value_rewritten)
next
  case unassigned
  let ?sec = "chars (st_section s)" and ?key = "chars (st_key s)" and ?new = "updated_nodes s r e nodes"
  let ?nodes = "ensure_section ?sec e nodes"
  have none: "\<not> list_ex (assigns u ?key) ?nodes" if "u \<in> set (lookup_sections ?sec)" for u
    using unassigned(1) [OF that] by (simp add: list_ex_ensure)
  obtain i where new: "?new = insert_at i [new_assignment ?sec ?key r e] ?nodes"
    using unassigned section_looked_up [OF assms] by (auto simp: updated_nodes_def Let_def)
  have found: "List.find (assigns ?sec ?key) (rev ?new) = Some (new_assignment ?sec ?key r e)"
    unfolding new by (rule find_insert_at) (simp_all add: none section_looked_up assms)
  have free: "st_section s = ''General'' \<Longrightarrow> \<not> list_ex (assigns (chars ''FreeType'') ?key) ?new"
    using none [of "chars ''FreeType''"] sections_differ(3)
    by (auto simp: new insert_at_def lookup_sections_of list_ex_iff dest: in_set_takeD in_set_dropD)
  show ?thesis
    using found free lookup_in_skip [of "[chars ''FreeType'']" ?key ?new "[chars ''General'']"]
    by (rule_tac section_cases [OF assms]) (simp_all add: lookup_sections_of)
qed

lemma updated_other_filter:
  assumes "s \<in> set SETTINGS" and other: "\<And>x. setting_node s x \<Longrightarrow> \<not> Q x" and "\<And>name e. \<not> Q (section_header name e)"
  shows "filter Q (updated_nodes s r e nodes) = filter Q nodes"
proof (cases rule: target_section_cases [of "chars (st_section s)" "chars (st_key s)" nodes])
  case (assigned before t behind)
  have node: "setting_node s x" if "assigns t (chars (st_key s)) x" for x
    using that assigned(1) by (simp add: setting_node_def)
  have "filter Q (update_last (assigns t (chars (st_key s))) (rewrite_value r) nodes) = filter Q nodes"
    by (rule filter_update_last) (use node other in auto)
  then show ?thesis using assigned by (simp add: updated_nodes_def)
next
  case unassigned
  then have "\<not> list_ex (assigns (chars (st_section s)) (chars (st_key s))) nodes" using section_looked_up assms(1) by blast
  then show ?thesis
    using unassigned new_is_setting_node [OF assms(1)] other assms(3)
    by (simp add: updated_nodes_def Let_def filter_insert_at_other filter_ensure)
qed

text \<open>Every line that is not an assignment of the setting stays, and at most two lines are new.\<close>

lemma updated_lines_kept:
  assumes "s \<in> set SETTINGS"
  shows "subseq (filter (\<lambda>n. \<not> setting_node s n) nodes) (updated_nodes s r e nodes)
     \<and> length (updated_nodes s r e nodes) \<le> length nodes + 2"
proof (cases rule: target_section_cases [of "chars (st_section s)" "chars (st_key s)" nodes])
  case (assigned before t behind)
  have "subseq (filter (\<lambda>n. \<not> setting_node s n) nodes) (update_last (assigns t (chars (st_key s))) (rewrite_value r) nodes)"
    by (rule update_last_subseq) (use assigned(1) in \<open>auto simp: setting_node_def\<close>)
  then show ?thesis using assigned by (simp add: updated_nodes_def)
next
  case unassigned
  then have no: "\<not> list_ex (assigns (chars (st_section s)) (chars (st_key s))) nodes"
    using section_looked_up assms by blast
  let ?nodes = "ensure_section (chars (st_section s)) e nodes"
  have "subseq nodes ?nodes" "length ?nodes \<le> length nodes + 1"
    by (auto simp: ensure_section_def intro: list_emb_append2 subseq_rev_drop_many)
  moreover have "subseq (filter (\<lambda>n. \<not> setting_node s n) nodes) nodes" by simp
  ultimately have kept: "subseq (filter (\<lambda>n. \<not> setting_node s n) nodes) (insert_at i new ?nodes)" for i new
    using subseq_insert_at subseq_order.trans by metis
  have "length (insert_at i [n] ?nodes) \<le> length nodes + 2" for i n
    using \<open>length ?nodes \<le> length nodes + 1\<close> by (simp add: insert_at_def)
  then show ?thesis using unassigned(2) no kept by (simp only: updated_nodes_def Let_def if_False simp_thms)
qed

section \<open>The value that is read back\<close>

definition integer_row :: "setting_definition \<Rightarrow> bool" where
  "integer_row s \<longleftrightarrow>
     (case (st_min s, st_max s) of
        (Literal p q, Literal p' q') \<Rightarrow>
          st_value_type s = IntegerValue \<longrightarrow> q = 1 \<and> q' = 1 \<and> abs p < 2 ^ 31 \<and> abs p' < 2 ^ 31)"

lemma integer_rows: "list_all integer_row SETTINGS"
  by code_simp

lemma schema_Ok: "schema i = Ok s \<Longrightarrow> s \<in> set SETTINGS \<and> st_id s = i"
  by (auto simp: schema_def find_Some_iff split: option.splits)

lemma rendered_integer_reads_back:
  assumes "s \<in> set SETTINGS" and "st_value_type s = IntegerValue" and "is_finite v" and "\<not> has_fraction v"
    and "\<not> f64_less v (literal_value (st_min s))" and "\<not> f64_less (literal_value (st_max s)) v"
  shows "\<exists>x. parse_f64 (show_int (to_i64 v)) = Some x \<and> f64_eq x v"
proof -
  obtain i where i: "denotes v i" using integer_denotes assms(3,4) by blast
  obtain p p' where p: "st_min s = Literal p 1" "st_max s = Literal p' 1" "abs p < 2 ^ 31" "abs p' < 2 ^ 31"
  proof -
    have row: "integer_row s" using integer_rows assms(1) by (simp add: list_all_iff)
    obtain p q p' q' where "st_min s = Literal p q" "st_max s = Literal p' q'" by (metis literal.exhaust)
    with row assms(2) that show ?thesis by (simp add: integer_row_def)
  qed
  have "denotes (f64_literal p 1) p" "denotes (f64_literal p' 1) p'" 
    by (rule literal_integer, use p in simp)+
  then have "p \<le> i" "i \<le> p'" using assms(5,6) compare_integers i p by (auto simp: not_less)
  then have small: "abs i < 2 ^ 53" using p by simp
  then have "to_i64 v = i" using to_i64_denotes assms(3,4) i by blast
  with parse_show_denotes [OF small] compare_integers(2) i show ?thesis by metis
qed

text \<open>
  C30.  An update of a setting that succeeds is read back: the rendered value is the one looked up, an integer
  setting reads as the number that was asked for, every other setting reads as before, and of the lines
  only assignments of this setting change, with at most two new ones.
\<close>
theorem updated_setting_is_read_back:
  assumes "update_value setting_id v d = (Ok (), d')"
  shows "\<exists>s \<in> set SETTINGS. st_id s = setting_id
     \<and> raw_value d' (chars (st_section s)) (chars (st_key s))
         = Some (if st_value_type s = IntegerValue then show_int (to_i64 v) else render_float v)
     \<and> (st_value_type s = FloatValue \<or> f64_eq (setting_value d' s) v)
     \<and> list_all (\<lambda>s'. s' = s \<or> setting_value d' s' = setting_value d s') SETTINGS
     \<and> subseq (filter (\<lambda>n. \<not> setting_node s n) (pd_nodes d)) (pd_nodes d')
     \<and> length (pd_nodes d') \<le> length (pd_nodes d) + 2"
proof -
  obtain rendered where r: "render_setting_value setting_id v = Ok rendered"
    and nodes: "pd_nodes d' = pd_nodes (set_raw_value (chars (rs_section rendered)) (chars (rs_key rendered))
                                          (Some (rs_value rendered)) setting_id d)"
    using assms by (auto simp: update_value_def record_edit_def set_value_def Let_def split: sum.splits if_splits)
  then obtain s where "schema setting_id = Ok s" "is_finite v"
    and bounds: "\<not> f64_less v (literal_value (st_min s))" "\<not> f64_less (literal_value (st_max s)) v"
    and whole: "st_value_type s = IntegerValue \<Longrightarrow> \<not> has_fraction v"
    and rendered: "rs_section rendered = st_section s" "rs_key rendered = st_key s"
      "rs_value rendered = (if st_value_type s = IntegerValue then show_int (to_i64 v) else render_float v)"
    by (auto simp: render_setting_value_def ok_then_Inr split: if_splits)
  then have s: "s \<in> set SETTINGS" "st_id s = setting_id" using schema_Ok by blast+
  let ?r = "rs_value rendered"
  have new: "pd_nodes d' = updated_nodes s ?r (document_ending d) (pd_nodes d)"
    using nodes by (simp add: rendered set_raw_value_nodes)
  then have read: "raw_value d' (chars (st_section s)) (chars (st_key s)) = Some ?r"
    using updated_value_looked_up [OF s(1)] by (simp add: raw_value_def)
  have "f64_eq (setting_value d' s) v" if "st_value_type s = IntegerValue"
    using rendered_integer_reads_back [OF s(1) that \<open>is_finite v\<close> whole [OF that] bounds] read that
    by (auto simp: setting_value_def rendered(3))
  then have float: "st_value_type s = FloatValue \<or> f64_eq (setting_value d' s) v" by (cases "st_value_type s") auto
  have "setting_value d' s' = setting_value d s'" if s': "s' \<in> set SETTINGS" "s' \<noteq> s" for s'
  proof -
    have "filter (setting_node s') (pd_nodes d') = filter (setting_node s') (pd_nodes d)"
      unfolding new by (rule updated_other_filter [OF s(1)]) (use settings_disjoint s(1) s' in auto)
    then show ?thesis by (simp only: setting_value_def raw_value_cong [of s' d' d])
  qed
  then have others: "list_all (\<lambda>s'. s' = s \<or> setting_value d' s' = setting_value d s') SETTINGS"
    by (auto simp: list_all_iff)
  show ?thesis
    using s read float others updated_lines_kept [OF s(1), of "pd_nodes d" ?r "document_ending d"]
    by (intro bexI [of _ s]) (auto simp: new rendered(3))
qed

section \<open>A sample\<close>

lemma sample_rendered:
  "render_setting_value ''bold_weight'' (f64_literal 3 1)
     = Ok \<lparr>rs_section = ''General'', rs_key = ''BoldWeight'', rs_value = chars ''3''\<rparr>"
  by code_simp

lemma sample_update:
  "update_value ''bold_weight'' (f64_literal 3 1) sample_document =
     (Ok (), snd (update_value ''bold_weight'' (f64_literal 3 1) sample_document))"
  using sample_rendered by (auto simp: update_value_def record_edit_def set_value_def Let_def)

lemma updated_setting_is_read_back_witness:
  "let d' = snd (update_value ''bold_weight'' (f64_literal 3 1) sample_document)
   in \<exists>s \<in> set SETTINGS. st_id s = ''bold_weight''
     \<and> raw_value d' (chars (st_section s)) (chars (st_key s))
         = Some (if st_value_type s = IntegerValue then show_int (to_i64 (f64_literal 3 1))
                 else render_float (f64_literal 3 1))
     \<and> (st_value_type s = FloatValue \<or> f64_eq (setting_value d' s) (f64_literal 3 1))
     \<and> list_all (\<lambda>s'. s' = s \<or> setting_value d' s' = setting_value sample_document s') SETTINGS
     \<and> subseq (filter (\<lambda>n. \<not> setting_node s n) (pd_nodes sample_document)) (pd_nodes d')
     \<and> length (pd_nodes d') \<le> length (pd_nodes sample_document) + 2"
  unfolding Let_def by (rule updated_setting_is_read_back [OF sample_update])

end
