(* ===== verification/Profile_Reopening.thy ===== *)
theory Profile_Reopening
  imports Profile_Setting_Properties Profile_Saving
begin

text \<open>
  Edited settings survive saving and reopening when every line of the file is terminated; a last line
  without a line break is lost when a key is inserted behind it.
\<close>

section \<open>Lines\<close>

definition line_breaks :: "utext set" where
  "line_breaks = {[10], [13], [13, 10]}"

definition unbroken :: "utext \<Rightarrow> bool" where
  "unbroken s \<longleftrightarrow> 10 \<notin> set s \<and> 13 \<notin> set s"

definition whole_line :: "utext \<Rightarrow> bool" where
  "whole_line line \<longleftrightarrow> (\<exists>body e. line = body @ e \<and> unbroken body \<and> e \<in> line_breaks)"

text \<open>A line that ends in a carriage return is not followed by a line feed.\<close>

definition seam :: "utext \<Rightarrow> utext \<Rightarrow> bool" where
  "seam line line' \<longleftrightarrow> List.last line \<noteq> 13 \<or> hd line' \<noteq> 10"

lemma unbroken_append [simp]: "unbroken (s @ t) \<longleftrightarrow> unbroken s \<and> unbroken t"
  by (auto simp: unbroken_def)

lemma unbroken_Cons [simp]: "unbroken (c # s) \<longleftrightarrow> c \<noteq> 10 \<and> c \<noteq> 13 \<and> unbroken s"
  by (auto simp: unbroken_def)

lemma unbroken_Nil [simp]: "unbroken []"
  by (simp add: unbroken_def)

lemma whole_not_Nil: "whole_line line \<Longrightarrow> line \<noteq> []"
  by (auto simp: whole_line_def line_breaks_def)

lemma split_unbroken:
  "unbroken body \<Longrightarrow> split_lines_from line (body @ s) = split_lines_from (line @ body) s"
  by (induction body arbitrary: line) auto

lemma split_whole_line:
  assumes "whole_line line" and "s = [] \<or> seam line s"
  shows "split_lines_from [] (line @ s) = line # split_lines_from [] s"
proof -
  obtain body e where line: "line = body @ e" "unbroken body" "e \<in> line_breaks" using assms(1) by (auto simp: whole_line_def)
  then show ?thesis
    using assms(2) split_unbroken [OF line(2), of "[]" "e @ s"]
    by (auto simp: line_breaks_def seam_def)
qed

lemma hd_concat: "list_all whole_line ls \<Longrightarrow> ls \<noteq> [] \<Longrightarrow> hd (concat ls) = hd (hd ls)"
  by (cases ls) (auto dest: whole_not_Nil)

lemma split_whole:
  "list_all whole_line ls \<Longrightarrow> successively seam ls \<Longrightarrow> split_text_lines (concat ls) = ls"
proof (induction ls)
  case (Cons line ls)
  then have "concat ls = [] \<or> seam line (concat ls)"
    by (cases "ls = []") (auto simp: seam_def hd_concat successively_Cons)
  with Cons show ?case by (auto simp: split_text_lines_def split_whole_line successively_Cons)
qed (simp add: split_text_lines_def)

lemma split_Nil_iff: "split_lines_from [] s = [] \<longleftrightarrow> s = []"
  using concat_split_lines_from [of "[]" s] by (cases s) auto

lemma hd_split: "s \<noteq> [] \<Longrightarrow> hd (hd (split_lines_from [] s)) = hd s"
proof -
  have first: "\<exists>t ts. split_lines_from line s = (line @ t) # ts" if "line \<noteq> [] \<or> s \<noteq> []" for line s
    using that
  proof (induction line s rule: split_lines_from.induct)
    case (2 line c cs)
    then show ?case
      by (cases "c = 10 \<or> c = 13 \<and> (cs = [] \<or> hd cs \<noteq> 10)") auto
  qed simp
  assume "s \<noteq> []"
  then obtain c cs where s: "s = c # cs" by (cases s) auto
  show ?thesis
    using first [of "[c]" cs] by (auto simp: s)
qed

text \<open>The lines of a text whose last line is terminated.\<close>

lemma split_terminated:
  assumes "unbroken line \<or> (\<exists>body. line = body @ [13] \<and> unbroken body \<and> s \<noteq> [] \<and> hd s = 10)"
    and "line @ s = [] \<or> s \<noteq> [] \<and> is_newline (List.last s)"
  shows "list_all whole_line (split_lines_from line s) \<and> successively seam (split_lines_from line s)"
  using assms
proof (induction line s rule: split_lines_from.induct)
  case (2 line c cs)
  have last: "cs = [] \<or> is_newline (List.last cs)" using "2.prems"(2) by (auto split: if_splits)
  show ?case
  proof (cases "c = 10 \<or> c = 13 \<and> (cs = [] \<or> hd cs \<noteq> 10)")
    case True
    then have IH: "list_all whole_line (split_lines_from [] cs)" "successively seam (split_lines_from [] cs)"
      using 2 last by auto
    have "whole_line (line @ [c])"
    proof (cases "unbroken line")
      case True
      then show ?thesis using \<open>c = 10 \<or> _\<close> by (auto simp: whole_line_def line_breaks_def)
    next
      case False
      then obtain body where "line = body @ [13]" "unbroken body" "c = 10" using "2.prems"(1) by auto
      then have "line @ [c] = body @ [13, 10]" by simp
      with \<open>unbroken body\<close> show ?thesis unfolding whole_line_def line_breaks_def by blast
    qed
    moreover have "split_lines_from [] cs = [] \<or> seam (line @ [c]) (hd (split_lines_from [] cs))"
      using True by (cases "cs = []") (auto simp: seam_def hd_split)
    ultimately show ?thesis using IH True by (auto simp: successively_Cons)
  next
    case False
    then have "\<not> (\<exists>body. line = body @ [13] \<and> hd (c # cs) = 10)" by auto
    then have "unbroken line" using "2.prems"(1) by auto
    then have "unbroken (line @ [c]) \<or> (\<exists>body. line @ [c] = body @ [13] \<and> unbroken body \<and> cs \<noteq> [] \<and> hd cs = 10)"
      using False by auto
    moreover have "cs \<noteq> []" using False "2.prems"(2) by (auto simp: is_newline_def)
    ultimately show ?thesis using "2.IH"(2) False last by auto
  qed
qed simp

section \<open>Reopened nodes\<close>

text \<open>Nodes without the case of the section names, which no lookup sees.\<close>

primrec fold_section :: "ini_node \<Rightarrow> ini_node" where
  "fold_section (Blank raw) = Blank raw"
| "fold_section (Comment raw) = Comment raw"
| "fold_section (Section name raw) = Section (map ascii_lower name) raw"
| "fold_section (KeyValue sec key v pre sep suf raw) = KeyValue (map ascii_lower sec) key v pre sep suf raw"
| "fold_section (Unknown sec raw) = Unknown (map ascii_lower sec) raw"

definition next_section :: "utext \<Rightarrow> ini_node \<Rightarrow> utext" where
  "next_section sec node = (case node of Section name raw \<Rightarrow> name | _ \<Rightarrow> sec)"

lemma parse_line_next: "parse_line sec line = (fst (parse_line sec line), next_section sec (fst (parse_line sec line)))"
  by (auto simp: parse_line_def parse_assignment_def next_section_def Let_def)

lemma parse_line_fold:
  "same_ignoring_case sec sec' \<Longrightarrow> fold_section (fst (parse_line sec line)) = fold_section (fst (parse_line sec' line))"
  by (auto simp: parse_line_def parse_assignment_def Let_def same_ignoring_case_def)

lemma next_section_fold:
  "same_ignoring_case sec sec' \<Longrightarrow> fold_section node = fold_section node' \<Longrightarrow>
     same_ignoring_case (next_section sec node) (next_section sec' node')"
  by (cases node; cases node') (auto simp: next_section_def same_ignoring_case_def)

text \<open>Every node is what its line is parsed to, behind the nodes before it.\<close>

fun runs :: "utext \<Rightarrow> ini_node list \<Rightarrow> bool" where
  "runs sec [] \<longleftrightarrow> True"
| "runs sec (node # nodes) \<longleftrightarrow>
     fold_section (fst (parse_line sec (node_raw node))) = fold_section node \<and> runs (next_section sec node) nodes"

lemma runs_case: "same_ignoring_case sec sec' \<Longrightarrow> runs sec nodes = runs sec' nodes"
proof (induction nodes arbitrary: sec sec')
  case (Cons node nodes)
  then show ?case
    using next_section_fold [OF Cons.prems refl, of node] parse_line_fold [OF Cons.prems, of "node_raw node"] by auto
qed simp

lemma runs_parses:
  "runs sec nodes \<Longrightarrow> map fold_section (parse_lines sec (map node_raw nodes)) = map fold_section nodes"
proof (induction nodes arbitrary: sec)
  case (Cons node nodes)
  let ?n = "fst (parse_line sec (node_raw node))"
  have same: "fold_section ?n = fold_section node" and "runs (next_section sec node) nodes" using Cons.prems by auto
  then have "runs (next_section sec ?n) nodes"
    using runs_case [OF next_section_fold [of sec sec ?n node]] by (simp add: same_ignoring_case_def)
  from Cons.IH [OF this] same show ?case
    by (subst list.map, subst parse_lines.simps, subst parse_line_next) simp
qed simp

lemma parsed_runs: "runs sec (parse_lines sec ls)"
proof (induction ls arbitrary: sec)
  case (Cons line ls)
  show ?case
    by (subst parse_lines.simps, subst parse_line_next) (simp add: Cons.IH)
qed simp

lemma runs_append: "runs sec (xs @ ys) \<longleftrightarrow> runs sec xs \<and> runs (foldl next_section sec xs) ys"
  by (induction xs arbitrary: sec) auto

lemma lower_twice: "ascii_lower \<circ> ascii_lower = ascii_lower"
  by (auto simp: ascii_lower_def)

lemma assigns_fold: "assigns t key (fold_section node) = assigns t key node"
  by (cases node) (auto simp: assigns_def same_ignoring_case_def lower_twice)

lemma value_fold: "node_value (fold_section node) = node_value node"
  by (cases node) (simp_all add: node_value_def)

lemma find_map_fold: "List.find P (map f xs) = map_option f (List.find (\<lambda>x. P (f x)) xs)"
  by (induction xs) auto

lemma lookup_fold: "lookup_in (map fold_section nodes) key ts = lookup_in nodes key ts"
  by (induction ts)
    (simp_all add: rev_map find_map_fold assigns_fold value_fold split: option.split)

lemma setting_value_fold:
  "map fold_section (pd_nodes d') = map fold_section (pd_nodes d) \<Longrightarrow> setting_value d' s = setting_value d s"
  unfolding setting_value_def raw_value_def by (metis lookup_fold)

section \<open>Lines the editor writes\<close>

definition plain_char :: "nat \<Rightarrow> bool" where
  "plain_char c \<longleftrightarrow> c = 45 \<or> c = 46 \<or> is_digit c"

definition plain_value :: "utext \<Rightarrow> bool" where
  "plain_value r \<longleftrightarrow> r \<noteq> [] \<and> list_all plain_char r"

lemma plain_char_facts: "plain_char c \<Longrightarrow> \<not> is_white_space c \<and> c \<noteq> 10 \<and> c \<noteq> 13 \<and> c \<noteq> 93 \<and> \<not> is_newline c"
  by (auto simp: plain_char_def is_digit_def is_white_space_def is_newline_def)

lemma plain_unbroken: "plain_value r \<Longrightarrow> unbroken r"
  by (auto simp: plain_value_def unbroken_def list_all_iff dest: plain_char_facts)

lemma plain_ends: "plain_value r \<Longrightarrow> plain_char (hd r) \<and> plain_char (List.last r) \<and> r \<noteq> []"
  by (auto simp: plain_value_def list_all_iff)

lemma show_nat_plain: "plain_value (chars (show_nat n))"
  using shown_digits [of n] by (auto simp: plain_value_def plain_char_def list_all_iff)

lemma show_int_plain: "plain_value (show_int i)"
  using show_nat_plain [of "nat i"] show_nat_plain [of "nat (- i)"]
  by (auto simp: show_int_def plain_value_def plain_char_def)

lemma format_6_plain: "is_finite x \<Longrightarrow> list_all plain_char (format_6 x) \<and> 46 \<in> set (format_6 x)"
  using show_nat_plain
  by (cases x) (auto simp: format_6_def is_finite_def pad_zeros_def plain_value_def plain_char_def is_digit_def list_all_iff
      Let_def)

lemma render_float_plain:
  assumes "is_finite x"
  shows "plain_value (render_float x)"
proof -
  let ?s = "rev (dropWhile (\<lambda>c. c = 48) (rev (format_6 x)))"
  have f: "list_all plain_char (format_6 x)" "46 \<in> set (format_6 x)" using format_6_plain [OF assms] by auto
  have "46 \<in> set (dropWhile (\<lambda>c. c = (48 :: nat)) (rev (format_6 x)))"
  proof (rule ccontr)
    assume "46 \<notin> set (dropWhile (\<lambda>c. c = (48 :: nat)) (rev (format_6 x)))"
    then have "46 \<in> set (takeWhile (\<lambda>c. c = (48 :: nat)) (rev (format_6 x)))"
      using f(2) by (metis Un_iff set_append set_rev takeWhile_dropWhile_id)
    then show False by (auto dest: set_takeWhileD)
  qed
  then have "dropWhile (\<lambda>c. c = (48 :: nat)) (rev (format_6 x)) \<noteq> []" by (metis empty_iff list.set(1))
  then have "?s \<noteq> []" by (simp only: rev_is_Nil_conv not_False_eq_True)
  moreover have "list_all plain_char ?s" using f(1) by (auto simp: list_all_iff dest: set_dropWhileD)
  ultimately show ?thesis
    using f(2) by (auto simp: render_float_def plain_value_def plain_char_def is_digit_def Let_def)
qed

lemma trim_end_matches_append:
  "trim_end_matches P (s @ t) = (if list_all P t then trim_end_matches P s else s @ trim_end_matches P t)"
  by (auto simp: trim_end_matches_def dropWhile_append3 list_all_iff dropWhile_append)

lemma trim_end_matches_Nil [simp]: "trim_end_matches P [] = []"
  by (simp add: trim_end_matches_def)

lemma trim_end_matches_last: "s = [] \<or> \<not> P (List.last s) \<Longrightarrow> trim_end_matches P s = s"
  by (cases s rule: rev_cases) (auto simp: trim_end_matches_def)

lemma trim_end_matches_all: "list_all P t \<Longrightarrow> trim_end_matches P t = []"
  by (auto simp: trim_end_matches_def list_all_iff)

lemma unbroken_no_newline: "unbroken s \<Longrightarrow> s = [] \<or> \<not> is_newline (List.last s)"
  by (metis is_newline_def last_in_set unbroken_def)

lemma break_newlines: "e \<in> line_breaks \<Longrightarrow> list_all is_newline e \<and> e \<noteq> []"
  by (auto simp: line_breaks_def is_newline_def)

lemma trim_break: "unbroken body \<Longrightarrow> e \<in> line_breaks \<Longrightarrow> trim_end_matches is_newline (body @ e) = body"
  using break_newlines [of e] unbroken_no_newline [of body]
  by (simp add: trim_end_matches_append trim_end_matches_last)

lemma trim_first:
  assumes "dropWhile is_white_space p = c # cs"
  shows "\<exists>t. text_trim (p @ x) = c # t"
proof -
  have "\<not> is_white_space c" using assms by (metis hd_dropWhile list.sel(1) list.distinct(1))
  moreover have "text_trim_start (p @ x) = c # cs @ x"
    using assms dropWhile_eq_Nil_conv [of is_white_space p] by (auto simp: text_trim_start_def dropWhile_append)
  ultimately have "text_trim (p @ x) = c # text_trim_end (cs @ x)"
    using trim_end_matches_append [of is_white_space "[c]" "cs @ x"] trim_end_matches_last [of "[c]" is_white_space]
      trim_end_matches_all [of is_white_space "cs @ x"]
    by (auto simp: text_trim_def text_trim_end_def split: if_splits)
  then show ?thesis by blast
qed

lemma trim_not_Nil: "text_trim p \<noteq> [] \<Longrightarrow> \<exists>c cs. dropWhile is_white_space p = c # cs"
  by (cases "dropWhile is_white_space p") (auto simp: text_trim_def text_trim_start_def text_trim_end_def)

text \<open>An assignment with a trimmed value is parsed to its parts; a plain value is one.\<close>

definition trimmed_value :: "utext \<Rightarrow> bool" where
  "trimmed_value r \<longleftrightarrow> r \<noteq> [] \<and> unbroken r \<and> \<not> is_white_space (hd r) \<and> \<not> is_white_space (List.last r)
     \<and> List.last r \<noteq> 93"

lemma plain_trimmed: "plain_value r \<Longrightarrow> trimmed_value r"
  using plain_ends [of r] plain_char_facts plain_unbroken [of r] by (auto simp: trimmed_value_def)

lemma parse_trimmed_assignment:
  assumes p: "unbroken p" "61 \<notin> set p" "text_trim p \<noteq> []" "hd (text_trim p) \<notin> {59, 35}"
    and ws: "list_all is_white_space w" "list_all is_white_space w'" "unbroken w" "unbroken w'"
    and r: "trimmed_value r" and e: "e \<in> line_breaks"
  shows "parse_line sec (p @ 61 # w @ r @ w' @ e)
     = (KeyValue sec (text_trim p) r p (61 # w) (w' @ e) (p @ 61 # w @ r @ w' @ e), sec)"
proof -
  let ?body = "p @ 61 # w @ r @ w'"
  have ends': "\<not> is_white_space (hd r)" "\<not> is_white_space (List.last r)" "List.last r \<noteq> 93" "r \<noteq> []"
    and plain: "unbroken r"
    using r by (simp_all add: trimmed_value_def)
  have body: "trim_end_matches is_newline (p @ 61 # w @ r @ w' @ e) = ?body"
    using trim_break [of ?body e] p(1) ws(3,4) plain e by simp
  obtain c cs where start: "dropWhile is_white_space p = c # cs" using trim_not_Nil [OF p(3)] by blast
  obtain t where t: "text_trim ?body = c # t" using trim_first [OF start] by blast
  have "List.last (text_trim ?body) = List.last r"
  proof -
    have "text_trim_start ?body = cs' @ r @ w'" if "text_trim_start (p @ 61 # w) = cs'" "cs' \<noteq> []" for cs'
      using that by (auto simp: text_trim_start_def dropWhile_append dropWhile_eq_Nil_conv split: if_splits)
    moreover have "text_trim_start (p @ 61 # w) \<noteq> []"
      by (auto simp: text_trim_start_def dropWhile_eq_Nil_conv is_white_space_def)
    ultimately obtain x where "text_trim_start ?body = (x @ r) @ w'" by (metis append_assoc)
    then have "text_trim ?body = x @ r"
      using ws(2) ends' by (simp add: text_trim_def text_trim_end_def trim_end_matches_append [of _ "x @ r"] trim_end_matches_last
          del: append_assoc)
    then show ?thesis using ends' by simp
  qed
  then have last: "List.last (c # t) \<noteq> 93" using ends' t by simp
  obtain t' where "text_trim p = c # t'" using trim_first [OF start, of "[]"] by auto
  then have c: "c \<noteq> 59" "c \<noteq> 35" using p(4) by auto
  have line: "parse_line sec (p @ 61 # w @ r @ w' @ e)
      = (parse_assignment sec (p @ 61 # w @ r @ w' @ e) ?body, sec)"
    unfolding parse_line_def Let_def body t using c last by simp
  have before: "takeWhile (\<lambda>c. c \<noteq> 61) ?body = p" using p(2) by (auto simp: takeWhile_append)
  have vs: "text_trim_start (w @ r @ w') = r @ w'"
    using ws(1) ends' by (cases r) (auto simp: text_trim_start_def list_all_iff dropWhile_append)
  have ve: "text_trim_end (r @ w') = r"
    using ws(2) ends' by (simp add: text_trim_end_def trim_end_matches_append trim_end_matches_last)
  show ?thesis
    unfolding line parse_assignment_def Let_def before using p(3) vs ve by simp
qed

lemmas parse_plain_assignment = parse_trimmed_assignment [OF _ _ _ _ _ _ _ _ plain_trimmed]

text \<open>What is known of a line that was parsed to an assignment, with or without its line break.\<close>

lemma parsed_assignment:
  assumes "fst (parse_line sec (body @ e)) = KeyValue sec' key v pre sep suf raw"
    and "unbroken body" and "e \<in> insert [] line_breaks"
  obtains w w' where "unbroken pre" "61 \<notin> set pre" "text_trim pre \<noteq> []" "hd (text_trim pre) \<notin> {59, 35}"
    "list_all is_white_space w" "list_all is_white_space w'" "unbroken w" "unbroken w'"
    "sep = 61 # w" "suf = w' @ e" "key = text_trim pre" "body = pre @ 61 # w @ v @ w'"
    "v = [] \<or> \<not> is_white_space (hd v)"
proof -
  have body: "trim_end_matches is_newline (body @ e) = body"
    using assms(2,3) trim_break [OF assms(2)] unbroken_no_newline [OF assms(2)] by (auto simp: trim_end_matches_last)
  have parsed: "parse_assignment sec (body @ e) body = KeyValue sec' key v pre sep suf raw"
    and start_hd: "hd (text_trim body) \<noteq> 59" "hd (text_trim body) \<noteq> 35"
    using assms(1) by (auto simp: parse_line_def body Let_def split: if_splits)
  let ?after = "drop (Suc (length (takeWhile (\<lambda>c. c \<noteq> 61) body))) body"
  let ?w = "takeWhile is_white_space ?after" and ?rest = "dropWhile is_white_space ?after"
  have "61 \<in> set body" using parsed by (auto simp: parse_assignment_def split: if_splits)
  then obtain ys zs where split: "body = ys @ 61 # zs" "61 \<notin> set ys" by (meson split_list_first)
  then have before: "takeWhile (\<lambda>c. c \<noteq> 61) body = ys" by (auto simp: takeWhile_append)
  then have after: "?after = zs" and after': "drop (Suc (length ys)) body = zs" by (simp_all add: split)
  let ?tail = "rev (takeWhile is_white_space (rev ?rest))"
  have zs: "zs = ?w @ ?rest" unfolding after by simp
  have rest: "?rest = text_trim_end ?rest @ ?tail"
    unfolding text_trim_end_def trim_end_matches_def by (metis rev_append rev_rev_ident takeWhile_dropWhile_id)
  have cut: "take (length s - length s2) s = s1 \<and> drop (length s - length s2) s = s2" if "s = s1 @ s2" for s s1 s2 :: utext
    using that by simp
  have cut': "take (length s - (length s - length s1)) s = s1 \<and> drop (length s - (length s - length s1)) s = s2"
    if "s = s1 @ s2" for s s1 s2 :: utext
    using that by simp
  have "parse_assignment sec (body @ e) body =
      (if text_trim ys = [] then Unknown sec (body @ e)
       else KeyValue sec (text_trim ys) (text_trim_end ?rest) ys (61 # ?w) (?tail @ e) (body @ e))"
    unfolding parse_assignment_def Let_def before after' text_trim_start_def
    using \<open>61 \<in> set body\<close> cut [OF zs [unfolded after]] cut' [OF rest [unfolded after]] by (simp add: after)
  then have v: "v = text_trim_end ?rest" "suf = ?tail @ e" "pre = ys" "key = text_trim ys" "sep = 61 # ?w" "text_trim ys \<noteq> []"
    using parsed by (auto split: if_splits)
  obtain c cs where start: "dropWhile is_white_space ys = c # cs" using trim_not_Nil [OF v(6)] by blast
  obtain t t' where "text_trim body = c # t" "text_trim ys = c # t'"
    using trim_first [OF start, of "61 # zs"] trim_first [OF start, of "[]"] split(1) by auto
  then have "hd (text_trim ys) \<notin> {59, 35}" using start_hd by simp
  moreover have parts: "zs = ?w @ v @ ?tail" using rest v(1) after by (metis takeWhile_dropWhile_id)
  moreover have "unbroken ys" "unbroken zs" using assms(2) split(1) by auto
  moreover have "unbroken ?w" "unbroken ?tail"
    using \<open>unbroken zs\<close> parts by (metis unbroken_append)+
  moreover have "list_all is_white_space ?w" "list_all is_white_space ?tail"
    by (auto simp: list_all_iff dest: set_takeWhileD)
  moreover have "v = [] \<or> \<not> is_white_space (hd v)"
  proof (cases "v = []")
    case False
    then have "hd v = hd ?rest" "?rest \<noteq> []" using rest v(1) by (metis hd_append2 append_is_Nil_conv)+
    then show ?thesis using hd_dropWhile by metis
  qed simp
  ultimately show ?thesis using that [of ?w ?tail] v split by (simp add: after)
qed

section \<open>Documents that parse back\<close>

definition sound_lines :: "utext \<Rightarrow> ini_node list \<Rightarrow> bool" where
  "sound_lines e nodes \<longleftrightarrow>
     list_all whole_line (map node_raw nodes) \<and> successively seam (map node_raw nodes)
     \<and> (e = [13] \<longrightarrow> list_all (\<lambda>node. 10 \<notin> set (node_raw node)) nodes) \<and> runs [] nodes"

text \<open>A document with sound lines is parsed back, up to the case of section names.\<close>

lemma sound_parses_back:
  "sound_lines e nodes \<Longrightarrow> map fold_section (parse_nodes (concat (map node_raw nodes))) = map fold_section nodes"
  by (simp add: sound_lines_def parse_nodes_def split_whole runs_parses)

lemma parsed_sound:
  assumes "s = [] \<or> is_newline (List.last s)"
  shows "sound_lines (case detect_line_ending s of CrLf \<Rightarrow> [13, 10] | Lf \<Rightarrow> [10] | Cr \<Rightarrow> [13]) (parse_nodes s)"
proof -
  have "list_all (\<lambda>node. 10 \<notin> set (node_raw node)) (parse_nodes s)" if "10 \<notin> set s"
  proof -
    have "set s = (\<Union>line \<in> set (split_text_lines s). set line)"
      by (metis concat_split_lines set_concat)
    moreover have "node_raw node \<in> set (split_text_lines s)" if "node \<in> set (parse_nodes s)" for node
      using that parsed_raws by (metis image_eqI set_map)
    ultimately show ?thesis using that by (auto simp: list_all_iff)
  qed
  moreover have "detect_line_ending s = Cr \<Longrightarrow> 10 \<notin> set s" by (auto simp: detect_line_ending_def split: if_splits)
  ultimately show ?thesis
    using split_terminated [of "[]" s] assms
    by (auto simp: sound_lines_def parsed_runs parse_nodes_def split_text_lines_def split: line_ending.splits)
qed

lemma parse_new_assignment:
  assumes "plain_value r" and "e \<in> line_breaks" and "text_trim key = key" "key \<noteq> []" "unbroken key" "61 \<notin> set key"
    "hd key \<notin> {59, 35}"
  shows "fst (parse_line sec (node_raw (new_assignment name key r e))) = new_assignment sec key r e"
  using parse_plain_assignment [of key "[]" "[]" r e sec] assms by (simp add: new_assignment_def)

lemma parse_header:
  assumes "text_trim name = name" and "unbroken name" and "e \<in> line_breaks"
  shows "fst (parse_line sec (node_raw (section_header name e))) = section_header name e"
proof -
  have body: "trim_end_matches is_newline (91 # name @ 93 # e) = 91 # name @ [93]"
    using trim_break [of "91 # name @ [93]" e] assms(2,3) by simp
  have "\<not> is_white_space 91" "\<not> is_white_space 93" by (simp_all add: is_white_space_def)
  then have "text_trim (91 # name @ [93]) = 91 # name @ [93]"
    by (simp add: text_trim_def text_trim_start_def text_trim_end_def trim_end_matches_last)
  with assms(1) show ?thesis by (simp add: section_header_def parse_line_def body Let_def)
qed

text \<open>The characters of the lines, and whether the text begins with the character of the byte order mark.\<close>

definition scalar_lines :: "ini_node list \<Rightarrow> bool" where
  "scalar_lines nodes \<longleftrightarrow> list_all (\<lambda>node. list_all is_scalar (node_raw node)) nodes"

definition marked :: "ini_node list \<Rightarrow> bool" where
  "marked nodes \<longleftrightarrow> nodes \<noteq> [] \<and> hd (node_raw (hd nodes)) = 0xFEFF"

lemma plain_scalar: "plain_value r \<Longrightarrow> list_all is_scalar r"
  by (auto simp: plain_value_def plain_char_def is_digit_def is_scalar_def list_all_iff)

lemma break_scalar: "e \<in> line_breaks \<Longrightarrow> list_all is_scalar e"
  by (auto simp: line_breaks_def is_scalar_def)

text \<open>Rewriting a value keeps the shape of its line and what it is parsed to.\<close>

lemma rewritten_line:
  assumes "whole_line (node_raw node)" and "fold_section (fst (parse_line sec (node_raw node))) = fold_section node"
    and "assigns t key node" and "plain_value r"
  shows "whole_line (node_raw (rewrite_value r node))"
    and "fold_section (fst (parse_line sec (node_raw (rewrite_value r node)))) = fold_section (rewrite_value r node)"
    and "hd (node_raw (rewrite_value r node)) = hd (node_raw node)"
    and "List.last (node_raw (rewrite_value r node)) = List.last (node_raw node)"
    and "10 \<notin> set (node_raw node) \<Longrightarrow> 10 \<notin> set (node_raw (rewrite_value r node))"
    and "list_all is_scalar (node_raw node) \<Longrightarrow> list_all is_scalar (node_raw (rewrite_value r node))"
proof -
  obtain s k v p sp su raw where node: "node = KeyValue s k v p sp su raw"
    using assms(3) by (auto simp: assigns_def split: ini_node.splits)
  obtain body e where raw: "raw = body @ e" "unbroken body" "e \<in> line_breaks"
    using assms(1) by (auto simp: node whole_line_def)
  obtain s' where parsed: "fst (parse_line sec (body @ e)) = KeyValue s' k v p sp su raw" "map ascii_lower s' = map ascii_lower s"
    using assms(2) by (cases "fst (parse_line sec (body @ e))") (auto simp: node raw(1))
  obtain w w' where parts: "unbroken p" "61 \<notin> set p" "text_trim p \<noteq> []" "hd (text_trim p) \<notin> {59, 35}"
    "list_all is_white_space w" "list_all is_white_space w'" "unbroken w" "unbroken w'"
    "sp = 61 # w" "su = w' @ e" "k = text_trim p" "body = p @ 61 # w @ v @ w'"
    using parsed_assignment [OF parsed(1) raw(2) insertI2 [OF raw(3)]] by metis
  have sec: "s' = sec"
    using parsed(1) by (auto simp: parse_line_def parse_assignment_def Let_def split: if_splits)
  have new: "node_raw (rewrite_value r node) = p @ 61 # w @ r @ w' @ e"
    by (simp add: node rewrite_value_def parts)
  have "p \<noteq> []" "e \<noteq> []" using parts(3) raw(3) by (auto simp: text_trim_def text_trim_start_def text_trim_end_def line_breaks_def)
  then show "hd (node_raw (rewrite_value r node)) = hd (node_raw node)"
    "List.last (node_raw (rewrite_value r node)) = List.last (node_raw node)"
    unfolding new by (simp_all add: node raw(1) parts)
  have "unbroken (p @ 61 # w @ r @ w')" using parts plain_unbroken [OF assms(4)] by simp
  then show "whole_line (node_raw (rewrite_value r node))"
    unfolding new whole_line_def using raw(3) by (metis append_Cons append_assoc)
  show "fold_section (fst (parse_line sec (node_raw (rewrite_value r node)))) = fold_section (rewrite_value r node)"
    unfolding new using parse_plain_assignment [OF parts(1-8) assms(4) raw(3), of sec] parsed(2) sec
    by (simp add: node rewrite_value_def parts)
  show "10 \<notin> set (node_raw (rewrite_value r node))" if "10 \<notin> set (node_raw node)"
    unfolding new using that plain_unbroken [OF assms(4)] by (auto simp: node raw(1) parts unbroken_def)
  show "list_all is_scalar (node_raw (rewrite_value r node))" if "list_all is_scalar (node_raw node)"
    unfolding new using that plain_scalar [OF assms(4)] by (auto simp: node raw(1) parts)
qed

definition line_shape :: "ini_node \<Rightarrow> nat \<times> nat" where
  "line_shape node = (hd (node_raw node), List.last (node_raw node))"

lemma seams_of_shapes:
  "map line_shape nodes = map line_shape nodes' \<Longrightarrow>
     successively seam (map node_raw nodes) = successively seam (map node_raw nodes')"
proof -
  have "successively seam (map node_raw ns) = successively (\<lambda>(h, l) (h', l'). l \<noteq> 13 \<or> h' \<noteq> 10) (map line_shape ns)" for ns
    by (simp add: successively_map seam_def line_shape_def)
  then show "map line_shape nodes = map line_shape nodes' \<Longrightarrow>
     successively seam (map node_raw nodes) = successively seam (map node_raw nodes')" by simp
qed

lemma update_last_lines:
  assumes "plain_value r"
  shows "list_all whole_line (map node_raw nodes) \<Longrightarrow> runs sec nodes \<Longrightarrow>
     list_all whole_line (map node_raw (update_last (assigns t key) (rewrite_value r) nodes))
     \<and> runs sec (update_last (assigns t key) (rewrite_value r) nodes)
     \<and> map line_shape (update_last (assigns t key) (rewrite_value r) nodes) = map line_shape nodes
     \<and> (list_all (\<lambda>node. 10 \<notin> set (node_raw node)) nodes \<longrightarrow>
          list_all (\<lambda>node. 10 \<notin> set (node_raw node)) (update_last (assigns t key) (rewrite_value r) nodes))
     \<and> (scalar_lines nodes \<longrightarrow> scalar_lines (update_last (assigns t key) (rewrite_value r) nodes))"
  unfolding scalar_lines_def
proof (induction nodes arbitrary: sec)
  case (Cons node nodes)
  have next_rewrite: "next_section sec (rewrite_value r node) = next_section sec node"
    by (cases node) (simp_all add: next_section_def rewrite_value_def)
  consider "list_ex (assigns t key) nodes" | "\<not> list_ex (assigns t key) nodes" "assigns t key node"
    | "\<not> list_ex (assigns t key) nodes" "\<not> assigns t key node" by blast
  then show ?case
  proof cases
    case 1
    then show ?thesis using Cons.IH [of "next_section sec node"] Cons.prems by (simp add: line_shape_def)
  next
    case 2
    note line = rewritten_line [of node sec t key r, OF _ _ 2(2) assms]
    show ?thesis using Cons.prems 2 line next_rewrite by (simp add: line_shape_def)
  next
    case 3
    then show ?thesis using Cons.prems by simp
  qed
qed simp

lemma insert_line:
  assumes "sound_lines e (xs @ ys)" and "e \<in> line_breaks" and "node_raw node = body @ e" and "unbroken body" "body \<noteq> []"
    and "fold_section (fst (parse_line (foldl next_section [] xs) (node_raw node))) = fold_section node"
    and "runs (next_section (foldl next_section [] xs) node) ys"
  shows "sound_lines e (xs @ node # ys)"
proof -
  have whole: "whole_line (node_raw node)" using assms(2-4) by (auto simp: whole_line_def)
  have hd: "hd (node_raw node) \<noteq> 10" using assms(3-5) by (cases body) auto
  have no_feed: "e = [13] \<Longrightarrow> 10 \<notin> set (node_raw node)" using assms(3,4) by (auto simp: unbroken_def)
  have "seam (node_raw node) (node_raw (hd ys))" if "ys \<noteq> []"
  proof (cases "e = [13]")
    case True
    then have "10 \<notin> set (node_raw (hd ys))" "node_raw (hd ys) \<noteq> []"
      using assms(1) that by (cases ys; auto simp: sound_lines_def dest: whole_not_Nil)+
    then show ?thesis unfolding seam_def by (metis hd_in_set)
  next
    case False
    then show ?thesis using assms(2,3) by (auto simp: seam_def line_breaks_def)
  qed
  then show ?thesis
    using assms(1,6,7) whole hd no_feed
    by (auto simp: sound_lines_def runs_append successively_append_iff successively_Cons hd_map seam_def)
qed

lemma index_behind:
  assumes "list_ex P xs"
  obtains ys x zs where "xs = ys @ x # zs" "P x" "index_behind_last P xs = length (ys @ [x])"
proof -
  have "\<exists>x\<in>set (rev xs). P x" using assms by (auto simp: list_ex_iff)
  then obtain us x vs where split: "rev xs = us @ x # vs" "P x" "\<forall>u\<in>set us. \<not> P u"
    using split_list_first_prop [of "rev xs" P] by auto
  then have "xs = rev vs @ x # rev us" by (simp add: rev_swap)
  moreover have "dropWhile (\<lambda>x. \<not> P x) (rev xs) = x # vs" using split by (auto simp: dropWhile_append)
  ultimately show ?thesis using that [of "rev vs" x "rev us"] split(2) assms by (simp add: index_behind_last_def)
qed

lemma belongs_section:
  assumes "belongs_to t node" and "fold_section (fst (parse_line sec (node_raw node))) = fold_section node"
  shows "same_ignoring_case (next_section sec node) t"
proof -
  have "\<And>s k v p sp su raw. fst (parse_line sec (node_raw node)) = KeyValue s k v p sp su raw \<Longrightarrow> s = sec"
    "\<And>s raw. fst (parse_line sec (node_raw node)) = Unknown s raw \<Longrightarrow> s = sec"
    by (auto simp: parse_line_def parse_assignment_def Let_def split: if_splits)
  with assms show ?thesis
    by (cases node; cases "fst (parse_line sec (node_raw node))")
      (auto simp: belongs_to_def next_section_def same_ignoring_case_def)
qed

text \<open>The names of the table can be written and read.\<close>

definition plain_name :: "utext \<Rightarrow> bool" where
  "plain_name name \<longleftrightarrow> text_trim name = name \<and> name \<noteq> [] \<and> 10 \<notin> set name \<and> 13 \<notin> set name \<and> 61 \<notin> set name
     \<and> hd name \<noteq> 59 \<and> hd name \<noteq> 35"

lemma settings_names: "list_all (\<lambda>s. plain_name (chars (st_section s)) \<and> plain_name (chars (st_key s))) SETTINGS"
  by code_simp

lemma settings_scalar:
  "list_all (\<lambda>s. list_all is_scalar (chars (st_section s)) \<and> list_all is_scalar (chars (st_key s))
     \<and> hd (chars (st_key s)) \<noteq> 0xFEFF) SETTINGS"
  by code_simp

lemma marked_shape: "map line_shape nodes' = map line_shape nodes \<Longrightarrow> marked nodes' = marked nodes"
  by (cases nodes; cases nodes') (auto simp: marked_def line_shape_def)

text \<open>An update keeps the characters scalars and puts no mark at the front.\<close>

lemma updated_scalar:
  assumes "s \<in> set SETTINGS" and "plain_value r" and "e \<in> line_breaks" and "sound_lines e nodes" and "scalar_lines nodes"
  shows "scalar_lines (updated_nodes s r e nodes)" and "\<not> marked nodes \<Longrightarrow> \<not> marked (updated_nodes s r e nodes)"
proof -
  have "scalar_lines (updated_nodes s r e nodes) \<and> (\<not> marked nodes \<longrightarrow> \<not> marked (updated_nodes s r e nodes))"
  proof (cases rule: target_section_cases [of "chars (st_section s)" "chars (st_key s)" nodes])
    case (assigned before t behind)
    let ?new = "update_last (assigns t (chars (st_key s))) (rewrite_value r) nodes"
    have "scalar_lines ?new" "map line_shape ?new = map line_shape nodes"
      using update_last_lines [OF assms(2), of nodes "[]" t "chars (st_key s)"] assms(4,5)
      by (simp_all add: sound_lines_def)
    moreover have "updated_nodes s r e nodes = ?new" using assigned by (simp add: updated_nodes_def)
    ultimately show ?thesis using marked_shape by metis
  next
    case unassigned
    let ?sec = "chars (st_section s)" and ?key = "chars (st_key s)"
    have names: "list_all is_scalar ?sec" "list_all is_scalar ?key" using settings_scalar assms(1) by (auto simp: list_all_iff)
    let ?nodes = "ensure_section ?sec e nodes" and ?line = "new_assignment ?sec ?key r e"
    have "list_ex (belongs_to ?sec) ?nodes"
      by (auto simp: ensure_section_def list_ex_iff belongs_to_def names_section_def section_header_def split: ini_node.splits)
    then obtain ys x zs where split: "?nodes = ys @ x # zs"
      "index_behind_last (belongs_to ?sec) ?nodes = length (ys @ [x])"
      by (rule index_behind)
    have "updated_nodes s r e nodes = insert_at (length (ys @ [x])) [?line] ?nodes"
      using unassigned section_looked_up [OF assms(1)] split(2) by (auto simp: updated_nodes_def Let_def)
    then have new: "updated_nodes s r e nodes = ys @ x # ?line # zs" by (simp add: insert_at_def split(1))
    have "scalar_lines ?nodes"
      using assms(5) names break_scalar [OF assms(3)]
      by (auto simp: scalar_lines_def ensure_section_def section_header_def is_scalar_def)
    moreover have "list_all is_scalar (node_raw ?line)"
      using names plain_scalar [OF assms(2)] break_scalar [OF assms(3)] by (simp add: new_assignment_def is_scalar_def)
    ultimately have "scalar_lines (updated_nodes s r e nodes)" unfolding new split(1) scalar_lines_def by simp
    moreover have "marked ?nodes \<Longrightarrow> marked nodes"
      by (cases nodes) (auto simp: marked_def ensure_section_def section_header_def split: if_splits)
    moreover have "marked (updated_nodes s r e nodes) = marked ?nodes"
      unfolding new split(1) by (cases ys) (simp_all add: marked_def)
    ultimately show ?thesis by blast
  qed
  then show "scalar_lines (updated_nodes s r e nodes)" and "\<not> marked nodes \<Longrightarrow> \<not> marked (updated_nodes s r e nodes)"
    by blast+
qed

lemma updated_sound:
  assumes "s \<in> set SETTINGS" and "plain_value r" and "e \<in> line_breaks" and "sound_lines e nodes"
  shows "sound_lines e (updated_nodes s r e nodes)"
proof (cases rule: target_section_cases [of "chars (st_section s)" "chars (st_key s)" nodes])
  case (assigned before t behind)
  have "sound_lines e (update_last (assigns t (chars (st_key s))) (rewrite_value r) nodes)"
  proof -
    let ?new = "update_last (assigns t (chars (st_key s))) (rewrite_value r) nodes"
    note sound = assms(4) [unfolded sound_lines_def]
    note new = update_last_lines [OF assms(2), of nodes "[]" t "chars (st_key s)"]
    have "successively seam (map node_raw ?new) = successively seam (map node_raw nodes)"
      by (rule seams_of_shapes) (use new sound in blast)
    with new sound show ?thesis unfolding sound_lines_def by blast
  qed
  then show ?thesis using assigned by (simp add: updated_nodes_def)
next
  case unassigned
  let ?sec = "chars (st_section s)" and ?key = "chars (st_key s)"
  let ?nodes = "ensure_section ?sec e nodes"
  have names: "plain_name ?sec" "plain_name ?key" using settings_names assms(1) by (auto simp: list_all_iff)
  have header: "sound_lines e (nodes @ [section_header ?sec e])"
    by (rule insert_line [where ys = "[]" and body = "[91] @ ?sec @ [93]", simplified])
      (use names assms(3,4) parse_header [of ?sec e] in \<open>auto simp: section_header_def plain_name_def unbroken_def\<close>)
  then have sound: "sound_lines e ?nodes" using assms(4) by (simp add: ensure_section_def)
  have "list_ex (belongs_to ?sec) ?nodes"
    by (auto simp: ensure_section_def list_ex_iff belongs_to_def names_section_def section_header_def split: ini_node.splits)
  then obtain ys x zs where split: "?nodes = ys @ x # zs" "belongs_to ?sec x"
    "index_behind_last (belongs_to ?sec) ?nodes = length (ys @ [x])"
    by (rule index_behind)
  let ?running = "foldl next_section [] (ys @ [x])"
  have "fold_section (fst (parse_line (foldl next_section [] ys) (node_raw x))) = fold_section x" "runs ?running zs"
    using sound by (simp_all add: sound_lines_def split(1) runs_append)
  then have same: "same_ignoring_case ?running ?sec" using belongs_section [OF split(2)] by simp
  have "fst (parse_line ?running (node_raw (new_assignment ?sec ?key r e))) = new_assignment ?running ?key r e"
    by (rule parse_new_assignment) (use assms(2,3) names in \<open>auto simp: plain_name_def unbroken_def\<close>)
  then have new: "fold_section (fst (parse_line ?running (node_raw (new_assignment ?sec ?key r e))))
      = fold_section (new_assignment ?sec ?key r e)"
    using same by (simp add: new_assignment_def same_ignoring_case_def)
  have "sound_lines e ((ys @ [x]) @ new_assignment ?sec ?key r e # zs)"
  proof (rule insert_line)
    show "sound_lines e ((ys @ [x]) @ zs)" using sound split(1) by simp
    show "node_raw (new_assignment ?sec ?key r e) = (?key @ [61] @ r) @ e" by (simp add: new_assignment_def)
    show "unbroken (?key @ [61] @ r)" using names plain_unbroken [OF assms(2)] by (simp add: plain_name_def unbroken_def)
    show "runs (next_section ?running (new_assignment ?sec ?key r e)) zs"
      using \<open>runs ?running zs\<close> by (simp add: next_section_def new_assignment_def)
  qed (use assms(3) new in auto)
  moreover have "updated_nodes s r e nodes = insert_at (length (ys @ [x])) [new_assignment ?sec ?key r e] ?nodes"
    using unassigned section_looked_up [OF assms(1)] split(3) by (auto simp: updated_nodes_def Let_def)
  ultimately show ?thesis by (simp add: insert_at_def split(1))
qed

section \<open>Reopening a saved profile\<close>

lemma rendered_plain:
  assumes "render_setting_value i v = Ok rendered"
  shows "plain_value (rs_value rendered) \<and> (\<exists>s \<in> set SETTINGS. st_id s = i \<and> rs_section rendered = st_section s
     \<and> rs_key rendered = st_key s)"
proof -
  obtain s where s: "schema i = Ok s" "is_finite v" "rs_section rendered = st_section s" "rs_key rendered = st_key s"
    and r: "rs_value rendered = show_int (to_i64 v) \<or> rs_value rendered = render_float v"
    using assms by (auto simp: render_setting_value_def ok_then_Inr split: if_splits)
  with schema_Ok [OF s(1)] show ?thesis by (auto simp: show_int_plain render_float_plain)
qed

definition sound_document :: "profile_document \<Rightarrow> bool" where
  "sound_document d \<longleftrightarrow> sound_lines (document_ending d) (pd_nodes d) \<and> scalar_lines (pd_nodes d)
     \<and> (pd_bom d = NoBom \<longrightarrow> \<not> marked (pd_nodes d))"

lemma document_ending_break: "document_ending d \<in> line_breaks"
  by (simp add: document_ending_def line_breaks_def split: line_ending.split)

lemma same_ending: "pd_line_ending d' = pd_line_ending d \<Longrightarrow> document_ending d' = document_ending d"
  by (simp add: document_ending_def)

lemma set_raw_value_sound:
  assumes "sound_document d" and "render_setting_value i v = Ok rendered"
  shows "sound_document (set_raw_value (chars (rs_section rendered)) (chars (rs_key rendered)) (Some (rs_value rendered)) dirty d)"
    (is "sound_document ?d")
proof -
  obtain s where s: "s \<in> set SETTINGS" "rs_section rendered = st_section s" "rs_key rendered = st_key s"
    and r: "plain_value (rs_value rendered)"
    using rendered_plain [OF assms(2)] by blast
  have "document_ending ?d = document_ending d" "pd_bom ?d = pd_bom d"
    using same_history_set_raw by (metis same_ending same_file_def same_history_def)+
  moreover have "pd_nodes ?d = updated_nodes s (rs_value rendered) (document_ending d) (pd_nodes d)"
    using set_raw_value_nodes by (simp add: s(2,3))
  ultimately show ?thesis
    using updated_sound [OF s(1) r document_ending_break] updated_scalar [OF s(1) r document_ending_break] assms(1)
    by (simp add: sound_document_def)
qed

lemma reset_settings_sound: "sound_document d \<Longrightarrow> sound_document (snd (reset_settings ss d))"
proof (induction ss arbitrary: d)
  case (Cons s ss)
  have "sound_document (snd (reset_setting s d))"
    using Cons.prems set_raw_value_sound by (auto simp: reset_setting_def Let_def split: sum.split)
  moreover obtain r d' where "reset_setting s d = (r, d')" by fastforce
  ultimately show ?case using Cons.IH [of d'] by (cases r) simp_all
qed simp

definition edits_settings :: "edit_request \<Rightarrow> bool" where
  "edits_settings request \<longleftrightarrow> (case request of SetValue _ _ \<Rightarrow> True | ResetSettings \<Rightarrow> True | _ \<Rightarrow> False)"

lemma perform_sound:
  assumes "edits_settings request" and "sound_document d"
  shows "sound_document (perform te request d)"
proof -
  have "sound_document (snd (request_edit te request d))"
    using assms set_raw_value_sound reset_settings_sound
    by (cases request) (auto simp: edits_settings_def set_value_def split: sum.split)
  then show ?thesis
    by (auto simp: perform_def record_edit_def sound_document_def document_ending_def Let_def split: prod.splits sum.splits)
qed

lemma perform_all_sound:
  "list_all edits_settings requests \<Longrightarrow> sound_document d \<Longrightarrow> sound_document (perform_all te requests d)"
  by (induction requests arbitrary: d) (auto simp: perform_sound)

lemma perform_same_file: "same_file d (perform te request d)"
proof -
  obtain r d' where run: "request_edit te request d = (r, d')" by fastforce
  have "same_history d d'" using request_history [of d te request] run by simp
  then show ?thesis
    by (cases r) (auto simp: perform_def record_edit_def run same_history_def same_file_def Let_def)
qed

lemma perform_all_same_file: "same_file d (perform_all te requests d)"
proof (induction requests arbitrary: d)
  case (Cons request requests)
  then show ?case using perform_same_file [of d te request] by (fastforce simp: same_file_def)
qed (simp add: same_file_def)

lemma strip_prefix_append: "strip_prefix (p @ s) p = Some s"
  by (simp add: strip_prefix_Some_iff)

text \<open>The text of a file in a Unicode encoding, and the mark it was found by.\<close>

lemma utf8_of_mark: "utf8_encode (0xFEFF # s) = string_of [0xEF, 0xBB, 0xBF] @ utf8_encode s"
  by (simp add: utf8_encode_def utf8_scalar_def string_of_def)

lemma decoded_unicode:
  assumes "decode te bytes = Ok (s, encoding, bom)" and "\<not> is_legacy encoding"
  shows "list_all is_scalar s"
    and "(encoding, bom) \<in> {(Utf8, NoBom), (Utf8, BomUtf8), (Utf16Le, BomUtf16Le), (Utf16Be, BomUtf16Be)}"
    and "bom = NoBom \<Longrightarrow> s = [] \<or> hd s \<noteq> 0xFEFF"
proof -
  show "list_all is_scalar s"
    using assms decode_legacy_encodes(2) utf8_encode_from decode_utf16_encodes
    by (auto simp: decode_def Let_def split: option.splits)
  show "(encoding, bom) \<in> {(Utf8, NoBom), (Utf8, BomUtf8), (Utf16Le, BomUtf16Le), (Utf16Be, BomUtf16Be)}"
    using assms decode_legacy_encodes(2) by (auto simp: decode_def Let_def split: option.splits)
  assume "bom = NoBom"
  then have "strip_prefix bytes (string_of [0xEF, 0xBB, 0xBF]) = None" "from_utf8 bytes = Some s"
    using assms decode_legacy_encodes(2) by (auto simp: decode_def Let_def split: option.splits)
  then show "s = [] \<or> hd s \<noteq> 0xFEFF"
    using utf8_encode_from [of bytes s] utf8_of_mark [of "tl s"] strip_prefix_append by (cases s) fastforce+
qed

lemma document_marked:
  assumes "list_all whole_line (map node_raw nodes)"
  shows "marked nodes \<longleftrightarrow> concat (map node_raw nodes) \<noteq> [] \<and> hd (concat (map node_raw nodes)) = 0xFEFF"
  using assms by (cases nodes) (auto simp: marked_def dest: whole_not_Nil)

lemma opened_sound:
  assumes "from_bytes te sha p bytes = Ok d" and "document_text d = [] \<or> is_newline (List.last (document_text d))"
    and "\<not> is_legacy (pd_encoding d)"
  shows "sound_document d" and "pd_original_legacy_lines d = None"
    and "(pd_encoding d, pd_bom d) \<in> {(Utf8, NoBom), (Utf8, BomUtf8), (Utf16Le, BomUtf16Le), (Utf16Be, BomUtf16Be)}"
proof -
  obtain s encoding bom where decoded: "decode te bytes = Ok (s, encoding, bom)"
    and d: "pd_nodes d = parse_nodes s" "pd_line_ending d = detect_line_ending s" "pd_encoding d = encoding" "pd_bom d = bom"
    and lines: "pd_original_legacy_lines d = original_legacy_lines bytes s encoding"
    using from_bytes_Ok [OF assms(1)] by metis
  then have same: "document_text d = s" "concat (map node_raw (pd_nodes d)) = s" by (simp_all add: document_text_def)
  note unicode = decoded_unicode [OF decoded assms(3) [unfolded d(3)]]
  have sound: "sound_lines (document_ending d) (pd_nodes d)"
    using parsed_sound [of s] assms(2) d same by (simp add: document_ending_def)
  moreover have "scalar_lines (pd_nodes d)"
    using unicode(1) unfolding same(2) [symmetric] scalar_lines_def by (auto simp: list_all_iff)
  moreover have "\<not> marked (pd_nodes d)" if "bom = NoBom"
    using unicode(3) [OF that] document_marked [of "pd_nodes d"] sound same(2) by (auto simp: sound_lines_def)
  ultimately show "sound_document d" by (simp add: sound_document_def d(4))
  show "pd_original_legacy_lines d = None" using assms(3) by (simp add: lines original_legacy_lines_def d(3))
  show "(pd_encoding d, pd_bom d) \<in> {(Utf8, NoBom), (Utf8, BomUtf8), (Utf16Le, BomUtf16Le), (Utf16Be, BomUtf16Be)}"
    using unicode(2) d by simp
qed

lemma individual_fold: "individual_of (fold_section node) = individual_of node"
  by (cases node) (simp_all add: individual_of_def same_ignoring_case_def lower_twice)

lemma list_entry_fold: "list_entry_of t (fold_section node) = list_entry_of t node"
  by (cases node) (simp_all add: list_entry_of_def same_ignoring_case_def lower_twice)

lemma map_filter_fold:
  "(\<And>n. f (fold_section n) = f n) \<Longrightarrow> List.map_filter f (map fold_section nodes) = List.map_filter f nodes"
  by (induction nodes) (simp_all add: List.map_filter_def)

text \<open>Everything that is read from the nodes.\<close>

definition same_content :: "profile_document \<Rightarrow> profile_document \<Rightarrow> bool" where
  "same_content d d' \<longleftrightarrow> setting_values d = setting_values d' \<and> individuals_of d = individuals_of d'
     \<and> list_entries d = list_entries d' \<and> advanced_of d = advanced_of d'"

lemma fold_same_content:
  assumes "map fold_section (pd_nodes d) = map fold_section (pd_nodes d')"
  shows "same_content d d'"
proof -
  have raw: "raw_value d sec key = raw_value d' sec key" for sec key
    unfolding raw_value_def by (metis assms lookup_fold)
  have entries: "list_entries d = list_entries d'"
    unfolding list_entries_def by (rule ext) (metis assms map_filter_fold list_entry_fold)
  have "individuals_of d = individuals_of d'"
    unfolding individuals_of_def by (metis assms map_filter_fold individual_fold)
  then show ?thesis
    by (simp add: same_content_def entries setting_values_def setting_value_def advanced_of_def shadow_of_def
        parse_vector_def raw)
qed

text \<open>Text in a Unicode encoding that the editor detects is read back as it was written.\<close>

lemma marks_differ:
  "strip_prefix (string_of [0xFF, 0xFE] @ s) (string_of [0xEF, 0xBB, 0xBF]) = None"
  "strip_prefix (string_of [0xFE, 0xFF] @ s) (string_of [0xEF, 0xBB, 0xBF]) = None"
  "strip_prefix (string_of [0xFE, 0xFF] @ s) (string_of [0xFF, 0xFE]) = None"
  by (simp_all add: strip_prefix_def starts_with_def string_of_def)

lemma utf8_not_mark:
  assumes "list_all is_scalar s" and "s = [] \<or> hd s \<noteq> 0xFEFF"
  shows "strip_prefix (utf8_encode s) (string_of [0xEF, 0xBB, 0xBF]) = None
     \<and> strip_prefix (utf8_encode s) (string_of [0xFF, 0xFE]) = None
     \<and> strip_prefix (utf8_encode s) (string_of [0xFE, 0xFF]) = None"
proof -
  have decoded: "from_utf8 (utf8_encode s) = Some s" by (rule from_utf8_encode [OF assms(1)])
  have "False" if "utf8_encode s = string_of [0xEF, 0xBB, 0xBF] @ rest" for rest
  proof -
    have "byte_values (utf8_encode s) = 0xEF # 0xBB # 0xBF # byte_values rest"
      by (simp add: that byte_values_def string_of_def)
    then have "\<exists>z. s = 0xFEFF # z"
      using decoded by (auto simp: from_utf8_def utf8_decode_2 utf8_multi_2 is_continuation_def is_scalar_def
          simp del: utf8_decode_bytes.simps)
    with assms(2) show False by auto
  qed
  moreover have "False" if "utf8_encode s = string_of [b, b'] @ rest" "b = 0xFF \<or> b = 0xFE" for b b' rest
  proof -
    have "byte_values (utf8_encode s) = b # byte_values (string_of [b'] @ rest)"
      using that(2) by (auto simp: that(1) byte_values_def string_of_def)
    with decoded that(2) show False by (auto simp: from_utf8_def)
  qed
  ultimately show ?thesis
    by (metis (no_types, lifting) not_None_eq strip_prefix_Some_iff)
qed

lemma unicode_text_round_trips:
  assumes "encode te s encoding bom = Ok bytes" and "list_all is_scalar s"
    and "(encoding, bom) \<in> {(Utf8, NoBom), (Utf8, BomUtf8), (Utf16Le, BomUtf16Le), (Utf16Be, BomUtf16Be)}"
    and "bom = NoBom \<Longrightarrow> s = [] \<or> hd s \<noteq> 0xFEFF"
  shows "decode te bytes = Ok (s, encoding, bom)"
proof -
  note decoded = encodes_utf16_decode [OF assms(2)] from_utf8_encode [OF assms(2)]
  consider "encoding = Utf8" "bom = NoBom" | "encoding = Utf8" "bom = BomUtf8"
    | "encoding = Utf16Le" "bom = BomUtf16Le" | "encoding = Utf16Be" "bom = BomUtf16Be"
    using assms(3) by blast
  then show ?thesis
  proof cases
    case 1
    then have "bytes = utf8_encode s" using assms(1) by (simp add: encode_def)
    with utf8_not_mark [OF assms(2) assms(4) [OF 1(2)]] decoded(2) 1 show ?thesis by (simp only: decode_def Let_def option.case)
  next
    case 2
    then have "bytes = string_of [0xEF, 0xBB, 0xBF] @ utf8_encode s" using assms(1) by (simp add: encode_def)
    with decoded(2) 2 show ?thesis by (simp only: decode_def Let_def strip_prefix_append option.case)
  next
    case 3
    then have "bytes = string_of [0xFF, 0xFE] @ encode_bytes_16 True s" using assms(1) by (simp add: encode_def)
    with decoded(1) 3 show ?thesis by (simp only: decode_def Let_def strip_prefix_append marks_differ option.case)
  next
    case 4
    then have "bytes = string_of [0xFE, 0xFF] @ encode_bytes_16 False s" using assms(1) by (simp add: encode_def)
    with decoded(1) 4 show ?thesis by (simp only: decode_def Let_def strip_prefix_append marks_differ option.case)
  qed
qed

text \<open>What an edited document in a Unicode encoding is encoded to is opened with the same content.\<close>

lemma encoded_reopens:
  assumes "sound_document d" and "pd_original_legacy_lines d = None" and "encoded te d = Ok bytes"
    and "(pd_encoding d, pd_bom d) \<in> {(Utf8, NoBom), (Utf8, BomUtf8), (Utf16Le, BomUtf16Le), (Utf16Be, BomUtf16Be)}"
  shows "\<exists>d'. from_bytes te sha p bytes = Ok d' \<and> same_content d' d
     \<and> pd_encoding d' = pd_encoding d \<and> pd_bom d' = pd_bom d"
proof -
  have sound: "sound_lines (document_ending d) (pd_nodes d)" "scalar_lines (pd_nodes d)"
      "pd_bom d = NoBom \<Longrightarrow> \<not> marked (pd_nodes d)"
    using assms(1) by (simp_all add: sound_document_def)
  have "encode te (document_text d) (pd_encoding d) (pd_bom d) = Ok bytes"
    using assms(2,3) by (auto simp: encoded_def split: sum.splits if_splits)
  moreover have "list_all is_scalar (document_text d)"
    using sound(2) by (auto simp: document_text_def scalar_lines_def list_all_iff)
  moreover have "document_text d = [] \<or> hd (document_text d) \<noteq> 0xFEFF" if "pd_bom d = NoBom"
    using sound(3) [OF that] document_marked [of "pd_nodes d"] sound(1) by (auto simp: document_text_def sound_lines_def)
  ultimately have "decode te bytes = Ok (document_text d, pd_encoding d, pd_bom d)"
    using assms(4) by (intro unicode_text_round_trips)
  moreover have "map fold_section (parse_nodes (document_text d)) = map fold_section (pd_nodes d)"
    unfolding document_text_def by (rule sound_parses_back [OF sound(1)])
  ultimately show ?thesis by (auto simp: from_bytes_def Let_def intro!: fold_same_content)
qed

text \<open>
  C32.  Edited settings survive saving and reopening.  A file in UTF-8 or UTF-16 whose last line is
  terminated is opened and edited by any sequence of setting changes and resets.  When the save of the
  edited document succeeds, the file on the disk opens again, with the same encoding and byte order mark,
  and has the settings, font entries, lists and advanced values that the editor showed.  The files in a
  legacy encoding are left out: which encoding is detected in changed text is up to the codecs.
\<close>
theorem edited_settings_survive_reopening:
  assumes "from_bytes (ee_text ee) sha p bytes = Ok d" and "\<not> is_legacy (pd_encoding d)"
    and "document_text d = [] \<or> is_newline (List.last (document_text d))"
    and "list_all edits_settings requests"
    and "calm disk" and "node_at disk p = Some (FileNode old)" and "path_file_name p = Some name"
    and "save ee (perform_all (ee_text ee) requests d) disk = (Inr saved, disk')"
  shows "\<exists>bytes' d'. node_at disk' p = Some (FileNode bytes') \<and> from_bytes (ee_text ee) sha' p' bytes' = Ok d'
     \<and> same_content d' (perform_all (ee_text ee) requests d)
     \<and> pd_encoding d' = pd_encoding d \<and> pd_bom d' = pd_bom d"
proof -
  let ?d = "perform_all (ee_text ee) requests d"
  note opened = opened_sound [OF assms(1,3,2)]
  have "pd_path d = p" using from_bytes_Ok [OF assms(1)] by metis
  then have same: "pd_path ?d = p" "pd_encoding ?d = pd_encoding d" "pd_bom ?d = pd_bom d"
      "pd_original_legacy_lines ?d = None"
    using perform_all_same_file [of d "ee_text ee" requests] opened(2) by (simp_all add: same_file_def)
  obtain bytes' where bytes': "encoded (ee_text ee) ?d = Ok bytes'" "node_at disk' p = Some (FileNode bytes')"
    using saved_bytes [OF assms(5), of ?d] assms(6-8) same(1) by metis
  from encoded_reopens [OF perform_all_sound [OF assms(4) opened(1)] same(4) bytes'(1)] opened(3) same(2,3) bytes'(2)
  show ?thesis by auto
qed

section \<open>Samples\<close>

text \<open>The nodes an edit leaves do not depend on the values remembered for the snapshot.\<close>

lemma update_nodes:
  "pd_nodes (snd (update_value ''bold_weight'' (f64_literal 3 1) d)) =
     pd_nodes (set_raw_value (chars ''General'') (chars ''BoldWeight'') (Some (chars ''3'')) ''bold_weight''
                 (d\<lparr>pd_saved_values := []\<rparr>))"
proof -
  have "set_raw_value sec key v dirty d\<lparr>pd_saved_values := []\<rparr> = set_raw_value sec key v dirty (d\<lparr>pd_saved_values := []\<rparr>)"
    for sec key v dirty
    by (simp add: set_raw_value_def mark_dirty_def document_ending_def Let_def split: option.split)
  then have "pd_nodes (set_raw_value sec key v dirty d) = pd_nodes (set_raw_value sec key v dirty (d\<lparr>pd_saved_values := []\<rparr>))"
    for sec key v dirty
    by (metis profile_document.select_convs(5) profile_document.surjective profile_document.update_convs(8))
  then show ?thesis
    unfolding update_value_def record_edit_def set_value_def sample_rendered sum.case by (simp add: Let_def)
qed

definition sample_edited :: utext where
  "sample_edited = chars ''[General]'' @ [13, 10] @ chars ''HintingMode=1'' @ [13, 10] @ chars ''BoldWeight=3'' @ [13, 10]"

lemma sample_edited_text:
  "document_text (perform_all sample_text_env [SetValue ''bold_weight'' (f64_literal 3 1)] sample_document) = sample_edited"
proof -
  have "sample_document\<lparr>pd_saved_values := []\<rparr> = sample_fields"
    by (simp add: sample_document_def sample_fields_def)
  then have "pd_nodes (perform_all sample_text_env [SetValue ''bold_weight'' (f64_literal 3 1)] sample_document)
      = pd_nodes (set_raw_value (chars ''General'') (chars ''BoldWeight'') (Some (chars ''3'')) ''bold_weight'' sample_fields)"
    using update_nodes [of sample_document] by (simp add: perform_def update_value_def)
  moreover have "concat (map node_raw (pd_nodes (set_raw_value (chars ''General'') (chars ''BoldWeight'')
      (Some (chars ''3'')) ''bold_weight'' sample_fields))) = sample_edited"
    by code_simp
  ultimately show ?thesis by (simp only: document_text_def)
qed

abbreviation sample_requests :: "edit_request list" where
  "sample_requests \<equiv> [SetValue ''bold_weight'' (f64_literal 3 1)]"

abbreviation sample_edit :: profile_document where
  "sample_edit \<equiv> perform_all sample_text_env sample_requests sample_document"

definition sample_calm_disk :: setup_disk where
  "sample_calm_disk = sample_save_disk\<lparr>sd_faults := []\<rparr>"

lemma encoded_utf8:
  assumes "pd_encoding d = Utf8" and "pd_bom d = NoBom" and "pd_original_legacy_lines d = None"
    and "document_text d = s" and "length (utf8_encode s) \<le> MAX_PROFILE_BYTES"
  shows "encoded te d = Ok (utf8_encode s)"
  using assms by (simp add: encoded_def encode_def)

lemma sample_encoded: "encoded sample_text_env sample_edit = Ok (utf8_encode sample_edited)"
proof -
  have "same_file sample_document sample_edit" by (rule perform_all_same_file)
  then have "pd_encoding sample_edit = Utf8" "pd_bom sample_edit = NoBom" "pd_original_legacy_lines sample_edit = None"
    by (simp_all only: same_file_def) (simp_all add: sample_document_def sample_fields_def)
  moreover have "length (utf8_encode sample_edited) \<le> MAX_PROFILE_BYTES" by code_simp
  ultimately show ?thesis using sample_edited_text by (intro encoded_utf8)
qed

lemma sample_saves: "\<exists>saved disk'. save sample_editor sample_edit sample_calm_disk = (Inr saved, disk')"
proof -
  let ?p = "path_join [Prefix ''C:'', RootDir] ''a.ini''"
  have "same_file sample_document sample_edit" by (rule perform_all_same_file)
  then have d: "pd_path sample_edit = ?p" "pd_original_hash sample_edit = sample_profile"
    by (simp_all only: same_file_def) (simp_all add: sample_document_def sample_fields_def)
  let ?run = "sbind (read_bounded_file ?p MAX_PROFILE_BYTES ''profile on disk'') (\<lambda>disk_bytes.
      if disk_bytes \<noteq> sample_profile then user_error []
      else written sample_editor ?p (utf8_encode sample_edited))"
  have "fst (?run sample_calm_disk) = Inr ()" by code_simp
  then obtain disk' where "?run sample_calm_disk = (Inr (), disk')" by (metis prod.collapse)
  then obtain d1 where read: "read_bounded_file ?p MAX_PROFILE_BYTES ''profile on disk'' sample_calm_disk = (Inr sample_profile, d1)"
    and written: "written sample_editor ?p (utf8_encode sample_edited) d1 = (Inr (), disk')"
    by (auto simp: sbind_def user_error_def sraise_def split: prod.splits sum.splits if_splits)
  have "ee_text sample_editor = sample_text_env" "ee_sha sample_editor sample_profile = sample_profile"
    by (simp_all add: sample_editor_def)
  then show ?thesis
    using sample_encoded
    by (simp only: save_written d sbind_def read from_checked_def sret_def written prod.case sum.case refl
        if_False not_True_eq_False) auto
qed

lemma edited_settings_survive_reopening_witness:
  "\<exists>saved disk' bytes' d'. save sample_editor sample_edit sample_calm_disk = (Inr saved, disk')
     \<and> node_at disk' (path_join [Prefix ''C:'', RootDir] ''a.ini'') = Some (FileNode bytes')
     \<and> from_bytes sample_text_env (\<lambda>s. s) [] bytes' = Ok d' \<and> same_content d' sample_edit"
proof -
  obtain saved disk' where saves: "save sample_editor sample_edit sample_calm_disk = (Inr saved, disk')"
    using sample_saves by blast
  have env: "ee_text sample_editor = sample_text_env" by (simp add: sample_editor_def)
  note survive = edited_settings_survive_reopening [where ee = sample_editor, unfolded env, OF sample_opens]
  have "\<exists>bytes' d'. node_at disk' (path_join [Prefix ''C:'', RootDir] ''a.ini'') = Some (FileNode bytes')
     \<and> from_bytes sample_text_env (\<lambda>s. s) [] bytes' = Ok d' \<and> same_content d' sample_edit
     \<and> pd_encoding d' = pd_encoding sample_document \<and> pd_bom d' = pd_bom sample_document"
  proof (rule survive)
    show "\<not> is_legacy (pd_encoding sample_document)"
      by (simp add: sample_document_def sample_fields_def is_legacy_def)
    show "document_text sample_document = [] \<or> is_newline (List.last (document_text sample_document))"
      by (simp add: document_text_def sample_document_def sample_fields_def is_newline_def)
    show "list_all edits_settings sample_requests" by (simp add: edits_settings_def)
    show "calm sample_calm_disk" by (simp add: calm_def sample_calm_disk_def sample_save_disk_def path_join_def)
    show "node_at sample_calm_disk (path_join [Prefix ''C:'', RootDir] ''a.ini'') = Some (FileNode sample_profile)"
      by (simp add: node_at_def sample_calm_disk_def sample_save_disk_def path_join_def)
    show "path_file_name (path_join [Prefix ''C:'', RootDir] ''a.ini'') = Some ''a.ini''" by simp
    show "save sample_editor sample_edit sample_calm_disk = (Inr saved, disk')" by (rule saves)
  qed
  with saves show ?thesis by blast
qed

section \<open>A last line without a line break\<close>

text \<open>What is written behind such a line becomes part of it.\<close>

lemma split_open_ended:
  assumes "split_lines_from line s = ls @ [l]" and "unbroken l" and "unbroken x" and "e \<in> line_breaks"
  shows "split_lines_from line (s @ x @ e) = ls @ [l @ x @ e]"
  using assms(1)
proof (induction line s arbitrary: ls rule: split_lines_from.induct)
  case (1 line)
  then have "ls = []" "l = line" by (auto split: if_splits)
  then show ?case
    using split_unbroken [OF assms(3), of line e] assms(4) by (auto simp: line_breaks_def)
next
  case (2 line c cs)
  show ?case
  proof (cases "c = 10 \<or> c = 13 \<and> (cs = [] \<or> hd cs \<noteq> 10)")
    case True
    have "cs \<noteq> []"
      using "2.prems" assms(2) True by auto
    then have rest: "split_lines_from [] cs \<noteq> []" using split_Nil_iff by simp
    with "2.prems" True obtain ls' where ls: "ls = (line @ [c]) # ls'" "split_lines_from [] cs = ls' @ [l]"
      by (cases ls) auto
    have "c = 10 \<or> c = 13 \<and> (cs @ x @ e = [] \<or> hd (cs @ x @ e) \<noteq> 10)" using True \<open>cs \<noteq> []\<close> by auto
    then show ?thesis using "2.IH"(1) [OF True ls(2)] ls(1) by simp
  next
    case False
    then have open_line: "\<not> (c = 10 \<or> c = 13 \<and> (cs @ x @ e = [] \<or> hd (cs @ x @ e) \<noteq> 10))" by auto
    have "split_lines_from (line @ [c]) cs = ls @ [l]" using "2.prems" False by (simp split: if_splits)
    from "2.IH"(2) [OF False this] show ?thesis
      unfolding append_Cons split_lines_from.simps(2) if_not_P [OF open_line] .
  qed
qed

lemma parse_lines_snoc:
  "parse_lines sec (ls @ [line]) = parse_lines sec ls
     @ [fst (parse_line (foldl next_section sec (parse_lines sec ls)) line)]"
proof (induction ls arbitrary: sec)
  case Nil
  then show ?case by (simp add: case_prod_beta)
next
  case (Cons l ls)
  show ?case
    by (subst append_Cons, (subst parse_lines.simps, subst parse_line_next)+) (simp add: Cons.IH)
qed

text \<open>A line belongs to a section that has a header, or to the lines before any header.\<close>

lemma parsed_header:
  assumes "node \<in> set (parse_lines sec ls)" and "belongs_to t node"
  shows "same_ignoring_case sec t \<or> list_ex (names_section t) (parse_lines sec ls)"
  using assms(1)
proof (induction ls arbitrary: sec)
  case (Cons line ls)
  let ?n = "fst (parse_line sec line)"
  have lines: "parse_lines sec (line # ls) = ?n # parse_lines (next_section sec ?n) ls"
    by (subst parse_lines.simps, subst parse_line_next) simp
  have next_t: "same_ignoring_case sec t \<or> names_section t ?n" if "same_ignoring_case (next_section sec ?n) t"
    using that by (cases ?n) (auto simp: next_section_def names_section_def)
  show ?case
  proof (cases "node = ?n")
    case True
    then have "same_ignoring_case (next_section sec ?n) t" by (intro belongs_section) (use assms(2) in auto)
    with next_t show ?thesis unfolding lines by auto
  next
    case False
    then show ?thesis using Cons.IH [of "next_section sec ?n"] Cons.prems next_t unfolding lines by auto
  qed
qed simp

lemma lookup_None:
  "lookup_in nodes key ts = None \<longleftrightarrow> (\<forall>t \<in> set ts. \<not> list_ex (assigns t key) nodes)"
proof -
  have found: "List.find P xs = Some x \<Longrightarrow> x \<in> set xs \<and> P x" for P and xs :: "ini_node list" and x
    by (metis find_Some_iff nth_mem)
  show ?thesis
    by (induction ts) (auto simp: find_None_iff list_ex_iff split: option.split, metis found set_rev)
qed

text \<open>The line of an assignment without a line break, with more text behind it.\<close>

lemma joined_line:
  assumes "fst (parse_line sec raw) = KeyValue sec' key v pre sep suf raw" and "unbroken raw"
    and "trimmed_value x" and "e \<in> line_breaks"
  shows "\<exists>u sep' suf'. fst (parse_line sec (raw @ x @ e)) = KeyValue sec' key (u @ x) pre sep' suf' (raw @ x @ e)"
proof -
  from assms(1) have "sec' = sec" by (auto simp: parse_line_def parse_assignment_def Let_def split: if_splits)
  obtain w w' where parts: "unbroken pre" "61 \<notin> set pre" "text_trim pre \<noteq> []" "hd (text_trim pre) \<notin> {59, 35}"
    "list_all is_white_space w" "list_all is_white_space w'" "unbroken w" "unbroken w'"
    "key = text_trim pre" "raw = pre @ 61 # w @ v @ w'" "v = [] \<or> \<not> is_white_space (hd v)"
    by (rule parsed_assignment [of sec raw "[]" sec' key v pre sep suf raw]) (use assms(1,2) in auto)
  have x: "x \<noteq> []" "unbroken x" "\<not> is_white_space (hd x)" "\<not> is_white_space (List.last x)" "List.last x \<noteq> 93"
    using assms(3) by (simp_all add: trimmed_value_def)
  show ?thesis
  proof (cases "v = []")
    case True
    have "parse_line sec (pre @ 61 # (w @ w') @ x @ [] @ e)
        = (KeyValue sec (text_trim pre) x pre (61 # w @ w') ([] @ e) (pre @ 61 # (w @ w') @ x @ [] @ e), sec)"
      by (rule parse_trimmed_assignment) (use parts assms(3,4) in auto)
    then show ?thesis using True parts(9,10) \<open>sec' = sec\<close> by - (rule exI [of _ "[]"], simp)
  next
    case False
    have "trimmed_value (v @ w' @ x)"
      using False parts(8,10,11) x assms(2) by (auto simp: trimmed_value_def)
    then have "parse_line sec (pre @ 61 # w @ (v @ w' @ x) @ [] @ e)
        = (KeyValue sec (text_trim pre) (v @ w' @ x) pre (61 # w) ([] @ e) (pre @ 61 # w @ (v @ w' @ x) @ [] @ e), sec)"
      by (intro parse_trimmed_assignment) (use parts assms(4) in auto)
    then show ?thesis using parts(9,10) \<open>sec' = sec\<close> by - (rule exI [of _ "v @ w'"], simp)
  qed
qed

text \<open>A setting without an assignment is written behind the last line when that line is in its section.\<close>

lemma written_behind_last:
  assumes "pd_nodes d = parse_nodes s" and "pd_nodes d = nodes @ [node]" and "belongs_to (chars (st_section t)) node"
    and "t \<in> set SETTINGS" and "raw_value d (chars (st_section t)) (chars (st_key t)) = None"
  shows "updated_nodes t r e (pd_nodes d)
     = nodes @ [node, new_assignment (chars (st_section t)) (chars (st_key t)) r e]"
proof -
  let ?sec = "chars (st_section t)" and ?key = "chars (st_key t)"
  have "\<not> same_ignoring_case [] ?sec"
    using settings_names assms(4) by (auto simp: list_all_iff plain_name_def same_ignoring_case_def)
  then have header: "list_ex (names_section ?sec) (nodes @ [node])"
    using parsed_header [OF _ assms(3), of "[]" "split_text_lines s"]
    unfolding assms(2) [symmetric] assms(1) parse_nodes_def [symmetric]
    by (metis assms(1,2) in_set_conv_decomp)
  have none: "\<forall>u \<in> set (lookup_sections ?sec). \<not> list_ex (assigns u ?key) (pd_nodes d)"
    using assms(5) by (simp only: raw_value_def lookup_None)
  have "index_behind_last (belongs_to ?sec) (nodes @ [node]) = length (nodes @ [node])"
    using assms(3) by (simp add: index_behind_last_def)
  moreover have "target_section (pd_nodes d) ?sec ?key = ?sec"
    by (rule target_section_cases [of ?sec ?key "pd_nodes d"]) (use none in auto)
  moreover have "\<not> list_ex (assigns ?sec ?key) (pd_nodes d)" using none section_looked_up [OF assms(4)] by blast
  ultimately show ?thesis
    using header by (simp add: updated_nodes_def ensure_section_def insert_at_def assms(2) Let_def)
qed

lemma updated_setting_nodes:
  assumes "s \<in> set SETTINGS" and "update_value (st_id s) x d = (Ok (), d')"
  shows "\<exists>rendered. render_setting_value (st_id s) x = Ok rendered \<and> plain_value (rs_value rendered)
     \<and> pd_nodes d' = updated_nodes s (rs_value rendered) (document_ending d) (pd_nodes d)"
proof -
  obtain rendered where r: "render_setting_value (st_id s) x = Ok rendered"
    and nodes: "pd_nodes d' = pd_nodes (set_raw_value (chars (rs_section rendered)) (chars (rs_key rendered))
                                          (Some (rs_value rendered)) (st_id s) d)"
    using assms(2) by (auto simp: update_value_def record_edit_def set_value_def Let_def split: sum.splits if_splits)
  have "rs_section rendered = st_section s" "rs_key rendered = st_key s"
    using r schema_of [OF assms(1)] by (auto simp: render_setting_value_def ok_then_Inr split: if_splits)
  with nodes r rendered_plain [OF r] show ?thesis by (auto simp: set_raw_value_nodes)
qed

lemma key_line_trimmed:
  assumes "plain_name key" and "plain_value r"
  shows "trimmed_value (key @ 61 # r)" and "unbroken (key @ 61 # r)"
proof -
  have trim: "\<not> is_white_space (hd key)" if "text_trim key = key" "key \<noteq> []"
  proof -
    have "text_trim key \<noteq> []" using that by simp
    then obtain c cs where c: "dropWhile is_white_space key = c # cs" using trim_not_Nil by blast
    obtain t where "text_trim (key @ []) = c # t" using trim_first [OF c] by blast
    then show ?thesis using hd_dropWhile [of is_white_space key] c that by (metis append_Nil2 list.sel(1) list.distinct(1))
  qed
  note facts = plain_trimmed [OF assms(2)]
  show "unbroken (key @ 61 # r)"
    using assms(1) plain_unbroken [OF assms(2)] by (simp add: plain_name_def unbroken_def)
  then show "trimmed_value (key @ 61 # r)"
    using facts trim assms(1) by (simp add: trimmed_value_def plain_name_def)
qed

text \<open>
  C33.  A setting written behind an assignment without a line break is lost with it.  When the last line
  of a file is an assignment without a line break, a setting of the section of that line that has no
  assignment yet is written behind it: the editor shows its value, but any file with the text of the
  edited document opens with as many lines as before, none of which assigns the setting, and the value of
  the last key ends with the text that was meant to assign it.
\<close>
theorem open_ended_line_swallows_the_next_key:
  assumes "from_bytes te sha p bytes = Ok d"
    and "pd_nodes d = nodes @ [KeyValue sec key v pre sep suf raw]" and "unbroken raw"
    and "s \<in> set SETTINGS" and "same_ignoring_case sec (chars (st_section s))"
    and "raw_value d (chars (st_section s)) (chars (st_key s)) = None"
    and "update_value (st_id s) x d = (Ok (), d')"
    and "from_bytes te sha' p' bytes' = Ok reopened" and "document_text reopened = document_text d'"
  shows "\<exists>r u sep' suf' raw'.
      raw_value d' (chars (st_section s)) (chars (st_key s)) = Some r
    \<and> raw_value reopened (chars (st_section s)) (chars (st_key s)) = None
    \<and> pd_nodes reopened = nodes @ [KeyValue sec key (u @ chars (st_key s) @ 61 # r) pre sep' suf' raw']"
proof -
  let ?sec = "chars (st_section s)" and ?key = "chars (st_key s)" and ?last = "KeyValue sec key v pre sep suf raw"
  obtain t t' where t: "pd_nodes d = parse_nodes t" and t': "pd_nodes reopened = parse_nodes t'"
    using from_bytes_Ok [OF assms(1)] from_bytes_Ok [OF assms(8)] by metis
  obtain rendered where rendered: "render_setting_value (st_id s) x = Ok rendered" and r: "plain_value (rs_value rendered)"
    and nodes: "pd_nodes d' = updated_nodes s (rs_value rendered) (document_ending d) (pd_nodes d)"
    using updated_setting_nodes [OF assms(4,7)] by blast
  let ?r = "rs_value rendered" and ?e = "document_ending d"
  let ?x = "?key @ 61 # ?r"
  have new: "pd_nodes d' = nodes @ [?last, new_assignment ?sec ?key ?r ?e]"
    unfolding nodes by (rule written_behind_last [OF t assms(2) _ assms(4,6)]) (simp add: belongs_to_def assms(5))
  have names: "plain_name ?key" using settings_names assms(4) by (simp add: list_all_iff)
  have x: "trimmed_value ?x" "unbroken ?x" by (rule key_line_trimmed [OF names r])+
  have lines: "split_text_lines t = map node_raw nodes @ [raw]" and t_def: "t = concat (map node_raw nodes) @ raw"
  proof -
    show lines: "split_text_lines t = map node_raw nodes @ [raw]"
      using parsed_raws [of t] unfolding t [symmetric] assms(2) by simp
    show "t = concat (map node_raw nodes) @ raw" using concat_split_lines [of t] unfolding lines by simp
  qed
  have "t' = t @ ?x @ ?e"
    using assms(9) t' new by (simp add: document_text_def t_def new_assignment_def)
  then have "split_text_lines t' = map node_raw nodes @ [raw @ ?x @ ?e]"
    using split_open_ended [OF lines [unfolded split_text_lines_def] assms(3) x(2) document_ending_break]
    by (simp add: split_text_lines_def)
  moreover have before: "parse_lines [] (map node_raw nodes) = nodes"
    and last: "fst (parse_line (foldl next_section [] nodes) raw) = ?last"
    using t assms(2) unfolding parse_nodes_def lines parse_lines_snoc by auto
  ultimately have reopened: "pd_nodes reopened = nodes @ [fst (parse_line (foldl next_section [] nodes) (raw @ ?x @ ?e))]"
    by (simp add: t' parse_nodes_def parse_lines_snoc)
  obtain u sep' suf' where joined: "pd_nodes reopened = nodes @ [KeyValue sec key (u @ ?x) pre sep' suf' (raw @ ?x @ ?e)]"
    using joined_line [OF last assms(3) x(1) document_ending_break [of d]] reopened by metis
  have "assigns w ?key (KeyValue sec key (u @ ?x) pre sep' suf' (raw @ ?x @ ?e)) = assigns w ?key ?last" for w
    by (simp add: assigns_def)
  then have "raw_value reopened ?sec ?key = None"
    using assms(6) by (simp add: raw_value_def joined assms(2) lookup_None)
  moreover have "raw_value d' ?sec ?key = Some ?r"
    using updated_value_looked_up [OF assms(4)] by (simp add: raw_value_def nodes)
  ultimately show ?thesis using joined by auto
qed

definition open_ended :: string where
  "open_ended = ''[General]'' @ [CHR 0x0A] @ ''HintingMode=1''"

definition open_ended_edited :: string where
  "open_ended_edited = ''[General]'' @ [CHR 0x0A] @ ''HintingMode=1BoldWeight=3'' @ [CHR 0x0A]"

definition open_ended_fields :: "(string \<Rightarrow> string) \<Rightarrow> path \<Rightarrow> profile_document" where
  "open_ended_fields sha p =
     \<lparr>pd_path = p, pd_encoding = Utf8, pd_bom = NoBom, pd_line_ending = Lf,
      pd_nodes =
        [Section (chars ''General'') (chars ''[General]'' @ [10]),
         KeyValue (chars ''General'') (chars ''HintingMode'') (chars ''1'') (chars ''HintingMode'') [61] []
           (chars ''HintingMode=1'')],
      pd_original_hash = sha open_ended, pd_original_legacy_lines = None, pd_saved_values = [],
      pd_dirty_keys = [], pd_undo = [], pd_redo = []\<rparr>"

lemma open_ended_opens:
  "\<exists>d. from_bytes te sha p open_ended = Ok d \<and> d\<lparr>pd_saved_values := []\<rparr> = open_ended_fields sha p"
proof -
  have decoded: "decode te open_ended = Ok (chars ''[General]'' @ [10] @ chars ''HintingMode=1'', Utf8, NoBom)"
    by code_simp
  have parsed: "parse_nodes (chars ''[General]'' @ [10] @ chars ''HintingMode=1'') = pd_nodes (open_ended_fields sha p)"
    by code_simp
  have ending: "detect_line_ending (chars ''[General]'' @ [10] @ chars ''HintingMode=1'') = Lf" by code_simp
  show ?thesis
    unfolding from_bytes_def decoded sum.case prod.case parsed ending
    by (simp add: open_ended_fields_def original_legacy_lines_def is_legacy_def Let_def)
qed

lemma open_ended_edited_opens:
  "\<exists>d. from_bytes te sha p open_ended_edited = Ok d \<and> pd_nodes d =
     [Section (chars ''General'') (chars ''[General]'' @ [10]),
      KeyValue (chars ''General'') (chars ''HintingMode'') (chars ''1BoldWeight=3'') (chars ''HintingMode'') [61] [10]
        (chars ''HintingMode=1BoldWeight=3'' @ [10])]"
proof -
  have decoded: "decode te open_ended_edited = Ok (chars ''[General]'' @ [10] @ chars ''HintingMode=1BoldWeight=3'' @ [10], Utf8, NoBom)"
    by code_simp
  have parsed: "parse_nodes (chars ''[General]'' @ [10] @ chars ''HintingMode=1BoldWeight=3'' @ [10]) =
     [Section (chars ''General'') (chars ''[General]'' @ [10]),
      KeyValue (chars ''General'') (chars ''HintingMode'') (chars ''1BoldWeight=3'') (chars ''HintingMode'') [61] [10]
        (chars ''HintingMode=1BoldWeight=3'' @ [10])]"
    by code_simp
  show ?thesis unfolding from_bytes_def decoded sum.case prod.case parsed by (simp add: Let_def)
qed

definition open_ended_edited_nodes :: "ini_node list" where
  "open_ended_edited_nodes =
     [Section (chars ''General'') (chars ''[General]'' @ [10]),
      KeyValue (chars ''General'') (chars ''HintingMode'') (chars ''1'') (chars ''HintingMode'') [61] []
        (chars ''HintingMode=1''),
      new_assignment (chars ''General'') (chars ''BoldWeight'') (chars ''3'') [10]]"

lemma open_ended_updated:
  assumes "d\<lparr>pd_saved_values := []\<rparr> = open_ended_fields sha p"
  shows "pd_nodes (snd (update_value ''bold_weight'' (f64_literal 3 1) d)) = open_ended_edited_nodes"
    and "fst (update_value ''bold_weight'' (f64_literal 3 1) d) = Ok ()"
proof -
  show "pd_nodes (snd (update_value ''bold_weight'' (f64_literal 3 1) d)) = open_ended_edited_nodes"
    unfolding update_nodes assms by code_simp
  show "fst (update_value ''bold_weight'' (f64_literal 3 1) d) = Ok ()"
    unfolding update_value_def record_edit_def set_value_def sample_rendered sum.case by (simp add: Let_def)
qed

lemma open_ended_line_swallows_the_next_key_witness:
  "\<exists>d d' reopened r u sep' suf' raw'.
      from_bytes sample_text_env (\<lambda>s. s) [] open_ended = Ok d \<and> update_value ''bold_weight'' (f64_literal 3 1) d = (Ok (), d')
    \<and> from_bytes sample_text_env (\<lambda>s. s) [] open_ended_edited = Ok reopened
    \<and> raw_value d' (chars ''General'') (chars ''BoldWeight'') = Some r
    \<and> raw_value reopened (chars ''General'') (chars ''BoldWeight'') = None
    \<and> pd_nodes reopened = [Section (chars ''General'') (chars ''[General]'' @ [10])]
        @ [KeyValue (chars ''General'') (chars ''HintingMode'') (u @ chars ''BoldWeight'' @ 61 # r)
             (chars ''HintingMode'') sep' suf' raw']"
proof -
  obtain d where d: "from_bytes sample_text_env (\<lambda>s. s) [] open_ended = Ok d" "d\<lparr>pd_saved_values := []\<rparr> = open_ended_fields (\<lambda>s. s) []"
    using open_ended_opens [of sample_text_env "\<lambda>s. s" "[]"] by blast
  obtain reopened where reopened: "from_bytes sample_text_env (\<lambda>s. s) [] open_ended_edited = Ok reopened" and again: "pd_nodes reopened =
     [Section (chars ''General'') (chars ''[General]'' @ [10]),
      KeyValue (chars ''General'') (chars ''HintingMode'') (chars ''1BoldWeight=3'') (chars ''HintingMode'') [61] [10]
        (chars ''HintingMode=1BoldWeight=3'' @ [10])]"
    using open_ended_edited_opens [of sample_text_env "\<lambda>s. s" "[]"] by blast
  obtain d' where update: "update_value ''bold_weight'' (f64_literal 3 1) d = (Ok (), d')"
    and nodes': "pd_nodes d' = open_ended_edited_nodes"
    using open_ended_updated [OF d(2)] by (metis prod.collapse)
  have nodes: "pd_nodes d = [Section (chars ''General'') (chars ''[General]'' @ [10])]
      @ [KeyValue (chars ''General'') (chars ''HintingMode'') (chars ''1'') (chars ''HintingMode'') [61] [] (chars ''HintingMode=1'')]"
    using arg_cong [OF d(2), of pd_nodes] by (simp add: open_ended_fields_def)
  have "List.find (\<lambda>s. st_id s = ''bold_weight'' \<and> st_section s = ''General'' \<and> st_key s = ''BoldWeight'') SETTINGS \<noteq> None"
    by code_simp
  then obtain s where s: "s \<in> set SETTINGS" "st_id s = ''bold_weight''" "st_section s = ''General''" "st_key s = ''BoldWeight''"
    by (auto simp: find_None_iff)
  note swallowed = open_ended_line_swallows_the_next_key
    [where s = s, OF d(1) nodes _ s(1) _ _ update [folded s(2)] reopened, unfolded s]
  have "\<exists>r u sep' suf' raw'. raw_value d' (chars ''General'') (chars ''BoldWeight'') = Some r
    \<and> raw_value reopened (chars ''General'') (chars ''BoldWeight'') = None
    \<and> pd_nodes reopened = [Section (chars ''General'') (chars ''[General]'' @ [10])]
        @ [KeyValue (chars ''General'') (chars ''HintingMode'') (u @ chars ''BoldWeight'' @ 61 # r)
             (chars ''HintingMode'') sep' suf' raw']"
  proof (rule swallowed)
    show "unbroken (chars ''HintingMode=1'')" by code_simp
    show "raw_value d (chars ''General'') (chars ''BoldWeight'') = None" unfolding raw_value_def nodes by code_simp
    show "document_text reopened = document_text d'" unfolding document_text_def again nodes' by code_simp
  qed simp
  with d(1) update reopened show ?thesis by blast
qed

end
