(* ===== verification/Machine_Actions.thy ===== *)
theory Machine_Actions
  imports Event_Log Helper_Broker Paths
begin

text \<open>
  The vocabulary of the machine integration of the control center: operations that thread the state
  of a back end and may fail, the failures of an action with their blockers and rollback outcomes
  (\<open>open_service/action_failure.rs\<close>), the actions and their verbs (\<open>model.rs\<close>,
  \<open>open_service/request.rs\<close>), and how a failed action gives the start-up entries back
  (\<open>open_service/startup_lifecycle.rs\<close>).
\<close>

section \<open>Operations of a back end\<close>

type_synonym ('s, 'e, 'a) operation = "'s \<Rightarrow> ('e + 'a) \<times> 's"

definition oret :: "'a \<Rightarrow> ('s, 'e, 'a) operation" where "oret x = (\<lambda>s. (Ok x, s))"
definition ofail :: "'e \<Rightarrow> ('s, 'e, 'a) operation" where "ofail e = (\<lambda>s. (Err e, s))"

definition obind ::
  "('s, 'e, 'a) operation \<Rightarrow> ('a \<Rightarrow> ('s, 'e, 'b) operation) \<Rightarrow> ('s, 'e, 'b) operation" where
  "obind m k = (\<lambda>s. and_then (m s) k)"

text \<open>\<open>map_err\<close>, a step whose result is inspected, and a plain observation.\<close>

definition omap_err :: "('e \<Rightarrow> 'f) \<Rightarrow> ('s, 'e, 'a) operation \<Rightarrow> ('s, 'f, 'a) operation" where
  "omap_err f m = (\<lambda>s. case m s of (Inl e, s') \<Rightarrow> (Err (f e), s') | (Inr x, s') \<Rightarrow> (Ok x, s'))"

definition otry :: "('s, 'e, 'a) operation \<Rightarrow> ('s, 'f, 'e + 'a) operation" where
  "otry m = (\<lambda>s. case m s of (r, s') \<Rightarrow> (Ok r, s'))"

definition observe :: "('s \<Rightarrow> 'a \<times> 's) \<Rightarrow> ('s, 'e, 'a) operation" where
  "observe f = (\<lambda>s. case f s of (x, s') \<Rightarrow> (Ok x, s'))"

definition olift :: "'e + 'a \<Rightarrow> ('s, 'e, 'a) operation" where "olift r = (\<lambda>s. (r, s))"

lemma obind_ret [simp]: "obind (oret x) k = k x"
  by (simp add: obind_def oret_def and_then_def fun_eq_iff)

lemma obind_fail [simp]: "obind (ofail e) k = ofail e"
  by (simp add: obind_def ofail_def and_then_def fun_eq_iff)

lemma obind_apply:
  "obind m k s = (case m s of (Inl e, s') \<Rightarrow> (Err e, s') | (Inr x, s') \<Rightarrow> k x s')"
  by (auto simp: obind_def and_then_def split: prod.splits sum.splits)

lemmas operation_apply = obind_apply oret_def ofail_def omap_err_def otry_def observe_def olift_def

section \<open>Failures\<close>

datatype appinit_conflict_context = AppInitMachineChange | AppInitMachineChanges | AppInitServiceChange

datatype legacy_tray_block_context = TrayMachineChange | TrayServiceChange

datatype legacy_service_block_context = LegacyApplyProfile | LegacyStartNewService

datatype installation_preflight_kind = PreflightRequired | PreflightIncomplete | PreflightUntrusted

record installation_preflight_diagnostics =
  pf_expected_installed_control_center :: "string option"
  pf_current_executable :: "string option"
  pf_expected_executable_exists :: "bool option"
  pf_installed_control_center :: string
  pf_current_bundle :: string
  pf_selected_service_package :: string
  pf_setup_broker :: string
  pf_runtime_manifest :: string
  pf_runtime_payload :: string
  pf_elevation_attempted :: bool
  pf_elevated_revalidation :: string
  pf_machine_state_changed :: bool
  pf_rollback_required :: bool

datatype action_blocker =
    AdministratorApprovalCancelled
  | AppInitConflict appinit_conflict_context
  | AppInitRegistryModeConflict
  | LegacyTrayModeBlocks legacy_tray_block_context
  | LegacyServiceStillInstalled legacy_service_block_context
  | FixedServiceNameForeignOrInaccessible
  | InstallationPreflight installation_preflight_kind installation_preflight_diagnostics

fun blocker_message :: "action_blocker \<Rightarrow> string" where
  "blocker_message AdministratorApprovalCancelled = ''administrator approval was cancelled''"
| "blocker_message (AppInitConflict AppInitMachineChange) =
     ''AppInit conflicts block this machine integration change''"
| "blocker_message (AppInitConflict AppInitMachineChanges) =
     ''AppInit conflicts block machine integration changes''"
| "blocker_message (AppInitConflict AppInitServiceChange) = ''AppInit conflicts block this service change''"
| "blocker_message AppInitRegistryModeConflict =
     ''AppInit registry mode conflicts with legacy service migration''"
| "blocker_message (LegacyTrayModeBlocks TrayMachineChange) =
     ''the legacy MacTray tray mode blocks this machine integration change''"
| "blocker_message (LegacyTrayModeBlocks TrayServiceChange) =
     ''the legacy MacTray tray mode blocks this service change''"
| "blocker_message (LegacyServiceStillInstalled LegacyApplyProfile) =
     ''a legacy MacType service is still installed; migrate it before applying the profile''"
| "blocker_message (LegacyServiceStillInstalled LegacyStartNewService) =
     ''a legacy MacType service is still installed; migrate it before starting the new service''"
| "blocker_message FixedServiceNameForeignOrInaccessible =
     ''the fixed service name became foreign or inaccessible; SCM rollback was refused''"
| "blocker_message (InstallationPreflight PreflightRequired _) = ''control-center-installation-required:''"
| "blocker_message (InstallationPreflight PreflightIncomplete _) = ''control-center-installation-incomplete:''"
| "blocker_message (InstallationPreflight PreflightUntrusted _) = ''control-center-installation-untrusted:''"

fun stage_code :: "action_blocker \<Rightarrow> string" where
  "stage_code AdministratorApprovalCancelled = ''blocker/administrator-approval-cancelled''"
| "stage_code (AppInitConflict AppInitMachineChange) = ''blocker/appinit-machine-integration-change''"
| "stage_code (AppInitConflict AppInitMachineChanges) = ''blocker/appinit-machine-integration-changes''"
| "stage_code (AppInitConflict AppInitServiceChange) = ''blocker/appinit-service-change''"
| "stage_code AppInitRegistryModeConflict = ''blocker/appinit-registry-mode-conflict''"
| "stage_code (LegacyTrayModeBlocks TrayMachineChange) = ''blocker/legacy-tray-machine-integration-change''"
| "stage_code (LegacyTrayModeBlocks TrayServiceChange) = ''blocker/legacy-tray-service-change''"
| "stage_code (LegacyServiceStillInstalled LegacyApplyProfile) = ''blocker/legacy-service-apply-profile''"
| "stage_code (LegacyServiceStillInstalled LegacyStartNewService) = ''blocker/legacy-service-start-new-service''"
| "stage_code FixedServiceNameForeignOrInaccessible = ''blocker/fixed-service-name-foreign-or-inaccessible''"
| "stage_code (InstallationPreflight PreflightRequired _) = ''blocker/installation-required''"
| "stage_code (InstallationPreflight PreflightIncomplete _) = ''blocker/installation-incomplete''"
| "stage_code (InstallationPreflight PreflightUntrusted _) = ''blocker/installation-untrusted''"

definition unavailable_preflight :: installation_preflight_diagnostics where
  "unavailable_preflight =
     \<lparr>pf_expected_installed_control_center = None, pf_current_executable = None,
      pf_expected_executable_exists = None, pf_installed_control_center = ''unavailable'',
      pf_current_bundle = ''unavailable'', pf_selected_service_package = ''none'',
      pf_setup_broker = ''unavailable'', pf_runtime_manifest = ''unavailable'',
      pf_runtime_payload = ''unavailable'', pf_elevation_attempted = True,
      pf_elevated_revalidation = ''unavailable'', pf_machine_state_changed = False,
      pf_rollback_required = False\<rparr>"

definition from_stage_code ::
  "string \<Rightarrow> installation_preflight_diagnostics option \<Rightarrow> action_blocker option" where
  "from_stage_code stage diagnostics =
     (let d = case diagnostics of Some d \<Rightarrow> d | None \<Rightarrow> unavailable_preflight
      in if stage = ''blocker/administrator-approval-cancelled'' then Some AdministratorApprovalCancelled
         else if stage = ''blocker/appinit-machine-integration-change''
           then Some (AppInitConflict AppInitMachineChange)
         else if stage = ''blocker/appinit-machine-integration-changes''
           then Some (AppInitConflict AppInitMachineChanges)
         else if stage = ''blocker/appinit-service-change'' then Some (AppInitConflict AppInitServiceChange)
         else if stage = ''blocker/appinit-registry-mode-conflict'' then Some AppInitRegistryModeConflict
         else if stage = ''blocker/legacy-tray-machine-integration-change''
           then Some (LegacyTrayModeBlocks TrayMachineChange)
         else if stage = ''blocker/legacy-tray-service-change'' then Some (LegacyTrayModeBlocks TrayServiceChange)
         else if stage = ''blocker/legacy-service-apply-profile''
           then Some (LegacyServiceStillInstalled LegacyApplyProfile)
         else if stage = ''blocker/legacy-service-start-new-service''
           then Some (LegacyServiceStillInstalled LegacyStartNewService)
         else if stage = ''blocker/fixed-service-name-foreign-or-inaccessible''
           then Some FixedServiceNameForeignOrInaccessible
         else if stage = ''blocker/installation-required'' then Some (InstallationPreflight PreflightRequired d)
         else if stage = ''blocker/installation-incomplete'' then Some (InstallationPreflight PreflightIncomplete d)
         else if stage = ''blocker/installation-untrusted'' then Some (InstallationPreflight PreflightUntrusted d)
         else None)"

datatype rollback_outcome =
    RollbackFailed | RollbackDone | FailClosedLegacyStopped | RollbackNotApplicable
  | NotApplicableOrUnavailable

fun rollback_as_str :: "rollback_outcome \<Rightarrow> string" where
  "rollback_as_str RollbackFailed = ''failed''"
| "rollback_as_str RollbackDone = ''completed''"
| "rollback_as_str FailClosedLegacyStopped = ''fail-closed-legacy-stopped''"
| "rollback_as_str RollbackNotApplicable = ''not-applicable''"
| "rollback_as_str NotApplicableOrUnavailable = ''not-applicable-or-unavailable''"

definition rollback_from_wire :: "string \<Rightarrow> rollback_outcome option" where
  "rollback_from_wire v =
     (if v = ''failed'' then Some RollbackFailed
      else if v = ''completed'' then Some RollbackDone
      else if v = ''fail-closed-legacy-stopped'' then Some FailClosedLegacyStopped
      else if v = ''not-applicable'' then Some RollbackNotApplicable
      else if v = ''not-applicable-or-unavailable'' then Some NotApplicableOrUnavailable
      else None)"

datatype action_failure_kind = ActionBlocked action_blocker | ActionInternal

record action_failure =
  af_kind :: action_failure_kind
  af_stage :: "string option"
  af_detail :: string
  af_rollback :: rollback_outcome
  af_channel_failure :: "string option"

definition is_preflight :: "action_blocker \<Rightarrow> bool" where
  "is_preflight b = (case b of InstallationPreflight _ _ \<Rightarrow> True | _ \<Rightarrow> False)"

definition blocked :: "action_blocker \<Rightarrow> action_failure" where
  "blocked b =
     \<lparr>af_kind = ActionBlocked b, af_stage = None, af_detail = blocker_message b,
      af_rollback = (if is_preflight b then RollbackNotApplicable else NotApplicableOrUnavailable),
      af_channel_failure = None\<rparr>"

definition blocked_with_detail :: "action_blocker \<Rightarrow> string \<Rightarrow> action_failure" where
  "blocked_with_detail b detail = (blocked b)\<lparr>af_detail := detail\<rparr>"

definition internal :: "string \<Rightarrow> action_failure" where
  "internal detail =
     \<lparr>af_kind = ActionInternal, af_stage = None, af_detail = detail,
      af_rollback = NotApplicableOrUnavailable, af_channel_failure = None\<rparr>"

definition internal_at :: "string \<Rightarrow> string \<Rightarrow> action_failure" where
  "internal_at stage detail = (internal detail)\<lparr>af_stage := Some stage\<rparr>"

definition installation_preflight ::
  "installation_preflight_kind \<Rightarrow> installation_preflight_diagnostics \<Rightarrow> string \<Rightarrow> action_failure" where
  "installation_preflight k d detail = blocked_with_detail (InstallationPreflight k d) detail"

definition with_rollback :: "rollback_outcome \<Rightarrow> action_failure \<Rightarrow> action_failure" where
  "with_rollback r f = f\<lparr>af_rollback := r\<rparr>"

definition with_channel_failure :: "string \<Rightarrow> action_failure \<Rightarrow> action_failure" where
  "with_channel_failure channel f = f\<lparr>af_channel_failure := Some channel\<rparr>"

definition append_detail :: "string \<Rightarrow> action_failure \<Rightarrow> action_failure" where
  "append_detail suffix f = f\<lparr>af_detail := af_detail f @ suffix\<rparr>"

definition failure_diagnostics :: "action_failure \<Rightarrow> installation_preflight_diagnostics option" where
  "failure_diagnostics f =
     (case af_kind f of ActionBlocked (InstallationPreflight _ d) \<Rightarrow> Some d | _ \<Rightarrow> None)"

definition user_message :: "action_failure \<Rightarrow> string" where "user_message f = af_detail f"

definition is_blocked :: "action_failure \<Rightarrow> bool" where
  "is_blocked f = (case af_kind f of ActionBlocked _ \<Rightarrow> True | ActionInternal \<Rightarrow> False)"

lemmas failure_simps = blocked_def blocked_with_detail_def internal_def internal_at_def
  installation_preflight_def with_rollback_def with_channel_failure_def append_detail_def

section \<open>Actions and their verbs\<close>

datatype machine_action =
    MaInstall | MaUpgrade | MaRepair | MaRemove | MaStart | MaStop | MaPublishProfile
  | MaDesignateProfile | MaMigrateFromLegacy | MaRollback | MaRemoveLegacy

datatype public_machine_action =
    PmInstall | PmUpgrade | PmRepair | PmRemove | PmStart | PmStop | PmPublishProfile
  | PmMigrateFromLegacy | PmRemoveLegacy

fun machine_action_of :: "public_machine_action \<Rightarrow> machine_action" where
  "machine_action_of PmInstall = MaInstall"
| "machine_action_of PmUpgrade = MaUpgrade"
| "machine_action_of PmRepair = MaRepair"
| "machine_action_of PmRemove = MaRemove"
| "machine_action_of PmStart = MaStart"
| "machine_action_of PmStop = MaStop"
| "machine_action_of PmPublishProfile = MaPublishProfile"
| "machine_action_of PmMigrateFromLegacy = MaMigrateFromLegacy"
| "machine_action_of PmRemoveLegacy = MaRemoveLegacy"

datatype system_service_action =
    SaInstall | SaUpgrade | SaRepair | SaRemove | SaStart | SaStop | SaPublishProfile
  | SaDesignateProfile | SaMigrateFromLegacy | SaRollback | SaRemoveLegacy
  | SaDisableLegacyTrayAutostart | SaRestoreLegacyTrayAutostart

fun service_action_of :: "machine_action \<Rightarrow> system_service_action" where
  "service_action_of MaInstall = SaInstall"
| "service_action_of MaUpgrade = SaUpgrade"
| "service_action_of MaRepair = SaRepair"
| "service_action_of MaRemove = SaRemove"
| "service_action_of MaStart = SaStart"
| "service_action_of MaStop = SaStop"
| "service_action_of MaPublishProfile = SaPublishProfile"
| "service_action_of MaDesignateProfile = SaDesignateProfile"
| "service_action_of MaMigrateFromLegacy = SaMigrateFromLegacy"
| "service_action_of MaRollback = SaRollback"
| "service_action_of MaRemoveLegacy = SaRemoveLegacy"

fun action_command :: "system_service_action \<Rightarrow> broker_command option" where
  "action_command SaInstall = Some Install"
| "action_command SaUpgrade = Some Upgrade"
| "action_command SaRepair = Some Repair"
| "action_command SaRemove = Some Remove"
| "action_command SaStart = Some Start"
| "action_command SaStop = Some StopCommand"
| "action_command SaPublishProfile = Some PublishProfile"
| "action_command SaMigrateFromLegacy = Some MigrateFromLegacy"
| "action_command SaRollback = Some Rollback"
| "action_command SaDesignateProfile = None"
| "action_command SaRemoveLegacy = None"
| "action_command SaDisableLegacyTrayAutostart = None"
| "action_command SaRestoreLegacyTrayAutostart = None"

definition setup_verb :: "system_service_action \<Rightarrow> string option" where
  "setup_verb a =
     (case action_command a of
        Some MigrateFromLegacy \<Rightarrow> None
      | Some RestoreRuntime \<Rightarrow> None
      | None \<Rightarrow> None
      | Some c \<Rightarrow> Some (verb c))"

text \<open>The unreachable arm of the source has no value; every action without a command is named.\<close>

definition action_verb :: "system_service_action \<Rightarrow> string" where
  "action_verb a =
     (case action_command a of
        Some c \<Rightarrow> verb c
      | None \<Rightarrow>
          (case a of
             SaDesignateProfile \<Rightarrow> ''designate-profile''
           | SaRemoveLegacy \<Rightarrow> ''remove-legacy''
           | SaDisableLegacyTrayAutostart \<Rightarrow> ''disable-legacy-tray-autostart''
           | SaRestoreLegacyTrayAutostart \<Rightarrow> ''restore-legacy-tray-autostart''))"

fun action_of_command :: "broker_command \<Rightarrow> system_service_action option" where
  "action_of_command Install = Some SaInstall"
| "action_of_command Upgrade = Some SaUpgrade"
| "action_of_command Repair = Some SaRepair"
| "action_of_command Remove = Some SaRemove"
| "action_of_command Start = Some SaStart"
| "action_of_command StopCommand = Some SaStop"
| "action_of_command PublishProfile = Some SaPublishProfile"
| "action_of_command MigrateFromLegacy = Some SaMigrateFromLegacy"
| "action_of_command Rollback = Some SaRollback"
| "action_of_command RestoreRuntime = None"

definition from_broker_verb :: "string \<Rightarrow> system_service_action option" where
  "from_broker_verb v =
     (case parse_verb v of
        Some c \<Rightarrow> action_of_command c
      | None \<Rightarrow>
          if v = ''designate-profile'' then Some SaDesignateProfile
          else if v = ''remove-legacy'' then Some SaRemoveLegacy
          else if v = ''disable-legacy-tray-autostart'' then Some SaDisableLegacyTrayAutostart
          else if v = ''restore-legacy-tray-autostart'' then Some SaRestoreLegacyTrayAutostart
          else None)"

definition needs_profile_input :: "system_service_action \<Rightarrow> bool" where
  "needs_profile_input a \<longleftrightarrow> a \<in> {SaPublishProfile, SaDesignateProfile, SaMigrateFromLegacy, SaRemoveLegacy}"

section \<open>Giving the start-up entries back\<close>

text \<open>The two receipts are restored by operations of the trait \<open>StartupReceiptRestorer\<close>.\<close>

definition combine_action_and_restoration ::
  "action_failure + unit \<Rightarrow> action_failure + unit \<Rightarrow> action_failure + unit \<Rightarrow> action_failure + unit" where
  "combine_action_and_restoration action machine user =
     (let failure0 = (case action of Inl f \<Rightarrow> Some f | Inr _ \<Rightarrow> None);
          note_failure = (\<lambda>what r failure.
            case r of
              Inr _ \<Rightarrow> failure
            | Inl e \<Rightarrow>
                (let suffix = what @ af_detail e
                 in Some (case failure of
                            Some f \<Rightarrow> append_detail suffix f
                          | None \<Rightarrow> internal_at ''startup-restoration'' suffix)));
          failure1 = note_failure ''; local-machine startup restoration failed: '' machine failure0;
          failure2 = note_failure ''; current-user startup restoration failed: '' user failure1;
          failed = isl machine \<or> isl user;
          failure3 = (if failed then map_option (with_rollback RollbackFailed) failure2 else failure2)
      in case failure3 of None \<Rightarrow> Ok () | Some f \<Rightarrow> Err f)"

definition must_restore_startup :: "system_service_action \<Rightarrow> action_failure + unit \<Rightarrow> bool" where
  "must_restore_startup action r \<longleftrightarrow>
     (case r of Inl f \<Rightarrow> failure_diagnostics f = None | Inr _ \<Rightarrow> False)
     \<and> action \<in> {SaInstall, SaMigrateFromLegacy}"

definition finish_action_with_startup_receipts ::
  "('s, action_failure, unit) operation \<Rightarrow> ('s, action_failure, unit) operation
   \<Rightarrow> system_service_action \<Rightarrow> action_failure + unit \<Rightarrow> ('s, action_failure, unit) operation" where
  "finish_action_with_startup_receipts restore_machine restore_user action action_result =
     (if \<not> must_restore_startup action action_result then olift action_result
      else obind (otry restore_machine) (\<lambda>machine.
           obind (otry restore_user) (\<lambda>user.
           olift (combine_action_and_restoration action_result machine user))))"

section \<open>Lemmas\<close>

lemma stage_code_from: "from_stage_code (stage_code b) d = (case b of
    InstallationPreflight k _ \<Rightarrow> Some (InstallationPreflight k (case d of Some d \<Rightarrow> d | None \<Rightarrow> unavailable_preflight))
  | _ \<Rightarrow> Some b)"
  by (cases b rule: stage_code.cases) (simp_all add: from_stage_code_def)

lemma rollback_wire: "rollback_from_wire (rollback_as_str r) = Some r"
  by (cases r) (simp_all add: rollback_from_wire_def)

end
