(* ===== verification/Service_Configuration.thy ===== *)
theory Service_Configuration
  imports Protected_Startup Unicode_Text
begin

text \<open>
  The configuration the service must have (\<open>service-runtime/contract/src/service_configuration.rs\<close>), and
  when an \<open>AppInit_DLLs\<close> value loads the renderer besides the service (\<open>contract/src/appinit.rs\<close>).  The
  conversion of text to a path and the resolution of links are parameters.
\<close>

section \<open>The observed configuration\<close>

definition FIXED_SERVICE_TYPE :: u32 where "FIXED_SERVICE_TYPE = 0x10"
definition FIXED_START_TYPE :: u32 where "FIXED_START_TYPE = 2"
definition FIXED_ERROR_CONTROL :: u32 where "FIXED_ERROR_CONTROL = 1"
definition FIXED_ACCOUNT :: string where "FIXED_ACCOUNT = ''LocalSystem''"
definition SERVICE_DISPLAY_NAME :: string where
  "SERVICE_DISPLAY_NAME = ''MacType Control Center Service''"

record observed_service_configuration =
  oc_service_type :: u32
  oc_start_type :: u32
  oc_error_control :: u32
  oc_image_path :: string
  oc_account :: string
  oc_display_name :: string
  oc_load_order_group :: string
  oc_tag_id :: u32
  oc_dependencies :: "string list"

record service_configuration_drift =
  cd_start_type :: bool
  cd_error_control :: bool
  cd_display_name :: bool
  cd_load_order_group :: bool
  cd_tag :: bool
  cd_dependencies :: bool

definition is_drifted :: "service_configuration_drift \<Rightarrow> bool" where
  "is_drifted d \<longleftrightarrow> cd_start_type d \<or> cd_error_control d \<or> cd_display_name d
     \<or> cd_load_order_group d \<or> cd_tag d \<or> cd_dependencies d"

definition drift_field_names :: "service_configuration_drift \<Rightarrow> string list" where
  "drift_field_names d =
     (if cd_start_type d then [''start-type''] else [])
     @ (if cd_error_control d then [''error-control''] else [])
     @ (if cd_display_name d then [''display-name''] else [])
     @ (if cd_load_order_group d then [''load-order-group''] else [])
     @ (if cd_tag d then [''tag''] else [])
     @ (if cd_dependencies d then [''dependencies''] else [])"

definition configuration_drift_of :: "observed_service_configuration \<Rightarrow> service_configuration_drift" where
  "configuration_drift_of c =
     \<lparr>cd_start_type = (oc_start_type c \<noteq> FIXED_START_TYPE),
      cd_error_control = (oc_error_control c \<noteq> FIXED_ERROR_CONTROL),
      cd_display_name = (oc_display_name c \<noteq> SERVICE_DISPLAY_NAME),
      cd_load_order_group = (oc_load_order_group c \<noteq> []),
      cd_tag = (oc_tag_id c \<noteq> 0 \<and> oc_load_order_group c \<noteq> []),
      cd_dependencies = (oc_dependencies c \<noteq> [])\<rparr>"

section \<open>The image of the service\<close>

text \<open>\<open>service_binary_from_image_path\<close>: a quoted path and the one fixed argument.\<close>

definition service_binary_from_image_path :: "(string \<Rightarrow> path) \<Rightarrow> string \<Rightarrow> path option" where
  "service_binary_from_image_path path_of image_path =
     (case strip_prefix image_path [CHR 0x22] of
        None \<Rightarrow> None
      | Some rest \<Rightarrow>
          if CHR 0x22 \<notin> set rest then None
          else if drop 1 (dropWhile (\<lambda>c. c \<noteq> CHR 0x22) rest) \<noteq> '' --service'' then None
          else Some (path_of (takeWhile (\<lambda>c. c \<noteq> CHR 0x22) rest)))"

definition components_equal :: "path_component \<Rightarrow> path_component \<Rightarrow> bool" where
  "components_equal l r \<longleftrightarrow> eq_ignore_ascii_case (component_display l) (component_display r)"

definition component_text :: "path_component \<Rightarrow> string option" where
  "component_text c =
     (case c of Normal v \<Rightarrow> (case from_utf8 v of None \<Rightarrow> None | Some _ \<Rightarrow> Some v) | _ \<Rightarrow> None)"

definition binary_matches_protected_layout :: "path \<Rightarrow> path \<Rightarrow> bool" where
  "binary_matches_protected_layout root binary \<longleftrightarrow>
     path_is_absolute root \<and> path_is_absolute binary
     \<and> length binary = length root + 3
     \<and> list_all2 components_equal root (take (length root) binary)
     \<and> (case drop (length root) binary of
          [a, b, c] \<Rightarrow>
            pred_option (\<lambda>v. eq_ignore_ascii_case v ''bin'') (component_text a) \<and> component_text a \<noteq> None
            \<and> pred_option valid_runtime_version_component (component_text b) \<and> component_text b \<noteq> None
            \<and> pred_option (\<lambda>v. eq_ignore_ascii_case v ''mactype-service.exe'') (component_text c)
            \<and> component_text c \<noteq> None
        | _ \<Rightarrow> False)"

definition image_matches_protected_layout :: "(string \<Rightarrow> path) \<Rightarrow> path \<Rightarrow> string \<Rightarrow> bool" where
  "image_matches_protected_layout path_of root image_path \<longleftrightarrow>
     (case service_binary_from_image_path path_of image_path of
        None \<Rightarrow> False | Some binary \<Rightarrow> binary_matches_protected_layout root binary)"

definition image_matches_protected_contract ::
  "(string \<Rightarrow> path) \<Rightarrow> (path \<Rightarrow> bool) \<Rightarrow> (path \<Rightarrow> path option) \<Rightarrow> path \<Rightarrow> string \<Rightarrow> bool" where
  "image_matches_protected_contract path_of is_file canonical root image_path \<longleftrightarrow>
     image_matches_protected_layout path_of root image_path
     \<and> (case service_binary_from_image_path path_of image_path of
          None \<Rightarrow> False
        | Some binary \<Rightarrow>
            is_file binary
            \<and> (case (canonical root, canonical binary) of
                 (Some r, Some b) \<Rightarrow> take (length r) b = r
               | _ \<Rightarrow> False))"

definition owned_service_identity :: "(string \<Rightarrow> path) \<Rightarrow> observed_service_configuration \<Rightarrow> path \<Rightarrow> bool" where
  "owned_service_identity path_of c root \<longleftrightarrow>
     oc_service_type c = FIXED_SERVICE_TYPE
     \<and> eq_ignore_ascii_case (oc_account c) FIXED_ACCOUNT
     \<and> image_matches_protected_layout path_of root (oc_image_path c)"

section \<open>AppInit\<close>

datatype appinit_value_error = AppInitValueError

definition appinit_separator :: "nat \<Rightarrow> bool" where
  "appinit_separator c \<longleftrightarrow> is_white_space c \<or> c = 44 \<or> c = 59 \<or> c = 34 \<or> c = 39"

text \<open>What follows the last backslash or slash of a token.\<close>

definition token_basename :: "utext \<Rightarrow> utext" where
  "token_basename token = List.last (split_pieces (\<lambda>c. c = 92 \<or> c = 47) token)"

definition names_mactype_dll :: "utext \<Rightarrow> bool" where
  "names_mactype_dll basename \<longleftrightarrow>
     (let lower = map ascii_lower basename; p = chars ''mactype''; s = chars ''.dll''
      in take (length p) lower = p
         \<and> length s \<le> length lower \<and> drop (length lower - length s) lower = s)"

definition appinit_mactype_conflict :: "bool \<Rightarrow> u16 list option \<Rightarrow> appinit_value_error + bool" where
  "appinit_mactype_conflict enabled v =
     (if \<not> enabled then Ok False
      else case v of
        None \<Rightarrow> Ok False
      | Some units \<Rightarrow>
          if units = [] \<or> List.last units \<noteq> 0 then Err AppInitValueError
          else if 0 \<in> set (butlast units) then Err AppInitValueError
          else case from_utf16 (map unat (butlast units)) of
            None \<Rightarrow> Err AppInitValueError
          | Some decoded \<Rightarrow>
              Ok (list_ex (\<lambda>token. names_mactype_dll (token_basename token))
                    (filter (\<lambda>token. token \<noteq> []) (split_pieces appinit_separator decoded))))"

section \<open>Lemmas\<close>

text \<open>The names of the drifted fields are listed exactly when there is a drift.\<close>

lemma drift_field_names_empty: "drift_field_names d = [] \<longleftrightarrow> \<not> is_drifted d"
  by (auto simp: drift_field_names_def is_drifted_def)

text \<open>A matching image names one executable, three levels below the protected root.\<close>

lemma image_layout_binary:
  assumes "image_matches_protected_layout path_of root image_path"
  shows "\<exists>binary. service_binary_from_image_path path_of image_path = Some binary
     \<and> length binary = length root + 3"
  using assms by (auto simp: image_matches_protected_layout_def binary_matches_protected_layout_def
      split: option.splits)

end
