(* ===== verification/Machine_Status.thy ===== *)
theory Machine_Status
  imports Machine_Actions Service_Configuration
begin

text \<open>
  The status of the service as the control center sees it (\<open>src/control-center/src-tauri/src\<close>:
  \<open>service_contract.rs\<close>, \<open>machine_integration/open_service/platform.rs\<close>, \<open>identity.rs\<close>, \<open>appinit.rs\<close> and
  \<open>machine_integration/status.rs\<close>).  What the service control manager, the registry and the files
  answer to one query is a record; the operating system's call behind each answer is not modelled.
\<close>

section \<open>The status\<close>

datatype service_backend = OpenSource | LegacyMacTray | ForeignBackend | NoBackend

datatype installation_state =
    InstAbsent | InstCurrent | InstOutdated | InstInvalid | InstInaccessible | InstDeletePending

datatype runtime_state = RunStopped | RunStartPending | RunRunning | RunStopPending | RunPaused | RunUnknown

datatype machine_health = MhUnknown | MhInitializing | MhReady | MhDegraded | MhFailed

datatype management_package_state = PackageReady | PackageNotInstalled | PackageIncomplete | PackageUntrusted

record system_service_status =
  ss_backend :: service_backend
  ss_installation :: installation_state
  ss_runtime :: runtime_state
  ss_health :: machine_health
  ss_binary_path :: "string option"
  ss_win32_error :: "u32 option"
  ss_active_profile_digest :: "string option"
  ss_configuration_drift :: bool
  ss_can_install :: bool
  ss_can_remove :: bool
  ss_can_start :: bool
  ss_can_stop :: bool
  ss_can_repair :: bool
  ss_can_upgrade :: bool

definition status_injection_active :: "system_service_status \<Rightarrow> string option \<Rightarrow> bool" where
  "status_injection_active s expected_digest \<longleftrightarrow>
     ss_backend s = OpenSource \<and> ss_installation s = InstCurrent \<and> ss_runtime s = RunRunning
     \<and> ss_health s = MhReady \<and> expected_digest \<noteq> None \<and> ss_active_profile_digest s = expected_digest"

definition management_package_state_from_kind :: "installation_preflight_kind \<Rightarrow> management_package_state" where
  "management_package_state_from_kind k =
     (case k of PreflightRequired \<Rightarrow> PackageNotInstalled | PreflightIncomplete \<Rightarrow> PackageIncomplete
      | PreflightUntrusted \<Rightarrow> PackageUntrusted)"

definition absent_status :: system_service_status where
  "absent_status =
     \<lparr>ss_backend = NoBackend, ss_installation = InstAbsent, ss_runtime = RunStopped, ss_health = MhUnknown,
      ss_binary_path = None, ss_win32_error = None, ss_active_profile_digest = None,
      ss_configuration_drift = False, ss_can_install = True, ss_can_remove = False, ss_can_start = False,
      ss_can_stop = False, ss_can_repair = False, ss_can_upgrade = False\<rparr>"

definition inaccessible :: "u32 \<Rightarrow> string option \<Rightarrow> system_service_status" where
  "inaccessible error binary_path =
     \<lparr>ss_backend = NoBackend, ss_installation = InstInaccessible, ss_runtime = RunUnknown,
      ss_health = MhUnknown, ss_binary_path = binary_path, ss_win32_error = Some error,
      ss_active_profile_digest = None, ss_configuration_drift = False, ss_can_install = False,
      ss_can_remove = False, ss_can_start = False, ss_can_stop = False, ss_can_repair = False,
      ss_can_upgrade = False\<rparr>"

section \<open>Classification\<close>

definition same_path :: "path \<Rightarrow> path \<Rightarrow> bool" where
  "same_path l r \<longleftrightarrow> eq_ignore_ascii_case (path_display l) (path_display r)"

definition configured_service_binary :: "(string \<Rightarrow> path) \<Rightarrow> string \<Rightarrow> path option" where
  "configured_service_binary path_of image_path =
     (case strip_prefix image_path [CHR 0x22] of
        None \<Rightarrow> None
      | Some rest \<Rightarrow>
          if CHR 0x22 \<notin> set rest then None
          else if drop 1 (dropWhile (\<lambda>c. c \<noteq> CHR 0x22) rest) \<noteq> '' --service'' then None
          else Some (path_of (takeWhile (\<lambda>c. c \<noteq> CHR 0x22) rest)))"

definition classify_owned_installation :: "path \<Rightarrow> path \<Rightarrow> path \<Rightarrow> installation_state" where
  "classify_owned_installation configured protected_current bundled =
     (if same_path configured protected_current \<and> same_path configured bundled
      then InstCurrent else InstOutdated)"

record core_service_capabilities =
  cc_can_remove :: bool
  cc_can_start :: bool
  cc_can_stop :: bool
  cc_can_repair :: bool
  cc_can_upgrade :: bool

definition stable_runtime :: "runtime_state \<Rightarrow> bool" where
  "stable_runtime r \<longleftrightarrow> r = RunRunning \<or> r = RunStopped"

definition capabilities_of ::
  "runtime_state \<Rightarrow> installation_state \<Rightarrow> bool \<Rightarrow> core_service_capabilities" where
  "capabilities_of runtime installation configuration_drift =
     \<lparr>cc_can_remove = stable_runtime runtime,
      cc_can_start = (runtime = RunStopped \<and> installation = InstCurrent \<and> \<not> configuration_drift),
      cc_can_stop = (runtime = RunRunning),
      cc_can_repair = (stable_runtime runtime \<and> installation = InstCurrent),
      cc_can_upgrade = (stable_runtime runtime \<and> installation = InstOutdated)\<rparr>"

record selected_health =
  sh_report :: health_report
  sh_live :: bool

record live_health_report =
  lh_server_pid :: u32
  lh_report :: health_report

definition select_service_health ::
  "runtime_state \<Rightarrow> u32 \<Rightarrow> live_health_report option \<Rightarrow> health_report option \<Rightarrow> selected_health option" where
  "select_service_health runtime scm_process_id live persisted =
     (let from_disk =
        (case persisted of
           Some report \<Rightarrow>
             if health report = HsDegraded \<or> health report = HsFailed
             then Some \<lparr>sh_report = report, sh_live = False\<rparr> else None
         | None \<Rightarrow> None)
      in if \<not> stable_runtime runtime then None
         else case live of
           Some l \<Rightarrow>
             if runtime = RunRunning \<and> scm_process_id \<noteq> 0 \<and> lh_server_pid l = scm_process_id
             then Some \<lparr>sh_report = lh_report l, sh_live = True\<rparr> else from_disk
         | None \<Rightarrow> from_disk)"

definition validated_reveal_binary ::
  "(string \<Rightarrow> path) \<Rightarrow> (path \<Rightarrow> bool) \<Rightarrow> (path \<Rightarrow> path option) \<Rightarrow> path \<Rightarrow> system_service_status \<Rightarrow> string + path" where
  "validated_reveal_binary path_of is_file canonical root status =
     (if ss_backend status \<noteq> OpenSource
         \<or> ss_installation status \<notin> {InstCurrent, InstOutdated}
         \<or> \<not> stable_runtime (ss_runtime status)
      then Err ''the system service is not an owned stable installation''
      else case Option.bind (ss_binary_path status) (configured_service_binary path_of) of
        None \<Rightarrow> Err ''the system service ImagePath is invalid''
      | Some binary \<Rightarrow>
          if \<not> image_matches_protected_contract path_of is_file canonical root
                 ([CHR 0x22] @ path_display binary @ [CHR 0x22] @ '' --service'')
          then Err ''the system service binary is outside the protected layout''
          else Ok binary)"

section \<open>The query\<close>

datatype scm_service_state =
    ScmStopped | ScmStartPending | ScmStopPending | ScmRunning | ScmContinuePending | ScmPausePending
  | ScmPaused | ScmOther u32

fun runtime_state_of :: "scm_service_state \<Rightarrow> runtime_state" where
  "runtime_state_of ScmStopped = RunStopped"
| "runtime_state_of ScmStartPending = RunStartPending"
| "runtime_state_of ScmRunning = RunRunning"
| "runtime_state_of ScmStopPending = RunStopPending"
| "runtime_state_of ScmPaused = RunPaused"
| "runtime_state_of _ = RunUnknown"

text \<open>
  The answers to one query: connecting to the manager, opening the service (\<open>Ok False\<close> when there is
  none), its configuration and its status with the process, the two machine roots, the service
  binaries of the active and of the bundled runtime, and the two health reports.
\<close>

record scm_answers =
  sa_connect :: "io_error + unit"
  sa_open :: "io_error + bool"
  sa_config :: "io_error + observed_service_configuration"
  sa_status :: "io_error + scm_service_state \<times> u32"
  sa_roots :: "string + path \<times> path"
  sa_current_binary :: "string + path"
  sa_bundled_binary :: "string + path"
  sa_live_health :: "string + live_health_report"
  sa_persisted_health :: "string + health_report"

definition error_code :: "io_error \<Rightarrow> u32" where
  "error_code e = (case raw_os_error e of None \<Rightarrow> 0 | Some code \<Rightarrow> code)"

definition ERROR_SERVICE_MARKED_FOR_DELETE :: u32 where "ERROR_SERVICE_MARKED_FOR_DELETE = 1072"

definition result_ok :: "'e + 'a \<Rightarrow> 'a option" where
  "result_ok r = (case r of Inl _ \<Rightarrow> None | Inr x \<Rightarrow> Some x)"

fun machine_health_of :: "health_state \<Rightarrow> machine_health" where
  "machine_health_of HsUnknown = MhUnknown"
| "machine_health_of HsInitializing = MhInitializing"
| "machine_health_of HsReady = MhReady"
| "machine_health_of HsDegraded = MhDegraded"
| "machine_health_of HsFailed = MhFailed"

definition foreign_status :: "runtime_state \<Rightarrow> string option \<Rightarrow> system_service_status" where
  "foreign_status runtime binary_path =
     \<lparr>ss_backend = ForeignBackend, ss_installation = InstInvalid, ss_runtime = runtime,
      ss_health = MhUnknown, ss_binary_path = binary_path, ss_win32_error = None,
      ss_active_profile_digest = None, ss_configuration_drift = False, ss_can_install = False,
      ss_can_remove = False, ss_can_start = False, ss_can_stop = False, ss_can_repair = False,
      ss_can_upgrade = False\<rparr>"

definition installation_of :: "(string \<Rightarrow> path) \<Rightarrow> scm_answers \<Rightarrow> string \<Rightarrow> installation_state" where
  "installation_of path_of a image_path =
     (case (configured_service_binary path_of image_path, sa_current_binary a, sa_bundled_binary a) of
        (Some configured, Inr expected, Inr bundled) \<Rightarrow> classify_owned_installation configured expected bundled
      | (_, Inl _, Inr _) \<Rightarrow> InstOutdated
      | _ \<Rightarrow> InstInvalid)"

definition owned_status ::
  "(string \<Rightarrow> path) \<Rightarrow> scm_answers \<Rightarrow> observed_service_configuration \<Rightarrow> runtime_state \<Rightarrow> u32 \<Rightarrow> system_service_status" where
  "owned_status path_of a c runtime service_process_id =
     (let drift = is_drifted (configuration_drift_of c);
          installation = installation_of path_of a (oc_image_path c);
          live = (if runtime = RunRunning then result_ok (sa_live_health a) else None);
          selected = select_service_health runtime service_process_id live (result_ok (sa_persisted_health a));
          h = (case selected of Some s \<Rightarrow> machine_health_of (health (sh_report s)) | None \<Rightarrow> MhUnknown);
          digest = (case selected of
                      Some s \<Rightarrow> if sh_live s then active_profile_digest (sh_report s) else None
                    | None \<Rightarrow> None);
          cap = capabilities_of runtime installation drift
      in \<lparr>ss_backend = OpenSource, ss_installation = installation, ss_runtime = runtime, ss_health = h,
          ss_binary_path = Some (oc_image_path c), ss_win32_error = None,
          ss_active_profile_digest = digest, ss_configuration_drift = drift, ss_can_install = False,
          ss_can_remove = cc_can_remove cap, ss_can_start = cc_can_start cap, ss_can_stop = cc_can_stop cap,
          ss_can_repair = cc_can_repair cap, ss_can_upgrade = cc_can_upgrade cap\<rparr>)"

definition query_status :: "(string \<Rightarrow> path) \<Rightarrow> scm_answers \<Rightarrow> system_service_status" where
  "query_status path_of a =
     (case sa_connect a of
        Inl e \<Rightarrow> inaccessible (error_code e) None
      | Inr _ \<Rightarrow>
     (case sa_open a of
        Inl e \<Rightarrow>
          (if raw_os_error e = Some ERROR_SERVICE_MARKED_FOR_DELETE
           then absent_status\<lparr>ss_backend := OpenSource, ss_installation := InstDeletePending,
                  ss_runtime := RunUnknown, ss_win32_error := Some (error_code e), ss_can_install := False\<rparr>
           else inaccessible (error_code e) None)
      | Inr present \<Rightarrow>
     (if \<not> present then absent_status
      else case sa_config a of
        Inl e \<Rightarrow> inaccessible (error_code e) None
      | Inr c \<Rightarrow>
     (case sa_status a of
        Inl e \<Rightarrow> inaccessible (error_code e) (Some (oc_image_path c))
      | Inr (state, service_process_id) \<Rightarrow>
     (case sa_roots a of
        Inl _ \<Rightarrow> inaccessible 3 (Some (oc_image_path c))
      | Inr (program_files, _) \<Rightarrow>
          let root = path_join (path_join program_files ''MacType Control Center'') ''Service''
          in if \<not> owned_service_identity path_of c root
             then foreign_status (runtime_state_of state) (Some (oc_image_path c))
             else owned_status path_of a c (runtime_state_of state) service_process_id)))))"

definition running_service_process_id :: "scm_answers \<Rightarrow> string + u32" where
  "running_service_process_id a =
     (case sa_connect a of
        Inl e \<Rightarrow> Err (io_message e)
      | Inr _ \<Rightarrow>
     (case sa_open a of
        Inl e \<Rightarrow> Err (io_message e)
      | Inr present \<Rightarrow>
     (if \<not> present then Err ''the new service has no stable running SCM process''
      else case sa_status a of
        Inl e \<Rightarrow> Err (''QueryServiceStatusEx failed with '' @ show_word (error_code e))
      | Inr (state, process) \<Rightarrow>
          if runtime_state_of state \<noteq> RunRunning \<or> process = 0
          then Err ''the new service has no stable running SCM process'' else Ok process)))"

section \<open>AppInit views and the projection of capabilities\<close>

definition appinit_view_conflict :: "unit + bool \<Rightarrow> unit + u16 list option \<Rightarrow> unit + bool" where
  "appinit_view_conflict enabled v =
     (case enabled of
        Inl _ \<Rightarrow> Err ()
      | Inr False \<Rightarrow> Ok False
      | Inr True \<Rightarrow>
          (case v of
             Inl _ \<Rightarrow> Err ()
           | Inr units \<Rightarrow>
               (case appinit_mactype_conflict True units of Inl _ \<Rightarrow> Err () | Inr b \<Rightarrow> Ok b)))"

text \<open>\<open>appinit_conflict\<close> looks at the 64-bit view and then at the 32-bit view.\<close>

fun appinit_conflict :: "(unit + bool) \<times> (unit + u16 list option) \<Rightarrow>
  (unit + bool) \<times> (unit + u16 list option) \<Rightarrow> string + bool" where
  "appinit_conflict (enabled64, value64) (enabled32, value32) =
     (case appinit_view_conflict enabled64 value64 of
        Inl _ \<Rightarrow> Err ''AppInit registry state could not be verified''
      | Inr first \<Rightarrow>
          (case appinit_view_conflict enabled32 value32 of
             Inl _ \<Rightarrow> Err ''AppInit registry state could not be verified''
           | Inr second \<Rightarrow> Ok (first \<or> second)))"

datatype legacy_tray_conflict_state = TrayClear | TrayDetected | TrayUnknown

definition project_new_service_capabilities ::
  "system_service_status \<Rightarrow> bool \<Rightarrow> legacy_tray_conflict_state \<Rightarrow> system_service_status" where
  "project_new_service_capabilities status registry_conflict tray =
     (if registry_conflict \<or> tray \<noteq> TrayClear
      then status\<lparr>ss_can_install := False, ss_can_remove := False, ss_can_start := False,
             ss_can_stop := (ss_can_stop status \<and> ss_backend status = OpenSource
                             \<and> ss_runtime status = RunRunning),
             ss_can_repair := False, ss_can_upgrade := False\<rparr>
      else status)"

definition project_system_injection_active ::
  "system_service_status \<Rightarrow> bool \<Rightarrow> legacy_tray_conflict_state \<Rightarrow> string option \<Rightarrow> bool" where
  "project_system_injection_active status registry_conflict tray expected_digest \<longleftrightarrow>
     \<not> registry_conflict \<and> tray = TrayClear \<and> status_injection_active status expected_digest"

end
