(* ===== verification/Legacy_Mactray.thy ===== *)
theory Legacy_Mactray
  imports Machine_Status
begin

text \<open>
  The legacy MacTray program that must not inject beside the service
  (\<open>src/control-center/src-tauri/src/machine_integration/legacy_mactray\<close>): the state of its tray process
  and of its start-up entries, the ownership of its service, the graceful exit, disabling its start-up
  and the restoration of its service configuration.  Observations of the operating system are
  parameters or operations of a back end.
\<close>

section \<open>The tray\<close>

datatype legacy_tray_process_state =
    TpAbsent
  | TpTrustedCurrentSession u32 u64 path
  | TpTrustedOtherSession u32 path
  | TpUntrustedSameName "u32 option" "path option"
  | TpUnknown structured_service_error

datatype legacy_tray_startup_source =
    CurrentUserRun32 | CurrentUserRun64 | LocalMachineRun32 | LocalMachineRun64 | CurrentUserStartup

record legacy_tray_startup_entry =
  le_source_kind :: legacy_tray_startup_source
  le_display_name :: string
  le_target_path :: path

datatype legacy_tray_startup_state =
    TsAbsent
  | TsDetected "legacy_tray_startup_entry list"
  | TsUntrusted "legacy_tray_startup_entry list"
  | TsUnknown structured_service_error

record legacy_tray_status =
  lt_process :: legacy_tray_process_state
  lt_startup :: legacy_tray_startup_state
  lt_conflict :: legacy_tray_conflict_state
  lt_can_request_exit :: bool
  lt_can_disable_startup :: bool

definition tray_conflict_of ::
  "legacy_tray_process_state \<Rightarrow> legacy_tray_startup_state \<Rightarrow> legacy_tray_conflict_state" where
  "tray_conflict_of process startup =
     (case (process, startup) of
        (TpUnknown _, _) \<Rightarrow> TrayUnknown
      | (_, TsUnknown _) \<Rightarrow> TrayUnknown
      | (TpAbsent, TsAbsent) \<Rightarrow> TrayClear
      | _ \<Rightarrow> TrayDetected)"

definition tray_status_from_states ::
  "legacy_tray_process_state \<Rightarrow> legacy_tray_startup_state \<Rightarrow> legacy_tray_status" where
  "tray_status_from_states process startup =
     \<lparr>lt_process = process, lt_startup = startup, lt_conflict = tray_conflict_of process startup,
      lt_can_request_exit = (case process of TpTrustedCurrentSession _ _ _ \<Rightarrow> True | _ \<Rightarrow> False),
      lt_can_disable_startup = (case startup of TsDetected entries \<Rightarrow> entries \<noteq> [] | _ \<Rightarrow> False)\<rparr>"

definition blocks_machine_change :: "legacy_tray_status \<Rightarrow> bool" where
  "blocks_machine_change s \<longleftrightarrow> lt_conflict s \<noteq> TrayClear"

record legacy_tray_process_identity =
  ti_creation_time :: u64
  ti_session_id :: u32
  ti_path :: path
  ti_trusted_path :: bool

record legacy_tray_process_observation =
  to_image_name :: string
  to_pid :: u32
  to_session_id :: u32
  to_identity :: "structured_service_error + legacy_tray_process_identity"

definition unknown_process :: "string \<Rightarrow> string \<Rightarrow> legacy_tray_process_state" where
  "unknown_process code message =
     TpUnknown \<lparr>se_code = code, se_message = message, se_win32_error = None\<rparr>"

definition interactive_mactray :: "legacy_tray_process_observation \<Rightarrow> bool" where
  "interactive_mactray entry \<longleftrightarrow>
     eq_ignore_ascii_case (to_image_name entry) ''MacTray.exe'' \<and> to_session_id entry \<noteq> 0"

definition classify_tray_process_inventory ::
  "u32 \<Rightarrow> legacy_tray_process_observation list \<Rightarrow> legacy_tray_process_state" where
  "classify_tray_process_inventory current_session_id observations =
     (case filter interactive_mactray observations of
        [] \<Rightarrow> TpAbsent
      | [entry] \<Rightarrow>
          (case to_identity entry of
             Inl error \<Rightarrow> TpUnknown error
           | Inr i \<Rightarrow>
               if to_pid entry = 0 \<or> ti_creation_time i = 0 \<or> ti_session_id i \<noteq> to_session_id entry
               then unknown_process ''legacy-tray-process-identity-changed''
                      ''the MacTray process identity changed during inspection''
               else if \<not> ti_trusted_path i then TpUntrustedSameName (Some (ti_session_id i)) (Some (ti_path i))
               else if ti_session_id i = current_session_id
               then TpTrustedCurrentSession (to_pid entry) (ti_creation_time i) (ti_path i)
               else TpTrustedOtherSession (ti_session_id i) (ti_path i))
      | _ \<Rightarrow> unknown_process ''legacy-tray-process-multiple''
               ''multiple interactive MacTray processes were observed'')"

text \<open>\<open>/\<close> as backslash, no verbatim prefix, no trailing backslashes; the start-up entries compare so.\<close>

definition verbatim_prefix :: string where
  "verbatim_prefix = [CHR 0x5C, CHR 0x5C, CHR ''?'', CHR 0x5C]"

definition without_verbatim :: "string \<Rightarrow> string" where
  "without_verbatim s = (case strip_prefix s verbatim_prefix of Some r \<Rightarrow> r | None \<Rightarrow> s)"

definition backslashes :: "string \<Rightarrow> string" where
  "backslashes = map (\<lambda>c. if c = CHR ''/'' then CHR 0x5C else c)"

definition normalize_startup_path :: "string \<Rightarrow> string" where
  "normalize_startup_path s =
     rev (dropWhile (\<lambda>c. c = CHR 0x5C) (rev (without_verbatim (backslashes s))))"

definition same_windows_path :: "path \<Rightarrow> path \<Rightarrow> bool" where
  "same_windows_path l r \<longleftrightarrow>
     eq_ignore_ascii_case (normalize_startup_path (path_display l)) (normalize_startup_path (path_display r))"

text \<open>The comparison of process paths (\<open>tray_process.rs\<close>) drops the prefix before it turns the slashes.\<close>

definition normalize_process_path :: "string \<Rightarrow> string" where
  "normalize_process_path s = backslashes (without_verbatim s)"

definition same_process_path :: "path \<Rightarrow> path \<Rightarrow> bool" where
  "same_process_path l r \<longleftrightarrow>
     eq_ignore_ascii_case (normalize_process_path (path_display l)) (normalize_process_path (path_display r))"

section \<open>The graceful exit\<close>

record legacy_tray_exit_request =
  lx_pid :: u32
  lx_creation_time :: u64
  lx_path :: path

datatype legacy_tray_exit_outcome = LxExited | LxTimedOut | LxProtocolUnavailable

definition require_exact_identity ::
  "legacy_tray_process_state \<Rightarrow> legacy_tray_exit_request \<Rightarrow> string + unit" where
  "require_exact_identity observed expected =
     (case observed of
        TpTrustedCurrentSession process created p \<Rightarrow>
          if process = lx_pid expected \<and> created = lx_creation_time expected
             \<and> same_process_path p (lx_path expected)
          then Ok () else Err ''the observed MacTray process identity changed before graceful exit''
      | _ \<Rightarrow> Err ''the observed MacTray process identity changed before graceful exit'')"

definition request_tray_exit_with ::
  "('s \<Rightarrow> legacy_tray_process_state \<times> 's)
   \<Rightarrow> (legacy_tray_exit_request \<Rightarrow> ('s, string, legacy_tray_exit_outcome) operation)
   \<Rightarrow> legacy_tray_exit_request \<Rightarrow> ('s, string, unit) operation" where
  "request_tray_exit_with observe_process request_official_exit expected =
     obind (observe observe_process) (\<lambda>first.
     obind (olift (require_exact_identity first expected)) (\<lambda>_.
     obind (observe observe_process) (\<lambda>second.
     obind (olift (require_exact_identity second expected)) (\<lambda>_.
     obind (request_official_exit expected) (\<lambda>outcome.
     case outcome of
       LxTimedOut \<Rightarrow> ofail ''the graceful MacTray exit request timed out''
     | LxProtocolUnavailable \<Rightarrow> ofail ''the official MacTray exit protocol is unavailable''
     | LxExited \<Rightarrow>
         obind (observe observe_process) (\<lambda>after.
         if after \<noteq> TpAbsent then ofail ''MacTray remained present after the graceful exit request''
         else oret ()))))))"

section \<open>Start-up entries\<close>

datatype startup_target_classification = TargetOwned path | TargetUntrusted

definition exactly_quoted_target :: "string \<Rightarrow> string option" where
  "exactly_quoted_target command =
     (if length command < 3 \<or> hd command \<noteq> CHR 0x22 \<or> List.last command \<noteq> CHR 0x22 then None
      else (let target = butlast (tl command)
            in if target = [] \<or> set target \<inter> {CHR 0x22, CHR 0x00, CHR 0x0D, CHR 0x0A} \<noteq> {} then None
               else Some target))"

definition classify_startup_command ::
  "(string \<Rightarrow> path) \<Rightarrow> string \<Rightarrow> path \<Rightarrow> startup_target_classification" where
  "classify_startup_command path_of command expected_path =
     (case exactly_quoted_target command of
        None \<Rightarrow> TargetUntrusted
      | Some target \<Rightarrow>
          if same_windows_path (path_of target) expected_path then TargetOwned expected_path
          else TargetUntrusted)"

fun contains_infix :: "string \<Rightarrow> string \<Rightarrow> bool" where
  "contains_infix s [] = (s = [])"
| "contains_infix s (c # cs) = (starts_with (c # cs) s \<or> contains_infix s cs)"

definition is_legacy_tray_startup_candidate :: "string \<Rightarrow> string \<Rightarrow> bool" where
  "is_legacy_tray_startup_candidate shown command \<longleftrightarrow>
     (let normalized = map to_ascii_lowercase (filter is_ascii_alphanumeric shown)
      in contains_infix ''mactray'' normalized \<or> contains_infix ''mactypetray'' normalized
         \<or> contains_infix ''mactray.exe'' (map to_ascii_lowercase command))"

definition requires_current_user_sid :: "legacy_tray_startup_source \<Rightarrow> bool" where
  "requires_current_user_sid s \<longleftrightarrow> s \<in> {CurrentUserRun32, CurrentUserRun64, CurrentUserStartup}"

datatype legacy_tray_startup_locator =
    RegistryLocator string u32 string string u32
  | FileLocator path

record legacy_tray_startup_artifact =
  la_entry :: legacy_tray_startup_entry
  la_locator :: legacy_tray_startup_locator
  la_raw_bytes :: string
  la_normalized_target_path :: path
  la_user_sid :: string
  la_recorded_at :: u64

datatype legacy_tray_startup_scope = ScopeCurrentUser | ScopeLocalMachine

datatype legacy_tray_startup_observation =
    ObservedOwned legacy_tray_startup_artifact
  | ObservedUntrusted legacy_tray_startup_entry
  | ObservedUnknown structured_service_error

definition owned_entries :: "legacy_tray_startup_observation list \<Rightarrow> legacy_tray_startup_entry list" where
  "owned_entries = List.map_filter (\<lambda>o1. case o1 of ObservedOwned a \<Rightarrow> Some (la_entry a) | _ \<Rightarrow> None)"

definition untrusted_entries :: "legacy_tray_startup_observation list \<Rightarrow> legacy_tray_startup_entry list" where
  "untrusted_entries = List.map_filter (\<lambda>o1. case o1 of ObservedUntrusted e \<Rightarrow> Some e | _ \<Rightarrow> None)"

definition unknown_errors :: "legacy_tray_startup_observation list \<Rightarrow> structured_service_error list" where
  "unknown_errors = List.map_filter (\<lambda>o1. case o1 of ObservedUnknown e \<Rightarrow> Some e | _ \<Rightarrow> None)"

definition classify_startup_inventory ::
  "legacy_tray_startup_observation list \<Rightarrow> legacy_tray_startup_state" where
  "classify_startup_inventory observations =
     (case unknown_errors observations of
        e # _ \<Rightarrow> TsUnknown e
      | [] \<Rightarrow>
          if untrusted_entries observations \<noteq> [] then TsUntrusted (untrusted_entries observations)
          else if owned_entries observations \<noteq> [] then TsDetected (owned_entries observations)
          else TsAbsent)"

datatype startup_restore_action = RestoreNoop | RestoreNeeded

definition plan_startup_restore :: "string \<Rightarrow> string option \<Rightarrow> string + startup_restore_action" where
  "plan_startup_restore original current =
     (case current of
        None \<Rightarrow> Ok RestoreNeeded
      | Some c \<Rightarrow> if c = original then Ok RestoreNoop
                  else Err ''legacy MacTray startup changed after migration'')"

text \<open>The operations of \<open>LegacyTrayStartupCoordinator\<close>.\<close>

record 's startup_coordinator =
  co_observe_status :: "'s \<Rightarrow> legacy_tray_status \<times> 's"
  co_disable_current_user :: "('s, string, unit) operation"
  co_disable_local_machine :: "('s, string, unit) operation"
  co_restore_local_machine :: "('s, string, unit) operation"
  co_restore_current_user :: "('s, string, unit) operation"

definition with_cleanup_error :: "string \<Rightarrow> string \<Rightarrow> string + unit \<Rightarrow> string" where
  "with_cleanup_error primary cleanup_name cleanup =
     (case cleanup of
        Inr _ \<Rightarrow> primary
      | Inl e \<Rightarrow> primary @ ''; '' @ cleanup_name @ '' failed: '' @ e)"

definition disable_legacy_tray_startup_with :: "'s startup_coordinator \<Rightarrow> ('s, string, unit) operation" where
  "disable_legacy_tray_startup_with co =
     obind (observe (co_observe_status co)) (\<lambda>before.
     if lt_process before \<noteq> TpAbsent
     then ofail ''MacTray must be absent before its startup entries can be disabled''
     else case lt_startup before of
       TsAbsent \<Rightarrow> oret ()
     | TsUntrusted _ \<Rightarrow> ofail ''untrusted MacTray startup entries require manual review''
     | TsUnknown _ \<Rightarrow> ofail ''MacTray startup state is unknown''
     | TsDetected _ \<Rightarrow>
         obind (co_disable_current_user co) (\<lambda>_.
         obind (otry (co_disable_local_machine co)) (\<lambda>machine.
         case machine of
           Inl error \<Rightarrow>
             obind (otry (co_restore_current_user co)) (\<lambda>cleanup.
             ofail (with_cleanup_error error ''current-user startup restoration'' cleanup))
         | Inr _ \<Rightarrow>
             obind (observe (co_observe_status co)) (\<lambda>after.
             if lt_process after = TpAbsent \<and> lt_startup after = TsAbsent then oret ()
             else obind (otry (co_restore_local_machine co)) (\<lambda>machine_restore.
                  obind (otry (co_restore_current_user co)) (\<lambda>user_restore.
                  ofail (''MacTray conflict state was not clear after startup disable''
                    @ (case machine_restore of Inr _ \<Rightarrow> []
                       | Inl e \<Rightarrow> ''; local-machine startup restoration failed: '' @ e)
                    @ (case user_restore of Inr _ \<Rightarrow> []
                       | Inl e \<Rightarrow> ''; current-user startup restoration failed: '' @ e))))))))"

section \<open>The legacy service\<close>

datatype service_presence =
    PresAbsent | PresOwned | PresCompatibleUnquoted | PresForeign | PresDeletePending | PresInaccessible

datatype service_runtime_state =
    LsStopped | LsStartPending | LsStopPending | LsRunning | LsContinuePending | LsPausePending
  | LsPaused | LsUnknown

record legacy_service_status =
  ls_presence :: service_presence
  ls_state :: service_runtime_state
  ls_binary_path :: "string option"
  ls_win32_error :: "u32 option"
  ls_trusted_binary_available :: bool
  ls_registry_conflict :: bool
  ls_can_remove :: bool
  ls_can_stop :: bool

record legacy_service_configuration =
  lc_display_name :: string
  lc_binary_path :: string
  lc_service_type :: u32
  lc_start_type :: u32
  lc_error_control :: u32
  lc_load_order_group :: "string option"
  lc_tag_id :: u32
  lc_account :: string
  lc_dependencies :: "string list"

record failure_action =
  fa_action_type :: "32 word"
  fa_delay_ms :: u32

record failure_actions_configuration =
  fc_reset_period_seconds :: u32
  fc_reboot_message :: "string option"
  fc_command :: "string option"
  fc_actions :: "failure_action list"

datatype service_trigger_configuration = NoTriggers

record service_extended_configuration =
  ex_description :: "string option"
  ex_failure_actions :: failure_actions_configuration
  ex_failure_actions_on_non_crash :: bool
  ex_delayed_auto_start :: bool
  ex_service_sid_type :: u32
  ex_required_privileges :: "string list"
  ex_preshutdown_timeout_ms :: u32
  ex_triggers :: service_trigger_configuration
  ex_security_descriptor :: string

record legacy_scm_snapshot =
  sn_presence :: service_presence
  sn_state :: service_runtime_state
  sn_configuration :: legacy_service_configuration
  sn_extended :: service_extended_configuration

definition owned_presence :: "service_presence \<Rightarrow> bool" where
  "owned_presence p \<longleftrightarrow> p = PresOwned \<or> p = PresCompatibleUnquoted"

definition stable_state :: "service_runtime_state \<Rightarrow> bool" where
  "stable_state s \<longleftrightarrow> s = LsRunning \<or> s = LsStopped"

definition require_stable_migration_state :: "service_runtime_state \<Rightarrow> string + unit" where
  "require_stable_migration_state s =
     (if stable_state s then Ok ()
      else Err ''legacy SCM service must be exactly running or stopped for migration'')"

definition snapshot_trigger_configuration ::
  "u32 \<Rightarrow> bool \<Rightarrow> bool \<Rightarrow> string + service_trigger_configuration" where
  "snapshot_trigger_configuration trigger_count has_trigger_data has_reserved_data =
     (if trigger_count = 0 \<and> \<not> has_trigger_data \<and> \<not> has_reserved_data then Ok NoTriggers
      else Err ''custom legacy service triggers are not migration-safe'')"

definition MACTYPE_SERVICE_TYPE :: u32 where "MACTYPE_SERVICE_TYPE = 0x10"
definition MACTYPE_SERVICE_START :: u32 where "MACTYPE_SERVICE_START = 2"
definition MACTYPE_SERVICE_START_DISABLED :: u32 where "MACTYPE_SERVICE_START_DISABLED = 4"
definition MACTYPE_SERVICE_ERROR :: u32 where "MACTYPE_SERVICE_ERROR = 1"

definition service_command_path :: "path \<Rightarrow> string" where
  "service_command_path p = without_verbatim (path_display p)"

definition quoted_command :: "path \<Rightarrow> string" where
  "quoted_command trusted = [CHR 0x22] @ service_command_path trusted @ [CHR 0x22] @ '' -service''"

definition unquoted_command :: "path \<Rightarrow> string" where
  "unquoted_command trusted = service_command_path trusted @ '' -service''"

text \<open>\<open>str::trim\<close> of the image path.\<close>

definition trimmed :: "string \<Rightarrow> string" where
  "trimmed s = (case from_utf8 s of None \<Rightarrow> s | Some t \<Rightarrow> utf8_encode (text_trim t))"

definition classify_configuration :: "legacy_service_configuration \<Rightarrow> path \<Rightarrow> service_presence" where
  "classify_configuration c trusted =
     (if lc_service_type c \<noteq> MACTYPE_SERVICE_TYPE
         \<or> lc_start_type c \<notin> {MACTYPE_SERVICE_START, MACTYPE_SERVICE_START_DISABLED}
         \<or> lc_error_control c \<noteq> MACTYPE_SERVICE_ERROR
         \<or> lc_display_name c \<noteq> ''MacType''
         \<or> lc_load_order_group c \<noteq> None
         \<or> lc_tag_id c \<noteq> 0
         \<or> \<not> eq_ignore_ascii_case (lc_account c) ''LocalSystem''
         \<or> length (lc_dependencies c) \<noteq> 1
         \<or> \<not> eq_ignore_ascii_case (hd (lc_dependencies c)) ''winmgmt''
      then PresForeign
      else if eq_ignore_ascii_case (trimmed (lc_binary_path c)) (quoted_command trusted) then PresOwned
      else if eq_ignore_ascii_case (trimmed (lc_binary_path c)) (unquoted_command trusted)
      then PresCompatibleUnquoted
      else PresForeign)"

definition with_capabilities ::
  "service_presence \<Rightarrow> service_runtime_state \<Rightarrow> string option \<Rightarrow> u32 option \<Rightarrow> bool \<Rightarrow> bool \<Rightarrow> legacy_service_status" where
  "with_capabilities presence state binary_path win32_error trusted_binary_available registry_conflict =
     \<lparr>ls_presence = presence, ls_state = state, ls_binary_path = binary_path, ls_win32_error = win32_error,
      ls_trusted_binary_available = trusted_binary_available, ls_registry_conflict = registry_conflict,
      ls_can_remove = (owned_presence presence \<and> state = LsStopped \<and> \<not> registry_conflict),
      ls_can_stop = (owned_presence presence \<and> state = LsRunning \<and> trusted_binary_available
                     \<and> \<not> registry_conflict)\<rparr>"

definition status_from_configuration ::
  "legacy_service_configuration \<Rightarrow> service_runtime_state \<Rightarrow> path option \<Rightarrow> bool \<Rightarrow> bool \<Rightarrow> legacy_service_status" where
  "status_from_configuration c state expected_binary trusted_binary_available registry_conflict =
     with_capabilities (case expected_binary of None \<Rightarrow> PresForeign | Some p \<Rightarrow> classify_configuration c p)
       state (Some (lc_binary_path c)) None trusted_binary_available registry_conflict"

definition is_trusted_mactray_layout :: "path \<Rightarrow> path \<Rightarrow> bool" where
  "is_trusted_mactray_layout program_files candidate \<longleftrightarrow>
     take (length program_files) candidate = program_files
     \<and> (case drop (length program_files) candidate of
          [mactype, mactray] \<Rightarrow>
            eq_ignore_ascii_case (component_display mactype) ''MacType''
            \<and> eq_ignore_ascii_case (component_display mactray) ''MacTray.exe''
        | _ \<Rightarrow> False)"

definition SERVICE_DISABLED_START_TYPE :: u32 where "SERVICE_DISABLED_START_TYPE = 4"

definition retired_owned_service :: "service_presence \<Rightarrow> service_runtime_state \<Rightarrow> u32 \<Rightarrow> bool" where
  "retired_owned_service presence state start_type \<longleftrightarrow>
     owned_presence presence \<and> state = LsStopped \<and> start_type = SERVICE_DISABLED_START_TYPE"

text \<open>The status without a registry conflict and the snapshot it takes of a stopped owned service.\<close>

definition legacy_service_blocks_activation ::
  "legacy_service_status \<Rightarrow> string + legacy_scm_snapshot \<Rightarrow> string + bool" where
  "legacy_service_blocks_activation observed snapshot =
     (case ls_presence observed of
        PresAbsent \<Rightarrow> Ok False
      | PresInaccessible \<Rightarrow>
          Err ''a legacy MacType service is present but its state is inaccessible; resolve it before changing the new service''
      | _ \<Rightarrow>
          if owned_presence (ls_presence observed) \<and> ls_state observed = LsStopped
          then (case snapshot of
                  Inl e \<Rightarrow> Err (''could not verify the stopped legacy service retirement state: '' @ e)
                | Inr s \<Rightarrow>
                    Ok (\<not> retired_owned_service (sn_presence s) (sn_state s)
                          (lc_start_type (sn_configuration s))))
          else Ok True)"

section \<open>Restoring the configuration\<close>

datatype service_restore_step =
    StepCore | StepDescription | StepFailureActions | StepFailureActionsFlag | StepDelayedAutoStart
  | StepServiceSidType | StepRequiredPrivileges | StepPreshutdownTimeout | StepTriggers
  | StepSecurityDescriptor

fun step_label :: "service_restore_step \<Rightarrow> string" where
  "step_label StepCore = ''core''"
| "step_label StepDescription = ''description''"
| "step_label StepFailureActions = ''failure-actions''"
| "step_label StepFailureActionsFlag = ''failure-actions-flag''"
| "step_label StepDelayedAutoStart = ''delayed-auto-start''"
| "step_label StepServiceSidType = ''service-sid-type''"
| "step_label StepRequiredPrivileges = ''required-privileges''"
| "step_label StepPreshutdownTimeout = ''preshutdown-timeout''"
| "step_label StepTriggers = ''triggers''"
| "step_label StepSecurityDescriptor = ''security-descriptor''"

definition SERVICE_RESTORE_ORDER :: "service_restore_step list" where
  "SERVICE_RESTORE_ORDER =
     [StepCore, StepDescription, StepFailureActions, StepFailureActionsFlag, StepDelayedAutoStart,
      StepServiceSidType, StepRequiredPrivileges, StepPreshutdownTimeout, StepTriggers,
      StepSecurityDescriptor]"

text \<open>The loop over the steps: every failure is noted, and a failed core step ends it.\<close>

fun restore_steps ::
  "(service_restore_step \<Rightarrow> ('s, string, unit) operation) \<Rightarrow> service_restore_step list
   \<Rightarrow> string list \<Rightarrow> 's \<Rightarrow> string list \<times> 's" where
  "restore_steps restore [] failures s = (failures, s)"
| "restore_steps restore (step # steps) failures s =
     (case restore step s of
        (Inr _, s') \<Rightarrow> restore_steps restore steps failures s'
      | (Inl e, s') \<Rightarrow>
          (let failures' = failures @ [step_label step @ '': '' @ e]
           in if step = StepCore then (failures', s') else restore_steps restore steps failures' s'))"

fun joined :: "string \<Rightarrow> string list \<Rightarrow> string" where
  "joined separator [] = []"
| "joined separator [x] = x"
| "joined separator (x # xs) = x @ separator @ joined separator xs"

definition perform_service_configuration_restore ::
  "(service_restore_step \<Rightarrow> ('s, string, unit) operation) \<Rightarrow> ('s, string, unit) operation" where
  "perform_service_configuration_restore restore s =
     (case restore_steps restore SERVICE_RESTORE_ORDER [] s of
        (failures, s') \<Rightarrow>
          (if failures = [] then Ok ()
           else Err (''legacy SCM configuration restore failed ['' @ joined ''; '' failures @ '']''), s'))"

definition verify_restored_configuration ::
  "legacy_scm_snapshot \<Rightarrow> legacy_service_configuration \<Rightarrow> service_extended_configuration \<Rightarrow> string + unit" where
  "verify_restored_configuration expected c extended =
     (if c \<noteq> sn_configuration expected
      then Err ''legacy SCM core configuration did not round-trip exactly''
      else if extended \<noteq> sn_extended expected
      then Err ''legacy SCM Config2 or security configuration did not round-trip exactly''
      else Ok ())"

end
