(* ===== verification/Machine_Orchestrator.thy ===== *)
theory Machine_Orchestrator
  imports Legacy_Mactray Profile_Catalog
begin

text \<open>
  Which machine action of the control center is carried out, and how a profile is published or
  designated (\<open>src/control-center/src-tauri/src/machine_integration\<close>: \<open>orchestrator.rs\<close>, \<open>designation.rs\<close>,
  \<open>publish.rs\<close>, \<open>open_service/broker.rs\<close>, \<open>open_service/broker/setup.rs\<close>), over the operations of the
  trait \<open>MachineBackend\<close>, each of which threads the state of the machine.
\<close>

section \<open>The back end\<close>

record 's machine_backend =
  mb_new_service_status :: "'s \<Rightarrow> system_service_status \<times> 's"
  mb_package_state :: "'s \<Rightarrow> management_package_state \<times> 's"
  mb_legacy_tray_status :: "'s \<Rightarrow> legacy_tray_status \<times> 's"
  mb_appinit_conflict :: "('s, string, bool) operation"
  mb_legacy_service_blocks :: "('s, string, bool) operation"
  mb_execute :: "machine_action \<Rightarrow> string option \<Rightarrow> ('s, action_failure, unit) operation"

text \<open>The names \<open>{:?}\<close> prints.\<close>

fun debug_action :: "machine_action \<Rightarrow> string" where
  "debug_action MaInstall = ''Install''"
| "debug_action MaUpgrade = ''Upgrade''"
| "debug_action MaRepair = ''Repair''"
| "debug_action MaRemove = ''Remove''"
| "debug_action MaStart = ''Start''"
| "debug_action MaStop = ''Stop''"
| "debug_action MaPublishProfile = ''PublishProfile''"
| "debug_action MaDesignateProfile = ''DesignateProfile''"
| "debug_action MaMigrateFromLegacy = ''MigrateFromLegacy''"
| "debug_action MaRollback = ''Rollback''"
| "debug_action MaRemoveLegacy = ''RemoveLegacy''"

fun debug_backend :: "service_backend \<Rightarrow> string" where
  "debug_backend OpenSource = ''OpenSource''"
| "debug_backend LegacyMacTray = ''LegacyMacTray''"
| "debug_backend ForeignBackend = ''Foreign''"
| "debug_backend NoBackend = ''None''"

fun debug_installation :: "installation_state \<Rightarrow> string" where
  "debug_installation InstAbsent = ''Absent''"
| "debug_installation InstCurrent = ''Current''"
| "debug_installation InstOutdated = ''Outdated''"
| "debug_installation InstInvalid = ''Invalid''"
| "debug_installation InstInaccessible = ''Inaccessible''"
| "debug_installation InstDeletePending = ''DeletePending''"

fun debug_runtime :: "runtime_state \<Rightarrow> string" where
  "debug_runtime RunStopped = ''Stopped''"
| "debug_runtime RunStartPending = ''StartPending''"
| "debug_runtime RunRunning = ''Running''"
| "debug_runtime RunStopPending = ''StopPending''"
| "debug_runtime RunPaused = ''Paused''"
| "debug_runtime RunUnknown = ''Unknown''"

fun debug_health :: "machine_health \<Rightarrow> string" where
  "debug_health MhUnknown = ''Unknown''"
| "debug_health MhInitializing = ''Initializing''"
| "debug_health MhReady = ''Ready''"
| "debug_health MhDegraded = ''Degraded''"
| "debug_health MhFailed = ''Failed''"

section \<open>Actions\<close>

datatype tray_login_state = LoginPaused | LoginObserving | LoginUsingRunningNewService

definition tray_login_with ::
  "'s machine_backend \<Rightarrow> bool \<Rightarrow> bool \<Rightarrow> string option \<Rightarrow> 's \<Rightarrow> tray_login_state \<times> 's" where
  "tray_login_with mb paused ci_smoke expected_profile_digest s =
     (case mb_new_service_status mb s of
        (status, s') \<Rightarrow>
          (if paused then LoginPaused
           else if \<not> ci_smoke \<and> status_injection_active status expected_profile_digest
           then LoginUsingRunningNewService
           else LoginObserving, s'))"

definition profile_size_ok :: "string \<Rightarrow> bool" where
  "profile_size_ok bytes \<longleftrightarrow> bytes \<noteq> [] \<and> length bytes \<le> MAX_PROFILE_BYTES"

definition profile_contract_is_valid :: "machine_action \<Rightarrow> string option \<Rightarrow> bool" where
  "profile_contract_is_valid action profile \<longleftrightarrow>
     (if action \<in> {MaStart, MaPublishProfile, MaDesignateProfile, MaMigrateFromLegacy, MaRemoveLegacy}
      then profile \<noteq> None else profile = None)
     \<and> pred_option profile_size_ok profile"

fun native_action_authorized :: "system_service_status \<Rightarrow> machine_action \<Rightarrow> bool option" where
  "native_action_authorized status MaInstall = Some (ss_can_install status)"
| "native_action_authorized status MaUpgrade = Some (ss_can_upgrade status)"
| "native_action_authorized status MaRepair = Some (ss_can_repair status)"
| "native_action_authorized status MaRemove = Some (ss_can_remove status)"
| "native_action_authorized status MaStart = Some (ss_can_start status)"
| "native_action_authorized status MaStop = Some (ss_can_stop status)"
| "native_action_authorized status _ = None"

definition safe_machine_state :: "system_service_status \<Rightarrow> bool" where
  "safe_machine_state status \<longleftrightarrow>
     ss_backend status \<noteq> ForeignBackend
     \<and> ss_installation status \<in> {InstAbsent, InstCurrent, InstOutdated}
     \<and> stable_runtime (ss_runtime status)"

definition refuse_activation_with_legacy_service ::
  "'s machine_backend \<Rightarrow> machine_action \<Rightarrow> ('s, action_failure, unit) operation" where
  "refuse_activation_with_legacy_service mb action =
     (if action \<in> {MaInstall, MaStart, MaPublishProfile}
      then obind (omap_err (internal_at ''observe-legacy-service'') (mb_legacy_service_blocks mb)) (\<lambda>blocks.
           if blocks then ofail (blocked (LegacyServiceStillInstalled LegacyStartNewService)) else oret ())
      else oret ())"

definition exempt_from_gates :: "machine_action \<Rightarrow> bool" where
  "exempt_from_gates action \<longleftrightarrow> action = MaRollback \<or> action = MaStop"

definition require_no_tray :: "'s machine_backend \<Rightarrow> machine_action \<Rightarrow> ('s, action_failure, unit) operation" where
  "require_no_tray mb action =
     (if exempt_from_gates action then oret ()
      else obind (observe (mb_legacy_tray_status mb)) (\<lambda>tray.
           if blocks_machine_change tray then ofail (blocked (LegacyTrayModeBlocks TrayMachineChange))
           else oret ()))"

definition observed_appinit_conflict ::
  "'s machine_backend \<Rightarrow> machine_action \<Rightarrow> ('s, action_failure, bool) operation" where
  "observed_appinit_conflict mb action =
     (if exempt_from_gates action then oret False
      else omap_err (internal_at ''observe-appinit-conflict'') (mb_appinit_conflict mb))"

text \<open>What follows once the conflicts and the status were observed.\<close>

definition dispatch_machine_action ::
  "'s machine_backend \<Rightarrow> machine_action \<Rightarrow> string option \<Rightarrow> bool \<Rightarrow> system_service_status
   \<Rightarrow> ('s, action_failure, unit) operation" where
  "dispatch_machine_action mb action profile conflict status =
     (if action = MaRollback then mb_execute mb action profile
      else case native_action_authorized status action of
        Some authorized \<Rightarrow>
          if \<not> authorized
          then ofail (internal (''the current service status does not authorize '' @ debug_action action))
          else if conflict \<and> action \<noteq> MaStop
          then ofail (blocked (AppInitConflict AppInitMachineChange))
          else obind (refuse_activation_with_legacy_service mb action) (\<lambda>_.
               mb_execute mb (if action = MaStart \<and> profile \<noteq> None then MaPublishProfile else action) profile)
      | None \<Rightarrow>
          if conflict then ofail (blocked (AppInitConflict AppInitMachineChange))
          else if \<not> safe_machine_state status
          then ofail (internal ''the machine integration state is foreign, transitioning, or unsafe'')
          else obind (refuse_activation_with_legacy_service mb action) (\<lambda>_. mb_execute mb action profile))"

definition execute_machine_action_with ::
  "'s machine_backend \<Rightarrow> machine_action \<Rightarrow> string option \<Rightarrow> ('s, action_failure, unit) operation" where
  "execute_machine_action_with mb action profile =
     (if \<not> profile_contract_is_valid action profile
      then ofail (internal ''the machine action has an invalid profile payload'')
      else obind (require_no_tray mb action) (\<lambda>_.
           obind (observed_appinit_conflict mb action) (\<lambda>conflict.
           obind (observe (mb_new_service_status mb)) (\<lambda>status.
           dispatch_machine_action mb action profile conflict status))))"

section \<open>Designation\<close>

datatype designation_effect = EffectLive | EffectNextStart

datatype designation_plan = PublishLive | HoldForNextStart | KeepLocalUntilServiceStart

record machine_status =
  ms_new_service :: system_service_status
  ms_legacy_tray :: legacy_tray_status
  ms_registry_conflict :: bool
  ms_system_injection_active :: bool
  ms_expected_profile_digest :: "string option"

definition profile_publication_supported :: "system_service_status \<Rightarrow> bool \<Rightarrow> bool" where
  "profile_publication_supported status registry_mode_detected \<longleftrightarrow>
     \<not> registry_mode_detected \<and> safe_machine_state status"

definition system_modes_supported :: "system_service_status \<Rightarrow> bool \<Rightarrow> management_package_state \<Rightarrow> bool" where
  "system_modes_supported status registry_mode_detected package \<longleftrightarrow>
     package = PackageReady \<and> profile_publication_supported status registry_mode_detected"

definition designation_plan_with_package :: "machine_status \<Rightarrow> management_package_state \<Rightarrow> designation_plan" where
  "designation_plan_with_package status package =
     (let service = ms_new_service status
      in if ss_runtime service = RunRunning then PublishLive
         else if ss_runtime service = RunStopped \<and> ss_installation service \<in> {InstCurrent, InstOutdated}
              \<and> system_modes_supported service (ms_registry_conflict status) package
              \<and> \<not> ms_registry_conflict status \<and> \<not> blocks_machine_change (ms_legacy_tray status)
         then HoldForNextStart
         else KeepLocalUntilServiceStart)"

definition designation_status_with :: "'s machine_backend \<Rightarrow> ('s, action_failure, machine_status) operation" where
  "designation_status_with mb =
     obind (otry (mb_appinit_conflict mb)) (\<lambda>conflict.
     obind (observe (mb_legacy_tray_status mb)) (\<lambda>tray.
     obind (observe (mb_new_service_status mb)) (\<lambda>service.
     oret \<lparr>ms_new_service = service, ms_legacy_tray = tray,
           ms_registry_conflict = (case conflict of Inl _ \<Rightarrow> True | Inr b \<Rightarrow> b),
           ms_system_injection_active = False, ms_expected_profile_digest = None\<rparr>)))"

definition execute_designation_plan_with ::
  "'s machine_backend \<Rightarrow> string \<Rightarrow> designation_plan \<Rightarrow> ('s, action_failure, designation_effect) operation" where
  "execute_designation_plan_with mb profile plan =
     (if \<not> profile_size_ok profile
      then ofail (internal ''the designated profile payload is outside the allowed range'')
      else case plan of
        PublishLive \<Rightarrow>
          obind (execute_machine_action_with mb MaPublishProfile (Some profile)) (\<lambda>_. oret EffectLive)
      | HoldForNextStart \<Rightarrow>
          obind (execute_machine_action_with mb MaDesignateProfile (Some profile)) (\<lambda>_. oret EffectNextStart)
      | KeepLocalUntilServiceStart \<Rightarrow> oret EffectNextStart)"

section \<open>Publication\<close>

definition READY_ATTEMPTS :: nat where "READY_ATTEMPTS = 200"

definition not_ready_failure :: "string \<Rightarrow> system_service_status \<Rightarrow> action_failure" where
  "not_ready_failure expected_digest status =
     internal (''the new service did not become Ready with the published profile: backend=''
       @ debug_backend (ss_backend status) @ '', installation='' @ debug_installation (ss_installation status)
       @ '', runtime='' @ debug_runtime (ss_runtime status) @ '', health='' @ debug_health (ss_health status)
       @ '', activeProfileDigest=''
       @ (case ss_active_profile_digest status of None \<Rightarrow> ''missing'' | Some d \<Rightarrow> d)
       @ '', expectedProfileDigest='' @ expected_digest
       @ '', win32Error='' @ (case ss_win32_error status of None \<Rightarrow> ''none'' | Some e \<Rightarrow> show_word e))"

text \<open>The polls that are left; the sleep between two polls changes nothing the back end observes itself.\<close>

fun poll_published :: "string \<Rightarrow> ('s \<Rightarrow> system_service_status \<times> 's) \<Rightarrow> nat \<Rightarrow> 's \<Rightarrow> (action_failure + unit) \<times> 's" where
  "poll_published expected_digest status_of 0 s =
     (Err (internal ''published profile verification has no polling budget''), s)"
| "poll_published expected_digest status_of (Suc n) s =
     (case status_of s of
        (status, s') \<Rightarrow>
          if status_injection_active status (Some expected_digest) then (Ok (), s')
          else if n = 0 then (Err (not_ready_failure expected_digest status), s')
          else poll_published expected_digest status_of n s')"

definition wait_for_published_profile_with ::
  "string \<Rightarrow> nat \<Rightarrow> ('s \<Rightarrow> system_service_status \<times> 's) \<Rightarrow> ('s, action_failure, unit) operation" where
  "wait_for_published_profile_with expected_digest maximum_attempts status_of =
     poll_published expected_digest status_of maximum_attempts"

definition combine_rollback_error :: "action_failure \<Rightarrow> action_failure + unit \<Rightarrow> action_failure" where
  "combine_rollback_error primary rollback =
     (case rollback of
        Inr _ \<Rightarrow> primary
      | Inl cleanup \<Rightarrow>
          with_rollback RollbackFailed
            (append_detail (''; machine integration cleanup is unknown: '' @ af_detail cleanup) primary))"

text \<open>One step of the clean-up: what failed is noted with its label.\<close>

definition cleanup_step ::
  "'s machine_backend \<Rightarrow> string \<Rightarrow> machine_action \<Rightarrow> string list \<Rightarrow> ('s, action_failure, string list) operation" where
  "cleanup_step mb label action failures =
     obind (otry (mb_execute mb action None)) (\<lambda>r.
     oret (case r of Inr _ \<Rightarrow> failures | Inl e \<Rightarrow> failures @ [label @ '': '' @ af_detail e]))"

definition rollback_published_profile ::
  "'s machine_backend \<Rightarrow> system_service_status \<Rightarrow> bool \<Rightarrow> ('s, action_failure, unit) operation" where
  "rollback_published_profile mb before profile_changed =
     obind (cleanup_step mb ''stop'' MaStop []) (\<lambda>failures.
     obind (if profile_changed then cleanup_step mb ''profile rollback'' MaRollback failures
            else oret failures) (\<lambda>failures.
     obind (if ss_installation before = InstAbsent
            then cleanup_step mb ''remove newly installed service'' MaRemove failures
            else if ss_runtime before = RunRunning
            then cleanup_step mb ''restart prior service'' MaStart failures
            else oret failures) (\<lambda>failures.
     if failures = [] then oret () else ofail (internal (joined ''; '' failures)))))"

definition activate_published ::
  "'s machine_backend \<Rightarrow> installation_state \<Rightarrow> ('s, action_failure, unit) operation" where
  "activate_published mb installation =
     (case installation of
        InstAbsent \<Rightarrow> obind (mb_execute mb MaInstall None) (\<lambda>_. mb_execute mb MaStart None)
      | InstOutdated \<Rightarrow> obind (mb_execute mb MaUpgrade None) (\<lambda>_. mb_execute mb MaStart None)
      | _ \<Rightarrow> mb_execute mb MaStart None)"

definition undo_publication ::
  "'s machine_backend \<Rightarrow> system_service_status \<Rightarrow> bool \<Rightarrow> action_failure \<Rightarrow> ('s, action_failure, unit) operation" where
  "undo_publication mb before profile_changed error =
     obind (otry (rollback_published_profile mb before profile_changed)) (\<lambda>rollback.
     ofail (combine_rollback_error error rollback))"

definition publish_profile_transaction_with ::
  "(string \<Rightarrow> string) \<Rightarrow> 's machine_backend \<Rightarrow> string \<Rightarrow> ('s, action_failure, unit) operation" where
  "publish_profile_transaction_with sha mb profile =
     (if \<not> profile_size_ok profile
      then ofail (internal ''the published profile payload is outside the allowed range'')
      else obind (observe (mb_new_service_status mb)) (\<lambda>before.
      if \<not> safe_machine_state before
      then ofail (internal ''the new service is foreign, transitioning, or unsafe'')
      else let expected = from_profile_bytes sha profile;
               profile_changed = (ss_active_profile_digest before \<noteq> Some expected);
               was_running = (ss_runtime before = RunRunning)
           in obind (if was_running then mb_execute mb MaStop None else oret ()) (\<lambda>_.
              obind (otry (mb_execute mb MaPublishProfile (Some profile))) (\<lambda>published.
              case published of
                Inl error \<Rightarrow>
                  if \<not> was_running then ofail error
                  else obind (otry (mb_execute mb MaStart None)) (\<lambda>restart.
                    case restart of
                      Inr _ \<Rightarrow> ofail error
                    | Inl restart \<Rightarrow>
                        ofail (with_rollback RollbackFailed (append_detail
                          (''; machine integration cleanup is unknown because the prior service could not be restarted: ''
                           @ af_detail restart) error)))
              | Inr _ \<Rightarrow>
                  obind (otry (activate_published mb (ss_installation before))) (\<lambda>activation.
                  case activation of
                    Inl error \<Rightarrow> undo_publication mb before profile_changed error
                  | Inr _ \<Rightarrow>
                      obind (otry (wait_for_published_profile_with expected READY_ATTEMPTS
                               (mb_new_service_status mb))) (\<lambda>ready.
                      case ready of
                        Inl error \<Rightarrow> undo_publication mb before profile_changed error
                      | Inr _ \<Rightarrow> oret ()))))))"

definition designate_profile_transaction_with ::
  "(string \<Rightarrow> string) \<Rightarrow> 's machine_backend \<Rightarrow> string \<Rightarrow> ('s, action_failure, unit) operation" where
  "designate_profile_transaction_with sha mb profile =
     (if \<not> profile_size_ok profile
      then ofail (internal ''the designated profile payload is outside the allowed range'')
      else obind (designation_status_with mb) (\<lambda>status.
           obind (observe (mb_package_state mb)) (\<lambda>package.
           case designation_plan_with_package status package of
             PublishLive \<Rightarrow>
               obind (omap_err internal (mb_legacy_service_blocks mb)) (\<lambda>blocks.
               if blocks then ofail (blocked (LegacyServiceStillInstalled LegacyApplyProfile))
               else publish_profile_transaction_with sha mb profile)
           | HoldForNextStart \<Rightarrow> mb_execute mb MaPublishProfile (Some profile)
           | KeepLocalUntilServiceStart \<Rightarrow> oret ())))"

section \<open>The gates of the elevated broker\<close>

definition registry_conflict_detected :: "'s machine_backend \<Rightarrow> ('s, action_failure, bool) operation" where
  "registry_conflict_detected mb =
     obind (otry (mb_appinit_conflict mb)) (\<lambda>r. oret (case r of Inl _ \<Rightarrow> True | Inr b \<Rightarrow> b))"

definition refuse_conflicting_environment_for_activation ::
  "'s machine_backend \<Rightarrow> ('s, action_failure, unit) operation" where
  "refuse_conflicting_environment_for_activation mb =
     obind (registry_conflict_detected mb) (\<lambda>conflict.
     if conflict then ofail (blocked (AppInitConflict AppInitServiceChange))
     else obind (observe (mb_legacy_tray_status mb)) (\<lambda>tray.
     if blocks_machine_change tray then ofail (blocked (LegacyTrayModeBlocks TrayServiceChange))
     else obind (omap_err (internal_at ''observe-legacy-service'') (mb_legacy_service_blocks mb)) (\<lambda>blocks.
     if blocks then ofail (blocked (LegacyServiceStillInstalled LegacyStartNewService)) else oret ())))"

definition broker_publish_and_activate ::
  "(string \<Rightarrow> string) \<Rightarrow> 's machine_backend \<Rightarrow> string \<Rightarrow> ('s, action_failure, unit) operation" where
  "broker_publish_and_activate sha mb profile =
     obind (registry_conflict_detected mb) (\<lambda>conflict.
     if conflict then ofail (blocked (AppInitConflict AppInitMachineChanges))
     else obind (omap_err internal (mb_legacy_service_blocks mb)) (\<lambda>blocks.
     if blocks then ofail (blocked (LegacyServiceStillInstalled LegacyApplyProfile))
     else publish_profile_transaction_with sha mb profile))"

definition broker_designate_and_hold ::
  "(string \<Rightarrow> string) \<Rightarrow> 's machine_backend \<Rightarrow> string \<Rightarrow> ('s, action_failure, unit) operation" where
  "broker_designate_and_hold sha mb profile =
     obind (registry_conflict_detected mb) (\<lambda>conflict.
     if conflict then ofail (blocked (AppInitConflict AppInitMachineChanges))
     else designate_profile_transaction_with sha mb profile)"

text \<open>What the broker makes of the end of the setup program.\<close>

definition setup_failure_message :: "string \<Rightarrow> u32 option \<Rightarrow> string \<Rightarrow> string \<Rightarrow> string" where
  "setup_failure_message verb1 exit_code stderr stdout =
     (let status = (case exit_code of None \<Rightarrow> ''without an exit code''
                    | Some code \<Rightarrow> ''with exit code '' @ show_word code);
          detail = (if stderr \<noteq> [] then stderr else stdout)
      in if detail = []
         then ''setup broker '' @ verb1 @ '' failed '' @ status @ '' without diagnostic output''
         else ''setup broker '' @ verb1 @ '' failed '' @ status @ '': '' @ detail)"

definition setup_failure :: "string \<Rightarrow> u32 option \<Rightarrow> string \<Rightarrow> string \<Rightarrow> action_failure" where
  "setup_failure verb1 exit_code stderr stdout =
     (let failure = internal_at verb1 (setup_failure_message verb1 exit_code stderr stdout)
      in if exit_code = Some 3 then with_rollback RollbackFailed failure else failure)"

text \<open>The setup program is run with a verb and the bytes for its standard input.\<close>

definition run_setup_typed ::
  "(string \<Rightarrow> string option \<Rightarrow> ('s, action_failure, unit) operation)
   \<Rightarrow> system_service_action \<Rightarrow> string option \<Rightarrow> ('s, action_failure, unit) operation" where
  "run_setup_typed run_process action profile =
     (case setup_verb action of
        None \<Rightarrow> ofail (internal ''the requested action is not a setup broker verb'')
      | Some v \<Rightarrow>
          if (profile \<noteq> None) \<noteq> (action = SaPublishProfile)
          then ofail (internal ''only publish-profile accepts stdin bytes'')
          else run_process v profile)"

end
