(* ===== verification/Machine_Properties.thy ===== *)
theory Machine_Properties
  imports Machine_Orchestrator
begin

text \<open>
  What the control center promises of its machine actions: nothing is carried out that the gates do not
  allow, and a publication of a profile that fails is undone.
\<close>

section \<open>What a machine action saw and did\<close>

datatype machine_call =
    SawStatus system_service_status
  | SawPackage management_package_state
  | SawTray legacy_tray_status
  | SawAppInit "string + bool"
  | SawLegacy "string + bool"
  | Executed machine_action "string option" "action_failure + unit"

definition with_log :: "('s \<Rightarrow> 'a \<times> 's) \<Rightarrow> ('a \<Rightarrow> machine_call) \<Rightarrow> 's \<times> machine_call list \<Rightarrow> 'a \<times> 's \<times> machine_call list" where
  "with_log f call = (\<lambda>(s, log). case f s of (x, s') \<Rightarrow> (x, s', log @ [call x]))"

definition logged :: "'s machine_backend \<Rightarrow> ('s \<times> machine_call list) machine_backend" where
  "logged mb =
     \<lparr>mb_new_service_status = with_log (mb_new_service_status mb) SawStatus,
      mb_package_state = with_log (mb_package_state mb) SawPackage,
      mb_legacy_tray_status = with_log (mb_legacy_tray_status mb) SawTray,
      mb_appinit_conflict = with_log (mb_appinit_conflict mb) SawAppInit,
      mb_legacy_service_blocks = with_log (mb_legacy_service_blocks mb) SawLegacy,
      mb_execute = (\<lambda>action profile. with_log (mb_execute mb action profile) (Executed action profile))\<rparr>"

fun is_executed :: "machine_call \<Rightarrow> bool" where
  "is_executed (Executed _ _ _) = True"
| "is_executed _ = False"

text \<open>What must have been seen before an action is carried out, and what is carried out for it.\<close>

definition gates_passed :: "machine_action \<Rightarrow> string option \<Rightarrow> machine_call list \<Rightarrow> bool" where
  "gates_passed action profile seen \<longleftrightarrow>
     profile_contract_is_valid action profile
     \<and> (exempt_from_gates action
        \<or> (\<exists>tray. SawTray tray \<in> set seen \<and> \<not> blocks_machine_change tray) \<and> SawAppInit (Inr False) \<in> set seen)
     \<and> (action \<notin> {MaInstall, MaStart, MaPublishProfile} \<or> SawLegacy (Inr False) \<in> set seen)
     \<and> (action = MaRollback
        \<or> (\<exists>status. SawStatus status \<in> set seen
             \<and> (case native_action_authorized status action of
                  Some authorized \<Rightarrow> authorized | None \<Rightarrow> safe_machine_state status)))"

definition dispatched :: "machine_action \<Rightarrow> string option \<Rightarrow> machine_action" where
  "dispatched action profile = (if action = MaStart \<and> profile \<noteq> None then MaPublishProfile else action)"

text \<open>How a run of an action may end: nothing executed and an error, or the one execution at the end.\<close>

definition gated_run ::
  "machine_action \<Rightarrow> string option \<Rightarrow> action_failure + unit \<Rightarrow> machine_call list \<Rightarrow> bool" where
  "gated_run action profile r log \<longleftrightarrow>
     (\<not> list_ex is_executed log \<and> isl r)
     \<or> (\<exists>seen. log = seen @ [Executed (dispatched action profile) profile r]
          \<and> \<not> list_ex is_executed seen \<and> gates_passed action profile seen)"

lemmas logged_apply = operation_apply logged_def with_log_def

lemma logged_simps [simp]:
  "mb_new_service_status (logged mb) = with_log (mb_new_service_status mb) SawStatus"
  "mb_legacy_tray_status (logged mb) = with_log (mb_legacy_tray_status mb) SawTray"
  "mb_appinit_conflict (logged mb) = with_log (mb_appinit_conflict mb) SawAppInit"
  "mb_legacy_service_blocks (logged mb) = with_log (mb_legacy_service_blocks mb) SawLegacy"
  "mb_execute (logged mb) action profile = with_log (mb_execute mb action profile) (Executed action profile)"
  by (simp_all add: logged_def)

lemma tray_gate:
  assumes "require_no_tray (logged mb) action (s, log) = (r, s', log')"
  shows "\<exists>more. log' = log @ more \<and> \<not> list_ex is_executed more
    \<and> (isl r \<or> exempt_from_gates action \<or> (\<exists>tray. SawTray tray \<in> set more \<and> \<not> blocks_machine_change tray))"
  using assms
  by (auto simp: require_no_tray_def operation_apply with_log_def split: prod.splits if_splits)

lemma appinit_gate:
  assumes "observed_appinit_conflict (logged mb) action (s, log) = (r, s', log')"
  shows "\<exists>more. log' = log @ more \<and> \<not> list_ex is_executed more
    \<and> (r = Inr False \<longrightarrow> exempt_from_gates action \<or> SawAppInit (Inr False) \<in> set more)"
  using assms
  by (auto simp: observed_appinit_conflict_def operation_apply with_log_def split: prod.splits if_splits sum.splits)

lemma legacy_gate:
  assumes "refuse_activation_with_legacy_service (logged mb) action (s, log) = (r, s', log')"
  shows "\<exists>more. log' = log @ more \<and> \<not> list_ex is_executed more
    \<and> (isl r \<or> action \<notin> {MaInstall, MaStart, MaPublishProfile} \<or> SawLegacy (Inr False) \<in> set more)"
  using assms
  by (auto simp: refuse_activation_with_legacy_service_def operation_apply with_log_def
      split: prod.splits if_splits sum.splits)

lemma executed_last:
  assumes "obind (refuse_activation_with_legacy_service (logged mb) action) (\<lambda>_.
      mb_execute (logged mb) (dispatched action profile) profile) (s, log) = (r, s', log')"
    and "\<not> list_ex is_executed log"
    and "\<And>more. \<lbrakk>action \<notin> {MaInstall, MaStart, MaPublishProfile} \<or> SawLegacy (Inr False) \<in> set more\<rbrakk>
      \<Longrightarrow> gates_passed action profile (log @ more)"
  shows "gated_run action profile r log'"
proof -
  obtain r1 s1 log1 where gate: "refuse_activation_with_legacy_service (logged mb) action (s, log) = (r1, s1, log1)"
    using prod_cases3 by blast
  from legacy_gate [OF gate] obtain more where more: "log1 = log @ more" "\<not> list_ex is_executed more"
    and legacy: "isl r1 \<or> action \<notin> {MaInstall, MaStart, MaPublishProfile} \<or> SawLegacy (Inr False) \<in> set more"
    by blast
  show ?thesis
  proof (cases r1)
    case (Inl e)
    then show ?thesis using assms(1,2) gate more by (auto simp: gated_run_def obind_apply)
  next
    case (Inr u)
    then have "gates_passed action profile (log @ more)" using legacy by (intro assms(3)) simp
    then show ?thesis
      using assms(1,2) gate more Inr
      by (auto simp: gated_run_def obind_apply with_log_def split: prod.splits)
  qed
qed

lemma executed_rollback:
  assumes "mb_execute (logged mb) MaRollback profile (s, log) = (r, s', log')"
    and "\<not> list_ex is_executed log" and "profile_contract_is_valid MaRollback profile"
  shows "gated_run MaRollback profile r log'"
  using assms by (auto simp: gated_run_def with_log_def gates_passed_def exempt_from_gates_def dispatched_def
      split: prod.splits)

lemma dispatched_is_gated:
  assumes "dispatch_machine_action (logged mb) action profile b status (s, log) = (r, s', log')"
    and "\<not> list_ex is_executed log" and "profile_contract_is_valid action profile"
    and passed: "\<And>more. \<lbrakk>action \<notin> {MaInstall, MaStart, MaPublishProfile} \<or> SawLegacy (Inr False) \<in> set more;
        action = MaRollback \<or> (case native_action_authorized status action of
               Some authorized \<Rightarrow> authorized | None \<Rightarrow> safe_machine_state status);
        b = False \<or> exempt_from_gates action\<rbrakk> \<Longrightarrow> gates_passed action profile (log @ more)"
  shows "gated_run action profile r log'"
proof (cases "action = MaRollback")
  case True
  then show ?thesis
    using assms(1-3) executed_rollback [of mb profile s log r s' log'] by (simp add: dispatch_machine_action_def)
next
  case other: False
  have refused: "gated_run action profile (Inl e) log" for e
    using assms(2) by (simp add: gated_run_def)
  show ?thesis
  proof (cases "native_action_authorized status action")
    case None
    then have "(if action = MaStart \<and> profile \<noteq> None then MaPublishProfile else action) = action"
      "dispatched action profile = action"
      by (auto simp: dispatched_def)
    then show ?thesis
      using refused assms(1) None other passed executed_last [of mb action profile s log r s' log', OF _ assms(2)]
      by (auto simp: dispatch_machine_action_def ofail_def split: if_splits)
  next
    case (Some authorized)
    then show ?thesis
      using refused assms(1) other passed executed_last [of mb action profile s log r s' log', OF _ assms(2)]
      by (auto simp: dispatch_machine_action_def dispatched_def ofail_def exempt_from_gates_def
          split: if_splits)
  qed
qed

text \<open>
  C35.  A machine action is carried out at most once, as the last call of its run, whose result it
  returns, and only after the gates were seen open: a valid profile payload; no tray of the legacy
  program and no AppInit conflict (except for a stop or a rollback); a legacy service that cannot inject,
  for every action that starts the new one; and a status that authorizes the action.  Otherwise nothing
  is executed and the run fails.
\<close>

theorem machine_action_is_gated:
  assumes "execute_machine_action_with (logged mb) action profile (s, []) = (r, s', log)"
  shows "gated_run action profile r log"
proof (cases "profile_contract_is_valid action profile")
  case False
  then show ?thesis using assms by (auto simp: execute_machine_action_with_def ofail_def gated_run_def)
next
  case valid: True
  obtain r1 s1 l1 where tray: "require_no_tray (logged mb) action (s, []) = (r1, s1, l1)"
    using prod_cases3 by blast
  obtain r2 s2 l2 where appinit: "observed_appinit_conflict (logged mb) action (s1, l1) = (r2, s2, l2)"
    using prod_cases3 by blast
  obtain status s3 where status: "mb_new_service_status mb s2 = (status, s3)" by fastforce
  note l1 = tray_gate [OF tray]
  from appinit_gate [OF appinit] obtain more where l2: "l2 = l1 @ more" "\<not> list_ex is_executed more"
    and conflict: "r2 = Inr False \<longrightarrow> exempt_from_gates action \<or> SawAppInit (Inr False) \<in> set more"
    by blast
  show ?thesis
  proof (cases "isl r1 \<or> isl r2")
    case True
    then show ?thesis
      using assms valid tray appinit l1 l2
      by (cases r1; cases r2) (auto simp: execute_machine_action_with_def obind_apply gated_run_def)
  next
    case False
    then obtain u b where ok: "r1 = Inr u" "r2 = Inr b" by (cases r1; cases r2) auto
    let ?log = "l2 @ [SawStatus status]"
    have clean: "\<not> list_ex is_executed ?log" using l1 l2 by auto
    have passed: "gates_passed action profile (?log @ more')"
      if "action \<notin> {MaInstall, MaStart, MaPublishProfile} \<or> SawLegacy (Inr False) \<in> set more'"
        and "action = MaRollback \<or> (case native_action_authorized status action of
               Some authorized \<Rightarrow> authorized | None \<Rightarrow> safe_machine_state status)"
        and "b = False \<or> exempt_from_gates action" for more'
      using that valid l1 l2 conflict ok by (auto simp: gates_passed_def)
    have run: "dispatch_machine_action (logged mb) action profile b status (s3, ?log) = (r, s', log)"
      using assms valid tray appinit ok status
      by (simp add: execute_machine_action_with_def obind_apply observe_def with_log_def)
    show ?thesis by (rule dispatched_is_gated [OF run clean valid]) (fact passed)
  qed
qed

section \<open>A publication that fails is undone\<close>

text \<open>An action without input that succeeded, what was executed, and whether it succeeded.\<close>

definition made :: "machine_action \<Rightarrow> machine_call" where
  "made action = Executed action None (Inr ())"

fun executed_action :: "machine_call \<Rightarrow> (machine_action \<times> string option) option" where
  "executed_action (Executed action profile r) = Some (action, profile)"
| "executed_action _ = None"

fun went_well :: "machine_call \<Rightarrow> bool" where
  "went_well (Executed _ _ r) \<longleftrightarrow> \<not> isl r"
| "went_well _ \<longleftrightarrow> True"

text \<open>The actions that bring the service up, and those that take a publication back.\<close>

definition activation_steps :: "installation_state \<Rightarrow> machine_action list" where
  "activation_steps installation =
     (case installation of InstAbsent \<Rightarrow> [MaInstall, MaStart] | InstOutdated \<Rightarrow> [MaUpgrade, MaStart] | _ \<Rightarrow> [MaStart])"

definition undo_steps :: "system_service_status \<Rightarrow> bool \<Rightarrow> machine_action list" where
  "undo_steps before changed =
     [MaStop] @ (if changed then [MaRollback] else [])
     @ (if ss_installation before = InstAbsent then [MaRemove]
        else if ss_runtime before = RunRunning then [MaStart] else [])"

text \<open>A failure behind which the machine was cleaned up: the failure itself, unless a clean-up failed.\<close>

definition reported_behind :: "action_failure \<Rightarrow> machine_call list \<Rightarrow> action_failure + unit \<Rightarrow> bool" where
  "reported_behind e cleanup r \<longleftrightarrow>
     (\<exists>f. r = Inl f \<and> (if list_all went_well cleanup then f = e else af_rollback f = RollbackFailed))"

definition carries_out :: "machine_call list \<Rightarrow> machine_action list \<Rightarrow> bool" where
  "carries_out calls actions \<longleftrightarrow> map executed_action calls = map (\<lambda>action. Some (action, None)) actions"

text \<open>
  The service was brought up and seen with the profile within the polls; or a step failed, or it was
  never seen with the profile.
\<close>

definition seen_active :: "string \<Rightarrow> machine_call list \<Rightarrow> bool" where
  "seen_active digest calls \<longleftrightarrow>
     (\<exists>waiting status. calls = map SawStatus (waiting @ [status]) \<and> length waiting < READY_ATTEMPTS
        \<and> status_injection_active status (Some digest)
        \<and> list_all (\<lambda>status. \<not> status_injection_active status (Some digest)) waiting)"

definition failed_activation ::
  "string \<Rightarrow> system_service_status \<Rightarrow> action_failure \<Rightarrow> machine_call list \<Rightarrow> bool" where
  "failed_activation digest before e calls \<longleftrightarrow>
     (let steps = activation_steps (ss_installation before)
      in (\<exists>passed failed rest. steps = passed @ failed # rest
            \<and> calls = map made passed @ [Executed failed None (Inl e)])
         \<or> (\<exists>polls. calls = map made steps @ map SawStatus polls \<and> length polls = READY_ATTEMPTS
              \<and> list_all (\<lambda>status. \<not> status_injection_active status (Some digest)) polls
              \<and> e = not_ready_failure digest (List.last polls)))"

text \<open>Every way a publication ends, by the calls it made.\<close>

definition publication_ended ::
  "(string \<Rightarrow> string) \<Rightarrow> string \<Rightarrow> action_failure + unit \<Rightarrow> machine_call list \<Rightarrow> bool" where
  "publication_ended sha profile r log \<longleftrightarrow>
     log = [] \<and> isl r \<and> \<not> profile_size_ok profile
     \<or> (\<exists>before. log = [SawStatus before] \<and> isl r \<and> \<not> safe_machine_state before)
     \<or> (\<exists>before calls.
          let digest = from_profile_bytes sha profile;
              running = (ss_runtime before = RunRunning);
              stopped = (if running then [made MaStop] else []);
              published = [Executed MaPublishProfile (Some profile) (Inr ())]
          in log = SawStatus before # calls \<and> profile_size_ok profile \<and> safe_machine_state before
           \<and> (r = Inr () \<and> (\<exists>seen. seen_active digest seen
                 \<and> calls = stopped @ published @ map made (activation_steps (ss_installation before)) @ seen)
            \<or> (\<exists>e. running \<and> calls = [Executed MaStop None (Inl e)] \<and> r = Inl e)
            \<or> (\<exists>e restart. calls = stopped @ [Executed MaPublishProfile (Some profile) (Inl e)] @ restart
                 \<and> carries_out restart (if running then [MaStart] else []) \<and> reported_behind e restart r)
            \<or> (\<exists>e attempt undo. calls = stopped @ published @ attempt @ undo
                 \<and> failed_activation digest before e attempt
                 \<and> carries_out undo (undo_steps before (ss_active_profile_digest before \<noteq> Some digest))
                 \<and> reported_behind e undo r)))"

subsection \<open>The clean-up\<close>

lemma carries_out_append: "carries_out xs as \<Longrightarrow> carries_out ys bs \<Longrightarrow> carries_out (xs @ ys) (as @ bs)"
  by (simp add: carries_out_def)

lemma cleanup_logged:
  assumes "cleanup_step (logged mb) label action failures (s, log) = (r, s', log')"
  shows "\<exists>call failures'. log' = log @ [call] \<and> carries_out [call] [action] \<and> r = Inr failures'
    \<and> (failures' = [] \<longleftrightarrow> failures = [] \<and> went_well call)"
  using assms
  by (auto simp: cleanup_step_def operation_apply with_log_def carries_out_def split: prod.splits sum.splits)

lemma rollback_logged:
  assumes "rollback_published_profile (logged mb) before changed (s, log) = (r, s', log')"
  shows "\<exists>undo. log' = log @ undo \<and> carries_out undo (undo_steps before changed)
    \<and> (isl r \<longleftrightarrow> \<not> list_all went_well undo)"
proof -
  let ?rollback = "\<lambda>failures. if changed then cleanup_step (logged mb) ''profile rollback'' MaRollback failures else oret failures"
  let ?third = "\<lambda>failures. if ss_installation before = InstAbsent
      then cleanup_step (logged mb) ''remove newly installed service'' MaRemove failures
      else if ss_runtime before = RunRunning then cleanup_step (logged mb) ''restart prior service'' MaStart failures
      else oret failures"
  let ?third_steps = "if ss_installation before = InstAbsent then [MaRemove]
      else if ss_runtime before = RunRunning then [MaStart] else []"
  have optional: "\<exists>calls failures'. log' = log @ calls \<and> carries_out calls (if b then [action] else [])
      \<and> r = Inr failures' \<and> (failures' = [] \<longleftrightarrow> failures = [] \<and> list_all went_well calls)"
    if "(if b then cleanup_step (logged mb) label action failures else oret failures) (s, log) = (r, s', log')"
    for b label action failures s log r s' log'
    using that cleanup_logged [of mb label action failures s log r s' log']
    by (cases b) (auto simp: oret_def carries_out_def)
  obtain r1 s1 log1 where 1: "cleanup_step (logged mb) ''stop'' MaStop [] (s, log) = (r1, s1, log1)"
    using prod_cases3 by blast
  obtain c1 f1 where c1: "log1 = log @ [c1]" "carries_out [c1] [MaStop]" "r1 = Inr f1" "f1 = [] \<longleftrightarrow> went_well c1"
    using cleanup_logged [OF 1] by auto
  obtain r2 s2 log2 where 2: "?rollback f1 (s1, log1) = (r2, s2, log2)" using prod_cases3 by blast
  obtain c2 f2 where c2: "log2 = log1 @ c2" "carries_out c2 (if changed then [MaRollback] else [])" "r2 = Inr f2"
      "f2 = [] \<longleftrightarrow> f1 = [] \<and> list_all went_well c2"
    using optional [OF 2] by blast
  obtain r3 s3 log3 where 3: "?third f2 (s2, log2) = (r3, s3, log3)" using prod_cases3 by blast
  have "\<exists>calls failures'. log3 = log2 @ calls \<and> carries_out calls ?third_steps
      \<and> r3 = Inr failures' \<and> (failures' = [] \<longleftrightarrow> f2 = [] \<and> list_all went_well calls)"
    using 3 optional [of "ss_installation before = InstAbsent" "''remove newly installed service''" MaRemove f2 s2 log2 r3 s3 log3]
      optional [of "ss_runtime before = RunRunning" "''restart prior service''" MaStart f2 s2 log2 r3 s3 log3]
    by (cases "ss_installation before = InstAbsent") auto
  then obtain c3 f3 where c3: "log3 = log2 @ c3" "carries_out c3 ?third_steps" "r3 = Inr f3"
      "f3 = [] \<longleftrightarrow> f2 = [] \<and> list_all went_well c3" by blast
  have "r = (if f3 = [] then Inr () else Inl (internal (joined ''; '' f3)))" "log' = log3"
    using assms 1 c1(3) 2 c2(3) 3 c3(3)
    by (auto simp: rollback_published_profile_def obind_apply oret_def ofail_def split: if_splits)
  moreover have "carries_out ([c1] @ c2 @ c3) (undo_steps before changed)"
    unfolding undo_steps_def by (intro carries_out_append c1(2) c2(2) c3(2))
  ultimately show ?thesis using c1 c2 c3 by (intro exI [of _ "[c1] @ c2 @ c3"]) auto
qed

lemma undo_logged:
  assumes "undo_publication (logged mb) before changed e (s, log) = (r, s', log')"
  shows "\<exists>undo. log' = log @ undo \<and> carries_out undo (undo_steps before changed) \<and> reported_behind e undo r"
proof -
  obtain r1 s1 log1 where 1: "rollback_published_profile (logged mb) before changed (s, log) = (r1, s1, log1)"
    using prod_cases3 by blast
  then have "log' = log1" "r = Inl (combine_rollback_error e r1)"
    using assms by (auto simp: undo_publication_def operation_apply)
  then show ?thesis
    using rollback_logged [OF 1]
    by (cases r1) (auto simp: reported_behind_def combine_rollback_error_def with_rollback_def)
qed

subsection \<open>The activation\<close>

lemma activation_logged:
  assumes "activate_published (logged mb) installation (s, log) = (r, s', log')"
  shows "\<exists>calls. log' = log @ calls
    \<and> (r = Inr () \<and> calls = map made (activation_steps installation)
       \<or> (\<exists>e passed failed rest. r = Inl e \<and> activation_steps installation = passed @ failed # rest
            \<and> calls = map made passed @ [Executed failed None (Inl e)]))"
proof -
  have one: "\<exists>calls. log' = log @ calls \<and> (r = Inr () \<and> calls = map made [MaStart]
      \<or> (\<exists>e passed failed rest. r = Inl e \<and> [MaStart] = passed @ failed # rest
            \<and> calls = map made passed @ [Executed failed None (Inl e)]))"
    if "mb_execute (logged mb) MaStart None (s, log) = (r, s', log')"
    using that by (cases r) (auto simp: with_log_def made_def Cons_eq_append_conv split: prod.splits)
  have two: "\<exists>calls. log' = log @ calls \<and> (r = Inr () \<and> calls = map made [action, MaStart]
      \<or> (\<exists>e passed failed rest. r = Inl e \<and> [action, MaStart] = passed @ failed # rest
            \<and> calls = map made passed @ [Executed failed None (Inl e)]))"
    if run: "obind (mb_execute (logged mb) action None) (\<lambda>_. mb_execute (logged mb) MaStart None) (s, log) = (r, s', log')"
    for action
  proof -
    obtain r1 s1 where 1: "mb_execute mb action None s = (r1, s1)" by fastforce
    show ?thesis
    proof (cases r1)
      case (Inl e)
      then have "r = Inl e" "log' = log @ [Executed action None (Inl e)]"
        using run 1 by (auto simp: obind_apply with_log_def)
      then show ?thesis by (auto simp: Cons_eq_append_conv)
    next
      case (Inr u)
      obtain r2 s2 where 2: "mb_execute mb MaStart None s1 = (r2, s2)" by fastforce
      have log: "r = r2" "log' = log @ [made action, Executed MaStart None r2]"
        using run 1 2 Inr by (auto simp: obind_apply with_log_def made_def)
      show ?thesis
      proof (cases r2)
        case (Inl e)
        then show ?thesis
          using log by (intro exI [of _ "[made action, Executed MaStart None (Inl e)]"])
            (simp, rule exI [of _ "[action]"], simp)
      qed (use log in \<open>simp add: made_def\<close>)
    qed
  qed
  show ?thesis
    using assms one two
    by (cases installation) (simp_all add: activate_published_def activation_steps_def)
qed

lemma polls_logged:
  assumes "poll_published digest (mb_new_service_status (logged mb)) n (s, log) = (r, s', log')" and "0 < n"
  shows "\<exists>waiting status. log' = log @ map SawStatus (waiting @ [status])
    \<and> list_all (\<lambda>status. \<not> status_injection_active status (Some digest)) waiting
    \<and> (r = Inr () \<and> length waiting < n \<and> status_injection_active status (Some digest)
       \<or> r = Inl (not_ready_failure digest status) \<and> Suc (length waiting) = n
         \<and> \<not> status_injection_active status (Some digest))"
  using assms
proof (induction n arbitrary: s log)
  case (Suc n)
  obtain status s1 where 1: "mb_new_service_status mb s = (status, s1)" by fastforce
  show ?case
  proof (cases "status_injection_active status (Some digest) \<or> n = 0")
    case True
    then show ?thesis
      using Suc.prems(1) 1
      by (intro exI [of _ "[]"] exI [of _ status]) (auto simp: with_log_def split: if_splits)
  next
    case False
    then have "poll_published digest (mb_new_service_status (logged mb)) n (s1, log @ [SawStatus status]) = (r, s', log')"
      using Suc.prems(1) 1 by (simp add: with_log_def)
    from Suc.IH [OF this] False obtain waiting final where
        "log' = log @ [SawStatus status] @ map SawStatus (waiting @ [final])"
        "list_all (\<lambda>status. \<not> status_injection_active status (Some digest)) waiting"
        "r = Inr () \<and> length waiting < n \<and> status_injection_active final (Some digest)
         \<or> r = Inl (not_ready_failure digest final) \<and> Suc (length waiting) = n
           \<and> \<not> status_injection_active final (Some digest)"
      by auto
    then show ?thesis using False by (intro exI [of _ "status # waiting"] exI [of _ final]) auto
  qed
qed simp

subsection \<open>The whole publication\<close>

definition activate_and_verify ::
  "(string \<Rightarrow> string) \<Rightarrow> 's machine_backend \<Rightarrow> string \<Rightarrow> system_service_status \<Rightarrow> ('s, action_failure, unit) operation" where
  "activate_and_verify sha mb profile before =
     (let expected = from_profile_bytes sha profile;
          changed = (ss_active_profile_digest before \<noteq> Some expected)
      in obind (otry (activate_published mb (ss_installation before))) (\<lambda>activation.
         case activation of
           Inl error \<Rightarrow> undo_publication mb before changed error
         | Inr _ \<Rightarrow>
             obind (otry (wait_for_published_profile_with expected READY_ATTEMPTS (mb_new_service_status mb))) (\<lambda>ready.
             case ready of
               Inl error \<Rightarrow> undo_publication mb before changed error
             | Inr _ \<Rightarrow> oret ())))"

definition restart_after_failure ::
  "'s machine_backend \<Rightarrow> bool \<Rightarrow> action_failure \<Rightarrow> ('s, action_failure, unit) operation" where
  "restart_after_failure mb was_running error =
     (if \<not> was_running then ofail error
      else obind (otry (mb_execute mb MaStart None)) (\<lambda>restart.
        case restart of
          Inr _ \<Rightarrow> ofail error
        | Inl restart \<Rightarrow>
            ofail (with_rollback RollbackFailed (append_detail
              (''; machine integration cleanup is unknown because the prior service could not be restarted: ''
               @ af_detail restart) error))))"

lemma publication_steps:
  "publish_profile_transaction_with sha mb profile =
     (if \<not> profile_size_ok profile
      then ofail (internal ''the published profile payload is outside the allowed range'')
      else obind (observe (mb_new_service_status mb)) (\<lambda>before.
      if \<not> safe_machine_state before
      then ofail (internal ''the new service is foreign, transitioning, or unsafe'')
      else let was_running = (ss_runtime before = RunRunning)
           in obind (if was_running then mb_execute mb MaStop None else oret ()) (\<lambda>_.
              obind (otry (mb_execute mb MaPublishProfile (Some profile))) (\<lambda>published.
              case published of
                Inl error \<Rightarrow> restart_after_failure mb was_running error
              | Inr _ \<Rightarrow> activate_and_verify sha mb profile before))))"
  unfolding publish_profile_transaction_with_def restart_after_failure_def activate_and_verify_def Let_def
  by (rule refl)

lemma restart_logged:
  assumes "restart_after_failure (logged mb) running e (s, log) = (r, s', log')"
  shows "\<exists>restart. log' = log @ restart \<and> carries_out restart (if running then [MaStart] else [])
    \<and> reported_behind e restart r"
  using assms
  by (auto simp: restart_after_failure_def operation_apply with_log_def carries_out_def reported_behind_def
      with_rollback_def split: if_splits prod.splits sum.splits)

lemma verified_logged:
  assumes "activate_and_verify sha (logged mb) profile before (s, log) = (r, s', log')"
  shows "\<exists>calls. log' = log @ calls \<and>
    (let digest = from_profile_bytes sha profile
     in r = Inr () \<and> (\<exists>seen. seen_active digest seen \<and> calls = map made (activation_steps (ss_installation before)) @ seen)
      \<or> (\<exists>e attempt undo. calls = attempt @ undo \<and> failed_activation digest before e attempt
           \<and> carries_out undo (undo_steps before (ss_active_profile_digest before \<noteq> Some digest))
           \<and> reported_behind e undo r))"
proof -
  let ?digest = "from_profile_bytes sha profile" and ?steps = "activation_steps (ss_installation before)"
  let ?changed = "ss_active_profile_digest before \<noteq> Some ?digest"
  have undone: "\<exists>calls. log' = log @ calls \<and>
      (\<exists>e attempt undo. calls = attempt @ undo \<and> failed_activation ?digest before e attempt
         \<and> carries_out undo (undo_steps before ?changed) \<and> reported_behind e undo r)"
    if "undo_publication (logged mb) before ?changed e (s1, log @ attempt) = (r, s', log')"
      and "failed_activation ?digest before e attempt" for e s1 attempt
  proof -
    from undo_logged [OF that(1)] obtain undo where "log' = (log @ attempt) @ undo"
      "carries_out undo (undo_steps before ?changed)" "reported_behind e undo r" by blast
    with that(2) show ?thesis by (intro exI [of _ "attempt @ undo"]) auto
  qed
  obtain r1 s1 log1 where 1: "activate_published (logged mb) (ss_installation before) (s, log) = (r1, s1, log1)"
    using prod_cases3 by blast
  from activation_logged [OF 1] obtain calls1 where log1: "log1 = log @ calls1"
    and ended: "r1 = Inr () \<and> calls1 = map made ?steps
       \<or> (\<exists>e passed failed rest. r1 = Inl e \<and> ?steps = passed @ failed # rest
            \<and> calls1 = map made passed @ [Executed failed None (Inl e)])" by blast
  show ?thesis
  proof (cases r1)
    case (Inl e)
    then have "failed_activation ?digest before e calls1" using ended by (auto simp: failed_activation_def Let_def)
    moreover have "undo_publication (logged mb) before ?changed e (s1, log @ calls1) = (r, s', log')"
      using assms 1 Inl log1 by (simp add: activate_and_verify_def Let_def obind_apply otry_def)
    ultimately show ?thesis unfolding Let_def by (meson undone)
  next
    case (Inr u)
    then have calls1: "calls1 = map made ?steps" using ended by auto
    obtain r2 s2 log2 where 2: "poll_published ?digest (mb_new_service_status (logged mb)) READY_ATTEMPTS (s1, log1)
        = (r2, s2, log2)" using prod_cases3 by blast
    have "0 < READY_ATTEMPTS" by (simp add: READY_ATTEMPTS_def)
    from polls_logged [OF 2 this] obtain waiting status where log2: "log2 = log1 @ map SawStatus (waiting @ [status])"
      and waiting: "list_all (\<lambda>status. \<not> status_injection_active status (Some ?digest)) waiting"
      and polled: "r2 = Inr () \<and> length waiting < READY_ATTEMPTS \<and> status_injection_active status (Some ?digest)
       \<or> r2 = Inl (not_ready_failure ?digest status) \<and> Suc (length waiting) = READY_ATTEMPTS
         \<and> \<not> status_injection_active status (Some ?digest)" by blast
    let ?seen = "map SawStatus (waiting @ [status])"
    show ?thesis
    proof (cases r2)
      case r2: (Inl e)
      have "failed_activation ?digest before e (calls1 @ ?seen)"
        using waiting polled r2 calls1 unfolding failed_activation_def Let_def
        by (intro disjI2 exI [of _ "waiting @ [status]"]) auto
      moreover have "undo_publication (logged mb) before ?changed e (s2, log @ calls1 @ ?seen) = (r, s', log')"
        using assms 1 2 Inr r2 log1 log2
        by (simp add: activate_and_verify_def wait_for_published_profile_with_def Let_def obind_apply otry_def)
      ultimately show ?thesis unfolding Let_def by (meson undone)
    next
      case r2: (Inr u2)
      then have "seen_active ?digest ?seen" using waiting polled by (auto simp: seen_active_def)
      moreover have "r = Inr ()" "log' = log @ calls1 @ ?seen"
        using assms 1 2 Inr r2 log1 log2
        by (simp_all add: activate_and_verify_def wait_for_published_profile_with_def Let_def obind_apply otry_def oret_def)
      ultimately show ?thesis using calls1 unfolding Let_def by blast
    qed
  qed
qed

lemma publication_logged:
  assumes "publish_profile_transaction_with sha (logged mb) profile (s, []) = (r, s', log)"
  shows "publication_ended sha profile r log"
proof -
  obtain before s0 where status: "mb_new_service_status mb s = (before, s0)" by fastforce
  consider "\<not> profile_size_ok profile" | "profile_size_ok profile" "\<not> safe_machine_state before"
    | (publishes) "profile_size_ok profile" "safe_machine_state before" by blast
  then show ?thesis
  proof cases
    case publishes
    let ?running = "ss_runtime before = RunRunning"
    let ?stop = "if ?running then mb_execute (logged mb) MaStop None else oret ()"
    obtain r1 s1 log1 where 1: "?stop (s0, [SawStatus before]) = (r1, s1, log1)" using prod_cases3 by blast
    have stop: "if r1 = Inr () then log1 = SawStatus before # (if ?running then [made MaStop] else [])
        else ?running \<and> (\<exists>e. r1 = Inl e \<and> log1 = [SawStatus before, Executed MaStop None (Inl e)])"
      using 1 by (cases r1) (auto simp: with_log_def oret_def made_def split: if_splits prod.splits)
    obtain r2 s2 where 2: "mb_execute mb MaPublishProfile (Some profile) s1 = (r2, s2)" by fastforce
    let ?log = "log1 @ [Executed MaPublishProfile (Some profile) r2]"
    have run: "(case r1 of Inl e \<Rightarrow> (Inl e, s1, log1) | Inr _ \<Rightarrow>
        (case r2 of Inl e \<Rightarrow> restart_after_failure (logged mb) ?running e (s2, ?log)
         | Inr _ \<Rightarrow> activate_and_verify sha (logged mb) profile before (s2, ?log))) = (r, s', log)"
      using assms publishes status 1 2
      by (cases r1; cases r2) (auto simp: publication_steps obind_apply observe_def with_log_def otry_def Let_def)
    show ?thesis
    proof (cases r1)
      case (Inl e)
      then show ?thesis using run stop publishes by (auto simp: publication_ended_def Let_def)
    next
      case (Inr u)
      with stop have log1: "log1 = SawStatus before # (if ?running then [made MaStop] else [])" by simp
      show ?thesis
      proof (cases r2)
        case r2: (Inl e)
        with run Inr have "restart_after_failure (logged mb) ?running e (s2, ?log) = (r, s', log)" by simp
        from restart_logged [OF this] r2 log1 publishes show ?thesis
          unfolding publication_ended_def Let_def by (intro disjI2 exI [of _ before]) auto
      next
        case r2: (Inr u2)
        with run Inr have "activate_and_verify sha (logged mb) profile before (s2, ?log) = (r, s', log)" by simp
        from verified_logged [OF this] r2 log1 publishes show ?thesis
          unfolding publication_ended_def Let_def by (intro disjI2 exI [of _ before]) auto
      qed
    qed
  qed (use assms status in
      \<open>auto simp: publication_steps operation_apply publication_ended_def with_log_def\<close>)
qed

text \<open>
  C34.  A publication succeeds or is undone, told by the calls it makes of any back end.  It is refused
  with nothing executed when the payload has no allowed size or the service is foreign, transitioning or
  unsafe.  Otherwise a running service is stopped and the profile is published; when the publication
  fails, a service that was running is started again.  A published profile is activated, with an
  installation or upgrade where the service is absent or outdated, and the publication succeeds exactly
  when one of at most 200 polls shows injection active with the profile.  When the activation fails or no
  poll shows it, the service is stopped, the profile rolled back unless the first status named it, and a
  service that was absent is removed, one that was running started again, each step even if one before
  it failed.  The failure that is returned is the one that occurred, or reports a failed rollback when a
  step of the clean-up failed.
\<close>

theorem publication_succeeds_or_is_undone:
  assumes "publish_profile_transaction_with sha (logged mb) profile (s, []) = (r, s', log)"
  shows "publication_ended sha profile r log"
  using assms by (rule publication_logged)

section \<open>A stopped service\<close>

text \<open>Only a running service is seen with a profile, so the status of a stopped one names none.\<close>

lemma owned_status_runtime: "ss_runtime (owned_status path_of a c runtime process) = runtime"
  by (simp add: owned_status_def Let_def)

lemma stopped_status_names_no_profile:
  assumes "ss_runtime (query_status path_of a) \<noteq> RunRunning"
  shows "ss_active_profile_digest (query_status path_of a) = None"
proof -
  have "ss_active_profile_digest (owned_status path_of a c runtime process) = None" if "runtime \<noteq> RunRunning" for c runtime process
    using that by (auto simp: owned_status_def select_service_health_def result_ok_def Let_def split: option.splits)
  then show ?thesis
    using assms
    by (auto simp: query_status_def absent_status_def inaccessible_def foreign_status_def Let_def owned_status_runtime
        split: sum.splits prod.splits if_splits)
qed

text \<open>
  C40.  On a stopped service, a publication that fails behind the publishing of the profile always rolls
  the profile back: the first status, whatever the machine answered to the query, names no profile, so
  the profile counts as changed even when the store had it active before.  The roll-back is executed
  whatever the back end is.
\<close>

theorem stopped_publication_always_rolls_back:
  assumes "publish_profile_transaction_with sha (logged mb) profile (s, [])
      = (Inl e, s', SawStatus (query_status path_of a) # calls)"
    and "ss_runtime (query_status path_of a) \<noteq> RunRunning"
    and "Executed MaPublishProfile (Some profile) (Inr ()) \<in> set calls"
  shows "\<exists>x. Executed MaRollback None x \<in> set calls"
proof -
  let ?before = "query_status path_of a" and ?digest = "from_profile_bytes sha profile"
  have none: "ss_active_profile_digest ?before = None" by (rule stopped_status_names_no_profile [OF assms(2)])
  have "\<not> carries_out (pre @ Executed MaPublishProfile (Some profile) (Inr ()) # post) (if b then [MaStart] else [])" for pre post b
    by (auto simp: carries_out_def append_eq_Cons_conv)
  with publication_logged [OF assms(1)] assms(2,3) have "\<exists>stopped undo. calls = stopped @ undo
      \<and> carries_out undo (undo_steps ?before (ss_active_profile_digest ?before \<noteq> Some ?digest))"
    by (auto simp: publication_ended_def Let_def carries_out_def) (metis append_Cons)
  then obtain stopped undo where calls: "calls = stopped @ undo"
    and undo: "carries_out undo (undo_steps ?before (ss_active_profile_digest ?before \<noteq> Some ?digest))" by blast
  have "Some (MaRollback, None) \<in> set (map executed_action undo)"
    using undo none by (simp add: carries_out_def undo_steps_def)
  then obtain c where "c \<in> set undo" "executed_action c = Some (MaRollback, None)" by auto
  moreover have "\<exists>x. c = Executed MaRollback None x" if "executed_action c = Some (MaRollback, None)"
    using that by (cases c rule: machine_call.exhaust) simp_all
  ultimately show ?thesis by (auto simp: calls)
qed

section \<open>A machine on which chosen actions fail\<close>

definition refusing_machine :: "machine_action list \<Rightarrow> system_service_status \<Rightarrow> unit machine_backend" where
  "refusing_machine refused status =
     \<lparr>mb_new_service_status = (\<lambda>s. (status, s)),
      mb_package_state = (\<lambda>s. (PackageReady, s)),
      mb_legacy_tray_status = (\<lambda>s. (tray_status_from_states TpAbsent TsAbsent, s)),
      mb_appinit_conflict = oret False,
      mb_legacy_service_blocks = oret False,
      mb_execute = (\<lambda>action profile. if action \<in> set refused then ofail (internal ''refused'') else oret ())\<rparr>"

definition stopped_status :: system_service_status where
  "stopped_status = absent_status
     \<lparr>ss_backend := OpenSource, ss_installation := InstCurrent, ss_runtime := RunStopped, ss_can_start := True\<rparr>"

definition no_service :: scm_answers where
  "no_service =
     (let io = \<lparr>io_message = [], raw_os_error = None\<rparr>
      in \<lparr>sa_connect = Inr (), sa_open = Inr False, sa_config = Inl io, sa_status = Inl io,
          sa_roots = Inl [], sa_current_binary = Inl [], sa_bundled_binary = Inl [], sa_live_health = Inl [],
          sa_persisted_health = Inl []\<rparr>)"

lemmas refusing_run = publication_steps activate_and_verify_def restart_after_failure_def activate_published_def
  undo_publication_def rollback_published_profile_def cleanup_step_def refusing_machine_def logged_def with_log_def
  stopped_status_def absent_status_def safe_machine_state_def stable_runtime_def profile_size_ok_def
  MAX_PROFILE_BYTES_def combine_rollback_error_def operation_apply

lemma publication_succeeds_or_is_undone_witness:
  "let log = [SawStatus stopped_status, Executed MaPublishProfile (Some ''[General]'') (Inr ()),
        Executed MaStart None (Inl (internal ''refused'')), made MaStop, made MaRollback]
   in publish_profile_transaction_with id (logged (refusing_machine [MaStart] stopped_status)) ''[General]'' ((), [])
        = (Inl (internal ''refused''), (), log)
      \<and> publication_ended id ''[General]'' (Inl (internal ''refused'')) log"
proof -
  have "publish_profile_transaction_with id (logged (refusing_machine [MaStart] stopped_status)) ''[General]'' ((), [])
      = (Inl (internal ''refused''), (),
         [SawStatus stopped_status, Executed MaPublishProfile (Some ''[General]'') (Inr ()),
          Executed MaStart None (Inl (internal ''refused'')), made MaStop, made MaRollback])"
    by (simp add: refusing_run made_def Let_def)
  from this publication_succeeds_or_is_undone [OF this] show ?thesis by (simp only: Let_def simp_thms)
qed

lemma stopped_publication_always_rolls_back_witness:
  "\<exists>calls x. publish_profile_transaction_with id (logged (refusing_machine [MaStart] (query_status (\<lambda>_. []) no_service)))
        ''[General]'' ((), []) = (Inl (internal ''refused''), (), SawStatus (query_status (\<lambda>_. []) no_service) # calls)
     \<and> Executed MaRollback None x \<in> set calls"
proof -
  have status: "query_status (\<lambda>_. []) no_service = absent_status" by (simp add: query_status_def no_service_def Let_def)
  let ?calls = "[Executed MaPublishProfile (Some ''[General]'') (Inr ()), made MaInstall,
      Executed MaStart None (Inl (internal ''refused'')), made MaStop, made MaRollback, made MaRemove]"
  have run: "publish_profile_transaction_with id (logged (refusing_machine [MaStart] (query_status (\<lambda>_. []) no_service)))
        ''[General]'' ((), []) = (Inl (internal ''refused''), (), SawStatus (query_status (\<lambda>_. []) no_service) # ?calls)"
    unfolding status by (simp add: refusing_run made_def Let_def)
  have "\<exists>x. Executed MaRollback None x \<in> set ?calls"
    by (rule stopped_publication_always_rolls_back [OF run]) (simp_all add: status absent_status_def)
  with run show ?thesis by blast
qed

lemma machine_action_is_gated_witness:
  "case execute_machine_action_with (logged (refusing_machine [] stopped_status)) MaStart (Some ''[General]'') ((), []) of
     (r, w, log) \<Rightarrow> gated_run MaStart (Some ''[General]'') r log"
proof -
  obtain r w log where
    "execute_machine_action_with (logged (refusing_machine [] stopped_status)) MaStart (Some ''[General]'') ((), []) = (r, w, log)"
    using prod_cases3 by blast
  with machine_action_is_gated [OF this] show ?thesis by simp
qed

end
