(* ===== verification/Status_Properties.thy ===== *)
theory Status_Properties
  imports Machine_Status
begin

text \<open>
  What a status of the open service says: its fields fit together whatever the machine answered, and
  injection is reported active for a process of the service manager only.
\<close>

section \<open>Well-formed statuses\<close>

definition capability_offered :: "system_service_status \<Rightarrow> bool" where
  "capability_offered s \<longleftrightarrow>
     ss_can_install s \<or> ss_can_remove s \<or> ss_can_start s \<or> ss_can_stop s \<or> ss_can_repair s \<or> ss_can_upgrade s"

text \<open>The fields of a status that restrict each other.\<close>

definition well_formed_status :: "system_service_status \<Rightarrow> bool" where
  "well_formed_status s \<longleftrightarrow>
     (ss_can_install s \<longrightarrow> ss_installation s = InstAbsent \<and> ss_backend s = NoBackend)
     \<and> (ss_can_remove s \<longrightarrow> stable_runtime (ss_runtime s))
     \<and> (ss_can_start s \<longrightarrow> ss_runtime s = RunStopped \<and> ss_installation s = InstCurrent \<and> \<not> ss_configuration_drift s)
     \<and> (ss_can_stop s \<longrightarrow> ss_runtime s = RunRunning)
     \<and> (ss_can_repair s \<longrightarrow> stable_runtime (ss_runtime s) \<and> ss_installation s = InstCurrent)
     \<and> (ss_can_upgrade s \<longrightarrow> stable_runtime (ss_runtime s) \<and> ss_installation s = InstOutdated)
     \<and> (capability_offered s \<longrightarrow> ss_backend s = OpenSource \<or> ss_can_install s)
     \<and> (ss_win32_error s \<noteq> None \<longrightarrow> \<not> capability_offered s \<and> \<not> stable_runtime (ss_runtime s))
     \<and> (ss_health s \<noteq> MhUnknown \<longrightarrow> ss_backend s = OpenSource \<and> stable_runtime (ss_runtime s))
     \<and> (ss_health s = MhReady \<or> ss_active_profile_digest s \<noteq> None
          \<longrightarrow> ss_backend s = OpenSource \<and> ss_runtime s = RunRunning)
     \<and> (ss_installation s \<in> {InstCurrent, InstOutdated} \<longrightarrow> ss_backend s = OpenSource \<and> ss_binary_path s \<noteq> None)"

lemmas status_simps = well_formed_status_def capability_offered_def stable_runtime_def

lemma projection_well_formed:
  "well_formed_status s \<Longrightarrow> well_formed_status (project_new_service_capabilities s conflict tray)"
  by (auto simp: project_new_service_capabilities_def status_simps)

lemma closed_statuses [simp]:
  "well_formed_status absent_status"
  "well_formed_status (inaccessible e p)"
  "well_formed_status (foreign_status r p)"
  by (auto simp: absent_status_def inaccessible_def foreign_status_def status_simps)

lemma selected_health_cases:
  "select_service_health runtime process live persisted = Some s \<longleftrightarrow>
     stable_runtime runtime
     \<and> (if runtime = RunRunning \<and> process \<noteq> 0 \<and> live \<noteq> None \<and> lh_server_pid (the live) = process
        then s = \<lparr>sh_report = lh_report (the live), sh_live = True\<rparr>
        else \<exists>report. persisted = Some report \<and> (health report = HsDegraded \<or> health report = HsFailed)
               \<and> s = \<lparr>sh_report = report, sh_live = False\<rparr>)"
  by (auto simp: select_service_health_def Let_def split: option.splits if_splits)

lemma machine_health_inject [simp]:
  "machine_health_of h = MhReady \<longleftrightarrow> h = HsReady" "machine_health_of h = MhUnknown \<longleftrightarrow> h = HsUnknown"
  by (cases h; simp)+

lemma owned_status_well_formed: "well_formed_status (owned_status path_of a c runtime process)"
  by (auto simp: owned_status_def Let_def capabilities_of_def status_simps selected_health_cases
      split: option.splits if_splits)

text \<open>
  C36.  The status that is shown is well-formed, whatever the service manager, the file system and the
  health reports answered and whichever conflicts were seen: each capability comes with the state it
  needs, a foreign or inaccessible service offers none, and the active profile and readiness are those of
  a running owned service.
\<close>

theorem shown_status_is_well_formed:
  "well_formed_status (project_new_service_capabilities (query_status path_of a) conflict tray)"
proof (rule projection_well_formed)
  have pending: "well_formed_status (absent_status\<lparr>ss_backend := OpenSource, ss_installation := InstDeletePending,
      ss_runtime := RunUnknown, ss_win32_error := Some e, ss_can_install := False\<rparr>)" for e
    by (simp add: absent_status_def status_simps)
  show "well_formed_status (query_status path_of a)"
    by (simp add: query_status_def Let_def pending owned_status_well_formed split: sum.split prod.split)
qed

section \<open>Active injection\<close>

definition owned_root :: "path \<Rightarrow> path" where
  "owned_root program_files = path_join (path_join program_files ''MacType Control Center'') ''Service''"

text \<open>What the machine must have answered for injection to be reported with a profile.\<close>

definition service_injects :: "(string \<Rightarrow> path) \<Rightarrow> scm_answers \<Rightarrow> string \<Rightarrow> bool" where
  "service_injects path_of a digest \<longleftrightarrow>
     sa_connect a = Inr () \<and> sa_open a = Inr True
     \<and> (\<exists>c process program_files x live configured expected bundled.
          sa_config a = Inr c \<and> sa_status a = Inr (ScmRunning, process) \<and> process \<noteq> 0
          \<and> sa_roots a = Inr (program_files, x) \<and> owned_service_identity path_of c (owned_root program_files)
          \<and> configured_service_binary path_of (oc_image_path c) = Some configured
          \<and> sa_current_binary a = Inr expected \<and> sa_bundled_binary a = Inr bundled
          \<and> same_path configured expected \<and> same_path configured bundled
          \<and> sa_live_health a = Inr live \<and> lh_server_pid live = process
          \<and> health (lh_report live) = HsReady \<and> active_profile_digest (lh_report live) = Some digest)"

lemma installation_current:
  "installation_of path_of a p = InstCurrent \<longleftrightarrow>
     (\<exists>configured expected bundled. configured_service_binary path_of p = Some configured
        \<and> sa_current_binary a = Inr expected \<and> sa_bundled_binary a = Inr bundled
        \<and> same_path configured expected \<and> same_path configured bundled)"
  by (auto simp: installation_of_def classify_owned_installation_def split: option.splits sum.splits)

lemma running_state: "runtime_state_of state = RunRunning \<longleftrightarrow> state = ScmRunning"
  by (cases state) simp_all

lemma result_ok_Some [simp]: "result_ok r = Some x \<longleftrightarrow> r = Inr x"
  by (cases r) (simp_all add: result_ok_def)

lemma selected_live:
  "(select_service_health RunRunning process live persisted = Some s \<and> sh_live s) \<longleftrightarrow>
     process \<noteq> 0 \<and> (\<exists>l. live = Some l \<and> lh_server_pid l = process \<and> s = \<lparr>sh_report = lh_report l, sh_live = True\<rparr>)"
  by (auto simp: select_service_health_def Let_def stable_runtime_def split: option.splits if_splits)

lemma owned_injection:
  "status_injection_active (owned_status path_of a c runtime process) (Some digest) \<longleftrightarrow>
     installation_of path_of a (oc_image_path c) = InstCurrent \<and> runtime = RunRunning \<and> process \<noteq> 0
     \<and> (\<exists>live. sa_live_health a = Inr live \<and> lh_server_pid live = process
          \<and> health (lh_report live) = HsReady \<and> active_profile_digest (lh_report live) = Some digest)"
proof -
  let ?live = "if runtime = RunRunning then result_ok (sa_live_health a) else None"
  let ?selected = "select_service_health runtime process ?live (result_ok (sa_persisted_health a))"
  have "status_injection_active (owned_status path_of a c runtime process) (Some digest) \<longleftrightarrow>
    installation_of path_of a (oc_image_path c) = InstCurrent \<and> runtime = RunRunning
    \<and> (\<exists>s. ?selected = Some s \<and> sh_live s \<and> health (sh_report s) = HsReady
         \<and> active_profile_digest (sh_report s) = Some digest)"
    unfolding owned_status_def Let_def status_injection_active_def
    by (cases ?selected) (auto split: if_splits)
  moreover have "(\<exists>s. ?selected = Some s \<and> sh_live s \<and> P s) \<longleftrightarrow> process \<noteq> 0 \<and> (\<exists>live. sa_live_health a = Inr live
      \<and> lh_server_pid live = process \<and> P \<lparr>sh_report = lh_report live, sh_live = True\<rparr>)"
    if "runtime = RunRunning" for P
    unfolding conj_assoc [symmetric] that if_True simp_thms selected_live by auto
  ultimately show ?thesis by simp
qed

text \<open>
  C37.  Injection with a profile is reported active exactly when the running process of the owned service,
  whose image is the binary of the active and of the bundled runtime, itself reported Ready with the
  profile over its pipe, and neither an AppInit conflict nor the legacy tray was seen.
\<close>

theorem injection_is_active_only_for_the_live_service:
  "project_system_injection_active (query_status path_of a) conflict tray (Some digest)
     \<longleftrightarrow> \<not> conflict \<and> tray = TrayClear \<and> service_injects path_of a digest"
proof -
  have closed: "\<not> status_injection_active absent_status d" "\<not> status_injection_active (inaccessible e p) d"
    "\<not> status_injection_active (foreign_status r p) d"
    "\<not> status_injection_active (absent_status\<lparr>ss_backend := OpenSource, ss_installation := InstDeletePending,
        ss_runtime := RunUnknown, ss_win32_error := e', ss_can_install := False\<rparr>) d" for d e p r e'
    by (auto simp: status_injection_active_def absent_status_def inaccessible_def foreign_status_def)
  have "status_injection_active (query_status path_of a) (Some digest) \<longleftrightarrow> service_injects path_of a digest"
    by (auto simp: query_status_def service_injects_def Let_def closed owned_injection installation_current
        running_state owned_root_def split: sum.splits prod.splits)
  then show ?thesis by (simp add: project_system_injection_active_def)
qed

end
