(* ===== verification/Transfer_Frames.thy ===== *)
theory Transfer_Frames
  imports Machine_Actions Unicode_Text Profile_Catalog Json
begin

text \<open>
  How the control center talks to its elevated copy (\<open>machine_integration/open_service\<close>): the command
  line that carries one fixed verb and a transfer token and the frame of a profile (\<open>request.rs\<close>), the
  frame of the result (\<open>broker_result.rs\<close>), and what the caller makes of the exit code and the result
  (\<open>broker/elevation.rs\<close>, \<open>broker/process.rs\<close>).  The pipes that carry the frames are not modelled; the
  parser and printer of JSON and SHA-256 are parameters.
\<close>

section \<open>Numbers in frames\<close>

definition le_bytes :: "nat \<Rightarrow> nat \<Rightarrow> string" where
  "le_bytes k n = map (\<lambda>i. char_of (n div 256 ^ i mod 256)) [0..<k]"

primrec from_le_bytes :: "string \<Rightarrow> nat" where
  "from_le_bytes [] = 0"
| "from_le_bytes (c # cs) = byte c + 256 * from_le_bytes cs"

text \<open>\<open>u8::from_str_radix\<close> on a text of two characters.\<close>

definition hex_pair :: "char \<Rightarrow> char \<Rightarrow> nat option" where
  "hex_pair a b =
     (if byte a = 43 then digits_value 16 0 [byte b] else digits_value 16 0 [byte a, byte b])"

fun hex_pairs :: "string \<Rightarrow> string option" where
  "hex_pairs (a # b # rest) =
     (case hex_pair a b of
        None \<Rightarrow> None | Some n \<Rightarrow> map_option (Cons (char_of n)) (hex_pairs rest))"
| "hex_pairs _ = Some []"

text \<open>\<open>{byte:02x}\<close> for every byte.\<close>

definition hex_text :: "string \<Rightarrow> string" where
  "hex_text s = concat (map (\<lambda>c. [hex_digit (byte c div 16), hex_digit (byte c mod 16)]) s)"

section \<open>Transfer tokens\<close>

definition BROKER_SWITCH :: string where "BROKER_SWITCH = ''--control-center-service-broker''"
definition BROKER_TRANSFER_SWITCH :: string where "BROKER_TRANSFER_SWITCH = ''--broker-transfer-v1''"
definition PROFILE_TRANSFER_NONCE_BYTES :: nat where "PROFILE_TRANSFER_NONCE_BYTES = 16"

record profile_transfer_token =
  tt_server_pid :: u32
  tt_nonce :: string

record privileged_request =
  pr_action :: system_service_action
  pr_transfer :: profile_transfer_token

definition not_canonical_nonce :: string where
  "not_canonical_nonce = ''the profile transfer nonce is not canonical''"

definition parse_profile_transfer_nonce :: "string \<Rightarrow> string + string" where
  "parse_profile_transfer_nonce v =
     (if length v \<noteq> PROFILE_TRANSFER_NONCE_BYTES * 2 \<or> \<not> list_all is_lower_hex v
      then Err not_canonical_nonce
      else case hex_pairs v of None \<Rightarrow> Err not_canonical_nonce | Some nonce \<Rightarrow> Ok nonce)"

definition profile_transfer_nonce_text :: "string \<Rightarrow> string" where
  "profile_transfer_nonce_text nonce = hex_text nonce"

definition is_unicode :: "string \<Rightarrow> bool" where
  "is_unicode s \<longleftrightarrow> from_utf8 s \<noteq> None"

definition parse_canonical_pid :: "string \<Rightarrow> u32 option" where
  "parse_canonical_pid s =
     (case parse_u32_radix 10 (chars s) of
        None \<Rightarrow> None
      | Some n \<Rightarrow> if n \<noteq> 0 \<and> show_nat n = s then Some (word_of_nat n) else None)"

definition parse_request_tail :: "system_service_action \<Rightarrow> string list \<Rightarrow> string + privileged_request option" where
  "parse_request_tail action remaining =
     (case remaining of
        [switch, pid_text, nonce_text] \<Rightarrow>
          if switch \<noteq> BROKER_TRANSFER_SWITCH
          then Err ''service broker actions require one versioned transfer token''
          else if \<not> is_unicode pid_text then Err ''the broker transfer PID is not Unicode''
          else (case parse_canonical_pid pid_text of
            None \<Rightarrow> Err ''the broker transfer PID is not canonical''
          | Some server_pid \<Rightarrow>
              if \<not> is_unicode nonce_text then Err ''the broker transfer nonce is not Unicode''
              else (case parse_profile_transfer_nonce nonce_text of
                Inl e \<Rightarrow> Err e
              | Inr nonce \<Rightarrow>
                  Ok (Some \<lparr>pr_action = action,
                            pr_transfer = \<lparr>tt_server_pid = server_pid, tt_nonce = nonce\<rparr>\<rparr>)))
      | _ \<Rightarrow> Err ''service broker actions require one versioned transfer token'')"

definition privileged_request_from_arguments :: "string list \<Rightarrow> string + privileged_request option" where
  "privileged_request_from_arguments arguments =
     (case drop 1 arguments of
        [] \<Rightarrow> Ok None
      | switch # rest \<Rightarrow>
          if switch \<noteq> BROKER_SWITCH then Ok None
          else (case rest of
            [] \<Rightarrow> Err ''the elevated service broker requires one fixed verb''
          | v # remaining \<Rightarrow>
              if \<not> is_unicode v then Err ''the elevated service broker requires one fixed verb''
              else (case from_broker_verb v of
                None \<Rightarrow> Err ''unsupported elevated service broker verb''
              | Some action \<Rightarrow> parse_request_tail action remaining)))"

text \<open>The parameters the caller passes, behind the name of the executable.\<close>

definition broker_parameters :: "system_service_action \<Rightarrow> profile_transfer_token \<Rightarrow> string list" where
  "broker_parameters action token =
     [BROKER_SWITCH, action_verb action, BROKER_TRANSFER_SWITCH, show_word (tt_server_pid token),
      profile_transfer_nonce_text (tt_nonce token)]"

section \<open>Frames\<close>

text \<open>
  Both frames have the same shape: four bytes of magic, a version and a reserved field of two bytes,
  the length of the payload, the nonce, the digest of the payload and the payload.
\<close>

definition TRANSFER_HEADER_BYTES :: nat where
  "TRANSFER_HEADER_BYTES = 4 + 2 + 2 + 4 + PROFILE_TRANSFER_NONCE_BYTES + 32"

definition PROFILE_TRANSFER_MAGIC :: string where "PROFILE_TRANSFER_MAGIC = ''MTPT''"
definition PROFILE_TRANSFER_VERSION :: nat where "PROFILE_TRANSFER_VERSION = 1"
definition BROKER_RESULT_MAGIC :: string where "BROKER_RESULT_MAGIC = ''MTBR''"
definition BROKER_RESULT_VERSION :: nat where "BROKER_RESULT_VERSION = 1"
definition MAX_BROKER_RESULT_BYTES :: nat where "MAX_BROKER_RESULT_BYTES = 32 * 1024"

definition slice :: "nat \<Rightarrow> nat \<Rightarrow> 'a list \<Rightarrow> 'a list" where
  "slice a b xs = take (b - a) (drop a xs)"

definition digest_bytes :: "(string \<Rightarrow> string) \<Rightarrow> string \<Rightarrow> string \<Rightarrow> string + string" where
  "digest_bytes sha message bytes =
     (case strip_prefix (sha256_digest sha bytes) ''sha256:'' of
        None \<Rightarrow> Err message
      | Some hex \<Rightarrow>
          if length hex \<noteq> 64 then Err message
          else case hex_pairs hex of None \<Rightarrow> Err message | Some d \<Rightarrow> Ok d)"

definition profile_transfer_digest :: "(string \<Rightarrow> string) \<Rightarrow> string \<Rightarrow> string + string" where
  "profile_transfer_digest sha bytes = digest_bytes sha ''profile transfer digest is invalid'' bytes"

definition frame_of :: "string \<Rightarrow> nat \<Rightarrow> string \<Rightarrow> string \<Rightarrow> string \<Rightarrow> string" where
  "frame_of magic version nonce digest payload =
     magic @ le_bytes 2 version @ le_bytes 2 0 @ le_bytes 4 (length payload) @ nonce @ digest @ payload"

definition frame_header_ok :: "string \<Rightarrow> nat \<Rightarrow> string \<Rightarrow> string \<Rightarrow> bool" where
  "frame_header_ok magic version expected_nonce frame \<longleftrightarrow>
     TRANSFER_HEADER_BYTES \<le> length frame \<and> take 4 frame = magic
     \<and> from_le_bytes (slice 4 6 frame) = version \<and> from_le_bytes (slice 6 8 frame) = 0
     \<and> slice 12 28 frame = expected_nonce"

definition payload_length :: "string \<Rightarrow> nat" where
  "payload_length frame = from_le_bytes (slice 8 12 frame)"

definition frame_length_ok :: "nat \<Rightarrow> string \<Rightarrow> bool" where
  "frame_length_ok maximum frame \<longleftrightarrow>
     payload_length frame \<noteq> 0 \<and> payload_length frame \<le> maximum
     \<and> length frame = TRANSFER_HEADER_BYTES + payload_length frame"

definition encode_profile_transfer_frame ::
  "(string \<Rightarrow> string) \<Rightarrow> string \<Rightarrow> string \<Rightarrow> string + string" where
  "encode_profile_transfer_frame sha profile nonce =
     (if profile = [] \<or> MAX_PROFILE_BYTES < length profile
      then Err ''profile transfer payload size is outside the allowed range''
      else case profile_transfer_digest sha profile of
        Inl e \<Rightarrow> Err e
      | Inr d \<Rightarrow> Ok (frame_of PROFILE_TRANSFER_MAGIC PROFILE_TRANSFER_VERSION nonce d profile))"

definition decode_profile_transfer_frame ::
  "(string \<Rightarrow> string) \<Rightarrow> string \<Rightarrow> string \<Rightarrow> string + string" where
  "decode_profile_transfer_frame sha frame expected_nonce =
     (if \<not> frame_header_ok PROFILE_TRANSFER_MAGIC PROFILE_TRANSFER_VERSION expected_nonce frame
      then Err ''profile transfer frame header is invalid''
      else if \<not> frame_length_ok MAX_PROFILE_BYTES frame
      then Err ''profile transfer frame length is invalid''
      else (let payload = drop TRANSFER_HEADER_BYTES frame
            in case profile_transfer_digest sha payload of
                 Inl e \<Rightarrow> Err e
               | Inr d \<Rightarrow>
                   if slice 28 60 frame \<noteq> d
                   then Err ''profile transfer frame digest does not match'' else Ok payload))"

section \<open>Results of the broker\<close>

datatype broker_result_disposition = BrSuccess | BrBlocked | BrFailure

record broker_result_message =
  bm_operation :: string
  bm_disposition :: broker_result_disposition
  bm_stage :: string
  bm_error_chain :: string
  bm_rollback :: string
  bm_final_state :: string

definition MAX_OPERATION_BYTES :: nat where "MAX_OPERATION_BYTES = 64"
definition MAX_STAGE_BYTES :: nat where "MAX_STAGE_BYTES = 256"
definition MAX_ERROR_CHAIN_BYTES :: nat where "MAX_ERROR_CHAIN_BYTES = 24 * 1024"

definition bounded_result_text :: "string \<Rightarrow> nat \<Rightarrow> string" where
  "bounded_result_text v maximum_bytes =
     (if length v \<le> maximum_bytes then v
      else let suffix = '' [truncated]''
           in take (floor_char_boundary v (maximum_bytes - length suffix)) v @ suffix)"

definition success_message :: "string \<Rightarrow> broker_result_message" where
  "success_message operation =
     \<lparr>bm_operation = bounded_result_text operation MAX_OPERATION_BYTES, bm_disposition = BrSuccess,
      bm_stage = [], bm_error_chain = [], bm_rollback = [], bm_final_state = []\<rparr>"

definition message_of_failure :: "string \<Rightarrow> action_failure \<Rightarrow> broker_result_message" where
  "message_of_failure operation f =
     (let (disposition, stage) =
        (case af_kind f of
           ActionBlocked b \<Rightarrow> (BrBlocked, stage_code b)
         | ActionInternal \<Rightarrow>
             (BrFailure, case af_stage f of None \<Rightarrow> operation | Some s \<Rightarrow> s))
      in \<lparr>bm_operation = bounded_result_text operation MAX_OPERATION_BYTES, bm_disposition = disposition,
          bm_stage = bounded_result_text stage MAX_STAGE_BYTES,
          bm_error_chain = bounded_result_text (af_detail f) MAX_ERROR_CHAIN_BYTES,
          bm_rollback = rollback_as_str (af_rollback f), bm_final_state = []\<rparr>)"

definition disposition_names :: "(string \<times> broker_result_disposition) list" where
  "disposition_names = [(''success'', BrSuccess), (''blocked'', BrBlocked), (''failure'', BrFailure)]"

definition message_fields :: "string list" where
  "message_fields = [''operation'', ''disposition'', ''stage'', ''errorChain'', ''rollback'', ''finalState'']"

definition message_to_json :: "broker_result_message \<Rightarrow> json" where
  "message_to_json m =
     JObject [(''operation'', JString (bm_operation m)),
              (''disposition'', JString (variant_name disposition_names (bm_disposition m))),
              (''stage'', JString (bm_stage m)), (''errorChain'', JString (bm_error_chain m)),
              (''rollback'', JString (bm_rollback m)), (''finalState'', JString (bm_final_state m))]"

definition message_of_json :: "json \<Rightarrow> broker_result_message option" where
  "message_of_json v =
     do { m \<leftarrow> struct_fields message_fields v;
          operation \<leftarrow> de_string (m ''operation'');
          disposition \<leftarrow> de_variant disposition_names (m ''disposition'');
          stage \<leftarrow> de_string (m ''stage'');
          error_chain \<leftarrow> de_string (m ''errorChain'');
          rollback \<leftarrow> de_string (m ''rollback'');
          final_state \<leftarrow> de_string (m ''finalState'');
          Some \<lparr>bm_operation = operation, bm_disposition = disposition, bm_stage = stage,
                bm_error_chain = error_chain, bm_rollback = rollback, bm_final_state = final_state\<rparr> }"

definition encode_broker_result_frame ::
  "(string \<Rightarrow> string) \<Rightarrow> (json \<Rightarrow> string) \<Rightarrow> broker_result_message \<Rightarrow> string \<Rightarrow> string + string" where
  "encode_broker_result_frame sha print m nonce =
     (let payload = print (message_to_json m)
      in if payload = [] \<or> MAX_BROKER_RESULT_BYTES < length payload
         then Err ''broker result exceeds the fixed size limit''
         else case digest_bytes sha ''broker result digest is invalid'' payload of
           Inl e \<Rightarrow> Err e
         | Inr d \<Rightarrow> Ok (frame_of BROKER_RESULT_MAGIC BROKER_RESULT_VERSION nonce d payload))"

definition decode_broker_result_frame ::
  "(string \<Rightarrow> string) \<Rightarrow> (string \<Rightarrow> json option) \<Rightarrow> string \<Rightarrow> string \<Rightarrow> string + broker_result_message" where
  "decode_broker_result_frame sha parse frame expected_nonce =
     (if \<not> frame_header_ok BROKER_RESULT_MAGIC BROKER_RESULT_VERSION expected_nonce frame
      then Err ''broker result frame header is invalid''
      else if \<not> frame_length_ok MAX_BROKER_RESULT_BYTES frame
      then Err ''broker result frame length is invalid''
      else (let payload = drop TRANSFER_HEADER_BYTES frame
            in case digest_bytes sha ''broker result digest is invalid'' payload of
                 Inl e \<Rightarrow> Err e
               | Inr d \<Rightarrow>
                   if slice 28 60 frame \<noteq> d then Err ''broker result frame digest does not match''
                   else (case Option.bind (parse payload) message_of_json of
                           None \<Rightarrow> Err ''broker result payload is invalid'' | Some m \<Rightarrow> Ok m)))"

section \<open>The end of the broker process\<close>

definition interpret_failure :: "u32 \<Rightarrow> broker_result_message \<Rightarrow> action_failure" where
  "interpret_failure code result =
     (let detail = bm_error_chain result @ ''; elevated service broker exit code '' @ show_word code;
          rollback = (case rollback_from_wire (bm_rollback result) of
                        None \<Rightarrow> NotApplicableOrUnavailable | Some r \<Rightarrow> r);
          failure = (if bm_disposition result = BrBlocked
                     then (case from_stage_code (bm_stage result) None of
                             Some b \<Rightarrow> blocked_with_detail b detail
                           | None \<Rightarrow> internal_at (bm_stage result) detail)
                     else internal_at (bm_stage result) detail)
      in failure\<lparr>af_rollback := rollback\<rparr>)"

definition interpret_broker_exit ::
  "string \<Rightarrow> u32 \<Rightarrow> broker_result_message option \<Rightarrow> action_failure + unit" where
  "interpret_broker_exit expected_operation exit_code broker_result =
     (case broker_result of
        None \<Rightarrow> Err (internal (''elevated service broker failed with exit code '' @ show_word exit_code))
      | Some result \<Rightarrow>
          if bm_operation result \<noteq> expected_operation
          then Err (internal_at ''broker-result-operation''
                 ''elevated service broker reported a result for another operation'')
          else if exit_code = 0
          then (if bm_disposition result = BrSuccess then Ok ()
                else Err (internal_at (bm_stage result)
                  (''elevated service broker reported '' @ bm_stage result
                   @ '' after a successful exit: '' @ bm_error_chain result)))
          else if bm_disposition result \<noteq> BrSuccess then Err (interpret_failure exit_code result)
          else Err (internal (''elevated service broker failed with exit code '' @ show_word exit_code
                    @ '' after reporting success'')))"

definition broker_channel_failure :: "u32 option \<Rightarrow> string \<Rightarrow> action_failure" where
  "broker_channel_failure exit_code channel_error =
     with_channel_failure channel_error (internal_at ''broker-result-channel''
       (case exit_code of
          None \<Rightarrow> ''broker result channel failed: '' @ channel_error
        | Some code \<Rightarrow> ''elevated service broker failed with exit code '' @ show_word code
            @ ''; broker result channel failed: '' @ channel_error))"

datatype broker_termination = BtAlreadyExited | BtTerminated

datatype wait_outcome = WaitSignaled | WaitTimedOut | WaitAbandoned

definition os_error_text :: "io_error \<Rightarrow> string" where
  "os_error_text e = show_word (case raw_os_error e of None \<Rightarrow> 0 | Some c \<Rightarrow> c)"

text \<open>\<open>terminate_broker_process_with\<close> over the two operations of the trait, waiting and terminating.\<close>

definition terminate_broker_process_with ::
  "('s \<Rightarrow> nat \<Rightarrow> (io_error + wait_outcome) \<times> 's) \<Rightarrow> ('s \<Rightarrow> u32 \<Rightarrow> (io_error + unit) \<times> 's)
   \<Rightarrow> ('s, string, broker_termination) operation" where
  "terminate_broker_process_with wait terminate =
     (\<lambda>s. case wait s 0 of
        (Inl e, s) \<Rightarrow>
          (Err (''elevated broker cleanup is unknown: initial process wait failed with '' @ os_error_text e), s)
      | (Inr WaitSignaled, s) \<Rightarrow> (Ok BtAlreadyExited, s)
      | (Inr _, s) \<Rightarrow>
     (case terminate s 21 of
        (Inl e, s) \<Rightarrow>
          (case wait s 0 of
             (Inr WaitSignaled, s) \<Rightarrow> (Ok BtAlreadyExited, s)
           | (after_failure, s) \<Rightarrow>
               (Err (''elevated broker cleanup is unknown: TerminateProcess failed with '' @ os_error_text e
                     @ '' and the process state is ''
                     @ (case after_failure of
                          Inl e2 \<Rightarrow> os_error_text e2
                        | Inr WaitTimedOut \<Rightarrow> ''timed out'' | Inr _ \<Rightarrow> ''abandoned'')), s))
      | (Inr _, s) \<Rightarrow>
     (case wait s (from_millis 5000) of
        (Inr WaitSignaled, s) \<Rightarrow> (Ok BtTerminated, s)
      | (Inr WaitTimedOut, s) \<Rightarrow>
          (Err ''elevated broker cleanup is unknown: termination was not confirmed within 5000 ms'', s)
      | (Inr WaitAbandoned, s) \<Rightarrow>
          (Err ''elevated broker cleanup is unknown: termination confirmation returned abandoned'', s)
      | (Inl e, s) \<Rightarrow>
          (Err (''elevated broker cleanup is unknown: termination confirmation failed with ''
                @ os_error_text e), s))))"

definition combine_broker_cleanup_error :: "string \<Rightarrow> string + broker_termination \<Rightarrow> string" where
  "combine_broker_cleanup_error operation_error cleanup =
     (case cleanup of Inr _ \<Rightarrow> operation_error | Inl e \<Rightarrow> operation_error @ ''; '' @ e)"

end
