(* ===== verification/Transfer_Properties.thy ===== *)
theory Transfer_Properties
  imports Transfer_Frames Contract_Properties Broker_Properties
begin

text \<open>
  What crosses the elevation boundary arrives unchanged: the action and the token of the command line,
  the profile, and the result of the broker.
\<close>

section \<open>Numbers\<close>

lemma length_le_bytes [simp]: "length (le_bytes k n) = k"
  by (simp add: le_bytes_def)

lemma le_bytes_Suc: "le_bytes (Suc k) n = char_of (n mod 256) # le_bytes k (n div 256)"
proof -
  have "le_bytes (Suc k) n = map (\<lambda>i. char_of (n div 256 ^ i mod 256)) (0 # map Suc [0..<k])"
    unfolding le_bytes_def by (simp only: map_Suc_upt upt_conv_Cons zero_less_Suc)
  then show ?thesis by (simp add: le_bytes_def comp_def div_mult2_eq)
qed

lemma from_le_bytes_le: "n < 256 ^ k \<Longrightarrow> from_le_bytes (le_bytes k n) = n"
proof (induction k arbitrary: n)
  case 0
  then show ?case by (simp add: le_bytes_def)
next
  case (Suc k)
  then have "n div 256 < 256 ^ k" by (simp add: less_mult_imp_div_less mult.commute)
  moreover have "byte (char_of (n mod 256)) = n mod 256" by (rule byte_char_of) simp
  ultimately show ?case using Suc.IH [of "n div 256"] unfolding le_bytes_Suc by simp
qed

lemma le_bytes_from: "length s = k \<Longrightarrow> le_bytes k (from_le_bytes s) = s"
proof (induction s arbitrary: k)
  case Nil
  then show ?case by (simp add: le_bytes_def)
next
  case (Cons c s)
  then obtain j where k: "k = Suc j" "length s = j" by auto
  have "(byte c + 256 * from_le_bytes s) mod 256 = byte c"
    "(byte c + 256 * from_le_bytes s) div 256 = from_le_bytes s"
    using byte_less [of c] by simp_all
  then show ?case using Cons.IH [OF k(2)] by (simp add: k(1) le_bytes_Suc byte_def)
qed

lemma digit_value_hex: "n < 16 \<Longrightarrow> digit_value 16 (byte (hex_digit n)) = Some n"
  by (auto simp: byte_hex_digit digit_value_def Let_def)

lemma hex_pair_digits: "hex_pair (hex_digit (byte c div 16)) (hex_digit (byte c mod 16)) = Some (byte c)"
proof -
  have "byte c div 16 < 16" using byte_less [of c] by simp
  moreover have "byte (hex_digit n) \<noteq> 43" if "n < 16" for n using that by (simp add: byte_hex_digit)
  ultimately show ?thesis by (simp add: hex_pair_def digit_value_hex)
qed

lemma hex_pairs_text: "hex_pairs (hex_text s) = Some s"
proof (induction s)
  case (Cons c s)
  have "char_of (byte c) = c" by (simp add: byte_def)
  with Cons show ?case by (simp add: hex_text_def hex_pair_digits)
qed (simp add: hex_text_def)

lemma length_hex_text: "length (hex_text s) = 2 * length s"
  by (induction s) (simp_all add: hex_text_def)

lemma hex_text_lower: "list_all is_lower_hex (hex_text s)"
proof (induction s)
  case (Cons c s)
  have "byte c div 16 < 16" using byte_less [of c] by simp
  with Cons show ?case
    using lower_hex_digit [of "byte c div 16"] lower_hex_digit [of "byte c mod 16"]
    by (simp add: hex_text_def is_lower_hex_def)
qed (simp add: hex_text_def)

lemma digest_bytes_Ok:
  assumes "length (sha bytes) = 32"
  shows "digest_bytes sha message bytes = Ok (sha bytes)"
proof -
  have "sha256_digest sha bytes = ''sha256:'' @ hex_text (sha bytes)"
    by (simp add: sha256_digest_def hex_text_def)
  then have "strip_prefix (sha256_digest sha bytes) ''sha256:'' = Some (hex_text (sha bytes))"
    by (simp only: strip_prefix_Some_iff)
  with assms show ?thesis by (simp add: digest_bytes_def hex_pairs_text length_hex_text)
qed

lemma digits_value_append:
  "digits_value r a (xs @ ys) = (case digits_value r a xs of None \<Rightarrow> None | Some b \<Rightarrow> digits_value r b ys)"
  by (induction xs arbitrary: a) (auto split: option.split)

lemma digits_value_show: "digits_value 10 a (chars (show_nat n)) = Some (a * 10 ^ length (show_nat n) + n)"
proof (induction n arbitrary: a rule: show_nat.induct)
  case (1 n)
  have digit: "digits_value 10 b (chars [char_of (48 + k)]) = Some (b * 10 + k)" if "k < 10" for b k
    using that by (simp add: chars_def byte_char_of digit_value_def Let_def)
  show ?case
  proof (cases "n < 10")
    case True
    then show ?thesis by (subst (1 2) show_nat.simps) (simp add: digit)
  next
    case False
    have "chars (show_nat n) = chars (show_nat (n div 10)) @ chars [char_of (48 + n mod 10)]"
      using False by (subst show_nat.simps) (simp add: chars_def)
    moreover have "length (show_nat n) = Suc (length (show_nat (n div 10)))"
      using False by (subst show_nat.simps) simp
    ultimately show ?thesis
      using 1 [OF False, of a] digit [of "n mod 10"] by (simp add: digits_value_append algebra_simps)
  qed
qed

lemma show_nat_hd: "show_nat n \<noteq> [] \<and> byte (hd (show_nat n)) \<noteq> 43 \<and> list_all (\<lambda>c. byte c < 128) (show_nat n)"
proof (induction n rule: show_nat.induct)
  case (1 n)
  show ?case
  proof (cases "n < 10")
    case True
    then show ?thesis by (subst (1 2 3) show_nat.simps) (simp add: byte_char_of)
  next
    case False
    have "byte (char_of (48 + n mod 10)) < 128" by (subst byte_char_of) auto
    with 1 False show ?thesis by (subst (1 2 3) show_nat.simps) simp
  qed
qed

lemma parse_canonical_pid_show:
  assumes "w \<noteq> 0"
  shows "parse_canonical_pid (show_word w) = Some w"
proof -
  obtain c cs where s: "show_nat (unat w) = c # cs" using show_nat_hd [of "unat w"] by (cases "show_nat (unat w)") auto
  then have c: "byte c \<noteq> 43" using show_nat_hd [of "unat w"] by simp
  have "some_digits 10 (chars (show_nat (unat w))) = Some (unat w)"
    using digits_value_show [of 0 "unat w"] s by (simp add: some_digits_def chars_def)
  then have "parse_u32_radix 10 (chars (show_nat (unat w))) = Some (unat w)"
    using c unsigned_less [of w] by (simp add: parse_u32_radix_def s chars_def byte_def)
  with assms show ?thesis by (simp add: parse_canonical_pid_def show_word_def unat_eq_0)
qed

lemma ascii_is_unicode: "list_all (\<lambda>c. byte c < 128) s \<Longrightarrow> is_unicode s"
proof -
  assume a: "list_all (\<lambda>c. byte c < 128) s"
  then have "utf8_encode (chars s) = s"
    by (induction s) (simp_all add: utf8_encode_def chars_def string_of_def utf8_scalar_def byte_def)
  moreover have "list_all is_scalar (chars s)"
    using a by (induction s) (simp_all add: chars_def is_scalar_def byte_def)
  ultimately show ?thesis using from_utf8_encode [of "chars s"] by (simp add: is_unicode_def)
qed

section \<open>The command line\<close>

lemma action_verb_ascii: "is_unicode (action_verb a) \<and> length (action_verb a) \<le> MAX_OPERATION_BYTES"
  by (cases a; simp add: action_verb_def verb_def BROKER_COMMANDS_def MAX_OPERATION_BYTES_def;
      rule ascii_is_unicode; simp add: byte_def)

lemma from_broker_verb_action: "from_broker_verb (action_verb a) = Some a"
proof (cases "action_command a")
  case (Some c)
  then have "action_of_command c = Some a" by (cases a) auto
  with Some show ?thesis by (simp add: action_verb_def from_broker_verb_def parse_verb_verb)
next
  case None
  then show ?thesis
    by (cases a) (simp_all add: action_verb_def from_broker_verb_def parse_verb_def BROKER_COMMANDS_def)
qed

text \<open>
  The elevated copy reads back the action and the token from the parameters its caller made.
\<close>

lemma request_of_parameters:
  assumes "tt_server_pid token \<noteq> 0" and "length (tt_nonce token) = 16"
  shows "privileged_request_from_arguments (executable # broker_parameters action token)
    = Ok (Some \<lparr>pr_action = action, pr_transfer = token\<rparr>)"
proof -
  have pid: "is_unicode (show_word (tt_server_pid token))"
    using show_nat_hd [of "unat (tt_server_pid token)"] by (simp add: show_word_def ascii_is_unicode)
  have "list_all (\<lambda>c. byte c < 128) (hex_text (tt_nonce token))"
    using hex_text_lower [of "tt_nonce token"] by (auto simp: list_all_iff is_lower_hex_def is_ascii_digit_def)
  then have nonce: "is_unicode (profile_transfer_nonce_text (tt_nonce token))"
    by (simp add: profile_transfer_nonce_text_def ascii_is_unicode)
  have "parse_profile_transfer_nonce (profile_transfer_nonce_text (tt_nonce token)) = Ok (tt_nonce token)"
    using assms(2)
    by (simp add: parse_profile_transfer_nonce_def profile_transfer_nonce_text_def length_hex_text
        hex_text_lower hex_pairs_text PROFILE_TRANSFER_NONCE_BYTES_def)
  with assms(1) pid nonce show ?thesis
    by (simp add: privileged_request_from_arguments_def broker_parameters_def parse_request_tail_def
        action_verb_ascii from_broker_verb_action parse_canonical_pid_show)
qed

section \<open>Frames\<close>

lemma frame_parts:
  assumes "length magic = 4" and "length nonce = 16" and "length digest = 32"
    and "version < 256 ^ 2" and "length payload < 256 ^ 4"
  defines "f \<equiv> frame_of magic version nonce digest payload"
  shows "take 4 f = magic" and "from_le_bytes (slice 4 6 f) = version" and "from_le_bytes (slice 6 8 f) = 0"
    and "payload_length f = length payload" and "slice 12 28 f = nonce" and "slice 28 60 f = digest"
    and "drop 60 f = payload" and "length f = 60 + length payload"
  using assms from_le_bytes_le [of 0 2]
  by (simp_all add: frame_of_def slice_def payload_length_def from_le_bytes_le)

lemma slice_join: "a \<le> b \<Longrightarrow> slice a b xs @ drop b xs = drop a xs"
  using append_take_drop_id [of "b - a" "drop a xs"] by (simp add: slice_def)

lemma frame_rebuilt:
  assumes "60 \<le> length f" and "from_le_bytes (slice 6 8 f) = 0" and "payload_length f = length (drop 60 f)"
  shows "frame_of (take 4 f) (from_le_bytes (slice 4 6 f)) (slice 12 28 f) (slice 28 60 f) (drop 60 f) = f"
proof -
  have lengths: "length (slice 4 6 f) = 2" "length (slice 6 8 f) = 2" "length (slice 8 12 f) = 4"
    using assms(1) by (simp_all add: slice_def)
  have "frame_of (take 4 f) (from_le_bytes (slice 4 6 f)) (slice 12 28 f) (slice 28 60 f) (drop 60 f)
      = take 4 f @ slice 4 6 f @ slice 6 8 f @ slice 8 12 f @ slice 12 28 f @ slice 28 60 f @ drop 60 f"
    unfolding frame_of_def assms(3) [symmetric] payload_length_def
    using le_bytes_from [OF lengths(1)] le_bytes_from [OF lengths(2)] le_bytes_from [OF lengths(3)] assms(2)
    by simp
  also have "\<dots> = f" by (simp add: slice_join)
  finally show ?thesis .
qed

text \<open>The two decoders differ in constants; both accept exactly the frames of their encoder.\<close>

lemma frame_accepted:
  assumes "length magic = 4" and "length nonce = 16" and "length (sha payload) = 32"
    and "version < 256 ^ 2" and "payload \<noteq> []" and "length payload \<le> maximum" and "maximum < 256 ^ 4"
  defines "f \<equiv> frame_of magic version nonce (sha payload) payload"
  shows "frame_header_ok magic version nonce f" and "frame_length_ok maximum f"
    and "drop TRANSFER_HEADER_BYTES f = payload" and "slice 28 60 f = sha payload"
proof -
  note parts = frame_parts [OF assms(1,2,3,4) le_less_trans [OF assms(6,7)], folded f_def]
  show "frame_header_ok magic version nonce f" and "frame_length_ok maximum f"
    and "drop TRANSFER_HEADER_BYTES f = payload" and "slice 28 60 f = sha payload"
    using parts assms(5,6)
    by (simp_all add: frame_header_ok_def frame_length_ok_def TRANSFER_HEADER_BYTES_def
        PROFILE_TRANSFER_NONCE_BYTES_def)
qed

lemma frame_is_canonical:
  assumes "frame_header_ok magic version nonce f" and "frame_length_ok maximum f"
    and "slice 28 60 f = sha (drop TRANSFER_HEADER_BYTES f)"
  shows "f = frame_of magic version nonce (sha (drop TRANSFER_HEADER_BYTES f)) (drop TRANSFER_HEADER_BYTES f)"
    and "drop TRANSFER_HEADER_BYTES f \<noteq> []" and "length (drop TRANSFER_HEADER_BYTES f) \<le> maximum"
proof -
  have header: "TRANSFER_HEADER_BYTES = 60"
    by (simp add: TRANSFER_HEADER_BYTES_def PROFILE_TRANSFER_NONCE_BYTES_def)
  have "60 \<le> length f" "from_le_bytes (slice 6 8 f) = 0" "payload_length f = length (drop 60 f)"
    using assms(1,2) by (simp_all add: frame_header_ok_def frame_length_ok_def header)
  from frame_rebuilt [OF this] assms(1,3)
  show "f = frame_of magic version nonce (sha (drop TRANSFER_HEADER_BYTES f)) (drop TRANSFER_HEADER_BYTES f)"
    by (simp add: frame_header_ok_def header)
  show "drop TRANSFER_HEADER_BYTES f \<noteq> []" "length (drop TRANSFER_HEADER_BYTES f) \<le> maximum"
    using assms(2) by (auto simp: frame_length_ok_def header)
qed

section \<open>Properties\<close>

text \<open>
  C38.  The receiver of a profile takes it from a frame with its nonce exactly when the frame is the one
  the sender makes of that profile and that nonce: no frame of another transfer is accepted, and a frame
  that was changed, cut or extended is not, unless it is the frame of another profile.
\<close>

theorem profile_frame_is_authentic:
  assumes "\<And>b. length (sha b) = 32" and "length nonce = 16"
  shows "decode_profile_transfer_frame sha f nonce = Ok profile
    \<longleftrightarrow> encode_profile_transfer_frame sha profile nonce = Ok f"
proof
  assume "encode_profile_transfer_frame sha profile nonce = Ok f"
  then have size: "profile \<noteq> []" "length profile \<le> MAX_PROFILE_BYTES"
    and f: "f = frame_of PROFILE_TRANSFER_MAGIC PROFILE_TRANSFER_VERSION nonce (sha profile) profile"
    using assms(1)
    by (auto simp: encode_profile_transfer_frame_def profile_transfer_digest_def digest_bytes_Ok split: if_splits)
  have "length PROFILE_TRANSFER_MAGIC = 4" "PROFILE_TRANSFER_VERSION < 256 ^ 2" "MAX_PROFILE_BYTES < 256 ^ 4"
    by (simp_all add: PROFILE_TRANSFER_MAGIC_def PROFILE_TRANSFER_VERSION_def MAX_PROFILE_BYTES_def)
  from frame_accepted [where sha = sha, OF this(1) assms(2) assms(1) [of profile] this(2) size this(3)]
  show "decode_profile_transfer_frame sha f nonce = Ok profile"
    using assms(1)
    by (simp add: decode_profile_transfer_frame_def f profile_transfer_digest_def digest_bytes_Ok Let_def)
next
  assume "decode_profile_transfer_frame sha f nonce = Ok profile"
  then have header: "frame_header_ok PROFILE_TRANSFER_MAGIC PROFILE_TRANSFER_VERSION nonce f"
      "frame_length_ok MAX_PROFILE_BYTES f"
    and p: "profile = drop TRANSFER_HEADER_BYTES f" and d: "slice 28 60 f = sha (drop TRANSFER_HEADER_BYTES f)"
    using assms(1)
    by (auto simp: decode_profile_transfer_frame_def profile_transfer_digest_def digest_bytes_Ok Let_def
        split: if_splits)
  from frame_is_canonical [where sha = sha, OF header d] assms(1)
  show "encode_profile_transfer_frame sha profile nonce = Ok f"
    by (simp add: encode_profile_transfer_frame_def profile_transfer_digest_def digest_bytes_Ok p)
qed

theorem profile_frame_is_authentic_witness:
  "decode_profile_transfer_frame (\<lambda>_. replicate 32 (CHR ''d''))
     (''MTPT'' @ le_bytes 2 1 @ le_bytes 2 0 @ le_bytes 4 (length ''[General]'') @ replicate 16 (CHR ''n'')
      @ replicate 32 (CHR ''d'') @ ''[General]'') (replicate 16 (CHR ''n'')) = Ok ''[General]''"
proof -
  have "encode_profile_transfer_frame (\<lambda>_. replicate 32 (CHR ''d'')) ''[General]'' (replicate 16 (CHR ''n''))
    = Ok (''MTPT'' @ le_bytes 2 1 @ le_bytes 2 0 @ le_bytes 4 (length ''[General]'') @ replicate 16 (CHR ''n'')
      @ replicate 32 (CHR ''d'') @ ''[General]'')"
    by (simp add: encode_profile_transfer_frame_def profile_transfer_digest_def digest_bytes_Ok frame_of_def
        PROFILE_TRANSFER_MAGIC_def PROFILE_TRANSFER_VERSION_def MAX_PROFILE_BYTES_def)
  with profile_frame_is_authentic [of "\<lambda>_. replicate 32 (CHR ''d'')" "replicate 16 (CHR ''n'')"]
  show ?thesis by simp
qed

lemma message_json_round_trip: "message_of_json (message_to_json m) = Some m"
  by (cases "bm_disposition m")
    (simp_all add: message_of_json_def message_to_json_def struct_fields_def message_fields_def de_string_def
      de_variant_def variant_name_def disposition_names_def)

lemma result_frame_round_trip:
  assumes "\<And>b. length (sha b) = 32" and "length nonce = 16"
    and "parse (print (message_to_json m)) = Some (message_to_json m)"
    and "encode_broker_result_frame sha print m nonce = Ok f"
  shows "decode_broker_result_frame sha parse f nonce = Ok m"
proof -
  let ?p = "print (message_to_json m)"
  have size: "?p \<noteq> []" "length ?p \<le> MAX_BROKER_RESULT_BYTES"
    and f: "f = frame_of BROKER_RESULT_MAGIC BROKER_RESULT_VERSION nonce (sha ?p) ?p"
    using assms(1,4) by (auto simp: encode_broker_result_frame_def digest_bytes_Ok Let_def split: if_splits)
  have "length BROKER_RESULT_MAGIC = 4" "BROKER_RESULT_VERSION < 256 ^ 2" "MAX_BROKER_RESULT_BYTES < 256 ^ 4"
    by (simp_all add: BROKER_RESULT_MAGIC_def BROKER_RESULT_VERSION_def MAX_BROKER_RESULT_BYTES_def)
  from frame_accepted [where sha = sha, OF this(1) assms(2) assms(1) [of ?p] this(2) size this(3)]
  show ?thesis
    using assms(1,3)
    by (simp add: decode_broker_result_frame_def f digest_bytes_Ok Let_def message_json_round_trip)
qed

text \<open>What the caller knows of the failure of its elevated copy.\<close>

definition same_blocker :: "action_blocker \<Rightarrow> action_blocker \<Rightarrow> bool" where
  "same_blocker a b \<longleftrightarrow>
     (case (a, b) of
        (InstallationPreflight k _, InstallationPreflight k' d) \<Rightarrow> k' = k \<and> d = unavailable_preflight
      | _ \<Rightarrow> b = a)"

lemma stage_code_length: "length (stage_code b) \<le> MAX_STAGE_BYTES"
  by (cases b rule: stage_code.cases) (simp_all add: MAX_STAGE_BYTES_def)

lemma from_stage_code_same: "\<exists>b'. from_stage_code (stage_code b) None = Some b' \<and> same_blocker b b'"
  unfolding stage_code_from by (cases b) (simp_all add: same_blocker_def)

text \<open>
  C39.  What the caller makes of a failure of the elevated copy that was sent back as a frame and read
  after a non-zero exit code.  The caller gets a failure with the same rollback outcome; its detail is
  that of the elevated copy, cut to 24 KiB, with the exit code appended; a blocked action has the same
  blocker, a preflight of the same kind but with its diagnostics replaced by the unavailable ones; an
  internal failure has the stage of the elevated copy, or the verb where it had none, cut to 256 bytes.
\<close>

theorem broker_failure_reaches_the_caller:
  assumes "\<And>b. length (sha b) = 32" and "length nonce = 16"
    and "parse (print (message_to_json (message_of_failure (action_verb a) f)))
      = Some (message_to_json (message_of_failure (action_verb a) f))"
    and "encode_broker_result_frame sha print (message_of_failure (action_verb a) f) nonce = Ok frame"
    and "code \<noteq> 0"
  shows "\<exists>m g. decode_broker_result_frame sha parse frame nonce = Ok m
    \<and> interpret_broker_exit (action_verb a) code (Some m) = Err g
    \<and> af_detail g = bounded_result_text (af_detail f) MAX_ERROR_CHAIN_BYTES
        @ ''; elevated service broker exit code '' @ show_word code
    \<and> af_rollback g = af_rollback f
    \<and> (case af_kind f of
          ActionBlocked b \<Rightarrow> (\<exists>b'. af_kind g = ActionBlocked b' \<and> same_blocker b b')
        | ActionInternal \<Rightarrow> af_kind g = ActionInternal
            \<and> af_stage g = Some (bounded_result_text (case af_stage f of None \<Rightarrow> action_verb a | Some s \<Rightarrow> s)
                 MAX_STAGE_BYTES))"
proof -
  let ?m = "message_of_failure (action_verb a) f"
  have decoded: "decode_broker_result_frame sha parse frame nonce = Ok ?m"
    by (rule result_frame_round_trip [where print = print and sha = sha and m = "message_of_failure (action_verb a) f" and parse = parse, OF assms(1-4)])
  have fields: "bm_operation ?m = action_verb a"
      "bm_error_chain ?m = bounded_result_text (af_detail f) MAX_ERROR_CHAIN_BYTES"
      "bm_rollback ?m = rollback_as_str (af_rollback f)" "bm_disposition ?m \<noteq> BrSuccess"
    using action_verb_ascii [of a]
    by (auto simp: message_of_failure_def bounded_result_text_def [of "action_verb a"] split: action_failure_kind.split)
  show ?thesis
  proof (cases "af_kind f")
    case (ActionBlocked b)
    then have "bm_disposition ?m = BrBlocked" "bm_stage ?m = stage_code b"
      using stage_code_length [of b] by (simp_all add: message_of_failure_def bounded_result_text_def)
    moreover obtain b' where "from_stage_code (stage_code b) None = Some b'" "same_blocker b b'"
      using from_stage_code_same by blast
    ultimately show ?thesis
      using decoded fields assms(5) ActionBlocked
      by (simp add: interpret_broker_exit_def interpret_failure_def rollback_wire failure_simps)
  next
    case ActionInternal
    then have "bm_disposition ?m = BrFailure"
      "bm_stage ?m = bounded_result_text (case af_stage f of None \<Rightarrow> action_verb a | Some s \<Rightarrow> s) MAX_STAGE_BYTES"
      by (auto simp: message_of_failure_def split: option.splits)
    then show ?thesis
      using decoded fields assms(5) ActionInternal
      by (simp add: interpret_broker_exit_def interpret_failure_def rollback_wire failure_simps)
  qed
qed

definition sample_failure :: action_failure where
  "sample_failure = with_rollback RollbackFailed (blocked (LegacyTrayModeBlocks TrayServiceChange))"

definition sample_message :: broker_result_message where
  "sample_message = message_of_failure (action_verb SaInstall) sample_failure"

theorem broker_failure_reaches_the_caller_witness:
  "\<exists>frame m g. encode_broker_result_frame (\<lambda>_. replicate 32 (CHR ''d'')) (\<lambda>_. ''{}'') sample_message
        (replicate 16 (CHR ''n'')) = Ok frame
     \<and> decode_broker_result_frame (\<lambda>_. replicate 32 (CHR ''d'')) (\<lambda>_. Some (message_to_json sample_message))
        frame (replicate 16 (CHR ''n'')) = Ok m
     \<and> interpret_broker_exit (action_verb SaInstall) 21 (Some m) = Err g
     \<and> af_rollback g = RollbackFailed"
proof -
  have encoded: "\<exists>frame. encode_broker_result_frame (\<lambda>_. replicate 32 (CHR ''d'')) (\<lambda>_. ''{}'')
      (message_of_failure (action_verb SaInstall) sample_failure) (replicate 16 (CHR ''n'')) = Ok frame"
    by (simp add: encode_broker_result_frame_def digest_bytes_Ok MAX_BROKER_RESULT_BYTES_def)
  have outcome: "af_rollback sample_failure = RollbackFailed" by (simp add: sample_failure_def failure_simps)
  from encoded obtain frame where frame: "encode_broker_result_frame (\<lambda>_. replicate 32 (CHR ''d'')) (\<lambda>_. ''{}'')
      (message_of_failure (action_verb SaInstall) sample_failure) (replicate 16 (CHR ''n'')) = Ok frame" ..
  have "(21 :: u32) \<noteq> 0" by simp
  from broker_failure_reaches_the_caller [where parse = "\<lambda>_. Some (message_to_json sample_message)",
      OF _ _ _ frame this] frame outcome
  show ?thesis unfolding sample_message_def by fastforce
qed

end
