(* ===== verification/Spec2Isabelle.thy ===== *)
theory Spec2Isabelle
  imports Driver_Properties Session_Queue Broker_Properties Event_Log_Properties Host_Log_Properties
    Contract_Properties Startup_Properties Profile_Store_Properties Setup_Properties Setup_Installer
    File_Health Profile_Saving Profile_Reopening Machine_Properties Status_Properties Transfer_Properties
begin

text \<open>
  A verification of the MacType service runtime (\<open>src/service-runtime\<close>, Rust) and of the profile editor
  and the machine integration of its desktop application (\<open>src/control-center/src-tauri\<close>).

  The program.  \<open>service-runtime/host\<close> is a Windows service that watches process creation and lets a
  helper inject the font renderer into admissible processes, for one verified generation of renderer
  and profile; \<open>service-runtime/contract\<close> are the data, limits and parsers it shares with the setup
  program; \<open>service-runtime/setup\<close> installs, repairs, activates and removes generations of the runtime
  and of the profiles under protected directories; \<open>service-runtime/platform\<close> wraps Win32.
  \<open>control-center\<close> is the desktop application; its back end edits the INI profiles of the renderer, and
  its machine integration shows the state of the service, installs, starts and stops it and publishes
  profiles to it, by an elevated copy of itself that runs the setup program.

  Conventions.  A struct is a record, an enum a datatype, a machine integer a word of its width, a
  \<open>BTreeMap\<close> the sorted list of its entries, \<open>Result\<close> a sum with the error on the left, text a list of
  characters that stand for bytes.  Interfaces of the operating system (the traits of the sources) are
  records of functions over a machine state of any type, or, for the setup program, a disk whose
  script of faults makes any operation fail or be the last before the machine stops.  SHA-256 and the
  text parser and printer of JSON are parameters; the step between JSON values and structs is modelled.

  Theories, in the order of their imports.

  \<^item> \<open>Prelude\<close>, \<open>Paths\<close>, \<open>Ordered_Map\<close>, \<open>Json\<close>: shared data, the \<open>?\<close> operator, maps and JSON values.
  \<^item> \<open>Health\<close>, \<open>Health_Json\<close> (\<open>contract/health.rs\<close>): health reports, their validation and their JSON form.
  \<^item> \<open>Host_Types\<close> (\<open>host/observer.rs\<close>, \<open>injection_orchestrator/model.rs\<close>), \<open>Target_Validation\<close>,
    \<open>Injection_Orchestrator\<close> with \<open>Orchestrator_Invariant\<close> and \<open>Orchestrator_Properties\<close>: which processes
    are injected, deferral, retries and telemetry.
  \<^item> \<open>Service_Status\<close>, \<open>Startup_Safety\<close>, \<open>Service_Lifecycle\<close>, \<open>Session_Queue\<close>, \<open>Orchestration_Driver\<close> with
    \<open>Driver_Properties\<close>: the life of the service from its start to its stop, the bounded queue of
    session changes, and the loop that drives the orchestrator.
  \<^item> \<open>Helper_Broker\<close> with \<open>Broker_Properties\<close>: launching the injection helper and reading its answer.
  \<^item> \<open>Event_Log\<close>, \<open>Host_Event_Log\<close> with their property theories: the bounded event log, sanitizing,
    throttling and summaries.
  \<^item> \<open>Runtime_Activation\<close>, \<open>Manifest\<close>, \<open>Profile_Catalog\<close>, \<open>Protected_Startup\<close> with \<open>Contract_Properties\<close> and
    \<open>Startup_Properties\<close>: the activation contract, manifests and pins, profiles, protected paths, and
    the verification of profile and runtime before the service starts.
  \<^item> \<open>Setup_Storage\<close> (\<open>setup/storage.rs\<close>): the disk, faults, protected directories, bounded reads and the
    atomic write; \<open>Setup_Logic\<close>: triples with one postcondition for success and one for a failure or
    a halt, and the rules for the operations.
  \<^item> \<open>Profile_Store\<close> (\<open>setup/profile_store\<close>, \<open>setup/profile_bridge\<close>): publishing, activating and rolling back
    profiles under a journal; \<open>Profile_Store_Logic\<close>, \<open>Profile_Store_Triples\<close> and
    \<open>Profile_Store_Properties\<close>: its crash safety.
  \<^item> \<open>Runtime_Storage\<close>, \<open>Runtime_Repair\<close>, \<open>Runtime_Installer\<close>, \<open>Runtime_Uninstall\<close>
    (\<open>setup/runtime_installer\<close>): generations of the runtime, their repair, the activation transaction,
    its recoveries and the removal of an installation.
  \<^item> \<open>Setup_Broker\<close> (\<open>setup/windows\<close>): the verbs of the elevated broker and the binding of the service to a
    runtime, over a record of the operations of the service control manager; \<open>Setup_Installer\<close>
    (\<open>setup/install_bootstrap.rs\<close>, \<open>setup/windows/installer\<close>): the command line, the preflight with its
    blockers, the bootstrap transaction with its rollback and the removal of an owned installation.
  \<^item> \<open>Setup_Frame\<close>, \<open>Runtime_Frame\<close>: which paths an operation can change, and how an answer came about;
    \<open>Runtime_Binding\<close>, \<open>Runtime_Deploy\<close>, \<open>Setup_Properties\<close>: what recovery and deployment leave.
  \<^item> \<open>File_Health\<close> (\<open>host/file_health.rs\<close>): the persisted health snapshot, on the same disk.
  \<^item> \<open>Unicode_Text\<close>, \<open>Float64\<close>: text as Unicode scalar values with its encodings, and the part of IEEE
    arithmetic the editor uses (nearest representation, comparison, printing, parsing).
  \<^item> \<open>Profile_Codec\<close>, \<open>Profile_Document\<close>, \<open>Profile_Mutation\<close>, \<open>Profile_Files\<close> (\<open>control-center/profile\<close>):
    the encodings of a profile, its lines as nodes and what is read from them, edits and their history,
    saving, importing and finding profiles and the commands of the user interface.
    \<open>Profile_Editor_Properties\<close>, \<open>Profile_Setting_Properties\<close>, \<open>Profile_Saving\<close>, \<open>Profile_Reopening\<close>: what
    edits do, that they are undone exactly, that saving survives interruption and reopening.
  \<^item> \<open>Machine_Actions\<close> (\<open>control-center/machine_integration\<close>): operations that thread a machine state, the
    actions with their verbs and their failures with blockers and rollback outcome.
  \<^item> \<open>Service_Configuration\<close> (\<open>contract/service_configuration.rs\<close>, \<open>contract/appinit.rs\<close>), \<open>Machine_Status\<close>
    with \<open>Status_Properties\<close>: the status of the service, the capabilities that are offered, conflicts.
  \<^item> \<open>Transfer_Frames\<close> with \<open>Transfer_Properties\<close> (\<open>open_service/request.rs\<close>, \<open>broker_result.rs\<close>,
    \<open>broker/elevation.rs\<close>): the command line of the elevated copy, and its profile and result frames.
  \<^item> \<open>Legacy_Mactray\<close> (\<open>legacy_mactray\<close>): what is made of the processes, start-up entries and service of the
    legacy program, and how they are stopped, disabled and restored.
  \<^item> \<open>Machine_Orchestrator\<close> with \<open>Machine_Properties\<close> (\<open>orchestrator.rs\<close>, \<open>designation.rs\<close>, \<open>publish.rs\<close>,
    \<open>open_service/broker\<close>): the gates of an action and the publication of a profile with its undo.

  What is proved.  Invariants: the orchestrator keeps its caches bounded and consistent and is never
  stuck; telemetry counts exactly the injections; the profile catalog stays content addressed; the event
  log stays bounded; the summaries handed to the log, and those it acknowledged, account for every
  event.  Safety: injection only into inspected, cleared, unknown identities; published health is
  truthful; the service starts only on verified files, profile and generation; an unknown clean-up of
  the helper is never retried within an attempt.  Refinement and round trips: the session queue is a
  bounded FIFO under every interleaving; events, receipts and verbs are read back, events from whole
  lines; the INI scanner decides its declarative description.  Termination and liveness: a turn of the
  driver answers, a stop request is obeyed, recovery of the observer is bounded.  Crash safety: an
  activation or rollback of a profile that is interrupted anywhere, followed by any interrupted
  recoveries, leaves a disk from which one recovery on a sound machine reaches exactly the state of
  before or of after; a recovered runtime, its pointer and the service image agree and its files are the
  verified ones; an interrupted save of a profile keeps the old or the new bytes.  The editor: edits are
  undone exactly, a changed setting is read back and nothing else changes, and edited settings survive
  saving to the disk and reopening in the encodings of Unicode; a key set behind an open-ended last line
  is swallowed by it.  Machine integration: a status is well-formed and reports injection for the live
  service only; an action is executed once, behind its gates; the calls of a publication, logged for any
  back end, say how it ended, and that a failure is followed by exactly one attempt to undo it, whose
  outcome is reported; frames cross the pipe unchanged, failures up to the stated bounds of their texts.

  Bounds and fuel.  Loops of the host that may run forever are functions of a fuel; the properties say
  how much is enough.  The limits of the sources (64 session changes, 512 KiB logs, 64 pins, the
  bounded reads) are constants with the values of the sources.

  Not modelled.  The Win32 adapters (\<open>platform\<close> and the \<open>windows\<close> modules of \<open>host\<close> and \<open>setup\<close>: service
  control manager, access control lists, pipes, ETW and WMI), whose answers are parameters; the rest
  of the desktop application (execution, preview, diagnostics, update, and of the machine integration the
  receipts of a migration from the legacy service and the Windows modules); the legacy
  codecs of the crate \<open>encoding_rs\<close>, which are parameters; the C++ renderer and injector.  Messages that
  are only printed and log texts built from errors are kept as patterns or left out.

  Findings.  A poll whose inspection fails forgets its target; a failed start may publish a report its
  own validation rejects; a recovery that cannot read the metadata of its journal behaves as if there
  was none; the confirmed restoration of a profile is not atomic; the editor joins a new key to a last
  line without a line break; a failed copy of a profile leaves a partial file; the failed start of a stopped
  service after its own profile was published again rolls that profile back.
\<close>

end
